(* ===== verification/Prelude.thy ===== *)
theory Prelude
  imports Main "HOL-Library.Word" "HOL-Library.Monad_Syntax"
begin

text \<open>
  Shared vocabulary of the development: the C integer types at their AArch64 widths, the errno
  values the driver returns, a partial byte memory with little-endian loads and stores, and the
  generic facts about regions of that memory which the component theories build on.

  A definition whose result type is an \<open>option\<close> models C code that can run into undefined
  behaviour (a NULL or unmapped dereference, an array index out of range, a division by zero):
  \<open>None\<close> is that outcome, \<open>Some\<close> carries what the code computes.
\<close>

named_theorems errno_defs "the Linux errno values"
named_theorems mem_defs "definitions of the memory primitives"

type_synonym u8 = "8 word"
type_synonym u16 = "16 word"
type_synonym u32 = "32 word"
type_synonym u64 = "64 word"
type_synonym byte = u8
type_synonym memory = "u64 \<Rightarrow> byte option"

section \<open>Error codes and narrowing\<close>

definition EIO :: int where [errno_defs]: "EIO = 5"
definition ENXIO :: int where [errno_defs]: "ENXIO = 6"
definition EAGAIN :: int where [errno_defs]: "EAGAIN = 11"
definition ENOMEM :: int where [errno_defs]: "ENOMEM = 12"
definition EACCES :: int where [errno_defs]: "EACCES = 13"
definition EFAULT :: int where [errno_defs]: "EFAULT = 14"
definition EBUSY :: int where [errno_defs]: "EBUSY = 16"
definition ENODEV :: int where [errno_defs]: "ENODEV = 19"
definition EINVAL :: int where [errno_defs]: "EINVAL = 22"
definition EOPNOTSUPP :: int where [errno_defs]: "EOPNOTSUPP = 95"
definition EADDRINUSE :: int where [errno_defs]: "EADDRINUSE = 98"
definition ENOBUFS :: int where [errno_defs]: "ENOBUFS = 105"

text \<open>Conversion of an \<open>int\<close> to \<open>int8_t\<close>, as every conforming compiler for the target does it.\<close>

definition int8 :: "int \<Rightarrow> int" where
  "int8 x = sint (word_of_int x :: 8 word)"

lemma int8_id: "- 128 \<le> x \<Longrightarrow> x < 128 \<Longrightarrow> int8 x = x"
  by (simp add: int8_def sint_sbintrunc' signed_take_bit_int_eq_self)

lemma errno_nonzero [simp]: "EINVAL \<noteq> 0" "ENOMEM \<noteq> 0" "EAGAIN \<noteq> 0" "ENOBUFS \<noteq> 0" "EOPNOTSUPP \<noteq> 0"
  by (simp_all add: errno_defs)

lemma int8_errno [simp]:
  "int8 0 = 0" "int8 (- EINVAL) = - EINVAL" "int8 (- ENOMEM) = - ENOMEM" "int8 (- EAGAIN) = - EAGAIN"
  "int8 (- ENOBUFS) = - ENOBUFS"
  by (simp_all add: int8_id errno_defs)

lemma int8_range: "- 128 \<le> int8 x \<and> int8 x < 128"
  using sint_ge [of "word_of_int x :: 8 word"] sint_lt [of "word_of_int x :: 8 word"]
  by (simp add: int8_def)

lemma unat_less: "unat (x :: 'a::len word) < 2 ^ LENGTH('a)"
  by (rule unsigned_less)

lemma unat_ucast_up:
  assumes "LENGTH('a::len) \<le> LENGTH('b::len)"
  shows "unat (ucast (x :: 'a word) :: 'b word) = unat x"
proof -
  have "unat x < 2 ^ LENGTH('a)" by (rule unsigned_less)
  also have "\<dots> \<le> 2 ^ LENGTH('b)" using assms by (simp add: power_increasing)
  finally show ?thesis by (simp add: unsigned_ucast_eq take_bit_nat_eq_self)
qed

section \<open>Checked array access\<close>

definition nth_opt :: "'a list \<Rightarrow> nat \<Rightarrow> 'a option" where
  "nth_opt xs i = (if i < length xs then Some (xs ! i) else None)"

lemma nth_opt_Some_iff: "nth_opt xs i = Some x \<longleftrightarrow> i < length xs \<and> xs ! i = x"
  by (auto simp: nth_opt_def)

lemma nth_opt_in [simp]: "i < length xs \<Longrightarrow> nth_opt xs i = Some (xs ! i)"
  by (simp add: nth_opt_def)

lemma nth_opt_out [simp]: "\<not> i < length xs \<Longrightarrow> nth_opt xs i = None"
  by (simp add: nth_opt_def)

section \<open>Byte memory\<close>

definition mapped :: "memory \<Rightarrow> u64 \<Rightarrow> nat \<Rightarrow> bool" where
  "mapped m a n = list_all (\<lambda>i. m (a + of_nat i) \<noteq> None) [0..<n]"

definition load_bytes :: "memory \<Rightarrow> u64 \<Rightarrow> nat \<Rightarrow> byte list option" where
  "load_bytes m a n =
     (if mapped m a n then Some (map (\<lambda>i. the (m (a + of_nat i))) [0..<n]) else None)"

definition store_bytes :: "u64 \<Rightarrow> byte list \<Rightarrow> memory \<Rightarrow> memory option" where
  "store_bytes a bs m =
     (if mapped m a (length bs)
      then Some (\<lambda>x. if unat (x - a) < length bs then Some (bs ! unat (x - a)) else m x)
      else None)"

text \<open>The bytes of a region, and two regions that share none. The address arithmetic wraps.\<close>

definition region :: "u64 \<Rightarrow> nat \<Rightarrow> u64 set" where
  "region a n = (\<lambda>i. a + of_nat i) ` {..<n}"

definition apart :: "u64 \<Rightarrow> nat \<Rightarrow> u64 \<Rightarrow> nat \<Rightarrow> bool" where
  "apart a n b k \<longleftrightarrow> region a n \<inter> region b k = {}"

text \<open>Two memories with the same mapping that agree outside a set of addresses.\<close>

definition same_except :: "u64 set \<Rightarrow> memory \<Rightarrow> memory \<Rightarrow> bool" where
  "same_except A m m' \<longleftrightarrow> dom m' = dom m \<and> (\<forall>x. x \<notin> A \<longrightarrow> m' x = m x)"

lemma mapped_iff: "mapped m a n \<longleftrightarrow> region a n \<subseteq> dom m"
  by (simp add: mapped_def region_def list_all_iff dom_def image_subset_iff Ball_def)

lemma mapped_dom: "dom m' = dom m \<Longrightarrow> mapped m' a n = mapped m a n"
  by (simp add: mapped_iff)

lemma same_except_refl [simp]: "same_except A m m"
  by (simp add: same_except_def)

lemma same_except_trans:
  "same_except A m m' \<Longrightarrow> same_except A m' m'' \<Longrightarrow> same_except A m m''"
  by (simp add: same_except_def)

lemma same_except_mono: "same_except A m m' \<Longrightarrow> A \<subseteq> B \<Longrightarrow> same_except B m m'"
  by (auto simp: same_except_def)

lemma same_except_mapped: "same_except A m m' \<Longrightarrow> mapped m' a n = mapped m a n"
  by (simp add: same_except_def mapped_iff)

lemma unat_of_nat_small: "k < 2 ^ 64 \<Longrightarrow> unat (of_nat k :: u64) = k"
  by (simp add: unat_of_nat take_bit_nat_eq_self)

lemma in_region_iff:
  assumes "n \<le> 2 ^ 64"
  shows "x \<in> region a n \<longleftrightarrow> unat (x - a) < n"
proof
  assume "x \<in> region a n"
  then obtain i where "i < n" "x = a + of_nat i" by (auto simp: region_def)
  with assms show "unat (x - a) < n" by (simp add: unat_of_nat_small)
next
  assume "unat (x - a) < n"
  moreover have "x = a + of_nat (unat (x - a))" by simp
  ultimately show "x \<in> region a n" unfolding region_def by blast
qed

lemma region_mono: "n \<le> k \<Longrightarrow> region a n \<subseteq> region a k"
  by (auto simp: region_def)

lemma region_offset: "o' + n \<le> k \<Longrightarrow> region (a + of_nat o') n \<subseteq> region a k"
proof
  fix x assume le: "o' + n \<le> k" and "x \<in> region (a + of_nat o') n"
  then obtain i where "i < n" "x = a + of_nat (o' + i)" by (auto simp: region_def algebra_simps)
  moreover from this le have "o' + i < k" by simp
  ultimately show "x \<in> region a k" unfolding region_def by blast
qed

lemma apart_sym: "apart a n b k \<Longrightarrow> apart b k a n"
  by (auto simp: apart_def)

lemma apart_sub: "apart a n b k \<Longrightarrow> region a' n' \<subseteq> region a n \<Longrightarrow> region b' k' \<subseteq> region b k \<Longrightarrow> apart a' n' b' k'"
  by (auto simp: apart_def)

lemma apart_offsets:
  assumes "o1 + n1 \<le> o2 \<or> o2 + n2 \<le> o1" and "o1 + n1 \<le> 2 ^ 64" and "o2 + n2 \<le> 2 ^ 64"
  shows "apart (a + of_nat o1) n1 (a + of_nat o2) n2"
proof -
  have False if "i < n1" "j < n2" and eq: "a + of_nat o1 + of_nat i = a + of_nat o2 + of_nat j" for i j
  proof -
    from eq have "(of_nat (o1 + i) :: u64) = of_nat (o2 + j)" by (simp add: algebra_simps)
    then have "o1 + i = o2 + j"
      using that(1,2) assms(2,3)
      by (metis add_less_cancel_left order_less_le_trans unat_of_nat_small)
    with that(1,2) assms(1) show False by linarith
  qed
  then show ?thesis by (fastforce simp: apart_def region_def)
qed

lemma store_bytes_Some_iff:
  "(\<exists>m'. store_bytes a bs m = Some m') \<longleftrightarrow> mapped m a (length bs)"
  by (auto simp: store_bytes_def)

lemma load_bytes_Some_iff: "(\<exists>bs. load_bytes m a n = Some bs) \<longleftrightarrow> mapped m a n"
  by (auto simp: load_bytes_def)

lemma load_bytes_length: "load_bytes m a n = Some bs \<Longrightarrow> length bs = n"
  by (auto simp: load_bytes_def split: if_splits)

lemma load_bytes_cong:
  "(\<And>x. x \<in> region a n \<Longrightarrow> m' x = m x) \<Longrightarrow> load_bytes m' a n = load_bytes m a n"
  by (auto simp: load_bytes_def mapped_def region_def list_all_iff)

lemma load_bytes_same_except:
  "same_except A m m' \<Longrightarrow> region a n \<inter> A = {} \<Longrightarrow> load_bytes m' a n = load_bytes m a n"
  by (rule load_bytes_cong) (auto simp: same_except_def)

lemma store_bytes_same_except:
  assumes "store_bytes a bs m = Some m'" and "length bs \<le> 2 ^ 64"
  shows "same_except (region a (length bs)) m m'"
proof -
  from assms(1) have mp: "mapped m a (length bs)"
    and m': "m' = (\<lambda>x. if unat (x - a) < length bs then Some (bs ! unat (x - a)) else m x)"
    by (auto simp: store_bytes_def split: if_splits)
  from mp have "region a (length bs) \<subseteq> dom m" by (simp add: mapped_iff)
  then have "dom m' = dom m"
    by (auto simp: m' dom_def in_region_iff [OF assms(2)] split: if_splits)
  then show ?thesis by (simp add: same_except_def m' in_region_iff [OF assms(2)])
qed

lemma load_store_same:
  assumes "store_bytes a bs m = Some m'" and "length bs \<le> 2 ^ 64"
  shows "load_bytes m' a (length bs) = Some bs"
proof -
  from assms(1) have mp: "mapped m a (length bs)"
    and m': "m' = (\<lambda>x. if unat (x - a) < length bs then Some (bs ! unat (x - a)) else m x)"
    by (auto simp: store_bytes_def split: if_splits)
  have "mapped m' a (length bs)"
    using mp store_bytes_same_except [OF assms] by (simp add: same_except_mapped)
  moreover have "map (\<lambda>i. the (m' (a + of_nat i))) [0..<length bs] = bs"
    using assms(2) by (intro nth_equalityI) (auto simp: m' unat_of_nat_small)
  ultimately show ?thesis by (simp add: load_bytes_def)
qed

section \<open>Little-endian integers\<close>

fun le_bytes :: "nat \<Rightarrow> nat \<Rightarrow> byte list" where
  "le_bytes 0 v = []"
| "le_bytes (Suc n) v = word_of_nat (v mod 256) # le_bytes n (v div 256)"

fun le_nat :: "byte list \<Rightarrow> nat" where
  "le_nat [] = 0"
| "le_nat (b # bs) = unat b + 256 * le_nat bs"

lemma length_le_bytes [simp]: "length (le_bytes n v) = n"
  by (induction n arbitrary: v) auto

lemma le_nat_le_bytes: "v < 256 ^ n \<Longrightarrow> le_nat (le_bytes n v) = v"
proof (induction n arbitrary: v)
  case (Suc n)
  then have "v div 256 < 256 ^ n" by (simp add: div_less_iff_less_mult mult.commute)
  then have "le_nat (le_bytes n (v div 256)) = v div 256" by (rule Suc.IH)
  then show ?case by (simp add: unat_of_nat take_bit_eq_mod)
qed simp

lemma le_bytes_le_nat: "length bs = n \<Longrightarrow> le_bytes n (le_nat bs) = bs"
proof (induction bs arbitrary: n)
  case (Cons b bs)
  have b: "unat b < 256" using unsigned_less [of b] by simp
  then have "(unat b + 256 * le_nat bs) mod 256 = unat b"
    and "(unat b + 256 * le_nat bs) div 256 = le_nat bs" by simp_all
  with Cons show ?case by auto
qed simp

definition load_u32 :: "memory \<Rightarrow> u64 \<Rightarrow> u32 option" where
  "load_u32 m a = do { bs \<leftarrow> load_bytes m a 4; Some (word_of_nat (le_nat bs)) }"

definition store_u32 :: "u64 \<Rightarrow> u32 \<Rightarrow> memory \<Rightarrow> memory option" where
  "store_u32 a v m = store_bytes a (le_bytes 4 (unat v)) m"

definition load_u64 :: "memory \<Rightarrow> u64 \<Rightarrow> u64 option" where
  "load_u64 m a = do { bs \<leftarrow> load_bytes m a 8; Some (word_of_nat (le_nat bs)) }"

definition store_u64 :: "u64 \<Rightarrow> u64 \<Rightarrow> memory \<Rightarrow> memory option" where
  "store_u64 a v m = store_bytes a (le_bytes 8 (unat v)) m"

lemma store_u32_same_except: "store_u32 a v m = Some m' \<Longrightarrow> same_except (region a 4) m m'"
  using store_bytes_same_except [of a "le_bytes 4 (unat v)" m m'] by (simp add: store_u32_def)

lemma store_u64_same_except: "store_u64 a v m = Some m' \<Longrightarrow> same_except (region a 8) m m'"
  using store_bytes_same_except [of a "le_bytes 8 (unat v)" m m'] by (simp add: store_u64_def)

lemma store_u32_ok: "mapped m a 4 \<Longrightarrow> \<exists>m'. store_u32 a v m = Some m'"
  by (simp add: store_u32_def store_bytes_Some_iff)

lemma store_u64_ok: "mapped m a 8 \<Longrightarrow> \<exists>m'. store_u64 a v m = Some m'"
  by (simp add: store_u64_def store_bytes_Some_iff)

lemma load_store_u32: "store_u32 a v m = Some m' \<Longrightarrow> load_u32 m' a = Some v"
proof -
  assume "store_u32 a v m = Some m'"
  then have "load_bytes m' a 4 = Some (le_bytes 4 (unat v))"
    using load_store_same [of a "le_bytes 4 (unat v)" m m'] by (simp add: store_u32_def)
  moreover have "le_nat (le_bytes 4 (unat v)) = unat v"
    using unsigned_less [of v] by (intro le_nat_le_bytes) simp
  ultimately show ?thesis by (simp add: load_u32_def)
qed

lemma load_store_u64: "store_u64 a v m = Some m' \<Longrightarrow> load_u64 m' a = Some v"
proof -
  assume "store_u64 a v m = Some m'"
  then have "load_bytes m' a 8 = Some (le_bytes 8 (unat v))"
    using load_store_same [of a "le_bytes 8 (unat v)" m m'] by (simp add: store_u64_def)
  moreover have "le_nat (le_bytes 8 (unat v)) = unat v"
    using unsigned_less [of v] by (intro le_nat_le_bytes) simp
  ultimately show ?thesis by (simp add: load_u64_def)
qed

lemma load_u32_same_except:
  "same_except A m m' \<Longrightarrow> region a 4 \<inter> A = {} \<Longrightarrow> load_u32 m' a = load_u32 m a"
  by (simp add: load_u32_def load_bytes_same_except)

lemma load_u64_same_except:
  "same_except A m m' \<Longrightarrow> region a 8 \<inter> A = {} \<Longrightarrow> load_u64 m' a = load_u64 m a"
  by (simp add: load_u64_def load_bytes_same_except)

lemma load_u32_ok: "mapped m a 4 \<Longrightarrow> \<exists>v. load_u32 m a = Some v"
  by (auto simp: load_u32_def load_bytes_def)

lemma load_u64_ok: "mapped m a 8 \<Longrightarrow> \<exists>v. load_u64 m a = Some v"
  by (auto simp: load_u64_def load_bytes_def)

section \<open>Regions that do not wrap\<close>

lemma region_unat:
  assumes "unat a + n \<le> 2 ^ 64" and "x \<in> region a n"
  shows "unat a \<le> unat x \<and> unat x < unat a + n"
proof -
  from assms(2) obtain i where i: "i < n" "x = a + of_nat i" by (auto simp: region_def)
  with assms(1) have "unat a + i < 2 ^ 64" by simp
  then have "unat x = unat a + i" using i by (simp add: unat_word_ariths unat_of_nat_small)
  with i show ?thesis by simp
qed

lemma apart_unat:
  assumes "unat a + n \<le> unat b" "unat b + k \<le> 2 ^ 64"
  shows "apart a n b k"
proof -
  have "unat a + n \<le> 2 ^ 64" using assms unat_less [of b] by linarith
  then show ?thesis
    using assms region_unat [of a n] region_unat [of b k] by (fastforce simp: apart_def)
qed

lemma apart_either:
  "unat a + n \<le> unat b \<and> unat b + k \<le> 2 ^ 64 \<or> unat b + k \<le> unat a \<and> unat a + n \<le> 2 ^ 64 \<Longrightarrow>
   apart a n b k"
  using apart_unat [of a n b k] apart_unat [of b k a n] apart_sym by blast

text \<open>A zero-filled stretch of memory, the state of RAM before either side has started.\<close>

definition zero_ram :: "nat \<Rightarrow> nat \<Rightarrow> memory" where
  "zero_ram lo hi = (\<lambda>a. if lo \<le> unat a \<and> unat a < hi then Some 0 else None)"

lemma zero_ram_region:
  assumes "lo \<le> unat a" "unat a + n \<le> hi" "hi \<le> 2 ^ 64" "x \<in> region a n"
  shows "zero_ram lo hi x = Some 0"
  using region_unat [of a n x] assms by (auto simp: zero_ram_def)

lemma mapped_zero_ram:
  "lo \<le> unat a \<Longrightarrow> unat a + n \<le> hi \<Longrightarrow> hi \<le> 2 ^ 64 \<Longrightarrow> mapped (zero_ram lo hi) a n"
  using zero_ram_region [of lo a n hi] by (auto simp: mapped_iff)

lemma le_nat_zeros: "le_nat (replicate n 0) = 0"
  by (induction n) simp_all

lemma load_bytes_zero_ram:
  assumes "lo \<le> unat a" "unat a + n \<le> hi" "hi \<le> 2 ^ 64"
  shows "load_bytes (zero_ram lo hi) a n = Some (replicate n 0)"
proof -
  have "map (\<lambda>i. the (zero_ram lo hi (a + of_nat i))) [0..<n] = map (\<lambda>_. 0) [0..<n]"
    using zero_ram_region [OF assms] by (intro map_cong) (auto simp: region_def)
  then show ?thesis
    using mapped_zero_ram [OF assms] by (simp add: load_bytes_def map_replicate_const)
qed

lemma load_zero_ram:
  "lo \<le> unat a \<Longrightarrow> unat a + 4 \<le> hi \<Longrightarrow> hi \<le> 2 ^ 64 \<Longrightarrow> load_u32 (zero_ram lo hi) a = Some 0"
  "lo \<le> unat a \<Longrightarrow> unat a + 8 \<le> hi \<Longrightarrow> hi \<le> 2 ^ 64 \<Longrightarrow> load_u64 (zero_ram lo hi) a = Some 0"
  by (simp_all add: load_u32_def load_u64_def load_bytes_zero_ram le_nat_zeros)

lemma le_nat_less: "le_nat bs < 256 ^ length bs"
proof (induction bs)
  case (Cons b bs)
  have "unat b < 256" using unat_less [of b] by simp
  with Cons show ?case by simp
qed simp

text \<open>Bytes poked into mapped memory: concrete memories are built from these.\<close>

definition poke :: "u64 \<Rightarrow> byte list \<Rightarrow> memory \<Rightarrow> memory" where
  "poke a bs m = (\<lambda>x. if unat (x - a) < length bs then Some (bs ! unat (x - a)) else m x)"

lemma store_bytes_poke: "mapped m a (length bs) \<Longrightarrow> store_bytes a bs m = Some (poke a bs m)"
  by (simp add: store_bytes_def poke_def)

lemma poke_same_except:
  "mapped m a (length bs) \<Longrightarrow> length bs \<le> 2 ^ 64 \<Longrightarrow> same_except (region a (length bs)) m (poke a bs m)"
  by (rule store_bytes_same_except [OF store_bytes_poke])

lemma load_poke_same:
  "mapped m a (length bs) \<Longrightarrow> length bs \<le> 2 ^ 64 \<Longrightarrow> load_bytes (poke a bs m) a (length bs) = Some bs"
  by (rule load_store_same [OF store_bytes_poke])

text \<open>
  A list of pokes, and executable tests that find what a load from the result returns.
\<close>

fun pokes :: "(u64 \<times> byte list) list \<Rightarrow> memory \<Rightarrow> memory" where
  "pokes [] m = m"
| "pokes ((a, bs) # ps) m = poke a bs (pokes ps m)"

definition apart_num :: "u64 \<Rightarrow> nat \<Rightarrow> u64 \<Rightarrow> nat \<Rightarrow> bool" where
  "apart_num a n b k \<longleftrightarrow> unat a + n \<le> 2 ^ 64 \<and> unat b + k \<le> 2 ^ 64 \<and> (unat a + n \<le> unat b \<or> unat b + k \<le> unat a)"

fun look :: "(u64 \<times> byte list) list \<Rightarrow> u64 \<Rightarrow> nat \<Rightarrow> byte list option" where
  "look [] a n = None"
| "look ((b, cs) # ps) a n =
     (if a = b \<and> n = length cs then Some cs else if apart_num a n b (length cs) then look ps a n else None)"

definition pokes_in :: "nat \<Rightarrow> nat \<Rightarrow> (u64 \<times> byte list) list \<Rightarrow> bool" where
  "pokes_in lo hi ps \<longleftrightarrow> hi \<le> 2 ^ 64 \<and> list_all (\<lambda>(a, bs). lo \<le> unat a \<and> unat a + length bs \<le> hi) ps"

lemma apart_num: "apart_num a n b k \<Longrightarrow> apart a n b k"
  by (rule apart_either) (auto simp: apart_num_def)

lemma pokes_in_Cons:
  assumes "pokes_in lo hi ((b, cs) # ps)"
  shows "pokes_in lo hi ps" "length cs \<le> 2 ^ 64" "mapped (zero_ram lo hi) b (length cs)"
  using assms by (auto simp: pokes_in_def intro: mapped_zero_ram)

lemma mapped_pokes: "pokes_in lo hi ps \<Longrightarrow> mapped (pokes ps (zero_ram lo hi)) a n = mapped (zero_ram lo hi) a n"
proof (induction ps arbitrary: a n)
  case (Cons p ps)
  obtain b cs where p: "p = (b, cs)" by fastforce
  note ok = pokes_in_Cons [OF Cons.prems [unfolded p]]
  have "mapped (pokes ps (zero_ram lo hi)) b (length cs)" using ok(3) Cons.IH [OF ok(1)] by simp
  from same_except_mapped [OF poke_same_except [OF this ok(2)]] Cons.IH [OF ok(1)] show ?case by (simp add: p)
qed simp

lemma load_pokes_Cons:
  assumes "pokes_in lo hi ((b, cs) # ps)"
  shows "load_bytes (pokes ((b, cs) # ps) (zero_ram lo hi)) b (length cs) = Some cs"
    and "apart_num a n b (length cs) \<Longrightarrow>
         load_bytes (pokes ((b, cs) # ps) (zero_ram lo hi)) a n = load_bytes (pokes ps (zero_ram lo hi)) a n"
proof -
  note ok = pokes_in_Cons [OF assms]
  have mp: "mapped (pokes ps (zero_ram lo hi)) b (length cs)" using ok(3) mapped_pokes [OF ok(1)] by simp
  show "load_bytes (pokes ((b, cs) # ps) (zero_ram lo hi)) b (length cs) = Some cs"
    using load_poke_same [OF mp ok(2)] by simp
  show "load_bytes (pokes ((b, cs) # ps) (zero_ram lo hi)) a n = load_bytes (pokes ps (zero_ram lo hi)) a n"
    if "apart_num a n b (length cs)"
    using load_bytes_same_except [OF poke_same_except [OF mp ok(2)]] apart_num [OF that] by (simp add: apart_def)
qed

lemma load_pokes:
  "pokes_in lo hi ps \<Longrightarrow> look ps a n = Some bs \<Longrightarrow> load_bytes (pokes ps (zero_ram lo hi)) a n = Some bs"
proof (induction ps)
  case (Cons p ps)
  obtain b cs where p: "p = (b, cs)" by fastforce
  show ?case
    using Cons load_pokes_Cons [OF Cons.prems(1) [unfolded p]] pokes_in_Cons(1) [OF Cons.prems(1) [unfolded p]]
    by (auto simp: p simp del: pokes.simps split: if_splits)
qed simp

lemma load_pokes_clear:
  "pokes_in lo hi ps \<Longrightarrow> list_all (\<lambda>(b, cs). apart_num a n b (length cs)) ps \<Longrightarrow>
   load_bytes (pokes ps (zero_ram lo hi)) a n = load_bytes (zero_ram lo hi) a n"
proof (induction ps)
  case (Cons p ps)
  obtain b cs where p: "p = (b, cs)" by fastforce
  show ?case
    using Cons load_pokes_Cons(2) [OF Cons.prems(1) [unfolded p]] pokes_in_Cons(1) [OF Cons.prems(1) [unfolded p]]
    by (simp add: p del: pokes.simps)
qed simp

end
