(* ===== verification/Types.thy ===== *)
theory Types
  imports Prelude
begin

text \<open>
  The constants, enumerations and configuration structures of \<open>src/ipc-types.h\<close>.
  A C enumeration can hold any value of its integer type, and the driver tests for such values, so
  each enumeration whose other values are tested has an extra constructor for them. A function
  pointer is its address (0 is NULL); an array argument that may be NULL is an optional list. The
  two members of the configuration union are both fields: a configuration is read-only and only the
  member selected by its type is read.
\<close>

section \<open>Limits and magic numbers\<close>

definition IPC_UINT16_MAX :: u32 where "IPC_UINT16_MAX = 0xFFFF"
definition IPC_SHM_MAX_BUFS_PER_CHANNEL :: u32 where
  "IPC_SHM_MAX_BUFS_PER_CHANNEL = IPC_UINT16_MAX - 1"
definition IPC_SHM_MAX_UMNG_SIZE :: u32 where "IPC_SHM_MAX_UMNG_SIZE = IPC_UINT16_MAX"
definition IPC_QUEUE_INIT_IN_PROGRESS :: u64 where "IPC_QUEUE_INIT_IN_PROGRESS = 0x54494E4946435049"
definition IPC_QUEUE_INIT_DONE :: u64 where "IPC_QUEUE_INIT_DONE = 0x474E495246435049"
definition IPC_IRQ_NONE :: int where "IPC_IRQ_NONE = - 1"
definition IPC_SHM_MAX_CHANNELS :: nat where "IPC_SHM_MAX_CHANNELS = 8"
definition IPC_SHM_MAX_POOLS :: nat where "IPC_SHM_MAX_POOLS = 4"
definition IPC_SHM_MAX_BUFS_PER_POOL :: u16 where "IPC_SHM_MAX_BUFS_PER_POOL = 4096"
definition IPC_SHM_MAX_INSTANCES :: nat where "IPC_SHM_MAX_INSTANCES = 4"

named_theorems limit_defs "the configured limits of ipc-types.h"

declare IPC_UINT16_MAX_def [limit_defs] IPC_SHM_MAX_BUFS_PER_CHANNEL_def [limit_defs]
  IPC_SHM_MAX_UMNG_SIZE_def [limit_defs] IPC_SHM_MAX_CHANNELS_def [limit_defs]
  IPC_SHM_MAX_POOLS_def [limit_defs] IPC_SHM_MAX_BUFS_PER_POOL_def [limit_defs]
  IPC_SHM_MAX_INSTANCES_def [limit_defs]

lemma sentinels_distinct [simp]:
  "IPC_QUEUE_INIT_IN_PROGRESS \<noteq> IPC_QUEUE_INIT_DONE" "IPC_QUEUE_INIT_DONE \<noteq> IPC_QUEUE_INIT_IN_PROGRESS"
  "IPC_QUEUE_INIT_DONE \<noteq> 0" "IPC_QUEUE_INIT_IN_PROGRESS \<noteq> 0"
  by (simp_all add: IPC_QUEUE_INIT_IN_PROGRESS_def IPC_QUEUE_INIT_DONE_def)

section \<open>Enumerations\<close>

datatype ipc_shm_channel_type =
  IPC_SHM_MANAGED | IPC_SHM_UNMANAGED | IPC_SHM_CHANNEL_TYPE_OTHER u32

datatype ipc_shm_queue_type =
  IPC_SHM_CHANNEL_QUEUE | IPC_SHM_POOL_QUEUE | IPC_SHM_QUEUE_TYPE_OTHER u32

datatype ipc_shm_core_type =
    IPC_CORE_DEFAULT | IPC_CORE_A53 | IPC_CORE_M7 | IPC_CORE_M4 | IPC_CORE_Z7 | IPC_CORE_Z4
  | IPC_CORE_Z2 | IPC_CORE_R52 | IPC_CORE_M33 | IPC_CORE_BBE32 | IPC_CORE_KQ8
  | IPC_CORE_TYPE_OTHER u32

datatype ipc_shm_core_index =
    IPC_CORE_INDEX_0 | IPC_CORE_INDEX_1 | IPC_CORE_INDEX_2 | IPC_CORE_INDEX_3
  | IPC_CORE_INDEX_4 | IPC_CORE_INDEX_5 | IPC_CORE_INDEX_6 | IPC_CORE_INDEX_7
  | IPC_CORE_INDEX_OTHER u32

section \<open>Configuration structures\<close>

record ipc_shm_pool_cfg =
  pcfg_num_bufs :: u16
  pcfg_buf_size :: u32

record ipc_shm_managed_cfg =
  mcfg_num_pools :: u8
  mcfg_pools :: "ipc_shm_pool_cfg list option"
  mcfg_rx_cb :: u64
  mcfg_cb_arg :: u64

record ipc_shm_unmanaged_cfg =
  ucfg_size :: u32
  ucfg_rx_cb :: u64
  ucfg_cb_arg :: u64

record ipc_shm_channel_cfg =
  ccfg_type :: ipc_shm_channel_type
  ccfg_managed :: ipc_shm_managed_cfg
  ccfg_unmanaged :: ipc_shm_unmanaged_cfg

record ipc_shm_remote_core =
  rcore_type :: ipc_shm_core_type
  rcore_index :: ipc_shm_core_index

record ipc_shm_local_core =
  lcore_type :: ipc_shm_core_type
  lcore_index :: ipc_shm_core_index
  lcore_trusted :: u32

record ipc_shm_cfg =
  cfg_local_shm_addr :: u64
  cfg_remote_shm_addr :: u64
  cfg_shm_size :: u32
  cfg_inter_core_tx_irq :: int
  cfg_inter_core_rx_irq :: int
  cfg_local_core :: ipc_shm_local_core
  cfg_remote_core :: ipc_shm_remote_core
  cfg_num_channels :: u8
  cfg_channels :: "ipc_shm_channel_cfg list option"

record ipc_shm_instances_cfg =
  icfg_num_instances :: u8
  icfg_shm_cfg :: "ipc_shm_cfg list option"

end
