(* ===== verification/Ring.thy ===== *)
theory Ring
  imports Prelude
begin

text \<open>
  Index arithmetic of a circular buffer with \<open>n\<close> slots of which one always stays unused: the
  elements between a read and a write index as a list, and what the list becomes when the writer or
  the reader advances its index modulo \<open>n\<close>. Nothing here depends on how the slots are stored.
\<close>

definition ring_count :: "nat \<Rightarrow> nat \<Rightarrow> nat \<Rightarrow> nat" where
  "ring_count n rd wr = (wr + n - rd) mod n"

definition ring_elems :: "(nat \<Rightarrow> 'a) \<Rightarrow> nat \<Rightarrow> nat \<Rightarrow> nat \<Rightarrow> 'a list" where
  "ring_elems f n rd wr = map (\<lambda>k. f ((rd + k) mod n)) [0..<ring_count n rd wr]"

lemma length_ring_elems [simp]: "length (ring_elems f n rd wr) = ring_count n rd wr"
  by (simp add: ring_elems_def)

lemma ring_count_cases:
  assumes "rd < n" and "wr < n"
  shows "ring_count n rd wr = (if rd \<le> wr then wr - rd else wr + n - rd)"
proof (cases "rd \<le> wr")
  case True
  then have "(wr + n - rd) mod n = ((wr - rd) + n) mod n" by simp
  also have "\<dots> = wr - rd" using assms by simp
  finally show ?thesis using True by (simp add: ring_count_def)
next
  case False
  with assms show ?thesis by (simp add: ring_count_def)
qed

lemma suc_mod_cases: "i < n \<Longrightarrow> Suc i mod n = (if Suc i = n then 0 else Suc i)"
  by (simp add: mod_Suc)

lemma ring_count_less: "rd < n \<Longrightarrow> wr < n \<Longrightarrow> ring_count n rd wr < n"
  by (simp add: ring_count_def)

lemma ring_count_zero_iff: "rd < n \<Longrightarrow> wr < n \<Longrightarrow> ring_count n rd wr = 0 \<longleftrightarrow> rd = wr"
  by (auto simp: ring_count_cases split: if_splits)

lemma ring_full_iff:
  "rd < n \<Longrightarrow> wr < n \<Longrightarrow> (wr + 1) mod n = rd \<longleftrightarrow> ring_count n rd wr + 1 = n"
  by (auto simp: ring_count_cases suc_mod_cases split: if_splits)

lemma ring_count_push:
  "rd < n \<Longrightarrow> wr < n \<Longrightarrow> (wr + 1) mod n \<noteq> rd \<Longrightarrow>
   ring_count n rd ((wr + 1) mod n) = Suc (ring_count n rd wr)"
  by (auto simp: ring_count_cases suc_mod_cases split: if_splits)

lemma ring_count_pop:
  "rd < n \<Longrightarrow> wr < n \<Longrightarrow> rd \<noteq> wr \<Longrightarrow>
   ring_count n rd wr = Suc (ring_count n ((rd + 1) mod n) wr)"
  by (auto simp: ring_count_cases suc_mod_cases split: if_splits)

lemma ring_last_index:
  "rd < n \<Longrightarrow> wr < n \<Longrightarrow> (rd + ring_count n rd wr) mod n = wr"
  by (auto simp: ring_count_cases mod_simps)

lemma ring_index_neq_write:
  assumes "rd < n" "wr < n" "k < ring_count n rd wr"
  shows "(rd + k) mod n \<noteq> wr"
proof (cases "rd + k < n")
  case True
  with assms show ?thesis by (auto simp: ring_count_cases split: if_splits)
next
  case False
  with assms have "(rd + k) mod n = rd + k - n"
    by (auto simp: ring_count_cases le_mod_geq split: if_splits)
  with False assms show ?thesis by (auto simp: ring_count_cases split: if_splits)
qed

text \<open>The slots between the indices are read; the slot at the write index is not.\<close>

lemma ring_elems_cong:
  assumes "rd < n" "wr < n" and "\<And>i. i < n \<Longrightarrow> i \<noteq> wr \<Longrightarrow> f i = g i"
  shows "ring_elems f n rd wr = ring_elems g n rd wr"
  using assms by (auto simp: ring_elems_def intro!: assms(3) dest: ring_index_neq_write)

lemma ring_elems_push:
  assumes "rd < n" "wr < n" "(wr + 1) mod n \<noteq> rd"
    and "\<And>i. i < n \<Longrightarrow> i \<noteq> wr \<Longrightarrow> g i = f i" and "g wr = x"
  shows "ring_elems g n rd ((wr + 1) mod n) = ring_elems f n rd wr @ [x]"
proof -
  have "ring_elems g n rd ((wr + 1) mod n) = ring_elems g n rd wr @ [g ((rd + ring_count n rd wr) mod n)]"
    using ring_count_push [OF assms(1-3)] by (simp add: ring_elems_def)
  also have "ring_elems g n rd wr = ring_elems f n rd wr"
    by (rule ring_elems_cong [OF assms(1,2,4)])
  finally show ?thesis using ring_last_index [OF assms(1,2)] assms(5) by simp
qed

lemma ring_elems_pop:
  assumes "rd < n" "wr < n" "rd \<noteq> wr"
  shows "ring_elems f n rd wr = f rd # ring_elems f n ((rd + 1) mod n) wr"
proof -
  let ?c = "ring_count n ((rd + 1) mod n) wr"
  have "[0..<Suc ?c] = 0 # map Suc [0..<?c]"
    by (simp add: map_Suc_upt upt_conv_Cons del: upt_Suc)
  then have "ring_elems f n rd wr = map (\<lambda>k. f ((rd + k) mod n)) (0 # map Suc [0..<?c])"
    unfolding ring_elems_def ring_count_pop [OF assms] by (simp only:)
  also have "\<dots> = f rd # ring_elems f n ((rd + 1) mod n) wr"
    using assms(1) by (simp add: ring_elems_def mod_simps)
  finally show ?thesis .
qed

lemma ring_elems_empty: "rd < n \<Longrightarrow> ring_elems f n rd rd = []"
  by (simp add: ring_elems_def ring_count_cases)

lemma ring_elems_Nil_iff:
  assumes "rd < n" "wr < n"
  shows "ring_elems f n rd wr = [] \<longleftrightarrow> rd = wr"
  using length_ring_elems [of f n rd wr] ring_count_zero_iff [OF assms] by (metis length_0_conv)

text \<open>Word arithmetic of the indices agrees with the arithmetic on natural numbers.\<close>

lemma unat_word_suc_mod:
  assumes "unat (w :: u32) < unat (n :: u16)"
  shows "unat ((w + 1) mod ucast n) = (unat w + 1) mod unat n"
proof -
  have n: "unat (ucast n :: u32) = unat n"
    by (simp add: unat_ucast_up)
  have "unat n < 2 ^ 16" using unsigned_less [of n] by simp
  with assms have "unat (w + 1) = unat w + 1"
    by (simp add: unat_word_ariths)
  with n show ?thesis by (simp add: unat_mod)
qed

end
