(* ===== verification/Fifo.thy ===== *)
theory Fifo
  imports Prelude
begin

text \<open>
  The interface a bounded first-in first-out transport offers to its clients: sending appends to
  an abstract list until a capacity is reached, receiving removes from its front, and both report
  failure by the driver's error codes without changing the state. Clients use it through the two
  loops below, which stop at the first error as the driver's loops do.
\<close>

fun send_all :: "('x \<Rightarrow> 's \<Rightarrow> (int \<times> 's) option) \<Rightarrow> 'x list \<Rightarrow> 's \<Rightarrow> (int \<times> 's) option" where
  "send_all tx [] s = Some (0, s)"
| "send_all tx (x # xs) s = do {
     (rc, s') \<leftarrow> tx x s;
     if rc \<noteq> 0 then Some (rc, s') else send_all tx xs s' }"

fun recv_n :: "('s \<Rightarrow> (int \<times> 'x option \<times> 's) option) \<Rightarrow> nat \<Rightarrow> 's \<Rightarrow> ('x list \<times> 's) option" where
  "recv_n rx 0 s = Some ([], s)"
| "recv_n rx (Suc k) s = do {
     (rc, x, s') \<leftarrow> rx s;
     case x of
       Some v \<Rightarrow> if rc \<noteq> 0 then Some ([], s')
                 else do { (vs, s'') \<leftarrow> recv_n rx k s'; Some (v # vs, s'') }
     | None \<Rightarrow> Some ([], s') }"

locale fifo_channel =
  fixes tx :: "'x \<Rightarrow> 's \<Rightarrow> (int \<times> 's) option"
    and rx :: "'s \<Rightarrow> (int \<times> 'x option \<times> 's) option"
    and contents :: "'s \<Rightarrow> 'x list"
    and cap :: nat
    and valid :: "'x \<Rightarrow> bool"
    and inv :: "'s \<Rightarrow> bool"
  assumes tx_ok: "inv s \<Longrightarrow> valid x \<Longrightarrow> length (contents s) < cap \<Longrightarrow>
      \<exists>s'. tx x s = Some (0, s') \<and> contents s' = contents s @ [x] \<and> inv s'"
    and tx_full: "inv s \<Longrightarrow> valid x \<Longrightarrow> length (contents s) = cap \<Longrightarrow> tx x s = Some (- ENOMEM, s)"
    and rx_ok: "inv s \<Longrightarrow> contents s = x # xs \<Longrightarrow>
      \<exists>s'. rx s = Some (0, Some x, s') \<and> contents s' = xs \<and> inv s'"
    and rx_empty: "inv s \<Longrightarrow> contents s = [] \<Longrightarrow> \<exists>b. rx s = Some (- ENOBUFS, b, s)"
    and bounded: "inv s \<Longrightarrow> length (contents s) \<le> cap"
begin

lemma send_all_ok:
  "inv s \<Longrightarrow> list_all valid xs \<Longrightarrow> length (contents s) + length xs \<le> cap \<Longrightarrow>
   \<exists>s'. send_all tx xs s = Some (0, s') \<and> contents s' = contents s @ xs \<and> inv s'"
proof (induction xs arbitrary: s)
  case (Cons x xs)
  then obtain s1 where s1: "tx x s = Some (0, s1)" "contents s1 = contents s @ [x]" "inv s1"
    using tx_ok [of s x] by auto
  with Cons.prems Cons.IH [of s1] obtain s2 where
    "send_all tx xs s1 = Some (0, s2)" "contents s2 = contents s @ x # xs" "inv s2" by auto
  with s1 show ?case by simp
qed simp

text \<open>A client that keeps sending is refused exactly at capacity.\<close>

lemma send_all_overflow:
  assumes "inv s" "list_all valid xs" "valid y" "length (contents s) + length xs = cap"
  shows "\<exists>s'. send_all tx (xs @ y # ys) s = Some (- ENOMEM, s') \<and> contents s' = contents s @ xs \<and> inv s'"
  using assms
proof (induction xs arbitrary: s)
  case Nil
  then show ?case using tx_full [of s y] by (simp add: ENOMEM_def)
next
  case (Cons x xs)
  then obtain s1 where s1: "tx x s = Some (0, s1)" "contents s1 = contents s @ [x]" "inv s1"
    using tx_ok [of s x] by auto
  with Cons.prems Cons.IH [of s1] show ?case by auto
qed

lemma recv_n_ok:
  "inv s \<Longrightarrow> contents s = xs @ ys \<Longrightarrow>
   \<exists>s'. recv_n rx (length xs) s = Some (xs, s') \<and> contents s' = ys \<and> inv s'"
proof (induction xs arbitrary: s)
  case (Cons x xs)
  then obtain s1 where s1: "rx s = Some (0, Some x, s1)" "contents s1 = xs @ ys" "inv s1"
    using rx_ok [of s x "xs @ ys"] by auto
  with Cons.IH [of s1] show ?case by auto
qed simp

lemma round_trip:
  assumes "inv s" "contents s = []" "list_all valid xs" "length xs \<le> cap"
  shows "\<exists>s1 s2. send_all tx xs s = Some (0, s1) \<and> recv_n rx (length xs) s1 = Some (xs, s2) \<and>
           contents s2 = [] \<and> inv s2"
proof -
  obtain s1 where s1: "send_all tx xs s = Some (0, s1)" "contents s1 = xs" "inv s1"
    using send_all_ok [OF assms(1,3)] assms(2,4) by auto
  with recv_n_ok [of s1 xs "[]"] show ?thesis by auto
qed

end

end
