(* ===== verification/Queue.thy ===== *)
theory Queue
  imports Types Ring Fifo
begin

text \<open>
  The dual-ring queue of \<open>src/ipc-queue.h\<close> and \<open>src/ipc-queue.c\<close>. A ring is a structure in
  shared memory, so its fields are loads and stores at fixed offsets from its address
  (\<open>sentinel\<close> at 0, \<open>write\<close> at 8, \<open>read\<close> at 12, \<open>data\<close> at 16); the \<open>struct ipc_queue\<close> that
  points at the two rings is private to the driver and is a record. A \<open>queue\<close> argument that may be
  NULL is an optional record, a \<open>buf\<close> argument an optional list of bytes (the caller's object).
\<close>

section \<open>Data\<close>

definition sizeof_ipc_ring :: nat where "sizeof_ipc_ring = 16"

definition ring_sentinel :: "u64 \<Rightarrow> u64" where "ring_sentinel p = p"
definition ring_write :: "u64 \<Rightarrow> u64" where "ring_write p = p + 8"
definition ring_read :: "u64 \<Rightarrow> u64" where "ring_read p = p + 12"
definition ring_data :: "u64 \<Rightarrow> u64" where "ring_data p = p + 16"

record ipc_queue =
  elem_size :: u8
  elem_num :: u16
  push_ring :: u64
  pop_ring :: u64

record ipc_queue_data =
  qd_elem_size :: u8
  qd_elem_num :: u16
  qd_queue_type :: ipc_shm_queue_type
  qd_push_addr :: u64
  qd_pop_addr :: u64

section \<open>Operations\<close>

text \<open>\<open>ipc_queue_check_integrity\<close> has no NULL check of its own: a NULL ring is a fault.\<close>

definition ipc_queue_check_integrity :: "ipc_queue \<Rightarrow> memory \<Rightarrow> int option" where
  "ipc_queue_check_integrity q m =
     (if pop_ring q = 0 then None else do {
        ps \<leftarrow> load_u64 m (ring_sentinel (pop_ring q));
        if IPC_QUEUE_INIT_DONE = ps
        then (if push_ring q = 0 then None else do {
          qs \<leftarrow> load_u64 m (ring_sentinel (push_ring q));
          Some (if IPC_QUEUE_INIT_DONE = qs then 0 else - EINVAL) })
        else Some (- EINVAL) })"

definition ipc_queue_pop ::
  "ipc_queue option \<Rightarrow> byte list option \<Rightarrow> memory \<Rightarrow> (int \<times> byte list option \<times> memory) option" where
  "ipc_queue_pop queue buf m =
     (case (queue, buf) of
        (Some q, Some old) \<Rightarrow>
          if push_ring q = 0 \<or> pop_ring q = 0 then Some (- EINVAL, buf, m)
          else do {
            write \<leftarrow> load_u32 m (ring_write (pop_ring q));
            read \<leftarrow> load_u32 m (ring_read (push_ring q));
            ok \<leftarrow> ipc_queue_check_integrity q m;
            if ok \<noteq> 0 \<or> read \<ge> ucast (elem_num q) \<or> write \<ge> ucast (elem_num q)
            then Some (- EINVAL, buf, m)
            else if read = write then Some (- ENOBUFS, buf, m)
            else do {
              bs \<leftarrow> load_bytes m (ring_data (pop_ring q) + ucast (read * ucast (elem_size q)))
                      (unat (elem_size q));
              if length old < unat (elem_size q) then None else do {
                m' \<leftarrow> store_u32 (ring_read (push_ring q)) ((read + 1) mod ucast (elem_num q)) m;
                Some (0, Some (bs @ drop (unat (elem_size q)) old), m') } } }
      | _ \<Rightarrow> Some (- EINVAL, buf, m))"

definition ipc_queue_push ::
  "ipc_queue option \<Rightarrow> byte list option \<Rightarrow> memory \<Rightarrow> (int \<times> memory) option" where
  "ipc_queue_push queue buf m =
     (case (queue, buf) of
        (Some q, Some bs) \<Rightarrow>
          if push_ring q = 0 \<or> pop_ring q = 0 then Some (- EINVAL, m)
          else do {
            write \<leftarrow> load_u32 m (ring_write (push_ring q));
            read \<leftarrow> load_u32 m (ring_read (pop_ring q));
            if read \<ge> ucast (elem_num q) \<or> write \<ge> ucast (elem_num q) then Some (- EINVAL, m)
            else if (write + 1) mod ucast (elem_num q) = read then Some (- ENOMEM, m)
            else if length bs < unat (elem_size q) then None else do {
              m1 \<leftarrow> store_bytes (ring_data (push_ring q) + ucast (write * ucast (elem_size q)))
                      (take (unat (elem_size q)) bs) m;
              m2 \<leftarrow> store_u32 (ring_write (push_ring q)) ((write + 1) mod ucast (elem_num q)) m1;
              Some (0, m2) } }
      | _ \<Rightarrow> Some (- EINVAL, m))"

text \<open>
  \<open>ipc_queue_sync_index\<close> is only called with both rings non-NULL. Its \<open>% elem_num\<close> divides by zero
  when \<open>elem_num\<close> is 0, which is a fault.
\<close>

definition ipc_queue_sync_index ::
  "ipc_queue \<Rightarrow> ipc_shm_queue_type \<Rightarrow> memory \<Rightarrow> (int \<times> memory) option" where
  "ipc_queue_sync_index q qtype m = do {
     s \<leftarrow> load_u64 m (ring_sentinel (pop_ring q));
     if s = IPC_QUEUE_INIT_IN_PROGRESS then Some (- EAGAIN, m) else do {
       m1 \<leftarrow> store_u64 (ring_sentinel (push_ring q)) IPC_QUEUE_INIT_IN_PROGRESS m;
       s' \<leftarrow> load_u64 m1 (ring_sentinel (pop_ring q));
       if s' = IPC_QUEUE_INIT_DONE then do {
         r \<leftarrow> load_u32 m1 (ring_read (pop_ring q));
         m2 \<leftarrow> store_u32 (ring_write (push_ring q)) r m1;
         w \<leftarrow> load_u32 m2 (ring_write (pop_ring q));
         if elem_num q = 0 then None else do {
           m3 \<leftarrow> store_u32 (ring_read (push_ring q))
                  (if qtype = IPC_SHM_CHANNEL_QUEUE then w mod ucast (elem_num q)
                   else (w + 1) mod ucast (elem_num q)) m2;
           Some (0, m3) } }
       else do {
         m2 \<leftarrow> store_u32 (ring_write (push_ring q)) 0 m1;
         m3 \<leftarrow> store_u32 (ring_read (push_ring q)) 0 m2;
         Some (0, m3) } } }"

text \<open>\<open>elem_num\<close> is a \<open>uint16_t\<close>: adding the sentinel element wraps at 65535.\<close>

definition ipc_queue_init ::
  "ipc_queue option \<Rightarrow> ipc_queue_data \<Rightarrow> memory \<Rightarrow> (int \<times> ipc_queue option \<times> memory) option" where
  "ipc_queue_init queue qd m =
     (case queue of
        None \<Rightarrow> Some (- EINVAL, None, m)
      | Some q \<Rightarrow>
          if qd_push_addr qd = 0 \<or> qd_pop_addr qd = 0 \<or> qd_elem_num qd = 0 \<or> qd_elem_size qd = 0
             \<or> qd_elem_size qd mod 8 \<noteq> 0
             \<or> (qd_queue_type qd \<noteq> IPC_SHM_CHANNEL_QUEUE \<and> qd_queue_type qd \<noteq> IPC_SHM_POOL_QUEUE)
          then Some (- EINVAL, queue, m)
          else do {
            let q' = q\<lparr>elem_num := qd_elem_num qd + 1, elem_size := qd_elem_size qd,
                       push_ring := qd_push_addr qd, pop_ring := qd_pop_addr qd\<rparr>;
            (err, m') \<leftarrow> ipc_queue_sync_index q' (qd_queue_type qd) m;
            Some (err, Some q', m') })"

definition ipc_queue_free :: "ipc_queue option \<Rightarrow> memory \<Rightarrow> (ipc_queue option \<times> memory) option" where
  "ipc_queue_free queue m =
     (case queue of
        None \<Rightarrow> Some (None, m)
      | Some q \<Rightarrow>
          if push_ring q = 0 then Some (queue, m)
          else do {
            s \<leftarrow> load_u64 m (ring_sentinel (push_ring q));
            if s = IPC_QUEUE_INIT_DONE \<or> s = IPC_QUEUE_INIT_IN_PROGRESS then do {
              m1 \<leftarrow> store_u64 (ring_sentinel (push_ring q)) 0 m;
              m2 \<leftarrow> store_u32 (ring_write (push_ring q)) 0 m1;
              m3 \<leftarrow> store_u32 (ring_read (push_ring q)) 0 m2;
              Some (Some (q\<lparr>elem_num := 0, elem_size := 0, push_ring := 0\<rparr>), m3) }
            else Some (Some (q\<lparr>push_ring := 0\<rparr>), m) })"

definition ipc_queue_mem_size :: "ipc_queue \<Rightarrow> u32" where
  "ipc_queue_mem_size q = of_nat sizeof_ipc_ring + ucast (elem_num q) * ucast (elem_size q)"

section \<open>Abstraction: the two directions of a queue as lists\<close>

text \<open>
  \<open>tx_list\<close> is what has been pushed and not yet popped by the peer, oldest first; \<open>rx_list\<close> is
  what the peer has pushed and this side has not yet popped. The read indexes are swapped: the
  consumer of a ring keeps its read index in its own push ring.
\<close>

definition ring_bytes :: "ipc_queue \<Rightarrow> nat" where
  "ring_bytes q = sizeof_ipc_ring + unat (elem_num q) * unat (elem_size q)"

definition wr_idx :: "memory \<Rightarrow> u64 \<Rightarrow> nat" where
  "wr_idx m p = unat (the (load_u32 m (ring_write p)))"

definition rd_idx :: "memory \<Rightarrow> u64 \<Rightarrow> nat" where
  "rd_idx m p = unat (the (load_u32 m (ring_read p)))"

definition slot_addr :: "u64 \<Rightarrow> nat \<Rightarrow> nat \<Rightarrow> u64" where
  "slot_addr p sz i = p + of_nat (16 + i * sz)"

definition slot_at :: "memory \<Rightarrow> u64 \<Rightarrow> nat \<Rightarrow> nat \<Rightarrow> byte list" where
  "slot_at m p sz i = the (load_bytes m (slot_addr p sz i) sz)"

definition tx_list :: "memory \<Rightarrow> ipc_queue \<Rightarrow> byte list list" where
  "tx_list m q = ring_elems (slot_at m (push_ring q) (unat (elem_size q))) (unat (elem_num q))
                   (rd_idx m (pop_ring q)) (wr_idx m (push_ring q))"

definition rx_list :: "memory \<Rightarrow> ipc_queue \<Rightarrow> byte list list" where
  "rx_list m q = ring_elems (slot_at m (pop_ring q) (unat (elem_size q))) (unat (elem_num q))
                   (rd_idx m (push_ring q)) (wr_idx m (pop_ring q))"

text \<open>The queue as the remote side configures it: the same rings, reversed.\<close>

definition peer :: "ipc_queue \<Rightarrow> ipc_queue" where
  "peer q = q\<lparr>push_ring := pop_ring q, pop_ring := push_ring q\<rparr>"

definition queue_wf :: "ipc_queue \<Rightarrow> memory \<Rightarrow> bool" where
  "queue_wf q m \<longleftrightarrow>
     push_ring q \<noteq> 0 \<and> pop_ring q \<noteq> 0 \<and>
     mapped m (push_ring q) (ring_bytes q) \<and> mapped m (pop_ring q) (ring_bytes q) \<and>
     apart (push_ring q) (ring_bytes q) (pop_ring q) (ring_bytes q) \<and>
     wr_idx m (push_ring q) < unat (elem_num q) \<and> rd_idx m (push_ring q) < unat (elem_num q) \<and>
     wr_idx m (pop_ring q) < unat (elem_num q) \<and> rd_idx m (pop_ring q) < unat (elem_num q)"

definition queue_ready :: "ipc_queue \<Rightarrow> memory \<Rightarrow> bool" where
  "queue_ready q m \<longleftrightarrow> queue_wf q m \<and>
     load_u64 m (ring_sentinel (push_ring q)) = Some IPC_QUEUE_INIT_DONE \<and>
     load_u64 m (ring_sentinel (pop_ring q)) = Some IPC_QUEUE_INIT_DONE"

section \<open>Layout of a ring\<close>

lemma ring_offsets:
  "ring_sentinel p = p + of_nat 0" "ring_write p = p + of_nat 8"
  "ring_read p = p + of_nat 12" "ring_data p = p + of_nat 16"
  by (simp_all add: ring_sentinel_def ring_write_def ring_read_def ring_data_def)

lemma ring_bytes_bound: "ring_bytes q \<le> 2 ^ 32"
proof -
  have "unat (elem_num q) \<le> 2 ^ 16" "unat (elem_size q) \<le> 2 ^ 8"
    using unat_less [of "elem_num q"] unat_less [of "elem_size q"] by simp_all
  then have "unat (elem_num q) * unat (elem_size q) \<le> 2 ^ 16 * 2 ^ 8" by (rule mult_le_mono)
  then show ?thesis by (simp add: ring_bytes_def sizeof_ipc_ring_def)
qed

lemma slot_bound:
  assumes "i < unat (elem_num q)"
  shows "16 + i * unat (elem_size q) + unat (elem_size q) \<le> ring_bytes q"
proof -
  have "(i + 1) * unat (elem_size q) \<le> unat (elem_num q) * unat (elem_size q)"
    using assms by (intro mult_le_mono1) simp
  then show ?thesis by (simp add: ring_bytes_def sizeof_ipc_ring_def)
qed

lemma slot_address:
  fixes q :: ipc_queue and i :: u32
  assumes "unat i < unat (elem_num q)"
  shows "ring_data p + ucast (i * ucast (elem_size q) :: u32) = slot_addr p (unat (elem_size q)) (unat i)"
proof -
  have "16 + unat i * unat (elem_size q) \<le> 2 ^ 32"
    using slot_bound [OF assms] ring_bytes_bound [of q] by linarith
  then have "unat i * unat (elem_size q) < 2 ^ 32" by simp
  then have "unat (i * ucast (elem_size q) :: u32) = unat i * unat (elem_size q)"
    by (simp add: unat_word_ariths unat_ucast_up)
  then have "(ucast (i * ucast (elem_size q) :: u32) :: u64) = of_nat (unat i * unat (elem_size q))"
    by (metis of_nat_unat)
  then show ?thesis by (simp add: ring_data_def slot_addr_def)
qed

lemma same_ring_apart:
  "o1 + n1 \<le> o2 \<or> o2 + n2 \<le> o1 \<Longrightarrow> o1 + n1 \<le> 2 ^ 32 \<Longrightarrow> o2 + n2 \<le> 2 ^ 32 \<Longrightarrow>
   region (p + of_nat o1) n1 \<inter> region (p + of_nat o2) n2 = {}"
  using apart_offsets [of o1 n1 o2 n2 p] by (simp add: apart_def)

lemma other_ring_apart:
  "apart p k r k' \<Longrightarrow> o1 + n1 \<le> k \<Longrightarrow> o2 + n2 \<le> k' \<Longrightarrow>
   region (p + of_nat o1) n1 \<inter> region (r + of_nat o2) n2 = {}"
  using region_offset [of o1 n1 k p] region_offset [of o2 n2 k' r] by (auto simp: apart_def)

lemma mapped_sub: "mapped m p k \<Longrightarrow> o1 + n1 \<le> k \<Longrightarrow> mapped m (p + of_nat o1) n1"
  using region_offset [of o1 n1 k p] by (auto simp: mapped_iff)

lemma load_wr_idx:
  "mapped m p k \<Longrightarrow> 16 \<le> k \<Longrightarrow> load_u32 m (ring_write p) = Some (word_of_nat (wr_idx m p))"
  using mapped_sub [of m p k 8 4] load_u32_ok [of m "p + of_nat 8"]
  by (auto simp: wr_idx_def ring_offsets)

lemma load_rd_idx:
  "mapped m p k \<Longrightarrow> 16 \<le> k \<Longrightarrow> load_u32 m (ring_read p) = Some (word_of_nat (rd_idx m p))"
  using mapped_sub [of m p k 12 4] load_u32_ok [of m "p + of_nat 12"]
  by (auto simp: rd_idx_def ring_offsets)

lemma ring_bytes_ge [simp]: "16 \<le> ring_bytes q"
  by (simp add: ring_bytes_def sizeof_ipc_ring_def)

lemma ring_field_mapped:
  "mapped m p (ring_bytes q) \<Longrightarrow> o1 + n1 \<le> 16 \<Longrightarrow> mapped m (p + of_nat o1) n1"
  by (erule mapped_sub) (use ring_bytes_ge [of q] in linarith)

lemma idx_unat:
  assumes "i < unat (n :: u16)"
  shows "unat (word_of_nat i :: u32) = i"
proof -
  have "i < 2 ^ 32" using assms unat_less [of n] by simp
  then show ?thesis by (simp add: unat_of_nat take_bit_nat_eq_self)
qed

lemma idx_ge_iff: "i < unat (n :: u16) \<Longrightarrow> \<not> (ucast n :: u32) \<le> word_of_nat i"
  by (simp add: word_le_nat_alt unat_ucast_up idx_unat)

lemma idx_suc_mod:
  assumes "i < unat (n :: u16)"
  shows "(word_of_nat i + 1) mod ucast n = (word_of_nat ((i + 1) mod unat n) :: u32)"
proof (rule word_unat_eq_iff [THEN iffD2])
  have "(i + 1) mod unat n < unat n" using assms by simp
  then show "unat ((word_of_nat i + 1) mod ucast n :: u32) = unat (word_of_nat ((i + 1) mod unat n) :: u32)"
    using assms idx_unat [of "(i + 1) mod unat n" n] by (simp add: unat_word_suc_mod idx_unat)
qed

lemma idx_eq_iff:
  "i < unat (n :: u16) \<Longrightarrow> j < unat n \<Longrightarrow> (word_of_nat i :: u32) = word_of_nat j \<longleftrightarrow> i = j"
  by (metis idx_unat)

section \<open>Pushing\<close>

definition push_area :: "ipc_queue \<Rightarrow> nat \<Rightarrow> u64 set" where
  "push_area q i = region (slot_addr (push_ring q) (unat (elem_size q)) i) (unat (elem_size q))
                   \<union> region (ring_write (push_ring q)) 4"

lemma push_area_sub: "i < unat (elem_num q) \<Longrightarrow> push_area q i \<subseteq> region (push_ring q) (ring_bytes q)"
  using region_offset [of "16 + i * unat (elem_size q)" "unat (elem_size q)" "ring_bytes q" "push_ring q"]
    region_offset [of 8 4 "ring_bytes q" "push_ring q"] slot_bound [of i q] ring_bytes_ge [of q]
  by (auto simp: push_area_def ring_offsets slot_addr_def)

lemma push_run:
  assumes wf: "queue_wf q m" and len: "unat (elem_size q) \<le> length bs"
    and room: "(wr_idx m (push_ring q) + 1) mod unat (elem_num q) \<noteq> rd_idx m (pop_ring q)"
  shows "\<exists>m'. ipc_queue_push (Some q) (Some bs) m = Some (0, m') \<and>
           same_except (push_area q (wr_idx m (push_ring q))) m m' \<and>
           wr_idx m' (push_ring q) = (wr_idx m (push_ring q) + 1) mod unat (elem_num q) \<and>
           slot_at m' (push_ring q) (unat (elem_size q)) (wr_idx m (push_ring q)) = take (unat (elem_size q)) bs"
proof -
  let ?p = "push_ring q" and ?n = "elem_num q" and ?sz = "unat (elem_size q)"
  let ?w = "wr_idx m (push_ring q)" and ?r = "rd_idx m (pop_ring q)"
  let ?a = "slot_addr ?p ?sz ?w" and ?d = "take ?sz bs"
  from wf have w: "?w < unat ?n" and r: "?r < unat ?n" and mp: "mapped m ?p (ring_bytes q)"
    by (auto simp: queue_wf_def)
  have lw: "load_u32 m (ring_write ?p) = Some (word_of_nat ?w)"
    and lr: "load_u32 m (ring_read (pop_ring q)) = Some (word_of_nat ?r)"
    using wf load_wr_idx [of m ?p "ring_bytes q"] load_rd_idx [of m "pop_ring q" "ring_bytes q"]
    by (simp_all add: queue_wf_def)
  have sz64: "length ?d \<le> 2 ^ 64" using unat_less [of "elem_size q"] by simp
  have d: "length ?d = ?sz" using len by simp
  have "mapped m ?a (length ?d)"
    unfolding slot_addr_def d by (rule mapped_sub [OF mp slot_bound [OF w]])
  then obtain m1 where m1: "store_bytes ?a ?d m = Some m1"
    using store_bytes_Some_iff by blast
  have se1: "same_except (region ?a ?sz) m m1"
    using store_bytes_same_except [OF m1 sz64] unfolding d .
  have "mapped m1 (ring_write ?p) 4"
    using ring_field_mapped [OF mp, of 8 4] se1 by (simp add: ring_offsets same_except_mapped)
  then obtain m2 where m2: "store_u32 (ring_write ?p) (word_of_nat ((?w + 1) mod unat ?n)) m1 = Some m2"
    using store_u32_ok by blast
  have se2: "same_except (region (ring_write ?p) 4) m1 m2" by (rule store_u32_same_except [OF m2])
  have "same_except (push_area q ?w) m m2"
    using same_except_trans [OF same_except_mono [OF se1] same_except_mono [OF se2]]
    by (simp add: push_area_def)
  moreover have "wr_idx m2 ?p = (?w + 1) mod unat ?n"
    using load_store_u32 [OF m2] idx_unat [of "(?w + 1) mod unat ?n" ?n] w by (simp add: wr_idx_def)
  moreover have "slot_at m2 ?p ?sz ?w = ?d"
  proof -
    have "load_bytes m2 ?a ?sz = load_bytes m1 ?a ?sz"
      using slot_bound [OF w] ring_bytes_bound [of q]
      unfolding slot_addr_def ring_offsets
      by (intro load_bytes_same_except [OF se2 [unfolded ring_offsets]] same_ring_apart) simp_all
    then show ?thesis using load_store_same [OF m1 sz64, unfolded d] by (simp add: slot_at_def)
  qed
  moreover have "ipc_queue_push (Some q) (Some bs) m = Some (0, m2)"
  proof -
    have "(word_of_nat ((?w + 1) mod unat ?n) :: u32) \<noteq> word_of_nat ?r"
      using room r w by (subst idx_eq_iff [of _ ?n]) simp_all
    then show ?thesis
      using wf len lw lr m1 m2 w r
      by (simp add: ipc_queue_push_def queue_wf_def idx_ge_iff idx_suc_mod slot_address idx_unat)
  qed
  ultimately show ?thesis by blast
qed

lemma push_full:
  assumes wf: "queue_wf q m"
    and full: "(wr_idx m (push_ring q) + 1) mod unat (elem_num q) = rd_idx m (pop_ring q)"
  shows "ipc_queue_push (Some q) (Some bs) m = Some (- ENOMEM, m)"
proof -
  let ?n = "elem_num q"
  from wf have w: "wr_idx m (push_ring q) < unat ?n" and r: "rd_idx m (pop_ring q) < unat ?n"
    by (auto simp: queue_wf_def)
  show ?thesis
    using wf w r full load_wr_idx [of m "push_ring q" "ring_bytes q"] load_rd_idx [of m "pop_ring q" "ring_bytes q"]
    by (simp add: ipc_queue_push_def queue_wf_def idx_ge_iff idx_suc_mod)
qed

lemma slots_ordered:
  fixes i j sz :: nat
  assumes "j \<noteq> i"
  shows "j * sz + sz \<le> i * sz \<or> i * sz + sz \<le> j * sz"
  using assms mult_le_mono1 [of "Suc j" i sz] mult_le_mono1 [of "Suc i" j sz] by (cases "j < i") simp_all

text \<open>What a push leaves alone: every other field and slot of both rings.\<close>

lemma push_area_apart:
  assumes wf: "queue_wf q m" and i: "i < unat (elem_num q)"
  shows "region (ring_sentinel (push_ring q)) 8 \<inter> push_area q i = {}"
    and "region (ring_read (push_ring q)) 4 \<inter> push_area q i = {}"
    and "\<And>j. j < unat (elem_num q) \<Longrightarrow> j \<noteq> i \<Longrightarrow>
          region (slot_addr (push_ring q) (unat (elem_size q)) j) (unat (elem_size q)) \<inter> push_area q i = {}"
    and "\<And>k n. k + n \<le> ring_bytes q \<Longrightarrow> region (pop_ring q + of_nat k) n \<inter> push_area q i = {}"
proof -
  let ?p = "push_ring q" and ?sz = "unat (elem_size q)"
  have b: "16 + i * ?sz + ?sz \<le> 2 ^ 32" using slot_bound [OF i] ring_bytes_bound [of q] by linarith
  show "region (ring_sentinel ?p) 8 \<inter> push_area q i = {}"
    using same_ring_apart [of 0 8 "16 + i * ?sz" ?sz ?p] same_ring_apart [of 0 8 8 4 ?p] b
    by (simp add: push_area_def slot_addr_def ring_offsets Int_Un_distrib)
  show "region (ring_read ?p) 4 \<inter> push_area q i = {}"
    using same_ring_apart [of 12 4 "16 + i * ?sz" ?sz ?p] same_ring_apart [of 12 4 8 4 ?p] b
    by (simp add: push_area_def slot_addr_def ring_offsets Int_Un_distrib)
  show "region (slot_addr ?p ?sz j) ?sz \<inter> push_area q i = {}" if j: "j < unat (elem_num q)" "j \<noteq> i" for j
  proof -
    have bj: "16 + j * ?sz + ?sz \<le> 2 ^ 32" using slot_bound [OF j(1)] ring_bytes_bound [of q] by linarith
    have "16 + j * ?sz + ?sz \<le> 16 + i * ?sz \<or> 16 + i * ?sz + ?sz \<le> 16 + j * ?sz"
      using slots_ordered [OF j(2), of ?sz] by simp
    from same_ring_apart [OF this bj b, of ?p] same_ring_apart [of "16 + j * ?sz" ?sz 8 4 ?p] bj
    show ?thesis by (simp add: push_area_def slot_addr_def ring_offsets Int_Un_distrib)
  qed
  show "region (pop_ring q + of_nat k) n \<inter> push_area q i = {}" if "k + n \<le> ring_bytes q" for k n
    using wf that region_offset [of k n "ring_bytes q" "pop_ring q"] push_area_sub [OF i]
    by (auto simp: queue_wf_def apart_def)
qed

lemma push_effect:
  assumes wf: "queue_wf q m" and se: "same_except (push_area q i) m m'" and i: "i < unat (elem_num q)"
  shows "rd_idx m' (push_ring q) = rd_idx m (push_ring q)"
    and "wr_idx m' (pop_ring q) = wr_idx m (pop_ring q)"
    and "rd_idx m' (pop_ring q) = rd_idx m (pop_ring q)"
    and "\<And>j. j < unat (elem_num q) \<Longrightarrow> j \<noteq> i \<Longrightarrow>
          slot_at m' (push_ring q) (unat (elem_size q)) j = slot_at m (push_ring q) (unat (elem_size q)) j"
    and "\<And>j. j < unat (elem_num q) \<Longrightarrow>
          slot_at m' (pop_ring q) (unat (elem_size q)) j = slot_at m (pop_ring q) (unat (elem_size q)) j"
    and "load_u64 m' (ring_sentinel (push_ring q)) = load_u64 m (ring_sentinel (push_ring q))"
    and "load_u64 m' (ring_sentinel (pop_ring q)) = load_u64 m (ring_sentinel (pop_ring q))"
proof -
  note ap = push_area_apart [OF wf i]
  have ap16: "region (pop_ring q + of_nat k) n \<inter> push_area q i = {}" if "k + n \<le> 16" for k n
    using ap(4) [of k n] that ring_bytes_ge [of q] by linarith
  show "rd_idx m' (push_ring q) = rd_idx m (push_ring q)"
    by (simp add: rd_idx_def load_u32_same_except [OF se ap(2)])
  show "wr_idx m' (pop_ring q) = wr_idx m (pop_ring q)"
    unfolding wr_idx_def ring_offsets by (subst load_u32_same_except [OF se ap16]) simp_all
  show "rd_idx m' (pop_ring q) = rd_idx m (pop_ring q)"
    unfolding rd_idx_def ring_offsets by (subst load_u32_same_except [OF se ap16]) simp_all
  show "slot_at m' (push_ring q) (unat (elem_size q)) j = slot_at m (push_ring q) (unat (elem_size q)) j"
    if "j < unat (elem_num q)" "j \<noteq> i" for j
    by (simp add: slot_at_def load_bytes_same_except [OF se ap(3) [OF that]])
  show "slot_at m' (pop_ring q) (unat (elem_size q)) j = slot_at m (pop_ring q) (unat (elem_size q)) j"
    if "j < unat (elem_num q)" for j
    unfolding slot_at_def slot_addr_def
    by (subst load_bytes_same_except [OF se ap(4) [OF slot_bound [OF that]]]) simp
  show "load_u64 m' (ring_sentinel (push_ring q)) = load_u64 m (ring_sentinel (push_ring q))"
    by (rule load_u64_same_except [OF se ap(1)])
  show "load_u64 m' (ring_sentinel (pop_ring q)) = load_u64 m (ring_sentinel (pop_ring q))"
    unfolding ring_offsets by (rule load_u64_same_except [OF se ap16]) simp
qed

text \<open>The abstract effect of a push, in the three forms the clients need.\<close>

lemma push_ok:
  assumes wf: "queue_wf q m" and len: "unat (elem_size q) \<le> length bs"
    and room: "length (tx_list m q) + 1 < unat (elem_num q)"
  shows "\<exists>m'. ipc_queue_push (Some q) (Some bs) m = Some (0, m') \<and>
           tx_list m' q = tx_list m q @ [take (unat (elem_size q)) bs] \<and> rx_list m' q = rx_list m q \<and>
           queue_wf q m' \<and> (queue_ready q m \<longrightarrow> queue_ready q m') \<and>
           same_except (push_area q (wr_idx m (push_ring q))) m m'"
proof -
  let ?n = "unat (elem_num q)" and ?w = "wr_idx m (push_ring q)" and ?r = "rd_idx m (pop_ring q)"
  from wf have w: "?w < ?n" and r: "?r < ?n" by (auto simp: queue_wf_def)
  have nf: "(?w + 1) mod ?n \<noteq> ?r"
    using room ring_full_iff [OF r w] by (simp add: tx_list_def)
  from push_run [OF wf len nf] obtain m' where
    run: "ipc_queue_push (Some q) (Some bs) m = Some (0, m')"
    and se: "same_except (push_area q ?w) m m'" and w': "wr_idx m' (push_ring q) = (?w + 1) mod ?n"
    and sl: "slot_at m' (push_ring q) (unat (elem_size q)) ?w = take (unat (elem_size q)) bs" by blast
  note eff = push_effect [OF wf se w]
  have "tx_list m' q = tx_list m q @ [take (unat (elem_size q)) bs]"
    unfolding tx_list_def w' eff(3) by (intro ring_elems_push r w nf eff(4) sl)
  moreover have "rx_list m' q = rx_list m q"
  proof -
    have "wr_idx m (pop_ring q) < ?n" "rd_idx m (push_ring q) < ?n" using wf by (auto simp: queue_wf_def)
    then show ?thesis unfolding rx_list_def eff(1,2) by (intro ring_elems_cong eff(5))
  qed
  moreover have "queue_wf q m'"
    using wf w se eff(1-3) w' by (simp add: queue_wf_def same_except_mapped [OF se])
  ultimately show ?thesis
    using run se eff(6,7) by (auto simp: queue_ready_def)
qed

lemma push_full_list:
  assumes wf: "queue_wf q m" and full: "length (tx_list m q) + 1 = unat (elem_num q)"
  shows "ipc_queue_push (Some q) (Some bs) m = Some (- ENOMEM, m)"
proof -
  from wf have "wr_idx m (push_ring q) < unat (elem_num q)" "rd_idx m (pop_ring q) < unat (elem_num q)"
    by (auto simp: queue_wf_def)
  with full have "(wr_idx m (push_ring q) + 1) mod unat (elem_num q) = rd_idx m (pop_ring q)"
    by (subst ring_full_iff) (simp_all add: tx_list_def)
  then show ?thesis by (rule push_full [OF wf])
qed

lemma tx_list_bound: "queue_wf q m \<Longrightarrow> length (tx_list m q) + 1 \<le> unat (elem_num q)"
  using ring_count_less [of "rd_idx m (pop_ring q)" "unat (elem_num q)" "wr_idx m (push_ring q)"]
  by (simp add: queue_wf_def tx_list_def)

lemma rx_list_bound: "queue_wf q m \<Longrightarrow> length (rx_list m q) + 1 \<le> unat (elem_num q)"
  using ring_count_less [of "rd_idx m (push_ring q)" "unat (elem_num q)" "wr_idx m (pop_ring q)"]
  by (simp add: queue_wf_def rx_list_def)

section \<open>Popping\<close>

definition pop_area :: "ipc_queue \<Rightarrow> u64 set" where
  "pop_area q = region (ring_read (push_ring q)) 4"

lemma pop_area_sub: "pop_area q \<subseteq> region (push_ring q) (ring_bytes q)"
  unfolding pop_area_def ring_offsets by (rule region_offset) (use ring_bytes_ge [of q] in linarith)

lemma pop_run:
  assumes rdy: "queue_ready q m" and len: "unat (elem_size q) \<le> length old"
    and ne: "rd_idx m (push_ring q) \<noteq> wr_idx m (pop_ring q)"
  shows "\<exists>m'. ipc_queue_pop (Some q) (Some old) m =
             Some (0, Some (slot_at m (pop_ring q) (unat (elem_size q)) (rd_idx m (push_ring q))
                            @ drop (unat (elem_size q)) old), m') \<and>
           same_except (pop_area q) m m' \<and>
           rd_idx m' (push_ring q) = (rd_idx m (push_ring q) + 1) mod unat (elem_num q)"
proof -
  let ?p = "push_ring q" and ?n = "elem_num q" and ?sz = "unat (elem_size q)"
  let ?w = "wr_idx m (pop_ring q)" and ?r = "rd_idx m (push_ring q)"
  from rdy have wf: "queue_wf q m" by (simp add: queue_ready_def)
  from wf have w: "?w < unat ?n" and r: "?r < unat ?n" and mp: "mapped m ?p (ring_bytes q)"
    and mr: "mapped m (pop_ring q) (ring_bytes q)" by (auto simp: queue_wf_def)
  have "mapped m (ring_read ?p) 4" unfolding ring_offsets by (rule ring_field_mapped [OF mp]) simp
  then obtain m' where m': "store_u32 (ring_read ?p) (word_of_nat ((?r + 1) mod unat ?n)) m = Some m'"
    using store_u32_ok by blast
  have "mapped m (slot_addr (pop_ring q) ?sz ?r) ?sz"
    unfolding slot_addr_def by (rule mapped_sub [OF mr slot_bound [OF r]])
  then have ld: "load_bytes m (slot_addr (pop_ring q) ?sz ?r) ?sz = Some (slot_at m (pop_ring q) ?sz ?r)"
    using load_bytes_Some_iff [of m "slot_addr (pop_ring q) ?sz ?r" ?sz] by (auto simp: slot_at_def)
  have "rd_idx m' ?p = (?r + 1) mod unat ?n"
    using load_store_u32 [OF m'] idx_unat [of "(?r + 1) mod unat ?n" ?n] r by (simp add: rd_idx_def)
  moreover have "same_except (pop_area q) m m'"
    using store_u32_same_except [OF m'] by (simp add: pop_area_def)
  moreover have "ipc_queue_pop (Some q) (Some old) m = Some (0, Some (slot_at m (pop_ring q) ?sz ?r @ drop ?sz old), m')"
    using rdy wf len ne w r m' ld load_wr_idx [OF mr] load_rd_idx [OF mp] idx_eq_iff [OF r w]
    by (simp add: ipc_queue_pop_def ipc_queue_check_integrity_def queue_ready_def queue_wf_def
        idx_ge_iff idx_suc_mod slot_address idx_unat)
  ultimately show ?thesis by blast
qed

lemma pop_area_apart:
  assumes wf: "queue_wf q m"
  shows "region (ring_sentinel (push_ring q)) 8 \<inter> pop_area q = {}"
    and "region (ring_write (push_ring q)) 4 \<inter> pop_area q = {}"
    and "\<And>j. j < unat (elem_num q) \<Longrightarrow>
          region (slot_addr (push_ring q) (unat (elem_size q)) j) (unat (elem_size q)) \<inter> pop_area q = {}"
    and "\<And>k n. k + n \<le> ring_bytes q \<Longrightarrow> region (pop_ring q + of_nat k) n \<inter> pop_area q = {}"
proof -
  let ?p = "push_ring q" and ?sz = "unat (elem_size q)"
  show "region (ring_sentinel ?p) 8 \<inter> pop_area q = {}" "region (ring_write ?p) 4 \<inter> pop_area q = {}"
    unfolding pop_area_def ring_offsets by (rule same_ring_apart; simp)+
  show "region (slot_addr ?p ?sz j) ?sz \<inter> pop_area q = {}" if j: "j < unat (elem_num q)" for j
    unfolding pop_area_def ring_offsets slot_addr_def
    by (rule same_ring_apart) (use slot_bound [OF j] ring_bytes_bound [of q] in linarith)+
  show "region (pop_ring q + of_nat k) n \<inter> pop_area q = {}" if "k + n \<le> ring_bytes q" for k n
    using wf that region_offset [of k n "ring_bytes q" "pop_ring q"] pop_area_sub [of q]
    by (auto simp: queue_wf_def apart_def)
qed

lemma pop_effect:
  assumes wf: "queue_wf q m" and se: "same_except (pop_area q) m m'"
  shows "wr_idx m' (push_ring q) = wr_idx m (push_ring q)"
    and "wr_idx m' (pop_ring q) = wr_idx m (pop_ring q)"
    and "rd_idx m' (pop_ring q) = rd_idx m (pop_ring q)"
    and "\<And>j. j < unat (elem_num q) \<Longrightarrow>
          slot_at m' (push_ring q) (unat (elem_size q)) j = slot_at m (push_ring q) (unat (elem_size q)) j"
    and "\<And>j. j < unat (elem_num q) \<Longrightarrow>
          slot_at m' (pop_ring q) (unat (elem_size q)) j = slot_at m (pop_ring q) (unat (elem_size q)) j"
    and "load_u64 m' (ring_sentinel (push_ring q)) = load_u64 m (ring_sentinel (push_ring q))"
    and "load_u64 m' (ring_sentinel (pop_ring q)) = load_u64 m (ring_sentinel (pop_ring q))"
proof -
  note ap = pop_area_apart [OF wf]
  have ap16: "region (pop_ring q + of_nat k) n \<inter> pop_area q = {}" if "k + n \<le> 16" for k n
    using ap(4) [of k n] that ring_bytes_ge [of q] by linarith
  show "wr_idx m' (push_ring q) = wr_idx m (push_ring q)"
    by (simp add: wr_idx_def load_u32_same_except [OF se ap(2)])
  show "wr_idx m' (pop_ring q) = wr_idx m (pop_ring q)"
    unfolding wr_idx_def ring_offsets by (subst load_u32_same_except [OF se ap16]) simp_all
  show "rd_idx m' (pop_ring q) = rd_idx m (pop_ring q)"
    unfolding rd_idx_def ring_offsets by (subst load_u32_same_except [OF se ap16]) simp_all
  show "slot_at m' (push_ring q) (unat (elem_size q)) j = slot_at m (push_ring q) (unat (elem_size q)) j"
    if "j < unat (elem_num q)" for j
    by (simp add: slot_at_def load_bytes_same_except [OF se ap(3) [OF that]])
  show "slot_at m' (pop_ring q) (unat (elem_size q)) j = slot_at m (pop_ring q) (unat (elem_size q)) j"
    if "j < unat (elem_num q)" for j
    unfolding slot_at_def slot_addr_def
    by (subst load_bytes_same_except [OF se ap(4) [OF slot_bound [OF that]]]) simp
  show "load_u64 m' (ring_sentinel (push_ring q)) = load_u64 m (ring_sentinel (push_ring q))"
    by (rule load_u64_same_except [OF se ap(1)])
  show "load_u64 m' (ring_sentinel (pop_ring q)) = load_u64 m (ring_sentinel (pop_ring q))"
    unfolding ring_offsets by (rule load_u64_same_except [OF se ap16]) simp
qed

lemma pop_ok:
  assumes rdy: "queue_ready q m" and len: "unat (elem_size q) \<le> length old"
    and ne: "rx_list m q = x # xs"
  shows "\<exists>m'. ipc_queue_pop (Some q) (Some old) m = Some (0, Some (x @ drop (unat (elem_size q)) old), m') \<and>
           rx_list m' q = xs \<and> tx_list m' q = tx_list m q \<and> queue_ready q m' \<and>
           same_except (pop_area q) m m'"
proof -
  let ?n = "unat (elem_num q)" and ?w = "wr_idx m (pop_ring q)" and ?r = "rd_idx m (push_ring q)"
  let ?sz = "unat (elem_size q)"
  from rdy have wf: "queue_wf q m" by (simp add: queue_ready_def)
  then have w: "?w < ?n" and r: "?r < ?n" by (auto simp: queue_wf_def)
  have "?r \<noteq> ?w" using ne ring_elems_Nil_iff [OF r w] by (metis list.distinct(1) rx_list_def)
  note pop = ring_elems_pop [OF r w this] and run = pop_run [OF rdy len this]
  have x: "slot_at m (pop_ring q) ?sz ?r = x"
    and xs: "ring_elems (slot_at m (pop_ring q) ?sz) ?n ((?r + 1) mod ?n) ?w = xs"
    using ne pop [of "slot_at m (pop_ring q) ?sz"] by (simp_all add: rx_list_def)
  from run x obtain m' where
    run: "ipc_queue_pop (Some q) (Some old) m = Some (0, Some (x @ drop ?sz old), m')"
    and se: "same_except (pop_area q) m m'" and r': "rd_idx m' (push_ring q) = (?r + 1) mod ?n" by blast
  note eff = pop_effect [OF wf se]
  have "rx_list m' q = xs"
    unfolding xs [symmetric] rx_list_def r' eff(2)
    by (rule ring_elems_cong) (use r w eff(5) in auto)
  moreover have "tx_list m' q = tx_list m q"
    unfolding tx_list_def eff(1,3)
    by (rule ring_elems_cong) (use wf eff(4) in \<open>auto simp: queue_wf_def\<close>)
  moreover have "queue_ready q m'"
    using rdy r se eff(1-3) r' eff(6,7)
    by (simp add: queue_ready_def queue_wf_def same_except_mapped [OF se])
  ultimately show ?thesis using run se by blast
qed

lemma pop_empty:
  assumes rdy: "queue_ready q m" and e: "rx_list m q = []"
  shows "ipc_queue_pop (Some q) (Some old) m = Some (- ENOBUFS, Some old, m)"
proof -
  let ?n = "unat (elem_num q)" and ?w = "wr_idx m (pop_ring q)" and ?r = "rd_idx m (push_ring q)"
  from rdy have w: "?w < ?n" and r: "?r < ?n" by (auto simp: queue_wf_def queue_ready_def)
  have "?r = ?w" using e ring_elems_Nil_iff [OF r w] by (metis rx_list_def)
  then show ?thesis
    using rdy w load_wr_idx [of m "pop_ring q" "ring_bytes q"] load_rd_idx [of m "push_ring q" "ring_bytes q"]
    by (simp add: ipc_queue_pop_def ipc_queue_check_integrity_def queue_ready_def queue_wf_def idx_ge_iff)
qed

section \<open>The peer's view\<close>

lemma peer_simps [simp]:
  "push_ring (peer q) = pop_ring q" "pop_ring (peer q) = push_ring q"
  "elem_num (peer q) = elem_num q" "elem_size (peer q) = elem_size q" "ring_bytes (peer q) = ring_bytes q"
  by (simp_all add: peer_def ring_bytes_def)

lemma peer_lists [simp]: "rx_list m (peer q) = tx_list m q" "tx_list m (peer q) = rx_list m q"
  by (simp_all add: rx_list_def tx_list_def)

lemma peer_wf [simp]: "queue_wf (peer q) m = queue_wf q m" "queue_ready (peer q) m = queue_ready q m"
  by (auto simp: queue_wf_def queue_ready_def dest: apart_sym)

text \<open>The queue that initialisation builds: every field is overwritten.\<close>

definition queue_of :: "ipc_queue_data \<Rightarrow> ipc_queue" where
  "queue_of qd = \<lparr>elem_size = qd_elem_size qd, elem_num = qd_elem_num qd + 1,
                  push_ring = qd_push_addr qd, pop_ring = qd_pop_addr qd\<rparr>"

lemma init_fields:
  "(let q' = q\<lparr>elem_num := qd_elem_num qd + 1, elem_size := qd_elem_size qd,
               push_ring := qd_push_addr qd, pop_ring := qd_pop_addr qd\<rparr> in f q') = f (queue_of qd)"
  by (cases q) (simp add: queue_of_def)

text \<open>The arguments initialisation accepts, and initialisation in terms of both.\<close>

definition qd_ok :: "ipc_queue_data \<Rightarrow> bool" where
  "qd_ok qd \<longleftrightarrow> qd_push_addr qd \<noteq> 0 \<and> qd_pop_addr qd \<noteq> 0 \<and> qd_elem_num qd \<noteq> 0 \<and> qd_elem_size qd \<noteq> 0 \<and>
     qd_elem_size qd mod 8 = 0 \<and> qd_queue_type qd \<in> {IPC_SHM_CHANNEL_QUEUE, IPC_SHM_POOL_QUEUE}"

lemma queue_of_sel [simp]:
  "elem_size (queue_of qd) = qd_elem_size qd" "elem_num (queue_of qd) = qd_elem_num qd + 1"
  "push_ring (queue_of qd) = qd_push_addr qd" "pop_ring (queue_of qd) = qd_pop_addr qd"
  by (simp_all add: queue_of_def)

lemma init_eq:
  "ipc_queue_init (Some q) qd m =
     (if qd_ok qd
      then do { (err, m') \<leftarrow> ipc_queue_sync_index (queue_of qd) (qd_queue_type qd) m; Some (err, Some (queue_of qd), m') }
      else Some (- EINVAL, Some q, m))"
  unfolding ipc_queue_init_def option.case init_fields qd_ok_def by auto

section \<open>Interference freedom\<close>

text \<open>
  Whatever the state of the rings, an operation that returns has written only to the local
  (push) ring. These hold with no well-formedness assumption at all.
\<close>

lemma push_local:
  assumes "ipc_queue_push (Some q) buf m = Some (rc, m')"
  shows "same_except (region (push_ring q) (ring_bytes q)) m m'"
proof (cases buf)
  case None
  with assms show ?thesis by (simp add: ipc_queue_push_def)
next
  case (Some bs)
  show ?thesis
  proof (cases "m' = m")
    case False
    let ?sz = "unat (elem_size q)"
    from assms False Some obtain w r m1 where
      w: "\<not> w \<ge> ucast (elem_num q)" and len: "?sz \<le> length bs"
      and m1: "store_bytes (ring_data (push_ring q) + ucast (w * ucast (elem_size q) :: u32)) (take ?sz bs) m = Some m1"
      and m2: "store_u32 (ring_write (push_ring q)) r m1 = Some m'"
      by (auto simp: ipc_queue_push_def not_less split: if_splits Option.bind_splits)
    from w have i: "unat w < unat (elem_num q)" by (simp add: word_le_nat_alt unat_ucast_up)
    have d: "length (take ?sz bs) = ?sz" using len by simp
    have s64: "length (take ?sz bs) \<le> 2 ^ 64" using unat_less [of "elem_size q"] by simp
    have "same_except (push_area q (unat w)) m m1"
      using store_bytes_same_except [OF m1 s64] unfolding d slot_address [OF i]
      by (rule same_except_mono) (simp add: push_area_def)
    moreover have "same_except (push_area q (unat w)) m1 m'"
      using store_u32_same_except [OF m2] by (rule same_except_mono) (simp add: push_area_def)
    ultimately have "same_except (push_area q (unat w)) m m'" by (rule same_except_trans)
    then show ?thesis by (rule same_except_mono) (rule push_area_sub [OF i])
  qed simp
qed

lemma pop_local:
  assumes "ipc_queue_pop (Some q) buf m = Some (rc, buf', m')"
  shows "same_except (region (push_ring q) (ring_bytes q)) m m'"
proof (cases "m' = m")
  case False
  with assms obtain r where "store_u32 (ring_read (push_ring q)) r m = Some m'"
    by (auto simp: ipc_queue_pop_def split: option.splits if_splits Option.bind_splits)
  then have "same_except (pop_area q) m m'" unfolding pop_area_def by (rule store_u32_same_except)
  then show ?thesis by (rule same_except_mono) (rule pop_area_sub)
qed simp

lemma header_sub:
  "region (ring_sentinel p) 8 \<subseteq> region p sizeof_ipc_ring" "region (ring_write p) 4 \<subseteq> region p sizeof_ipc_ring"
  "region (ring_read p) 4 \<subseteq> region p sizeof_ipc_ring"
  unfolding ring_offsets sizeof_ipc_ring_def by (rule region_offset; simp)+

text \<open>Initialisation and release both rewrite the three header fields of the local ring.\<close>

lemma header_stores:
  assumes s: "store_u64 (ring_sentinel p) a m = Some m1"
    and w: "store_u32 (ring_write p) b m1 = Some m2" and r: "store_u32 (ring_read p) c m2 = Some m'"
  shows "same_except (region p sizeof_ipc_ring) m m'"
    and "load_u64 m' (ring_sentinel p) = Some a"
    and "load_u32 m' (ring_write p) = Some b" and "load_u32 m' (ring_read p) = Some c"
proof -
  note se = store_u64_same_except [OF s] store_u32_same_except [OF w] store_u32_same_except [OF r]
  show "same_except (region p sizeof_ipc_ring) m m'"
    using se header_sub [of p] by (meson same_except_mono same_except_trans)
  have "region (ring_sentinel p) 8 \<inter> region (ring_write p) 4 = {}"
    "region (ring_sentinel p) 8 \<inter> region (ring_read p) 4 = {}"
    "region (ring_write p) 4 \<inter> region (ring_read p) 4 = {}"
    unfolding ring_offsets by (rule same_ring_apart; simp)+
  then show "load_u64 m' (ring_sentinel p) = Some a" "load_u32 m' (ring_write p) = Some b"
    using load_store_u64 [OF s] load_store_u32 [OF w] load_u64_same_except [OF se(2)]
      load_u64_same_except [OF se(3)] load_u32_same_except [OF se(3)] by simp_all
  show "load_u32 m' (ring_read p) = Some c" by (rule load_store_u32 [OF r])
qed

lemma sync_local:
  assumes "ipc_queue_sync_index q t m = Some (rc, m')"
  shows "same_except (region (push_ring q) sizeof_ipc_ring) m m'"
proof (cases "m' = m")
  case False
  with assms obtain m1 m2 v w where
    "store_u64 (ring_sentinel (push_ring q)) IPC_QUEUE_INIT_IN_PROGRESS m = Some m1"
    "store_u32 (ring_write (push_ring q)) v m1 = Some m2"
    "store_u32 (ring_read (push_ring q)) w m2 = Some m'"
    by (auto simp: ipc_queue_sync_index_def split: if_splits Option.bind_splits)
  then show ?thesis by (rule header_stores)
qed simp

lemma init_local:
  assumes "ipc_queue_init (Some q) qd m = Some (rc, q', m')"
  shows "same_except (region (qd_push_addr qd) sizeof_ipc_ring) m m'"
proof (cases "m' = m")
  case False
  with assms have "ipc_queue_sync_index (queue_of qd) (qd_queue_type qd) m = Some (rc, m')"
    by (auto simp: init_eq split: if_splits Option.bind_splits)
  then show ?thesis using sync_local [of "queue_of qd"] by simp
qed simp

lemma free_local:
  assumes "ipc_queue_free (Some q) m = Some (q', m')"
  shows "same_except (region (push_ring q) sizeof_ipc_ring) m m'"
proof (cases "m' = m")
  case False
  with assms obtain m1 m2 where
    "store_u64 (ring_sentinel (push_ring q)) 0 m = Some m1"
    "store_u32 (ring_write (push_ring q)) 0 m1 = Some m2"
    "store_u32 (ring_read (push_ring q)) 0 m2 = Some m'"
    by (auto simp: ipc_queue_free_def split: if_splits Option.bind_splits)
  then show ?thesis by (rule header_stores)
qed simp

section \<open>Initialisation\<close>

text \<open>
  The part of well-formedness that initialisation needs of its arguments: two mapped, disjoint
  rings of the configured size.
\<close>

definition rings_mapped :: "ipc_queue \<Rightarrow> memory \<Rightarrow> bool" where
  "rings_mapped q m \<longleftrightarrow> push_ring q \<noteq> 0 \<and> pop_ring q \<noteq> 0 \<and>
     mapped m (push_ring q) (ring_bytes q) \<and> mapped m (pop_ring q) (ring_bytes q) \<and>
     apart (push_ring q) (ring_bytes q) (pop_ring q) (ring_bytes q)"

lemma header_apart_pop:
  assumes "rings_mapped q m" and "k + n \<le> ring_bytes q"
  shows "region (pop_ring q + of_nat k) n \<inter> region (push_ring q) sizeof_ipc_ring = {}"
proof -
  have "region (push_ring q) sizeof_ipc_ring \<subseteq> region (push_ring q) (ring_bytes q)"
    by (rule region_mono) (simp add: sizeof_ipc_ring_def)
  then show ?thesis
    using assms region_offset [of k n "ring_bytes q" "pop_ring q"] by (auto simp: rings_mapped_def apart_def)
qed

lemma header_effect:
  assumes rm: "rings_mapped q m" and se: "same_except (region (push_ring q) sizeof_ipc_ring) m m'"
  shows "wr_idx m' (pop_ring q) = wr_idx m (pop_ring q)"
    and "rd_idx m' (pop_ring q) = rd_idx m (pop_ring q)"
    and "load_u64 m' (ring_sentinel (pop_ring q)) = load_u64 m (ring_sentinel (pop_ring q))"
    and "rings_mapped q m'"
    and "\<And>j. j < unat (elem_num q) \<Longrightarrow>
          slot_at m' (pop_ring q) (unat (elem_size q)) j = slot_at m (pop_ring q) (unat (elem_size q)) j"
proof -
  have ap: "region (pop_ring q + of_nat k) n \<inter> region (push_ring q) sizeof_ipc_ring = {}" if "k + n \<le> 16" for k n
    using header_apart_pop [OF rm, of k n] that ring_bytes_ge [of q] by linarith
  show "wr_idx m' (pop_ring q) = wr_idx m (pop_ring q)"
    unfolding wr_idx_def ring_offsets by (subst load_u32_same_except [OF se ap]) simp_all
  show "rd_idx m' (pop_ring q) = rd_idx m (pop_ring q)"
    unfolding rd_idx_def ring_offsets by (subst load_u32_same_except [OF se ap]) simp_all
  show "load_u64 m' (ring_sentinel (pop_ring q)) = load_u64 m (ring_sentinel (pop_ring q))"
    unfolding ring_offsets by (rule load_u64_same_except [OF se ap]) simp
  show "rings_mapped q m'" using rm by (simp add: rings_mapped_def same_except_mapped [OF se])
  show "slot_at m' (pop_ring q) (unat (elem_size q)) j = slot_at m (pop_ring q) (unat (elem_size q)) j"
    if "j < unat (elem_num q)" for j
    unfolding slot_at_def slot_addr_def
    by (subst load_bytes_same_except [OF se header_apart_pop [OF rm slot_bound [OF that]]]) simp
qed

text \<open>The three outcomes of index synchronisation.\<close>

lemma sync_busy:
  "load_u64 m (ring_sentinel (pop_ring q)) = Some IPC_QUEUE_INIT_IN_PROGRESS \<Longrightarrow>
   ipc_queue_sync_index q t m = Some (- EAGAIN, m)"
  by (simp add: ipc_queue_sync_index_def)

lemma header_stores_ok:
  assumes "mapped m p (ring_bytes q)"
  obtains m1 where "store_u64 (ring_sentinel p) a m = Some m1"
    and "\<And>b. \<exists>m2. store_u32 (ring_write p) b m1 = Some m2 \<and> (\<forall>c. \<exists>m'. store_u32 (ring_read p) c m2 = Some m')"
proof -
  from assms have mp: "mapped m (ring_sentinel p) 8" "mapped m (ring_write p) 4" "mapped m (ring_read p) 4"
    unfolding ring_offsets by (rule ring_field_mapped; simp)+
  obtain m1 where m1: "store_u64 (ring_sentinel p) a m = Some m1" using store_u64_ok [OF mp(1)] by blast
  have "\<exists>m2. store_u32 (ring_write p) b m1 = Some m2 \<and> (\<forall>c. \<exists>m'. store_u32 (ring_read p) c m2 = Some m')" for b
  proof -
    obtain m2 where m2: "store_u32 (ring_write p) b m1 = Some m2"
      using store_u32_ok [of m1] mp(2) same_except_mapped [OF store_u64_same_except [OF m1]] by blast
    moreover have "mapped m2 (ring_read p) 4"
      using mp(3) same_except_mapped [OF store_u64_same_except [OF m1]]
        same_except_mapped [OF store_u32_same_except [OF m2]] by blast
    ultimately show ?thesis using store_u32_ok by blast
  qed
  with m1 show ?thesis by (rule that)
qed

lemma sync_run:
  assumes rm: "rings_mapped q m" and s: "load_u64 m (ring_sentinel (pop_ring q)) = Some s"
    and np: "s \<noteq> IPC_QUEUE_INIT_IN_PROGRESS" and n: "elem_num q \<noteq> 0"
    and wv: "wr_idx m (pop_ring q) < unat (elem_num q)"
  shows "\<exists>m'. ipc_queue_sync_index q t m = Some (0, m') \<and>
           same_except (region (push_ring q) sizeof_ipc_ring) m m' \<and>
           load_u64 m' (ring_sentinel (push_ring q)) = Some IPC_QUEUE_INIT_IN_PROGRESS \<and>
           wr_idx m' (push_ring q) = (if s = IPC_QUEUE_INIT_DONE then rd_idx m (pop_ring q) else 0) \<and>
           rd_idx m' (push_ring q) =
             (if s \<noteq> IPC_QUEUE_INIT_DONE then 0
              else if t = IPC_SHM_CHANNEL_QUEUE then wr_idx m (pop_ring q)
              else (wr_idx m (pop_ring q) + 1) mod unat (elem_num q))"
proof -
  let ?p = "push_ring q" and ?r = "pop_ring q" and ?n = "elem_num q"
  let ?R = "word_of_nat (rd_idx m ?r) :: u32" and ?W = "word_of_nat (wr_idx m ?r) :: u32"
  let ?b = "if s = IPC_QUEUE_INIT_DONE then ?R else 0"
  let ?c = "if s \<noteq> IPC_QUEUE_INIT_DONE then 0 else if t = IPC_SHM_CHANNEL_QUEUE then ?W mod ucast ?n
            else (?W + 1) mod ucast ?n"
  from rm have mp: "mapped m ?p (ring_bytes q)" and mr: "mapped m ?r (ring_bytes q)"
    by (simp_all add: rings_mapped_def)
  obtain m1 where m1: "store_u64 (ring_sentinel ?p) IPC_QUEUE_INIT_IN_PROGRESS m = Some m1"
    and rest: "\<And>b. \<exists>m2. store_u32 (ring_write ?p) b m1 = Some m2 \<and> (\<forall>c. \<exists>m'. store_u32 (ring_read ?p) c m2 = Some m')"
    by (rule header_stores_ok [OF mp, of IPC_QUEUE_INIT_IN_PROGRESS]) blast
  from rest [of ?b] obtain m2 where m2: "store_u32 (ring_write ?p) ?b m1 = Some m2"
    and "\<exists>m'. store_u32 (ring_read ?p) ?c m2 = Some m'" by blast
  then obtain m' where m': "store_u32 (ring_read ?p) ?c m2 = Some m'" by blast
  note hs = header_stores [OF m1 m2 m']
  have se1: "same_except (region ?p sizeof_ipc_ring) m m1"
    using store_u64_same_except [OF m1] header_sub(1) by (rule same_except_mono)
  have se2: "same_except (region ?p sizeof_ipc_ring) m m2"
    using same_except_trans [OF se1 same_except_mono [OF store_u32_same_except [OF m2] header_sub(2)]] .
  note e1 = header_effect [OF rm se1] and e2 = header_effect [OF rm se2]
  have ld: "load_u32 m1 (ring_read ?r) = Some ?R" "load_u32 m2 (ring_write ?r) = Some ?W"
    using load_rd_idx [of m1 ?r "ring_bytes q"] load_wr_idx [of m2 ?r "ring_bytes q"] mr e1(2) e2(1)
    by (simp_all add: same_except_mapped [OF se1] same_except_mapped [OF se2])
  have run: "ipc_queue_sync_index q t m = Some (0, m')"
    using s np n m1 m2 m' ld e1(3)
    by (cases "s = IPC_QUEUE_INIT_DONE") (simp_all add: ipc_queue_sync_index_def)
  have Wmod: "?W mod ucast ?n = ?W"
  proof -
    have "?W < ucast ?n" using idx_ge_iff [OF wv] by (simp add: not_le)
    then show ?thesis
      by (metis word_unat_eq_iff unat_mod mod_less word_less_nat_alt)
  qed
  have "unat ?R = rd_idx m ?r"
    using load_rd_idx [OF mr ring_bytes_ge] by (simp add: rd_idx_def)
  moreover have "unat ?c = (if s \<noteq> IPC_QUEUE_INIT_DONE then 0
      else if t = IPC_SHM_CHANNEL_QUEUE then wr_idx m ?r else (wr_idx m ?r + 1) mod unat ?n)"
    using wv idx_unat [OF wv] Wmod by (simp add: unat_word_suc_mod)
  ultimately show ?thesis
    using run hs by (simp add: wr_idx_def rd_idx_def)
qed

text \<open>What a successful synchronisation means for the two lists of the queue.\<close>

lemma sync_lists:
  assumes rm: "rings_mapped q m" and s: "load_u64 m (ring_sentinel (pop_ring q)) = Some s"
    and np: "s \<noteq> IPC_QUEUE_INIT_IN_PROGRESS"
    and wv: "wr_idx m (pop_ring q) < unat (elem_num q)" and rv: "rd_idx m (pop_ring q) < unat (elem_num q)"
    and fresh: "s \<noteq> IPC_QUEUE_INIT_DONE \<Longrightarrow> wr_idx m (pop_ring q) = 0 \<and> rd_idx m (pop_ring q) = 0"
  shows "\<exists>m'. ipc_queue_sync_index q t m = Some (0, m') \<and> queue_wf q m' \<and> tx_list m' q = [] \<and>
           length (rx_list m' q) =
             (if s = IPC_QUEUE_INIT_DONE \<and> t \<noteq> IPC_SHM_CHANNEL_QUEUE then unat (elem_num q) - 1 else 0) \<and>
           load_u64 m' (ring_sentinel (push_ring q)) = Some IPC_QUEUE_INIT_IN_PROGRESS \<and>
           same_except (region (push_ring q) sizeof_ipc_ring) m m'"
proof -
  let ?p = "push_ring q" and ?r = "pop_ring q" and ?n = "unat (elem_num q)"
  have n0: "elem_num q \<noteq> 0" using wv by auto
  from sync_run [OF rm s np n0 wv, of t] obtain m' where
    run: "ipc_queue_sync_index q t m = Some (0, m')"
    and se: "same_except (region ?p sizeof_ipc_ring) m m'"
    and st: "load_u64 m' (ring_sentinel ?p) = Some IPC_QUEUE_INIT_IN_PROGRESS"
    and w: "wr_idx m' ?p = (if s = IPC_QUEUE_INIT_DONE then rd_idx m ?r else 0)"
    and r: "rd_idx m' ?p = (if s \<noteq> IPC_QUEUE_INIT_DONE then 0
              else if t = IPC_SHM_CHANNEL_QUEUE then wr_idx m ?r else (wr_idx m ?r + 1) mod ?n)" by blast
  note e = header_effect [OF rm se]
  have wf: "queue_wf q m'"
    using e(4) w r wv rv e(1,2) by (auto simp: queue_wf_def rings_mapped_def)
  have "tx_list m' q = []"
    unfolding tx_list_def by (subst ring_elems_Nil_iff) (use wf w e(2) fresh in \<open>auto simp: queue_wf_def\<close>)
  moreover have "length (rx_list m' q) =
    (if s = IPC_QUEUE_INIT_DONE \<and> t \<noteq> IPC_SHM_CHANNEL_QUEUE then ?n - 1 else 0)"
  proof (cases "s = IPC_QUEUE_INIT_DONE \<and> t \<noteq> IPC_SHM_CHANNEL_QUEUE")
    case True
    then have "ring_count ?n (rd_idx m' ?p) (wr_idx m' ?r) + 1 = ?n"
      using r e(1) wv by (subst ring_full_iff [symmetric]) auto
    with True show ?thesis by (simp add: rx_list_def)
  next
    case False
    then have "rd_idx m' ?p = wr_idx m' ?r" using r e(1) fresh by auto
    with False wv e(1) show ?thesis by (auto simp: rx_list_def ring_count_zero_iff)
  qed
  ultimately show ?thesis using run wf st se by blast
qed

section \<open>The queue implements the transport interface\<close>

text \<open>One direction of a queue: this side pushes with \<open>q\<close>, the remote side pops with \<open>peer q\<close>.\<close>

interpretation lq: fifo_channel
  "\<lambda>x. ipc_queue_push (Some q) (Some x)"
  "ipc_queue_pop (Some (peer q)) (Some (replicate (unat (elem_size q)) 0))"
  "\<lambda>m. tx_list m q" "unat (elem_num q) - 1" "\<lambda>x. length x = unat (elem_size q)" "queue_ready q"
  for q :: ipc_queue
proof
  fix m :: memory and x :: "byte list" assume rdy: "queue_ready q m" and len: "length x = unat (elem_size q)"
  then have wf: "queue_wf q m" by (simp add: queue_ready_def)
  show "\<exists>m'. ipc_queue_push (Some q) (Some x) m = Some (0, m') \<and> tx_list m' q = tx_list m q @ [x] \<and> queue_ready q m'"
    if "length (tx_list m q) < unat (elem_num q) - 1"
  proof -
    have "Suc (length (tx_list m q)) < unat (elem_num q)" using that by simp
    then show ?thesis using push_ok [OF wf, of x] rdy len by auto
  qed
  show "ipc_queue_push (Some q) (Some x) m = Some (- ENOMEM, m)" if "length (tx_list m q) = unat (elem_num q) - 1"
    using push_full_list [OF wf] that tx_list_bound [OF wf] by simp
next
  fix m x xs assume "queue_ready q m" and "tx_list m q = x # xs"
  then show "\<exists>m'. ipc_queue_pop (Some (peer q)) (Some (replicate (unat (elem_size q)) 0)) m = Some (0, Some x, m') \<and>
      tx_list m' q = xs \<and> queue_ready q m'"
    using pop_ok [of "peer q" m "replicate (unat (elem_size q)) 0" x xs] by auto
next
  fix m assume "queue_ready q m"
  then show "\<exists>b. ipc_queue_pop (Some (peer q)) (Some (replicate (unat (elem_size q)) 0)) m = Some (- ENOBUFS, b, m)"
    if "tx_list m q = []" using pop_empty [of "peer q" m] that by auto
  show "length (tx_list m q) \<le> unat (elem_num q) - 1"
    using tx_list_bound [of q m] \<open>queue_ready q m\<close> by (simp add: queue_ready_def)
qed

end
