(* ===== verification/Queue_Props.thy ===== *)
theory Queue_Props
  imports Queue
begin

text \<open>
  The properties of the dual-ring queue, each stated over the operations of \<open>Queue\<close>, with a
  concrete queue of three usable 8-byte elements on which their hypotheses are shown to hold.
\<close>

section \<open>A concrete queue\<close>

definition demo_queue :: ipc_queue where
  "demo_queue = \<lparr>elem_size = 8, elem_num = 4, push_ring = 0x1000, pop_ring = 0x2000\<rparr>"

definition demo_ram :: memory where "demo_ram = zero_ram 0x1000 0x3000"

definition demo_mem :: memory where
  "demo_mem = the (store_u64 0x2000 IPC_QUEUE_INIT_DONE
                (the (store_u64 0x1000 IPC_QUEUE_INIT_DONE demo_ram)))"

definition demo_elem :: "byte list" where "demo_elem = [1, 2, 3, 4, 5, 6, 7, 8]"

lemma demo_queue_sel [simp]:
  "elem_size demo_queue = 8" "elem_num demo_queue = 4" "push_ring demo_queue = 0x1000"
  "pop_ring demo_queue = 0x2000" "ring_bytes demo_queue = 48" "length demo_elem = 8"
  by (simp_all add: demo_queue_def ring_bytes_def sizeof_ipc_ring_def demo_elem_def)

lemma demo_ram_mapped:
  "0x1000 \<le> unat a \<Longrightarrow> unat a + n \<le> 0x3000 \<Longrightarrow> mapped demo_ram a n"
  by (simp add: demo_ram_def mapped_zero_ram)

lemma demo_ram_zero:
  "0x1000 \<le> unat a \<Longrightarrow> unat a + 4 \<le> 0x3000 \<Longrightarrow> load_u32 demo_ram a = Some 0"
  "0x1000 \<le> unat a \<Longrightarrow> unat a + 8 \<le> 0x3000 \<Longrightarrow> load_u64 demo_ram a = Some 0"
  by (simp_all add: demo_ram_def load_zero_ram)

lemma demo_rings: "rings_mapped demo_queue demo_ram"
  by (simp add: rings_mapped_def demo_ram_mapped apart_unat)

lemma demo_ram_idx [simp]:
  "wr_idx demo_ram 0x1000 = 0" "rd_idx demo_ram 0x1000 = 0" "wr_idx demo_ram 0x2000 = 0" "rd_idx demo_ram 0x2000 = 0"
  by (simp_all add: wr_idx_def rd_idx_def ring_write_def ring_read_def demo_ram_zero)

lemma demo_ready: "queue_ready demo_queue demo_mem"
  and demo_empty: "tx_list demo_mem demo_queue = []" "rx_list demo_mem demo_queue = []"
proof -
  obtain m1 where m1: "store_u64 0x1000 IPC_QUEUE_INIT_DONE demo_ram = Some m1"
    using store_u64_ok [of demo_ram "0x1000"] demo_ram_mapped [of "0x1000" 8] by auto
  note s1 = store_u64_same_except [OF m1]
  have "mapped m1 0x2000 8" using demo_ram_mapped [of "0x2000" 8] same_except_mapped [OF s1] by simp
  then obtain m2 where m2: "store_u64 0x2000 IPC_QUEUE_INIT_DONE m1 = Some m2"
    using store_u64_ok by blast
  note s2 = store_u64_same_except [OF m2]
  have dm: "demo_mem = m2" by (simp add: demo_mem_def m1 m2)
  have mp: "mapped demo_mem a n = mapped demo_ram a n" for a n
    by (simp add: dm same_except_mapped [OF s1] same_except_mapped [OF s2])
  have ap: "apart a 4 0x1000 8" "apart a 4 0x2000 8" if "a \<in> {0x1008, 0x100C, 0x2008, 0x200C}" for a
    using that by (auto intro!: apart_either)
  have keep: "load_u32 demo_mem a = load_u32 demo_ram a" if "a \<in> {0x1008, 0x100C, 0x2008, 0x200C}" for a
    using load_u32_same_except [OF s1, of a] load_u32_same_except [OF s2, of a] ap [OF that]
    by (simp add: dm apart_def)
  have idx: "wr_idx demo_mem 0x1000 = 0" "rd_idx demo_mem 0x1000 = 0" "wr_idx demo_mem 0x2000 = 0" "rd_idx demo_mem 0x2000 = 0"
    by (simp_all add: wr_idx_def rd_idx_def ring_write_def ring_read_def keep demo_ram_zero)
  have "apart 0x1000 8 0x2000 8" by (rule apart_unat) simp_all
  then have "load_u64 demo_mem 0x1000 = Some IPC_QUEUE_INIT_DONE" "load_u64 demo_mem 0x2000 = Some IPC_QUEUE_INIT_DONE"
    using load_store_u64 [OF m1] load_store_u64 [OF m2] load_u64_same_except [OF s2, of "0x1000"]
    by (simp_all add: dm apart_def)
  then show "queue_ready demo_queue demo_mem"
    using demo_rings idx by (simp add: queue_ready_def queue_wf_def rings_mapped_def mp ring_sentinel_def)
  show "tx_list demo_mem demo_queue = []" "rx_list demo_mem demo_queue = []"
    by (simp_all add: tx_list_def rx_list_def idx ring_elems_Nil_iff)
qed

lemma demo_wf: "queue_wf demo_queue demo_mem"
  using demo_ready by (simp add: queue_ready_def)

section \<open>Refinement of the two transfer operations\<close>

text \<open>
  C1. Pushing refines appending to a bounded list. On a well-formed queue with a caller buffer of
  at least one element, \<open>ipc_queue_push\<close> always returns: with room it returns 0, appends exactly
  the first \<open>elem_size\<close> bytes of the buffer to the outgoing list, leaves the incoming list alone
  and keeps the queue well formed; with \<open>elem_num - 1\<close> elements pending it returns
  \<open>-ENOMEM\<close> and changes nothing.
\<close>

theorem push_refines:
  assumes "queue_wf q m" and "unat (elem_size q) \<le> length bs"
  shows "if length (tx_list m q) + 1 < unat (elem_num q)
         then \<exists>m'. ipc_queue_push (Some q) (Some bs) m = Some (0, m') \<and>
                tx_list m' q = tx_list m q @ [take (unat (elem_size q)) bs] \<and>
                rx_list m' q = rx_list m q \<and> queue_wf q m'
         else ipc_queue_push (Some q) (Some bs) m = Some (- ENOMEM, m)"
  using push_ok [OF assms] push_full_list [OF assms(1)] tx_list_bound [OF assms(1)]
  by (cases "length (tx_list m q) + 1 < unat (elem_num q)") auto

theorem push_refines_witness:
  "\<exists>m'. ipc_queue_push (Some demo_queue) (Some demo_elem) demo_mem = Some (0, m') \<and>
        tx_list m' demo_queue = [demo_elem]"
  using push_refines [OF demo_wf, of demo_elem] by (auto simp: demo_empty)

text \<open>
  C2. Popping refines taking the head of the list the peer pushed. On an initialised queue with a
  caller buffer of at least one element, \<open>ipc_queue_pop\<close> always returns: with something pending it
  returns 0, overwrites the first \<open>elem_size\<close> bytes of the buffer with the oldest element and
  removes exactly that element; with nothing pending it returns \<open>-ENOBUFS\<close> and changes nothing.
\<close>

theorem pop_refines:
  assumes "queue_ready q m" and "unat (elem_size q) \<le> length old"
  shows "case rx_list m q of
           [] \<Rightarrow> ipc_queue_pop (Some q) (Some old) m = Some (- ENOBUFS, Some old, m)
         | x # xs \<Rightarrow> \<exists>m'. ipc_queue_pop (Some q) (Some old) m =
                          Some (0, Some (x @ drop (unat (elem_size q)) old), m') \<and>
                        rx_list m' q = xs \<and> tx_list m' q = tx_list m q \<and> queue_ready q m'"
  using pop_ok [OF assms] pop_empty [OF assms(1)] by (auto split: list.split)

theorem pop_refines_witness:
  "\<exists>m'. ipc_queue_push (Some (peer demo_queue)) (Some demo_elem) demo_mem = Some (0, m') \<and>
     (\<exists>m''. ipc_queue_pop (Some demo_queue) (Some (replicate 8 0)) m' = Some (0, Some demo_elem, m'') \<and>
            rx_list m'' demo_queue = [])"
proof -
  obtain m' where m': "ipc_queue_push (Some (peer demo_queue)) (Some demo_elem) demo_mem = Some (0, m')"
    "rx_list m' demo_queue = [demo_elem]" "queue_ready demo_queue m'"
    using push_ok [of "peer demo_queue" demo_mem demo_elem] demo_wf demo_ready by (auto simp: demo_empty)
  then show ?thesis using pop_refines [OF m'(3), of "replicate 8 0"] by auto
qed

section \<open>Interference freedom\<close>

text \<open>
  C36. Interference freedom. Whatever the two rings contain, every queue operation that returns has
  written only inside the ring this side owns: push and pop inside the push ring, initialisation
  and release inside its 16-byte header. The remote side's ring is never written.
\<close>

theorem queue_interference_freedom:
  "ipc_queue_push (Some q) buf m = Some (rc, m1) \<Longrightarrow>
   ipc_queue_pop (Some q) buf m = Some (rc', buf', m2) \<Longrightarrow>
   ipc_queue_free (Some q) m = Some (q', m3) \<Longrightarrow>
   ipc_queue_init (Some q) qd m = Some (rc'', q'', m4) \<Longrightarrow>
   same_except (region (push_ring q) (ring_bytes q)) m m1 \<and>
   same_except (region (push_ring q) (ring_bytes q)) m m2 \<and>
   same_except (region (push_ring q) sizeof_ipc_ring) m m3 \<and>
   same_except (region (qd_push_addr qd) sizeof_ipc_ring) m m4"
  by (intro conjI push_local pop_local free_local init_local)

theorem queue_interference_freedom_witness:
  "\<exists>m1 m3. ipc_queue_push (Some demo_queue) (Some demo_elem) demo_mem = Some (0, m1) \<and>
     same_except (region 0x1000 48) demo_mem m1 \<and>
     ipc_queue_free (Some demo_queue) demo_mem = Some (Some (demo_queue\<lparr>elem_num := 0, elem_size := 0, push_ring := 0\<rparr>), m3) \<and>
     same_except (region 0x1000 16) demo_mem m3"
proof -
  let ?bad = "\<lparr>qd_elem_size = 0, qd_elem_num = 0, qd_queue_type = IPC_SHM_POOL_QUEUE, qd_push_addr = 0, qd_pop_addr = 0\<rparr>"
  obtain m1 where m1: "ipc_queue_push (Some demo_queue) (Some demo_elem) demo_mem = Some (0, m1)"
    using push_ok [OF demo_wf, of demo_elem] by (auto simp: demo_empty)
  have pop: "ipc_queue_pop (Some demo_queue) (Some demo_elem) demo_mem = Some (- ENOBUFS, Some demo_elem, demo_mem)"
    by (rule pop_empty [OF demo_ready demo_empty(2)])
  have mp: "mapped demo_mem 0x1000 (ring_bytes demo_queue)" using demo_wf by (simp add: queue_wf_def)
  obtain a where a: "store_u64 (ring_sentinel 0x1000) 0 demo_mem = Some a"
    and rest: "\<And>b. \<exists>m2. store_u32 (ring_write 0x1000) b a = Some m2 \<and> (\<forall>c. \<exists>m'. store_u32 (ring_read 0x1000) c m2 = Some m')"
    by (rule header_stores_ok [OF mp, of 0]) blast
  obtain b where b: "store_u32 (ring_write 0x1000) 0 a = Some b" and r2: "\<forall>c. \<exists>m'. store_u32 (ring_read 0x1000) c b = Some m'"
    using rest by blast
  from r2 obtain m3 where m3: "store_u32 (ring_read 0x1000) 0 b = Some m3" by blast
  have fr: "ipc_queue_free (Some demo_queue) demo_mem = Some (Some (demo_queue\<lparr>elem_num := 0, elem_size := 0, push_ring := 0\<rparr>), m3)"
    using demo_ready a b m3 by (simp add: ipc_queue_free_def queue_ready_def)
  have "ipc_queue_init (Some demo_queue) ?bad demo_mem = Some (- EINVAL, Some demo_queue, demo_mem)"
    by (simp add: ipc_queue_init_def)
  from queue_interference_freedom [OF m1 pop fr this] m1 fr show ?thesis
    by (auto simp: sizeof_ipc_ring_def)
qed

section \<open>The queue as a transport\<close>

text \<open>
  Round trip. Any list of elements that fits, pushed one after another into an empty queue and
  then popped by the remote side the same number of times, comes out unchanged and in order, and
  leaves the queue empty and initialised.
\<close>

theorem queue_round_trip:
  assumes "queue_ready q m" and "tx_list m q = []"
    and "list_all (\<lambda>x. length x = unat (elem_size q)) xs" and "length xs \<le> unat (elem_num q) - 1"
  shows "\<exists>m1 m2. send_all (\<lambda>x. ipc_queue_push (Some q) (Some x)) xs m = Some (0, m1) \<and>
           recv_n (ipc_queue_pop (Some (peer q)) (Some (replicate (unat (elem_size q)) 0))) (length xs) m1
             = Some (xs, m2) \<and>
           tx_list m2 q = [] \<and> queue_ready q m2"
  by (rule lq.round_trip [OF assms])

theorem queue_round_trip_witness:
  "\<exists>m1 m2. send_all (\<lambda>x. ipc_queue_push (Some demo_queue) (Some x)) [demo_elem, rev demo_elem] demo_mem = Some (0, m1) \<and>
     recv_n (ipc_queue_pop (Some (peer demo_queue)) (Some (replicate 8 0))) (length [demo_elem, rev demo_elem]) m1 = Some ([demo_elem, rev demo_elem], m2) \<and>
     tx_list m2 demo_queue = []"
  using queue_round_trip [OF demo_ready demo_empty(1), of "[demo_elem, rev demo_elem]"]
  by (simp del: send_all.simps recv_n.simps) blast

text \<open>
  Capacity. A queue holds exactly the \<open>elem_num - 1\<close> elements it was configured for: a sender
  that keeps pushing is refused with \<open>-ENOMEM\<close> at the first element beyond that, and everything
  sent before it is still queued, in order.
\<close>

theorem queue_capacity:
  assumes "queue_ready q m" and "list_all (\<lambda>x. length x = unat (elem_size q)) xs"
    and "length y = unat (elem_size q)" and "length (tx_list m q) + length xs = unat (elem_num q) - 1"
  shows "\<exists>m'. send_all (\<lambda>x. ipc_queue_push (Some q) (Some x)) (xs @ y # ys) m = Some (- ENOMEM, m') \<and>
           tx_list m' q = tx_list m q @ xs \<and> queue_ready q m'"
  by (rule lq.send_all_overflow [OF assms])

theorem queue_capacity_witness:
  "\<exists>m'. send_all (\<lambda>x. ipc_queue_push (Some demo_queue) (Some x)) [demo_elem, demo_elem, demo_elem, demo_elem] demo_mem = Some (- ENOMEM, m') \<and>
        tx_list m' demo_queue = [demo_elem, demo_elem, demo_elem]"
  using queue_capacity [OF demo_ready, of "[demo_elem, demo_elem, demo_elem]" demo_elem "[]"]
  by (simp add: demo_empty del: send_all.simps) blast

section \<open>Initialisation\<close>

text \<open>
  C37. Initialisation outcomes. For two mapped, disjoint rings, \<open>ipc_queue_init\<close> refuses every
  invalid argument (\<open>qd_ok\<close> fails: no elements, an element size that is 0 or no multiple of 8, an
  unknown queue type) with \<open>-EINVAL\<close> and every initialisation the remote side is in the middle of with
  \<open>-EAGAIN\<close>, in both cases without writing to shared memory; otherwise it returns 0 with the
  queue well formed, nothing pending in the outgoing direction, and the local ring marked as being
  initialised. If the remote side was already up, a channel queue starts with no incoming element
  and a pool queue with all of its \<open>elem_num - 1\<close> elements; if not, both start empty.
\<close>

theorem queue_init_outcomes:
  assumes "rings_mapped (queue_of qd) m" and "load_u64 m (ring_sentinel (qd_pop_addr qd)) = Some s"
    and "wr_idx m (qd_pop_addr qd) < unat (qd_elem_num qd + 1)" and "rd_idx m (qd_pop_addr qd) < unat (qd_elem_num qd + 1)"
    and "s \<noteq> IPC_QUEUE_INIT_DONE \<Longrightarrow> wr_idx m (qd_pop_addr qd) = 0 \<and> rd_idx m (qd_pop_addr qd) = 0"
  shows "if \<not> qd_ok qd
         then ipc_queue_init (Some q) qd m = Some (- EINVAL, Some q, m)
         else if s = IPC_QUEUE_INIT_IN_PROGRESS
         then ipc_queue_init (Some q) qd m = Some (- EAGAIN, Some (queue_of qd), m)
         else \<exists>m'. ipc_queue_init (Some q) qd m = Some (0, Some (queue_of qd), m') \<and>
                queue_wf (queue_of qd) m' \<and> tx_list m' (queue_of qd) = [] \<and>
                length (rx_list m' (queue_of qd)) =
                  (if s = IPC_QUEUE_INIT_DONE \<and> qd_queue_type qd = IPC_SHM_POOL_QUEUE
                   then unat (qd_elem_num qd + 1) - 1 else 0) \<and>
                load_u64 m' (ring_sentinel (qd_push_addr qd)) = Some IPC_QUEUE_INIT_IN_PROGRESS"
proof -
  let ?q = "queue_of qd" and ?t = "qd_queue_type qd"
  show ?thesis
  proof (cases "s = IPC_QUEUE_INIT_IN_PROGRESS")
    case True
    then show ?thesis using sync_busy [of m ?q ?t] assms(2) by (simp add: init_eq)
  next
    case ns: False
    have "\<exists>m'. ipc_queue_sync_index ?q ?t m = Some (0, m') \<and> queue_wf ?q m' \<and> tx_list m' ?q = [] \<and>
         length (rx_list m' ?q) =
           (if s = IPC_QUEUE_INIT_DONE \<and> ?t \<noteq> IPC_SHM_CHANNEL_QUEUE then unat (elem_num ?q) - 1 else 0) \<and>
         load_u64 m' (ring_sentinel (push_ring ?q)) = Some IPC_QUEUE_INIT_IN_PROGRESS \<and>
         same_except (region (push_ring ?q) sizeof_ipc_ring) m m'"
      by (rule sync_lists) (use assms ns in simp_all)
    then show ?thesis using ns by (auto simp: init_eq qd_ok_def)
  qed
qed

definition demo_qd :: "ipc_shm_queue_type \<Rightarrow> ipc_queue_data" where
  "demo_qd t = \<lparr>qd_elem_size = 8, qd_elem_num = 3, qd_queue_type = t, qd_push_addr = 0x1000, qd_pop_addr = 0x2000\<rparr>"

lemma demo_qd_queue: "queue_of (demo_qd t) = demo_queue"
  by (simp add: queue_of_def demo_qd_def demo_queue_def)

lemma demo_qd_sel:
  "qd_elem_num (demo_qd t) = 3" "qd_queue_type (demo_qd t) = t" "qd_push_addr (demo_qd t) = 0x1000"
  "qd_pop_addr (demo_qd t) = 0x2000" "qd_ok (demo_qd IPC_SHM_POOL_QUEUE)"
  by (simp_all add: demo_qd_def qd_ok_def)

theorem queue_init_outcomes_witness:
  "\<exists>m'. ipc_queue_init (Some demo_queue) (demo_qd IPC_SHM_POOL_QUEUE) demo_mem = Some (0, Some demo_queue, m') \<and>
        length (rx_list m' demo_queue) = 3"
proof -
  have "rings_mapped demo_queue demo_mem" "wr_idx demo_mem 0x2000 < 4" "rd_idx demo_mem 0x2000 < 4"
    "load_u64 demo_mem (ring_sentinel 0x2000) = Some IPC_QUEUE_INIT_DONE"
    using demo_ready by (simp_all add: queue_ready_def queue_wf_def rings_mapped_def)
  then show ?thesis
    using queue_init_outcomes [of "demo_qd IPC_SHM_POOL_QUEUE" demo_mem IPC_QUEUE_INIT_DONE demo_queue]
    by (simp add: demo_qd_queue demo_qd_sel) blast
qed

text \<open>
  The sentinel element is added in 16 bits. Configured with the largest 16-bit element count,
  \<open>ipc_queue_init\<close> computes \<open>elem_num = 0\<close>: if the remote ring is already initialised the index
  synchronisation then divides by zero, and otherwise initialisation reports success for a queue on
  which every later push and pop of valid rings is refused with \<open>-EINVAL\<close>.
\<close>

theorem queue_init_elem_num_wraps:
  assumes "rings_mapped (queue_of qd) m" and "qd_elem_num qd = 0xFFFF"
    and "qd_elem_size qd \<noteq> 0" "qd_elem_size qd mod 8 = 0" "qd_queue_type qd \<in> {IPC_SHM_CHANNEL_QUEUE, IPC_SHM_POOL_QUEUE}"
    and "load_u64 m (ring_sentinel (qd_pop_addr qd)) = Some s"
  shows "elem_num (queue_of qd) = 0 \<and>
         (s = IPC_QUEUE_INIT_DONE \<longrightarrow> ipc_queue_init (Some q) qd m = None) \<and>
         (s \<noteq> IPC_QUEUE_INIT_DONE \<and> s \<noteq> IPC_QUEUE_INIT_IN_PROGRESS \<longrightarrow>
            (\<exists>m'. ipc_queue_init (Some q) qd m = Some (0, Some (queue_of qd), m') \<and>
                  ipc_queue_push (Some (queue_of qd)) (Some bs) m' = Some (- EINVAL, m')))"
proof -
  let ?q = "queue_of qd" and ?t = "qd_queue_type qd"
  have sel: "elem_num ?q = 0" using assms(2) by simp
  have run: "ipc_queue_init (Some q) qd m = do {
      (err, m') \<leftarrow> ipc_queue_sync_index ?q ?t m; Some (err, Some ?q, m') }"
    using assms by (auto simp: init_eq qd_ok_def rings_mapped_def simp del: queue_of_sel(2))
  have mp: "mapped m (push_ring ?q) (ring_bytes ?q)" using assms(1) by (simp add: rings_mapped_def)
  obtain m1 where m1: "store_u64 (ring_sentinel (push_ring ?q)) IPC_QUEUE_INIT_IN_PROGRESS m = Some m1"
    and rest: "\<And>b. \<exists>m2. store_u32 (ring_write (push_ring ?q)) b m1 = Some m2 \<and>
                 (\<forall>c. \<exists>m'. store_u32 (ring_read (push_ring ?q)) c m2 = Some m')"
    by (rule header_stores_ok [OF mp, of IPC_QUEUE_INIT_IN_PROGRESS]) blast
  have e1: "load_u64 m1 (ring_sentinel (qd_pop_addr qd)) = Some s"
    using header_effect(3) [OF assms(1) same_except_mono [OF store_u64_same_except [OF m1] header_sub(1)]] assms(6)
    by (simp add: sel)
  have "ipc_queue_sync_index ?q ?t m = None" if "s = IPC_QUEUE_INIT_DONE"
    using that assms(6) e1 m1 by (auto simp: ipc_queue_sync_index_def sel split: Option.bind_splits simp del: queue_of_sel(2))
  moreover have "\<exists>m'. ipc_queue_sync_index ?q ?t m = Some (0, m') \<and>
      ipc_queue_push (Some ?q) (Some bs) m' = Some (- EINVAL, m')"
    if s: "s \<noteq> IPC_QUEUE_INIT_DONE" "s \<noteq> IPC_QUEUE_INIT_IN_PROGRESS"
  proof -
    obtain m2 where m2: "store_u32 (ring_write (push_ring ?q)) 0 m1 = Some m2"
      and "\<exists>m'. store_u32 (ring_read (push_ring ?q)) 0 m2 = Some m'" using rest by blast
    then obtain m' where m': "store_u32 (ring_read (push_ring ?q)) 0 m2 = Some m'" by blast
    have "rings_mapped ?q m'"
      by (rule header_effect(4) [OF assms(1) header_stores(1) [OF m1 m2 m']])
    then have "ipc_queue_push (Some ?q) (Some bs) m' = Some (- EINVAL, m')"
      using load_wr_idx [of m' "push_ring ?q" "ring_bytes ?q"] load_rd_idx [of m' "pop_ring ?q" "ring_bytes ?q"]
      by (simp add: ipc_queue_push_def rings_mapped_def sel del: queue_of_sel(2))
    then show ?thesis using s assms(6) e1 m1 m2 m' by (simp add: ipc_queue_sync_index_def sel del: queue_of_sel(2))
  qed
  ultimately show ?thesis using run sel by (auto simp del: queue_of_sel(2))
qed

theorem queue_init_elem_num_wraps_witness:
  "ipc_queue_init (Some demo_queue)
     \<lparr>qd_elem_size = 8, qd_elem_num = 0xFFFF, qd_queue_type = IPC_SHM_POOL_QUEUE,
       qd_push_addr = 0x1000, qd_pop_addr = 0x2000\<rparr> demo_mem = None"
proof -
  let ?qd = "\<lparr>qd_elem_size = 8, qd_elem_num = 0xFFFF, qd_queue_type = IPC_SHM_POOL_QUEUE,
       qd_push_addr = 0x1000, qd_pop_addr = 0x2000\<rparr>"
  have "ring_bytes (queue_of ?qd) = 16" by (simp add: ring_bytes_def sizeof_ipc_ring_def)
  moreover have "mapped demo_mem 0x1000 16" "mapped demo_mem 0x2000 16" "apart 0x1000 16 0x2000 16"
    using demo_wf mapped_sub [of demo_mem "0x1000" 48 0 16] mapped_sub [of demo_mem "0x2000" 48 0 16]
    by (simp_all add: queue_wf_def apart_unat)
  ultimately have "rings_mapped (queue_of ?qd) demo_mem" by (simp add: rings_mapped_def)
  moreover have "load_u64 demo_mem (ring_sentinel 0x2000) = Some IPC_QUEUE_INIT_DONE"
    using demo_ready by (simp add: queue_ready_def)
  ultimately show ?thesis
    using queue_init_elem_num_wraps [of ?qd demo_mem IPC_QUEUE_INIT_DONE demo_queue] by simp
qed

end
