(* ===== verification/Spsc.thy ===== *)
theory Spsc
  imports Queue_Props
begin

text \<open>
  Concurrent use of one direction of a queue. The producer (the local core, in
  \<open>ipc_queue_push\<close>) and the consumer (the remote core, in \<open>ipc_queue_pop\<close> on the peer queue) run at
  the same time on the shared memory, with no lock. Each step of the relation below is one access to
  shared memory: one index load, one sentinel load, the copy of one byte by \<open>memcpy\<close>, or the index
  store that publishes the result; the two sides interleave arbitrarily. The indices are naturally
  aligned 32-bit objects, accessed in one piece; the accesses of one core become visible in program
  order (the rings are volatile; reordering by the memory system is not modelled).

  The ghost fields \<open>sent\<close> and \<open>rcvd\<close> record the elements of completed calls.
\<close>

section \<open>The two programs\<close>

datatype pstate =
    PRet int                           \<comment> \<open>not in a call; the last one returned this code\<close>
  | PLoadW "byte list"                 \<comment> \<open>about to load its own write index\<close>
  | PLoadR "byte list" u32             \<comment> \<open>about to load the consumer's read index\<close>
  | PCopy "byte list" u32 nat          \<comment> \<open>has copied that many bytes into the slot\<close>
  | PPub "byte list" u32               \<comment> \<open>about to publish the new write index\<close>

datatype cstate =
    CRet int
  | CLoadW                             \<comment> \<open>about to load the producer's write index\<close>
  | CLoadR u32                         \<comment> \<open>about to load its own read index\<close>
  | CPopSent u32 u32                   \<comment> \<open>about to check the sentinel of the pop ring\<close>
  | CPushSent u32 u32                  \<comment> \<open>about to check the sentinel of the push ring\<close>
  | CCopy u32 "byte list"              \<comment> \<open>has copied these bytes out of the slot\<close>
  | CPub u32 "byte list"               \<comment> \<open>about to publish the new read index\<close>

definition push_step :: "ipc_queue \<Rightarrow> memory \<Rightarrow> pstate \<Rightarrow> (pstate \<times> memory) option" where
  "push_step q m p = (case p of
     PRet _ \<Rightarrow> None
   | PLoadW x \<Rightarrow> do { w \<leftarrow> load_u32 m (ring_write (push_ring q)); Some (PLoadR x w, m) }
   | PLoadR x w \<Rightarrow> do {
       r \<leftarrow> load_u32 m (ring_read (pop_ring q));
       Some (if r \<ge> ucast (elem_num q) \<or> w \<ge> ucast (elem_num q) then PRet (- EINVAL)
             else if (w + 1) mod ucast (elem_num q) = r then PRet (- ENOMEM) else PCopy x w 0, m) }
   | PCopy x w i \<Rightarrow>
       if i < unat (elem_size q) then do {
         m' \<leftarrow> store_bytes (ring_data (push_ring q) + ucast (w * ucast (elem_size q)) + of_nat i) [x ! i] m;
         Some (PCopy x w (Suc i), m') }
       else Some (PPub x w, m)
   | PPub x w \<Rightarrow> do {
       m' \<leftarrow> store_u32 (ring_write (push_ring q)) ((w + 1) mod ucast (elem_num q)) m;
       Some (PRet 0, m') })"

definition pop_step :: "ipc_queue \<Rightarrow> memory \<Rightarrow> cstate \<Rightarrow> (cstate \<times> memory) option" where
  "pop_step q m c = (case c of
     CRet _ \<Rightarrow> None
   | CLoadW \<Rightarrow> do { w \<leftarrow> load_u32 m (ring_write (pop_ring q)); Some (CLoadR w, m) }
   | CLoadR w \<Rightarrow> do { r \<leftarrow> load_u32 m (ring_read (push_ring q)); Some (CPopSent w r, m) }
   | CPopSent w r \<Rightarrow> do {
       s \<leftarrow> load_u64 m (ring_sentinel (pop_ring q));
       Some (if IPC_QUEUE_INIT_DONE = s then CPushSent w r else CRet (- EINVAL), m) }
   | CPushSent w r \<Rightarrow> do {
       s \<leftarrow> load_u64 m (ring_sentinel (push_ring q));
       Some (if IPC_QUEUE_INIT_DONE \<noteq> s \<or> r \<ge> ucast (elem_num q) \<or> w \<ge> ucast (elem_num q) then CRet (- EINVAL)
             else if r = w then CRet (- ENOBUFS) else CCopy r [], m) }
   | CCopy r acc \<Rightarrow>
       if length acc < unat (elem_size q) then do {
         b \<leftarrow> load_bytes m (ring_data (pop_ring q) + ucast (r * ucast (elem_size q)) + of_nat (length acc)) 1;
         Some (CCopy r (acc @ b), m) }
       else Some (CPub r acc, m)
   | CPub r acc \<Rightarrow> do {
       m' \<leftarrow> store_u32 (ring_read (push_ring q)) ((r + 1) mod ucast (elem_num q)) m;
       Some (CRet 0, m') })"

section \<open>Their interleaving\<close>

record spsc =
  sp_mem :: memory
  prod :: pstate
  cons :: cstate
  sent :: "byte list list"
  rcvd :: "byte list list"

fun published :: "pstate \<Rightarrow> byte list list" where
  "published (PPub x w) = [x]"
| "published _ = []"

fun taken :: "cstate \<Rightarrow> byte list list" where
  "taken (CPub r acc) = [acc]"
| "taken _ = []"

definition do_prod :: "ipc_queue \<Rightarrow> spsc \<Rightarrow> spsc option" where
  "do_prod q s = do {
     (p', m') \<leftarrow> push_step q (sp_mem s) (prod s);
     Some (s\<lparr>prod := p', sp_mem := m', sent := sent s @ published (prod s)\<rparr>) }"

definition do_cons :: "ipc_queue \<Rightarrow> spsc \<Rightarrow> spsc option" where
  "do_cons q s = do {
     (c', m') \<leftarrow> pop_step (peer q) (sp_mem s) (cons s);
     Some (s\<lparr>cons := c', sp_mem := m', rcvd := rcvd s @ taken (cons s)\<rparr>) }"

inductive spsc_step :: "ipc_queue \<Rightarrow> spsc \<Rightarrow> spsc \<Rightarrow> bool" for q where
  call_push: "prod s = PRet rc \<Longrightarrow> length x = unat (elem_size q) \<Longrightarrow> spsc_step q s (s\<lparr>prod := PLoadW x\<rparr>)"
| call_pop: "cons s = CRet rc \<Longrightarrow> spsc_step q s (s\<lparr>cons := CLoadW\<rparr>)"
| producer: "do_prod q s = Some s' \<Longrightarrow> spsc_step q s s'"
| consumer: "do_cons q s = Some s' \<Longrightarrow> spsc_step q s s'"

inductive spsc_reach :: "ipc_queue \<Rightarrow> memory \<Rightarrow> spsc \<Rightarrow> bool" for q m0 where
  start: "queue_ready q m0 \<Longrightarrow> tx_list m0 q = [] \<Longrightarrow>
          spsc_reach q m0 \<lparr>sp_mem = m0, prod = PRet 0, cons = CRet 0, sent = [], rcvd = []\<rparr>"
| step: "spsc_reach q m0 s \<Longrightarrow> spsc_step q s s' \<Longrightarrow> spsc_reach q m0 s'"

inductive_cases spsc_stepE: "spsc_step q s s'"

section \<open>The invariant\<close>

text \<open>
  What each side knows while it is inside a call. The producer's own index is exact; once it has
  seen room there is room, because the consumer only makes more. The consumer's copy of the write
  index may be stale, but only by elements added since.
\<close>

definition prod_inv :: "ipc_queue \<Rightarrow> memory \<Rightarrow> pstate \<Rightarrow> bool" where
  "prod_inv q m p = (case p of
     PRet rc \<Rightarrow> rc = 0 \<or> rc = - ENOMEM
   | PLoadW x \<Rightarrow> length x = unat (elem_size q)
   | PLoadR x w \<Rightarrow> length x = unat (elem_size q) \<and> w = word_of_nat (wr_idx m (push_ring q))
   | PCopy x w i \<Rightarrow> length x = unat (elem_size q) \<and> w = word_of_nat (wr_idx m (push_ring q)) \<and>
       (wr_idx m (push_ring q) + 1) mod unat (elem_num q) \<noteq> rd_idx m (pop_ring q) \<and> i \<le> length x \<and>
       take i (slot_at m (push_ring q) (unat (elem_size q)) (wr_idx m (push_ring q))) = take i x
   | PPub x w \<Rightarrow> w = word_of_nat (wr_idx m (push_ring q)) \<and>
       (wr_idx m (push_ring q) + 1) mod unat (elem_num q) \<noteq> rd_idx m (pop_ring q) \<and>
       slot_at m (push_ring q) (unat (elem_size q)) (wr_idx m (push_ring q)) = x)"

definition seen :: "ipc_queue \<Rightarrow> memory \<Rightarrow> u32 \<Rightarrow> bool" where
  "seen q m w \<longleftrightarrow> unat w < unat (elem_num q) \<and>
     ring_count (unat (elem_num q)) (rd_idx m (pop_ring q)) (unat w)
       \<le> ring_count (unat (elem_num q)) (rd_idx m (pop_ring q)) (wr_idx m (push_ring q))"

definition cons_inv :: "ipc_queue \<Rightarrow> memory \<Rightarrow> cstate \<Rightarrow> bool" where
  "cons_inv q m c = (case c of
     CRet rc \<Rightarrow> rc = 0 \<or> rc = - ENOBUFS
   | CLoadW \<Rightarrow> True
   | CLoadR w \<Rightarrow> seen q m w
   | CPopSent w r \<Rightarrow> seen q m w \<and> r = word_of_nat (rd_idx m (pop_ring q))
   | CPushSent w r \<Rightarrow> seen q m w \<and> r = word_of_nat (rd_idx m (pop_ring q))
   | CCopy r acc \<Rightarrow> r = word_of_nat (rd_idx m (pop_ring q)) \<and> tx_list m q \<noteq> [] \<and>
       length acc \<le> unat (elem_size q) \<and> take (length acc) (hd (tx_list m q)) = acc
   | CPub r acc \<Rightarrow> r = word_of_nat (rd_idx m (pop_ring q)) \<and> tx_list m q \<noteq> [] \<and> hd (tx_list m q) = acc)"

definition spsc_inv :: "ipc_queue \<Rightarrow> spsc \<Rightarrow> bool" where
  "spsc_inv q s \<longleftrightarrow> queue_ready q (sp_mem s) \<and> sent s = rcvd s @ tx_list (sp_mem s) q \<and>
     prod_inv q (sp_mem s) (prod s) \<and> cons_inv q (sp_mem s) (cons s)"

section \<open>Effect of the three kinds of store\<close>

lemma ready_idx:
  assumes "queue_ready q m"
  shows "wr_idx m (push_ring q) < unat (elem_num q)" "rd_idx m (pop_ring q) < unat (elem_num q)"
    "mapped m (push_ring q) (ring_bytes q)" "mapped m (pop_ring q) (ring_bytes q)" "queue_wf q m"
  using assms by (auto simp: queue_ready_def queue_wf_def)

lemma slot_at_load:
  assumes "mapped m p (ring_bytes q)" "i < unat (elem_num q)"
  shows "load_bytes m (slot_addr p (unat (elem_size q)) i) (unat (elem_size q)) = Some (slot_at m p (unat (elem_size q)) i)"
    and "length (slot_at m p (unat (elem_size q)) i) = unat (elem_size q)"
proof -
  have "mapped m (slot_addr p (unat (elem_size q)) i) (unat (elem_size q))"
    unfolding slot_addr_def by (rule mapped_sub [OF assms(1) slot_bound [OF assms(2)]])
  then obtain bs where "load_bytes m (slot_addr p (unat (elem_size q)) i) (unat (elem_size q)) = Some bs"
    using load_bytes_Some_iff by blast
  then show "load_bytes m (slot_addr p (unat (elem_size q)) i) (unat (elem_size q)) = Some (slot_at m p (unat (elem_size q)) i)"
    and "length (slot_at m p (unat (elem_size q)) i) = unat (elem_size q)"
    using load_bytes_length by (auto simp: slot_at_def)
qed

text \<open>One byte stored into a loaded range updates that byte of it.\<close>

lemma load_byte_update:
  assumes st: "store_bytes (a + of_nat i) [b] m = Some m'" and ld: "load_bytes m a n = Some bs"
    and i: "i < n" and n: "n \<le> 2 ^ 64"
  shows "load_bytes m' a n = Some (bs[i := b])"
proof -
  from st have m': "m' = (\<lambda>x. if unat (x - (a + of_nat i)) < 1 then Some b else m x)"
    by (auto simp: store_bytes_def split: if_splits)
  have at: "m' (a + of_nat j) = (if j = i then Some b else m (a + of_nat j))" if "j < n" for j
  proof -
    have "unat (of_nat j - of_nat i :: u64) = 0 \<longleftrightarrow> j = i"
      using that i n by (metis (no_types, lifting) diff_self eq_iff_diff_eq_0 order_less_le_trans unat_0 unat_eq_zero unat_of_nat_small)
    then show ?thesis by (simp add: m' algebra_simps)
  qed
  have bs: "bs = map (\<lambda>j. the (m (a + of_nat j))) [0..<n]" "mapped m a n"
    using ld by (auto simp: load_bytes_def split: if_splits)
  have "mapped m' a n" using bs(2) at by (auto simp: mapped_def list_all_iff)
  moreover have "map (\<lambda>j. the (m' (a + of_nat j))) [0..<n] = bs[i := b]"
    using at i by (intro nth_equalityI) (auto simp: bs(1) nth_list_update)
  ultimately show ?thesis by (simp add: load_bytes_def)
qed

lemma copy_byte_effect:
  assumes rdy: "queue_ready q m" and i: "i < unat (elem_size q)"
  defines "w \<equiv> wr_idx m (push_ring q)"
  shows "\<exists>m'. store_bytes (slot_addr (push_ring q) (unat (elem_size q)) w + of_nat i) [b] m = Some m' \<and>
           queue_ready q m' \<and> wr_idx m' (push_ring q) = w \<and> rd_idx m' (pop_ring q) = rd_idx m (pop_ring q) \<and>
           tx_list m' q = tx_list m q \<and>
           slot_at m' (push_ring q) (unat (elem_size q)) w
             = (slot_at m (push_ring q) (unat (elem_size q)) w)[i := b]"
proof -
  let ?p = "push_ring q" and ?sz = "unat (elem_size q)"
  let ?a = "slot_addr ?p ?sz w"
  note r = ready_idx [OF rdy]
  have w: "w < unat (elem_num q)" using r(1) by (simp add: w_def)
  have sub: "region (?a + of_nat i) 1 \<subseteq> region ?a ?sz" by (rule region_offset) (use i in simp)
  have "mapped m ?a ?sz" unfolding slot_addr_def by (rule mapped_sub [OF r(3) slot_bound [OF w]])
  then have "mapped m (?a + of_nat i) (length [b])" using sub by (auto simp: mapped_iff)
  then obtain m' where st: "store_bytes (?a + of_nat i) [b] m = Some m'" using store_bytes_Some_iff by blast
  have se1: "same_except (region ?a ?sz) m m'"
    using store_bytes_same_except [OF st] sub by (auto intro: same_except_mono)
  then have se: "same_except (push_area q w) m m'" by (rule same_except_mono) (simp add: push_area_def)
  note eff = push_effect [OF r(5) se w]
  have "region (ring_write ?p) 4 \<inter> region ?a ?sz = {}"
    unfolding ring_offsets slot_addr_def
    by (rule same_ring_apart) (use slot_bound [OF w] ring_bytes_bound [of q] in linarith)+
  then have w': "wr_idx m' ?p = w" by (simp add: wr_idx_def w_def load_u32_same_except [OF se1])
  have "tx_list m' q = tx_list m q"
    unfolding tx_list_def w' eff(3) w_def [symmetric]
    by (rule ring_elems_cong) (use r(2) w eff(4) in auto)
  moreover have "queue_ready q m'"
    using rdy w eff w' by (simp add: queue_ready_def queue_wf_def same_except_mapped [OF se])
  moreover have "slot_at m' ?p ?sz w = (slot_at m ?p ?sz w)[i := b]"
    using load_byte_update [OF st slot_at_load(1) [OF r(3) w] i] unat_less [of "elem_size q"]
    by (simp add: slot_at_def)
  ultimately show ?thesis using st w' eff(3) by blast
qed

lemma publish_write_effect:
  assumes rdy: "queue_ready q m"
    and nf: "(wr_idx m (push_ring q) + 1) mod unat (elem_num q) \<noteq> rd_idx m (pop_ring q)"
  defines "w \<equiv> wr_idx m (push_ring q)"
  shows "\<exists>m'. store_u32 (ring_write (push_ring q)) ((word_of_nat w + 1) mod ucast (elem_num q)) m = Some m' \<and>
           queue_ready q m' \<and> rd_idx m' (pop_ring q) = rd_idx m (pop_ring q) \<and>
           wr_idx m' (push_ring q) = (w + 1) mod unat (elem_num q) \<and>
           tx_list m' q = tx_list m q @ [slot_at m (push_ring q) (unat (elem_size q)) w]"
proof -
  let ?p = "push_ring q" and ?n = "unat (elem_num q)" and ?sz = "unat (elem_size q)"
  note r = ready_idx [OF rdy]
  have w: "w < ?n" using r(1) by (simp add: w_def)
  have "mapped m (ring_write ?p) 4" unfolding ring_offsets by (rule ring_field_mapped [OF r(3)]) simp
  then obtain m' where st: "store_u32 (ring_write ?p) (word_of_nat ((w + 1) mod ?n)) m = Some m'"
    using store_u32_ok by blast
  have se1: "same_except (region (ring_write ?p) 4) m m'" by (rule store_u32_same_except [OF st])
  then have se: "same_except (push_area q w) m m'" by (rule same_except_mono) (simp add: push_area_def)
  note eff = push_effect [OF r(5) se w]
  have w': "wr_idx m' ?p = (w + 1) mod ?n"
    using load_store_u32 [OF st] idx_unat [of "(w + 1) mod ?n" "elem_num q"] w by (simp add: wr_idx_def)
  have "region (slot_addr ?p ?sz w) ?sz \<inter> region (ring_write ?p) 4 = {}"
    unfolding ring_offsets slot_addr_def
    by (rule same_ring_apart) (use slot_bound [OF w] ring_bytes_bound [of q] in linarith)+
  then have "slot_at m' ?p ?sz w = slot_at m ?p ?sz w"
    by (simp add: slot_at_def load_bytes_same_except [OF se1])
  then have "tx_list m' q = tx_list m q @ [slot_at m ?p ?sz w]"
    unfolding tx_list_def w' eff(3) w_def [symmetric]
    by (intro ring_elems_push) (use r(2) w nf eff(4) in \<open>auto simp: w_def\<close>)
  moreover have "queue_ready q m'"
    using rdy w eff w' by (simp add: queue_ready_def queue_wf_def same_except_mapped [OF se])
  ultimately show ?thesis using st w' eff(3) by (auto simp: idx_suc_mod [OF w])
qed

lemma publish_read_effect:
  assumes rdy: "queue_ready q m" and ne: "tx_list m q \<noteq> []"
  defines "r \<equiv> rd_idx m (pop_ring q)"
  shows "\<exists>m'. store_u32 (ring_read (pop_ring q)) ((word_of_nat r + 1) mod ucast (elem_num q)) m = Some m' \<and>
           queue_ready q m' \<and> wr_idx m' (push_ring q) = wr_idx m (push_ring q) \<and>
           rd_idx m' (pop_ring q) = (r + 1) mod unat (elem_num q) \<and> r \<noteq> wr_idx m (push_ring q) \<and>
           tx_list m' q = tl (tx_list m q) \<and>
           (\<forall>j < unat (elem_num q). slot_at m' (push_ring q) (unat (elem_size q)) j
                                   = slot_at m (push_ring q) (unat (elem_size q)) j)"
proof -
  let ?p = "push_ring q" and ?n = "unat (elem_num q)" and ?w = "wr_idx m (push_ring q)"
  note i = ready_idx [OF rdy]
  have r: "r < ?n" using i(2) by (simp add: r_def)
  have rw: "r \<noteq> ?w" using ne ring_elems_empty [OF r, of "slot_at m ?p (unat (elem_size q))"] by (auto simp: tx_list_def r_def)
  have "mapped m (ring_read (pop_ring q)) 4" unfolding ring_offsets by (rule ring_field_mapped [OF i(4)]) simp
  then obtain m' where st: "store_u32 (ring_read (pop_ring q)) (word_of_nat ((r + 1) mod ?n)) m = Some m'"
    using store_u32_ok by blast
  have se: "same_except (pop_area (peer q)) m m'"
    using store_u32_same_except [OF st] by (simp add: pop_area_def)
  have "queue_wf (peer q) m" using i(5) by simp
  note eff = pop_effect [OF this se, unfolded peer_simps]
  have r': "rd_idx m' (pop_ring q) = (r + 1) mod ?n"
    using load_store_u32 [OF st] idx_unat [of "(r + 1) mod ?n" "elem_num q"] r by (simp add: rd_idx_def)
  have "tx_list m' q = ring_elems (slot_at m ?p (unat (elem_size q))) ?n ((r + 1) mod ?n) ?w"
    unfolding tx_list_def r' eff(2) by (rule ring_elems_cong) (use r i(1) eff(5) in auto)
  then have "tx_list m' q = tl (tx_list m q)"
    using ring_elems_pop [OF r i(1) rw, of "slot_at m ?p (unat (elem_size q))"] by (simp add: tx_list_def r_def)
  moreover have "queue_ready q m'"
    using rdy r eff r' by (simp add: queue_ready_def queue_wf_def same_except_mapped [OF se])
  ultimately show ?thesis using st r' eff(2,5) rw by (auto simp: idx_suc_mod [OF r])
qed

section \<open>Progress and preservation\<close>

fun p_left :: "ipc_queue \<Rightarrow> pstate \<Rightarrow> nat" where
  "p_left q (PRet rc) = 0"
| "p_left q (PLoadW x) = unat (elem_size q) + 4"
| "p_left q (PLoadR x w) = unat (elem_size q) + 3"
| "p_left q (PCopy x w i) = unat (elem_size q) - i + 2"
| "p_left q (PPub x w) = 1"

fun c_left :: "ipc_queue \<Rightarrow> cstate \<Rightarrow> nat" where
  "c_left q (CRet rc) = 0"
| "c_left q CLoadW = unat (elem_size q) + 6"
| "c_left q (CLoadR w) = unat (elem_size q) + 5"
| "c_left q (CPopSent w r) = unat (elem_size q) + 4"
| "c_left q (CPushSent w r) = unat (elem_size q) + 3"
| "c_left q (CCopy r acc) = unat (elem_size q) - length acc + 2"
| "c_left q (CPub r acc) = 1"

lemma take_Suc_update: "i < length xs \<Longrightarrow> take (Suc i) (xs[i := b]) = take i xs @ [b]"
  by (simp add: take_Suc_conv_app_nth)

lemma seen_push:
  assumes "queue_ready q m" "seen q m w" "rd_idx m' (pop_ring q) = rd_idx m (pop_ring q)"
    and nf: "(wr_idx m (push_ring q) + 1) mod unat (elem_num q) \<noteq> rd_idx m (pop_ring q)"
    and "wr_idx m' (push_ring q) = (wr_idx m (push_ring q) + 1) mod unat (elem_num q)"
  shows "seen q m' w"
  using assms ring_count_push [OF ready_idx(2,1) [OF assms(1)] nf] by (simp add: seen_def)

lemma cons_inv_push:
  assumes "queue_ready q m" "cons_inv q m c" "rd_idx m' (pop_ring q) = rd_idx m (pop_ring q)"
    and "(wr_idx m (push_ring q) + 1) mod unat (elem_num q) \<noteq> rd_idx m (pop_ring q)"
    and "wr_idx m' (push_ring q) = (wr_idx m (push_ring q) + 1) mod unat (elem_num q)"
    and "tx_list m' q = tx_list m q @ [x]"
  shows "cons_inv q m' c"
  using assms seen_push [OF assms(1) _ assms(3,4,5)]
  by (cases c) (auto simp: cons_inv_def)

lemma cons_inv_copy:
  assumes "cons_inv q m c" "rd_idx m' (pop_ring q) = rd_idx m (pop_ring q)"
    and "wr_idx m' (push_ring q) = wr_idx m (push_ring q)" "tx_list m' q = tx_list m q"
  shows "cons_inv q m' c"
  using assms by (cases c) (auto simp: cons_inv_def seen_def)

lemma prod_inv_pop:
  assumes "queue_ready q m" "prod_inv q m p" "wr_idx m' (push_ring q) = wr_idx m (push_ring q)"
    and "rd_idx m' (pop_ring q) = (rd_idx m (pop_ring q) + 1) mod unat (elem_num q)"
    and "rd_idx m (pop_ring q) \<noteq> wr_idx m (push_ring q)"
    and "\<forall>j < unat (elem_num q). slot_at m' (push_ring q) (unat (elem_size q)) j
                                 = slot_at m (push_ring q) (unat (elem_size q)) j"
  shows "prod_inv q m' p"
proof -
  have "(wr_idx m (push_ring q) + 1) mod unat (elem_num q) \<noteq> (rd_idx m (pop_ring q) + 1) mod unat (elem_num q)"
    using assms(5) ready_idx(1,2) [OF assms(1)] by (auto simp: suc_mod_cases split: if_splits)
  then show ?thesis using assms ready_idx(1) [OF assms(1)] by (cases p) (auto simp: prod_inv_def)
qed

lemma prod_progress:
  assumes inv: "spsc_inv q s" and busy: "\<And>rc. prod s \<noteq> PRet rc"
  shows "\<exists>s'. do_prod q s = Some s' \<and> spsc_inv q s' \<and> p_left q (prod s') < p_left q (prod s)"
proof -
  let ?m = "sp_mem s" and ?p = "push_ring q" and ?w = "wr_idx (sp_mem s) (push_ring q)"
  from inv have rdy: "queue_ready q ?m" and log: "sent s = rcvd s @ tx_list ?m q"
    and pi: "prod_inv q ?m (prod s)" and ci: "cons_inv q ?m (cons s)" by (auto simp: spsc_inv_def)
  note r = ready_idx [OF rdy]
  show ?thesis
  proof (cases "prod s")
    case (PRet rc)
    with busy [of rc] show ?thesis by simp
  next
    case (PLoadW x)
    then show ?thesis
      using inv pi load_wr_idx [OF r(3)]
      by (simp add: do_prod_def push_step_def spsc_inv_def prod_inv_def)
  next
    case (PLoadR x w)
    moreover have "(word_of_nat ((?w + 1) mod unat (elem_num q)) :: u32) = word_of_nat (rd_idx ?m (pop_ring q))
        \<longleftrightarrow> (?w + 1) mod unat (elem_num q) = rd_idx ?m (pop_ring q)"
      using r by (intro idx_eq_iff [of _ "elem_num q"]) auto
    ultimately show ?thesis
      using inv pi r load_rd_idx [OF r(4)]
      by (auto simp: do_prod_def push_step_def spsc_inv_def prod_inv_def idx_ge_iff idx_suc_mod)
  next
    case (PCopy x w i)
    with pi have w: "w = word_of_nat ?w" and i: "i \<le> unat (elem_size q)" and len: "length x = unat (elem_size q)"
      by (simp_all add: prod_inv_def)
    show ?thesis
    proof (cases "i < unat (elem_size q)")
      case True
      from copy_byte_effect [OF rdy True, of "x ! i"] obtain m' where
        st: "store_bytes (slot_addr ?p (unat (elem_size q)) ?w + of_nat i) [x ! i] ?m = Some m'"
        and e: "queue_ready q m'" "wr_idx m' ?p = ?w" "rd_idx m' (pop_ring q) = rd_idx ?m (pop_ring q)"
          "tx_list m' q = tx_list ?m q"
          "slot_at m' ?p (unat (elem_size q)) ?w = (slot_at ?m ?p (unat (elem_size q)) ?w)[i := x ! i]" by blast
      have "do_prod q s = Some (s\<lparr>prod := PCopy x w (Suc i), sp_mem := m'\<rparr>)"
        using PCopy True st r(1) by (simp add: do_prod_def push_step_def w slot_address idx_unat)
      moreover have "prod_inv q m' (PCopy x w (Suc i))"
        using pi PCopy e True len slot_at_load(2) [OF r(3) r(1)]
        by (simp add: prod_inv_def take_Suc_update take_Suc_conv_app_nth)
      ultimately show ?thesis
        using PCopy True e log cons_inv_copy [OF ci e(3,2,4)] by (auto simp: spsc_inv_def)
    next
      case False
      then have "i = length x" using i len by simp
      then show ?thesis
        using inv pi PCopy False slot_at_load(2) [OF r(3) r(1)]
        by (simp add: do_prod_def push_step_def spsc_inv_def prod_inv_def)
    qed
  next
    case (PPub x w)
    with pi have w: "w = word_of_nat ?w" and nf: "(?w + 1) mod unat (elem_num q) \<noteq> rd_idx ?m (pop_ring q)"
      and x: "slot_at ?m ?p (unat (elem_size q)) ?w = x" by (simp_all add: prod_inv_def)
    from publish_write_effect [OF rdy nf] x obtain m' where
      st: "store_u32 (ring_write ?p) ((word_of_nat ?w + 1) mod ucast (elem_num q)) ?m = Some m'"
      and e: "queue_ready q m'" "rd_idx m' (pop_ring q) = rd_idx ?m (pop_ring q)"
        "wr_idx m' ?p = (?w + 1) mod unat (elem_num q)" "tx_list m' q = tx_list ?m q @ [x]" by blast
    have "do_prod q s = Some (s\<lparr>prod := PRet 0, sp_mem := m', sent := sent s @ [x]\<rparr>)"
      using PPub st by (simp add: do_prod_def push_step_def w)
    then show ?thesis
      using PPub e log cons_inv_push [OF rdy ci e(2) nf e(3,4)] by (auto simp: spsc_inv_def prod_inv_def)
  qed
qed

lemma load_one:
  assumes "load_bytes m a n = Some bs" and "i < n"
  shows "load_bytes m (a + of_nat i) 1 = Some [bs ! i]"
  using assms by (auto simp: load_bytes_def mapped_def list_all_iff split: if_splits)

lemma hd_tx_list:
  assumes "queue_ready q m" and "tx_list m q \<noteq> []"
  shows "hd (tx_list m q) = slot_at m (push_ring q) (unat (elem_size q)) (rd_idx m (pop_ring q))"
proof -
  note r = ready_idx [OF assms(1)]
  have "rd_idx m (pop_ring q) \<noteq> wr_idx m (push_ring q)"
    using assms(2) ring_elems_Nil_iff [OF r(2,1)] by (metis tx_list_def)
  from ring_elems_pop [OF r(2,1) this, of "slot_at m (push_ring q) (unat (elem_size q))"]
  show ?thesis by (simp add: tx_list_def)
qed

lemma seen_not_empty:
  assumes "queue_ready q m" "seen q m w" "(word_of_nat (rd_idx m (pop_ring q)) :: u32) \<noteq> w"
  shows "tx_list m q \<noteq> []"
proof -
  note r = ready_idx [OF assms(1)]
  have "rd_idx m (pop_ring q) \<noteq> unat w" using assms(3) by auto
  then have "ring_count (unat (elem_num q)) (rd_idx m (pop_ring q)) (unat w) \<noteq> 0"
    using assms(2) r(2) by (simp add: seen_def ring_count_zero_iff)
  then have "length (tx_list m q) \<noteq> 0" using assms(2) by (simp add: seen_def tx_list_def)
  then show ?thesis by auto
qed

lemma cons_progress:
  assumes inv: "spsc_inv q s" and busy: "\<And>rc. cons s \<noteq> CRet rc"
  shows "\<exists>s'. do_cons q s = Some s' \<and> spsc_inv q s' \<and> c_left q (cons s') < c_left q (cons s)"
proof -
  let ?m = "sp_mem s" and ?r = "rd_idx (sp_mem s) (pop_ring q)"
  from inv have rdy: "queue_ready q ?m" and log: "sent s = rcvd s @ tx_list ?m q"
    and pi: "prod_inv q ?m (prod s)" and ci: "cons_inv q ?m (cons s)" by (auto simp: spsc_inv_def)
  note r = ready_idx [OF rdy]
  have sentinels: "load_u64 ?m (ring_sentinel (push_ring q)) = Some IPC_QUEUE_INIT_DONE"
    "load_u64 ?m (ring_sentinel (pop_ring q)) = Some IPC_QUEUE_INIT_DONE"
    using rdy by (simp_all add: queue_ready_def)
  show ?thesis
  proof (cases "cons s")
    case (CRet rc)
    with busy [of rc] show ?thesis by simp
  next
    case CLoadW
    moreover have "seen q ?m (word_of_nat (wr_idx ?m (push_ring q)))"
      using r(1) by (simp add: seen_def idx_unat)
    ultimately show ?thesis
      using inv ci load_wr_idx [OF r(3)] by (simp add: do_cons_def pop_step_def spsc_inv_def cons_inv_def)
  next
    case (CLoadR w)
    then show ?thesis
      using inv ci load_rd_idx [OF r(4)] by (simp add: do_cons_def pop_step_def spsc_inv_def cons_inv_def)
  next
    case (CPopSent w r)
    then show ?thesis
      using inv ci sentinels by (simp add: do_cons_def pop_step_def spsc_inv_def cons_inv_def)
  next
    case (CPushSent w r')
    then have rr: "r' = word_of_nat ?r" and sn: "seen q ?m w" using ci by (simp_all add: cons_inv_def)
    have "\<not> ucast (elem_num q) \<le> r'" "\<not> ucast (elem_num q) \<le> w"
      using idx_ge_iff [OF r(2)] sn by (simp_all add: rr seen_def word_le_nat_alt unat_ucast_up)
    then show ?thesis
      using CPushSent inv ci sentinels rr seen_not_empty [OF rdy sn]
      by (auto simp: do_cons_def pop_step_def spsc_inv_def cons_inv_def)
  next
    case (CCopy r' acc)
    then have rr: "r' = word_of_nat ?r" and ne: "tx_list ?m q \<noteq> []"
      and len: "length acc \<le> unat (elem_size q)" and acc: "take (length acc) (hd (tx_list ?m q)) = acc"
      using ci by (simp_all add: cons_inv_def)
    note hd = hd_tx_list [OF rdy ne] and sl = slot_at_load [OF r(3) r(2)]
    show ?thesis
    proof (cases "length acc < unat (elem_size q)")
      case True
      note b = load_one [OF sl(1) True]
      have "do_cons q s = Some (s\<lparr>cons := CCopy r' (acc @ [hd (tx_list ?m q) ! length acc])\<rparr>)"
        using CCopy True b r(2) by (simp add: do_cons_def pop_step_def rr slot_address idx_unat hd)
      then show ?thesis
        using CCopy True inv rr ne acc hd sl(2)
        by (simp add: spsc_inv_def cons_inv_def take_Suc_conv_app_nth)
    next
      case False
      then show ?thesis
        using CCopy inv rr ne acc hd sl(2) by (simp add: do_cons_def pop_step_def spsc_inv_def cons_inv_def)
    qed
  next
    case (CPub r' acc)
    then have rr: "r' = word_of_nat ?r" and ne: "tx_list ?m q \<noteq> []" and acc: "hd (tx_list ?m q) = acc"
      using ci by (simp_all add: cons_inv_def)
    from publish_read_effect [OF rdy ne] obtain m' where
      st: "store_u32 (ring_read (pop_ring q)) ((word_of_nat ?r + 1) mod ucast (elem_num q)) ?m = Some m'"
      and e: "queue_ready q m'" "wr_idx m' (push_ring q) = wr_idx ?m (push_ring q)"
        "rd_idx m' (pop_ring q) = (?r + 1) mod unat (elem_num q)" "?r \<noteq> wr_idx ?m (push_ring q)"
        "tx_list m' q = tl (tx_list ?m q)"
        "\<forall>j < unat (elem_num q). slot_at m' (push_ring q) (unat (elem_size q)) j
                                 = slot_at ?m (push_ring q) (unat (elem_size q)) j" by blast
    have "do_cons q s = Some (s\<lparr>cons := CRet 0, sp_mem := m', rcvd := rcvd s @ [acc]\<rparr>)"
      using CPub st by (simp add: do_cons_def pop_step_def rr)
    then show ?thesis
      using CPub e log ne acc prod_inv_pop [OF rdy pi e(2-4,6)]
      by (auto simp: spsc_inv_def cons_inv_def neq_Nil_conv)
  qed
qed

lemma spsc_step_inv:
  assumes "spsc_step q s s'" and "spsc_inv q s"
  shows "spsc_inv q s'"
  using assms
proof cases
  case (call_push rc x)
  then show ?thesis using assms(2) by (simp add: spsc_inv_def prod_inv_def)
next
  case (call_pop rc)
  then show ?thesis using assms(2) by (simp add: spsc_inv_def cons_inv_def)
next
  case producer
  then have "\<And>rc. prod s \<noteq> PRet rc" by (auto simp: do_prod_def push_step_def)
  from prod_progress [OF assms(2) this] producer show ?thesis by auto
next
  case consumer
  then have "\<And>rc. cons s \<noteq> CRet rc" by (auto simp: do_cons_def pop_step_def)
  from cons_progress [OF assms(2) this] consumer show ?thesis by auto
qed

lemma spsc_reach_inv: "spsc_reach q m0 s \<Longrightarrow> spsc_inv q s"
proof (induction rule: spsc_reach.induct)
  case start
  then show ?case by (simp add: spsc_inv_def prod_inv_def cons_inv_def)
next
  case (step s s')
  then show ?case using spsc_step_inv by blast
qed

section \<open>An uninterrupted call is the sequential operation\<close>

lemma store_bytes_snoc:
  assumes "store_bytes a bs m = Some m1" and "mapped m (a + of_nat (length bs)) 1" and "length bs < 2 ^ 64"
  shows "store_bytes (a + of_nat (length bs)) [b] m1 = store_bytes a (bs @ [b]) m"
proof -
  from assms(1) have mp: "mapped m a (length bs)"
    and m1: "m1 = (\<lambda>x. if unat (x - a) < length bs then Some (bs ! unat (x - a)) else m x)"
    by (auto simp: store_bytes_def split: if_splits)
  have dom: "dom m1 = dom m"
    using store_bytes_same_except [OF assms(1)] assms(3) by (simp add: same_except_def)
  have mp1: "mapped m a (Suc (length bs))" using mp assms(2) by (auto simp: mapped_def list_all_iff less_Suc_eq)
  have at: "unat (x - (a + of_nat (length bs))) < 1 \<longleftrightarrow> unat (x - a) = length bs" for x
  proof -
    have "unat (x - a) = length bs \<longleftrightarrow> x - a = of_nat (length bs)"
      using assms(3) by (metis unat_of_nat_small word_unat_eq_iff)
    then show ?thesis by (auto simp: unat_eq_zero algebra_simps)
  qed
  have "[b] ! unat (x - (a + of_nat (length bs))) = b" if "unat (x - a) = length bs" for x
    using at [of x] that by simp
  then show ?thesis
    using assms(2) mp1 mapped_dom [OF dom] at
    by (auto simp: store_bytes_def m1 fun_eq_iff nth_append less_Suc_eq)
qed

lemma copy_in_loop:
  fixes q :: ipc_queue and w :: u32
  defines "a \<equiv> ring_data (push_ring q) + ucast (w * ucast (elem_size q))"
  assumes "store_bytes a (take i x) m = Some (sp_mem s)" and "mapped m a (unat (elem_size q))"
    and "length x = unat (elem_size q)" and "i \<le> unat (elem_size q)" and "prod s = PCopy x w i"
  shows "\<exists>m1. store_bytes a x m = Some m1 \<and> (\<lambda>s s'. do_prod q s = Some s')\<^sup>*\<^sup>* s (s\<lparr>prod := PPub x w, sp_mem := m1\<rparr>)"
  using assms(2-)
proof (induction "unat (elem_size q) - i" arbitrary: i s)
  case 0
  then have "i = length x" by simp
  with 0 have st: "do_prod q s = Some (s\<lparr>prod := PPub x w, sp_mem := sp_mem s\<rparr>)" and "store_bytes a x m = Some (sp_mem s)"
    by (simp_all add: do_prod_def push_step_def)
  with r_into_rtranclp [of "\<lambda>s s'. do_prod q s = Some s'", OF st] show ?case by blast
next
  case (Suc k)
  then have i: "i < unat (elem_size q)" by simp
  have len: "length (take i x) = i" using i Suc.prems(3) by simp
  have "mapped m (a + of_nat (length (take i x))) 1"
    using Suc.prems(2) i unfolding len by (intro mapped_sub [of m a "unat (elem_size q)" i 1]) simp_all
  moreover have "length (take i x) < 2 ^ 64" using len i unat_less [of "elem_size q"] by simp
  ultimately have sn: "store_bytes (a + of_nat i) [x ! i] (sp_mem s) = store_bytes a (take (Suc i) x) m"
    using store_bytes_snoc [OF Suc.prems(1), of "x ! i"] i Suc.prems(3) len
    by (simp add: take_Suc_conv_app_nth)
  obtain m1 where m1: "store_bytes a (take (Suc i) x) m = Some m1"
    using Suc.prems(2) i mapped_sub [of m a "unat (elem_size q)" 0 "Suc i"] store_bytes_Some_iff [of a "take (Suc i) x" m] Suc.prems(3)
    by auto
  let ?s = "s\<lparr>prod := PCopy x w (Suc i), sp_mem := m1\<rparr>"
  have st: "do_prod q s = Some ?s"
    using Suc.prems(5) i sn m1 by (simp add: do_prod_def push_step_def a_def)
  have "\<exists>m2. store_bytes a x m = Some m2 \<and> (\<lambda>s s'. do_prod q s = Some s')\<^sup>*\<^sup>* ?s (?s\<lparr>prod := PPub x w, sp_mem := m2\<rparr>)"
    using Suc.hyps(2) Suc.prems i m1 by (intro Suc.hyps(1) [of "Suc i"]) simp_all
  then show ?case using converse_rtranclp_into_rtranclp [of "\<lambda>s s'. do_prod q s = Some s'", OF st] by auto
qed

lemma copy_out_loop:
  fixes q :: ipc_queue and r :: u32
  defines "a \<equiv> ring_data (push_ring q) + ucast (r * ucast (elem_size q))"
  assumes "load_bytes (sp_mem s) a (unat (elem_size q)) = Some bs" and "i \<le> unat (elem_size q)"
    and "cons s = CCopy r (take i bs)"
  shows "(\<lambda>s s'. do_cons q s = Some s')\<^sup>*\<^sup>* s (s\<lparr>cons := CPub r bs\<rparr>)"
  using assms(2-)
proof (induction "unat (elem_size q) - i" arbitrary: i s)
  case 0
  then have "do_cons q s = Some (s\<lparr>cons := CPub r bs\<rparr>)"
    using load_bytes_length [OF 0(2)] by (simp add: do_cons_def pop_step_def)
  then show ?case by blast
next
  case (Suc k)
  then have i: "i < unat (elem_size q)" by simp
  have len: "length bs = unat (elem_size q)" by (rule load_bytes_length [OF Suc.prems(1)])
  let ?s = "s\<lparr>cons := CCopy r (take (Suc i) bs)\<rparr>"
  have st: "do_cons q s = Some ?s"
    using Suc.prems(3) i len load_one [OF Suc.prems(1) i]
    by (simp add: do_cons_def pop_step_def a_def take_Suc_conv_app_nth)
  have "(\<lambda>s s'. do_cons q s = Some s')\<^sup>*\<^sup>* ?s (?s\<lparr>cons := CPub r bs\<rparr>)"
    using Suc.hyps(2) Suc.prems i by (intro Suc.hyps(1) [of "Suc i"]) simp_all
  then show ?case using converse_rtranclp_into_rtranclp [of "\<lambda>s s'. do_cons q s = Some s'", OF st] by simp
qed

lemma push_run_alone:
  assumes "prod s = PLoadW x" and "length x = unat (elem_size q)" and "push_ring q \<noteq> 0" and "pop_ring q \<noteq> 0"
    and run: "ipc_queue_push (Some q) (Some x) (sp_mem s) = Some (rc, m')"
  shows "(\<lambda>s s'. do_prod q s = Some s')\<^sup>*\<^sup>* s
           (s\<lparr>prod := PRet rc, sp_mem := m', sent := sent s @ (if rc = 0 then [x] else [])\<rparr>)"
proof -
  let ?R = "\<lambda>s s'. do_prod q s = Some s'" and ?m = "sp_mem s"
  from run assms(3,4) obtain w r where w: "load_u32 ?m (ring_write (push_ring q)) = Some w"
    and r: "load_u32 ?m (ring_read (pop_ring q)) = Some r"
    by (auto simp: ipc_queue_push_def split: Option.bind_splits)
  let ?s1 = "s\<lparr>prod := PLoadR x w\<rparr>" and ?s2 = "s\<lparr>prod := PCopy x w 0\<rparr>"
  have s1: "?R s ?s1" using assms(1) w by (simp add: do_prod_def push_step_def)
  show ?thesis
  proof (cases "r \<ge> ucast (elem_num q) \<or> w \<ge> ucast (elem_num q) \<or> (w + 1) mod ucast (elem_num q) = r")
    case True
    then have "?R ?s1 (s\<lparr>prod := PRet rc, sp_mem := m', sent := sent s @ (if rc = 0 then [x] else [])\<rparr>)"
      using run assms(3,4) w r
      by (auto simp: do_prod_def push_step_def ipc_queue_push_def EINVAL_def ENOMEM_def split: if_splits)
    with s1 show ?thesis by (meson converse_rtranclp_into_rtranclp r_into_rtranclp)
  next
    case False
    let ?a = "ring_data (push_ring q) + ucast (w * ucast (elem_size q))"
    from False run assms(2-4) w r obtain m1 where m1: "store_bytes ?a x ?m = Some m1"
      and m2: "store_u32 (ring_write (push_ring q)) ((w + 1) mod ucast (elem_num q)) m1 = Some m'" and rc: "rc = 0"
      by (auto simp: ipc_queue_push_def split: Option.bind_splits)
    have s2: "?R ?s1 ?s2" using False r by (simp add: do_prod_def push_step_def)
    have "mapped ?m ?a (unat (elem_size q))" using m1 store_bytes_Some_iff [of ?a x ?m] assms(2) by auto
    then have "?R\<^sup>*\<^sup>* ?s2 (?s2\<lparr>prod := PPub x w, sp_mem := m1\<rparr>)"
      using copy_in_loop [of q w 0 x ?m ?s2] m1 assms(2) by (auto simp: store_bytes_def mapped_def)
    moreover have "?R (?s2\<lparr>prod := PPub x w, sp_mem := m1\<rparr>) (s\<lparr>prod := PRet 0, sp_mem := m', sent := sent s @ [x]\<rparr>)"
      using m2 by (simp add: do_prod_def push_step_def)
    ultimately have "?R\<^sup>*\<^sup>* ?s2 (s\<lparr>prod := PRet 0, sp_mem := m', sent := sent s @ [x]\<rparr>)" by (rule rtranclp.rtrancl_into_rtrancl)
    with s1 s2 rc show ?thesis by (simp add: converse_rtranclp_into_rtranclp)
  qed
qed

lemma pop_run_alone:
  assumes "cons s = CLoadW" and "length old = unat (elem_size q)" and "push_ring q \<noteq> 0" and "pop_ring q \<noteq> 0"
    and run: "ipc_queue_pop (Some (peer q)) (Some old) (sp_mem s) = Some (rc, Some x, m')"
  shows "(\<lambda>s s'. do_cons q s = Some s')\<^sup>*\<^sup>* s
           (s\<lparr>cons := CRet rc, sp_mem := m', rcvd := rcvd s @ (if rc = 0 then [x] else [])\<rparr>)"
proof -
  let ?R = "\<lambda>s s'. do_cons q s = Some s'" and ?m = "sp_mem s"
  from run assms(3,4) obtain w r where w: "load_u32 ?m (ring_write (push_ring q)) = Some w"
    and r: "load_u32 ?m (ring_read (pop_ring q)) = Some r"
    by (auto simp: ipc_queue_pop_def split: Option.bind_splits)
  from run assms(3,4) w r obtain ps where ps: "load_u64 ?m (ring_sentinel (push_ring q)) = Some ps"
    by (auto simp: ipc_queue_pop_def ipc_queue_check_integrity_def split: Option.bind_splits)
  let ?s1 = "s\<lparr>cons := CLoadR w\<rparr>" and ?s2 = "s\<lparr>cons := CPopSent w r\<rparr>" and ?s3 = "s\<lparr>cons := CPushSent w r\<rparr>"
  let ?fin = "s\<lparr>cons := CRet rc, sp_mem := m', rcvd := rcvd s @ (if rc = 0 then [x] else [])\<rparr>"
  have s12: "?R s ?s1" "?R ?s1 ?s2" using assms(1) w r by (simp_all add: do_cons_def pop_step_def)
  have "?R\<^sup>*\<^sup>* ?s2 ?fin"
  proof (cases "ps = IPC_QUEUE_INIT_DONE")
    case False
    then have "?R ?s2 ?fin" using run assms(3,4) w r ps
      by (auto simp: do_cons_def pop_step_def ipc_queue_pop_def ipc_queue_check_integrity_def EINVAL_def)
    then show ?thesis by (rule r_into_rtranclp [of ?R])
  next
    case True
    from run assms(3,4) w r ps True obtain qs where qs: "load_u64 ?m (ring_sentinel (pop_ring q)) = Some qs"
      by (auto simp: ipc_queue_pop_def ipc_queue_check_integrity_def split: Option.bind_splits)
    have s3: "?R ?s2 ?s3" using True ps by (simp add: do_cons_def pop_step_def)
    have "?R\<^sup>*\<^sup>* ?s3 ?fin"
    proof (cases "qs \<noteq> IPC_QUEUE_INIT_DONE \<or> r \<ge> ucast (elem_num q) \<or> w \<ge> ucast (elem_num q) \<or> r = w")
      case bad: True
      then have "?R ?s3 ?fin" using run assms(3,4) w r ps qs True
        by (auto simp: do_cons_def pop_step_def ipc_queue_pop_def ipc_queue_check_integrity_def
            EINVAL_def ENOBUFS_def split: if_splits)
      then show ?thesis by (rule r_into_rtranclp [of ?R])
    next
      case False
      let ?a = "ring_data (push_ring q) + ucast (r * ucast (elem_size q))"
      from False True run assms(2-4) w r ps qs have ld: "load_bytes ?m ?a (unat (elem_size q)) = Some x"
        and st: "store_u32 (ring_read (pop_ring q)) ((r + 1) mod ucast (elem_num q)) ?m = Some m'" and rc: "rc = 0"
        by (auto simp: ipc_queue_pop_def ipc_queue_check_integrity_def split: Option.bind_splits)
      let ?s4 = "s\<lparr>cons := CCopy r []\<rparr>"
      have s4: "?R ?s3 ?s4" using False qs by (simp add: do_cons_def pop_step_def)
      have "?R\<^sup>*\<^sup>* ?s4 (?s4\<lparr>cons := CPub r x\<rparr>)" using copy_out_loop [of ?s4 q r x 0] ld by simp
      moreover have "?R (?s4\<lparr>cons := CPub r x\<rparr>) ?fin" using st rc by (simp add: do_cons_def pop_step_def)
      ultimately have "?R\<^sup>*\<^sup>* ?s4 ?fin" by (rule rtranclp.rtrancl_into_rtrancl)
      then show ?thesis by (rule converse_rtranclp_into_rtranclp [of ?R, OF s4])
    qed
    then show ?thesis by (rule converse_rtranclp_into_rtranclp [of ?R, OF s3])
  qed
  with s12 show ?thesis by (meson converse_rtranclp_into_rtranclp)
qed

section \<open>Properties\<close>

text \<open>
  C3. Linearisability of the lock-free queue. In every state reachable by any interleaving of
  producer and consumer at the granularity of single shared-memory accesses, from an initialised
  empty queue: the elements of completed pushes are exactly the elements of completed pops followed
  by the pending ones, in order (nothing is lost, duplicated, reordered or torn), no more than
  \<open>elem_num - 1\<close> are pending, and the only codes ever returned are 0 and \<open>-ENOMEM\<close> to the producer,
  0 and \<open>-ENOBUFS\<close> to the consumer.
\<close>

theorem spsc_linearizable:
  assumes "spsc_reach q m0 s"
  shows "sent s = rcvd s @ tx_list (sp_mem s) q \<and> length (tx_list (sp_mem s) q) + 1 \<le> unat (elem_num q) \<and>
         queue_ready q (sp_mem s) \<and>
         (\<forall>rc. prod s = PRet rc \<longrightarrow> rc = 0 \<or> rc = - ENOMEM) \<and>
         (\<forall>rc. cons s = CRet rc \<longrightarrow> rc = 0 \<or> rc = - ENOBUFS)"
  using spsc_reach_inv [OF assms] tx_list_bound [of q "sp_mem s"]
  by (auto simp: spsc_inv_def prod_inv_def cons_inv_def queue_ready_def)

theorem spsc_linearizable_witness:
  "\<exists>s. spsc_reach demo_queue demo_mem s \<and> sent s = [demo_elem] \<and> tx_list (sp_mem s) demo_queue = [demo_elem]"
proof -
  let ?s0 = "\<lparr>sp_mem = demo_mem, prod = PRet 0, cons = CRet 0, sent = [], rcvd = []\<rparr>"
  let ?s1 = "?s0\<lparr>prod := PLoadW demo_elem\<rparr>"
  have "spsc_reach demo_queue demo_mem ?s0" by (rule spsc_reach.start [OF demo_ready demo_empty(1)])
  then have r1: "spsc_reach demo_queue demo_mem ?s1"
    by (rule spsc_reach.step) (rule spsc_step.call_push [of _ 0], simp_all)
  obtain m' where "ipc_queue_push (Some demo_queue) (Some demo_elem) demo_mem = Some (0, m')"
    using push_ok [OF demo_wf, of demo_elem] by (auto simp: demo_empty)
  then have run: "(\<lambda>s s'. do_prod demo_queue s = Some s')\<^sup>*\<^sup>* ?s1 (?s1\<lparr>prod := PRet 0, sp_mem := m', sent := [demo_elem]\<rparr>)"
    using push_run_alone [of ?s1 demo_elem demo_queue 0 m'] by simp
  have "spsc_reach demo_queue demo_mem s'" if "(\<lambda>s s'. do_prod demo_queue s = Some s')\<^sup>*\<^sup>* ?s1 s'" for s'
    using that
  proof (induction rule: rtranclp_induct)
    case base
    show ?case by (rule r1)
  next
    case (step y z)
    then show ?case by (blast intro: spsc_reach.step spsc_step.producer)
  qed
  from this [OF run] have r: "spsc_reach demo_queue demo_mem (?s1\<lparr>prod := PRet 0, sp_mem := m', sent := [demo_elem]\<rparr>)" .
  with spsc_linearizable [OF r] show ?thesis by fastforce
qed

text \<open>
  C7. Wait-freedom. In every reachable state a side that is inside a call can take its next step by
  itself, whatever the other side is doing, and every such step brings its return closer: a push
  returns after at most \<open>elem_size + 4\<close> of its own steps and a pop after at most \<open>elem_size + 6\<close>.
\<close>

theorem spsc_wait_free:
  assumes "spsc_reach q m0 s"
  shows "((\<exists>rc. prod s = PRet rc) \<or>
          (\<exists>s'. do_prod q s = Some s' \<and> p_left q (prod s') < p_left q (prod s) \<and> cons s' = cons s)) \<and>
         ((\<exists>rc. cons s = CRet rc) \<or>
          (\<exists>s'. do_cons q s = Some s' \<and> c_left q (cons s') < c_left q (cons s) \<and> prod s' = prod s)) \<and>
         p_left q (prod s) \<le> unat (elem_size q) + 4 \<and> c_left q (cons s) \<le> unat (elem_size q) + 6"
proof (intro conjI)
  have inv: "spsc_inv q s" by (rule spsc_reach_inv [OF assms])
  show "(\<exists>rc. prod s = PRet rc) \<or>
        (\<exists>s'. do_prod q s = Some s' \<and> p_left q (prod s') < p_left q (prod s) \<and> cons s' = cons s)"
    using prod_progress [OF inv] by (fastforce simp: do_prod_def split: Option.bind_splits)
  show "(\<exists>rc. cons s = CRet rc) \<or>
        (\<exists>s'. do_cons q s = Some s' \<and> c_left q (cons s') < c_left q (cons s) \<and> prod s' = prod s)"
    using cons_progress [OF inv] by (fastforce simp: do_cons_def split: Option.bind_splits)
  show "p_left q (prod s) \<le> unat (elem_size q) + 4" by (cases "prod s") auto
  show "c_left q (cons s) \<le> unat (elem_size q) + 6" by (cases "cons s") auto
qed

theorem spsc_wait_free_witness:
  "\<exists>s s'. spsc_reach demo_queue demo_mem s \<and> prod s = PLoadW demo_elem \<and> do_prod demo_queue s = Some s'"
proof -
  let ?s0 = "\<lparr>sp_mem = demo_mem, prod = PRet 0, cons = CRet 0, sent = [], rcvd = []\<rparr>"
  have "spsc_reach demo_queue demo_mem ?s0" by (rule spsc_reach.start [OF demo_ready demo_empty(1)])
  then have r: "spsc_reach demo_queue demo_mem (?s0\<lparr>prod := PLoadW demo_elem\<rparr>)"
    by (rule spsc_reach.step) (rule spsc_step.call_push [of _ 0], simp_all)
  from spsc_wait_free [OF r] have "\<exists>s'. do_prod demo_queue (?s0\<lparr>prod := PLoadW demo_elem\<rparr>) = Some s'" by auto
  with r show ?thesis by fastforce
qed

text \<open>
  C8. The interleaving model is the code. A push (pop) whose steps are taken one after another with
  nothing in between ends in exactly the memory, with exactly the return code and the element, that
  the sequential \<open>ipc_queue_push\<close> (\<open>ipc_queue_pop\<close>) computes.
\<close>

theorem spsc_steps_refine_operations:
  assumes "push_ring q \<noteq> 0" "pop_ring q \<noteq> 0" "length x = unat (elem_size q)" "length old = unat (elem_size q)"
  shows "(ipc_queue_push (Some q) (Some x) (sp_mem s) = Some (rc, m') \<longrightarrow> prod s = PLoadW x \<longrightarrow>
           (\<lambda>s s'. do_prod q s = Some s')\<^sup>*\<^sup>* s
             (s\<lparr>prod := PRet rc, sp_mem := m', sent := sent s @ (if rc = 0 then [x] else [])\<rparr>)) \<and>
         (ipc_queue_pop (Some (peer q)) (Some old) (sp_mem s) = Some (rc, Some y, m') \<longrightarrow> cons s = CLoadW \<longrightarrow>
           (\<lambda>s s'. do_cons q s = Some s')\<^sup>*\<^sup>* s
             (s\<lparr>cons := CRet rc, sp_mem := m', rcvd := rcvd s @ (if rc = 0 then [y] else [])\<rparr>))"
  using assms push_run_alone [of s x q rc m'] pop_run_alone [of s old q rc y m'] by blast

theorem spsc_steps_refine_operations_witness:
  "\<exists>m'. ipc_queue_push (Some demo_queue) (Some demo_elem) demo_mem = Some (0, m') \<and>
     (\<lambda>s s'. do_prod demo_queue s = Some s')\<^sup>*\<^sup>*
       \<lparr>sp_mem = demo_mem, prod = PLoadW demo_elem, cons = CRet 0, sent = [], rcvd = []\<rparr>
       \<lparr>sp_mem = m', prod = PRet 0, cons = CRet 0, sent = [demo_elem], rcvd = []\<rparr>"
proof -
  obtain m' where "ipc_queue_push (Some demo_queue) (Some demo_elem) demo_mem = Some (0, m')"
    using push_ok [OF demo_wf, of demo_elem] by (auto simp: demo_empty)
  then show ?thesis
    using spsc_steps_refine_operations [of demo_queue demo_elem demo_elem
        "\<lparr>sp_mem = demo_mem, prod = PLoadW demo_elem, cons = CRet 0, sent = [], rcvd = []\<rparr>" 0 m'] by auto
qed

end
