(* ===== verification/Shm.thy ===== *)
theory Shm
  imports Queue
begin

text \<open>
  The shared-memory driver of \<open>src/ipc-shm.c\<close>: its private data, and one definition per function, in
  the order of the file. The driver's state is the byte memory, the static array
  \<open>ipc_shm_priv_data\<close> and the state of the platform under it. Everything the file calls and does not
  define is a field of the record \<open>platform\<close>: the OS layer (\<open>ipc_os_*\<close>), the hardware layer
  (\<open>ipc_hw_*\<close>) and the receive callbacks of the application, which may call back into the driver and
  so transform the whole state. Log messages are left out.

  The static arrays are lists of their declared lengths; an index outside them is a fault (\<open>None\<close>),
  as is the call of a NULL callback.

  The union in \<open>struct ipc_shm_channel\<close> overlays \<open>umng.local_mem\<close> and \<open>umng.remote_mem\<close> on
  \<open>mng.bd_queue.push_ring\<close> and \<open>mng.bd_queue.pop_ring\<close> (both pairs at offsets 8 and 16). Channels are
  freed and re-initialised with either type and the free functions test these pointers, so the
  overlay is kept: \<open>local_mem\<close> and \<open>remote_mem\<close> are accessors of the ring pointers. The other
  members of each view are always written by that view's initialisation before that view reads
  them, and are separate fields.
\<close>

section \<open>Constants and private data\<close>

definition IPC_SHM_STATE_READY :: u64 where "IPC_SHM_STATE_READY = 0x3252455646435049"
definition IPC_SHM_STATE_CLEAR :: u64 where "IPC_SHM_STATE_CLEAR = 0"
definition IPC_SHM_UCHAN_INIT_IN_PROGRESS :: u32 where "IPC_SHM_UCHAN_INIT_IN_PROGRESS = 0x54494E49"
definition IPC_UCHAN_INIT_DONE :: u32 where "IPC_UCHAN_INIT_DONE = 0x55435049"
definition IPC_BUFFER_FROM_LOCAL :: u8 where "IPC_BUFFER_FROM_LOCAL = 0"
definition IPC_BUFFER_FROM_REMOTE :: u8 where "IPC_BUFFER_FROM_REMOTE = 1"

datatype ipc_shm_instance_state = IPC_SHM_INSTANCE_USED | IPC_SHM_INSTANCE_FREE | IPC_SHM_INSTANCE_ERROR

record ipc_shm_pool_addr =
  local_pool_shm :: u64
  remote_pool_shm :: u64

record ipc_shm_bd =
  bd_pool_id :: u16          \<comment> \<open>\<open>int16_t\<close>, read with \<open>sint\<close>\<close>
  bd_buf_id :: u16
  bd_data_size :: u32

record ipc_shm_pool =
  pl_num_bufs :: u16
  pl_buf_size :: u32
  pl_shm_size :: u32
  pl_local_pool_addr :: u64
  pl_remote_pool_addr :: u64
  pl_bd_queue :: ipc_queue

record ipc_managed_channel =
  mc_bd_queue :: ipc_queue
  mc_num_pools :: u16
  mc_pools :: "ipc_shm_pool list"
  mc_rx_cb :: u64
  mc_cb_arg :: u64

record ipc_unmanaged_channel =
  uc_size :: u32
  uc_rx_cb :: u64
  uc_cb_arg :: u64

record ipc_shm_channel =
  ch_id :: u8
  ch_type :: ipc_shm_channel_type
  ch_mng :: ipc_managed_channel
  ch_umng :: ipc_unmanaged_channel

record ipc_shm_priv =
  pv_shm_size :: u32
  pv_num_channels :: u8
  pv_channels :: "ipc_shm_channel list"
  pv_global :: u64

text \<open>The pointers of the unmanaged view of the union.\<close>

definition local_mem :: "ipc_shm_channel \<Rightarrow> u64" where
  "local_mem ch = push_ring (mc_bd_queue (ch_mng ch))"

definition remote_mem :: "ipc_shm_channel \<Rightarrow> u64" where
  "remote_mem ch = pop_ring (mc_bd_queue (ch_mng ch))"

definition set_umem :: "u64 \<Rightarrow> u64 \<Rightarrow> ipc_shm_channel \<Rightarrow> ipc_shm_channel" where
  "set_umem l r ch = ch\<lparr>ch_mng := (ch_mng ch)\<lparr>mc_bd_queue := (mc_bd_queue (ch_mng ch))\<lparr>push_ring := l, pop_ring := r\<rparr>\<rparr>\<rparr>"

text \<open>\<open>struct ipc_channel_umem\<close> and \<open>struct ipc_shm_global\<close> live in shared memory.\<close>

definition sizeof_ipc_channel_umem :: u32 where "sizeof_ipc_channel_umem = 16"
definition umem_sentinel :: "u64 \<Rightarrow> u64" where "umem_sentinel p = p"
definition umem_tx_count :: "u64 \<Rightarrow> u64" where "umem_tx_count p = p + 4"
definition umem_remote_tx_count :: "u64 \<Rightarrow> u64" where "umem_remote_tx_count p = p + 8"
definition umem_mem :: "u64 \<Rightarrow> u64" where "umem_mem p = p + 16"
definition sizeof_ipc_shm_global :: u32 where "sizeof_ipc_shm_global = 8"

text \<open>A buffer descriptor as the 8 bytes of its object representation.\<close>

definition sizeof_ipc_shm_bd :: nat where "sizeof_ipc_shm_bd = 8"

definition bd_bytes :: "ipc_shm_bd \<Rightarrow> byte list" where
  "bd_bytes bd = le_bytes 2 (unat (bd_pool_id bd)) @ le_bytes 2 (unat (bd_buf_id bd)) @ le_bytes 4 (unat (bd_data_size bd))"

definition bytes_bd :: "byte list \<Rightarrow> ipc_shm_bd" where
  "bytes_bd bs = \<lparr>bd_pool_id = word_of_nat (le_nat (take 2 bs)),
                  bd_buf_id = word_of_nat (le_nat (take 2 (drop 2 bs))),
                  bd_data_size = word_of_nat (le_nat (take 4 (drop 4 bs)))\<rparr>"

section \<open>State and platform\<close>

record 'w shm_state =
  st_mem :: memory
  st_priv :: "ipc_shm_priv list"
  st_env :: 'w

record 'w platform =
  hw_init :: "u8 \<Rightarrow> ipc_shm_cfg \<Rightarrow> 'w \<Rightarrow> (int \<times> 'w) option"
  hw_free :: "u8 \<Rightarrow> 'w \<Rightarrow> 'w option"
  hw_irq_enable :: "u8 \<Rightarrow> 'w \<Rightarrow> 'w option"
  hw_irq_disable :: "u8 \<Rightarrow> 'w \<Rightarrow> 'w option"
  hw_irq_notify :: "u8 \<Rightarrow> 'w \<Rightarrow> 'w option"
  os_init :: "u8 \<Rightarrow> ipc_shm_cfg \<Rightarrow> memory \<Rightarrow> 'w \<Rightarrow> (int \<times> memory \<times> 'w) option"
  os_free :: "u8 \<Rightarrow> memory \<Rightarrow> 'w \<Rightarrow> (memory \<times> 'w) option"
  os_get_local_shm :: "u8 \<Rightarrow> 'w \<Rightarrow> u64 option"
  os_get_remote_shm :: "u8 \<Rightarrow> 'w \<Rightarrow> u64 option"
  os_poll_channels :: "(u8 \<Rightarrow> int \<Rightarrow> 'w shm_state \<Rightarrow> (u32 \<times> 'w shm_state) option) \<Rightarrow>
                       u8 \<Rightarrow> 'w shm_state \<Rightarrow> (int \<times> 'w shm_state) option"
  app_rx_cb :: "u64 \<Rightarrow> u64 \<Rightarrow> u8 \<Rightarrow> u8 \<Rightarrow> u64 \<Rightarrow> u32 \<Rightarrow> 'w shm_state \<Rightarrow> 'w shm_state option"
  app_umng_rx_cb :: "u64 \<Rightarrow> u64 \<Rightarrow> u8 \<Rightarrow> u8 \<Rightarrow> u64 \<Rightarrow> 'w shm_state \<Rightarrow> 'w shm_state option"

definition priv_at :: "u8 \<Rightarrow> 'w shm_state \<Rightarrow> ipc_shm_priv option" where
  "priv_at i st = nth_opt (st_priv st) (unat i)"

definition upd_priv :: "u8 \<Rightarrow> (ipc_shm_priv \<Rightarrow> ipc_shm_priv) \<Rightarrow> 'w shm_state \<Rightarrow> 'w shm_state option" where
  "upd_priv i f st = do {
     p \<leftarrow> priv_at i st;
     Some (st\<lparr>st_priv := (st_priv st)[unat i := f p]\<rparr>) }"

definition upd_mem :: "(memory \<Rightarrow> memory option) \<Rightarrow> 'w shm_state \<Rightarrow> 'w shm_state option" where
  "upd_mem f st = do { m \<leftarrow> f (st_mem st); Some (st\<lparr>st_mem := m\<rparr>) }"

definition upd_env :: "('w \<Rightarrow> 'w option) \<Rightarrow> 'w shm_state \<Rightarrow> 'w shm_state option" where
  "upd_env f st = do { w \<leftarrow> f (st_env st); Some (st\<lparr>st_env := w\<rparr>) }"

section \<open>Channel lookup and integrity\<close>

definition get_channel_priv :: "u8 \<Rightarrow> u8 \<Rightarrow> 'w shm_state \<Rightarrow> ipc_shm_channel option" where
  "get_channel_priv i c st = do { p \<leftarrow> priv_at i st; nth_opt (pv_channels p) (unat c) }"

definition upd_channel :: "u8 \<Rightarrow> u8 \<Rightarrow> (ipc_shm_channel \<Rightarrow> ipc_shm_channel) \<Rightarrow> 'w shm_state \<Rightarrow> 'w shm_state option" where
  "upd_channel i c f st = do {
     ch \<leftarrow> get_channel_priv i c st;
     upd_priv i (\<lambda>p. p\<lparr>pv_channels := (pv_channels p)[unat c := f ch]\<rparr>) st }"

text \<open>A lookup that may return NULL has an option inside the outer one: \<open>Some None\<close> is NULL.\<close>

definition get_channel :: "u8 \<Rightarrow> u8 \<Rightarrow> 'w shm_state \<Rightarrow> ipc_shm_channel option option" where
  "get_channel i c st = do {
     p \<leftarrow> priv_at i st;
     if c \<ge> pv_num_channels p then Some None
     else do { ch \<leftarrow> get_channel_priv i c st; Some (Some ch) } }"

definition get_managed_chan :: "u8 \<Rightarrow> u8 \<Rightarrow> 'w shm_state \<Rightarrow> ipc_managed_channel option option" where
  "get_managed_chan i c st = do {
     chan \<leftarrow> get_channel i c st;
     Some (case chan of None \<Rightarrow> None
           | Some ch \<Rightarrow> if ch_type ch \<noteq> IPC_SHM_MANAGED then None else Some (ch_mng ch)) }"

definition get_unmanaged_chan :: "u8 \<Rightarrow> u8 \<Rightarrow> 'w shm_state \<Rightarrow> ipc_shm_channel option option" where
  "get_unmanaged_chan i c st = do {
     chan \<leftarrow> get_channel i c st;
     Some (case chan of None \<Rightarrow> None
           | Some ch \<Rightarrow> if ch_type ch \<noteq> IPC_SHM_UNMANAGED then None else Some ch) }"

definition ipc_check_uchan_integrity :: "ipc_shm_channel \<Rightarrow> memory \<Rightarrow> int option" where
  "ipc_check_uchan_integrity ch m = do {
     l \<leftarrow> (if local_mem ch = 0 then None else load_u32 m (umem_sentinel (local_mem ch)));
     if l = IPC_UCHAN_INIT_DONE then do {
       r \<leftarrow> (if remote_mem ch = 0 then None else load_u32 m (umem_sentinel (remote_mem ch)));
       Some (if r = IPC_UCHAN_INIT_DONE then 0 else - EINVAL) }
     else Some (- EINVAL) }"

definition ipc_check_uchan_local_integrity :: "ipc_shm_channel \<Rightarrow> memory \<Rightarrow> int option" where
  "ipc_check_uchan_local_integrity ch m = do {
     l \<leftarrow> (if local_mem ch = 0 then None else load_u32 m (umem_sentinel (local_mem ch)));
     Some (if l = IPC_UCHAN_INIT_DONE then 0 else - EINVAL) }"

fun check_pools :: "ipc_shm_pool list \<Rightarrow> nat list \<Rightarrow> memory \<Rightarrow> int option" where
  "check_pools pools [] m = Some 0"
| "check_pools pools (k # ks) m = do {
     pool \<leftarrow> nth_opt pools k;
     ok \<leftarrow> ipc_queue_check_integrity (pl_bd_queue pool) m;
     if ok \<noteq> 0 then Some (- EINVAL) else check_pools pools ks m }"

definition ipc_check_mchan_integrity :: "ipc_managed_channel \<Rightarrow> memory \<Rightarrow> int option" where
  "ipc_check_mchan_integrity mchan m = do {
     ok \<leftarrow> ipc_queue_check_integrity (mc_bd_queue mchan) m;
     if ok = 0 then check_pools (mc_pools mchan) [0..<unat (mc_num_pools mchan)] m
     else Some (- EINVAL) }"

definition ipc_instance_is_free :: "u8 \<Rightarrow> 'w shm_state \<Rightarrow> ipc_shm_instance_state option" where
  "ipc_instance_is_free i st =
     (if unat i \<ge> IPC_SHM_MAX_INSTANCES then Some IPC_SHM_INSTANCE_ERROR
      else do {
        p \<leftarrow> priv_at i st;
        if pv_global p = 0 then Some IPC_SHM_INSTANCE_FREE
        else do {
          s \<leftarrow> load_u64 (st_mem st) (pv_global p);
          Some (if s = IPC_SHM_STATE_CLEAR then IPC_SHM_INSTANCE_FREE else IPC_SHM_INSTANCE_USED) } })"

section \<open>Receive path\<close>

definition pool_of_bd :: "ipc_shm_pool list \<Rightarrow> ipc_shm_bd \<Rightarrow> ipc_shm_pool option" where
  "pool_of_bd pools bd = (if sint (bd_pool_id bd) < 0 then None else nth_opt pools (nat (sint (bd_pool_id bd))))"

fun mchan_rx_loop :: "'w platform \<Rightarrow> u8 \<Rightarrow> u8 \<Rightarrow> nat \<Rightarrow> u32 \<Rightarrow> 'w shm_state \<Rightarrow> (u32 \<times> 'w shm_state) option" where
  "mchan_rx_loop P i c 0 work st = Some (work, st)"
| "mchan_rx_loop P i c (Suc left) work st = do {
     ch \<leftarrow> get_channel_priv i c st;
     (err, buf, m) \<leftarrow> ipc_queue_pop (Some (mc_bd_queue (ch_mng ch))) (Some (replicate sizeof_ipc_shm_bd 0)) (st_mem st);
     let st1 = st\<lparr>st_mem := m\<rparr>;
     if err \<noteq> 0 then Some (work, st1)
     else do {
       bs \<leftarrow> buf;
       let bd = bytes_bd bs;
       pool \<leftarrow> pool_of_bd (mc_pools (ch_mng ch)) bd;
       let buf_addr = pl_remote_pool_addr pool + ucast (ucast (bd_buf_id bd) * pl_buf_size pool);
       remote \<leftarrow> os_get_remote_shm P i (st_env st1);
       priv \<leftarrow> priv_at i st1;
       st2 \<leftarrow> (if buf_addr \<ge> remote \<and> buf_addr + ucast (pl_buf_size pool) \<le> remote + ucast (pv_shm_size priv)
              then (if mc_rx_cb (ch_mng ch) = 0 then None
                    else app_rx_cb P (mc_rx_cb (ch_mng ch)) (mc_cb_arg (ch_mng ch)) i (ch_id ch) buf_addr (bd_data_size bd) st1)
              else Some st1);
       mchan_rx_loop P i c left (work + 1) st2 } }"

definition ipc_channel_rx :: "'w platform \<Rightarrow> u8 \<Rightarrow> u8 \<Rightarrow> u32 \<Rightarrow> 'w shm_state \<Rightarrow> (u32 \<times> 'w shm_state) option" where
  "ipc_channel_rx P i c budget st = do {
     ch \<leftarrow> get_channel_priv i c st;
     if ch_type ch = IPC_SHM_UNMANAGED then do {
       ok \<leftarrow> ipc_check_uchan_integrity ch (st_mem st);
       if ok = 0 then do {
         rtx \<leftarrow> load_u32 (st_mem st) (umem_tx_count (remote_mem ch));
         saved \<leftarrow> load_u32 (st_mem st) (umem_remote_tx_count (local_mem ch));
         if rtx \<noteq> saved then do {
           st1 \<leftarrow> upd_mem (store_u32 (umem_remote_tx_count (local_mem ch)) rtx) st;
           st2 \<leftarrow> (if uc_rx_cb (ch_umng ch) = 0 then None
                  else app_umng_rx_cb P (uc_rx_cb (ch_umng ch)) (uc_cb_arg (ch_umng ch)) i (ch_id ch)
                         (umem_mem (remote_mem ch)) st1);
           Some (budget, st2) }
         else Some (0, st) }
       else Some (0, st) }
     else mchan_rx_loop P i c (unat budget) 0 st }"

fun rx_round :: "'w platform \<Rightarrow> u8 \<Rightarrow> u32 \<Rightarrow> nat list \<Rightarrow> u32 \<Rightarrow> bool \<Rightarrow> 'w shm_state \<Rightarrow>
    (u32 \<times> bool \<times> 'w shm_state) option" where
  "rx_round P i chan_budget [] work more_work st = Some (work, more_work, st)"
| "rx_round P i chan_budget (c # cs) work more_work st = do {
     (chan_work, st') \<leftarrow> ipc_channel_rx P i (of_nat c) chan_budget st;
     rx_round P i chan_budget cs (work + chan_work) (more_work \<or> chan_work = chan_budget) st' }"

text \<open>
  The \<open>while\<close> loop of \<open>ipc_shm_rx\<close> has no bound in the code, so it is a partial function: \<open>None\<close> also
  stands for a loop that never ends. The quotient by \<open>num_chans\<close> is a fault when there are none.
\<close>

definition chan_share :: "u32 \<Rightarrow> u32 \<Rightarrow> u8 \<Rightarrow> u32 option" where
  "chan_share budget work num_chans =
     (if num_chans = 0 then None
      else Some (if (budget - work) div ucast num_chans = 0 then 1 else (budget - work) div ucast num_chans))"

partial_function (option) rx_loop :: "'w platform \<Rightarrow> u8 \<Rightarrow> u8 \<Rightarrow> u32 \<Rightarrow> u32 \<Rightarrow> bool \<Rightarrow> 'w shm_state \<Rightarrow>
    (u32 \<times> 'w shm_state) option" where
  "rx_loop P i num_chans budget work more_work st =
     (if work < budget \<and> more_work
      then Option.bind (chan_share budget work num_chans) (\<lambda>chan_budget.
           Option.bind (rx_round P i chan_budget [0..<unat num_chans] work False st) (\<lambda>r.
             rx_loop P i num_chans budget (fst r) (fst (snd r)) (snd (snd r))))
      else Some (work, st))"

definition ipc_shm_rx :: "'w platform \<Rightarrow> u8 \<Rightarrow> int \<Rightarrow> 'w shm_state \<Rightarrow> (u32 \<times> 'w shm_state) option" where
  "ipc_shm_rx P i budget st = do {
     p \<leftarrow> priv_at i st;
     used \<leftarrow> ipc_instance_is_free i st;
     if used \<noteq> IPC_SHM_INSTANCE_USED then Some (0, st)
     else rx_loop P i (pv_num_channels p) (word_of_int budget) 0 True st }"

section \<open>Initialisation\<close>

text \<open>\<open>&a[k]\<close> for an array pointer that may be NULL: element 0 of a NULL array is NULL.\<close>

definition elem_ptr :: "'a list option \<Rightarrow> nat \<Rightarrow> 'a option option" where
  "elem_ptr a k = (case a of
     None \<Rightarrow> if k = 0 then Some None else None
   | Some xs \<Rightarrow> do { x \<leftarrow> nth_opt xs k; Some (Some x) })"

definition upd_managed :: "u8 \<Rightarrow> u8 \<Rightarrow> (ipc_managed_channel \<Rightarrow> ipc_managed_channel) \<Rightarrow> 'w shm_state \<Rightarrow> 'w shm_state option" where
  "upd_managed i c f st = upd_channel i c (\<lambda>ch. ch\<lparr>ch_mng := f (ch_mng ch)\<rparr>) st"

definition get_pool :: "u8 \<Rightarrow> u8 \<Rightarrow> nat \<Rightarrow> 'w shm_state \<Rightarrow> ipc_shm_pool option" where
  "get_pool i c k st = do { ch \<leftarrow> get_channel_priv i c st; nth_opt (mc_pools (ch_mng ch)) k }"

definition upd_pool :: "u8 \<Rightarrow> u8 \<Rightarrow> nat \<Rightarrow> (ipc_shm_pool \<Rightarrow> ipc_shm_pool) \<Rightarrow> 'w shm_state \<Rightarrow> 'w shm_state option" where
  "upd_pool i c k f st = do {
     pool \<leftarrow> get_pool i c k st;
     upd_managed i c (\<lambda>mc. mc\<lparr>mc_pools := (mc_pools mc)[k := f pool]\<rparr>) st }"

fun populate_pool :: "u8 \<Rightarrow> u8 \<Rightarrow> nat \<Rightarrow> nat list \<Rightarrow> 'w shm_state \<Rightarrow> (int \<times> 'w shm_state) option" where
  "populate_pool i c k [] st = Some (0, st)"
| "populate_pool i c k (b # bs) st = do {
     pool \<leftarrow> get_pool i c k st;
     (err, m) \<leftarrow> ipc_queue_push (Some (pl_bd_queue pool))
       (Some (bd_bytes \<lparr>bd_pool_id = of_nat k, bd_buf_id = of_nat b, bd_data_size = 0\<rparr>)) (st_mem st);
     if err \<noteq> 0 then Some (err, st\<lparr>st_mem := m\<rparr>) else populate_pool i c k bs (st\<lparr>st_mem := m\<rparr>) }"

definition pool_queue_data :: "ipc_shm_pool_addr \<Rightarrow> ipc_shm_pool_cfg \<Rightarrow> ipc_queue_data" where
  "pool_queue_data addr cfg = \<lparr>qd_elem_size = of_nat sizeof_ipc_shm_bd, qd_elem_num = pcfg_num_bufs cfg,
     qd_queue_type = IPC_SHM_POOL_QUEUE, qd_push_addr = local_pool_shm addr, qd_pop_addr = remote_pool_shm addr\<rparr>"

definition ipc_buf_pool_init :: "'w platform \<Rightarrow> u8 \<Rightarrow> u8 \<Rightarrow> nat \<Rightarrow> ipc_shm_pool_addr \<Rightarrow> ipc_shm_pool_cfg \<Rightarrow>
    'w shm_state \<Rightarrow> (int \<times> 'w shm_state) option" where
  "ipc_buf_pool_init P i c k addr cfg st = do {
     chan \<leftarrow> get_managed_chan i c st;
     if pcfg_num_bufs cfg > IPC_SHM_MAX_BUFS_PER_POOL then Some (- EINVAL, st)
     else if chan = None then None
     else do {
       st1 \<leftarrow> upd_pool i c k (\<lambda>pl. pl\<lparr>pl_num_bufs := pcfg_num_bufs cfg, pl_buf_size := pcfg_buf_size cfg\<rparr>) st;
       pool \<leftarrow> get_pool i c k st1;
       (err, q', m) \<leftarrow> ipc_queue_init (Some (pl_bd_queue pool)) (pool_queue_data addr cfg) (st_mem st1);
       q \<leftarrow> q';
       st2 \<leftarrow> upd_pool i c k (\<lambda>pl. pl\<lparr>pl_bd_queue := q\<rparr>) (st1\<lparr>st_mem := m\<rparr>);
       if err \<noteq> 0 then Some (err, st2)
       else do {
         let queue_mem_size = ipc_queue_mem_size q;
         let shm_size = queue_mem_size + (pcfg_buf_size cfg * ucast (pcfg_num_bufs cfg));
         st3 \<leftarrow> upd_pool i c k (\<lambda>pl. pl\<lparr>pl_local_pool_addr := local_pool_shm addr + ucast queue_mem_size,
                    pl_remote_pool_addr := remote_pool_shm addr + ucast queue_mem_size,
                    pl_shm_size := shm_size\<rparr>) st2;
         local \<leftarrow> os_get_local_shm P i (st_env st3);
         priv \<leftarrow> priv_at i st3;
         if local_pool_shm addr + ucast shm_size > local + ucast (pv_shm_size priv) then Some (- ENOMEM, st3)
         else do {
           (err, st4) \<leftarrow> populate_pool i c k [0..<unat (pcfg_num_bufs cfg)] st3;
           if err \<noteq> 0 then Some (err, st4)
           else do {
             st5 \<leftarrow> upd_mem (store_u64 (ring_sentinel (push_ring q)) IPC_QUEUE_INIT_DONE) st4;
             Some (0, st5) } } } } }"

fun total_bufs_loop :: "ipc_shm_pool_cfg list \<Rightarrow> nat list \<Rightarrow> u32 \<Rightarrow> u32 \<Rightarrow> u32 option" where
  "total_bufs_loop pools [] prev_buf_size total_bufs = Some total_bufs"
| "total_bufs_loop pools (k # ks) prev_buf_size total_bufs = do {
     pool_cfg \<leftarrow> nth_opt pools k;
     if pcfg_buf_size pool_cfg < prev_buf_size then Some 0
     else if total_bufs + ucast (pcfg_num_bufs pool_cfg) > IPC_SHM_MAX_BUFS_PER_CHANNEL then Some 0
     else total_bufs_loop pools ks (pcfg_buf_size pool_cfg) (total_bufs + ucast (pcfg_num_bufs pool_cfg)) }"

definition ipc_get_total_buf_per_chan :: "u8 \<Rightarrow> u8 \<Rightarrow> ipc_shm_managed_cfg \<Rightarrow> ipc_shm_pool_cfg list \<Rightarrow>
    'w shm_state \<Rightarrow> (u32 \<times> 'w shm_state) option" where
  "ipc_get_total_buf_per_chan i c cfg pools st = do {
     st1 \<leftarrow> upd_managed i c (\<lambda>mc. mc\<lparr>mc_rx_cb := mcfg_rx_cb cfg, mc_cb_arg := mcfg_cb_arg cfg,
                                   mc_num_pools := ucast (mcfg_num_pools cfg)\<rparr>) st;
     total \<leftarrow> total_bufs_loop pools [0..<unat (mcfg_num_pools cfg)] 0 0;
     Some (total, st1) }"

fun init_pools :: "'w platform \<Rightarrow> u8 \<Rightarrow> u8 \<Rightarrow> ipc_shm_pool_cfg list \<Rightarrow> nat list \<Rightarrow> ipc_shm_pool_addr \<Rightarrow>
    'w shm_state \<Rightarrow> (int \<times> 'w shm_state) option" where
  "init_pools P i c pools [] addr st = Some (0, st)"
| "init_pools P i c pools (k # ks) addr st = do {
     cfg \<leftarrow> nth_opt pools k;
     (err, st1) \<leftarrow> ipc_buf_pool_init P i c k addr cfg st;
     if err \<noteq> 0 then Some (err, st1)
     else do {
       pool \<leftarrow> get_pool i c k st1;
       init_pools P i c pools ks
         \<lparr>local_pool_shm = local_pool_shm addr + ucast (pl_shm_size pool),
          remote_pool_shm = remote_pool_shm addr + ucast (pl_shm_size pool)\<rparr> st1 } }"

definition chan_queue_data :: "u64 \<Rightarrow> u64 \<Rightarrow> u32 \<Rightarrow> ipc_queue_data" where
  "chan_queue_data local remote total_bufs = \<lparr>qd_elem_size = of_nat sizeof_ipc_shm_bd, qd_elem_num = ucast total_bufs,
     qd_queue_type = IPC_SHM_CHANNEL_QUEUE, qd_push_addr = local, qd_pop_addr = remote\<rparr>"

definition managed_channel_init :: "'w platform \<Rightarrow> u8 \<Rightarrow> u8 \<Rightarrow> u64 \<Rightarrow> u64 \<Rightarrow> ipc_shm_managed_cfg \<Rightarrow>
    'w shm_state \<Rightarrow> (int \<times> 'w shm_state) option" where
  "managed_channel_init P i c local_shm remote_shm cfg st = do {
     chan \<leftarrow> get_managed_chan i c st;
     if mcfg_rx_cb cfg = 0 then Some (- EINVAL, st)
     else case mcfg_pools cfg of
       None \<Rightarrow> Some (- EINVAL, st)
     | Some pools \<Rightarrow>
       if unat (mcfg_num_pools cfg) > IPC_SHM_MAX_POOLS then Some (- EINVAL, st)
       else do {
         (total_bufs, st1) \<leftarrow> ipc_get_total_buf_per_chan i c cfg pools st;
         if total_bufs = 0 then Some (- EINVAL, st1)
         else if chan = None then None
         else do {
           ch \<leftarrow> get_channel_priv i c st1;
           (err, q', m) \<leftarrow> ipc_queue_init (Some (mc_bd_queue (ch_mng ch)))
                            (chan_queue_data local_shm remote_shm total_bufs) (st_mem st1);
           q \<leftarrow> q';
           st2 \<leftarrow> upd_managed i c (\<lambda>mc. mc\<lparr>mc_bd_queue := q\<rparr>) (st1\<lparr>st_mem := m\<rparr>);
           if err \<noteq> 0 then Some (err, st2)
           else do {
             st3 \<leftarrow> upd_mem (store_u64 (ring_sentinel (push_ring q)) IPC_QUEUE_INIT_DONE) st2;
             let queue_mem_size = ipc_queue_mem_size q;
             local \<leftarrow> os_get_local_shm P i (st_env st3);
             priv \<leftarrow> priv_at i st3;
             if local_shm + ucast queue_mem_size > local + ucast (pv_shm_size priv) then Some (- ENOMEM, st3)
             else init_pools P i c pools [0..<unat (mcfg_num_pools cfg)]
                    \<lparr>local_pool_shm = local_shm + ucast queue_mem_size,
                     remote_pool_shm = remote_shm + ucast queue_mem_size\<rparr> st3 } } } }"

definition unmanaged_channel_init :: "u8 \<Rightarrow> u8 \<Rightarrow> u64 \<Rightarrow> u64 \<Rightarrow> ipc_shm_unmanaged_cfg \<Rightarrow>
    'w shm_state \<Rightarrow> (int \<times> 'w shm_state) option" where
  "unmanaged_channel_init i c local_shm remote_shm cfg st = do {
     chan \<leftarrow> get_unmanaged_chan i c st;
     if ucfg_rx_cb cfg = 0 \<or> ucfg_size cfg > IPC_SHM_MAX_UMNG_SIZE then Some (- EINVAL, st)
     else if chan = None then None
     else do {
       st1 \<leftarrow> upd_channel i c (\<lambda>ch. set_umem local_shm remote_shm
                (ch\<lparr>ch_umng := \<lparr>uc_size = ucfg_size cfg, uc_rx_cb = ucfg_rx_cb cfg, uc_cb_arg = ucfg_cb_arg cfg\<rparr>\<rparr>)) st;
       if remote_shm = 0 then None else do {
       s \<leftarrow> load_u32 (st_mem st1) (umem_sentinel remote_shm);
       if s = IPC_SHM_UCHAN_INIT_IN_PROGRESS then Some (- EAGAIN, st1)
       else if local_shm = 0 then None
       else do {
         m1 \<leftarrow> store_u32 (umem_sentinel local_shm) IPC_SHM_UCHAN_INIT_IN_PROGRESS (st_mem st1);
         s' \<leftarrow> load_u32 m1 (umem_sentinel remote_shm);
         m3 \<leftarrow> (if s' = IPC_UCHAN_INIT_DONE then do {
                  rtx \<leftarrow> load_u32 m1 (umem_remote_tx_count remote_shm);
                  m2 \<leftarrow> store_u32 (umem_tx_count local_shm) rtx m1;
                  tx \<leftarrow> load_u32 m2 (umem_tx_count remote_shm);
                  store_u32 (umem_remote_tx_count local_shm) tx m2 }
                else do {
                  m2 \<leftarrow> store_u32 (umem_tx_count local_shm) 0 m1;
                  store_u32 (umem_remote_tx_count local_shm) 0 m2 });
         m4 \<leftarrow> store_u32 (umem_sentinel local_shm) IPC_UCHAN_INIT_DONE m3;
         Some (0, st1\<lparr>st_mem := m4\<rparr>) } } } }"

definition ipc_shm_init_channels :: "'w platform \<Rightarrow> u8 \<Rightarrow> u8 \<Rightarrow> u64 \<Rightarrow> u64 \<Rightarrow> ipc_shm_channel_cfg option \<Rightarrow>
    'w shm_state \<Rightarrow> (int \<times> 'w shm_state) option" where
  "ipc_shm_init_channels P i c local_shm remote_shm cfg st = (case cfg of
     None \<Rightarrow> Some (- EINVAL, st)
   | Some cf \<Rightarrow> do {
       st1 \<leftarrow> upd_channel i c (\<lambda>ch. ch\<lparr>ch_id := c, ch_type := ccfg_type cf\<rparr>) st;
       case ccfg_type cf of
         IPC_SHM_MANAGED \<Rightarrow> managed_channel_init P i c local_shm remote_shm (ccfg_managed cf) st1
       | IPC_SHM_UNMANAGED \<Rightarrow> unmanaged_channel_init i c local_shm remote_shm (ccfg_unmanaged cf) st1
       | IPC_SHM_CHANNEL_TYPE_OTHER _ \<Rightarrow> Some (- EINVAL, st1) })"

section \<open>Release of channels\<close>

definition queue_busy :: "u64 \<Rightarrow> bool" where
  "queue_busy s \<longleftrightarrow> s = IPC_QUEUE_INIT_DONE \<or> s = IPC_QUEUE_INIT_IN_PROGRESS"

fun free_pools :: "u8 \<Rightarrow> u8 \<Rightarrow> nat list \<Rightarrow> 'w shm_state \<Rightarrow> 'w shm_state option" where
  "free_pools i c [] st = Some st"
| "free_pools i c (k # ks) st = do {
     pool \<leftarrow> get_pool i c k st;
     if push_ring (pl_bd_queue pool) = 0 then free_pools i c ks st
     else do {
       s \<leftarrow> load_u64 (st_mem st) (ring_sentinel (push_ring (pl_bd_queue pool)));
       if queue_busy s then do {
         (q', m) \<leftarrow> ipc_queue_free (Some (pl_bd_queue pool)) (st_mem st);
         q \<leftarrow> q';
         st1 \<leftarrow> upd_pool i c k (\<lambda>pl. pl\<lparr>pl_bd_queue := q\<rparr>) (st\<lparr>st_mem := m\<rparr>);
         free_pools i c ks st1 }
       else free_pools i c ks st } }"

definition ipc_shm_free_managed_channel :: "u8 \<Rightarrow> u8 \<Rightarrow> 'w shm_state \<Rightarrow> 'w shm_state option" where
  "ipc_shm_free_managed_channel i c st = do {
     ch \<leftarrow> get_channel_priv i c st;
     s \<leftarrow> load_u64 (st_mem st) (ring_sentinel (push_ring (mc_bd_queue (ch_mng ch))));
     if queue_busy s then do {
       (q', m) \<leftarrow> ipc_queue_free (Some (mc_bd_queue (ch_mng ch))) (st_mem st);
       q \<leftarrow> q';
       st1 \<leftarrow> upd_managed i c (\<lambda>mc. mc\<lparr>mc_bd_queue := q\<rparr>) (st\<lparr>st_mem := m\<rparr>);
       free_pools i c [0..<unat (mc_num_pools (ch_mng ch))] st1 }
     else Some st }"

definition ipc_shm_free_channel :: "u8 \<Rightarrow> u8 \<Rightarrow> ipc_shm_channel_type \<Rightarrow> 'w shm_state \<Rightarrow> 'w shm_state option" where
  "ipc_shm_free_channel i c ctype st = (case ctype of
     IPC_SHM_MANAGED \<Rightarrow> do {
       ch \<leftarrow> get_channel_priv i c st;
       if push_ring (mc_bd_queue (ch_mng ch)) \<noteq> 0 then ipc_shm_free_managed_channel i c st else Some st }
   | IPC_SHM_UNMANAGED \<Rightarrow> do {
       ch \<leftarrow> get_channel_priv i c st;
       if local_mem ch \<noteq> 0 then do {
         m1 \<leftarrow> store_u32 (umem_sentinel (local_mem ch)) 0 (st_mem st);
         m2 \<leftarrow> store_u32 (umem_tx_count (local_mem ch)) 0 m1;
         m3 \<leftarrow> store_u32 (umem_remote_tx_count (local_mem ch)) 0 m2;
         upd_channel i c (\<lambda>ch. set_umem 0 (remote_mem ch) ch) (st\<lparr>st_mem := m3\<rparr>) }
       else Some st }
   | IPC_SHM_CHANNEL_TYPE_OTHER _ \<Rightarrow> Some st)"

definition get_chan_memmap_size :: "u8 \<Rightarrow> u8 \<Rightarrow> 'w shm_state \<Rightarrow> u32 option" where
  "get_chan_memmap_size i c st = do {
     ch \<leftarrow> get_channel_priv i c st;
     if ch_type ch = IPC_SHM_UNMANAGED then Some (sizeof_ipc_channel_umem + uc_size (ch_umng ch))
     else do {
       chan \<leftarrow> get_managed_chan i c st;
       mchan \<leftarrow> chan;
       if unat (mc_num_pools mchan) > length (mc_pools mchan) then None
       else Some (ipc_queue_mem_size (mc_bd_queue mchan)
                  + sum_list (map pl_shm_size (take (unat (mc_num_pools mchan)) (mc_pools mchan)))) } }"

section \<open>Instances\<close>

fun free_cfg_channels :: "u8 \<Rightarrow> ipc_shm_channel_cfg list \<Rightarrow> nat list \<Rightarrow> 'w shm_state \<Rightarrow> 'w shm_state option" where
  "free_cfg_channels i cfgs [] st = Some st"
| "free_cfg_channels i cfgs (c # cs) st = do {
     cf \<leftarrow> nth_opt cfgs c;
     st1 \<leftarrow> ipc_shm_free_channel i (of_nat c) (ccfg_type cf) st;
     free_cfg_channels i cfgs cs st1 }"

text \<open>What \<open>ipc_shm_init_instance\<close> does when the initialisation of a channel fails.\<close>

definition init_rollback :: "'w platform \<Rightarrow> u8 \<Rightarrow> ipc_shm_cfg \<Rightarrow> 'w shm_state \<Rightarrow> 'w shm_state option" where
  "init_rollback P i cfg st = do {
     st1 \<leftarrow> upd_priv i (\<lambda>p. p\<lparr>pv_global := 0\<rparr>) st;
     p \<leftarrow> priv_at i st1;
     st2 \<leftarrow> (case cfg_channels cfg of
              None \<Rightarrow> Some st1
            | Some cfgs \<Rightarrow> free_cfg_channels i cfgs [0..<unat (pv_num_channels p)] st1);
     (m, w) \<leftarrow> os_free P i (st_mem st2) (st_env st2);
     upd_env (hw_free P i) (st2\<lparr>st_mem := m, st_env := w\<rparr>) }"

fun init_channels_loop :: "'w platform \<Rightarrow> u8 \<Rightarrow> ipc_shm_cfg \<Rightarrow> nat list \<Rightarrow> u64 \<Rightarrow> u64 \<Rightarrow>
    'w shm_state \<Rightarrow> (int \<times> 'w shm_state) option" where
  "init_channels_loop P i cfg [] local_chan_shm remote_chan_shm st = Some (0, st)"
| "init_channels_loop P i cfg (c # cs) local_chan_shm remote_chan_shm st = do {
     ccfg \<leftarrow> elem_ptr (cfg_channels cfg) c;
     (err, st1) \<leftarrow> ipc_shm_init_channels P i (of_nat c) local_chan_shm remote_chan_shm ccfg st;
     if err \<noteq> 0 then do { st2 \<leftarrow> init_rollback P i cfg st1; Some (err, st2) }
     else do {
       chan_size \<leftarrow> get_chan_memmap_size i (of_nat c) st1;
       init_channels_loop P i cfg cs (local_chan_shm + ucast chan_size) (remote_chan_shm + ucast chan_size) st1 } }"

definition ipc_shm_init_instance :: "'w platform \<Rightarrow> u8 \<Rightarrow> ipc_shm_cfg option \<Rightarrow> 'w shm_state \<Rightarrow> (int \<times> 'w shm_state) option" where
  "ipc_shm_init_instance P i cfg st = do {
     used \<leftarrow> ipc_instance_is_free i st;
     if used = IPC_SHM_INSTANCE_USED then Some (- EINVAL, st)
     else case cfg of
       None \<Rightarrow> Some (- EINVAL, st)
     | Some cf \<Rightarrow>
       if cfg_local_shm_addr cf = 0 \<or> cfg_remote_shm_addr cf = 0 then Some (- EINVAL, st)
       else if cfg_num_channels cf < 1 \<or> unat (cfg_num_channels cf) > IPC_SHM_MAX_CHANNELS then Some (- EINVAL, st)
       else do {
         st1 \<leftarrow> upd_priv i (\<lambda>p. p\<lparr>pv_shm_size := cfg_shm_size cf, pv_num_channels := cfg_num_channels cf\<rparr>) st;
         (err, w) \<leftarrow> hw_init P i cf (st_env st1);
         if err \<noteq> 0 then Some (int8 err, st1\<lparr>st_env := w\<rparr>)
         else do {
           (err, m, w) \<leftarrow> os_init P i cf (st_mem st1) w;
           let st2 = st1\<lparr>st_mem := m, st_env := w\<rparr>;
           if err \<noteq> 0 then do { st3 \<leftarrow> upd_env (hw_free P i) st2; Some (int8 err, st3) }
           else do {
             local_shm \<leftarrow> os_get_local_shm P i (st_env st2);
             st3 \<leftarrow> upd_priv i (\<lambda>p. p\<lparr>pv_global := local_shm\<rparr>) st2;
             if local_shm = 0 then None
             else do {
               st4 \<leftarrow> upd_mem (store_u64 local_shm IPC_SHM_STATE_CLEAR) st3;
               remote_shm \<leftarrow> os_get_remote_shm P i (st_env st4);
               (err, st5) \<leftarrow> init_channels_loop P i cf [0..<unat (cfg_num_channels cf)]
                               (local_shm + ucast sizeof_ipc_shm_global) (remote_shm + ucast sizeof_ipc_shm_global) st4;
               if err \<noteq> 0 then Some (int8 err, st5)
               else do {
                 st6 \<leftarrow> upd_env (hw_irq_enable P i) st5;
                 p \<leftarrow> priv_at i st6;
                 if pv_global p = 0 then None
                 else do {
                   st7 \<leftarrow> upd_mem (store_u64 (pv_global p) IPC_SHM_STATE_READY) st6;
                   Some (0, st7) } } } } } } }"

fun free_channels_loop :: "u8 \<Rightarrow> nat list \<Rightarrow> 'w shm_state \<Rightarrow> 'w shm_state option" where
  "free_channels_loop i [] st = Some st"
| "free_channels_loop i (c # cs) st = do {
     ch \<leftarrow> get_channel_priv i (of_nat c) st;
     st1 \<leftarrow> ipc_shm_free_channel i (of_nat c) (ch_type ch) st;
     free_channels_loop i cs st1 }"

definition ipc_shm_free_instance :: "'w platform \<Rightarrow> u8 \<Rightarrow> 'w shm_state \<Rightarrow> 'w shm_state option" where
  "ipc_shm_free_instance P i st = do {
     used \<leftarrow> ipc_instance_is_free i st;
     if used \<noteq> IPC_SHM_INSTANCE_USED then Some st
     else do {
       p \<leftarrow> priv_at i st;
       st1 \<leftarrow> upd_mem (store_u64 (pv_global p) IPC_SHM_STATE_CLEAR) st;
       st2 \<leftarrow> upd_priv i (\<lambda>p. p\<lparr>pv_global := 0\<rparr>) st1;
       st3 \<leftarrow> upd_env (hw_irq_disable P i) st2;
       st4 \<leftarrow> free_channels_loop i [0..<unat (pv_num_channels p)] st3;
       (m, w) \<leftarrow> os_free P i (st_mem st4) (st_env st4);
       upd_env (hw_free P i) (st4\<lparr>st_mem := m, st_env := w\<rparr>) } }"

fun free_instances_loop :: "'w platform \<Rightarrow> nat list \<Rightarrow> 'w shm_state \<Rightarrow> 'w shm_state option" where
  "free_instances_loop P [] st = Some st"
| "free_instances_loop P (k # ks) st = do {
     used \<leftarrow> ipc_instance_is_free (of_nat k) st;
     st1 \<leftarrow> (if used = IPC_SHM_INSTANCE_USED then ipc_shm_free_instance P (of_nat k) st else Some st);
     free_instances_loop P ks st1 }"

definition ipc_shm_free :: "'w platform \<Rightarrow> 'w shm_state \<Rightarrow> 'w shm_state option" where
  "ipc_shm_free P st = free_instances_loop P [0..<IPC_SHM_MAX_INSTANCES] st"

fun init_instances_loop :: "'w platform \<Rightarrow> ipc_shm_cfg list option \<Rightarrow> nat list \<Rightarrow> 'w shm_state \<Rightarrow>
    (int \<times> 'w shm_state) option" where
  "init_instances_loop P cfgs [] st = Some (0, st)"
| "init_instances_loop P cfgs (k # ks) st = do {
     used \<leftarrow> ipc_instance_is_free (of_nat k) st;
     if used = IPC_SHM_INSTANCE_USED then init_instances_loop P cfgs ks st
     else do {
       cfg \<leftarrow> elem_ptr cfgs k;
       (err, st1) \<leftarrow> ipc_shm_init_instance P (of_nat k) cfg st;
       if err \<noteq> 0 then Some (err, st1) else init_instances_loop P cfgs ks st1 } }"

definition ipc_shm_init :: "'w platform \<Rightarrow> ipc_shm_instances_cfg option \<Rightarrow> 'w shm_state \<Rightarrow> (int \<times> 'w shm_state) option" where
  "ipc_shm_init P cfg st = (case cfg of
     None \<Rightarrow> Some (- EINVAL, st)
   | Some cf \<Rightarrow>
       if unat (icfg_num_instances cf) > IPC_SHM_MAX_INSTANCES \<or> icfg_num_instances cf = 0
       then Some (- EINVAL, st)
       else do {
         (err, st1) \<leftarrow> init_instances_loop P (icfg_shm_cfg cf) [0..<unat (icfg_num_instances cf)] st;
         Some (int8 err, st1) })"

section \<open>Transmit path and buffers\<close>

definition ipc_shm_is_remote_ready :: "'w platform \<Rightarrow> u8 \<Rightarrow> 'w shm_state \<Rightarrow> int option" where
  "ipc_shm_is_remote_ready P i st = do {
     used \<leftarrow> ipc_instance_is_free i st;
     if used \<noteq> IPC_SHM_INSTANCE_USED then Some (- EINVAL)
     else do {
       remote_global \<leftarrow> os_get_remote_shm P i (st_env st);
       if remote_global = 0 then None else do {
         s \<leftarrow> load_u64 (st_mem st) remote_global;
         Some (if s \<noteq> IPC_SHM_STATE_READY then - EAGAIN else 0) } } }"

text \<open>The search of \<open>ipc_shm_acquire_buf\<close>: the pool found and its BD, or nothing.\<close>

fun acquire_loop :: "ipc_shm_pool list \<Rightarrow> nat list \<Rightarrow> u32 \<Rightarrow> memory \<Rightarrow> ((ipc_shm_pool \<times> ipc_shm_bd) option \<times> memory) option" where
  "acquire_loop pools [] mem_size m = Some (None, m)"
| "acquire_loop pools (k # ks) mem_size m = do {
     pool \<leftarrow> nth_opt pools k;
     if mem_size > pl_buf_size pool then acquire_loop pools ks mem_size m
     else do {
       (err, buf, m1) \<leftarrow> ipc_queue_pop (Some (pl_bd_queue pool)) (Some (replicate sizeof_ipc_shm_bd 0)) m;
       if err = 0 then do { bs \<leftarrow> buf; Some (Some (pool, bytes_bd bs), m1) }
       else acquire_loop pools ks mem_size m1 } }"

definition ipc_shm_acquire_buf :: "'w platform \<Rightarrow> u8 \<Rightarrow> u8 \<Rightarrow> u32 \<Rightarrow> 'w shm_state \<Rightarrow> (u64 \<times> 'w shm_state) option" where
  "ipc_shm_acquire_buf P i c mem_size st = do {
     ready \<leftarrow> ipc_shm_is_remote_ready P i st;
     if ready \<noteq> 0 then Some (0, st)
     else do {
       chan \<leftarrow> get_managed_chan i c st;
       case chan of
         None \<Rightarrow> Some (0, st)
       | Some mchan \<Rightarrow>
           if mem_size = 0 then Some (0, st)
           else do {
             ok \<leftarrow> ipc_check_mchan_integrity mchan (st_mem st);
             if ok \<noteq> 0 then Some (0, st)
             else do {
               (found, m) \<leftarrow> acquire_loop (mc_pools mchan) [0..<unat (mc_num_pools mchan)] mem_size (st_mem st);
               let st1 = st\<lparr>st_mem := m\<rparr>;
               case found of
                 None \<Rightarrow> Some (0, st1)
               | Some (pool, bd) \<Rightarrow> do {
                   let buf_addr = pl_local_pool_addr pool + ucast (ucast (bd_buf_id bd) * pl_buf_size pool);
                   local \<leftarrow> os_get_local_shm P i (st_env st1);
                   priv \<leftarrow> priv_at i st1;
                   if buf_addr < local \<or> buf_addr + ucast (pl_buf_size pool) > local + ucast (pv_shm_size priv)
                   then Some (0, st1) else Some (buf_addr, st1) } } } } }"

fun find_pool_loop :: "ipc_shm_pool list \<Rightarrow> nat list \<Rightarrow> u64 \<Rightarrow> u8 \<Rightarrow> int option" where
  "find_pool_loop pools [] buf remote = Some (- EINVAL)"
| "find_pool_loop pools (k # ks) buf remote = do {
     pool \<leftarrow> nth_opt pools k;
     let addr = (if remote = IPC_BUFFER_FROM_REMOTE then pl_remote_pool_addr pool else pl_local_pool_addr pool);
     let pool_size = ucast (pl_num_bufs pool) * pl_buf_size pool;
     if buf \<ge> addr \<and> buf < addr + ucast pool_size then Some (int k) else find_pool_loop pools ks buf remote }"

definition find_pool_for_buf :: "ipc_managed_channel \<Rightarrow> u64 \<Rightarrow> u8 \<Rightarrow> int option" where
  "find_pool_for_buf chan buf remote = find_pool_loop (mc_pools chan) [0..<unat (mc_num_pools chan)] buf remote"

definition buf_index :: "u64 \<Rightarrow> u64 \<Rightarrow> u32 \<Rightarrow> u16 option" where
  "buf_index buf addr buf_size = (if buf_size = 0 then None else Some (ucast ((buf - addr) div ucast buf_size)))"

definition ipc_shm_release_buf :: "u8 \<Rightarrow> u8 \<Rightarrow> u64 \<Rightarrow> 'w shm_state \<Rightarrow> (int \<times> 'w shm_state) option" where
  "ipc_shm_release_buf i c buf st = do {
     used \<leftarrow> ipc_instance_is_free i st;
     if used \<noteq> IPC_SHM_INSTANCE_USED then Some (- EINVAL, st)
     else do {
       chan \<leftarrow> get_managed_chan i c st;
       case chan of
         None \<Rightarrow> Some (- EINVAL, st)
       | Some mchan \<Rightarrow>
           if buf = 0 then Some (- EINVAL, st)
           else do {
             ok \<leftarrow> ipc_check_mchan_integrity mchan (st_mem st);
             if ok \<noteq> 0 then Some (- EINVAL, st)
             else do {
               pool_id \<leftarrow> find_pool_for_buf mchan buf IPC_BUFFER_FROM_REMOTE;
               if pool_id = - EINVAL then Some (- EINVAL, st)
               else do {
                 pool \<leftarrow> nth_opt (mc_pools mchan) (nat pool_id);
                 buf_id \<leftarrow> buf_index buf (pl_remote_pool_addr pool) (pl_buf_size pool);
                 (err, m) \<leftarrow> ipc_queue_push (Some (pl_bd_queue pool))
                   (Some (bd_bytes \<lparr>bd_pool_id = word_of_int pool_id, bd_buf_id = buf_id, bd_data_size = 0\<rparr>)) (st_mem st);
                 Some (err, st\<lparr>st_mem := m\<rparr>) } } } } }"

text \<open>\<open>chan_id\<close> is an \<open>int\<close> here and is narrowed to \<open>uint8_t\<close> by the call of \<open>get_managed_chan\<close>.\<close>

definition ipc_shm_tx :: "'w platform \<Rightarrow> u8 \<Rightarrow> int \<Rightarrow> u64 \<Rightarrow> u32 \<Rightarrow> 'w shm_state \<Rightarrow> (int \<times> 'w shm_state) option" where
  "ipc_shm_tx P i chan_id buf len st = do {
     ready \<leftarrow> ipc_shm_is_remote_ready P i st;
     if ready \<noteq> 0 then Some (- EINVAL, st)
     else do {
       chan \<leftarrow> get_managed_chan i (word_of_int chan_id) st;
       case chan of
         None \<Rightarrow> Some (- EINVAL, st)
       | Some mchan \<Rightarrow>
           if buf = 0 \<or> len = 0 then Some (- EINVAL, st)
           else do {
             ok \<leftarrow> ipc_check_mchan_integrity mchan (st_mem st);
             if ok \<noteq> 0 then Some (- EINVAL, st)
             else do {
               pool_id \<leftarrow> find_pool_for_buf mchan buf IPC_BUFFER_FROM_LOCAL;
               if pool_id = - EINVAL then Some (- EINVAL, st)
               else do {
                 pool \<leftarrow> nth_opt (mc_pools mchan) (nat pool_id);
                 buf_id \<leftarrow> buf_index buf (pl_local_pool_addr pool) (pl_buf_size pool);
                 (err, m) \<leftarrow> ipc_queue_push (Some (mc_bd_queue mchan))
                   (Some (bd_bytes \<lparr>bd_pool_id = word_of_int pool_id, bd_buf_id = buf_id, bd_data_size = len\<rparr>)) (st_mem st);
                 let st1 = st\<lparr>st_mem := m\<rparr>;
                 if err \<noteq> 0 then Some (int8 err, st1)
                 else do { st2 \<leftarrow> upd_env (hw_irq_notify P i) st1; Some (0, st2) } } } } } }"

section \<open>Unmanaged channels and polling\<close>

definition ipc_shm_unmanaged_acquire :: "u8 \<Rightarrow> u8 \<Rightarrow> 'w shm_state \<Rightarrow> u64 option" where
  "ipc_shm_unmanaged_acquire i c st = do {
     used \<leftarrow> ipc_instance_is_free i st;
     if used \<noteq> IPC_SHM_INSTANCE_USED then Some 0
     else do {
       chan \<leftarrow> get_unmanaged_chan i c st;
       case chan of
         None \<Rightarrow> Some 0
       | Some ch \<Rightarrow> do {
           ok \<leftarrow> ipc_check_uchan_local_integrity ch (st_mem st);
           Some (if ok \<noteq> 0 then 0 else umem_mem (local_mem ch)) } } }"

definition ipc_shm_unmanaged_tx :: "'w platform \<Rightarrow> u8 \<Rightarrow> u8 \<Rightarrow> 'w shm_state \<Rightarrow> (int \<times> 'w shm_state) option" where
  "ipc_shm_unmanaged_tx P i c st = do {
     ready \<leftarrow> ipc_shm_is_remote_ready P i st;
     if ready \<noteq> 0 then Some (- EINVAL, st)
     else do {
       chan \<leftarrow> get_unmanaged_chan i c st;
       case chan of
         None \<Rightarrow> Some (- EINVAL, st)
       | Some ch \<Rightarrow> do {
           ok \<leftarrow> ipc_check_uchan_integrity ch (st_mem st);
           if ok \<noteq> 0 then Some (- EINVAL, st)
           else do {
             n \<leftarrow> load_u32 (st_mem st) (umem_tx_count (local_mem ch));
             st1 \<leftarrow> upd_mem (store_u32 (umem_tx_count (local_mem ch)) (n + 1)) st;
             st2 \<leftarrow> upd_env (hw_irq_notify P i) st1;
             Some (0, st2) } } } }"

definition ipc_shm_poll_channels :: "'w platform \<Rightarrow> u8 \<Rightarrow> 'w shm_state \<Rightarrow> (int \<times> 'w shm_state) option" where
  "ipc_shm_poll_channels P i st = do {
     used \<leftarrow> ipc_instance_is_free i st;
     if used \<noteq> IPC_SHM_INSTANCE_USED then Some (- EINVAL, st)
     else do {
       remote_global \<leftarrow> os_get_remote_shm P i (st_env st);
       if remote_global = 0 then None else do {
         s \<leftarrow> load_u64 (st_mem st) remote_global;
         if s \<noteq> IPC_SHM_STATE_READY then Some (- EAGAIN, st)
         else os_poll_channels P (ipc_shm_rx P) i st } } }"

end
