(* ===== verification/Shm_Buf.thy ===== *)
theory Shm_Buf
  imports Shm Queue_Props
begin

text \<open>
  Buffers of managed channels: the representation of buffer descriptors, the well-formedness of an
  initialised channel, and what acquiring, sending and releasing a buffer do to the queues.
\<close>

section \<open>Buffer descriptors\<close>

lemma length_bd_bytes [simp]: "length (bd_bytes bd) = 8"
  by (simp add: bd_bytes_def)

lemma bytes_bd_bytes [simp]: "bytes_bd (bd_bytes bd) = bd"
proof -
  have "unat (bd_pool_id bd) < 256 ^ 2" "unat (bd_buf_id bd) < 256 ^ 2" "unat (bd_data_size bd) < 256 ^ 4"
    using unat_less [of "bd_pool_id bd"] unat_less [of "bd_buf_id bd"] unat_less [of "bd_data_size bd"] by simp_all
  then show ?thesis by (simp add: bytes_bd_def bd_bytes_def le_nat_le_bytes)
qed

lemma bd_bytes_bytes: "length bs = 8 \<Longrightarrow> bd_bytes (bytes_bd bs) = bs"
proof -
  assume len: "length bs = 8"
  have id: "unat (word_of_nat (le_nat xs) :: 'a::len word) = le_nat xs" if "length xs * 8 = LENGTH('a)" for xs
  proof -
    have "(256::nat) ^ length xs = (2 ^ 8) ^ length xs" by simp
    also have "\<dots> = 2 ^ LENGTH('a)" using that by (simp only: power_mult [symmetric] mult.commute)
    finally have "(256::nat) ^ length xs = 2 ^ LENGTH('a)" .
    then show ?thesis using le_nat_less [of xs] by (simp add: unat_of_nat take_bit_nat_eq_self)
  qed
  have "take 2 (drop 2 bs) @ take 4 (drop 4 bs) = drop 2 bs"
    using append_take_drop_id [of 2 "drop 2 bs"] len by simp
  then have "take 2 bs @ take 2 (drop 2 bs) @ take 4 (drop 4 bs) = bs" by (simp only: append_take_drop_id)
  then show ?thesis
    using len by (simp add: bd_bytes_def bytes_bd_def id le_bytes_le_nat)
qed

section \<open>Initialised channels\<close>

text \<open>A managed channel whose queues are all initialised and carry buffer descriptors.\<close>

definition bd_queue_ready :: "ipc_queue \<Rightarrow> memory \<Rightarrow> bool" where
  "bd_queue_ready q m \<longleftrightarrow> queue_ready q m \<and> elem_size q = 8"

definition mchan_ready :: "ipc_managed_channel \<Rightarrow> memory \<Rightarrow> bool" where
  "mchan_ready mc m \<longleftrightarrow> bd_queue_ready (mc_bd_queue mc) m \<and> unat (mc_num_pools mc) \<le> length (mc_pools mc) \<and>
     (\<forall>k < unat (mc_num_pools mc). bd_queue_ready (pl_bd_queue (mc_pools mc ! k)) m)"

lemma check_integrity_ready: "queue_ready q m \<Longrightarrow> ipc_queue_check_integrity q m = Some 0"
  by (simp add: ipc_queue_check_integrity_def queue_ready_def queue_wf_def)

lemma check_pools_ready:
  "(\<And>k. k \<in> set ks \<Longrightarrow> k < length pools \<and> queue_ready (pl_bd_queue (pools ! k)) m) \<Longrightarrow> check_pools pools ks m = Some 0"
  by (induction ks) (simp_all add: check_integrity_ready)

lemma mchan_integrity_ready: "mchan_ready mc m \<Longrightarrow> ipc_check_mchan_integrity mc m = Some 0"
  by (auto simp: ipc_check_mchan_integrity_def mchan_ready_def bd_queue_ready_def check_integrity_ready
      intro!: check_pools_ready)

text \<open>Descriptors pending in the two directions of a descriptor queue.\<close>

definition tx_bds :: "memory \<Rightarrow> ipc_queue \<Rightarrow> ipc_shm_bd list" where
  "tx_bds m q = map bytes_bd (tx_list m q)"

definition rx_bds :: "memory \<Rightarrow> ipc_queue \<Rightarrow> ipc_shm_bd list" where
  "rx_bds m q = map bytes_bd (rx_list m q)"

lemma bd_pop_ok:
  assumes "bd_queue_ready q m" and "rx_bds m q = bd # bds"
  shows "\<exists>bs m'. ipc_queue_pop (Some q) (Some (replicate sizeof_ipc_shm_bd 0)) m = Some (0, Some bs, m') \<and>
           bytes_bd bs = bd \<and> rx_bds m' q = bds \<and> tx_bds m' q = tx_bds m q \<and> bd_queue_ready q m' \<and>
           same_except (pop_area q) m m'"
proof -
  from assms(2) obtain x xs where x: "rx_list m q = x # xs" "bytes_bd x = bd" "map bytes_bd xs = bds"
    by (auto simp: rx_bds_def)
  from assms(1) have "queue_ready q m" "unat (elem_size q) = 8" by (simp_all add: bd_queue_ready_def)
  from pop_ok [OF this(1) _ x(1), of "replicate sizeof_ipc_shm_bd 0"] this(2) x(2,3) assms(1)
  show ?thesis by (auto simp: sizeof_ipc_shm_bd_def bd_queue_ready_def rx_bds_def tx_bds_def)
qed

lemma bd_pop_empty:
  "bd_queue_ready q m \<Longrightarrow> rx_bds m q = [] \<Longrightarrow>
   ipc_queue_pop (Some q) (Some b) m = Some (- ENOBUFS, Some b, m)"
  by (simp add: bd_queue_ready_def rx_bds_def pop_empty)

lemma bd_push_ok:
  assumes "bd_queue_ready q m" and "length (tx_bds m q) + 1 < unat (elem_num q)"
  shows "\<exists>m'. ipc_queue_push (Some q) (Some (bd_bytes bd)) m = Some (0, m') \<and> tx_bds m' q = tx_bds m q @ [bd] \<and>
           rx_bds m' q = rx_bds m q \<and> bd_queue_ready q m' \<and>
           same_except (region (push_ring q) (ring_bytes q)) m m'"
proof -
  from assms(1) have wf: "queue_wf q m" and sz: "unat (elem_size q) = 8" by (simp_all add: bd_queue_ready_def queue_ready_def)
  from push_ok [OF wf, of "bd_bytes bd"] assms sz obtain m' where
    "ipc_queue_push (Some q) (Some (bd_bytes bd)) m = Some (0, m')" "tx_list m' q = tx_list m q @ [bd_bytes bd]"
    "rx_list m' q = rx_list m q" "queue_ready q m'"
    by (auto simp: tx_bds_def bd_queue_ready_def)
  with assms(1) push_local show ?thesis by (fastforce simp: tx_bds_def rx_bds_def bd_queue_ready_def)
qed

lemma bd_push_full:
  "bd_queue_ready q m \<Longrightarrow> length (tx_bds m q) + 1 = unat (elem_num q) \<Longrightarrow>
   ipc_queue_push (Some q) (Some b) m = Some (- ENOMEM, m)"
  by (auto simp: bd_queue_ready_def queue_ready_def tx_bds_def push_full_list)

lemma tx_bds_bound: "bd_queue_ready q m \<Longrightarrow> length (tx_bds m q) + 1 \<le> unat (elem_num q)"
  using tx_list_bound [of q m] by (simp add: bd_queue_ready_def queue_ready_def tx_bds_def)

section \<open>Acquiring\<close>

text \<open>The specification of the search: the first pool that is large enough and not empty.\<close>

definition first_fit :: "ipc_managed_channel \<Rightarrow> u32 \<Rightarrow> memory \<Rightarrow> nat option" where
  "first_fit mc n m = find (\<lambda>k. n \<le> pl_buf_size (mc_pools mc ! k) \<and> rx_bds m (pl_bd_queue (mc_pools mc ! k)) \<noteq> [])
                        [0..<unat (mc_num_pools mc)]"

text \<open>What the search returns for a given choice of pool.\<close>

definition acquire_result :: "ipc_shm_pool list \<Rightarrow> memory \<Rightarrow> nat option \<Rightarrow>
    ((ipc_shm_pool \<times> ipc_shm_bd) option \<times> memory) option \<Rightarrow> bool" where
  "acquire_result pools m choice r = (case choice of
     None \<Rightarrow> r = Some (None, m)
   | Some k \<Rightarrow> let q = pl_bd_queue (pools ! k) in
       \<exists>m'. r = Some (Some (pools ! k, hd (rx_bds m q)), m') \<and> rx_bds m' q = tl (rx_bds m q) \<and>
            tx_bds m' q = tx_bds m q \<and> bd_queue_ready q m' \<and> same_except (pop_area q) m m')"

lemma acquire_loop_spec:
  assumes "\<And>k. k \<in> set ks \<Longrightarrow> k < length pools \<and> bd_queue_ready (pl_bd_queue (pools ! k)) m"
  shows "acquire_result pools m
           (find (\<lambda>k. n \<le> pl_buf_size (pools ! k) \<and> rx_bds m (pl_bd_queue (pools ! k)) \<noteq> []) ks)
           (acquire_loop pools ks n m)"
  using assms
proof (induction ks)
  case Nil
  then show ?case by (simp add: acquire_result_def)
next
  case (Cons k ks)
  let ?q = "pl_bd_queue (pools ! k)"
  have k: "k < length pools" "bd_queue_ready ?q m" using Cons.prems [of k] by simp_all
  show ?case
  proof (cases "n \<le> pl_buf_size (pools ! k) \<and> rx_bds m ?q \<noteq> []")
    case False
    then have "acquire_loop pools (k # ks) n m = acquire_loop pools ks n m"
      using k bd_pop_empty [OF k(2)] by (auto simp: not_less [symmetric] ENOBUFS_def)
    then show ?thesis using False Cons by auto
  next
    case True
    then obtain bd bds where q: "rx_bds m ?q = bd # bds" by (cases "rx_bds m ?q") auto
    from bd_pop_ok [OF k(2) q] True q k(1) show ?thesis
      by (auto simp: acquire_result_def not_less [symmetric])
  qed
qed

lemma acquire_first_fit:
  "mchan_ready mc m \<Longrightarrow> acquire_result (mc_pools mc) m (first_fit mc n m)
     (acquire_loop (mc_pools mc) [0..<unat (mc_num_pools mc)] n m)"
  unfolding first_fit_def by (rule acquire_loop_spec) (auto simp: mchan_ready_def)

section \<open>Which pool owns an address\<close>

definition pool_bytes :: "ipc_shm_pool \<Rightarrow> nat" where
  "pool_bytes pool = unat (pl_num_bufs pool) * unat (pl_buf_size pool)"

definition pool_base :: "u8 \<Rightarrow> ipc_shm_pool \<Rightarrow> u64" where
  "pool_base remote pool = (if remote = IPC_BUFFER_FROM_REMOTE then pl_remote_pool_addr pool else pl_local_pool_addr pool)"

text \<open>The pools of a channel lie one after another, without wrapping around.\<close>

definition pools_laid_out :: "u8 \<Rightarrow> ipc_managed_channel \<Rightarrow> bool" where
  "pools_laid_out remote mc \<longleftrightarrow> unat (mc_num_pools mc) \<le> length (mc_pools mc) \<and>
     (\<forall>k < unat (mc_num_pools mc). pool_bytes (mc_pools mc ! k) < 2 ^ 32 \<and>
        unat (pool_base remote (mc_pools mc ! k)) + pool_bytes (mc_pools mc ! k) < 2 ^ 64 \<and>
        (\<forall>j < k. unat (pool_base remote (mc_pools mc ! j)) + pool_bytes (mc_pools mc ! j)
                 \<le> unat (pool_base remote (mc_pools mc ! k))))"

definition owns :: "u8 \<Rightarrow> ipc_shm_pool \<Rightarrow> u64 \<Rightarrow> bool" where
  "owns remote pool buf \<longleftrightarrow> unat (pool_base remote pool) \<le> unat buf \<and>
     unat buf < unat (pool_base remote pool) + pool_bytes pool"

lemma pool_test:
  assumes "pool_bytes pool < 2 ^ 32" and "unat (pool_base remote pool) + pool_bytes pool < 2 ^ 64"
  shows "(pool_base remote pool \<le> buf \<and> buf < pool_base remote pool + ucast (ucast (pl_num_bufs pool) * pl_buf_size pool))
         \<longleftrightarrow> owns remote pool buf"
proof -
  have "unat (ucast (pl_num_bufs pool) * pl_buf_size pool :: u32) = pool_bytes pool"
    using assms(1) by (simp add: unat_word_ariths unat_ucast_up pool_bytes_def)
  then have "unat (ucast (ucast (pl_num_bufs pool) * pl_buf_size pool :: u32) :: u64) = pool_bytes pool"
    by (simp add: unat_ucast_up)
  with assms(2) show ?thesis by (simp add: owns_def word_le_nat_alt word_less_nat_alt unat_word_ariths)
qed

lemma find_pool_loop_spec:
  assumes "\<And>k. k \<in> set ks \<Longrightarrow> k < length pools \<and> pool_bytes (pools ! k) < 2 ^ 32 \<and>
             unat (pool_base remote (pools ! k)) + pool_bytes (pools ! k) < 2 ^ 64"
  shows "find_pool_loop pools ks buf remote =
           Some (case find (\<lambda>k. owns remote (pools ! k) buf) ks of None \<Rightarrow> - EINVAL | Some k \<Rightarrow> int k)"
  using assms
proof (induction ks)
  case (Cons k ks)
  have k: "k < length pools" and t: "pool_bytes (pools ! k) < 2 ^ 32"
    "unat (pool_base remote (pools ! k)) + pool_bytes (pools ! k) < 2 ^ 64" using Cons.prems [of k] by simp_all
  show ?case
    using Cons k pool_test [OF t, of buf] by (simp add: Let_def pool_base_def [symmetric])
qed simp

lemma find_pool_spec:
  assumes "pools_laid_out remote mc"
  shows "find_pool_for_buf mc buf remote =
           Some (case find (\<lambda>k. owns remote (mc_pools mc ! k) buf) [0..<unat (mc_num_pools mc)] of
                   None \<Rightarrow> - EINVAL | Some k \<Rightarrow> int k)"
  unfolding find_pool_for_buf_def using assms by (intro find_pool_loop_spec) (auto simp: pools_laid_out_def)

text \<open>At most one pool owns an address, so the first owner is the only one.\<close>

lemma owner_unique:
  assumes "pools_laid_out remote mc" "j < unat (mc_num_pools mc)" "k < unat (mc_num_pools mc)"
    and "owns remote (mc_pools mc ! j) buf" "owns remote (mc_pools mc ! k) buf"
  shows "j = k"
proof (rule ccontr)
  assume "j \<noteq> k"
  then consider "j < k" | "k < j" by linarith
  then show False using assms by cases (fastforce simp: pools_laid_out_def owns_def)+
qed

lemma find_pool_owner:
  assumes lay: "pools_laid_out remote mc" and k: "k < unat (mc_num_pools mc)" and ow: "owns remote (mc_pools mc ! k) buf"
  shows "find_pool_for_buf mc buf remote = Some (int k)"
proof (cases "find (\<lambda>k. owns remote (mc_pools mc ! k) buf) [0..<unat (mc_num_pools mc)]")
  case None
  then show ?thesis using k ow by (simp add: find_None_iff)
next
  case (Some j)
  then have "j < unat (mc_num_pools mc)" "owns remote (mc_pools mc ! j) buf" by (auto simp: find_Some_iff)
  with owner_unique [OF lay this(1) k this(2) ow] Some show ?thesis by (simp add: find_pool_spec [OF lay])
qed

lemma find_pool_none:
  assumes "pools_laid_out remote mc" and "\<And>k. k < unat (mc_num_pools mc) \<Longrightarrow> \<not> owns remote (mc_pools mc ! k) buf"
  shows "find_pool_for_buf mc buf remote = Some (- EINVAL)"
proof -
  have "find (\<lambda>k. owns remote (mc_pools mc ! k) buf) [0..<unat (mc_num_pools mc)] = None"
    using assms(2) by (simp add: find_None_iff)
  then show ?thesis by (simp add: find_pool_spec [OF assms(1)])
qed

text \<open>The buffer an owned address lies in.\<close>

lemma buf_index_owned:
  assumes "owns remote pool buf"
  shows "\<exists>b. buf_index buf (pool_base remote pool) (pl_buf_size pool) = Some (of_nat b) \<and> b < unat (pl_num_bufs pool) \<and>
           unat (pool_base remote pool) + b * unat (pl_buf_size pool) \<le> unat buf \<and>
           unat buf < unat (pool_base remote pool) + (b + 1) * unat (pl_buf_size pool)"
proof -
  let ?off = "unat buf - unat (pool_base remote pool)" and ?s = "unat (pl_buf_size pool)"
  let ?b = "?off div ?s"
  have off: "?off < unat (pl_num_bufs pool) * ?s" and le: "unat (pool_base remote pool) \<le> unat buf"
    using assms by (auto simp: owns_def pool_bytes_def)
  from off have s0: "?s \<noteq> 0" by (auto intro: Nat.gr0I)
  have b: "?b < unat (pl_num_bufs pool)" using off s0 by (simp add: less_mult_imp_div_less)
  have "unat (buf - pool_base remote pool) = ?off" using le by (simp add: unat_sub word_le_nat_alt)
  then have "unat ((buf - pool_base remote pool) div ucast (pl_buf_size pool)) = ?b"
    by (simp add: unat_div unat_ucast_up)
  then have "(ucast ((buf - pool_base remote pool) div ucast (pl_buf_size pool)) :: u16) = of_nat ?b"
    by (metis of_nat_unat)
  moreover have "pl_buf_size pool \<noteq> 0" using s0 by auto
  moreover have "unat (pool_base remote pool) + ?b * ?s \<le> unat buf"
    using div_times_less_eq_dividend [of ?off ?s] le by linarith
  moreover have "?off < (?b + 1) * ?s" using s0 by (metis add.commute dividend_less_div_times gr0I mult_Suc plus_1_eq_Suc)
  ultimately show ?thesis using b le
    by (intro exI [of _ ?b]) (auto simp: buf_index_def less_diff_conv2)
qed

section \<open>Sending and releasing\<close>

text \<open>A managed channel of an initialised instance whose remote side is ready.\<close>

definition chan_usable :: "'w platform \<Rightarrow> u8 \<Rightarrow> u8 \<Rightarrow> 'w shm_state \<Rightarrow> ipc_managed_channel \<Rightarrow> bool" where
  "chan_usable P i c st mc \<longleftrightarrow> ipc_shm_is_remote_ready P i st = Some 0 \<and> get_managed_chan i c st = Some (Some mc) \<and>
     mchan_ready mc (st_mem st)"

lemma remote_ready_used:
  "ipc_shm_is_remote_ready P i st = Some 0 \<Longrightarrow> ipc_instance_is_free i st = Some IPC_SHM_INSTANCE_USED"
  by (auto simp: ipc_shm_is_remote_ready_def errno_defs split: Option.bind_splits if_splits)

lemma remote_ready_global:
  "ipc_shm_is_remote_ready P i st = Some 0 \<Longrightarrow>
   \<exists>r. os_get_remote_shm P i (st_env st) = Some r \<and> load_u64 (st_mem st) r = Some IPC_SHM_STATE_READY"
  by (auto simp: ipc_shm_is_remote_ready_def errno_defs split: Option.bind_splits if_splits)

lemma tx_owned:
  assumes us: "chan_usable P i (word_of_int c) st mc" and lay: "pools_laid_out IPC_BUFFER_FROM_LOCAL mc"
    and buf: "buf \<noteq> 0" "len \<noteq> 0" and k: "k < unat (mc_num_pools mc)"
    and ow: "owns IPC_BUFFER_FROM_LOCAL (mc_pools mc ! k) buf"
  shows "\<exists>b. b < unat (pl_num_bufs (mc_pools mc ! k)) \<and>
           unat (pl_local_pool_addr (mc_pools mc ! k)) + b * unat (pl_buf_size (mc_pools mc ! k)) \<le> unat buf \<and>
           unat buf < unat (pl_local_pool_addr (mc_pools mc ! k)) + (b + 1) * unat (pl_buf_size (mc_pools mc ! k)) \<and>
           ipc_shm_tx P i c buf len st =
             do { (err, m) \<leftarrow> ipc_queue_push (Some (mc_bd_queue mc))
                    (Some (bd_bytes \<lparr>bd_pool_id = of_nat k, bd_buf_id = of_nat b, bd_data_size = len\<rparr>)) (st_mem st);
                  if err \<noteq> 0 then Some (int8 err, st\<lparr>st_mem := m\<rparr>)
                  else do { st2 \<leftarrow> upd_env (hw_irq_notify P i) (st\<lparr>st_mem := m\<rparr>); Some (0, st2) } }"
proof -
  let ?pool = "mc_pools mc ! k"
  from us have rr: "ipc_shm_is_remote_ready P i st = Some 0" and gm: "get_managed_chan i (word_of_int c) st = Some (Some mc)"
    and rdy: "mchan_ready mc (st_mem st)" by (simp_all add: chan_usable_def)
  have kl: "k < length (mc_pools mc)" using rdy k by (simp add: mchan_ready_def)
  have pb: "pool_base IPC_BUFFER_FROM_LOCAL ?pool = pl_local_pool_addr ?pool"
    by (simp add: pool_base_def IPC_BUFFER_FROM_LOCAL_def IPC_BUFFER_FROM_REMOTE_def)
  have "int k \<noteq> - EINVAL" by (simp add: EINVAL_def)
  with buf_index_owned [OF ow] rr gm mchan_integrity_ready [OF rdy] find_pool_owner [OF lay k ow] kl buf
  show ?thesis by (auto simp: ipc_shm_tx_def pb Let_def)
qed

lemma release_owned:
  assumes us: "ipc_instance_is_free i st = Some IPC_SHM_INSTANCE_USED" and gm: "get_managed_chan i c st = Some (Some mc)"
    and rdy: "mchan_ready mc (st_mem st)" and lay: "pools_laid_out IPC_BUFFER_FROM_REMOTE mc"
    and buf: "buf \<noteq> 0" and k: "k < unat (mc_num_pools mc)" and ow: "owns IPC_BUFFER_FROM_REMOTE (mc_pools mc ! k) buf"
  shows "\<exists>b. b < unat (pl_num_bufs (mc_pools mc ! k)) \<and>
           unat (pl_remote_pool_addr (mc_pools mc ! k)) + b * unat (pl_buf_size (mc_pools mc ! k)) \<le> unat buf \<and>
           unat buf < unat (pl_remote_pool_addr (mc_pools mc ! k)) + (b + 1) * unat (pl_buf_size (mc_pools mc ! k)) \<and>
           ipc_shm_release_buf i c buf st =
             do { (err, m) \<leftarrow> ipc_queue_push (Some (pl_bd_queue (mc_pools mc ! k)))
                    (Some (bd_bytes \<lparr>bd_pool_id = of_nat k, bd_buf_id = of_nat b, bd_data_size = 0\<rparr>)) (st_mem st);
                  Some (err, st\<lparr>st_mem := m\<rparr>) }"
proof -
  let ?pool = "mc_pools mc ! k"
  have kl: "k < length (mc_pools mc)" using rdy k by (simp add: mchan_ready_def)
  have pb: "pool_base IPC_BUFFER_FROM_REMOTE ?pool = pl_remote_pool_addr ?pool" by (simp add: pool_base_def)
  have "int k \<noteq> - EINVAL" by (simp add: EINVAL_def)
  with buf_index_owned [OF ow] us gm mchan_integrity_ready [OF rdy] find_pool_owner [OF lay k ow] kl buf
  show ?thesis by (auto simp: ipc_shm_release_buf_def pb)
qed

lemma acquire_run:
  assumes us: "chan_usable P i c st mc" and n: "n \<noteq> 0"
    and l: "os_get_local_shm P i (st_env st) = Some local" and p: "priv_at i st = Some pv"
  shows "case first_fit mc n (st_mem st) of
           None \<Rightarrow> ipc_shm_acquire_buf P i c n st = Some (0, st)
         | Some k \<Rightarrow>
             let pool = mc_pools mc ! k; q = pl_bd_queue pool; bd = hd (rx_bds (st_mem st) q);
                 a = pl_local_pool_addr pool + ucast (ucast (bd_buf_id bd) * pl_buf_size pool)
             in k < unat (mc_num_pools mc) \<and> n \<le> pl_buf_size pool \<and>
                (\<forall>j < k. pl_buf_size (mc_pools mc ! j) < n \<or> rx_bds (st_mem st) (pl_bd_queue (mc_pools mc ! j)) = []) \<and>
                (\<exists>m'. ipc_shm_acquire_buf P i c n st =
                        Some (if local \<le> a \<and> a + ucast (pl_buf_size pool) \<le> local + ucast (pv_shm_size pv) then a else 0,
                              st\<lparr>st_mem := m'\<rparr>) \<and>
                      rx_bds m' q = tl (rx_bds (st_mem st) q) \<and> tx_bds m' q = tx_bds (st_mem st) q \<and>
                      bd_queue_ready q m' \<and> same_except (pop_area q) (st_mem st) m')"
proof -
  from us have rr: "ipc_shm_is_remote_ready P i st = Some 0" and gm: "get_managed_chan i c st = Some (Some mc)"
    and rdy: "mchan_ready mc (st_mem st)" by (simp_all add: chan_usable_def)
  note ok = mchan_integrity_ready [OF rdy]
  note res = acquire_first_fit [OF rdy, of n]
  show ?thesis
  proof (cases "first_fit mc n (st_mem st)")
    case None
    with res rr gm n ok show ?thesis by (simp add: acquire_result_def ipc_shm_acquire_buf_def Let_def)
  next
    case (Some k)
    let ?pool = "mc_pools mc ! k" and ?q = "pl_bd_queue (mc_pools mc ! k)"
    from Some res obtain m' where run: "acquire_loop (mc_pools mc) [0..<unat (mc_num_pools mc)] n (st_mem st)
        = Some (Some (?pool, hd (rx_bds (st_mem st) ?q)), m')" and tl: "rx_bds m' ?q = tl (rx_bds (st_mem st) ?q)"
        "tx_bds m' ?q = tx_bds (st_mem st) ?q" "bd_queue_ready ?q m'" "same_except (pop_area ?q) (st_mem st) m'"
      by (auto simp: acquire_result_def Let_def)
    from Some have k: "k < unat (mc_num_pools mc)" "n \<le> pl_buf_size ?pool"
      "\<forall>j < k. pl_buf_size (mc_pools mc ! j) < n \<or> rx_bds (st_mem st) (pl_bd_queue (mc_pools mc ! j)) = []"
      by (auto simp: first_fit_def find_Some_iff not_le)
    have pr: "priv_at i (st\<lparr>st_mem := m'\<rparr>) = Some pv" using p by (simp add: priv_at_def)
    show ?thesis
      using Some k run tl rr gm n ok l pr
      by (auto simp: ipc_shm_acquire_buf_def Let_def not_le not_less)
  qed
qed


lemma acquire_loop_pool:
  "acquire_loop pools ks n m = Some (Some (pool, bd), m') \<Longrightarrow>
   \<exists>k \<in> set ks. k < length pools \<and> pool = pools ! k \<and> n \<le> pl_buf_size pool"
proof (induction ks arbitrary: m)
  case (Cons k ks)
  then show ?case
    by (fastforce simp: nth_opt_Some_iff not_less split: if_splits Option.bind_splits)
qed simp

text \<open>The range check on a buffer address means what it says when the mapping does not wrap.\<close>

lemma in_shm_no_wrap:
  fixes local a base :: u64 and n s off :: u32
  assumes lo: "local \<le> a" and hi: "a + ucast n \<le> local + ucast s"
    and a: "a = base + ucast off" and base: "unat base \<le> unat local + unat s" and pl: "unat local + unat s + 2 ^ 33 \<le> 2 ^ 64"
  shows "unat local \<le> unat a \<and> unat a + unat n \<le> unat local + unat s"
    and "unat a = unat base + unat off"
proof -
  have n: "unat (ucast n :: u64) = unat n" and s: "unat (ucast s :: u64) = unat s" and o: "unat (ucast off :: u64) = unat off"
    for n s off :: u32 by (simp_all add: unat_ucast_up)
  have b: "unat n < 2 ^ 32" "unat off < 2 ^ 32" using unat_less [of n] unat_less [of off] by simp_all
  have "unat base + unat off < 2 ^ 64" using base b pl by simp
  then show ua: "unat a = unat base + unat off" by (simp add: a unat_word_ariths o)
  have "unat a + unat n < 2 ^ 64" using ua base b pl by simp
  then have "unat (a + ucast n) = unat a + unat n" by (simp add: unat_word_ariths n)
  moreover have "unat (local + ucast s) = unat local + unat s" using pl by (simp add: unat_word_ariths s)
  ultimately show "unat local \<le> unat a \<and> unat a + unat n \<le> unat local + unat s"
    using lo hi by (simp add: word_le_nat_alt)
qed

text \<open>Both operations with the queue's answer filled in.\<close>

lemma tx_run:
  assumes us: "chan_usable P i (word_of_int c) st mc" and lay: "pools_laid_out IPC_BUFFER_FROM_LOCAL mc"
    and buf: "buf \<noteq> 0" "len \<noteq> 0" and k: "k < unat (mc_num_pools mc)"
    and ow: "owns IPC_BUFFER_FROM_LOCAL (mc_pools mc ! k) buf" and nt: "hw_irq_notify P i (st_env st) = Some w"
  shows "\<exists>b. b < unat (pl_num_bufs (mc_pools mc ! k)) \<and>
           unat (pl_local_pool_addr (mc_pools mc ! k)) + b * unat (pl_buf_size (mc_pools mc ! k)) \<le> unat buf \<and>
           unat buf < unat (pl_local_pool_addr (mc_pools mc ! k)) + (b + 1) * unat (pl_buf_size (mc_pools mc ! k)) \<and>
           (if length (tx_bds (st_mem st) (mc_bd_queue mc)) + 1 < unat (elem_num (mc_bd_queue mc))
            then \<exists>m'. ipc_shm_tx P i c buf len st = Some (0, st\<lparr>st_mem := m', st_env := w\<rparr>) \<and>
                   tx_bds m' (mc_bd_queue mc) = tx_bds (st_mem st) (mc_bd_queue mc) @
                     [\<lparr>bd_pool_id = of_nat k, bd_buf_id = of_nat b, bd_data_size = len\<rparr>] \<and>
                   bd_queue_ready (mc_bd_queue mc) m' \<and>
                   same_except (region (push_ring (mc_bd_queue mc)) (ring_bytes (mc_bd_queue mc))) (st_mem st) m'
            else ipc_shm_tx P i c buf len st = Some (- ENOMEM, st))"
proof -
  let ?q = "mc_bd_queue mc"
  have q: "bd_queue_ready ?q (st_mem st)" using us by (simp add: chan_usable_def mchan_ready_def)
  from tx_owned [OF us lay buf k ow] obtain b where
    b: "b < unat (pl_num_bufs (mc_pools mc ! k))"
      "unat (pl_local_pool_addr (mc_pools mc ! k)) + b * unat (pl_buf_size (mc_pools mc ! k)) \<le> unat buf"
      "unat buf < unat (pl_local_pool_addr (mc_pools mc ! k)) + (b + 1) * unat (pl_buf_size (mc_pools mc ! k))"
    and run: "ipc_shm_tx P i c buf len st =
             do { (err, m) \<leftarrow> ipc_queue_push (Some ?q)
                    (Some (bd_bytes \<lparr>bd_pool_id = of_nat k, bd_buf_id = of_nat b, bd_data_size = len\<rparr>)) (st_mem st);
                  if err \<noteq> 0 then Some (int8 err, st\<lparr>st_mem := m\<rparr>)
                  else do { st2 \<leftarrow> upd_env (hw_irq_notify P i) (st\<lparr>st_mem := m\<rparr>); Some (0, st2) } }" by blast
  show ?thesis
  proof (intro exI [of _ b] conjI b)
    show "if length (tx_bds (st_mem st) ?q) + 1 < unat (elem_num ?q)
          then \<exists>m'. ipc_shm_tx P i c buf len st = Some (0, st\<lparr>st_mem := m', st_env := w\<rparr>) \<and>
                 tx_bds m' ?q = tx_bds (st_mem st) ?q @ [\<lparr>bd_pool_id = of_nat k, bd_buf_id = of_nat b, bd_data_size = len\<rparr>] \<and>
                 bd_queue_ready ?q m' \<and> same_except (region (push_ring ?q) (ring_bytes ?q)) (st_mem st) m'
          else ipc_shm_tx P i c buf len st = Some (- ENOMEM, st)"
    proof (cases "length (tx_bds (st_mem st) ?q) + 1 < unat (elem_num ?q)")
      case True
      from bd_push_ok [OF q True, of "\<lparr>bd_pool_id = of_nat k, bd_buf_id = of_nat b, bd_data_size = len\<rparr>"] run nt True
      show ?thesis by (auto simp: upd_env_def)
    next
      case False
      then have "length (tx_bds (st_mem st) ?q) + 1 = unat (elem_num ?q)" using tx_bds_bound [OF q] by simp
      from bd_push_full [OF q this] run False show ?thesis by simp
    qed
  qed
qed

lemma release_run:
  assumes us: "ipc_instance_is_free i st = Some IPC_SHM_INSTANCE_USED" and gm: "get_managed_chan i c st = Some (Some mc)"
    and rdy: "mchan_ready mc (st_mem st)" and lay: "pools_laid_out IPC_BUFFER_FROM_REMOTE mc"
    and buf: "buf \<noteq> 0" and k: "k < unat (mc_num_pools mc)" and ow: "owns IPC_BUFFER_FROM_REMOTE (mc_pools mc ! k) buf"
  shows "\<exists>b. b < unat (pl_num_bufs (mc_pools mc ! k)) \<and>
           unat (pl_remote_pool_addr (mc_pools mc ! k)) + b * unat (pl_buf_size (mc_pools mc ! k)) \<le> unat buf \<and>
           unat buf < unat (pl_remote_pool_addr (mc_pools mc ! k)) + (b + 1) * unat (pl_buf_size (mc_pools mc ! k)) \<and>
           (let q = pl_bd_queue (mc_pools mc ! k) in
            if length (tx_bds (st_mem st) q) + 1 < unat (elem_num q)
            then \<exists>m'. ipc_shm_release_buf i c buf st = Some (0, st\<lparr>st_mem := m'\<rparr>) \<and>
                   tx_bds m' q = tx_bds (st_mem st) q @ [\<lparr>bd_pool_id = of_nat k, bd_buf_id = of_nat b, bd_data_size = 0\<rparr>] \<and>
                   bd_queue_ready q m' \<and> same_except (region (push_ring q) (ring_bytes q)) (st_mem st) m'
            else ipc_shm_release_buf i c buf st = Some (- ENOMEM, st))"
proof -
  let ?q = "pl_bd_queue (mc_pools mc ! k)"
  have q: "bd_queue_ready ?q (st_mem st)" using rdy k by (simp add: mchan_ready_def)
  from release_owned [OF us gm rdy lay buf k ow] obtain b where
    b: "b < unat (pl_num_bufs (mc_pools mc ! k))"
      "unat (pl_remote_pool_addr (mc_pools mc ! k)) + b * unat (pl_buf_size (mc_pools mc ! k)) \<le> unat buf"
      "unat buf < unat (pl_remote_pool_addr (mc_pools mc ! k)) + (b + 1) * unat (pl_buf_size (mc_pools mc ! k))"
    and run: "ipc_shm_release_buf i c buf st =
             do { (err, m) \<leftarrow> ipc_queue_push (Some ?q)
                    (Some (bd_bytes \<lparr>bd_pool_id = of_nat k, bd_buf_id = of_nat b, bd_data_size = 0\<rparr>)) (st_mem st);
                  Some (err, st\<lparr>st_mem := m\<rparr>) }" by blast
  show ?thesis unfolding Let_def
  proof (intro exI [of _ b] conjI b)
    show "if length (tx_bds (st_mem st) ?q) + 1 < unat (elem_num ?q)
          then \<exists>m'. ipc_shm_release_buf i c buf st = Some (0, st\<lparr>st_mem := m'\<rparr>) \<and>
                 tx_bds m' ?q = tx_bds (st_mem st) ?q @ [\<lparr>bd_pool_id = of_nat k, bd_buf_id = of_nat b, bd_data_size = 0\<rparr>] \<and>
                 bd_queue_ready ?q m' \<and> same_except (region (push_ring ?q) (ring_bytes ?q)) (st_mem st) m'
          else ipc_shm_release_buf i c buf st = Some (- ENOMEM, st)"
    proof (cases "length (tx_bds (st_mem st) ?q) + 1 < unat (elem_num ?q)")
      case True
      from bd_push_ok [OF q True, of "\<lparr>bd_pool_id = of_nat k, bd_buf_id = of_nat b, bd_data_size = 0\<rparr>"] run True
      show ?thesis by auto
    next
      case False
      then have "length (tx_bds (st_mem st) ?q) + 1 = unat (elem_num ?q)" using tx_bds_bound [OF q] by simp
      from bd_push_full [OF q this] run False show ?thesis by simp
    qed
  qed
qed

end
