(* ===== verification/Shm_Demo.thy ===== *)
theory Shm_Demo
  imports Shm_Buf
begin

text \<open>
  A concrete pair of driver instances, used by the witnesses: both sides have one managed channel
  with one pool of three 64-byte buffers, laid out by the driver's own rules in two 4 KiB shared
  memories at 0x10000 (local) and 0x20000 (remote), both initialised and ready. The platform counts
  notifications and logs what the receive callbacks are given.
\<close>

record demo_world =
  dw_notified :: nat
  dw_received :: "(u8 \<times> u64 \<times> u32) list"

definition demo_platform :: "u64 \<Rightarrow> u64 \<Rightarrow> demo_world platform" where
  "demo_platform l r = \<lparr>
     hw_init = \<lambda>i cfg w. Some (0, w), hw_free = \<lambda>i w. Some w,
     hw_irq_enable = \<lambda>i w. Some w, hw_irq_disable = \<lambda>i w. Some w,
     hw_irq_notify = \<lambda>i w. Some (w\<lparr>dw_notified := dw_notified w + 1\<rparr>),
     os_init = \<lambda>i cfg m w. Some (0, m, w), os_free = \<lambda>i m w. Some (m, w),
     os_get_local_shm = \<lambda>i w. Some l, os_get_remote_shm = \<lambda>i w. Some r,
     os_poll_channels = \<lambda>rx i st. do { (n, st') \<leftarrow> rx i 128 st; Some (int8 (uint n), st') },
     app_rx_cb = \<lambda>cb arg i c buf n st. Some (st\<lparr>st_env := (st_env st)\<lparr>dw_received := dw_received (st_env st) @ [(c, buf, n)]\<rparr>\<rparr>),
     app_umng_rx_cb = \<lambda>cb arg i c buf st. Some (st\<lparr>st_env := (st_env st)\<lparr>dw_received := dw_received (st_env st) @ [(c, buf, 0)]\<rparr>\<rparr>)\<rparr>"

definition demo_bd :: "nat \<Rightarrow> ipc_shm_bd" where
  "demo_bd b = \<lparr>bd_pool_id = 0, bd_buf_id = of_nat b, bd_data_size = 0\<rparr>"

definition demo_side :: "u64 \<Rightarrow> (u64 \<times> byte list) list" where
  "demo_side a = [(a, le_bytes 8 (unat IPC_SHM_STATE_READY)), (a + 0x08, le_bytes 8 (unat IPC_QUEUE_INIT_DONE)),
     (a + 0x38, le_bytes 8 (unat IPC_QUEUE_INIT_DONE)), (a + 0x40, le_bytes 4 3),
     (a + 0x48, bd_bytes (demo_bd 0)), (a + 0x50, bd_bytes (demo_bd 1)), (a + 0x58, bd_bytes (demo_bd 2))]"

definition demo_shm :: memory where
  "demo_shm = pokes (demo_side 0x10000 @ demo_side 0x20000) (zero_ram 0x10000 0x30000)"

definition demo_q :: "u64 \<Rightarrow> u64 \<Rightarrow> ipc_queue" where
  "demo_q l r = \<lparr>elem_size = 8, elem_num = 4, push_ring = l, pop_ring = r\<rparr>"

definition demo_pool :: "u64 \<Rightarrow> u64 \<Rightarrow> ipc_shm_pool" where
  "demo_pool l r = \<lparr>pl_num_bufs = 3, pl_buf_size = 0x40, pl_shm_size = 0xF0, pl_local_pool_addr = l + 0x68,
     pl_remote_pool_addr = r + 0x68, pl_bd_queue = demo_q (l + 0x38) (r + 0x38)\<rparr>"

definition no_pool :: ipc_shm_pool where
  "no_pool = \<lparr>pl_num_bufs = 0, pl_buf_size = 0, pl_shm_size = 0, pl_local_pool_addr = 0, pl_remote_pool_addr = 0,
     pl_bd_queue = \<lparr>elem_size = 0, elem_num = 0, push_ring = 0, pop_ring = 0\<rparr>\<rparr>"

definition demo_mchan :: "u64 \<Rightarrow> u64 \<Rightarrow> ipc_managed_channel" where
  "demo_mchan l r = \<lparr>mc_bd_queue = demo_q (l + 8) (r + 8), mc_num_pools = 1,
     mc_pools = [demo_pool l r, no_pool, no_pool, no_pool], mc_rx_cb = 0x1234, mc_cb_arg = 0\<rparr>"

definition no_chan :: ipc_shm_channel where
  "no_chan = \<lparr>ch_id = 0, ch_type = IPC_SHM_MANAGED,
     ch_mng = \<lparr>mc_bd_queue = pl_bd_queue no_pool, mc_num_pools = 0, mc_pools = replicate 4 no_pool, mc_rx_cb = 0, mc_cb_arg = 0\<rparr>,
     ch_umng = \<lparr>uc_size = 0, uc_rx_cb = 0, uc_cb_arg = 0\<rparr>\<rparr>"

definition no_priv :: ipc_shm_priv where
  "no_priv = \<lparr>pv_shm_size = 0, pv_num_channels = 0, pv_channels = replicate 8 no_chan, pv_global = 0\<rparr>"

definition demo_state :: "u64 \<Rightarrow> u64 \<Rightarrow> demo_world shm_state" where
  "demo_state l r = \<lparr>st_mem = demo_shm,
     st_priv = [\<lparr>pv_shm_size = 0x1000, pv_num_channels = 1,
                 pv_channels = no_chan\<lparr>ch_mng := demo_mchan l r\<rparr> # replicate 7 no_chan, pv_global = l\<rparr>,
                no_priv, no_priv, no_priv],
     st_env = \<lparr>dw_notified = 0, dw_received = []\<rparr>\<rparr>"

section \<open>Its queues\<close>

lemma demo_pokes: "pokes_in 0x10000 0x30000 (demo_side 0x10000 @ demo_side 0x20000)"
  by (simp add: pokes_in_def demo_side_def)

lemma demo_mapped: "0x10000 \<le> unat a \<Longrightarrow> unat a + n \<le> 0x30000 \<Longrightarrow> mapped demo_shm a n"
  unfolding demo_shm_def mapped_pokes [OF demo_pokes] by (rule mapped_zero_ram) simp_all

lemma demo_look:
  "look (demo_side 0x10000 @ demo_side 0x20000) a n = Some bs \<Longrightarrow> load_bytes demo_shm a n = Some bs"
  unfolding demo_shm_def by (rule load_pokes [OF demo_pokes])

lemma demo_clear:
  assumes "list_all (\<lambda>(b, cs). apart_num a n b (length cs)) (demo_side 0x10000 @ demo_side 0x20000)"
    and "0x10000 \<le> unat a" "unat a + n \<le> 0x30000"
  shows "load_bytes demo_shm a n = Some (replicate n 0)"
  unfolding demo_shm_def load_pokes_clear [OF demo_pokes assms(1)] using assms(2,3) by (simp add: load_bytes_zero_ram)

lemma demo_words:
  "load_u64 demo_shm 0x10000 = Some IPC_SHM_STATE_READY" "load_u64 demo_shm 0x20000 = Some IPC_SHM_STATE_READY"
  "load_u64 demo_shm 0x10008 = Some IPC_QUEUE_INIT_DONE" "load_u64 demo_shm 0x20008 = Some IPC_QUEUE_INIT_DONE"
  "load_u64 demo_shm 0x10038 = Some IPC_QUEUE_INIT_DONE" "load_u64 demo_shm 0x20038 = Some IPC_QUEUE_INIT_DONE"
  by (simp_all add: load_u64_def demo_look demo_side_def apart_num_def le_nat_le_bytes IPC_SHM_STATE_READY_def IPC_QUEUE_INIT_DONE_def)

lemma demo_idx:
  "load_u32 demo_shm 0x10010 = Some 0" "load_u32 demo_shm 0x10014 = Some 0"
  "load_u32 demo_shm 0x20010 = Some 0" "load_u32 demo_shm 0x20014 = Some 0"
  "load_u32 demo_shm 0x10040 = Some 3" "load_u32 demo_shm 0x10044 = Some 0"
  "load_u32 demo_shm 0x20040 = Some 3" "load_u32 demo_shm 0x20044 = Some 0"
  by (simp_all add: load_u32_def demo_look demo_clear demo_side_def apart_num_def le_nat_le_bytes le_nat_zeros)

lemma demo_slots:
  "load_bytes demo_shm 0x20048 8 = Some (bd_bytes (demo_bd 0))"
  "load_bytes demo_shm 0x20050 8 = Some (bd_bytes (demo_bd 1))"
  "load_bytes demo_shm 0x20058 8 = Some (bd_bytes (demo_bd 2))"
  "load_bytes demo_shm 0x10048 8 = Some (bd_bytes (demo_bd 0))"
  "load_bytes demo_shm 0x10050 8 = Some (bd_bytes (demo_bd 1))"
  "load_bytes demo_shm 0x10058 8 = Some (bd_bytes (demo_bd 2))"
  by (rule demo_look, simp add: demo_side_def apart_num_def)+

lemma demo_q_sel [simp]:
  "elem_size (demo_q l r) = 8" "elem_num (demo_q l r) = 4" "push_ring (demo_q l r) = l" "pop_ring (demo_q l r) = r"
  "ring_bytes (demo_q l r) = 48"
  by (simp_all add: demo_q_def ring_bytes_def sizeof_ipc_ring_def)

lemma demo_pool_sel [simp]:
  "pl_num_bufs (demo_pool l r) = 3" "pl_buf_size (demo_pool l r) = 0x40"
  "pl_local_pool_addr (demo_pool l r) = l + 0x68" "pl_remote_pool_addr (demo_pool l r) = r + 0x68"
  "pl_bd_queue (demo_pool l r) = demo_q (l + 0x38) (r + 0x38)" "pl_shm_size (demo_pool l r) = 0xF0"
  by (simp_all add: demo_pool_def)

lemma demo_mchan_sel [simp]:
  "mc_bd_queue (demo_mchan l r) = demo_q (l + 8) (r + 8)" "mc_num_pools (demo_mchan l r) = 1"
  "mc_pools (demo_mchan l r) = [demo_pool l r, no_pool, no_pool, no_pool]" "mc_rx_cb (demo_mchan l r) = 0x1234"
  "mc_cb_arg (demo_mchan l r) = 0"
  by (simp_all add: demo_mchan_def)

lemma demo_queues:
  "bd_queue_ready (demo_q 0x10008 0x20008) demo_shm" "bd_queue_ready (demo_q 0x10038 0x20038) demo_shm"
  by (simp_all add: bd_queue_ready_def queue_ready_def queue_wf_def demo_mapped apart_either wr_idx_def rd_idx_def
      ring_write_def ring_read_def ring_sentinel_def demo_words demo_idx)

lemma demo_q_peer: "demo_q r l = peer (demo_q l r)"
  by (simp add: demo_q_def peer_def)

lemma demo_tx_rx:
  "tx_bds demo_shm (demo_q 0x10008 0x20008) = []" "rx_bds demo_shm (demo_q 0x10008 0x20008) = []"
  "rx_bds demo_shm (demo_q 0x10038 0x20038) = [demo_bd 0, demo_bd 1, demo_bd 2]"
  "tx_bds demo_shm (demo_q 0x10038 0x20038) = [demo_bd 0, demo_bd 1, demo_bd 2]"
  by (simp_all add: tx_bds_def rx_bds_def tx_list_def rx_list_def wr_idx_def rd_idx_def ring_write_def ring_read_def
      demo_idx ring_elems_def ring_count_def upt_rec slot_at_def slot_addr_def demo_slots)

lemma demo_mchan_ready:
  "mchan_ready (demo_mchan 0x10000 0x20000) demo_shm" "mchan_ready (demo_mchan 0x20000 0x10000) demo_shm"
  using demo_queues demo_queues [unfolded bd_queue_ready_def]
  by (simp_all add: mchan_ready_def bd_queue_ready_def demo_q_peer [of "0x20008"] demo_q_peer [of "0x20038"])

lemma demo_laid_out:
  "pools_laid_out IPC_BUFFER_FROM_LOCAL (demo_mchan 0x10000 0x20000)" "pools_laid_out IPC_BUFFER_FROM_REMOTE (demo_mchan 0x10000 0x20000)"
  "pools_laid_out IPC_BUFFER_FROM_REMOTE (demo_mchan 0x20000 0x10000)"
  by (simp_all add: pools_laid_out_def pool_bytes_def pool_base_def)

lemma demo_state_sel [simp]:
  "st_mem (demo_state l r) = demo_shm" "st_env (demo_state l r) = \<lparr>dw_notified = 0, dw_received = []\<rparr>"
  "priv_at 0 (demo_state l r) = Some \<lparr>pv_shm_size = 0x1000, pv_num_channels = 1,
     pv_channels = no_chan\<lparr>ch_mng := demo_mchan l r\<rparr> # replicate 7 no_chan, pv_global = l\<rparr>"
  by (simp_all add: demo_state_def priv_at_def)

lemma demo_usable:
  "chan_usable (demo_platform 0x10000 0x20000) 0 0 (demo_state 0x10000 0x20000) (demo_mchan 0x10000 0x20000)"
  "chan_usable (demo_platform 0x20000 0x10000) 0 0 (demo_state 0x20000 0x10000) (demo_mchan 0x20000 0x10000)"
  by (simp_all add: chan_usable_def demo_mchan_ready ipc_shm_is_remote_ready_def ipc_instance_is_free_def limit_defs
      demo_words demo_platform_def get_managed_chan_def get_channel_def get_channel_priv_def
      no_chan_def IPC_SHM_STATE_READY_def IPC_SHM_STATE_CLEAR_def)

lemma demo_first_fit: "first_fit (demo_mchan 0x10000 0x20000) 0x20 demo_shm = Some 0"
  by (simp add: first_fit_def demo_tx_rx)

lemma demo_local: "os_get_local_shm (demo_platform l r) i w = Some l" "os_get_remote_shm (demo_platform l r) i w = Some r"
  "hw_irq_notify (demo_platform l r) i w = Some (w\<lparr>dw_notified := dw_notified w + 1\<rparr>)"
  by (simp_all add: demo_platform_def)

lemma demo_acquire:
  "\<exists>m'. ipc_shm_acquire_buf (demo_platform 0x10000 0x20000) 0 0 0x20 (demo_state 0x10000 0x20000)
          = Some (0x10068, (demo_state 0x10000 0x20000)\<lparr>st_mem := m'\<rparr>)"
  using acquire_run [OF demo_usable(1) _ demo_local(1) demo_state_sel(3), of "0x20"]
  by (simp add: demo_first_fit demo_tx_rx demo_bd_def) (simp add: Let_def, blast)

lemma demo_owns: "owns IPC_BUFFER_FROM_LOCAL (mc_pools (demo_mchan 0x10000 0x20000) ! 0) 0x100A8"
  "owns IPC_BUFFER_FROM_REMOTE (mc_pools (demo_mchan 0x10000 0x20000) ! 0) 0x200A8"
  by (simp_all add: owns_def pool_base_def pool_bytes_def IPC_BUFFER_FROM_LOCAL_def IPC_BUFFER_FROM_REMOTE_def)

text \<open>The memory after the local side has sent buffer 1 with 5 bytes of data.\<close>

lemma demo_sent:
  "\<exists>m'. ipc_shm_tx (demo_platform 0x10000 0x20000) 0 0 0x100A8 5 (demo_state 0x10000 0x20000)
          = Some (0, (demo_state 0x10000 0x20000)\<lparr>st_mem := m', st_env := \<lparr>dw_notified = 1, dw_received = []\<rparr>\<rparr>) \<and>
        tx_bds m' (demo_q 0x10008 0x20008) = [\<lparr>bd_pool_id = 0, bd_buf_id = 1, bd_data_size = 5\<rparr>] \<and>
        bd_queue_ready (demo_q 0x10008 0x20008) m' \<and> same_except (region 0x10008 48) demo_shm m'"
proof -
  have us: "chan_usable (demo_platform 0x10000 0x20000) 0 (word_of_int 0) (demo_state 0x10000 0x20000) (demo_mchan 0x10000 0x20000)"
    using demo_usable(1) by simp
  from tx_run [OF us demo_laid_out(1) _ _ _ demo_owns(1) demo_local(3), of 5] obtain b where
    b: "0x10068 + b * 64 \<le> 0x100A8" "0x100A8 < 0x10068 + (b + 1) * 64" and
    run: "\<exists>m'. ipc_shm_tx (demo_platform 0x10000 0x20000) 0 0 0x100A8 5 (demo_state 0x10000 0x20000)
          = Some (0, (demo_state 0x10000 0x20000)\<lparr>st_mem := m', st_env := \<lparr>dw_notified = 1, dw_received = []\<rparr>\<rparr>) \<and>
        tx_bds m' (demo_q 0x10008 0x20008) = [\<lparr>bd_pool_id = 0, bd_buf_id = of_nat b, bd_data_size = 5\<rparr>] \<and>
        bd_queue_ready (demo_q 0x10008 0x20008) m' \<and> same_except (region 0x10008 48) demo_shm m'"
    by (auto simp: demo_tx_rx)
  from b have "b = 1" by simp
  with run show ?thesis by simp
qed

end
