(* ===== verification/Shm_Props.thy ===== *)
theory Shm_Props
  imports Shm_Demo
begin

text \<open>
  The properties of buffer acquisition, transmission and release.
\<close>

section \<open>Acquisition\<close>

text \<open>
  C12. Buffer acquisition refines a first-fit search. On a usable channel with a non-zero size
  request, \<open>ipc_shm_acquire_buf\<close> always returns: if no pool has a large enough buffer with a free
  descriptor the result is NULL and nothing changes; otherwise it takes exactly the oldest free
  descriptor of the first such pool and returns that buffer's address, or NULL if the descriptor
  points outside the local shared memory.
\<close>

theorem acquire_buf_refines:
  assumes us: "chan_usable P i c st mc" and n: "n \<noteq> 0"
    and l: "os_get_local_shm P i (st_env st) = Some local" and p: "priv_at i st = Some pv"
  shows "case first_fit mc n (st_mem st) of
           None \<Rightarrow> ipc_shm_acquire_buf P i c n st = Some (0, st)
         | Some k \<Rightarrow>
             let pool = mc_pools mc ! k; q = pl_bd_queue pool; bd = hd (rx_bds (st_mem st) q);
                 a = pl_local_pool_addr pool + ucast (ucast (bd_buf_id bd) * pl_buf_size pool)
             in k < unat (mc_num_pools mc) \<and> n \<le> pl_buf_size pool \<and>
                (\<forall>j < k. pl_buf_size (mc_pools mc ! j) < n \<or> rx_bds (st_mem st) (pl_bd_queue (mc_pools mc ! j)) = []) \<and>
                (\<exists>m'. ipc_shm_acquire_buf P i c n st =
                        Some (if local \<le> a \<and> a + ucast (pl_buf_size pool) \<le> local + ucast (pv_shm_size pv) then a else 0,
                              st\<lparr>st_mem := m'\<rparr>) \<and>
                      rx_bds m' q = tl (rx_bds (st_mem st) q))"
  using acquire_run [OF assms] by (auto simp: Let_def split: option.splits)

theorem acquire_buf_refines_witness:
  "\<exists>m'. ipc_shm_acquire_buf (demo_platform 0x10000 0x20000) 0 0 0x20 (demo_state 0x10000 0x20000)
          = Some (0x10068, (demo_state 0x10000 0x20000)\<lparr>st_mem := m'\<rparr>) \<and>
        rx_bds m' (demo_q 0x10038 0x20038) = [demo_bd 1, demo_bd 2]"
  using acquire_buf_refines [OF demo_usable(1) _ demo_local(1) demo_state_sel(3), of "0x20"]
  by (simp add: demo_first_fit demo_tx_rx) (simp add: demo_bd_def)



section \<open>Transmission and release\<close>

text \<open>
  C13. Transmission refines appending one descriptor. On a usable channel whose pools do not overlap,
  \<open>ipc_shm_tx\<close> with a non-NULL buffer and non-zero size always returns. If the address lies in no
  pool it returns \<open>-EINVAL\<close> and changes nothing. Otherwise it identifies the one pool and the one
  buffer the address lies in; with room in the channel queue it appends exactly the descriptor of
  that buffer with the given size, notifies the remote side once and returns 0; without room it
  returns \<open>-ENOMEM\<close>, changes nothing and notifies nobody.
\<close>

theorem tx_refines:
  assumes us: "chan_usable P i (word_of_int c) st mc" and lay: "pools_laid_out IPC_BUFFER_FROM_LOCAL mc"
    and buf: "buf \<noteq> 0" "len \<noteq> 0" and nt: "hw_irq_notify P i (st_env st) = Some w"
  shows "if \<exists>k < unat (mc_num_pools mc). owns IPC_BUFFER_FROM_LOCAL (mc_pools mc ! k) buf
         then \<exists>k b. k < unat (mc_num_pools mc) \<and> b < unat (pl_num_bufs (mc_pools mc ! k)) \<and>
                unat (pl_local_pool_addr (mc_pools mc ! k)) + b * unat (pl_buf_size (mc_pools mc ! k)) \<le> unat buf \<and>
                unat buf < unat (pl_local_pool_addr (mc_pools mc ! k)) + (b + 1) * unat (pl_buf_size (mc_pools mc ! k)) \<and>
                (if length (tx_bds (st_mem st) (mc_bd_queue mc)) + 1 < unat (elem_num (mc_bd_queue mc))
                 then \<exists>m'. ipc_shm_tx P i c buf len st = Some (0, st\<lparr>st_mem := m', st_env := w\<rparr>) \<and>
                        tx_bds m' (mc_bd_queue mc) = tx_bds (st_mem st) (mc_bd_queue mc) @
                          [\<lparr>bd_pool_id = of_nat k, bd_buf_id = of_nat b, bd_data_size = len\<rparr>]
                 else ipc_shm_tx P i c buf len st = Some (- ENOMEM, st))
         else ipc_shm_tx P i c buf len st = Some (- EINVAL, st)"
proof (cases "\<exists>k < unat (mc_num_pools mc). owns IPC_BUFFER_FROM_LOCAL (mc_pools mc ! k) buf")
  case True
  then obtain k where k: "k < unat (mc_num_pools mc)" "owns IPC_BUFFER_FROM_LOCAL (mc_pools mc ! k) buf" by blast
  from tx_run [OF us lay buf k nt] obtain b where b: "b < unat (pl_num_bufs (mc_pools mc ! k))"
      "unat (pl_local_pool_addr (mc_pools mc ! k)) + b * unat (pl_buf_size (mc_pools mc ! k)) \<le> unat buf"
      "unat buf < unat (pl_local_pool_addr (mc_pools mc ! k)) + (b + 1) * unat (pl_buf_size (mc_pools mc ! k))"
    and run: "if length (tx_bds (st_mem st) (mc_bd_queue mc)) + 1 < unat (elem_num (mc_bd_queue mc))
            then \<exists>m'. ipc_shm_tx P i c buf len st = Some (0, st\<lparr>st_mem := m', st_env := w\<rparr>) \<and>
                   tx_bds m' (mc_bd_queue mc) = tx_bds (st_mem st) (mc_bd_queue mc) @
                     [\<lparr>bd_pool_id = of_nat k, bd_buf_id = of_nat b, bd_data_size = len\<rparr>] \<and>
                   bd_queue_ready (mc_bd_queue mc) m' \<and>
                   same_except (region (push_ring (mc_bd_queue mc)) (ring_bytes (mc_bd_queue mc))) (st_mem st) m'
            else ipc_shm_tx P i c buf len st = Some (- ENOMEM, st)" by blast
  show ?thesis unfolding if_P [OF True]
    by (rule exI [of _ k], rule exI [of _ b], intro conjI k(1) b) (use run in \<open>auto split: if_splits\<close>)
next
  case False
  with find_pool_none [OF lay] have "find_pool_for_buf mc buf IPC_BUFFER_FROM_LOCAL = Some (- EINVAL)" by blast
  with us buf mchan_integrity_ready show ?thesis
    unfolding if_not_P [OF False] by (simp add: ipc_shm_tx_def chan_usable_def)
qed

theorem tx_refines_witness:
  "\<exists>m'. ipc_shm_tx (demo_platform 0x10000 0x20000) 0 0 0x100A8 5 (demo_state 0x10000 0x20000)
          = Some (0, (demo_state 0x10000 0x20000)\<lparr>st_mem := m', st_env := \<lparr>dw_notified = 1, dw_received = []\<rparr>\<rparr>) \<and>
        tx_bds m' (demo_q 0x10008 0x20008) = [\<lparr>bd_pool_id = 0, bd_buf_id = 1, bd_data_size = 5\<rparr>]"
proof -
  have us: "chan_usable (demo_platform 0x10000 0x20000) 0 (word_of_int 0) (demo_state 0x10000 0x20000) (demo_mchan 0x10000 0x20000)"
    using demo_usable(1) by simp
  have "\<exists>k<unat (mc_num_pools (demo_mchan 0x10000 0x20000)). owns IPC_BUFFER_FROM_LOCAL (mc_pools (demo_mchan 0x10000 0x20000) ! k) 0x100A8"
    using demo_owns(1) by auto
  with tx_refines [OF us demo_laid_out(1) _ _ demo_local(3), of "0x100A8" 5] obtain k b where
    kb: "k = 0" "0x10068 + b * 64 \<le> 0x100A8" "0x100A8 < 0x10068 + (b + 1) * 64" and
    run: "\<exists>m'. ipc_shm_tx (demo_platform 0x10000 0x20000) 0 0 0x100A8 5 (demo_state 0x10000 0x20000)
          = Some (0, (demo_state 0x10000 0x20000)\<lparr>st_mem := m', st_env := \<lparr>dw_notified = 1, dw_received = []\<rparr>\<rparr>) \<and>
        tx_bds m' (demo_q 0x10008 0x20008) = [\<lparr>bd_pool_id = of_nat k, bd_buf_id = of_nat b, bd_data_size = 5\<rparr>]"
    by (auto simp: demo_tx_rx)
  from kb(2,3) have "b = 1" by simp
  with kb run show ?thesis by simp
qed

text \<open>
  C14. Release refines returning one descriptor. On an initialised managed channel whose pools do not
  overlap, \<open>ipc_shm_release_buf\<close> with a non-NULL buffer always returns. If the address lies in no
  remote pool it returns \<open>-EINVAL\<close> and changes nothing. Otherwise it appends the descriptor of
  exactly the buffer the address lies in to the release ring of exactly the pool that owns it, so
  that the remote side can acquire it again; with that ring full (more releases than buffers) it
  returns \<open>-ENOMEM\<close> and changes nothing.
\<close>

theorem release_refines:
  assumes us: "ipc_instance_is_free i st = Some IPC_SHM_INSTANCE_USED" and gm: "get_managed_chan i c st = Some (Some mc)"
    and rdy: "mchan_ready mc (st_mem st)" and lay: "pools_laid_out IPC_BUFFER_FROM_REMOTE mc" and buf: "buf \<noteq> 0"
  shows "if \<exists>k < unat (mc_num_pools mc). owns IPC_BUFFER_FROM_REMOTE (mc_pools mc ! k) buf
         then \<exists>k b. k < unat (mc_num_pools mc) \<and> b < unat (pl_num_bufs (mc_pools mc ! k)) \<and>
                unat (pl_remote_pool_addr (mc_pools mc ! k)) + b * unat (pl_buf_size (mc_pools mc ! k)) \<le> unat buf \<and>
                unat buf < unat (pl_remote_pool_addr (mc_pools mc ! k)) + (b + 1) * unat (pl_buf_size (mc_pools mc ! k)) \<and>
                (let q = pl_bd_queue (mc_pools mc ! k) in
                 if length (tx_bds (st_mem st) q) + 1 < unat (elem_num q)
                 then \<exists>m'. ipc_shm_release_buf i c buf st = Some (0, st\<lparr>st_mem := m'\<rparr>) \<and>
                        tx_bds m' q = tx_bds (st_mem st) q @ [\<lparr>bd_pool_id = of_nat k, bd_buf_id = of_nat b, bd_data_size = 0\<rparr>]
                 else ipc_shm_release_buf i c buf st = Some (- ENOMEM, st))
         else ipc_shm_release_buf i c buf st = Some (- EINVAL, st)"
proof (cases "\<exists>k < unat (mc_num_pools mc). owns IPC_BUFFER_FROM_REMOTE (mc_pools mc ! k) buf")
  case True
  then obtain k where k: "k < unat (mc_num_pools mc)" "owns IPC_BUFFER_FROM_REMOTE (mc_pools mc ! k) buf" by blast
  from release_run [OF us gm rdy lay buf k, unfolded Let_def] obtain b where b: "b < unat (pl_num_bufs (mc_pools mc ! k))"
      "unat (pl_remote_pool_addr (mc_pools mc ! k)) + b * unat (pl_buf_size (mc_pools mc ! k)) \<le> unat buf"
      "unat buf < unat (pl_remote_pool_addr (mc_pools mc ! k)) + (b + 1) * unat (pl_buf_size (mc_pools mc ! k))"
    and run: "if length (tx_bds (st_mem st) (pl_bd_queue (mc_pools mc ! k))) + 1 < unat (elem_num (pl_bd_queue (mc_pools mc ! k)))
            then \<exists>m'. ipc_shm_release_buf i c buf st = Some (0, st\<lparr>st_mem := m'\<rparr>) \<and>
                   tx_bds m' (pl_bd_queue (mc_pools mc ! k)) = tx_bds (st_mem st) (pl_bd_queue (mc_pools mc ! k)) @
                     [\<lparr>bd_pool_id = of_nat k, bd_buf_id = of_nat b, bd_data_size = 0\<rparr>] \<and>
                   bd_queue_ready (pl_bd_queue (mc_pools mc ! k)) m' \<and>
                   same_except (region (push_ring (pl_bd_queue (mc_pools mc ! k))) (ring_bytes (pl_bd_queue (mc_pools mc ! k)))) (st_mem st) m'
            else ipc_shm_release_buf i c buf st = Some (- ENOMEM, st)" by blast
  show ?thesis unfolding if_P [OF True] Let_def
    by (rule exI [of _ k], rule exI [of _ b], intro conjI k(1) b) (use run in \<open>auto split: if_splits\<close>)
next
  case False
  with find_pool_none [OF lay] have "find_pool_for_buf mc buf IPC_BUFFER_FROM_REMOTE = Some (- EINVAL)" by blast
  with us gm buf mchan_integrity_ready [OF rdy] show ?thesis
    unfolding if_not_P [OF False] by (simp add: ipc_shm_release_buf_def)
qed

theorem release_refines_witness:
  "ipc_shm_release_buf 0 0 0x200A8 (demo_state 0x10000 0x20000) = Some (- ENOMEM, demo_state 0x10000 0x20000) \<and>
   ipc_shm_release_buf 0 0 0x1234 (demo_state 0x10000 0x20000) = Some (- EINVAL, demo_state 0x10000 0x20000)"
proof -
  have us: "ipc_instance_is_free 0 (demo_state 0x10000 0x20000) = Some IPC_SHM_INSTANCE_USED"
    and gm: "get_managed_chan 0 0 (demo_state 0x10000 0x20000) = Some (Some (demo_mchan 0x10000 0x20000))"
    and rdy: "mchan_ready (demo_mchan 0x10000 0x20000) (st_mem (demo_state 0x10000 0x20000))"
    using demo_usable(1) remote_ready_used by (auto simp: chan_usable_def)
  have "\<exists>k<unat (mc_num_pools (demo_mchan 0x10000 0x20000)). owns IPC_BUFFER_FROM_REMOTE (mc_pools (demo_mchan 0x10000 0x20000) ! k) 0x200A8"
    using demo_owns(2) by auto
  with release_refines [OF us gm rdy demo_laid_out(2), of "0x200A8"]
  have "ipc_shm_release_buf 0 0 0x200A8 (demo_state 0x10000 0x20000) = Some (- ENOMEM, demo_state 0x10000 0x20000)"
    by (auto simp: demo_tx_rx)
  moreover have "\<not> (\<exists>k<unat (mc_num_pools (demo_mchan 0x10000 0x20000)). owns IPC_BUFFER_FROM_REMOTE (mc_pools (demo_mchan 0x10000 0x20000) ! k) 0x1234)"
    by (simp add: owns_def pool_base_def pool_bytes_def)
  with release_refines [OF us gm rdy demo_laid_out(2), of "0x1234"]
  have "ipc_shm_release_buf 0 0 0x1234 (demo_state 0x10000 0x20000) = Some (- EINVAL, demo_state 0x10000 0x20000)" by simp
  ultimately show ?thesis by simp
qed

end
