(* ===== verification/Shm_Rx.thy ===== *)
theory Shm_Rx
  imports Shm_Demo
begin

text \<open>
  The receive path: how much work one call does, that the fair loop ends, and what the application's
  callbacks are given. The application's callbacks are arbitrary state transformers here.
\<close>

section \<open>Work done on one channel\<close>

lemma mchan_rx_work:
  "mchan_rx_loop P i c n work st = Some (w, st') \<Longrightarrow> unat work + n < 2 ^ 32 \<Longrightarrow>
   unat work \<le> unat w \<and> unat w \<le> unat work + n"
proof (induction n arbitrary: work st)
  case (Suc n)
  have suc: "unat (work + 1) = unat work + 1" using Suc.prems(2) by (simp add: unat_word_ariths)
  from Suc.prems(1) consider "w = work" | st2 where "mchan_rx_loop P i c n (work + 1) st2 = Some (w, st')"
    by (auto simp: Let_def split: Option.bind_splits if_splits)
  then show ?case
  proof cases
    case 2
    from Suc.IH [OF this] Suc.prems(2) suc show ?thesis by simp
  qed simp
qed simp

lemma channel_rx_work:
  assumes "ipc_channel_rx P i c budget st = Some (w, st')"
  shows "w \<le> budget"
proof -
  from assms consider "w = 0" | "w = budget" | "mchan_rx_loop P i c (unat budget) 0 st = Some (w, st')"
    by (auto simp: ipc_channel_rx_def split: Option.bind_splits if_splits)
  then show ?thesis
  proof cases
    case 3
    from mchan_rx_work [OF this] unat_less [of budget] show ?thesis by (simp add: word_le_nat_alt)
  qed simp_all
qed

section \<open>The fair loop\<close>

text \<open>The state invariant under which every channel can be processed, whatever the callbacks do.\<close>

definition rx_closed :: "'w platform \<Rightarrow> u8 \<Rightarrow> u8 \<Rightarrow> ('w shm_state \<Rightarrow> bool) \<Rightarrow> bool" where
  "rx_closed P i n I \<longleftrightarrow> (\<forall>st c b. I st \<longrightarrow> c < unat n \<longrightarrow>
     (\<exists>w st'. ipc_channel_rx P i (of_nat c) b st = Some (w, st') \<and> I st'))"

lemma rx_round_total:
  assumes "rx_closed P i n I" and "I st" and "\<forall>c \<in> set cs. c < unat n"
    and "unat work + length cs * unat b < 2 ^ 32" and "b \<noteq> 0"
  shows "\<exists>w mw st'. rx_round P i b cs work more_work st = Some (w, mw, st') \<and> I st' \<and>
           unat work \<le> unat w \<and> unat w \<le> unat work + length cs * unat b \<and>
           (mw \<and> \<not> more_work \<longrightarrow> unat work + unat b \<le> unat w)"
  using assms
proof (induction cs arbitrary: work more_work st)
  case (Cons c cs)
  from Cons.prems(1-3) obtain w1 st1 where
    rx: "ipc_channel_rx P i (of_nat c) b st = Some (w1, st1)" and I1: "I st1"
    unfolding rx_closed_def by (meson list.set_intros(1))
  have w1: "unat w1 \<le> unat b" using channel_rx_work [OF rx] by (simp add: word_le_nat_alt)
  have s: "unat (work + w1) = unat work + unat w1" using w1 Cons.prems(4) by (simp add: unat_word_ariths)
  have "\<exists>w mw st'. rx_round P i b cs (work + w1) (more_work \<or> w1 = b) st1 = Some (w, mw, st') \<and> I st' \<and>
           unat (work + w1) \<le> unat w \<and> unat w \<le> unat (work + w1) + length cs * unat b \<and>
           (mw \<and> \<not> (more_work \<or> w1 = b) \<longrightarrow> unat (work + w1) + unat b \<le> unat w)"
    using Cons.prems(1,3,4,5) I1 w1 s by (intro Cons.IH) auto
  then show ?case using rx w1 s by (auto simp: algebra_simps)
qed simp

lemma chan_share_bound:
  assumes "n \<noteq> 0" "work < budget"
  shows "\<exists>b. chan_share budget work n = Some b \<and> b \<noteq> 0 \<and>
           (unat n * unat b \<le> unat budget - unat work \<or> b = 1)"
proof -
  let ?d = "(budget - work) div ucast n"
  have "unat ?d = (unat budget - unat work) div unat n"
    using assms(2) by (simp add: unat_div unat_sub unat_ucast_up order_less_imp_le)
  then have "unat n * unat ?d \<le> unat budget - unat work" by simp
  with assms(1) show ?thesis by (auto simp: chan_share_def)
qed

text \<open>
  Every round either exhausts the budget, or some channel used its whole share, which is at least
  one message, so the loop ends; a round may overrun the budget only when the shares are single
  messages.
\<close>

lemma rx_loop_total:
  assumes cl: "rx_closed P i n I" and n: "n \<noteq> 0" and small: "unat budget + unat n < 2 ^ 32"
  shows "I st \<Longrightarrow> unat work < unat budget + unat n \<Longrightarrow>
    \<exists>w st'. rx_loop P i n budget work more_work st = Some (w, st') \<and> I st' \<and> unat w < unat budget + unat n \<and>
            unat work \<le> unat w"
proof (induction "unat budget - unat work" arbitrary: work more_work st rule: less_induct)
  case less
  show ?case
  proof (cases "work < budget \<and> more_work")
    case False
    then show ?thesis using less.prems by (auto simp: rx_loop.simps)
  next
    case True
    then have lt: "unat work < unat budget" by (simp add: word_less_nat_alt)
    from chan_share_bound [OF n] True obtain b where b: "chan_share budget work n = Some b" "b \<noteq> 0"
      and sh: "unat n * unat b \<le> unat budget - unat work \<or> b = 1" by blast
    have tot: "unat work + unat n * unat b < unat budget + unat n" using sh lt n unat_gt_0 [of n] by auto
    have "\<exists>w mw st'. rx_round P i b [0..<unat n] work False st = Some (w, mw, st') \<and> I st' \<and>
           unat work \<le> unat w \<and> unat w \<le> unat work + length [0..<unat n] * unat b \<and>
           (mw \<and> \<not> False \<longrightarrow> unat work + unat b \<le> unat w)"
      using cl less.prems(1) tot small b(2) by (intro rx_round_total) auto
    then obtain w mw st1 where rd: "rx_round P i b [0..<unat n] work False st = Some (w, mw, st1)" and I1: "I st1"
      and w: "unat work \<le> unat w" "unat w \<le> unat work + unat n * unat b" and mw: "mw \<Longrightarrow> unat work + unat b \<le> unat w"
      by auto
    have step: "rx_loop P i n budget work more_work st = rx_loop P i n budget w mw st1"
      using True b(1) rd by (simp add: rx_loop.simps [of P i n budget work])
    have wn: "unat w < unat budget + unat n" using w tot by simp
    show ?thesis
    proof (cases "mw \<and> w < budget")
      case True
      then have "unat work < unat w" using mw b(2) unat_gt_0 [of b] by fastforce
      then have "unat budget - unat w < unat budget - unat work" using lt by simp
      from less.hyps [OF this I1 wn, of mw] step w(1) show ?thesis by auto
    next
      case False
      then show ?thesis using step I1 wn w by (auto simp: rx_loop.simps [of P i n budget w])
    qed
  qed
qed

section \<open>One message\<close>

definition bd_address :: "ipc_shm_pool \<Rightarrow> ipc_shm_bd \<Rightarrow> u64" where
  "bd_address pool bd = pl_remote_pool_addr pool + ucast (ucast (bd_buf_id bd) * pl_buf_size pool)"

definition in_remote_shm :: "u64 \<Rightarrow> u32 \<Rightarrow> u64 \<Rightarrow> u32 \<Rightarrow> bool" where
  "in_remote_shm remote shm_size a n \<longleftrightarrow> remote \<le> a \<and> a + ucast n \<le> remote + ucast shm_size"

text \<open>What the loop does with a pending descriptor, in terms of the queue's list of descriptors.\<close>

lemma mchan_rx_step:
  assumes ch: "get_channel_priv i c st = Some ch" and pv: "priv_at i st = Some pv"
    and rm: "os_get_remote_shm P i (st_env st) = Some remote"
    and q: "bd_queue_ready (mc_bd_queue (ch_mng ch)) (st_mem st)"
    and bds: "rx_bds (st_mem st) (mc_bd_queue (ch_mng ch)) = bd # bds"
    and pool: "pool_of_bd (mc_pools (ch_mng ch)) bd = Some pool" and cb: "mc_rx_cb (ch_mng ch) \<noteq> 0"
  shows "\<exists>m'. rx_bds m' (mc_bd_queue (ch_mng ch)) = bds \<and> bd_queue_ready (mc_bd_queue (ch_mng ch)) m' \<and>
           same_except (pop_area (mc_bd_queue (ch_mng ch))) (st_mem st) m' \<and>
           mchan_rx_loop P i c (Suc n) work st =
             do { st2 \<leftarrow> (if in_remote_shm remote (pv_shm_size pv) (bd_address pool bd) (pl_buf_size pool)
                         then app_rx_cb P (mc_rx_cb (ch_mng ch)) (mc_cb_arg (ch_mng ch)) i (ch_id ch)
                                (bd_address pool bd) (bd_data_size bd) (st\<lparr>st_mem := m'\<rparr>)
                         else Some (st\<lparr>st_mem := m'\<rparr>));
                  mchan_rx_loop P i c n (work + 1) st2 }"
proof -
  from bd_pop_ok [OF q bds] obtain bs m' where
    pop: "ipc_queue_pop (Some (mc_bd_queue (ch_mng ch))) (Some (replicate sizeof_ipc_shm_bd 0)) (st_mem st) = Some (0, Some bs, m')"
    and e: "bytes_bd bs = bd" "rx_bds m' (mc_bd_queue (ch_mng ch)) = bds" "bd_queue_ready (mc_bd_queue (ch_mng ch)) m'"
      "same_except (pop_area (mc_bd_queue (ch_mng ch))) (st_mem st) m'" by blast
  have "priv_at i (st\<lparr>st_mem := m'\<rparr>) = Some pv" using pv by (simp add: priv_at_def)
  with ch pop e pool cb rm show ?thesis
    by (intro exI [of _ m']) (simp add: in_remote_shm_def bd_address_def Let_def)
qed

lemma mchan_rx_idle:
  assumes "get_channel_priv i c st = Some ch" and "bd_queue_ready (mc_bd_queue (ch_mng ch)) (st_mem st)"
    and "rx_bds (st_mem st) (mc_bd_queue (ch_mng ch)) = []"
  shows "mchan_rx_loop P i c n work st = Some (work, st)"
  using assms bd_pop_empty [OF assms(2,3)] by (cases n) (simp_all add: Let_def)

section \<open>Callbacks that do not re-enter the driver\<close>

text \<open>
  An application that only records what it received (and processes it later) changes nothing but its
  own state, part of the platform's; \<open>f\<close> is that change.
\<close>

definition passive_rx :: "'w platform \<Rightarrow> (u64 \<Rightarrow> u64 \<Rightarrow> u8 \<Rightarrow> u8 \<Rightarrow> u64 \<Rightarrow> u32 \<Rightarrow> 'w \<Rightarrow> 'w) \<Rightarrow> bool" where
  "passive_rx P f \<longleftrightarrow> (\<forall>cb arg i c buf n st. app_rx_cb P cb arg i c buf n st = Some (st\<lparr>st_env := f cb arg i c buf n (st_env st)\<rparr>)) \<and>
     (\<forall>j cb arg i c buf n w. os_get_remote_shm P j (f cb arg i c buf n w) = os_get_remote_shm P j w)"

definition deliver :: "(u64 \<Rightarrow> u64 \<Rightarrow> u8 \<Rightarrow> u8 \<Rightarrow> u64 \<Rightarrow> u32 \<Rightarrow> 'w \<Rightarrow> 'w) \<Rightarrow> u8 \<Rightarrow> ipc_shm_channel \<Rightarrow> u64 \<Rightarrow> u32 \<Rightarrow>
    ipc_shm_bd \<Rightarrow> 'w \<Rightarrow> 'w" where
  "deliver f i ch remote shm_size bd w =
     (let pool = mc_pools (ch_mng ch) ! nat (sint (bd_pool_id bd)) in
      if in_remote_shm remote shm_size (bd_address pool bd) (pl_buf_size pool)
      then f (mc_rx_cb (ch_mng ch)) (mc_cb_arg (ch_mng ch)) i (ch_id ch) (bd_address pool bd) (bd_data_size bd) w
      else w)"

lemma pool_of_bd_Some:
  "pool_of_bd pools bd = Some pool \<Longrightarrow> pool = pools ! nat (sint (bd_pool_id bd))"
  by (auto simp: pool_of_bd_def nth_opt_Some_iff split: if_splits)

lemma get_channel_priv_mem [simp]:
  "get_channel_priv i c (st\<lparr>st_mem := m\<rparr>) = get_channel_priv i c st" "priv_at i (st\<lparr>st_mem := m\<rparr>) = priv_at i st"
  "get_channel_priv i c (st\<lparr>st_env := w\<rparr>) = get_channel_priv i c st" "priv_at i (st\<lparr>st_env := w\<rparr>) = priv_at i st"
  by (simp_all add: get_channel_priv_def priv_at_def)

lemma mchan_rx_delivers:
  assumes pas: "passive_rx P f"
  shows "get_channel_priv i c st = Some ch \<Longrightarrow> priv_at i st = Some pv \<Longrightarrow>
    os_get_remote_shm P i (st_env st) = Some remote \<Longrightarrow> bd_queue_ready (mc_bd_queue (ch_mng ch)) (st_mem st) \<Longrightarrow>
    rx_bds (st_mem st) (mc_bd_queue (ch_mng ch)) = bds \<Longrightarrow>
    \<forall>bd \<in> set bds. pool_of_bd (mc_pools (ch_mng ch)) bd \<noteq> None \<Longrightarrow> mc_rx_cb (ch_mng ch) \<noteq> 0 \<Longrightarrow>
    \<exists>m'. mchan_rx_loop P i c n work st =
           Some (work + of_nat (min n (length bds)),
                 st\<lparr>st_mem := m', st_env := fold (deliver f i ch remote (pv_shm_size pv)) (take n bds) (st_env st)\<rparr>) \<and>
         rx_bds m' (mc_bd_queue (ch_mng ch)) = drop n bds \<and> bd_queue_ready (mc_bd_queue (ch_mng ch)) m'"
proof (induction n arbitrary: work st bds)
  case 0
  then show ?case by (intro exI [of _ "st_mem st"]) simp
next
  case (Suc n)
  let ?q = "mc_bd_queue (ch_mng ch)"
  show ?case
  proof (cases bds)
    case Nil
    with Suc.prems have "rx_bds (st_mem st) ?q = []" by simp
    from mchan_rx_idle [OF Suc.prems(1,4) this] Nil Suc.prems(4,5) show ?thesis
      by (intro exI [of _ "st_mem st"]) (simp del: mchan_rx_loop.simps)
  next
    case (Cons bd rest)
    with Suc.prems(6) obtain pool where pool: "pool_of_bd (mc_pools (ch_mng ch)) bd = Some pool" by auto
    have "rx_bds (st_mem st) ?q = bd # rest" using Suc.prems(5) Cons by simp
    from mchan_rx_step [OF Suc.prems(1-4) this pool Suc.prems(7), of n work] obtain m1 where
      m1: "rx_bds m1 ?q = rest" "bd_queue_ready ?q m1"
      and run: "mchan_rx_loop P i c (Suc n) work st =
             do { st2 \<leftarrow> (if in_remote_shm remote (pv_shm_size pv) (bd_address pool bd) (pl_buf_size pool)
                         then app_rx_cb P (mc_rx_cb (ch_mng ch)) (mc_cb_arg (ch_mng ch)) i (ch_id ch)
                                (bd_address pool bd) (bd_data_size bd) (st\<lparr>st_mem := m1\<rparr>)
                         else Some (st\<lparr>st_mem := m1\<rparr>));
                  mchan_rx_loop P i c n (work + 1) st2 }" by blast
    let ?w = "deliver f i ch remote (pv_shm_size pv) bd (st_env st)"
    let ?st2 = "st\<lparr>st_mem := m1, st_env := ?w\<rparr>"
    have "mchan_rx_loop P i c (Suc n) work st = mchan_rx_loop P i c n (work + 1) ?st2"
      using run pas pool_of_bd_Some [OF pool] by (simp add: passive_rx_def deliver_def Let_def del: mchan_rx_loop.simps)
    moreover have "os_get_remote_shm P i ?w = Some remote"
      using Suc.prems(3) pas by (simp add: passive_rx_def deliver_def Let_def)
    moreover have "\<exists>m'. mchan_rx_loop P i c n (work + 1) ?st2 =
           Some (work + 1 + of_nat (min n (length rest)),
                 ?st2\<lparr>st_mem := m', st_env := fold (deliver f i ch remote (pv_shm_size pv)) (take n rest) (st_env ?st2)\<rparr>) \<and>
         rx_bds m' ?q = drop n rest \<and> bd_queue_ready ?q m'"
      using Suc.prems Cons m1 calculation(2) by (intro Suc.IH) simp_all
    ultimately show ?thesis using Cons by (auto simp: algebra_simps simp del: mchan_rx_loop.simps)
  qed
qed

section \<open>Properties\<close>


definition demo_record :: "u64 \<Rightarrow> u64 \<Rightarrow> u8 \<Rightarrow> u8 \<Rightarrow> u64 \<Rightarrow> u32 \<Rightarrow> demo_world \<Rightarrow> demo_world" where
  "demo_record cb arg i c buf n w = w\<lparr>dw_received := dw_received w @ [(c, buf, n)]\<rparr>"

lemma demo_passive: "passive_rx (demo_platform l r) demo_record"
  by (simp add: passive_rx_def demo_platform_def demo_record_def)

lemma demo_get_channel: "get_channel_priv 0 0 ((demo_state l r)\<lparr>st_mem := m\<rparr>) = Some (no_chan\<lparr>ch_mng := demo_mchan l r\<rparr>)"
  by (simp add: get_channel_priv_def)


text \<open>
  C16. The fair receive loop ends and is bounded. For any callbacks at all (they may send, acquire and
  release), if every channel of a used instance can be processed in every state that comes up, then
  \<open>ipc_shm_rx\<close> returns, and the work it reports is less than the budget plus the number of channels:
  the only overrun is the rest of a last round in which each channel was allowed one message.
\<close>

theorem shm_rx_ends:
  assumes used: "ipc_instance_is_free i st = Some IPC_SHM_INSTANCE_USED" and pv: "priv_at i st = Some pv"
    and n: "pv_num_channels pv \<noteq> 0" and cl: "rx_closed P i (pv_num_channels pv) I" and I: "I st"
    and b: "0 \<le> budget" "budget < 2 ^ 31"
  shows "\<exists>w st'. ipc_shm_rx P i budget st = Some (w, st') \<and> I st' \<and> uint w < budget + uint (pv_num_channels pv)"
proof -
  let ?n = "pv_num_channels pv"
  have bu: "uint (word_of_int budget :: u32) = budget"
    using b by (simp add: uint_word_of_int)
  then have "unat (word_of_int budget :: u32) = nat budget" by (simp add: unat_eq_nat_uint)
  moreover have "unat ?n < 2 ^ 8" "nat budget < 2 ^ 31" using unat_less [of ?n] b by simp_all
  ultimately have small: "unat (word_of_int budget :: u32) + unat ?n < 2 ^ 32" by simp
  have "0 < unat ?n" using n by (simp add: unat_gt_0)
  then have "unat (0 :: u32) < unat (word_of_int budget :: u32) + unat ?n" by simp
  from rx_loop_total [OF cl n small I this, of True] obtain w st' where
    "rx_loop P i ?n (word_of_int budget) 0 True st = Some (w, st')" "I st'"
    and w: "unat w < unat (word_of_int budget :: u32) + unat ?n" by blast
  from w have "int (unat w) < int (unat (word_of_int budget :: u32)) + int (unat ?n)" by linarith
  then have "uint w < budget + uint ?n" using bu by simp
  with \<open>I st'\<close> \<open>rx_loop P i ?n _ 0 True st = _\<close> used pv show ?thesis by (auto simp: ipc_shm_rx_def)
qed

lemma demo_used: "ipc_instance_is_free 0 (demo_state l 0x20000) = Some IPC_SHM_INSTANCE_USED" if "l = 0x10000"
  using demo_usable(1) remote_ready_used that by (auto simp: chan_usable_def)

theorem shm_rx_ends_witness:
  "\<exists>w st'. ipc_shm_rx (demo_platform 0x10000 0x20000) 0 128 (demo_state 0x10000 0x20000) = Some (w, st') \<and> uint w < 129"
proof -
  let ?P = "demo_platform 0x10000 0x20000" and ?st = "demo_state 0x10000 0x20000"
  let ?pv = "\<lparr>pv_shm_size = 0x1000, pv_num_channels = 1,
     pv_channels = no_chan\<lparr>ch_mng := demo_mchan 0x10000 0x20000\<rparr> # replicate 7 no_chan, pv_global = 0x10000\<rparr>"
  have ch: "get_channel_priv 0 0 ?st = Some (no_chan\<lparr>ch_mng := demo_mchan 0x10000 0x20000\<rparr>)" by (simp add: get_channel_priv_def)
  have "ipc_channel_rx ?P 0 0 b ?st = Some (0, ?st)" for b
    using mchan_rx_idle [OF ch, of ?P "unat b" 0] ch demo_queues(1) demo_tx_rx(2)
    by (simp add: ipc_channel_rx_def no_chan_def)
  then have "rx_closed ?P 0 1 (\<lambda>st. st = ?st)" by (auto simp: rx_closed_def)
  then show ?thesis
    using shm_rx_ends [of 0 ?st ?pv ?P "\<lambda>st. st = ?st" 128] demo_used by auto
qed

definition valid_rx_buffer :: "'w platform \<Rightarrow> u8 \<Rightarrow> u8 \<Rightarrow> u64 \<Rightarrow> 'w shm_state \<Rightarrow> bool" where
  "valid_rx_buffer P i c buf st =
     (case (os_get_remote_shm P i (st_env st), priv_at i st, get_channel_priv i c st) of
        (Some remote, Some pv, Some ch) \<Rightarrow>
          list_ex (\<lambda>pool. (\<exists>bd. buf = bd_address pool bd) \<and> in_remote_shm remote (pv_shm_size pv) buf (pl_buf_size pool))
            (mc_pools (ch_mng ch))
      | _ \<Rightarrow> False)"

definition guarded :: "u8 \<Rightarrow> 'w platform \<Rightarrow> 'w platform" where
  "guarded c P = P\<lparr>app_rx_cb := \<lambda>cb arg i cid buf n st.
     if valid_rx_buffer P i c buf st then app_rx_cb P cb arg i cid buf n st else None\<rparr>"

lemma guarded_sel [simp]:
  "os_get_remote_shm (guarded c P) = os_get_remote_shm P" "app_umng_rx_cb (guarded c P) = app_umng_rx_cb P"
  by (simp_all add: guarded_def)

lemma pool_of_bd_in: "pool_of_bd pools bd = Some pool \<Longrightarrow> pool \<in> set pools"
  by (auto simp: pool_of_bd_def nth_opt_Some_iff split: if_splits)

lemma guarded_call:
  assumes "get_channel_priv i c st = Some ch" "priv_at i st = Some pv" "os_get_remote_shm P i (st_env st) = Some remote"
    and "pool_of_bd (mc_pools (ch_mng ch)) bd = Some pool"
    and "remote \<le> bd_address pool bd" "bd_address pool bd + ucast (pl_buf_size pool) \<le> remote + ucast (pv_shm_size pv)"
  shows "app_rx_cb (guarded c P) cb arg i cid (bd_address pool bd) n st = app_rx_cb P cb arg i cid (bd_address pool bd) n st"
  using assms pool_of_bd_in [OF assms(4)]
  by (auto simp: guarded_def valid_rx_buffer_def list_ex_iff in_remote_shm_def)

lemma guarded_loop: "mchan_rx_loop (guarded c P) i c n work st = mchan_rx_loop P i c n work st"
proof (induction n arbitrary: work st)
  case (Suc n)
  show ?case
    unfolding mchan_rx_loop.simps Let_def guarded_sel Suc.IH
    by (intro bind_option_cong refl)
      (auto intro!: bind_option_cong guarded_call [unfolded bd_address_def] split: if_splits, simp_all)
qed simp


text \<open>
  C35. The pool index of a received descriptor is not checked. If the oldest pending descriptor, which
  the remote side wrote, carries a pool index outside the channel's pool array, processing the
  channel accesses the array out of bounds.
\<close>

theorem rx_pool_id_unchecked:
  assumes ch: "get_channel_priv i c st = Some ch" and ty: "ch_type ch = IPC_SHM_MANAGED"
    and q: "bd_queue_ready (mc_bd_queue (ch_mng ch)) (st_mem st)"
    and bds: "rx_bds (st_mem st) (mc_bd_queue (ch_mng ch)) = bd # bds"
    and bad: "sint (bd_pool_id bd) < 0 \<or> int (length (mc_pools (ch_mng ch))) \<le> sint (bd_pool_id bd)" and b: "budget \<noteq> 0"
  shows "ipc_channel_rx P i c budget st = None"
proof -
  from bd_pop_ok [OF q bds] obtain bs m' where
    "ipc_queue_pop (Some (mc_bd_queue (ch_mng ch))) (Some (replicate sizeof_ipc_shm_bd 0)) (st_mem st) = Some (0, Some bs, m')"
    "bytes_bd bs = bd" by blast
  moreover have "pool_of_bd (mc_pools (ch_mng ch)) bd = None" using bad by (auto simp: pool_of_bd_def)
  moreover obtain k where "unat budget = Suc k" using b by (metis not0_implies_Suc unat_eq_zero)
  ultimately show ?thesis using ch ty by (simp add: ipc_channel_rx_def Let_def)
qed

theorem rx_pool_id_unchecked_witness:
  "\<exists>m'. ipc_queue_push (Some (demo_q 0x20008 0x10008))
          (Some (bd_bytes \<lparr>bd_pool_id = 4, bd_buf_id = 0, bd_data_size = 1\<rparr>)) demo_shm = Some (0, m') \<and>
        ipc_channel_rx (demo_platform 0x10000 0x20000) 0 0 1 ((demo_state 0x10000 0x20000)\<lparr>st_mem := m'\<rparr>) = None"
proof -
  let ?bd = "\<lparr>bd_pool_id = 4, bd_buf_id = 0, bd_data_size = 1\<rparr>" and ?q = "demo_q 0x10008 0x20008"
  have "bd_queue_ready (demo_q 0x20008 0x10008) demo_shm" "tx_bds demo_shm (demo_q 0x20008 0x10008) = []"
    using demo_queues(1) demo_tx_rx(2) by (simp_all add: demo_q_peer [of "0x20008"] bd_queue_ready_def tx_bds_def rx_bds_def)
  from bd_push_ok [OF this(1), of ?bd] this(2) obtain m' where
    m': "ipc_queue_push (Some (demo_q 0x20008 0x10008)) (Some (bd_bytes ?bd)) demo_shm = Some (0, m')"
      "tx_bds m' (demo_q 0x20008 0x10008) = [?bd]" "bd_queue_ready (demo_q 0x20008 0x10008) m'" by auto
  then have "rx_bds m' ?q = [?bd]" "bd_queue_ready ?q m'"
    by (simp_all add: demo_q_peer [of "0x20008"] bd_queue_ready_def tx_bds_def rx_bds_def)
  then show ?thesis
    using m'(1) rx_pool_id_unchecked [OF demo_get_channel, of "0x10000" "0x20000" m' ?bd "[]" 1 "demo_platform 0x10000 0x20000"]
    by (auto simp: no_chan_def)
qed

end
