(* ===== verification/Shm_Umng.thy ===== *)
theory Shm_Umng
  imports Shm_Rx
begin

text \<open>
  Unmanaged channels: the application owns the channel memory and the driver only keeps a transmit
  counter on each side and a copy of the other side's.
\<close>

section \<open>Initialised unmanaged channels\<close>

definition uchan_ready :: "ipc_shm_channel \<Rightarrow> memory \<Rightarrow> bool" where
  "uchan_ready ch m \<longleftrightarrow> ch_type ch = IPC_SHM_UNMANAGED \<and> local_mem ch \<noteq> 0 \<and> remote_mem ch \<noteq> 0 \<and>
     mapped m (local_mem ch) 16 \<and> mapped m (remote_mem ch) 16 \<and> apart (local_mem ch) 16 (remote_mem ch) 16 \<and>
     load_u32 m (umem_sentinel (local_mem ch)) = Some IPC_UCHAN_INIT_DONE \<and>
     load_u32 m (umem_sentinel (remote_mem ch)) = Some IPC_UCHAN_INIT_DONE"

definition tx_count :: "memory \<Rightarrow> u64 \<Rightarrow> u32" where
  "tx_count m a = the (load_u32 m (umem_tx_count a))"

definition seen_count :: "memory \<Rightarrow> u64 \<Rightarrow> u32" where
  "seen_count m a = the (load_u32 m (umem_remote_tx_count a))"

lemma umem_offsets:
  "umem_sentinel p = p + of_nat 0" "umem_tx_count p = p + of_nat 4" "umem_remote_tx_count p = p + of_nat 8"
  by (simp_all add: umem_sentinel_def umem_tx_count_def umem_remote_tx_count_def)

lemma load_counts:
  assumes "mapped m a 16"
  shows "load_u32 m (umem_tx_count a) = Some (tx_count m a)" "load_u32 m (umem_remote_tx_count a) = Some (seen_count m a)"
  using load_u32_ok [OF mapped_sub [OF assms, of 4 4]] load_u32_ok [OF mapped_sub [OF assms, of 8 4]]
  by (auto simp: tx_count_def seen_count_def umem_offsets)

lemma uchan_integrity: "uchan_ready ch m \<Longrightarrow> ipc_check_uchan_integrity ch m = Some 0"
  by (simp add: ipc_check_uchan_integrity_def uchan_ready_def)

text \<open>A store to one 4-byte field of the local control structure, at offset 4 or 8.\<close>

lemma umem_store:
  assumes u: "uchan_ready ch m" and k: "k = 4 \<or> k = 8"
  shows "\<exists>m'. store_u32 (local_mem ch + of_nat k) v m = Some m' \<and> uchan_ready ch m' \<and>
           same_except (region (local_mem ch) 16) m m' \<and>
           tx_count m' (remote_mem ch) = tx_count m (remote_mem ch) \<and>
           seen_count m' (remote_mem ch) = seen_count m (remote_mem ch) \<and>
           tx_count m' (local_mem ch) = (if k = 4 then v else tx_count m (local_mem ch)) \<and>
           seen_count m' (local_mem ch) = (if k = 8 then v else seen_count m (local_mem ch))"
proof -
  let ?l = "local_mem ch" and ?r = "remote_mem ch"
  from u have ml: "mapped m ?l 16" and ap: "apart ?l 16 ?r 16" by (simp_all add: uchan_ready_def)
  from k have le: "k + 4 \<le> 16" by auto
  obtain m' where st: "store_u32 (?l + of_nat k) v m = Some m'" using store_u32_ok [OF mapped_sub [OF ml le]] by blast
  have se: "same_except (region (?l + of_nat k) 4) m m'" by (rule store_u32_same_except [OF st])
  have other: "load_u32 m' (?r + of_nat j) = load_u32 m (?r + of_nat j)" if "j + 4 \<le> 16" for j
    by (rule load_u32_same_except [OF se]) (use other_ring_apart [OF apart_sym [OF ap] that le] in auto)
  have same: "load_u32 m' (?l + of_nat j) = load_u32 m (?l + of_nat j)" if "j + 4 \<le> k \<or> k + 4 \<le> j" "j + 4 \<le> 16" for j
    by (rule load_u32_same_except [OF se]) (use same_ring_apart [of j 4 k 4 ?l] that le in auto)
  have at: "load_u32 m' (?l + of_nat k) = Some v" by (rule load_store_u32 [OF st])
  have "same_except (region ?l 16) m m'" using se region_offset [OF le] by (rule same_except_mono)
  moreover have "uchan_ready ch m'"
    using u same [of 0] other [of 0] k by (auto simp: uchan_ready_def umem_offsets same_except_mapped [OF se])
  moreover have "tx_count m' ?r = tx_count m ?r" "seen_count m' ?r = seen_count m ?r"
    using other [of 4] other [of 8] by (simp_all add: tx_count_def seen_count_def umem_offsets)
  moreover have "tx_count m' ?l = (if k = 4 then v else tx_count m ?l)" "seen_count m' ?l = (if k = 8 then v else seen_count m ?l)"
    using k at same [of 4] same [of 8] by (auto simp: tx_count_def seen_count_def umem_offsets)
  ultimately show ?thesis using st by blast
qed

section \<open>Initialisation\<close>

lemma umem_put:
  assumes ml: "mapped m l 16" and ap: "apart l 16 r 16" and le: "k + 4 \<le> 16"
  shows "\<exists>m'. store_u32 (l + of_nat k) v m = Some m' \<and> load_u32 m' (l + of_nat k) = Some v \<and> mapped m' l 16 \<and>
           same_except (region l 16) m m' \<and>
           (\<forall>j. j + 4 \<le> 16 \<longrightarrow> load_u32 m' (r + of_nat j) = load_u32 m (r + of_nat j)) \<and>
           (\<forall>j. (j + 4 \<le> k \<or> k + 4 \<le> j) \<and> j + 4 \<le> 16 \<longrightarrow> load_u32 m' (l + of_nat j) = load_u32 m (l + of_nat j))"
proof -
  obtain m' where st: "store_u32 (l + of_nat k) v m = Some m'" using store_u32_ok [OF mapped_sub [OF ml le]] by blast
  have se: "same_except (region (l + of_nat k) 4) m m'" by (rule store_u32_same_except [OF st])
  have "load_u32 m' (r + of_nat j) = load_u32 m (r + of_nat j)" if "j + 4 \<le> 16" for j
    by (rule load_u32_same_except [OF se]) (use other_ring_apart [OF apart_sym [OF ap] that le] in auto)
  moreover have "load_u32 m' (l + of_nat j) = load_u32 m (l + of_nat j)" if "j + 4 \<le> k \<or> k + 4 \<le> j" "j + 4 \<le> 16" for j
    by (rule load_u32_same_except [OF se]) (use same_ring_apart [of j 4 k 4 l] that le in auto)
  moreover have "same_except (region l 16) m m'" using se region_offset [OF le] by (rule same_except_mono)
  ultimately show ?thesis using st load_store_u32 [OF st] ml same_except_mapped [OF se] by auto
qed

text \<open>The stores of initialisation: the sentinel, the two counters, and the sentinel again.\<close>

lemma umem_init_stores:
  assumes ml: "mapped m l 16" and ap: "apart l 16 r 16"
  shows "\<exists>m1 m2 m3 m4. store_u32 (umem_sentinel l) a m = Some m1 \<and> store_u32 (umem_tx_count l) b m1 = Some m2 \<and>
           store_u32 (umem_remote_tx_count l) c m2 = Some m3 \<and> store_u32 (umem_sentinel l) d m3 = Some m4 \<and>
           (\<forall>j. j + 4 \<le> 16 \<longrightarrow> load_u32 m1 (r + of_nat j) = load_u32 m (r + of_nat j) \<and>
                 load_u32 m2 (r + of_nat j) = load_u32 m (r + of_nat j)) \<and>
           load_u32 m4 (umem_sentinel l) = Some d \<and> load_u32 m4 (umem_tx_count l) = Some b \<and>
           load_u32 m4 (umem_remote_tx_count l) = Some c \<and> same_except (region l 16) m m4"
proof -
  from umem_put [OF ml ap, of 0 a] obtain m1 where m1: "store_u32 (l + of_nat 0) a m = Some m1" "mapped m1 l 16"
      "\<forall>j. j + 4 \<le> 16 \<longrightarrow> load_u32 m1 (r + of_nat j) = load_u32 m (r + of_nat j)" "same_except (region l 16) m m1" by auto
  from umem_put [OF m1(2) ap, of 4 b] obtain m2 where m2: "store_u32 (l + of_nat 4) b m1 = Some m2" "mapped m2 l 16"
      "load_u32 m2 (l + of_nat 4) = Some b" "same_except (region l 16) m1 m2"
      "\<forall>j. j + 4 \<le> 16 \<longrightarrow> load_u32 m2 (r + of_nat j) = load_u32 m1 (r + of_nat j)" by auto
  from umem_put [OF m2(2) ap, of 8 c] obtain m3 where m3: "store_u32 (l + of_nat 8) c m2 = Some m3" "mapped m3 l 16"
      "load_u32 m3 (l + of_nat 8) = Some c" "same_except (region l 16) m2 m3"
    and k3: "\<forall>j. (j + 4 \<le> 8 \<or> 8 + 4 \<le> j) \<and> j + 4 \<le> 16 \<longrightarrow> load_u32 m3 (l + of_nat j) = load_u32 m2 (l + of_nat j)"
    by auto
  from umem_put [OF m3(2) ap, of 0 d] obtain m4 where m4: "store_u32 (l + of_nat 0) d m3 = Some m4"
      "load_u32 m4 (l + of_nat 0) = Some d" "same_except (region l 16) m3 m4"
    and k4: "\<forall>j. (j + 4 \<le> 0 \<or> 0 + 4 \<le> j) \<and> j + 4 \<le> 16 \<longrightarrow> load_u32 m4 (l + of_nat j) = load_u32 m3 (l + of_nat j)"
    by auto
  have ks: "load_u32 m4 (l + of_nat 8) = Some c" "load_u32 m4 (l + of_nat 4) = Some b"
    using k3 [rule_format, of 4] k4 [rule_format, of 4] k4 [rule_format, of 8] m2(3) m3(3) by simp_all
  have "same_except (region l 16) m m4" using m1(4) m2(4) m3(4) m4(3) by (meson same_except_trans)
  then show ?thesis using m1 m2 m3 m4 ks unfolding umem_offsets by auto
qed

definition uchan_conf :: "u64 \<Rightarrow> u64 \<Rightarrow> ipc_shm_unmanaged_cfg \<Rightarrow> ipc_shm_channel \<Rightarrow> ipc_shm_channel" where
  "uchan_conf l r cfg ch = set_umem l r (ch\<lparr>ch_umng := \<lparr>uc_size = ucfg_size cfg, uc_rx_cb = ucfg_rx_cb cfg, uc_cb_arg = ucfg_cb_arg cfg\<rparr>\<rparr>)"

lemma uchan_conf_eq:
  "(\<lambda>ch. set_umem l r (ch\<lparr>ch_umng := \<lparr>uc_size = ucfg_size cfg, uc_rx_cb = ucfg_rx_cb cfg, uc_cb_arg = ucfg_cb_arg cfg\<rparr>\<rparr>)) = uchan_conf l r cfg"
  by (simp add: fun_eq_iff uchan_conf_def)

lemma upd_channel_total:
  "get_channel_priv i c st = Some ch \<Longrightarrow> \<exists>st'. upd_channel i c f st = Some st' \<and> st_mem st' = st_mem st"
  by (auto simp: upd_channel_def upd_priv_def get_channel_priv_def split: Option.bind_splits)

lemma unmanaged_init_run:
  assumes gc: "get_unmanaged_chan i c st = Some (Some ch)" and cb: "ucfg_rx_cb cfg \<noteq> 0" "ucfg_size cfg \<le> IPC_SHM_MAX_UMNG_SIZE"
    and ml: "mapped (st_mem st) l 16" and mr: "mapped (st_mem st) r 16" and ap: "apart l 16 r 16" and nz: "l \<noteq> 0" "r \<noteq> 0"
    and s: "load_u32 (st_mem st) (umem_sentinel r) = Some s" "s \<noteq> IPC_SHM_UCHAN_INIT_IN_PROGRESS"
  shows "\<exists>st1 m'. upd_channel i c (uchan_conf l r cfg) st = Some st1 \<and>
      unmanaged_channel_init i c l r cfg st = Some (0, st1\<lparr>st_mem := m'\<rparr>) \<and>
      load_u32 m' (umem_sentinel l) = Some IPC_UCHAN_INIT_DONE \<and>
      tx_count m' l = (if s = IPC_UCHAN_INIT_DONE then seen_count (st_mem st) r else 0) \<and>
      seen_count m' l = (if s = IPC_UCHAN_INIT_DONE then tx_count (st_mem st) r else 0) \<and>
      same_except (region l 16) (st_mem st) m'"
proof -
  from gc obtain ch' where "get_channel_priv i c st = Some ch'"
    by (auto simp: get_unmanaged_chan_def get_channel_def split: Option.bind_splits if_splits option.splits)
  from upd_channel_total [OF this] obtain st1 where st1: "upd_channel i c (uchan_conf l r cfg) st = Some st1" "st_mem st1 = st_mem st" by blast
  let ?b = "if s = IPC_UCHAN_INIT_DONE then seen_count (st_mem st) r else 0"
  let ?c = "if s = IPC_UCHAN_INIT_DONE then tx_count (st_mem st) r else 0"
  from umem_init_stores [OF ml ap, of IPC_SHM_UCHAN_INIT_IN_PROGRESS ?b ?c IPC_UCHAN_INIT_DONE] obtain m1 m2 m3 m4 where
    m: "store_u32 (umem_sentinel l) IPC_SHM_UCHAN_INIT_IN_PROGRESS (st_mem st) = Some m1" "store_u32 (umem_tx_count l) ?b m1 = Some m2"
      "store_u32 (umem_remote_tx_count l) ?c m2 = Some m3" "store_u32 (umem_sentinel l) IPC_UCHAN_INIT_DONE m3 = Some m4"
    and rd: "\<forall>j. j + 4 \<le> 16 \<longrightarrow> load_u32 m1 (r + of_nat j) = load_u32 (st_mem st) (r + of_nat j) \<and>
                 load_u32 m2 (r + of_nat j) = load_u32 (st_mem st) (r + of_nat j)"
    and out: "load_u32 m4 (umem_sentinel l) = Some IPC_UCHAN_INIT_DONE" "load_u32 m4 (umem_tx_count l) = Some ?b"
           "load_u32 m4 (umem_remote_tx_count l) = Some ?c" "same_except (region l 16) (st_mem st) m4" by blast
  have ld: "load_u32 m1 (umem_sentinel r) = Some s" "load_u32 m1 (umem_remote_tx_count r) = Some (seen_count (st_mem st) r)"
    "load_u32 m2 (umem_tx_count r) = Some (tx_count (st_mem st) r)"
    using rd [rule_format, of 0] rd [rule_format, of 4] rd [rule_format, of 8] s(1) load_counts [OF mr] by (simp_all add: umem_offsets)
  have "unmanaged_channel_init i c l r cfg st = Some (0, st1\<lparr>st_mem := m4\<rparr>)"
    using gc cb(1) cb(2) [folded not_less] st1 s nz m ld
    by (cases "s = IPC_UCHAN_INIT_DONE") (simp_all add: unmanaged_channel_init_def uchan_conf_eq)
  then show ?thesis using st1 out by (auto simp: tx_count_def seen_count_def)
qed

section \<open>A concrete pair of unmanaged channels\<close>

definition demo_uside :: "u64 \<Rightarrow> nat \<Rightarrow> (u64 \<times> byte list) list" where
  "demo_uside a n = [(a, le_bytes 8 (unat IPC_SHM_STATE_READY)), (a + 8, le_bytes 4 (unat IPC_UCHAN_INIT_DONE)), (a + 12, le_bytes 4 n)]"

definition demo_ushm :: memory where
  "demo_ushm = pokes (demo_uside 0x10000 0 @ demo_uside 0x20000 7) (zero_ram 0x10000 0x30000)"

definition demo_uchan :: "u64 \<Rightarrow> u64 \<Rightarrow> ipc_shm_channel" where
  "demo_uchan l r = set_umem (l + 8) (r + 8)
     (no_chan\<lparr>ch_type := IPC_SHM_UNMANAGED, ch_umng := \<lparr>uc_size = 0x40, uc_rx_cb = 0x1234, uc_cb_arg = 0\<rparr>\<rparr>)"

definition demo_ustate :: "u64 \<Rightarrow> u64 \<Rightarrow> demo_world shm_state" where
  "demo_ustate l r = (demo_state l r)\<lparr>st_mem := demo_ushm,
     st_priv := [\<lparr>pv_shm_size = 0x1000, pv_num_channels = 1, pv_channels = demo_uchan l r # replicate 7 no_chan, pv_global = l\<rparr>,
                 no_priv, no_priv, no_priv]\<rparr>"

lemma demo_ustate_sel:
  "st_mem (demo_ustate l r) = demo_ushm" "st_env (demo_ustate l r) = \<lparr>dw_notified = 0, dw_received = []\<rparr>"
  "local_mem (demo_uchan l r) = l + 8" "remote_mem (demo_uchan l r) = r + 8" "ch_type (demo_uchan l r) = IPC_SHM_UNMANAGED"
  "ch_umng (demo_uchan l r) = \<lparr>uc_size = 0x40, uc_rx_cb = 0x1234, uc_cb_arg = 0\<rparr>" "ch_id (demo_uchan l r) = 0"
  "priv_at 0 (demo_ustate l r) = Some \<lparr>pv_shm_size = 0x1000, pv_num_channels = 1,
     pv_channels = demo_uchan l r # replicate 7 no_chan, pv_global = l\<rparr>"
  by (simp_all add: demo_ustate_def demo_uchan_def local_mem_def remote_mem_def set_umem_def no_chan_def priv_at_def)

lemma demo_upokes: "pokes_in 0x10000 0x30000 (demo_uside 0x10000 0 @ demo_uside 0x20000 7)"
  by (simp add: pokes_in_def demo_uside_def)

lemma demo_ulook: "look (demo_uside 0x10000 0 @ demo_uside 0x20000 7) a n = Some bs \<Longrightarrow> load_bytes demo_ushm a n = Some bs"
  unfolding demo_ushm_def by (rule load_pokes [OF demo_upokes])

lemma demo_uwords:
  "load_u64 demo_ushm 0x10000 = Some IPC_SHM_STATE_READY" "load_u64 demo_ushm 0x20000 = Some IPC_SHM_STATE_READY"
  "load_u32 demo_ushm 0x10008 = Some IPC_UCHAN_INIT_DONE" "load_u32 demo_ushm 0x20008 = Some IPC_UCHAN_INIT_DONE"
  "load_u32 demo_ushm 0x2000C = Some 7"
  by (simp_all add: load_u64_def load_u32_def demo_ulook demo_uside_def apart_num_def le_nat_le_bytes
      IPC_SHM_STATE_READY_def IPC_UCHAN_INIT_DONE_def)

lemma demo_useen: "load_u32 demo_ushm 0x10010 = Some 0"
proof -
  have "load_bytes demo_ushm 0x10010 4 = load_bytes (zero_ram 0x10000 0x30000) 0x10010 4"
    unfolding demo_ushm_def by (rule load_pokes_clear [OF demo_upokes]) (simp add: demo_uside_def apart_num_def)
  then show ?thesis by (simp add: load_u32_def load_bytes_zero_ram le_nat_zeros)
qed

lemma demo_umapped: "0x10000 \<le> unat a \<Longrightarrow> unat a + n \<le> 0x30000 \<Longrightarrow> mapped demo_ushm a n"
  unfolding demo_ushm_def mapped_pokes [OF demo_upokes] by (rule mapped_zero_ram) simp_all

lemma demo_uready:
  "uchan_ready (demo_uchan 0x10000 0x20000) (st_mem (demo_ustate 0x10000 0x20000))"
  "ipc_shm_is_remote_ready (demo_platform 0x10000 0x20000) 0 (demo_ustate 0x10000 0x20000) = Some 0"
  "get_unmanaged_chan 0 0 (demo_ustate 0x10000 0x20000) = Some (Some (demo_uchan 0x10000 0x20000))"
  "get_channel_priv 0 0 (demo_ustate 0x10000 0x20000) = Some (demo_uchan 0x10000 0x20000)"
  by (simp_all add: uchan_ready_def demo_ustate_sel demo_umapped apart_either umem_sentinel_def demo_uwords
      ipc_shm_is_remote_ready_def ipc_instance_is_free_def limit_defs demo_local get_unmanaged_chan_def get_channel_def
      get_channel_priv_def IPC_SHM_STATE_READY_def IPC_SHM_STATE_CLEAR_def)

section \<open>Properties\<close>

lemma unmanaged_tx_run:
  assumes rr: "ipc_shm_is_remote_ready P i st = Some 0" and ch: "get_unmanaged_chan i c st = Some (Some ch)"
    and u: "uchan_ready ch (st_mem st)" and nt: "hw_irq_notify P i (st_env st) = Some w"
  shows "\<exists>m'. ipc_shm_unmanaged_tx P i c st = Some (0, st\<lparr>st_mem := m', st_env := w\<rparr>) \<and> uchan_ready ch m' \<and>
           tx_count m' (local_mem ch) = tx_count (st_mem st) (local_mem ch) + 1 \<and>
           seen_count m' (local_mem ch) = seen_count (st_mem st) (local_mem ch) \<and>
           tx_count m' (remote_mem ch) = tx_count (st_mem st) (remote_mem ch) \<and>
           same_except (region (local_mem ch) 16) (st_mem st) m'"
proof -
  have "mapped (st_mem st) (local_mem ch) 16" using u by (simp add: uchan_ready_def)
  note ld = load_counts [OF this]
  from umem_store [OF u, of 4 "tx_count (st_mem st) (local_mem ch) + 1"] obtain m' where
    m': "store_u32 (umem_tx_count (local_mem ch)) (tx_count (st_mem st) (local_mem ch) + 1) (st_mem st) = Some m'"
    and e: "uchan_ready ch m'" "tx_count m' (local_mem ch) = tx_count (st_mem st) (local_mem ch) + 1"
      "seen_count m' (local_mem ch) = seen_count (st_mem st) (local_mem ch)"
      "tx_count m' (remote_mem ch) = tx_count (st_mem st) (remote_mem ch)"
      "same_except (region (local_mem ch) 16) (st_mem st) m'"
    by (auto simp: umem_offsets)
  with rr ch ld uchan_integrity [OF u] nt show ?thesis
    by (intro exI [of _ m']) (simp add: ipc_shm_unmanaged_tx_def upd_mem_def upd_env_def)
qed

text \<open>
  Unmanaged transmission. On an initialised unmanaged channel of an instance whose remote side
  is ready, \<open>ipc_shm_unmanaged_tx\<close> adds one (modulo \<open>2 ^ 32\<close>) to the local transmit counter,
  notifies the remote side once and returns 0; the rest of the memory, the counter of the remote
  side and the copies are untouched.
\<close>

theorem unmanaged_tx_counts:
  assumes rr: "ipc_shm_is_remote_ready P i st = Some 0" and ch: "get_unmanaged_chan i c st = Some (Some ch)"
    and u: "uchan_ready ch (st_mem st)" and nt: "hw_irq_notify P i (st_env st) = Some w"
  shows "\<exists>m'. ipc_shm_unmanaged_tx P i c st = Some (0, st\<lparr>st_mem := m', st_env := w\<rparr>) \<and> uchan_ready ch m' \<and>
           tx_count m' (local_mem ch) = tx_count (st_mem st) (local_mem ch) + 1 \<and>
           seen_count m' (local_mem ch) = seen_count (st_mem st) (local_mem ch) \<and>
           tx_count m' (remote_mem ch) = tx_count (st_mem st) (remote_mem ch) \<and>
           same_except (region (local_mem ch) 16) (st_mem st) m'"
  by (rule unmanaged_tx_run [OF assms])

theorem unmanaged_tx_counts_witness:
  "\<exists>m'. ipc_shm_unmanaged_tx (demo_platform 0x10000 0x20000) 0 0 (demo_ustate 0x10000 0x20000)
          = Some (0, (demo_ustate 0x10000 0x20000)\<lparr>st_mem := m', st_env := \<lparr>dw_notified = 1, dw_received = []\<rparr>\<rparr>) \<and>
        tx_count m' 0x10008 = tx_count demo_ushm 0x10008 + 1"
  using unmanaged_tx_counts [OF demo_uready(2,3,1) demo_local(3)] by (auto simp: demo_ustate_sel)

text \<open>
  C28. Unmanaged reception fires once per change. Processing an initialised unmanaged channel calls
  the callback exactly when the remote transmit counter differs from the saved copy, once, with the
  address of the remote channel memory, after saving the new counter; it then reports the whole
  budget as used. If nothing was sent since, it reports 0 and changes nothing; so after the callback
  the same memory processed again is idle.
\<close>

theorem unmanaged_rx_fires_once:
  assumes ch: "get_channel_priv i c st = Some ch" and u: "uchan_ready ch (st_mem st)" and cb: "uc_rx_cb (ch_umng ch) \<noteq> 0"
  shows "if tx_count (st_mem st) (remote_mem ch) = seen_count (st_mem st) (local_mem ch)
         then ipc_channel_rx P i c budget st = Some (0, st)
         else \<exists>m'. ipc_channel_rx P i c budget st =
                do { st2 \<leftarrow> app_umng_rx_cb P (uc_rx_cb (ch_umng ch)) (uc_cb_arg (ch_umng ch)) i (ch_id ch)
                             (umem_mem (remote_mem ch)) (st\<lparr>st_mem := m'\<rparr>);
                     Some (budget, st2) } \<and>
              ipc_channel_rx P i c budget (st\<lparr>st_mem := m'\<rparr>) = Some (0, st\<lparr>st_mem := m'\<rparr>) \<and>
              tx_count m' (local_mem ch) = tx_count (st_mem st) (local_mem ch) \<and>
              same_except (region (local_mem ch) 16) (st_mem st) m'"
proof -
  from u have ty: "ch_type ch = IPC_SHM_UNMANAGED" and ml: "mapped (st_mem st) (local_mem ch) 16"
    and mr: "mapped (st_mem st) (remote_mem ch) 16" by (simp_all add: uchan_ready_def)
  note ld = load_counts(2) [OF ml] load_counts(1) [OF mr] uchan_integrity [OF u]
  show ?thesis
  proof (cases "tx_count (st_mem st) (remote_mem ch) = seen_count (st_mem st) (local_mem ch)")
    case True
    then show ?thesis using ch ty ld by (simp add: ipc_channel_rx_def)
  next
    case False
    from umem_store [OF u, of 8 "tx_count (st_mem st) (remote_mem ch)"] obtain m' where
      m': "store_u32 (umem_remote_tx_count (local_mem ch)) (tx_count (st_mem st) (remote_mem ch)) (st_mem st) = Some m'"
      and e: "uchan_ready ch m'" "seen_count m' (local_mem ch) = tx_count (st_mem st) (remote_mem ch)"
        "tx_count m' (remote_mem ch) = tx_count (st_mem st) (remote_mem ch)"
        "tx_count m' (local_mem ch) = tx_count (st_mem st) (local_mem ch)"
        "same_except (region (local_mem ch) 16) (st_mem st) m'"
      by (auto simp: umem_offsets)
    have "mapped m' (local_mem ch) 16" "mapped m' (remote_mem ch) 16" using e(1) by (simp_all add: uchan_ready_def)
    note ld' = load_counts(2) [OF this(1)] load_counts(1) [OF this(2)] uchan_integrity [OF e(1)]
    have "ipc_channel_rx P i c budget (st\<lparr>st_mem := m'\<rparr>) = Some (0, st\<lparr>st_mem := m'\<rparr>)"
      using ch ty ld' e(2,3) by (simp add: ipc_channel_rx_def)
    with False ch ty ld cb m' e(4,5) show ?thesis
      unfolding if_not_P [OF False] by (intro exI [of _ m']) (simp add: ipc_channel_rx_def upd_mem_def)
  qed
qed

theorem unmanaged_rx_fires_once_witness:
  "\<exists>m'. ipc_channel_rx (demo_platform 0x10000 0x20000) 0 0 5 (demo_ustate 0x10000 0x20000)
          = Some (5, (demo_ustate 0x10000 0x20000)\<lparr>st_mem := m', st_env := \<lparr>dw_notified = 0, dw_received = [(0, 0x20018, 0)]\<rparr>\<rparr>) \<and>
        ipc_channel_rx (demo_platform 0x10000 0x20000) 0 0 5 ((demo_ustate 0x10000 0x20000)\<lparr>st_mem := m'\<rparr>)
          = Some (0, (demo_ustate 0x10000 0x20000)\<lparr>st_mem := m'\<rparr>)"
proof -
  have cb: "app_umng_rx_cb (demo_platform l r) cb arg i c buf st
      = Some (st\<lparr>st_env := (st_env st)\<lparr>dw_received := dw_received (st_env st) @ [(c, buf, 0)]\<rparr>\<rparr>)" for l r cb arg i c buf st
    by (simp add: demo_platform_def)
  have "tx_count demo_ushm 0x20008 = 7" "seen_count demo_ushm 0x10008 = 0"
    by (simp_all add: tx_count_def seen_count_def umem_tx_count_def umem_remote_tx_count_def demo_uwords demo_useen)
  then show ?thesis
    using unmanaged_rx_fires_once [OF demo_uready(4,1), of "demo_platform 0x10000 0x20000" 5]
    by (auto simp: demo_ustate_sel cb umem_mem_def)
qed

text \<open>
  C31. Initialisation of an unmanaged channel. While the remote side is initialising the channel the
  function returns \<open>- EAGAIN\<close> and writes nothing; otherwise it returns 0 and marks the local control
  structure as initialised, with both counters zero if the remote side is not initialised, and
  otherwise taken over crosswise from the remote side, so that nothing sent before the restart is
  reported again and nothing is missed. Only the 16 bytes of the local control structure are written.
\<close>

theorem unmanaged_init_syncs:
  assumes "get_unmanaged_chan i c st = Some (Some ch)" "ucfg_rx_cb cfg \<noteq> 0" "ucfg_size cfg \<le> IPC_SHM_MAX_UMNG_SIZE"
    and "mapped (st_mem st) l 16" "mapped (st_mem st) r 16" "apart l 16 r 16" "l \<noteq> 0" "r \<noteq> 0"
    and s: "load_u32 (st_mem st) (umem_sentinel r) = Some s"
  shows "\<exists>e st'. unmanaged_channel_init i c l r cfg st = Some (e, st') \<and>
     (if s = IPC_SHM_UCHAN_INIT_IN_PROGRESS then e = - EAGAIN \<and> st_mem st' = st_mem st
      else e = 0 \<and> load_u32 (st_mem st') (umem_sentinel l) = Some IPC_UCHAN_INIT_DONE \<and>
           tx_count (st_mem st') l = (if s = IPC_UCHAN_INIT_DONE then seen_count (st_mem st) r else 0) \<and>
           seen_count (st_mem st') l = (if s = IPC_UCHAN_INIT_DONE then tx_count (st_mem st) r else 0) \<and>
           same_except (region l 16) (st_mem st) (st_mem st'))"
proof (cases "s = IPC_SHM_UCHAN_INIT_IN_PROGRESS")
  case True
  from assms(1) obtain ch' where "get_channel_priv i c st = Some ch'"
    by (auto simp: get_unmanaged_chan_def get_channel_def split: Option.bind_splits if_splits option.splits)
  from upd_channel_total [OF this] obtain st1 where "upd_channel i c (uchan_conf l r cfg) st = Some st1" "st_mem st1 = st_mem st" by blast
  then show ?thesis using assms(1,2,7-9) assms(3) [folded not_less] True by (simp add: unmanaged_channel_init_def uchan_conf_eq)
next
  case False
  then show ?thesis using unmanaged_init_run [OF assms False] by auto
qed

theorem unmanaged_init_syncs_witness:
  "\<exists>st'. unmanaged_channel_init 0 0 0x10008 0x20008 \<lparr>ucfg_size = 0x40, ucfg_rx_cb = 0x1234, ucfg_cb_arg = 0\<rparr>
            (demo_ustate 0x10000 0x20000) = Some (0, st') \<and> seen_count (st_mem st') 0x10008 = 7"
  using unmanaged_init_syncs [OF demo_uready(3), of "\<lparr>ucfg_size = 0x40, ucfg_rx_cb = 0x1234, ucfg_cb_arg = 0\<rparr>" "0x10008" "0x20008" IPC_UCHAN_INIT_DONE]
    demo_uready(1) demo_uwords
  by (auto simp: limit_defs uchan_ready_def demo_ustate_sel umem_sentinel_def tx_count_def umem_tx_count_def
      IPC_UCHAN_INIT_DONE_def IPC_SHM_UCHAN_INIT_IN_PROGRESS_def)

end
