(* ===== verification/Shm_Exchange.thy ===== *)
theory Shm_Exchange
  imports Shm_Rx
begin

text \<open>
  Both ends of a managed channel at work on the same memory: a buffer travels from acquisition on one
  side over transmission, reception on the other side and release back into the free list it came
  from. The two sides are two driver states whose memory is the one shared memory; the configuration
  is symmetric, as \<open>ipc-types.h\<close> requires.
\<close>

section \<open>Frame rules\<close>

text \<open>A queue does not notice writes outside its own two rings.\<close>

lemma queue_frame:
  assumes se: "same_except A m m'"
    and ap: "region (push_ring q) (ring_bytes q) \<inter> A = {}" "region (pop_ring q) (ring_bytes q) \<inter> A = {}"
  shows "queue_ready q m \<Longrightarrow> queue_ready q m'" and "queue_wf q m \<Longrightarrow> tx_list m' q = tx_list m q"
    and "queue_wf q m \<Longrightarrow> rx_list m' q = rx_list m q"
proof -
  have sub: "region (p + of_nat k) n \<inter> A = {}" if "k + n \<le> ring_bytes q" "p = push_ring q \<or> p = pop_ring q" for k n p
    using region_offset [OF that(1), of p] that(2) ap by blast
  have small: "k + n \<le> ring_bytes q" if "k + n \<le> 16" for k n using that ring_bytes_ge [of q] by linarith
  have idx: "wr_idx m' p = wr_idx m p" "rd_idx m' p = rd_idx m p" "load_u64 m' (ring_sentinel p) = load_u64 m (ring_sentinel p)"
    if "p = push_ring q \<or> p = pop_ring q" for p
    using load_u32_same_except [OF se sub [OF small that, of 8 4]] load_u32_same_except [OF se sub [OF small that, of 12 4]]
      load_u64_same_except [OF se sub [OF small that, of 0 8]]
    by (simp_all add: wr_idx_def rd_idx_def ring_offsets)
  have slot: "slot_at m' p (unat (elem_size q)) j = slot_at m p (unat (elem_size q)) j"
    if "j < unat (elem_num q)" "p = push_ring q \<or> p = pop_ring q" for j p
    unfolding slot_at_def slot_addr_def by (simp add: load_bytes_same_except [OF se sub [OF slot_bound [OF that(1)] that(2)]] del: of_nat_add of_nat_mult)
  show "queue_ready q m'" if "queue_ready q m"
    using that idx by (simp add: queue_ready_def queue_wf_def same_except_mapped [OF se])
  show "tx_list m' q = tx_list m q" if "queue_wf q m"
    unfolding tx_list_def using that idx slot by (simp, intro ring_elems_cong) (auto simp: queue_wf_def)
  show "rx_list m' q = rx_list m q" if "queue_wf q m"
    unfolding rx_list_def using that idx slot by (simp, intro ring_elems_cong) (auto simp: queue_wf_def)
qed

lemma bd_queue_frame:
  assumes "same_except A m m'" and "region (push_ring q) (ring_bytes q) \<inter> A = {}" "region (pop_ring q) (ring_bytes q) \<inter> A = {}"
    and "bd_queue_ready q m"
  shows "bd_queue_ready q m'" "tx_bds m' q = tx_bds m q" "rx_bds m' q = rx_bds m q"
  using queue_frame [OF assms(1-3)] assms(4) by (simp_all add: bd_queue_ready_def queue_ready_def tx_bds_def rx_bds_def)

text \<open>All descriptor queues of a channel, and the fact that their rings are separate.\<close>

definition chan_queues :: "ipc_managed_channel \<Rightarrow> ipc_queue list" where
  "chan_queues mc = mc_bd_queue mc # map pl_bd_queue (take (unat (mc_num_pools mc)) (mc_pools mc))"

definition rings_separate :: "ipc_managed_channel \<Rightarrow> bool" where
  "rings_separate mc \<longleftrightarrow> (\<forall>a < length (chan_queues mc). \<forall>b < length (chan_queues mc). a \<noteq> b \<longrightarrow>
     (let p = chan_queues mc ! a; q = chan_queues mc ! b in
      apart (push_ring q) (ring_bytes q) (push_ring p) (ring_bytes p) \<and>
      apart (pop_ring q) (ring_bytes q) (push_ring p) (ring_bytes p)))"

lemma mchan_ready_queues:
  "mchan_ready mc m \<longleftrightarrow> unat (mc_num_pools mc) \<le> length (mc_pools mc) \<and> (\<forall>q \<in> set (chan_queues mc). bd_queue_ready q m)"
proof (cases "unat (mc_num_pools mc) \<le> length (mc_pools mc)")
  case True
  then have "set (take (unat (mc_num_pools mc)) (mc_pools mc)) = (!) (mc_pools mc) ` {..<unat (mc_num_pools mc)}"
    by (simp add: nth_image [symmetric] lessThan_atLeast0)
  then show ?thesis using True by (auto simp: mchan_ready_def chan_queues_def)
qed (simp add: mchan_ready_def)

text \<open>Work on one queue of a channel leaves the others, and their contents, alone.\<close>

lemma chan_frame:
  assumes rdy: "mchan_ready mc m" and sep: "rings_separate mc" and a: "a < length (chan_queues mc)"
    and se: "same_except (region (push_ring (chan_queues mc ! a)) (ring_bytes (chan_queues mc ! a))) m m'"
    and ok: "bd_queue_ready (chan_queues mc ! a) m'"
  shows "mchan_ready mc m'"
    and "\<And>b. b < length (chan_queues mc) \<Longrightarrow> b \<noteq> a \<Longrightarrow>
          tx_bds m' (chan_queues mc ! b) = tx_bds m (chan_queues mc ! b) \<and> rx_bds m' (chan_queues mc ! b) = rx_bds m (chan_queues mc ! b)"
proof -
  have fr: "bd_queue_ready (chan_queues mc ! b) m'" "tx_bds m' (chan_queues mc ! b) = tx_bds m (chan_queues mc ! b)"
    "rx_bds m' (chan_queues mc ! b) = rx_bds m (chan_queues mc ! b)" if b: "b < length (chan_queues mc)" "b \<noteq> a" for b
  proof -
    have "bd_queue_ready (chan_queues mc ! b) m" using rdy b(1) by (simp add: mchan_ready_queues)
    moreover have "region (push_ring (chan_queues mc ! b)) (ring_bytes (chan_queues mc ! b)) \<inter>
        region (push_ring (chan_queues mc ! a)) (ring_bytes (chan_queues mc ! a)) = {}"
      "region (pop_ring (chan_queues mc ! b)) (ring_bytes (chan_queues mc ! b)) \<inter>
        region (push_ring (chan_queues mc ! a)) (ring_bytes (chan_queues mc ! a)) = {}"
      using sep a b by (auto simp: rings_separate_def apart_def Let_def)
    ultimately show "bd_queue_ready (chan_queues mc ! b) m'" "tx_bds m' (chan_queues mc ! b) = tx_bds m (chan_queues mc ! b)"
      "rx_bds m' (chan_queues mc ! b) = rx_bds m (chan_queues mc ! b)" using bd_queue_frame [OF se] by blast+
  qed
  show "mchan_ready mc m'"
    using rdy fr(1) ok by (metis in_set_conv_nth mchan_ready_queues)
  show "tx_bds m' (chan_queues mc ! b) = tx_bds m (chan_queues mc ! b) \<and> rx_bds m' (chan_queues mc ! b) = rx_bds m (chan_queues mc ! b)"
    if "b < length (chan_queues mc)" "b \<noteq> a" for b using fr(2,3) that by blast
qed

section \<open>Symmetric configuration\<close>

definition linked :: "ipc_managed_channel \<Rightarrow> ipc_managed_channel \<Rightarrow> bool" where
  "linked a b \<longleftrightarrow> mc_bd_queue b = peer (mc_bd_queue a) \<and> mc_num_pools b = mc_num_pools a \<and>
     length (mc_pools b) = length (mc_pools a) \<and>
     (\<forall>k < unat (mc_num_pools a). pl_bd_queue (mc_pools b ! k) = peer (pl_bd_queue (mc_pools a ! k)) \<and>
        pl_remote_pool_addr (mc_pools b ! k) = pl_local_pool_addr (mc_pools a ! k) \<and>
        pl_buf_size (mc_pools b ! k) = pl_buf_size (mc_pools a ! k) \<and>
        pl_num_bufs (mc_pools b ! k) = pl_num_bufs (mc_pools a ! k))"

lemma peer_bd_queue [simp]:
  "bd_queue_ready (peer q) m = bd_queue_ready q m" "tx_bds m (peer q) = rx_bds m q" "rx_bds m (peer q) = tx_bds m q"
  by (simp_all add: bd_queue_ready_def tx_bds_def rx_bds_def)

lemma linked_ready: "linked a b \<Longrightarrow> mchan_ready b m = mchan_ready a m"
  by (auto simp: linked_def mchan_ready_def)

lemma linked_laid_out:
  assumes "linked a b" "pools_laid_out IPC_BUFFER_FROM_LOCAL a"
  shows "pools_laid_out IPC_BUFFER_FROM_REMOTE b"
proof -
  have "pool_bytes (mc_pools b ! k) = pool_bytes (mc_pools a ! k)"
    "pool_base IPC_BUFFER_FROM_REMOTE (mc_pools b ! k) = pool_base IPC_BUFFER_FROM_LOCAL (mc_pools a ! k)"
    if "k < unat (mc_num_pools a)" for k
    using assms(1) that
    by (auto simp: linked_def pool_bytes_def pool_base_def IPC_BUFFER_FROM_LOCAL_def IPC_BUFFER_FROM_REMOTE_def)
  with assms show ?thesis by (simp add: pools_laid_out_def linked_def)
qed

text \<open>The driver's readiness tests read only the two state words.\<close>

lemma used_frame:
  assumes "same_except A m m'" and "priv_at i st = Some pv" and "region (pv_global pv) 8 \<inter> A = {}"
  shows "ipc_instance_is_free i (st\<lparr>st_mem := m'\<rparr>) = ipc_instance_is_free i (st\<lparr>st_mem := m\<rparr>)"
  using assms by (simp add: ipc_instance_is_free_def load_u64_same_except)

lemma remote_ready_frame:
  assumes se: "same_except A m m'" and "priv_at i st = Some pv" "os_get_remote_shm P i (st_env st) = Some r"
    and "region (pv_global pv) 8 \<inter> A = {}" "region r 8 \<inter> A = {}"
  shows "ipc_shm_is_remote_ready P i (st\<lparr>st_mem := m'\<rparr>) = ipc_shm_is_remote_ready P i (st\<lparr>st_mem := m\<rparr>)"
  using assms used_frame [OF se assms(2,4)] by (simp add: ipc_shm_is_remote_ready_def load_u64_same_except [OF se] cong: if_cong)

lemma get_managed_chan_mem [simp]: "get_managed_chan i c (st\<lparr>st_mem := m\<rparr>) = get_managed_chan i c st"
  by (simp add: get_managed_chan_def get_channel_def cong: if_cong)

lemma chan_queues_pool:
  "k < unat (mc_num_pools mc) \<Longrightarrow> unat (mc_num_pools mc) \<le> length (mc_pools mc) \<Longrightarrow>
   chan_queues mc ! Suc k = pl_bd_queue (mc_pools mc ! k) \<and> Suc k < length (chan_queues mc)"
  by (simp add: chan_queues_def)

text \<open>A buffer address determines its pool and its number.\<close>

lemma buf_number_unique:
  fixes s b b' :: nat
  assumes "base + b * s \<le> base + b' * s" "base + b' * s < base + (b + 1) * s"
  shows "b' = b"
proof -
  have "b * s \<le> b' * s" "b' * s < (b + 1) * s" using assms by simp_all
  then have "0 < s" "b' < b + 1" by (auto simp only: mult_less_cancel2)
  with \<open>b * s \<le> b' * s\<close> show ?thesis by simp
qed

section \<open>A buffer's round trip\<close>

text \<open>
  The two sides of one channel: the sender (instance \<open>i\<close>, channel \<open>c\<close>, state \<open>st\<close>) with its local shared
  memory at \<open>L\<close> and the remote one at \<open>R\<close>, and the receiver (instance \<open>j\<close>, channel \<open>d\<close>, state \<open>st'\<close>),
  for which they are swapped. The state words at the start of the two memories are outside all rings.
\<close>

definition sender_ok :: "'w platform \<Rightarrow> u8 \<Rightarrow> u8 \<Rightarrow> 'w shm_state \<Rightarrow> ipc_managed_channel \<Rightarrow> ipc_shm_priv \<Rightarrow> u64 \<Rightarrow> u64 \<Rightarrow> bool" where
  "sender_ok P i c st mc pv L R \<longleftrightarrow> chan_usable P i c st mc \<and> priv_at i st = Some pv \<and>
     os_get_local_shm P i (st_env st) = Some L \<and> os_get_remote_shm P i (st_env st) = Some R \<and> L \<noteq> 0 \<and>
     pools_laid_out IPC_BUFFER_FROM_LOCAL mc \<and> rings_separate mc \<and> unat (mc_num_pools mc) \<le> IPC_SHM_MAX_POOLS \<and>
     (\<forall>q \<in> set (chan_queues mc). region (pv_global pv) 8 \<inter> region (push_ring q) (ring_bytes q) = {} \<and>
        region R 8 \<inter> region (push_ring q) (ring_bytes q) = {} \<and> region R 8 \<inter> region (pop_ring q) (ring_bytes q) = {})"

definition receiver_ok :: "'w platform \<Rightarrow> u8 \<Rightarrow> u8 \<Rightarrow> 'w shm_state \<Rightarrow> ipc_shm_channel \<Rightarrow> ipc_shm_priv \<Rightarrow> u64 \<Rightarrow> u64 \<Rightarrow> bool" where
  "receiver_ok P j d st ch pv L R \<longleftrightarrow> unat j < IPC_SHM_MAX_INSTANCES \<and> get_channel_priv j d st = Some ch \<and>
     ch_type ch = IPC_SHM_MANAGED \<and> get_managed_chan j d st = Some (Some (ch_mng ch)) \<and> priv_at j st = Some pv \<and>
     os_get_remote_shm P j (st_env st) = Some L \<and> pv_global pv = R \<and> R \<noteq> 0 \<and> mc_rx_cb (ch_mng ch) \<noteq> 0 \<and>
     rings_separate (ch_mng ch)"

lemma bd_addr_unat:
  fixes base :: u64 and b :: u16 and s :: u32
  assumes "unat b * unat s < 2 ^ 32" "unat base + unat b * unat s < 2 ^ 64"
  shows "unat (base + ucast (ucast b * s :: u32)) = unat base + unat b * unat s"
proof -
  have "unat (ucast b * s :: u32) = unat b * unat s" using assms(1) by (simp add: unat_word_ariths unat_ucast_up)
  then show ?thesis using assms(2) by (simp add: unat_word_ariths unat_ucast_up)
qed

lemma owned_address:
  fixes b :: u16
  assumes lay: "pools_laid_out remote mc" and k: "k < unat (mc_num_pools mc)"
    and b: "unat b < unat (pl_num_bufs (mc_pools mc ! k))" and s: "pl_buf_size (mc_pools mc ! k) \<noteq> 0"
  defines "a \<equiv> pool_base remote (mc_pools mc ! k) + ucast (ucast b * pl_buf_size (mc_pools mc ! k))"
  shows "owns remote (mc_pools mc ! k) a"
    and "unat a = unat (pool_base remote (mc_pools mc ! k)) + unat b * unat (pl_buf_size (mc_pools mc ! k))"
proof -
  let ?pool = "mc_pools mc ! k"
  from lay k have l: "pool_bytes ?pool < 2 ^ 32" "unat (pool_base remote ?pool) + pool_bytes ?pool < 2 ^ 64"
    by (auto simp: pools_laid_out_def)
  have "0 < unat (pl_buf_size ?pool)" using s by (simp add: unat_gt_0)
  then have lt: "unat b * unat (pl_buf_size ?pool) < pool_bytes ?pool" using b by (simp add: pool_bytes_def)
  show ua: "unat a = unat (pool_base remote ?pool) + unat b * unat (pl_buf_size ?pool)"
    unfolding a_def by (intro bd_addr_unat) (use l lt in linarith)+
  show "owns remote ?pool a" using ua lt by (simp add: owns_def)
qed

lemma sender_ok_facts:
  assumes "sender_ok P i c st mc pv L R"
  shows "chan_usable P i c st mc" "priv_at i st = Some pv" "os_get_local_shm P i (st_env st) = Some L"
    "os_get_remote_shm P i (st_env st) = Some R" "L \<noteq> 0" "pools_laid_out IPC_BUFFER_FROM_LOCAL mc" "rings_separate mc"
    "ipc_shm_is_remote_ready P i st = Some 0" "get_managed_chan i c st = Some (Some mc)" "mchan_ready mc (st_mem st)"
    "load_u64 (st_mem st) R = Some IPC_SHM_STATE_READY"
  using assms remote_ready_global [of P i st] by (auto simp: sender_ok_def chan_usable_def)

text \<open>A sender keeps being one under writes that leave its readiness, its state words and its other data alone.\<close>

lemma sender_ok_frame:
  assumes ok: "sender_ok P i c st mc pv L R" and se: "same_except A (st_mem st) m"
    and out: "region (pv_global pv) 8 \<inter> A = {}" "region R 8 \<inter> A = {}" and rdy: "mchan_ready mc m"
  shows "sender_ok P i c (st\<lparr>st_mem := m\<rparr>) mc pv L R"
proof -
  note f = sender_ok_facts [OF ok]
  have "ipc_shm_is_remote_ready P i (st\<lparr>st_mem := m\<rparr>) = Some 0"
    using remote_ready_frame [OF se f(2,4) out] f(8) by simp
  then show ?thesis using ok rdy f(9) by (simp add: sender_ok_def chan_usable_def)
qed

lemma exchange_acquire:
  assumes ok: "sender_ok P i c st mc pv L R" and n: "n \<noteq> 0"
    and ff: "first_fit mc n (st_mem st) = Some k" and bd: "bd = hd (rx_bds (st_mem st) (pl_bd_queue (mc_pools mc ! k)))"
    and p: "p = pl_local_pool_addr (mc_pools mc ! k) + ucast (ucast (bd_buf_id bd) * pl_buf_size (mc_pools mc ! k))"
    and ins: "in_remote_shm L (pv_shm_size pv) p (pl_buf_size (mc_pools mc ! k))"
    and idle: "tx_bds (st_mem st) (mc_bd_queue mc) = []"
  shows "k < unat (mc_num_pools mc) \<and> n \<le> pl_buf_size (mc_pools mc ! k) \<and> p \<noteq> 0 \<and>
     (\<exists>m1. ipc_shm_acquire_buf P i c n st = Some (p, st\<lparr>st_mem := m1\<rparr>) \<and> sender_ok P i c (st\<lparr>st_mem := m1\<rparr>) mc pv L R \<and>
        tx_bds m1 (mc_bd_queue mc) = [] \<and>
        rx_bds m1 (pl_bd_queue (mc_pools mc ! k)) = tl (rx_bds (st_mem st) (pl_bd_queue (mc_pools mc ! k))) \<and> dom m1 = dom (st_mem st))"
proof -
  let ?q = "mc_bd_queue mc" and ?pool = "mc_pools mc ! k" and ?qk = "pl_bd_queue (mc_pools mc ! k)"
  note f = sender_ok_facts [OF ok]
  from acquire_run [OF f(1) n f(3,2)] ff bd p ins obtain m1 where
    k: "k < unat (mc_num_pools mc)" "n \<le> pl_buf_size ?pool"
    and acq: "ipc_shm_acquire_buf P i c n st = Some (p, st\<lparr>st_mem := m1\<rparr>)"
    and e1: "rx_bds m1 ?qk = tl (rx_bds (st_mem st) ?qk)" "bd_queue_ready ?qk m1" "same_except (pop_area ?qk) (st_mem st) m1"
    by (auto simp: Let_def in_remote_shm_def)
  have p0: "p \<noteq> 0" using ins f(5) by (auto simp: in_remote_shm_def word_le_0_iff)
  have cq: "chan_queues mc ! Suc k = ?qk" "Suc k < length (chan_queues mc)" "chan_queues mc ! 0 = ?q"
    using chan_queues_pool [OF k(1)] f(10) by (simp_all add: mchan_ready_def chan_queues_def)
  have se1: "same_except (region (push_ring ?qk) (ring_bytes ?qk)) (st_mem st) m1"
    using e1(3) pop_area_sub by (rule same_except_mono)
  note f1 = chan_frame [OF f(10,7) cq(2), unfolded cq(1), OF se1 e1(2)]
  have q0: "0 < length (chan_queues mc)" by (simp add: chan_queues_def)
  have tx1: "tx_bds m1 ?q = []" using f1(2) [OF q0] cq idle by simp
  have "?qk \<in> set (chan_queues mc)" using cq by (metis nth_mem)
  then have "sender_ok P i c (st\<lparr>st_mem := m1\<rparr>) mc pv L R"
    using ok by (intro sender_ok_frame [OF ok se1 _ _ f1(1)]) (auto simp: sender_ok_def)
  then show ?thesis using k p0 acq tx1 e1(1) se1 by (auto simp: same_except_def)
qed

lemma exchange_transmit:
  assumes ok: "sender_ok P i c st mc pv L R" and len: "len \<noteq> 0" "p \<noteq> 0" and k: "k < unat (mc_num_pools mc)"
    and b: "unat b < unat (pl_num_bufs (mc_pools mc ! k))" "pl_buf_size (mc_pools mc ! k) \<noteq> 0"
    and p: "p = pl_local_pool_addr (mc_pools mc ! k) + ucast (ucast b * pl_buf_size (mc_pools mc ! k))"
    and idle: "tx_bds (st_mem st) (mc_bd_queue mc) = []" "2 \<le> unat (elem_num (mc_bd_queue mc))"
    and nt: "hw_irq_notify P i (st_env st) = Some w"
  shows "\<exists>m2. ipc_shm_tx P i (uint c) p len st = Some (0, st\<lparr>st_mem := m2, st_env := w\<rparr>) \<and>
        tx_bds m2 (mc_bd_queue mc) = [\<lparr>bd_pool_id = of_nat k, bd_buf_id = b, bd_data_size = len\<rparr>] \<and>
        rx_bds m2 (pl_bd_queue (mc_pools mc ! k)) = rx_bds (st_mem st) (pl_bd_queue (mc_pools mc ! k)) \<and>
        mchan_ready mc m2 \<and> load_u64 m2 R = Some IPC_SHM_STATE_READY \<and>
        same_except (region (push_ring (mc_bd_queue mc)) (ring_bytes (mc_bd_queue mc))) (st_mem st) m2"
proof -
  let ?q = "mc_bd_queue mc" and ?pool = "mc_pools mc ! k" and ?qk = "pl_bd_queue (mc_pools mc ! k)"
  note f = sender_ok_facts [OF ok]
  have us: "chan_usable P i (word_of_int (uint c)) st mc" using f(1) by simp
  have pb: "pool_base IPC_BUFFER_FROM_LOCAL ?pool = pl_local_pool_addr ?pool"
    by (simp add: pool_base_def IPC_BUFFER_FROM_LOCAL_def IPC_BUFFER_FROM_REMOTE_def)
  note ow = owned_address [OF f(6) k b, unfolded pb, folded p]
  from tx_run [OF us f(6) len(2,1) k ow(1) nt] idle obtain b' m2 where
    b': "unat (pl_local_pool_addr ?pool) + b' * unat (pl_buf_size ?pool) \<le> unat p"
      "unat p < unat (pl_local_pool_addr ?pool) + (b' + 1) * unat (pl_buf_size ?pool)"
    and tx: "ipc_shm_tx P i (uint c) p len st = Some (0, st\<lparr>st_mem := m2, st_env := w\<rparr>)"
    and e2: "tx_bds m2 ?q = [\<lparr>bd_pool_id = of_nat k, bd_buf_id = of_nat b', bd_data_size = len\<rparr>]" "bd_queue_ready ?q m2"
      "same_except (region (push_ring ?q) (ring_bytes ?q)) (st_mem st) m2" by auto
  have "unat b = b'" using b' unfolding ow(2) by (rule buf_number_unique)
  then have "of_nat b' = b" by auto
  have cq: "chan_queues mc ! Suc k = ?qk" "Suc k < length (chan_queues mc)" "chan_queues mc ! 0 = ?q" "0 < length (chan_queues mc)"
    using chan_queues_pool [OF k] f(10) by (simp_all add: mchan_ready_def chan_queues_def)
  note f2 = chan_frame [OF f(10,7) cq(4), unfolded cq(3), OF e2(3,2)]
  have "region R 8 \<inter> region (push_ring ?q) (ring_bytes ?q) = {}" using ok by (auto simp: sender_ok_def chan_queues_def)
  then have "load_u64 m2 R = Some IPC_SHM_STATE_READY" using load_u64_same_except [OF e2(3)] f(11) by simp
  then show ?thesis using tx e2 \<open>of_nat b' = b\<close> f2(1) f2(2) [OF cq(2)] cq(1) by auto
qed

text \<open>A buffer, or any other piece of memory, that is outside of all rings and of the state words.\<close>

definition outside_rings :: "ipc_managed_channel \<Rightarrow> ipc_shm_priv \<Rightarrow> u64 \<Rightarrow> u64 \<Rightarrow> nat \<Rightarrow> bool" where
  "outside_rings mc pv R a n \<longleftrightarrow> apart (pv_global pv) 8 a n \<and> apart R 8 a n \<and>
     (\<forall>q \<in> set (chan_queues mc). apart (push_ring q) (ring_bytes q) a n \<and> apart (pop_ring q) (ring_bytes q) a n)"

lemma outside_sub: "outside_rings mc pv R a n \<Longrightarrow> k \<le> n \<Longrightarrow> outside_rings mc pv R a k"
  using region_mono [of k n a] by (fastforce simp: outside_rings_def apart_def)

text \<open>Writing the message into the buffer changes nothing for the driver.\<close>

lemma exchange_write:
  assumes ok: "sender_ok P i c st mc pv L R" and st: "store_bytes p bs (st_mem st) = Some m" "length bs < 2 ^ 64"
    and out: "outside_rings mc pv R p (length bs)"
  shows "sender_ok P i c (st\<lparr>st_mem := m\<rparr>) mc pv L R" "load_bytes m p (length bs) = Some bs"
    "q \<in> set (chan_queues mc) \<Longrightarrow> tx_bds m q = tx_bds (st_mem st) q \<and> rx_bds m q = rx_bds (st_mem st) q"
proof -
  have se: "same_except (region p (length bs)) (st_mem st) m" by (rule store_bytes_same_except [OF st(1)]) (use st(2) in simp)
  note f = sender_ok_facts [OF ok]
  have fr: "bd_queue_ready q m" "tx_bds m q = tx_bds (st_mem st) q" "rx_bds m q = rx_bds (st_mem st) q" if "q \<in> set (chan_queues mc)" for q
    using bd_queue_frame [OF se, of q] out f(10) that by (simp_all add: outside_rings_def apart_def mchan_ready_queues)
  then have "mchan_ready mc m" using f(10) by (simp add: mchan_ready_queues)
  then show "sender_ok P i c (st\<lparr>st_mem := m\<rparr>) mc pv L R" using out by (intro sender_ok_frame [OF ok se]) (simp_all add: outside_rings_def apart_def)
  show "load_bytes m p (length bs) = Some bs" by (rule load_store_same [OF st(1)]) (use st(2) in simp)
  show "tx_bds m q = tx_bds (st_mem st) q \<and> rx_bds m q = rx_bds (st_mem st) q" if "q \<in> set (chan_queues mc)" using fr(2,3) that by blast
qed

lemma exchange_receive:
  assumes ok: "receiver_ok P j d st ch pv L R" and rdy: "mchan_ready (ch_mng ch) m"
    and one: "rx_bds m (mc_bd_queue (ch_mng ch)) = [bd]"
    and pool: "pool_of_bd (mc_pools (ch_mng ch)) bd = Some pool"
    and ins: "in_remote_shm L (pv_shm_size pv) (bd_address pool bd) (pl_buf_size pool)"
  shows "\<exists>m'. ipc_channel_rx P j d 1 (st\<lparr>st_mem := m\<rparr>) =
             do { st2 \<leftarrow> app_rx_cb P (mc_rx_cb (ch_mng ch)) (mc_cb_arg (ch_mng ch)) j (ch_id ch)
                          (bd_address pool bd) (bd_data_size bd) (st\<lparr>st_mem := m'\<rparr>);
                  Some (1, st2) } \<and>
           mchan_ready (ch_mng ch) m' \<and> rx_bds m' (mc_bd_queue (ch_mng ch)) = [] \<and>
           (\<forall>k < unat (mc_num_pools (ch_mng ch)).
              tx_bds m' (pl_bd_queue (mc_pools (ch_mng ch) ! k)) = tx_bds m (pl_bd_queue (mc_pools (ch_mng ch) ! k))) \<and>
           same_except (region (push_ring (mc_bd_queue (ch_mng ch))) (ring_bytes (mc_bd_queue (ch_mng ch)))) m m'"
proof -
  let ?q = "mc_bd_queue (ch_mng ch)"
  from ok have ch: "get_channel_priv j d (st\<lparr>st_mem := m\<rparr>) = Some ch" and pv: "priv_at j (st\<lparr>st_mem := m\<rparr>) = Some pv"
    and rm: "os_get_remote_shm P j (st_env (st\<lparr>st_mem := m\<rparr>)) = Some L" and ty: "ch_type ch = IPC_SHM_MANAGED"
    and cb: "mc_rx_cb (ch_mng ch) \<noteq> 0" and sep: "rings_separate (ch_mng ch)" by (simp_all add: receiver_ok_def)
  have q: "bd_queue_ready ?q (st_mem (st\<lparr>st_mem := m\<rparr>))" using rdy by (simp add: mchan_ready_def)
  have one': "rx_bds (st_mem (st\<lparr>st_mem := m\<rparr>)) ?q = [bd]" using one by simp
  from mchan_rx_step [OF ch pv rm q one' pool cb, of 0 0] ins obtain m' where
    e: "rx_bds m' ?q = []" "bd_queue_ready ?q m'" "same_except (pop_area ?q) m m'"
    and run: "mchan_rx_loop P j d 1 0 (st\<lparr>st_mem := m\<rparr>) =
             do { st2 \<leftarrow> app_rx_cb P (mc_rx_cb (ch_mng ch)) (mc_cb_arg (ch_mng ch)) j (ch_id ch)
                          (bd_address pool bd) (bd_data_size bd) (st\<lparr>st_mem := m'\<rparr>);
                  Some (1, st2) }" by (auto simp del: mchan_rx_loop.simps(2))
  have se: "same_except (region (push_ring ?q) (ring_bytes ?q)) m m'" using e(3) pop_area_sub by (rule same_except_mono)
  have q0: "0 < length (chan_queues (ch_mng ch))" "chan_queues (ch_mng ch) ! 0 = ?q" by (simp_all add: chan_queues_def)
  note f = chan_frame [OF rdy sep q0(1), unfolded q0(2), OF se e(2)]
  have "tx_bds m' (pl_bd_queue (mc_pools (ch_mng ch) ! k)) = tx_bds m (pl_bd_queue (mc_pools (ch_mng ch) ! k))"
    if "k < unat (mc_num_pools (ch_mng ch))" for k
    using f(2) [of "Suc k"] chan_queues_pool [OF that] rdy by (simp add: mchan_ready_def)
  moreover have "ipc_channel_rx P j d 1 (st\<lparr>st_mem := m\<rparr>) = mchan_rx_loop P j d 1 0 (st\<lparr>st_mem := m\<rparr>)"
    using ch ty by (simp add: ipc_channel_rx_def del: mchan_rx_loop.simps)
  ultimately show ?thesis using run e(1) f(1) se by auto
qed

lemma exchange_return:
  assumes ok: "receiver_ok P j d st ch pv L R" and rdy: "mchan_ready (ch_mng ch) m"
    and up: "load_u64 m R = Some IPC_SHM_STATE_READY"
    and lay: "pools_laid_out IPC_BUFFER_FROM_REMOTE (ch_mng ch)" and k: "k < unat (mc_num_pools (ch_mng ch))"
    and b: "unat b < unat (pl_num_bufs (mc_pools (ch_mng ch) ! k))" and s: "pl_buf_size (mc_pools (ch_mng ch) ! k) \<noteq> 0"
    and p: "p = pl_remote_pool_addr (mc_pools (ch_mng ch) ! k) + ucast (ucast b * pl_buf_size (mc_pools (ch_mng ch) ! k))" "p \<noteq> 0"
    and room: "length (tx_bds m (pl_bd_queue (mc_pools (ch_mng ch) ! k))) + 1 < unat (elem_num (pl_bd_queue (mc_pools (ch_mng ch) ! k)))"
  shows "\<exists>m'. ipc_shm_release_buf j d p (st\<lparr>st_mem := m\<rparr>) = Some (0, st\<lparr>st_mem := m'\<rparr>) \<and>
           tx_bds m' (pl_bd_queue (mc_pools (ch_mng ch) ! k)) = tx_bds m (pl_bd_queue (mc_pools (ch_mng ch) ! k)) @
             [\<lparr>bd_pool_id = of_nat k, bd_buf_id = b, bd_data_size = 0\<rparr>] \<and>
           mchan_ready (ch_mng ch) m' \<and> rx_bds m' (mc_bd_queue (ch_mng ch)) = rx_bds m (mc_bd_queue (ch_mng ch))"
proof -
  let ?mc = "ch_mng ch" and ?qk = "pl_bd_queue (mc_pools (ch_mng ch) ! k)"
  from ok up have us: "ipc_instance_is_free j (st\<lparr>st_mem := m\<rparr>) = Some IPC_SHM_INSTANCE_USED"
    and gm: "get_managed_chan j d (st\<lparr>st_mem := m\<rparr>) = Some (Some ?mc)" and sep: "rings_separate ?mc"
    by (simp_all add: receiver_ok_def ipc_instance_is_free_def IPC_SHM_STATE_READY_def IPC_SHM_STATE_CLEAR_def)
  have pb: "pool_base IPC_BUFFER_FROM_REMOTE (mc_pools ?mc ! k) = pl_remote_pool_addr (mc_pools ?mc ! k)" by (simp add: pool_base_def)
  note ow = owned_address [OF lay k b s, unfolded pb, folded p(1)]
  have rdy': "mchan_ready ?mc (st_mem (st\<lparr>st_mem := m\<rparr>))" using rdy by simp
  from release_run [OF us gm rdy' lay p(2) k ow(1)] room obtain b' m' where
    b': "unat (pl_remote_pool_addr (mc_pools ?mc ! k)) + b' * unat (pl_buf_size (mc_pools ?mc ! k)) \<le> unat p"
      "unat p < unat (pl_remote_pool_addr (mc_pools ?mc ! k)) + (b' + 1) * unat (pl_buf_size (mc_pools ?mc ! k))"
    and run: "ipc_shm_release_buf j d p (st\<lparr>st_mem := m\<rparr>) = Some (0, st\<lparr>st_mem := m'\<rparr>)"
    and e: "tx_bds m' ?qk = tx_bds m ?qk @ [\<lparr>bd_pool_id = of_nat k, bd_buf_id = of_nat b', bd_data_size = 0\<rparr>]"
      "bd_queue_ready ?qk m'" "same_except (region (push_ring ?qk) (ring_bytes ?qk)) m m'" by (auto simp: Let_def)
  have "unat b = b'" using b' unfolding ow(2) by (rule buf_number_unique)
  then have "of_nat b' = b" by auto
  have cq: "chan_queues ?mc ! Suc k = ?qk" "Suc k < length (chan_queues ?mc)" "chan_queues ?mc ! 0 = mc_bd_queue ?mc"
    "0 < length (chan_queues ?mc)"
    using chan_queues_pool [OF k] rdy by (simp_all add: mchan_ready_def chan_queues_def)
  note f = chan_frame [OF rdy sep cq(2), unfolded cq(1), OF e(3,2)]
  show ?thesis using run e(1) \<open>of_nat b' = b\<close> f(1) f(2) [OF cq(4)] cq(3) by auto
qed

lemma receive_address:
  assumes "linked mc mc'" "k < unat (mc_num_pools mc)" "unat (mc_num_pools mc) \<le> IPC_SHM_MAX_POOLS"
    "unat (mc_num_pools mc) \<le> length (mc_pools mc)"
    and bd: "bd = \<lparr>bd_pool_id = of_nat k, bd_buf_id = b, bd_data_size = len\<rparr>"
  shows "pool_of_bd (mc_pools mc') bd = Some (mc_pools mc' ! k)"
    and "bd_address (mc_pools mc' ! k) bd = pl_local_pool_addr (mc_pools mc ! k) + ucast (ucast b * pl_buf_size (mc_pools mc ! k))"
    and "pl_buf_size (mc_pools mc' ! k) = pl_buf_size (mc_pools mc ! k)"
proof -
  have "k \<in> {0, 1, 2, 3}" using assms(2,3) by (auto simp: limit_defs)
  then have "sint (of_nat k :: u16) = int k" by auto
  moreover have "k < length (mc_pools mc')" using assms(1,2,4) by (simp add: linked_def)
  ultimately show "pool_of_bd (mc_pools mc') bd = Some (mc_pools mc' ! k)" by (simp add: pool_of_bd_def bd)
  show "bd_address (mc_pools mc' ! k) bd = pl_local_pool_addr (mc_pools mc ! k) + ucast (ucast b * pl_buf_size (mc_pools mc ! k))"
    "pl_buf_size (mc_pools mc' ! k) = pl_buf_size (mc_pools mc ! k)"
    using assms(1,2) by (simp_all add: linked_def bd_address_def bd)
qed

text \<open>What a transmission starts from: an idle channel, a buffer \<open>p\<close> that is the next free one of the first pool that is large enough.\<close>

definition next_buffer :: "ipc_managed_channel \<Rightarrow> ipc_shm_priv \<Rightarrow> u64 \<Rightarrow> u64 \<Rightarrow> u32 \<Rightarrow> memory \<Rightarrow> nat \<Rightarrow> u16 \<Rightarrow> u64 \<Rightarrow> bool" where
  "next_buffer mc pv L R n m k b p \<longleftrightarrow> first_fit mc n m = Some k \<and> b = bd_buf_id (hd (rx_bds m (pl_bd_queue (mc_pools mc ! k)))) \<and>
     unat b < unat (pl_num_bufs (mc_pools mc ! k)) \<and> p = pl_local_pool_addr (mc_pools mc ! k) + ucast (ucast b * pl_buf_size (mc_pools mc ! k)) \<and>
     in_remote_shm L (pv_shm_size pv) p (pl_buf_size (mc_pools mc ! k)) \<and> outside_rings mc pv R p (unat (pl_buf_size (mc_pools mc ! k))) \<and>
     mapped m p (unat (pl_buf_size (mc_pools mc ! k))) \<and> tx_bds m (mc_bd_queue mc) = [] \<and> 2 \<le> unat (elem_num (mc_bd_queue mc))"

lemma exchange_send:
  assumes ok: "sender_ok P i c st mc pv L R" and n: "n \<noteq> 0" "len \<noteq> 0" and nb: "next_buffer mc pv L R n (st_mem st) k b p"
    and bs: "length bs \<le> unat (pl_buf_size (mc_pools mc ! k))" and nt: "hw_irq_notify P i (st_env st) = Some w"
  shows "k < unat (mc_num_pools mc) \<and> n \<le> pl_buf_size (mc_pools mc ! k) \<and> p \<noteq> 0 \<and>
     (\<exists>m0 m1 m2. ipc_shm_acquire_buf P i c n st = Some (p, st\<lparr>st_mem := m0\<rparr>) \<and> store_bytes p bs m0 = Some m1 \<and>
        ipc_shm_tx P i (uint c) p len (st\<lparr>st_mem := m1\<rparr>) = Some (0, st\<lparr>st_mem := m2, st_env := w\<rparr>) \<and>
        tx_bds m2 (mc_bd_queue mc) = [\<lparr>bd_pool_id = of_nat k, bd_buf_id = b, bd_data_size = len\<rparr>] \<and>
        rx_bds m2 (pl_bd_queue (mc_pools mc ! k)) = tl (rx_bds (st_mem st) (pl_bd_queue (mc_pools mc ! k))) \<and>
        load_bytes m2 p (length bs) = Some bs \<and> mchan_ready mc m2 \<and> load_u64 m2 R = Some IPC_SHM_STATE_READY)"
proof -
  let ?pool = "mc_pools mc ! k"
  from nb have nb': "first_fit mc n (st_mem st) = Some k" "b = bd_buf_id (hd (rx_bds (st_mem st) (pl_bd_queue ?pool)))"
     "unat b < unat (pl_num_bufs ?pool)" "p = pl_local_pool_addr ?pool + ucast (ucast b * pl_buf_size ?pool)"
     "in_remote_shm L (pv_shm_size pv) p (pl_buf_size ?pool)" "outside_rings mc pv R p (unat (pl_buf_size ?pool))"
     "mapped (st_mem st) p (unat (pl_buf_size ?pool))" "tx_bds (st_mem st) (mc_bd_queue mc) = []" "2 \<le> unat (elem_num (mc_bd_queue mc))"
    unfolding next_buffer_def by blast+
  from exchange_acquire [OF ok n(1) nb'(1) refl nb'(4) [unfolded nb'(2)] _ nb'(8)] nb'(5) obtain m0 where
    k: "k < unat (mc_num_pools mc)" "n \<le> pl_buf_size ?pool" "p \<noteq> 0"
    and acq: "ipc_shm_acquire_buf P i c n st = Some (p, st\<lparr>st_mem := m0\<rparr>)" and ok0: "sender_ok P i c (st\<lparr>st_mem := m0\<rparr>) mc pv L R"
    and m0: "tx_bds m0 (mc_bd_queue mc) = []" "rx_bds m0 (pl_bd_queue ?pool) = tl (rx_bds (st_mem st) (pl_bd_queue ?pool))" "dom m0 = dom (st_mem st)"
    by auto
  have "mapped m0 p (unat (pl_buf_size ?pool))" using nb'(7) m0(3) by (simp add: mapped_iff)
  then have "mapped m0 p (length bs)" using mapped_sub [of m0 p "unat (pl_buf_size ?pool)" 0 "length bs"] bs by simp
  then obtain m1 where m1: "store_bytes p bs m0 = Some m1" by (auto simp: store_bytes_def)
  have lb: "length bs < 2 ^ 64" using bs unat_less [of "pl_buf_size ?pool"] by simp
  have s0: "pl_buf_size ?pool \<noteq> 0" using k(2) n(1) by (auto simp: word_le_0_iff)
  have out: "outside_rings mc pv R p (length bs)" by (rule outside_sub [OF nb'(6) bs])
  have st0: "store_bytes p bs (st_mem (st\<lparr>st_mem := m0\<rparr>)) = Some m1" using m1 by simp
  note w = exchange_write [OF ok0 st0 lb out]
  have inq: "mc_bd_queue mc \<in> set (chan_queues mc)" "pl_bd_queue ?pool \<in> set (chan_queues mc)"
    using chan_queues_pool [OF k(1)] sender_ok_facts(10) [OF ok] by (simp add: chan_queues_def, metis mchan_ready_def nth_mem)
  have ok1: "sender_ok P i c (st\<lparr>st_mem := m1\<rparr>) mc pv L R" using w(1) by simp
  from exchange_transmit [OF ok1 n(2) k(3,1) nb'(3) s0 nb'(4), of w] w(3) [OF inq(1)] m0(1) nb'(9) nt obtain m2 where
    m2: "ipc_shm_tx P i (uint c) p len (st\<lparr>st_mem := m1\<rparr>) = Some (0, st\<lparr>st_mem := m2, st_env := w\<rparr>)"
      "tx_bds m2 (mc_bd_queue mc) = [\<lparr>bd_pool_id = of_nat k, bd_buf_id = b, bd_data_size = len\<rparr>]"
      "rx_bds m2 (pl_bd_queue ?pool) = rx_bds m1 (pl_bd_queue ?pool)" "mchan_ready mc m2" "load_u64 m2 R = Some IPC_SHM_STATE_READY"
      "same_except (region (push_ring (mc_bd_queue mc)) (ring_bytes (mc_bd_queue mc))) m1 m2" by auto
  have "region p (length bs) \<inter> region (push_ring (mc_bd_queue mc)) (ring_bytes (mc_bd_queue mc)) = {}"
    using out inq(1) by (auto simp: outside_rings_def apart_def)
  then have "load_bytes m2 p (length bs) = Some bs" using load_bytes_same_except [OF m2(6)] w(2) by simp
  then show ?thesis using k acq m1 m2(1-5) m0(2) w(3) [OF inq(2)] by auto
qed

lemma round_trip_run:
  assumes snd: "sender_ok P i c st mc pv L R" and rcv: "receiver_ok P' j d st' ch pv' L R"
    and lk: "linked mc (ch_mng ch)" "pv_shm_size pv' = pv_shm_size pv" and n: "n \<noteq> 0" "len \<noteq> 0"
    and nb: "next_buffer mc pv L R n (st_mem st) k b p" and bs: "length bs \<le> unat (pl_buf_size (mc_pools mc ! k))"
    and nt: "hw_irq_notify P i (st_env st) = Some w"
  shows "\<exists>m0 m1 m2 m3 m4.
     ipc_shm_acquire_buf P i c n st = Some (p, st\<lparr>st_mem := m0\<rparr>) \<and> store_bytes p bs m0 = Some m1 \<and>
     ipc_shm_tx P i (uint c) p len (st\<lparr>st_mem := m1\<rparr>) = Some (0, st\<lparr>st_mem := m2, st_env := w\<rparr>) \<and>
     ipc_channel_rx P' j d 1 (st'\<lparr>st_mem := m2\<rparr>) =
       do { st2 \<leftarrow> app_rx_cb P' (mc_rx_cb (ch_mng ch)) (mc_cb_arg (ch_mng ch)) j (ch_id ch) p len (st'\<lparr>st_mem := m3\<rparr>);
            Some (1, st2) } \<and>
     load_bytes m3 p (length bs) = Some bs \<and>
     ipc_shm_release_buf j d p (st'\<lparr>st_mem := m3\<rparr>) = Some (0, st'\<lparr>st_mem := m4\<rparr>) \<and>
     rx_bds m4 (pl_bd_queue (mc_pools mc ! k)) = tl (rx_bds (st_mem st) (pl_bd_queue (mc_pools mc ! k))) @
       [\<lparr>bd_pool_id = of_nat k, bd_buf_id = b, bd_data_size = 0\<rparr>] \<and>
     tx_bds m4 (mc_bd_queue mc) = [] \<and> mchan_ready mc m4"
proof -
  let ?mc' = "ch_mng ch" and ?qk = "pl_bd_queue (mc_pools mc ! k)"
  let ?bd = "\<lparr>bd_pool_id = of_nat k, bd_buf_id = b, bd_data_size = len\<rparr>"
  from snd have lay: "pools_laid_out IPC_BUFFER_FROM_LOCAL mc" and mx: "unat (mc_num_pools mc) \<le> IPC_SHM_MAX_POOLS"
    and rdy0: "mchan_ready mc (st_mem st)" and out: "region R 8 \<inter> region (pop_ring (mc_bd_queue mc)) (ring_bytes (mc_bd_queue mc)) = {}"
    by (auto simp: sender_ok_def chan_usable_def chan_queues_def)
  from nb have ins: "in_remote_shm L (pv_shm_size pv) p (pl_buf_size (mc_pools mc ! k))" and ff: "first_fit mc n (st_mem st) = Some k"
    and b: "unat b < unat (pl_num_bufs (mc_pools mc ! k))" and p: "p = pl_local_pool_addr (mc_pools mc ! k) + ucast (ucast b * pl_buf_size (mc_pools mc ! k))"
    and po: "outside_rings mc pv R p (length bs)" using outside_sub [OF _ bs] by (auto simp: next_buffer_def)
  from exchange_send [OF snd n nb bs nt] obtain m0 m1 m2 where
    k: "k < unat (mc_num_pools mc)" "n \<le> pl_buf_size (mc_pools mc ! k)" "p \<noteq> 0"
    and acq: "ipc_shm_acquire_buf P i c n st = Some (p, st\<lparr>st_mem := m0\<rparr>)" "store_bytes p bs m0 = Some m1"
    and tx: "ipc_shm_tx P i (uint c) p len (st\<lparr>st_mem := m1\<rparr>) = Some (0, st\<lparr>st_mem := m2, st_env := w\<rparr>)"
    and m2: "tx_bds m2 (mc_bd_queue mc) = [?bd]" "rx_bds m2 ?qk = tl (rx_bds (st_mem st) ?qk)" "mchan_ready mc m2"
      "load_u64 m2 R = Some IPC_SHM_STATE_READY" "load_bytes m2 p (length bs) = Some bs" by blast
  have link: "mc_bd_queue ?mc' = peer (mc_bd_queue mc)" "pl_bd_queue (mc_pools ?mc' ! k) = peer ?qk"
    "mc_num_pools ?mc' = mc_num_pools mc" "pl_num_bufs (mc_pools ?mc' ! k) = pl_num_bufs (mc_pools mc ! k)"
    "pl_remote_pool_addr (mc_pools ?mc' ! k) = pl_local_pool_addr (mc_pools mc ! k)"
    using lk(1) k(1) by (simp_all add: linked_def)
  have np: "unat (mc_num_pools mc) \<le> length (mc_pools mc)" using rdy0 by (simp add: mchan_ready_def)
  note ra = receive_address [OF lk(1) k(1) mx np, of ?bd b len, OF refl]
  have "rx_bds m2 (mc_bd_queue ?mc') = [?bd]" "mchan_ready ?mc' m2" using m2 link lk(1) by (simp_all add: linked_ready)
  from exchange_receive [OF rcv this(2,1) ra(1)] ins p lk(2) ra(2,3) obtain m3 where
    rx: "ipc_channel_rx P' j d 1 (st'\<lparr>st_mem := m2\<rparr>) =
       do { st2 \<leftarrow> app_rx_cb P' (mc_rx_cb ?mc') (mc_cb_arg ?mc') j (ch_id ch) p len (st'\<lparr>st_mem := m3\<rparr>); Some (1, st2) }"
    and m3: "mchan_ready ?mc' m3" "rx_bds m3 (mc_bd_queue ?mc') = []" "tx_bds m3 (peer ?qk) = tx_bds m2 (peer ?qk)"
      "same_except (region (pop_ring (mc_bd_queue mc)) (ring_bytes (mc_bd_queue mc))) m2 m3"
    using k(1) link by auto
  have up: "load_u64 m3 R = Some IPC_SHM_STATE_READY" using m2(4) load_u64_same_except [OF m3(4) out] by simp
  have "region p (length bs) \<inter> region (pop_ring (mc_bd_queue mc)) (ring_bytes (mc_bd_queue mc)) = {}"
    using po by (auto simp: outside_rings_def apart_def chan_queues_def)
  then have data: "load_bytes m3 p (length bs) = Some bs" using m2(5) load_bytes_same_except [OF m3(4)] by simp
  have s0: "pl_buf_size (mc_pools ?mc' ! k) \<noteq> 0" using k(2) n(1) ra(3) by (auto simp: word_le_0_iff)
  have ne: "rx_bds (st_mem st) ?qk \<noteq> []" using ff by (auto simp: first_fit_def find_Some_iff)
  have "bd_queue_ready (peer ?qk) (st_mem st)" using rdy0 k(1) by (simp add: mchan_ready_def)
  from tx_bds_bound [OF this] have room: "length (tx_bds m3 (pl_bd_queue (mc_pools ?mc' ! k))) + 1 < unat (elem_num (pl_bd_queue (mc_pools ?mc' ! k)))"
    using m2(2) m3(3) link(2) ne by (cases "rx_bds (st_mem st) ?qk") auto
  from exchange_return [OF rcv m3(1) up linked_laid_out [OF lk(1) lay] _ _ s0 _ k(3) room, of b] obtain m4 where
    rel: "ipc_shm_release_buf j d p (st'\<lparr>st_mem := m3\<rparr>) = Some (0, st'\<lparr>st_mem := m4\<rparr>)"
    and m4: "tx_bds m4 (peer ?qk) = tx_bds m3 (peer ?qk) @ [\<lparr>bd_pool_id = of_nat k, bd_buf_id = b, bd_data_size = 0\<rparr>]"
      "mchan_ready ?mc' m4" "rx_bds m4 (mc_bd_queue ?mc') = rx_bds m3 (mc_bd_queue ?mc')"
    using k(1) b p link ra(3) by auto
  show ?thesis
    using acq tx rx data rel m4 m3 m2(2) link lk(1) by (intro exI [of _ m0] exI [of _ m1] exI [of _ m2] exI [of _ m3] exI [of _ m4]) (simp add: linked_ready)
qed

text \<open>
  C9. A message's round trip. Take two symmetrically configured sides of a managed channel on one
  shared memory, the channel idle and a large enough free buffer listed. Then: the sender's
  \<open>ipc_shm_acquire_buf\<close> returns the buffer \<open>p\<close>; the application can write any message \<open>bs\<close> that fits into it; its
  \<open>ipc_shm_tx\<close> of \<open>p\<close> succeeds and notifies; the receiver's \<open>ipc_channel_rx\<close> then calls its callback
  exactly once, with the same address \<open>p\<close>, the size that was sent, and exactly the bytes of the message in the
  buffer; and the receiver's \<open>ipc_shm_release_buf\<close> of \<open>p\<close> puts exactly that buffer back at the end of
  the free list of the pool the sender took it from, with the channel idle again. Neither side's
  pending descriptors are lost, duplicated or mixed up on the way.
\<close>

theorem buffer_round_trip:
  assumes snd: "sender_ok P i c st mc pv L R" and rcv: "receiver_ok P' j d st' ch pv' L R"
    and lk: "linked mc (ch_mng ch)" "pv_shm_size pv' = pv_shm_size pv" and n: "n \<noteq> 0" "len \<noteq> 0"
    and nb: "next_buffer mc pv L R n (st_mem st) k b p" and bs: "length bs \<le> unat (pl_buf_size (mc_pools mc ! k))"
    and nt: "hw_irq_notify P i (st_env st) = Some w"
  shows "\<exists>m0 m1 m2 m3 m4.
     ipc_shm_acquire_buf P i c n st = Some (p, st\<lparr>st_mem := m0\<rparr>) \<and> store_bytes p bs m0 = Some m1 \<and>
     ipc_shm_tx P i (uint c) p len (st\<lparr>st_mem := m1\<rparr>) = Some (0, st\<lparr>st_mem := m2, st_env := w\<rparr>) \<and>
     ipc_channel_rx P' j d 1 (st'\<lparr>st_mem := m2\<rparr>) =
       do { st2 \<leftarrow> app_rx_cb P' (mc_rx_cb (ch_mng ch)) (mc_cb_arg (ch_mng ch)) j (ch_id ch) p len (st'\<lparr>st_mem := m3\<rparr>);
            Some (1, st2) } \<and>
     load_bytes m3 p (length bs) = Some bs \<and>
     ipc_shm_release_buf j d p (st'\<lparr>st_mem := m3\<rparr>) = Some (0, st'\<lparr>st_mem := m4\<rparr>) \<and>
     rx_bds m4 (pl_bd_queue (mc_pools mc ! k)) = tl (rx_bds (st_mem st) (pl_bd_queue (mc_pools mc ! k))) @
       [\<lparr>bd_pool_id = of_nat k, bd_buf_id = b, bd_data_size = 0\<rparr>] \<and>
     tx_bds m4 (mc_bd_queue mc) = [] \<and> mchan_ready mc m4"
  by (rule round_trip_run [OF assms])

lemma demo_linked: "linked (demo_mchan 0x10000 0x20000) (demo_mchan 0x20000 0x10000)"
  by (simp add: linked_def demo_q_def peer_def)

lemma demo_separate:
  "rings_separate (demo_mchan 0x10000 0x20000)" "rings_separate (demo_mchan 0x20000 0x10000)"
  by (simp_all add: rings_separate_def chan_queues_def All_less_Suc apart_either Let_def)

lemma demo_next_buffer:
  "next_buffer (demo_mchan 0x10000 0x20000) \<lparr>pv_shm_size = 0x1000, pv_num_channels = 1, pv_channels = cs, pv_global = 0x10000\<rparr>
     0x10000 0x20000 0x20 demo_shm 0 0 0x10068"
  using demo_first_fit by (simp add: next_buffer_def demo_tx_rx demo_bd_def in_remote_shm_def outside_rings_def chan_queues_def apart_either demo_mapped)

theorem buffer_round_trip_witness:
  "\<exists>m0 m1 m2 m3 m4.
     ipc_shm_acquire_buf (demo_platform 0x10000 0x20000) 0 0 0x20 (demo_state 0x10000 0x20000)
       = Some (0x10068, (demo_state 0x10000 0x20000)\<lparr>st_mem := m0\<rparr>) \<and> store_bytes 0x10068 [7, 8, 9] m0 = Some m1 \<and>
     ipc_shm_tx (demo_platform 0x10000 0x20000) 0 0 0x10068 3 ((demo_state 0x10000 0x20000)\<lparr>st_mem := m1\<rparr>)
       = Some (0, (demo_state 0x10000 0x20000)\<lparr>st_mem := m2, st_env := \<lparr>dw_notified = 1, dw_received = []\<rparr>\<rparr>) \<and>
     ipc_channel_rx (demo_platform 0x20000 0x10000) 0 0 1 ((demo_state 0x20000 0x10000)\<lparr>st_mem := m2\<rparr>)
       = Some (1, (demo_state 0x20000 0x10000)\<lparr>st_mem := m3, st_env := \<lparr>dw_notified = 0, dw_received = [(0, 0x10068, 3)]\<rparr>\<rparr>) \<and>
     load_bytes m3 0x10068 3 = Some [7, 8, 9] \<and>
     ipc_shm_release_buf 0 0 0x10068 ((demo_state 0x20000 0x10000)\<lparr>st_mem := m3\<rparr>)
       = Some (0, (demo_state 0x20000 0x10000)\<lparr>st_mem := m4\<rparr>) \<and>
     rx_bds m4 (demo_q 0x10038 0x20038) = [demo_bd 1, demo_bd 2, demo_bd 0]"
proof -
  let ?ch = "no_chan\<lparr>ch_mng := demo_mchan 0x20000 0x10000\<rparr>"
  have snd: "sender_ok (demo_platform 0x10000 0x20000) 0 0 (demo_state 0x10000 0x20000) (demo_mchan 0x10000 0x20000)
      \<lparr>pv_shm_size = 0x1000, pv_num_channels = 1,
       pv_channels = no_chan\<lparr>ch_mng := demo_mchan 0x10000 0x20000\<rparr> # replicate 7 no_chan, pv_global = 0x10000\<rparr> 0x10000 0x20000"
    using demo_usable(1) demo_laid_out(1) demo_separate(1) apart_either [of "0x10000" 8] apart_either [of "0x20000" 8]
    by (simp add: sender_ok_def demo_local limit_defs chan_queues_def apart_def)
  have rcv: "receiver_ok (demo_platform 0x20000 0x10000) 0 0 (demo_state 0x20000 0x10000) ?ch
      \<lparr>pv_shm_size = 0x1000, pv_num_channels = 1, pv_channels = ?ch # replicate 7 no_chan, pv_global = 0x20000\<rparr> 0x10000 0x20000"
    using demo_usable(2) demo_separate(2)
    by (simp add: receiver_ok_def demo_local limit_defs chan_usable_def get_channel_priv_def no_chan_def)
  have cb: "app_rx_cb (demo_platform l r) f arg i c buf n st
      = Some (st\<lparr>st_env := (st_env st)\<lparr>dw_received := dw_received (st_env st) @ [(c, buf, n)]\<rparr>\<rparr>)" for l r f arg i c buf n st
    by (simp add: demo_platform_def)
  have ids: "\<lparr>bd_pool_id = 0, bd_buf_id = 0, bd_data_size = 0\<rparr> = demo_bd 0" "ch_id no_chan = 0"
    by (simp_all add: demo_bd_def no_chan_def)
  have nb: "next_buffer (demo_mchan 0x10000 0x20000) \<lparr>pv_shm_size = 0x1000, pv_num_channels = 1,
       pv_channels = no_chan\<lparr>ch_mng := demo_mchan 0x10000 0x20000\<rparr> # replicate 7 no_chan, pv_global = 0x10000\<rparr>
      0x10000 0x20000 0x20 (st_mem (demo_state 0x10000 0x20000)) 0 0 0x10068"
    using demo_next_buffer by simp
  from buffer_round_trip [OF snd rcv _ _ _ _ nb _ demo_local(3), of 3 "[7, 8, 9]"] demo_linked
  show ?thesis by (simp add: demo_tx_rx cb ids) (elim exE conjE, intro exI conjI, (assumption | simp add: eval_nat_numeral)+)
qed

end
