(* ===== verification/Shm_Init.thy ===== *)
theory Shm_Init
  imports Shm_Rx
begin

text \<open>
  Initialisation and release: what initialising a buffer pool publishes, what the two instance-level
  operations leave behind on every path, and which error codes can come up.
\<close>

section \<open>Updates of the private data\<close>

lemma get_pool_mem [simp]: "get_pool i c k (st\<lparr>st_mem := m\<rparr>) = get_pool i c k st"
  by (simp add: get_pool_def)

lemma upd_priv_Some:
  "upd_priv i f st = Some st' \<longleftrightarrow>
   (\<exists>p. priv_at i st = Some p \<and> st' = st\<lparr>st_priv := (st_priv st)[unat i := f p]\<rparr>)"
  by (auto simp: upd_priv_def split: Option.bind_splits)

lemma priv_at_upd_priv: "upd_priv i f st = Some st' \<Longrightarrow> priv_at i st = Some p \<Longrightarrow> priv_at i st' = Some (f p)"
  by (auto simp: upd_priv_Some priv_at_def nth_opt_def split: if_splits)

lemma upd_priv_other: "upd_priv i f st = Some st' \<Longrightarrow> j \<noteq> i \<Longrightarrow> priv_at j st' = priv_at j st"
  by (auto simp: upd_priv_Some priv_at_def nth_opt_def word_unat_eq_iff nth_list_update split: if_splits)

lemma upd_priv_keeps:
  "upd_priv i f st = Some st' \<Longrightarrow> st_mem st' = st_mem st \<and> st_env st' = st_env st \<and> length (st_priv st') = length (st_priv st)"
  by (auto simp: upd_priv_Some)

text \<open>A pool update touches one pool of one channel.\<close>

lemma get_upd_pool:
  assumes "upd_pool i c k f st = Some st'"
  shows "\<exists>pool. get_pool i c k st = Some pool \<and> get_pool i c k st' = Some (f pool)"
    and "st_mem st' = st_mem st" "st_env st' = st_env st"
    and "\<exists>pv pv'. priv_at i st = Some pv \<and> priv_at i st' = Some pv' \<and> pv_shm_size pv' = pv_shm_size pv \<and>
           pv_num_channels pv' = pv_num_channels pv \<and> pv_global pv' = pv_global pv"
  using assms
  by (auto simp: upd_pool_def get_pool_def upd_managed_def upd_channel_def upd_priv_def get_channel_priv_def
      priv_at_def nth_opt_def split: Option.bind_splits if_splits)

lemma upd_pool_total:
  assumes "get_pool i c k st = Some pool"
  shows "\<exists>st'. upd_pool i c k f st = Some st'"
  using assms
  by (auto simp: upd_pool_def get_pool_def upd_managed_def upd_channel_def upd_priv_def get_channel_priv_def
      split: Option.bind_splits)

section \<open>Filling a pool with descriptors\<close>

definition free_bd :: "nat \<Rightarrow> nat \<Rightarrow> ipc_shm_bd" where
  "free_bd k b = \<lparr>bd_pool_id = of_nat k, bd_buf_id = of_nat b, bd_data_size = 0\<rparr>"

lemma push_wf:
  assumes "queue_wf q m" "elem_size q = 8" "length (tx_bds m q) + 1 < unat (elem_num q)"
  shows "\<exists>m'. ipc_queue_push (Some q) (Some (bd_bytes bd)) m = Some (0, m') \<and> tx_bds m' q = tx_bds m q @ [bd] \<and>
           rx_bds m' q = rx_bds m q \<and> queue_wf q m' \<and>
           same_except (push_area q (wr_idx m (push_ring q))) m m'"
  using push_ok [OF assms(1), of "bd_bytes bd"] assms(2,3) by (auto simp: tx_bds_def rx_bds_def)

lemma populate_ok:
  assumes "queue_wf (pl_bd_queue pool) (st_mem st)" "elem_size (pl_bd_queue pool) = 8" "get_pool i c k st = Some pool"
    and "length (tx_bds (st_mem st) (pl_bd_queue pool)) + length bs < unat (elem_num (pl_bd_queue pool))"
  shows "\<exists>m'. populate_pool i c k bs st = Some (0, st\<lparr>st_mem := m'\<rparr>) \<and>
           tx_bds m' (pl_bd_queue pool) = tx_bds (st_mem st) (pl_bd_queue pool) @ map (free_bd k) bs \<and>
           rx_bds m' (pl_bd_queue pool) = rx_bds (st_mem st) (pl_bd_queue pool) \<and>
           queue_wf (pl_bd_queue pool) m' \<and>
           same_except (region (push_ring (pl_bd_queue pool)) (ring_bytes (pl_bd_queue pool))) (st_mem st) m'"
  using assms
proof (induction bs arbitrary: st)
  case Nil
  then show ?case by (intro exI [of _ "st_mem st"]) simp
next
  case (Cons b bs)
  let ?q = "pl_bd_queue pool"
  have "length (tx_bds (st_mem st) ?q) + 1 < unat (elem_num ?q)" using Cons.prems(4) by simp
  from push_wf [OF Cons.prems(1,2) this, of "free_bd k b"] obtain m1 where
    m1: "ipc_queue_push (Some ?q) (Some (bd_bytes (free_bd k b))) (st_mem st) = Some (0, m1)"
      "tx_bds m1 ?q = tx_bds (st_mem st) ?q @ [free_bd k b]" "rx_bds m1 ?q = rx_bds (st_mem st) ?q" "queue_wf ?q m1" by blast
  have se: "same_except (region (push_ring ?q) (ring_bytes ?q)) (st_mem st) m1" by (rule push_local [OF m1(1)])
  have "\<exists>m'. populate_pool i c k bs (st\<lparr>st_mem := m1\<rparr>) = Some (0, (st\<lparr>st_mem := m1\<rparr>)\<lparr>st_mem := m'\<rparr>) \<and>
           tx_bds m' ?q = tx_bds (st_mem (st\<lparr>st_mem := m1\<rparr>)) ?q @ map (free_bd k) bs \<and>
           rx_bds m' ?q = rx_bds (st_mem (st\<lparr>st_mem := m1\<rparr>)) ?q \<and> queue_wf ?q m' \<and>
           same_except (region (push_ring ?q) (ring_bytes ?q)) (st_mem (st\<lparr>st_mem := m1\<rparr>)) m'"
    using Cons.prems m1 by (intro Cons.IH) simp_all
  then obtain m' where m': "populate_pool i c k bs (st\<lparr>st_mem := m1\<rparr>) = Some (0, st\<lparr>st_mem := m'\<rparr>)"
    "tx_bds m' ?q = tx_bds (st_mem st) ?q @ free_bd k b # map (free_bd k) bs" "rx_bds m' ?q = rx_bds (st_mem st) ?q"
    "queue_wf ?q m'" "same_except (region (push_ring ?q) (ring_bytes ?q)) m1 m'" using m1 by auto
  have "populate_pool i c k (b # bs) st = Some (0, st\<lparr>st_mem := m'\<rparr>)"
    using Cons.prems(3) m1(1) m'(1) by (simp add: free_bd_def)
  with m' same_except_trans [OF se m'(5)] show ?case by auto
qed

section \<open>Initialising a pool\<close>

lemma upd_pool_upd_pool:
  assumes "upd_pool i c k f st = Some st1"
  shows "upd_pool i c k g (st1\<lparr>st_mem := m\<rparr>) = upd_pool i c k (\<lambda>pl. g (f pl)) (st\<lparr>st_mem := m\<rparr>)"
  using assms
  by (auto simp: upd_pool_def get_pool_def upd_managed_def upd_channel_def upd_priv_def get_channel_priv_def
      priv_at_def nth_opt_def split: Option.bind_splits if_splits)

lemma upd_pool_mem:
  "upd_pool i c k f (st\<lparr>st_mem := m\<rparr>) = map_option (\<lambda>st'. st'\<lparr>st_mem := m\<rparr>) (upd_pool i c k f st)"
  by (auto simp: upd_pool_def get_pool_def upd_managed_def upd_channel_def upd_priv_def get_channel_priv_def
      priv_at_def split: Option.bind_splits)

lemma upd_pool_cong: "get_pool i c k st = Some pool \<Longrightarrow> f pool = g pool \<Longrightarrow> upd_pool i c k f st = upd_pool i c k g st"
  by (simp add: upd_pool_def)

text \<open>The private data of a pool laid out at a given address.\<close>

definition pool_of :: "ipc_shm_pool_addr \<Rightarrow> ipc_shm_pool_cfg \<Rightarrow> ipc_shm_pool" where
  "pool_of addr cfg = (let q = queue_of (pool_queue_data addr cfg); n = ipc_queue_mem_size q in
     \<lparr>pl_num_bufs = pcfg_num_bufs cfg, pl_buf_size = pcfg_buf_size cfg,
      pl_shm_size = n + pcfg_buf_size cfg * ucast (pcfg_num_bufs cfg),
      pl_local_pool_addr = local_pool_shm addr + ucast n, pl_remote_pool_addr = remote_pool_shm addr + ucast n,
      pl_bd_queue = q\<rparr>)"

lemma pool_of_sel [simp]:
  "pl_num_bufs (pool_of addr cfg) = pcfg_num_bufs cfg" "pl_buf_size (pool_of addr cfg) = pcfg_buf_size cfg"
  "pl_bd_queue (pool_of addr cfg) = queue_of (pool_queue_data addr cfg)"
  by (simp_all add: pool_of_def Let_def)

lemma pool_queue_data_sel [simp]:
  "qd_elem_size (pool_queue_data addr cfg) = 8" "qd_elem_num (pool_queue_data addr cfg) = pcfg_num_bufs cfg"
  "qd_push_addr (pool_queue_data addr cfg) = local_pool_shm addr" "qd_pop_addr (pool_queue_data addr cfg) = remote_pool_shm addr"
  "qd_queue_type (pool_queue_data addr cfg) = IPC_SHM_POOL_QUEUE"
  by (simp_all add: pool_queue_data_def sizeof_ipc_shm_bd_def)

text \<open>The function up to the queue's initialisation, and after it.\<close>

definition pool_rest :: "'w platform \<Rightarrow> u8 \<Rightarrow> u8 \<Rightarrow> nat \<Rightarrow> ipc_shm_pool_addr \<Rightarrow> ipc_shm_pool_cfg \<Rightarrow> 'w shm_state \<Rightarrow> (int \<times> 'w shm_state) option" where
  "pool_rest P i c k addr cfg st3 = do {
         local \<leftarrow> os_get_local_shm P i (st_env st3);
         priv \<leftarrow> priv_at i st3;
         if local_pool_shm addr + ucast (pl_shm_size (pool_of addr cfg)) > local + ucast (pv_shm_size priv) then Some (- ENOMEM, st3)
         else do {
           (err, st4) \<leftarrow> populate_pool i c k [0..<unat (pcfg_num_bufs cfg)] st3;
           if err \<noteq> 0 then Some (err, st4)
           else do {
             st5 \<leftarrow> upd_mem (store_u64 (ring_sentinel (local_pool_shm addr)) IPC_QUEUE_INIT_DONE) st4;
             Some (0, st5) } } }"

lemma pool_init_steps:
  assumes gm: "get_managed_chan i c st = Some (Some mc)" and gp: "get_pool i c k st = Some pool"
    and n: "pcfg_num_bufs cfg \<le> IPC_SHM_MAX_BUFS_PER_POOL"
    and qi: "ipc_queue_init (Some (pl_bd_queue pool)) (pool_queue_data addr cfg) (st_mem st) = Some (err, Some q, m)"
  shows "\<exists>st'. upd_pool i c k (\<lambda>pl. pl\<lparr>pl_num_bufs := pcfg_num_bufs cfg, pl_buf_size := pcfg_buf_size cfg, pl_bd_queue := q\<rparr>)
           (st\<lparr>st_mem := m\<rparr>) = Some st' \<and> (err \<noteq> 0 \<longrightarrow> ipc_buf_pool_init P i c k addr cfg st = Some (err, st'))"
    and "err = 0 \<Longrightarrow> q = queue_of (pool_queue_data addr cfg) \<Longrightarrow>
         \<exists>st'. upd_pool i c k (\<lambda>pl. pool_of addr cfg) (st\<lparr>st_mem := m\<rparr>) = Some st' \<and>
               ipc_buf_pool_init P i c k addr cfg st = pool_rest P i c k addr cfg st'"
proof -
  let ?f = "\<lambda>pl. pl\<lparr>pl_num_bufs := pcfg_num_bufs cfg, pl_buf_size := pcfg_buf_size cfg\<rparr>"
  obtain st1 where st1: "upd_pool i c k ?f st = Some st1" using upd_pool_total [OF gp] by blast
  have p1: "get_pool i c k st1 = Some (?f pool)" "st_mem st1 = st_mem st"
    using get_upd_pool [OF st1] gp by auto
  have "\<exists>st2. upd_pool i c k (\<lambda>pl. pl\<lparr>pl_bd_queue := q\<rparr>) (st1\<lparr>st_mem := m\<rparr>) = Some st2"
    using upd_pool_total [of i c k "st1\<lparr>st_mem := m\<rparr>" "?f pool"] p1(1) by simp
  then obtain st2 where st2: "upd_pool i c k (\<lambda>pl. pl\<lparr>pl_bd_queue := q\<rparr>) (st1\<lparr>st_mem := m\<rparr>) = Some st2" by blast
  have eq2: "upd_pool i c k (\<lambda>pl. pl\<lparr>pl_num_bufs := pcfg_num_bufs cfg, pl_buf_size := pcfg_buf_size cfg, pl_bd_queue := q\<rparr>)
           (st\<lparr>st_mem := m\<rparr>) = Some st2"
    using upd_pool_upd_pool [OF st1, of "\<lambda>pl. pl\<lparr>pl_bd_queue := q\<rparr>" m] st2 by simp
  have qi1: "ipc_queue_init (Some (pl_bd_queue (?f pool))) (pool_queue_data addr cfg) (st_mem st1) = Some (err, Some q, m)"
    using qi p1(2) by simp
  have nn: "\<not> pcfg_num_bufs cfg > IPC_SHM_MAX_BUFS_PER_POOL" using n by simp
  show "\<exists>st'. upd_pool i c k (\<lambda>pl. pl\<lparr>pl_num_bufs := pcfg_num_bufs cfg, pl_buf_size := pcfg_buf_size cfg, pl_bd_queue := q\<rparr>)
           (st\<lparr>st_mem := m\<rparr>) = Some st' \<and> (err \<noteq> 0 \<longrightarrow> ipc_buf_pool_init P i c k addr cfg st = Some (err, st'))"
    using eq2 st1 st2 p1(1) qi1 gm nn by (auto simp: ipc_buf_pool_init_def)
  assume e: "err = 0" and q: "q = queue_of (pool_queue_data addr cfg)"
  let ?n = "ipc_queue_mem_size q"
  let ?g = "\<lambda>pl. pl\<lparr>pl_local_pool_addr := local_pool_shm addr + ucast ?n, pl_remote_pool_addr := remote_pool_shm addr + ucast ?n,
              pl_shm_size := pl_shm_size (pool_of addr cfg)\<rparr>"
  have sz: "?n + pcfg_buf_size cfg * ucast (pcfg_num_bufs cfg) = pl_shm_size (pool_of addr cfg)"
    by (simp add: q pool_of_def Let_def)
  have eq3: "upd_pool i c k ?g st2 = upd_pool i c k (\<lambda>pl. pool_of addr cfg) (st\<lparr>st_mem := m\<rparr>)"
  proof -
    have "(\<lambda>pl. ?g (pl\<lparr>pl_num_bufs := pcfg_num_bufs cfg, pl_buf_size := pcfg_buf_size cfg, pl_bd_queue := q\<rparr>)) = (\<lambda>pl. pool_of addr cfg)"
    proof
      fix pl :: ipc_shm_pool
      show "?g (pl\<lparr>pl_num_bufs := pcfg_num_bufs cfg, pl_buf_size := pcfg_buf_size cfg, pl_bd_queue := q\<rparr>) = pool_of addr cfg"
        by (cases pl) (simp add: pool_of_def Let_def q)
    qed
    moreover have "st2\<lparr>st_mem := m\<rparr> = st2" using get_upd_pool(2) [OF eq2] by (cases st2) simp
    ultimately show ?thesis using upd_pool_upd_pool [OF eq2, of ?g m] by simp
  qed
  have "\<exists>st'. upd_pool i c k (\<lambda>pl. pool_of addr cfg) (st\<lparr>st_mem := m\<rparr>) = Some st'"
    by (rule upd_pool_total) (simp add: gp)
  moreover have "ipc_buf_pool_init P i c k addr cfg st = do { st' \<leftarrow> upd_pool i c k ?g st2; pool_rest P i c k addr cfg st' }"
    using st1 st2 p1(1) qi1 gm nn e
    by (simp add: ipc_buf_pool_init_def pool_rest_def Let_def sz [unfolded q] q cong: if_cong)
  ultimately show "\<exists>st'. upd_pool i c k (\<lambda>pl. pool_of addr cfg) (st\<lparr>st_mem := m\<rparr>) = Some st' \<and>
               ipc_buf_pool_init P i c k addr cfg st = pool_rest P i c k addr cfg st'"
    using eq3 by auto
qed

text \<open>Setting the sentinel of the local ring publishes the queue and changes nothing else about it.\<close>

lemma publish_ok:
  assumes wf: "queue_wf q m"
  shows "\<exists>m'. store_u64 (ring_sentinel (push_ring q)) v m = Some m' \<and> load_u64 m' (ring_sentinel (push_ring q)) = Some v \<and>
           queue_wf q m' \<and> tx_bds m' q = tx_bds m q \<and> rx_bds m' q = rx_bds m q \<and>
           same_except (region (push_ring q) (ring_bytes q)) m m'"
proof -
  let ?p = "push_ring q" and ?sz = "unat (elem_size q)"
  have rm: "rings_mapped q m" using wf by (simp add: queue_wf_def rings_mapped_def)
  have "mapped m (ring_sentinel ?p) 8"
    unfolding ring_offsets by (rule ring_field_mapped [of _ _ q]) (use wf in \<open>simp_all add: queue_wf_def\<close>)
  then obtain m' where m': "store_u64 (ring_sentinel ?p) v m = Some m'" using store_u64_ok by blast
  have se: "same_except (region ?p 8) m m'" using store_u64_same_except [OF m'] by (simp add: ring_sentinel_def)
  have se16: "same_except (region ?p sizeof_ipc_ring) m m'"
    by (rule same_except_mono [OF se]) (simp add: region_mono sizeof_ipc_ring_def)
  note e = header_effect [OF rm se16]
  have ap: "region (?p + of_nat k) n \<inter> region ?p 8 = {}" if "8 \<le> k" "k + n \<le> 2 ^ 32" for k n
    using same_ring_apart [of k n 0 8 ?p] that by simp
  have w: "wr_idx m' ?p = wr_idx m ?p" "rd_idx m' ?p = rd_idx m ?p"
    unfolding wr_idx_def rd_idx_def ring_offsets by (subst load_u32_same_except [OF se ap]; simp)+
  have sl: "slot_at m' ?p ?sz j = slot_at m ?p ?sz j" if "j < unat (elem_num q)" for j
    unfolding slot_at_def slot_addr_def
    by (subst load_bytes_same_except [OF se ap]) (use slot_bound [OF that] ring_bytes_bound [of q] in \<open>simp_all\<close>)
  have "queue_wf q m'" using wf w e(1,2) by (simp add: queue_wf_def same_except_mapped [OF se])
  moreover have "tx_list m' q = tx_list m q" "rx_list m' q = rx_list m q"
    unfolding tx_list_def rx_list_def w e(1,2)
    by (rule ring_elems_cong; use wf sl e(5) in \<open>auto simp: queue_wf_def\<close>)+
  moreover have "same_except (region ?p (ring_bytes q)) m m'"
    by (rule same_except_mono [OF se region_mono]) (use ring_bytes_ge [of q] in linarith)
  ultimately show ?thesis using m' load_store_u64 [OF m'] by (auto simp: tx_bds_def rx_bds_def)
qed

lemma priv_at_mem [simp]: "priv_at i (st\<lparr>st_mem := m\<rparr>) = priv_at i st"
  by (simp add: priv_at_def)

lemma pool_rest_ok:
  assumes l: "os_get_local_shm P i (st_env st) = Some local" and p: "priv_at i st = Some pv"
    and gp: "get_pool i c k st = Some (pool_of addr cfg)" and q: "q = queue_of (pool_queue_data addr cfg)"
    and wf: "queue_wf q (st_mem st)" and tx: "tx_bds (st_mem st) q = []" and n: "pcfg_num_bufs cfg + 1 \<noteq> 0"
    and fits: "local_pool_shm addr + ucast (pl_shm_size (pool_of addr cfg)) \<le> local + ucast (pv_shm_size pv)"
  shows "\<exists>m'. pool_rest P i c k addr cfg st = Some (0, st\<lparr>st_mem := m'\<rparr>) \<and> queue_wf q m' \<and>
           load_u64 m' (ring_sentinel (push_ring q)) = Some IPC_QUEUE_INIT_DONE \<and>
           tx_bds m' q = map (free_bd k) [0..<unat (pcfg_num_bufs cfg)] \<and>
           rx_bds m' q = rx_bds (st_mem st) q \<and> same_except (region (push_ring q) (ring_bytes q)) (st_mem st) m'"
proof -
  have "unat (pcfg_num_bufs cfg) < unat (pcfg_num_bufs cfg + 1)" using n by (simp add: unatSuc add.commute)
  then have "\<exists>m1. populate_pool i c k [0..<unat (pcfg_num_bufs cfg)] st = Some (0, st\<lparr>st_mem := m1\<rparr>) \<and>
       tx_bds m1 q = map (free_bd k) [0..<unat (pcfg_num_bufs cfg)] \<and> rx_bds m1 q = rx_bds (st_mem st) q \<and> queue_wf q m1 \<and>
       same_except (region (push_ring q) (ring_bytes q)) (st_mem st) m1"
    using populate_ok [of "pool_of addr cfg" st i c k "[0..<unat (pcfg_num_bufs cfg)]"] wf gp tx q by simp
  then obtain m1 where m1: "populate_pool i c k [0..<unat (pcfg_num_bufs cfg)] st = Some (0, st\<lparr>st_mem := m1\<rparr>)"
      "tx_bds m1 q = map (free_bd k) [0..<unat (pcfg_num_bufs cfg)]" "rx_bds m1 q = rx_bds (st_mem st) q" "queue_wf q m1"
      "same_except (region (push_ring q) (ring_bytes q)) (st_mem st) m1" by blast
  from publish_ok [OF m1(4), of IPC_QUEUE_INIT_DONE] obtain m2 where
    m2: "store_u64 (ring_sentinel (push_ring q)) IPC_QUEUE_INIT_DONE m1 = Some m2"
      "load_u64 m2 (ring_sentinel (push_ring q)) = Some IPC_QUEUE_INIT_DONE" "queue_wf q m2" "tx_bds m2 q = tx_bds m1 q"
      "rx_bds m2 q = rx_bds m1 q" "same_except (region (push_ring q) (ring_bytes q)) m1 m2" by blast
  have "pool_rest P i c k addr cfg st = Some (0, st\<lparr>st_mem := m2\<rparr>)"
    using l p fits m1(1) m2(1) q by (simp add: pool_rest_def upd_mem_def not_less)
  with m1 m2 same_except_trans [OF m1(5) m2(6)] show ?thesis by auto
qed

lemma pool_init_cases:
  assumes gm: "get_managed_chan i c st = Some (Some mc)" and gp: "get_pool i c k st = Some pool"
    and p: "priv_at i st = Some pv" and l: "os_get_local_shm P i (st_env st) = Some local"
    and q: "q = queue_of (pool_queue_data addr cfg)" and rm: "rings_mapped q (st_mem st)"
    and s: "load_u64 (st_mem st) (ring_sentinel (remote_pool_shm addr)) = Some s"
    and idx: "wr_idx (st_mem st) (remote_pool_shm addr) < unat (elem_num q)" "rd_idx (st_mem st) (remote_pool_shm addr) < unat (elem_num q)"
    and fresh: "s = IPC_QUEUE_INIT_DONE \<or> wr_idx (st_mem st) (remote_pool_shm addr) = 0 \<and> rd_idx (st_mem st) (remote_pool_shm addr) = 0"
  shows "\<exists>err st'. ipc_buf_pool_init P i c k addr cfg st = Some (err, st') \<and>
     (if pcfg_num_bufs cfg > IPC_SHM_MAX_BUFS_PER_POOL then err = - EINVAL \<and> st' = st
      else if pcfg_num_bufs cfg = 0 then err = - EINVAL \<and> st_mem st' = st_mem st
      else if s = IPC_QUEUE_INIT_IN_PROGRESS then err = - EAGAIN \<and> st_mem st' = st_mem st
      else if local_pool_shm addr + ucast (pl_shm_size (pool_of addr cfg)) > local + ucast (pv_shm_size pv)
      then err = - ENOMEM \<and> load_u64 (st_mem st') (ring_sentinel (local_pool_shm addr)) = Some IPC_QUEUE_INIT_IN_PROGRESS
      else err = 0 \<and> queue_wf q (st_mem st') \<and>
           load_u64 (st_mem st') (ring_sentinel (local_pool_shm addr)) = Some IPC_QUEUE_INIT_DONE \<and>
           tx_bds (st_mem st') q = map (free_bd k) [0..<unat (pcfg_num_bufs cfg)] \<and>
           get_pool i c k st' = Some (pool_of addr cfg) \<and>
           same_except (region (local_pool_shm addr) (ring_bytes q)) (st_mem st) (st_mem st'))"
proof -
  let ?qd = "pool_queue_data addr cfg"
  have ad: "local_pool_shm addr \<noteq> 0" "remote_pool_shm addr \<noteq> 0" using rm q by (auto simp: rings_mapped_def)
  have ok: "qd_ok ?qd \<longleftrightarrow> pcfg_num_bufs cfg \<noteq> 0" using ad by (simp add: qd_ok_def)
  consider (many) "pcfg_num_bufs cfg > IPC_SHM_MAX_BUFS_PER_POOL"
    | (none) "pcfg_num_bufs cfg = 0"
    | (busy) "pcfg_num_bufs cfg \<le> IPC_SHM_MAX_BUFS_PER_POOL" "pcfg_num_bufs cfg \<noteq> 0" "s = IPC_QUEUE_INIT_IN_PROGRESS"
    | (free) "pcfg_num_bufs cfg \<le> IPC_SHM_MAX_BUFS_PER_POOL" "pcfg_num_bufs cfg \<noteq> 0" "s \<noteq> IPC_QUEUE_INIT_IN_PROGRESS"
    by (meson not_le)
  then show ?thesis
  proof cases
    case many
    then show ?thesis using gm by (simp add: ipc_buf_pool_init_def)
  next
    case none
    then have "ipc_queue_init (Some (pl_bd_queue pool)) ?qd (st_mem st) = Some (- EINVAL, Some (pl_bd_queue pool), st_mem st)"
      using ok by (simp add: init_eq)
    from pool_init_steps(1) [OF gm gp _ this, of P] none get_upd_pool(2) show ?thesis
      by (fastforce simp: IPC_SHM_MAX_BUFS_PER_POOL_def)
  next
    case busy
    then have "ipc_queue_init (Some (pl_bd_queue pool)) ?qd (st_mem st) = Some (- EAGAIN, Some q, st_mem st)"
      using ok sync_busy [of "st_mem st" q] s q by (simp add: init_eq)
    from pool_init_steps(1) [OF gm gp busy(1) this, of P] busy get_upd_pool(2) show ?thesis by fastforce
  next
    case free
    have "\<exists>m'. ipc_queue_sync_index q IPC_SHM_POOL_QUEUE (st_mem st) = Some (0, m') \<and> queue_wf q m' \<and> tx_list m' q = [] \<and>
         load_u64 m' (ring_sentinel (push_ring q)) = Some IPC_QUEUE_INIT_IN_PROGRESS \<and>
         same_except (region (push_ring q) sizeof_ipc_ring) (st_mem st) m'"
      using sync_lists [OF rm _ free(3), of IPC_SHM_POOL_QUEUE] s idx fresh q by simp blast
    then obtain m where m: "ipc_queue_init (Some (pl_bd_queue pool)) ?qd (st_mem st) = Some (0, Some q, m)" "queue_wf q m"
        "tx_bds m q = []" "load_u64 m (ring_sentinel (push_ring q)) = Some IPC_QUEUE_INIT_IN_PROGRESS"
      and se: "same_except (region (push_ring q) sizeof_ipc_ring) (st_mem st) m"
      using ok free(2) q by (auto simp: init_eq tx_bds_def)
    from pool_init_steps(2) [OF gm gp free(1) m(1) _ q, of P] obtain st1 where
      st1: "upd_pool i c k (\<lambda>pl. pool_of addr cfg) (st\<lparr>st_mem := m\<rparr>) = Some st1"
      and run: "ipc_buf_pool_init P i c k addr cfg st = pool_rest P i c k addr cfg st1" by auto
    note g = get_upd_pool [OF st1]
    from g(1) have gp1: "get_pool i c k st1 = Some (pool_of addr cfg)" by auto
    from g(4) p obtain pv1 where pv1: "priv_at i st1 = Some pv1" "pv_shm_size pv1 = pv_shm_size pv" by auto
    have l1: "os_get_local_shm P i (st_env st1) = Some local" using g(3) l by simp
    have m1: "st_mem st1 = m" using g(2) by simp
    show ?thesis
    proof (cases "local_pool_shm addr + ucast (pl_shm_size (pool_of addr cfg)) > local + ucast (pv_shm_size pv)")
      case True
      then have "pool_rest P i c k addr cfg st1 = Some (- ENOMEM, st1)" using l1 pv1 by (simp add: pool_rest_def)
      then show ?thesis using run free True m(4) m1 q by (simp add: not_less [symmetric])
    next
      case False
      have nz: "pcfg_num_bufs cfg + 1 \<noteq> 0" using idx q by auto
      have fits: "local_pool_shm addr + ucast (pl_shm_size (pool_of addr cfg)) \<le> local + ucast (pv_shm_size pv1)"
        using False pv1(2) by simp
      from pool_rest_ok [OF l1 pv1(1) gp1 q _ _ nz fits] m m1 obtain m' where
        m': "pool_rest P i c k addr cfg st1 = Some (0, st1\<lparr>st_mem := m'\<rparr>)" "queue_wf q m'"
          "load_u64 m' (ring_sentinel (push_ring q)) = Some IPC_QUEUE_INIT_DONE"
          "tx_bds m' q = map (free_bd k) [0..<unat (pcfg_num_bufs cfg)]" "same_except (region (push_ring q) (ring_bytes q)) m m'"
        by auto
      have "same_except (region (push_ring q) (ring_bytes q)) (st_mem st) m"
        by (rule same_except_mono [OF se]) (use ring_bytes_ge [of q] in \<open>simp add: region_mono sizeof_ipc_ring_def\<close>)
      with m'(5) have "same_except (region (push_ring q) (ring_bytes q)) (st_mem st) m'" by (rule same_except_trans [rotated])
      with run free False m' q gp1 show ?thesis by simp
    qed
  qed
qed



text \<open>
  The test that a pool fits wraps. The size of a pool is computed in 32 bits, so for a pool of
  4096 buffers of 1 MiB it is that of the descriptor ring alone: the pool is accepted in any shared
  memory that has room for the ring, and its buffers extend 4 GiB from there.
\<close>

theorem pool_fit_check_wraps:
  assumes "get_managed_chan i c st = Some (Some mc)" "get_pool i c k st = Some pool"
    and "priv_at i st = Some pv" "os_get_local_shm P i (st_env st) = Some local"
    and cfg: "cfg = \<lparr>pcfg_num_bufs = 4096, pcfg_buf_size = 0x100000\<rparr>"
    and "q = queue_of (pool_queue_data addr cfg)" "rings_mapped q (st_mem st)"
    and "load_u64 (st_mem st) (ring_sentinel (remote_pool_shm addr)) = Some 0"
    and "wr_idx (st_mem st) (remote_pool_shm addr) = 0" "rd_idx (st_mem st) (remote_pool_shm addr) = 0"
    and fits: "local_pool_shm addr + 32792 \<le> local + ucast (pv_shm_size pv)"
  shows "\<exists>st'. ipc_buf_pool_init P i c k addr cfg st = Some (0, st') \<and>
           get_pool i c k st' = Some (pool_of addr cfg) \<and> pl_shm_size (pool_of addr cfg) = 32792 \<and>
           unat (pl_num_bufs (pool_of addr cfg)) * unat (pl_buf_size (pool_of addr cfg)) = 2 ^ 32"
proof -
  have sz: "pl_shm_size (pool_of addr cfg) = 32792"
    by (simp add: cfg pool_of_def Let_def ipc_queue_mem_size_def sizeof_ipc_ring_def)
  have n: "\<not> pcfg_num_bufs cfg > IPC_SHM_MAX_BUFS_PER_POOL" "pcfg_num_bufs cfg \<noteq> 0" "unat (elem_num q) = 4097"
    "\<not> local_pool_shm addr + ucast (32792 :: u32) > local + ucast (pv_shm_size pv)"
    using fits assms(6) by (simp_all add: cfg IPC_SHM_MAX_BUFS_PER_POOL_def)
  have "\<exists>err st'. ipc_buf_pool_init P i c k addr cfg st = Some (err, st') \<and> err = 0 \<and> get_pool i c k st' = Some (pool_of addr cfg)"
    using pool_init_cases [OF assms(1-4,6-8)] assms(9,10) n(3)
    unfolding sz if_not_P [OF n(1)] if_not_P [OF n(2)] if_not_P [OF n(4)] if_not_P [OF sentinels_distinct(4) [symmetric]] by auto
  then show ?thesis using sz by (auto simp: cfg)
qed

definition demo_blank :: "demo_world shm_state" where
  "demo_blank = (demo_state 0x10000 0x20000)\<lparr>st_mem := zero_ram 0x10000 0x30000,
     st_priv := [\<lparr>pv_shm_size = 0x10000, pv_num_channels = 1, pv_channels = replicate 8 no_chan, pv_global = 0x10000\<rparr>,
                 no_priv, no_priv, no_priv]\<rparr>"

theorem pool_fit_check_wraps_witness:
  "\<exists>st'. ipc_buf_pool_init (demo_platform 0x10000 0x20000) 0 0 0 \<lparr>local_pool_shm = 0x10038, remote_pool_shm = 0x20038\<rparr>
            \<lparr>pcfg_num_bufs = 4096, pcfg_buf_size = 0x100000\<rparr> demo_blank = Some (0, st')"
proof -
  let ?a = "\<lparr>local_pool_shm = 0x10038, remote_pool_shm = 0x20038\<rparr>" and ?c = "\<lparr>pcfg_num_bufs = 4096, pcfg_buf_size = 0x100000\<rparr>"
  let ?q = "queue_of (pool_queue_data ?a ?c)"
  have gm: "get_managed_chan 0 0 demo_blank = Some (Some (ch_mng no_chan))"
    by (simp add: demo_blank_def get_managed_chan_def get_channel_def get_channel_priv_def priv_at_def no_chan_def)
  have gp: "get_pool 0 0 0 demo_blank = Some no_pool"
    by (simp add: demo_blank_def get_pool_def get_channel_priv_def priv_at_def no_chan_def)
  have pv: "priv_at 0 demo_blank = Some \<lparr>pv_shm_size = 0x10000, pv_num_channels = 1, pv_channels = replicate 8 no_chan, pv_global = 0x10000\<rparr>"
    by (simp add: demo_blank_def priv_at_def)
  have m: "st_mem demo_blank = zero_ram 0x10000 0x30000" by (simp add: demo_blank_def)
  have rb: "ring_bytes ?q = 0x8018" by (simp add: ring_bytes_def sizeof_ipc_ring_def)
  have rm: "rings_mapped ?q (st_mem demo_blank)"
    by (simp add: rings_mapped_def rb m mapped_zero_ram apart_either)
  show ?thesis
    using pool_fit_check_wraps [OF gm gp pv demo_local(1) [of "0x10000" "0x20000"] refl refl rm]
    by (simp add: m ring_sentinel_def wr_idx_def rd_idx_def ring_write_def ring_read_def load_zero_ram) blast
qed

end
