(* ===== verification/Shm_Inst.thy ===== *)
theory Shm_Inst
  imports Shm_Init Shm_Umng
begin

text \<open>
  The life cycle of instances: which fields of the private data the channel-level operations keep,
  the state an instance is in after initialisation and release on every path, the error codes that
  can come up, and the checks that initialisation does not make.
\<close>

section \<open>What channel-level operations keep\<close>

definition heads :: "'w shm_state \<Rightarrow> (u64 \<times> u32 \<times> u8) list" where
  "heads st = map (\<lambda>p. (pv_global p, pv_shm_size p, pv_num_channels p)) (st_priv st)"

named_theorems heads_keep "channel-level operations keep the instances' own fields"

lemma heads_mem [simp]: "heads (st\<lparr>st_mem := m\<rparr>) = heads st"
  by (simp add: heads_def)

lemma heads_env [simp]: "heads (st\<lparr>st_env := w\<rparr>) = heads st"
  by (simp add: heads_def)

lemma heads_upd_mem [heads_keep]: "upd_mem f st = Some st' \<Longrightarrow> heads st' = heads st"
  by (auto simp: upd_mem_def split: Option.bind_splits)

lemma heads_upd_env [heads_keep]: "upd_env f st = Some st' \<Longrightarrow> heads st' = heads st"
  by (auto simp: upd_env_def split: Option.bind_splits)

lemma heads_upd_channel [heads_keep]: "upd_channel i c f st = Some st' \<Longrightarrow> heads st' = heads st"
  by (auto simp: upd_channel_def upd_priv_def heads_def get_channel_priv_def priv_at_def nth_opt_def map_update
      split: Option.bind_splits if_splits intro!: list_update_same_conv [THEN iffD2])

lemma heads_upd_managed [heads_keep]: "upd_managed i c f st = Some st' \<Longrightarrow> heads st' = heads st"
  by (auto simp: upd_managed_def heads_keep)

lemma heads_upd_pool [heads_keep]: "upd_pool i c k f st = Some st' \<Longrightarrow> heads st' = heads st"
  by (auto simp: upd_pool_def heads_keep split: Option.bind_splits)

lemma heads_populate [heads_keep]: "populate_pool i c k bs st = Some (e, st') \<Longrightarrow> heads st' = heads st"
  by (induction bs arbitrary: st) (auto split: Option.bind_splits if_splits)

lemma heads_pool_init [heads_keep]: "ipc_buf_pool_init P i c k addr cfg st = Some (e, st') \<Longrightarrow> heads st' = heads st"
  by (auto simp: ipc_buf_pool_init_def Let_def split: Option.bind_splits if_splits dest!: heads_keep)

lemma heads_init_pools [heads_keep]: "init_pools P i c pools ks addr st = Some (e, st') \<Longrightarrow> heads st' = heads st"
  by (induction ks arbitrary: addr st) (auto split: Option.bind_splits if_splits dest!: heads_pool_init)

lemma heads_total_bufs [heads_keep]: "ipc_get_total_buf_per_chan i c cfg pools st = Some (n, st') \<Longrightarrow> heads st' = heads st"
  by (auto simp: ipc_get_total_buf_per_chan_def split: Option.bind_splits dest!: heads_keep)

lemma heads_managed_init [heads_keep]: "managed_channel_init P i c l r cfg st = Some (e, st') \<Longrightarrow> heads st' = heads st"
  by (auto simp: managed_channel_init_def Let_def split: Option.bind_splits if_splits option.splits dest!: heads_keep)

lemma heads_unmanaged_init [heads_keep]: "unmanaged_channel_init i c l r cfg st = Some (e, st') \<Longrightarrow> heads st' = heads st"
  by (auto simp: unmanaged_channel_init_def split: Option.bind_splits if_splits dest!: heads_keep)

lemma heads_init_channels [heads_keep]: "ipc_shm_init_channels P i c l r cfg st = Some (e, st') \<Longrightarrow> heads st' = heads st"
  by (auto simp: ipc_shm_init_channels_def split: Option.bind_splits option.splits ipc_shm_channel_type.splits dest!: heads_keep)

lemma heads_free_pools [heads_keep]: "free_pools i c ks st = Some st' \<Longrightarrow> heads st' = heads st"
  by (induction ks arbitrary: st) (auto split: Option.bind_splits if_splits dest!: heads_upd_pool)

lemma heads_free_managed [heads_keep]: "ipc_shm_free_managed_channel i c st = Some st' \<Longrightarrow> heads st' = heads st"
  by (auto simp: ipc_shm_free_managed_channel_def split: Option.bind_splits if_splits dest!: heads_keep)

lemma heads_free_channel [heads_keep]: "ipc_shm_free_channel i c t st = Some st' \<Longrightarrow> heads st' = heads st"
  by (auto simp: ipc_shm_free_channel_def split: Option.bind_splits if_splits ipc_shm_channel_type.splits dest!: heads_keep)

lemma heads_free_cfg [heads_keep]: "free_cfg_channels i cfgs cs st = Some st' \<Longrightarrow> heads st' = heads st"
  by (induction cs arbitrary: st) (auto split: Option.bind_splits dest!: heads_free_channel)

lemma heads_free_loop [heads_keep]: "free_channels_loop i cs st = Some st' \<Longrightarrow> heads st' = heads st"
  by (induction cs arbitrary: st) (auto split: Option.bind_splits dest!: heads_free_channel)

definition global_at :: "u8 \<Rightarrow> 'w shm_state \<Rightarrow> u64 option" where
  "global_at i st = map_option pv_global (priv_at i st)"

lemma global_at_nth: "global_at i st = map_option fst (nth_opt (heads st) (unat i))"
  by (simp add: global_at_def priv_at_def nth_opt_def heads_def)

lemma global_at_heads: "heads st' = heads st \<Longrightarrow> global_at i st' = global_at i st"
  by (simp add: global_at_nth)

lemma global_at_upd_priv:
  assumes "upd_priv i f st = Some st'"
  shows "\<exists>p. priv_at i st = Some p \<and> global_at i st' = Some (pv_global (f p))"
    and "j \<noteq> i \<Longrightarrow> global_at j st' = global_at j st"
  using assms upd_priv_other [OF assms] priv_at_upd_priv [OF assms]
  by (auto simp: upd_priv_Some global_at_def)

lemma global_at_mem [simp]: "global_at i (st\<lparr>st_mem := m\<rparr>) = global_at i st" "global_at i (st\<lparr>st_env := w\<rparr>) = global_at i st"
  by (simp_all add: global_at_def priv_at_def)

lemma is_free_global:
  "unat i < IPC_SHM_MAX_INSTANCES \<Longrightarrow> global_at i st = Some 0 \<Longrightarrow> ipc_instance_is_free i st = Some IPC_SHM_INSTANCE_FREE"
  by (auto simp: ipc_instance_is_free_def global_at_def)

lemma is_used_global:
  "unat i < IPC_SHM_MAX_INSTANCES \<Longrightarrow> global_at i st = Some g \<Longrightarrow> g \<noteq> 0 \<Longrightarrow>
   load_u64 (st_mem st) g = Some IPC_SHM_STATE_READY \<Longrightarrow> ipc_instance_is_free i st = Some IPC_SHM_INSTANCE_USED"
  by (auto simp: ipc_instance_is_free_def global_at_def IPC_SHM_STATE_READY_def IPC_SHM_STATE_CLEAR_def)

section \<open>Error codes\<close>

definition init_codes :: "int set" where
  "init_codes = {0, - EINVAL, - EAGAIN, - ENOMEM}"

named_theorems codes "the error codes of initialisation"

lemma code_consts [simp]: "0 \<in> init_codes" "- EINVAL \<in> init_codes" "- EAGAIN \<in> init_codes" "- ENOMEM \<in> init_codes"
  by (simp_all add: init_codes_def)

lemma code_push [codes]: "ipc_queue_push q buf m = Some (e, m') \<Longrightarrow> e \<in> init_codes"
  by (auto simp: ipc_queue_push_def init_codes_def Let_def split: Option.bind_splits if_splits option.splits)

lemma code_queue_init [codes]: "ipc_queue_init q qd m = Some (e, r) \<Longrightarrow> e \<in> init_codes"
  by (auto simp: ipc_queue_init_def ipc_queue_sync_index_def init_codes_def Let_def
      split: Option.bind_splits if_splits option.splits)

lemma code_populate [codes]: "populate_pool i c k bs st = Some (e, st') \<Longrightarrow> e \<in> init_codes"
  by (induction bs arbitrary: st) (auto split: Option.bind_splits if_splits dest!: code_push)

lemma code_pool_init [codes]: "ipc_buf_pool_init P i c k addr cfg st = Some (e, st') \<Longrightarrow> e \<in> init_codes"
  by (auto simp: ipc_buf_pool_init_def Let_def split: Option.bind_splits if_splits dest!: codes)

lemma code_init_pools [codes]: "init_pools P i c pools ks addr st = Some (e, st') \<Longrightarrow> e \<in> init_codes"
  by (induction ks arbitrary: addr st) (auto split: Option.bind_splits if_splits dest!: code_pool_init)

lemma code_managed [codes]: "managed_channel_init P i c l r cfg st = Some (e, st') \<Longrightarrow> e \<in> init_codes"
  by (auto simp: managed_channel_init_def Let_def split: Option.bind_splits if_splits option.splits dest!: codes)

lemma code_unmanaged [codes]: "unmanaged_channel_init i c l r cfg st = Some (e, st') \<Longrightarrow> e \<in> init_codes"
  by (auto simp: unmanaged_channel_init_def split: Option.bind_splits if_splits)

lemma code_init_channels [codes]: "ipc_shm_init_channels P i c l r cfg st = Some (e, st') \<Longrightarrow> e \<in> init_codes"
  by (auto simp: ipc_shm_init_channels_def split: Option.bind_splits option.splits ipc_shm_channel_type.splits dest!: codes)

lemma int8_init_codes: "e \<in> init_codes \<Longrightarrow> int8 e = e"
  by (auto simp: init_codes_def)

section \<open>The life cycle\<close>

lemma rollback_frees: "init_rollback P i cfg st = Some st' \<Longrightarrow> global_at i st' = Some 0"
proof -
  assume "init_rollback P i cfg st = Some st'"
  then obtain st1 st2 m w where st1: "upd_priv i (\<lambda>p. p\<lparr>pv_global := 0\<rparr>) st = Some st1"
    and st2: "heads st2 = heads st1" and st': "upd_env (hw_free P i) (st2\<lparr>st_mem := m, st_env := w\<rparr>) = Some st'"
    by (auto simp: init_rollback_def split: Option.bind_splits option.splits dest: heads_free_cfg)
  have "global_at i st1 = Some 0" using global_at_upd_priv(1) [OF st1] by auto
  with heads_upd_env [OF st'] st2 show ?thesis by (metis global_at_heads heads_mem heads_env)
qed

lemma init_loop_outcome:
  "init_channels_loop P i cfg cs l r st = Some (e, st') \<Longrightarrow>
   e \<in> init_codes \<and> (if e = 0 then heads st' = heads st else global_at i st' = Some 0)"
proof (induction cs arbitrary: l r st)
  case (Cons c cs)
  from Cons.prems obtain ccfg e1 st1 where cf: "elem_ptr (cfg_channels cfg) c = Some ccfg"
    and r1: "ipc_shm_init_channels P i (of_nat c) l r ccfg st = Some (e1, st1)"
    by (auto split: Option.bind_splits if_splits)
  have rest: "(e1 \<noteq> 0 \<and> init_rollback P i cfg st1 = Some st' \<and> e = e1) \<or>
      (e1 = 0 \<and> (\<exists>n. init_channels_loop P i cfg cs (l + ucast (n :: u32)) (r + ucast n) st1 = Some (e, st')))"
    using Cons.prems cf r1 by (auto split: Option.bind_splits if_splits)
  show ?case
  proof (cases "e1 = 0")
    case True
    with rest obtain n where "init_channels_loop P i cfg cs (l + ucast (n :: u32)) (r + ucast n) st1 = Some (e, st')" by auto
    from Cons.IH [OF this] heads_init_channels [OF r1] show ?thesis by auto
  next
    case False
    with rest code_init_channels [OF r1] rollback_frees show ?thesis by auto
  qed
qed simp

text \<open>
  What is assumed of the layers below: the codes that they return fit the \<open>int8_t\<close> in which the
  driver hands them on, and releasing the operating system's resources at most unmaps memory.
\<close>

definition platform_codes :: "'w platform \<Rightarrow> bool" where
  "platform_codes P \<longleftrightarrow>
     (\<forall>i cf w e w'. hw_init P i cf w = Some (e, w') \<longrightarrow> - 128 \<le> e \<and> e < 128) \<and>
     (\<forall>i cf m w e r. os_init P i cf m w = Some (e, r) \<longrightarrow> - 128 \<le> e \<and> e < 128)"

definition only_clears :: "memory \<Rightarrow> memory \<Rightarrow> bool" where
  "only_clears m m' \<longleftrightarrow> (\<forall>a. m' a = m a \<or> (m a \<noteq> None \<and> m' a = Some 0) \<or> m' a = None)"

definition os_unmaps :: "'w platform \<Rightarrow> bool" where
  "os_unmaps P \<longleftrightarrow> (\<forall>i m w m' w'. os_free P i m w = Some (m', w') \<longrightarrow> (\<forall>a. m' a = m a \<or> m' a = None))"

text \<open>An instance is either in use or has no global data.\<close>

definition settled :: "u8 \<Rightarrow> 'w shm_state \<Rightarrow> bool" where
  "settled i st \<longleftrightarrow> ipc_instance_is_free i st = Some IPC_SHM_INSTANCE_USED \<or> global_at i st = Some 0"

lemma platform_code_nonzero:
  assumes "platform_codes P" "e \<noteq> 0"
  shows "hw_init P i cf w = Some (e, w') \<Longrightarrow> int8 e \<noteq> 0" "os_init P i cf m w = Some (e, r) \<Longrightarrow> int8 e \<noteq> 0"
  using assms unfolding platform_codes_def by (metis int8_id)+

lemma init_instance_state:
  assumes run: "ipc_shm_init_instance P i (Some cf) st = Some (e, st')" and g: "global_at i st = Some 0"
    and i: "unat i < IPC_SHM_MAX_INSTANCES" and pc: "platform_codes P"
  shows "if e = 0 then ipc_instance_is_free i st' = Some IPC_SHM_INSTANCE_USED else global_at i st' = Some 0"
proof (cases "cfg_local_shm_addr cf = 0 \<or> cfg_remote_shm_addr cf = 0 \<or> cfg_num_channels cf < 1 \<or>
    unat (cfg_num_channels cf) > IPC_SHM_MAX_CHANNELS")
  case True
  then show ?thesis using run g is_free_global [OF i g] by (auto simp: ipc_shm_init_instance_def split: if_splits)
next
  case False
  have fr: "ipc_instance_is_free i st = Some IPC_SHM_INSTANCE_FREE" by (rule is_free_global [OF i g])
  from run False fr obtain st1 e1 w1 where
    st1: "upd_priv i (\<lambda>p. p\<lparr>pv_shm_size := cfg_shm_size cf, pv_num_channels := cfg_num_channels cf\<rparr>) st = Some st1"
    and hw: "hw_init P i cf (st_env st1) = Some (e1, w1)" 
    by (auto simp: ipc_shm_init_instance_def Let_def split: Option.bind_splits)
  have g1: "global_at i st1 = Some 0" using global_at_upd_priv(1) [OF st1] g by (auto simp: global_at_def)
  show ?thesis
  proof (cases "e1 = 0")
    case e1: False
    then have "st' = st1\<lparr>st_env := w1\<rparr>" "e = int8 e1" using run False fr st1 hw
      by (auto simp: ipc_shm_init_instance_def Let_def split: Option.bind_splits)
    moreover have "int8 e1 \<noteq> 0" using platform_code_nonzero(1) [OF pc e1 hw] .
    ultimately show ?thesis using g1 by simp
  next
    case e1: True
    from run False fr st1 hw e1 obtain e2 m2 w2 where
      os: "os_init P i cf (st_mem st1) w1 = Some (e2, m2, w2)"
      by (auto simp: ipc_shm_init_instance_def Let_def split: Option.bind_splits)
    show ?thesis
    proof (cases "e2 = 0")
      case e2: False
      then obtain st3 where "upd_env (hw_free P i) (st1\<lparr>st_mem := m2, st_env := w2\<rparr>) = Some st3" "st' = st3" "e = int8 e2"
        using run False fr st1 hw e1 os by (auto simp: ipc_shm_init_instance_def Let_def split: Option.bind_splits)
      moreover have "int8 e2 \<noteq> 0" using platform_code_nonzero(2) [OF pc e2 os] .
      ultimately show ?thesis using g1 global_at_heads [OF heads_upd_env] by fastforce
    next
      case e2: True
      from run False fr st1 hw e1 os e2 obtain local st3 st4 remote e5 st5 where
        st3: "upd_priv i (\<lambda>p. p\<lparr>pv_global := local\<rparr>) (st1\<lparr>st_mem := m2, st_env := w2\<rparr>) = Some st3"
        and l: "local \<noteq> 0" and st4: "upd_mem (store_u64 local IPC_SHM_STATE_CLEAR) st3 = Some st4"
        and st5: "init_channels_loop P i cf [0..<unat (cfg_num_channels cf)]
                   (local + ucast sizeof_ipc_shm_global) (remote + ucast sizeof_ipc_shm_global) st4 = Some (e5, st5)"
        and rest: "(e5 \<noteq> 0 \<and> e = int8 e5 \<and> st' = st5) \<or>
          (e5 = 0 \<and> e = 0 \<and> (\<exists>st6 p. upd_env (hw_irq_enable P i) st5 = Some st6 \<and> priv_at i st6 = Some p \<and>
             upd_mem (store_u64 (pv_global p) IPC_SHM_STATE_READY) st6 = Some st'))"
        by (auto simp: ipc_shm_init_instance_def Let_def split: Option.bind_splits if_splits)
      note lo = init_loop_outcome [OF st5]
      show ?thesis
      proof (cases "e5 = 0")
        case True
        with rest obtain st6 p where e0: "e = 0" and st6: "upd_env (hw_irq_enable P i) st5 = Some st6" "priv_at i st6 = Some p"
          and st': "upd_mem (store_u64 (pv_global p) IPC_SHM_STATE_READY) st6 = Some st'" by blast
        have "heads st6 = heads st3" using lo True heads_upd_env [OF st6(1)] heads_upd_mem [OF st4] by simp
        moreover have "global_at i st3 = Some local" using global_at_upd_priv(1) [OF st3] by auto
        ultimately have g6: "global_at i st6 = Some local" using global_at_heads by metis
        with st6(2) have p: "pv_global p = local" by (simp add: global_at_def)
        from st' obtain m where "store_u64 local IPC_SHM_STATE_READY (st_mem st6) = Some m" "st' = st6\<lparr>st_mem := m\<rparr>"
          by (auto simp: upd_mem_def p split: Option.bind_splits)
        with g6 have "global_at i st' = Some local" "load_u64 (st_mem st') local = Some IPC_SHM_STATE_READY"
          by (auto simp: load_store_u64)
        then show ?thesis using e0 is_used_global [OF i _ l] by simp
      next
        case False
        with rest lo show ?thesis using int8_init_codes [of e5] by auto
      qed
    qed
  qed
qed

section \<open>Release\<close>

named_theorems clears "release only clears or unmaps memory"

lemma only_clears_refl [simp]: "only_clears m m"
  by (simp add: only_clears_def)

lemma only_clears_trans: "only_clears m m1 \<Longrightarrow> only_clears m1 m2 \<Longrightarrow> only_clears m m2"
  unfolding only_clears_def by metis

lemma store_bytes_clears:
  assumes "store_bytes a (replicate n 0) m = Some m'"
  shows "only_clears m m'"
proof -
  have m': "mapped m a n" "m' = (\<lambda>x. if unat (x - a) < n then Some (replicate n 0 ! unat (x - a)) else m x)"
    using assms by (auto simp: store_bytes_def split: if_splits)
  moreover have "m x \<noteq> None" if "unat (x - a) < n" for x
    using m'(1) that by (auto simp: mapped_def list_all_iff dest!: bspec [of _ _ "unat (x - a)"])
  ultimately show ?thesis by (auto simp: only_clears_def)
qed

lemma le_bytes_zero: "le_bytes n 0 = replicate n 0"
  by (induction n) simp_all

lemma store_u32_clears [clears]: "store_u32 a 0 m = Some m' \<Longrightarrow> only_clears m m'"
  using store_bytes_clears by (auto simp: store_u32_def le_bytes_zero)

lemma store_u64_clears [clears]: "store_u64 a 0 m = Some m' \<Longrightarrow> only_clears m m'"
  using store_bytes_clears by (auto simp: store_u64_def le_bytes_zero)

lemma le_nat_eq_0: "le_nat bs = 0 \<longleftrightarrow> (\<forall>b \<in> set bs. b = 0)"
  by (induction bs) (auto simp: unat_eq_0)

lemma load_u64_zero_iff: "load_u64 m a = Some 0 \<longleftrightarrow> (\<forall>k < 8. m (a + of_nat k) = Some 0)"
proof -
  have nz: "word_of_nat (le_nat bs) = (0 :: u64) \<longleftrightarrow> le_nat bs = 0" if "length bs = 8" for bs
    using le_nat_less [of bs] that by (auto simp: word_of_nat_eq_0_iff dest: nat_dvd_not_less)
  show ?thesis
    by (auto simp: load_u64_def load_bytes_def mapped_def list_all_iff nz le_nat_eq_0 split: Option.bind_splits if_splits)
      (metis atLeastLessThan_iff bot_nat_0.extremum option.sel)
qed

lemma load_u64_clears:
  assumes cl: "only_clears m m'" and v: "load_u64 m' a = Some v" "v \<noteq> 0"
  shows "\<exists>v. load_u64 m a = Some v \<and> v \<noteq> 0"
proof (rule ccontr)
  assume no: "\<not> ?thesis"
  have "m' (a + of_nat k) \<noteq> None" if "k < 8" for k
    using v(1) that by (auto simp: load_u64_def load_bytes_def mapped_def list_all_iff split: Option.bind_splits if_splits)
  with cl have st: "m' (a + of_nat k) = m (a + of_nat k) \<or> m' (a + of_nat k) = Some 0" "m (a + of_nat k) \<noteq> None" if "k < 8" for k
    using that unfolding only_clears_def by metis+
  have "mapped m a 8" using st(2) by (simp add: mapped_def list_all_iff)
  then obtain u where "load_u64 m a = Some u" using load_u64_ok by blast
  with no have "load_u64 m a = Some 0" by simp
  then have "load_u64 m' a = Some 0" using st(1) unfolding load_u64_zero_iff by metis
  with v show False by simp
qed

lemma queue_free_clears [clears]: "ipc_queue_free q m = Some (q', m') \<Longrightarrow> only_clears m m'"
  by (auto simp: ipc_queue_free_def split: Option.bind_splits if_splits option.splits dest!: clears
      intro: only_clears_trans)

lemma upd_channel_mem: "upd_channel i c f st = Some st' \<Longrightarrow> st_mem st' = st_mem st"
  by (auto simp: upd_channel_def upd_priv_def split: Option.bind_splits)

lemma upd_managed_mem: "upd_managed i c f st = Some st' \<Longrightarrow> st_mem st' = st_mem st"
  by (auto simp: upd_managed_def upd_channel_mem)

lemma free_pools_clears [clears]: "free_pools i c ks st = Some st' \<Longrightarrow> only_clears (st_mem st) (st_mem st')"
proof (induction ks arbitrary: st)
  case (Cons k ks)
  then show ?case
    by (fastforce split: Option.bind_splits if_splits dest: queue_free_clears get_upd_pool(2) intro: only_clears_trans)
qed simp

lemma free_managed_clears [clears]:
  "ipc_shm_free_managed_channel i c st = Some st' \<Longrightarrow> only_clears (st_mem st) (st_mem st')"
  by (fastforce simp: ipc_shm_free_managed_channel_def split: Option.bind_splits if_splits
      dest: queue_free_clears free_pools_clears upd_managed_mem intro: only_clears_trans)

lemma free_channel_clears [clears]:
  "ipc_shm_free_channel i c t st = Some st' \<Longrightarrow> only_clears (st_mem st) (st_mem st')"
  by (auto simp: ipc_shm_free_channel_def split: Option.bind_splits if_splits ipc_shm_channel_type.splits
      dest!: clears upd_channel_mem intro: only_clears_trans)

lemma free_loop_clears [clears]: "free_channels_loop i cs st = Some st' \<Longrightarrow> only_clears (st_mem st) (st_mem st')"
  by (induction cs arbitrary: st) (auto split: Option.bind_splits dest!: free_channel_clears intro: only_clears_trans)

lemma free_instance_used:
  assumes run: "ipc_shm_free_instance P i st = Some st'" and u: "ipc_instance_is_free i st = Some IPC_SHM_INSTANCE_USED"
    and os: "os_unmaps P"
  shows "global_at i st' = Some 0" and "j \<noteq> i \<Longrightarrow> global_at j st' = global_at j st"
    and "only_clears (st_mem st) (st_mem st')"
proof -
  from run u obtain p st1 st2 st3 st4 m w where "priv_at i st = Some p"
    and st1: "upd_mem (store_u64 (pv_global p) IPC_SHM_STATE_CLEAR) st = Some st1"
    and st2: "upd_priv i (\<lambda>p. p\<lparr>pv_global := 0\<rparr>) st1 = Some st2"
    and st3: "upd_env (hw_irq_disable P i) st2 = Some st3"
    and st4: "free_channels_loop i [0..<unat (pv_num_channels p)] st3 = Some st4"
    and fr: "os_free P i (st_mem st4) (st_env st4) = Some (m, w)"
    and st': "upd_env (hw_free P i) (st4\<lparr>st_mem := m, st_env := w\<rparr>) = Some st'"
    by (auto simp: ipc_shm_free_instance_def split: Option.bind_splits)
  have h: "heads st' = heads st2" using heads_upd_env [OF st3] heads_free_loop [OF st4] heads_upd_env [OF st'] by simp
  then have g: "global_at k st' = global_at k st2" for k by (rule global_at_heads)
  show "global_at i st' = Some 0" using g global_at_upd_priv(1) [OF st2] by auto
  show "global_at j st' = global_at j st" if "j \<noteq> i"
    using g global_at_upd_priv(2) [OF st2 that] global_at_heads [OF heads_upd_mem [OF st1]] by simp
  have "only_clears (st_mem st) (st_mem st1)" "st_mem st2 = st_mem st1" "st_mem st3 = st_mem st2"
    using st1 st3 upd_priv_keeps [OF st2]
    by (auto simp: upd_mem_def upd_env_def IPC_SHM_STATE_CLEAR_def split: Option.bind_splits dest: clears)
  moreover have "only_clears (st_mem st3) (st_mem st4)" by (rule free_loop_clears [OF st4])
  moreover have "only_clears (st_mem st4) m" using os fr unfolding os_unmaps_def only_clears_def by metis
  moreover have "st_mem st' = m" using st' by (auto simp: upd_env_def split: Option.bind_splits)
  ultimately show "only_clears (st_mem st) (st_mem st')" by (metis only_clears_trans)
qed

lemma free_instance_unused:
  "ipc_shm_free_instance P i st = Some st' \<Longrightarrow> ipc_instance_is_free i st \<noteq> Some IPC_SHM_INSTANCE_USED \<Longrightarrow> st' = st"
  by (auto simp: ipc_shm_free_instance_def split: Option.bind_splits if_splits)

text \<open>An instance that is not in use stays so when others are released.\<close>

lemma used_iff:
  "ipc_instance_is_free i st = Some IPC_SHM_INSTANCE_USED \<longleftrightarrow>
   unat i < IPC_SHM_MAX_INSTANCES \<and> (\<exists>g v. global_at i st = Some g \<and> g \<noteq> 0 \<and> load_u64 (st_mem st) g = Some v \<and> v \<noteq> 0)"
  by (auto simp: ipc_instance_is_free_def global_at_def IPC_SHM_STATE_CLEAR_def split: Option.bind_splits)

lemma unused_clears:
  assumes "global_at k st' = global_at k st" "only_clears (st_mem st) (st_mem st')"
    and "ipc_instance_is_free k st \<noteq> Some IPC_SHM_INSTANCE_USED"
  shows "ipc_instance_is_free k st' \<noteq> Some IPC_SHM_INSTANCE_USED"
  using assms load_u64_clears [OF assms(2)] unfolding used_iff by metis

lemma free_step:
  assumes run: "(if used = IPC_SHM_INSTANCE_USED then ipc_shm_free_instance P i st else Some st) = Some st1"
    and u: "ipc_instance_is_free i st = Some used" and os: "os_unmaps P" and i: "unat i < IPC_SHM_MAX_INSTANCES"
  shows "only_clears (st_mem st) (st_mem st1)" and "ipc_instance_is_free i st1 \<noteq> Some IPC_SHM_INSTANCE_USED"
    and "\<And>k. k \<noteq> i \<Longrightarrow> global_at k st1 = global_at k st"
  using run u free_instance_used [OF _ _ os, of i st st1] is_free_global [OF i, of st1] by (auto split: if_splits)

lemma free_instances_unused:
  assumes "free_instances_loop P ks st = Some st'" "os_unmaps P" "\<forall>k \<in> set ks. k < IPC_SHM_MAX_INSTANCES"
  shows "only_clears (st_mem st) (st_mem st') \<and>
    (\<forall>i. unat i \<in> set ks \<or> ipc_instance_is_free i st \<noteq> Some IPC_SHM_INSTANCE_USED \<longrightarrow>
       ipc_instance_is_free i st' \<noteq> Some IPC_SHM_INSTANCE_USED)"
  using assms
proof (induction ks arbitrary: st)
  case (Cons k ks)
  from Cons.prems(3) have k: "unat (of_nat k :: u8) = k" "k < IPC_SHM_MAX_INSTANCES"
    by (simp_all add: limit_defs unat_of_nat take_bit_nat_eq_self)
  from Cons.prems(1) obtain used st1 where u: "ipc_instance_is_free (of_nat k) st = Some used"
    and st1: "(if used = IPC_SHM_INSTANCE_USED then ipc_shm_free_instance P (of_nat k) st else Some st) = Some st1"
    and rest: "free_instances_loop P ks st1 = Some st'"
    by (auto split: Option.bind_splits)
  have f: "only_clears (st_mem st) (st_mem st1)" "ipc_instance_is_free (of_nat k) st1 \<noteq> Some IPC_SHM_INSTANCE_USED"
    "\<And>i. i \<noteq> of_nat k \<Longrightarrow> global_at i st1 = global_at i st"
    using free_step [OF st1 u Cons.prems(2)] k by auto
  note ih = Cons.IH [OF rest Cons.prems(2)]
  have keep: "ipc_instance_is_free i st1 \<noteq> Some IPC_SHM_INSTANCE_USED"
    if "unat i = k \<or> ipc_instance_is_free i st \<noteq> Some IPC_SHM_INSTANCE_USED" for i
  proof (cases "i = of_nat k")
    case False
    then have "unat i \<noteq> k" by auto
    with that show ?thesis using unused_clears [OF f(3) [OF False] f(1)] by simp
  qed (use f(2) in simp)
  show ?case using ih keep f(1) Cons.prems(3) only_clears_trans by auto
qed auto

section \<open>A concrete start and stop\<close>

definition demo_ucfg :: ipc_shm_unmanaged_cfg where
  "demo_ucfg = \<lparr>ucfg_size = 0x40, ucfg_rx_cb = 0x1234, ucfg_cb_arg = 0\<rparr>"

definition demo_cfg :: ipc_shm_cfg where
  "demo_cfg = \<lparr>cfg_local_shm_addr = 0x10000, cfg_remote_shm_addr = 0x20000, cfg_shm_size = 0x1000,
     cfg_inter_core_tx_irq = 2, cfg_inter_core_rx_irq = 1,
     cfg_local_core = \<lparr>lcore_type = IPC_CORE_DEFAULT, lcore_index = IPC_CORE_INDEX_0, lcore_trusted = 0\<rparr>,
     cfg_remote_core = \<lparr>rcore_type = IPC_CORE_DEFAULT, rcore_index = IPC_CORE_INDEX_0\<rparr>,
     cfg_num_channels = 1,
     cfg_channels = Some [\<lparr>ccfg_type = IPC_SHM_UNMANAGED,
       ccfg_managed = \<lparr>mcfg_num_pools = 0, mcfg_pools = None, mcfg_rx_cb = 0, mcfg_cb_arg = 0\<rparr>,
       ccfg_unmanaged = demo_ucfg\<rparr>]\<rparr>"

lemma demo_platform_ok: "platform_codes (demo_platform l r)" "os_unmaps (demo_platform l r)"
  by (simp_all add: platform_codes_def os_unmaps_def demo_platform_def)

lemma demo_platform_sel:
  "hw_init (demo_platform l r) i cf w = Some (0, w)" "os_init (demo_platform l r) i cf m w = Some (0, m, w)"
  "hw_irq_enable (demo_platform l r) i w = Some w" "hw_irq_disable (demo_platform l r) i w = Some w"
  "hw_free (demo_platform l r) i w = Some w" "os_free (demo_platform l r) i m w = Some (m, w)"
  by (simp_all add: demo_platform_def)

lemma demo_settled: "settled 1 (demo_ustate l r)" "settled 0 (demo_ustate 0x10000 0x20000)"
  by (simp_all add: settled_def global_at_def priv_at_def demo_ustate_def no_priv_def ipc_instance_is_free_def limit_defs
      demo_uwords IPC_SHM_STATE_READY_def IPC_SHM_STATE_CLEAR_def)

lemma demo_start: "\<exists>st'. ipc_shm_init_instance (demo_platform 0x10000 0x20000) 1 (Some demo_cfg) (demo_ustate 0x10000 0x20000) = Some (0, st')"
proof -
  let ?P = "demo_platform 0x10000 0x20000" and ?st = "demo_ustate 0x10000 0x20000"
  let ?pv = "\<lparr>pv_shm_size = 0x1000, pv_num_channels = 1, pv_channels = replicate 8 no_chan, pv_global = 0x10000\<rparr>"
  let ?ch = "no_chan\<lparr>ch_id := 0, ch_type := IPC_SHM_UNMANAGED\<rparr>"
  obtain m1 where m1: "store_u64 0x10000 IPC_SHM_STATE_CLEAR demo_ushm = Some m1"
    using store_u64_ok [of demo_ushm "0x10000"] demo_umapped by fastforce
  have se: "same_except (region 0x10000 8) demo_ushm m1" by (rule store_u64_same_except [OF m1])
  let ?st4 = "?st\<lparr>st_priv := (st_priv ?st)[1 := ?pv], st_mem := m1\<rparr>"
  let ?st5 = "?st4\<lparr>st_priv := (st_priv ?st4)[1 := ?pv\<lparr>pv_channels := (replicate 8 no_chan)[0 := ?ch]\<rparr>]\<rparr>"
  have ld: "load_u32 m1 0x20008 = Some IPC_UCHAN_INIT_DONE"
    by (subst load_u32_same_except [OF se]) (use demo_uwords apart_either [of "0x20008" 4 "0x10000" 8] in \<open>simp_all add: apart_def\<close>)
  have gu: "get_unmanaged_chan 1 0 ?st5 = Some (Some ?ch)"
    by (simp add: get_unmanaged_chan_def get_channel_def get_channel_priv_def priv_at_def demo_ustate_def)
  have "\<exists>st1 m'. upd_channel 1 0 (uchan_conf 0x10008 0x20008 demo_ucfg) ?st5 = Some st1 \<and>
      unmanaged_channel_init 1 0 0x10008 0x20008 demo_ucfg ?st5 = Some (0, st1\<lparr>st_mem := m'\<rparr>) \<and>
      same_except (region 0x10008 16) (st_mem ?st5) m'"
    using unmanaged_init_run [OF gu, of demo_ucfg "0x10008" "0x20008" IPC_UCHAN_INIT_DONE] ld
    by (simp add: demo_ucfg_def limit_defs same_except_mapped [OF se] demo_umapped apart_either umem_sentinel_def
        IPC_UCHAN_INIT_DONE_def IPC_SHM_UCHAN_INIT_IN_PROGRESS_def) blast
  then obtain st1 m' where st1: "upd_channel 1 0 (uchan_conf 0x10008 0x20008 demo_ucfg) ?st5 = Some st1"
    and ui: "unmanaged_channel_init 1 0 0x10008 0x20008 demo_ucfg ?st5 = Some (0, st1\<lparr>st_mem := m'\<rparr>)"
    and se': "same_except (region 0x10008 16) m1 m'" by auto
  obtain m2 where m2: "store_u64 0x10000 IPC_SHM_STATE_READY m' = Some m2"
    using store_u64_ok [of m' "0x10000"] demo_umapped [of "0x10000" 8]
    by (auto simp: same_except_mapped [OF se'] same_except_mapped [OF se])
  have ic: "ipc_shm_init_channels ?P 1 0 0x10008 0x20008 (Some \<lparr>ccfg_type = IPC_SHM_UNMANAGED,
       ccfg_managed = \<lparr>mcfg_num_pools = 0, mcfg_pools = None, mcfg_rx_cb = 0, mcfg_cb_arg = 0\<rparr>, ccfg_unmanaged = demo_ucfg\<rparr>) ?st4
     = Some (0, st1\<lparr>st_mem := m'\<rparr>)"
    using ui by (simp add: ipc_shm_init_channels_def upd_channel_def upd_priv_def get_channel_priv_def priv_at_def demo_ustate_def)
  have sz: "get_chan_memmap_size 1 0 (st1\<lparr>st_mem := m'\<rparr>) = Some 0x50"
    using st1 by (auto simp: get_chan_memmap_size_def upd_channel_def upd_priv_def get_channel_priv_def priv_at_def demo_ustate_def
        uchan_conf_def set_umem_def sizeof_ipc_channel_umem_def demo_ucfg_def)
  have g: "priv_at 1 st1 = Some pv \<Longrightarrow> pv_global pv = 0x10000" "\<exists>pv. priv_at 1 st1 = Some pv" for pv
    using st1 by (auto simp: upd_channel_def upd_priv_def get_channel_priv_def priv_at_def demo_ustate_def)
  have loop: "init_channels_loop ?P 1 demo_cfg [0] 0x10008 0x20008 ?st4 = Some (0, st1\<lparr>st_mem := m'\<rparr>)"
    using ic sz by (simp add: demo_cfg_def elem_ptr_def)
  have st4: "upd_priv 1 (\<lambda>p. p\<lparr>pv_shm_size := cfg_shm_size demo_cfg, pv_num_channels := cfg_num_channels demo_cfg\<rparr>) ?st = Some st0 \<Longrightarrow>
     upd_priv 1 (\<lambda>p. p\<lparr>pv_global := 0x10000\<rparr>) st0 = Some (?st4\<lparr>st_mem := demo_ushm\<rparr>)"
    "\<exists>st0. upd_priv 1 (\<lambda>p. p\<lparr>pv_shm_size := cfg_shm_size demo_cfg, pv_num_channels := cfg_num_channels demo_cfg\<rparr>) ?st = Some st0 \<and> st_mem st0 = demo_ushm" for st0
    by (auto simp: upd_priv_def priv_at_def demo_ustate_def demo_cfg_def no_priv_def)
  from st4(2) obtain st0 where st0:
    "upd_priv 1 (\<lambda>p. p\<lparr>pv_shm_size := cfg_shm_size demo_cfg, pv_num_channels := cfg_num_channels demo_cfg\<rparr>) ?st = Some st0"
    "st_mem st0 = demo_ushm" by blast
  have fr: "ipc_instance_is_free 1 ?st = Some IPC_SHM_INSTANCE_FREE"
    by (simp add: ipc_instance_is_free_def limit_defs priv_at_def demo_ustate_def no_priv_def)
  have cf: "cfg_local_shm_addr demo_cfg \<noteq> 0" "cfg_remote_shm_addr demo_cfg \<noteq> 0" "cfg_num_channels demo_cfg = 1"
    by (simp_all add: demo_cfg_def)
  obtain pv where pv: "priv_at 1 st1 = Some pv" "pv_global pv = 0x10000" using g by blast
  have "ipc_shm_init_instance ?P 1 (Some demo_cfg) ?st = Some (0, st1\<lparr>st_mem := m2\<rparr>)"
    using fr cf st0 st4(1) [OF st0(1)] m1 loop pv m2
    by (simp add: ipc_shm_init_instance_def limit_defs demo_platform_sel demo_local Let_def sizeof_ipc_shm_global_def upd_mem_def upd_env_def
        del: init_channels_loop.simps)
  then show ?thesis by blast
qed

lemma demo_stop: "\<exists>st'. ipc_shm_free_instance (demo_platform 0x10000 0x20000) 0 (demo_ustate 0x10000 0x20000) = Some st'"
proof -
  let ?P = "demo_platform 0x10000 0x20000" and ?st = "demo_ustate 0x10000 0x20000"
  obtain m1 where m1: "store_u64 0x10000 IPC_SHM_STATE_CLEAR demo_ushm = Some m1"
    using store_u64_ok [of demo_ushm "0x10000"] demo_umapped by fastforce
  note k1 = same_except_mapped [OF store_u64_same_except [OF m1]]
  obtain m2 where m2: "store_u32 0x10008 0 m1 = Some m2"
    using store_u32_ok [of m1 "0x10008" 0] demo_umapped [of "0x10008" 4] k1 by auto
  note k2 = same_except_mapped [OF store_u32_same_except [OF m2]]
  obtain m3 where m3: "store_u32 0x1000C 0 m2 = Some m3"
    using store_u32_ok [of m2 "0x1000C" 0] demo_umapped [of "0x1000C" 4] k1 k2 by auto
  note k3 = same_except_mapped [OF store_u32_same_except [OF m3]]
  obtain m4 where m4: "store_u32 0x10010 0 m3 = Some m4"
    using store_u32_ok [of m3 "0x10010" 0] demo_umapped [of "0x10010" 4] k1 k2 k3 by auto
  have u: "ipc_instance_is_free 0 ?st = Some IPC_SHM_INSTANCE_USED"
    using demo_settled(2) by (simp add: settled_def global_at_def demo_ustate_sel)
  let ?ch = "demo_uchan 0x10000 0x20000"
  have pv: "priv_at 0 (?st\<lparr>st_mem := m1\<rparr>) = Some \<lparr>pv_shm_size = 0x1000, pv_num_channels = 1,
     pv_channels = ?ch # replicate 7 no_chan, pv_global = 0x10000\<rparr>" by (simp add: demo_ustate_sel)
  then obtain st2 where st2: "upd_priv 0 (\<lambda>p. p\<lparr>pv_global := 0\<rparr>) (?st\<lparr>st_mem := m1\<rparr>) = Some st2" by (simp add: upd_priv_def)
  have ch: "get_channel_priv 0 0 st2 = Some ?ch" and mem: "st_mem st2 = m1"
    using priv_at_upd_priv [OF st2 pv] upd_priv_keeps [OF st2] by (simp_all add: get_channel_priv_def)
  have "get_channel_priv 0 0 (st2\<lparr>st_mem := m4\<rparr>) = Some ?ch" using ch by (simp add: get_channel_priv_def)
  from upd_channel_total [OF this] obtain st4 where
    st4: "upd_channel 0 0 (\<lambda>ch. set_umem 0 (remote_mem ch) ch) (st2\<lparr>st_mem := m4\<rparr>) = Some st4" by blast
  have fc: "free_channels_loop 0 [0..<unat (1 :: u8)] st2 = Some st4"
    using ch mem st4 m2 m3 m4
    by (simp add: ipc_shm_free_channel_def demo_ustate_sel umem_sentinel_def umem_tx_count_def umem_remote_tx_count_def)
  show ?thesis using u m1 pv st2 fc
    by (simp add: ipc_shm_free_instance_def upd_mem_def upd_env_def demo_platform_sel demo_ustate_sel)
qed

lemma demo_stop_all: "\<exists>st'. ipc_shm_free (demo_platform 0x10000 0x20000) (demo_ustate 0x10000 0x20000) = Some st'"
proof -
  let ?P = "demo_platform 0x10000 0x20000" and ?st = "demo_ustate 0x10000 0x20000"
  from demo_stop obtain st1 where st1: "ipc_shm_free_instance ?P 0 ?st = Some st1" by blast
  have u: "ipc_instance_is_free 0 ?st = Some IPC_SHM_INSTANCE_USED"
    using demo_settled(2) by (simp add: settled_def global_at_def demo_ustate_sel)
  have "global_at j st1 = Some 0" if "j = 1 \<or> j = 2 \<or> j = 3" for j
    using free_instance_used(2) [OF st1 u demo_platform_ok(2), of j] that
    by (auto simp: global_at_def priv_at_def demo_ustate_def no_priv_def)
  then have "ipc_instance_is_free j st1 = Some IPC_SHM_INSTANCE_FREE" if "j = 1 \<or> j = 2 \<or> j = 3" for j
    using that is_free_global [of j st1] by (auto simp: limit_defs)
  then show ?thesis using u st1 by (simp add: ipc_shm_free_def limit_defs upt_rec)
qed

section \<open>Properties\<close>

text \<open>
  C29. The life cycle of an instance: initialisation. For any layers below whose error codes fit an
  \<open>int8_t\<close>: initialising an instance that is in use returns \<open>- EINVAL\<close> and changes nothing; on an
  instance that is not in use a return value of 0 means that it is in use afterwards, and any other
  return value that it is free again and without global data, wherever in the process the error
  occurred.
\<close>

theorem init_instance_lifecycle:
  assumes run: "ipc_shm_init_instance P i cfg st = Some (e, st')" and s: "settled i st"
    and i: "unat i < IPC_SHM_MAX_INSTANCES" and pc: "platform_codes P"
  shows "if ipc_instance_is_free i st = Some IPC_SHM_INSTANCE_USED then e = - EINVAL \<and> st' = st
         else if e = 0 then ipc_instance_is_free i st' = Some IPC_SHM_INSTANCE_USED
         else ipc_instance_is_free i st' = Some IPC_SHM_INSTANCE_FREE \<and> global_at i st' = Some 0"
proof (cases "ipc_instance_is_free i st = Some IPC_SHM_INSTANCE_USED")
  case True
  then show ?thesis using run by (auto simp: ipc_shm_init_instance_def)
next
  case False
  then have g: "global_at i st = Some 0" using s by (simp add: settled_def)
  show ?thesis
  proof (cases cfg)
    case None
    then show ?thesis using run g is_free_global [OF i g] by (auto simp: ipc_shm_init_instance_def split: if_splits)
  next
    case (Some cf)
    then show ?thesis using init_instance_state [OF run [unfolded Some] g i pc] False is_free_global [OF i, of st'] by auto
  qed
qed

theorem init_instance_lifecycle_witness:
  "\<exists>st'. ipc_shm_init_instance (demo_platform 0x10000 0x20000) 1 (Some demo_cfg) (demo_ustate 0x10000 0x20000) = Some (0, st') \<and>
          ipc_instance_is_free 1 st' = Some IPC_SHM_INSTANCE_USED"
proof -
  from demo_start obtain st' where run: "ipc_shm_init_instance (demo_platform 0x10000 0x20000) 1 (Some demo_cfg)
      (demo_ustate 0x10000 0x20000) = Some (0, st')" by blast
  have i: "unat (1 :: u8) < IPC_SHM_MAX_INSTANCES" by (simp add: limit_defs)
  show ?thesis using init_instance_lifecycle [OF run demo_settled(1) i demo_platform_ok(1)] run by (auto split: if_splits)
qed



text \<open>
  \<open>ipc_shm_free\<close> leaves no instance in use, and never writes anything but zeros.
\<close>

theorem shm_free_releases_all:
  assumes run: "ipc_shm_free P st = Some st'" and os: "os_unmaps P"
  shows "(\<forall>i. ipc_instance_is_free i st' \<noteq> Some IPC_SHM_INSTANCE_USED) \<and> only_clears (st_mem st) (st_mem st')"
proof -
  have lt: "\<forall>k \<in> set [0..<IPC_SHM_MAX_INSTANCES]. k < IPC_SHM_MAX_INSTANCES" by simp
  note f = free_instances_unused [OF run [unfolded ipc_shm_free_def] os lt]
  have "ipc_instance_is_free i st' \<noteq> Some IPC_SHM_INSTANCE_USED" for i
    using f by (cases "unat i < IPC_SHM_MAX_INSTANCES") (auto simp: ipc_instance_is_free_def)
  with f show ?thesis by blast
qed

theorem shm_free_releases_all_witness:
  "\<exists>st'. ipc_shm_free (demo_platform 0x10000 0x20000) (demo_ustate 0x10000 0x20000) = Some st' \<and>
          ipc_instance_is_free 0 st' \<noteq> Some IPC_SHM_INSTANCE_USED"
  using demo_stop_all shm_free_releases_all [OF _ demo_platform_ok(2)] by blast

section \<open>Checks that are not made\<close>

text \<open>
  The instance number is not checked by initialisation. For an instance number beyond the
  array of instances the test at the start of \<open>ipc_shm_init_instance\<close> lets the call through, and with
  an otherwise valid configuration it writes beyond \<open>ipc_shm_priv_data\<close>.
\<close>

theorem init_instance_out_of_bounds:
  assumes "length (st_priv st) = IPC_SHM_MAX_INSTANCES" and "unat i \<ge> IPC_SHM_MAX_INSTANCES"
    and "cfg_local_shm_addr cf \<noteq> 0" "cfg_remote_shm_addr cf \<noteq> 0"
    and "1 \<le> cfg_num_channels cf" "unat (cfg_num_channels cf) \<le> IPC_SHM_MAX_CHANNELS"
  shows "ipc_shm_init_instance P i (Some cf) st = None"
  using assms by (auto simp: ipc_shm_init_instance_def ipc_instance_is_free_def upd_priv_def priv_at_def)

theorem init_instance_out_of_bounds_witness:
  "ipc_shm_init_instance (demo_platform 0x10000 0x20000) 4 (Some demo_cfg) (demo_ustate 0x10000 0x20000) = None"
  by (rule init_instance_out_of_bounds) (simp_all add: demo_ustate_def demo_cfg_def limit_defs)

text \<open>
  \<open>ipc_shm_tx\<close> takes the channel number as an \<open>int\<close> but looks it up as a \<open>uint8_t\<close>: a channel number
  that differs by a multiple of 256 addresses the same channel instead of being refused.
\<close>

theorem tx_channel_number_wraps: "ipc_shm_tx P i (chan_id + 256 * k) buf len st = ipc_shm_tx P i chan_id buf len st"
proof -
  have "(word_of_int (chan_id + 256 * k) :: u8) = word_of_int chan_id"
  proof -
    have "(256 :: u8) = 0" by simp
    then show ?thesis by (simp only: of_int_add of_int_mult of_int_numeral mult_zero_left add_0_right)
  qed
  then show ?thesis by (simp only: ipc_shm_tx_def)
qed

end
