(* ===== verification/Hw.thy ===== *)
theory Hw
  imports Types
begin

text \<open>
  What the hardware layers of \<open>src/hw\<close> share: the accesses to memory-mapped registers, the layout of a
  register structure, the operations on the MSCM block that are written alike for several platforms
  (parametric in the layout), and the interface that the driver and the operating-system layers use
  (\<open>src/hw/ipc-hw.h\<close>).

  The kernel's register accessors and the device behind them are parameters (record \<open>mmio\<close>): a
  read may change the device, a write may have any effect. A register index outside its array or a
  NULL register block is a fault (\<open>None\<close>), as is an instance outside the array of private data.
\<close>

unbundle bit_operations_syntax

section \<open>Register accesses\<close>

record 'k mmio =
  io_readl :: "u64 \<Rightarrow> 'k \<Rightarrow> u32 \<times> 'k"
  io_writel :: "u32 \<Rightarrow> u64 \<Rightarrow> 'k \<Rightarrow> 'k"
  io_readw :: "u64 \<Rightarrow> 'k \<Rightarrow> u16 \<times> 'k"
  io_writew :: "u16 \<Rightarrow> u64 \<Rightarrow> 'k \<Rightarrow> 'k"
  io_map_intc :: "'k \<Rightarrow> u64 \<times> 'k"              \<comment> \<open>\<open>ipc_os_map_intc\<close> of the OS layer\<close>
  io_unmap_intc :: "u64 \<Rightarrow> 'k \<Rightarrow> 'k"           \<comment> \<open>\<open>ipc_os_unmap_intc\<close>\<close>

record ('p, 'k) hw_state =
  hw_privs :: "'p list"
  hw_dev :: 'k

definition hw_priv :: "u8 \<Rightarrow> ('p, 'k) hw_state \<Rightarrow> 'p option" where
  "hw_priv i h = nth_opt (hw_privs h) (unat i)"

definition set_hw_priv :: "u8 \<Rightarrow> 'p \<Rightarrow> ('p, 'k) hw_state \<Rightarrow> ('p, 'k) hw_state" where
  "set_hw_priv i p h = h\<lparr>hw_privs := (hw_privs h)[unat i := p]\<rparr>"

lemma hw_priv_set [simp]: "hw_priv i h = Some p \<Longrightarrow> hw_priv i (set_hw_priv i q h) = Some q"
  by (auto simp: hw_priv_def set_hw_priv_def nth_opt_def split: if_splits)

lemma hw_priv_set_other [simp]: "j \<noteq> i \<Longrightarrow> hw_priv j (set_hw_priv i q h) = hw_priv j h"
  by (auto simp: hw_priv_def set_hw_priv_def nth_opt_def word_unat_eq_iff nth_list_update)

lemma hw_priv_dev [simp]: "hw_priv i (h\<lparr>hw_dev := d\<rparr>) = hw_priv i h"
  by (simp add: hw_priv_def)

lemma hw_dev_set [simp]: "hw_dev (set_hw_priv i q h) = hw_dev h"
  by (simp add: set_hw_priv_def)

section \<open>Layout of a register structure\<close>

text \<open>
  A C structure as the list of its members, each with its name, the alignment of its type and its
  size in bytes; a member is placed at the next multiple of its alignment.
\<close>

type_synonym struct_member = "string \<times> nat \<times> nat"

definition align_up :: "nat \<Rightarrow> nat \<Rightarrow> nat" where
  "align_up a n = (n + (a - 1)) div a * a"

fun offsets_from :: "nat \<Rightarrow> struct_member list \<Rightarrow> (string \<times> nat) list" where
  "offsets_from n [] = []"
| "offsets_from n ((x, a, s) # ms) = (x, align_up a n) # offsets_from (align_up a n + s) ms"

definition offset_of :: "string \<Rightarrow> struct_member list \<Rightarrow> nat" where
  "offset_of x ms = (case map_of (offsets_from 0 ms) x of Some n \<Rightarrow> n | None \<Rightarrow> 0)"

lemma align_up_ge: "0 < a \<Longrightarrow> n \<le> align_up a n"
proof -
  assume a: "0 < a"
  have "n + (a - 1) = (n + (a - 1)) div a * a + (n + (a - 1)) mod a" by simp
  moreover have "(n + (a - 1)) mod a \<le> a - 1" using mod_less_divisor [OF a, of "n + (a - 1)"] by linarith
  ultimately show ?thesis unfolding align_up_def by linarith
qed

lemma align_up_dvd: "a dvd align_up a n"
  by (simp add: align_up_def)

text \<open>Members are placed in order and do not overlap.\<close>

lemma offsets_from_sorted:
  assumes "\<forall>(x, a, s) \<in> set ms. 0 < a"
  shows "\<forall>(x, m) \<in> set (offsets_from n ms). n \<le> m"
  using assms
proof (induction ms arbitrary: n)
  case (Cons e ms)
  obtain x a s where e: "e = (x, a, s)" by (cases e)
  have "n \<le> align_up a n" using Cons.prems by (auto simp: e intro: align_up_ge)
  moreover have "\<forall>(x, m) \<in> set (offsets_from (align_up a n + s) ms). align_up a n + s \<le> m"
    using Cons.IH Cons.prems by auto
  ultimately show ?case by (fastforce simp: e)
qed simp

section \<open>The MSCM block of the S32G2, S32R45 and S32G3 families\<close>

text \<open>
  Both platforms keep the same private data, and their interrupt operations are the same text over
  two register structures; \<open>mscm_layout\<close> is what these operations use of the structure.
\<close>

record ipc_hw_priv_type =
  hp_msi_tx_irq :: u8
  hp_msi_rx_irq :: u8
  hp_spi_index :: u8
  hp_mscm_tx_irq :: int
  hp_mscm_rx_irq :: int
  hp_remote_core :: int
  hp_local_core :: int
  hp_ipc_mscm :: u64

record mscm_layout =
  ml_CPXNUM :: nat
  ml_IRCPCFG :: nat
  ml_IRSPRC :: nat
  ml_IRSPRC_COUNT :: nat
  ml_IRCPnIRx :: nat
  ml_CP_COUNT :: nat
  ml_IRQ_COUNT :: nat

definition IPC_MSCM_IRCPnIGRn_INT_EN :: u32 where "IPC_MSCM_IRCPnIGRn_INT_EN = 1"
definition IPC_MSCM_IRCPCFG_LOCK :: u32 where "IPC_MSCM_IRCPCFG_LOCK = 0x80000000"
definition IPC_MSCM_IRSPRCn_GIC500 :: u16 where "IPC_MSCM_IRSPRCn_GIC500 = 1"

definition reg_at :: "u64 \<Rightarrow> nat \<Rightarrow> u64 option" where
  "reg_at base n = (if base = 0 then None else Some (base + of_nat n))"

definition IRSPRC_at :: "mscm_layout \<Rightarrow> u64 \<Rightarrow> int \<Rightarrow> u64 option" where
  "IRSPRC_at L base k =
     (if 0 \<le> k \<and> k < int (ml_IRSPRC_COUNT L) then reg_at base (ml_IRSPRC L + 2 * nat k) else None)"

definition IRCPnIRx_at :: "mscm_layout \<Rightarrow> u64 \<Rightarrow> int \<Rightarrow> int \<Rightarrow> nat \<Rightarrow> u64 option" where
  "IRCPnIRx_at L base core irq n =
     (if 0 \<le> core \<and> core < int (ml_CP_COUNT L) \<and> 0 \<le> irq \<and> irq < int (ml_IRQ_COUNT L)
      then reg_at base (ml_IRCPnIRx L + 8 * (nat core * ml_IRQ_COUNT L + nat irq) + n) else None)"

abbreviation IPC_ISR_at :: "mscm_layout \<Rightarrow> u64 \<Rightarrow> int \<Rightarrow> int \<Rightarrow> u64 option" where
  "IPC_ISR_at L base core irq \<equiv> IRCPnIRx_at L base core irq 0"

abbreviation IPC_IGR_at :: "mscm_layout \<Rightarrow> u64 \<Rightarrow> int \<Rightarrow> int \<Rightarrow> u64 option" where
  "IPC_IGR_at L base core irq \<equiv> IRCPnIRx_at L base core irq 4"

text \<open>Read, change and write back a 16-bit routing register.\<close>

definition rmw16 :: "'k mmio \<Rightarrow> u64 \<Rightarrow> (u16 \<Rightarrow> u16) \<Rightarrow> 'k \<Rightarrow> 'k" where
  "rmw16 M a f k = (case io_readw M a k of (v, k1) \<Rightarrow> io_writew M (f v) a k1)"

definition mscm_irq_enable :: "mscm_layout \<Rightarrow> 'k mmio \<Rightarrow> u8 \<Rightarrow> (ipc_hw_priv_type, 'k) hw_state \<Rightarrow>
    (ipc_hw_priv_type, 'k) hw_state option" where
  "mscm_irq_enable L M i h = do {
     p \<leftarrow> hw_priv i h;
     if hp_mscm_rx_irq p \<noteq> IPC_IRQ_NONE then do {
       a \<leftarrow> IRSPRC_at L (hp_ipc_mscm p) (uint (hp_spi_index p));
       Some (h\<lparr>hw_dev := rmw16 M a (\<lambda>v. v OR IPC_MSCM_IRSPRCn_GIC500) (hw_dev h)\<rparr>) }
     else Some h }"

definition mscm_irq_disable :: "mscm_layout \<Rightarrow> 'k mmio \<Rightarrow> u8 \<Rightarrow> (ipc_hw_priv_type, 'k) hw_state \<Rightarrow>
    (ipc_hw_priv_type, 'k) hw_state option" where
  "mscm_irq_disable L M i h = do {
     p \<leftarrow> hw_priv i h;
     if hp_mscm_rx_irq p \<noteq> IPC_IRQ_NONE then do {
       a \<leftarrow> IRSPRC_at L (hp_ipc_mscm p) (uint (hp_spi_index p));
       Some (h\<lparr>hw_dev := rmw16 M a (\<lambda>v. v AND NOT IPC_MSCM_IRSPRCn_GIC500) (hw_dev h)\<rparr>) }
     else Some h }"

definition mscm_irq_notify :: "mscm_layout \<Rightarrow> 'k mmio \<Rightarrow> u8 \<Rightarrow> (ipc_hw_priv_type, 'k) hw_state \<Rightarrow>
    (ipc_hw_priv_type, 'k) hw_state option" where
  "mscm_irq_notify L M i h = do {
     p \<leftarrow> hw_priv i h;
     if hp_mscm_tx_irq p \<noteq> IPC_IRQ_NONE then do {
       a \<leftarrow> IPC_IGR_at L (hp_ipc_mscm p) (hp_remote_core p) (uint (hp_msi_tx_irq p));
       Some (h\<lparr>hw_dev := io_writel M IPC_MSCM_IRCPnIGRn_INT_EN a (hw_dev h)\<rparr>) }
     else Some h }"

definition mscm_irq_clear :: "mscm_layout \<Rightarrow> 'k mmio \<Rightarrow> u8 \<Rightarrow> (ipc_hw_priv_type, 'k) hw_state \<Rightarrow>
    (ipc_hw_priv_type, 'k) hw_state option" where
  "mscm_irq_clear L M i h = do {
     p \<leftarrow> hw_priv i h;
     if hp_mscm_rx_irq p \<noteq> IPC_IRQ_NONE then do {
       a \<leftarrow> IPC_ISR_at L (hp_ipc_mscm p) (hp_local_core p) (uint (hp_msi_rx_irq p));
       Some (h\<lparr>hw_dev := io_writel M (push_bit (nat (hp_remote_core p)) 1) a (hw_dev h)\<rparr>) }
     else Some h }"

definition mscm_free :: "mscm_layout \<Rightarrow> 'k mmio \<Rightarrow> u8 \<Rightarrow> (ipc_hw_priv_type, 'k) hw_state \<Rightarrow>
    (ipc_hw_priv_type, 'k) hw_state option" where
  "mscm_free L M i h = do {
     h1 \<leftarrow> mscm_irq_clear L M i h;
     p \<leftarrow> hw_priv i h1;
     Some (h1\<lparr>hw_dev := io_unmap_intc M (hp_ipc_mscm p) (hw_dev h1)\<rparr>) }"

section \<open>Initialisation of the MSCM block\<close>

text \<open>
  \<open>_ipc_hw_init\<close> of the two platforms is the same sequence of tests over different switch tables; a
  \<open>mscm_soc\<close> is what differs. A switch is the list of its cases; a missing case is the \<open>default\<close>.
\<close>

record mscm_soc =
  soc_layout :: mscm_layout
  soc_local_core :: "ipc_shm_local_core \<Rightarrow> int option"
  soc_remote_core :: "ipc_shm_remote_core \<Rightarrow> int option"
  soc_trust :: "u32 \<Rightarrow> u32"
  soc_A53_TR :: u32
  soc_tx_msi :: "(int \<times> u8) list"
  soc_rx_msi :: "(int \<times> u8 \<times> u8) list"

definition select_tx_irq :: "mscm_soc \<Rightarrow> int \<Rightarrow> ipc_hw_priv_type \<Rightarrow> ipc_hw_priv_type option" where
  "select_tx_irq S irq p =
     (if irq = IPC_IRQ_NONE then Some p
      else map_option (\<lambda>msi. p\<lparr>hp_msi_tx_irq := msi\<rparr>) (map_of (soc_tx_msi S) irq))"

definition select_rx_irq :: "mscm_soc \<Rightarrow> int \<Rightarrow> ipc_hw_priv_type \<Rightarrow> ipc_hw_priv_type option" where
  "select_rx_irq S irq p =
     (if irq = IPC_IRQ_NONE then Some p
      else map_option (\<lambda>(spi, msi). p\<lparr>hp_spi_index := spi, hp_msi_rx_irq := msi\<rparr>) (map_of (soc_rx_msi S) irq))"

text \<open>The test of the trusted-core mask: not empty, only A53 cores, and the local core among them.\<close>

definition trust_refused :: "mscm_soc \<Rightarrow> u32 \<Rightarrow> int \<Rightarrow> bool" where
  "trust_refused S trust_cores local_core_idx \<longleftrightarrow>
     trust_cores = 0 \<or> trust_cores AND NOT (soc_A53_TR S) \<noteq> 0
     \<or> push_bit (nat local_core_idx) 1 AND NOT trust_cores \<noteq> 0"

text \<open>Transmit and receive may not use the same interrupt.\<close>

definition irq_clash :: "ipc_shm_cfg \<Rightarrow> bool" where
  "irq_clash cfg \<longleftrightarrow> cfg_inter_core_tx_irq cfg \<noteq> IPC_IRQ_NONE \<and> cfg_inter_core_tx_irq cfg = cfg_inter_core_rx_irq cfg"

definition mscm_init_periph :: "mscm_soc \<Rightarrow> 'k mmio \<Rightarrow> u8 \<Rightarrow> ipc_shm_cfg \<Rightarrow> u64 \<Rightarrow> (ipc_hw_priv_type, 'k) hw_state \<Rightarrow>
    (int \<times> (ipc_hw_priv_type, 'k) hw_state) option" where
  "mscm_init_periph S M i cfg periph_addr h =
     (if periph_addr = 0 then Some (- EINVAL, h)
      else do {
        p0 \<leftarrow> hw_priv i h;
        let p1 = p0\<lparr>hp_ipc_mscm := periph_addr\<rparr>;
        let h1 = set_hw_priv i p1 h;
        let trust_cores = soc_trust S (lcore_trusted (cfg_local_core cfg));
        case soc_local_core S (cfg_local_core cfg) of
          None \<Rightarrow> Some (- EINVAL, h1)
        | Some local_core_idx \<Rightarrow>
          if trust_refused S trust_cores local_core_idx then Some (- EINVAL, h1)
          else case soc_remote_core S (cfg_remote_core cfg) of
            None \<Rightarrow> Some (- EINVAL, h1)
          | Some remote_core_idx \<Rightarrow>
            if irq_clash cfg then Some (- EINVAL, h1)
            else do {
              a \<leftarrow> reg_at periph_addr (ml_CPXNUM (soc_layout S));
              let (cpxnum, k2) = io_readl M a (hw_dev h1);
              let h2 = h1\<lparr>hw_dev := k2\<rparr>;
              if word_of_int remote_core_idx = cpxnum \<or> remote_core_idx = local_core_idx then Some (- EINVAL, h2)
              else case select_tx_irq S (cfg_inter_core_tx_irq cfg) p1 of
                None \<Rightarrow> Some (- EINVAL, h2)
              | Some p2 \<Rightarrow>
                case select_rx_irq S (cfg_inter_core_rx_irq cfg) p2 of
                  None \<Rightarrow> Some (- EINVAL, set_hw_priv i p2 h2)
                | Some p3 \<Rightarrow> do {
                    let p4 = p3\<lparr>hp_mscm_tx_irq := cfg_inter_core_tx_irq cfg, hp_mscm_rx_irq := cfg_inter_core_rx_irq cfg,
                               hp_remote_core := remote_core_idx, hp_local_core := local_core_idx\<rparr>;
                    h3 \<leftarrow> mscm_irq_disable (soc_layout S) M i (set_hw_priv i p4 h2);
                    b \<leftarrow> reg_at periph_addr (ml_IRCPCFG (soc_layout S));
                    let (ircpcfg_mask, k4) = io_readl M b (hw_dev h3);
                    if ircpcfg_mask AND IPC_MSCM_IRCPCFG_LOCK \<noteq> 0 then Some (- EACCES, h3\<lparr>hw_dev := k4\<rparr>)
                    else Some (0, h3\<lparr>hw_dev := io_writel M (ircpcfg_mask OR trust_cores) b k4\<rparr>) } } })"

definition mscm_init :: "mscm_soc \<Rightarrow> 'k mmio \<Rightarrow> u8 \<Rightarrow> ipc_shm_cfg \<Rightarrow> (ipc_hw_priv_type, 'k) hw_state \<Rightarrow>
    (int \<times> (ipc_hw_priv_type, 'k) hw_state) option" where
  "mscm_init S M i cfg h =
     (case io_map_intc M (hw_dev h) of (addr, k) \<Rightarrow> mscm_init_periph S M i cfg addr (h\<lparr>hw_dev := k\<rparr>))"

text \<open>The private data after a successful initialisation: every index is inside its register array.\<close>

definition mscm_ready :: "mscm_layout \<Rightarrow> u8 \<Rightarrow> (ipc_hw_priv_type, 'k) hw_state \<Rightarrow> bool" where
  "mscm_ready L i h = (case hw_priv i h of
     None \<Rightarrow> False
   | Some p \<Rightarrow> hp_ipc_mscm p \<noteq> 0 \<and>
       0 \<le> hp_local_core p \<and> hp_local_core p < int (ml_CP_COUNT L) \<and>
       0 \<le> hp_remote_core p \<and> hp_remote_core p < int (ml_CP_COUNT L) \<and>
       (hp_mscm_tx_irq p = IPC_IRQ_NONE \<or> unat (hp_msi_tx_irq p) < ml_IRQ_COUNT L) \<and>
       (hp_mscm_rx_irq p = IPC_IRQ_NONE \<or> unat (hp_msi_rx_irq p) < ml_IRQ_COUNT L \<and> unat (hp_spi_index p) < ml_IRSPRC_COUNT L))"

lemma reg_at_Some [simp]: "base \<noteq> 0 \<Longrightarrow> reg_at base n = Some (base + of_nat n)"
  by (simp add: reg_at_def)

lemma uint_nat_bound: "uint (x :: 'a::len word) < int n \<longleftrightarrow> unat x < n" "nat (uint x) = unat x"
  by (simp_all only: unat_eq_nat_uint nat_less_iff [OF uint_ge_0])

lemma IRSPRC_at_in: "base \<noteq> 0 \<Longrightarrow> unat k < ml_IRSPRC_COUNT L \<Longrightarrow> \<exists>a. IRSPRC_at L base (uint (k :: u8)) = Some a"
  by (simp add: IRSPRC_at_def uint_nat_bound)

lemma IRCPnIRx_at_in:
  "base \<noteq> 0 \<Longrightarrow> 0 \<le> core \<Longrightarrow> core < int (ml_CP_COUNT L) \<Longrightarrow> unat k < ml_IRQ_COUNT L \<Longrightarrow>
   \<exists>a. IRCPnIRx_at L base core (uint (k :: u8)) n = Some a"
  by (simp add: IRCPnIRx_at_def uint_nat_bound)

lemma mscm_ready_ops:
  assumes "mscm_ready L i h"
  shows "\<exists>h'. mscm_irq_enable L M i h = Some h' \<and> hw_privs h' = hw_privs h"
    and "\<exists>h'. mscm_irq_disable L M i h = Some h' \<and> hw_privs h' = hw_privs h"
    and "\<exists>h'. mscm_irq_notify L M i h = Some h' \<and> hw_privs h' = hw_privs h"
    and "\<exists>h'. mscm_irq_clear L M i h = Some h' \<and> hw_privs h' = hw_privs h"
    and "\<exists>h'. mscm_free L M i h = Some h' \<and> hw_privs h' = hw_privs h"
proof -
  from assms obtain p where p: "hw_priv i h = Some p" by (auto simp: mscm_ready_def split: option.splits)
  have rx: "\<exists>a. IRSPRC_at L (hp_ipc_mscm p) (uint (hp_spi_index p)) = Some a"
    "\<exists>a. IPC_ISR_at L (hp_ipc_mscm p) (hp_local_core p) (uint (hp_msi_rx_irq p)) = Some a" if "hp_mscm_rx_irq p \<noteq> IPC_IRQ_NONE"
    using assms that p by (auto simp: mscm_ready_def intro!: IRSPRC_at_in IRCPnIRx_at_in)
  have tx: "\<exists>a. IPC_IGR_at L (hp_ipc_mscm p) (hp_remote_core p) (uint (hp_msi_tx_irq p)) = Some a" if "hp_mscm_tx_irq p \<noteq> IPC_IRQ_NONE"
    using assms that p by (auto simp: mscm_ready_def intro!: IRCPnIRx_at_in)
  show "\<exists>h'. mscm_irq_enable L M i h = Some h' \<and> hw_privs h' = hw_privs h"
    and "\<exists>h'. mscm_irq_disable L M i h = Some h' \<and> hw_privs h' = hw_privs h"
    using p rx(1) by (auto simp: mscm_irq_enable_def mscm_irq_disable_def)
  show "\<exists>h'. mscm_irq_notify L M i h = Some h' \<and> hw_privs h' = hw_privs h"
    using p tx by (auto simp: mscm_irq_notify_def)
  show cl: "\<exists>h'. mscm_irq_clear L M i h = Some h' \<and> hw_privs h' = hw_privs h"
    using p rx(2) by (auto simp: mscm_irq_clear_def)
  then obtain h' where "mscm_irq_clear L M i h = Some h'" "hw_privs h' = hw_privs h" by blast
  moreover from this p have "hw_priv i h' = Some p" by (simp add: hw_priv_def)
  ultimately show "\<exists>h'. mscm_free L M i h = Some h' \<and> hw_privs h' = hw_privs h" by (simp add: mscm_free_def)
qed

lemma mscm_ready_keep: "hw_privs h' = hw_privs h \<Longrightarrow> mscm_ready L i h' = mscm_ready L i h"
  by (simp add: mscm_ready_def hw_priv_def)

text \<open>Tables whose entries are all inside the register arrays, and what initialisation then gives.\<close>

definition soc_ok :: "mscm_soc \<Rightarrow> bool" where
  "soc_ok S \<longleftrightarrow>
     (\<forall>c n. soc_local_core S c = Some n \<longrightarrow> 0 \<le> n \<and> n < int (ml_CP_COUNT (soc_layout S))) \<and>
     (\<forall>c n. soc_remote_core S c = Some n \<longrightarrow> 0 \<le> n \<and> n < int (ml_CP_COUNT (soc_layout S))) \<and>
     list_all (\<lambda>(_, m). unat m < ml_IRQ_COUNT (soc_layout S)) (soc_tx_msi S) \<and>
     list_all (\<lambda>(_, s, m). unat s < ml_IRSPRC_COUNT (soc_layout S) \<and> unat m < ml_IRQ_COUNT (soc_layout S)) (soc_rx_msi S)"

lemma select_irq_ok:
  assumes "soc_ok S"
  shows "select_tx_irq S irq p = Some p' \<Longrightarrow> irq = IPC_IRQ_NONE \<or> unat (hp_msi_tx_irq p') < ml_IRQ_COUNT (soc_layout S)"
    and "select_rx_irq S irq p = Some p' \<Longrightarrow> irq = IPC_IRQ_NONE \<or>
         unat (hp_msi_rx_irq p') < ml_IRQ_COUNT (soc_layout S) \<and> unat (hp_spi_index p') < ml_IRSPRC_COUNT (soc_layout S)"
    and "select_tx_irq S irq p = Some p' \<Longrightarrow> hp_ipc_mscm p' = hp_ipc_mscm p"
    and "select_rx_irq S irq p = Some p' \<Longrightarrow> hp_ipc_mscm p' = hp_ipc_mscm p \<and> hp_msi_tx_irq p' = hp_msi_tx_irq p"
  using assms
  by (auto simp: select_tx_irq_def select_rx_irq_def soc_ok_def list_all_iff split: if_splits dest!: map_of_SomeD)

text \<open>What a configuration must satisfy to be accepted on a core whose processor number is \<open>cpxnum\<close>.\<close>

definition mscm_cfg_ok :: "mscm_soc \<Rightarrow> ipc_shm_cfg \<Rightarrow> u32 \<Rightarrow> bool" where
  "mscm_cfg_ok S cfg cpxnum \<longleftrightarrow>
     (case (soc_local_core S (cfg_local_core cfg), soc_remote_core S (cfg_remote_core cfg)) of
        (Some l, Some r) \<Rightarrow>
          \<not> trust_refused S (soc_trust S (lcore_trusted (cfg_local_core cfg))) l \<and> \<not> irq_clash cfg \<and>
          word_of_int r \<noteq> cpxnum \<and> r \<noteq> l \<and>
          (cfg_inter_core_tx_irq cfg = IPC_IRQ_NONE \<or> cfg_inter_core_tx_irq cfg \<in> fst ` set (soc_tx_msi S)) \<and>
          (cfg_inter_core_rx_irq cfg = IPC_IRQ_NONE \<or> cfg_inter_core_rx_irq cfg \<in> fst ` set (soc_rx_msi S))
      | _ \<Rightarrow> False)"

lemma select_irq_dom:
  "select_tx_irq S irq p = None \<Longrightarrow> irq \<noteq> IPC_IRQ_NONE \<and> irq \<notin> fst ` set (soc_tx_msi S)"
  "select_rx_irq S irq p = None \<Longrightarrow> irq \<noteq> IPC_IRQ_NONE \<and> irq \<notin> fst ` set (soc_rx_msi S)"
  "select_tx_irq S irq p = Some q \<Longrightarrow> irq = IPC_IRQ_NONE \<or> irq \<in> fst ` set (soc_tx_msi S)"
  "select_rx_irq S irq p = Some q \<Longrightarrow> irq = IPC_IRQ_NONE \<or> irq \<in> fst ` set (soc_rx_msi S)"
  by (auto simp: select_tx_irq_def select_rx_irq_def map_of_eq_None_iff split: if_splits dest!: map_of_SomeD intro: rev_image_eqI)

text \<open>The tests that refuse a configuration, in their order, and the case that passes them all.\<close>

lemma mscm_init_periph_refuses:
  assumes p: "hw_priv i h = Some p0" and ad: "addr \<noteq> 0"
  obtains (no) "\<exists>h'. mscm_init_periph S M i cfg addr h = Some (- EINVAL, h')"
      "\<not> mscm_cfg_ok S cfg (fst (io_readl M (addr + of_nat (ml_CPXNUM (soc_layout S))) (hw_dev h)))"
  | (go) l r p2 p3 num k2 where "soc_local_core S (cfg_local_core cfg) = Some l" "soc_remote_core S (cfg_remote_core cfg) = Some r"
      "select_tx_irq S (cfg_inter_core_tx_irq cfg) (p0\<lparr>hp_ipc_mscm := addr\<rparr>) = Some p2"
      "select_rx_irq S (cfg_inter_core_rx_irq cfg) p2 = Some p3"
      "\<not> trust_refused S (soc_trust S (lcore_trusted (cfg_local_core cfg))) l"
      "\<not> irq_clash cfg"
      "io_readl M (addr + of_nat (ml_CPXNUM (soc_layout S))) (hw_dev h) = (num, k2)" "word_of_int r \<noteq> num" "r \<noteq> l"
      "mscm_cfg_ok S cfg num"
proof -
  obtain num k2 where rd: "io_readl M (addr + of_nat (ml_CPXNUM (soc_layout S))) (hw_dev h) = (num, k2)" by fastforce
  note st = mscm_init_periph_def Let_def and ok = mscm_cfg_ok_def
  show thesis
  proof (cases "soc_local_core S (cfg_local_core cfg)")
    case None
    then show thesis using p ad by (intro no) (simp_all add: st ok)
  next
    case l: (Some l)
    show thesis
    proof (cases "trust_refused S (soc_trust S (lcore_trusted (cfg_local_core cfg))) l \<or> soc_remote_core S (cfg_remote_core cfg) = None
        \<or> irq_clash cfg")
      case True
      then show thesis using p ad l
        by (intro no; cases "soc_remote_core S (cfg_remote_core cfg)";
            cases "trust_refused S (soc_trust S (lcore_trusted (cfg_local_core cfg))) l"; simp add: st ok)
    next
      case False
      then obtain r where r: "soc_remote_core S (cfg_remote_core cfg) = Some r" by auto
      show thesis
      proof (cases "word_of_int r = num \<or> r = l")
        case True
        then show thesis using p ad l r rd False by (intro no) (auto simp: st ok)
      next
        case ne: False
        then show thesis
        proof (cases "select_tx_irq S (cfg_inter_core_tx_irq cfg) (p0\<lparr>hp_ipc_mscm := addr\<rparr>)")
          case None
          then show thesis using p ad l r rd False ne select_irq_dom(1) [OF None] by (intro no) (auto simp: st ok)
        next
          case tx: (Some p2)
          show thesis
          proof (cases "select_rx_irq S (cfg_inter_core_rx_irq cfg) p2")
            case None
            then show thesis using p ad l r rd False ne tx select_irq_dom(2) [OF None] by (intro no) (auto simp: st ok)
          next
            case (Some p3)
            then show thesis
              using l r tx rd False ne select_irq_dom(3) [OF tx] select_irq_dom(4) [OF Some] by (intro go) (auto simp: ok)
          qed
        qed
      qed
    qed
  qed
qed

lemma mscm_irq_disable_dev:
  "mscm_irq_disable L M i h = Some h' \<Longrightarrow> hw_dev h' = hw_dev h \<or> (\<exists>a f. hw_dev h' = rmw16 M a f (hw_dev h))"
  by (auto simp: mscm_irq_disable_def split: if_splits Option.bind_splits) blast

text \<open>What the private data holds of the configuration after a successful initialisation.\<close>

definition mscm_priv_of :: "mscm_soc \<Rightarrow> ipc_shm_cfg \<Rightarrow> ipc_hw_priv_type \<Rightarrow> bool" where
  "mscm_priv_of S cfg p \<longleftrightarrow>
     soc_local_core S (cfg_local_core cfg) = Some (hp_local_core p) \<and>
     soc_remote_core S (cfg_remote_core cfg) = Some (hp_remote_core p) \<and>
     hp_mscm_tx_irq p = cfg_inter_core_tx_irq cfg \<and> hp_mscm_rx_irq p = cfg_inter_core_rx_irq cfg \<and>
     (hp_mscm_tx_irq p = IPC_IRQ_NONE \<or> map_of (soc_tx_msi S) (hp_mscm_tx_irq p) = Some (hp_msi_tx_irq p)) \<and>
     (hp_mscm_rx_irq p = IPC_IRQ_NONE \<or> map_of (soc_rx_msi S) (hp_mscm_rx_irq p) = Some (hp_spi_index p, hp_msi_rx_irq p))"

lemma select_irq_msi:
  "select_tx_irq S irq p = Some q \<Longrightarrow> irq = IPC_IRQ_NONE \<or> map_of (soc_tx_msi S) irq = Some (hp_msi_tx_irq q)"
  "select_rx_irq S irq p = Some q \<Longrightarrow> hp_msi_tx_irq q = hp_msi_tx_irq p \<and>
     (irq = IPC_IRQ_NONE \<or> map_of (soc_rx_msi S) irq = Some (hp_spi_index q, hp_msi_rx_irq q))"
  by (auto simp: select_tx_irq_def select_rx_irq_def split: if_splits)

text \<open>
  An accepted configuration leaves the instance ready, with its interrupt source disabled; the lock
  bit of the interrupt router then decides the result.
\<close>

lemma mscm_init_periph_outcome:
  assumes p: "hw_priv i h = Some p0" and ad: "addr \<noteq> 0" and ok: "soc_ok S"
  obtains (no) "\<exists>h'. mscm_init_periph S M i cfg addr h = Some (- EINVAL, h')"
      "\<not> mscm_cfg_ok S cfg (fst (io_readl M (addr + of_nat (ml_CPXNUM (soc_layout S))) (hw_dev h)))"
  | (go) num k2 h3 mask k4 where "io_readl M (addr + of_nat (ml_CPXNUM (soc_layout S))) (hw_dev h) = (num, k2)"
      "mscm_cfg_ok S cfg num" "mscm_ready (soc_layout S) i h3" "\<exists>p. hw_priv i h3 = Some p \<and> mscm_priv_of S cfg p"
      "hw_dev h3 = k2 \<or> (\<exists>a f. hw_dev h3 = rmw16 M a f k2)"
      "io_readl M (addr + of_nat (ml_IRCPCFG (soc_layout S))) (hw_dev h3) = (mask, k4)"
      "mscm_init_periph S M i cfg addr h =
        (if mask AND IPC_MSCM_IRCPCFG_LOCK \<noteq> 0 then Some (- EACCES, h3\<lparr>hw_dev := k4\<rparr>)
         else Some (0, h3\<lparr>hw_dev := io_writel M (mask OR soc_trust S (lcore_trusted (cfg_local_core cfg)))
                       (addr + of_nat (ml_IRCPCFG (soc_layout S))) k4\<rparr>))"
proof -
  let ?p1 = "p0\<lparr>hp_ipc_mscm := addr\<rparr>" and ?L = "soc_layout S"
  from p ad show thesis
  proof (cases rule: mscm_init_periph_refuses [where S = S and M = M and cfg = cfg])
    case no
    then show thesis by (rule that(1))
  next
    case (go l r p2 p3 num k2)
    let ?p4 = "p3\<lparr>hp_mscm_tx_irq := cfg_inter_core_tx_irq cfg, hp_mscm_rx_irq := cfg_inter_core_rx_irq cfg,
               hp_remote_core := r, hp_local_core := l\<rparr>"
    let ?h = "set_hw_priv i ?p4 (set_hw_priv i ?p1 h\<lparr>hw_dev := k2\<rparr>)"
    have pr: "hw_priv i ?h = Some ?p4" using p by simp
    have rdy: "mscm_ready ?L i ?h"
      using select_irq_ok(1,3) [OF ok go(3)] select_irq_ok(2,4) [OF ok go(4)] ok go(1,2) ad
      by (auto simp: mscm_ready_def pr soc_ok_def)
    from mscm_ready_ops(2) [OF this, of M] obtain h3 where h3: "mscm_irq_disable ?L M i ?h = Some h3" "hw_privs h3 = hw_privs ?h" by blast
    obtain mask k4 where rd4: "io_readl M (addr + of_nat (ml_IRCPCFG ?L)) (hw_dev h3) = (mask, k4)" by fastforce
    show thesis
    proof (rule that(2) [OF go(7) go(10) _ _ _ rd4])
      have "hw_priv i h3 = Some ?p4" using h3(2) pr by (simp add: hw_priv_def)
      then show "\<exists>p. hw_priv i h3 = Some p \<and> mscm_priv_of S cfg p"
        using go(1,2) select_irq_msi(1) [OF go(3)] select_irq_msi(2) [OF go(4)] by (simp add: mscm_priv_of_def)
      show "mscm_ready ?L i h3" using rdy mscm_ready_keep [OF h3(2)] by simp
      show "hw_dev h3 = k2 \<or> (\<exists>a f. hw_dev h3 = rmw16 M a f k2)" using mscm_irq_disable_dev [OF h3(1)] by simp
    qed (use ad p go h3(1) rd4 in \<open>simp add: mscm_init_periph_def Let_def\<close>)
  qed
qed

lemma mscm_init_periph_cases:
  assumes p: "hw_priv i h = Some p0" and ok: "soc_ok S"
  shows "\<exists>e h'. mscm_init_periph S M i cfg addr h = Some (e, h') \<and> e \<in> {0, - EINVAL, - EACCES} \<and>
           (e = 0 \<longrightarrow> mscm_ready (soc_layout S) i h')"
proof (cases "addr = 0")
  case True
  then show ?thesis by (simp add: mscm_init_periph_def EINVAL_def)
next
  case False
  from p False ok show ?thesis
  proof (cases rule: mscm_init_periph_outcome [where M = M and cfg = cfg])
    case no
    then show ?thesis by (auto simp: EINVAL_def)
  next
    case (go num k2 h3 mask k4)
    then show ?thesis by (auto simp: EACCES_def mscm_ready_def)
  qed
qed

lemma mscm_init_priv:
  assumes run: "mscm_init S M i cfg h = Some (0, h')" and ok: "soc_ok S"
  shows "\<exists>p. hw_priv i h' = Some p \<and> mscm_priv_of S cfg p"
proof -
  let ?h = "h\<lparr>hw_dev := snd (io_map_intc M (hw_dev h))\<rparr>" and ?a = "fst (io_map_intc M (hw_dev h))"
  from run have run: "mscm_init_periph S M i cfg ?a ?h = Some (0, h')" by (simp add: mscm_init_def split_beta)
  then have ad: "?a \<noteq> 0" by (auto simp: mscm_init_periph_def)
  from run ad obtain p0 where p: "hw_priv i ?h = Some p0"
    by (cases "hw_priv i ?h") (auto simp: mscm_init_periph_def)
  from p ad ok show ?thesis
  proof (cases rule: mscm_init_periph_outcome [where M = M and cfg = cfg])
    case no
    then show ?thesis using run by simp
  next
    case (go num k2 h3 mask k4)
    from go(7) run have "hw_priv i h' = hw_priv i h3" by (auto split: if_splits)
    then show ?thesis using go(4) by simp
  qed
qed

section \<open>The interface of the hardware layer\<close>

text \<open>The operations of \<open>ipc-hw.h\<close> that the layers above call on an initialised instance.\<close>

datatype hw_op = Hw_Enable | Hw_Disable | Hw_Notify | Hw_Clear

fun hw_run :: "(hw_op \<Rightarrow> u8 \<Rightarrow> 'h \<Rightarrow> 'h option) \<Rightarrow> u8 \<Rightarrow> hw_op list \<Rightarrow> 'h \<Rightarrow> 'h option" where
  "hw_run f i [] h = Some h"
| "hw_run f i (op # ops) h = Option.bind (f op i h) (hw_run f i ops)"

text \<open>
  The contract: initialisation of an existing instance returns 0 or one of two error codes; if it
  returns 0 the instance is ready, and on a ready instance every operation returns and leaves it
  ready. So after a successful initialisation no sequence of operations reaches outside the register
  block.
\<close>

locale inter_core_hw =
  fixes init :: "u8 \<Rightarrow> ipc_shm_cfg \<Rightarrow> 'h \<Rightarrow> (int \<times> 'h) option"
    and op :: "hw_op \<Rightarrow> u8 \<Rightarrow> 'h \<Rightarrow> 'h option"
    and free :: "u8 \<Rightarrow> 'h \<Rightarrow> 'h option"
    and exists :: "u8 \<Rightarrow> 'h \<Rightarrow> bool"
    and ready :: "u8 \<Rightarrow> 'h \<Rightarrow> bool"
  assumes init_total: "exists i h \<Longrightarrow> \<exists>e h'. init i cfg h = Some (e, h') \<and> e \<in> {0, - EINVAL, - EACCES}"
    and init_ready: "init i cfg h = Some (0, h') \<Longrightarrow> ready i h'"
    and op_ready: "ready i h \<Longrightarrow> \<exists>h'. op a i h = Some h' \<and> ready i h'"
    and free_total: "ready i h \<Longrightarrow> \<exists>h'. free i h = Some h'"
begin

lemma run_ready: "ready i h \<Longrightarrow> \<exists>h'. hw_run op i ops h = Some h' \<and> ready i h'"
proof (induction ops arbitrary: h)
  case (Cons a ops)
  from op_ready [OF Cons.prems] obtain h1 where "op a i h = Some h1" "ready i h1" by blast
  with Cons.IH show ?case by auto
qed simp

lemma session:
  assumes "exists i h"
  shows "\<exists>e h1. init i cfg h = Some (e, h1) \<and> e \<in> {0, - EINVAL, - EACCES} \<and>
           (e = 0 \<longrightarrow> (\<forall>ops. \<exists>h2 h3. hw_run op i ops h1 = Some h2 \<and> free i h2 = Some h3))"
proof -
  from init_total [OF assms] obtain e h1 where i1: "init i cfg h = Some (e, h1)" "e \<in> {0, - EINVAL, - EACCES}" by blast
  moreover have "\<forall>ops. \<exists>h2 h3. hw_run op i ops h1 = Some h2 \<and> free i h2 = Some h3" if "e = 0"
    using init_ready i1(1) that run_ready free_total by blast
  ultimately show ?thesis by blast
qed

end

text \<open>The MSCM operations keep the contract whenever the switch tables stay inside the register arrays.\<close>

definition mscm_op :: "mscm_layout \<Rightarrow> 'k mmio \<Rightarrow> hw_op \<Rightarrow> u8 \<Rightarrow> (ipc_hw_priv_type, 'k) hw_state \<Rightarrow>
    (ipc_hw_priv_type, 'k) hw_state option" where
  "mscm_op L M a = (case a of Hw_Enable \<Rightarrow> mscm_irq_enable L M | Hw_Disable \<Rightarrow> mscm_irq_disable L M
     | Hw_Notify \<Rightarrow> mscm_irq_notify L M | Hw_Clear \<Rightarrow> mscm_irq_clear L M)"

definition hw_exists :: "u8 \<Rightarrow> ('p, 'k) hw_state \<Rightarrow> bool" where
  "hw_exists i h \<longleftrightarrow> unat i < length (hw_privs h)"

lemma hw_exists_priv: "hw_exists i h \<longleftrightarrow> (\<exists>p. hw_priv i h = Some p)"
  by (simp add: hw_exists_def hw_priv_def nth_opt_def)

lemma hw_priv_None: "\<not> hw_exists i h \<Longrightarrow> hw_priv i h = None"
  by (auto simp: hw_exists_priv)

lemma mscm_contract:
  fixes M :: "'k mmio"
  assumes "soc_ok S"
  shows "inter_core_hw (mscm_init S M) (mscm_op (soc_layout S) M) (mscm_free (soc_layout S) M) hw_exists (mscm_ready (soc_layout S))"
proof
  fix i cfg and h :: "(ipc_hw_priv_type, 'k) hw_state"
  let ?h = "h\<lparr>hw_dev := snd (io_map_intc M (hw_dev h))\<rparr>" and ?a = "fst (io_map_intc M (hw_dev h))"
  have un: "mscm_init S M i cfg h = mscm_init_periph S M i cfg ?a ?h" by (simp add: mscm_init_def split_beta)
  have ex: "\<exists>e h'. mscm_init S M i cfg h = Some (e, h') \<and> e \<in> {0, - EINVAL, - EACCES} \<and> (e = 0 \<longrightarrow> mscm_ready (soc_layout S) i h')"
    if "hw_exists i h"
    using that mscm_init_periph_cases [OF _ assms, of i ?h] unfolding un by (fastforce simp: hw_exists_priv)
  then show "hw_exists i h \<Longrightarrow> \<exists>e h'. mscm_init S M i cfg h = Some (e, h') \<and> e \<in> {0, - EINVAL, - EACCES}" by blast
  show "mscm_ready (soc_layout S) i h'" if "mscm_init S M i cfg h = Some (0, h')" for h'
  proof (cases "hw_exists i h")
    case False
    then have "hw_priv i ?h = None" by (auto simp: hw_exists_priv hw_priv_def)
    with that show ?thesis by (auto simp: un mscm_init_periph_def split: if_splits)
  qed (use ex that in auto)
next
  fix i h a
  assume r: "mscm_ready (soc_layout S) i (h :: (ipc_hw_priv_type, 'k) hw_state)"
  show "\<exists>h'. mscm_op (soc_layout S) M a i h = Some h' \<and> mscm_ready (soc_layout S) i h'"
    using mscm_ready_ops(1-4) [OF r, of M]
    by (cases a) (auto simp: mscm_op_def intro: mscm_ready_keep [THEN iffD2, OF _ r])
  show "\<exists>h'. mscm_free (soc_layout S) M i h = Some h'" using mscm_ready_ops(5) [OF r, of M] by blast
qed

section \<open>Registers that behave as plain storage\<close>

text \<open>
  The hypothesis of the theorems on what initialisation accepts: reading a 32-bit register gives its
  value and has no side effect, and accesses to the 16-bit routing registers do not change the
  32-bit registers. \<open>regfile\<close> is a device for which it holds.
\<close>

definition plain_regs :: "'k mmio \<Rightarrow> (u64 \<Rightarrow> 'k \<Rightarrow> u32) \<Rightarrow> bool" where
  "plain_regs M rd \<longleftrightarrow> (\<forall>a k. io_readl M a k = (rd a k, k)) \<and>
     (\<forall>v a b k. rd b (snd (io_readw M a k)) = rd b k \<and> rd b (io_writew M v a k) = rd b k)"

lemma plain_rmw16: "plain_regs M rd \<Longrightarrow> rd b (rmw16 M a f k) = rd b k"
  by (simp add: plain_regs_def rmw16_def split_beta)

record regfile =
  rf_word :: "u64 \<Rightarrow> u32"
  rf_half :: "u64 \<Rightarrow> u16"

definition regfile :: "u64 \<Rightarrow> regfile mmio" where
  "regfile base = \<lparr>
     io_readl = (\<lambda>a k. (rf_word k a, k)), io_writel = (\<lambda>v a k. k\<lparr>rf_word := (rf_word k)(a := v)\<rparr>),
     io_readw = (\<lambda>a k. (rf_half k a, k)), io_writew = (\<lambda>v a k. k\<lparr>rf_half := (rf_half k)(a := v)\<rparr>),
     io_map_intc = (\<lambda>k. (base, k)), io_unmap_intc = (\<lambda>a k. k)\<rparr>"

lemma plain_regfile: "plain_regs (regfile base) (\<lambda>a k. rf_word k a)"
  by (simp add: plain_regs_def regfile_def)

text \<open>Initialisation returns 0 exactly on an acceptable configuration and an unlocked interrupt router.\<close>

lemma mscm_init_periph_accepts:
  assumes reg: "plain_regs M rd" and ex: "hw_exists i h" and ad: "addr \<noteq> 0" and ok: "soc_ok S"
  shows "(\<exists>h'. mscm_init_periph S M i cfg addr h = Some (0, h')) \<longleftrightarrow>
     mscm_cfg_ok S cfg (rd (addr + of_nat (ml_CPXNUM (soc_layout S))) (hw_dev h)) \<and>
     rd (addr + of_nat (ml_IRCPCFG (soc_layout S))) (hw_dev h) AND IPC_MSCM_IRCPCFG_LOCK = 0"
proof -
  from ex obtain p0 where p: "hw_priv i h = Some p0" by (auto simp: hw_exists_priv)
  have rl: "io_readl M a k = (rd a k, k)" for a k using reg by (simp add: plain_regs_def)
  from p ad ok show ?thesis
  proof (cases rule: mscm_init_periph_outcome [where M = M and cfg = cfg])
    case no
    then show ?thesis by (auto simp: rl)
  next
    case (go num k2 h3 mask k4)
    from go(5) have "rd b (hw_dev h3) = rd b (hw_dev h)" for b using go(1) plain_rmw16 [OF reg] by (auto simp: rl)
    with go show ?thesis by (auto simp: rl EACCES_def)
  qed
qed

end
