(* ===== verification/Hw_S32g3.thy ===== *)
theory Hw_S32g3
  imports Hw
begin

text \<open>
  The hardware layer of the S32G3 processors: \<open>src/hw/s32g3xx/ipc-hw-platform.h\<close> (processor indices, register structure, masks)
  and \<open>src/hw/s32g3xx/ipc-hw-s32g3xx.c\<close> (the operations of \<open>ipc-hw.h\<close>). The private data and the operations on it
  are those of theory \<open>Hw\<close> at this platform's structure and switch tables.
\<close>

unbundle bit_operations_syntax

section \<open>Processor indices, register structure and masks\<close>

datatype ipc_s32g3xx_processor_idx =
    IPC_A53_0_g3 | IPC_A53_1_g3 | IPC_A53_2_g3 | IPC_A53_3_g3 | IPC_M7_0_g3
  | IPC_M7_1_g3 | IPC_M7_2_g3 | IPC_M7_3_g3 | IPC_A53_4_g3 | IPC_A53_5_g3
  | IPC_A53_6_g3 | IPC_A53_7_g3

fun processor_idx_g3 :: "ipc_s32g3xx_processor_idx \<Rightarrow> int" where
  "processor_idx_g3 IPC_A53_0_g3 = 0"
| "processor_idx_g3 IPC_A53_1_g3 = 1"
| "processor_idx_g3 IPC_A53_2_g3 = 2"
| "processor_idx_g3 IPC_A53_3_g3 = 3"
| "processor_idx_g3 IPC_M7_0_g3 = 4"
| "processor_idx_g3 IPC_M7_1_g3 = 5"
| "processor_idx_g3 IPC_M7_2_g3 = 6"
| "processor_idx_g3 IPC_M7_3_g3 = 7"
| "processor_idx_g3 IPC_A53_4_g3 = 8"
| "processor_idx_g3 IPC_A53_5_g3 = 9"
| "processor_idx_g3 IPC_A53_6_g3 = 10"
| "processor_idx_g3 IPC_A53_7_g3 = 11"

definition IPC_DEFAULT_LOCAL_CORE_g3 :: ipc_s32g3xx_processor_idx where "IPC_DEFAULT_LOCAL_CORE_g3 = IPC_A53_0_g3"
definition IPC_DEFAULT_REMOTE_CORE_g3 :: ipc_s32g3xx_processor_idx where "IPC_DEFAULT_REMOTE_CORE_g3 = IPC_M7_0_g3"
definition IPC_MSCM_CP_COUNT_g3 :: nat where "IPC_MSCM_CP_COUNT_g3 = 12"
definition IPC_MSCM_IRQ_COUNT_g3 :: nat where "IPC_MSCM_IRQ_COUNT_g3 = 14"
definition IPC_MSCM_IRSPRC_COUNT_g3 :: nat where "IPC_MSCM_IRSPRC_COUNT_g3 = 240"
definition IPC_MSCM_IRCPCFG_A53_TR_g3 :: u32 where "IPC_MSCM_IRCPCFG_A53_TR_g3 = 0xF0F"

definition ipc_mscm_regs_g3 :: "struct_member list" where
  "ipc_mscm_regs_g3 =
    [(''CPXTYPE'', 4, 4), (''CPXNUM'', 4, 4), (''CPXREV'', 4, 4), (''CPXCFG'', 4, 4 * 4),
     (''RESERVED00'', 1, 1 * 4), (''CP0TYPE'', 4, 4), (''CP0NUM'', 4, 4), (''CP0REV'', 4, 4),
     (''CP0CFG'', 4, 4 * 4), (''RESERVED01'', 1, 1 * 4), (''CP1TYPE'', 4, 4), (''CP1NUM'', 4, 4),
     (''CP1REV'', 4, 4), (''CP1CFG'', 4, 4 * 4), (''RESERVED02'', 1, 1 * 4), (''CP2TYPE'', 4, 4),
     (''CP2NUM'', 4, 4), (''CP2REV'', 4, 4), (''CP2CFG'', 4, 4 * 4), (''RESERVED03'', 1, 1 * 4),
     (''CP3TYPE'', 4, 4), (''CP3NUM'', 4, 4), (''CP3REV'', 4, 4), (''CP3CFG'', 4, 4 * 4),
     (''RESERVED04'', 1, 1 * 4), (''CP4TYPE'', 4, 4), (''CP4NUM'', 4, 4), (''CP4REV'', 4, 4),
     (''CP4CFG'', 4, 4 * 4), (''RESERVED05'', 1, 1 * 4), (''CP5TYPE'', 4, 4), (''CP5NUM'', 4, 4),
     (''CP5REV'', 4, 4), (''CP5CFG'', 4, 4 * 4), (''RESERVED06'', 1, 1 * 4), (''CP6TYPE'', 4, 4),
     (''CP6NUM'', 4, 4), (''CP6REV'', 4, 4), (''CP6CFG'', 4, 4 * 4), (''RESERVED07'', 1, 1 * 4),
     (''CP7TYPE'', 4, 4), (''CP7NUM'', 4, 4), (''CP7REV'', 4, 4), (''CP7CFG'', 4, 4 * 4),
     (''RESERVED08'', 1, 1 * 4), (''CP8TYPE'', 4, 4), (''CP8NUM'', 4, 4), (''CP8REV'', 4, 4),
     (''CP8CFG'', 4, 4 * 4), (''RESERVED09'', 1, 1 * 4), (''CP9TYPE'', 4, 4), (''CP9NUM'', 4, 4),
     (''CP9REV'', 4, 4), (''CP9CFG'', 4, 4 * 4), (''RESERVED010'', 1, 1 * 4), (''CP10TYPE'', 4, 4),
     (''CP10NUM'', 4, 4), (''CP10REV'', 4, 4), (''CP10CFG'', 4, 4 * 4), (''RESERVED011'', 1, 1 * 4),
     (''CP11TYPE'', 4, 4), (''CP11NUM'', 4, 4), (''CP11REV'', 4, 4), (''CP11CFG'', 4, 4 * 4),
     (''RESERVED012'', 1, 1 * 612), (''IRCPCFG'', 4, 4), (''RESERVED013'', 1, 1 * 1020), (''IRNMIC'', 4, 4),
     (''RESERVED14'', 1, 1 * 124), (''IRSPRC'', 2, 2 * 240), (''IRCPnIRx'', 4, 8 * 12 * 14)]"

definition layout_g3 :: mscm_layout where
  "layout_g3 = \<lparr>
     ml_CPXNUM = offset_of ''CPXNUM'' ipc_mscm_regs_g3, ml_IRCPCFG = offset_of ''IRCPCFG'' ipc_mscm_regs_g3,
     ml_IRSPRC = offset_of ''IRSPRC'' ipc_mscm_regs_g3, ml_IRSPRC_COUNT = IPC_MSCM_IRSPRC_COUNT_g3,
     ml_IRCPnIRx = offset_of ''IRCPnIRx'' ipc_mscm_regs_g3, ml_CP_COUNT = IPC_MSCM_CP_COUNT_g3,
     ml_IRQ_COUNT = IPC_MSCM_IRQ_COUNT_g3\<rparr>"

section \<open>The switch tables of \<open>_ipc_hw_init\<close>\<close>

definition local_core_idx_g3 :: "ipc_shm_local_core \<Rightarrow> int option" where
  "local_core_idx_g3 c =
     (case lcore_type c of
        IPC_CORE_A53 \<Rightarrow>
          (case lcore_index c of
             IPC_CORE_INDEX_0 \<Rightarrow> Some (processor_idx_g3 IPC_A53_0_g3)
             | IPC_CORE_INDEX_1 \<Rightarrow> Some (processor_idx_g3 IPC_A53_1_g3)
             | IPC_CORE_INDEX_2 \<Rightarrow> Some (processor_idx_g3 IPC_A53_2_g3)
             | IPC_CORE_INDEX_3 \<Rightarrow> Some (processor_idx_g3 IPC_A53_3_g3)
             | IPC_CORE_INDEX_4 \<Rightarrow> Some (processor_idx_g3 IPC_A53_4_g3)
             | IPC_CORE_INDEX_5 \<Rightarrow> Some (processor_idx_g3 IPC_A53_5_g3)
             | IPC_CORE_INDEX_6 \<Rightarrow> Some (processor_idx_g3 IPC_A53_6_g3)
             | IPC_CORE_INDEX_7 \<Rightarrow> Some (processor_idx_g3 IPC_A53_7_g3)
           | _ \<Rightarrow> None)
      | IPC_CORE_DEFAULT \<Rightarrow> Some (processor_idx_g3 IPC_DEFAULT_LOCAL_CORE_g3)
      | _ \<Rightarrow> None)"

definition remote_core_idx_g3 :: "ipc_shm_remote_core \<Rightarrow> int option" where
  "remote_core_idx_g3 c =
     (case rcore_type c of
        IPC_CORE_A53 \<Rightarrow>
          (case rcore_index c of
             IPC_CORE_INDEX_0 \<Rightarrow> Some (processor_idx_g3 IPC_A53_0_g3)
             | IPC_CORE_INDEX_1 \<Rightarrow> Some (processor_idx_g3 IPC_A53_1_g3)
             | IPC_CORE_INDEX_2 \<Rightarrow> Some (processor_idx_g3 IPC_A53_2_g3)
             | IPC_CORE_INDEX_3 \<Rightarrow> Some (processor_idx_g3 IPC_A53_3_g3)
             | IPC_CORE_INDEX_4 \<Rightarrow> Some (processor_idx_g3 IPC_A53_4_g3)
             | IPC_CORE_INDEX_5 \<Rightarrow> Some (processor_idx_g3 IPC_A53_5_g3)
             | IPC_CORE_INDEX_6 \<Rightarrow> Some (processor_idx_g3 IPC_A53_6_g3)
             | IPC_CORE_INDEX_7 \<Rightarrow> Some (processor_idx_g3 IPC_A53_7_g3)
           | _ \<Rightarrow> None)
        | IPC_CORE_M7 \<Rightarrow>
          (case rcore_index c of
             IPC_CORE_INDEX_0 \<Rightarrow> Some (processor_idx_g3 IPC_M7_0_g3)
             | IPC_CORE_INDEX_1 \<Rightarrow> Some (processor_idx_g3 IPC_M7_1_g3)
             | IPC_CORE_INDEX_2 \<Rightarrow> Some (processor_idx_g3 IPC_M7_2_g3)
             | IPC_CORE_INDEX_3 \<Rightarrow> Some (processor_idx_g3 IPC_M7_3_g3)
           | _ \<Rightarrow> None)
      | IPC_CORE_DEFAULT \<Rightarrow> Some (processor_idx_g3 IPC_DEFAULT_REMOTE_CORE_g3)
      | _ \<Rightarrow> None)"

text \<open>The mask of trusted cores as the router has it: the upper four A53 cores are processors 8 to 11.\<close>

definition trust_cores_g3 :: "u32 \<Rightarrow> u32" where
  "trust_cores_g3 trusted = (trusted AND 0x0000000F) OR push_bit 4 (trusted AND 0x000000F0)"

text \<open>The MSI index of each transmit interrupt, and the SPI and MSI indices of each receive interrupt.\<close>

definition msi_tx_g3 :: "(int \<times> u8) list" where
  "msi_tx_g3 = [(0, 0), (1, 1), (2, 2), (3, 5), (4, 6), (5, 7), (6, 8), (7, 9), (8, 10), (9, 11), (10, 12), (11, 13)]"

definition msi_rx_g3 :: "(int \<times> u8 \<times> u8) list" where
  "msi_rx_g3 = [(0, 1, 0), (1, 2, 1), (2, 3, 2), (3, 22, 5), (4, 23, 6), (5, 68, 7), (6, 69, 8), (7, 164, 9), (8, 165, 10), (9, 166, 11), (10, 167, 12), (11, 168, 13)]"

definition soc_g3 :: mscm_soc where
  "soc_g3 = \<lparr>soc_layout = layout_g3, soc_local_core = local_core_idx_g3, soc_remote_core = remote_core_idx_g3,
     soc_trust = trust_cores_g3, soc_A53_TR = IPC_MSCM_IRCPCFG_A53_TR_g3, soc_tx_msi = msi_tx_g3, soc_rx_msi = msi_rx_g3\<rparr>"

section \<open>The operations\<close>

definition ipc_hw_get_rx_irq_g3 :: "u8 \<Rightarrow> (ipc_hw_priv_type, 'k) hw_state \<Rightarrow> int option" where
  "ipc_hw_get_rx_irq_g3 i h = map_option hp_mscm_rx_irq (hw_priv i h)"

definition ipc_hw_irq_enable_g3 :: "'k mmio \<Rightarrow> u8 \<Rightarrow> (ipc_hw_priv_type, 'k) hw_state \<Rightarrow> (ipc_hw_priv_type, 'k) hw_state option" where
  "ipc_hw_irq_enable_g3 = mscm_irq_enable layout_g3"

definition ipc_hw_irq_disable_g3 :: "'k mmio \<Rightarrow> u8 \<Rightarrow> (ipc_hw_priv_type, 'k) hw_state \<Rightarrow> (ipc_hw_priv_type, 'k) hw_state option" where
  "ipc_hw_irq_disable_g3 = mscm_irq_disable layout_g3"

definition ipc_hw_irq_notify_g3 :: "'k mmio \<Rightarrow> u8 \<Rightarrow> (ipc_hw_priv_type, 'k) hw_state \<Rightarrow> (ipc_hw_priv_type, 'k) hw_state option" where
  "ipc_hw_irq_notify_g3 = mscm_irq_notify layout_g3"

definition ipc_hw_irq_clear_g3 :: "'k mmio \<Rightarrow> u8 \<Rightarrow> (ipc_hw_priv_type, 'k) hw_state \<Rightarrow> (ipc_hw_priv_type, 'k) hw_state option" where
  "ipc_hw_irq_clear_g3 = mscm_irq_clear layout_g3"

definition ipc_hw_init_low_g3 :: "'k mmio \<Rightarrow> u8 \<Rightarrow> ipc_shm_cfg \<Rightarrow> u64 \<Rightarrow> (ipc_hw_priv_type, 'k) hw_state \<Rightarrow>
    (int \<times> (ipc_hw_priv_type, 'k) hw_state) option" where
  "ipc_hw_init_low_g3 = mscm_init_periph soc_g3"

definition ipc_hw_init_g3 :: "'k mmio \<Rightarrow> u8 \<Rightarrow> ipc_shm_cfg \<Rightarrow> (ipc_hw_priv_type, 'k) hw_state \<Rightarrow>
    (int \<times> (ipc_hw_priv_type, 'k) hw_state) option" where
  "ipc_hw_init_g3 M i cfg h =
     (case io_map_intc M (hw_dev h) of (addr, k) \<Rightarrow> ipc_hw_init_low_g3 M i cfg addr (h\<lparr>hw_dev := k\<rparr>))"

definition ipc_hw_free_g3 :: "'k mmio \<Rightarrow> u8 \<Rightarrow> (ipc_hw_priv_type, 'k) hw_state \<Rightarrow> (ipc_hw_priv_type, 'k) hw_state option" where
  "ipc_hw_free_g3 M i h = do {
     h1 \<leftarrow> ipc_hw_irq_clear_g3 M i h;
     p \<leftarrow> hw_priv i h1;
     Some (h1\<lparr>hw_dev := io_unmap_intc M (hp_ipc_mscm p) (hw_dev h1)\<rparr>) }"

fun hw_op_g3 :: "'k mmio \<Rightarrow> hw_op \<Rightarrow> u8 \<Rightarrow> (ipc_hw_priv_type, 'k) hw_state \<Rightarrow> (ipc_hw_priv_type, 'k) hw_state option" where
  "hw_op_g3 M Hw_Enable = ipc_hw_irq_enable_g3 M"
| "hw_op_g3 M Hw_Disable = ipc_hw_irq_disable_g3 M"
| "hw_op_g3 M Hw_Notify = ipc_hw_irq_notify_g3 M"
| "hw_op_g3 M Hw_Clear = ipc_hw_irq_clear_g3 M"

section \<open>The contract of the interface\<close>

lemma layout_g3_val:
  "layout_g3 = \<lparr>ml_CPXNUM = 0x4, ml_IRCPCFG = 0x400, ml_IRSPRC = 0x880, ml_IRSPRC_COUNT = 240,
     ml_IRCPnIRx = 0xA60, ml_CP_COUNT = 12, ml_IRQ_COUNT = 14\<rparr>"
  by (simp add: layout_g3_def ipc_mscm_regs_g3_def offset_of_def align_up_def IPC_MSCM_CP_COUNT_g3_def
      IPC_MSCM_IRQ_COUNT_g3_def IPC_MSCM_IRSPRC_COUNT_g3_def)

lemma soc_g3_sel [simp]: "soc_layout soc_g3 = layout_g3" by (simp add: soc_g3_def)

lemma processor_idx_g3_range: "0 \<le> processor_idx_g3 c \<and> processor_idx_g3 c < 12"
  by (cases c) simp_all

lemma soc_g3_ok: "soc_ok soc_g3"
  by (auto simp: soc_ok_def soc_g3_def layout_g3_val local_core_idx_g3_def remote_core_idx_g3_def msi_tx_g3_def msi_rx_g3_def
      processor_idx_g3_range split: ipc_shm_core_type.splits ipc_shm_core_index.splits)

lemma as_mscm_g3:
  "ipc_hw_init_g3 = mscm_init soc_g3" "ipc_hw_free_g3 = mscm_free layout_g3" "hw_op_g3 M = mscm_op layout_g3 M"
proof -
  show "hw_op_g3 M = mscm_op layout_g3 M"
  proof
    show "hw_op_g3 M a = mscm_op layout_g3 M a" for a
      by (cases a) (simp_all add: mscm_op_def ipc_hw_irq_enable_g3_def ipc_hw_irq_disable_g3_def ipc_hw_irq_notify_g3_def ipc_hw_irq_clear_g3_def)
  qed
qed (intro ext, simp add: ipc_hw_init_g3_def ipc_hw_init_low_g3_def mscm_init_def ipc_hw_free_g3_def ipc_hw_irq_clear_g3_def mscm_free_def)+

interpretation hw_g3: inter_core_hw "ipc_hw_init_g3 M" "hw_op_g3 M" "ipc_hw_free_g3 M" hw_exists "mscm_ready layout_g3" for M
  using mscm_contract [OF soc_g3_ok, of M] by (simp add: as_mscm_g3)

end
