(* ===== verification/Hw_S32gen1.thy ===== *)
theory Hw_S32gen1
  imports Hw
begin

text \<open>
  The hardware layer of the S32G2 and S32R45 processors: \<open>src/hw/s32gen1/ipc-hw-platform.h\<close> (processor indices, register structure, masks)
  and \<open>src/hw/s32gen1/ipc-hw-s32gen1.c\<close> (the operations of \<open>ipc-hw.h\<close>). The private data and the operations on it
  are those of theory \<open>Hw\<close> at this platform's structure and switch tables.
\<close>

unbundle bit_operations_syntax

section \<open>Processor indices, register structure and masks\<close>

datatype ipc_s32gen1_processor_idx =
    IPC_A53_0_gen1 | IPC_A53_1_gen1 | IPC_A53_2_gen1 | IPC_A53_3_gen1 | IPC_M7_0_gen1
  | IPC_M7_1_gen1 | IPC_M7_2_gen1

fun processor_idx_gen1 :: "ipc_s32gen1_processor_idx \<Rightarrow> int" where
  "processor_idx_gen1 IPC_A53_0_gen1 = 0"
| "processor_idx_gen1 IPC_A53_1_gen1 = 1"
| "processor_idx_gen1 IPC_A53_2_gen1 = 2"
| "processor_idx_gen1 IPC_A53_3_gen1 = 3"
| "processor_idx_gen1 IPC_M7_0_gen1 = 4"
| "processor_idx_gen1 IPC_M7_1_gen1 = 5"
| "processor_idx_gen1 IPC_M7_2_gen1 = 6"

definition IPC_DEFAULT_LOCAL_CORE_gen1 :: ipc_s32gen1_processor_idx where "IPC_DEFAULT_LOCAL_CORE_gen1 = IPC_A53_0_gen1"
definition IPC_DEFAULT_REMOTE_CORE_gen1 :: ipc_s32gen1_processor_idx where "IPC_DEFAULT_REMOTE_CORE_gen1 = IPC_M7_0_gen1"
definition IPC_MSCM_CP_COUNT_gen1 :: nat where "IPC_MSCM_CP_COUNT_gen1 = 7"
definition IPC_MSCM_IRQ_COUNT_gen1 :: nat where "IPC_MSCM_IRQ_COUNT_gen1 = 4"
definition IPC_MSCM_IRSPRC_COUNT_gen1 :: nat where "IPC_MSCM_IRSPRC_COUNT_gen1 = 240"
definition IPC_MSCM_IRCPCFG_A53_TR_gen1 :: u32 where "IPC_MSCM_IRCPCFG_A53_TR_gen1 = 0x0F"

definition ipc_mscm_regs_gen1 :: "struct_member list" where
  "ipc_mscm_regs_gen1 =
    [(''CPXTYPE'', 4, 4), (''CPXNUM'', 4, 4), (''CPXREV'', 4, 4), (''CPXCFG'', 4, 4 * 4),
     (''RESERVED00'', 1, 1 * 4), (''CP0TYPE'', 4, 4), (''CP0NUM'', 4, 4), (''CP0REV'', 4, 4),
     (''CP0CFG'', 4, 4 * 4), (''RESERVED01'', 1, 1 * 4), (''CP1TYPE'', 4, 4), (''CP1NUM'', 4, 4),
     (''CP1REV'', 4, 4), (''CP1CFG'', 4, 4 * 4), (''RESERVED02'', 1, 1 * 4), (''CP2TYPE'', 4, 4),
     (''CP2NUM'', 4, 4), (''CP2REV'', 4, 4), (''CP2CFG'', 4, 4 * 4), (''RESERVED03'', 1, 1 * 4),
     (''CP3TYPE'', 4, 4), (''CP3NUM'', 4, 4), (''CP3REV'', 4, 4), (''CP3CFG'', 4, 4 * 4),
     (''RESERVED04'', 1, 1 * 4), (''CP4TYPE'', 4, 4), (''CP4NUM'', 4, 4), (''CP4REV'', 4, 4),
     (''CP4CFG'', 4, 4 * 4), (''RESERVED05'', 1, 1 * 4), (''CP5TYPE'', 4, 4), (''CP5NUM'', 4, 4),
     (''CP5REV'', 4, 4), (''CP5CFG'', 4, 4 * 4), (''RESERVED06'', 1, 1 * 4), (''CP6TYPE'', 4, 4),
     (''CP6NUM'', 4, 4), (''CP6REV'', 4, 4), (''CP6CFG'', 4, 4 * 4), (''RESERVED07'', 1, 1 * 260),
     (''IRCPnIRx'', 4, 8 * 7 * 4), (''RESERVED08'', 1, 1 * 288), (''IRCPCFG'', 4, 4),
     (''RESERVED09'', 1, 1 * 1020), (''IRNMIC'', 4, 4), (''RESERVED10'', 1, 1 * 124), (''IRSPRC'', 2, 2 * 240)]"

definition layout_gen1 :: mscm_layout where
  "layout_gen1 = \<lparr>
     ml_CPXNUM = offset_of ''CPXNUM'' ipc_mscm_regs_gen1, ml_IRCPCFG = offset_of ''IRCPCFG'' ipc_mscm_regs_gen1,
     ml_IRSPRC = offset_of ''IRSPRC'' ipc_mscm_regs_gen1, ml_IRSPRC_COUNT = IPC_MSCM_IRSPRC_COUNT_gen1,
     ml_IRCPnIRx = offset_of ''IRCPnIRx'' ipc_mscm_regs_gen1, ml_CP_COUNT = IPC_MSCM_CP_COUNT_gen1,
     ml_IRQ_COUNT = IPC_MSCM_IRQ_COUNT_gen1\<rparr>"

section \<open>The switch tables of \<open>_ipc_hw_init\<close>\<close>

definition local_core_idx_gen1 :: "ipc_shm_local_core \<Rightarrow> int option" where
  "local_core_idx_gen1 c =
     (case lcore_type c of
        IPC_CORE_A53 \<Rightarrow>
          (case lcore_index c of
             IPC_CORE_INDEX_0 \<Rightarrow> Some (processor_idx_gen1 IPC_A53_0_gen1)
             | IPC_CORE_INDEX_1 \<Rightarrow> Some (processor_idx_gen1 IPC_A53_1_gen1)
             | IPC_CORE_INDEX_2 \<Rightarrow> Some (processor_idx_gen1 IPC_A53_2_gen1)
             | IPC_CORE_INDEX_3 \<Rightarrow> Some (processor_idx_gen1 IPC_A53_3_gen1)
           | _ \<Rightarrow> None)
      | IPC_CORE_DEFAULT \<Rightarrow> Some (processor_idx_gen1 IPC_DEFAULT_LOCAL_CORE_gen1)
      | _ \<Rightarrow> None)"

definition remote_core_idx_gen1 :: "ipc_shm_remote_core \<Rightarrow> int option" where
  "remote_core_idx_gen1 c =
     (case rcore_type c of
        IPC_CORE_A53 \<Rightarrow>
          (case rcore_index c of
             IPC_CORE_INDEX_0 \<Rightarrow> Some (processor_idx_gen1 IPC_A53_0_gen1)
             | IPC_CORE_INDEX_1 \<Rightarrow> Some (processor_idx_gen1 IPC_A53_1_gen1)
             | IPC_CORE_INDEX_2 \<Rightarrow> Some (processor_idx_gen1 IPC_A53_2_gen1)
             | IPC_CORE_INDEX_3 \<Rightarrow> Some (processor_idx_gen1 IPC_A53_3_gen1)
           | _ \<Rightarrow> None)
        | IPC_CORE_M7 \<Rightarrow>
          (case rcore_index c of
             IPC_CORE_INDEX_0 \<Rightarrow> Some (processor_idx_gen1 IPC_M7_0_gen1)
             | IPC_CORE_INDEX_1 \<Rightarrow> Some (processor_idx_gen1 IPC_M7_1_gen1)
             | IPC_CORE_INDEX_2 \<Rightarrow> Some (processor_idx_gen1 IPC_M7_2_gen1)
           | _ \<Rightarrow> None)
      | IPC_CORE_DEFAULT \<Rightarrow> Some (processor_idx_gen1 IPC_DEFAULT_REMOTE_CORE_gen1)
      | _ \<Rightarrow> None)"

text \<open>The mask of trusted cores is taken as it is configured.\<close>

definition trust_cores_gen1 :: "u32 \<Rightarrow> u32" where
  "trust_cores_gen1 trusted = trusted"

text \<open>The MSI index of each transmit interrupt, and the SPI and MSI indices of each receive interrupt.\<close>

definition msi_tx_gen1 :: "(int \<times> u8) list" where
  "msi_tx_gen1 = [(0, 0), (1, 1), (2, 2)]"

definition msi_rx_gen1 :: "(int \<times> u8 \<times> u8) list" where
  "msi_rx_gen1 = [(0, 1, 0), (1, 2, 1), (2, 3, 2)]"

definition soc_gen1 :: mscm_soc where
  "soc_gen1 = \<lparr>soc_layout = layout_gen1, soc_local_core = local_core_idx_gen1, soc_remote_core = remote_core_idx_gen1,
     soc_trust = trust_cores_gen1, soc_A53_TR = IPC_MSCM_IRCPCFG_A53_TR_gen1, soc_tx_msi = msi_tx_gen1, soc_rx_msi = msi_rx_gen1\<rparr>"

section \<open>The operations\<close>

definition ipc_hw_get_rx_irq_gen1 :: "u8 \<Rightarrow> (ipc_hw_priv_type, 'k) hw_state \<Rightarrow> int option" where
  "ipc_hw_get_rx_irq_gen1 i h = map_option hp_mscm_rx_irq (hw_priv i h)"

definition ipc_hw_irq_enable_gen1 :: "'k mmio \<Rightarrow> u8 \<Rightarrow> (ipc_hw_priv_type, 'k) hw_state \<Rightarrow> (ipc_hw_priv_type, 'k) hw_state option" where
  "ipc_hw_irq_enable_gen1 = mscm_irq_enable layout_gen1"

definition ipc_hw_irq_disable_gen1 :: "'k mmio \<Rightarrow> u8 \<Rightarrow> (ipc_hw_priv_type, 'k) hw_state \<Rightarrow> (ipc_hw_priv_type, 'k) hw_state option" where
  "ipc_hw_irq_disable_gen1 = mscm_irq_disable layout_gen1"

definition ipc_hw_irq_notify_gen1 :: "'k mmio \<Rightarrow> u8 \<Rightarrow> (ipc_hw_priv_type, 'k) hw_state \<Rightarrow> (ipc_hw_priv_type, 'k) hw_state option" where
  "ipc_hw_irq_notify_gen1 = mscm_irq_notify layout_gen1"

definition ipc_hw_irq_clear_gen1 :: "'k mmio \<Rightarrow> u8 \<Rightarrow> (ipc_hw_priv_type, 'k) hw_state \<Rightarrow> (ipc_hw_priv_type, 'k) hw_state option" where
  "ipc_hw_irq_clear_gen1 = mscm_irq_clear layout_gen1"

definition ipc_hw_init_low_gen1 :: "'k mmio \<Rightarrow> u8 \<Rightarrow> ipc_shm_cfg \<Rightarrow> u64 \<Rightarrow> (ipc_hw_priv_type, 'k) hw_state \<Rightarrow>
    (int \<times> (ipc_hw_priv_type, 'k) hw_state) option" where
  "ipc_hw_init_low_gen1 = mscm_init_periph soc_gen1"

definition ipc_hw_init_gen1 :: "'k mmio \<Rightarrow> u8 \<Rightarrow> ipc_shm_cfg \<Rightarrow> (ipc_hw_priv_type, 'k) hw_state \<Rightarrow>
    (int \<times> (ipc_hw_priv_type, 'k) hw_state) option" where
  "ipc_hw_init_gen1 M i cfg h =
     (case io_map_intc M (hw_dev h) of (addr, k) \<Rightarrow> ipc_hw_init_low_gen1 M i cfg addr (h\<lparr>hw_dev := k\<rparr>))"

definition ipc_hw_free_gen1 :: "'k mmio \<Rightarrow> u8 \<Rightarrow> (ipc_hw_priv_type, 'k) hw_state \<Rightarrow> (ipc_hw_priv_type, 'k) hw_state option" where
  "ipc_hw_free_gen1 M i h = do {
     h1 \<leftarrow> ipc_hw_irq_clear_gen1 M i h;
     p \<leftarrow> hw_priv i h1;
     Some (h1\<lparr>hw_dev := io_unmap_intc M (hp_ipc_mscm p) (hw_dev h1)\<rparr>) }"

fun hw_op_gen1 :: "'k mmio \<Rightarrow> hw_op \<Rightarrow> u8 \<Rightarrow> (ipc_hw_priv_type, 'k) hw_state \<Rightarrow> (ipc_hw_priv_type, 'k) hw_state option" where
  "hw_op_gen1 M Hw_Enable = ipc_hw_irq_enable_gen1 M"
| "hw_op_gen1 M Hw_Disable = ipc_hw_irq_disable_gen1 M"
| "hw_op_gen1 M Hw_Notify = ipc_hw_irq_notify_gen1 M"
| "hw_op_gen1 M Hw_Clear = ipc_hw_irq_clear_gen1 M"

section \<open>The contract of the interface\<close>

lemma layout_gen1_val:
  "layout_gen1 = \<lparr>ml_CPXNUM = 0x4, ml_IRCPCFG = 0x400, ml_IRSPRC = 0x880, ml_IRSPRC_COUNT = 240,
     ml_IRCPnIRx = 0x200, ml_CP_COUNT = 7, ml_IRQ_COUNT = 4\<rparr>"
  by (simp add: layout_gen1_def ipc_mscm_regs_gen1_def offset_of_def align_up_def IPC_MSCM_CP_COUNT_gen1_def
      IPC_MSCM_IRQ_COUNT_gen1_def IPC_MSCM_IRSPRC_COUNT_gen1_def)

lemma soc_gen1_sel [simp]: "soc_layout soc_gen1 = layout_gen1" by (simp add: soc_gen1_def)

lemma processor_idx_gen1_range: "0 \<le> processor_idx_gen1 c \<and> processor_idx_gen1 c < 7"
  by (cases c) simp_all

lemma soc_gen1_ok: "soc_ok soc_gen1"
  by (auto simp: soc_ok_def soc_gen1_def layout_gen1_val local_core_idx_gen1_def remote_core_idx_gen1_def msi_tx_gen1_def msi_rx_gen1_def
      processor_idx_gen1_range split: ipc_shm_core_type.splits ipc_shm_core_index.splits)

lemma as_mscm_gen1:
  "ipc_hw_init_gen1 = mscm_init soc_gen1" "ipc_hw_free_gen1 = mscm_free layout_gen1" "hw_op_gen1 M = mscm_op layout_gen1 M"
proof -
  show "hw_op_gen1 M = mscm_op layout_gen1 M"
  proof
    show "hw_op_gen1 M a = mscm_op layout_gen1 M a" for a
      by (cases a) (simp_all add: mscm_op_def ipc_hw_irq_enable_gen1_def ipc_hw_irq_disable_gen1_def ipc_hw_irq_notify_gen1_def ipc_hw_irq_clear_gen1_def)
  qed
qed (intro ext, simp add: ipc_hw_init_gen1_def ipc_hw_init_low_gen1_def mscm_init_def ipc_hw_free_gen1_def ipc_hw_irq_clear_gen1_def mscm_free_def)+

interpretation hw_gen1: inter_core_hw "ipc_hw_init_gen1 M" "hw_op_gen1 M" "ipc_hw_free_gen1 M" hw_exists "mscm_ready layout_gen1" for M
  using mscm_contract [OF soc_gen1_ok, of M] by (simp add: as_mscm_gen1)

end
