(* ===== verification/Hw_S32r47.thy ===== *)
theory Hw_S32r47
  imports Hw
begin

text \<open>
  The hardware layer of the S32R47 processors, \<open>src/hw/s32r47/ipc-hw-s32r47.c\<close>. Unlike the other MSCM platforms
  the inter-core interrupt number is itself the index into the register arrays (a \<open>int16_t\<close> of the private
  data), the core switches are separate functions that store their result in the private data as they go, and
  DSP cores are remote cores with a restricted receive interrupt.
\<close>

unbundle bit_operations_syntax

section \<open>Processor indices, register structure and private data\<close>

datatype ipc_s32r47_processor_idx =
    IPC_A53_0_r47 | IPC_A53_1_r47 | IPC_A53_2_r47 | IPC_A53_3_r47 | IPC_M7_0_r47 | IPC_M7_1_r47 | IPC_M7_2_r47
  | IPC_BBE32_0_r47 | IPC_BBE32_1_r47 | IPC_KQ8_0_r47 | IPC_KQ8_1_r47

fun processor_idx_r47 :: "ipc_s32r47_processor_idx \<Rightarrow> int" where
  "processor_idx_r47 IPC_A53_0_r47 = 0"
| "processor_idx_r47 IPC_A53_1_r47 = 1"
| "processor_idx_r47 IPC_A53_2_r47 = 2"
| "processor_idx_r47 IPC_A53_3_r47 = 3"
| "processor_idx_r47 IPC_M7_0_r47 = 4"
| "processor_idx_r47 IPC_M7_1_r47 = 5"
| "processor_idx_r47 IPC_M7_2_r47 = 6"
| "processor_idx_r47 IPC_BBE32_0_r47 = 7"
| "processor_idx_r47 IPC_BBE32_1_r47 = 8"
| "processor_idx_r47 IPC_KQ8_0_r47 = 9"
| "processor_idx_r47 IPC_KQ8_1_r47 = 10"

definition MSCM_INT0_IRQn :: int where "MSCM_INT0_IRQn = 0"
definition MSCM_INT1_IRQn :: int where "MSCM_INT1_IRQn = 1"
definition MSCM_INT10_IRQn :: int where "MSCM_INT10_IRQn = 10"
definition IPC_DEFAULT_REMOTE_CORE_r47 :: ipc_s32r47_processor_idx where "IPC_DEFAULT_REMOTE_CORE_r47 = IPC_M7_0_r47"
definition IPC_DEFAULT_LOCAL_CORE_r47 :: ipc_s32r47_processor_idx where "IPC_DEFAULT_LOCAL_CORE_r47 = IPC_A53_0_r47"
definition IPC_MSCM_IRSPRC_COUNT_r47 :: nat where "IPC_MSCM_IRSPRC_COUNT_r47 = 240"
definition IPC_MSCM_CP_COUNT_r47 :: nat where "IPC_MSCM_CP_COUNT_r47 = 11"
definition IPC_MSCM_IRQ_COUNT_r47 :: nat where "IPC_MSCM_IRQ_COUNT_r47 = 13"
definition IPC_MSCM_IRCPnIGRx_INT_EN :: u32 where "IPC_MSCM_IRCPnIGRx_INT_EN = 1"
definition IPC_MSCM_IRSPRCn_GIC500_r47 :: u16 where "IPC_MSCM_IRSPRCn_GIC500_r47 = 1"
definition IPC_MSCM_IRCPCFG_LOCK_r47 :: u32 where "IPC_MSCM_IRCPCFG_LOCK_r47 = 0x80000000"
definition IPC_MSCM_IRCPCFG_A53_TR_r47 :: u32 where "IPC_MSCM_IRCPCFG_A53_TR_r47 = 0x0F"

definition ipc_mscm_regs_r47 :: "struct_member list" where
  "ipc_mscm_regs_r47 =
    [(''CPXTYPE'', 4, 4), (''CPXNUM'', 4, 4), (''CPXREV'', 4, 4), (''CPXCFG'', 4, 4 * 4),
     (''CPnINFO'', 4, 32 * 11), (''RESERVED_11'', 1, 1 * 644), (''IRCPCFG'', 4, 4),
     (''RESERVED_12'', 1, 1 * 1020), (''IRNMIC'', 4, 4), (''RESERVED_13'', 1, 1 * 124),
     (''IRSPRC'', 2, 2 * 240), (''RESERVED_14'', 1, 1 * 32), (''IRCPnIRx'', 4, 8 * 11 * 13),
     (''RESERVED_15'', 1, 1 * 184), (''ENEDC'', 4, 4 * 3), (''RESERVED_16'', 1, 1 * 4),
     (''IAHBCFGREG'', 4, 4 * 3)]"

definition layout_r47 :: mscm_layout where
  "layout_r47 = \<lparr>
     ml_CPXNUM = offset_of ''CPXNUM'' ipc_mscm_regs_r47, ml_IRCPCFG = offset_of ''IRCPCFG'' ipc_mscm_regs_r47,
     ml_IRSPRC = offset_of ''IRSPRC'' ipc_mscm_regs_r47, ml_IRSPRC_COUNT = IPC_MSCM_IRSPRC_COUNT_r47,
     ml_IRCPnIRx = offset_of ''IRCPnIRx'' ipc_mscm_regs_r47, ml_CP_COUNT = IPC_MSCM_CP_COUNT_r47,
     ml_IRQ_COUNT = IPC_MSCM_IRQ_COUNT_r47\<rparr>"

record ipc_hw_priv_r47 =
  hr_mscm_tx_irq :: int
  hr_mscm_rx_irq :: int
  hr_shm_size :: u32
  hr_remote_core :: ipc_s32r47_processor_idx
  hr_local_core :: ipc_s32r47_processor_idx
  hr_ipc_mscm :: u64

definition int16 :: "int \<Rightarrow> int" where
  "int16 x = sint (word_of_int x :: 16 word)"

type_synonym 'k hw_r47 = "(ipc_hw_priv_r47, 'k) hw_state"

section \<open>Core selection\<close>

definition local_core_r47 :: "ipc_shm_local_core \<Rightarrow> ipc_s32r47_processor_idx option" where
  "local_core_r47 c =
     (case lcore_type c of
        IPC_CORE_A53 \<Rightarrow>
          (case lcore_index c of
             IPC_CORE_INDEX_0 \<Rightarrow> Some IPC_A53_0_r47
             | IPC_CORE_INDEX_1 \<Rightarrow> Some IPC_A53_1_r47
             | IPC_CORE_INDEX_2 \<Rightarrow> Some IPC_A53_2_r47
             | IPC_CORE_INDEX_3 \<Rightarrow> Some IPC_A53_3_r47
           | _ \<Rightarrow> None)
      | IPC_CORE_DEFAULT \<Rightarrow> Some IPC_DEFAULT_LOCAL_CORE_r47
      | _ \<Rightarrow> None)"

definition remote_core_r47 :: "ipc_shm_remote_core \<Rightarrow> ipc_s32r47_processor_idx option" where
  "remote_core_r47 c =
     (case rcore_type c of
        IPC_CORE_A53 \<Rightarrow>
          (case rcore_index c of
             IPC_CORE_INDEX_0 \<Rightarrow> Some IPC_A53_0_r47
             | IPC_CORE_INDEX_1 \<Rightarrow> Some IPC_A53_1_r47
             | IPC_CORE_INDEX_2 \<Rightarrow> Some IPC_A53_2_r47
             | IPC_CORE_INDEX_3 \<Rightarrow> Some IPC_A53_3_r47
           | _ \<Rightarrow> None)
      | IPC_CORE_M7 \<Rightarrow>
          (case rcore_index c of
             IPC_CORE_INDEX_0 \<Rightarrow> Some IPC_M7_0_r47
             | IPC_CORE_INDEX_1 \<Rightarrow> Some IPC_M7_1_r47
             | IPC_CORE_INDEX_2 \<Rightarrow> Some IPC_M7_2_r47
           | _ \<Rightarrow> None)
      | IPC_CORE_KQ8 \<Rightarrow>
          (case rcore_index c of
             IPC_CORE_INDEX_0 \<Rightarrow> Some IPC_KQ8_0_r47
             | IPC_CORE_INDEX_1 \<Rightarrow> Some IPC_KQ8_1_r47
           | _ \<Rightarrow> None)
      | IPC_CORE_BBE32 \<Rightarrow>
          (case rcore_index c of
             IPC_CORE_INDEX_0 \<Rightarrow> Some IPC_BBE32_0_r47
             | IPC_CORE_INDEX_1 \<Rightarrow> Some IPC_BBE32_1_r47
           | _ \<Rightarrow> None)
      | IPC_CORE_DEFAULT \<Rightarrow> Some IPC_DEFAULT_REMOTE_CORE_r47
      | _ \<Rightarrow> None)"

definition ipc_hw_local_core_init :: "u8 \<Rightarrow> ipc_shm_cfg \<Rightarrow> 'k hw_r47 \<Rightarrow> (int \<times> 'k hw_r47) option" where
  "ipc_hw_local_core_init i cfg h = do {
     p \<leftarrow> hw_priv i h;
     case local_core_r47 (cfg_local_core cfg) of
       None \<Rightarrow> Some (- EINVAL, h)
     | Some c \<Rightarrow> do {
         let h1 = set_hw_priv i (p\<lparr>hr_local_core := c\<rparr>) h;
         let trusted = lcore_trusted (cfg_local_core cfg);
         if trusted = 0 \<or> trusted AND NOT IPC_MSCM_IRCPCFG_A53_TR_r47 \<noteq> 0
            \<or> push_bit (nat (processor_idx_r47 c)) 1 AND NOT trusted \<noteq> 0
         then Some (- EINVAL, h1)
         else Some (0, h1) } }"

definition ipc_hw_remote_core_init :: "u8 \<Rightarrow> ipc_shm_cfg \<Rightarrow> 'k hw_r47 \<Rightarrow> (int \<times> 'k hw_r47) option" where
  "ipc_hw_remote_core_init i cfg h = do {
     p \<leftarrow> hw_priv i h;
     case remote_core_r47 (cfg_remote_core cfg) of
       None \<Rightarrow> Some (- EINVAL, h)
     | Some c \<Rightarrow> Some (0, set_hw_priv i (p\<lparr>hr_remote_core := c\<rparr>) h) }"

section \<open>The operations\<close>

definition ipc_hw_get_rx_irq_r47 :: "u8 \<Rightarrow> 'k hw_r47 \<Rightarrow> int option" where
  "ipc_hw_get_rx_irq_r47 i h = map_option hr_mscm_rx_irq (hw_priv i h)"

definition ipc_hw_irq_enable_r47 :: "'k mmio \<Rightarrow> u8 \<Rightarrow> 'k hw_r47 \<Rightarrow> 'k hw_r47 option" where
  "ipc_hw_irq_enable_r47 M i h = do {
     p \<leftarrow> hw_priv i h;
     if hr_mscm_rx_irq p \<noteq> IPC_IRQ_NONE then do {
       a \<leftarrow> IRSPRC_at layout_r47 (hr_ipc_mscm p) (hr_mscm_rx_irq p);
       Some (h\<lparr>hw_dev := rmw16 M a (\<lambda>v. v OR IPC_MSCM_IRSPRCn_GIC500_r47) (hw_dev h)\<rparr>) }
     else Some h }"

definition ipc_hw_irq_disable_r47 :: "'k mmio \<Rightarrow> u8 \<Rightarrow> 'k hw_r47 \<Rightarrow> 'k hw_r47 option" where
  "ipc_hw_irq_disable_r47 M i h = do {
     p \<leftarrow> hw_priv i h;
     if hr_mscm_rx_irq p \<noteq> IPC_IRQ_NONE then do {
       a \<leftarrow> IRSPRC_at layout_r47 (hr_ipc_mscm p) (hr_mscm_rx_irq p);
       Some (h\<lparr>hw_dev := rmw16 M a (\<lambda>v. v AND NOT IPC_MSCM_IRSPRCn_GIC500_r47) (hw_dev h)\<rparr>) }
     else Some h }"

definition ipc_hw_irq_notify_r47 :: "'k mmio \<Rightarrow> u8 \<Rightarrow> 'k hw_r47 \<Rightarrow> 'k hw_r47 option" where
  "ipc_hw_irq_notify_r47 M i h = do {
     p \<leftarrow> hw_priv i h;
     if hr_mscm_tx_irq p \<noteq> IPC_IRQ_NONE then do {
       a \<leftarrow> IPC_IGR_at layout_r47 (hr_ipc_mscm p) (processor_idx_r47 (hr_remote_core p)) (hr_mscm_tx_irq p);
       Some (h\<lparr>hw_dev := io_writel M IPC_MSCM_IRCPnIGRx_INT_EN a (hw_dev h)\<rparr>) }
     else Some h }"

definition ipc_hw_irq_clear_r47 :: "'k mmio \<Rightarrow> u8 \<Rightarrow> 'k hw_r47 \<Rightarrow> 'k hw_r47 option" where
  "ipc_hw_irq_clear_r47 M i h = do {
     p \<leftarrow> hw_priv i h;
     if hr_mscm_rx_irq p \<noteq> IPC_IRQ_NONE then do {
       a \<leftarrow> IPC_ISR_at layout_r47 (hr_ipc_mscm p) (processor_idx_r47 (hr_local_core p)) (hr_mscm_rx_irq p);
       Some (h\<lparr>hw_dev := io_writel M (push_bit (nat (processor_idx_r47 (hr_remote_core p))) 1) a (hw_dev h)\<rparr>) }
     else Some h }"

definition ipc_hw_free_r47 :: "'k mmio \<Rightarrow> u8 \<Rightarrow> 'k hw_r47 \<Rightarrow> 'k hw_r47 option" where
  "ipc_hw_free_r47 M i h = do {
     h1 \<leftarrow> ipc_hw_irq_clear_r47 M i h;
     p \<leftarrow> hw_priv i h1;
     Some (h1\<lparr>hw_dev := io_unmap_intc M (hr_ipc_mscm p) (hw_dev h1)\<rparr>) }"

text \<open>
  The tests on the two interrupt numbers: in range, and for a DSP remote core (indices from
  \<open>IPC_BBE32_0\<close> to \<open>IPC_KQ8_1\<close>) only interrupts 0 and 1 can be received.
\<close>

definition irq_refused_r47 :: "ipc_shm_cfg \<Rightarrow> ipc_s32r47_processor_idx \<Rightarrow> bool" where
  "irq_refused_r47 cfg remote \<longleftrightarrow>
     (cfg_inter_core_tx_irq cfg \<noteq> IPC_IRQ_NONE \<and>
       (MSCM_INT0_IRQn > cfg_inter_core_tx_irq cfg \<or> MSCM_INT10_IRQn < cfg_inter_core_tx_irq cfg)) \<or>
     (cfg_inter_core_rx_irq cfg \<noteq> IPC_IRQ_NONE \<and>
       ((MSCM_INT0_IRQn > cfg_inter_core_rx_irq cfg \<or> MSCM_INT10_IRQn < cfg_inter_core_rx_irq cfg) \<or>
        (processor_idx_r47 IPC_BBE32_0_r47 \<le> processor_idx_r47 remote \<and>
         processor_idx_r47 IPC_KQ8_1_r47 \<ge> processor_idx_r47 remote \<and>
         cfg_inter_core_rx_irq cfg \<noteq> MSCM_INT0_IRQn \<and> cfg_inter_core_rx_irq cfg \<noteq> MSCM_INT1_IRQn)))"

definition ipc_hw_init_low_r47 :: "'k mmio \<Rightarrow> u8 \<Rightarrow> ipc_shm_cfg \<Rightarrow> u64 \<Rightarrow> 'k hw_r47 \<Rightarrow> (int \<times> 'k hw_r47) option" where
  "ipc_hw_init_low_r47 M i cfg periph_addr h =
     (if periph_addr = 0 then Some (- EINVAL, h)
      else do {
        p0 \<leftarrow> hw_priv i h;
        let h0 = set_hw_priv i (p0\<lparr>hr_ipc_mscm := periph_addr\<rparr>) h;
        (e1, h1) \<leftarrow> ipc_hw_local_core_init i cfg h0;
        if e1 \<noteq> 0 then Some (- EINVAL, h1)
        else do {
          (e2, h2) \<leftarrow> ipc_hw_remote_core_init i cfg h1;
          if e2 \<noteq> 0 then Some (- EINVAL, h2)
          else if irq_clash cfg then Some (- EINVAL, h2)
          else do {
            a \<leftarrow> reg_at periph_addr (ml_CPXNUM layout_r47);
            p \<leftarrow> hw_priv i h2;
            let (cpxnum, k3) = io_readl M a (hw_dev h2);
            let h3 = h2\<lparr>hw_dev := k3\<rparr>;
            if word_of_int (processor_idx_r47 (hr_remote_core p)) = cpxnum \<or> hr_remote_core p = hr_local_core p
            then Some (- EINVAL, h3)
            else if irq_refused_r47 cfg (hr_remote_core p) then Some (- EINVAL, h3)
            else do {
              h4 \<leftarrow> ipc_hw_irq_disable_r47 M i (set_hw_priv i
                 (p\<lparr>hr_mscm_tx_irq := int16 (cfg_inter_core_tx_irq cfg), hr_mscm_rx_irq := int16 (cfg_inter_core_rx_irq cfg)\<rparr>) h3);
              b \<leftarrow> reg_at periph_addr (ml_IRCPCFG layout_r47);
              let (ircpcfg_mask, k5) = io_readl M b (hw_dev h4);
              if ircpcfg_mask AND IPC_MSCM_IRCPCFG_LOCK_r47 \<noteq> 0 then Some (- EACCES, h4\<lparr>hw_dev := k5\<rparr>)
              else Some (0, h4\<lparr>hw_dev := io_writel M (ircpcfg_mask OR lcore_trusted (cfg_local_core cfg)) b k5\<rparr>) } } } })"

definition ipc_hw_init_r47 :: "'k mmio \<Rightarrow> u8 \<Rightarrow> ipc_shm_cfg \<Rightarrow> 'k hw_r47 \<Rightarrow> (int \<times> 'k hw_r47) option" where
  "ipc_hw_init_r47 M i cfg h =
     (case io_map_intc M (hw_dev h) of (addr, k) \<Rightarrow> ipc_hw_init_low_r47 M i cfg addr (h\<lparr>hw_dev := k\<rparr>))"

fun hw_op_r47 :: "'k mmio \<Rightarrow> hw_op \<Rightarrow> u8 \<Rightarrow> 'k hw_r47 \<Rightarrow> 'k hw_r47 option" where
  "hw_op_r47 M Hw_Enable = ipc_hw_irq_enable_r47 M"
| "hw_op_r47 M Hw_Disable = ipc_hw_irq_disable_r47 M"
| "hw_op_r47 M Hw_Notify = ipc_hw_irq_notify_r47 M"
| "hw_op_r47 M Hw_Clear = ipc_hw_irq_clear_r47 M"

section \<open>Every index stays inside its register array\<close>

lemma layout_r47_val:
  "layout_r47 = \<lparr>ml_CPXNUM = 0x4, ml_IRCPCFG = 0x400, ml_IRSPRC = 0x880, ml_IRSPRC_COUNT = 240,
     ml_IRCPnIRx = 0xA80, ml_CP_COUNT = 11, ml_IRQ_COUNT = 13\<rparr>"
  by (simp add: layout_r47_def ipc_mscm_regs_r47_def offset_of_def align_up_def IPC_MSCM_CP_COUNT_r47_def
      IPC_MSCM_IRQ_COUNT_r47_def IPC_MSCM_IRSPRC_COUNT_r47_def)

lemma processor_idx_r47_range: "0 \<le> processor_idx_r47 c" "processor_idx_r47 c < 11"
  by (cases c; simp)+

definition irq_in_range_r47 :: "int \<Rightarrow> bool" where
  "irq_in_range_r47 n \<longleftrightarrow> n = IPC_IRQ_NONE \<or> (0 \<le> n \<and> n \<le> 10)"

definition ready_r47 :: "u8 \<Rightarrow> 'k hw_r47 \<Rightarrow> bool" where
  "ready_r47 i h = (case hw_priv i h of None \<Rightarrow> False
     | Some p \<Rightarrow> hr_ipc_mscm p \<noteq> 0 \<and> irq_in_range_r47 (hr_mscm_tx_irq p) \<and> irq_in_range_r47 (hr_mscm_rx_irq p))"

lemma ready_r47_keep: "hw_privs h' = hw_privs h \<Longrightarrow> ready_r47 i h' = ready_r47 i h"
  by (simp add: ready_r47_def hw_priv_def)

lemma ready_r47_ops:
  assumes "ready_r47 i h"
  shows "\<exists>h'. hw_op_r47 M a i h = Some h' \<and> hw_privs h' = hw_privs h"
  using assms
  by (cases a) (auto simp: ready_r47_def irq_in_range_r47_def ipc_hw_irq_enable_r47_def ipc_hw_irq_disable_r47_def ipc_hw_irq_notify_r47_def
      ipc_hw_irq_clear_r47_def IRSPRC_at_def IRCPnIRx_at_def layout_r47_val processor_idx_r47_range split: option.splits)

lemma ready_r47_free:
  assumes "ready_r47 i h"
  shows "\<exists>h'. ipc_hw_free_r47 M i h = Some h'"
proof -
  from ready_r47_ops [OF assms, of M Hw_Clear] obtain h' where h': "ipc_hw_irq_clear_r47 M i h = Some h'" "hw_privs h' = hw_privs h" by auto
  moreover from h'(2) assms obtain p where "hw_priv i h' = Some p" by (auto simp: ready_r47_def hw_priv_def split: option.splits)
  ultimately show ?thesis by (simp add: ipc_hw_free_r47_def)
qed

lemma int16_id: "- 32768 \<le> x \<Longrightarrow> x < 32768 \<Longrightarrow> int16 x = x"
  by (simp add: int16_def sint_sbintrunc' signed_take_bit_int_eq_self)

lemma irq_accepted_r47:
  assumes "\<not> irq_refused_r47 cfg r"
  shows "irq_in_range_r47 (cfg_inter_core_tx_irq cfg)" "irq_in_range_r47 (cfg_inter_core_rx_irq cfg)"
    "int16 (cfg_inter_core_tx_irq cfg) = cfg_inter_core_tx_irq cfg" "int16 (cfg_inter_core_rx_irq cfg) = cfg_inter_core_rx_irq cfg"
proof -
  show r: "irq_in_range_r47 (cfg_inter_core_tx_irq cfg)" "irq_in_range_r47 (cfg_inter_core_rx_irq cfg)"
    using assms by (auto simp: irq_refused_r47_def irq_in_range_r47_def MSCM_INT0_IRQn_def MSCM_INT10_IRQn_def)
  show "int16 (cfg_inter_core_tx_irq cfg) = cfg_inter_core_tx_irq cfg" "int16 (cfg_inter_core_rx_irq cfg) = cfg_inter_core_rx_irq cfg"
    using r by (auto simp: irq_in_range_r47_def IPC_IRQ_NONE_def intro!: int16_id)
qed

lemma local_core_init_run:
  assumes "hw_priv i h = Some p"
  shows "\<exists>e h1 p1. ipc_hw_local_core_init i cfg h = Some (e, h1) \<and> hw_priv i h1 = Some p1 \<and>
     hr_ipc_mscm p1 = hr_ipc_mscm p"
  using assms by (auto simp: ipc_hw_local_core_init_def Let_def split: option.split)

lemma remote_core_init_run:
  assumes "hw_priv i h = Some p"
  shows "\<exists>e h1 p1. ipc_hw_remote_core_init i cfg h = Some (e, h1) \<and> hw_priv i h1 = Some p1 \<and>
     hr_ipc_mscm p1 = hr_ipc_mscm p"
  using assms by (auto simp: ipc_hw_remote_core_init_def split: option.split)

text \<open>The three outcomes of initialisation; after a success the instance is ready.\<close>

lemma init_low_r47_cases:
  assumes p: "hw_priv i h = Some p0"
  shows "\<exists>e h'. ipc_hw_init_low_r47 M i cfg addr h = Some (e, h') \<and> e \<in> {0, - EINVAL, - EACCES} \<and> (e = 0 \<longrightarrow> ready_r47 i h')"
proof (cases "addr = 0")
  case True
  then show ?thesis by (simp add: ipc_hw_init_low_r47_def EINVAL_def)
next
  case ad: False
  let ?h0 = "set_hw_priv i (p0\<lparr>hr_ipc_mscm := addr\<rparr>) h"
  have p0: "hw_priv i ?h0 = Some (p0\<lparr>hr_ipc_mscm := addr\<rparr>)" using p by simp
  from local_core_init_run [OF p0, of cfg] obtain e1 h1 p1
    where l: "ipc_hw_local_core_init i cfg ?h0 = Some (e1, h1)" "hw_priv i h1 = Some p1" "hr_ipc_mscm p1 = addr" by auto
  from remote_core_init_run [OF l(2), of cfg] obtain e2 h2 p2
    where r: "ipc_hw_remote_core_init i cfg h1 = Some (e2, h2)" "hw_priv i h2 = Some p2" "hr_ipc_mscm p2 = addr" using l(3) by auto
  obtain num k3 where rd: "io_readl M (addr + of_nat (ml_CPXNUM layout_r47)) (hw_dev h2) = (num, k3)" by fastforce
  let ?no = "e1 \<noteq> 0 \<or> e2 \<noteq> 0 \<or> irq_clash cfg \<or> word_of_int (processor_idx_r47 (hr_remote_core p2)) = num \<or>
     hr_remote_core p2 = hr_local_core p2 \<or> irq_refused_r47 cfg (hr_remote_core p2)"
  note eq = ipc_hw_init_low_r47_def Let_def
  show ?thesis
  proof (cases ?no)
    case True
    then have "\<exists>h'. ipc_hw_init_low_r47 M i cfg addr h = Some (- EINVAL, h')"
      using ad p l(1) r(1,2) rd
      by (cases "e1 = 0"; cases "e2 = 0"; cases "irq_clash cfg"; auto simp: eq)
    then show ?thesis by (auto simp: EINVAL_def)
  next
    case ok: False
    let ?p = "p2\<lparr>hr_mscm_tx_irq := int16 (cfg_inter_core_tx_irq cfg), hr_mscm_rx_irq := int16 (cfg_inter_core_rx_irq cfg)\<rparr>"
    let ?h4 = "set_hw_priv i ?p (h2\<lparr>hw_dev := k3\<rparr>)"
    have rdy: "ready_r47 i ?h4"
      using ok irq_accepted_r47 [of cfg "hr_remote_core p2"] r(2,3) ad by (simp add: ready_r47_def)
    from ready_r47_ops [OF this, of M Hw_Disable] obtain h4
      where h4: "ipc_hw_irq_disable_r47 M i ?h4 = Some h4" "hw_privs h4 = hw_privs ?h4" by auto
    obtain mask k5 where rd5: "io_readl M (addr + of_nat (ml_IRCPCFG layout_r47)) (hw_dev h4) = (mask, k5)" by fastforce
    have "ready_r47 i (h4\<lparr>hw_dev := d\<rparr>)" for d using rdy h4(2) by (simp add: ready_r47_def hw_priv_def)
    then show ?thesis using ad p l(1) r(1,2) rd rd5 h4(1) ok by (auto simp: eq EACCES_def)
  qed
qed

interpretation hw_r47: inter_core_hw "ipc_hw_init_r47 M" "hw_op_r47 M" "ipc_hw_free_r47 M" hw_exists ready_r47 for M :: "'k mmio"
proof
  fix i cfg and h :: "'k hw_r47"
  let ?h = "h\<lparr>hw_dev := snd (io_map_intc M (hw_dev h))\<rparr>" and ?a = "fst (io_map_intc M (hw_dev h))"
  have un: "ipc_hw_init_r47 M i cfg h = ipc_hw_init_low_r47 M i cfg ?a ?h" by (simp add: ipc_hw_init_r47_def split_beta)
  have ex: "\<exists>e h'. ipc_hw_init_r47 M i cfg h = Some (e, h') \<and> e \<in> {0, - EINVAL, - EACCES} \<and> (e = 0 \<longrightarrow> ready_r47 i h')"
    if "hw_exists i h"
    using that init_low_r47_cases [of i ?h] unfolding un by (fastforce simp: hw_exists_priv)
  then show "hw_exists i h \<Longrightarrow> \<exists>e h'. ipc_hw_init_r47 M i cfg h = Some (e, h') \<and> e \<in> {0, - EINVAL, - EACCES}" by blast
  show "ready_r47 i h'" if "ipc_hw_init_r47 M i cfg h = Some (0, h')" for h'
  proof (cases "hw_exists i h")
    case False
    then have "hw_priv i ?h = None" by (auto simp: hw_exists_priv hw_priv_def)
    with that show ?thesis by (auto simp: un ipc_hw_init_low_r47_def split: if_splits)
  qed (use ex that in auto)
next
  fix i a and h :: "'k hw_r47"
  assume r: "ready_r47 i h"
  show "\<exists>h'. hw_op_r47 M a i h = Some h' \<and> ready_r47 i h'"
    using ready_r47_ops [OF r, of M a] by (auto intro: ready_r47_keep [THEN iffD2, OF _ r])
  show "\<exists>h'. ipc_hw_free_r47 M i h = Some h'" by (rule ready_r47_free [OF r])
qed

end
