(* ===== verification/Hw_S32v234.thy ===== *)
theory Hw_S32v234
  imports Hw
begin

text \<open>
  The hardware layer of the S32V234 processor: \<open>src/hw/s32v234/ipc-hw-platform.h\<close> and
  \<open>src/hw/s32v234/ipc-hw-s32v234.c\<close>. This file was not adapted to the driver's current interfaces: it keeps one
  private structure for all instances, returns \<open>int\<close> where \<open>ipc-hw.h\<close> declares \<open>int8_t\<close>, mentions an undeclared
  \<open>local_core\<close> in a statement without effect, and reads the remote core through a pointer
  (\<open>cfg->remote_core->type\<close>) although it is a member. The model reads the last as the member's type and keeps
  the single private structure, so the instance number has no influence.
\<close>

unbundle bit_operations_syntax

section \<open>Register structure and bit fields\<close>

datatype s32v234_processor_idx = M4 | A53

fun processor_idx_v234 :: "s32v234_processor_idx \<Rightarrow> nat" where
  "processor_idx_v234 M4 = 0"
| "processor_idx_v234 A53 = 1"

definition DEFAULT_REMOTE_CORE :: s32v234_processor_idx where "DEFAULT_REMOTE_CORE = M4"
definition IRQ_ID_MIN :: int where "IRQ_ID_MIN = 0"
definition IRQ_ID_MAX :: int where "IRQ_ID_MAX = 3"
definition MSCM_IRSPRC_COUNT :: nat where "MSCM_IRSPRC_COUNT = 175"

definition mscm_regs_v234 :: "struct_member list" where
  "mscm_regs_v234 =
    [(''cpxtype'', 4, 4), (''cpxnum'', 4, 4), (''cpxmaster'', 4, 4), (''cpxcount'', 4, 4),
     (''cpxcfg'', 4, 4 * 4), (''cp0type'', 4, 4), (''cp0num'', 4, 4), (''cp0master'', 4, 4),
     (''cp0count'', 4, 4), (''cp0cfg'', 4, 4 * 4), (''cp1type'', 4, 4), (''cp1num'', 4, 4),
     (''cp1master'', 4, 4), (''cp1count'', 4, 4), (''cp1cfg'', 4, 4 * 4), (''reserved00'', 1, 1 * 928),
     (''ocmdr'', 4, 4 * 4), (''reserved01'', 1, 1 * 112), (''tcmdr0'', 4, 4), (''reserved02'', 1, 1 * 124),
     (''cpce0'', 4, 4), (''reserved03'', 1, 1 * 764), (''ircp0ir'', 4, 4), (''ircp1ir'', 4, 4),
     (''reserved04'', 1, 1 * 24), (''ircpgir'', 4, 4), (''reserved05'', 1, 1 * 92), (''irsprc'', 2, 2 * 175),
     (''reserved06'', 1, 1 * 800), (''ipcge'', 4, 4), (''reserved07'', 1, 1 * 12), (''ipce'', 4, 4 * 4),
     (''reserved08'', 1, 1 * 32), (''ipcgie'', 4, 4), (''reserved09'', 1, 1 * 12), (''ipcie'', 4, 4 * 4)]"

definition MSCM_IRCPxIR_INT :: "nat \<Rightarrow> u32" where "MSCM_IRCPxIR_INT n = push_bit n 1"
definition MSCM_IRCPGIR_TLF_MASK :: u32 where "MSCM_IRCPGIR_TLF_MASK = 0x03000000"
definition MSCM_IRCPGIR_CPUTL_MASK :: u32 where "MSCM_IRCPGIR_CPUTL_MASK = 0x000F0000"
definition MSCM_IRCPGIR_INTID_MASK :: u32 where "MSCM_IRCPGIR_INTID_MASK = 0x00000003"
definition MSCM_IRCPGIR_TLF :: "u32 \<Rightarrow> u32" where "MSCM_IRCPGIR_TLF n = push_bit 24 n AND MSCM_IRCPGIR_TLF_MASK"
definition MSCM_IRCPGIR_CPUTL :: "nat \<Rightarrow> u32" where "MSCM_IRCPGIR_CPUTL n = push_bit 16 (push_bit n 1) AND MSCM_IRCPGIR_CPUTL_MASK"
definition MSCM_IRCPGIR_INTID :: "u32 \<Rightarrow> u32" where "MSCM_IRCPGIR_INTID n = push_bit 0 n AND MSCM_IRCPGIR_INTID_MASK"
definition MSCM_IRCPGIR_TLF_CPUTL :: u32 where "MSCM_IRCPGIR_TLF_CPUTL = 0"
definition MSCM_IRSPRCn_CPxE :: "nat \<Rightarrow> u16" where "MSCM_IRSPRCn_CPxE n = push_bit n 1"

record ipc_hw_priv_v234 =
  hv_mscm_tx_irq :: int
  hv_mscm_rx_irq :: int
  hv_remote_core :: nat
  hv_mscm :: u64

record 'k hw_v234 =
  v234_priv :: ipc_hw_priv_v234
  v234_dev :: 'k

definition irsprc_v234 :: "u64 \<Rightarrow> int \<Rightarrow> u64 option" where
  "irsprc_v234 base k =
     (if 0 \<le> k \<and> k < int MSCM_IRSPRC_COUNT then reg_at base (offset_of ''irsprc'' mscm_regs_v234 + 2 * nat k) else None)"

section \<open>The operations\<close>

definition ipc_hw_get_rx_irq_v234 :: "u8 \<Rightarrow> 'k hw_v234 \<Rightarrow> int option" where
  "ipc_hw_get_rx_irq_v234 i h = Some (hv_mscm_rx_irq (v234_priv h))"

definition ipc_hw_irq_enable_v234 :: "'k mmio \<Rightarrow> u8 \<Rightarrow> 'k hw_v234 \<Rightarrow> 'k hw_v234 option" where
  "ipc_hw_irq_enable_v234 M i h = do {
     a \<leftarrow> irsprc_v234 (hv_mscm (v234_priv h)) (hv_mscm_rx_irq (v234_priv h));
     Some (h\<lparr>v234_dev := rmw16 M a (\<lambda>v. v OR MSCM_IRSPRCn_CPxE (processor_idx_v234 A53)) (v234_dev h)\<rparr>) }"

definition ipc_hw_irq_disable_v234 :: "'k mmio \<Rightarrow> u8 \<Rightarrow> 'k hw_v234 \<Rightarrow> 'k hw_v234 option" where
  "ipc_hw_irq_disable_v234 M i h = do {
     a \<leftarrow> irsprc_v234 (hv_mscm (v234_priv h)) (hv_mscm_rx_irq (v234_priv h));
     Some (h\<lparr>v234_dev := rmw16 M a (\<lambda>v. v AND NOT (MSCM_IRSPRCn_CPxE (processor_idx_v234 A53))) (v234_dev h)\<rparr>) }"

definition ipc_hw_irq_notify_v234 :: "'k mmio \<Rightarrow> u8 \<Rightarrow> 'k hw_v234 \<Rightarrow> 'k hw_v234 option" where
  "ipc_hw_irq_notify_v234 M i h =
     (if hv_mscm_tx_irq (v234_priv h) = IPC_IRQ_NONE then Some h
      else do {
        a \<leftarrow> reg_at (hv_mscm (v234_priv h)) (offset_of ''ircpgir'' mscm_regs_v234);
        Some (h\<lparr>v234_dev := io_writel M
          (MSCM_IRCPGIR_TLF MSCM_IRCPGIR_TLF_CPUTL OR MSCM_IRCPGIR_CPUTL (hv_remote_core (v234_priv h)) OR
           MSCM_IRCPGIR_INTID (word_of_int (hv_mscm_tx_irq (v234_priv h)))) a (v234_dev h)\<rparr>) })"

definition ipc_hw_irq_clear_v234 :: "'k mmio \<Rightarrow> u8 \<Rightarrow> 'k hw_v234 \<Rightarrow> 'k hw_v234 option" where
  "ipc_hw_irq_clear_v234 M i h = do {
     a \<leftarrow> reg_at (hv_mscm (v234_priv h)) (offset_of ''ircp1ir'' mscm_regs_v234);
     Some (h\<lparr>v234_dev := io_writel M (MSCM_IRCPxIR_INT (nat (hv_mscm_rx_irq (v234_priv h)))) a (v234_dev h)\<rparr>) }"

definition irq_refused_v234 :: "ipc_shm_cfg \<Rightarrow> bool" where
  "irq_refused_v234 cfg \<longleftrightarrow>
     (cfg_inter_core_tx_irq cfg \<noteq> IPC_IRQ_NONE \<and>
       (cfg_inter_core_tx_irq cfg < IRQ_ID_MIN \<or> cfg_inter_core_tx_irq cfg > IRQ_ID_MAX)) \<or>
     cfg_inter_core_rx_irq cfg < IRQ_ID_MIN \<or> cfg_inter_core_rx_irq cfg > IRQ_ID_MAX \<or>
     cfg_inter_core_rx_irq cfg = cfg_inter_core_tx_irq cfg"

definition ipc_hw_init_low_v234 :: "'k mmio \<Rightarrow> u8 \<Rightarrow> ipc_shm_cfg \<Rightarrow> u64 \<Rightarrow> 'k hw_v234 \<Rightarrow> (int \<times> 'k hw_v234) option" where
  "ipc_hw_init_low_v234 M i cfg periph_addr h =
     (if periph_addr = 0 then Some (- EINVAL, h)
      else let h1 = h\<lparr>v234_priv := (v234_priv h)\<lparr>hv_mscm := periph_addr\<rparr>\<rparr> in
      if rcore_type (cfg_remote_core cfg) \<noteq> IPC_CORE_DEFAULT \<and> rcore_type (cfg_remote_core cfg) \<noteq> IPC_CORE_M4
      then Some (- EINVAL, h1)
      else if irq_refused_v234 cfg then Some (- EINVAL, h1)
      else do {
        h2 \<leftarrow> ipc_hw_irq_disable_v234 M i (h1\<lparr>v234_priv := (v234_priv h1)\<lparr>
               hv_mscm_tx_irq := cfg_inter_core_tx_irq cfg, hv_mscm_rx_irq := cfg_inter_core_rx_irq cfg,
               hv_remote_core := processor_idx_v234 DEFAULT_REMOTE_CORE\<rparr>\<rparr>);
        Some (0, h2) })"

definition ipc_hw_init_v234 :: "'k mmio \<Rightarrow> u8 \<Rightarrow> ipc_shm_cfg \<Rightarrow> 'k hw_v234 \<Rightarrow> (int \<times> 'k hw_v234) option" where
  "ipc_hw_init_v234 M i cfg h =
     (case io_map_intc M (v234_dev h) of (addr, k) \<Rightarrow> ipc_hw_init_low_v234 M i cfg addr (h\<lparr>v234_dev := k\<rparr>))"

definition ipc_hw_free_v234 :: "'k mmio \<Rightarrow> u8 \<Rightarrow> 'k hw_v234 \<Rightarrow> 'k hw_v234 option" where
  "ipc_hw_free_v234 M i h = do {
     h1 \<leftarrow> ipc_hw_irq_clear_v234 M i h;
     Some (h1\<lparr>v234_dev := io_unmap_intc M (hv_mscm (v234_priv h1)) (v234_dev h1)\<rparr>) }"

fun hw_op_v234 :: "'k mmio \<Rightarrow> hw_op \<Rightarrow> u8 \<Rightarrow> 'k hw_v234 \<Rightarrow> 'k hw_v234 option" where
  "hw_op_v234 M Hw_Enable = ipc_hw_irq_enable_v234 M"
| "hw_op_v234 M Hw_Disable = ipc_hw_irq_disable_v234 M"
| "hw_op_v234 M Hw_Notify = ipc_hw_irq_notify_v234 M"
| "hw_op_v234 M Hw_Clear = ipc_hw_irq_clear_v234 M"

section \<open>The contract of the interface\<close>

definition ready_v234 :: "u8 \<Rightarrow> 'k hw_v234 \<Rightarrow> bool" where
  "ready_v234 i h \<longleftrightarrow> hv_mscm (v234_priv h) \<noteq> 0 \<and> IRQ_ID_MIN \<le> hv_mscm_rx_irq (v234_priv h) \<and> hv_mscm_rx_irq (v234_priv h) \<le> IRQ_ID_MAX"

lemma irsprc_v234_in:
  "base \<noteq> 0 \<Longrightarrow> IRQ_ID_MIN \<le> k \<Longrightarrow> k \<le> IRQ_ID_MAX \<Longrightarrow> \<exists>a. irsprc_v234 base k = Some a"
  by (simp add: irsprc_v234_def MSCM_IRSPRC_COUNT_def IRQ_ID_MIN_def IRQ_ID_MAX_def)

lemma ready_v234_ops:
  assumes "ready_v234 i h"
  shows "\<exists>h'. hw_op_v234 M a i h = Some h' \<and> v234_priv h' = v234_priv h"
  using assms irsprc_v234_in [of "hv_mscm (v234_priv h)" "hv_mscm_rx_irq (v234_priv h)"]
  by (cases a) (auto simp: ready_v234_def ipc_hw_irq_enable_v234_def ipc_hw_irq_disable_v234_def ipc_hw_irq_notify_v234_def
      ipc_hw_irq_clear_v234_def)

lemma ready_v234_keep: "v234_priv h' = v234_priv h \<Longrightarrow> ready_v234 i h' = ready_v234 i h"
  by (simp add: ready_v234_def)

lemma init_low_v234_cases:
  "\<exists>e h'. ipc_hw_init_low_v234 M i cfg addr h = Some (e, h') \<and> e \<in> {0, - EINVAL} \<and> (e = 0 \<longrightarrow> ready_v234 i h')"
proof (cases "addr = 0 \<or> rcore_type (cfg_remote_core cfg) \<noteq> IPC_CORE_DEFAULT \<and> rcore_type (cfg_remote_core cfg) \<noteq> IPC_CORE_M4 \<or>
    irq_refused_v234 cfg")
  case True
  then have "\<exists>h'. ipc_hw_init_low_v234 M i cfg addr h = Some (- EINVAL, h')" by (auto simp: ipc_hw_init_low_v234_def Let_def)
  then show ?thesis by (auto simp: EINVAL_def)
next
  case False
  let ?h = "h\<lparr>v234_priv := (v234_priv h)\<lparr>hv_mscm := addr, hv_mscm_tx_irq := cfg_inter_core_tx_irq cfg,
    hv_mscm_rx_irq := cfg_inter_core_rx_irq cfg, hv_remote_core := processor_idx_v234 DEFAULT_REMOTE_CORE\<rparr>\<rparr>"
  have r: "ready_v234 i ?h" using False by (simp add: ready_v234_def irq_refused_v234_def)
  from ready_v234_ops [OF this, of M Hw_Disable] obtain h2
    where "ipc_hw_irq_disable_v234 M i ?h = Some h2" "v234_priv h2 = v234_priv ?h" by auto
  moreover from this(2) r have "ready_v234 i h2" using ready_v234_keep by blast
  ultimately show ?thesis using False by (auto simp: ipc_hw_init_low_v234_def Let_def)
qed

interpretation hw_v234: inter_core_hw "ipc_hw_init_v234 M" "hw_op_v234 M" "ipc_hw_free_v234 M" "\<lambda>i h. True" ready_v234 for M :: "'k mmio"
proof
  fix i cfg and h :: "'k hw_v234"
  have un: "ipc_hw_init_v234 M i cfg h = ipc_hw_init_low_v234 M i cfg (fst (io_map_intc M (v234_dev h))) (h\<lparr>v234_dev := snd (io_map_intc M (v234_dev h))\<rparr>)"
    by (simp add: ipc_hw_init_v234_def split_beta)
  note c = init_low_v234_cases [of M i cfg "fst (io_map_intc M (v234_dev h))" "h\<lparr>v234_dev := snd (io_map_intc M (v234_dev h))\<rparr>", folded un]
  show "\<exists>e h'. ipc_hw_init_v234 M i cfg h = Some (e, h') \<and> e \<in> {0, - EINVAL, - EACCES}" using c by auto
  show "ready_v234 i h'" if "ipc_hw_init_v234 M i cfg h = Some (0, h')" for h' using c that by auto
next
  fix i a and h :: "'k hw_v234"
  assume r: "ready_v234 i h"
  show "\<exists>h'. hw_op_v234 M a i h = Some h' \<and> ready_v234 i h'"
    using ready_v234_ops [OF r, of M a] by (auto intro: ready_v234_keep [THEN iffD2, OF _ r])
  show "\<exists>h'. ipc_hw_free_v234 M i h = Some h'" using ready_v234_ops [OF r, of M Hw_Clear] by (auto simp: ipc_hw_free_v234_def)
qed

end
