(* ===== verification/Hw_Props.thy ===== *)
theory Hw_Props
  imports Hw_S32g3 Hw_S32gen1 Hw_S32r47 Hw_S32v234
begin

text \<open>
  Properties of the hardware layers: the register structures lie where the reference manual's offsets
  (quoted in the headers) are, initialised instances never address outside them, what initialisation
  accepts, the mask of trusted cores, and that two mirrored instances meet at one doorbell.
\<close>

unbundle bit_operations_syntax

section \<open>Register offsets\<close>

definition mscm_offsets_gen1 :: "(string \<times> nat) list" where
  "mscm_offsets_gen1 =
    [(''CPXTYPE'', 0x0), (''CPXNUM'', 0x4), (''CPXREV'', 0x8), (''CPXCFG'', 0xC),
     (''CP0TYPE'', 0x20), (''CP0NUM'', 0x24), (''CP0REV'', 0x28), (''CP0CFG'', 0x2C),
     (''CP1TYPE'', 0x40), (''CP1NUM'', 0x44), (''CP1REV'', 0x48), (''CP1CFG'', 0x4C),
     (''CP2TYPE'', 0x60), (''CP2NUM'', 0x64), (''CP2REV'', 0x68), (''CP2CFG'', 0x6C),
     (''CP3TYPE'', 0x80), (''CP3NUM'', 0x84), (''CP3REV'', 0x88), (''CP3CFG'', 0x8C),
     (''CP4TYPE'', 0xA0), (''CP4NUM'', 0xA4), (''CP4REV'', 0xA8), (''CP4CFG'', 0xAC),
     (''CP5TYPE'', 0xC0), (''CP5NUM'', 0xC4), (''CP5REV'', 0xC8), (''CP5CFG'', 0xCC),
     (''CP6TYPE'', 0xE0), (''CP6NUM'', 0xE4), (''CP6REV'', 0xE8), (''CP6CFG'', 0xEC),
     (''IRCPnIRx'', 0x200), (''IRCPCFG'', 0x400), (''IRNMIC'', 0x800), (''IRSPRC'', 0x880)]"

definition mscm_offsets_v234 :: "(string \<times> nat) list" where
  "mscm_offsets_v234 =
    [(''cpxtype'', 0x0), (''cpxnum'', 0x4), (''cpxmaster'', 0x8), (''cpxcount'', 0xC), (''cpxcfg'', 0x10),
     (''cp0type'', 0x20), (''cp0num'', 0x24), (''cp0master'', 0x28), (''cp0count'', 0x2C), (''cp0cfg'', 0x30),
     (''cp1type'', 0x40), (''cp1num'', 0x44), (''cp1master'', 0x48), (''cp1count'', 0x4C), (''cp1cfg'', 0x50),
     (''ocmdr'', 0x400), (''tcmdr0'', 0x480), (''cpce0'', 0x500), (''ircp0ir'', 0x800), (''ircp1ir'', 0x804),
     (''ircpgir'', 0x820), (''irsprc'', 0x880), (''ipcge'', 0xD00), (''ipce'', 0xD10), (''ipcgie'', 0xD40), (''ipcie'', 0xD50)]"


section \<open>The mask of trusted cores\<close>

definition a53_g3 :: "ipc_s32g3xx_processor_idx list" where
  "a53_g3 = [IPC_A53_0_g3, IPC_A53_1_g3, IPC_A53_2_g3, IPC_A53_3_g3, IPC_A53_4_g3, IPC_A53_5_g3, IPC_A53_6_g3, IPC_A53_7_g3]"

lemma nat_lt_8: "n < (8 :: nat) \<longleftrightarrow> n \<in> {0, 1, 2, 3, 4, 5, 6, 7}" by auto

lemma bit_0xF: "bit (0x0F :: u32) n \<longleftrightarrow> n < 4"
proof (cases "n < 32")
  case True
  then have "n \<in> {..<32}" by simp
  then show ?thesis by (simp add: lessThan_nat_numeral lessThan_Suc) auto
qed (auto dest: bit_imp_le_length)

lemma bit_0xF0: "bit (0xF0 :: u32) n \<longleftrightarrow> 4 \<le> n \<and> n < 8"
proof (cases "n < 32")
  case True
  then have "n \<in> {..<32}" by simp
  then show ?thesis by (simp add: lessThan_nat_numeral lessThan_Suc) auto
qed (auto dest: bit_imp_le_length)

lemma bit_trust_g3: "bit (trust_cores_g3 t) n \<longleftrightarrow> (n < 4 \<and> bit t n) \<or> (8 \<le> n \<and> n < 12 \<and> bit t (n - 4))"
  unfolding trust_cores_g3_def bit_or_iff bit_push_bit_iff bit_and_iff bit_0xF bit_0xF0 by auto

text \<open>
  On the S32G3 the trusted-core mask of the configuration, which numbers the A53 cores from 0 to
  7, is converted exactly to the processor numbering of the interrupt router: a bit of the router mask
  is set if and only if it is the processor index of an A53 core whose bit is set in the configuration.
\<close>

theorem trust_cores_exact:
  "bit (trust_cores_g3 trusted) n \<longleftrightarrow> (\<exists>k<8. bit trusted k \<and> int n = processor_idx_g3 (a53_g3 ! k))"
proof
  assume "bit (trust_cores_g3 trusted) n"
  then consider "n < 4" "bit trusted n" | "8 \<le> n" "n < 12" "bit trusted (n - 4)" by (auto simp: bit_trust_g3)
  then show "\<exists>k<8. bit trusted k \<and> int n = processor_idx_g3 (a53_g3 ! k)"
  proof cases
    case 1
    then show ?thesis by (intro exI [of _ n]) (auto simp: a53_g3_def less_Suc_eq numeral_eq_Suc)
  next
    case 2
    then show ?thesis by (intro exI [of _ "n - 4"]) (auto simp: a53_g3_def less_Suc_eq numeral_eq_Suc)
  qed
next
  assume "\<exists>k<8. bit trusted k \<and> int n = processor_idx_g3 (a53_g3 ! k)"
  then show "bit (trust_cores_g3 trusted) n" by (auto simp: nat_lt_8 a53_g3_def bit_trust_g3)
qed

section \<open>Sessions\<close>

text \<open>A configuration for the witnesses: A53 core 0 with M7 core 0, receive interrupt 1, transmit interrupt 2.\<close>

definition hw_demo_cfg :: ipc_shm_cfg where
  "hw_demo_cfg = \<lparr>cfg_local_shm_addr = 0x34100000, cfg_remote_shm_addr = 0x34200000, cfg_shm_size = 0x100000,
     cfg_inter_core_tx_irq = 2, cfg_inter_core_rx_irq = 1,
     cfg_local_core = \<lparr>lcore_type = IPC_CORE_A53, lcore_index = IPC_CORE_INDEX_0, lcore_trusted = 0x01\<rparr>,
     cfg_remote_core = \<lparr>rcore_type = IPC_CORE_M7, rcore_index = IPC_CORE_INDEX_0\<rparr>,
     cfg_num_channels = 1, cfg_channels = None\<rparr>"

definition hw_demo_state :: "(ipc_hw_priv_type, regfile) hw_state" where
  "hw_demo_state = \<lparr>
     hw_privs = replicate 4 \<lparr>hp_msi_tx_irq = 0, hp_msi_rx_irq = 0, hp_spi_index = 0, hp_mscm_tx_irq = 0, hp_mscm_rx_irq = 0,
        hp_remote_core = 0, hp_local_core = 0, hp_ipc_mscm = 0\<rparr>,
     hw_dev = \<lparr>rf_word = (\<lambda>_. 0), rf_half = (\<lambda>_. 0)\<rparr>\<rparr>"


definition hw_demo_state_r47 :: "regfile hw_r47" where
  "hw_demo_state_r47 = \<lparr>
     hw_privs = replicate 4 \<lparr>hr_mscm_tx_irq = 0, hr_mscm_rx_irq = 0, hr_shm_size = 0, hr_remote_core = IPC_A53_0_r47,
        hr_local_core = IPC_A53_0_r47, hr_ipc_mscm = 0\<rparr>,
     hw_dev = \<lparr>rf_word = (\<lambda>_. 0), rf_half = (\<lambda>_. 0)\<rparr>\<rparr>"

lemma hw_demo_exists: "hw_exists 1 hw_demo_state" "hw_exists 1 hw_demo_state_r47"
  by (simp_all add: hw_exists_def hw_demo_state_def hw_demo_state_r47_def)


section \<open>What initialisation accepts\<close>

lemma and_bit_zero: "(2 ^ k :: u32) AND NOT x = 0 \<longleftrightarrow> 32 \<le> k \<or> bit x k"
  by (auto simp: bit_eq_iff [where 'a = "32 word"] bit_and_iff bit_not_iff bit_exp_iff not_le)

lemma trust_g3_A53: "trust_cores_g3 t AND NOT IPC_MSCM_IRCPCFG_A53_TR_g3 = 0"
proof (rule bit_eqI)
  fix n
  have "bit (0xF0F :: u32) n" if "n < 4 \<or> 8 \<le> n \<and> n < 12"
    using that by (auto simp: less_Suc_eq numeral_eq_Suc)
  then show "bit (trust_cores_g3 t AND NOT IPC_MSCM_IRCPCFG_A53_TR_g3) n = bit (0 :: u32) n"
    unfolding bit_and_iff bit_not_iff bit_trust_g3 IPC_MSCM_IRCPCFG_A53_TR_g3_def by auto
qed

lemma trust_refused_g3:
  "l < 32 \<Longrightarrow> trust_refused soc_g3 (trust_cores_g3 t) l \<longleftrightarrow> \<not> bit (trust_cores_g3 t) (nat l)"
  by (auto simp: trust_refused_def soc_g3_def trust_g3_A53 and_bit_zero)

lemma msi_dom_g3: "fst ` set msi_tx_g3 = {0..11}" "fst ` set msi_rx_g3 = {0..11}"
  unfolding set_upto [symmetric] by (simp_all add: msi_tx_g3_def msi_rx_g3_def upto.simps del: set_upto)

lemma lock_bit: "x AND IPC_MSCM_IRCPCFG_LOCK = 0 \<longleftrightarrow> \<not> bit x 31"
proof -
  have "IPC_MSCM_IRCPCFG_LOCK = push_bit 31 1" by (simp add: IPC_MSCM_IRCPCFG_LOCK_def)
  then show ?thesis by (simp only: bit_iff_and_push_bit_not_eq_0 not_not)
qed

lemma local_idx_g3_lt: "local_core_idx_g3 c = Some l \<Longrightarrow> l < 32"
  using soc_g3_ok by (fastforce simp: soc_ok_def soc_g3_def layout_g3_val)

lemma cfg_ok_g3:
  "mscm_cfg_ok soc_g3 cfg num \<longleftrightarrow>
    (\<exists>l r. local_core_idx_g3 (cfg_local_core cfg) = Some l \<and> remote_core_idx_g3 (cfg_remote_core cfg) = Some r \<and>
       bit (trust_cores_g3 (lcore_trusted (cfg_local_core cfg))) (nat l) \<and> r \<noteq> l \<and> word_of_int r \<noteq> num) \<and>
    cfg_inter_core_tx_irq cfg \<in> {-1..11} \<and> cfg_inter_core_rx_irq cfg \<in> {-1..11} \<and>
    (cfg_inter_core_tx_irq cfg = -1 \<or> cfg_inter_core_tx_irq cfg \<noteq> cfg_inter_core_rx_irq cfg)"
proof -
  have sel: "soc_local_core soc_g3 = local_core_idx_g3" "soc_remote_core soc_g3 = remote_core_idx_g3" "soc_trust soc_g3 = trust_cores_g3"
    "soc_tx_msi soc_g3 = msi_tx_g3" "soc_rx_msi soc_g3 = msi_rx_g3"
    by (simp_all add: soc_g3_def)
  have irq: "(x = -1 \<or> x \<in> {0..11}) \<longleftrightarrow> x \<in> {-1..11}" for x :: int by auto
  show ?thesis
    unfolding mscm_cfg_ok_def sel msi_dom_g3 irq_clash_def IPC_IRQ_NONE_def irq
    by (auto simp: trust_refused_g3 dest: local_idx_g3_lt split: option.splits)
qed

text \<open>
  C33. On the S32G3, with registers that hold what is written to them, \<open>_ipc_hw_init\<close> returns 0 exactly when
  the local core is an A53 core (or the default), the remote core an A53 or M7 core (or the default) that is
  neither the local core nor the executing one, the trusted mask contains the local core, both interrupts
  are \<open>IPC_IRQ_NONE\<close> or in 0..11 and not equal to each other, and the interrupt router is not locked.
\<close>

theorem hw_init_accepts:
  assumes "plain_regs M rd" and "hw_exists i h" and "addr \<noteq> 0"
  shows "(\<exists>h'. ipc_hw_init_low_g3 M i cfg addr h = Some (0, h')) \<longleftrightarrow>
    (\<exists>l r. local_core_idx_g3 (cfg_local_core cfg) = Some l \<and> remote_core_idx_g3 (cfg_remote_core cfg) = Some r \<and>
       bit (trust_cores_g3 (lcore_trusted (cfg_local_core cfg))) (nat l) \<and> r \<noteq> l \<and> word_of_int r \<noteq> rd (addr + 0x4) (hw_dev h)) \<and>
    cfg_inter_core_tx_irq cfg \<in> {-1..11} \<and> cfg_inter_core_rx_irq cfg \<in> {-1..11} \<and>
    (cfg_inter_core_tx_irq cfg = -1 \<or> cfg_inter_core_tx_irq cfg \<noteq> cfg_inter_core_rx_irq cfg) \<and>
    \<not> bit (rd (addr + 0x400) (hw_dev h)) 31"
  using mscm_init_periph_accepts [OF assms soc_g3_ok, of cfg]
  by (simp add: ipc_hw_init_low_g3_def cfg_ok_g3 lock_bit layout_g3_val)

theorem hw_init_accepts_witness:
  "\<exists>h'. ipc_hw_init_low_g3 (regfile 0) 1 hw_demo_cfg 0x40198000 hw_demo_state = Some (0, h')"
  unfolding hw_init_accepts [OF plain_regfile hw_demo_exists(1), of "0x40198000", simplified]
  by (simp add: hw_demo_cfg_def hw_demo_state_def local_core_idx_g3_def remote_core_idx_g3_def bit_trust_g3)

section \<open>The doorbell\<close>

text \<open>Two configurations of one connection: each side's remote core is the other's local core, and the
  interrupt that A transmits is the one that B receives.\<close>

definition mirrored_g3 :: "ipc_shm_cfg \<Rightarrow> ipc_shm_cfg \<Rightarrow> bool" where
  "mirrored_g3 A B \<longleftrightarrow>
     cfg_inter_core_tx_irq A = cfg_inter_core_rx_irq B \<and> cfg_inter_core_tx_irq A \<noteq> IPC_IRQ_NONE \<and>
     remote_core_idx_g3 (cfg_remote_core A) = local_core_idx_g3 (cfg_local_core B) \<and>
     remote_core_idx_g3 (cfg_remote_core B) = local_core_idx_g3 (cfg_local_core A)"

lemma msi_agree_g3: "map_of msi_tx_g3 x = Some a \<Longrightarrow> map_of msi_rx_g3 x = Some (s, b) \<Longrightarrow> b = a"
  by (auto simp: msi_tx_g3_def msi_rx_g3_def split: if_splits)

lemma init_g3_priv:
  assumes "ipc_hw_init_g3 M i cfg h = Some (0, h')"
  obtains p where "hw_priv i h' = Some p" "mscm_priv_of soc_g3 cfg p" "hp_ipc_mscm p \<noteq> 0"
    "0 \<le> hp_local_core p" "hp_local_core p < 12" "0 \<le> hp_remote_core p" "hp_remote_core p < 12"
proof -
  from assms have "mscm_init soc_g3 M i cfg h = Some (0, h')" by (simp add: as_mscm_g3)
  from mscm_init_priv [OF this soc_g3_ok] obtain p where p: "hw_priv i h' = Some p" "mscm_priv_of soc_g3 cfg p" by blast
  moreover have "mscm_ready layout_g3 i h'" by (rule hw_g3.init_ready [OF assms])
  ultimately show thesis using that by (auto simp: mscm_ready_def layout_g3_val)
qed

text \<open>
  C21. On the S32G3, when two initialised instances have mirrored configurations, the register that one
  side's notify triggers (the generation register of an interrupt of the peer's core) and the register
  that the other side's clear writes (the status register) belong to the same interrupt of the same core,
  and the bit that is cleared is the bit of the notifying core.
\<close>

theorem doorbell_meets:
  fixes M :: "'k mmio"
  assumes A: "ipc_hw_init_g3 M iA cfgA hA = Some (0, hA')" and B: "ipc_hw_init_g3 M iB cfgB hB = Some (0, hB')"
    and mir: "mirrored_g3 cfgA cfgB"
  shows "\<exists>pA pB core irq. hw_priv iA hA' = Some pA \<and> hw_priv iB hB' = Some pB \<and> core < 12 \<and> irq < 14 \<and>
     ipc_hw_irq_notify_g3 M iA hA' =
       Some (hA'\<lparr>hw_dev := io_writel M 1 (hp_ipc_mscm pA + of_nat (0xA60 + 8 * (core * 14 + irq) + 4)) (hw_dev hA')\<rparr>) \<and>
     ipc_hw_irq_clear_g3 M iB hB' =
       Some (hB'\<lparr>hw_dev := io_writel M (2 ^ nat (hp_local_core pA)) (hp_ipc_mscm pB + of_nat (0xA60 + 8 * (core * 14 + irq))) (hw_dev hB')\<rparr>)"
proof -
  obtain pA where pA: "hw_priv iA hA' = Some pA" "mscm_priv_of soc_g3 cfgA pA" "hp_ipc_mscm pA \<noteq> 0"
    "0 \<le> hp_remote_core pA" "hp_remote_core pA < 12" by (rule init_g3_priv [OF A])
  obtain pB where pB: "hw_priv iB hB' = Some pB" "mscm_priv_of soc_g3 cfgB pB" "hp_ipc_mscm pB \<noteq> 0"
    "0 \<le> hp_local_core pB" "hp_local_core pB < 12" by (rule init_g3_priv [OF B])
  have sel: "soc_local_core soc_g3 = local_core_idx_g3" "soc_remote_core soc_g3 = remote_core_idx_g3"
    "soc_tx_msi soc_g3 = msi_tx_g3" "soc_rx_msi soc_g3 = msi_rx_g3" by (simp_all add: soc_g3_def)
  have irqs: "hp_mscm_tx_irq pA \<noteq> IPC_IRQ_NONE" "hp_mscm_rx_irq pB = hp_mscm_tx_irq pA"
    and cores: "hp_local_core pB = hp_remote_core pA" "hp_remote_core pB = hp_local_core pA"
    using mir pA(2) pB(2) by (auto simp: mirrored_g3_def mscm_priv_of_def sel)
  have msi: "hp_msi_rx_irq pB = hp_msi_tx_irq pA"
    using msi_agree_g3 irqs pA(2) pB(2) by (auto simp: mscm_priv_of_def sel)
  have lt: "unat (hp_msi_tx_irq pA) < 14"
    using hw_g3.init_ready [OF A] pA(1) irqs(1) by (simp add: mscm_ready_def layout_g3_val)
  have at: "IRCPnIRx_at layout_g3 b c (uint (hp_msi_tx_irq pA)) n = Some (b + of_nat (0xA60 + 8 * (nat c * 14 + unat (hp_msi_tx_irq pA)) + n))"
    if "b \<noteq> 0" "0 \<le> c" "c < 12" for b c n
    using that lt uint_nat_bound(1) [of "hp_msi_tx_irq pA" 14] by (simp add: IRCPnIRx_at_def layout_g3_val uint_nat_bound(2) del: of_nat_add of_nat_mult)
  have "ipc_hw_irq_notify_g3 M iA hA' = Some (hA'\<lparr>hw_dev := io_writel M 1
      (hp_ipc_mscm pA + of_nat (0xA60 + 8 * (nat (hp_remote_core pA) * 14 + unat (hp_msi_tx_irq pA)) + 4)) (hw_dev hA')\<rparr>)"
    using pA(1,3-5) irqs(1)
    by (simp add: ipc_hw_irq_notify_g3_def mscm_irq_notify_def at IPC_MSCM_IRCPnIGRn_INT_EN_def del: of_nat_add of_nat_mult)
  moreover have "ipc_hw_irq_clear_g3 M iB hB' = Some (hB'\<lparr>hw_dev := io_writel M (2 ^ nat (hp_local_core pA))
      (hp_ipc_mscm pB + of_nat (0xA60 + 8 * (nat (hp_remote_core pA) * 14 + unat (hp_msi_tx_irq pA)))) (hw_dev hB')\<rparr>)"
    using pB(1,3-5) irqs by (simp add: ipc_hw_irq_clear_g3_def mscm_irq_clear_def at cores msi del: of_nat_add of_nat_mult)
  moreover have "nat (hp_remote_core pA) < 12" using pA(4,5) by linarith
  ultimately show ?thesis using pA(1) pB(1) lt by blast
qed

text \<open>Two sides on A53 cores 0 and 1, each with its own view of the registers (the processor number differs).\<close>

definition door_cfg :: "ipc_shm_core_index \<Rightarrow> ipc_shm_core_index \<Rightarrow> u32 \<Rightarrow> int \<Rightarrow> int \<Rightarrow> ipc_shm_cfg" where
  "door_cfg l r t rx tx = hw_demo_cfg\<lparr>cfg_inter_core_tx_irq := tx, cfg_inter_core_rx_irq := rx,
     cfg_local_core := \<lparr>lcore_type = IPC_CORE_A53, lcore_index = l, lcore_trusted = t\<rparr>,
     cfg_remote_core := \<lparr>rcore_type = IPC_CORE_A53, rcore_index = r\<rparr>\<rparr>"

definition door_state :: "u32 \<Rightarrow> (ipc_hw_priv_type, regfile) hw_state" where
  "door_state cpu = hw_demo_state\<lparr>hw_dev := \<lparr>rf_word = (\<lambda>a. if a = 0x40198004 then cpu else 0), rf_half = (\<lambda>_. 0)\<rparr>\<rparr>"

lemma door_init:
  "\<exists>h. ipc_hw_init_g3 (regfile 0x40198000) 0 (door_cfg IPC_CORE_INDEX_0 IPC_CORE_INDEX_1 1 3 4) (door_state 0) = Some (0, h)"
  "\<exists>h. ipc_hw_init_g3 (regfile 0x40198000) 0 (door_cfg IPC_CORE_INDEX_1 IPC_CORE_INDEX_0 2 4 3) (door_state 1) = Some (0, h)"
proof -
  have run: "(\<exists>h. ipc_hw_init_g3 (regfile 0x40198000) 0 cfg (door_state c) = Some (0, h)) \<longleftrightarrow> mscm_cfg_ok soc_g3 cfg c" for cfg c
    using mscm_init_periph_accepts [OF plain_regfile _ _ soc_g3_ok, of 0 "door_state c" "0x40198000" "0x40198000" cfg]
    by (simp add: as_mscm_g3 mscm_init_def hw_exists_def door_state_def hw_demo_state_def regfile_def layout_g3_val)
  show "\<exists>h. ipc_hw_init_g3 (regfile 0x40198000) 0 (door_cfg IPC_CORE_INDEX_0 IPC_CORE_INDEX_1 1 3 4) (door_state 0) = Some (0, h)"
    "\<exists>h. ipc_hw_init_g3 (regfile 0x40198000) 0 (door_cfg IPC_CORE_INDEX_1 IPC_CORE_INDEX_0 2 4 3) (door_state 1) = Some (0, h)"
    unfolding run by (simp_all add: cfg_ok_g3 door_cfg_def local_core_idx_g3_def remote_core_idx_g3_def bit_trust_g3)
qed

theorem doorbell_meets_witness:
  "\<exists>hA pA core irq. hw_priv 0 hA = Some pA \<and>
     ipc_hw_irq_notify_g3 (regfile 0x40198000) 0 hA =
       Some (hA\<lparr>hw_dev := io_writel (regfile 0x40198000) 1 (hp_ipc_mscm pA + of_nat (0xA60 + 8 * (core * 14 + irq) + 4)) (hw_dev hA)\<rparr>)"
proof -
  obtain hA hB where A: "ipc_hw_init_g3 (regfile 0x40198000) 0 (door_cfg IPC_CORE_INDEX_0 IPC_CORE_INDEX_1 1 3 4) (door_state 0) = Some (0, hA)"
    and B: "ipc_hw_init_g3 (regfile 0x40198000) 0 (door_cfg IPC_CORE_INDEX_1 IPC_CORE_INDEX_0 2 4 3) (door_state 1) = Some (0, hB)"
    using door_init by blast
  have "mirrored_g3 (door_cfg IPC_CORE_INDEX_0 IPC_CORE_INDEX_1 1 3 4) (door_cfg IPC_CORE_INDEX_1 IPC_CORE_INDEX_0 2 4 3)"
    by (simp add: mirrored_g3_def door_cfg_def local_core_idx_g3_def remote_core_idx_g3_def IPC_IRQ_NONE_def)
  from doorbell_meets [OF A B this] show ?thesis by (elim exE conjE) (intro exI conjI)
qed

end
