(* ===== verification/Os_Kernel.thy ===== *)
theory Os_Kernel
  imports Shm Hw
begin

text \<open>
  The Linux kernel OS layer, \<open>src/os_kernel/ipc-os.c\<close>: reservation and mapping of the shared memory,
  the receive interrupt and its tasklet, polling. The kernel services it calls are the fields of the
  record \<open>linux\<close> over a kernel state \<open>'k\<close>; the hardware layer it is linked with is a record \<open>hw_iface\<close>
  of the operations of \<open>ipc-hw.h\<close>. A mapping made by \<open>ioremap\<close> adds memory at its virtual addresses;
  \<open>iounmap\<close> removes the memory of the mapping that the kernel finds for the address it is given.
  Register blocks are also mapped by \<open>ioremap\<close>, but accessed by \<open>readl\<close> and \<open>writel\<close> only, so these
  mappings do not appear in the shared memory. Log messages are left out.
\<close>

unbundle bit_operations_syntax

section \<open>Kernel services and the hardware interface\<close>

record 'k linux =
  lk_request_mem_region :: "u64 \<Rightarrow> u64 \<Rightarrow> 'k \<Rightarrow> bool \<times> 'k"
  lk_release_mem_region :: "u64 \<Rightarrow> u64 \<Rightarrow> 'k \<Rightarrow> 'k"
  lk_ioremap :: "u64 \<Rightarrow> u64 \<Rightarrow> 'k \<Rightarrow> u64 \<times> memory \<times> 'k"
  lk_iounmap :: "u64 \<Rightarrow> 'k \<Rightarrow> (u64 \<Rightarrow> bool) \<times> 'k"
  lk_of_find_compatible_node :: "'k \<Rightarrow> bool \<times> 'k"
  lk_of_irq_get :: "int \<Rightarrow> 'k \<Rightarrow> int \<times> 'k"
  lk_of_address_to_resource :: "'k \<Rightarrow> (int \<times> u64 \<times> u64) \<times> 'k"
  lk_of_node_put :: "'k \<Rightarrow> 'k"
  lk_request_irq :: "int \<Rightarrow> 'k \<Rightarrow> int \<times> 'k"
  lk_free_irq :: "int \<Rightarrow> 'k \<Rightarrow> 'k"
  lk_tasklet_schedule :: "'k \<Rightarrow> 'k"
  lk_tasklet_kill :: "'k \<Rightarrow> 'k"

record ('p, 'k) hw_iface =
  hi_init :: "u8 \<Rightarrow> ipc_shm_cfg \<Rightarrow> ('p, 'k) hw_state \<Rightarrow> (int \<times> ('p, 'k) hw_state) option"
  hi_free :: "u8 \<Rightarrow> ('p, 'k) hw_state \<Rightarrow> ('p, 'k) hw_state option"
  hi_get_rx_irq :: "u8 \<Rightarrow> ('p, 'k) hw_state \<Rightarrow> int option"
  hi_irq_enable :: "u8 \<Rightarrow> ('p, 'k) hw_state \<Rightarrow> ('p, 'k) hw_state option"
  hi_irq_disable :: "u8 \<Rightarrow> ('p, 'k) hw_state \<Rightarrow> ('p, 'k) hw_state option"
  hi_irq_notify :: "u8 \<Rightarrow> ('p, 'k) hw_state \<Rightarrow> ('p, 'k) hw_state option"
  hi_irq_clear :: "u8 \<Rightarrow> ('p, 'k) hw_state \<Rightarrow> ('p, 'k) hw_state option"

section \<open>Private data\<close>

definition IPC_SOFTIRQ_BUDGET :: int where "IPC_SOFTIRQ_BUDGET = 128"
definition IPC_SHM_INSTANCE_DISABLED :: int where "IPC_SHM_INSTANCE_DISABLED = 0"
definition IPC_SHM_INSTANCE_ENABLED :: int where "IPC_SHM_INSTANCE_ENABLED = 1"

record ipc_os_priv_instance =
  oi_shm_size :: int
  oi_local_phys_shm :: u64
  oi_remote_phys_shm :: u64
  oi_local_virt_shm :: u64
  oi_remote_virt_shm :: u64
  oi_irq_num :: int
  oi_state :: int
  oi_rx_cb :: u64

record ('p, 'k) kos =
  ko_id :: "ipc_os_priv_instance list"
  ko_hw :: "('p, 'k) hw_state"

definition kinst :: "u8 \<Rightarrow> ('p, 'k) kos \<Rightarrow> ipc_os_priv_instance option" where
  "kinst i s = nth_opt (ko_id s) (unat i)"

definition upd_kinst :: "u8 \<Rightarrow> (ipc_os_priv_instance \<Rightarrow> ipc_os_priv_instance) \<Rightarrow> ('p, 'k) kos \<Rightarrow> ('p, 'k) kos option" where
  "upd_kinst i f s = do { p \<leftarrow> kinst i s; Some (s\<lparr>ko_id := (ko_id s)[unat i := f p]\<rparr>) }"

text \<open>A kernel call on the state of the layer, and a call of the hardware layer.\<close>

definition kcall :: "('k \<Rightarrow> 'r \<times> 'k) \<Rightarrow> ('p, 'k) kos \<Rightarrow> 'r \<times> ('p, 'k) kos" where
  "kcall f s = (case f (hw_dev (ko_hw s)) of (r, k) \<Rightarrow> (r, s\<lparr>ko_hw := (ko_hw s)\<lparr>hw_dev := k\<rparr>\<rparr>))"

definition kdo :: "('k \<Rightarrow> 'k) \<Rightarrow> ('p, 'k) kos \<Rightarrow> ('p, 'k) kos" where
  "kdo f s = s\<lparr>ko_hw := (ko_hw s)\<lparr>hw_dev := f (hw_dev (ko_hw s))\<rparr>\<rparr>"

definition hcall :: "(('p, 'k) hw_state \<Rightarrow> ('p, 'k) hw_state option) \<Rightarrow> ('p, 'k) kos \<Rightarrow> ('p, 'k) kos option" where
  "hcall f s = map_option (\<lambda>h. s\<lparr>ko_hw := h\<rparr>) (f (ko_hw s))"

section \<open>Mapping and unmapping\<close>

definition ioremap :: "'k linux \<Rightarrow> u64 \<Rightarrow> u64 \<Rightarrow> memory \<Rightarrow> ('p, 'k) kos \<Rightarrow> u64 \<times> memory \<times> ('p, 'k) kos" where
  "ioremap K phys sz m s =
     (case kcall (\<lambda>k. case lk_ioremap K phys sz k of (va, new, k') \<Rightarrow> ((va, new), k')) s of
        ((va, new), s') \<Rightarrow> (va, if va = 0 then m else m ++ new, s'))"

definition iounmap :: "'k linux \<Rightarrow> u64 \<Rightarrow> memory \<Rightarrow> ('p, 'k) kos \<Rightarrow> memory \<times> ('p, 'k) kos" where
  "iounmap K va m s =
     (case kcall (lk_iounmap K va) s of (gone, s') \<Rightarrow> ((\<lambda>a. if gone a then None else m a), s'))"

section \<open>Initialisation\<close>

text \<open>The error exits of \<open>ipc_os_init\<close>, each falling through to the next.\<close>

definition err_release_local_region :: "'k linux \<Rightarrow> ipc_shm_cfg \<Rightarrow> int \<Rightarrow> memory \<Rightarrow> ('p, 'k) kos \<Rightarrow> int \<times> memory \<times> ('p, 'k) kos" where
  "err_release_local_region K cfg err m s =
     (int8 err, m, kdo (lk_release_mem_region K (cfg_local_shm_addr cfg) (ucast (cfg_shm_size cfg))) s)"

definition err_unmap_local_shm :: "'k linux \<Rightarrow> ipc_shm_cfg \<Rightarrow> int \<Rightarrow> memory \<Rightarrow> ('p, 'k) kos \<Rightarrow> int \<times> memory \<times> ('p, 'k) kos" where
  "err_unmap_local_shm K cfg err m s =
     (case iounmap K (cfg_local_shm_addr cfg) m s of (m1, s1) \<Rightarrow> err_release_local_region K cfg err m1 s1)"

definition err_release_remote_region :: "'k linux \<Rightarrow> ipc_shm_cfg \<Rightarrow> int \<Rightarrow> memory \<Rightarrow> ('p, 'k) kos \<Rightarrow> int \<times> memory \<times> ('p, 'k) kos" where
  "err_release_remote_region K cfg err m s =
     err_unmap_local_shm K cfg err m (kdo (lk_release_mem_region K (cfg_remote_shm_addr cfg) (ucast (cfg_shm_size cfg))) s)"

definition err_unmap_remote_shm :: "'k linux \<Rightarrow> ipc_shm_cfg \<Rightarrow> int \<Rightarrow> memory \<Rightarrow> ('p, 'k) kos \<Rightarrow> int \<times> memory \<times> ('p, 'k) kos" where
  "err_unmap_remote_shm K cfg err m s =
     (case iounmap K (cfg_remote_shm_addr cfg) m s of (m1, s1) \<Rightarrow> err_release_remote_region K cfg err m1 s1)"

text \<open>The IRQ number is stored before it is tested.\<close>

definition get_irq_number :: "('p, 'k) hw_iface \<Rightarrow> 'k linux \<Rightarrow> u8 \<Rightarrow> ('p, 'k) kos \<Rightarrow> (int \<times> ('p, 'k) kos) option" where
  "get_irq_number H K i s =
     (case kcall (lk_of_find_compatible_node K) s of (found, s1) \<Rightarrow>
        if \<not> found then Some (- ENXIO, s1)
        else do {
          rx \<leftarrow> hi_get_rx_irq H i (ko_hw s1);
          let (irq, s2) = kcall (lk_of_irq_get K rx) s1;
          s3 \<leftarrow> upd_kinst i (\<lambda>p. p\<lparr>oi_irq_num := irq\<rparr>) s2;
          if irq \<le> 0 then Some (- EINVAL, kdo (lk_of_node_put K) s3)
          else Some (0, kdo (lk_of_node_put K) s3) })"

text \<open>Whether another instance has the same IRQ number (the loop over all instances).\<close>

definition irq_shared :: "u8 \<Rightarrow> ('p, 'k) kos \<Rightarrow> bool option" where
  "irq_shared i s = do {
     p \<leftarrow> kinst i s;
     if length (ko_id s) < IPC_SHM_MAX_INSTANCES then None
     else Some (list_ex (\<lambda>j. j \<noteq> unat i \<and> oi_irq_num p = oi_irq_num (ko_id s ! j)) [0..<IPC_SHM_MAX_INSTANCES]) }"

definition request_rx_irq :: "'k linux \<Rightarrow> u8 \<Rightarrow> ('p, 'k) kos \<Rightarrow> (int \<times> ('p, 'k) kos) option" where
  "request_rx_irq K i s = do {
     p \<leftarrow> kinst i s;
     Some (if oi_irq_num p \<noteq> IPC_IRQ_NONE then kcall (lk_request_irq K (oi_irq_num p)) s else (0, s)) }"

definition ipc_os_init :: "('p, 'k) hw_iface \<Rightarrow> 'k linux \<Rightarrow> u8 \<Rightarrow> ipc_shm_cfg \<Rightarrow> u64 \<Rightarrow> memory \<Rightarrow> ('p, 'k) kos \<Rightarrow>
    (int \<times> memory \<times> ('p, 'k) kos) option" where
  "ipc_os_init H K i cfg rx_cb m s =
     (if rx_cb = 0 then Some (- EINVAL, m, s)
      else if unat i > IPC_SHM_MAX_INSTANCES then Some (- EINVAL, m, s)
      else case kcall (lk_request_mem_region K (cfg_local_shm_addr cfg) (ucast (cfg_shm_size cfg))) s of (res, s1) \<Rightarrow>
      if \<not> res then Some (- EADDRINUSE, m, s1)
      else case ioremap K (cfg_local_shm_addr cfg) (ucast (cfg_shm_size cfg)) m s1 of (lva, m2, s2) \<Rightarrow> do {
        s3 \<leftarrow> upd_kinst i (\<lambda>p. p\<lparr>oi_local_virt_shm := lva\<rparr>) s2;
        if lva = 0 then Some (err_release_local_region K cfg (- ENOMEM) m2 s3)
        else case kcall (lk_request_mem_region K (cfg_remote_shm_addr cfg) (ucast (cfg_shm_size cfg))) s3 of (res, s4) \<Rightarrow>
        if \<not> res then Some (err_unmap_local_shm K cfg (- EADDRINUSE) m2 s4)
        else case ioremap K (cfg_remote_shm_addr cfg) (ucast (cfg_shm_size cfg)) m2 s4 of (rva, m5, s5) \<Rightarrow> do {
          s6 \<leftarrow> upd_kinst i (\<lambda>p. p\<lparr>oi_remote_virt_shm := rva\<rparr>) s5;
          if rva = 0 then Some (err_release_remote_region K cfg (- ENOMEM) m5 s6)
          else do {
            s7 \<leftarrow> upd_kinst i (\<lambda>p. p\<lparr>oi_shm_size := sint (cfg_shm_size cfg), oi_local_phys_shm := cfg_local_shm_addr cfg,
                     oi_remote_phys_shm := cfg_remote_shm_addr cfg, oi_rx_cb := rx_cb\<rparr>) s6;
            (err, s8) \<leftarrow> (if cfg_inter_core_rx_irq cfg = IPC_IRQ_NONE
                        then map_option (\<lambda>s'. (0, s')) (upd_kinst i (\<lambda>p. p\<lparr>oi_irq_num := IPC_IRQ_NONE\<rparr>) s7)
                        else get_irq_number H K i s7);
            if err \<noteq> 0 then Some (err_unmap_remote_shm K cfg err m5 s8)
            else do {
              dup \<leftarrow> irq_shared i s8;
              (err, s9) \<leftarrow> (if dup then Some (0, s8) else request_rx_irq K i s8);
              if err \<noteq> 0 then Some (err_unmap_remote_shm K cfg err m5 s9)
              else do {
                s10 \<leftarrow> upd_kinst i (\<lambda>p. p\<lparr>oi_state := IPC_SHM_INSTANCE_ENABLED\<rparr>) s9;
                Some (0, m5, s10) } } } } })"

section \<open>Release, addresses, register block\<close>

definition ipc_os_free :: "('p, 'k) hw_iface \<Rightarrow> 'k linux \<Rightarrow> u8 \<Rightarrow> memory \<Rightarrow> ('p, 'k) kos \<Rightarrow> (memory \<times> ('p, 'k) kos) option" where
  "ipc_os_free H K i m s = do {
     s1 \<leftarrow> upd_kinst i (\<lambda>p. p\<lparr>oi_state := IPC_SHM_INSTANCE_DISABLED\<rparr>) s;
     p \<leftarrow> kinst i s1;
     s4 \<leftarrow> (if oi_irq_num p \<noteq> IPC_IRQ_NONE then do {
             keep_irq_enable \<leftarrow> irq_shared i s1;
             s3 \<leftarrow> (if \<not> keep_irq_enable then do {
                     s2 \<leftarrow> hcall (hi_irq_disable H i) s1;
                     Some (if oi_irq_num p \<noteq> 0 then kdo (lk_free_irq K (oi_irq_num p)) s2 else s2) }
                   else Some s1);
             upd_kinst i (\<lambda>p. p\<lparr>oi_irq_num := 0\<rparr>) s3 }
           else Some s1);
     let (m5, s5) = iounmap K (oi_remote_virt_shm p) m s4;
     let s6 = kdo (lk_release_mem_region K (oi_remote_phys_shm p) (word_of_int (oi_shm_size p))) s5;
     let (m7, s7) = iounmap K (oi_local_virt_shm p) m5 s6;
     Some (m7, kdo (lk_release_mem_region K (oi_local_phys_shm p) (word_of_int (oi_shm_size p))) s7) }"

definition ipc_os_get_local_shm :: "u8 \<Rightarrow> ('p, 'k) kos \<Rightarrow> u64 option" where
  "ipc_os_get_local_shm i s = map_option oi_local_virt_shm (kinst i s)"

definition ipc_os_get_remote_shm :: "u8 \<Rightarrow> ('p, 'k) kos \<Rightarrow> u64 option" where
  "ipc_os_get_remote_shm i s = map_option oi_remote_virt_shm (kinst i s)"

definition ipc_os_map_intc :: "'k linux \<Rightarrow> 'k \<Rightarrow> u64 \<times> 'k" where
  "ipc_os_map_intc K k =
     (case lk_of_find_compatible_node K k of (found, k1) \<Rightarrow>
        if \<not> found then (0, k1)
        else case lk_of_address_to_resource K k1 of ((err, start, sz), k2) \<Rightarrow>
          let k3 = lk_of_node_put K k2 in
          if err \<noteq> 0 then (0, k3)
          else case lk_ioremap K start sz k3 of (va, new, k4) \<Rightarrow> (va, k4))"

definition ipc_os_unmap_intc :: "'k linux \<Rightarrow> u64 \<Rightarrow> 'k \<Rightarrow> 'k" where
  "ipc_os_unmap_intc K addr k = snd (lk_iounmap K addr k)"

section \<open>Interrupt handling and polling\<close>

text \<open>
  These run over the state of the whole driver, because they call its receive function. A non-null
  \<open>rx_cb\<close> is the receive function of the driver, which is passed as an argument.
\<close>

type_synonym ('p, 'k) kdriver = "('p, 'k) kos shm_state"

definition on_env :: "(('p, 'k) kos \<Rightarrow> ('p, 'k) kos) \<Rightarrow> ('p, 'k) kdriver \<Rightarrow> ('p, 'k) kdriver" where
  "on_env f st = st\<lparr>st_env := f (st_env st)\<rparr>"

definition on_env_opt :: "(('p, 'k) kos \<Rightarrow> ('p, 'k) kos option) \<Rightarrow> ('p, 'k) kdriver \<Rightarrow> ('p, 'k) kdriver option" where
  "on_env_opt f st = map_option (\<lambda>w. st\<lparr>st_env := w\<rparr>) (f (st_env st))"

text \<open>\<open>work\<close> is an \<open>int\<close>; it is compared with the unsigned long budget after conversion to that type.\<close>

fun softirq_from :: "('p, 'k) hw_iface \<Rightarrow> 'k linux \<Rightarrow> (u8 \<Rightarrow> int \<Rightarrow> ('p, 'k) kdriver \<Rightarrow> (u32 \<times> ('p, 'k) kdriver) option) \<Rightarrow>
    nat list \<Rightarrow> ('p, 'k) kdriver \<Rightarrow> ('p, 'k) kdriver option" where
  "softirq_from H K rx [] st = Some st"
| "softirq_from H K rx (j # js) st = do {
     let i = (of_nat j :: u8);
     p \<leftarrow> kinst i (st_env st);
     if oi_state p = IPC_SHM_INSTANCE_DISABLED \<or> oi_irq_num p = IPC_IRQ_NONE then softirq_from H K rx js st
     else if oi_rx_cb p = 0 then None
     else do {
       (work, st1) \<leftarrow> rx i IPC_SOFTIRQ_BUDGET st;
       st2 \<leftarrow> (if (scast work :: u64) \<ge> word_of_int IPC_SOFTIRQ_BUDGET then Some (on_env (kdo (lk_tasklet_schedule K)) st1)
              else on_env_opt (hcall (hi_irq_enable H i)) st1);
       st3 \<leftarrow> on_env_opt (hcall (hi_irq_enable H i)) st2;
       softirq_from H K rx js st3 } }"

definition ipc_shm_softirq :: "('p, 'k) hw_iface \<Rightarrow> 'k linux \<Rightarrow> (u8 \<Rightarrow> int \<Rightarrow> ('p, 'k) kdriver \<Rightarrow> (u32 \<times> ('p, 'k) kdriver) option) \<Rightarrow>
    ('p, 'k) kdriver \<Rightarrow> ('p, 'k) kdriver option" where
  "ipc_shm_softirq H K rx st = softirq_from H K rx [0..<IPC_SHM_MAX_INSTANCES] st"

fun hardirq_from :: "('p, 'k) hw_iface \<Rightarrow> nat list \<Rightarrow> ('p, 'k) kos \<Rightarrow> ('p, 'k) kos option" where
  "hardirq_from H [] s = Some s"
| "hardirq_from H (j # js) s = do {
     let i = (of_nat j :: u8);
     p \<leftarrow> kinst i s;
     if oi_state p = IPC_SHM_INSTANCE_DISABLED \<or> oi_irq_num p = IPC_IRQ_NONE then hardirq_from H js s
     else do {
       s1 \<leftarrow> hcall (hi_irq_disable H i) s;
       s2 \<leftarrow> hcall (hi_irq_clear H i) s1;
       hardirq_from H js s2 } }"

definition ipc_shm_hardirq :: "('p, 'k) hw_iface \<Rightarrow> 'k linux \<Rightarrow> ('p, 'k) kos \<Rightarrow> ('p, 'k) kos option" where
  "ipc_shm_hardirq H K s = map_option (kdo (lk_tasklet_schedule K)) (hardirq_from H [0..<IPC_SHM_MAX_INSTANCES] s)"

definition ipc_os_poll_channels :: "(u8 \<Rightarrow> int \<Rightarrow> ('p, 'k) kdriver \<Rightarrow> (u32 \<times> ('p, 'k) kdriver) option) \<Rightarrow>
    u8 \<Rightarrow> ('p, 'k) kdriver \<Rightarrow> (int \<times> ('p, 'k) kdriver) option" where
  "ipc_os_poll_channels rx i st = do {
     p \<leftarrow> kinst i (st_env st);
     if oi_irq_num p = IPC_IRQ_NONE then
       (if oi_rx_cb p \<noteq> 0 then map_option (\<lambda>(n, st'). (int8 (uint n), st')) (rx i IPC_SOFTIRQ_BUDGET st)
        else Some (- EINVAL, st))
     else Some (- EOPNOTSUPP, st) }"

definition shm_mod_exit :: "'k linux \<Rightarrow> ('p, 'k) kos \<Rightarrow> ('p, 'k) kos" where
  "shm_mod_exit K s = kdo (lk_tasklet_kill K) s"

section \<open>The platform of the driver\<close>

text \<open>
  The driver's platform when it is built for the kernel: this OS layer over a hardware layer. \<open>RX\<close> is
  the address of the driver's receive function.
\<close>

definition kernel_platform :: "('p, 'k) hw_iface \<Rightarrow> 'k linux \<Rightarrow> u64 \<Rightarrow>
    (u64 \<Rightarrow> u64 \<Rightarrow> u8 \<Rightarrow> u8 \<Rightarrow> u64 \<Rightarrow> u32 \<Rightarrow> ('p, 'k) kdriver \<Rightarrow> ('p, 'k) kdriver option) \<Rightarrow>
    (u64 \<Rightarrow> u64 \<Rightarrow> u8 \<Rightarrow> u8 \<Rightarrow> u64 \<Rightarrow> ('p, 'k) kdriver \<Rightarrow> ('p, 'k) kdriver option) \<Rightarrow> ('p, 'k) kos platform" where
  "kernel_platform H K RX app umng_app = \<lparr>
     hw_init = (\<lambda>i cfg s. map_option (\<lambda>(e, h). (e, s\<lparr>ko_hw := h\<rparr>)) (hi_init H i cfg (ko_hw s))),
     hw_free = (\<lambda>i. hcall (hi_free H i)),
     hw_irq_enable = (\<lambda>i. hcall (hi_irq_enable H i)),
     hw_irq_disable = (\<lambda>i. hcall (hi_irq_disable H i)),
     hw_irq_notify = (\<lambda>i. hcall (hi_irq_notify H i)),
     os_init = (\<lambda>i cfg. ipc_os_init H K i cfg RX),
     os_free = ipc_os_free H K,
     os_get_local_shm = ipc_os_get_local_shm,
     os_get_remote_shm = ipc_os_get_remote_shm,
     os_poll_channels = ipc_os_poll_channels,
     app_rx_cb = app, app_umng_rx_cb = umng_app\<rparr>"

end
