(* ===== verification/Os_Xen.thy ===== *)
theory Os_Xen
  imports Os_Kernel
begin

text \<open>
  The OS layer for Xen guests, \<open>src/os_kernel/ipc-xen.c\<close>. It also defines the operations of \<open>ipc-hw.h\<close>, all
  of them without effect, so instances communicate by polling. The kernel services are those of the
  record \<open>linux\<close>; there is one receive callback for all instances and a separate array of initialised
  IRQ numbers. The error exit \<open>err_unmap_remote_shm\<close> of this file is not reached by any branch.
\<close>

section \<open>Private data\<close>

record xen_priv_instance =
  xi_shm_size :: int
  xi_local_phys_shm :: u64
  xi_remote_phys_shm :: u64
  xi_local_virt_shm :: u64
  xi_remote_virt_shm :: u64
  xi_irq_num :: int
  xi_state :: int

record 'k xos =
  xo_id :: "xen_priv_instance list"
  xo_rx_cb :: u64
  xo_irq_num_init :: "int list"
  xo_k :: 'k

type_synonym 'k xdriver = "'k xos shm_state"

definition xinst :: "u8 \<Rightarrow> 'k xos \<Rightarrow> xen_priv_instance option" where
  "xinst i s = nth_opt (xo_id s) (unat i)"

definition upd_xinst :: "u8 \<Rightarrow> (xen_priv_instance \<Rightarrow> xen_priv_instance) \<Rightarrow> 'k xos \<Rightarrow> 'k xos option" where
  "upd_xinst i f s = do { p \<leftarrow> xinst i s; Some (s\<lparr>xo_id := (xo_id s)[unat i := f p]\<rparr>) }"

definition xcall :: "('k \<Rightarrow> 'r \<times> 'k) \<Rightarrow> 'k xos \<Rightarrow> 'r \<times> 'k xos" where
  "xcall f s = (case f (xo_k s) of (r, k) \<Rightarrow> (r, s\<lparr>xo_k := k\<rparr>))"

definition xdo :: "('k \<Rightarrow> 'k) \<Rightarrow> 'k xos \<Rightarrow> 'k xos" where
  "xdo f s = s\<lparr>xo_k := f (xo_k s)\<rparr>"

definition xen_ioremap :: "'k linux \<Rightarrow> u64 \<Rightarrow> u64 \<Rightarrow> memory \<Rightarrow> 'k xos \<Rightarrow> u64 \<times> memory \<times> 'k xos" where
  "xen_ioremap K phys sz m s =
     (case lk_ioremap K phys sz (xo_k s) of (va, new, k) \<Rightarrow> (va, if va = 0 then m else m ++ new, s\<lparr>xo_k := k\<rparr>))"

definition xen_iounmap :: "'k linux \<Rightarrow> u64 \<Rightarrow> memory \<Rightarrow> 'k xos \<Rightarrow> memory \<times> 'k xos" where
  "xen_iounmap K va m s =
     (case xcall (lk_iounmap K va) s of (gone, s') \<Rightarrow> ((\<lambda>a. if gone a then None else m a), s'))"

section \<open>The hardware operations\<close>

definition ipc_hw_init_xen :: "u8 \<Rightarrow> ipc_shm_cfg \<Rightarrow> 'k xos \<Rightarrow> (int \<times> 'k xos) option" where
  "ipc_hw_init_xen i cfg s = Some (0, s)"

definition ipc_hw_free_xen :: "u8 \<Rightarrow> 'k xos \<Rightarrow> 'k xos option" where
  "ipc_hw_free_xen i s = Some s"

definition ipc_hw_get_rx_irq_xen :: "u8 \<Rightarrow> 'k xos \<Rightarrow> int option" where
  "ipc_hw_get_rx_irq_xen i s = Some 0"

definition ipc_hw_irq_enable_xen :: "u8 \<Rightarrow> 'k xos \<Rightarrow> 'k xos option" where
  "ipc_hw_irq_enable_xen i s = Some s"

definition ipc_hw_irq_disable_xen :: "u8 \<Rightarrow> 'k xos \<Rightarrow> 'k xos option" where
  "ipc_hw_irq_disable_xen i s = Some s"

definition ipc_hw_irq_notify_xen :: "u8 \<Rightarrow> 'k xos \<Rightarrow> 'k xos option" where
  "ipc_hw_irq_notify_xen i s = Some s"

definition ipc_hw_irq_clear_xen :: "u8 \<Rightarrow> 'k xos \<Rightarrow> 'k xos option" where
  "ipc_hw_irq_clear_xen i s = Some s"

section \<open>Interrupt handling\<close>

fun softirq_from_xen :: "'k linux \<Rightarrow> (u8 \<Rightarrow> int \<Rightarrow> 'k xdriver \<Rightarrow> (u32 \<times> 'k xdriver) option) \<Rightarrow> nat list \<Rightarrow> 'k xdriver \<Rightarrow> 'k xdriver option" where
  "softirq_from_xen K rx [] st = Some st"
| "softirq_from_xen K rx (j # js) st = do {
     let i = (of_nat j :: u8);
     p \<leftarrow> xinst i (st_env st);
     if xi_state p = IPC_SHM_INSTANCE_DISABLED \<or> xi_irq_num p = IPC_IRQ_NONE then softirq_from_xen K rx js st
     else if xo_rx_cb (st_env st) = 0 then None
     else do {
       (work, st1) \<leftarrow> rx i IPC_SOFTIRQ_BUDGET st;
       w2 \<leftarrow> (if (scast work :: u64) \<ge> word_of_int IPC_SOFTIRQ_BUDGET then Some (xdo (lk_tasklet_schedule K) (st_env st1))
             else ipc_hw_irq_enable_xen i (st_env st1));
       softirq_from_xen K rx js (st1\<lparr>st_env := w2\<rparr>) } }"

definition ipc_shm_softirq_xen :: "'k linux \<Rightarrow> (u8 \<Rightarrow> int \<Rightarrow> 'k xdriver \<Rightarrow> (u32 \<times> 'k xdriver) option) \<Rightarrow> 'k xdriver \<Rightarrow> 'k xdriver option" where
  "ipc_shm_softirq_xen K rx st = softirq_from_xen K rx [0..<IPC_SHM_MAX_INSTANCES] st"

fun hardirq_from_xen :: "nat list \<Rightarrow> 'k xos \<Rightarrow> 'k xos option" where
  "hardirq_from_xen [] s = Some s"
| "hardirq_from_xen (j # js) s = do {
     let i = (of_nat j :: u8);
     p \<leftarrow> xinst i s;
     if xi_state p = IPC_SHM_INSTANCE_DISABLED \<or> xi_irq_num p = IPC_IRQ_NONE then hardirq_from_xen js s
     else do {
       s1 \<leftarrow> ipc_hw_irq_disable_xen i s;
       s2 \<leftarrow> ipc_hw_irq_clear_xen i s1;
       hardirq_from_xen js s2 } }"

definition ipc_shm_hardirq_xen :: "'k linux \<Rightarrow> 'k xos \<Rightarrow> 'k xos option" where
  "ipc_shm_hardirq_xen K s = map_option (xdo (lk_tasklet_schedule K)) (hardirq_from_xen [0..<IPC_SHM_MAX_INSTANCES] s)"

section \<open>Initialisation and release\<close>

definition xen_err_release_local_region :: "'k linux \<Rightarrow> ipc_shm_cfg \<Rightarrow> int \<Rightarrow> memory \<Rightarrow> 'k xos \<Rightarrow> int \<times> memory \<times> 'k xos" where
  "xen_err_release_local_region K cfg err m s =
     (int8 err, m, xdo (lk_release_mem_region K (cfg_local_shm_addr cfg) (ucast (cfg_shm_size cfg))) s)"

definition xen_err_unmap_local_shm :: "'k linux \<Rightarrow> ipc_shm_cfg \<Rightarrow> int \<Rightarrow> memory \<Rightarrow> 'k xos \<Rightarrow> int \<times> memory \<times> 'k xos" where
  "xen_err_unmap_local_shm K cfg err m s =
     (case xen_iounmap K (cfg_local_shm_addr cfg) m s of (m1, s1) \<Rightarrow> xen_err_release_local_region K cfg err m1 s1)"

definition xen_err_release_remote_region :: "'k linux \<Rightarrow> ipc_shm_cfg \<Rightarrow> int \<Rightarrow> memory \<Rightarrow> 'k xos \<Rightarrow> int \<times> memory \<times> 'k xos" where
  "xen_err_release_remote_region K cfg err m s =
     xen_err_unmap_local_shm K cfg err m (xdo (lk_release_mem_region K (cfg_remote_shm_addr cfg) (ucast (cfg_shm_size cfg))) s)"

definition ipc_os_init_xen :: "'k linux \<Rightarrow> u8 \<Rightarrow> ipc_shm_cfg \<Rightarrow> u64 \<Rightarrow> memory \<Rightarrow> 'k xos \<Rightarrow> (int \<times> memory \<times> 'k xos) option" where
  "ipc_os_init_xen K i cfg rx_cb m s =
     (if rx_cb = 0 then Some (- EINVAL, m, s)
      else if unat i > IPC_SHM_MAX_INSTANCES then Some (- EINVAL, m, s)
      else case xcall (lk_request_mem_region K (cfg_local_shm_addr cfg) (ucast (cfg_shm_size cfg))) s of (res, s1) \<Rightarrow>
      if \<not> res then Some (- EADDRINUSE, m, s1)
      else case xen_ioremap K (cfg_local_shm_addr cfg) (ucast (cfg_shm_size cfg)) m s1 of (lva, m2, s2) \<Rightarrow> do {
        s3 \<leftarrow> upd_xinst i (\<lambda>p. p\<lparr>xi_local_virt_shm := lva\<rparr>) s2;
        if lva = 0 then Some (xen_err_release_local_region K cfg (- ENOMEM) m2 s3)
        else case xcall (lk_request_mem_region K (cfg_remote_shm_addr cfg) (ucast (cfg_shm_size cfg))) s3 of (res, s4) \<Rightarrow>
        if \<not> res then Some (xen_err_unmap_local_shm K cfg (- EADDRINUSE) m2 s4)
        else case xen_ioremap K (cfg_remote_shm_addr cfg) (ucast (cfg_shm_size cfg)) m2 s4 of (rva, m5, s5) \<Rightarrow> do {
          s6 \<leftarrow> upd_xinst i (\<lambda>p. p\<lparr>xi_remote_virt_shm := rva\<rparr>) s5;
          if rva = 0 then Some (xen_err_release_remote_region K cfg (- ENOMEM) m5 s6)
          else do {
            s7 \<leftarrow> upd_xinst i (\<lambda>p. p\<lparr>xi_shm_size := sint (cfg_shm_size cfg), xi_local_phys_shm := cfg_local_shm_addr cfg,
                     xi_remote_phys_shm := cfg_remote_shm_addr cfg\<rparr>) (s6\<lparr>xo_rx_cb := rx_cb\<rparr>);
            s8 \<leftarrow> (if cfg_inter_core_rx_irq cfg = IPC_IRQ_NONE then upd_xinst i (\<lambda>p. p\<lparr>xi_irq_num := IPC_IRQ_NONE\<rparr>) s7 else Some s7);
            p \<leftarrow> xinst i s8;
            let dup = list_ex (\<lambda>n. xi_irq_num p = n) (xo_irq_num_init s8);
            s9 \<leftarrow> (if dup then Some s8
                  else if unat i < length (xo_irq_num_init s8) then Some (s8\<lparr>xo_irq_num_init := (xo_irq_num_init s8)[unat i := xi_irq_num p]\<rparr>)
                  else None);
            s10 \<leftarrow> upd_xinst i (\<lambda>p. p\<lparr>xi_state := IPC_SHM_INSTANCE_ENABLED\<rparr>) s9;
            Some (0, m5, s10) } } })"

definition ipc_os_free_xen :: "'k linux \<Rightarrow> u8 \<Rightarrow> memory \<Rightarrow> 'k xos \<Rightarrow> (memory \<times> 'k xos) option" where
  "ipc_os_free_xen K i m s = do {
     s1 \<leftarrow> upd_xinst i (\<lambda>p. p\<lparr>xi_state := IPC_SHM_INSTANCE_DISABLED\<rparr>) s;
     s2 \<leftarrow> ipc_hw_irq_disable_xen i s1;
     let s3 = xdo (lk_tasklet_kill K) s2;
     p \<leftarrow> xinst i s3;
     n \<leftarrow> nth_opt (xo_irq_num_init s3) (unat i);
     let s4 = (if n \<noteq> 0 then (xdo (lk_free_irq K (xi_irq_num p)) s3)\<lparr>xo_irq_num_init := (xo_irq_num_init s3)[unat i := 0]\<rparr> else s3);
     let (m5, s5) = xen_iounmap K (xi_remote_virt_shm p) m s4;
     let s6 = xdo (lk_release_mem_region K (xi_remote_phys_shm p) (word_of_int (xi_shm_size p))) s5;
     let (m7, s7) = xen_iounmap K (xi_local_virt_shm p) m5 s6;
     Some (m7, xdo (lk_release_mem_region K (xi_local_phys_shm p) (word_of_int (xi_shm_size p))) s7) }"

definition ipc_os_get_local_shm_xen :: "u8 \<Rightarrow> 'k xos \<Rightarrow> u64 option" where
  "ipc_os_get_local_shm_xen i s = map_option xi_local_virt_shm (xinst i s)"

definition ipc_os_get_remote_shm_xen :: "u8 \<Rightarrow> 'k xos \<Rightarrow> u64 option" where
  "ipc_os_get_remote_shm_xen i s = map_option xi_remote_virt_shm (xinst i s)"

definition ipc_os_map_intc_xen :: u64 where
  "ipc_os_map_intc_xen = 0"

definition ipc_os_unmap_intc_xen :: "'k linux \<Rightarrow> u64 \<Rightarrow> 'k \<Rightarrow> 'k" where
  "ipc_os_unmap_intc_xen K addr k = snd (lk_iounmap K addr k)"

definition ipc_os_poll_channels_xen :: "(u8 \<Rightarrow> int \<Rightarrow> 'k xdriver \<Rightarrow> (u32 \<times> 'k xdriver) option) \<Rightarrow> u8 \<Rightarrow> 'k xdriver \<Rightarrow> (int \<times> 'k xdriver) option" where
  "ipc_os_poll_channels_xen rx i st = do {
     p \<leftarrow> xinst i (st_env st);
     if xi_irq_num p = IPC_IRQ_NONE then
       (if xo_rx_cb (st_env st) \<noteq> 0 then map_option (\<lambda>(n, st'). (int8 (uint n), st')) (rx i IPC_SOFTIRQ_BUDGET st)
        else Some (- EINVAL, st))
     else Some (- EOPNOTSUPP, st) }"

definition xen_platform :: "'k linux \<Rightarrow> u64 \<Rightarrow>
    (u64 \<Rightarrow> u64 \<Rightarrow> u8 \<Rightarrow> u8 \<Rightarrow> u64 \<Rightarrow> u32 \<Rightarrow> 'k xdriver \<Rightarrow> 'k xdriver option) \<Rightarrow>
    (u64 \<Rightarrow> u64 \<Rightarrow> u8 \<Rightarrow> u8 \<Rightarrow> u64 \<Rightarrow> 'k xdriver \<Rightarrow> 'k xdriver option) \<Rightarrow> 'k xos platform" where
  "xen_platform K RX app umng_app = \<lparr>
     hw_init = ipc_hw_init_xen, hw_free = ipc_hw_free_xen, hw_irq_enable = ipc_hw_irq_enable_xen,
     hw_irq_disable = ipc_hw_irq_disable_xen, hw_irq_notify = ipc_hw_irq_notify_xen,
     os_init = (\<lambda>i cfg. ipc_os_init_xen K i cfg RX), os_free = ipc_os_free_xen K,
     os_get_local_shm = ipc_os_get_local_shm_xen, os_get_remote_shm = ipc_os_get_remote_shm_xen,
     os_poll_channels = ipc_os_poll_channels_xen, app_rx_cb = app, app_umng_rx_cb = umng_app\<rparr>"

end
