(* ===== verification/Uio.thy ===== *)
theory Uio
  imports Os_Kernel
begin

text \<open>
  The kernel module of the user-space variant, \<open>src/os_kernel/ipc-uio.c\<close> with \<open>ipc-uio.h\<close>: the character
  device through which the user-space library initialises instances and maps shared memory, and the UIO
  device of each instance. Kernel services are the fields of the record \<open>uio_linux\<close>. The hardware layer is
  a function of the mapped register block, because \<open>ipc_os_map_intc\<close> of this module returns the block that
  the probe function mapped.
\<close>

unbundle bit_operations_syntax

section \<open>Commands and data\<close>

definition IPC_UIO_DISABLE_CMD :: int where "IPC_UIO_DISABLE_CMD = 1"
definition IPC_UIO_ENABLE_CMD :: int where "IPC_UIO_ENABLE_CMD = 2"
definition IPC_UIO_TRIGGER_CMD :: int where "IPC_UIO_TRIGGER_CMD = 3"
definition IPC_IOCTL_MAGIC :: u32 where "IPC_IOCTL_MAGIC = 0xA6"

text \<open>\<open>_IOW\<close>: direction, size of the argument structure (64 bytes on the 64-bit target), magic number, command number.\<close>

definition sizeof_ipc_uio_cdev_data :: u32 where "sizeof_ipc_uio_cdev_data = 64"

definition IOW :: "u32 \<Rightarrow> u32 \<Rightarrow> u32 \<Rightarrow> u32" where
  "IOW magic nr sz = push_bit 30 1 OR push_bit 16 sz OR push_bit 8 magic OR nr"

definition IPC_IOC_INIT :: u32 where "IPC_IOC_INIT = IOW IPC_IOCTL_MAGIC 1 sizeof_ipc_uio_cdev_data"
definition IPC_IOC_FREE :: u32 where "IPC_IOC_FREE = IOW IPC_IOCTL_MAGIC 2 sizeof_ipc_uio_cdev_data"
definition IPC_IOC_MMAP_LOCAL :: u32 where "IPC_IOC_MMAP_LOCAL = IOW IPC_IOCTL_MAGIC 3 sizeof_ipc_uio_cdev_data"
definition IPC_IOC_MMAP_REMOTE :: u32 where "IPC_IOC_MMAP_REMOTE = IOW IPC_IOCTL_MAGIC 4 sizeof_ipc_uio_cdev_data"

lemmas ioc_defs = IPC_IOC_INIT_def IPC_IOC_FREE_def IPC_IOC_MMAP_LOCAL_def IPC_IOC_MMAP_REMOTE_def

lemma ioc_val: "IPC_IOC_INIT = 0x4040A601" "IPC_IOC_FREE = 0x4040A602" "IPC_IOC_MMAP_LOCAL = 0x4040A603" "IPC_IOC_MMAP_REMOTE = 0x4040A604"
  by (simp_all add: ioc_defs IOW_def IPC_IOCTL_MAGIC_def sizeof_ipc_uio_cdev_data_def)

record ipc_uio_cdev_data =
  cd_instance :: u8
  cd_cfg :: ipc_shm_cfg

text \<open>
  The fields of \<open>struct uio_info\<close> that the module sets; \<open>ui_handlers\<close> stands for the four function
  pointers and the private pointer, which are set together.
\<close>

record uio_info =
  ui_version :: string
  ui_name :: string
  ui_irq :: int
  ui_irq_flags :: int
  ui_handlers :: bool

record ipc_uio_priv_type =
  up_state :: int
  up_irq_num :: int
  up_dev :: bool
  up_refcnt :: int
  up_info :: uio_info
  up_data :: ipc_uio_cdev_data
  up_uio_name :: string

record ('p, 'k) uio_state =
  us_major :: u32
  us_irq_num_init :: "int list"
  us_cmd :: u32
  us_phys_addr :: u64
  us_pdev_reg :: u64
  us_cdev_class :: u64
  us_uio_id :: "ipc_uio_priv_type list"
  us_mutex :: bool
  us_hw :: "('p, 'k) hw_state"

record 'k uio_linux =
  ul_platform_get_irq :: "int \<Rightarrow> 'k \<Rightarrow> int \<times> 'k"
  ul_uio_register_device :: "nat \<Rightarrow> uio_info \<Rightarrow> 'k \<Rightarrow> int \<times> 'k"
  ul_uio_unregister_device :: "nat \<Rightarrow> 'k \<Rightarrow> 'k"
  ul_copy_from_user :: "u64 \<Rightarrow> 'k \<Rightarrow> ipc_uio_cdev_data option \<times> 'k"
  ul_remap_pfn_range :: "u64 \<Rightarrow> u64 \<Rightarrow> u64 \<Rightarrow> 'k \<Rightarrow> int \<times> 'k"
  ul_devm_ioremap_resource :: "'k \<Rightarrow> (u64 \<times> bool) \<times> 'k"   \<comment> \<open>the pointer and \<open>IS_ERR_OR_NULL\<close> of it\<close>
  ul_alloc_chrdev_region :: "'k \<Rightarrow> (int \<times> u32) \<times> 'k"
  ul_cdev_add :: "u32 \<Rightarrow> 'k \<Rightarrow> int \<times> 'k"
  ul_class_create :: "'k \<Rightarrow> u64 \<times> 'k"
  ul_device_create :: "u64 \<Rightarrow> u32 \<Rightarrow> 'k \<Rightarrow> bool \<times> 'k"
  ul_device_destroy :: "u64 \<Rightarrow> u32 \<Rightarrow> 'k \<Rightarrow> 'k"
  ul_class_destroy :: "u64 \<Rightarrow> 'k \<Rightarrow> 'k"
  ul_cdev_del :: "'k \<Rightarrow> 'k"
  ul_unregister_chrdev_region :: "u32 \<Rightarrow> 'k \<Rightarrow> 'k"

definition EEXIST :: int where "EEXIST = 17"

definition ucall :: "('k \<Rightarrow> 'r \<times> 'k) \<Rightarrow> ('p, 'k) uio_state \<Rightarrow> 'r \<times> ('p, 'k) uio_state" where
  "ucall f s = (case f (hw_dev (us_hw s)) of (r, k) \<Rightarrow> (r, s\<lparr>us_hw := (us_hw s)\<lparr>hw_dev := k\<rparr>\<rparr>))"

definition udo :: "('k \<Rightarrow> 'k) \<Rightarrow> ('p, 'k) uio_state \<Rightarrow> ('p, 'k) uio_state" where
  "udo f s = s\<lparr>us_hw := (us_hw s)\<lparr>hw_dev := f (hw_dev (us_hw s))\<rparr>\<rparr>"

definition uhw :: "(('p, 'k) hw_state \<Rightarrow> ('p, 'k) hw_state option) \<Rightarrow> ('p, 'k) uio_state \<Rightarrow> ('p, 'k) uio_state option" where
  "uhw f s = map_option (\<lambda>h. s\<lparr>us_hw := h\<rparr>) (f (us_hw s))"

definition uinst :: "nat \<Rightarrow> ('p, 'k) uio_state \<Rightarrow> ipc_uio_priv_type option" where
  "uinst n s = nth_opt (us_uio_id s) n"

definition upd_uinst :: "nat \<Rightarrow> (ipc_uio_priv_type \<Rightarrow> ipc_uio_priv_type) \<Rightarrow> ('p, 'k) uio_state \<Rightarrow> ('p, 'k) uio_state option" where
  "upd_uinst n f s = do { p \<leftarrow> uinst n s; Some (s\<lparr>us_uio_id := (us_uio_id s)[n := f p]\<rparr>) }"

text \<open>The register block as the hardware layer gets it (\<open>ipc_os_map_intc\<close>, \<open>ipc_os_unmap_intc\<close>).\<close>

definition ipc_os_map_intc_uio :: "('p, 'k) uio_state \<Rightarrow> u64" where
  "ipc_os_map_intc_uio s = us_pdev_reg s"

definition uio_mmio :: "'k mmio \<Rightarrow> u64 \<Rightarrow> 'k mmio" where
  "uio_mmio M reg = M\<lparr>io_map_intc := (\<lambda>k. (reg, k)), io_unmap_intc := (\<lambda>a k. k)\<rparr>"

section \<open>The UIO device of an instance\<close>

definition ipc_shm_uio_open :: "nat \<Rightarrow> ('p, 'k) uio_state \<Rightarrow> (int \<times> ('p, 'k) uio_state) option" where
  "ipc_shm_uio_open n s = do {
     p \<leftarrow> uinst n s;
     s1 \<leftarrow> upd_uinst n (\<lambda>p. p\<lparr>up_refcnt := up_refcnt p - 1\<rparr>) s;
     if up_refcnt p - 1 \<noteq> 0
     then map_option (\<lambda>s'. (- EBUSY, s')) (upd_uinst n (\<lambda>p. p\<lparr>up_refcnt := up_refcnt p + 1\<rparr>) s1)
     else Some (0, s1) }"

definition ipc_shm_uio_release :: "nat \<Rightarrow> ('p, 'k) uio_state \<Rightarrow> (int \<times> ('p, 'k) uio_state) option" where
  "ipc_shm_uio_release n s = map_option (\<lambda>s'. (0, s')) (upd_uinst n (\<lambda>p. p\<lparr>up_refcnt := up_refcnt p + 1\<rparr>) s)"

definition ipc_shm_uio_irqcontrol :: "(u64 \<Rightarrow> ('p, 'k) hw_iface) \<Rightarrow> nat \<Rightarrow> int \<Rightarrow> ('p, 'k) uio_state \<Rightarrow> (int \<times> ('p, 'k) uio_state) option" where
  "ipc_shm_uio_irqcontrol H n cmd s = do {
     p \<leftarrow> uinst n s;
     let i = cd_instance (up_data p);
     s1 \<leftarrow> (if cmd = IPC_UIO_DISABLE_CMD then uhw (hi_irq_disable (H (us_pdev_reg s)) i) s
           else if cmd = IPC_UIO_ENABLE_CMD then uhw (hi_irq_enable (H (us_pdev_reg s)) i) s
           else if cmd = IPC_UIO_TRIGGER_CMD then uhw (hi_irq_notify (H (us_pdev_reg s)) i) s
           else Some s);
     Some (0, s1) }"

definition ipc_shm_uio_handler :: "(u64 \<Rightarrow> ('p, 'k) hw_iface) \<Rightarrow> nat \<Rightarrow> ('p, 'k) uio_state \<Rightarrow> ('p, 'k) uio_state option" where
  "ipc_shm_uio_handler H n s = do {
     p \<leftarrow> uinst n s;
     let i = cd_instance (up_data p);
     s1 \<leftarrow> uhw (hi_irq_disable (H (us_pdev_reg s)) i) s;
     uhw (hi_irq_clear (H (us_pdev_reg s)) i) s1 }"

section \<open>Initialisation and release of an instance\<close>

text \<open>The decimal number that \<open>sprintf\<close> prints.\<close>

fun decimal :: "nat \<Rightarrow> string" where
  "decimal n = (if n < 10 then [char_of (48 + n)] else decimal (n div 10) @ [char_of (48 + n mod 10)])"

declare decimal.simps [simp del]

definition uio_name_of :: "nat \<Rightarrow> string" where
  "uio_name_of n = ''instance_'' @ decimal n"

definition IPC_UIO_VERSION :: string where "IPC_UIO_VERSION = ''2.0''"

definition ipc_uio_init :: "(u64 \<Rightarrow> ('p, 'k) hw_iface) \<Rightarrow> 'k uio_linux \<Rightarrow> ipc_uio_cdev_data \<Rightarrow> ('p, 'k) uio_state \<Rightarrow>
    (int \<times> ('p, 'k) uio_state) option" where
  "ipc_uio_init H K data s = do {
     let n = unat (cd_instance data);
     let cfg = cd_cfg data;
     s1 \<leftarrow> upd_uinst n (\<lambda>p. p\<lparr>up_uio_name := uio_name_of n\<rparr>) s;
     (err, h) \<leftarrow> hi_init (H (us_pdev_reg s1)) (cd_instance data) cfg (us_hw s1);
     let s2 = s1\<lparr>us_hw := h\<rparr>;
     if err \<noteq> 0 then Some (err, s2)
     else if cfg_inter_core_rx_irq cfg = IPC_IRQ_NONE then Some (0, s2)
     else do {
       rx \<leftarrow> hi_get_rx_irq (H (us_pdev_reg s2)) (cd_instance data) (us_hw s2);
       let (irq, s3) = ucall (ul_platform_get_irq K rx) s2;
       if irq < 0 then Some (irq, s3)
       else if list_ex (\<lambda>j. irq = j) (us_irq_num_init s3) then Some (- EFAULT, s3)
       else do {
         let s4 = s3\<lparr>us_irq_num_init := (us_irq_num_init s3)[n := irq]\<rparr>;
         s5 \<leftarrow> upd_uinst n (\<lambda>p. p\<lparr>up_dev := True, up_refcnt := 1,
                up_info := \<lparr>ui_version = IPC_UIO_VERSION, ui_name = up_uio_name p, ui_irq = irq, ui_irq_flags = 0, ui_handlers = True\<rparr>\<rparr>) s4;
         p \<leftarrow> uinst n s5;
         let (err, s6) = ucall (ul_uio_register_device K n (up_info p)) s5;
         if err \<noteq> 0 then Some (err, s6)
         else map_option (\<lambda>s'. (0, s')) (upd_uinst n (\<lambda>p. p\<lparr>up_state := IPC_SHM_INSTANCE_ENABLED\<rparr>) s6) } } }"

definition ipc_uio_free :: "'k uio_linux \<Rightarrow> ipc_uio_cdev_data \<Rightarrow> ('p, 'k) uio_state \<Rightarrow> (int \<times> ('p, 'k) uio_state) option" where
  "ipc_uio_free K data s =
     (let n = unat (cd_instance data) in
      if n < IPC_SHM_MAX_INSTANCES then do {
        p \<leftarrow> uinst n s;
        irq \<leftarrow> nth_opt (us_irq_num_init s) n;
        if up_state p = IPC_SHM_INSTANCE_ENABLED \<and> irq \<noteq> IPC_IRQ_NONE
        then (let s1 = udo (ul_uio_unregister_device K n) s in
              Some (0, s1\<lparr>us_irq_num_init := (us_irq_num_init s1)[n := IPC_IRQ_NONE]\<rparr>))
        else Some (- EINVAL, s) }
      else Some (- EINVAL, s))"

section \<open>The character device\<close>

definition ipc_cdev_open :: "('p, 'k) uio_state \<Rightarrow> int \<times> ('p, 'k) uio_state" where
  "ipc_cdev_open s = (if us_mutex s then (- EBUSY, s) else (0, s\<lparr>us_mutex := True\<rparr>))"

definition ipc_cdev_release :: "('p, 'k) uio_state \<Rightarrow> int \<times> ('p, 'k) uio_state" where
  "ipc_cdev_release s = (0, s\<lparr>us_mutex := False\<rparr>)"

definition ipc_cdev_ioctl :: "(u64 \<Rightarrow> ('p, 'k) hw_iface) \<Rightarrow> 'k uio_linux \<Rightarrow> u32 \<Rightarrow> u64 \<Rightarrow> ('p, 'k) uio_state \<Rightarrow>
    (int \<times> ('p, 'k) uio_state) option" where
  "ipc_cdev_ioctl H K cmd arg s0 = (let s = s0\<lparr>us_cmd := cmd\<rparr> in
     if cmd = IPC_IOC_INIT \<or> cmd = IPC_IOC_FREE then
       (case ucall (ul_copy_from_user K arg) s of
          (None, s1) \<Rightarrow> Some (- EFAULT, s1)
        | (Some data, s1) \<Rightarrow>
            if unat (cd_instance data) \<ge> IPC_SHM_MAX_INSTANCES then Some (- EINVAL, s1)
            else do {
              s2 \<leftarrow> upd_uinst (unat (cd_instance data)) (\<lambda>p. p\<lparr>up_data := data\<rparr>) s1;
              if cmd = IPC_IOC_INIT then ipc_uio_init H K data s2 else ipc_uio_free K data s2 })
     else if cmd = IPC_IOC_MMAP_LOCAL \<or> cmd = IPC_IOC_MMAP_REMOTE then Some (0, s\<lparr>us_phys_addr := arg\<rparr>)
     else Some (- EINVAL, s))"

text \<open>
  The loop of \<open>ipc_cdev_mmap\<close> maps one page at a time. Its offset is an unsigned long, so for an area of
  nearly the whole address space it could wrap; the fuel bounds the number of iterations and running out
  of it is \<open>None\<close>. Pages have \<open>2 ^ sh\<close> bytes (\<open>PAGE_SHIFT\<close>).
\<close>

fun mmap_loop :: "'k uio_linux \<Rightarrow> nat \<Rightarrow> nat \<Rightarrow> u64 \<Rightarrow> u64 \<Rightarrow> u64 \<Rightarrow> u64 \<Rightarrow> ('p, 'k) uio_state \<Rightarrow> (int \<times> ('p, 'k) uio_state) option" where
  "mmap_loop K 0 sh start phys_addr sz offset s = None"
| "mmap_loop K (Suc f) sh start phys_addr sz offset s =
     (if offset < sz then
        (case ucall (ul_remap_pfn_range K (start + offset) (drop_bit sh (phys_addr + offset)) (push_bit sh 1)) s of (e, s1) \<Rightarrow>
           if e \<noteq> 0 then Some (- EINVAL, s1)
           else mmap_loop K f sh start phys_addr sz (offset + push_bit sh 1) s1)
      else Some (0, s))"

definition ipc_cdev_mmap :: "'k uio_linux \<Rightarrow> nat \<Rightarrow> nat \<Rightarrow> u64 \<Rightarrow> u64 \<Rightarrow> ('p, 'k) uio_state \<Rightarrow> (int \<times> ('p, 'k) uio_state) option" where
  "ipc_cdev_mmap K fuel sh vm_start vm_end s =
     (if IPC_IOC_MMAP_LOCAL \<noteq> us_cmd s \<and> IPC_IOC_MMAP_REMOTE \<noteq> us_cmd s then Some (- EINVAL, s)
      else mmap_loop K fuel sh vm_start (us_phys_addr s) (vm_end - vm_start) 0 s)"

section \<open>Probe and remove\<close>

definition fail_add_cdev :: "'k uio_linux \<Rightarrow> int \<Rightarrow> ('p, 'k) uio_state \<Rightarrow> int \<times> ('p, 'k) uio_state" where
  "fail_add_cdev K err s = (err, udo (ul_unregister_chrdev_region K (us_major s)) s)"

definition fail_create_class :: "'k uio_linux \<Rightarrow> int \<Rightarrow> ('p, 'k) uio_state \<Rightarrow> int \<times> ('p, 'k) uio_state" where
  "fail_create_class K err s = fail_add_cdev K err (udo (ul_cdev_del K) s)"

definition fail_create_device :: "'k uio_linux \<Rightarrow> int \<Rightarrow> ('p, 'k) uio_state \<Rightarrow> int \<times> ('p, 'k) uio_state" where
  "fail_create_device K err s = fail_create_class K err (udo (ul_class_destroy K (us_cdev_class s)) s)"

definition ipc_shm_uio_probe :: "'k uio_linux \<Rightarrow> ('p, 'k) uio_state \<Rightarrow> int \<times> ('p, 'k) uio_state" where
  "ipc_shm_uio_probe K s =
     (let s1 = s\<lparr>us_uio_id := map (\<lambda>p. p\<lparr>up_irq_num := IPC_IRQ_NONE\<rparr>) (us_uio_id s),
                us_irq_num_init := map (\<lambda>_. IPC_IRQ_NONE) (us_irq_num_init s)\<rparr> in
      case ucall (ul_devm_ioremap_resource K) s1 of ((reg, bad), s2) \<Rightarrow>
      let s3 = s2\<lparr>us_pdev_reg := reg\<rparr> in
      if bad then (- ENOMEM, s3)
      else case ucall (ul_alloc_chrdev_region K) s3 of ((err, major), s4) \<Rightarrow>
      let s5 = s4\<lparr>us_major := major\<rparr> in
      if err < 0 then (err, s5)
      else case ucall (ul_cdev_add K major) s5 of (err, s6) \<Rightarrow>
      if err < 0 then fail_add_cdev K err s6
      else case ucall (ul_class_create K) s6 of (cls, s7) \<Rightarrow>
      let s8 = s7\<lparr>us_cdev_class := cls\<rparr> in
      if cls = 0 then fail_create_class K (- EEXIST) s8
      else case ucall (ul_device_create K cls major) s8 of (ok, s9) \<Rightarrow>
      if \<not> ok then fail_create_device K (- EINVAL) s9
      else (0, s9\<lparr>us_mutex := False\<rparr>))"

fun uio_remove_from :: "'k uio_linux \<Rightarrow> nat list \<Rightarrow> ('p, 'k) uio_state \<Rightarrow> ('p, 'k) uio_state option" where
  "uio_remove_from K [] s = Some s"
| "uio_remove_from K (n # ns) s = do {
     p \<leftarrow> uinst n s;
     if up_state p = IPC_SHM_INSTANCE_ENABLED then do {
       s1 \<leftarrow> upd_uinst n (\<lambda>p. p\<lparr>up_state := IPC_SHM_INSTANCE_DISABLED\<rparr>) s;
       irq \<leftarrow> nth_opt (us_irq_num_init s1) n;
       if irq = IPC_IRQ_NONE then uio_remove_from K ns s1
       else uio_remove_from K ns (udo (ul_uio_unregister_device K n) s1) }
     else uio_remove_from K ns s }"

definition ipc_shm_uio_remove :: "'k uio_linux \<Rightarrow> ('p, 'k) uio_state \<Rightarrow> ('p, 'k) uio_state option" where
  "ipc_shm_uio_remove K s =
     (let s1 = udo (ul_device_destroy K (us_cdev_class s) (us_major s)) s;
          s2 = udo (ul_class_destroy K (us_cdev_class s)) s1;
          s3 = udo (ul_cdev_del K) s2;
          s4 = udo (ul_unregister_chrdev_region K (us_major s)) s3
      in uio_remove_from K [0..<IPC_SHM_MAX_INSTANCES] s4)"

end
