(* ===== verification/Os_User.thy ===== *)
theory Os_User
  imports Uio
begin

text \<open>
  The OS layer of the user-space library, \<open>src/os_uio/ipc-os.c\<close>: it loads the kernel module of theory
  \<open>Uio\<close>, maps the shared memory through its character device, finds and opens the UIO device of the
  instance and starts the receive thread. The operations of \<open>ipc-hw.h\<close> are commands written to the UIO
  device. Library and system calls are the fields of the record \<open>posix\<close>. A buffer that holds a string is
  the string up to its terminating NUL. Log messages are left out.
\<close>

section \<open>System calls and private data\<close>

record 'k posix =
  px_page_size :: u64
  px_uninit_cfg :: ipc_shm_cfg        \<comment> \<open>the content of an uninitialised configuration on the stack\<close>
  px_open :: "string \<Rightarrow> 'k \<Rightarrow> int \<times> 'k"
  px_close :: "int \<Rightarrow> 'k \<Rightarrow> 'k"
  px_finit_module :: "int \<Rightarrow> 'k \<Rightarrow> int \<times> 'k"
  px_delete_module :: "'k \<Rightarrow> int \<times> 'k"
  px_ioctl_addr :: "int \<Rightarrow> u32 \<Rightarrow> u64 \<Rightarrow> 'k \<Rightarrow> int \<times> 'k"
  px_ioctl_data :: "int \<Rightarrow> u32 \<Rightarrow> ipc_uio_cdev_data \<Rightarrow> 'k \<Rightarrow> int \<times> 'k"
  px_mmap :: "u64 \<Rightarrow> int \<Rightarrow> u64 \<Rightarrow> 'k \<Rightarrow> (u64 \<times> memory) \<times> 'k"
  px_munmap :: "u64 \<Rightarrow> u64 \<Rightarrow> 'k \<Rightarrow> (u64 \<Rightarrow> bool) \<times> 'k"
  px_scandir :: "string \<Rightarrow> 'k \<Rightarrow> string list option \<times> 'k"
  px_fopen :: "string \<Rightarrow> 'k \<Rightarrow> bool \<times> 'k"
  px_fgets :: "nat \<Rightarrow> 'k \<Rightarrow> string option \<times> 'k"
  px_fclose :: "'k \<Rightarrow> 'k"
  px_pthread_attr_init :: "'k \<Rightarrow> int \<times> 'k"
  px_pthread_attr_setschedpolicy :: "'k \<Rightarrow> int \<times> 'k"
  px_pthread_attr_setschedparam :: "'k \<Rightarrow> int \<times> 'k"
  px_pthread_create :: "u8 \<Rightarrow> 'k \<Rightarrow> (int \<times> u64) \<times> 'k"
  px_pthread_cancel :: "u64 \<Rightarrow> 'k \<Rightarrow> 'k"
  px_pthread_join :: "u64 \<Rightarrow> 'k \<Rightarrow> 'k"
  px_read :: "int \<Rightarrow> 'k \<Rightarrow> 'k"
  px_sched_yield :: "'k \<Rightarrow> 'k"
  px_write_cmd :: "int \<Rightarrow> int \<Rightarrow> 'k \<Rightarrow> int \<times> 'k"

definition MAP_FAILED :: u64 where "MAP_FAILED = - 1"
definition ENOENT :: int where "ENOENT = 2"
definition ENONET :: int where "ENONET = 64"
definition IPC_UIO_CDEV_NAME :: string where "IPC_UIO_CDEV_NAME = ''/dev/ipc-cdev-uio''"
definition IPC_SHM_UIO_BUF_LEN :: nat where "IPC_SHM_UIO_BUF_LEN = 255"
definition IPC_SHM_UIO_DIR :: string where "IPC_SHM_UIO_DIR = ''/sys/class/uio''"
definition UIO_LIB_DRIVER_VERSION :: string where "UIO_LIB_DRIVER_VERSION = ''2.0''"

record user_priv_instance =
  si_state :: int
  si_instance :: u8
  si_irq_num :: int
  si_uio_fd :: int
  si_local_virt_shm :: u64
  si_remote_virt_shm :: u64
  si_local_shm_map :: u64
  si_remote_shm_map :: u64
  si_local_shm_offset :: u64
  si_remote_shm_offset :: u64
  si_shm_size :: u64
  si_rx_cb :: u64
  si_irq_thread_id :: u64

record 'k uos =
  uo_is_files_opened :: bool
  uo_ipc_cdev_fd :: int
  uo_ipc_uio_module_fd :: int
  uo_id :: "user_priv_instance list"
  uo_k :: 'k

type_synonym 'k udriver = "'k uos shm_state"

definition sinst :: "u8 \<Rightarrow> 'k uos \<Rightarrow> user_priv_instance option" where
  "sinst i s = nth_opt (uo_id s) (unat i)"

definition upd_sinst :: "u8 \<Rightarrow> (user_priv_instance \<Rightarrow> user_priv_instance) \<Rightarrow> 'k uos \<Rightarrow> 'k uos option" where
  "upd_sinst i f s = do { p \<leftarrow> sinst i s; Some (s\<lparr>uo_id := (uo_id s)[unat i := f p]\<rparr>) }"

definition pcall :: "('k \<Rightarrow> 'r \<times> 'k) \<Rightarrow> 'k uos \<Rightarrow> 'r \<times> 'k uos" where
  "pcall f s = (case f (uo_k s) of (r, k) \<Rightarrow> (r, s\<lparr>uo_k := k\<rparr>))"

definition pdo :: "('k \<Rightarrow> 'k) \<Rightarrow> 'k uos \<Rightarrow> 'k uos" where
  "pdo f s = s\<lparr>uo_k := f (uo_k s)\<rparr>"

section \<open>Finding the UIO device\<close>

text \<open>The C string in a buffer: up to its first NUL.\<close>

definition c_str :: "string \<Rightarrow> string" where
  "c_str s = takeWhile (\<lambda>c. c \<noteq> CHR 0x00) s"

text \<open>The first line of a file: the text that \<open>fgets\<close> read, cut at its first newline.\<close>

definition line_from_file :: "'k posix \<Rightarrow> string \<Rightarrow> 'k \<Rightarrow> (int \<times> string) \<times> 'k" where
  "line_from_file X filename k =
     (case px_fopen X filename k of (ok, k1) \<Rightarrow>
        if \<not> ok then ((- ENONET, ''''), k1)
        else case px_fgets X IPC_SHM_UIO_BUF_LEN k1 of
          (None, k2) \<Rightarrow> ((- EIO, ''''), k2)
        | (Some s, k2) \<Rightarrow>
            ((0, takeWhile (\<lambda>c. c \<noteq> CHR 0x0A) (c_str s)), px_fclose X k2))"

definition line_match :: "'k posix \<Rightarrow> string \<Rightarrow> string \<Rightarrow> 'k \<Rightarrow> int \<times> 'k" where
  "line_match X filename pattern k =
     (case line_from_file X filename k of ((err, linebuf), k1) \<Rightarrow>
        if err \<noteq> 0 then (err, k1)
        else if take IPC_SHM_UIO_BUF_LEN linebuf \<noteq> take IPC_SHM_UIO_BUF_LEN pattern then (EINVAL, k1)
        else (0, k1))"

text \<open>\<open>snprintf\<close> into a buffer of \<open>n\<close> bytes.\<close>

definition snprintf :: "nat \<Rightarrow> string \<Rightarrow> string" where
  "snprintf n s = take (n - 1) s"

fun find_uio :: "'k posix \<Rightarrow> string \<Rightarrow> string list \<Rightarrow> 'k \<Rightarrow> string option \<times> 'k" where
  "find_uio X uio_name [] k = (None, k)"
| "find_uio X uio_name (d # ds) k =
     (case line_match X (snprintf IPC_SHM_UIO_BUF_LEN (IPC_SHM_UIO_DIR @ ''/'' @ d @ ''/name'')) uio_name k of (e1, k1) \<Rightarrow>
        if e1 \<noteq> 0 then find_uio X uio_name ds k1
        else case line_match X (snprintf IPC_SHM_UIO_BUF_LEN (IPC_SHM_UIO_DIR @ ''/'' @ d @ ''/version'')) UIO_LIB_DRIVER_VERSION k1 of (e2, k2) \<Rightarrow>
        if e2 \<noteq> 0 then find_uio X uio_name ds k2
        else (Some (snprintf IPC_SHM_UIO_BUF_LEN d), k2))"

text \<open>The entries are searched from the last to the first.\<close>

definition get_uio_dev_name :: "'k posix \<Rightarrow> u8 \<Rightarrow> 'k \<Rightarrow> (int \<times> string) \<times> 'k" where
  "get_uio_dev_name X i k =
     (case px_scandir X IPC_SHM_UIO_DIR k of
        (None, k1) \<Rightarrow> ((- EIO, ''''), k1)
      | (Some names, k1) \<Rightarrow>
          (case find_uio X (uio_name_of (unat i)) (rev names) k1 of
             (Some d, k2) \<Rightarrow> ((0, d), k2)
           | (None, k2) \<Rightarrow> ((- ENONET, ''''), k2)))"

section \<open>Loading the module, the receive thread\<close>

definition ipc_os_module_init :: "'k posix \<Rightarrow> string \<Rightarrow> 'k uos \<Rightarrow> int \<times> 'k uos" where
  "ipc_os_module_init X IPC_UIO_MODULE_PATH s =
     (if uo_is_files_opened s then (0, s)
      else case pcall (px_open X IPC_UIO_MODULE_PATH) s of (fd, s1) \<Rightarrow>
      let s2 = s1\<lparr>uo_ipc_uio_module_fd := fd\<rparr> in
      if fd = - 1 then (- ENODEV, s2)
      else case pcall (px_finit_module X fd) s2 of (e, s3) \<Rightarrow>
      if e \<noteq> 0 then (- ENODEV, pdo (px_close X fd) s3)
      else case pcall (px_open X IPC_UIO_CDEV_NAME) s3 of (cfd, s4) \<Rightarrow>
      let s5 = s4\<lparr>uo_ipc_cdev_fd := cfd\<rparr> in
      if cfd = - 1 then (- ENODEV, pdo (px_close X fd) s5)
      else (0, s5\<lparr>uo_is_files_opened := True\<rparr>))"

text \<open>
  One round of the receive thread: wait for the UIO device, call the receive function while it uses its
  whole budget, enable the interrupt. The inner loop ends when the remote side stops sending; running
  out of fuel is \<open>None\<close>.
\<close>

definition ipc_send_uio_cmd :: "'k posix \<Rightarrow> int \<Rightarrow> int \<Rightarrow> 'k uos \<Rightarrow> 'k uos" where
  "ipc_send_uio_cmd X uio_fd cmd s = snd (pcall (px_write_cmd X uio_fd cmd) s)"

definition ipc_hw_irq_enable_user :: "'k posix \<Rightarrow> u8 \<Rightarrow> 'k uos \<Rightarrow> 'k uos option" where
  "ipc_hw_irq_enable_user X i s = map_option (\<lambda>p. ipc_send_uio_cmd X (si_uio_fd p) IPC_UIO_ENABLE_CMD s) (sinst i s)"

definition ipc_hw_irq_disable_user :: "'k posix \<Rightarrow> u8 \<Rightarrow> 'k uos \<Rightarrow> 'k uos option" where
  "ipc_hw_irq_disable_user X i s = map_option (\<lambda>p. ipc_send_uio_cmd X (si_uio_fd p) IPC_UIO_DISABLE_CMD s) (sinst i s)"

definition ipc_hw_irq_notify_user :: "'k posix \<Rightarrow> u8 \<Rightarrow> 'k uos \<Rightarrow> 'k uos option" where
  "ipc_hw_irq_notify_user X i s = map_option (\<lambda>p. ipc_send_uio_cmd X (si_uio_fd p) IPC_UIO_TRIGGER_CMD s) (sinst i s)"

definition ipc_hw_init_user :: "u8 \<Rightarrow> ipc_shm_cfg \<Rightarrow> 'k uos \<Rightarrow> (int \<times> 'k uos) option" where
  "ipc_hw_init_user i cfg s = Some (0, s)"

definition ipc_hw_free_user :: "u8 \<Rightarrow> 'k uos \<Rightarrow> 'k uos option" where
  "ipc_hw_free_user i s = Some s"

fun rx_while_busy :: "'k posix \<Rightarrow> (u8 \<Rightarrow> int \<Rightarrow> 'k udriver \<Rightarrow> (u32 \<times> 'k udriver) option) \<Rightarrow> nat \<Rightarrow> u8 \<Rightarrow> 'k udriver \<Rightarrow> 'k udriver option" where
  "rx_while_busy X rx 0 i st = None"
| "rx_while_busy X rx (Suc f) i st = do {
     (work, st1) \<leftarrow> rx i IPC_SOFTIRQ_BUDGET st;
     let st2 = st1\<lparr>st_env := pdo (px_sched_yield X) (st_env st1)\<rparr>;
     if sint work \<ge> IPC_SOFTIRQ_BUDGET then rx_while_busy X rx f i st2 else Some st2 }"

definition softirq_round_user :: "'k posix \<Rightarrow> (u8 \<Rightarrow> int \<Rightarrow> 'k udriver \<Rightarrow> (u32 \<times> 'k udriver) option) \<Rightarrow> nat \<Rightarrow> u8 \<Rightarrow> 'k udriver \<Rightarrow> 'k udriver option" where
  "softirq_round_user X rx f i st = do {
     p \<leftarrow> sinst i (st_env st);
     if si_rx_cb p = 0 then None
     else do {
       let st1 = st\<lparr>st_env := pdo (px_read X (si_uio_fd p)) (st_env st)\<rparr>;
       st2 \<leftarrow> rx_while_busy X rx f (si_instance p) st1;
       w \<leftarrow> ipc_hw_irq_enable_user X (si_instance p) (st_env st2);
       Some (st2\<lparr>st_env := w\<rparr>) } }"

definition ipc_os_softirq_init :: "'k posix \<Rightarrow> u8 \<Rightarrow> 'k uos \<Rightarrow> (int \<times> 'k uos) option" where
  "ipc_os_softirq_init X i s =
     (case pcall (px_pthread_attr_init X) s of (e1, s1) \<Rightarrow>
      if e1 \<noteq> 0 then Some (e1, s1)
      else case pcall (px_pthread_attr_setschedpolicy X) s1 of (e2, s2) \<Rightarrow>
      if e2 \<noteq> 0 then Some (e2, s2)
      else case pcall (px_pthread_attr_setschedparam X) s2 of (e3, s3) \<Rightarrow>
      if e3 \<noteq> 0 then Some (e3, s3)
      else case pcall (px_pthread_create X i) s3 of ((e4, tid), s4) \<Rightarrow>
      map_option (\<lambda>s'. (e4, s')) (upd_sinst i (\<lambda>p. p\<lparr>si_irq_thread_id := tid\<rparr>) s4))"

section \<open>Initialisation\<close>

definition munmap :: "'k posix \<Rightarrow> u64 \<Rightarrow> u64 \<Rightarrow> memory \<Rightarrow> 'k uos \<Rightarrow> memory \<times> 'k uos" where
  "munmap X a len m s = (case pcall (px_munmap X a len) s of (gone, s') \<Rightarrow> ((\<lambda>x. if gone x then None else m x), s'))"

definition user_err_close_ipc_dev :: "'k posix \<Rightarrow> u8 \<Rightarrow> int \<Rightarrow> memory \<Rightarrow> 'k uos \<Rightarrow> (int \<times> memory \<times> 'k uos) option" where
  "user_err_close_ipc_dev X i err m s = do {
     s1 \<leftarrow> upd_sinst i (\<lambda>p. p\<lparr>si_state := IPC_SHM_INSTANCE_DISABLED\<rparr>) s;
     if list_ex (\<lambda>p. si_state p = IPC_SHM_INSTANCE_ENABLED) (uo_id s1) then Some (int8 err, m, s1)
     else (let s2 = s1\<lparr>uo_is_files_opened := False\<rparr>;
               s3 = (if uo_ipc_cdev_fd s2 \<ge> 0 then pdo (px_close X (uo_ipc_cdev_fd s2)) s2 else s2);
               s4 = (if uo_ipc_uio_module_fd s3 \<ge> 0 then pdo (px_close X (uo_ipc_uio_module_fd s3)) s3 else s3)
           in Some (int8 err, m, s4)) }"

definition user_err_unmap_local_shm :: "'k posix \<Rightarrow> u8 \<Rightarrow> int \<Rightarrow> memory \<Rightarrow> 'k uos \<Rightarrow> (int \<times> memory \<times> 'k uos) option" where
  "user_err_unmap_local_shm X i err m s = do {
     p \<leftarrow> sinst i s;
     let (m1, s1) = munmap X (si_local_shm_map p) (si_local_shm_offset p + si_shm_size p) m s;
     user_err_close_ipc_dev X i err m1 s1 }"

definition user_err_unmap_remote_shm :: "'k posix \<Rightarrow> u8 \<Rightarrow> int \<Rightarrow> memory \<Rightarrow> 'k uos \<Rightarrow> (int \<times> memory \<times> 'k uos) option" where
  "user_err_unmap_remote_shm X i err m s = do {
     p \<leftarrow> sinst i s;
     let (m1, s1) = munmap X (si_remote_shm_map p) (si_remote_shm_offset p + si_shm_size p) m s;
     user_err_unmap_local_shm X i err m1 s1 }"

definition user_err_close_uio_dev :: "'k posix \<Rightarrow> u8 \<Rightarrow> int \<Rightarrow> memory \<Rightarrow> 'k uos \<Rightarrow> (int \<times> memory \<times> 'k uos) option" where
  "user_err_close_uio_dev X i err m s = do {
     p \<leftarrow> sinst i s;
     user_err_unmap_remote_shm X i err m (pdo (px_close X (si_uio_fd p)) s) }"

text \<open>The part of \<open>ipc_os_init\<close> after both regions are mapped: the kernel's instance, the UIO device, the thread.\<close>

definition user_init_irq :: "'k posix \<Rightarrow> u8 \<Rightarrow> ipc_shm_cfg \<Rightarrow> memory \<Rightarrow> 'k uos \<Rightarrow> (int \<times> memory \<times> 'k uos) option" where
  "user_init_irq X i cfg m s =
     (case pcall (px_ioctl_data X (uo_ipc_cdev_fd s) IPC_IOC_INIT \<lparr>cd_instance = i, cd_cfg = cfg\<rparr>) s of (e, s1) \<Rightarrow>
      if e < 0 then user_err_unmap_remote_shm X i (- EINVAL) m s1
      else if cfg_inter_core_rx_irq cfg = IPC_IRQ_NONE then
        map_option (\<lambda>s'. (0, m, s')) (upd_sinst i (\<lambda>p. p\<lparr>si_state := IPC_SHM_INSTANCE_ENABLED\<rparr>) s1)
      else case pcall (get_uio_dev_name X i) s1 of ((e, name), s2) \<Rightarrow>
      if e \<noteq> 0 then user_err_unmap_remote_shm X i (- ENOENT) m s2
      else case pcall (px_open X (snprintf (IPC_SHM_UIO_BUF_LEN * 2) (''/dev/'' @ name))) s2 of (fd, s3) \<Rightarrow> do {
        s4 \<leftarrow> upd_sinst i (\<lambda>p. p\<lparr>si_uio_fd := fd\<rparr>) s3;
        if fd = - 1 then user_err_unmap_remote_shm X i (- ENODEV) m s4
        else do {
          (e, s5) \<leftarrow> ipc_os_softirq_init X i s4;
          if e \<noteq> 0 then user_err_close_uio_dev X i e m s5
          else map_option (\<lambda>s'. (0, m, s')) (upd_sinst i (\<lambda>p. p\<lparr>si_state := IPC_SHM_INSTANCE_ENABLED\<rparr>) s5) } })"

definition ipc_os_init_user :: "'k posix \<Rightarrow> string \<Rightarrow> u8 \<Rightarrow> ipc_shm_cfg \<Rightarrow> u64 \<Rightarrow> memory \<Rightarrow> 'k uos \<Rightarrow> (int \<times> memory \<times> 'k uos) option" where
  "ipc_os_init_user X path i cfg rx_cb m s =
     (if rx_cb = 0 then Some (- EINVAL, m, s)
      else do {
        s1 \<leftarrow> upd_sinst i (\<lambda>p. p\<lparr>si_shm_size := ucast (cfg_shm_size cfg), si_rx_cb := rx_cb, si_instance := i\<rparr>) s;
        let (e, s2) = ipc_os_module_init X path s1;
        if e \<noteq> 0 then Some (int8 e, m, s2)
        else do {
          let (e, s3) = pcall (px_ioctl_addr X (uo_ipc_cdev_fd s2) IPC_IOC_MMAP_LOCAL (cfg_local_shm_addr cfg)) s2;
          if e < 0 then user_err_close_ipc_dev X i (- EINVAL) m s3
          else do {
            let page = (cfg_local_shm_addr cfg div px_page_size X) * px_page_size X;
            let off = cfg_local_shm_addr cfg - page;
            let ((lmap, new), s4) = pcall (px_mmap X (off + ucast (cfg_shm_size cfg)) (uo_ipc_cdev_fd s3) page) s3;
            s5 \<leftarrow> upd_sinst i (\<lambda>p. p\<lparr>si_local_shm_offset := off, si_local_shm_map := lmap\<rparr>) s4;
            if lmap = MAP_FAILED then user_err_close_ipc_dev X i (- ENOMEM) m s5
            else do {
              let m1 = m ++ new;
              s6 \<leftarrow> upd_sinst i (\<lambda>p. p\<lparr>si_local_virt_shm := lmap + off\<rparr>) s5;
              let (e, s7) = pcall (px_ioctl_addr X (uo_ipc_cdev_fd s6) IPC_IOC_MMAP_REMOTE (cfg_remote_shm_addr cfg)) s6;
              if e < 0 then user_err_unmap_local_shm X i (- EINVAL) m1 s7
              else do {
                let rpage = (cfg_remote_shm_addr cfg div px_page_size X) * px_page_size X;
                let roff = cfg_remote_shm_addr cfg - rpage;
                let ((rmap, rnew), s8) = pcall (px_mmap X (roff + ucast (cfg_shm_size cfg)) (uo_ipc_cdev_fd s7) rpage) s7;
                s9 \<leftarrow> upd_sinst i (\<lambda>p. p\<lparr>si_remote_shm_offset := roff, si_remote_shm_map := rmap\<rparr>) s8;
                if rmap = MAP_FAILED then user_err_unmap_local_shm X i (- ENOMEM) m1 s9
                else do {
                  s10 \<leftarrow> upd_sinst i (\<lambda>p. p\<lparr>si_remote_virt_shm := rmap + roff, si_irq_num := cfg_inter_core_rx_irq cfg\<rparr>) s9;
                  user_init_irq X i cfg (m1 ++ rnew) s10 } } } } } })"

section \<open>Release, addresses, polling\<close>

definition ipc_os_free_user :: "'k posix \<Rightarrow> u8 \<Rightarrow> memory \<Rightarrow> 'k uos \<Rightarrow> (memory \<times> 'k uos) option" where
  "ipc_os_free_user X i m s = do {
     s1 \<leftarrow> upd_sinst i (\<lambda>p. p\<lparr>si_state := IPC_SHM_INSTANCE_DISABLED\<rparr>) s;
     p \<leftarrow> sinst i s1;
     s4 \<leftarrow> (if si_irq_num p \<noteq> IPC_IRQ_NONE then do {
             s2 \<leftarrow> ipc_hw_irq_disable_user X i s1;
             let s3 = pdo (px_pthread_join X (si_irq_thread_id p)) (pdo (px_pthread_cancel X (si_irq_thread_id p)) s2);
             let (e, s3') = pcall (px_ioctl_data X (uo_ipc_cdev_fd s3) IPC_IOC_FREE \<lparr>cd_instance = i, cd_cfg = px_uninit_cfg X\<rparr>) s3;
             Some (pdo (px_close X (si_uio_fd p)) s3') }
           else Some s1);
     let (m5, s5) = munmap X (si_remote_shm_map p) (si_remote_shm_offset p + si_shm_size p) m s4;
     let (m6, s6) = munmap X (si_local_shm_map p) (si_local_shm_offset p + si_shm_size p) m5 s5;
     if list_ex (\<lambda>p. si_state p = IPC_SHM_INSTANCE_ENABLED) (uo_id s6) then Some (m6, s6)
     else (let s7 = (pdo (px_close X (uo_ipc_cdev_fd s6)) s6)\<lparr>uo_is_files_opened := False\<rparr>
           in Some (m6, snd (pcall (px_delete_module X) s7))) }"

definition ipc_os_get_local_shm_user :: "u8 \<Rightarrow> 'k uos \<Rightarrow> u64 option" where
  "ipc_os_get_local_shm_user i s = map_option si_local_virt_shm (sinst i s)"

definition ipc_os_get_remote_shm_user :: "u8 \<Rightarrow> 'k uos \<Rightarrow> u64 option" where
  "ipc_os_get_remote_shm_user i s = map_option si_remote_virt_shm (sinst i s)"

definition ipc_os_poll_channels_user :: "(u8 \<Rightarrow> int \<Rightarrow> 'k udriver \<Rightarrow> (u32 \<times> 'k udriver) option) \<Rightarrow> u8 \<Rightarrow> 'k udriver \<Rightarrow> (int \<times> 'k udriver) option" where
  "ipc_os_poll_channels_user rx i st = do {
     p \<leftarrow> sinst i (st_env st);
     if si_irq_num p = IPC_IRQ_NONE then
       (if si_rx_cb p \<noteq> 0 then map_option (\<lambda>(n, st'). (int8 (uint n), st')) (rx i IPC_SOFTIRQ_BUDGET st)
        else Some (- EINVAL, st))
     else Some (- EOPNOTSUPP, st) }"

definition user_platform :: "'k posix \<Rightarrow> string \<Rightarrow> u64 \<Rightarrow>
    (u64 \<Rightarrow> u64 \<Rightarrow> u8 \<Rightarrow> u8 \<Rightarrow> u64 \<Rightarrow> u32 \<Rightarrow> 'k udriver \<Rightarrow> 'k udriver option) \<Rightarrow>
    (u64 \<Rightarrow> u64 \<Rightarrow> u8 \<Rightarrow> u8 \<Rightarrow> u64 \<Rightarrow> 'k udriver \<Rightarrow> 'k udriver option) \<Rightarrow> 'k uos platform" where
  "user_platform X path RX app umng_app = \<lparr>
     hw_init = ipc_hw_init_user, hw_free = ipc_hw_free_user, hw_irq_enable = ipc_hw_irq_enable_user X,
     hw_irq_disable = ipc_hw_irq_disable_user X, hw_irq_notify = ipc_hw_irq_notify_user X,
     os_init = (\<lambda>i cfg. ipc_os_init_user X path i cfg RX), os_free = ipc_os_free_user X,
     os_get_local_shm = ipc_os_get_local_shm_user, os_get_remote_shm = ipc_os_get_remote_shm_user,
     os_poll_channels = ipc_os_poll_channels_user, app_rx_cb = app, app_umng_rx_cb = umng_app\<rparr>"

end
