(* ===== verification/Os_Platform.thy ===== *)
theory Os_Platform
  imports Shm_Inst Os_Xen Os_User Hw_S32g3
begin

text \<open>
  The driver over its real layers. What the driver's life-cycle theorems need of the layers below is the
  locale \<open>driver_platform\<close>; it is interpreted on the three builds of the driver: the Linux kernel layer over
  the S32G3 hardware layer, the Xen layer, and the user-space layer.
\<close>

section \<open>The contract between the driver and its platform\<close>

datatype drv_call = Drv_Init "ipc_shm_cfg option" | Drv_Free

text \<open>A sequence of initialisations and releases of one instance, with the results of the initialisations.\<close>

fun drv_run :: "'w platform \<Rightarrow> u8 \<Rightarrow> drv_call list \<Rightarrow> 'w shm_state \<Rightarrow> (int list \<times> 'w shm_state) option" where
  "drv_run P i [] st = Some ([], st)"
| "drv_run P i (Drv_Init cfg # cs) st = do {
     (e, st1) \<leftarrow> ipc_shm_init_instance P i cfg st;
     (es, st2) \<leftarrow> drv_run P i cs st1;
     Some (e # es, st2) }"
| "drv_run P i (Drv_Free # cs) st = do {
     st1 \<leftarrow> ipc_shm_free_instance P i st;
     drv_run P i cs st1 }"

text \<open>
  The abstract instance: in use or not. An initialisation may only succeed on an instance that is not in
  use; it then is. A result other than 0 changes nothing, a release always leaves it unused.
\<close>

fun inst_spec :: "drv_call list \<Rightarrow> int list \<Rightarrow> bool \<Rightarrow> bool option" where
  "inst_spec [] [] used = Some used"
| "inst_spec (Drv_Init _ # cs) (e # es) used =
     (if used then (if e = - EINVAL then inst_spec cs es True else None) else inst_spec cs es (e = 0))"
| "inst_spec (Drv_Free # cs) es used = inst_spec cs es False"
| "inst_spec _ _ _ = None"

definition in_use :: "u8 \<Rightarrow> 'w shm_state \<Rightarrow> bool" where
  "in_use i st \<longleftrightarrow> ipc_instance_is_free i st = Some IPC_SHM_INSTANCE_USED"

locale driver_platform =
  fixes P :: "'w platform"
  assumes codes: "platform_codes P"
    and unmaps: "os_unmaps P"
begin

lemma init_step:
  assumes run: "ipc_shm_init_instance P i cfg st = Some (e, st')" and s: "settled i st" and i: "unat i < IPC_SHM_MAX_INSTANCES"
  shows "settled i st' \<and> (if in_use i st then e = - EINVAL \<and> in_use i st' else in_use i st' = (e = 0))"
proof (cases "in_use i st")
  case True
  then show ?thesis using run s by (auto simp: ipc_shm_init_instance_def in_use_def)
next
  case False
  then have g: "global_at i st = Some 0" using s by (simp add: settled_def in_use_def)
  show ?thesis
  proof (cases cfg)
    case None
    then show ?thesis using run s False g is_free_global [OF i g] by (auto simp: ipc_shm_init_instance_def split: if_splits)
  next
    case (Some cf)
    then show ?thesis using init_instance_state [OF _ g i codes, of cf e st'] run False is_free_global [OF i, of st']
      by (auto simp: settled_def in_use_def split: if_splits)
  qed
qed

lemma free_step_settled:
  assumes run: "ipc_shm_free_instance P i st = Some st'" and s: "settled i st" and i: "unat i < IPC_SHM_MAX_INSTANCES"
  shows "settled i st' \<and> \<not> in_use i st'"
proof (cases "in_use i st")
  case True
  then have "global_at i st' = Some 0" using free_instance_used(1) [OF run _ unmaps] by (simp add: in_use_def)
  from this is_free_global [OF i this] show ?thesis by (simp add: settled_def in_use_def)
next
  case False
  then show ?thesis using free_instance_unused [OF run] s by (auto simp: in_use_def)
qed

lemma session_refines:
  assumes "drv_run P i cs st = Some (es, st')" "settled i st" "unat i < IPC_SHM_MAX_INSTANCES"
  shows "settled i st' \<and> inst_spec cs es (in_use i st) = Some (in_use i st')"
  using assms
proof (induction cs arbitrary: st es)
  case (Cons c cs)
  show ?case
  proof (cases c)
    case (Drv_Init cfg)
    with Cons.prems(1) obtain e st1 es1 where s1: "ipc_shm_init_instance P i cfg st = Some (e, st1)"
      and r: "drv_run P i cs st1 = Some (es1, st')" "es = e # es1" by (auto split: Option.bind_splits)
    show ?thesis using init_step [OF s1 Cons.prems(2,3)] Cons.IH [OF r(1) _ Cons.prems(3)] Drv_Init r(2) by (auto split: if_splits)
  next
    case Drv_Free
    with Cons.prems(1) obtain st1 where s1: "ipc_shm_free_instance P i st = Some st1"
      and r: "drv_run P i cs st1 = Some (es, st')" by (auto split: Option.bind_splits)
    show ?thesis using free_step_settled [OF s1 Cons.prems(2,3)] Cons.IH [OF r _ Cons.prems(3)] Drv_Free by (cases es) auto
  qed
qed simp

end

section \<open>The three platforms keep it\<close>

definition shrinks :: "memory \<Rightarrow> memory \<Rightarrow> bool" where
  "shrinks m m' \<longleftrightarrow> (\<forall>a. m' a = m a \<or> m' a = None)"

lemma shrinks_trans: "shrinks m m1 \<Longrightarrow> shrinks m1 m2 \<Longrightarrow> shrinks m m2"
  unfolding shrinks_def by metis

lemma unmap_shrinks:
  "iounmap K va m s = (m', s') \<Longrightarrow> shrinks m m'" "xen_iounmap K va m x = (m', x') \<Longrightarrow> shrinks m m'"
  "munmap X va n m u = (m', u') \<Longrightarrow> shrinks m m'"
  by (auto simp: iounmap_def xen_iounmap_def munmap_def shrinks_def split: prod.splits if_splits)

lemma os_free_shrinks:
  "ipc_os_free H K i m s = Some (m', s') \<Longrightarrow> shrinks m m'" "ipc_os_free_xen K i m x = Some (m', x') \<Longrightarrow> shrinks m m'"
  "ipc_os_free_user X i m u = Some (m', u') \<Longrightarrow> shrinks m m'"
  unfolding ipc_os_free_def ipc_os_free_xen_def ipc_os_free_user_def Let_def
  by (auto split: Option.bind_splits prod.splits if_splits dest!: unmap_shrinks intro: shrinks_trans)

definition small :: "int \<Rightarrow> bool" where
  "small e \<longleftrightarrow> - 128 \<le> e \<and> e < 128"

lemma small_int8 [simp]: "small (int8 e)"
  using int8_range [of e] by (simp add: small_def)

lemma small_errno [simp]: "small 0" "small (- EINVAL)" "small (- EADDRINUSE)" "small (- EACCES)" "small (- ENODEV)"
  by (simp_all add: small_def errno_defs)

lemma err_exits_small:
  "err_release_local_region K cfg e m s = (e', r) \<Longrightarrow> small e'" "err_unmap_local_shm K cfg e m s = (e', r) \<Longrightarrow> small e'"
  "err_release_remote_region K cfg e m s = (e', r) \<Longrightarrow> small e'" "err_unmap_remote_shm K cfg e m s = (e', r) \<Longrightarrow> small e'"
  "xen_err_release_local_region K cfg e m x = (e', q) \<Longrightarrow> small e'" "xen_err_unmap_local_shm K cfg e m x = (e', q) \<Longrightarrow> small e'"
  "xen_err_release_remote_region K cfg e m x = (e', q) \<Longrightarrow> small e'"
  by (auto simp: err_release_local_region_def err_unmap_local_shm_def err_release_remote_region_def err_unmap_remote_shm_def
      xen_err_release_local_region_def xen_err_unmap_local_shm_def xen_err_release_remote_region_def split_beta)

lemma user_err_exits_small:
  "user_err_close_ipc_dev X i e m s = Some (e', r) \<Longrightarrow> small e'" "user_err_unmap_local_shm X i e m s = Some (e', r) \<Longrightarrow> small e'"
  "user_err_unmap_remote_shm X i e m s = Some (e', r) \<Longrightarrow> small e'" "user_err_close_uio_dev X i e m s = Some (e', r) \<Longrightarrow> small e'"
  by (auto simp: user_err_close_ipc_dev_def user_err_unmap_local_shm_def user_err_unmap_remote_shm_def user_err_close_uio_dev_def
      Let_def split_beta split: Option.bind_splits if_splits)

lemma os_init_kernel_small: "ipc_os_init H K i cfg RX m s = Some (e, r) \<Longrightarrow> small e"
  by (auto simp: ipc_os_init_def split_beta Let_def split: if_splits Option.bind_splits dest: err_exits_small)

lemma os_init_xen_small: "ipc_os_init_xen K i cfg RX m s = Some (e, r) \<Longrightarrow> small e"
  by (auto simp: ipc_os_init_xen_def split_beta Let_def split: if_splits Option.bind_splits dest: err_exits_small)

lemma user_init_irq_small: "user_init_irq X i cfg m s = Some (e, r) \<Longrightarrow> small e"
  by (auto simp: user_init_irq_def split_beta Let_def split: if_splits Option.bind_splits dest: user_err_exits_small)

lemma os_init_user_small: "ipc_os_init_user X path i cfg RX m s = Some (e, r) \<Longrightarrow> small e"
  by (auto simp: ipc_os_init_user_def split_beta Let_def split: if_splits Option.bind_splits dest: user_err_exits_small user_init_irq_small)

text \<open>The hardware layer of the S32G3 as the OS layers call it.\<close>

definition hw_iface_g3 :: "'k mmio \<Rightarrow> (ipc_hw_priv_type, 'k) hw_iface" where
  "hw_iface_g3 M = \<lparr>hi_init = ipc_hw_init_g3 M, hi_free = ipc_hw_free_g3 M, hi_get_rx_irq = ipc_hw_get_rx_irq_g3,
     hi_irq_enable = ipc_hw_irq_enable_g3 M, hi_irq_disable = ipc_hw_irq_disable_g3 M,
     hi_irq_notify = ipc_hw_irq_notify_g3 M, hi_irq_clear = ipc_hw_irq_clear_g3 M\<rparr>"

text \<open>The register accesses \<open>M\<close> with the register block mapped by the kernel layer.\<close>

definition kernel_mmio :: "'k linux \<Rightarrow> 'k mmio \<Rightarrow> 'k mmio" where
  "kernel_mmio K M = M\<lparr>io_map_intc := ipc_os_map_intc K, io_unmap_intc := ipc_os_unmap_intc K\<rparr>"

lemma hw_init_g3_small: "ipc_hw_init_g3 M i cfg h = Some (e, h') \<Longrightarrow> small e"
proof (cases "hw_exists i h")
  case True
  assume "ipc_hw_init_g3 M i cfg h = Some (e, h')"
  with hw_g3.init_total [OF True, of M cfg] show ?thesis by auto
next
  case False
  then have no: "hw_priv i h = None" by (rule hw_priv_None)
  assume "ipc_hw_init_g3 M i cfg h = Some (e, h')"
  then show ?thesis
    by (auto simp: ipc_hw_init_g3_def ipc_hw_init_low_g3_def mscm_init_periph_def no split: prod.splits if_splits)
qed

interpretation kernel_g3: driver_platform "kernel_platform (hw_iface_g3 (kernel_mmio K M)) K RX app umng_app" for K M RX app umng_app
proof
  show "platform_codes (kernel_platform (hw_iface_g3 (kernel_mmio K M)) K RX app umng_app)"
    using hw_init_g3_small [of "kernel_mmio K M"] os_init_kernel_small [of "hw_iface_g3 (kernel_mmio K M)" K _ _ RX]
    by (auto simp: platform_codes_def kernel_platform_def hw_iface_g3_def small_def)
  show "os_unmaps (kernel_platform (hw_iface_g3 (kernel_mmio K M)) K RX app umng_app)"
    using os_free_shrinks(1) [unfolded shrinks_def] by (fastforce simp: os_unmaps_def kernel_platform_def)
qed

interpretation xen: driver_platform "xen_platform K RX app umng_app" for K RX app umng_app
proof
  show "platform_codes (xen_platform K RX app umng_app)"
    using os_init_xen_small [of K _ _ RX] by (auto simp: platform_codes_def xen_platform_def ipc_hw_init_xen_def small_def)
  show "os_unmaps (xen_platform K RX app umng_app)"
    using os_free_shrinks(2) [unfolded shrinks_def] by (fastforce simp: os_unmaps_def xen_platform_def)
qed

interpretation user: driver_platform "user_platform X path RX app umng_app" for X path RX app umng_app
proof
  show "platform_codes (user_platform X path RX app umng_app)"
    using os_init_user_small [of X path _ _ RX] by (auto simp: platform_codes_def user_platform_def ipc_hw_init_user_def small_def)
  show "os_unmaps (user_platform X path RX app umng_app)"
    using os_free_shrinks(3) [unfolded shrinks_def] by (fastforce simp: os_unmaps_def user_platform_def)
qed

section \<open>The driver on its platforms\<close>

text \<open>
  C19. On the Linux kernel layer over the S32G3 hardware layer, on the Xen layer and on the user-space
  layer, whatever the kernel, the interrupt controller and the application callbacks do: every sequence
  of initialisations and releases of an instance that runs without a fault (an access to memory that the
  kernel did not map) behaves as the abstract instance, whose only state is whether it is in use. An initialisation returns 0 exactly when it takes an unused instance into
  use, it is refused with \<open>-EINVAL\<close> while the instance is in use, any failure leaves it unused, and so does a release.
\<close>

theorem driver_sessions_refine:
  assumes i: "unat i < IPC_SHM_MAX_INSTANCES"
  shows "(\<forall>K M RX app umng cs es st st'.
            drv_run (kernel_platform (hw_iface_g3 (kernel_mmio K M)) K RX app umng) i cs st = Some (es, st') \<and> settled i st \<longrightarrow>
            settled i st' \<and> inst_spec cs es (in_use i st) = Some (in_use i st')) \<and>
         (\<forall>K RX app umng cs es st st'.
            drv_run (xen_platform K RX app umng) i cs st = Some (es, st') \<and> settled i st \<longrightarrow>
            settled i st' \<and> inst_spec cs es (in_use i st) = Some (in_use i st')) \<and>
         (\<forall>X path RX app umng cs es st st'.
            drv_run (user_platform X path RX app umng) i cs st = Some (es, st') \<and> settled i st \<longrightarrow>
            settled i st' \<and> inst_spec cs es (in_use i st) = Some (in_use i st'))"
  by (rule conjI, (intro allI impI, elim conjE, rule kernel_g3.session_refines [OF _ _ i], assumption+),
      rule conjI, (intro allI impI, elim conjE, rule xen.session_refines [OF _ _ i], assumption+),
      (intro allI impI, elim conjE, rule user.session_refines [OF _ _ i], assumption+))

text \<open>
  Two sessions for the witness: instance 1 is initialised on a board whose device tree has no interrupt
  controller, released, and initialised again; instance 0, in use, is initialised once more.
\<close>

definition bare_linux :: "unit linux" where
  "bare_linux = \<lparr>
     lk_request_mem_region = (\<lambda>a n k. (False, k)), lk_release_mem_region = (\<lambda>a n k. k), lk_ioremap = (\<lambda>a n k. (0, Map.empty, k)),
     lk_iounmap = (\<lambda>a k. ((\<lambda>_. False), k)), lk_of_find_compatible_node = (\<lambda>k. (False, k)), lk_of_irq_get = (\<lambda>n k. (0, k)),
     lk_of_address_to_resource = (\<lambda>k. ((- ENXIO, 0, 0), k)), lk_of_node_put = (\<lambda>k. k), lk_request_irq = (\<lambda>n k. (0, k)),
     lk_free_irq = (\<lambda>n k. k), lk_tasklet_schedule = (\<lambda>k. k), lk_tasklet_kill = (\<lambda>k. k)\<rparr>"

definition bare_mmio :: "unit mmio" where
  "bare_mmio = \<lparr>io_readl = (\<lambda>a k. (0, k)), io_writel = (\<lambda>v a k. k), io_readw = (\<lambda>a k. (0, k)), io_writew = (\<lambda>v a k. k),
     io_map_intc = (\<lambda>k. (0, k)), io_unmap_intc = (\<lambda>a k. k)\<rparr>"

definition bare_state :: "(ipc_hw_priv_type, unit) kdriver" where
  "bare_state = \<lparr>st_mem = demo_ushm, st_priv = st_priv (demo_ustate 0x10000 0x20000),
     st_env = \<lparr>ko_id = [], ko_hw = \<lparr>hw_privs = [], hw_dev = ()\<rparr>\<rparr>\<rparr>"

abbreviation bare_platform :: "(ipc_hw_priv_type, unit) kos platform" where
  "bare_platform \<equiv> kernel_platform (hw_iface_g3 (kernel_mmio bare_linux bare_mmio)) bare_linux 1
     (\<lambda>_ _ _ _ _ _ st. Some st) (\<lambda>_ _ _ _ _ st. Some st)"

lemma bare_settled: "settled 1 bare_state" "settled 0 bare_state"
  by (simp_all add: settled_def global_at_def priv_at_def bare_state_def demo_ustate_def no_priv_def ipc_instance_is_free_def limit_defs
      demo_uwords IPC_SHM_STATE_READY_def IPC_SHM_STATE_CLEAR_def)

lemma bare_runs:
  "\<exists>st'. drv_run bare_platform 1 [Drv_Init (Some demo_cfg), Drv_Free, Drv_Init (Some demo_cfg)] bare_state = Some ([- EINVAL, - EINVAL], st')"
  "drv_run bare_platform 0 [Drv_Init (Some demo_cfg)] bare_state = Some ([- EINVAL], bare_state)"
proof -
  have hw: "hw_init bare_platform i cfg w = Some (- EINVAL, w)" for i cfg w
    by (cases w) (simp add: kernel_platform_def hw_iface_g3_def kernel_mmio_def ipc_hw_init_g3_def ipc_hw_init_low_g3_def mscm_init_periph_def
        ipc_os_map_intc_def bare_linux_def)
  have fr: "ipc_instance_is_free 1 bare_state = Some IPC_SHM_INSTANCE_FREE" and us: "ipc_instance_is_free 0 bare_state = Some IPC_SHM_INSTANCE_USED"
    using bare_settled by (simp_all add: settled_def bare_state_def global_at_def ipc_instance_is_free_def priv_at_def demo_ustate_def no_priv_def limit_defs)
  show "drv_run bare_platform 0 [Drv_Init (Some demo_cfg)] bare_state = Some ([- EINVAL], bare_state)"
    using us by (simp add: ipc_shm_init_instance_def)
  show "\<exists>st'. drv_run bare_platform 1 [Drv_Init (Some demo_cfg), Drv_Free, Drv_Init (Some demo_cfg)] bare_state = Some ([- EINVAL, - EINVAL], st')"
    using fr by (simp add: ipc_shm_init_instance_def hw demo_cfg_def limit_defs upd_priv_def priv_at_def bare_state_def demo_ustate_def
        ipc_shm_free_instance_def ipc_instance_is_free_def no_priv_def Let_def)
qed

theorem driver_sessions_refine_witness:
  "\<exists>st'. drv_run bare_platform 1 [Drv_Init (Some demo_cfg), Drv_Free, Drv_Init (Some demo_cfg)] bare_state = Some ([- EINVAL, - EINVAL], st') \<and>
     settled 1 st' \<and> \<not> in_use 1 st'"
proof -
  obtain st' where r: "drv_run bare_platform 1 [Drv_Init (Some demo_cfg), Drv_Free, Drv_Init (Some demo_cfg)] bare_state = Some ([- EINVAL, - EINVAL], st')"
    using bare_runs(1) by blast
  have i: "unat (1 :: u8) < IPC_SHM_MAX_INSTANCES" by (simp add: limit_defs)
  have "\<not> in_use 1 bare_state"
    using bare_settled by (simp add: in_use_def bare_state_def ipc_instance_is_free_def priv_at_def demo_ustate_def no_priv_def limit_defs)
  then show ?thesis using driver_sessions_refine [OF i, THEN conjunct1, rule_format, OF conjI [OF r bare_settled(1)]] r by (auto split: if_splits)
qed

end
