(* ===== verification/Os_Props.thy ===== *)
theory Os_Props
  imports Os_Kernel "HOL-Library.Multiset"
begin

text \<open>
  Properties of the Linux kernel layer: what it reserves, maps and requests at initialisation is what it
  returns at release, and what a failed initialisation leaves behind.
\<close>

section \<open>Kernels that keep books\<close>

text \<open>
  What the kernel has handed out, as multisets: reserved regions with their sizes, virtual addresses of
  mappings, requested interrupts. \<open>linux_books\<close> states the documented effect of each service on the
  books: a request adds an entry unless it fails, a release removes one, device-tree lookups and the
  accesses of the hardware layer change nothing. A failing \<open>request_irq\<close> returns an error code.
\<close>

record books =
  bk_regions :: "(u64 \<times> u64) multiset"
  bk_maps :: "u64 multiset"
  bk_irqs :: "int multiset"

definition linux_books :: "('p, 'k) hw_iface \<Rightarrow> 'k linux \<Rightarrow> ('k \<Rightarrow> books) \<Rightarrow> bool" where
  "linux_books H K bk \<longleftrightarrow>
     (\<forall>a n k r k'. lk_request_mem_region K a n k = (r, k') \<longrightarrow>
        bk k' = (if r then (bk k)\<lparr>bk_regions := add_mset (a, n) (bk_regions (bk k))\<rparr> else bk k)) \<and>
     (\<forall>a n k. bk (lk_release_mem_region K a n k) = (bk k)\<lparr>bk_regions := bk_regions (bk k) - {#(a, n)#}\<rparr>) \<and>
     (\<forall>a n k va new k'. lk_ioremap K a n k = (va, new, k') \<longrightarrow>
        bk k' = (if va \<noteq> 0 then (bk k)\<lparr>bk_maps := add_mset va (bk_maps (bk k))\<rparr> else bk k)) \<and>
     (\<forall>va k. bk (snd (lk_iounmap K va k)) = (bk k)\<lparr>bk_maps := bk_maps (bk k) - {#va#}\<rparr>) \<and>
     (\<forall>n k e k'. lk_request_irq K n k = (e, k') \<longrightarrow> (e = 0 \<or> int8 e \<noteq> 0) \<and>
        bk k' = (if e = 0 then (bk k)\<lparr>bk_irqs := add_mset n (bk_irqs (bk k))\<rparr> else bk k)) \<and>
     (\<forall>n k. bk (lk_free_irq K n k) = (bk k)\<lparr>bk_irqs := bk_irqs (bk k) - {#n#}\<rparr>) \<and>
     (\<forall>k. bk (snd (lk_of_find_compatible_node K k)) = bk k) \<and> (\<forall>n k. bk (snd (lk_of_irq_get K n k)) = bk k) \<and>
     (\<forall>k. bk (lk_of_node_put K k) = bk k) \<and>
     (\<forall>i h h'. hi_irq_disable H i h = Some h' \<longrightarrow> bk (hw_dev h') = bk (hw_dev h))"

lemma linux_booksD:
  assumes "linux_books H K bk"
  shows "lk_request_mem_region K a n k = (r, k') \<Longrightarrow>
      bk k' = (if r then (bk k)\<lparr>bk_regions := add_mset (a, n) (bk_regions (bk k))\<rparr> else bk k)"
    and "bk (lk_release_mem_region K a n k) = (bk k)\<lparr>bk_regions := bk_regions (bk k) - {#(a, n)#}\<rparr>"
    and "lk_ioremap K a n k = (va, new, k') \<Longrightarrow>
      bk k' = (if va \<noteq> 0 then (bk k)\<lparr>bk_maps := add_mset va (bk_maps (bk k))\<rparr> else bk k)"
    and "bk (snd (lk_iounmap K va k)) = (bk k)\<lparr>bk_maps := bk_maps (bk k) - {#va#}\<rparr>"
    and "lk_request_irq K j k = (e, k') \<Longrightarrow> (e = 0 \<or> int8 e \<noteq> 0) \<and>
      bk k' = (if e = 0 then (bk k)\<lparr>bk_irqs := add_mset j (bk_irqs (bk k))\<rparr> else bk k)"
    and "bk (lk_free_irq K j k) = (bk k)\<lparr>bk_irqs := bk_irqs (bk k) - {#j#}\<rparr>"
    and "bk (snd (lk_of_find_compatible_node K k)) = bk k"
    and "bk (snd (lk_of_irq_get K j k)) = bk k"
    and "bk (lk_of_node_put K k) = bk k"
    and "hi_irq_disable H i h = Some h' \<Longrightarrow> bk (hw_dev h') = bk (hw_dev h)"
  by (rule assms [unfolded linux_books_def, THEN conjunct1, rule_format], assumption,
      rule assms [unfolded linux_books_def, THEN conjunct2, THEN conjunct1, rule_format],
      rule assms [unfolded linux_books_def, THEN conjunct2, THEN conjunct2, THEN conjunct1, rule_format], assumption,
      rule assms [unfolded linux_books_def, THEN conjunct2, THEN conjunct2, THEN conjunct2, THEN conjunct1, rule_format],
      rule assms [unfolded linux_books_def, THEN conjunct2, THEN conjunct2, THEN conjunct2, THEN conjunct2, THEN conjunct1, rule_format], assumption,
      rule assms [unfolded linux_books_def, THEN conjunct2, THEN conjunct2, THEN conjunct2, THEN conjunct2, THEN conjunct2, THEN conjunct1, rule_format],
      rule assms [unfolded linux_books_def, THEN conjunct2, THEN conjunct2, THEN conjunct2, THEN conjunct2, THEN conjunct2, THEN conjunct2, THEN conjunct1, rule_format],
      rule assms [unfolded linux_books_def, THEN conjunct2, THEN conjunct2, THEN conjunct2, THEN conjunct2, THEN conjunct2, THEN conjunct2, THEN conjunct2, THEN conjunct1, rule_format],
      rule assms [unfolded linux_books_def, THEN conjunct2, THEN conjunct2, THEN conjunct2, THEN conjunct2, THEN conjunct2, THEN conjunct2, THEN conjunct2, THEN conjunct2, THEN conjunct1, rule_format],
      rule assms [unfolded linux_books_def, THEN conjunct2, THEN conjunct2, THEN conjunct2, THEN conjunct2, THEN conjunct2, THEN conjunct2, THEN conjunct2, THEN conjunct2, THEN conjunct2, rule_format], assumption)

abbreviation dev :: "('p, 'k) kos \<Rightarrow> 'k" where
  "dev s \<equiv> hw_dev (ko_hw s)"

lemma kcall_keeps: "kcall f s = (r, s') \<Longrightarrow> ko_id s' = ko_id s"
  by (auto simp: kcall_def split: prod.splits)

lemma kdo_id [simp]: "ko_id (kdo f s) = ko_id s" "dev (kdo f s) = f (dev s)"
  by (simp_all add: kdo_def)

lemma kcall_dev: "kcall f s = (r, s') \<Longrightarrow> f (dev s) = (r, dev s')"
  by (auto simp: kcall_def split: prod.splits)

lemma upd_kinst_dev: "upd_kinst i f s = Some s' \<Longrightarrow> dev s' = dev s"
  by (auto simp: upd_kinst_def split: Option.bind_splits)

lemma ioremap_run:
  "ioremap K a n m s = (va, m', s') \<Longrightarrow> \<exists>new. lk_ioremap K a n (dev s) = (va, new, dev s') \<and> ko_id s' = ko_id s \<and> (va \<noteq> 0 \<longrightarrow> m' = m ++ new)"
  by (auto simp: ioremap_def kcall_def split: prod.splits if_splits)

lemma iounmap_run:
  "iounmap K va m s = (m', s') \<Longrightarrow> dev s' = snd (lk_iounmap K va (dev s)) \<and> ko_id s' = ko_id s"
  by (auto simp: iounmap_def kcall_def split: prod.splits)


lemma err_code:
  "err_release_local_region K cfg e m s = (e', r) \<Longrightarrow> e' = int8 e" "err_unmap_local_shm K cfg e m s = (e', r) \<Longrightarrow> e' = int8 e"
  "err_release_remote_region K cfg e m s = (e', r) \<Longrightarrow> e' = int8 e" "err_unmap_remote_shm K cfg e m s = (e', r) \<Longrightarrow> e' = int8 e"
  by (auto simp: err_release_local_region_def err_unmap_local_shm_def err_release_remote_region_def err_unmap_remote_shm_def split: prod.splits)

lemma errno_more [simp]: "int8 (- EADDRINUSE) = - EADDRINUSE" "int8 (- ENXIO) = - ENXIO" "EADDRINUSE \<noteq> 0" "ENXIO \<noteq> 0"
  by (simp_all add: int8_id errno_defs)

lemma get_irq_code: "get_irq_number H K i s = Some (e, s') \<Longrightarrow> e = 0 \<or> int8 e \<noteq> 0"
  by (auto simp: get_irq_number_def Let_def split: prod.splits Option.bind_splits if_splits)

text \<open>Storing the IRQ number: it is positive or \<open>IPC_IRQ_NONE\<close>, and the books do not change.\<close>

definition set_irq :: "('p, 'k) hw_iface \<Rightarrow> 'k linux \<Rightarrow> u8 \<Rightarrow> ipc_shm_cfg \<Rightarrow> ('p, 'k) kos \<Rightarrow> (int \<times> ('p, 'k) kos) option" where
  "set_irq H K i cfg s =
     (if cfg_inter_core_rx_irq cfg = IPC_IRQ_NONE then map_option (\<lambda>s'. (0, s')) (upd_kinst i (\<lambda>p. p\<lparr>oi_irq_num := IPC_IRQ_NONE\<rparr>) s)
      else get_irq_number H K i s)"

lemma kinst_upd: "upd_kinst i f s = Some s' \<Longrightarrow> kinst i s = Some p \<Longrightarrow> kinst i s' = Some (f p)"
  by (auto simp: upd_kinst_def kinst_def nth_opt_def split: if_splits)

lemma kinst_id: "ko_id s' = ko_id s \<Longrightarrow> kinst i s' = kinst i s"
  by (simp add: kinst_def)

lemma set_irq_run:
  assumes B: "linux_books H K bk" and run: "set_irq H K i cfg s = Some (0, s')" and p: "kinst i s = Some p"
  shows "bk (dev s') = bk (dev s) \<and> (\<exists>n. kinst i s' = Some (p\<lparr>oi_irq_num := n\<rparr>) \<and> n \<noteq> 0)"
proof (cases "cfg_inter_core_rx_irq cfg = IPC_IRQ_NONE")
  case True
  with run obtain s1 where s1: "upd_kinst i (\<lambda>p. p\<lparr>oi_irq_num := IPC_IRQ_NONE\<rparr>) s = Some s1" "s' = s1" by (auto simp: set_irq_def)
  then show ?thesis using kinst_upd [OF s1(1) p] upd_kinst_dev [OF s1(1)] by (auto simp: IPC_IRQ_NONE_def)
next
  case False
  then have "get_irq_number H K i s = Some (0, s')" using run by (simp add: set_irq_def)
  then obtain s1 rx irq s2 s3 where s1: "kcall (lk_of_find_compatible_node K) s = (True, s1)"
    and s2: "kcall (lk_of_irq_get K rx) s1 = (irq, s2)" and s3: "upd_kinst i (\<lambda>p. p\<lparr>oi_irq_num := irq\<rparr>) s2 = Some s3"
    and fin: "irq > 0" "s' = kdo (lk_of_node_put K) s3"
    by (auto simp: get_irq_number_def Let_def split: prod.splits Option.bind_splits if_splits)
  have "bk (dev s1) = bk (dev s)" using linux_booksD(7) [OF B, of "dev s"] kcall_dev [OF s1] by simp
  moreover have "bk (dev s2) = bk (dev s1)" using linux_booksD(8) [OF B, of rx "dev s1"] kcall_dev [OF s2] by simp
  moreover have "kinst i s2 = Some p" using p kcall_keeps [OF s1] kcall_keeps [OF s2] by (simp add: kinst_def)
  ultimately show ?thesis
    using kinst_upd [OF s3] fin upd_kinst_dev [OF s3] linux_booksD(9) [OF B] kinst_id [of s' s3 i] by auto
qed

text \<open>The tail of the initialisation, from the IRQ number on, and the whole.\<close>

lemma os_init_steps:
  fixes H :: "('p, 'k) hw_iface"
  assumes B: "linux_books H K bk" and run: "ipc_os_init H K i cfg rx m s = Some (0, m1, s1)"
  obtains k1 lva lnew k2 s3 k4 rva rnew k5 s6 s7 s8 dup s9 where
    "lk_request_mem_region K (cfg_local_shm_addr cfg) (ucast (cfg_shm_size cfg)) (dev s) = (True, k1)"
    "lk_ioremap K (cfg_local_shm_addr cfg) (ucast (cfg_shm_size cfg)) k1 = (lva, lnew, k2)" "lva \<noteq> 0" "dev (s3 :: ('p, 'k) kos) = k2"
    "upd_kinst i (\<lambda>p. p\<lparr>oi_local_virt_shm := lva\<rparr>) s = Some (s\<lparr>ko_id := ko_id s3\<rparr>)"
    "lk_request_mem_region K (cfg_remote_shm_addr cfg) (ucast (cfg_shm_size cfg)) k2 = (True, k4)"
    "lk_ioremap K (cfg_remote_shm_addr cfg) (ucast (cfg_shm_size cfg)) k4 = (rva, rnew, k5)" "rva \<noteq> 0" "dev (s6 :: ('p, 'k) kos) = k5"
    "upd_kinst i (\<lambda>p. p\<lparr>oi_remote_virt_shm := rva\<rparr>) s3 = Some (s3\<lparr>ko_id := ko_id s6\<rparr>)"
    "upd_kinst i (\<lambda>p. p\<lparr>oi_shm_size := sint (cfg_shm_size cfg), oi_local_phys_shm := cfg_local_shm_addr cfg,
                     oi_remote_phys_shm := cfg_remote_shm_addr cfg, oi_rx_cb := rx\<rparr>) s6 = Some s7"
    "set_irq H K i cfg s7 = Some (0, s8)" "irq_shared i s8 = Some dup"
    "(if dup then Some (0, s8) else request_rx_irq K i s8) = Some (0, s9)"
    "upd_kinst i (\<lambda>p. p\<lparr>oi_state := IPC_SHM_INSTANCE_ENABLED\<rparr>) s9 = Some s1" "m1 = m ++ lnew ++ rnew"
proof -
  let ?n = "ucast (cfg_shm_size cfg) :: u64"
  have irq0: "int8 e \<noteq> 0" if "request_rx_irq K i t = Some (e, t')" "e \<noteq> 0" for e t t'
    using that linux_booksD(5) [OF B] by (auto simp: request_rx_irq_def split: Option.bind_splits if_splits dest!: kcall_dev)
  have get0: "int8 e \<noteq> 0" if "set_irq H K i cfg t = Some (e, t')" "e \<noteq> 0" for e t t'
    using that by (auto simp: set_irq_def split: if_splits dest: get_irq_code)
  from run obtain t1 lva m2 t2 s3 where
    t1: "kcall (lk_request_mem_region K (cfg_local_shm_addr cfg) ?n) s = (True, t1)"
    and t2: "ioremap K (cfg_local_shm_addr cfg) ?n m t1 = (lva, m2, t2)"
    and s3: "upd_kinst i (\<lambda>p. p\<lparr>oi_local_virt_shm := lva\<rparr>) t2 = Some s3" and l: "lva \<noteq> 0"
    by (auto simp: ipc_os_init_def split: prod.splits Option.bind_splits if_splits dest: err_code)
  from run t1 t2 s3 l obtain t4 rva m5 t5 s6 where
    t4: "kcall (lk_request_mem_region K (cfg_remote_shm_addr cfg) ?n) s3 = (True, t4)"
    and t5: "ioremap K (cfg_remote_shm_addr cfg) ?n m2 t4 = (rva, m5, t5)"
    and s6: "upd_kinst i (\<lambda>p. p\<lparr>oi_remote_virt_shm := rva\<rparr>) t5 = Some s6" and r: "rva \<noteq> 0"
    by (auto simp: ipc_os_init_def split: prod.splits Option.bind_splits if_splits dest: err_code)
  have "do { s7 \<leftarrow> upd_kinst i (\<lambda>p. p\<lparr>oi_shm_size := sint (cfg_shm_size cfg), oi_local_phys_shm := cfg_local_shm_addr cfg,
                     oi_remote_phys_shm := cfg_remote_shm_addr cfg, oi_rx_cb := rx\<rparr>) s6;
            (err, s8) \<leftarrow> set_irq H K i cfg s7;
            if err \<noteq> 0 then Some (err_unmap_remote_shm K cfg err m5 s8)
            else do {
              dup \<leftarrow> irq_shared i s8;
              (err, s9) \<leftarrow> (if dup then Some (0, s8) else request_rx_irq K i s8);
              if err \<noteq> 0 then Some (err_unmap_remote_shm K cfg err m5 s9)
              else do {
                s10 \<leftarrow> upd_kinst i (\<lambda>p. p\<lparr>oi_state := IPC_SHM_INSTANCE_ENABLED\<rparr>) s9;
                Some (0, m5, s10) } } } = Some (0, m1, s1)"
    using run t1 t2 s3 l t4 t5 s6 r by (simp add: ipc_os_init_def set_irq_def split: if_splits)
  then obtain s7 e8 s8 where
    s7: "upd_kinst i (\<lambda>p. p\<lparr>oi_shm_size := sint (cfg_shm_size cfg), oi_local_phys_shm := cfg_local_shm_addr cfg,
                     oi_remote_phys_shm := cfg_remote_shm_addr cfg, oi_rx_cb := rx\<rparr>) s6 = Some s7"
    and s8: "set_irq H K i cfg s7 = Some (e8, s8)"
    and tail: "(if e8 \<noteq> 0 then Some (err_unmap_remote_shm K cfg e8 m5 s8)
            else do {
              dup \<leftarrow> irq_shared i s8;
              (err, s9) \<leftarrow> (if dup then Some (0, s8) else request_rx_irq K i s8);
              if err \<noteq> 0 then Some (err_unmap_remote_shm K cfg err m5 s9)
              else do {
                s10 \<leftarrow> upd_kinst i (\<lambda>p. p\<lparr>oi_state := IPC_SHM_INSTANCE_ENABLED\<rparr>) s9;
                Some (0, m5, s10) } }) = Some (0, m1, s1)"
    by (auto split: Option.bind_splits)
  have "e8 = 0" using tail get0 [OF s8] err_code(4) [of K cfg e8 m5 s8] by (auto split: if_splits)
  with tail obtain dup e9 s9 where d: "irq_shared i s8 = Some dup" "(if dup then Some (0, s8) else request_rx_irq K i s8) = Some (e9, s9)"
    and tail9: "(if e9 \<noteq> 0 then Some (err_unmap_remote_shm K cfg e9 m5 s9)
      else do { s10 \<leftarrow> upd_kinst i (\<lambda>p. p\<lparr>oi_state := IPC_SHM_INSTANCE_ENABLED\<rparr>) s9; Some (0, m5, s10) }) = Some (0, m1, s1)"
    by (auto simp del: if_split_asm split: Option.bind_splits)
  have "e9 = 0" using tail9 d(2) irq0 [of s8 e9 s9] err_code(4) [of K cfg e9 m5 s9] by (auto split: if_splits)
  with tail9 have e9: "m1 = m5" "upd_kinst i (\<lambda>p. p\<lparr>oi_state := IPC_SHM_INSTANCE_ENABLED\<rparr>) s9 = Some s1"
    by (auto split: Option.bind_splits)
  obtain lnew where ln: "lk_ioremap K (cfg_local_shm_addr cfg) ?n (dev t1) = (lva, lnew, dev t2)" "m2 = m ++ lnew" using ioremap_run [OF t2] l by auto
  obtain rnew where rn: "lk_ioremap K (cfg_remote_shm_addr cfg) ?n (dev t4) = (rva, rnew, dev t5)" "m5 = m2 ++ rnew" using ioremap_run [OF t5] r by auto
  have "ko_id t2 = ko_id s" "ko_id t5 = ko_id s3" using kcall_keeps [OF t1] kcall_keeps [OF t4] ioremap_run [OF t2] ioremap_run [OF t5] by auto
  then have "upd_kinst i (\<lambda>p. p\<lparr>oi_local_virt_shm := lva\<rparr>) s = Some (s\<lparr>ko_id := ko_id s3\<rparr>)"
    "upd_kinst i (\<lambda>p. p\<lparr>oi_remote_virt_shm := rva\<rparr>) s3 = Some (s3\<lparr>ko_id := ko_id s6\<rparr>)"
    using s3 s6 by (auto simp: upd_kinst_def kinst_def split: Option.bind_splits)
  then show thesis
    using that [of "dev t1" lva lnew "dev t2" s3 "dev t4" rva rnew "dev t5" s6 s7 s8 dup s9] kcall_dev [OF t1] kcall_dev [OF t4]
      ln rn l r upd_kinst_dev [OF s3] upd_kinst_dev [OF s6] s7 s8 d e9 \<open>e8 = 0\<close> \<open>e9 = 0\<close> by simp
qed

lemma irq_shared_upd:
  assumes "upd_kinst i f s = Some s'" and "\<And>p. oi_irq_num (f p) = oi_irq_num p"
  shows "irq_shared i s' = irq_shared i s"
proof -
  from assms(1) obtain p where p: "kinst i s = Some p" "s' = s\<lparr>ko_id := (ko_id s)[unat i := f p]\<rparr>"
    by (auto simp: upd_kinst_def split: Option.bind_splits)
  then have p': "kinst i s' = Some (f p)" using kinst_upd [OF assms(1)] by simp
  have "oi_irq_num (ko_id s' ! j) = oi_irq_num (ko_id s ! j)" for j
    using p assms(2) by (cases "unat i = j"; cases "j < length (ko_id s)") (auto simp: kinst_def nth_opt_def split: if_splits)
  then show ?thesis using p(1) p' assms(2) p(2) by (simp add: irq_shared_def)
qed

lemma irq_shared_id: "ko_id s' = ko_id s \<Longrightarrow> irq_shared i s' = irq_shared i s"
  by (simp only: irq_shared_def kinst_def)

lemma request_rx_irq_run:
  assumes B: "linux_books H K bk" and run: "request_rx_irq K i s = Some (0, s')" and p: "kinst i s = Some p"
  shows "ko_id s' = ko_id s \<and> bk (dev s') = (if oi_irq_num p \<noteq> IPC_IRQ_NONE then
           (bk (dev s))\<lparr>bk_irqs := add_mset (oi_irq_num p) (bk_irqs (bk (dev s)))\<rparr> else bk (dev s))"
proof (cases "oi_irq_num p = IPC_IRQ_NONE")
  case True
  then show ?thesis using run p by (simp add: request_rx_irq_def)
next
  case False
  then have c: "kcall (lk_request_irq K (oi_irq_num p)) s = (0, s')" using run p by (simp add: request_rx_irq_def)
  then show ?thesis using kcall_keeps [OF c] linux_booksD(5) [OF B kcall_dev [OF c]] False by simp
qed

lemma kinst_upd_ex: "upd_kinst i f s = Some s' \<Longrightarrow> \<exists>p. kinst i s = Some p"
  by (auto simp: upd_kinst_def split: Option.bind_splits)

text \<open>What the books show and the private data records after a successful initialisation.\<close>

lemma os_init_books:
  fixes H :: "('p, 'k) hw_iface"
  assumes B: "linux_books H K bk" and run: "ipc_os_init H K i cfg rx m s = Some (0, m1, s1)"
  obtains p dup where "kinst i s1 = Some p" "irq_shared i s1 = Some dup" "oi_irq_num p \<noteq> 0"
    "oi_shm_size p = sint (cfg_shm_size cfg)" "oi_local_phys_shm p = cfg_local_shm_addr cfg" "oi_remote_phys_shm p = cfg_remote_shm_addr cfg"
    "bk (dev s1) = \<lparr>
       bk_regions = add_mset (cfg_remote_shm_addr cfg, ucast (cfg_shm_size cfg))
         (add_mset (cfg_local_shm_addr cfg, ucast (cfg_shm_size cfg)) (bk_regions (bk (dev s)))),
       bk_maps = add_mset (oi_remote_virt_shm p) (add_mset (oi_local_virt_shm p) (bk_maps (bk (dev s)))),
       bk_irqs = (if oi_irq_num p \<noteq> IPC_IRQ_NONE \<and> \<not> dup then add_mset (oi_irq_num p) (bk_irqs (bk (dev s))) else bk_irqs (bk (dev s)))\<rparr>"
proof -
  let ?n = "ucast (cfg_shm_size cfg) :: u64"
  show thesis
  proof (rule os_init_steps [OF B run])
  fix k1 lva lnew k2 k4 rva rnew k5 dup and s3 s6 s7 s8 s9 :: "('p, 'k) kos"
  assume st: "lk_request_mem_region K (cfg_local_shm_addr cfg) ?n (dev s) = (True, k1)"
      "lk_ioremap K (cfg_local_shm_addr cfg) ?n k1 = (lva, lnew, k2)" "lva \<noteq> 0" "dev s3 = k2"
      "lk_request_mem_region K (cfg_remote_shm_addr cfg) ?n k2 = (True, k4)"
      "lk_ioremap K (cfg_remote_shm_addr cfg) ?n k4 = (rva, rnew, k5)" "rva \<noteq> 0" "dev s6 = k5"
    and u3: "upd_kinst i (\<lambda>p. p\<lparr>oi_local_virt_shm := lva\<rparr>) s = Some (s\<lparr>ko_id := ko_id s3\<rparr>)"
    and u6: "upd_kinst i (\<lambda>p. p\<lparr>oi_remote_virt_shm := rva\<rparr>) s3 = Some (s3\<lparr>ko_id := ko_id s6\<rparr>)"
    and u7: "upd_kinst i (\<lambda>p. p\<lparr>oi_shm_size := sint (cfg_shm_size cfg), oi_local_phys_shm := cfg_local_shm_addr cfg,
                     oi_remote_phys_shm := cfg_remote_shm_addr cfg, oi_rx_cb := rx\<rparr>) s6 = Some s7"
    and s8: "set_irq H K i cfg s7 = Some (0, s8)" and dup: "irq_shared i s8 = Some dup"
    and s9: "(if dup then Some (0, s8) else request_rx_irq K i s8) = Some (0, s9)"
    and u1: "upd_kinst i (\<lambda>p. p\<lparr>oi_state := IPC_SHM_INSTANCE_ENABLED\<rparr>) s9 = Some s1"
  obtain p0 where p0: "kinst i s = Some p0" using kinst_upd_ex [OF u3] by blast
  have p3: "kinst i s3 = Some (p0\<lparr>oi_local_virt_shm := lva\<rparr>)" using kinst_upd [OF u3 p0] by (simp add: kinst_def)
  have p6: "kinst i s6 = Some (p0\<lparr>oi_local_virt_shm := lva, oi_remote_virt_shm := rva\<rparr>)" using kinst_upd [OF u6 p3] by (simp add: kinst_def)
  note p7 = kinst_upd [OF u7 p6]
  from set_irq_run [OF B s8 p7] obtain n where b8: "bk (dev s8) = bk (dev s7)" and n: "n \<noteq> 0"
    and p8: "kinst i s8 = Some (p0\<lparr>oi_local_virt_shm := lva, oi_remote_virt_shm := rva, oi_shm_size := sint (cfg_shm_size cfg),
       oi_local_phys_shm := cfg_local_shm_addr cfg, oi_remote_phys_shm := cfg_remote_shm_addr cfg, oi_rx_cb := rx, oi_irq_num := n\<rparr>)" by auto
  have "ko_id s9 = ko_id s8 \<and> bk (dev s9) = (if n \<noteq> IPC_IRQ_NONE \<and> \<not> dup then (bk (dev s8))\<lparr>bk_irqs := add_mset n (bk_irqs (bk (dev s8)))\<rparr> else bk (dev s8))"
  proof (cases dup)
    case True
    with s9 show ?thesis by simp
  next
    case False
    with s9 have "request_rx_irq K i s8 = Some (0, s9)" by simp
    from request_rx_irq_run [OF B this p8] False show ?thesis by simp
  qed
  then have id9: "ko_id s9 = ko_id s8"
    and b9: "bk (dev s9) = (if n \<noteq> IPC_IRQ_NONE \<and> \<not> dup then (bk (dev s8))\<lparr>bk_irqs := add_mset n (bk_irqs (bk (dev s8)))\<rparr> else bk (dev s8))" by blast+
  have p1: "kinst i s1 = Some (p0\<lparr>oi_local_virt_shm := lva, oi_remote_virt_shm := rva, oi_shm_size := sint (cfg_shm_size cfg),
       oi_local_phys_shm := cfg_local_shm_addr cfg, oi_remote_phys_shm := cfg_remote_shm_addr cfg, oi_rx_cb := rx, oi_irq_num := n,
       oi_state := IPC_SHM_INSTANCE_ENABLED\<rparr>)"
    using kinst_upd [OF u1] p8 id9 by (simp add: kinst_def)
  have d1: "irq_shared i s1 = Some dup" using irq_shared_upd [OF u1] irq_shared_id [OF id9] dup by simp
  have b1: "bk k1 = (bk (dev s))\<lparr>bk_regions := add_mset (cfg_local_shm_addr cfg, ?n) (bk_regions (bk (dev s)))\<rparr>" using linux_booksD(1) [OF B st(1)] by simp
  have b2: "bk k2 = (bk k1)\<lparr>bk_maps := add_mset lva (bk_maps (bk k1))\<rparr>" using linux_booksD(3) [OF B st(2)] st(3) by simp
  have b4: "bk k4 = (bk k2)\<lparr>bk_regions := add_mset (cfg_remote_shm_addr cfg, ?n) (bk_regions (bk k2))\<rparr>" using linux_booksD(1) [OF B st(5)] by simp
  have b5: "bk k5 = (bk k4)\<lparr>bk_maps := add_mset rva (bk_maps (bk k4))\<rparr>" using linux_booksD(3) [OF B st(6)] st(7) by simp
  show thesis
    by (rule that [OF p1 d1]) (simp_all add: n b1 b2 b4 b5 b8 b9 upd_kinst_dev [OF u1] upd_kinst_dev [OF u7] st(8))
  qed
qed

text \<open>What a release takes out of the books.\<close>

lemma os_free_books:
  fixes H :: "('p, 'k) hw_iface"
  assumes B: "linux_books H K bk" and p: "kinst i s = Some p" and d: "irq_shared i s = Some dup" and n: "oi_irq_num p \<noteq> 0"
    and run: "ipc_os_free H K i m s = Some (m', s')"
  shows "bk (dev s') = \<lparr>
     bk_regions = bk_regions (bk (dev s)) - {#(oi_remote_phys_shm p, word_of_int (oi_shm_size p))#}
       - {#(oi_local_phys_shm p, word_of_int (oi_shm_size p))#},
     bk_maps = bk_maps (bk (dev s)) - {#oi_remote_virt_shm p#} - {#oi_local_virt_shm p#},
     bk_irqs = (if oi_irq_num p \<noteq> IPC_IRQ_NONE \<and> \<not> dup then bk_irqs (bk (dev s)) - {#oi_irq_num p#} else bk_irqs (bk (dev s)))\<rparr>"
proof -
  let ?p = "p\<lparr>oi_state := IPC_SHM_INSTANCE_DISABLED\<rparr>"
  from run obtain s1 where u1: "upd_kinst i (\<lambda>p. p\<lparr>oi_state := IPC_SHM_INSTANCE_DISABLED\<rparr>) s = Some s1"
    by (auto simp: ipc_os_free_def split: Option.bind_splits)
  have p1: "kinst i s1 = Some ?p" by (rule kinst_upd [OF u1 p])
  have d1: "irq_shared i s1 = Some dup" using irq_shared_upd [OF u1] d by simp
  define irq_part where "irq_part = (if oi_irq_num p \<noteq> IPC_IRQ_NONE then do {
             s3 \<leftarrow> (if \<not> dup then do {
                     s2 \<leftarrow> hcall (hi_irq_disable H i) s1;
                     Some (kdo (lk_free_irq K (oi_irq_num p)) s2) }
                   else Some s1);
             upd_kinst i (\<lambda>p. p\<lparr>oi_irq_num := 0\<rparr>) s3 }
           else Some s1)"
  from run u1 p1 d1 n obtain s4 m5 s5 m7 s7 where s4: "irq_part = Some s4"
    and s5: "iounmap K (oi_remote_virt_shm p) m s4 = (m5, s5)"
    and s7: "iounmap K (oi_local_virt_shm p) m5 (kdo (lk_release_mem_region K (oi_remote_phys_shm p) (word_of_int (oi_shm_size p))) s5) = (m7, s7)"
    and s': "s' = kdo (lk_release_mem_region K (oi_local_phys_shm p) (word_of_int (oi_shm_size p))) s7"
    by (auto simp: ipc_os_free_def irq_part_def Let_def split: Option.bind_splits prod.splits cong: if_cong)
  have b4: "bk (dev s4) = (if oi_irq_num p \<noteq> IPC_IRQ_NONE \<and> \<not> dup then (bk (dev s))\<lparr>bk_irqs := bk_irqs (bk (dev s)) - {#oi_irq_num p#}\<rparr> else bk (dev s))"
  proof (cases "oi_irq_num p \<noteq> IPC_IRQ_NONE \<and> \<not> dup")
    case True
    with s4 obtain s2 where s2: "hcall (hi_irq_disable H i) s1 = Some s2"
      and u4: "upd_kinst i (\<lambda>p. p\<lparr>oi_irq_num := 0\<rparr>) (kdo (lk_free_irq K (oi_irq_num p)) s2) = Some s4"
      by (auto simp: irq_part_def split: Option.bind_splits)
    from s2 have "bk (dev s2) = bk (dev s1)" using linux_booksD(10) [OF B] by (auto simp: hcall_def)
    then show ?thesis using True upd_kinst_dev [OF u4] upd_kinst_dev [OF u1] linux_booksD(6) [OF B] by simp
  next
    case False
    then have "dev s4 = dev s1" using s4 upd_kinst_dev by (auto simp: irq_part_def split: if_splits)
    then show ?thesis using False upd_kinst_dev [OF u1] by auto
  qed
  have "bk (dev s5) = (bk (dev s4))\<lparr>bk_maps := bk_maps (bk (dev s4)) - {#oi_remote_virt_shm p#}\<rparr>"
    using iounmap_run [OF s5] linux_booksD(4) [OF B] by simp
  moreover have "dev s7 = snd (lk_iounmap K (oi_local_virt_shm p) (lk_release_mem_region K (oi_remote_phys_shm p) (word_of_int (oi_shm_size p)) (dev s5)))"
    using iounmap_run [OF s7] by simp
  ultimately show ?thesis using b4 s' linux_booksD(2,4) [OF B] by simp
qed

section \<open>Initialisation and release\<close>

text \<open>
  The size is kept as an \<open>int\<close>, so it reads back as the size that was reserved only below 2 GiB.
\<close>

lemma size_back:
  assumes "unat (sz :: u32) < 2 ^ 31"
  shows "(scast sz :: u64) = ucast sz"
proof -
  have u: "uint sz < 2 ^ 31" using uint_nat_bound(1) [of sz "2 ^ 31"] assms by simp
  have "sint sz = signed_take_bit 31 (uint sz)" by (simp add: sint_uint)
  also have "\<dots> = uint sz" by (rule signed_take_bit_int_eq_self) (use u uint_ge_0 [of sz] in linarith)+
  finally have "(word_of_int (sint sz) :: u64) = word_of_int (uint sz)" by (rule arg_cong)
  then show ?thesis by simp
qed

text \<open>
  C22. On the Linux kernel layer, for any hardware layer and any kernel whose services have their
  documented effect on what the kernel has handed out: when \<open>ipc_os_init\<close> of an instance with less than
  2 GiB of shared memory returns 0 and \<open>ipc_os_free\<close> of the instance runs, the reserved regions, the
  mappings and the requested interrupts are exactly what they were before, also when the interrupt is
  shared with another instance and so is neither requested nor freed.
\<close>

theorem os_init_free_restores:
  fixes H :: "('p, 'k) hw_iface"
  assumes B: "linux_books H K bk" and sz: "unat (cfg_shm_size cfg) < 2 ^ 31"
    and init: "ipc_os_init H K i cfg rx m s = Some (0, m1, s1)" and free: "ipc_os_free H K i m1 s1 = Some (m2, s2)"
  shows "bk (hw_dev (ko_hw s2)) = bk (hw_dev (ko_hw s))"
proof (rule os_init_books [OF B init])
  fix p dup
  assume p: "kinst i s1 = Some p" "irq_shared i s1 = Some dup" "oi_irq_num p \<noteq> 0"
    and f: "oi_shm_size p = sint (cfg_shm_size cfg)" "oi_local_phys_shm p = cfg_local_shm_addr cfg" "oi_remote_phys_shm p = cfg_remote_shm_addr cfg"
    and b: "bk (dev s1) = \<lparr>
       bk_regions = add_mset (cfg_remote_shm_addr cfg, ucast (cfg_shm_size cfg))
         (add_mset (cfg_local_shm_addr cfg, ucast (cfg_shm_size cfg)) (bk_regions (bk (dev s)))),
       bk_maps = add_mset (oi_remote_virt_shm p) (add_mset (oi_local_virt_shm p) (bk_maps (bk (dev s)))),
       bk_irqs = (if oi_irq_num p \<noteq> IPC_IRQ_NONE \<and> \<not> dup then add_mset (oi_irq_num p) (bk_irqs (bk (dev s))) else bk_irqs (bk (dev s)))\<rparr>"
  show ?thesis using os_free_books [OF B p free] by (simp add: b f size_back [OF sz])
qed

text \<open>
  A kernel for the witnesses: it refuses the regions in \<open>bd_deny\<close> and maps at increasing addresses.
\<close>

record board =
  bd_books :: books
  bd_next :: u64
  bd_deny :: "u64 list"

definition board_linux :: "board linux" where
  "board_linux = \<lparr>
     lk_request_mem_region = (\<lambda>a n k. if a \<in> set (bd_deny k) then (False, k)
        else (True, k\<lparr>bd_books := (bd_books k)\<lparr>bk_regions := add_mset (a, n) (bk_regions (bd_books k))\<rparr>\<rparr>)),
     lk_release_mem_region = (\<lambda>a n k. k\<lparr>bd_books := (bd_books k)\<lparr>bk_regions := bk_regions (bd_books k) - {#(a, n)#}\<rparr>\<rparr>),
     lk_ioremap = (\<lambda>a n k. if bd_next k = 0 then (0, Map.empty, k)
        else (bd_next k, (\<lambda>x. if x - bd_next k < n then Some 0 else None),
          k\<lparr>bd_next := bd_next k + n, bd_books := (bd_books k)\<lparr>bk_maps := add_mset (bd_next k) (bk_maps (bd_books k))\<rparr>\<rparr>)),
     lk_iounmap = (\<lambda>va k. ((\<lambda>x. va \<in># bk_maps (bd_books k) \<and> x - va < 0x1000),
          k\<lparr>bd_books := (bd_books k)\<lparr>bk_maps := bk_maps (bd_books k) - {#va#}\<rparr>\<rparr>)),
     lk_of_find_compatible_node = (\<lambda>k. (True, k)), lk_of_irq_get = (\<lambda>n k. (40 + n, k)),
     lk_of_address_to_resource = (\<lambda>k. ((0, 0x40198000, 0x1000), k)), lk_of_node_put = (\<lambda>k. k),
     lk_request_irq = (\<lambda>n k. (0, k\<lparr>bd_books := (bd_books k)\<lparr>bk_irqs := add_mset n (bk_irqs (bd_books k))\<rparr>\<rparr>)),
     lk_free_irq = (\<lambda>n k. k\<lparr>bd_books := (bd_books k)\<lparr>bk_irqs := bk_irqs (bd_books k) - {#n#}\<rparr>\<rparr>),
     lk_tasklet_schedule = (\<lambda>k. k), lk_tasklet_kill = (\<lambda>k. k)\<rparr>"

definition idle_hw :: "(unit, 'k) hw_iface" where
  "idle_hw = \<lparr>hi_init = (\<lambda>i cfg h. Some (0, h)), hi_free = (\<lambda>i h. Some h), hi_get_rx_irq = (\<lambda>i h. Some 1),
     hi_irq_enable = (\<lambda>i h. Some h), hi_irq_disable = (\<lambda>i h. Some h), hi_irq_notify = (\<lambda>i h. Some h), hi_irq_clear = (\<lambda>i h. Some h)\<rparr>"

lemma board_books: "linux_books idle_hw board_linux bd_books"
  by (auto simp: linux_books_def board_linux_def idle_hw_def split: if_splits)

definition board_cfg :: ipc_shm_cfg where
  "board_cfg = \<lparr>cfg_local_shm_addr = 0x34100000, cfg_remote_shm_addr = 0x34200000, cfg_shm_size = 0x1000,
     cfg_inter_core_tx_irq = 2, cfg_inter_core_rx_irq = 1,
     cfg_local_core = \<lparr>lcore_type = IPC_CORE_DEFAULT, lcore_index = IPC_CORE_INDEX_0, lcore_trusted = 1\<rparr>,
     cfg_remote_core = \<lparr>rcore_type = IPC_CORE_DEFAULT, rcore_index = IPC_CORE_INDEX_0\<rparr>,
     cfg_num_channels = 1, cfg_channels = None\<rparr>"

definition board_inst :: ipc_os_priv_instance where
  "board_inst = \<lparr>oi_shm_size = 0, oi_local_phys_shm = 0, oi_remote_phys_shm = 0, oi_local_virt_shm = 0, oi_remote_virt_shm = 0,
     oi_irq_num = 0, oi_state = 0, oi_rx_cb = 0\<rparr>"

definition board_state :: "u64 list \<Rightarrow> (unit, board) kos" where
  "board_state deny = \<lparr>ko_id = [board_inst, board_inst, board_inst, board_inst],
     ko_hw = \<lparr>hw_privs = [], hw_dev = \<lparr>bd_books = \<lparr>bk_regions = {#}, bk_maps = {#}, bk_irqs = {#}\<rparr>,
       bd_next = 0x80000000, bd_deny = deny\<rparr>\<rparr>\<rparr>"

lemmas board_defs = board_linux_def idle_hw_def board_cfg_def board_inst_def board_state_def

lemma board_init: "\<exists>m1 s1. ipc_os_init idle_hw board_linux 1 board_cfg 7 Map.empty (board_state []) = Some (0, m1, s1)"
  by (simp add: ipc_os_init_def board_defs kcall_def ioremap_def upd_kinst_def kinst_def get_irq_number_def Let_def kdo_def
      irq_shared_def request_rx_irq_def limit_defs IPC_IRQ_NONE_def upt_rec)

lemma board_free:
  assumes "ipc_os_init idle_hw board_linux 1 board_cfg 7 Map.empty (board_state []) = Some (0, m1, s1)"
  shows "\<exists>m2 s2. ipc_os_free idle_hw board_linux 1 m1 s1 = Some (m2, s2)"
  using assms
  by (auto simp: ipc_os_init_def ipc_os_free_def board_defs kcall_def ioremap_def iounmap_def upd_kinst_def kinst_def get_irq_number_def Let_def kdo_def
      hcall_def irq_shared_def request_rx_irq_def limit_defs IPC_IRQ_NONE_def upt_rec)

theorem os_init_free_restores_witness:
  "\<exists>m1 s1 m2 s2. ipc_os_init idle_hw board_linux 1 board_cfg 7 Map.empty (board_state []) = Some (0, m1, s1) \<and>
     ipc_os_free idle_hw board_linux 1 m1 s1 = Some (m2, s2) \<and>
     bd_books (hw_dev (ko_hw s2)) = \<lparr>bk_regions = {#}, bk_maps = {#}, bk_irqs = {#}\<rparr>"
proof -
  obtain m1 s1 where i: "ipc_os_init idle_hw board_linux 1 board_cfg 7 Map.empty (board_state []) = Some (0, m1, s1)" using board_init by blast
  obtain m2 s2 where f: "ipc_os_free idle_hw board_linux 1 m1 s1 = Some (m2, s2)" using board_free [OF i] by blast
  have "unat (cfg_shm_size board_cfg) < 2 ^ 31" by (simp add: board_cfg_def)
  from os_init_free_restores [OF board_books this i f] show ?thesis using i f by (auto simp: board_state_def)
qed

section \<open>A failed initialisation\<close>

text \<open>
  The error exits of \<open>ipc_os_init\<close> of the Linux kernel layer call \<open>iounmap\<close> with the physical address of
  the configuration, not with the virtual address that \<open>ioremap\<close> returned. So when the reservation of the
  remote region fails after the local region was mapped, and no mapping happens to start at the local
  physical address, the initialisation returns \<open>-EADDRINUSE\<close>, gives the local region back, and leaves its
  mapping behind.
\<close>

theorem os_init_failure_leaks_mapping:
  assumes B: "linux_books H K bk" and rx: "rx \<noteq> 0" and p: "kinst i s = Some p" and i: "unat i \<le> IPC_SHM_MAX_INSTANCES"
    and l1: "lk_request_mem_region K (cfg_local_shm_addr cfg) (ucast (cfg_shm_size cfg)) (hw_dev (ko_hw s)) = (True, k1)"
    and l2: "lk_ioremap K (cfg_local_shm_addr cfg) (ucast (cfg_shm_size cfg)) k1 = (va, new, k2)" and va: "va \<noteq> 0"
    and r: "lk_request_mem_region K (cfg_remote_shm_addr cfg) (ucast (cfg_shm_size cfg)) k2 = (False, k3)"
    and phys: "cfg_local_shm_addr cfg \<notin># bk_maps (bk k3)"
  shows "\<exists>m' s'. ipc_os_init H K i cfg rx m s = Some (- EADDRINUSE, m', s') \<and>
     bk (hw_dev (ko_hw s')) = (bk (hw_dev (ko_hw s)))\<lparr>bk_maps := add_mset va (bk_maps (bk (hw_dev (ko_hw s))))\<rparr>"
proof -
  have b1: "bk k1 = (bk (dev s))\<lparr>bk_regions := add_mset (cfg_local_shm_addr cfg, ucast (cfg_shm_size cfg)) (bk_regions (bk (dev s)))\<rparr>"
    using linux_booksD(1) [OF B l1] by simp
  have b2: "bk k2 = (bk k1)\<lparr>bk_maps := add_mset va (bk_maps (bk k1))\<rparr>" using linux_booksD(3) [OF B l2] va by simp
  have b3: "bk k3 = bk k2" using linux_booksD(1) [OF B r] by simp
  have gone: "bk (snd (lk_iounmap K (cfg_local_shm_addr cfg) k3)) = bk k3"
    using linux_booksD(4) [OF B, of "cfg_local_shm_addr cfg" k3] phys by (simp add: diff_single_trivial)
  have "\<exists>m' s'. ipc_os_init H K i cfg rx m s = Some (- EADDRINUSE, m', s') \<and>
      dev s' = lk_release_mem_region K (cfg_local_shm_addr cfg) (ucast (cfg_shm_size cfg)) (snd (lk_iounmap K (cfg_local_shm_addr cfg) k3))"
    using rx i l1 l2 va r p
    by (simp add: ipc_os_init_def kcall_def ioremap_def upd_kinst_def kinst_def err_unmap_local_shm_def err_release_local_region_def iounmap_def
        split_beta not_less)
  then show ?thesis using linux_booksD(2) [OF B] gone b1 b2 b3 by auto
qed

theorem os_init_failure_leaks_mapping_witness:
  "\<exists>m' s'. ipc_os_init idle_hw board_linux 1 board_cfg 7 Map.empty (board_state [0x34200000]) = Some (- EADDRINUSE, m', s') \<and>
     bd_books (hw_dev (ko_hw s')) = \<lparr>bk_regions = {#}, bk_maps = {#0x80000000#}, bk_irqs = {#}\<rparr>"
  using os_init_failure_leaks_mapping [OF board_books, where rx = 7 and i = 1 and s = "board_state [0x34200000]" and p = board_inst
      and cfg = board_cfg and va = "0x80000000" and m = Map.empty]
  by (simp add: board_defs kinst_def limit_defs)

end
