(* ===== verification/Uio_Props.thy ===== *)
theory Uio_Props
  imports Os_User Os_Props
begin

text \<open>
  Properties of the user-space variant: exclusive opening of a UIO device under concurrency, the address
  translation that \<open>ipc_cdev_mmap\<close> builds for the library, and what a failed initialisation of the library
  leaves behind.
\<close>

section \<open>Exclusive open\<close>

text \<open>
  \<open>ipc_shm_uio_open\<close> and \<open>ipc_shm_uio_release\<close> run concurrently for the files opened on one device; their
  only shared accesses are the atomic operations on the reference counter. A file is closed, inside a
  failing open between \<open>atomic_dec_and_test\<close> and \<open>atomic_inc\<close>, or open. One step is one atomic operation.
\<close>

datatype uio_file = Closed | Failing | Opened

fun uio_file_step :: "uio_file \<Rightarrow> int \<Rightarrow> uio_file \<times> int" where
  "uio_file_step Closed c = (if c - 1 = 0 then (Opened, c - 1) else (Failing, c - 1))"
| "uio_file_step Failing c = (Closed, c + 1)"
| "uio_file_step Opened c = (Closed, c + 1)"

inductive uio_step :: "uio_file list \<times> int \<Rightarrow> uio_file list \<times> int \<Rightarrow> bool" where
  one: "t < length fs \<Longrightarrow> uio_file_step (fs ! t) c = (f', c') \<Longrightarrow> uio_step (fs, c) (fs[t := f'], c')"

inductive_cases uio_stepE: "uio_step (fs, c) s'"

definition holding :: "uio_file list \<Rightarrow> int" where
  "holding fs = (\<Sum>f\<leftarrow>fs. if f = Closed then 0 else 1)"

definition uio_inv :: "uio_file list \<times> int \<Rightarrow> bool" where
  "uio_inv s = (case s of (fs, c) \<Rightarrow> c = 1 - holding fs \<and>
     (\<forall>i j. i < length fs \<longrightarrow> j < length fs \<longrightarrow> fs ! i = Opened \<longrightarrow> fs ! j = Opened \<longrightarrow> i = j))"

lemma holding_nonneg: "0 \<le> holding fs"
  unfolding holding_def by (rule sum_list_nonneg) auto

lemma holding_update:
  "t < length fs \<Longrightarrow> holding (fs[t := f]) = holding fs - (if fs ! t = Closed then 0 else 1) + (if f = Closed then 0 else 1)"
proof (induction fs arbitrary: t)
  case (Cons a fs)
  then show ?case by (cases t) (auto simp: holding_def)
qed simp

lemma holding_pos: "t < length fs \<Longrightarrow> fs ! t \<noteq> Closed \<Longrightarrow> 1 \<le> holding fs"
  using holding_update [of t fs Closed] holding_nonneg [of "fs[t := Closed]"] by simp

lemma uio_inv_step:
  assumes "uio_step s s'" "uio_inv s"
  shows "uio_inv s'"
  using assms
proof (cases rule: uio_step.cases)
  case (one t fs c f' c')
  have inv: "c = 1 - holding fs"
    and ex: "\<And>i j. i < length fs \<Longrightarrow> j < length fs \<Longrightarrow> fs ! i = Opened \<Longrightarrow> fs ! j = Opened \<Longrightarrow> i = j"
    using assms(2) one by (auto simp: uio_inv_def)
  have cnt: "c' = 1 - holding (fs[t := f'])"
    using one inv by (cases "fs ! t") (auto simp: holding_update split: if_splits)
  have alone: "fs ! j \<noteq> Opened" if "f' = Opened" "j < length fs" for j
  proof
    assume "fs ! j = Opened"
    then have "1 \<le> holding fs" using holding_pos [of j fs] that by simp
    moreover have "c - 1 = 0" using one that by (cases "fs ! t") (auto split: if_splits)
    ultimately show False using inv by simp
  qed
  show ?thesis
    using one cnt ex alone by (auto simp: uio_inv_def nth_list_update)
qed

lemma uio_inv_reachable: "uio_step\<^sup>*\<^sup>* s s' \<Longrightarrow> uio_inv s \<Longrightarrow> uio_inv s'"
  by (induction rule: rtranclp_induct) (auto intro: uio_inv_step)

lemma holding_zero: "(\<forall>f\<in>set fs. f = Closed) \<Longrightarrow> holding fs = 0"
  by (induction fs) (auto simp: holding_def)

lemma uio_inv_start: "uio_inv (replicate n Closed, 1)"
  by (simp add: uio_inv_def holding_zero)

lemma uio_step_length: "uio_step\<^sup>*\<^sup>* s s' \<Longrightarrow> length (fst s') = length (fst s)"
  by (induction rule: rtranclp_induct) (auto elim: uio_step.cases)

text \<open>The uninterrupted steps of one file are the sequential operations.\<close>

lemma open_steps:
  assumes "uinst n s = Some p"
  shows "ipc_shm_uio_open n s =
    (case uio_file_step Closed (up_refcnt p) of (f, c) \<Rightarrow>
       case (if f = Opened then (0, c) else (- EBUSY, snd (uio_file_step f c))) of (r, c') \<Rightarrow>
         Some (r, s\<lparr>us_uio_id := (us_uio_id s)[n := p\<lparr>up_refcnt := c'\<rparr>]\<rparr>))"
proof -
  from assms have n: "n < length (us_uio_id s)" "us_uio_id s ! n = p"
    by (auto simp: uinst_def nth_opt_Some_iff)
  then show ?thesis
    by (simp add: ipc_shm_uio_open_def upd_uinst_def uinst_def)
qed

lemma release_steps:
  assumes "uinst n s = Some p"
  shows "ipc_shm_uio_release n s =
    Some (0, s\<lparr>us_uio_id := (us_uio_id s)[n := p\<lparr>up_refcnt := snd (uio_file_step Opened (up_refcnt p))\<rparr>]\<rparr>)"
  using assms by (auto simp: ipc_shm_uio_release_def upd_uinst_def uinst_def)

text \<open>
  C24. At most one file at a time has a UIO device open. Let any number of files start closed with the
  counter at 1, as \<open>ipc_uio_init\<close> leaves it, and let their opens and releases interleave at the atomic
  operations in any way. Then no two files are ever open together, the counter is 1 minus the number of
  files that are not closed, and whenever all files are closed the next open succeeds. Uninterrupted, the
  steps of a file compute exactly \<open>ipc_shm_uio_open\<close> and \<open>ipc_shm_uio_release\<close> of the module.
\<close>

theorem uio_open_exclusive:
  assumes "uio_step\<^sup>*\<^sup>* (replicate n Closed, 1) (fs, c)"
    and "uinst d s = Some p"
  shows "(\<forall>i j. i < n \<and> j < n \<and> fs ! i = Opened \<and> fs ! j = Opened \<longrightarrow> i = j) \<and>
    length fs = n \<and> c = 1 - int (length (filter (\<lambda>f. f \<noteq> Closed) fs)) \<and>
    ((\<forall>f\<in>set fs. f = Closed) \<longrightarrow> uio_file_step Closed c = (Opened, 0)) \<and>
    ipc_shm_uio_open d s =
      (case uio_file_step Closed (up_refcnt p) of (f, c) \<Rightarrow>
         case (if f = Opened then (0, c) else (- EBUSY, snd (uio_file_step f c))) of (r, c') \<Rightarrow>
           Some (r, s\<lparr>us_uio_id := (us_uio_id s)[d := p\<lparr>up_refcnt := c'\<rparr>]\<rparr>)) \<and>
    ipc_shm_uio_release d s =
      Some (0, s\<lparr>us_uio_id := (us_uio_id s)[d := p\<lparr>up_refcnt := snd (uio_file_step Opened (up_refcnt p))\<rparr>]\<rparr>)"
proof -
  have inv: "uio_inv (fs, c)"
    using uio_inv_reachable [OF assms(1) uio_inv_start] .
  have len: "length fs = n"
    using uio_step_length [OF assms(1)] by simp
  have hold: "holding fs = int (length (filter (\<lambda>f. f \<noteq> Closed) fs))"
    by (induction fs) (auto simp: holding_def)
  show ?thesis
    using inv len hold holding_zero [of fs] open_steps [OF assms(2)] release_steps [OF assms(2)]
    by (auto simp: uio_inv_def)
qed

text \<open>A module state with four idle instances over the given kernel state.\<close>

definition idle_uio :: "'k \<Rightarrow> (unit, 'k) uio_state" where
  "idle_uio k = \<lparr>us_major = 0, us_irq_num_init = replicate 4 IPC_IRQ_NONE, us_cmd = 0, us_phys_addr = 0, us_pdev_reg = 0,
     us_cdev_class = 0, us_uio_id = replicate 4 \<lparr>up_state = IPC_SHM_INSTANCE_DISABLED, up_irq_num = IPC_IRQ_NONE, up_dev = False,
       up_refcnt = 1, up_info = \<lparr>ui_version = [], ui_name = [], ui_irq = 0, ui_irq_flags = 0, ui_handlers = False\<rparr>,
       up_data = \<lparr>cd_instance = 0, cd_cfg = board_cfg\<rparr>, up_uio_name = []\<rparr>,
     us_mutex = False, us_hw = \<lparr>hw_privs = [], hw_dev = k\<rparr>\<rparr>"

lemma two_files_run: "uio_step\<^sup>*\<^sup>* (replicate 2 Closed, 1) ([Opened, Failing], - 1)"
proof -
  have "uio_step ([Closed, Closed], 1) ([Opened, Closed], 0)"
    using uio_step.one [of 0 "[Closed, Closed]" 1 Opened 0] by simp
  moreover have "uio_step ([Opened, Closed], 0) ([Opened, Failing], - 1)"
    using uio_step.one [of 1 "[Opened, Closed]" 0 Failing "- 1"] by simp
  ultimately show ?thesis by (simp add: numeral_2_eq_2)
qed

theorem uio_open_exclusive_witness:
  "(- 1 :: int) = 1 - int (length (filter (\<lambda>f. f \<noteq> Closed) [Opened, Failing])) \<and>
   map_option fst (ipc_shm_uio_open 1 (idle_uio ())) = Some 0"
  using uio_open_exclusive [OF two_files_run, of 1 "idle_uio ()" "us_uio_id (idle_uio ()) ! 1"]
  by (simp add: idle_uio_def uinst_def)

section \<open>The mapping of shared memory into the library\<close>

text \<open>
  \<open>pt\<close> reads the page table of the calling process off the kernel state: the frame number at each page
  address. A successful \<open>remap_pfn_range\<close> of one page enters the frame at the page. \<open>mmu\<close> is the address
  translation of the processor with pages of \<open>2 ^ sh\<close> bytes.
\<close>

definition remaps :: "'k uio_linux \<Rightarrow> nat \<Rightarrow> ('k \<Rightarrow> u64 \<Rightarrow> u64 option) \<Rightarrow> bool" where
  "remaps K sh pt \<longleftrightarrow> (\<forall>va pfn k k'. ul_remap_pfn_range K va pfn (push_bit sh 1) k = (0, k') \<longrightarrow> pt k' = (pt k)(va \<mapsto> pfn))"

definition mmu :: "nat \<Rightarrow> (u64 \<Rightarrow> u64 option) \<Rightarrow> u64 \<Rightarrow> u64 option" where
  "mmu sh pt v = map_option (\<lambda>pfn. push_bit sh pfn + take_bit sh v) (pt (push_bit sh (drop_bit sh v)))"

definition page_at :: "nat \<Rightarrow> u64 \<Rightarrow> nat \<Rightarrow> u64" where
  "page_at sh a j = a + of_nat (j * 2 ^ sh)"

lemma page_at_Suc: "page_at sh a j + 2 ^ sh = page_at sh a (Suc j)"
  by (simp add: page_at_def algebra_simps)

lemma unat_page_at: "unat a + j * 2 ^ sh < 2 ^ 64 \<Longrightarrow> unat (page_at sh a j) = unat a + j * 2 ^ sh"
  by (simp add: page_at_def unat_word_ariths unat_of_nat del: of_nat_mult of_nat_power)

lemma page_at_inj:
  assumes "i * 2 ^ sh < 2 ^ 64" "j * 2 ^ sh < 2 ^ 64" "page_at sh a i = page_at sh a j"
  shows "i = j"
proof -
  have "page_at sh 0 i = page_at sh 0 j" using assms(3) unfolding page_at_def by (simp only: add_left_cancel)
  then have "unat (page_at sh 0 i) = unat (page_at sh 0 j)" by (rule arg_cong)
  then have "i * 2 ^ sh = j * 2 ^ sh" using unat_page_at [of 0 i sh] unat_page_at [of 0 j sh] assms(1,2) by simp
  then show ?thesis by simp
qed

abbreviation udev :: "('p, 'k) uio_state \<Rightarrow> 'k" where
  "udev s \<equiv> hw_dev (us_hw s)"

lemma mmap_loop_run:
  assumes "remaps K sh pt" "unat sz = n * 2 ^ sh" "j \<le> n" "n - j < fuel"
  shows "\<exists>r s'. mmap_loop K fuel sh start phys sz (page_at sh 0 j) s = Some (r, s') \<and> (r = 0 \<or> r = - EINVAL) \<and>
    ((\<forall>va pfn k. fst (ul_remap_pfn_range K va pfn (push_bit sh 1) k) = 0) \<longrightarrow> r = 0) \<and>
    (r = 0 \<longrightarrow> (\<forall>i. j \<le> i \<and> i < n \<longrightarrow> pt (udev s') (page_at sh start i) = Some (drop_bit sh (page_at sh phys i))) \<and>
      (\<forall>a. (\<forall>i. j \<le> i \<and> i < n \<longrightarrow> a \<noteq> page_at sh start i) \<longrightarrow> pt (udev s') a = pt (udev s) a))"
  using assms(3,4)
proof (induction fuel arbitrary: j s)
  case (Suc f)
  have "unat sz < 2 ^ LENGTH(64)" by (rule unsigned_less)
  then have sz: "n * 2 ^ sh < 2 ^ 64" using assms(2) by simp
  then have fit: "i * 2 ^ sh < 2 ^ 64" if "i \<le> n" for i
    using mult_le_mono1 [OF that, of "2 ^ sh"] by linarith
  have off: "unat (page_at sh 0 j) = j * 2 ^ sh" using unat_page_at [of 0 j sh] fit [OF Suc.prems(1)] by simp
  then have less: "page_at sh 0 j < sz \<longleftrightarrow> j < n" by (simp add: word_less_nat_alt assms(2))
  have at: "a + page_at sh 0 j = page_at sh a j" for a by (simp add: page_at_def)
  show ?case
  proof (cases "j < n")
    case False
    then show ?thesis using less Suc.prems(1) by auto
  next
    case True
    obtain e k1 where call: "ul_remap_pfn_range K (page_at sh start j) (drop_bit sh (page_at sh phys j)) (push_bit sh 1) (udev s) = (e, k1)"
      by force
    let ?s1 = "s\<lparr>us_hw := (us_hw s)\<lparr>hw_dev := k1\<rparr>\<rparr>"
    have step: "mmap_loop K (Suc f) sh start phys sz (page_at sh 0 j) s =
        (if e \<noteq> 0 then Some (- EINVAL, ?s1) else mmap_loop K f sh start phys sz (page_at sh 0 (Suc j)) ?s1)"
      using less True call by (simp add: at ucall_def page_at_Suc)
    show ?thesis
    proof (cases "e = 0")
      case True
      have pt1: "pt k1 = (pt (udev s))(page_at sh start j \<mapsto> drop_bit sh (page_at sh phys j))"
        using assms(1) call True by (simp add: remaps_def)
      have new: "page_at sh start j \<noteq> page_at sh start i" if "Suc j \<le> i" "i < n" for i
        using page_at_inj [OF fit [of j] fit [of i], of start] that \<open>j < n\<close> by auto
      have "Suc j \<le> n" "n - Suc j < f" using \<open>j < n\<close> Suc.prems by linarith+
      from Suc.IH [OF this, of ?s1] obtain r s'
        where IH: "mmap_loop K f sh start phys sz (page_at sh 0 (Suc j)) ?s1 = Some (r, s')" "r = 0 \<or> r = - EINVAL"
          "(\<forall>va pfn k. fst (ul_remap_pfn_range K va pfn (push_bit sh 1) k) = 0) \<longrightarrow> r = 0"
          "r = 0 \<longrightarrow> (\<forall>i. Suc j \<le> i \<and> i < n \<longrightarrow> pt (udev s') (page_at sh start i) = Some (drop_bit sh (page_at sh phys i)))"
          "r = 0 \<longrightarrow> (\<forall>a. (\<forall>i. Suc j \<le> i \<and> i < n \<longrightarrow> a \<noteq> page_at sh start i) \<longrightarrow> pt (udev s') a = pt (udev ?s1) a)"
        by blast
      have "pt (udev s') (page_at sh start j) = Some (drop_bit sh (page_at sh phys j))" if "r = 0"
        using IH(5) that new pt1 by simp
      then have "r = 0 \<longrightarrow> (\<forall>i. j \<le> i \<and> i < n \<longrightarrow> pt (udev s') (page_at sh start i) = Some (drop_bit sh (page_at sh phys i)))"
        using IH(4) by (metis le_eq_less_or_eq Suc_leI)
      moreover have "r = 0 \<longrightarrow> (\<forall>a. (\<forall>i. j \<le> i \<and> i < n \<longrightarrow> a \<noteq> page_at sh start i) \<longrightarrow> pt (udev s') a = pt (udev s) a)"
        using IH(5) pt1 \<open>j < n\<close> by auto
      ultimately show ?thesis using IH(1-3) step True by auto
    next
      case False
      then show ?thesis using step call by (metis EINVAL_def fst_conv neg_equal_0_iff_equal zero_neq_numeral)
    qed
  qed
qed simp

text \<open>Page arithmetic: the byte \<open>q\<close> of an aligned area lies in page \<open>q div 2 ^ sh\<close> at the same distance as in memory.\<close>

lemma unat_page: "unat (push_bit sh (drop_bit sh (v :: u64))) = unat v div 2 ^ sh * 2 ^ sh"
proof -
  have "unat v div 2 ^ sh * 2 ^ sh \<le> unat v" by simp
  also have "unat v < 2 ^ LENGTH(64)" by (rule unsigned_less)
  finally have "push_bit sh (drop_bit sh (unat v)) < 2 ^ 64" by (simp add: push_bit_eq_mult drop_bit_eq_div)
  moreover have "unat (push_bit sh (drop_bit sh v)) = take_bit 64 (push_bit sh (drop_bit sh (unat v)))"
    using unsigned_less [of v, where 'a = nat] by (simp add: unsigned_push_bit_eq unsigned_drop_bit_eq take_bit_nat_eq_self)
  ultimately have "unat (push_bit sh (drop_bit sh v)) = push_bit sh (drop_bit sh (unat v))"
    by (simp add: take_bit_nat_eq_self)
  then show ?thesis by (simp only: push_bit_eq_mult drop_bit_eq_div)
qed

lemma page_of_byte:
  assumes "2 ^ sh dvd unat a" "unat a + q < 2 ^ 64"
  shows "push_bit sh (drop_bit sh (a + of_nat q)) = page_at sh a (q div 2 ^ sh)"
    and "unat (take_bit sh (a + of_nat q)) = q mod 2 ^ sh"
proof -
  from assms(1) obtain c where c: "unat a = c * 2 ^ sh" by (metis dvd_div_mult_self)
  have v: "unat (a + of_nat q) = c * 2 ^ sh + q"
    using assms(2) c by (simp add: unat_word_ariths unat_of_nat)
  have le: "q div 2 ^ sh * 2 ^ sh \<le> q" by simp
  have "unat (push_bit sh (drop_bit sh (a + of_nat q))) = unat (a + of_nat q) div 2 ^ sh * 2 ^ sh"
    by (rule unat_page)
  also have "\<dots> = unat (page_at sh a (q div 2 ^ sh))"
  proof -
    have "unat a + q div 2 ^ sh * 2 ^ sh < 2 ^ 64" using le assms(2) by linarith
    then show ?thesis by (simp add: unat_page_at v c distrib_right)
  qed
  finally show "push_bit sh (drop_bit sh (a + of_nat q)) = page_at sh a (q div 2 ^ sh)"
    by (simp add: word_unat_eq_iff)
  show "unat (take_bit sh (a + of_nat q)) = q mod 2 ^ sh"
    using v unfolding unsigned_take_bit_eq by (simp add: take_bit_eq_mod)
qed

lemma mmu_byte:
  fixes a phys :: u64 and b sh :: nat
  defines "off \<equiv> phys - phys div 2 ^ sh * 2 ^ sh"
  assumes al: "2 ^ sh dvd unat a" and sh: "sh < 64" and va: "unat a + n * 2 ^ sh \<le> 2 ^ 64" and pa: "unat phys + b < 2 ^ 64"
    and b: "unat off + b < n * 2 ^ sh"
    and pt: "\<And>i. i < n \<Longrightarrow> pt (page_at sh a i) = Some (drop_bit sh (page_at sh phys i))"
  shows "mmu sh pt (a + off + of_nat b) = Some (phys + of_nat b)"
proof -
  have "off = take_bit sh phys" by (simp add: off_def take_bit_eq_mod minus_div_mult_eq_mod)
  then have "unat off = take_bit sh (unat phys)" by (simp only: unsigned_take_bit_eq)
  then have off: "unat off = unat phys mod 2 ^ sh" by (simp only: take_bit_eq_mod)
  define q where "q = unat off + b"
  define i where "i = q div 2 ^ sh"
  have i: "i < n" using b by (simp add: i_def q_def div_less_iff_less_mult)
  have q: "a + off + of_nat b = a + of_nat q" by (simp add: q_def)
  have "unat a + q < 2 ^ 64" using va b by (simp add: q_def)
  note byte = page_of_byte [OF al this]
  have sum: "unat phys + b = unat phys div 2 ^ sh * 2 ^ sh + i * 2 ^ sh + q mod 2 ^ sh"
    using div_mult_mod_eq [of "unat phys" "2 ^ sh"] div_mult_mod_eq [of q "2 ^ sh"] off by (simp add: i_def q_def)
  have top: "unat phys + i * 2 ^ sh < 2 ^ 64"
  proof -
    have "(unat phys div 2 ^ sh + i) * 2 ^ sh < 2 ^ (64 - sh) * 2 ^ sh"
      using sum pa sh by (simp add: algebra_simps flip: power_add)
    then have "unat phys div 2 ^ sh + i + 1 \<le> 2 ^ (64 - sh)" by simp
    then have "(unat phys div 2 ^ sh + i + 1) * 2 ^ sh \<le> 2 ^ (64 - sh) * 2 ^ sh" by (rule mult_le_mono1)
    then have "(unat phys div 2 ^ sh + i + 1) * 2 ^ sh \<le> 2 ^ 64" using sh by (simp flip: power_add)
    then have "unat phys div 2 ^ sh * 2 ^ sh + i * 2 ^ sh + 2 ^ sh \<le> 2 ^ 64" by (simp only: distrib_right mult_1)
    moreover have "unat phys mod 2 ^ sh < 2 ^ sh" by simp
    ultimately show ?thesis using div_mult_mod_eq [of "unat phys" "2 ^ sh"] by linarith
  qed
  have frame: "unat (push_bit sh (drop_bit sh (page_at sh phys i))) = unat phys div 2 ^ sh * 2 ^ sh + i * 2 ^ sh"
    unfolding unat_page unat_page_at [OF top] by (simp add: algebra_simps)
  have "unat (push_bit sh (drop_bit sh (page_at sh phys i)) + take_bit sh (a + of_nat q)) = unat (phys + of_nat b)"
    using frame byte(2) sum pa by (simp add: unat_word_ariths unat_of_nat)
  then have "push_bit sh (drop_bit sh (page_at sh phys i)) + take_bit sh (a + of_nat q) = phys + of_nat b"
    by (simp add: word_unat_eq_iff)
  then show ?thesis using pt [OF i] byte(1) by (simp add: mmu_def q i_def)
qed

text \<open>
  C23. The library asks for the physical address \<open>phys\<close> with \<open>IPC_IOC_MMAP_LOCAL\<close> or \<open>IPC_IOC_MMAP_REMOTE\<close>, calls
  \<open>mmap\<close> for its distance \<open>off\<close> from the page boundary plus the size of the shared memory, and uses the
  returned area at \<open>off\<close>. Let \<open>remap_pfn_range\<close> enter the frame it is given, the area be of \<open>n\<close> whole pages
  that hold the request and neither area reach past the end of the address space. Then with more than
  \<open>n\<close> iterations \<open>ipc_cdev_mmap\<close> returns: 0, or \<open>-EINVAL\<close>, the latter only if a remapping was refused. After 0
  every byte of the shared memory that the library addresses is translated to the byte of physical memory
  at the same distance from \<open>phys\<close>, whether or not \<open>phys\<close> is aligned, and no page outside the area changed.
\<close>

theorem uio_mmap_translates:
  fixes phys vm_start off :: u64 and len n sh fuel :: nat
  assumes R: "remaps K sh pt" and cmd: "cmd \<in> {IPC_IOC_MMAP_LOCAL, IPC_IOC_MMAP_REMOTE}"
    and off: "off = phys - phys div 2 ^ sh * 2 ^ sh" and sh: "sh < 64" and al: "2 ^ sh dvd unat vm_start"
    and va: "unat vm_start + n * 2 ^ sh < 2 ^ 64" and pa: "unat phys + len \<le> 2 ^ 64"
    and hold: "unat off + len \<le> n * 2 ^ sh" and fuel: "n < fuel"
  shows "\<exists>s1 r s2. ipc_cdev_ioctl H K cmd phys s = Some (0, s1) \<and>
    ipc_cdev_mmap K fuel sh vm_start (vm_start + of_nat (n * 2 ^ sh)) s1 = Some (r, s2) \<and> (r = 0 \<or> r = - EINVAL) \<and>
    ((\<forall>va pfn k. fst (ul_remap_pfn_range K va pfn (push_bit sh 1) k) = 0) \<longrightarrow> r = 0) \<and>
    (r = 0 \<longrightarrow>
      (\<forall>b<len. mmu sh (pt (hw_dev (us_hw s2))) (vm_start + off + of_nat b) = Some (phys + of_nat b)) \<and>
      (\<forall>a. (\<forall>i<n. a \<noteq> vm_start + of_nat (i * 2 ^ sh)) \<longrightarrow> pt (hw_dev (us_hw s2)) a = pt (hw_dev (us_hw s)) a))"
proof -
  define s1 where "s1 = s\<lparr>us_cmd := cmd, us_phys_addr := phys\<rparr>"
  have io: "ipc_cdev_ioctl H K cmd phys s = Some (0, s1)"
    using cmd by (auto simp: ipc_cdev_ioctl_def ioc_val s1_def)
  have mm: "ipc_cdev_mmap K fuel sh vm_start (vm_start + of_nat (n * 2 ^ sh)) s1 =
      mmap_loop K fuel sh vm_start phys (of_nat (n * 2 ^ sh)) (page_at sh 0 0) s1"
    using cmd by (auto simp: ipc_cdev_mmap_def s1_def page_at_def)
  have sz: "unat (of_nat (n * 2 ^ sh) :: u64) = n * 2 ^ sh"
    using unat_page_at [of 0 n sh] va by (simp add: page_at_def del: of_nat_mult of_nat_power)
  have dev: "hw_dev (us_hw s1) = hw_dev (us_hw s)" by (simp add: s1_def)
  from mmap_loop_run [OF R sz, of 0 fuel vm_start phys s1] fuel obtain r s2
    where run: "mmap_loop K fuel sh vm_start phys (of_nat (n * 2 ^ sh)) (page_at sh 0 0) s1 = Some (r, s2)" "r = 0 \<or> r = - EINVAL"
      "(\<forall>va pfn k. fst (ul_remap_pfn_range K va pfn (push_bit sh 1) k) = 0) \<longrightarrow> r = 0"
      and pt: "r = 0 \<Longrightarrow> i < n \<Longrightarrow> pt (hw_dev (us_hw s2)) (page_at sh vm_start i) = Some (drop_bit sh (page_at sh phys i))"
      and rest: "r = 0 \<Longrightarrow> \<forall>i<n. a \<noteq> page_at sh vm_start i \<Longrightarrow> pt (hw_dev (us_hw s2)) a = pt (hw_dev (us_hw s1)) a" for i a
    by (simp del: push_bit_of_1) blast
  have "mmu sh (pt (hw_dev (us_hw s2))) (vm_start + off + of_nat b) = Some (phys + of_nat b)" if "r = 0" "b < len" for b
    unfolding off using mmu_byte [OF al sh, of n phys b] va pa hold pt [OF that(1)] that(2) off by simp
  then show ?thesis using io mm run rest dev unfolding page_at_def by metis
qed

text \<open>The kernel of the witness keeps only the page table.\<close>

definition page_linux :: "(u64 \<rightharpoonup> u64) uio_linux" where
  "page_linux = \<lparr>ul_platform_get_irq = (\<lambda>n k. (n, k)), ul_uio_register_device = (\<lambda>n u k. (0, k)), ul_uio_unregister_device = (\<lambda>n k. k),
     ul_copy_from_user = (\<lambda>a k. (None, k)), ul_remap_pfn_range = (\<lambda>va pfn sz k. (0, k(va \<mapsto> pfn))),
     ul_devm_ioremap_resource = (\<lambda>k. ((0, True), k)), ul_alloc_chrdev_region = (\<lambda>k. ((0, 0), k)), ul_cdev_add = (\<lambda>d k. (0, k)),
     ul_class_create = (\<lambda>k. (0, k)), ul_device_create = (\<lambda>c d k. (True, k)), ul_device_destroy = (\<lambda>c d k. k),
     ul_class_destroy = (\<lambda>c k. k), ul_cdev_del = (\<lambda>k. k), ul_unregister_chrdev_region = (\<lambda>d k. k)\<rparr>"

lemma page_linux_remaps: "remaps page_linux sh id"
  by (simp add: remaps_def page_linux_def)

theorem uio_mmap_translates_witness:
  "\<exists>s1 r s2. ipc_cdev_ioctl (\<lambda>reg. idle_hw) page_linux IPC_IOC_MMAP_REMOTE 0x34100010 (idle_uio Map.empty) = Some (0, s1) \<and>
     ipc_cdev_mmap page_linux 3 12 0x7F000000 (0x7F000000 + of_nat (2 * 2 ^ 12)) s1 = Some (r, s2) \<and> r = 0 \<and>
     mmu 12 (hw_dev (us_hw s2)) (0x7F000000 + 0x10 + of_nat 0xFFF) = Some (0x34100010 + of_nat 0xFFF)"
proof -
  have off: "(0x10 :: u64) = 0x34100010 - 0x34100010 div 2 ^ 12 * 2 ^ 12" by simp
  have al: "2 ^ 12 dvd unat (0x7F000000 :: u64)" by simp
  have room: "unat (0x7F000000 :: u64) + 2 * 2 ^ 12 < 2 ^ 64" "unat (0x34100010 :: u64) + 0x1000 \<le> 2 ^ 64"
    "unat (0x10 :: u64) + 0x1000 \<le> 2 * 2 ^ 12" by simp_all
  have ok: "\<forall>va pfn k. fst (ul_remap_pfn_range page_linux va pfn (push_bit 12 1) k) = 0" by (simp add: page_linux_def)
  have "0xFFF < (0x1000 :: nat)" "(2 :: nat) < 3" "12 < (64 :: nat)" by simp_all
  then show ?thesis
    using uio_mmap_translates [OF page_linux_remaps _ off \<open>12 < 64\<close> al room \<open>2 < 3\<close>, of IPC_IOC_MMAP_REMOTE "\<lambda>reg. idle_hw" "idle_uio Map.empty"] ok
    unfolding id_apply by blast
qed

section \<open>A failed initialisation of the library\<close>

text \<open>
  \<open>loaded\<close> says whether the kernel has the module loaded. Opening and closing files does not change it, and
  \<open>finit_module\<close> of a loaded module fails (with \<open>EEXIST\<close>) and leaves it loaded.
\<close>

definition module_laws :: "'k posix \<Rightarrow> ('k \<Rightarrow> bool) \<Rightarrow> bool" where
  "module_laws X loaded \<longleftrightarrow>
     (\<forall>f k. loaded k \<longrightarrow> loaded (snd (px_open X f k))) \<and> (\<forall>fd k. loaded k \<longrightarrow> loaded (px_close X fd k)) \<and>
     (\<forall>fd k. loaded k \<longrightarrow> fst (px_finit_module X fd k) \<noteq> 0 \<and> loaded (snd (px_finit_module X fd k)))"

text \<open>No instance but \<open>i\<close> is in use.\<close>

definition others_off :: "u8 \<Rightarrow> 'k uos \<Rightarrow> bool" where
  "others_off i s \<longleftrightarrow> (\<forall>k<length (uo_id s). k \<noteq> unat i \<longrightarrow> si_state (uo_id s ! k) \<noteq> IPC_SHM_INSTANCE_ENABLED)"

lemma others_off_k [simp]: "others_off i (s\<lparr>uo_k := k\<rparr>) = others_off i s"
  by (simp add: others_off_def)

lemma others_off_pcall: "pcall f s = (r, s') \<Longrightarrow> others_off i s' = others_off i s"
  by (auto simp: pcall_def others_off_def split: prod.splits)

lemma others_off_pdo [simp]: "others_off i (pdo f s) = others_off i s"
  by (simp add: pdo_def others_off_def)

lemma others_off_upd: "upd_sinst i f s = Some s' \<Longrightarrow> others_off i s \<Longrightarrow> others_off i s'"
  by (auto simp: upd_sinst_def others_off_def split: Option.bind_splits)

lemma others_off_munmap: "munmap X a n m s = (m', s') \<Longrightarrow> others_off i s' = others_off i s"
  by (auto simp: munmap_def dest: others_off_pcall split: prod.splits)

lemma others_off_module_init: "ipc_os_module_init X path s = (e, s') \<Longrightarrow> others_off i s' = others_off i s"
  by (auto simp: ipc_os_module_init_def Let_def others_off_def pcall_def pdo_def split: prod.splits if_splits)

lemma others_off_softirq_init: "ipc_os_softirq_init X i s = Some (e, s') \<Longrightarrow> others_off i s \<Longrightarrow> others_off i s'"
  by (auto simp: ipc_os_softirq_init_def pcall_def dest!: others_off_upd split: prod.splits if_splits)

lemmas others_off_keeps = others_off_pcall others_off_upd others_off_munmap others_off_module_init others_off_softirq_init

text \<open>Every error exit ends in \<open>err_close_ipc_dev\<close>, which without another instance in use forgets that the files are open.\<close>

lemma err_close_forgets:
  assumes "user_err_close_ipc_dev X i err m s = Some (e, m', s')" "others_off i s"
  shows "\<not> uo_is_files_opened s'"
proof -
  from assms(1) obtain s1 where s1: "upd_sinst i (\<lambda>p. p\<lparr>si_state := IPC_SHM_INSTANCE_DISABLED\<rparr>) s = Some s1"
    by (auto simp: user_err_close_ipc_dev_def split: Option.bind_splits)
  then obtain p where p: "uo_id s1 = (uo_id s)[unat i := p\<lparr>si_state := IPC_SHM_INSTANCE_DISABLED\<rparr>]"
    by (auto simp: upd_sinst_def split: Option.bind_splits)
  have "si_state (uo_id s1 ! k) \<noteq> IPC_SHM_INSTANCE_ENABLED" if "k < length (uo_id s1)" for k
    using that assms(2) p by (cases "k = unat i") (simp_all add: others_off_def IPC_SHM_INSTANCE_DISABLED_def IPC_SHM_INSTANCE_ENABLED_def)
  then have "\<forall>p\<in>set (uo_id s1). si_state p \<noteq> IPC_SHM_INSTANCE_ENABLED"
    by (auto simp: in_set_conv_nth)
  then show ?thesis
    using assms(1) s1 by (auto simp: user_err_close_ipc_dev_def list_ex_iff Let_def pdo_def split: if_splits)
qed

lemma err_unmap_local_forgets:
  "user_err_unmap_local_shm X i err m s = Some (e, m', s') \<Longrightarrow> others_off i s \<Longrightarrow> \<not> uo_is_files_opened s'"
  by (auto simp: user_err_unmap_local_shm_def others_off_munmap dest!: err_close_forgets split: Option.bind_splits prod.splits)

lemma err_unmap_remote_forgets:
  "user_err_unmap_remote_shm X i err m s = Some (e, m', s') \<Longrightarrow> others_off i s \<Longrightarrow> \<not> uo_is_files_opened s'"
  by (auto simp: user_err_unmap_remote_shm_def others_off_munmap dest!: err_unmap_local_forgets split: Option.bind_splits prod.splits)

lemma err_close_uio_forgets:
  "user_err_close_uio_dev X i err m s = Some (e, m', s') \<Longrightarrow> others_off i s \<Longrightarrow> \<not> uo_is_files_opened s'"
  by (auto simp: user_err_close_uio_dev_def dest!: err_unmap_remote_forgets split: Option.bind_splits)

lemma init_irq_forgets:
  assumes "user_init_irq X i cfg m s = Some (e, m', s')" "others_off i s" "e \<noteq> 0"
  shows "\<not> uo_is_files_opened s'"
  using assms
  by (auto simp: user_init_irq_def others_off_pcall dest!: others_off_upd others_off_softirq_init
      dest: err_unmap_remote_forgets err_close_uio_forgets others_off_pcall
      split: prod.splits if_splits Option.bind_splits)

lemma module_init_fails_closed: "ipc_os_module_init X path s = (e, s') \<Longrightarrow> e \<noteq> 0 \<Longrightarrow> \<not> uo_is_files_opened s'"
  by (auto simp: ipc_os_module_init_def Let_def pcall_def pdo_def split: prod.splits if_splits)

lemma init_user_forgets:
  assumes "ipc_os_init_user X path i cfg cb m s = Some (e, m', s')" "others_off i s" "\<not> uo_is_files_opened s" "e \<noteq> 0"
  shows "\<not> uo_is_files_opened s'"
proof (cases "cb = 0")
  case True
  then show ?thesis using assms(1,3) by (simp add: ipc_os_init_user_def)
next
  case False
  show ?thesis
    using assms(1,2,4) False unfolding ipc_os_init_user_def
    by (auto simp: Let_def others_off_pcall others_off_module_init dest!: others_off_upd
        dest: err_close_forgets err_unmap_local_forgets init_irq_forgets module_init_fails_closed
        split: prod.splits if_splits Option.bind_splits)
qed

lemma retry_refused:
  assumes laws: "module_laws X loaded" and "loaded (uo_k s)" "\<not> uo_is_files_opened s" "unat j < length (uo_id s)" "cb \<noteq> 0"
  shows "\<exists>s'. ipc_os_init_user X path j cfg cb m s = Some (- ENODEV, m, s') \<and> \<not> uo_is_files_opened s' \<and> loaded (uo_k s')"
proof -
  obtain s1 where s1: "upd_sinst j (\<lambda>p. p\<lparr>si_shm_size := ucast (cfg_shm_size cfg), si_rx_cb := cb, si_instance := j\<rparr>) s = Some s1"
    "uo_k s1 = uo_k s" "uo_is_files_opened s1 = uo_is_files_opened s"
    using assms(4) by (auto simp: upd_sinst_def sinst_def)
  obtain fd k1 where op: "px_open X path (uo_k s) = (fd, k1)" by force
  obtain e k2 where fi: "px_finit_module X fd k1 = (e, k2)" by force
  have k: "loaded k1" "e \<noteq> 0" "loaded (px_close X fd k2)"
    using laws assms(2) op fi unfolding module_laws_def by (metis snd_conv, metis fst_conv snd_conv, metis snd_conv)
  have "\<exists>s'. ipc_os_module_init X path s1 = (- ENODEV, s') \<and> \<not> uo_is_files_opened s' \<and> loaded (uo_k s')"
    using s1 assms(3) op fi k by (cases "fd = - 1") (simp_all add: ipc_os_module_init_def pcall_def pdo_def Let_def)
  then obtain s' where "ipc_os_module_init X path s1 = (- ENODEV, s')" "\<not> uo_is_files_opened s'" "loaded (uo_k s')" by auto
  then show ?thesis
    using s1 assms(5) by (simp add: ipc_os_init_user_def ENODEV_def int8_def)
qed

text \<open>
  The user-space library does not unload the kernel module when its initialisation fails. Start with
  no open files and no other instance in use and let \<open>ipc_os_init\<close> return an error after the module was
  loaded. Then the files count as not open, and every further \<open>ipc_os_init\<close>, of whatever instance and
  configuration, tries to load the module again, returns \<open>-ENODEV\<close> and leaves this state as it is.
\<close>

theorem user_retry_fails:
  assumes "module_laws X loaded" and "\<not> uo_is_files_opened s"
    and "\<forall>p\<in>set (uo_id s). si_state p \<noteq> IPC_SHM_INSTANCE_ENABLED"
    and "ipc_os_init_user X path i cfg cb m s = Some (e, m', s')" and "e \<noteq> 0" and "loaded (uo_k s')"
  shows "\<not> uo_is_files_opened s' \<and>
    (\<forall>j cfg2 cb2 m2. unat j < length (uo_id s') \<and> cb2 \<noteq> 0 \<longrightarrow>
      (\<exists>s2. ipc_os_init_user X path j cfg2 cb2 m2 s' = Some (- ENODEV, m2, s2) \<and> \<not> uo_is_files_opened s2 \<and> loaded (uo_k s2)))"
proof -
  have "others_off i s" using assms(3) by (simp add: others_off_def)
  then have "\<not> uo_is_files_opened s'" using init_user_forgets [OF assms(4)] assms(2,5) by blast
  then show ?thesis using retry_refused [OF assms(1,6)] by blast
qed

text \<open>The system of the witness remembers whether the module is loaded and refuses every \<open>mmap\<close>.\<close>

definition full_posix :: "bool posix" where
  "full_posix = \<lparr>px_page_size = 4096, px_uninit_cfg = board_cfg, px_open = (\<lambda>f k. (3, k)), px_close = (\<lambda>fd k. k),
     px_finit_module = (\<lambda>fd k. (if k then - 1 else 0, True)), px_delete_module = (\<lambda>k. (0, False)),
     px_ioctl_addr = (\<lambda>fd c a k. (0, k)), px_ioctl_data = (\<lambda>fd c d k. (0, k)), px_mmap = (\<lambda>n fd a k. ((MAP_FAILED, Map.empty), k)),
     px_munmap = (\<lambda>a n k. ((\<lambda>x. False), k)), px_scandir = (\<lambda>d k. (None, k)), px_fopen = (\<lambda>f k. (False, k)),
     px_fgets = (\<lambda>n k. (None, k)), px_fclose = (\<lambda>k. k), px_pthread_attr_init = (\<lambda>k. (0, k)),
     px_pthread_attr_setschedpolicy = (\<lambda>k. (0, k)), px_pthread_attr_setschedparam = (\<lambda>k. (0, k)),
     px_pthread_create = (\<lambda>i k. ((0, 1), k)), px_pthread_cancel = (\<lambda>t k. k), px_pthread_join = (\<lambda>t k. k),
     px_read = (\<lambda>fd k. k), px_sched_yield = (\<lambda>k. k), px_write_cmd = (\<lambda>fd c k. (0, k))\<rparr>"

definition fresh_uos :: "'k \<Rightarrow> 'k uos" where
  "fresh_uos k = \<lparr>uo_is_files_opened = False, uo_ipc_cdev_fd = 0, uo_ipc_uio_module_fd = 0, uo_id = replicate 4
     \<lparr>si_state = IPC_SHM_INSTANCE_DISABLED, si_instance = 0, si_irq_num = 0, si_uio_fd = 0, si_local_virt_shm = 0, si_remote_virt_shm = 0,
      si_local_shm_map = 0, si_remote_shm_map = 0, si_local_shm_offset = 0, si_remote_shm_offset = 0, si_shm_size = 0, si_rx_cb = 0,
      si_irq_thread_id = 0\<rparr>, uo_k = k\<rparr>"

lemma full_posix_laws: "module_laws full_posix id"
  by (simp add: module_laws_def full_posix_def)

lemma full_posix_fails:
  "\<exists>s'. ipc_os_init_user full_posix ''ipc-uio.ko'' 0 board_cfg 7 Map.empty (fresh_uos False) = Some (- ENOMEM, Map.empty, s') \<and>
     uo_k s' \<and> length (uo_id s') = 4"
  by (simp add: ipc_os_init_user_def fresh_uos_def upd_sinst_def sinst_def ipc_os_module_init_def pcall_def pdo_def full_posix_def
      user_err_close_ipc_dev_def int8_def ENOMEM_def Let_def)

theorem user_retry_fails_witness:
  "\<exists>s' s2. ipc_os_init_user full_posix ''ipc-uio.ko'' 0 board_cfg 7 Map.empty (fresh_uos False) = Some (- ENOMEM, Map.empty, s') \<and>
     ipc_os_init_user full_posix ''ipc-uio.ko'' 1 board_cfg 7 Map.empty s' = Some (- ENODEV, Map.empty, s2)"
proof -
  obtain s' where s': "ipc_os_init_user full_posix ''ipc-uio.ko'' 0 board_cfg 7 Map.empty (fresh_uos False) = Some (- ENOMEM, Map.empty, s')"
    "uo_k s'" "length (uo_id s') = 4" using full_posix_fails by blast
  have closed: "\<not> uo_is_files_opened (fresh_uos False)" "\<forall>p\<in>set (uo_id (fresh_uos False)). si_state p \<noteq> IPC_SHM_INSTANCE_ENABLED"
    by (simp_all add: fresh_uos_def IPC_SHM_INSTANCE_DISABLED_def IPC_SHM_INSTANCE_ENABLED_def)
  have "- ENOMEM \<noteq> 0" "id (uo_k s')" "unat (1 :: u8) < length (uo_id s') \<and> (7 :: u64) \<noteq> 0"
    using s' by (simp_all add: ENOMEM_def)
  then show ?thesis using user_retry_fails [OF full_posix_laws closed s'(1)] s'(1) by blast
qed

end
