(* ===== verification/Shm_Setup.thy ===== *)
theory Shm_Setup
  imports Shm_Exchange Shm_Inst
begin

text \<open>
  What initialisation builds. A configuration that fits its shared memory is laid out channel by channel
  and pool by pool; for such a configuration, and a remote side that is either not started or already
  initialised, the initialisation of an instance returns 0 and leaves every channel as configured, with
  all its buffers free.
\<close>

section \<open>Replacing one channel\<close>

definition put_chan :: "u8 \<Rightarrow> u8 \<Rightarrow> ipc_shm_channel \<Rightarrow> 'w shm_state \<Rightarrow> 'w shm_state" where
  "put_chan i c ch st = st\<lparr>st_priv := (st_priv st)[unat i := (st_priv st ! unat i)\<lparr>
     pv_channels := (pv_channels (st_priv st ! unat i))[unat c := ch]\<rparr>]\<rparr>"

lemma chan_in: "get_channel_priv i c st = Some ch \<longleftrightarrow> unat i < length (st_priv st) \<and>
    unat c < length (pv_channels (st_priv st ! unat i)) \<and> pv_channels (st_priv st ! unat i) ! unat c = ch"
  by (auto simp: get_channel_priv_def priv_at_def nth_opt_def)

lemma put_chan_sel [simp]:
  "st_mem (put_chan i c ch st) = st_mem st" "st_env (put_chan i c ch st) = st_env st"
  "length (st_priv (put_chan i c ch st)) = length (st_priv st)"
  by (simp_all add: put_chan_def)

lemma put_chan_mem [simp]: "put_chan i c ch (st\<lparr>st_mem := m\<rparr>) = (put_chan i c ch st)\<lparr>st_mem := m\<rparr>"
  by (simp add: put_chan_def)

lemma get_put_chan: "get_channel_priv i c st = Some ch0 \<Longrightarrow> get_channel_priv i c (put_chan i c ch st) = Some ch"
  by (auto simp: chan_in put_chan_def)

lemma get_put_other:
  "get_channel_priv i c st = Some ch0 \<Longrightarrow> unat d \<noteq> unat c \<Longrightarrow> get_channel_priv i d (put_chan i c ch st) = get_channel_priv i d st"
  by (cases "unat i < length (st_priv st)") (auto simp: put_chan_def get_channel_priv_def priv_at_def nth_opt_def)

lemma put_put_chan [simp]: "get_channel_priv i c st = Some ch0 \<Longrightarrow> put_chan i c ch2 (put_chan i c ch1 st) = put_chan i c ch2 st"
  by (auto simp: put_chan_def chan_in)

lemma put_same_chan [simp]: "get_channel_priv i c st = Some ch \<Longrightarrow> put_chan i c ch st = st"
  by (auto simp: put_chan_def chan_in)

lemma upd_channel_put: "get_channel_priv i c st = Some ch \<Longrightarrow> upd_channel i c f st = Some (put_chan i c (f ch) st)"
  by (simp add: upd_channel_def upd_priv_def put_chan_def get_channel_priv_def priv_at_def nth_opt_def split: Option.bind_splits if_splits)

lemma priv_put_chan:
  "get_channel_priv i c st = Some ch0 \<Longrightarrow> priv_at i st = Some p \<Longrightarrow>
   priv_at i (put_chan i c ch st) = Some (p\<lparr>pv_channels := (pv_channels p)[unat c := ch]\<rparr>)"
  by (auto simp: priv_at_def put_chan_def nth_opt_def chan_in split: if_splits)

lemma heads_put_chan [simp]: "get_channel_priv i c st = Some ch0 \<Longrightarrow> heads (put_chan i c ch st) = heads st"
  by (rule heads_upd_channel [of i c "\<lambda>_. ch"]) (simp add: upd_channel_put)

lemma get_chan_put:
  assumes "get_channel_priv i c st = Some ch0" "priv_at i st = Some p" "unat c < unat (pv_num_channels p)"
  shows "get_channel i c (put_chan i c ch st) = Some (Some ch)"
  using assms priv_put_chan [OF assms(1,2), of ch] get_put_chan [OF assms(1), of ch]
  by (simp add: get_channel_def word_le_nat_alt)

lemma get_chan_in:
  assumes "get_channel_priv i c st = Some ch" "priv_at i st = Some p" "unat c < unat (pv_num_channels p)"
  shows "get_channel i c st = Some (Some ch)"
  using assms by (simp add: get_channel_def word_le_nat_alt)

section \<open>One pool\<close>

text \<open>A ring of the remote side that this side can join: not being initialised right now, and with valid indices.\<close>

definition ring_joins :: "memory \<Rightarrow> u64 \<Rightarrow> nat \<Rightarrow> bool" where
  "ring_joins m p n \<longleftrightarrow> (\<exists>s. load_u64 m (ring_sentinel p) = Some s \<and> s \<noteq> IPC_QUEUE_INIT_IN_PROGRESS \<and>
     wr_idx m p < n \<and> rd_idx m p < n \<and> (s = IPC_QUEUE_INIT_DONE \<or> wr_idx m p = 0 \<and> rd_idx m p = 0))"

text \<open>A queue that this side has initialised.\<close>

definition queue_up :: "ipc_queue \<Rightarrow> memory \<Rightarrow> bool" where
  "queue_up q m \<longleftrightarrow> queue_wf q m \<and> elem_size q = 8 \<and> load_u64 m (ring_sentinel (push_ring q)) = Some IPC_QUEUE_INIT_DONE"

definition pool_up :: "nat \<Rightarrow> ipc_shm_pool \<Rightarrow> memory \<Rightarrow> bool" where
  "pool_up k pool m \<longleftrightarrow> queue_up (pl_bd_queue pool) m \<and>
     tx_bds m (pl_bd_queue pool) = map (free_bd k) [0..<unat (pl_num_bufs pool)] \<and>
     (load_u64 m (ring_sentinel (pop_ring (pl_bd_queue pool))) = Some IPC_QUEUE_INIT_DONE \<longrightarrow>
        length (rx_bds m (pl_bd_queue pool)) = unat (pl_num_bufs pool))"

lemma upd_pool_put:
  assumes "get_channel_priv i c st = Some ch" "k < length (mc_pools (ch_mng ch))"
  shows "upd_pool i c k f st = Some (put_chan i c
    (ch\<lparr>ch_mng := (ch_mng ch)\<lparr>mc_pools := (mc_pools (ch_mng ch))[k := f (mc_pools (ch_mng ch) ! k)]\<rparr>\<rparr>) st)"
  using assms by (simp add: upd_pool_def get_pool_def upd_managed_def upd_channel_put)

lemma pool_init_ok:
  assumes gm: "get_managed_chan i c st = Some (Some mc)" and gp: "get_pool i c k st = Some pool"
    and p: "priv_at i st = Some pv" and l: "os_get_local_shm P i (st_env st) = Some local"
    and q: "q = queue_of (pool_queue_data addr cfg)" and rm: "rings_mapped q (st_mem st)"
    and join: "ring_joins (st_mem st) (remote_pool_shm addr) (unat (elem_num q))"
    and n: "pcfg_num_bufs cfg \<le> IPC_SHM_MAX_BUFS_PER_POOL" "pcfg_num_bufs cfg \<noteq> 0"
    and fits: "local_pool_shm addr + ucast (pl_shm_size (pool_of addr cfg)) \<le> local + ucast (pv_shm_size pv)"
  shows "\<exists>st1 m'. upd_pool i c k (\<lambda>_. pool_of addr cfg) st = Some st1 \<and>
     ipc_buf_pool_init P i c k addr cfg st = Some (0, st1\<lparr>st_mem := m'\<rparr>) \<and> pool_up k (pool_of addr cfg) m' \<and>
     same_except (region (local_pool_shm addr) (ring_bytes q)) (st_mem st) m'"
proof -
  let ?qd = "pool_queue_data addr cfg"
  from join obtain s where s: "load_u64 (st_mem st) (ring_sentinel (remote_pool_shm addr)) = Some s" "s \<noteq> IPC_QUEUE_INIT_IN_PROGRESS"
    and idx: "wr_idx (st_mem st) (remote_pool_shm addr) < unat (elem_num q)" "rd_idx (st_mem st) (remote_pool_shm addr) < unat (elem_num q)"
    and fresh: "s = IPC_QUEUE_INIT_DONE \<or> wr_idx (st_mem st) (remote_pool_shm addr) = 0 \<and> rd_idx (st_mem st) (remote_pool_shm addr) = 0"
    by (auto simp: ring_joins_def)
  have ok: "qd_ok ?qd" using rm q n(2) by (simp add: qd_ok_def rings_mapped_def)
  have "\<exists>m'. ipc_queue_sync_index q IPC_SHM_POOL_QUEUE (st_mem st) = Some (0, m') \<and> queue_wf q m' \<and> tx_list m' q = [] \<and>
       (s = IPC_QUEUE_INIT_DONE \<longrightarrow> length (rx_list m' q) = unat (elem_num q) - 1) \<and>
       load_u64 m' (ring_sentinel (push_ring q)) = Some IPC_QUEUE_INIT_IN_PROGRESS \<and>
       same_except (region (push_ring q) sizeof_ipc_ring) (st_mem st) m'"
    using sync_lists [OF rm _ s(2), of IPC_SHM_POOL_QUEUE] s idx fresh q by (cases "s = IPC_QUEUE_INIT_DONE") (simp_all, blast)
  then obtain m where m: "ipc_queue_init (Some (pl_bd_queue pool)) ?qd (st_mem st) = Some (0, Some q, m)" "queue_wf q m" "tx_bds m q = []"
    and rx: "s = IPC_QUEUE_INIT_DONE \<longrightarrow> length (rx_bds m q) = unat (elem_num q) - 1"
    and se: "same_except (region (push_ring q) sizeof_ipc_ring) (st_mem st) m"
    using ok q by (auto simp: init_eq tx_bds_def rx_bds_def)
  from pool_init_steps(2) [OF gm gp n(1) m(1) _ q, of P] obtain st1 where
    st1: "upd_pool i c k (\<lambda>pl. pool_of addr cfg) (st\<lparr>st_mem := m\<rparr>) = Some st1"
    and run: "ipc_buf_pool_init P i c k addr cfg st = pool_rest P i c k addr cfg st1" by auto
  note g = get_upd_pool [OF st1]
  from g(1) have gp1: "get_pool i c k st1 = Some (pool_of addr cfg)" by auto
  from g(4) p obtain pv1 where pv1: "priv_at i st1 = Some pv1" "pv_shm_size pv1 = pv_shm_size pv" by auto
  have l1: "os_get_local_shm P i (st_env st1) = Some local" using g(3) l by simp
  have m1: "st_mem st1 = m" using g(2) by simp
  have nz: "pcfg_num_bufs cfg + 1 \<noteq> 0" using idx q by auto
  from pool_rest_ok [OF l1 pv1(1) gp1 q _ _ nz] fits pv1(2) m m1 obtain m' where
    m': "pool_rest P i c k addr cfg st1 = Some (0, st1\<lparr>st_mem := m'\<rparr>)" "queue_wf q m'"
      "load_u64 m' (ring_sentinel (push_ring q)) = Some IPC_QUEUE_INIT_DONE"
      "tx_bds m' q = map (free_bd k) [0..<unat (pcfg_num_bufs cfg)]" "same_except (region (push_ring q) (ring_bytes q)) m m'"
      "rx_bds m' q = rx_bds m q"
    by auto
  have "same_except (region (push_ring q) (ring_bytes q)) (st_mem st) m"
    by (rule same_except_mono [OF se]) (use ring_bytes_ge [of q] in \<open>simp add: region_mono sizeof_ipc_ring_def\<close>)
  with m'(5) have se': "same_except (region (push_ring q) (ring_bytes q)) (st_mem st) m'" by (rule same_except_trans [rotated])
  have "region (ring_sentinel (pop_ring q)) 8 \<subseteq> region (pop_ring q) (ring_bytes q)"
    using region_mono [of 8 "ring_bytes q" "pop_ring q"] ring_bytes_ge [of q] by (simp add: ring_offsets)
  then have "load_u64 m' (ring_sentinel (pop_ring q)) = Some s"
    using load_u64_same_except [OF se', of "ring_sentinel (pop_ring q)"] s(1) rm q by (auto simp: rings_mapped_def apart_def)
  then have full: "load_u64 m' (ring_sentinel (pop_ring q)) = Some IPC_QUEUE_INIT_DONE \<longrightarrow> length (rx_bds m' q) = unat (pcfg_num_bufs cfg)"
    using rx m'(6) nz q by (simp add: unatSuc add.commute)
  obtain st0 where st0: "upd_pool i c k (\<lambda>_. pool_of addr cfg) st = Some st0" using upd_pool_total [OF gp] by blast
  then have "st1 = st0\<lparr>st_mem := m\<rparr>" using st1 by (simp add: upd_pool_mem)
  then show ?thesis using st0 run m' se' q full by (auto simp: pool_up_def queue_up_def)
qed

section \<open>Areas\<close>

text \<open>A stretch of \<open>n\<close> bytes at \<open>l\<close> in the local and at \<open>r\<close> in the remote shared memory.\<close>

definition area :: "u64 \<Rightarrow> u64 \<Rightarrow> nat \<Rightarrow> memory \<Rightarrow> bool" where
  "area l r n m \<longleftrightarrow> 0 < unat l \<and> 0 < unat r \<and> unat l + n < 2 ^ 64 \<and> unat r + n < 2 ^ 64 \<and>
     mapped m l n \<and> mapped m r n \<and> apart l n r n"

lemma unat_plus_of_nat: "unat l + n < 2 ^ 64 \<Longrightarrow> unat (l + of_nat n :: u64) = unat l + n"
  by (simp add: unat_word_ariths unat_of_nat_small)

lemma area_sub:
  assumes "area l r n m" "a + b \<le> n"
  shows "area (l + of_nat a) (r + of_nat a) b m"
  using assms mapped_sub [of m l n a b] mapped_sub [of m r n a b] unat_plus_of_nat [of l a] unat_plus_of_nat [of r a]
    apart_sub [of l n r n "l + of_nat a" b "r + of_nat a" b] region_offset [of a b n l] region_offset [of a b n r]
  by (simp add: area_def)

lemma area_frame: "same_except A m m' \<Longrightarrow> area l r n m' = area l r n m"
  by (simp add: area_def same_except_mapped)

lemma area_split:
  assumes "area l r n m" "a + b \<le> c" "c + d \<le> n"
  shows "region (l + of_nat a) b \<inter> region (l + of_nat c) d = {}"
proof -
  have "apart (l + of_nat a) b (l + of_nat c) d" by (rule apart_offsets) (use assms in \<open>auto simp: area_def\<close>)
  then show ?thesis by (simp add: apart_def)
qed

lemma area_cross:
  assumes "area l r n m" "a + b \<le> n" "c + d \<le> n"
  shows "region (r + of_nat a) b \<inter> region (l + of_nat c) d = {}"
  using assms region_offset [of a b n r] region_offset [of c d n l] by (auto simp: area_def apart_def)

lemma ring_joins_frame:
  assumes "same_except A m m'" "region p 16 \<inter> A = {}"
  shows "ring_joins m' p n = ring_joins m p n"
proof -
  have sub: "region (p + of_nat k) j \<inter> A = {}" if "k + j \<le> 16" for k j using region_offset [OF that, of p] assms(2) by blast
  have "load_u64 m' (ring_sentinel p) = load_u64 m (ring_sentinel p)" "wr_idx m' p = wr_idx m p" "rd_idx m' p = rd_idx m p"
    using load_u64_same_except [OF assms(1) sub [of 0 8]] load_u32_same_except [OF assms(1) sub [of 8 4]]
      load_u32_same_except [OF assms(1) sub [of 12 4]] by (simp_all add: ring_offsets wr_idx_def rd_idx_def)
  then show ?thesis by (simp add: ring_joins_def)
qed

lemma queue_up_frame:
  assumes "same_except A m m'" "region (push_ring q) (ring_bytes q) \<inter> A = {}" "region (pop_ring q) (ring_bytes q) \<inter> A = {}"
    and "queue_up q m"
  shows "queue_up q m'" "tx_bds m' q = tx_bds m q" "rx_bds m' q = rx_bds m q"
    "load_u64 m' (ring_sentinel (pop_ring q)) = load_u64 m (ring_sentinel (pop_ring q))"
proof -
  have sub: "region (p + of_nat k) j \<inter> A = {}" if "k + j \<le> 16" "p = push_ring q \<or> p = pop_ring q" for k j p
  proof -
    have "k + j \<le> ring_bytes q" using that(1) ring_bytes_ge [of q] by linarith
    from region_offset [OF this, of p] that(2) assms(2,3) show ?thesis by blast
  qed
  have idx: "wr_idx m' p = wr_idx m p" "rd_idx m' p = rd_idx m p" "load_u64 m' (ring_sentinel p) = load_u64 m (ring_sentinel p)"
    if "p = push_ring q \<or> p = pop_ring q" for p
    using load_u64_same_except [OF assms(1) sub [of 0 8, OF _ that]] load_u32_same_except [OF assms(1) sub [of 8 4, OF _ that]]
      load_u32_same_except [OF assms(1) sub [of 12 4, OF _ that]] by (simp_all add: ring_offsets wr_idx_def rd_idx_def)
  show "queue_up q m'" using assms(4) idx by (simp add: queue_up_def queue_wf_def same_except_mapped [OF assms(1)])
  show "tx_bds m' q = tx_bds m q" "rx_bds m' q = rx_bds m q"
    using queue_frame(2,3) [OF assms(1-3)] assms(4) by (simp_all add: queue_up_def tx_bds_def rx_bds_def)
  show "load_u64 m' (ring_sentinel (pop_ring q)) = load_u64 m (ring_sentinel (pop_ring q))" by (rule idx(3)) simp
qed

section \<open>The space that a configuration takes\<close>

definition ring_space :: "nat \<Rightarrow> nat" where
  "ring_space n = 16 + (n + 1) * 8"

definition pool_space :: "ipc_shm_pool_cfg \<Rightarrow> nat" where
  "pool_space cfg = ring_space (unat (pcfg_num_bufs cfg)) + unat (pcfg_num_bufs cfg) * unat (pcfg_buf_size cfg)"

definition pool_cfg_ok :: "ipc_shm_pool_cfg \<Rightarrow> bool" where
  "pool_cfg_ok cfg \<longleftrightarrow> pcfg_num_bufs cfg \<noteq> 0 \<and> pcfg_num_bufs cfg \<le> IPC_SHM_MAX_BUFS_PER_POOL"

lemma pool_num_le: "pool_cfg_ok cfg \<Longrightarrow> unat (pcfg_num_bufs cfg) \<le> 4096"
  by (simp add: pool_cfg_ok_def IPC_SHM_MAX_BUFS_PER_POOL_def word_le_nat_alt)

lemma pool_num_suc: "pool_cfg_ok cfg \<Longrightarrow> unat (pcfg_num_bufs cfg + 1) = unat (pcfg_num_bufs cfg) + 1"
  using pool_num_le [of cfg] by (simp add: unat_word_ariths)

lemma queue_mem_size_unat: "elem_size q = 8 \<Longrightarrow> unat (ipc_queue_mem_size q) = ring_bytes q"
proof -
  assume e: "elem_size q = 8"
  have le: "unat (elem_num q) < 2 ^ 16" using unat_less [of "elem_num q"] by simp
  have "unat (ucast (elem_num q) * ucast (elem_size q) :: u32) = unat (elem_num q) * 8"
    using le e by (subst unat_mult_lem [THEN iffD1]) (simp_all add: unat_ucast_up)
  then show ?thesis
    using le e by (subst ipc_queue_mem_size_def, subst unat_add_lem [THEN iffD1]) (simp_all add: ring_bytes_def sizeof_ipc_ring_def)
qed

lemma pool_queue_bytes:
  assumes "pool_cfg_ok cfg"
  shows "ring_bytes (queue_of (pool_queue_data addr cfg)) = ring_space (unat (pcfg_num_bufs cfg))"
    "unat (ipc_queue_mem_size (queue_of (pool_queue_data addr cfg))) = ring_space (unat (pcfg_num_bufs cfg))"
  using pool_num_suc [OF assms] by (simp_all add: queue_mem_size_unat ring_bytes_def ring_space_def sizeof_ipc_ring_def)

lemma pool_size:
  assumes "pool_cfg_ok cfg" "pool_space cfg < 2 ^ 32"
  shows "unat (pl_shm_size (pool_of addr cfg)) = pool_space cfg"
    and "(ucast (pl_shm_size (pool_of addr cfg)) :: u64) = of_nat (pool_space cfg)"
proof -
  have "unat (pcfg_buf_size cfg * ucast (pcfg_num_bufs cfg)) = unat (pcfg_num_bufs cfg) * unat (pcfg_buf_size cfg)"
    using assms(2) by (subst unat_mult_lem [THEN iffD1]) (simp_all add: unat_ucast_up pool_space_def mult.commute)
  then show *: "unat (pl_shm_size (pool_of addr cfg)) = pool_space cfg"
    using assms pool_queue_bytes [OF assms(1), of addr]
    by (simp add: pool_of_def Let_def, subst unat_add_lem [THEN iffD1]) (simp_all add: pool_space_def)
  show "(ucast (pl_shm_size (pool_of addr cfg)) :: u64) = of_nat (pool_space cfg)"
    by (metis * of_nat_unat)
qed

section \<open>The pools of a channel\<close>

definition after_pool :: "ipc_shm_pool_addr \<Rightarrow> nat \<Rightarrow> ipc_shm_pool_addr" where
  "after_pool a n = \<lparr>local_pool_shm = local_pool_shm a + of_nat n, remote_pool_shm = remote_pool_shm a + of_nat n\<rparr>"

fun pool_list :: "ipc_shm_pool_addr \<Rightarrow> ipc_shm_pool_cfg list \<Rightarrow> ipc_shm_pool list" where
  "pool_list a [] = []"
| "pool_list a (x # xs) = pool_of a x # pool_list (after_pool a (pool_space x)) xs"

fun pools_join :: "memory \<Rightarrow> u64 \<Rightarrow> ipc_shm_pool_cfg list \<Rightarrow> bool" where
  "pools_join m r [] = True"
| "pools_join m r (x # xs) = (ring_joins m r (unat (pcfg_num_bufs x) + 1) \<and> pools_join m (r + of_nat (pool_space x)) xs)"

definition pools_space :: "ipc_shm_pool_cfg list \<Rightarrow> nat" where
  "pools_space xs = sum_list (map pool_space xs)"

lemma pools_space_simps [simp]: "pools_space [] = 0" "pools_space (x # xs) = pool_space x + pools_space xs"
  by (simp_all add: pools_space_def)

lemma after_pool_sel [simp]:
  "local_pool_shm (after_pool a n) = local_pool_shm a + of_nat n" "remote_pool_shm (after_pool a n) = remote_pool_shm a + of_nat n"
  by (simp_all add: after_pool_def)

lemma length_pool_list [simp]: "length (pool_list a xs) = length xs"
  by (induction xs arbitrary: a) auto

lemma ring_space_le: "ring_space (unat (pcfg_num_bufs x)) \<le> pool_space x" "16 \<le> ring_space n"
  by (simp_all add: pool_space_def ring_space_def)

lemma pools_join_frame:
  "same_except A m m' \<Longrightarrow> region r (pools_space xs) \<inter> A = {} \<Longrightarrow> pools_join m' r xs = pools_join m r xs"
proof (induction xs arbitrary: r)
  case (Cons x xs)
  have "region r 16 \<subseteq> region r (pools_space (x # xs))"
    by (rule region_mono) (use ring_space_le(1) [of x] ring_space_le(2) [of "unat (pcfg_num_bufs x)"] in simp)
  moreover have "region (r + of_nat (pool_space x)) (pools_space xs) \<subseteq> region r (pools_space (x # xs))"
    by (rule region_offset) simp
  ultimately have "region r 16 \<inter> A = {}" "region (r + of_nat (pool_space x)) (pools_space xs) \<inter> A = {}"
    using Cons.prems(2) by blast+
  then show ?case using Cons.IH [OF Cons.prems(1)] ring_joins_frame [OF Cons.prems(1)] by simp
qed simp

lemma pool_up_frame:
  assumes "same_except A m m'" "pool_up k pool m" "region (push_ring (pl_bd_queue pool)) (ring_bytes (pl_bd_queue pool)) \<inter> A = {}"
    "region (pop_ring (pl_bd_queue pool)) (ring_bytes (pl_bd_queue pool)) \<inter> A = {}"
  shows "pool_up k pool m'"
  using assms queue_up_frame [OF assms(1,3,4)] by (simp add: pool_up_def)

lemma word_fits:
  assumes "unat l + n \<le> unat (local :: u64) + unat (sz :: u32)" "unat local + unat sz < 2 ^ 64"
  shows "l + of_nat n \<le> local + ucast sz"
proof -
  have "unat (local + ucast sz) = unat local + unat sz"
    using assms(2) by (subst unat_add_lem [THEN iffD1]) (simp_all add: unat_ucast_up)
  moreover have "unat (l + of_nat n) = unat l + n" using assms by (intro unat_plus_of_nat) simp
  ultimately show ?thesis using assms(1) by (simp add: word_le_nat_alt)
qed

lemma rings_in_area:
  assumes "area l r n m" "ring_bytes q \<le> n" "push_ring q = l" "pop_ring q = r"
  shows "rings_mapped q m"
  using area_sub [OF assms(1), of 0 "ring_bytes q"] assms(2-4) by (auto simp: rings_mapped_def area_def)

lemma managed_lookup:
  assumes "get_channel_priv i c st = Some ch" "ch_type ch = IPC_SHM_MANAGED" "priv_at i st = Some pv" "unat c < unat (pv_num_channels pv)"
  shows "get_managed_chan i c st = Some (Some (ch_mng ch))"
  using assms by (simp add: get_managed_chan_def get_chan_in)

definition put_pools :: "nat \<Rightarrow> ipc_shm_pool list \<Rightarrow> ipc_shm_channel \<Rightarrow> ipc_shm_channel" where
  "put_pools k ps ch = ch\<lparr>ch_mng := (ch_mng ch)\<lparr>mc_pools := take k (mc_pools (ch_mng ch)) @ ps @ drop (k + length ps) (mc_pools (ch_mng ch))\<rparr>\<rparr>"

lemma put_pools_Nil: "put_pools k [] ch = ch"
  by (simp add: put_pools_def)

lemma put_pools_Cons:
  assumes "k < length (mc_pools (ch_mng ch))"
  shows "put_pools (Suc k) ps (ch\<lparr>ch_mng := (ch_mng ch)\<lparr>mc_pools := (mc_pools (ch_mng ch))[k := p]\<rparr>\<rparr>) = put_pools k (p # ps) ch"
  using assms by (simp add: put_pools_def take_Suc_conv_app_nth take_update_cancel drop_update_cancel)

lemma init_pools_ok:
  assumes "get_channel_priv i c st = Some ch" "ch_type ch = IPC_SHM_MANAGED" "priv_at i st = Some pv" "unat c < unat (pv_num_channels pv)"
    and "drop k pools = xs" "k + length xs \<le> length (mc_pools (ch_mng ch))" "k + length xs = n" "list_all pool_cfg_ok xs"
    and "area (local_pool_shm a) (remote_pool_shm a) (pools_space xs) (st_mem st)" "pools_join (st_mem st) (remote_pool_shm a) xs"
    and "os_get_local_shm P i (st_env st) = Some local" "pools_space xs < 2 ^ 32"
    and "unat (local_pool_shm a) + pools_space xs \<le> unat local + unat (pv_shm_size pv)" "unat local + unat (pv_shm_size pv) < 2 ^ 64"
  shows "\<exists>m'. init_pools P i c pools [k..<n] a st = Some (0, (put_chan i c (put_pools k (pool_list a xs) ch) st)\<lparr>st_mem := m'\<rparr>) \<and>
     (\<forall>j < length xs. pool_up (k + j) (pool_list a xs ! j) m') \<and> same_except (region (local_pool_shm a) (pools_space xs)) (st_mem st) m'"
  using assms
proof (induction xs arbitrary: k a st ch pv)
  case Nil
  then show ?case by (intro exI [of _ "st_mem st"]) (simp add: put_pools_Nil)
next
  case (Cons x xs)
  let ?l = "local_pool_shm a" and ?r = "remote_pool_shm a" and ?q = "queue_of (pool_queue_data a x)" and ?s = "pool_space x"
  note pr = Cons.prems
  have ok: "pool_cfg_ok x" using pr(8) by simp
  have k: "k < length (mc_pools (ch_mng ch))" "k < length pools" "pools ! k = x" "drop (Suc k) pools = xs"
    using pr(5,6) by (auto simp: drop_Suc tl_drop nth_via_drop dest: arg_cong [where f = tl] arg_cong [where f = length])
  have rb: "ring_bytes ?q = ring_space (unat (pcfg_num_bufs x))" by (rule pool_queue_bytes(1) [OF ok])
  have sz: "(ucast (pl_shm_size (pool_of a x)) :: u64) = of_nat ?s" by (rule pool_size(2) [OF ok]) (use pr(12) in simp)
  have gm: "get_managed_chan i c st = Some (Some (ch_mng ch))" by (rule managed_lookup [OF pr(1-4)])
  have gp: "get_pool i c k st = Some (mc_pools (ch_mng ch) ! k)" using pr(1) k(1) by (simp add: get_pool_def)
  have rm: "rings_mapped ?q (st_mem st)"
    by (rule rings_in_area [OF pr(9)]) (use rb ring_space_le(1) [of x] in simp_all)
  have join: "ring_joins (st_mem st) ?r (unat (elem_num ?q))" using pr(10) pool_num_suc [OF ok] by simp
  have fits: "?l + ucast (pl_shm_size (pool_of a x)) \<le> local + ucast (pv_shm_size pv)"
    unfolding sz by (rule word_fits) (use pr(13,14) in simp_all)
  let ?ch1 = "ch\<lparr>ch_mng := (ch_mng ch)\<lparr>mc_pools := (mc_pools (ch_mng ch))[k := pool_of a x]\<rparr>\<rparr>"
  from pool_init_ok [OF gm gp pr(3,11) refl rm join _ _ fits] ok upd_pool_put [OF pr(1) k(1)] obtain m1 where
    m1: "ipc_buf_pool_init P i c k a x st = Some (0, (put_chan i c ?ch1 st)\<lparr>st_mem := m1\<rparr>)" "pool_up k (pool_of a x) m1"
      "same_except (region ?l (ring_bytes ?q)) (st_mem st) m1" by (auto simp: pool_cfg_ok_def)
  let ?st1 = "(put_chan i c ?ch1 st)\<lparr>st_mem := m1\<rparr>"
  have gc1: "get_channel_priv i c ?st1 = Some ?ch1" using get_put_chan [OF pr(1)] by simp
  have gp1: "get_pool i c k ?st1 = Some (pool_of a x)" using gc1 k(1) by (simp add: get_pool_def)
  let ?pv1 = "pv\<lparr>pv_channels := (pv_channels pv)[unat c := ?ch1]\<rparr>"
  have pv1: "priv_at i ?st1 = Some ?pv1" using priv_put_chan [OF pr(1,3)] by simp
  have se: "same_except (region ?l ?s) (st_mem st) m1"
    by (rule same_except_mono [OF m1(3) region_mono]) (use rb ring_space_le(1) [of x] in simp)
  have ar: "area (?l + of_nat ?s) (?r + of_nat ?s) (pools_space xs) m1"
    using area_sub [OF pr(9), of ?s "pools_space xs"] area_frame [OF se] by simp
  have jn: "pools_join m1 (?r + of_nat ?s) xs"
    using pools_join_frame [OF se, of "?r + of_nat ?s" xs] area_cross [OF pr(9), of ?s "pools_space xs" 0 ?s] pr(10) by simp
  have "unat (?l + of_nat ?s) = unat ?l + ?s" by (rule unat_plus_of_nat) (use pr(13,14) in simp)
  then have IH: "\<exists>m'. init_pools P i c pools [Suc k..<n] (after_pool a ?s) ?st1 =
        Some (0, (put_chan i c (put_pools (Suc k) (pool_list (after_pool a ?s) xs) ?ch1) ?st1)\<lparr>st_mem := m'\<rparr>) \<and>
     (\<forall>j < length xs. pool_up (Suc k + j) (pool_list (after_pool a ?s) xs ! j) m') \<and>
     same_except (region (local_pool_shm (after_pool a ?s)) (pools_space xs)) (st_mem ?st1) m'"
    using pr(6-8,11-14) ar jn k(4) pr(2,4) by (intro Cons.IH [OF gc1 _ pv1]) simp_all
  then obtain m' where m': "init_pools P i c pools [Suc k..<n] (after_pool a ?s) ?st1 =
        Some (0, (put_chan i c (put_pools k (pool_list a (x # xs)) ch) st)\<lparr>st_mem := m'\<rparr>)"
     "\<forall>j < length xs. pool_up (Suc k + j) (pool_list (after_pool a ?s) xs ! j) m'"
     "same_except (region (?l + of_nat ?s) (pools_space xs)) m1 m'"
    using put_pools_Cons [OF k(1), of "pool_list (after_pool a ?s) xs" "pool_of a x"] pr(1) by (auto simp: put_chan_mem)
  have run: "init_pools P i c pools [k..<n] a st = init_pools P i c pools [Suc k..<n] (after_pool a ?s) ?st1"
    using m1(1) gp1 k pr(7) sz by (subst upt_conv_Cons) (simp_all add: after_pool_def)
  have "pool_up k (pool_of a x) m'"
  proof (rule pool_up_frame [OF m'(3) m1(2)])
    have b: "0 + ring_bytes ?q \<le> ?s" using rb ring_space_le(1) [of x] by simp
    show "region (push_ring (pl_bd_queue (pool_of a x))) (ring_bytes (pl_bd_queue (pool_of a x))) \<inter> region (?l + of_nat ?s) (pools_space xs) = {}"
      using area_split [OF pr(9) b, of "pools_space xs"] by simp
    show "region (pop_ring (pl_bd_queue (pool_of a x))) (ring_bytes (pl_bd_queue (pool_of a x))) \<inter> region (?l + of_nat ?s) (pools_space xs) = {}"
      using area_cross [OF pr(9), of 0 "ring_bytes ?q" ?s "pools_space xs"] b by simp
  qed
  moreover have "same_except (region ?l (pools_space (x # xs))) (st_mem st) m'"
    using same_except_mono [OF se region_mono, of "pools_space (x # xs)"]
      same_except_mono [OF m'(3) region_offset [of ?s "pools_space xs" "pools_space (x # xs)" ?l]]
    by (auto intro: same_except_trans)
  ultimately show ?case using run m'(1,2) by (auto simp: nth_Cons less_Suc_eq_0_disj split: nat.split)
qed

section \<open>Managed channels\<close>

definition total_bufs :: "ipc_shm_pool_cfg list \<Rightarrow> nat" where
  "total_bufs xs = sum_list (map (\<lambda>x. unat (pcfg_num_bufs x)) xs)"

definition pools_ok :: "ipc_shm_pool_cfg list \<Rightarrow> bool" where
  "pools_ok xs \<longleftrightarrow> xs \<noteq> [] \<and> length xs \<le> IPC_SHM_MAX_POOLS \<and> list_all pool_cfg_ok xs \<and>
     sorted (map (\<lambda>x. unat (pcfg_buf_size x)) xs) \<and> total_bufs xs \<le> unat IPC_SHM_MAX_BUFS_PER_CHANNEL"

definition managed_space :: "ipc_shm_pool_cfg list \<Rightarrow> nat" where
  "managed_space xs = ring_space (total_bufs xs) + pools_space xs"

definition chan_queue :: "u64 \<Rightarrow> u64 \<Rightarrow> ipc_shm_pool_cfg list \<Rightarrow> ipc_queue" where
  "chan_queue l r xs = queue_of (chan_queue_data l r (of_nat (total_bufs xs)))"

definition pools_addr :: "u64 \<Rightarrow> u64 \<Rightarrow> ipc_shm_pool_cfg list \<Rightarrow> ipc_shm_pool_addr" where
  "pools_addr l r xs = after_pool \<lparr>local_pool_shm = l, remote_pool_shm = r\<rparr> (ring_space (total_bufs xs))"

definition managed_conf :: "u64 \<Rightarrow> u64 \<Rightarrow> ipc_shm_managed_cfg \<Rightarrow> ipc_shm_pool_cfg list \<Rightarrow> ipc_shm_channel \<Rightarrow> ipc_shm_channel" where
  "managed_conf l r cfg xs ch = put_pools 0 (pool_list (pools_addr l r xs) xs)
     (ch\<lparr>ch_mng := (ch_mng ch)\<lparr>mc_rx_cb := mcfg_rx_cb cfg, mc_cb_arg := mcfg_cb_arg cfg,
        mc_num_pools := ucast (mcfg_num_pools cfg), mc_bd_queue := chan_queue l r xs\<rparr>\<rparr>)"

definition managed_joins :: "memory \<Rightarrow> u64 \<Rightarrow> ipc_shm_pool_cfg list \<Rightarrow> bool" where
  "managed_joins m r xs \<longleftrightarrow> ring_joins m r (total_bufs xs + 1) \<and> pools_join m (r + of_nat (ring_space (total_bufs xs))) xs"

definition managed_up :: "u64 \<Rightarrow> u64 \<Rightarrow> ipc_shm_pool_cfg list \<Rightarrow> memory \<Rightarrow> bool" where
  "managed_up l r xs m \<longleftrightarrow> queue_up (chan_queue l r xs) m \<and> tx_bds m (chan_queue l r xs) = [] \<and> rx_bds m (chan_queue l r xs) = [] \<and>
     (\<forall>j < length xs. pool_up j (pool_list (pools_addr l r xs) xs ! j) m)"

lemma total_bufs_simps [simp]: "total_bufs [] = 0" "total_bufs (x # xs) = unat (pcfg_num_bufs x) + total_bufs xs"
  by (simp_all add: total_bufs_def)

lemma total_loop:
  assumes "drop k pools = xs" "sorted (map (\<lambda>x. unat (pcfg_buf_size x)) xs)" "\<forall>x \<in> set xs. unat prev \<le> unat (pcfg_buf_size x)"
    "unat tot + total_bufs xs \<le> unat IPC_SHM_MAX_BUFS_PER_CHANNEL" "k + length xs = n"
  shows "total_bufs_loop pools [k..<n] prev tot = Some (tot + of_nat (total_bufs xs))"
  using assms
proof (induction xs arbitrary: k prev tot)
  case (Cons x xs)
  have k: "k < length pools" "pools ! k = x" "drop (Suc k) pools = xs"
    using Cons.prems(1) by (auto simp: drop_Suc tl_drop nth_via_drop dest: arg_cong [where f = tl] arg_cong [where f = length])
  have "unat (tot + ucast (pcfg_num_bufs x)) = unat tot + unat (pcfg_num_bufs x)"
    using Cons.prems(4) by (subst unat_add_lem [THEN iffD1]) (simp_all add: limit_defs unat_ucast_up)
  moreover from this have "total_bufs_loop pools [Suc k..<n] (pcfg_buf_size x) (tot + ucast (pcfg_num_bufs x)) =
      Some (tot + ucast (pcfg_num_bufs x) + of_nat (total_bufs xs))"
    using Cons.prems k(3) by (intro Cons.IH) simp_all
  moreover have "(of_nat (unat (pcfg_num_bufs x)) :: u32) = ucast (pcfg_num_bufs x)" by simp
  ultimately show ?case
    using Cons.prems(3-5) k(1,2) by (subst upt_conv_Cons) (simp_all add: word_less_nat_alt algebra_simps not_less)
qed simp

lemma chan_total:
  assumes "pools_ok xs"
  shows "0 < total_bufs xs" "total_bufs xs \<le> 65534" "unat (of_nat (total_bufs xs) :: u32) = total_bufs xs"
proof -
  show le: "total_bufs xs \<le> 65534" using assms by (simp add: pools_ok_def limit_defs)
  from assms obtain x ys where x: "xs = x # ys" "pool_cfg_ok x" by (cases xs) (auto simp: pools_ok_def)
  then show "0 < total_bufs xs" by (simp add: pool_cfg_ok_def unat_gt_0)
  show "unat (of_nat (total_bufs xs) :: u32) = total_bufs xs" using le by (simp add: unat_of_nat take_bit_nat_eq_self)
qed

lemma chan_queue_sel:
  assumes "pools_ok xs"
  shows "elem_size (chan_queue l r xs) = 8" "unat (elem_num (chan_queue l r xs)) = total_bufs xs + 1"
    "push_ring (chan_queue l r xs) = l" "pop_ring (chan_queue l r xs) = r" "ring_bytes (chan_queue l r xs) = ring_space (total_bufs xs)"
    "qd_ok (chan_queue_data l r (of_nat (total_bufs xs))) \<longleftrightarrow> l \<noteq> 0 \<and> r \<noteq> 0"
proof -
  note t = chan_total [OF assms]
  have n: "unat (ucast (of_nat (total_bufs xs) :: u32) :: u16) = total_bufs xs"
    using t by (simp add: unsigned_ucast_eq take_bit_nat_eq_self)
  show e: "elem_size (chan_queue l r xs) = 8" "push_ring (chan_queue l r xs) = l" "pop_ring (chan_queue l r xs) = r"
    by (simp_all add: chan_queue_def chan_queue_data_def sizeof_ipc_shm_bd_def)
  show s: "unat (elem_num (chan_queue l r xs)) = total_bufs xs + 1"
    using n t(2) by (simp add: chan_queue_def chan_queue_data_def, subst unat_add_lem [THEN iffD1]) simp_all
  show "ring_bytes (chan_queue l r xs) = ring_space (total_bufs xs)"
    using s e by (simp add: ring_bytes_def ring_space_def sizeof_ipc_ring_def)
  have "(ucast (of_nat (total_bufs xs) :: u32) :: u16) \<noteq> 0" using n t(1) by (metis less_numeral_extra(3) unat_0)
  then show "qd_ok (chan_queue_data l r (of_nat (total_bufs xs))) \<longleftrightarrow> l \<noteq> 0 \<and> r \<noteq> 0"
    by (simp add: qd_ok_def chan_queue_data_def sizeof_ipc_shm_bd_def)
qed

text \<open>The queue of a channel, initialised and published.\<close>

lemma chan_queue_start:
  assumes ok: "pools_ok xs" and ar: "area l r n m" "ring_space (total_bufs xs) \<le> n" and jn: "ring_joins m r (total_bufs xs + 1)"
  shows "\<exists>m1 m2. ipc_queue_init (Some q0) (chan_queue_data l r (of_nat (total_bufs xs))) m = Some (0, Some (chan_queue l r xs), m1) \<and>
     store_u64 (ring_sentinel l) IPC_QUEUE_INIT_DONE m1 = Some m2 \<and> queue_up (chan_queue l r xs) m2 \<and>
     tx_bds m2 (chan_queue l r xs) = [] \<and> rx_bds m2 (chan_queue l r xs) = [] \<and> same_except (region l (ring_space (total_bufs xs))) m m2"
proof -
  let ?q = "chan_queue l r xs"
  note q = chan_queue_sel [OF ok, of l r]
  have rm: "rings_mapped ?q m" by (rule rings_in_area [OF ar(1)]) (use ar(2) q in simp_all)
  from jn obtain s where s: "load_u64 m (ring_sentinel (pop_ring ?q)) = Some s" "s \<noteq> IPC_QUEUE_INIT_IN_PROGRESS"
    "wr_idx m (pop_ring ?q) < unat (elem_num ?q)" "rd_idx m (pop_ring ?q) < unat (elem_num ?q)"
    "s \<noteq> IPC_QUEUE_INIT_DONE \<Longrightarrow> wr_idx m (pop_ring ?q) = 0 \<and> rd_idx m (pop_ring ?q) = 0"
    using q by (auto simp: ring_joins_def)
  from sync_lists [OF rm s, of IPC_SHM_CHANNEL_QUEUE] obtain m1 where
    m1: "ipc_queue_sync_index ?q IPC_SHM_CHANNEL_QUEUE m = Some (0, m1)" "queue_wf ?q m1" "tx_list m1 ?q = []" "rx_list m1 ?q = []"
      "same_except (region (push_ring ?q) sizeof_ipc_ring) m m1" by auto
  have se: "same_except (region l (ring_space (total_bufs xs))) m m1"
    by (rule same_except_mono [OF m1(5) [unfolded q]]) (simp add: region_mono sizeof_ipc_ring_def ring_space_def)
  from publish_ok [OF m1(2), of IPC_QUEUE_INIT_DONE] obtain m2 where
    m2: "store_u64 (ring_sentinel l) IPC_QUEUE_INIT_DONE m1 = Some m2" "load_u64 m2 (ring_sentinel l) = Some IPC_QUEUE_INIT_DONE"
      "queue_wf ?q m2" "tx_bds m2 ?q = tx_bds m1 ?q" "rx_bds m2 ?q = rx_bds m1 ?q" "same_except (region l (ring_space (total_bufs xs))) m1 m2"
    unfolding q by blast
  have "l \<noteq> 0 \<and> r \<noteq> 0" using ar(1) by (auto simp: area_def)
  then have "ipc_queue_init (Some q0) (chan_queue_data l r (of_nat (total_bufs xs))) m = Some (0, Some ?q, m1)"
    using q(6) m1(1) by (simp add: init_eq chan_queue_def chan_queue_data_def)
  then show ?thesis using m1(3,4) m2 q same_except_trans [OF se m2(6)] by (auto simp: queue_up_def tx_bds_def rx_bds_def)
qed

lemma managed_init_ok:
  assumes gc: "get_channel_priv i c st = Some ch" "ch_type ch = IPC_SHM_MANAGED" and pv: "priv_at i st = Some pv" "unat c < unat (pv_num_channels pv)"
    and len: "length (mc_pools (ch_mng ch)) = IPC_SHM_MAX_POOLS"
    and cfg: "mcfg_rx_cb cfg \<noteq> 0" "mcfg_pools cfg = Some xs" "unat (mcfg_num_pools cfg) = length xs" "pools_ok xs"
    and ar: "area l r (managed_space xs) (st_mem st)" and jn: "managed_joins (st_mem st) r xs"
    and lo: "os_get_local_shm P i (st_env st) = Some local" and sz: "managed_space xs < 2 ^ 32"
    and fit: "unat l + managed_space xs \<le> unat local + unat (pv_shm_size pv)" "unat local + unat (pv_shm_size pv) < 2 ^ 64"
  shows "\<exists>m'. managed_channel_init P i c l r cfg st = Some (0, (put_chan i c (managed_conf l r cfg xs ch) st)\<lparr>st_mem := m'\<rparr>) \<and>
     managed_up l r xs m' \<and> same_except (region l (managed_space xs)) (st_mem st) m'"
proof -
  let ?t = "of_nat (total_bufs xs) :: u32" and ?q = "chan_queue l r xs" and ?s = "ring_space (total_bufs xs)" and ?a = "pools_addr l r xs"
  note q = chan_queue_sel [OF cfg(4), of l r] and t = chan_total [OF cfg(4)]
  have gm: "get_managed_chan i c st = Some (Some (ch_mng ch))" by (rule managed_lookup [OF gc pv])
  let ?ch1 = "ch\<lparr>ch_mng := (ch_mng ch)\<lparr>mc_rx_cb := mcfg_rx_cb cfg, mc_cb_arg := mcfg_cb_arg cfg, mc_num_pools := ucast (mcfg_num_pools cfg)\<rparr>\<rparr>"
  let ?ch2 = "ch\<lparr>ch_mng := (ch_mng ch)\<lparr>mc_rx_cb := mcfg_rx_cb cfg, mc_cb_arg := mcfg_cb_arg cfg,
      mc_num_pools := ucast (mcfg_num_pools cfg), mc_bd_queue := ?q\<rparr>\<rparr>"
  have tot: "ipc_get_total_buf_per_chan i c cfg xs st = Some (?t, put_chan i c ?ch1 st)"
    using total_loop [of 0 xs xs 0 0] cfg(3,4) by (simp add: ipc_get_total_buf_per_chan_def upd_managed_def upd_channel_put [OF gc(1)] pools_ok_def)
  have t0: "?t \<noteq> 0" using t(1,3) by (metis less_numeral_extra(3) unat_0)
  from chan_queue_start [OF cfg(4) ar _ , of "mc_bd_queue (ch_mng ch)"] jn obtain m1 m2 where
    m: "ipc_queue_init (Some (mc_bd_queue (ch_mng ch))) (chan_queue_data l r ?t) (st_mem st) = Some (0, Some ?q, m1)"
      "store_u64 (ring_sentinel l) IPC_QUEUE_INIT_DONE m1 = Some m2" "queue_up ?q m2" "tx_bds m2 ?q = []" "rx_bds m2 ?q = []"
      "same_except (region l ?s) (st_mem st) m2"
    by (auto simp: managed_space_def managed_joins_def)
  let ?st3 = "(put_chan i c ?ch2 st)\<lparr>st_mem := m2\<rparr>" and ?pv3 = "pv\<lparr>pv_channels := (pv_channels pv)[unat c := ?ch2]\<rparr>"
  have gc3: "get_channel_priv i c ?st3 = Some ?ch2" and pv3: "priv_at i ?st3 = Some ?pv3"
    using get_put_chan [OF gc(1)] priv_put_chan [OF gc(1) pv(1)] by simp_all
  have qm: "unat (ipc_queue_mem_size ?q) = ?s" using queue_mem_size_unat [OF q(1)] q(5) by simp
  then have qs: "(ucast (ipc_queue_mem_size ?q) :: u64) = of_nat ?s" by (metis of_nat_unat)
  have ls: "unat (l + of_nat ?s) = unat l + ?s" by (rule unat_plus_of_nat) (use fit in \<open>simp add: managed_space_def\<close>)
  have ok: "l + of_nat ?s \<le> local + ucast (pv_shm_size pv)" by (rule word_fits) (use fit in \<open>simp_all add: managed_space_def\<close>)
  have run: "managed_channel_init P i c l r cfg st = init_pools P i c xs [0..<length xs] ?a ?st3"
  proof -
    have "length xs \<le> IPC_SHM_MAX_POOLS" using cfg(4) by (simp add: pools_ok_def)
    moreover have "get_channel_priv i c ((put_chan i c ?ch1 st)\<lparr>st_mem := m1\<rparr>) = Some ?ch1" using get_put_chan [OF gc(1), of ?ch1] by simp
    then have "upd_managed i c (\<lambda>mc. mc\<lparr>mc_bd_queue := ?q\<rparr>) ((put_chan i c ?ch1 st)\<lparr>st_mem := m1\<rparr>) = Some ((put_chan i c ?ch2 st)\<lparr>st_mem := m1\<rparr>)"
      by (simp add: upd_managed_def upd_channel_put put_put_chan [OF gc(1)])
    ultimately show ?thesis
      using gm cfg(1-3) tot t0 m(1,2) get_put_chan [OF gc(1), of ?ch1] pv3 lo ok
      by (simp add: managed_channel_init_def upd_mem_def Let_def q qs pools_addr_def after_pool_def not_less)
  qed
  have ar3: "area (local_pool_shm ?a) (remote_pool_shm ?a) (pools_space xs) m2"
    using area_sub [OF ar, of ?s "pools_space xs"] area_frame [OF m(6)] by (simp add: managed_space_def pools_addr_def)
  have jn3: "pools_join m2 (remote_pool_shm ?a) xs"
    using pools_join_frame [OF m(6), of "r + of_nat ?s" xs] area_cross [OF ar, of ?s "pools_space xs" 0 ?s] jn
    by (simp add: managed_joins_def managed_space_def pools_addr_def)
  have "\<exists>m'. init_pools P i c xs [0..<length xs] ?a ?st3 = Some (0, (put_chan i c (put_pools 0 (pool_list ?a xs) ?ch2) ?st3)\<lparr>st_mem := m'\<rparr>) \<and>
     (\<forall>j < length xs. pool_up (0 + j) (pool_list ?a xs ! j) m') \<and> same_except (region (local_pool_shm ?a) (pools_space xs)) (st_mem ?st3) m'"
    by (rule init_pools_ok [OF gc3 _ pv3]) (use gc(2) pv(2) len cfg(4) ar3 jn3 lo sz fit ls in \<open>simp_all add: pools_ok_def managed_space_def pools_addr_def\<close>)
  then obtain m' where m': "init_pools P i c xs [0..<length xs] ?a ?st3 = Some (0, (put_chan i c (managed_conf l r cfg xs ch) st)\<lparr>st_mem := m'\<rparr>)"
      "\<forall>j < length xs. pool_up j (pool_list ?a xs ! j) m'" "same_except (region (l + of_nat ?s) (pools_space xs)) m2 m'"
    by (auto simp: managed_conf_def put_put_chan [OF gc(1)] pools_addr_def)
  have "region (push_ring ?q) (ring_bytes ?q) \<inter> region (l + of_nat ?s) (pools_space xs) = {}"
    "region (pop_ring ?q) (ring_bytes ?q) \<inter> region (l + of_nat ?s) (pools_space xs) = {}"
    using area_split [OF ar, of 0 ?s ?s "pools_space xs"] area_cross [OF ar, of 0 ?s ?s "pools_space xs"] q by (simp_all add: managed_space_def)
  then have up: "managed_up l r xs m'"
    using queue_up_frame [OF m'(3) _ _ m(3)] m(4,5) m'(2) by (simp add: managed_up_def)
  have "same_except (region l (managed_space xs)) (st_mem st) m'"
    using same_except_mono [OF m(6) region_mono, of "managed_space xs"]
      same_except_mono [OF m'(3) region_offset [of ?s "pools_space xs" "managed_space xs" l]]
    by (auto intro: same_except_trans simp: managed_space_def)
  then show ?thesis using run m'(1) up by auto
qed

text \<open>The rings of the pools lie inside the area of the pools, so writes outside do not matter to them.\<close>

lemma pools_up_frame:
  assumes "same_except A m m'" "list_all pool_cfg_ok xs" "region (local_pool_shm a) (pools_space xs) \<inter> A = {}"
    "region (remote_pool_shm a) (pools_space xs) \<inter> A = {}" "\<forall>j < length xs. pool_up (k + j) (pool_list a xs ! j) m"
  shows "\<forall>j < length xs. pool_up (k + j) (pool_list a xs ! j) m'"
  using assms(2-5)
proof (induction xs arbitrary: a k)
  case (Cons x xs)
  have rb: "ring_bytes (queue_of (pool_queue_data a x)) \<le> pools_space (x # xs)"
    using pool_queue_bytes(1) [of x a] ring_space_le(1) [of x] Cons.prems(1) by simp
  have "region (local_pool_shm a) (ring_bytes (queue_of (pool_queue_data a x))) \<inter> A = {}"
    "region (remote_pool_shm a) (ring_bytes (queue_of (pool_queue_data a x))) \<inter> A = {}"
    using region_mono [OF rb] Cons.prems(2,3) by blast+
  moreover have "pool_up k (pool_of a x) m" using Cons.prems(4) by force
  ultimately have "pool_up k (pool_of a x) m'" using pool_up_frame [OF assms(1)] by simp
  moreover have "\<forall>j < length xs. pool_up (Suc k + j) (pool_list (after_pool a (pool_space x)) xs ! j) m'"
  proof (rule Cons.IH)
    show "list_all pool_cfg_ok xs" using Cons.prems(1) by simp
    show "region (local_pool_shm (after_pool a (pool_space x))) (pools_space xs) \<inter> A = {}"
      "region (remote_pool_shm (after_pool a (pool_space x))) (pools_space xs) \<inter> A = {}"
      using Cons.prems(2,3) region_offset [of "pool_space x" "pools_space xs" "pools_space (x # xs)"] by fastforce+
    show "\<forall>j < length xs. pool_up (Suc k + j) (pool_list (after_pool a (pool_space x)) xs ! j) m"
      using Cons.prems(4) by force
  qed
  ultimately show ?case by (auto simp: nth_Cons less_Suc_eq_0_disj split: nat.split)
qed simp

lemma managed_up_frame:
  assumes "same_except A m m'" "pools_ok xs" "region l (managed_space xs) \<inter> A = {}" "region r (managed_space xs) \<inter> A = {}" "managed_up l r xs m"
  shows "managed_up l r xs m'"
proof -
  note q = chan_queue_sel [OF assms(2), of l r]
  have "region l (ring_space (total_bufs xs)) \<subseteq> region l (managed_space xs)" "region r (ring_space (total_bufs xs)) \<subseteq> region r (managed_space xs)"
    by (rule region_mono, simp add: managed_space_def)+
  then have "region (push_ring (chan_queue l r xs)) (ring_bytes (chan_queue l r xs)) \<inter> A = {}"
    "region (pop_ring (chan_queue l r xs)) (ring_bytes (chan_queue l r xs)) \<inter> A = {}" using assms(3,4) unfolding q by blast+
  from queue_up_frame [OF assms(1) this] assms(5) have "queue_up (chan_queue l r xs) m'" "tx_bds m' (chan_queue l r xs) = []" "rx_bds m' (chan_queue l r xs) = []"
    by (simp_all add: managed_up_def)
  moreover have "region (local_pool_shm (pools_addr l r xs)) (pools_space xs) \<subseteq> region l (managed_space xs)"
    "region (remote_pool_shm (pools_addr l r xs)) (pools_space xs) \<subseteq> region r (managed_space xs)"
    unfolding pools_addr_def after_pool_sel by (simp_all, (rule region_offset, simp add: managed_space_def)+)
  then have "region (local_pool_shm (pools_addr l r xs)) (pools_space xs) \<inter> A = {}"
    "region (remote_pool_shm (pools_addr l r xs)) (pools_space xs) \<inter> A = {}" using assms(3,4) by blast+
  then have "\<forall>j < length xs. pool_up (0 + j) (pool_list (pools_addr l r xs) xs ! j) m'"
    using assms(2,5) by (intro pools_up_frame [OF assms(1)]) (simp_all add: pools_ok_def managed_up_def)
  ultimately show ?thesis by (simp add: managed_up_def)
qed

section \<open>Channels\<close>

abbreviation cfg_pools :: "ipc_shm_channel_cfg \<Rightarrow> ipc_shm_pool_cfg list" where
  "cfg_pools cf \<equiv> the (mcfg_pools (ccfg_managed cf))"

definition chan_cfg_ok :: "ipc_shm_channel_cfg \<Rightarrow> bool" where
  "chan_cfg_ok cf = (case ccfg_type cf of
     IPC_SHM_MANAGED \<Rightarrow> mcfg_rx_cb (ccfg_managed cf) \<noteq> 0 \<and> mcfg_pools (ccfg_managed cf) \<noteq> None \<and>
       unat (mcfg_num_pools (ccfg_managed cf)) = length (cfg_pools cf) \<and> pools_ok (cfg_pools cf)
   | IPC_SHM_UNMANAGED \<Rightarrow> ucfg_rx_cb (ccfg_unmanaged cf) \<noteq> 0 \<and> ucfg_size (ccfg_unmanaged cf) \<le> IPC_SHM_MAX_UMNG_SIZE
   | IPC_SHM_CHANNEL_TYPE_OTHER _ \<Rightarrow> False)"

definition chan_space :: "ipc_shm_channel_cfg \<Rightarrow> nat" where
  "chan_space cf = (case ccfg_type cf of IPC_SHM_MANAGED \<Rightarrow> managed_space (cfg_pools cf) | _ \<Rightarrow> 16 + unat (ucfg_size (ccfg_unmanaged cf)))"

definition chan_joins :: "memory \<Rightarrow> u64 \<Rightarrow> ipc_shm_channel_cfg \<Rightarrow> bool" where
  "chan_joins m r cf = (case ccfg_type cf of IPC_SHM_MANAGED \<Rightarrow> managed_joins m r (cfg_pools cf)
     | _ \<Rightarrow> load_u32 m (umem_sentinel r) \<noteq> None \<and> load_u32 m (umem_sentinel r) \<noteq> Some IPC_SHM_UCHAN_INIT_IN_PROGRESS)"

definition chan_conf :: "u8 \<Rightarrow> u64 \<Rightarrow> u64 \<Rightarrow> ipc_shm_channel_cfg \<Rightarrow> ipc_shm_channel \<Rightarrow> ipc_shm_channel" where
  "chan_conf c l r cf ch = (let ch' = ch\<lparr>ch_id := c, ch_type := ccfg_type cf\<rparr> in
     case ccfg_type cf of IPC_SHM_MANAGED \<Rightarrow> managed_conf l r (ccfg_managed cf) (cfg_pools cf) ch' | _ \<Rightarrow> uchan_conf l r (ccfg_unmanaged cf) ch')"

definition chan_up :: "u64 \<Rightarrow> u64 \<Rightarrow> ipc_shm_channel_cfg \<Rightarrow> memory \<Rightarrow> bool" where
  "chan_up l r cf m = (case ccfg_type cf of IPC_SHM_MANAGED \<Rightarrow> managed_up l r (cfg_pools cf) m
     | _ \<Rightarrow> load_u32 m (umem_sentinel l) = Some IPC_UCHAN_INIT_DONE)"

lemma chan_cases:
  assumes "chan_cfg_ok cf"
  obtains (mng) xs where "ccfg_type cf = IPC_SHM_MANAGED" "mcfg_rx_cb (ccfg_managed cf) \<noteq> 0" "mcfg_pools (ccfg_managed cf) = Some xs"
      "unat (mcfg_num_pools (ccfg_managed cf)) = length xs" "pools_ok xs" "chan_space cf = managed_space xs"
  | (umng) "ccfg_type cf = IPC_SHM_UNMANAGED" "ucfg_rx_cb (ccfg_unmanaged cf) \<noteq> 0" "ucfg_size (ccfg_unmanaged cf) \<le> IPC_SHM_MAX_UMNG_SIZE"
      "chan_space cf = 16 + unat (ucfg_size (ccfg_unmanaged cf))"
  using assms by (auto simp: chan_cfg_ok_def chan_space_def split: ipc_shm_channel_type.splits)

lemma chan_up_frame:
  assumes "same_except A m m'" "chan_cfg_ok cf" "region l (chan_space cf) \<inter> A = {}" "region r (chan_space cf) \<inter> A = {}" "chan_up l r cf m"
  shows "chan_up l r cf m'"
  using assms(2)
proof (cases rule: chan_cases)
  case (mng xs)
  then show ?thesis using managed_up_frame [OF assms(1) mng(5)] assms(3-5) by (simp add: chan_up_def)
next
  case umng
  have "region l 4 \<subseteq> region l (chan_space cf)" by (rule region_mono) (simp add: umng)
  then have "region (umem_sentinel l) 4 \<inter> A = {}" using assms(3) by (auto simp: umem_sentinel_def)
  from load_u32_same_except [OF assms(1) this] show ?thesis using assms(5) umng(1) by (simp add: chan_up_def)
qed

lemma managed_joins_frame:
  assumes "same_except A m m'" "region r (managed_space xs) \<inter> A = {}"
  shows "managed_joins m' r xs = managed_joins m r xs"
proof -
  have "region r 16 \<subseteq> region r (managed_space xs)" by (rule region_mono) (simp add: managed_space_def ring_space_def)
  moreover have "region (r + of_nat (ring_space (total_bufs xs))) (pools_space xs) \<subseteq> region r (managed_space xs)"
    by (rule region_offset) (simp add: managed_space_def)
  ultimately have "region r 16 \<inter> A = {}" "region (r + of_nat (ring_space (total_bufs xs))) (pools_space xs) \<inter> A = {}" using assms(2) by blast+
  then show ?thesis using ring_joins_frame [OF assms(1)] pools_join_frame [OF assms(1)] by (simp add: managed_joins_def)
qed

lemma chan_joins_frame:
  assumes "same_except A m m'" "chan_cfg_ok cf" "region r (chan_space cf) \<inter> A = {}"
  shows "chan_joins m' r cf = chan_joins m r cf"
  using assms(2)
proof (cases rule: chan_cases)
  case (mng xs)
  then show ?thesis using managed_joins_frame [OF assms(1)] assms(3) by (simp add: chan_joins_def)
next
  case umng
  have "region r 4 \<subseteq> region r (chan_space cf)" by (rule region_mono) (simp add: umng)
  then have "region (umem_sentinel r) 4 \<inter> A = {}" using assms(3) by (auto simp: umem_sentinel_def)
  from load_u32_same_except [OF assms(1) this] show ?thesis using umng(1) by (simp add: chan_joins_def)
qed

end
