(* ===== verification/Shm_Start.thy ===== *)
theory Shm_Start
  imports Shm_Setup
begin

text \<open>
  Initialisation of a whole instance whose configuration fits its shared memory, and of both sides one
  after the other.
\<close>

section \<open>One channel\<close>

lemma pool_sizes:
  assumes "list_all pool_cfg_ok xs" "pools_space xs < 2 ^ 32"
  shows "unat (sum_list (map pl_shm_size (pool_list a xs))) = pools_space xs"
  using assms
proof (induction xs arbitrary: a)
  case (Cons x xs)
  then have "unat (pl_shm_size (pool_of a x)) = pool_space x" "unat (sum_list (map pl_shm_size (pool_list (after_pool a (pool_space x)) xs))) = pools_space xs"
    using pool_size(1) [of x a] by simp_all
  then show ?case using Cons.prems(2) by (simp, subst unat_add_lem [THEN iffD1]) simp_all
qed simp

lemma managed_conf_sel:
  assumes "pools_ok xs" "unat (mcfg_num_pools cfg) = length xs" "length (mc_pools (ch_mng ch)) = IPC_SHM_MAX_POOLS"
  shows "mc_bd_queue (ch_mng (managed_conf l r cfg xs ch)) = chan_queue l r xs"
    "unat (mc_num_pools (ch_mng (managed_conf l r cfg xs ch))) = length xs"
    "take (length xs) (mc_pools (ch_mng (managed_conf l r cfg xs ch))) = pool_list (pools_addr l r xs) xs"
    "length (mc_pools (ch_mng (managed_conf l r cfg xs ch))) = IPC_SHM_MAX_POOLS"
    "ch_type (managed_conf l r cfg xs ch) = ch_type ch" "ch_id (managed_conf l r cfg xs ch) = ch_id ch"
    "mc_rx_cb (ch_mng (managed_conf l r cfg xs ch)) = mcfg_rx_cb cfg" "mc_cb_arg (ch_mng (managed_conf l r cfg xs ch)) = mcfg_cb_arg cfg"
  using assms by (simp_all add: managed_conf_def put_pools_def pools_ok_def unat_ucast_up)

lemma memmap_managed:
  assumes gc: "get_channel_priv i c st = Some (managed_conf l r cfg xs ch)" "ch_type ch = IPC_SHM_MANAGED"
    and pv: "priv_at i st = Some pv" "unat c < unat (pv_num_channels pv)"
    and cfg: "pools_ok xs" "unat (mcfg_num_pools cfg) = length xs" "length (mc_pools (ch_mng ch)) = IPC_SHM_MAX_POOLS"
    and sz: "managed_space xs < 2 ^ 32"
  shows "\<exists>n. get_chan_memmap_size i c st = Some n \<and> unat n = managed_space xs"
proof -
  note s = managed_conf_sel [OF cfg, of l r]
  have ty: "ch_type (managed_conf l r cfg xs ch) = IPC_SHM_MANAGED" using s(5) gc(2) by simp
  have gm: "get_managed_chan i c st = Some (Some (ch_mng (managed_conf l r cfg xs ch)))" by (rule managed_lookup [OF gc(1) ty pv])
  have "list_all pool_cfg_ok xs" "length xs \<le> IPC_SHM_MAX_POOLS" using cfg(1) by (simp_all add: pools_ok_def)
  moreover have "unat (ipc_queue_mem_size (chan_queue l r xs)) = ring_space (total_bufs xs)"
    using queue_mem_size_unat [of "chan_queue l r xs"] chan_queue_sel [OF cfg(1), of l r] by simp
  ultimately have "unat (ipc_queue_mem_size (chan_queue l r xs) + sum_list (map pl_shm_size (pool_list (pools_addr l r xs) xs))) = managed_space xs"
    using pool_sizes [of xs "pools_addr l r xs"] sz by (subst unat_add_lem [THEN iffD1]) (simp_all add: managed_space_def)
  then show ?thesis
    using gc(1) ty gm s \<open>length xs \<le> IPC_SHM_MAX_POOLS\<close> by (simp add: get_chan_memmap_size_def)
qed

lemma uchan_conf_sel [simp]:
  "ch_type (uchan_conf l r cfg ch) = ch_type ch" "ch_id (uchan_conf l r cfg ch) = ch_id ch"
  "mc_pools (ch_mng (uchan_conf l r cfg ch)) = mc_pools (ch_mng ch)" "uc_size (ch_umng (uchan_conf l r cfg ch)) = ucfg_size cfg"
  "local_mem (uchan_conf l r cfg ch) = l" "remote_mem (uchan_conf l r cfg ch) = r"
  "uc_rx_cb (ch_umng (uchan_conf l r cfg ch)) = ucfg_rx_cb cfg" "uc_cb_arg (ch_umng (uchan_conf l r cfg ch)) = ucfg_cb_arg cfg"
  by (simp_all add: uchan_conf_def set_umem_def local_mem_def remote_mem_def)

lemma memmap_unmanaged:
  assumes "get_channel_priv i c st = Some (uchan_conf l r cfg ch)" "ch_type ch = IPC_SHM_UNMANAGED" "ucfg_size cfg \<le> IPC_SHM_MAX_UMNG_SIZE"
  shows "\<exists>n. get_chan_memmap_size i c st = Some n \<and> unat n = 16 + unat (ucfg_size cfg)"
  using assms
  by (simp add: get_chan_memmap_size_def sizeof_ipc_channel_umem_def, subst unat_add_lem [THEN iffD1])
    (simp_all add: word_le_nat_alt limit_defs)

lemma init_chan_ok:
  assumes gc: "get_channel_priv i c st = Some ch" and pv: "priv_at i st = Some pv" "unat c < unat (pv_num_channels pv)"
    and len: "length (mc_pools (ch_mng ch)) = IPC_SHM_MAX_POOLS" and cfg: "chan_cfg_ok cf"
    and ar: "area l r (chan_space cf) (st_mem st)" and jn: "chan_joins (st_mem st) r cf"
    and lo: "os_get_local_shm P i (st_env st) = Some local" and sz: "chan_space cf < 2 ^ 32"
    and fit: "unat l + chan_space cf \<le> unat local + unat (pv_shm_size pv)" "unat local + unat (pv_shm_size pv) < 2 ^ 64"
  shows "\<exists>m' n. ipc_shm_init_channels P i c l r (Some cf) st = Some (0, (put_chan i c (chan_conf c l r cf ch) st)\<lparr>st_mem := m'\<rparr>) \<and>
     chan_up l r cf m' \<and> same_except (region l (chan_space cf)) (st_mem st) m' \<and>
     get_chan_memmap_size i c ((put_chan i c (chan_conf c l r cf ch) st)\<lparr>st_mem := m'\<rparr>) = Some n \<and> unat n = chan_space cf"
  using cfg
proof (cases rule: chan_cases)
  case (mng xs)
  let ?ch1 = "ch\<lparr>ch_id := c, ch_type := ccfg_type cf\<rparr>"
  let ?st1 = "put_chan i c ?ch1 st"
  have gc1: "get_channel_priv i c ?st1 = Some ?ch1" by (rule get_put_chan [OF gc])
  have pv1: "priv_at i ?st1 = Some (pv\<lparr>pv_channels := (pv_channels pv)[unat c := ?ch1]\<rparr>)" by (rule priv_put_chan [OF gc pv(1)])
  have "\<exists>m'. managed_channel_init P i c l r (ccfg_managed cf) ?st1 =
      Some (0, (put_chan i c (managed_conf l r (ccfg_managed cf) xs ?ch1) ?st1)\<lparr>st_mem := m'\<rparr>) \<and>
      managed_up l r xs m' \<and> same_except (region l (managed_space xs)) (st_mem ?st1) m'"
    by (rule managed_init_ok [OF gc1 _ pv1]) (use mng pv(2) len ar jn lo sz fit in \<open>simp_all add: chan_joins_def\<close>)
  then obtain m' where m': "managed_channel_init P i c l r (ccfg_managed cf) ?st1 =
      Some (0, (put_chan i c (managed_conf l r (ccfg_managed cf) xs ?ch1) st)\<lparr>st_mem := m'\<rparr>)"
      "managed_up l r xs m'" "same_except (region l (managed_space xs)) (st_mem st) m'"
    by (auto simp: put_put_chan [OF gc])
  have cc: "chan_conf c l r cf ch = managed_conf l r (ccfg_managed cf) xs ?ch1" using mng by (simp add: chan_conf_def)
  have run: "ipc_shm_init_channels P i c l r (Some cf) st = managed_channel_init P i c l r (ccfg_managed cf) ?st1"
    using mng(1) by (simp add: ipc_shm_init_channels_def upd_channel_put [OF gc])
  let ?st2 = "(put_chan i c (managed_conf l r (ccfg_managed cf) xs ?ch1) st)\<lparr>st_mem := m'\<rparr>"
  have gc2: "get_channel_priv i c ?st2 = Some (managed_conf l r (ccfg_managed cf) xs ?ch1)" using get_put_chan [OF gc] by simp
  have pv2: "priv_at i ?st2 = Some (pv\<lparr>pv_channels := (pv_channels pv)[unat c := managed_conf l r (ccfg_managed cf) xs ?ch1]\<rparr>)"
    using priv_put_chan [OF gc pv(1)] by simp
  have "\<exists>n. get_chan_memmap_size i c ?st2 = Some n \<and> unat n = managed_space xs"
    by (rule memmap_managed [OF gc2 _ pv2]) (use mng pv(2) len sz in simp_all)
  then show ?thesis using run m' mng cc by (auto simp: chan_up_def)
next
  case umng
  let ?ch1 = "ch\<lparr>ch_id := c, ch_type := ccfg_type cf\<rparr>"
  let ?st1 = "put_chan i c ?ch1 st"
  have gc1: "get_channel_priv i c ?st1 = Some ?ch1" by (rule get_put_chan [OF gc])
  have gu: "get_unmanaged_chan i c ?st1 = Some (Some ?ch1)"
    using get_chan_put [OF gc pv, of ?ch1] umng(1) by (simp add: get_unmanaged_chan_def)
  have a16: "area l r 16 (st_mem st)" using area_sub [OF ar, of 0 16] umng(4) by simp
  from jn umng(1) obtain s where s: "load_u32 (st_mem st) (umem_sentinel r) = Some s" "s \<noteq> IPC_SHM_UCHAN_INIT_IN_PROGRESS"
    by (auto simp: chan_joins_def)
  have "\<exists>st2 m'. upd_channel i c (uchan_conf l r (ccfg_unmanaged cf)) ?st1 = Some st2 \<and>
      unmanaged_channel_init i c l r (ccfg_unmanaged cf) ?st1 = Some (0, st2\<lparr>st_mem := m'\<rparr>) \<and>
      load_u32 m' (umem_sentinel l) = Some IPC_UCHAN_INIT_DONE \<and> same_except (region l 16) (st_mem ?st1) m'"
    using unmanaged_init_run [OF gu umng(2,3), of l r s] a16 s by (auto simp: area_def unat_gt_0)
  then obtain m' where m': "unmanaged_channel_init i c l r (ccfg_unmanaged cf) ?st1 =
      Some (0, (put_chan i c (uchan_conf l r (ccfg_unmanaged cf) ?ch1) st)\<lparr>st_mem := m'\<rparr>)"
      "load_u32 m' (umem_sentinel l) = Some IPC_UCHAN_INIT_DONE" "same_except (region l 16) (st_mem st) m'"
    by (auto simp: upd_channel_put [OF gc1] put_put_chan [OF gc])
  have cc: "chan_conf c l r cf ch = uchan_conf l r (ccfg_unmanaged cf) ?ch1" using umng by (simp add: chan_conf_def)
  have run: "ipc_shm_init_channels P i c l r (Some cf) st = unmanaged_channel_init i c l r (ccfg_unmanaged cf) ?st1"
    using umng(1) by (simp add: ipc_shm_init_channels_def upd_channel_put [OF gc])
  have "\<exists>n. get_chan_memmap_size i c ((put_chan i c (uchan_conf l r (ccfg_unmanaged cf) ?ch1) st)\<lparr>st_mem := m'\<rparr>) = Some n \<and>
      unat n = 16 + unat (ucfg_size (ccfg_unmanaged cf))"
    by (rule memmap_unmanaged [OF _ _ umng(3), where ch = ?ch1 and l = l and r = r]) (use get_put_chan [OF gc] umng(1) in simp_all)
  moreover have "same_except (region l (chan_space cf)) (st_mem st) m'"
    by (rule same_except_mono [OF m'(3) region_mono]) (simp add: umng(4))
  ultimately show ?thesis using run m' umng cc by (auto simp: chan_up_def)
qed

section \<open>All channels\<close>

definition chans_space :: "ipc_shm_channel_cfg list \<Rightarrow> nat" where
  "chans_space cs = sum_list (map chan_space cs)"

lemma chans_space_simps [simp]: "chans_space [] = 0" "chans_space (cf # cs) = chan_space cf + chans_space cs"
  by (simp_all add: chans_space_def)

text \<open>The distance of channel \<open>j\<close> from the first one.\<close>

definition chan_off :: "ipc_shm_channel_cfg list \<Rightarrow> nat \<Rightarrow> nat" where
  "chan_off cs j = chans_space (take j cs)"

lemma chan_off_simps [simp]: "chan_off cs 0 = 0" "chan_off (cf # cs) (Suc j) = chan_space cf + chan_off cs j"
  by (simp_all add: chan_off_def)

lemma chan_off_le: "j < length cs \<Longrightarrow> chan_off cs j + chan_space (cs ! j) \<le> chans_space cs"
proof (induction cs arbitrary: j)
  case (Cons cf cs)
  then show ?case by (cases j) auto
qed simp

text \<open>The private data of an instance have room for all channels and pools.\<close>

definition alloc :: "u8 \<Rightarrow> 'w shm_state \<Rightarrow> bool" where
  "alloc i st \<longleftrightarrow> (\<exists>p. priv_at i st = Some p \<and> length (pv_channels p) = IPC_SHM_MAX_CHANNELS \<and>
     (\<forall>ch \<in> set (pv_channels p). length (mc_pools (ch_mng ch)) = IPC_SHM_MAX_POOLS))"

lemma alloc_chan:
  assumes "alloc i st" "unat c < IPC_SHM_MAX_CHANNELS"
  obtains ch where "get_channel_priv i c st = Some ch" "length (mc_pools (ch_mng ch)) = IPC_SHM_MAX_POOLS"
  using assms by (auto simp: alloc_def get_channel_priv_def)

lemma alloc_put:
  assumes "alloc i st" "get_channel_priv i c st = Some ch0" "length (mc_pools (ch_mng ch)) = IPC_SHM_MAX_POOLS"
  shows "alloc i (put_chan i c ch st)"
proof -
  from assms(1) obtain p where p: "priv_at i st = Some p" "length (pv_channels p) = IPC_SHM_MAX_CHANNELS"
    "\<forall>ch \<in> set (pv_channels p). length (mc_pools (ch_mng ch)) = IPC_SHM_MAX_POOLS" by (auto simp: alloc_def)
  then have "\<forall>d \<in> set ((pv_channels p)[unat c := ch]). length (mc_pools (ch_mng d)) = IPC_SHM_MAX_POOLS"
    using set_update_subset_insert [of "pv_channels p" "unat c" ch] assms(3) by blast
  then show ?thesis using priv_put_chan [OF assms(2) p(1), of ch] p(2) by (simp add: alloc_def)
qed

lemma alloc_mem [simp]: "alloc i (st\<lparr>st_mem := m\<rparr>) = alloc i st"
  by (simp add: alloc_def)

lemma chan_conf_keeps:
  assumes "chan_cfg_ok cf" "length (mc_pools (ch_mng ch)) = IPC_SHM_MAX_POOLS"
  shows "length (mc_pools (ch_mng (chan_conf c l r cf ch))) = IPC_SHM_MAX_POOLS \<and> ch_type (chan_conf c l r cf ch) = ccfg_type cf \<and>
    ch_id (chan_conf c l r cf ch) = c"
  using assms(1)
proof (cases rule: chan_cases)
  case (mng xs)
  let ?ch1 = "ch\<lparr>ch_id := c, ch_type := ccfg_type cf\<rparr>"
  have "chan_conf c l r cf ch = managed_conf l r (ccfg_managed cf) xs ?ch1" using mng(1,3) by (simp add: chan_conf_def)
  moreover have "length (mc_pools (ch_mng ?ch1)) = IPC_SHM_MAX_POOLS" using assms(2) by simp
  ultimately show ?thesis using managed_conf_sel(4-6) [OF mng(5,4), of ?ch1 l r] by simp
next
  case umng
  then show ?thesis using assms(2) by (simp add: chan_conf_def)
qed

lemmas chan_conf_pools = chan_conf_keeps [THEN conjunct1] chan_conf_keeps [THEN conjunct2, THEN conjunct1] chan_conf_keeps [THEN conjunct2, THEN conjunct2]

definition chan_at :: "u8 \<Rightarrow> u8 \<Rightarrow> u64 \<Rightarrow> u64 \<Rightarrow> ipc_shm_channel_cfg \<Rightarrow> 'w shm_state \<Rightarrow> bool" where
  "chan_at i c l r cf st \<longleftrightarrow> (\<exists>ch. get_channel_priv i c st = Some (chan_conf c l r cf ch) \<and>
     length (mc_pools (ch_mng ch)) = IPC_SHM_MAX_POOLS)"

lemma chan_at_mem [simp]: "chan_at i c l r cf (st\<lparr>st_mem := m\<rparr>) = chan_at i c l r cf st"
  by (simp add: chan_at_def)

lemma unat_of_nat_u8: "k < 256 \<Longrightarrow> unat (of_nat k :: u8) = k"
  by (simp add: unat_of_nat take_bit_nat_eq_self)

lemma heads_priv:
  assumes "heads st' = heads st" "priv_at i st = Some pv"
  shows "\<exists>pv'. priv_at i st' = Some pv' \<and> pv_global pv' = pv_global pv \<and> pv_shm_size pv' = pv_shm_size pv \<and> pv_num_channels pv' = pv_num_channels pv"
proof -
  have "length (st_priv st') = length (st_priv st)" using arg_cong [OF assms(1), of length] by (simp add: heads_def)
  then have i: "unat i < length (st_priv st')" "unat i < length (st_priv st)" "st_priv st ! unat i = pv"
    using assms(2) by (auto simp: priv_at_def nth_opt_Some_iff)
  then have "heads st' ! unat i = heads st ! unat i" using assms(1) by simp
  then show ?thesis using i by (simp add: heads_def priv_at_def)
qed

lemma chans_join_frame:
  assumes "same_except A m m'" "list_all chan_cfg_ok cs" "region r (chans_space cs) \<inter> A = {}"
    "\<forall>j < length cs. chan_joins m (r + of_nat (chan_off cs j)) (cs ! j)"
  shows "\<forall>j < length cs. chan_joins m' (r + of_nat (chan_off cs j)) (cs ! j)"
proof (intro allI impI)
  fix j assume j: "j < length cs"
  have "region (r + of_nat (chan_off cs j)) (chan_space (cs ! j)) \<inter> A = {}"
    using region_offset [OF chan_off_le [OF j], of r] assms(3) by blast
  then show "chan_joins m' (r + of_nat (chan_off cs j)) (cs ! j)"
    using chan_joins_frame [OF assms(1)] assms(2,4) j by (simp add: list_all_length)
qed

lemma init_loop_ok:
  assumes "alloc i st" "priv_at i st = Some pv" "unat (pv_num_channels pv) = n" "n \<le> IPC_SHM_MAX_CHANNELS"
    and "cfg_channels cfg = Some chs" "drop k chs = cs" "k + length cs = n" "list_all chan_cfg_ok cs"
    and "area l r (chans_space cs) (st_mem st)" "\<forall>j < length cs. chan_joins (st_mem st) (r + of_nat (chan_off cs j)) (cs ! j)"
    and "os_get_local_shm P i (st_env st) = Some local" "chans_space cs < 2 ^ 32"
    and "unat l + chans_space cs \<le> unat local + unat (pv_shm_size pv)" "unat local + unat (pv_shm_size pv) < 2 ^ 64"
  shows "\<exists>st'. init_channels_loop P i cfg [k..<n] l r st = Some (0, st') \<and> heads st' = heads st \<and> st_env st' = st_env st \<and> alloc i st' \<and>
     (\<forall>j < length cs. chan_at i (of_nat (k + j)) (l + of_nat (chan_off cs j)) (r + of_nat (chan_off cs j)) (cs ! j) st' \<and>
        chan_up (l + of_nat (chan_off cs j)) (r + of_nat (chan_off cs j)) (cs ! j) (st_mem st')) \<and>
     (\<forall>c. unat c < k \<longrightarrow> get_channel_priv i c st' = get_channel_priv i c st) \<and>
     same_except (region l (chans_space cs)) (st_mem st) (st_mem st')"
  using assms
proof (induction cs arbitrary: k l r st pv)
  case Nil
  then show ?case by (intro exI [of _ st]) simp
next
  case (Cons cf cs)
  note pr = Cons.prems
  let ?s = "chan_space cf" and ?c = "of_nat k :: u8"
  have kk: "k < length chs" "chs ! k = cf" "drop (Suc k) chs = cs" "k < n"
    using pr(6,7) by (auto simp: drop_Suc tl_drop nth_via_drop dest: arg_cong [where f = tl] arg_cong [where f = length])
  have c: "unat ?c = k" using kk(4) pr(4) by (simp add: unat_of_nat_u8 limit_defs)
  obtain ch where ch: "get_channel_priv i ?c st = Some ch" "length (mc_pools (ch_mng ch)) = IPC_SHM_MAX_POOLS"
    by (rule alloc_chan [OF pr(1), of ?c]) (use c kk(4) pr(4) in auto)
  have ok: "chan_cfg_ok cf" using pr(8) by simp
  have cn: "unat ?c < unat (pv_num_channels pv)" using c kk(4) pr(3) by simp
  have ar0: "area l r ?s (st_mem st)" using area_sub [OF pr(9), of 0 ?s] by simp
  have jn0: "chan_joins (st_mem st) r cf" using pr(10) by force
  let ?cc = "chan_conf ?c l r cf ch"
  have "\<exists>m' n. ipc_shm_init_channels P i ?c l r (Some cf) st = Some (0, (put_chan i ?c ?cc st)\<lparr>st_mem := m'\<rparr>) \<and>
     chan_up l r cf m' \<and> same_except (region l ?s) (st_mem st) m' \<and>
     get_chan_memmap_size i ?c ((put_chan i ?c ?cc st)\<lparr>st_mem := m'\<rparr>) = Some n \<and> unat n = ?s"
    by (rule init_chan_ok [OF ch(1) pr(2) cn ch(2) ok ar0 jn0 pr(11)]) (use pr(12-14) in simp_all)
  then obtain m1 sz where m1: "ipc_shm_init_channels P i ?c l r (Some cf) st = Some (0, (put_chan i ?c ?cc st)\<lparr>st_mem := m1\<rparr>)"
     "chan_up l r cf m1" "same_except (region l ?s) (st_mem st) m1"
     "get_chan_memmap_size i ?c ((put_chan i ?c ?cc st)\<lparr>st_mem := m1\<rparr>) = Some sz" "unat sz = ?s" by blast
  let ?st1 = "(put_chan i ?c ?cc st)\<lparr>st_mem := m1\<rparr>"
  have s64: "(ucast sz :: u64) = of_nat ?s" using m1(5) by (metis of_nat_unat)
  have run: "init_channels_loop P i cfg [k..<n] l r st = init_channels_loop P i cfg [Suc k..<n] (l + of_nat ?s) (r + of_nat ?s) ?st1"
    using m1(1,4) kk pr(5) s64 by (subst upt_conv_Cons) (simp_all add: elem_ptr_def)
  have al1: "alloc i ?st1" using alloc_put [OF pr(1) ch(1)] chan_conf_pools(1) [OF ok ch(2)] by simp
  have hd1: "heads ?st1 = heads st" using heads_put_chan [OF ch(1)] by simp
  from heads_priv [OF hd1 pr(2)] obtain pv1 where pv1: "priv_at i ?st1 = Some pv1" "pv_shm_size pv1 = pv_shm_size pv"
    "pv_num_channels pv1 = pv_num_channels pv" by blast
  have ar1: "area (l + of_nat ?s) (r + of_nat ?s) (chans_space cs) m1"
    using area_sub [OF pr(9), of ?s "chans_space cs"] area_frame [OF m1(3)] by simp
  have "\<forall>j < length cs. chan_joins (st_mem st) (r + of_nat ?s + of_nat (chan_off cs j)) (cs ! j)"
    using pr(10) by (force simp: add.assoc)
  then have jn1: "\<forall>j < length cs. chan_joins m1 (r + of_nat ?s + of_nat (chan_off cs j)) (cs ! j)"
    using area_cross [OF pr(9), of ?s "chans_space cs" 0 ?s] pr(8) by (intro chans_join_frame [OF m1(3)]) simp_all
  have "unat (l + of_nat ?s) = unat l + ?s" by (rule unat_plus_of_nat) (use pr(13,14) in simp)
  then have "\<exists>st'. init_channels_loop P i cfg [Suc k..<n] (l + of_nat ?s) (r + of_nat ?s) ?st1 = Some (0, st') \<and>
     heads st' = heads ?st1 \<and> st_env st' = st_env ?st1 \<and> alloc i st' \<and>
     (\<forall>j < length cs. chan_at i (of_nat (Suc k + j)) (l + of_nat ?s + of_nat (chan_off cs j)) (r + of_nat ?s + of_nat (chan_off cs j)) (cs ! j) st' \<and>
        chan_up (l + of_nat ?s + of_nat (chan_off cs j)) (r + of_nat ?s + of_nat (chan_off cs j)) (cs ! j) (st_mem st')) \<and>
     (\<forall>c. unat c < Suc k \<longrightarrow> get_channel_priv i c st' = get_channel_priv i c ?st1) \<and>
     same_except (region (l + of_nat ?s) (chans_space cs)) (st_mem ?st1) (st_mem st')"
    by (intro Cons.IH [OF al1 pv1(1)]) (use pr pv1 kk(3) ar1 jn1 in simp_all)
  then obtain st' where st': "init_channels_loop P i cfg [Suc k..<n] (l + of_nat ?s) (r + of_nat ?s) ?st1 = Some (0, st')"
      "heads st' = heads st" "st_env st' = st_env st" "alloc i st'"
      "\<forall>j < length cs. chan_at i (of_nat (Suc k + j)) (l + of_nat ?s + of_nat (chan_off cs j)) (r + of_nat ?s + of_nat (chan_off cs j)) (cs ! j) st' \<and>
        chan_up (l + of_nat ?s + of_nat (chan_off cs j)) (r + of_nat ?s + of_nat (chan_off cs j)) (cs ! j) (st_mem st')"
      "\<forall>c. unat c < Suc k \<longrightarrow> get_channel_priv i c st' = get_channel_priv i c (put_chan i ?c ?cc st)"
      "same_except (region (l + of_nat ?s) (chans_space cs)) m1 (st_mem st')"
    using hd1 by auto
  have at0: "chan_at i ?c l r cf st'" using st'(6) c get_put_chan [OF ch(1)] ch(2) by (auto simp: chan_at_def)
  have "region l ?s \<inter> region (l + of_nat ?s) (chans_space cs) = {}" "region r ?s \<inter> region (l + of_nat ?s) (chans_space cs) = {}"
    using area_split [OF pr(9), of 0 ?s ?s "chans_space cs"] area_cross [OF pr(9), of 0 ?s ?s "chans_space cs"] by simp_all
  then have up0: "chan_up l r cf (st_mem st')" using chan_up_frame [OF st'(7) ok _ _ m1(2)] by blast
  have low: "get_channel_priv i d st' = get_channel_priv i d st" if "unat d < k" for d
    using st'(6) get_put_other [OF ch(1), of d ?cc] c that by simp
  have "same_except (region l (chans_space (cf # cs))) (st_mem st) (st_mem st')"
    using same_except_mono [OF m1(3) region_mono, of "chans_space (cf # cs)"]
      same_except_mono [OF st'(7) region_offset [of ?s "chans_space cs" "chans_space (cf # cs)" l]]
    by (auto intro: same_except_trans)
  moreover have "chan_at i (of_nat (k + j)) (l + of_nat (chan_off (cf # cs) j)) (r + of_nat (chan_off (cf # cs) j)) ((cf # cs) ! j) st' \<and>
        chan_up (l + of_nat (chan_off (cf # cs) j)) (r + of_nat (chan_off (cf # cs) j)) ((cf # cs) ! j) (st_mem st')"
    if "j < length (cf # cs)" for j
    using that st'(5) at0 up0 by (cases j) (simp_all add: add.assoc)
  ultimately show ?case using run st'(1-4) low by auto
qed

section \<open>An instance\<close>

text \<open>The configurations that initialisation accepts and that fit their shared memory.\<close>

definition cfg_chans :: "ipc_shm_cfg \<Rightarrow> ipc_shm_channel_cfg list" where
  "cfg_chans cf = (case cfg_channels cf of None \<Rightarrow> [] | Some chs \<Rightarrow> chs)"

definition cfg_fits :: "ipc_shm_cfg \<Rightarrow> bool" where
  "cfg_fits cf \<longleftrightarrow> cfg_local_shm_addr cf \<noteq> 0 \<and> cfg_remote_shm_addr cf \<noteq> 0 \<and> cfg_chans cf \<noteq> [] \<and>
     length (cfg_chans cf) \<le> IPC_SHM_MAX_CHANNELS \<and> unat (cfg_num_channels cf) = length (cfg_chans cf) \<and>
     list_all chan_cfg_ok (cfg_chans cf) \<and> 8 + chans_space (cfg_chans cf) \<le> unat (cfg_shm_size cf)"

abbreviation chan_addr :: "u64 \<Rightarrow> ipc_shm_cfg \<Rightarrow> nat \<Rightarrow> u64" where
  "chan_addr l cf j \<equiv> l + 8 + of_nat (chan_off (cfg_chans cf) j)"

text \<open>The hardware and the OS layer accept the configuration and map the two memories at \<open>l\<close> and \<open>r\<close>.\<close>

definition layers_start :: "'w platform \<Rightarrow> u8 \<Rightarrow> ipc_shm_cfg \<Rightarrow> memory \<Rightarrow> 'w \<Rightarrow> u64 \<Rightarrow> u64 \<Rightarrow> memory \<Rightarrow> 'w \<Rightarrow> bool" where
  "layers_start P i cf m w l r m' w' \<longleftrightarrow> (\<exists>w1 w2. hw_init P i cf w = Some (0, w1) \<and> os_init P i cf m w1 = Some (0, m', w2) \<and>
     os_get_local_shm P i w2 = Some l \<and> os_get_remote_shm P i w2 = Some r \<and> hw_irq_enable P i w2 = Some w' \<and>
     os_get_local_shm P i w' = Some l \<and> os_get_remote_shm P i w' = Some r)"

text \<open>An instance that is up: in use, with every configured channel in place.\<close>

definition inst_up :: "u8 \<Rightarrow> u64 \<Rightarrow> u64 \<Rightarrow> ipc_shm_cfg \<Rightarrow> 'w shm_state \<Rightarrow> bool" where
  "inst_up i l r cf st \<longleftrightarrow>
     (\<exists>pv. priv_at i st = Some pv \<and> pv_global pv = l \<and> pv_shm_size pv = cfg_shm_size cf \<and> pv_num_channels pv = cfg_num_channels cf) \<and>
     load_u64 (st_mem st) l = Some IPC_SHM_STATE_READY \<and>
     (\<forall>j < length (cfg_chans cf). chan_at i (of_nat j) (chan_addr l cf j) (chan_addr r cf j) (cfg_chans cf ! j) st \<and>
        chan_up (chan_addr l cf j) (chan_addr r cf j) (cfg_chans cf ! j) (st_mem st))"

definition inst_space :: "ipc_shm_cfg \<Rightarrow> nat" where
  "inst_space cf = 8 + chans_space (cfg_chans cf)"

lemma priv_upd:
  assumes "priv_at i st = Some pv"
  shows "\<exists>st'. upd_priv i f st = Some st' \<and> priv_at i st' = Some (f pv) \<and> st_mem st' = st_mem st \<and> st_env st' = st_env st"
  using assms by (auto simp: upd_priv_def priv_at_def nth_opt_Some_iff)

lemma alloc_upd:
  assumes "alloc i st" "upd_priv i f st = Some st'" "\<And>p. pv_channels (f p) = pv_channels p"
  shows "alloc i st'"
  using assms by (auto simp: alloc_def upd_priv_def priv_at_def nth_opt_Some_iff split: Option.bind_splits)

lemma chan_addr_area:
  assumes "area l r n m" "inst_space cf \<le> n" "j < length (cfg_chans cf)"
  shows "area (chan_addr l cf j) (chan_addr r cf j) (chan_space (cfg_chans cf ! j)) m"
    and "region (chan_addr l cf j) (chan_space (cfg_chans cf ! j)) \<inter> region l 8 = {}"
    and "region (chan_addr r cf j) (chan_space (cfg_chans cf ! j)) \<inter> region l 8 = {}"
  using assms(2) chan_off_le [OF assms(3)] area_sub [OF assms(1), of "8 + chan_off (cfg_chans cf) j" "chan_space (cfg_chans cf ! j)"]
    area_split [OF assms(1), of 0 8 "8 + chan_off (cfg_chans cf) j" "chan_space (cfg_chans cf ! j)"]
    area_cross [OF assms(1), of "8 + chan_off (cfg_chans cf) j" "chan_space (cfg_chans cf ! j)" 0 8]
  by (simp_all add: inst_space_def add.assoc Int_commute)

lemma init_instance_ok:
  assumes free: "ipc_instance_is_free i st = Some IPC_SHM_INSTANCE_FREE" and al: "alloc i st" and fits: "cfg_fits cf"
    and start: "layers_start P i cf (st_mem st) (st_env st) l r m w"
    and ar: "area l r (unat (cfg_shm_size cf)) m"
    and jn: "\<forall>j < length (cfg_chans cf). chan_joins m (chan_addr r cf j) (cfg_chans cf ! j)"
  shows "\<exists>st'. ipc_shm_init_instance P i (Some cf) st = Some (0, st') \<and> inst_up i l r cf st' \<and> st_env st' = w \<and> alloc i st' \<and>
     same_except (region l (inst_space cf)) m (st_mem st')"
proof -
  let ?cs = "cfg_chans cf"
  from fits have f: "cfg_local_shm_addr cf \<noteq> 0" "cfg_remote_shm_addr cf \<noteq> 0" "?cs \<noteq> []" "length ?cs \<le> IPC_SHM_MAX_CHANNELS"
    "unat (cfg_num_channels cf) = length ?cs" "list_all chan_cfg_ok ?cs" "inst_space cf \<le> unat (cfg_shm_size cf)"
    by (simp_all add: cfg_fits_def inst_space_def)
  have chs: "cfg_channels cf = Some ?cs" using f(3) by (cases "cfg_channels cf") (simp_all add: cfg_chans_def)
  have n1: "\<not> cfg_num_channels cf < 1" using f(3,5) by (auto simp: word_less_nat_alt)
  from start obtain w1 w2 where w: "hw_init P i cf (st_env st) = Some (0, w1)" "os_init P i cf (st_mem st) w1 = Some (0, m, w2)"
     "os_get_local_shm P i w2 = Some l" "os_get_remote_shm P i w2 = Some r" "hw_irq_enable P i w2 = Some w" by (auto simp: layers_start_def)
  from al obtain pv where pv: "priv_at i st = Some pv" by (auto simp: alloc_def)
  let ?f = "\<lambda>p. p\<lparr>pv_shm_size := cfg_shm_size cf, pv_num_channels := cfg_num_channels cf\<rparr>"
  from priv_upd [OF pv, of ?f] obtain st1 where st1: "upd_priv i ?f st = Some st1"
    "priv_at i st1 = Some (?f pv)" "st_mem st1 = st_mem st" "st_env st1 = st_env st" by blast
  have "priv_at i (st1\<lparr>st_mem := m, st_env := w2\<rparr>) = Some (?f pv)" using st1(2) by (simp add: priv_at_def)
  from priv_upd [OF this, of "\<lambda>p. p\<lparr>pv_global := l\<rparr>"] obtain st3 where st3: "upd_priv i (\<lambda>p. p\<lparr>pv_global := l\<rparr>) (st1\<lparr>st_mem := m, st_env := w2\<rparr>) = Some st3"
    "priv_at i st3 = Some ((?f pv)\<lparr>pv_global := l\<rparr>)" "st_mem st3 = m" "st_env st3 = w2" by auto
  have "alloc i (st1\<lparr>st_mem := m, st_env := w2\<rparr>)" using alloc_upd [OF al st1(1)] by (simp add: alloc_def priv_at_def)
  then have al3: "alloc i st3" by (rule alloc_upd [OF _ st3(1)]) simp
  have l0: "l \<noteq> 0" using ar by (auto simp: area_def)
  have mp: "mapped m l 8" using area_sub [OF ar, of 0 8] f(7) by (simp add: area_def inst_space_def)
  from store_u64_ok [OF mp] obtain m4 where m4: "store_u64 l IPC_SHM_STATE_CLEAR m = Some m4" by blast
  note se4 = store_u64_same_except [OF m4]
  let ?st4 = "st3\<lparr>st_mem := m4\<rparr>"
  have sp: "area (l + 8) (r + 8) (chans_space ?cs) m4"
    using area_sub [OF ar, of 8 "chans_space ?cs"] area_frame [OF se4] f(7) by (simp add: inst_space_def)
  have jn4: "\<forall>j < length ?cs. chan_joins m4 (r + 8 + of_nat (chan_off ?cs j)) (?cs ! j)"
    using area_cross [OF ar, of 8 "chans_space ?cs" 0 8] f(6,7) jn by (intro chans_join_frame [OF se4]) (simp_all add: inst_space_def)
  have l8: "unat (l + 8) = unat l + 8" using unat_plus_of_nat [of l 8] ar f(7) by (simp add: area_def inst_space_def)
  have "\<exists>st'. init_channels_loop P i cf [0..<length ?cs] (l + 8) (r + 8) ?st4 = Some (0, st') \<and> heads st' = heads ?st4 \<and> st_env st' = st_env ?st4 \<and> alloc i st' \<and>
     (\<forall>j < length ?cs. chan_at i (of_nat (0 + j)) (l + 8 + of_nat (chan_off ?cs j)) (r + 8 + of_nat (chan_off ?cs j)) (?cs ! j) st' \<and>
        chan_up (l + 8 + of_nat (chan_off ?cs j)) (r + 8 + of_nat (chan_off ?cs j)) (?cs ! j) (st_mem st')) \<and>
     (\<forall>c. unat c < 0 \<longrightarrow> get_channel_priv i c st' = get_channel_priv i c ?st4) \<and>
     same_except (region (l + 8) (chans_space ?cs)) (st_mem ?st4) (st_mem st')"
    by (rule init_loop_ok [where pv = "(?f pv)\<lparr>pv_global := l\<rparr>" and local = l and chs = ?cs])
      (use al3 st3 f(4-7) chs sp jn4 w(3) l8 ar unat_less [of "cfg_shm_size cf"] in \<open>simp_all add: inst_space_def area_def\<close>)
  then obtain st5 where st5: "init_channels_loop P i cf [0..<length ?cs] (l + 8) (r + 8) ?st4 = Some (0, st5)" "heads st5 = heads ?st4"
     "st_env st5 = w2" "alloc i st5"
     "\<forall>j < length ?cs. chan_at i (of_nat j) (chan_addr l cf j) (chan_addr r cf j) (?cs ! j) st5 \<and>
        chan_up (chan_addr l cf j) (chan_addr r cf j) (?cs ! j) (st_mem st5)"
     "same_except (region (l + 8) (chans_space ?cs)) m4 (st_mem st5)" using st3(4) by auto
  from heads_priv [OF st5(2), of i] st3(2) obtain pv5 where pv5: "priv_at i st5 = Some pv5" "pv_global pv5 = l"
    "pv_shm_size pv5 = cfg_shm_size cf" "pv_num_channels pv5 = cfg_num_channels cf" by auto
  have mp5: "mapped (st_mem st5) l 8" using mp same_except_mapped [OF se4] same_except_mapped [OF st5(6)] by simp
  from store_u64_ok [OF mp5] obtain m7 where m7: "store_u64 l IPC_SHM_STATE_READY (st_mem st5) = Some m7" by blast
  note se7 = store_u64_same_except [OF m7]
  let ?st7 = "st5\<lparr>st_env := w, st_mem := m7\<rparr>"
  have run: "ipc_shm_init_instance P i (Some cf) st = Some (0, ?st7)"
    using free f(1-5) n1 st1(1,3,4) w st3 l0 m4 st5(1,3) pv5(1,2) m7
    by (simp add: ipc_shm_init_instance_def Let_def upd_mem_def upd_env_def sizeof_ipc_shm_global_def priv_at_def)
  have se: "same_except (region l (inst_space cf)) m m7"
  proof -
    have "region l 8 \<subseteq> region l (inst_space cf)" "region (l + 8) (chans_space ?cs) \<subseteq> region l (inst_space cf)"
      using region_mono [of 8 "inst_space cf" l] region_offset [of 8 "chans_space ?cs" "inst_space cf" l] by (simp_all add: inst_space_def)
    then show ?thesis using same_except_mono [OF se4] same_except_mono [OF st5(6)] same_except_mono [OF se7] by (blast intro: same_except_trans)
  qed
  have "chan_at i (of_nat j) (chan_addr l cf j) (chan_addr r cf j) (?cs ! j) ?st7 \<and> chan_up (chan_addr l cf j) (chan_addr r cf j) (?cs ! j) m7"
    if j: "j < length ?cs" for j
    using st5(5) j chan_up_frame [OF se7 _ chan_addr_area(2,3) [OF ar f(7) j]] f(6)
    by (simp add: chan_at_def get_channel_priv_def priv_at_def list_all_length)
  then have "inst_up i l r cf ?st7" using pv5 load_store_u64 [OF m7] by (simp add: inst_up_def priv_at_def)
  moreover have "alloc i ?st7" using st5(4) by (simp add: alloc_def priv_at_def)
  ultimately show ?thesis using run se by auto
qed

end
