(* ===== verification/Shm_Link.thy ===== *)
theory Shm_Link
  imports Shm_Start
begin

text \<open>
  Both sides of an instance initialised one after the other on their common memory: the second joins what
  the first has set up, and every managed channel is then in the state that the exchange of messages starts
  from, on both sides.
\<close>

section \<open>Joining a side that is up\<close>

lemma ring_joins_up: "queue_up q m \<Longrightarrow> ring_joins m (push_ring q) (unat (elem_num q))"
  by (auto simp: queue_up_def queue_wf_def ring_joins_def IPC_QUEUE_INIT_DONE_def IPC_QUEUE_INIT_IN_PROGRESS_def)

lemma pools_join_up:
  assumes "list_all pool_cfg_ok xs" "\<forall>j < length xs. pool_up (k + j) (pool_list a xs ! j) m"
  shows "pools_join m (local_pool_shm a) xs"
  using assms
proof (induction xs arbitrary: a k)
  case (Cons x xs)
  have "pool_up k (pool_of a x) m" using Cons.prems(2) by force
  then have "ring_joins m (local_pool_shm a) (unat (pcfg_num_bufs x) + 1)"
    using ring_joins_up [of "queue_of (pool_queue_data a x)" m] pool_num_suc [of x] Cons.prems(1) by (simp add: pool_up_def)
  moreover have "\<forall>j < length xs. pool_up (Suc k + j) (pool_list (after_pool a (pool_space x)) xs ! j) m"
    using Cons.prems(2) by force
  from Cons.IH [OF _ this] have "pools_join m (local_pool_shm (after_pool a (pool_space x))) xs"
    using Cons.prems(1) by simp
  ultimately show ?case by simp
qed simp

lemma managed_joins_up:
  assumes "pools_ok xs" "managed_up l r xs m"
  shows "managed_joins m l xs"
  using ring_joins_up [of "chan_queue l r xs" m] chan_queue_sel [OF assms(1), of l r] pools_join_up [of xs 0 "pools_addr l r xs" m] assms
  by (simp add: managed_up_def managed_joins_def pools_ok_def pools_addr_def)

lemma chan_joins_up:
  assumes "chan_cfg_ok cf" "chan_up l r cf m"
  shows "chan_joins m l cf"
  using assms(1)
proof (cases rule: chan_cases)
  case (mng xs)
  then show ?thesis using managed_joins_up [OF mng(5)] assms(2) by (simp add: chan_joins_def chan_up_def)
next
  case umng
  then show ?thesis using assms(2) by (simp add: chan_joins_def chan_up_def IPC_UCHAN_INIT_DONE_def IPC_SHM_UCHAN_INIT_IN_PROGRESS_def)
qed

section \<open>The side that was first\<close>

text \<open>A full ring has only one possible read index, so the second side finds the free list where the first one put it.\<close>

lemma full_rx_eq:
  assumes wf: "queue_wf q m" "queue_wf q m'" and se: "same_except A m m'" "region (pop_ring q) (ring_bytes q) \<inter> A = {}"
    and full: "length (rx_list m q) + 1 = unat (elem_num q)" "length (rx_list m' q) + 1 = unat (elem_num q)"
  shows "rx_list m' q = rx_list m q"
proof -
  have sub: "region (pop_ring q + of_nat k) n \<inter> A = {}" if "k + n \<le> ring_bytes q" for k n
    using region_offset [OF that, of "pop_ring q"] se(2) by blast
  have w: "wr_idx m' (pop_ring q) = wr_idx m (pop_ring q)"
    using load_u32_same_except [OF se(1) sub [of 8 4]] ring_bytes_ge [of q] by (simp add: wr_idx_def ring_offsets)
  have slot: "slot_at m' (pop_ring q) (unat (elem_size q)) j = slot_at m (pop_ring q) (unat (elem_size q)) j" if "j < unat (elem_num q)" for j
    unfolding slot_at_def slot_addr_def by (simp add: load_bytes_same_except [OF se(1) sub [OF slot_bound [OF that]]] del: of_nat_add of_nat_mult)
  have r: "rd_idx m' (push_ring q) = rd_idx m (push_ring q)"
    using full wf w ring_full_iff [of "rd_idx m (push_ring q)" "unat (elem_num q)" "wr_idx m (pop_ring q)"]
      ring_full_iff [of "rd_idx m' (push_ring q)" "unat (elem_num q)" "wr_idx m (pop_ring q)"] by (simp add: rx_list_def queue_wf_def)
  show ?thesis unfolding rx_list_def w r by (rule ring_elems_cong) (use wf slot in \<open>auto simp: queue_wf_def\<close>)
qed

lemma queue_up_peer:
  assumes "queue_up q m'" "queue_up (peer q) m" "same_except A m m'" "region (pop_ring q) (ring_bytes q) \<inter> A = {}"
  shows "queue_up (peer q) m'" "load_u64 m' (ring_sentinel (pop_ring q)) = Some IPC_QUEUE_INIT_DONE"
proof -
  have "region (pop_ring q) 8 \<subseteq> region (pop_ring q) (ring_bytes q)" by (rule region_mono) (use ring_bytes_ge [of q] in linarith)
  then have "region (ring_sentinel (pop_ring q)) 8 \<inter> A = {}" using assms(4) by (auto simp: ring_sentinel_def)
  from load_u64_same_except [OF assms(3) this] show "load_u64 m' (ring_sentinel (pop_ring q)) = Some IPC_QUEUE_INIT_DONE"
    using assms(2) by (simp add: queue_up_def)
  then show "queue_up (peer q) m'" using assms(1) by (simp add: queue_up_def)
qed

lemma pool_up_peer:
  assumes up: "pool_up k p' m'" "pool_up k p m" and se: "same_except A m m'"
    and q: "pl_bd_queue p = peer (pl_bd_queue p')" "pl_num_bufs p = pl_num_bufs p'" "unat (elem_num (pl_bd_queue p')) = unat (pl_num_bufs p') + 1"
    and out: "region (pop_ring (pl_bd_queue p')) (ring_bytes (pl_bd_queue p')) \<inter> A = {}"
  shows "pool_up k p m'"
proof -
  let ?q = "pl_bd_queue p'"
  have qu: "queue_up ?q m'" "queue_up (peer ?q) m" using up q(1) by (simp_all add: pool_up_def)
  note u = queue_up_peer [OF qu se out]
  have lst: "rx_bds m ?q = map (free_bd k) [0..<unat (pl_num_bufs p')]" "length (rx_bds m' ?q) = unat (pl_num_bufs p')"
    "length (tx_bds m' ?q) = unat (pl_num_bufs p')"
    using up u(2) q(1,2) by (simp_all add: pool_up_def)
  moreover have "length (rx_list m ?q) = length (rx_bds m ?q)" "length (rx_list m' ?q) = length (rx_bds m' ?q)" by (simp_all add: rx_bds_def)
  ultimately have "length (rx_list m ?q) + 1 = unat (elem_num ?q)" "length (rx_list m' ?q) + 1 = unat (elem_num ?q)"
    using q(3) by simp_all
  then have "rx_bds m' ?q = rx_bds m ?q" using full_rx_eq [OF _ _ se out] qu by (simp add: queue_up_def rx_bds_def)
  then show ?thesis using u(1) lst q by (simp add: pool_up_def)
qed

definition flip :: "ipc_shm_pool_addr \<Rightarrow> ipc_shm_pool_addr" where
  "flip a = \<lparr>local_pool_shm = remote_pool_shm a, remote_pool_shm = local_pool_shm a\<rparr>"

lemma flip_sel [simp]: "local_pool_shm (flip a) = remote_pool_shm a" "remote_pool_shm (flip a) = local_pool_shm a"
  "after_pool (flip a) n = flip (after_pool a n)" "flip (flip a) = a"
  by (simp_all add: flip_def after_pool_def)

lemma flip_pools_addr: "pools_addr r l xs = flip (pools_addr l r xs)"
  by (simp add: pools_addr_def flip_def after_pool_def)

lemma flip_pool: 
  "pl_bd_queue (pool_of (flip a) x) = peer (pl_bd_queue (pool_of a x))" "pl_num_bufs (pool_of b x) = pcfg_num_bufs x"
  "pl_buf_size (pool_of b x) = pcfg_buf_size x" "pl_shm_size (pool_of (flip a) x) = pl_shm_size (pool_of a x)"
  "pl_remote_pool_addr (pool_of (flip a) x) = pl_local_pool_addr (pool_of a x)"
  "pl_local_pool_addr (pool_of (flip a) x) = pl_remote_pool_addr (pool_of a x)"
  by (simp_all add: pool_of_def pool_queue_data_def queue_of_def peer_def Let_def ipc_queue_mem_size_def)

lemma pools_up_peer:
  assumes "same_except A m m'" "list_all pool_cfg_ok xs" "region (remote_pool_shm a) (pools_space xs) \<inter> A = {}"
    "\<forall>j < length xs. pool_up (k + j) (pool_list (flip a) xs ! j) m" "\<forall>j < length xs. pool_up (k + j) (pool_list a xs ! j) m'"
  shows "\<forall>j < length xs. pool_up (k + j) (pool_list (flip a) xs ! j) m'"
  using assms(2-5)
proof (induction xs arbitrary: a k)
  case (Cons x xs)
  note pr = Cons.prems
  have ok: "pool_cfg_ok x" using pr(1) by simp
  have "ring_bytes (queue_of (pool_queue_data a x)) \<le> pools_space (x # xs)"
    using pool_queue_bytes(1) [OF ok, of a] ring_space_le(1) [of x] by simp
  then have out: "region (pop_ring (pl_bd_queue (pool_of a x))) (ring_bytes (pl_bd_queue (pool_of a x))) \<inter> A = {}"
    using region_mono [of "ring_bytes (queue_of (pool_queue_data a x))" "pools_space (x # xs)" "remote_pool_shm a"] pr(2) by auto
  have up: "pool_up k (pool_of (flip a) x) m" "pool_up k (pool_of a x) m'" using pr(3,4) by force+
  have "pool_up k (pool_of (flip a) x) m'"
    by (rule pool_up_peer [OF up(2,1) assms(1) _ _ _ out]) (use pool_num_suc [OF ok] in \<open>simp_all only: flip_pool\<close>, simp)
  moreover have "\<forall>j < length xs. pool_up (Suc k + j) (pool_list (flip (after_pool a (pool_space x))) xs ! j) m'"
  proof (rule Cons.IH)
    show "list_all pool_cfg_ok xs" using pr(1) by simp
    show "region (remote_pool_shm (after_pool a (pool_space x))) (pools_space xs) \<inter> A = {}"
      using pr(2) region_offset [of "pool_space x" "pools_space xs" "pools_space (x # xs)" "remote_pool_shm a"] by fastforce
    show "\<forall>j < length xs. pool_up (Suc k + j) (pool_list (flip (after_pool a (pool_space x))) xs ! j) m" using pr(3) by force
    show "\<forall>j < length xs. pool_up (Suc k + j) (pool_list (after_pool a (pool_space x)) xs ! j) m'" using pr(4) by force
  qed
  ultimately show ?case by (auto simp: nth_Cons less_Suc_eq_0_disj split: nat.split)
qed simp

lemma chan_queue_peer: "chan_queue r l xs = peer (chan_queue l r xs)"
  by (simp add: chan_queue_def chan_queue_data_def queue_of_def peer_def)

lemma managed_up_peer:
  assumes "pools_ok xs" "managed_up r l xs m" "managed_up l r xs m'" "same_except A m m'" "region r (managed_space xs) \<inter> A = {}"
  shows "managed_up r l xs m'"
proof -
  let ?q = "chan_queue l r xs" and ?s = "ring_space (total_bufs xs)"
  note q = chan_queue_sel [OF assms(1), of l r]
  have "region r ?s \<subseteq> region r (managed_space xs)" "region (r + of_nat ?s) (pools_space xs) \<subseteq> region r (managed_space xs)"
    by (rule region_mono region_offset, simp add: managed_space_def)+
  then have out: "region (pop_ring ?q) (ring_bytes ?q) \<inter> A = {}" "region (r + of_nat ?s) (pools_space xs) \<inter> A = {}"
    using assms(5) unfolding q by blast+
  have "queue_up ?q m'" "queue_up (peer ?q) m" using assms(2,3) chan_queue_peer [of r l xs] by (simp_all add: managed_up_def)
  from queue_up_peer(1) [OF this assms(4) out(1)] have "queue_up (peer ?q) m'" .
  moreover have "\<forall>j < length xs. pool_up (0 + j) (pool_list (flip (pools_addr l r xs)) xs ! j) m'"
  proof (rule pools_up_peer [OF assms(4)])
    show "list_all pool_cfg_ok xs" using assms(1) by (simp add: pools_ok_def)
    show "region (remote_pool_shm (pools_addr l r xs)) (pools_space xs) \<inter> A = {}" using out(2) by (simp add: pools_addr_def)
    show "\<forall>j < length xs. pool_up (0 + j) (pool_list (flip (pools_addr l r xs)) xs ! j) m"
      using assms(2) unfolding managed_up_def flip_pools_addr [of r l xs] by simp
    show "\<forall>j < length xs. pool_up (0 + j) (pool_list (pools_addr l r xs) xs ! j) m'" using assms(3) by (simp add: managed_up_def)
  qed
  ultimately show ?thesis
    using assms(3) unfolding managed_up_def chan_queue_peer [of r l xs] flip_pools_addr [of r l xs] by simp
qed

lemma chan_up_peer:
  assumes "chan_cfg_ok cf" "chan_up r l cf m" "chan_up l r cf m'" "same_except A m m'" "region r (chan_space cf) \<inter> A = {}"
  shows "chan_up r l cf m'"
  using assms(1)
proof (cases rule: chan_cases)
  case (mng xs)
  then show ?thesis using managed_up_peer [OF mng(5) _ _ assms(4)] assms(2,3,5) by (simp add: chan_up_def)
next
  case umng
  have "region r 4 \<subseteq> region r (chan_space cf)" by (rule region_mono) (simp add: umng)
  then have "region (umem_sentinel r) 4 \<inter> A = {}" using assms(5) by (auto simp: umem_sentinel_def)
  from load_u32_same_except [OF assms(4) this] show ?thesis using assms(2) umng(1) by (simp add: chan_up_def)
qed

section \<open>The layout of a channel\<close>

definition pool_off :: "ipc_shm_pool_cfg list \<Rightarrow> nat \<Rightarrow> nat" where
  "pool_off xs j = pools_space (take j xs)"

lemma pool_off_simps [simp]: "pool_off xs 0 = 0" "pool_off (x # xs) (Suc j) = pool_space x + pool_off xs j"
  by (simp_all add: pool_off_def)

lemma after_pool_after [simp]: "after_pool (after_pool a n) k = after_pool a (n + k)" "after_pool a 0 = a"
  by (simp_all add: after_pool_def add.assoc)

lemma pool_list_nth: "j < length xs \<Longrightarrow> pool_list a xs ! j = pool_of (after_pool a (pool_off xs j)) (xs ! j)"
proof (induction xs arbitrary: a j)
  case (Cons x xs)
  then show ?case by (cases j) simp_all
qed simp

lemma pool_off_le: "j < length xs \<Longrightarrow> pool_off xs j + pool_space (xs ! j) \<le> pools_space xs"
proof (induction xs arbitrary: j)
  case (Cons x xs)
  then show ?case by (cases j) auto
qed simp

lemma pool_off_next: "i < j \<Longrightarrow> j < length xs \<Longrightarrow> pool_off xs i + pool_space (xs ! i) \<le> pool_off xs j"
proof (induction xs arbitrary: i j)
  case (Cons x xs)
  then show ?case by (cases i; cases j) auto
qed simp

text \<open>Where the queues of a channel lie: first the queue of the channel, then those of its pools.\<close>

fun queue_off :: "ipc_shm_pool_cfg list \<Rightarrow> nat \<Rightarrow> nat" where
  "queue_off xs 0 = 0"
| "queue_off xs (Suc j) = ring_space (total_bufs xs) + pool_off xs j"

fun queue_len :: "ipc_shm_pool_cfg list \<Rightarrow> nat \<Rightarrow> nat" where
  "queue_len xs 0 = ring_space (total_bufs xs)"
| "queue_len xs (Suc j) = ring_space (unat (pcfg_num_bufs (xs ! j)))"

lemma queue_off_le: "a < Suc (length xs) \<Longrightarrow> queue_off xs a + queue_len xs a \<le> managed_space xs"
proof (cases a)
  case (Suc j)
  assume "a < Suc (length xs)"
  then show ?thesis using Suc pool_off_le [of j xs] ring_space_le(1) [of "xs ! j"] by (simp add: managed_space_def)
qed (simp add: managed_space_def)

lemma queue_off_next: "a < b \<Longrightarrow> b < Suc (length xs) \<Longrightarrow> queue_off xs a + queue_len xs a \<le> queue_off xs b"
proof (induction xs a rule: queue_off.induct)
  case (1 xs)
  then show ?case by (cases b) simp_all
next
  case (2 xs j)
  then show ?case using pool_off_next [of j _ xs] ring_space_le(1) [of "xs ! j"] by (cases b) fastforce+
qed

definition laid_out :: "u64 \<Rightarrow> u64 \<Rightarrow> ipc_shm_pool_cfg list \<Rightarrow> ipc_managed_channel \<Rightarrow> bool" where
  "laid_out l r xs mc \<longleftrightarrow> mc_bd_queue mc = chan_queue l r xs \<and> unat (mc_num_pools mc) = length xs \<and>
     take (length xs) (mc_pools mc) = pool_list (pools_addr l r xs) xs \<and> length (mc_pools mc) = IPC_SHM_MAX_POOLS"

lemma laid_out_pool:
  assumes "laid_out l r xs mc" "j < length xs"
  shows "mc_pools mc ! j = pool_of (after_pool (pools_addr l r xs) (pool_off xs j)) (xs ! j)"
  using assms nth_take [of j "length xs" "mc_pools mc"] pool_list_nth [of j xs "pools_addr l r xs"] by (simp add: laid_out_def)

lemma laid_out_queue:
  assumes "laid_out l r xs mc" "pools_ok xs"
  shows "length (chan_queues mc) = Suc (length xs)"
    "a < Suc (length xs) \<Longrightarrow> push_ring (chan_queues mc ! a) = l + of_nat (queue_off xs a) \<and>
       pop_ring (chan_queues mc ! a) = r + of_nat (queue_off xs a) \<and> ring_bytes (chan_queues mc ! a) = queue_len xs a"
proof -
  have cq: "chan_queues mc = chan_queue l r xs # map pl_bd_queue (pool_list (pools_addr l r xs) xs)"
    using assms(1) by (simp add: chan_queues_def laid_out_def)
  then show "length (chan_queues mc) = Suc (length xs)" by simp
  assume a: "a < Suc (length xs)"
  show "push_ring (chan_queues mc ! a) = l + of_nat (queue_off xs a) \<and>
       pop_ring (chan_queues mc ! a) = r + of_nat (queue_off xs a) \<and> ring_bytes (chan_queues mc ! a) = queue_len xs a"
  proof (cases a)
    case 0
    then show ?thesis using cq chan_queue_sel [OF assms(2), of l r] by simp
  next
    case (Suc j)
    then have j: "j < length xs" "pool_cfg_ok (xs ! j)" using a assms(2) by (auto simp: pools_ok_def list_all_length)
    then show ?thesis using cq Suc pool_list_nth [OF j(1), of "pools_addr l r xs"] pool_queue_bytes(1) [OF j(2)]
      by (simp add: pools_addr_def add.assoc)
  qed
qed

lemma laid_out_separate:
  assumes "laid_out l r xs mc" "pools_ok xs" "area l r (managed_space xs) m"
  shows "rings_separate mc"
  unfolding rings_separate_def
proof (intro allI impI)
  fix a b assume ab: "a < length (chan_queues mc)" "b < length (chan_queues mc)" "a \<noteq> b"
  then have lt: "a < Suc (length xs)" "b < Suc (length xs)" using laid_out_queue(1) [OF assms(1,2)] by simp_all
  note qa = laid_out_queue(2) [OF assms(1,2) lt(1)] and qb = laid_out_queue(2) [OF assms(1,2) lt(2)]
  have "queue_off xs a + queue_len xs a \<le> queue_off xs b \<or> queue_off xs b + queue_len xs b \<le> queue_off xs a"
    using ab(3) lt queue_off_next [of a b xs] queue_off_next [of b a xs] by linarith
  then have "apart (l + of_nat (queue_off xs b)) (queue_len xs b) (l + of_nat (queue_off xs a)) (queue_len xs a)"
    using queue_off_le [OF lt(1)] queue_off_le [OF lt(2)] assms(3) by (intro apart_offsets) (auto simp: area_def)
  moreover have "apart (r + of_nat (queue_off xs b)) (queue_len xs b) (l + of_nat (queue_off xs a)) (queue_len xs a)"
    using area_cross [OF assms(3) queue_off_le [OF lt(2)] queue_off_le [OF lt(1)]] by (simp add: apart_def)
  ultimately show "let p = chan_queues mc ! a; q = chan_queues mc ! b in
      apart (push_ring q) (ring_bytes q) (push_ring p) (ring_bytes p) \<and> apart (pop_ring q) (ring_bytes q) (push_ring p) (ring_bytes p)"
    using qa qb by (simp add: Let_def)
qed

text \<open>The address of the buffers of a pool, as an offset in the area of the channel.\<close>

definition bufs_off :: "ipc_shm_pool_cfg list \<Rightarrow> nat \<Rightarrow> nat" where
  "bufs_off xs j = ring_space (total_bufs xs) + pool_off xs j + ring_space (unat (pcfg_num_bufs (xs ! j)))"

lemma bufs_off_le:
  assumes "j < length xs"
  shows "bufs_off xs j + unat (pcfg_num_bufs (xs ! j)) * unat (pcfg_buf_size (xs ! j)) \<le> managed_space xs"
  using pool_off_le [OF assms] by (simp add: bufs_off_def managed_space_def pool_space_def)

lemma bufs_off_next:
  assumes "i < j" "j < length xs"
  shows "bufs_off xs i + unat (pcfg_num_bufs (xs ! i)) * unat (pcfg_buf_size (xs ! i)) \<le> bufs_off xs j"
  using pool_off_next [OF assms] by (simp add: bufs_off_def pool_space_def)

lemma laid_out_bufs:
  assumes "laid_out l r xs mc" "pools_ok xs" "j < length xs"
  shows "pl_local_pool_addr (mc_pools mc ! j) = l + of_nat (bufs_off xs j)"
    "pl_remote_pool_addr (mc_pools mc ! j) = r + of_nat (bufs_off xs j)"
    "pl_num_bufs (mc_pools mc ! j) = pcfg_num_bufs (xs ! j)" "pl_buf_size (mc_pools mc ! j) = pcfg_buf_size (xs ! j)"
proof -
  have ok: "pool_cfg_ok (xs ! j)" using assms(2,3) by (auto simp: pools_ok_def list_all_length)
  let ?q = "queue_of (pool_queue_data (after_pool (pools_addr l r xs) (pool_off xs j)) (xs ! j))"
  have "(ucast (ipc_queue_mem_size ?q) :: u64) = of_nat (ring_space (unat (pcfg_num_bufs (xs ! j))))"
    using pool_queue_bytes(2) [OF ok] by (metis of_nat_unat)
  then show "pl_local_pool_addr (mc_pools mc ! j) = l + of_nat (bufs_off xs j)" "pl_remote_pool_addr (mc_pools mc ! j) = r + of_nat (bufs_off xs j)"
    using laid_out_pool [OF assms(1,3)] by (simp_all add: pool_of_def Let_def bufs_off_def pools_addr_def add.assoc)
  show "pl_num_bufs (mc_pools mc ! j) = pcfg_num_bufs (xs ! j)" "pl_buf_size (mc_pools mc ! j) = pcfg_buf_size (xs ! j)"
    using laid_out_pool [OF assms(1,3)] by simp_all
qed

lemma laid_out_pools:
  assumes "laid_out l r xs mc" "pools_ok xs" "area l r (managed_space xs) m" "managed_space xs < 2 ^ 32"
  shows "pools_laid_out IPC_BUFFER_FROM_LOCAL mc"
proof -
  have b: "unat (pool_base IPC_BUFFER_FROM_LOCAL (mc_pools mc ! k)) = unat l + bufs_off xs k" if "k < length xs" for k
    using unat_plus_of_nat [of l "bufs_off xs k"] bufs_off_le [OF that] assms(3) laid_out_bufs [OF assms(1,2) that]
    by (simp add: pool_base_def IPC_BUFFER_FROM_LOCAL_def IPC_BUFFER_FROM_REMOTE_def area_def)
  have p: "pool_bytes (mc_pools mc ! k) = unat (pcfg_num_bufs (xs ! k)) * unat (pcfg_buf_size (xs ! k))" if "k < length xs" for k
    using laid_out_bufs [OF assms(1,2) that] by (simp add: pool_bytes_def)
  have n: "unat (mc_num_pools mc) = length xs" "length xs \<le> length (mc_pools mc)" using assms(1,2) by (simp_all add: laid_out_def pools_ok_def)
  have "pool_bytes (mc_pools mc ! k) < 2 ^ 32 \<and> unat (pool_base IPC_BUFFER_FROM_LOCAL (mc_pools mc ! k)) + pool_bytes (mc_pools mc ! k) < 2 ^ 64 \<and>
        (\<forall>j < k. unat (pool_base IPC_BUFFER_FROM_LOCAL (mc_pools mc ! j)) + pool_bytes (mc_pools mc ! j)
                 \<le> unat (pool_base IPC_BUFFER_FROM_LOCAL (mc_pools mc ! k)))" if k: "k < length xs" for k
    using b p bufs_off_le [OF k] bufs_off_next [of _ k xs] k assms(3,4) by (auto simp: area_def)
  then show ?thesis using n by (simp add: pools_laid_out_def)
qed

text \<open>Every buffer of every pool lies in the shared memory.\<close>

lemma laid_out_inside:
  assumes lo: "laid_out l r xs mc" "pools_ok xs" and j: "j < length xs" "unat b < unat (pcfg_num_bufs (xs ! j))"
    and base: "unat L \<le> unat l" "unat l + managed_space xs \<le> unat L + unat sz" "unat L + unat sz < 2 ^ 64" "managed_space xs < 2 ^ 32"
  shows "in_remote_shm L sz (pl_local_pool_addr (mc_pools mc ! j) + ucast (ucast (b :: u16) * pl_buf_size (mc_pools mc ! j))) (pl_buf_size (mc_pools mc ! j))"
proof -
  let ?s = "unat (pcfg_buf_size (xs ! j))"
  note lb = laid_out_bufs [OF lo j(1)]
  have "(unat b + 1) * ?s \<le> unat (pcfg_num_bufs (xs ! j)) * ?s" using j(2) by (intro mult_le_mono1) simp
  then have le: "bufs_off xs j + (unat b * ?s + ?s) \<le> managed_space xs" using bufs_off_le [OF j(1)] by (simp add: algebra_simps)
  have bo: "unat (l + of_nat (bufs_off xs j)) = unat l + bufs_off xs j" by (rule unat_plus_of_nat) (use le base in linarith)
  let ?a = "pl_local_pool_addr (mc_pools mc ! j) + ucast (ucast b * pl_buf_size (mc_pools mc ! j) :: u32)"
  have a: "unat ?a = unat l + bufs_off xs j + unat b * ?s"
    using bd_addr_unat [of b "pcfg_buf_size (xs ! j)" "l + of_nat (bufs_off xs j)"] bo le base lb by simp
  then have "unat (?a + ucast (pcfg_buf_size (xs ! j))) = unat l + bufs_off xs j + unat b * ?s + ?s"
    using le base by (subst unat_add_lem [THEN iffD1]) (simp_all add: unat_ucast_up)
  moreover have "unat (L + ucast sz) = unat L + unat sz" using base(3) by (subst unat_add_lem [THEN iffD1]) (simp_all add: unat_ucast_up)
  ultimately show ?thesis using a le base(1,2) lb by (simp add: in_remote_shm_def word_le_nat_alt)
qed

lemma bufs_queue_apart:
  assumes "a < Suc (length xs)" "j < length xs"
  shows "queue_off xs a + queue_len xs a \<le> bufs_off xs j \<or>
    bufs_off xs j + unat (pcfg_num_bufs (xs ! j)) * unat (pcfg_buf_size (xs ! j)) \<le> queue_off xs a"
proof (cases a)
  case 0
  then show ?thesis by (simp add: bufs_off_def)
next
  case (Suc i)
  consider "i < j" | "i = j" | "j < i" by linarith
  then show ?thesis
  proof cases
    case 1
    then show ?thesis using Suc pool_off_next [OF 1 assms(2)] ring_space_le(1) [of "xs ! i"] by (simp add: bufs_off_def)
  next
    case 2
    then show ?thesis using Suc by (simp add: bufs_off_def)
  next
    case 3
    then show ?thesis using Suc pool_off_next [OF 3, of xs] assms(1) by (simp add: bufs_off_def pool_space_def)
  qed
qed

lemma laid_out_at:
  assumes lo: "laid_out l r xs mc" "pools_ok xs" and j: "j < length xs" "unat b < unat (pcfg_num_bufs (xs ! j))" and sz: "managed_space xs < 2 ^ 32"
  shows "pl_local_pool_addr (mc_pools mc ! j) + ucast (ucast (b :: u16) * pl_buf_size (mc_pools mc ! j) :: u32) =
      l + of_nat (bufs_off xs j + unat b * unat (pcfg_buf_size (xs ! j)))"
    "bufs_off xs j + unat b * unat (pcfg_buf_size (xs ! j)) + unat (pcfg_buf_size (xs ! j)) \<le>
      bufs_off xs j + unat (pcfg_num_bufs (xs ! j)) * unat (pcfg_buf_size (xs ! j))"
    "bufs_off xs j + unat b * unat (pcfg_buf_size (xs ! j)) + unat (pcfg_buf_size (xs ! j)) \<le> managed_space xs"
proof -
  let ?s = "unat (pcfg_buf_size (xs ! j))" and ?o = "bufs_off xs j + unat b * unat (pcfg_buf_size (xs ! j))"
  have "(unat b + 1) * ?s \<le> unat (pcfg_num_bufs (xs ! j)) * ?s" using j(2) by (intro mult_le_mono1) simp
  then show le: "?o + ?s \<le> bufs_off xs j + unat (pcfg_num_bufs (xs ! j)) * ?s" by (simp add: algebra_simps)
  then show in_chan: "?o + ?s \<le> managed_space xs" using bufs_off_le [OF j(1)] by simp
  have "unat (ucast b * pcfg_buf_size (xs ! j) :: u32) = unat b * ?s"
    using in_chan sz by (simp add: unat_word_ariths unat_ucast_up)
  then have "(ucast (ucast b * pcfg_buf_size (xs ! j) :: u32) :: u64) = of_nat (unat b * ?s)" by (metis of_nat_unat)
  then show "pl_local_pool_addr (mc_pools mc ! j) + ucast (ucast b * pl_buf_size (mc_pools mc ! j) :: u32) = l + of_nat ?o"
    using laid_out_bufs [OF lo j(1)] by (simp add: add.assoc)
qed

lemma laid_out_outside:
  assumes lo: "laid_out l r xs mc" "pools_ok xs" and j: "j < length xs" "unat b < unat (pcfg_num_bufs (xs ! j))"
    and ar: "area l r (managed_space xs) m" "managed_space xs < 2 ^ 32"
    and out: "region (pv_global pv) 8 \<inter> region l (managed_space xs) = {}" "region R 8 \<inter> region l (managed_space xs) = {}"
    and p: "p = pl_local_pool_addr (mc_pools mc ! j) + ucast (ucast (b :: u16) * pl_buf_size (mc_pools mc ! j))"
  shows "outside_rings mc pv R p (unat (pl_buf_size (mc_pools mc ! j)))" "mapped m p (unat (pl_buf_size (mc_pools mc ! j)))"
proof -
  let ?s = "unat (pcfg_buf_size (xs ! j))" and ?o = "bufs_off xs j + unat b * unat (pcfg_buf_size (xs ! j))"
  note lb = laid_out_bufs [OF lo j(1)]
  note at = laid_out_at [OF lo j ar(2)]
  have pe: "p = l + of_nat ?o" and le: "?o + ?s \<le> bufs_off xs j + unat (pcfg_num_bufs (xs ! j)) * ?s" and in_chan: "?o + ?s \<le> managed_space xs"
    using p at by simp_all
  show "mapped m p (unat (pl_buf_size (mc_pools mc ! j)))"
    using area_sub [OF ar(1) in_chan] pe lb(4) by (simp add: area_def)
  have sub: "region p ?s \<subseteq> region l (managed_space xs)" unfolding pe by (rule region_offset [OF in_chan])
  have "apart (push_ring q) (ring_bytes q) p ?s \<and> apart (pop_ring q) (ring_bytes q) p ?s" if "q \<in> set (chan_queues mc)" for q
  proof -
    from that obtain a where a: "a < Suc (length xs)" "q = chan_queues mc ! a" using laid_out_queue(1) [OF lo] by (metis in_set_conv_nth)
    have "queue_off xs a + queue_len xs a \<le> ?o \<or> ?o + ?s \<le> queue_off xs a" using bufs_queue_apart [OF a(1) j(1)] le by linarith
    then have "apart (l + of_nat (queue_off xs a)) (queue_len xs a) (l + of_nat ?o) ?s"
      using in_chan queue_off_le [OF a(1)] ar(2) by (intro apart_offsets) auto
    moreover have "apart (r + of_nat (queue_off xs a)) (queue_len xs a) (l + of_nat ?o) ?s"
      using area_cross [OF ar(1) queue_off_le [OF a(1)] in_chan] by (simp add: apart_def)
    ultimately show ?thesis using laid_out_queue(2) [OF lo a(1)] a(2) pe by simp
  qed
  then show "outside_rings mc pv R p (unat (pl_buf_size (mc_pools mc ! j)))"
    using out sub lb(4) unfolding outside_rings_def apart_def by auto
qed

section \<open>A channel with both sides up\<close>

lemma both_up_ready: "queue_up q m \<Longrightarrow> queue_up (peer q) m \<Longrightarrow> bd_queue_ready q m"
  by (simp add: queue_up_def bd_queue_ready_def queue_ready_def)

lemma laid_out_peer:
  assumes "laid_out l r xs a" "laid_out r l xs b" "pools_ok xs"
  shows "linked a b"
proof -
  have "pl_bd_queue (mc_pools b ! k) = peer (pl_bd_queue (mc_pools a ! k))" if "k < length xs" for k
    unfolding laid_out_pool [OF assms(1) that] laid_out_pool [OF assms(2) that] flip_pools_addr [of r l xs] flip_sel(3) by (rule flip_pool(1))
  moreover have "mc_num_pools b = mc_num_pools a" using assms(1,2) by (intro unsigned_word_eqI [where ?'a = nat]) (simp add: laid_out_def)
  ultimately show ?thesis
    using assms laid_out_bufs [OF assms(1,3)] laid_out_bufs [OF assms(2,3)] by (simp add: linked_def laid_out_def chan_queue_peer [of r l xs])
qed

lemma both_up:
  assumes "laid_out l r xs mc" "pools_ok xs" "managed_up l r xs m" "managed_up r l xs m"
  shows "mchan_ready mc m" "tx_bds m (mc_bd_queue mc) = []"
    "k < length xs \<Longrightarrow> rx_bds m (pl_bd_queue (mc_pools mc ! k)) = map (free_bd k) [0..<unat (pl_num_bufs (mc_pools mc ! k))]"
proof -
  have q: "mc_bd_queue mc = chan_queue l r xs" "unat (mc_num_pools mc) = length xs" "length xs \<le> length (mc_pools mc)"
    using assms(1,2) by (simp_all add: laid_out_def pools_ok_def)
  have pl: "mc_pools mc ! j = pool_list (pools_addr l r xs) xs ! j"
    "pl_bd_queue (pool_list (pools_addr r l xs) xs ! j) = peer (pl_bd_queue (mc_pools mc ! j))"
    "pl_num_bufs (pool_list (pools_addr r l xs) xs ! j) = pl_num_bufs (mc_pools mc ! j)" if "j < length xs" for j
    using laid_out_pool [OF assms(1) that] pool_list_nth [OF that, of "pools_addr l r xs"]
      pool_list_nth [OF that, of "pools_addr r l xs"] flip_pool(1) [of "after_pool (pools_addr l r xs) (pool_off xs j)" "xs ! j"]
    by (simp_all add: flip_pools_addr [of r l xs])
  have "bd_queue_ready (mc_bd_queue mc) m"
    using assms(3,4) q(1) both_up_ready [of "chan_queue l r xs" m] unfolding managed_up_def chan_queue_peer [of r l xs] by simp
  moreover have "bd_queue_ready (pl_bd_queue (mc_pools mc ! j)) m" if "j < length xs" for j
    using assms(3,4) that pl [OF that] by (intro both_up_ready) (auto simp: managed_up_def pool_up_def)
  ultimately show "mchan_ready mc m" using q by (simp add: mchan_ready_def)
  show "tx_bds m (mc_bd_queue mc) = []" using assms(3) q(1) by (simp add: managed_up_def)
  show "rx_bds m (pl_bd_queue (mc_pools mc ! k)) = map (free_bd k) [0..<unat (pl_num_bufs (mc_pools mc ! k))]" if "k < length xs"
    using assms(4) that pl [OF that] by (auto simp: managed_up_def pool_up_def)
qed

text \<open>
  What two sides need for the exchange of messages from the first to the second, whose configuration is
  \<open>mcf\<close>: all buffers of the sender free, no message pending.
\<close>

definition can_exchange :: "'w platform \<Rightarrow> u8 \<Rightarrow> u8 \<Rightarrow> 'w shm_state \<Rightarrow> 'v platform \<Rightarrow> u8 \<Rightarrow> u8 \<Rightarrow> 'v shm_state \<Rightarrow> u64 \<Rightarrow> u64 \<Rightarrow>
    ipc_shm_managed_cfg \<Rightarrow> bool" where
  "can_exchange P i c st P' j d st' L R mcf \<longleftrightarrow> (\<exists>mc pv ch pv'. let xs = the (mcfg_pools mcf) in sender_ok P i c st mc pv L R \<and> receiver_ok P' j d st' ch pv' L R \<and>
     mc_rx_cb (ch_mng ch) = mcfg_rx_cb mcf \<and> mc_cb_arg (ch_mng ch) = mcfg_cb_arg mcf \<and> ch_id ch = d \<and>
     linked mc (ch_mng ch) \<and> pv_shm_size pv' = pv_shm_size pv \<and> tx_bds (st_mem st) (mc_bd_queue mc) = [] \<and>
     2 \<le> unat (elem_num (mc_bd_queue mc)) \<and> unat (mc_num_pools mc) = length xs \<and>
     (\<forall>k < length xs. pl_buf_size (mc_pools mc ! k) = pcfg_buf_size (xs ! k) \<and> pl_num_bufs (mc_pools mc ! k) = pcfg_num_bufs (xs ! k) \<and>
        rx_bds (st_mem st) (pl_bd_queue (mc_pools mc ! k)) = map (free_bd k) [0..<unat (pcfg_num_bufs (xs ! k))] \<and>
        (\<forall>b. unat b < unat (pcfg_num_bufs (xs ! k)) \<longrightarrow>
           (let p = pl_local_pool_addr (mc_pools mc ! k) + ucast (ucast (b :: u16) * pl_buf_size (mc_pools mc ! k)); n = pl_buf_size (mc_pools mc ! k) in
            in_remote_shm L (pv_shm_size pv) p n \<and> outside_rings mc pv R p (unat n) \<and> mapped (st_mem st) p (unat n)))))"

lemma managed_at:
  assumes up: "inst_up i l r cf st" and fits: "cfg_fits cf" and c: "k < length (cfg_chans cf)" "ccfg_type (cfg_chans cf ! k) = IPC_SHM_MANAGED"
  shows "\<exists>ch. get_channel_priv i (of_nat k) st = Some ch \<and> ch_type ch = IPC_SHM_MANAGED \<and> get_managed_chan i (of_nat k) st = Some (Some (ch_mng ch)) \<and>
     laid_out (chan_addr l cf k) (chan_addr r cf k) (cfg_pools (cfg_chans cf ! k)) (ch_mng ch) \<and> mc_rx_cb (ch_mng ch) \<noteq> 0 \<and>
     mc_rx_cb (ch_mng ch) = mcfg_rx_cb (ccfg_managed (cfg_chans cf ! k)) \<and> mc_cb_arg (ch_mng ch) = mcfg_cb_arg (ccfg_managed (cfg_chans cf ! k)) \<and>
     ch_id ch = of_nat k \<and> pools_ok (cfg_pools (cfg_chans cf ! k)) \<and> managed_up (chan_addr l cf k) (chan_addr r cf k) (cfg_pools (cfg_chans cf ! k)) (st_mem st) \<and>
     chan_space (cfg_chans cf ! k) = managed_space (cfg_pools (cfg_chans cf ! k))"
proof -
  let ?cf = "cfg_chans cf ! k" and ?l = "chan_addr l cf k" and ?r = "chan_addr r cf k"
  have ok: "chan_cfg_ok ?cf" using fits c(1) by (simp add: cfg_fits_def list_all_length)
  from ok c(2) obtain xs where xs: "mcfg_rx_cb (ccfg_managed ?cf) \<noteq> 0" "mcfg_pools (ccfg_managed ?cf) = Some xs"
    "unat (mcfg_num_pools (ccfg_managed ?cf)) = length xs" "pools_ok xs" "chan_space ?cf = managed_space xs" by (auto elim: chan_cases)
  have k: "unat (of_nat k :: u8) = k" using c(1) fits by (intro unat_of_nat_u8) (simp add: cfg_fits_def limit_defs)
  from up c(1) obtain ch0 where ch0: "get_channel_priv i (of_nat k) st = Some (chan_conf (of_nat k) ?l ?r ?cf ch0)"
     "length (mc_pools (ch_mng ch0)) = IPC_SHM_MAX_POOLS" "chan_up ?l ?r ?cf (st_mem st)" by (auto simp: inst_up_def chan_at_def)
  let ?ch1 = "ch0\<lparr>ch_id := of_nat k, ch_type := ccfg_type ?cf\<rparr>" and ?ch = "chan_conf (of_nat k) ?l ?r ?cf ch0"
  have cc: "?ch = managed_conf ?l ?r (ccfg_managed ?cf) xs ?ch1" using xs(2) c(2) by (simp add: chan_conf_def)
  have "length (mc_pools (ch_mng ?ch1)) = IPC_SHM_MAX_POOLS" using ch0(2) by simp
  note s = managed_conf_sel [OF xs(4,3) this, of ?l ?r, folded cc]
  have ty: "ch_type ?ch = IPC_SHM_MANAGED" using s(5) c(2) by simp
  from up obtain pv where "priv_at i st = Some pv" "pv_num_channels pv = cfg_num_channels cf" by (auto simp: inst_up_def)
  then have "get_managed_chan i (of_nat k) st = Some (Some (ch_mng ?ch))"
    using managed_lookup [OF ch0(1) ty] c(1) k fits by (simp add: cfg_fits_def)
  moreover have "laid_out ?l ?r xs (ch_mng ?ch)" using s by (simp add: laid_out_def)
  ultimately show ?thesis using ch0 ty xs s(6-8) c(2) by (intro exI [of _ ?ch]) (simp add: chan_up_def)
qed

lemma ring_in_chan:
  assumes lo: "laid_out l r xs mc" "pools_ok xs" and q: "q \<in> set (chan_queues mc)"
  shows "region (push_ring q) (ring_bytes q) \<subseteq> region l (managed_space xs)" "region (pop_ring q) (ring_bytes q) \<subseteq> region r (managed_space xs)"
proof -
  from q obtain a where a: "a < Suc (length xs)" "q = chan_queues mc ! a" using laid_out_queue(1) [OF lo] by (metis in_set_conv_nth)
  then show "region (push_ring q) (ring_bytes q) \<subseteq> region l (managed_space xs)" "region (pop_ring q) (ring_bytes q) \<subseteq> region r (managed_space xs)"
    using laid_out_queue(2) [OF lo a(1)] region_offset [OF queue_off_le [OF a(1)]] by auto
qed

lemma area_swap: "area l r n m = area r l n m"
  by (auto simp: area_def apart_def)

text \<open>
  Two configurations are mirrored when they describe the same layout: channels of the same types with the same
  pools or sizes, in memories of the same size. The callbacks are each side's own.
\<close>

definition chan_shape :: "ipc_shm_channel_cfg \<Rightarrow> ipc_shm_channel_type \<times> (ipc_shm_pool_cfg list + u32)" where
  "chan_shape cf = (ccfg_type cf, case ccfg_type cf of IPC_SHM_MANAGED \<Rightarrow> Inl (cfg_pools cf) | _ \<Rightarrow> Inr (ucfg_size (ccfg_unmanaged cf)))"

definition mirrored :: "ipc_shm_cfg \<Rightarrow> ipc_shm_cfg \<Rightarrow> bool" where
  "mirrored cf cf' \<longleftrightarrow> map chan_shape (cfg_chans cf') = map chan_shape (cfg_chans cf) \<and> cfg_shm_size cf' = cfg_shm_size cf"

lemma shape_cong:
  assumes "chan_shape cf' = chan_shape cf"
  shows "ccfg_type cf' = ccfg_type cf" "chan_space cf' = chan_space cf" "chan_up l r cf' m = chan_up l r cf m" "chan_joins m r cf' = chan_joins m r cf"
    "ccfg_type cf = IPC_SHM_MANAGED \<Longrightarrow> cfg_pools cf' = cfg_pools cf"
  using assms by (simp_all add: chan_shape_def chan_space_def chan_up_def chan_joins_def split: ipc_shm_channel_type.splits)

lemma mirrored_cong:
  assumes "mirrored cf cf'"
  shows "length (cfg_chans cf') = length (cfg_chans cf)" "k < length (cfg_chans cf) \<Longrightarrow> chan_shape (cfg_chans cf' ! k) = chan_shape (cfg_chans cf ! k)"
    "chan_addr l cf' k = chan_addr l cf k" "inst_space cf' = inst_space cf" "cfg_shm_size cf' = cfg_shm_size cf" "mirrored cf' cf"
proof -
  show len: "length (cfg_chans cf') = length (cfg_chans cf)" using assms map_eq_imp_length_eq by (auto simp: mirrored_def)
  show sh: "chan_shape (cfg_chans cf' ! k) = chan_shape (cfg_chans cf ! k)" if "k < length (cfg_chans cf)" for k
    using arg_cong [where f = "\<lambda>xs. xs ! k", OF conjunct1 [OF assms [unfolded mirrored_def]]] that len by simp
  have "map chan_space (cfg_chans cf') = map chan_space (cfg_chans cf)"
    by (rule nth_equalityI) (simp_all add: len shape_cong(2) [OF sh])
  then have "chan_off (cfg_chans cf') k = chan_off (cfg_chans cf) k" "chans_space (cfg_chans cf') = chans_space (cfg_chans cf)" for k
    by (simp_all add: chan_off_def chans_space_def flip: take_map)
  then show "chan_addr l cf' k = chan_addr l cf k" "inst_space cf' = inst_space cf" by (simp_all add: inst_space_def)
  show "cfg_shm_size cf' = cfg_shm_size cf" "mirrored cf' cf" using assms by (simp_all add: mirrored_def)
qed

lemma used_up: "inst_up i l r cf st \<Longrightarrow> unat i < IPC_SHM_MAX_INSTANCES \<Longrightarrow> l \<noteq> 0 \<Longrightarrow> ipc_instance_is_free i st = Some IPC_SHM_INSTANCE_USED"
  by (auto simp: inst_up_def ipc_instance_is_free_def IPC_SHM_STATE_READY_def IPC_SHM_STATE_CLEAR_def)

lemma up_exchange:
  assumes A: "inst_up i l r cf st" "cfg_fits cf" "unat i < IPC_SHM_MAX_INSTANCES" "os_get_local_shm P i (st_env st) = Some l" "os_get_remote_shm P i (st_env st) = Some r"
    and B: "inst_up j r l cf' st'" "cfg_fits cf'" "unat j < IPC_SHM_MAX_INSTANCES" "os_get_remote_shm P' j (st_env st') = Some l"
    and mem: "st_mem st' = st_mem st" and sym: "mirrored cf cf'"
    and ar: "area l r (unat (cfg_shm_size cf)) (st_mem st)"
    and c: "k < length (cfg_chans cf)" "ccfg_type (cfg_chans cf ! k) = IPC_SHM_MANAGED"
  shows "can_exchange P i (of_nat k) st P' j (of_nat k) st' l r (ccfg_managed (cfg_chans cf' ! k))"
proof -
  let ?l = "chan_addr l cf k" and ?r = "chan_addr r cf k" and ?xs = "cfg_pools (cfg_chans cf ! k)" and ?sz = "cfg_shm_size cf"
  note mi = mirrored_cong [OF sym] and sh = shape_cong [OF mirrored_cong(2) [OF sym c(1)]]
  have sp: "inst_space cf \<le> unat ?sz" using A(2) by (simp add: cfg_fits_def inst_space_def)
  from managed_at [OF A(1,2) c] obtain ch :: ipc_shm_channel where ch: "get_managed_chan i (of_nat k) st = Some (Some (ch_mng ch))" "laid_out ?l ?r ?xs (ch_mng ch)"
    "pools_ok ?xs" "managed_up ?l ?r ?xs (st_mem st)" "chan_space (cfg_chans cf ! k) = managed_space ?xs" by blast
  from managed_at [OF B(1,2), of k] c mi(1,3) sh(1,5) obtain ch' where ch': "get_channel_priv j (of_nat k) st' = Some ch'" "ch_type ch' = IPC_SHM_MANAGED"
    "get_managed_chan j (of_nat k) st' = Some (Some (ch_mng ch'))" "laid_out ?r ?l ?xs (ch_mng ch')" "mc_rx_cb (ch_mng ch') \<noteq> 0"
    "managed_up ?r ?l ?xs (st_mem st)"
    "mc_rx_cb (ch_mng ch') = mcfg_rx_cb (ccfg_managed (cfg_chans cf' ! k))" "mc_cb_arg (ch_mng ch') = mcfg_cb_arg (ccfg_managed (cfg_chans cf' ! k))"
    "ch_id ch' = of_nat k" using mem by auto
  from A(1) obtain pv where pv: "priv_at i st = Some pv" "pv_global pv = l" "pv_shm_size pv = ?sz" by (auto simp: inst_up_def)
  from B(1) obtain pv' where pv': "priv_at j st' = Some pv'" "pv_global pv' = r" "pv_shm_size pv' = ?sz" using mi(5) by (auto simp: inst_up_def)
  note ca = chan_addr_area [OF ar sp c(1), unfolded ch(5)] chan_addr_area [OF ar [unfolded area_swap [of l]] sp c(1), unfolded ch(5)]
  have lr: "l \<noteq> 0" "r \<noteq> 0" using ar by (auto simp: area_def)
  have rdy: "ipc_shm_is_remote_ready P i st = Some 0"
    using used_up [OF A(1,3) lr(1)] A(5) lr(2) B(1) mem by (simp add: ipc_shm_is_remote_ready_def inst_up_def)
  note bu = both_up [OF ch(2,3,4) ch'(6)]
  have off: "8 + chan_off (cfg_chans cf) k + managed_space ?xs \<le> unat ?sz"
    using chan_off_le [OF c(1)] sp ch(5) by (simp add: inst_space_def)
  have lt: "managed_space ?xs < 2 ^ 32" using off unat_less [of ?sz] by simp
  have ua: "unat ?l = unat l + (8 + chan_off (cfg_chans cf) k)"
    using unat_plus_of_nat [of l "8 + chan_off (cfg_chans cf) k"] off ar by (simp add: area_def add.assoc)
  have "sender_ok P i (of_nat k) st (ch_mng ch) pv l r"
  proof -
    have "region l 8 \<inter> region (push_ring q) (ring_bytes q) = {} \<and> region r 8 \<inter> region (push_ring q) (ring_bytes q) = {} \<and>
       region r 8 \<inter> region (pop_ring q) (ring_bytes q) = {}" if "q \<in> set (chan_queues (ch_mng ch))" for q
      using ring_in_chan [OF ch(2,3) that] ca(2,3,5,6) by blast
    moreover have "length ?xs \<le> IPC_SHM_MAX_POOLS" using ch(3) by (simp add: pools_ok_def)
    ultimately show ?thesis
      using rdy ch(1,2) bu(1) pv A(4,5) lr laid_out_pools [OF ch(2,3) ca(1) lt] laid_out_separate [OF ch(2,3) ca(1)]
      by (simp add: sender_ok_def chan_usable_def laid_out_def)
  qed
  moreover have "receiver_ok P' j (of_nat k) st' ch' pv' l r"
    using ch' pv' B(3,4) lr laid_out_separate [OF ch'(4) ch(3) ca(4)] by (simp add: receiver_ok_def)
  moreover have "2 \<le> unat (elem_num (mc_bd_queue (ch_mng ch)))"
    using chan_queue_sel(2) [OF ch(3), of ?l ?r] chan_total(1) [OF ch(3)] ch(2) by (simp add: laid_out_def)
  moreover have "let p = pl_local_pool_addr (mc_pools (ch_mng ch) ! q) + ucast (ucast (b :: u16) * pl_buf_size (mc_pools (ch_mng ch) ! q));
        n = pl_buf_size (mc_pools (ch_mng ch) ! q) in
      in_remote_shm l (pv_shm_size pv) p n \<and> outside_rings (ch_mng ch) pv r p (unat n) \<and> mapped (st_mem st) p (unat n)"
    if "q < length ?xs" "unat b < unat (pcfg_num_bufs (?xs ! q))" for q b
    unfolding Let_def
  proof (intro conjI)
    show "in_remote_shm l (pv_shm_size pv) (pl_local_pool_addr (mc_pools (ch_mng ch) ! q) + ucast (ucast b * pl_buf_size (mc_pools (ch_mng ch) ! q)))
      (pl_buf_size (mc_pools (ch_mng ch) ! q))"
      by (rule laid_out_inside [OF ch(2,3) that _ _ _ lt]) (use ua off pv(3) ar in \<open>simp_all add: area_def\<close>)
    have out: "region (pv_global pv) 8 \<inter> region ?l (managed_space ?xs) = {}" "region r 8 \<inter> region ?l (managed_space ?xs) = {}"
      using ca(2,6) pv(2) by auto
    show "outside_rings (ch_mng ch) pv r (pl_local_pool_addr (mc_pools (ch_mng ch) ! q) + ucast (ucast b * pl_buf_size (mc_pools (ch_mng ch) ! q)))
        (unat (pl_buf_size (mc_pools (ch_mng ch) ! q)))"
      "mapped (st_mem st) (pl_local_pool_addr (mc_pools (ch_mng ch) ! q) + ucast (ucast b * pl_buf_size (mc_pools (ch_mng ch) ! q)))
        (unat (pl_buf_size (mc_pools (ch_mng ch) ! q)))"
      by (rule laid_out_outside [OF ch(2,3) that ca(1) lt out refl])+
  qed
  ultimately show ?thesis
    unfolding can_exchange_def Let_def [of "the (mcfg_pools (ccfg_managed (cfg_chans cf' ! k)))"] sh(5) [OF c(2)] using laid_out_peer [OF ch(2) ch'(4) ch(3)] bu pv pv' ch(2) ch'(7-9) laid_out_bufs [OF ch(2,3)]
    by (intro exI [of _ "ch_mng ch"] exI [of _ pv] exI [of _ ch'] exI [of _ pv']) (simp add: laid_out_def)
qed

section \<open>Starting both sides\<close>

definition zeroed :: "memory \<Rightarrow> u64 \<Rightarrow> nat \<Rightarrow> bool" where
  "zeroed m a n \<longleftrightarrow> (\<forall>x \<in> region a n. m x = Some 0)"

lemma zeroed_sub: "zeroed m a n \<Longrightarrow> k + j \<le> n \<Longrightarrow> zeroed m (a + of_nat k) j"
  using region_offset [of k j n a] by (auto simp: zeroed_def)

lemma zeroed_bytes: "zeroed m a n \<Longrightarrow> load_bytes m a n = Some (replicate n 0)"
  by (auto simp: zeroed_def region_def load_bytes_def mapped_def list_all_iff map_replicate_trivial [symmetric] simp del: map_replicate_trivial)

lemma zeroed_ring:
  assumes "zeroed m a k" "16 \<le> k" "0 < n"
  shows "ring_joins m a n"
proof -
  have "load_bytes m a 8 = Some (replicate 8 0)" "load_bytes m (a + 8) 4 = Some (replicate 4 0)" "load_bytes m (a + 12) 4 = Some (replicate 4 0)"
    using zeroed_bytes [OF zeroed_sub [OF assms(1), of 0 8]] zeroed_bytes [OF zeroed_sub [OF assms(1), of 8 4]]
      zeroed_bytes [OF zeroed_sub [OF assms(1), of 12 4]] assms(2) by simp_all
  then show ?thesis
    using assms(3) by (simp add: ring_joins_def load_u64_def load_u32_def ring_sentinel_def ring_write_def ring_read_def wr_idx_def rd_idx_def
        le_nat_zeros IPC_QUEUE_INIT_IN_PROGRESS_def)
qed

lemma zeroed_pools: "zeroed m r (pools_space xs) \<Longrightarrow> pools_join m r xs"
proof (induction xs arbitrary: r)
  case (Cons x xs)
  have "zeroed m (r + of_nat (pool_space x)) (pools_space xs)" by (rule zeroed_sub [OF Cons.prems]) simp
  moreover have "ring_joins m r (unat (pcfg_num_bufs x) + 1)"
    by (rule zeroed_ring [OF Cons.prems]) (use ring_space_le(1) [of x] ring_space_le(2) [of "unat (pcfg_num_bufs x)"] in simp_all)
  ultimately show ?case using Cons.IH by simp
qed simp

lemma zeroed_chan:
  assumes "chan_cfg_ok cf" "zeroed m r (chan_space cf)"
  shows "chan_joins m r cf"
  using assms(1)
proof (cases rule: chan_cases)
  case (mng xs)
  have "ring_joins m r (total_bufs xs + 1)"
    by (rule zeroed_ring [OF assms(2)]) (use mng(6) ring_space_le(2) [of "total_bufs xs"] in \<open>simp_all add: managed_space_def\<close>)
  moreover have "pools_join m (r + of_nat (ring_space (total_bufs xs))) xs"
    by (rule zeroed_pools, rule zeroed_sub [OF assms(2)]) (simp add: mng(6) managed_space_def)
  ultimately show ?thesis using mng by (simp add: chan_joins_def managed_joins_def)
next
  case umng
  have "load_bytes m r 4 = Some (replicate 4 0)" using zeroed_bytes [OF zeroed_sub [OF assms(2), of 0 4]] umng(4) by simp
  then show ?thesis using umng(1) by (simp add: chan_joins_def load_u32_def umem_sentinel_def le_nat_zeros IPC_SHM_UCHAN_INIT_IN_PROGRESS_def)
qed

text \<open>An instance that has never been used.\<close>

definition unused :: "u8 \<Rightarrow> 'w shm_state \<Rightarrow> bool" where
  "unused i st \<longleftrightarrow> unat i < IPC_SHM_MAX_INSTANCES \<and> alloc i st \<and> (\<exists>pv. priv_at i st = Some pv \<and> pv_global pv = 0)"

lemma unused_free: "unused i st \<Longrightarrow> ipc_instance_is_free i (st\<lparr>st_mem := m\<rparr>) = Some IPC_SHM_INSTANCE_FREE"
  by (auto simp: unused_def ipc_instance_is_free_def)

lemma inst_up_peer:
  assumes up: "inst_up i l r cf st" "inst_up j r l cf' st'" and sym: "mirrored cf cf'" and fits: "cfg_fits cf"
    and se: "same_except (region r (inst_space cf)) (st_mem st) (st_mem st')" and ar: "area l r (unat (cfg_shm_size cf)) m"
  shows "inst_up i l r cf (st\<lparr>st_mem := st_mem st'\<rparr>)"
proof -
  have sp: "inst_space cf \<le> unat (cfg_shm_size cf)" using fits by (simp add: cfg_fits_def inst_space_def)
  have "region l 8 \<inter> region r (inst_space cf) = {}" using area_cross [OF ar [unfolded area_swap [of l]], of 0 8 0 "inst_space cf"] sp by (simp add: inst_space_def)
  then have "load_u64 (st_mem st') l = Some IPC_SHM_STATE_READY" using load_u64_same_except [OF se] up(1) by (simp add: inst_up_def)
  moreover have "chan_up (chan_addr l cf k) (chan_addr r cf k) (cfg_chans cf ! k) (st_mem st')" if k: "k < length (cfg_chans cf)" for k
  proof (rule chan_up_peer [OF _ _ _ se])
    show "chan_cfg_ok (cfg_chans cf ! k)" using fits k by (simp add: cfg_fits_def list_all_length)
    show "chan_up (chan_addr l cf k) (chan_addr r cf k) (cfg_chans cf ! k) (st_mem st)" using up(1) k by (simp add: inst_up_def)
    have "chan_up (chan_addr r cf' k) (chan_addr l cf' k) (cfg_chans cf' ! k) (st_mem st')"
      using up(2) k mirrored_cong(1) [OF sym] by (simp add: inst_up_def)
    then show "chan_up (chan_addr r cf k) (chan_addr l cf k) (cfg_chans cf ! k) (st_mem st')"
      unfolding mirrored_cong(3) [OF sym] shape_cong(3) [OF mirrored_cong(2) [OF sym k]] .
    show "region (chan_addr l cf k) (chan_space (cfg_chans cf ! k)) \<inter> region r (inst_space cf) = {}"
      using area_cross [OF ar [unfolded area_swap [of l]], of "8 + chan_off (cfg_chans cf) k" "chan_space (cfg_chans cf ! k)" 0 "inst_space cf"]
        sp chan_off_le [OF k] by (simp add: inst_space_def add.assoc)
  qed
  ultimately show ?thesis using up(1) by (simp add: inst_up_def)
qed

lemma both_start:
  assumes fits: "cfg_fits cf" "cfg_fits cf'" "mirrored cf cf'"
    and A: "unused i st" "layers_start P i cf (st_mem st) (st_env st) l r m w"
    and B: "unused j st'" "\<And>m'. same_except (region l (inst_space cf)) m m' \<Longrightarrow> layers_start P' j cf' m' (st_env st') r l m' w'"
    and mem: "area l r (unat (cfg_shm_size cf)) m" "zeroed m r (inst_space cf)"
  shows "\<exists>sA sB. ipc_shm_init_instance P i (Some cf) st = Some (0, sA) \<and>
     ipc_shm_init_instance P' j (Some cf') (st'\<lparr>st_mem := st_mem sA\<rparr>) = Some (0, sB) \<and>
     st_env sA = w \<and> st_env sB = w' \<and> inst_up i l r cf (sA\<lparr>st_mem := st_mem sB\<rparr>) \<and> inst_up j r l cf' sB \<and>
     area l r (unat (cfg_shm_size cf)) (st_mem sB) \<and>
     (\<forall>k < length (cfg_chans cf). ccfg_type (cfg_chans cf ! k) = IPC_SHM_MANAGED \<longrightarrow>
        can_exchange P i (of_nat k) (sA\<lparr>st_mem := st_mem sB\<rparr>) P' j (of_nat k) sB l r (ccfg_managed (cfg_chans cf' ! k)) \<and>
        can_exchange P' j (of_nat k) sB P i (of_nat k) (sA\<lparr>st_mem := st_mem sB\<rparr>) r l (ccfg_managed (cfg_chans cf ! k)))"
proof -
  note mi = mirrored_cong [OF fits(3)]
  have ok: "chan_cfg_ok (cfg_chans cf ! k)" if "k < length (cfg_chans cf)" for k using fits(1) that by (simp add: cfg_fits_def list_all_length)
  have "chan_joins m (chan_addr r cf k) (cfg_chans cf ! k)" if k: "k < length (cfg_chans cf)" for k
    using zeroed_chan [OF ok [OF k] zeroed_sub [OF mem(2), of "8 + chan_off (cfg_chans cf) k"]] chan_off_le [OF k] by (simp add: inst_space_def add.assoc)
  then obtain sA where sA: "ipc_shm_init_instance P i (Some cf) st = Some (0, sA)" "inst_up i l r cf sA" "st_env sA = w"
    "same_except (region l (inst_space cf)) m (st_mem sA)"
    using init_instance_ok [OF _ _ fits(1) A(2) mem(1)] unused_free [OF A(1), of "st_mem st"] A(1) by (auto simp: unused_def)
  let ?t = "st'\<lparr>st_mem := st_mem sA\<rparr>"
  have arB: "area r l (unat (cfg_shm_size cf')) (st_mem sA)" using mem(1) area_frame [OF sA(4)] mi(5) by (simp add: area_swap [of r])
  have "chan_joins (st_mem sA) (chan_addr l cf' k) (cfg_chans cf' ! k)" if "k < length (cfg_chans cf')" for k
    using chan_joins_up [OF ok, where l = "chan_addr l cf k" and r = "chan_addr r cf k" and m = "st_mem sA"] sA(2) that
      mi(1,3) shape_cong(4) [OF mi(2)] by (simp add: inst_up_def)
  moreover have lay: "layers_start P' j cf' (st_mem ?t) (st_env ?t) r l (st_mem sA) w'" using B(2) [OF sA(4)] by simp
  ultimately obtain sB where sB: "ipc_shm_init_instance P' j (Some cf') ?t = Some (0, sB)" "inst_up j r l cf' sB" "st_env sB = w'"
    "same_except (region r (inst_space cf)) (st_mem sA) (st_mem sB)"
    using init_instance_ok [OF unused_free [OF B(1)] _ fits(2) lay arB] B(1) mi(4) by (auto simp: unused_def)
  let ?sA = "sA\<lparr>st_mem := st_mem sB\<rparr>"
  have up: "inst_up i l r cf ?sA" by (rule inst_up_peer [OF sA(2) sB(2) fits(3,1) sB(4) mem(1)])
  have ij: "unat i < IPC_SHM_MAX_INSTANCES" "unat j < IPC_SHM_MAX_INSTANCES" using A(1) B(1) by (simp_all add: unused_def)
  have lA: "os_get_local_shm P i w = Some l" "os_get_remote_shm P i w = Some r" using A(2) by (auto simp: layers_start_def)
  have lB: "os_get_local_shm P' j w' = Some r" "os_get_remote_shm P' j w' = Some l" using B(2) [OF sA(4)] by (auto simp: layers_start_def)
  have ar: "area l r (unat (cfg_shm_size cf)) (st_mem sB)" using mem(1) area_frame [OF sA(4)] area_frame [OF sB(4)] by simp
  have "can_exchange P i (of_nat k) ?sA P' j (of_nat k) sB l r (ccfg_managed (cfg_chans cf' ! k)) \<and>
        can_exchange P' j (of_nat k) sB P i (of_nat k) ?sA r l (ccfg_managed (cfg_chans cf ! k))"
    if "k < length (cfg_chans cf)" "ccfg_type (cfg_chans cf ! k) = IPC_SHM_MANAGED" for k
    using up_exchange [OF up fits(1) ij(1) _ _ sB(2) fits(2) ij(2), of P P' k] up_exchange [OF sB(2) fits(2) ij(2) _ _ up fits(1) ij(1), of P' P k]
      lA lB sA(3) sB(3) fits(3) mi shape_cong(1,5) [OF mi(2) [OF that(1)]] ar that by (simp add: area_swap [of r])
  then show ?thesis using sA(1,3) sB(1-3) up ar by blast
qed

text \<open>The first message: the sender gets the first buffer of the first pool that is large enough.\<close>

lemma first_exchange:
  assumes ex: "can_exchange P i c st P' j d st' L R mcf" and mcf: "mcfg_pools mcf = Some xs" "pools_ok xs"
    and n: "n \<noteq> 0" "n \<le> pcfg_buf_size (last xs)" "len \<noteq> 0" and bs: "length bs \<le> unat n" and nt: "hw_irq_notify P i (st_env st) = Some w"
  shows "\<exists>p m0 m1 m2 m3 m4. p \<noteq> 0 \<and> ipc_shm_acquire_buf P i c n st = Some (p, st\<lparr>st_mem := m0\<rparr>) \<and> store_bytes p bs m0 = Some m1 \<and>
     ipc_shm_tx P i (uint c) p len (st\<lparr>st_mem := m1\<rparr>) = Some (0, st\<lparr>st_mem := m2, st_env := w\<rparr>) \<and>
     ipc_channel_rx P' j d 1 (st'\<lparr>st_mem := m2\<rparr>) =
       do { st2 \<leftarrow> app_rx_cb P' (mcfg_rx_cb mcf) (mcfg_cb_arg mcf) j d p len (st'\<lparr>st_mem := m3\<rparr>); Some (1, st2) } \<and>
     load_bytes m3 p (length bs) = Some bs \<and> ipc_shm_release_buf j d p (st'\<lparr>st_mem := m3\<rparr>) = Some (0, st'\<lparr>st_mem := m4\<rparr>)"
proof -
  from ex mcf(1) obtain mc pv ch pv' where e: "sender_ok P i c st mc pv L R" "receiver_ok P' j d st' ch pv' L R"
     "mc_rx_cb (ch_mng ch) = mcfg_rx_cb mcf" "mc_cb_arg (ch_mng ch) = mcfg_cb_arg mcf" "ch_id ch = d"
     "linked mc (ch_mng ch)" "pv_shm_size pv' = pv_shm_size pv" "tx_bds (st_mem st) (mc_bd_queue mc) = []"
     "2 \<le> unat (elem_num (mc_bd_queue mc))" "unat (mc_num_pools mc) = length xs"
     and pl: "\<And>k. k < length xs \<Longrightarrow> pl_buf_size (mc_pools mc ! k) = pcfg_buf_size (xs ! k) \<and> pl_num_bufs (mc_pools mc ! k) = pcfg_num_bufs (xs ! k) \<and>
        rx_bds (st_mem st) (pl_bd_queue (mc_pools mc ! k)) = map (free_bd k) [0..<unat (pcfg_num_bufs (xs ! k))] \<and>
        (\<forall>b. unat b < unat (pcfg_num_bufs (xs ! k)) \<longrightarrow>
           (let p = pl_local_pool_addr (mc_pools mc ! k) + ucast (ucast (b :: u16) * pl_buf_size (mc_pools mc ! k)); n = pl_buf_size (mc_pools mc ! k) in
            in_remote_shm L (pv_shm_size pv) p n \<and> outside_rings mc pv R p (unat n) \<and> mapped (st_mem st) p (unat n)))"
    unfolding can_exchange_def by auto
  have nz: "0 < unat (pcfg_num_bufs (xs ! k))" if "k < length xs" for k
    using mcf(2) that by (auto simp: pools_ok_def list_all_length pool_cfg_ok_def unat_gt_0)
  have xs: "xs \<noteq> []" "length xs - 1 < length xs" using mcf(2) by (auto simp: pools_ok_def)
  have "first_fit mc n (st_mem st) \<noteq> None"
    using pl [OF xs(2)] nz [OF xs(2)] n(2) xs e(10)
    by (simp add: first_fit_def find_None_iff last_conv_nth, intro exI [of _ "length xs - 1"]) simp
  then obtain k where ff: "first_fit mc n (st_mem st) = Some k" by blast
  then have k: "k < length xs" "n \<le> pl_buf_size (mc_pools mc ! k)" using e(10) by (auto simp: first_fit_def find_Some_iff)
  note pk = pl [OF k(1)]
  have hd: "bd_buf_id (hd (rx_bds (st_mem st) (pl_bd_queue (mc_pools mc ! k)))) = 0" using pk nz [OF k(1)] by (simp add: upt_rec free_bd_def)
  let ?p = "pl_local_pool_addr (mc_pools mc ! k) + ucast (ucast (0 :: u16) * pl_buf_size (mc_pools mc ! k) :: u32)"
  have pr: "in_remote_shm L (pv_shm_size pv) ?p (pl_buf_size (mc_pools mc ! k))" "outside_rings mc pv R ?p (unat (pl_buf_size (mc_pools mc ! k)))"
    "mapped (st_mem st) ?p (unat (pl_buf_size (mc_pools mc ! k)))"
    using pk [THEN conjunct2, THEN conjunct2, THEN conjunct2, rule_format, of 0] nz [OF k(1)] by (simp_all add: Let_def)
  have nb: "next_buffer mc pv L R n (st_mem st) k 0 ?p"
    using ff hd pk nz [OF k(1)] pr e(8,9) unfolding next_buffer_def by simp
  have p0: "?p \<noteq> 0" using pr(1) e(1) by (auto simp: in_remote_shm_def sender_ok_def word_le_0_iff)
  have "length bs \<le> unat (pl_buf_size (mc_pools mc ! k))" using bs k(2) by (simp add: word_le_nat_alt)
  from round_trip_run [OF e(1,2,6,7) n(1,3) nb this nt] p0 e(3-5) show ?thesis by (simp only:) blast
qed

end
