(* ===== verification/Sample_Cfg.thy ===== *)
theory Sample_Cfg
  imports Types
begin

text \<open>
  The configurations that the single-instance samples are built with: one C file per sample and chip,
  each with its buffer pools, channels, instances and the top-level \<open>ipcf_shm_instances_cfg\<close>. The names are
  those of the C objects with the sample and the chip appended. The addresses of the callbacks and of their
  argument come from the linker: they are the fields of \<open>cfg_symbols\<close>. A member that an initialiser leaves
  out is zero.
\<close>

unbundle bit_operations_syntax

named_theorems cfg_defs "the shipped configurations"

record cfg_symbols =
  ctrl_chan_rx_cb_ptr :: u64
  data_chan_rx_cb_ptr :: u64
  rx_cb_arg_ptr :: u64

text \<open>The values of \<open>enum ipc_shm_core_index\<close>, of which the masks of trusted cores are formed.\<close>

fun core_mask :: "ipc_shm_core_index \<Rightarrow> u32" where
  "core_mask IPC_CORE_INDEX_0 = 0x01"
| "core_mask IPC_CORE_INDEX_1 = 0x02"
| "core_mask IPC_CORE_INDEX_2 = 0x04"
| "core_mask IPC_CORE_INDEX_3 = 0x08"
| "core_mask IPC_CORE_INDEX_4 = 0x10"
| "core_mask IPC_CORE_INDEX_5 = 0x20"
| "core_mask IPC_CORE_INDEX_6 = 0x40"
| "core_mask IPC_CORE_INDEX_7 = 0x80"
| "core_mask (IPC_CORE_INDEX_OTHER n) = n"

definition no_managed_cfg :: ipc_shm_managed_cfg where
  "no_managed_cfg = \<lparr>mcfg_num_pools = 0, mcfg_pools = None, mcfg_rx_cb = 0, mcfg_cb_arg = 0\<rparr>"

definition no_unmanaged_cfg :: ipc_shm_unmanaged_cfg where
  "no_unmanaged_cfg = \<lparr>ucfg_size = 0, ucfg_rx_cb = 0, ucfg_cb_arg = 0\<rparr>"

definition zero_local_core :: ipc_shm_local_core where
  "zero_local_core = \<lparr>lcore_type = IPC_CORE_DEFAULT, lcore_index = IPC_CORE_INDEX_OTHER 0, lcore_trusted = 0\<rparr>"

definition zero_remote_core :: ipc_shm_remote_core where
  "zero_remote_core = \<lparr>rcore_type = IPC_CORE_DEFAULT, rcore_index = IPC_CORE_INDEX_OTHER 0\<rparr>"

section \<open>\<open>src/sample/ipcf_Ip_Cfg_s32g2.c\<close>\<close>

definition ipcf_shm_cfg_buf_pools0_sample_s32g2 :: "ipc_shm_pool_cfg list" where
  "ipcf_shm_cfg_buf_pools0_sample_s32g2 = [
     \<lparr>pcfg_num_bufs = 5, pcfg_buf_size = 32\<rparr>,
     \<lparr>pcfg_num_bufs = 5, pcfg_buf_size = 256\<rparr>,
     \<lparr>pcfg_num_bufs = 5, pcfg_buf_size = 4096\<rparr>]"

definition ipcf_shm_cfg_buf_pools1_sample_s32g2 :: "ipc_shm_pool_cfg list" where
  "ipcf_shm_cfg_buf_pools1_sample_s32g2 = [
     \<lparr>pcfg_num_bufs = 5, pcfg_buf_size = 32\<rparr>,
     \<lparr>pcfg_num_bufs = 5, pcfg_buf_size = 256\<rparr>,
     \<lparr>pcfg_num_bufs = 5, pcfg_buf_size = 4096\<rparr>]"

definition ipcf_shm_cfg_channels_sample_s32g2 :: "cfg_symbols \<Rightarrow> ipc_shm_channel_cfg list" where
  "ipcf_shm_cfg_channels_sample_s32g2 s = [
     \<lparr>ccfg_type = IPC_SHM_UNMANAGED, ccfg_managed = no_managed_cfg,
      ccfg_unmanaged = \<lparr>ucfg_size = 64, ucfg_rx_cb = ctrl_chan_rx_cb_ptr s, ucfg_cb_arg = rx_cb_arg_ptr s\<rparr>\<rparr>,
     \<lparr>ccfg_type = IPC_SHM_MANAGED, ccfg_managed = \<lparr>mcfg_num_pools = 3, mcfg_pools = Some ipcf_shm_cfg_buf_pools0_sample_s32g2,
      mcfg_rx_cb = data_chan_rx_cb_ptr s, mcfg_cb_arg = rx_cb_arg_ptr s\<rparr>, ccfg_unmanaged = no_unmanaged_cfg\<rparr>,
     \<lparr>ccfg_type = IPC_SHM_MANAGED, ccfg_managed = \<lparr>mcfg_num_pools = 3, mcfg_pools = Some ipcf_shm_cfg_buf_pools1_sample_s32g2,
      mcfg_rx_cb = data_chan_rx_cb_ptr s, mcfg_cb_arg = rx_cb_arg_ptr s\<rparr>, ccfg_unmanaged = no_unmanaged_cfg\<rparr>]"

definition ipcf_shm_cfg_instances_sample_s32g2 :: "cfg_symbols \<Rightarrow> ipc_shm_cfg list" where
  "ipcf_shm_cfg_instances_sample_s32g2 s = [
     \<lparr>cfg_local_shm_addr = 0x34100000, cfg_remote_shm_addr = 0x34200000, cfg_shm_size = 0x100000,
      cfg_inter_core_tx_irq = 2, cfg_inter_core_rx_irq = 1,
      cfg_local_core = \<lparr>lcore_type = IPC_CORE_DEFAULT, lcore_index = IPC_CORE_INDEX_0,
        lcore_trusted = core_mask IPC_CORE_INDEX_0 OR core_mask IPC_CORE_INDEX_1 OR core_mask IPC_CORE_INDEX_2 OR core_mask IPC_CORE_INDEX_3\<rparr>,
      cfg_remote_core = \<lparr>rcore_type = IPC_CORE_M7, rcore_index = IPC_CORE_INDEX_0\<rparr>,
      cfg_num_channels = 3, cfg_channels = Some (ipcf_shm_cfg_channels_sample_s32g2 s)\<rparr>]"

definition ipcf_shm_instances_cfg_sample_s32g2 :: "cfg_symbols \<Rightarrow> ipc_shm_instances_cfg" where
  "ipcf_shm_instances_cfg_sample_s32g2 s = \<lparr>icfg_num_instances = 1, icfg_shm_cfg = Some (ipcf_shm_cfg_instances_sample_s32g2 s)\<rparr>"

section \<open>\<open>src/sample/ipcf_Ip_Cfg_s32g3.c\<close>\<close>

definition ipcf_shm_cfg_buf_pools0_sample_s32g3 :: "ipc_shm_pool_cfg list" where
  "ipcf_shm_cfg_buf_pools0_sample_s32g3 = [
     \<lparr>pcfg_num_bufs = 5, pcfg_buf_size = 32\<rparr>,
     \<lparr>pcfg_num_bufs = 5, pcfg_buf_size = 256\<rparr>,
     \<lparr>pcfg_num_bufs = 5, pcfg_buf_size = 4096\<rparr>]"

definition ipcf_shm_cfg_buf_pools1_sample_s32g3 :: "ipc_shm_pool_cfg list" where
  "ipcf_shm_cfg_buf_pools1_sample_s32g3 = [
     \<lparr>pcfg_num_bufs = 5, pcfg_buf_size = 32\<rparr>,
     \<lparr>pcfg_num_bufs = 5, pcfg_buf_size = 256\<rparr>,
     \<lparr>pcfg_num_bufs = 5, pcfg_buf_size = 4096\<rparr>]"

definition ipcf_shm_cfg_channels_sample_s32g3 :: "cfg_symbols \<Rightarrow> ipc_shm_channel_cfg list" where
  "ipcf_shm_cfg_channels_sample_s32g3 s = [
     \<lparr>ccfg_type = IPC_SHM_UNMANAGED, ccfg_managed = no_managed_cfg,
      ccfg_unmanaged = \<lparr>ucfg_size = 64, ucfg_rx_cb = ctrl_chan_rx_cb_ptr s, ucfg_cb_arg = rx_cb_arg_ptr s\<rparr>\<rparr>,
     \<lparr>ccfg_type = IPC_SHM_MANAGED, ccfg_managed = \<lparr>mcfg_num_pools = 3, mcfg_pools = Some ipcf_shm_cfg_buf_pools0_sample_s32g3,
      mcfg_rx_cb = data_chan_rx_cb_ptr s, mcfg_cb_arg = rx_cb_arg_ptr s\<rparr>, ccfg_unmanaged = no_unmanaged_cfg\<rparr>,
     \<lparr>ccfg_type = IPC_SHM_MANAGED, ccfg_managed = \<lparr>mcfg_num_pools = 3, mcfg_pools = Some ipcf_shm_cfg_buf_pools1_sample_s32g3,
      mcfg_rx_cb = data_chan_rx_cb_ptr s, mcfg_cb_arg = rx_cb_arg_ptr s\<rparr>, ccfg_unmanaged = no_unmanaged_cfg\<rparr>]"

definition ipcf_shm_cfg_instances_sample_s32g3 :: "cfg_symbols \<Rightarrow> ipc_shm_cfg list" where
  "ipcf_shm_cfg_instances_sample_s32g3 s = [
     \<lparr>cfg_local_shm_addr = 0x34100000, cfg_remote_shm_addr = 0x34200000, cfg_shm_size = 0x100000,
      cfg_inter_core_tx_irq = 2, cfg_inter_core_rx_irq = 1,
      cfg_local_core = \<lparr>lcore_type = IPC_CORE_DEFAULT, lcore_index = IPC_CORE_INDEX_0,
        lcore_trusted = core_mask IPC_CORE_INDEX_0 OR core_mask IPC_CORE_INDEX_1 OR core_mask IPC_CORE_INDEX_2 OR core_mask IPC_CORE_INDEX_3 OR core_mask IPC_CORE_INDEX_4 OR core_mask IPC_CORE_INDEX_5 OR core_mask IPC_CORE_INDEX_6 OR core_mask IPC_CORE_INDEX_7\<rparr>,
      cfg_remote_core = \<lparr>rcore_type = IPC_CORE_M7, rcore_index = IPC_CORE_INDEX_0\<rparr>,
      cfg_num_channels = 3, cfg_channels = Some (ipcf_shm_cfg_channels_sample_s32g3 s)\<rparr>]"

definition ipcf_shm_instances_cfg_sample_s32g3 :: "cfg_symbols \<Rightarrow> ipc_shm_instances_cfg" where
  "ipcf_shm_instances_cfg_sample_s32g3 s = \<lparr>icfg_num_instances = 1, icfg_shm_cfg = Some (ipcf_shm_cfg_instances_sample_s32g3 s)\<rparr>"

section \<open>\<open>src/sample/ipcf_Ip_Cfg_s32r45.c\<close>\<close>

definition ipcf_shm_cfg_buf_pools0_sample_s32r45 :: "ipc_shm_pool_cfg list" where
  "ipcf_shm_cfg_buf_pools0_sample_s32r45 = [
     \<lparr>pcfg_num_bufs = 5, pcfg_buf_size = 32\<rparr>,
     \<lparr>pcfg_num_bufs = 5, pcfg_buf_size = 256\<rparr>,
     \<lparr>pcfg_num_bufs = 5, pcfg_buf_size = 4096\<rparr>]"

definition ipcf_shm_cfg_buf_pools1_sample_s32r45 :: "ipc_shm_pool_cfg list" where
  "ipcf_shm_cfg_buf_pools1_sample_s32r45 = [
     \<lparr>pcfg_num_bufs = 5, pcfg_buf_size = 32\<rparr>,
     \<lparr>pcfg_num_bufs = 5, pcfg_buf_size = 256\<rparr>,
     \<lparr>pcfg_num_bufs = 5, pcfg_buf_size = 4096\<rparr>]"

definition ipcf_shm_cfg_channels_sample_s32r45 :: "cfg_symbols \<Rightarrow> ipc_shm_channel_cfg list" where
  "ipcf_shm_cfg_channels_sample_s32r45 s = [
     \<lparr>ccfg_type = IPC_SHM_UNMANAGED, ccfg_managed = no_managed_cfg,
      ccfg_unmanaged = \<lparr>ucfg_size = 64, ucfg_rx_cb = ctrl_chan_rx_cb_ptr s, ucfg_cb_arg = rx_cb_arg_ptr s\<rparr>\<rparr>,
     \<lparr>ccfg_type = IPC_SHM_MANAGED, ccfg_managed = \<lparr>mcfg_num_pools = 3, mcfg_pools = Some ipcf_shm_cfg_buf_pools0_sample_s32r45,
      mcfg_rx_cb = data_chan_rx_cb_ptr s, mcfg_cb_arg = rx_cb_arg_ptr s\<rparr>, ccfg_unmanaged = no_unmanaged_cfg\<rparr>,
     \<lparr>ccfg_type = IPC_SHM_MANAGED, ccfg_managed = \<lparr>mcfg_num_pools = 3, mcfg_pools = Some ipcf_shm_cfg_buf_pools1_sample_s32r45,
      mcfg_rx_cb = data_chan_rx_cb_ptr s, mcfg_cb_arg = rx_cb_arg_ptr s\<rparr>, ccfg_unmanaged = no_unmanaged_cfg\<rparr>]"

definition ipcf_shm_cfg_instances_sample_s32r45 :: "cfg_symbols \<Rightarrow> ipc_shm_cfg list" where
  "ipcf_shm_cfg_instances_sample_s32r45 s = [
     \<lparr>cfg_local_shm_addr = 0x34100000, cfg_remote_shm_addr = 0x34200000, cfg_shm_size = 0x100000,
      cfg_inter_core_tx_irq = 2, cfg_inter_core_rx_irq = 1,
      cfg_local_core = \<lparr>lcore_type = IPC_CORE_DEFAULT, lcore_index = IPC_CORE_INDEX_0,
        lcore_trusted = core_mask IPC_CORE_INDEX_0 OR core_mask IPC_CORE_INDEX_1 OR core_mask IPC_CORE_INDEX_2 OR core_mask IPC_CORE_INDEX_3\<rparr>,
      cfg_remote_core = \<lparr>rcore_type = IPC_CORE_M7, rcore_index = IPC_CORE_INDEX_0\<rparr>,
      cfg_num_channels = 3, cfg_channels = Some (ipcf_shm_cfg_channels_sample_s32r45 s)\<rparr>]"

definition ipcf_shm_instances_cfg_sample_s32r45 :: "cfg_symbols \<Rightarrow> ipc_shm_instances_cfg" where
  "ipcf_shm_instances_cfg_sample_s32r45 s = \<lparr>icfg_num_instances = 1, icfg_shm_cfg = Some (ipcf_shm_cfg_instances_sample_s32r45 s)\<rparr>"

section \<open>\<open>src/sample/ipcf_Ip_Cfg_s32r47.c\<close>\<close>

definition ipcf_shm_cfg_buf_pools0_sample_s32r47 :: "ipc_shm_pool_cfg list" where
  "ipcf_shm_cfg_buf_pools0_sample_s32r47 = [
     \<lparr>pcfg_num_bufs = 5, pcfg_buf_size = 32\<rparr>,
     \<lparr>pcfg_num_bufs = 5, pcfg_buf_size = 256\<rparr>,
     \<lparr>pcfg_num_bufs = 5, pcfg_buf_size = 4096\<rparr>]"

definition ipcf_shm_cfg_buf_pools1_sample_s32r47 :: "ipc_shm_pool_cfg list" where
  "ipcf_shm_cfg_buf_pools1_sample_s32r47 = [
     \<lparr>pcfg_num_bufs = 5, pcfg_buf_size = 32\<rparr>,
     \<lparr>pcfg_num_bufs = 5, pcfg_buf_size = 256\<rparr>,
     \<lparr>pcfg_num_bufs = 5, pcfg_buf_size = 4096\<rparr>]"

definition ipcf_shm_cfg_channels_sample_s32r47 :: "cfg_symbols \<Rightarrow> ipc_shm_channel_cfg list" where
  "ipcf_shm_cfg_channels_sample_s32r47 s = [
     \<lparr>ccfg_type = IPC_SHM_UNMANAGED, ccfg_managed = no_managed_cfg,
      ccfg_unmanaged = \<lparr>ucfg_size = 64, ucfg_rx_cb = ctrl_chan_rx_cb_ptr s, ucfg_cb_arg = rx_cb_arg_ptr s\<rparr>\<rparr>,
     \<lparr>ccfg_type = IPC_SHM_MANAGED, ccfg_managed = \<lparr>mcfg_num_pools = 3, mcfg_pools = Some ipcf_shm_cfg_buf_pools0_sample_s32r47,
      mcfg_rx_cb = data_chan_rx_cb_ptr s, mcfg_cb_arg = rx_cb_arg_ptr s\<rparr>, ccfg_unmanaged = no_unmanaged_cfg\<rparr>,
     \<lparr>ccfg_type = IPC_SHM_MANAGED, ccfg_managed = \<lparr>mcfg_num_pools = 3, mcfg_pools = Some ipcf_shm_cfg_buf_pools1_sample_s32r47,
      mcfg_rx_cb = data_chan_rx_cb_ptr s, mcfg_cb_arg = rx_cb_arg_ptr s\<rparr>, ccfg_unmanaged = no_unmanaged_cfg\<rparr>]"

definition ipcf_shm_cfg_instances_sample_s32r47 :: "cfg_symbols \<Rightarrow> ipc_shm_cfg list" where
  "ipcf_shm_cfg_instances_sample_s32r47 s = [
     \<lparr>cfg_local_shm_addr = 0x34000000, cfg_remote_shm_addr = 0x34080000, cfg_shm_size = 0x10000,
      cfg_inter_core_tx_irq = 0, cfg_inter_core_rx_irq = 1,
      cfg_local_core = \<lparr>lcore_type = IPC_CORE_DEFAULT, lcore_index = IPC_CORE_INDEX_0,
        lcore_trusted = core_mask IPC_CORE_INDEX_0 OR core_mask IPC_CORE_INDEX_1 OR core_mask IPC_CORE_INDEX_2 OR core_mask IPC_CORE_INDEX_3\<rparr>,
      cfg_remote_core = \<lparr>rcore_type = IPC_CORE_M7, rcore_index = IPC_CORE_INDEX_0\<rparr>,
      cfg_num_channels = 3, cfg_channels = Some (ipcf_shm_cfg_channels_sample_s32r47 s)\<rparr>]"

definition ipcf_shm_instances_cfg_sample_s32r47 :: "cfg_symbols \<Rightarrow> ipc_shm_instances_cfg" where
  "ipcf_shm_instances_cfg_sample_s32r47 s = \<lparr>icfg_num_instances = 1, icfg_shm_cfg = Some (ipcf_shm_cfg_instances_sample_s32r47 s)\<rparr>"

section \<open>\<open>src/sample_user/ipcf_Ip_Cfg_s32g2.c\<close>\<close>

definition ipcf_shm_cfg_buf_pools0_1_user_s32g2 :: "ipc_shm_pool_cfg list" where
  "ipcf_shm_cfg_buf_pools0_1_user_s32g2 = [
     \<lparr>pcfg_num_bufs = 5, pcfg_buf_size = 32\<rparr>,
     \<lparr>pcfg_num_bufs = 5, pcfg_buf_size = 256\<rparr>,
     \<lparr>pcfg_num_bufs = 5, pcfg_buf_size = 4096\<rparr>]"

definition ipcf_shm_cfg_buf_pools0_2_user_s32g2 :: "ipc_shm_pool_cfg list" where
  "ipcf_shm_cfg_buf_pools0_2_user_s32g2 = [
     \<lparr>pcfg_num_bufs = 5, pcfg_buf_size = 32\<rparr>,
     \<lparr>pcfg_num_bufs = 5, pcfg_buf_size = 256\<rparr>,
     \<lparr>pcfg_num_bufs = 5, pcfg_buf_size = 4096\<rparr>]"

definition ipcf_shm_cfg_channels0_user_s32g2 :: "cfg_symbols \<Rightarrow> ipc_shm_channel_cfg list" where
  "ipcf_shm_cfg_channels0_user_s32g2 s = [
     \<lparr>ccfg_type = IPC_SHM_UNMANAGED, ccfg_managed = no_managed_cfg,
      ccfg_unmanaged = \<lparr>ucfg_size = 64, ucfg_rx_cb = ctrl_chan_rx_cb_ptr s, ucfg_cb_arg = rx_cb_arg_ptr s\<rparr>\<rparr>,
     \<lparr>ccfg_type = IPC_SHM_MANAGED, ccfg_managed = \<lparr>mcfg_num_pools = 3, mcfg_pools = Some ipcf_shm_cfg_buf_pools0_1_user_s32g2,
      mcfg_rx_cb = data_chan_rx_cb_ptr s, mcfg_cb_arg = rx_cb_arg_ptr s\<rparr>, ccfg_unmanaged = no_unmanaged_cfg\<rparr>,
     \<lparr>ccfg_type = IPC_SHM_MANAGED, ccfg_managed = \<lparr>mcfg_num_pools = 3, mcfg_pools = Some ipcf_shm_cfg_buf_pools0_2_user_s32g2,
      mcfg_rx_cb = data_chan_rx_cb_ptr s, mcfg_cb_arg = rx_cb_arg_ptr s\<rparr>, ccfg_unmanaged = no_unmanaged_cfg\<rparr>]"

definition ipcf_shm_cfg_instances_user_s32g2 :: "cfg_symbols \<Rightarrow> ipc_shm_cfg list" where
  "ipcf_shm_cfg_instances_user_s32g2 s = [
     \<lparr>cfg_local_shm_addr = 0x34100000, cfg_remote_shm_addr = 0x34200000, cfg_shm_size = 0x100000,
      cfg_inter_core_tx_irq = 2, cfg_inter_core_rx_irq = 1,
      cfg_local_core = \<lparr>lcore_type = IPC_CORE_DEFAULT, lcore_index = IPC_CORE_INDEX_0,
        lcore_trusted = core_mask IPC_CORE_INDEX_0 OR core_mask IPC_CORE_INDEX_1 OR core_mask IPC_CORE_INDEX_2 OR core_mask IPC_CORE_INDEX_3\<rparr>,
      cfg_remote_core = \<lparr>rcore_type = IPC_CORE_M7, rcore_index = IPC_CORE_INDEX_0\<rparr>,
      cfg_num_channels = 3, cfg_channels = Some (ipcf_shm_cfg_channels0_user_s32g2 s)\<rparr>]"

definition ipcf_shm_instances_cfg_user_s32g2 :: "cfg_symbols \<Rightarrow> ipc_shm_instances_cfg" where
  "ipcf_shm_instances_cfg_user_s32g2 s = \<lparr>icfg_num_instances = 1, icfg_shm_cfg = Some (ipcf_shm_cfg_instances_user_s32g2 s)\<rparr>"

section \<open>\<open>src/sample_user/ipcf_Ip_Cfg_s32g3.c\<close>\<close>

definition ipcf_shm_cfg_buf_pools0_1_user_s32g3 :: "ipc_shm_pool_cfg list" where
  "ipcf_shm_cfg_buf_pools0_1_user_s32g3 = [
     \<lparr>pcfg_num_bufs = 5, pcfg_buf_size = 32\<rparr>,
     \<lparr>pcfg_num_bufs = 5, pcfg_buf_size = 256\<rparr>,
     \<lparr>pcfg_num_bufs = 5, pcfg_buf_size = 4096\<rparr>]"

definition ipcf_shm_cfg_buf_pools0_2_user_s32g3 :: "ipc_shm_pool_cfg list" where
  "ipcf_shm_cfg_buf_pools0_2_user_s32g3 = [
     \<lparr>pcfg_num_bufs = 5, pcfg_buf_size = 32\<rparr>,
     \<lparr>pcfg_num_bufs = 5, pcfg_buf_size = 256\<rparr>,
     \<lparr>pcfg_num_bufs = 5, pcfg_buf_size = 4096\<rparr>]"

definition ipcf_shm_cfg_channels0_user_s32g3 :: "cfg_symbols \<Rightarrow> ipc_shm_channel_cfg list" where
  "ipcf_shm_cfg_channels0_user_s32g3 s = [
     \<lparr>ccfg_type = IPC_SHM_UNMANAGED, ccfg_managed = no_managed_cfg,
      ccfg_unmanaged = \<lparr>ucfg_size = 64, ucfg_rx_cb = ctrl_chan_rx_cb_ptr s, ucfg_cb_arg = rx_cb_arg_ptr s\<rparr>\<rparr>,
     \<lparr>ccfg_type = IPC_SHM_MANAGED, ccfg_managed = \<lparr>mcfg_num_pools = 3, mcfg_pools = Some ipcf_shm_cfg_buf_pools0_1_user_s32g3,
      mcfg_rx_cb = data_chan_rx_cb_ptr s, mcfg_cb_arg = rx_cb_arg_ptr s\<rparr>, ccfg_unmanaged = no_unmanaged_cfg\<rparr>,
     \<lparr>ccfg_type = IPC_SHM_MANAGED, ccfg_managed = \<lparr>mcfg_num_pools = 3, mcfg_pools = Some ipcf_shm_cfg_buf_pools0_2_user_s32g3,
      mcfg_rx_cb = data_chan_rx_cb_ptr s, mcfg_cb_arg = rx_cb_arg_ptr s\<rparr>, ccfg_unmanaged = no_unmanaged_cfg\<rparr>]"

definition ipcf_shm_cfg_instances_user_s32g3 :: "cfg_symbols \<Rightarrow> ipc_shm_cfg list" where
  "ipcf_shm_cfg_instances_user_s32g3 s = [
     \<lparr>cfg_local_shm_addr = 0x34100000, cfg_remote_shm_addr = 0x34200000, cfg_shm_size = 0x100000,
      cfg_inter_core_tx_irq = 2, cfg_inter_core_rx_irq = 1,
      cfg_local_core = \<lparr>lcore_type = IPC_CORE_DEFAULT, lcore_index = IPC_CORE_INDEX_0,
        lcore_trusted = core_mask IPC_CORE_INDEX_0 OR core_mask IPC_CORE_INDEX_1 OR core_mask IPC_CORE_INDEX_2 OR core_mask IPC_CORE_INDEX_3 OR core_mask IPC_CORE_INDEX_4 OR core_mask IPC_CORE_INDEX_5 OR core_mask IPC_CORE_INDEX_6 OR core_mask IPC_CORE_INDEX_7\<rparr>,
      cfg_remote_core = \<lparr>rcore_type = IPC_CORE_M7, rcore_index = IPC_CORE_INDEX_0\<rparr>,
      cfg_num_channels = 3, cfg_channels = Some (ipcf_shm_cfg_channels0_user_s32g3 s)\<rparr>]"

definition ipcf_shm_instances_cfg_user_s32g3 :: "cfg_symbols \<Rightarrow> ipc_shm_instances_cfg" where
  "ipcf_shm_instances_cfg_user_s32g3 s = \<lparr>icfg_num_instances = 1, icfg_shm_cfg = Some (ipcf_shm_cfg_instances_user_s32g3 s)\<rparr>"

section \<open>\<open>src/sample_user/ipcf_Ip_Cfg_s32r45.c\<close>\<close>

definition ipcf_shm_cfg_buf_pools0_1_user_s32r45 :: "ipc_shm_pool_cfg list" where
  "ipcf_shm_cfg_buf_pools0_1_user_s32r45 = [
     \<lparr>pcfg_num_bufs = 5, pcfg_buf_size = 32\<rparr>,
     \<lparr>pcfg_num_bufs = 5, pcfg_buf_size = 256\<rparr>,
     \<lparr>pcfg_num_bufs = 5, pcfg_buf_size = 4096\<rparr>]"

definition ipcf_shm_cfg_buf_pools0_2_user_s32r45 :: "ipc_shm_pool_cfg list" where
  "ipcf_shm_cfg_buf_pools0_2_user_s32r45 = [
     \<lparr>pcfg_num_bufs = 5, pcfg_buf_size = 32\<rparr>,
     \<lparr>pcfg_num_bufs = 5, pcfg_buf_size = 256\<rparr>,
     \<lparr>pcfg_num_bufs = 5, pcfg_buf_size = 4096\<rparr>]"

definition ipcf_shm_cfg_channels0_user_s32r45 :: "cfg_symbols \<Rightarrow> ipc_shm_channel_cfg list" where
  "ipcf_shm_cfg_channels0_user_s32r45 s = [
     \<lparr>ccfg_type = IPC_SHM_UNMANAGED, ccfg_managed = no_managed_cfg,
      ccfg_unmanaged = \<lparr>ucfg_size = 64, ucfg_rx_cb = ctrl_chan_rx_cb_ptr s, ucfg_cb_arg = rx_cb_arg_ptr s\<rparr>\<rparr>,
     \<lparr>ccfg_type = IPC_SHM_MANAGED, ccfg_managed = \<lparr>mcfg_num_pools = 3, mcfg_pools = Some ipcf_shm_cfg_buf_pools0_1_user_s32r45,
      mcfg_rx_cb = data_chan_rx_cb_ptr s, mcfg_cb_arg = rx_cb_arg_ptr s\<rparr>, ccfg_unmanaged = no_unmanaged_cfg\<rparr>,
     \<lparr>ccfg_type = IPC_SHM_MANAGED, ccfg_managed = \<lparr>mcfg_num_pools = 3, mcfg_pools = Some ipcf_shm_cfg_buf_pools0_2_user_s32r45,
      mcfg_rx_cb = data_chan_rx_cb_ptr s, mcfg_cb_arg = rx_cb_arg_ptr s\<rparr>, ccfg_unmanaged = no_unmanaged_cfg\<rparr>]"

definition ipcf_shm_cfg_instances_user_s32r45 :: "cfg_symbols \<Rightarrow> ipc_shm_cfg list" where
  "ipcf_shm_cfg_instances_user_s32r45 s = [
     \<lparr>cfg_local_shm_addr = 0x34100000, cfg_remote_shm_addr = 0x34200000, cfg_shm_size = 0x100000,
      cfg_inter_core_tx_irq = 2, cfg_inter_core_rx_irq = 1,
      cfg_local_core = \<lparr>lcore_type = IPC_CORE_DEFAULT, lcore_index = IPC_CORE_INDEX_0,
        lcore_trusted = core_mask IPC_CORE_INDEX_0 OR core_mask IPC_CORE_INDEX_1 OR core_mask IPC_CORE_INDEX_2 OR core_mask IPC_CORE_INDEX_3\<rparr>,
      cfg_remote_core = \<lparr>rcore_type = IPC_CORE_M7, rcore_index = IPC_CORE_INDEX_0\<rparr>,
      cfg_num_channels = 3, cfg_channels = Some (ipcf_shm_cfg_channels0_user_s32r45 s)\<rparr>]"

definition ipcf_shm_instances_cfg_user_s32r45 :: "cfg_symbols \<Rightarrow> ipc_shm_instances_cfg" where
  "ipcf_shm_instances_cfg_user_s32r45 s = \<lparr>icfg_num_instances = 1, icfg_shm_cfg = Some (ipcf_shm_cfg_instances_user_s32r45 s)\<rparr>"

section \<open>\<open>src/sample_user/ipcf_Ip_Cfg_s32r47.c\<close>\<close>

definition ipcf_shm_cfg_buf_pools0_1_user_s32r47 :: "ipc_shm_pool_cfg list" where
  "ipcf_shm_cfg_buf_pools0_1_user_s32r47 = [
     \<lparr>pcfg_num_bufs = 5, pcfg_buf_size = 32\<rparr>,
     \<lparr>pcfg_num_bufs = 5, pcfg_buf_size = 256\<rparr>,
     \<lparr>pcfg_num_bufs = 5, pcfg_buf_size = 4096\<rparr>]"

definition ipcf_shm_cfg_buf_pools0_2_user_s32r47 :: "ipc_shm_pool_cfg list" where
  "ipcf_shm_cfg_buf_pools0_2_user_s32r47 = [
     \<lparr>pcfg_num_bufs = 5, pcfg_buf_size = 32\<rparr>,
     \<lparr>pcfg_num_bufs = 5, pcfg_buf_size = 256\<rparr>,
     \<lparr>pcfg_num_bufs = 5, pcfg_buf_size = 4096\<rparr>]"

definition ipcf_shm_cfg_channels0_user_s32r47 :: "cfg_symbols \<Rightarrow> ipc_shm_channel_cfg list" where
  "ipcf_shm_cfg_channels0_user_s32r47 s = [
     \<lparr>ccfg_type = IPC_SHM_UNMANAGED, ccfg_managed = no_managed_cfg,
      ccfg_unmanaged = \<lparr>ucfg_size = 64, ucfg_rx_cb = ctrl_chan_rx_cb_ptr s, ucfg_cb_arg = rx_cb_arg_ptr s\<rparr>\<rparr>,
     \<lparr>ccfg_type = IPC_SHM_MANAGED, ccfg_managed = \<lparr>mcfg_num_pools = 3, mcfg_pools = Some ipcf_shm_cfg_buf_pools0_1_user_s32r47,
      mcfg_rx_cb = data_chan_rx_cb_ptr s, mcfg_cb_arg = rx_cb_arg_ptr s\<rparr>, ccfg_unmanaged = no_unmanaged_cfg\<rparr>,
     \<lparr>ccfg_type = IPC_SHM_MANAGED, ccfg_managed = \<lparr>mcfg_num_pools = 3, mcfg_pools = Some ipcf_shm_cfg_buf_pools0_2_user_s32r47,
      mcfg_rx_cb = data_chan_rx_cb_ptr s, mcfg_cb_arg = rx_cb_arg_ptr s\<rparr>, ccfg_unmanaged = no_unmanaged_cfg\<rparr>]"

definition ipcf_shm_cfg_instances_user_s32r47 :: "cfg_symbols \<Rightarrow> ipc_shm_cfg list" where
  "ipcf_shm_cfg_instances_user_s32r47 s = [
     \<lparr>cfg_local_shm_addr = 0x34000000, cfg_remote_shm_addr = 0x34080000, cfg_shm_size = 0x10000,
      cfg_inter_core_tx_irq = 0, cfg_inter_core_rx_irq = 1,
      cfg_local_core = \<lparr>lcore_type = IPC_CORE_DEFAULT, lcore_index = IPC_CORE_INDEX_0,
        lcore_trusted = core_mask IPC_CORE_INDEX_0 OR core_mask IPC_CORE_INDEX_1 OR core_mask IPC_CORE_INDEX_2 OR core_mask IPC_CORE_INDEX_3\<rparr>,
      cfg_remote_core = \<lparr>rcore_type = IPC_CORE_M7, rcore_index = IPC_CORE_INDEX_0\<rparr>,
      cfg_num_channels = 3, cfg_channels = Some (ipcf_shm_cfg_channels0_user_s32r47 s)\<rparr>]"

definition ipcf_shm_instances_cfg_user_s32r47 :: "cfg_symbols \<Rightarrow> ipc_shm_instances_cfg" where
  "ipcf_shm_instances_cfg_user_s32r47 s = \<lparr>icfg_num_instances = 1, icfg_shm_cfg = Some (ipcf_shm_cfg_instances_user_s32r47 s)\<rparr>"

section \<open>\<open>src/sample_xen/dom0/ipcf_Ip_Cfg_s32g2.c\<close>\<close>

definition ipcf_shm_cfg_buf_pools0_dom0_s32g2 :: "ipc_shm_pool_cfg list" where
  "ipcf_shm_cfg_buf_pools0_dom0_s32g2 = [
     \<lparr>pcfg_num_bufs = 5, pcfg_buf_size = 32\<rparr>,
     \<lparr>pcfg_num_bufs = 5, pcfg_buf_size = 256\<rparr>,
     \<lparr>pcfg_num_bufs = 5, pcfg_buf_size = 4096\<rparr>]"

definition ipcf_shm_cfg_buf_pools1_dom0_s32g2 :: "ipc_shm_pool_cfg list" where
  "ipcf_shm_cfg_buf_pools1_dom0_s32g2 = [
     \<lparr>pcfg_num_bufs = 5, pcfg_buf_size = 32\<rparr>,
     \<lparr>pcfg_num_bufs = 5, pcfg_buf_size = 256\<rparr>,
     \<lparr>pcfg_num_bufs = 5, pcfg_buf_size = 4096\<rparr>]"

definition ipcf_shm_cfg_channels_dom0_s32g2 :: "cfg_symbols \<Rightarrow> ipc_shm_channel_cfg list" where
  "ipcf_shm_cfg_channels_dom0_s32g2 s = [
     \<lparr>ccfg_type = IPC_SHM_UNMANAGED, ccfg_managed = no_managed_cfg,
      ccfg_unmanaged = \<lparr>ucfg_size = 64, ucfg_rx_cb = ctrl_chan_rx_cb_ptr s, ucfg_cb_arg = rx_cb_arg_ptr s\<rparr>\<rparr>,
     \<lparr>ccfg_type = IPC_SHM_MANAGED, ccfg_managed = \<lparr>mcfg_num_pools = 3, mcfg_pools = Some ipcf_shm_cfg_buf_pools0_dom0_s32g2,
      mcfg_rx_cb = data_chan_rx_cb_ptr s, mcfg_cb_arg = rx_cb_arg_ptr s\<rparr>, ccfg_unmanaged = no_unmanaged_cfg\<rparr>,
     \<lparr>ccfg_type = IPC_SHM_MANAGED, ccfg_managed = \<lparr>mcfg_num_pools = 3, mcfg_pools = Some ipcf_shm_cfg_buf_pools1_dom0_s32g2,
      mcfg_rx_cb = data_chan_rx_cb_ptr s, mcfg_cb_arg = rx_cb_arg_ptr s\<rparr>, ccfg_unmanaged = no_unmanaged_cfg\<rparr>]"

definition ipcf_shm_cfg_instances_dom0_s32g2 :: "cfg_symbols \<Rightarrow> ipc_shm_cfg list" where
  "ipcf_shm_cfg_instances_dom0_s32g2 s = [
     \<lparr>cfg_local_shm_addr = 0x84500000, cfg_remote_shm_addr = 0x84510000, cfg_shm_size = 0x10000,
      cfg_inter_core_tx_irq = IPC_IRQ_NONE, cfg_inter_core_rx_irq = IPC_IRQ_NONE,
      cfg_local_core = zero_local_core,
      cfg_remote_core = zero_remote_core,
      cfg_num_channels = 3, cfg_channels = Some (ipcf_shm_cfg_channels_dom0_s32g2 s)\<rparr>]"

definition ipcf_shm_instances_cfg_dom0_s32g2 :: "cfg_symbols \<Rightarrow> ipc_shm_instances_cfg" where
  "ipcf_shm_instances_cfg_dom0_s32g2 s = \<lparr>icfg_num_instances = 1, icfg_shm_cfg = Some (ipcf_shm_cfg_instances_dom0_s32g2 s)\<rparr>"

section \<open>\<open>src/sample_xen/dom0/ipcf_Ip_Cfg_s32g3.c\<close>\<close>

definition ipcf_shm_cfg_buf_pools0_dom0_s32g3 :: "ipc_shm_pool_cfg list" where
  "ipcf_shm_cfg_buf_pools0_dom0_s32g3 = [
     \<lparr>pcfg_num_bufs = 5, pcfg_buf_size = 32\<rparr>,
     \<lparr>pcfg_num_bufs = 5, pcfg_buf_size = 256\<rparr>,
     \<lparr>pcfg_num_bufs = 5, pcfg_buf_size = 4096\<rparr>]"

definition ipcf_shm_cfg_buf_pools1_dom0_s32g3 :: "ipc_shm_pool_cfg list" where
  "ipcf_shm_cfg_buf_pools1_dom0_s32g3 = [
     \<lparr>pcfg_num_bufs = 5, pcfg_buf_size = 32\<rparr>,
     \<lparr>pcfg_num_bufs = 5, pcfg_buf_size = 256\<rparr>,
     \<lparr>pcfg_num_bufs = 5, pcfg_buf_size = 4096\<rparr>]"

definition ipcf_shm_cfg_channels_dom0_s32g3 :: "cfg_symbols \<Rightarrow> ipc_shm_channel_cfg list" where
  "ipcf_shm_cfg_channels_dom0_s32g3 s = [
     \<lparr>ccfg_type = IPC_SHM_UNMANAGED, ccfg_managed = no_managed_cfg,
      ccfg_unmanaged = \<lparr>ucfg_size = 64, ucfg_rx_cb = ctrl_chan_rx_cb_ptr s, ucfg_cb_arg = rx_cb_arg_ptr s\<rparr>\<rparr>,
     \<lparr>ccfg_type = IPC_SHM_MANAGED, ccfg_managed = \<lparr>mcfg_num_pools = 3, mcfg_pools = Some ipcf_shm_cfg_buf_pools0_dom0_s32g3,
      mcfg_rx_cb = data_chan_rx_cb_ptr s, mcfg_cb_arg = rx_cb_arg_ptr s\<rparr>, ccfg_unmanaged = no_unmanaged_cfg\<rparr>,
     \<lparr>ccfg_type = IPC_SHM_MANAGED, ccfg_managed = \<lparr>mcfg_num_pools = 3, mcfg_pools = Some ipcf_shm_cfg_buf_pools1_dom0_s32g3,
      mcfg_rx_cb = data_chan_rx_cb_ptr s, mcfg_cb_arg = rx_cb_arg_ptr s\<rparr>, ccfg_unmanaged = no_unmanaged_cfg\<rparr>]"

definition ipcf_shm_cfg_instances_dom0_s32g3 :: "cfg_symbols \<Rightarrow> ipc_shm_cfg list" where
  "ipcf_shm_cfg_instances_dom0_s32g3 s = [
     \<lparr>cfg_local_shm_addr = 0x84500000, cfg_remote_shm_addr = 0x84510000, cfg_shm_size = 0x10000,
      cfg_inter_core_tx_irq = IPC_IRQ_NONE, cfg_inter_core_rx_irq = IPC_IRQ_NONE,
      cfg_local_core = zero_local_core,
      cfg_remote_core = zero_remote_core,
      cfg_num_channels = 3, cfg_channels = Some (ipcf_shm_cfg_channels_dom0_s32g3 s)\<rparr>]"

definition ipcf_shm_instances_cfg_dom0_s32g3 :: "cfg_symbols \<Rightarrow> ipc_shm_instances_cfg" where
  "ipcf_shm_instances_cfg_dom0_s32g3 s = \<lparr>icfg_num_instances = 1, icfg_shm_cfg = Some (ipcf_shm_cfg_instances_dom0_s32g3 s)\<rparr>"

section \<open>\<open>src/sample_xen/dom0/ipcf_Ip_Cfg_s32r45.c\<close>\<close>

definition ipcf_shm_cfg_buf_pools0_dom0_s32r45 :: "ipc_shm_pool_cfg list" where
  "ipcf_shm_cfg_buf_pools0_dom0_s32r45 = [
     \<lparr>pcfg_num_bufs = 5, pcfg_buf_size = 32\<rparr>,
     \<lparr>pcfg_num_bufs = 5, pcfg_buf_size = 256\<rparr>,
     \<lparr>pcfg_num_bufs = 5, pcfg_buf_size = 4096\<rparr>]"

definition ipcf_shm_cfg_buf_pools1_dom0_s32r45 :: "ipc_shm_pool_cfg list" where
  "ipcf_shm_cfg_buf_pools1_dom0_s32r45 = [
     \<lparr>pcfg_num_bufs = 5, pcfg_buf_size = 32\<rparr>,
     \<lparr>pcfg_num_bufs = 5, pcfg_buf_size = 256\<rparr>,
     \<lparr>pcfg_num_bufs = 5, pcfg_buf_size = 4096\<rparr>]"

definition ipcf_shm_cfg_channels_dom0_s32r45 :: "cfg_symbols \<Rightarrow> ipc_shm_channel_cfg list" where
  "ipcf_shm_cfg_channels_dom0_s32r45 s = [
     \<lparr>ccfg_type = IPC_SHM_UNMANAGED, ccfg_managed = no_managed_cfg,
      ccfg_unmanaged = \<lparr>ucfg_size = 64, ucfg_rx_cb = ctrl_chan_rx_cb_ptr s, ucfg_cb_arg = rx_cb_arg_ptr s\<rparr>\<rparr>,
     \<lparr>ccfg_type = IPC_SHM_MANAGED, ccfg_managed = \<lparr>mcfg_num_pools = 3, mcfg_pools = Some ipcf_shm_cfg_buf_pools0_dom0_s32r45,
      mcfg_rx_cb = data_chan_rx_cb_ptr s, mcfg_cb_arg = rx_cb_arg_ptr s\<rparr>, ccfg_unmanaged = no_unmanaged_cfg\<rparr>,
     \<lparr>ccfg_type = IPC_SHM_MANAGED, ccfg_managed = \<lparr>mcfg_num_pools = 3, mcfg_pools = Some ipcf_shm_cfg_buf_pools1_dom0_s32r45,
      mcfg_rx_cb = data_chan_rx_cb_ptr s, mcfg_cb_arg = rx_cb_arg_ptr s\<rparr>, ccfg_unmanaged = no_unmanaged_cfg\<rparr>]"

definition ipcf_shm_cfg_instances_dom0_s32r45 :: "cfg_symbols \<Rightarrow> ipc_shm_cfg list" where
  "ipcf_shm_cfg_instances_dom0_s32r45 s = [
     \<lparr>cfg_local_shm_addr = 0x84500000, cfg_remote_shm_addr = 0x84510000, cfg_shm_size = 0x10000,
      cfg_inter_core_tx_irq = IPC_IRQ_NONE, cfg_inter_core_rx_irq = IPC_IRQ_NONE,
      cfg_local_core = zero_local_core,
      cfg_remote_core = zero_remote_core,
      cfg_num_channels = 3, cfg_channels = Some (ipcf_shm_cfg_channels_dom0_s32r45 s)\<rparr>]"

definition ipcf_shm_instances_cfg_dom0_s32r45 :: "cfg_symbols \<Rightarrow> ipc_shm_instances_cfg" where
  "ipcf_shm_instances_cfg_dom0_s32r45 s = \<lparr>icfg_num_instances = 1, icfg_shm_cfg = Some (ipcf_shm_cfg_instances_dom0_s32r45 s)\<rparr>"

section \<open>\<open>src/sample_xen/dom0less/ipcf_Ip_Cfg_s32g2.c\<close>\<close>

definition ipcf_shm_cfg_buf_pools0_dom0less_s32g2 :: "ipc_shm_pool_cfg list" where
  "ipcf_shm_cfg_buf_pools0_dom0less_s32g2 = [
     \<lparr>pcfg_num_bufs = 5, pcfg_buf_size = 32\<rparr>,
     \<lparr>pcfg_num_bufs = 5, pcfg_buf_size = 256\<rparr>,
     \<lparr>pcfg_num_bufs = 5, pcfg_buf_size = 4096\<rparr>]"

definition ipcf_shm_cfg_buf_pools1_dom0less_s32g2 :: "ipc_shm_pool_cfg list" where
  "ipcf_shm_cfg_buf_pools1_dom0less_s32g2 = [
     \<lparr>pcfg_num_bufs = 5, pcfg_buf_size = 32\<rparr>,
     \<lparr>pcfg_num_bufs = 5, pcfg_buf_size = 256\<rparr>,
     \<lparr>pcfg_num_bufs = 5, pcfg_buf_size = 4096\<rparr>]"

definition ipcf_shm_cfg_channels_dom0less_s32g2 :: "cfg_symbols \<Rightarrow> ipc_shm_channel_cfg list" where
  "ipcf_shm_cfg_channels_dom0less_s32g2 s = [
     \<lparr>ccfg_type = IPC_SHM_UNMANAGED, ccfg_managed = no_managed_cfg,
      ccfg_unmanaged = \<lparr>ucfg_size = 64, ucfg_rx_cb = ctrl_chan_rx_cb_ptr s, ucfg_cb_arg = rx_cb_arg_ptr s\<rparr>\<rparr>,
     \<lparr>ccfg_type = IPC_SHM_MANAGED, ccfg_managed = \<lparr>mcfg_num_pools = 3, mcfg_pools = Some ipcf_shm_cfg_buf_pools0_dom0less_s32g2,
      mcfg_rx_cb = data_chan_rx_cb_ptr s, mcfg_cb_arg = rx_cb_arg_ptr s\<rparr>, ccfg_unmanaged = no_unmanaged_cfg\<rparr>,
     \<lparr>ccfg_type = IPC_SHM_MANAGED, ccfg_managed = \<lparr>mcfg_num_pools = 3, mcfg_pools = Some ipcf_shm_cfg_buf_pools1_dom0less_s32g2,
      mcfg_rx_cb = data_chan_rx_cb_ptr s, mcfg_cb_arg = rx_cb_arg_ptr s\<rparr>, ccfg_unmanaged = no_unmanaged_cfg\<rparr>]"

definition ipcf_shm_cfg_instances_dom0less_s32g2 :: "cfg_symbols \<Rightarrow> ipc_shm_cfg list" where
  "ipcf_shm_cfg_instances_dom0less_s32g2 s = [
     \<lparr>cfg_local_shm_addr = 0x84510000, cfg_remote_shm_addr = 0x84500000, cfg_shm_size = 0x10000,
      cfg_inter_core_tx_irq = IPC_IRQ_NONE, cfg_inter_core_rx_irq = IPC_IRQ_NONE,
      cfg_local_core = zero_local_core,
      cfg_remote_core = zero_remote_core,
      cfg_num_channels = 3, cfg_channels = Some (ipcf_shm_cfg_channels_dom0less_s32g2 s)\<rparr>]"

definition ipcf_shm_instances_cfg_dom0less_s32g2 :: "cfg_symbols \<Rightarrow> ipc_shm_instances_cfg" where
  "ipcf_shm_instances_cfg_dom0less_s32g2 s = \<lparr>icfg_num_instances = 1, icfg_shm_cfg = Some (ipcf_shm_cfg_instances_dom0less_s32g2 s)\<rparr>"

section \<open>\<open>src/sample_xen/dom0less/ipcf_Ip_Cfg_s32g3.c\<close>\<close>

definition ipcf_shm_cfg_buf_pools0_dom0less_s32g3 :: "ipc_shm_pool_cfg list" where
  "ipcf_shm_cfg_buf_pools0_dom0less_s32g3 = [
     \<lparr>pcfg_num_bufs = 5, pcfg_buf_size = 32\<rparr>,
     \<lparr>pcfg_num_bufs = 5, pcfg_buf_size = 256\<rparr>,
     \<lparr>pcfg_num_bufs = 5, pcfg_buf_size = 4096\<rparr>]"

definition ipcf_shm_cfg_buf_pools1_dom0less_s32g3 :: "ipc_shm_pool_cfg list" where
  "ipcf_shm_cfg_buf_pools1_dom0less_s32g3 = [
     \<lparr>pcfg_num_bufs = 5, pcfg_buf_size = 32\<rparr>,
     \<lparr>pcfg_num_bufs = 5, pcfg_buf_size = 256\<rparr>,
     \<lparr>pcfg_num_bufs = 5, pcfg_buf_size = 4096\<rparr>]"

definition ipcf_shm_cfg_channels_dom0less_s32g3 :: "cfg_symbols \<Rightarrow> ipc_shm_channel_cfg list" where
  "ipcf_shm_cfg_channels_dom0less_s32g3 s = [
     \<lparr>ccfg_type = IPC_SHM_UNMANAGED, ccfg_managed = no_managed_cfg,
      ccfg_unmanaged = \<lparr>ucfg_size = 64, ucfg_rx_cb = ctrl_chan_rx_cb_ptr s, ucfg_cb_arg = rx_cb_arg_ptr s\<rparr>\<rparr>,
     \<lparr>ccfg_type = IPC_SHM_MANAGED, ccfg_managed = \<lparr>mcfg_num_pools = 3, mcfg_pools = Some ipcf_shm_cfg_buf_pools0_dom0less_s32g3,
      mcfg_rx_cb = data_chan_rx_cb_ptr s, mcfg_cb_arg = rx_cb_arg_ptr s\<rparr>, ccfg_unmanaged = no_unmanaged_cfg\<rparr>,
     \<lparr>ccfg_type = IPC_SHM_MANAGED, ccfg_managed = \<lparr>mcfg_num_pools = 3, mcfg_pools = Some ipcf_shm_cfg_buf_pools1_dom0less_s32g3,
      mcfg_rx_cb = data_chan_rx_cb_ptr s, mcfg_cb_arg = rx_cb_arg_ptr s\<rparr>, ccfg_unmanaged = no_unmanaged_cfg\<rparr>]"

definition ipcf_shm_cfg_instances_dom0less_s32g3 :: "cfg_symbols \<Rightarrow> ipc_shm_cfg list" where
  "ipcf_shm_cfg_instances_dom0less_s32g3 s = [
     \<lparr>cfg_local_shm_addr = 0x84510000, cfg_remote_shm_addr = 0x84500000, cfg_shm_size = 0x10000,
      cfg_inter_core_tx_irq = IPC_IRQ_NONE, cfg_inter_core_rx_irq = IPC_IRQ_NONE,
      cfg_local_core = zero_local_core,
      cfg_remote_core = zero_remote_core,
      cfg_num_channels = 3, cfg_channels = Some (ipcf_shm_cfg_channels_dom0less_s32g3 s)\<rparr>]"

definition ipcf_shm_instances_cfg_dom0less_s32g3 :: "cfg_symbols \<Rightarrow> ipc_shm_instances_cfg" where
  "ipcf_shm_instances_cfg_dom0less_s32g3 s = \<lparr>icfg_num_instances = 1, icfg_shm_cfg = Some (ipcf_shm_cfg_instances_dom0less_s32g3 s)\<rparr>"

section \<open>\<open>src/sample_xen/dom0less/ipcf_Ip_Cfg_s32r45.c\<close>\<close>

definition ipcf_shm_cfg_buf_pools0_dom0less_s32r45 :: "ipc_shm_pool_cfg list" where
  "ipcf_shm_cfg_buf_pools0_dom0less_s32r45 = [
     \<lparr>pcfg_num_bufs = 5, pcfg_buf_size = 32\<rparr>,
     \<lparr>pcfg_num_bufs = 5, pcfg_buf_size = 256\<rparr>,
     \<lparr>pcfg_num_bufs = 5, pcfg_buf_size = 4096\<rparr>]"

definition ipcf_shm_cfg_buf_pools1_dom0less_s32r45 :: "ipc_shm_pool_cfg list" where
  "ipcf_shm_cfg_buf_pools1_dom0less_s32r45 = [
     \<lparr>pcfg_num_bufs = 5, pcfg_buf_size = 32\<rparr>,
     \<lparr>pcfg_num_bufs = 5, pcfg_buf_size = 256\<rparr>,
     \<lparr>pcfg_num_bufs = 5, pcfg_buf_size = 4096\<rparr>]"

definition ipcf_shm_cfg_channels_dom0less_s32r45 :: "cfg_symbols \<Rightarrow> ipc_shm_channel_cfg list" where
  "ipcf_shm_cfg_channels_dom0less_s32r45 s = [
     \<lparr>ccfg_type = IPC_SHM_UNMANAGED, ccfg_managed = no_managed_cfg,
      ccfg_unmanaged = \<lparr>ucfg_size = 64, ucfg_rx_cb = ctrl_chan_rx_cb_ptr s, ucfg_cb_arg = rx_cb_arg_ptr s\<rparr>\<rparr>,
     \<lparr>ccfg_type = IPC_SHM_MANAGED, ccfg_managed = \<lparr>mcfg_num_pools = 3, mcfg_pools = Some ipcf_shm_cfg_buf_pools0_dom0less_s32r45,
      mcfg_rx_cb = data_chan_rx_cb_ptr s, mcfg_cb_arg = rx_cb_arg_ptr s\<rparr>, ccfg_unmanaged = no_unmanaged_cfg\<rparr>,
     \<lparr>ccfg_type = IPC_SHM_MANAGED, ccfg_managed = \<lparr>mcfg_num_pools = 3, mcfg_pools = Some ipcf_shm_cfg_buf_pools1_dom0less_s32r45,
      mcfg_rx_cb = data_chan_rx_cb_ptr s, mcfg_cb_arg = rx_cb_arg_ptr s\<rparr>, ccfg_unmanaged = no_unmanaged_cfg\<rparr>]"

definition ipcf_shm_cfg_instances_dom0less_s32r45 :: "cfg_symbols \<Rightarrow> ipc_shm_cfg list" where
  "ipcf_shm_cfg_instances_dom0less_s32r45 s = [
     \<lparr>cfg_local_shm_addr = 0x84510000, cfg_remote_shm_addr = 0x84500000, cfg_shm_size = 0x10000,
      cfg_inter_core_tx_irq = IPC_IRQ_NONE, cfg_inter_core_rx_irq = IPC_IRQ_NONE,
      cfg_local_core = zero_local_core,
      cfg_remote_core = zero_remote_core,
      cfg_num_channels = 3, cfg_channels = Some (ipcf_shm_cfg_channels_dom0less_s32r45 s)\<rparr>]"

definition ipcf_shm_instances_cfg_dom0less_s32r45 :: "cfg_symbols \<Rightarrow> ipc_shm_instances_cfg" where
  "ipcf_shm_instances_cfg_dom0less_s32r45 s = \<lparr>icfg_num_instances = 1, icfg_shm_cfg = Some (ipcf_shm_cfg_instances_dom0less_s32r45 s)\<rparr>"

declare no_managed_cfg_def [cfg_defs] no_unmanaged_cfg_def [cfg_defs] zero_local_core_def [cfg_defs] zero_remote_core_def [cfg_defs]

declare
  ipcf_shm_cfg_buf_pools0_sample_s32g2_def [cfg_defs]
  ipcf_shm_cfg_buf_pools1_sample_s32g2_def [cfg_defs]
  ipcf_shm_cfg_channels_sample_s32g2_def [cfg_defs]
  ipcf_shm_cfg_instances_sample_s32g2_def [cfg_defs]
  ipcf_shm_instances_cfg_sample_s32g2_def [cfg_defs]
  ipcf_shm_cfg_buf_pools0_sample_s32g3_def [cfg_defs]
  ipcf_shm_cfg_buf_pools1_sample_s32g3_def [cfg_defs]
  ipcf_shm_cfg_channels_sample_s32g3_def [cfg_defs]
  ipcf_shm_cfg_instances_sample_s32g3_def [cfg_defs]
  ipcf_shm_instances_cfg_sample_s32g3_def [cfg_defs]
  ipcf_shm_cfg_buf_pools0_sample_s32r45_def [cfg_defs]
  ipcf_shm_cfg_buf_pools1_sample_s32r45_def [cfg_defs]
  ipcf_shm_cfg_channels_sample_s32r45_def [cfg_defs]
  ipcf_shm_cfg_instances_sample_s32r45_def [cfg_defs]
  ipcf_shm_instances_cfg_sample_s32r45_def [cfg_defs]
  ipcf_shm_cfg_buf_pools0_sample_s32r47_def [cfg_defs]
  ipcf_shm_cfg_buf_pools1_sample_s32r47_def [cfg_defs]
  ipcf_shm_cfg_channels_sample_s32r47_def [cfg_defs]
  ipcf_shm_cfg_instances_sample_s32r47_def [cfg_defs]
  ipcf_shm_instances_cfg_sample_s32r47_def [cfg_defs]
  ipcf_shm_cfg_buf_pools0_1_user_s32g2_def [cfg_defs]
  ipcf_shm_cfg_buf_pools0_2_user_s32g2_def [cfg_defs]
  ipcf_shm_cfg_channels0_user_s32g2_def [cfg_defs]
  ipcf_shm_cfg_instances_user_s32g2_def [cfg_defs]
  ipcf_shm_instances_cfg_user_s32g2_def [cfg_defs]
  ipcf_shm_cfg_buf_pools0_1_user_s32g3_def [cfg_defs]
  ipcf_shm_cfg_buf_pools0_2_user_s32g3_def [cfg_defs]
  ipcf_shm_cfg_channels0_user_s32g3_def [cfg_defs]
  ipcf_shm_cfg_instances_user_s32g3_def [cfg_defs]
  ipcf_shm_instances_cfg_user_s32g3_def [cfg_defs]
  ipcf_shm_cfg_buf_pools0_1_user_s32r45_def [cfg_defs]
  ipcf_shm_cfg_buf_pools0_2_user_s32r45_def [cfg_defs]
  ipcf_shm_cfg_channels0_user_s32r45_def [cfg_defs]
  ipcf_shm_cfg_instances_user_s32r45_def [cfg_defs]
  ipcf_shm_instances_cfg_user_s32r45_def [cfg_defs]
  ipcf_shm_cfg_buf_pools0_1_user_s32r47_def [cfg_defs]
  ipcf_shm_cfg_buf_pools0_2_user_s32r47_def [cfg_defs]
  ipcf_shm_cfg_channels0_user_s32r47_def [cfg_defs]
  ipcf_shm_cfg_instances_user_s32r47_def [cfg_defs]
  ipcf_shm_instances_cfg_user_s32r47_def [cfg_defs]
  ipcf_shm_cfg_buf_pools0_dom0_s32g2_def [cfg_defs]
  ipcf_shm_cfg_buf_pools1_dom0_s32g2_def [cfg_defs]
  ipcf_shm_cfg_channels_dom0_s32g2_def [cfg_defs]
  ipcf_shm_cfg_instances_dom0_s32g2_def [cfg_defs]
  ipcf_shm_instances_cfg_dom0_s32g2_def [cfg_defs]
  ipcf_shm_cfg_buf_pools0_dom0_s32g3_def [cfg_defs]
  ipcf_shm_cfg_buf_pools1_dom0_s32g3_def [cfg_defs]
  ipcf_shm_cfg_channels_dom0_s32g3_def [cfg_defs]
  ipcf_shm_cfg_instances_dom0_s32g3_def [cfg_defs]
  ipcf_shm_instances_cfg_dom0_s32g3_def [cfg_defs]
  ipcf_shm_cfg_buf_pools0_dom0_s32r45_def [cfg_defs]
  ipcf_shm_cfg_buf_pools1_dom0_s32r45_def [cfg_defs]
  ipcf_shm_cfg_channels_dom0_s32r45_def [cfg_defs]
  ipcf_shm_cfg_instances_dom0_s32r45_def [cfg_defs]
  ipcf_shm_instances_cfg_dom0_s32r45_def [cfg_defs]
  ipcf_shm_cfg_buf_pools0_dom0less_s32g2_def [cfg_defs]
  ipcf_shm_cfg_buf_pools1_dom0less_s32g2_def [cfg_defs]
  ipcf_shm_cfg_channels_dom0less_s32g2_def [cfg_defs]
  ipcf_shm_cfg_instances_dom0less_s32g2_def [cfg_defs]
  ipcf_shm_instances_cfg_dom0less_s32g2_def [cfg_defs]
  ipcf_shm_cfg_buf_pools0_dom0less_s32g3_def [cfg_defs]
  ipcf_shm_cfg_buf_pools1_dom0less_s32g3_def [cfg_defs]
  ipcf_shm_cfg_channels_dom0less_s32g3_def [cfg_defs]
  ipcf_shm_cfg_instances_dom0less_s32g3_def [cfg_defs]
  ipcf_shm_instances_cfg_dom0less_s32g3_def [cfg_defs]
  ipcf_shm_cfg_buf_pools0_dom0less_s32r45_def [cfg_defs]
  ipcf_shm_cfg_buf_pools1_dom0less_s32r45_def [cfg_defs]
  ipcf_shm_cfg_channels_dom0less_s32r45_def [cfg_defs]
  ipcf_shm_cfg_instances_dom0less_s32r45_def [cfg_defs]
  ipcf_shm_instances_cfg_dom0less_s32r45_def [cfg_defs]

end
