(* ===== verification/Start_Props.thy ===== *)
theory Start_Props
  imports Shm_Link Sample_Cfg
begin

text \<open>
  What start-up achieves: an instance with a configuration that fits comes up, and two mirrored sides that start
  one after the other on cleared memory can exchange messages. The witnesses run the two shipped Xen
  configurations, of dom0 and of a dom0less domain, against each other.
\<close>

section \<open>The Xen pair\<close>

definition xen_symbols :: cfg_symbols where
  "xen_symbols = \<lparr>ctrl_chan_rx_cb_ptr = 0x1000, data_chan_rx_cb_ptr = 0x2000, rx_cb_arg_ptr = 0x3000\<rparr>"

definition dom0_cfg :: ipc_shm_cfg where
  "dom0_cfg = hd (ipcf_shm_cfg_instances_dom0_s32g3 xen_symbols)"

definition dom0less_cfg :: ipc_shm_cfg where
  "dom0less_cfg = hd (ipcf_shm_cfg_instances_dom0less_s32g3 xen_symbols)"

definition xen_state :: "demo_world shm_state" where
  "xen_state = \<lparr>st_mem = zero_ram 0x84500000 0x84520000, st_priv = replicate 4 no_priv, st_env = \<lparr>dw_notified = 0, dw_received = []\<rparr>\<rparr>"

lemmas fit_defs = cfg_fits_def cfg_chans_def chan_cfg_ok_def chan_space_def managed_space_def pools_ok_def total_bufs_def pool_cfg_ok_def
  ring_space_def pools_space_def chans_space_def pool_space_def limit_defs

lemma xen_fits: "cfg_fits dom0_cfg" "cfg_fits dom0less_cfg" "mirrored dom0_cfg dom0less_cfg"
  by (simp_all add: dom0_cfg_def dom0less_cfg_def xen_symbols_def cfg_defs fit_defs mirrored_def chan_shape_def)

lemma xen_sel [simp]:
  "cfg_shm_size dom0_cfg = 0x10000" "inst_space dom0_cfg \<le> 0x10000" "length (cfg_chans dom0_cfg) = 3"
  "ccfg_type (cfg_chans dom0_cfg ! 1) = IPC_SHM_MANAGED" "cfg_pools (cfg_chans dom0_cfg ! 1) = ipcf_shm_cfg_buf_pools0_dom0_s32g3"
  using xen_fits(1) by (simp_all add: inst_space_def) (simp_all add: dom0_cfg_def cfg_defs cfg_chans_def cfg_fits_def)

lemma xen_state_sel [simp]: "st_mem xen_state = zero_ram 0x84500000 0x84520000" "st_env xen_state = \<lparr>dw_notified = 0, dw_received = []\<rparr>"
  by (simp_all add: xen_state_def)

lemma xen_unused: "unused 0 xen_state" "alloc 0 xen_state"
  by (simp_all add: unused_def alloc_def priv_at_def xen_state_def nth_opt_def no_priv_def no_chan_def limit_defs)

lemma xen_free: "ipc_instance_is_free 0 xen_state = Some IPC_SHM_INSTANCE_FREE"
  using unused_free [OF xen_unused(1), of "st_mem xen_state"] by (simp del: xen_state_sel)

lemma xen_area: "area 0x84500000 0x84510000 (unat (cfg_shm_size dom0_cfg)) (st_mem xen_state)"
  by (simp add: area_def mapped_zero_ram apart_num [unfolded apart_num_def])

lemma xen_zeroed: "zeroed (st_mem xen_state) 0x84510000 (inst_space dom0_cfg)"
  using zero_ram_region [of "0x84500000" "0x84510000" "0x10000" "0x84520000"] region_mono [OF xen_sel(2), of "0x84510000"]
  by (auto simp: zeroed_def)

lemma demo_layers: "layers_start (demo_platform l r) i cf m w l r m w"
  by (simp add: layers_start_def demo_platform_def)

lemma xen_joins: "\<forall>k < length (cfg_chans dom0_cfg). chan_joins (st_mem xen_state) (chan_addr 0x84510000 dom0_cfg k) (cfg_chans dom0_cfg ! k)"
proof (intro allI impI)
  fix k assume k: "k < length (cfg_chans dom0_cfg)"
  have "chan_cfg_ok (cfg_chans dom0_cfg ! k)" using xen_fits(1) k by (simp add: cfg_fits_def list_all_length)
  from zeroed_chan [OF this zeroed_sub [OF xen_zeroed, of "8 + chan_off (cfg_chans dom0_cfg) k"]] chan_off_le [OF k]
  show "chan_joins (st_mem xen_state) (chan_addr 0x84510000 dom0_cfg k) (cfg_chans dom0_cfg ! k)"
    by (simp add: inst_space_def add.assoc del: xen_state_sel)
qed

section \<open>One side\<close>

text \<open>
  C11. Starting one instance. The slot is free, the configuration has between one and eight channels with legal
  pools and callbacks and their memory fits into the shared memory, the hardware and OS layers accept it, both
  memories are mapped and apart, and in the remote memory no queue is being initialised or holds an index out of
  range. Then \<open>ipc_shm_init_instance\<close> returns 0; the instance is marked ready in shared memory; every channel
  lies where the configuration puts it, with its rings initialised and every pool's buffers free; and not a byte
  outside the space of the configured channels in local memory is written.
\<close>

theorem init_instance_sets_up:
  assumes "ipc_instance_is_free i st = Some IPC_SHM_INSTANCE_FREE" "alloc i st" "cfg_fits cf"
    and "layers_start P i cf (st_mem st) (st_env st) l r m w" "area l r (unat (cfg_shm_size cf)) m"
    and "\<forall>j < length (cfg_chans cf). chan_joins m (chan_addr r cf j) (cfg_chans cf ! j)"
  shows "\<exists>st'. ipc_shm_init_instance P i (Some cf) st = Some (0, st') \<and> inst_up i l r cf st' \<and> st_env st' = w \<and> alloc i st' \<and>
     same_except (region l (inst_space cf)) m (st_mem st')"
  by (rule init_instance_ok [OF assms])

theorem init_instance_sets_up_witness:
  "\<exists>st'. ipc_shm_init_instance (demo_platform 0x84500000 0x84510000) 0 (Some dom0_cfg) xen_state = Some (0, st') \<and>
     inst_up 0 0x84500000 0x84510000 dom0_cfg st' \<and> same_except (region 0x84500000 (inst_space dom0_cfg)) (st_mem xen_state) (st_mem st')"
  using init_instance_sets_up [OF xen_free xen_unused(2) xen_fits(1) demo_layers xen_area xen_joins] by blast

section \<open>Both sides\<close>

lemma managed_pools:
  assumes "cfg_fits cf'" "k < length (cfg_chans cf')" "ccfg_type (cfg_chans cf' ! k) = IPC_SHM_MANAGED"
  shows "mcfg_pools (ccfg_managed (cfg_chans cf' ! k)) = Some (cfg_pools (cfg_chans cf' ! k))" "pools_ok (cfg_pools (cfg_chans cf' ! k))"
  using assms by (auto simp: cfg_fits_def list_all_length chan_cfg_ok_def)

lemma start_and_send:
  assumes fits: "cfg_fits cf" "cfg_fits cf'" "mirrored cf cf'"
    and A: "unused i st" "layers_start P i cf (st_mem st) (st_env st) l r m w"
    and B: "unused j st'" "\<And>m'. same_except (region l (inst_space cf)) m m' \<Longrightarrow> layers_start P' j cf' m' (st_env st') r l m' w'"
    and mem: "area l r (unat (cfg_shm_size cf)) m" "zeroed m r (inst_space cf)"
    and k: "k < length (cfg_chans cf)" "ccfg_type (cfg_chans cf ! k) = IPC_SHM_MANAGED"
    and n: "n \<noteq> 0" "n \<le> pcfg_buf_size (last (cfg_pools (cfg_chans cf ! k)))" "len \<noteq> 0" "length bs \<le> unat n"
    and nt: "hw_irq_notify P i w = Some w1"
  shows "\<exists>sA sB p m0 m1 m2 m3 m4. ipc_shm_init_instance P i (Some cf) st = Some (0, sA) \<and>
     ipc_shm_init_instance P' j (Some cf') (st'\<lparr>st_mem := st_mem sA\<rparr>) = Some (0, sB) \<and>
     ipc_shm_acquire_buf P i (of_nat k) n (sA\<lparr>st_mem := st_mem sB\<rparr>) = Some (p, sA\<lparr>st_mem := m0\<rparr>) \<and> p \<noteq> 0 \<and>
     store_bytes p bs m0 = Some m1 \<and>
     ipc_shm_tx P i (uint (of_nat k :: u8)) p len (sA\<lparr>st_mem := m1\<rparr>) = Some (0, sA\<lparr>st_mem := m2, st_env := w1\<rparr>) \<and>
     ipc_channel_rx P' j (of_nat k) 1 (sB\<lparr>st_mem := m2\<rparr>) =
       do { st2 \<leftarrow> app_rx_cb P' (mcfg_rx_cb (ccfg_managed (cfg_chans cf' ! k))) (mcfg_cb_arg (ccfg_managed (cfg_chans cf' ! k)))
              j (of_nat k) p len (sB\<lparr>st_mem := m3\<rparr>);
            Some (1, st2) } \<and>
     load_bytes m3 p (length bs) = Some bs \<and>
     ipc_shm_release_buf j (of_nat k) p (sB\<lparr>st_mem := m3\<rparr>) = Some (0, sB\<lparr>st_mem := m4\<rparr>)"
proof -
  note mi = mirrored_cong [OF fits(3)]
  note sh = shape_cong [OF mi(2) [OF k(1)]]
  have mp: "mcfg_pools (ccfg_managed (cfg_chans cf' ! k)) = Some (cfg_pools (cfg_chans cf ! k))" "pools_ok (cfg_pools (cfg_chans cf ! k))"
    using managed_pools [OF fits(2), of k] k mi(1) sh(1,5) by simp_all
  from both_start [OF fits A B mem] k obtain sA sB where s: "ipc_shm_init_instance P i (Some cf) st = Some (0, sA)"
     "ipc_shm_init_instance P' j (Some cf') (st'\<lparr>st_mem := st_mem sA\<rparr>) = Some (0, sB)" "st_env sA = w"
     "can_exchange P i (of_nat k) (sA\<lparr>st_mem := st_mem sB\<rparr>) P' j (of_nat k) sB l r (ccfg_managed (cfg_chans cf' ! k))"
    by blast
  have "hw_irq_notify P i (st_env (sA\<lparr>st_mem := st_mem sB\<rparr>)) = Some w1" using nt s(3) by simp
  from first_exchange [OF s(4) mp n(1-4) this] s(1,2) show ?thesis by simp blast
qed

text \<open>
  C10. From power-on to the first message. Two sides with mirrored configurations, never used before, start one
  after the other on memory that is clear where the first one looks for its peer. Both calls of
  \<open>ipc_shm_init_instance\<close> return 0, and then on every managed channel the first side gets a buffer for any size up to the largest
  pool's, its \<open>ipc_shm_tx\<close> succeeds, and the other side's receive path makes exactly one call of the callback
  that its own configuration names, with that buffer and size; the bytes written by the sender are intact in
  the memory that the callback sees, and from the callback the buffer can be given back.
\<close>

theorem first_message:
  assumes "cfg_fits cf" "cfg_fits cf'" "mirrored cf cf'"
    and "unused i st" "layers_start P i cf (st_mem st) (st_env st) l r m w"
    and "unused j st'" "\<And>m'. same_except (region l (inst_space cf)) m m' \<Longrightarrow> layers_start P' j cf' m' (st_env st') r l m' w'"
    and "area l r (unat (cfg_shm_size cf)) m" "zeroed m r (inst_space cf)"
    and "k < length (cfg_chans cf)" "ccfg_type (cfg_chans cf ! k) = IPC_SHM_MANAGED"
    and "n \<noteq> 0" "n \<le> pcfg_buf_size (last (cfg_pools (cfg_chans cf ! k)))" "len \<noteq> 0" "length bs \<le> unat n"
    and "hw_irq_notify P i w = Some w1"
  shows "\<exists>sA sB p m0 m1 m2 m3 m4. ipc_shm_init_instance P i (Some cf) st = Some (0, sA) \<and>
     ipc_shm_init_instance P' j (Some cf') (st'\<lparr>st_mem := st_mem sA\<rparr>) = Some (0, sB) \<and>
     ipc_shm_acquire_buf P i (of_nat k) n (sA\<lparr>st_mem := st_mem sB\<rparr>) = Some (p, sA\<lparr>st_mem := m0\<rparr>) \<and> p \<noteq> 0 \<and>
     store_bytes p bs m0 = Some m1 \<and>
     ipc_shm_tx P i (uint (of_nat k :: u8)) p len (sA\<lparr>st_mem := m1\<rparr>) = Some (0, sA\<lparr>st_mem := m2, st_env := w1\<rparr>) \<and>
     ipc_channel_rx P' j (of_nat k) 1 (sB\<lparr>st_mem := m2\<rparr>) =
       do { st2 \<leftarrow> app_rx_cb P' (mcfg_rx_cb (ccfg_managed (cfg_chans cf' ! k))) (mcfg_cb_arg (ccfg_managed (cfg_chans cf' ! k)))
              j (of_nat k) p len (sB\<lparr>st_mem := m3\<rparr>);
            Some (1, st2) } \<and>
     load_bytes m3 p (length bs) = Some bs \<and>
     ipc_shm_release_buf j (of_nat k) p (sB\<lparr>st_mem := m3\<rparr>) = Some (0, sB\<lparr>st_mem := m4\<rparr>)"
  by (rule start_and_send [OF assms])

theorem first_message_witness:
  "\<exists>sA sB p m0 m2 m3 m4. ipc_shm_init_instance (demo_platform 0x84500000 0x84510000) 0 (Some dom0_cfg) xen_state = Some (0, sA) \<and>
     ipc_shm_init_instance (demo_platform 0x84510000 0x84500000) 0 (Some dom0less_cfg) (xen_state\<lparr>st_mem := st_mem sA\<rparr>) = Some (0, sB) \<and>
     ipc_shm_acquire_buf (demo_platform 0x84500000 0x84510000) 0 1 200 (sA\<lparr>st_mem := st_mem sB\<rparr>) = Some (p, sA\<lparr>st_mem := m0\<rparr>) \<and> p \<noteq> 0 \<and>
     fst (the (ipc_channel_rx (demo_platform 0x84510000 0x84500000) 0 1 1 (sB\<lparr>st_mem := m2\<rparr>))) = 1 \<and>
     load_bytes m3 p 2 = Some [72, 105] \<and> ipc_shm_release_buf 0 1 p (sB\<lparr>st_mem := m3\<rparr>) = Some (0, sB\<lparr>st_mem := m4\<rparr>)"
proof -
  let ?P = "demo_platform 0x84500000 0x84510000" and ?Q = "demo_platform 0x84510000 0x84500000"
  have k: "1 < length (cfg_chans dom0_cfg)" "ccfg_type (cfg_chans dom0_cfg ! 1) = IPC_SHM_MANAGED" by (simp, rule xen_sel)
  have n: "(200::u32) \<le> pcfg_buf_size (last (cfg_pools (cfg_chans dom0_cfg ! 1)))" unfolding xen_sel by (simp add: cfg_defs)
  have w: "hw_irq_notify ?P 0 (st_env xen_state) = Some (st_env xen_state\<lparr>dw_notified := 1\<rparr>)" by (simp add: demo_platform_def)
  from first_message [OF xen_fits xen_unused(1) demo_layers xen_unused(1) demo_layers xen_area xen_zeroed k _ n, of 200 "[72, 105]", OF _ _ _ w]
  obtain sA sB p m0 m1 m2 m3 m4 where *: "ipc_shm_init_instance ?P 0 (Some dom0_cfg) xen_state = Some (0, sA)"
     "ipc_shm_init_instance ?Q 0 (Some dom0less_cfg) (xen_state\<lparr>st_mem := st_mem sA\<rparr>) = Some (0, sB)"
     "ipc_shm_acquire_buf ?P 0 1 200 (sA\<lparr>st_mem := st_mem sB\<rparr>) = Some (p, sA\<lparr>st_mem := m0\<rparr>)" "p \<noteq> 0"
     "ipc_channel_rx ?Q 0 1 1 (sB\<lparr>st_mem := m2\<rparr>) =
       do { st2 \<leftarrow> app_rx_cb ?Q (mcfg_rx_cb (ccfg_managed (cfg_chans dom0less_cfg ! 1))) (mcfg_cb_arg (ccfg_managed (cfg_chans dom0less_cfg ! 1)))
              0 1 p 200 (sB\<lparr>st_mem := m3\<rparr>); Some (1, st2) }"
     "load_bytes m3 p (Suc (Suc 0)) = Some [72, 105]" "ipc_shm_release_buf 0 1 p (sB\<lparr>st_mem := m3\<rparr>) = Some (0, sB\<lparr>st_mem := m4\<rparr>)"
    by auto
  moreover have "fst (the (ipc_channel_rx ?Q 0 1 1 (sB\<lparr>st_mem := m2\<rparr>))) = 1" unfolding *(5) by (simp add: demo_platform_def)
  ultimately show ?thesis unfolding numeral_2_eq_2 by blast
qed

end
