(* ===== verification/Shm_Traffic.thy ===== *)
theory Shm_Traffic
  imports Shm_Exchange "HOL-Library.Multiset"
begin

text \<open>
  Traffic in both directions of a managed channel, for as long as it lasts: two sides that acquire, fill,
  send, receive and release buffers in any order. The buffers of each side are never lost and never in two
  hands, every message arrives exactly once, in order and as it was sent, and no call fails for want of
  space in a queue.
\<close>

section \<open>The buffers of a side\<close>

definition buf_at :: "ipc_managed_channel \<Rightarrow> nat \<Rightarrow> u16 \<Rightarrow> u64" where
  "buf_at mc k b = pl_local_pool_addr (mc_pools mc ! k) + ucast (ucast b * pl_buf_size (mc_pools mc ! k) :: u32)"

definition is_buf :: "ipc_managed_channel \<Rightarrow> nat \<Rightarrow> u16 \<Rightarrow> bool" where
  "is_buf mc k b \<longleftrightarrow> k < unat (mc_num_pools mc) \<and> unat b < unat (pl_num_bufs (mc_pools mc ! k))"

abbreviation buf_len :: "ipc_managed_channel \<Rightarrow> nat \<Rightarrow> nat" where
  "buf_len mc k \<equiv> unat (pl_buf_size (mc_pools mc ! k))"

definition pool_bufs :: "ipc_managed_channel \<Rightarrow> nat \<Rightarrow> u64 list" where
  "pool_bufs mc k = map (\<lambda>b. buf_at mc k (of_nat b)) [0..<unat (pl_num_bufs (mc_pools mc ! k))]"

definition all_bufs :: "ipc_managed_channel \<Rightarrow> u64 list" where
  "all_bufs mc = concat (map (pool_bufs mc) [0..<unat (mc_num_pools mc)])"

text \<open>Where they are: on the free lists of the pools, and in the queue on the way to the other side.\<close>

definition pool_free :: "ipc_managed_channel \<Rightarrow> memory \<Rightarrow> nat \<Rightarrow> u64 list" where
  "pool_free mc m k = map (\<lambda>bd. buf_at mc k (bd_buf_id bd)) (rx_bds m (pl_bd_queue (mc_pools mc ! k)))"

definition free_bufs :: "ipc_managed_channel \<Rightarrow> memory \<Rightarrow> u64 list" where
  "free_bufs mc m = concat (map (pool_free mc m) [0..<unat (mc_num_pools mc)])"

definition bd_buf :: "ipc_managed_channel \<Rightarrow> ipc_shm_bd \<Rightarrow> u64" where
  "bd_buf mc bd = buf_at mc (unat (bd_pool_id bd)) (bd_buf_id bd)"

definition flight :: "ipc_managed_channel \<Rightarrow> memory \<Rightarrow> u64 list" where
  "flight mc m = map (bd_buf mc) (tx_bds m (mc_bd_queue mc))"

text \<open>A message: the buffer, its size and what the buffer holds.\<close>

type_synonym message = "u64 \<times> u32 \<times> byte list option"

definition message :: "memory \<Rightarrow> u64 \<Rightarrow> u32 \<Rightarrow> message" where
  "message m p n = (p, n, load_bytes m p (unat n))"

definition pending :: "ipc_managed_channel \<Rightarrow> memory \<Rightarrow> message list" where
  "pending mc m = map (\<lambda>bd. message m (bd_buf mc bd) (bd_data_size bd)) (tx_bds m (mc_bd_queue mc))"

section \<open>The two sides\<close>

text \<open>
  What an application keeps: the buffers it has acquired and not yet sent, those it has received and not yet
  released, and the messages it has sent and received. It is part of the platform's state, like all that the
  callbacks may change.
\<close>

record port =
  pt_held :: "u64 list"
  pt_got :: "u64 list"
  pt_sent :: "message list"
  pt_log :: "message list"

record 'w side =
  sd_plat :: "'w platform"
  sd_inst :: u8
  sd_chan :: u8
  sd_drv :: "'w shm_state"
  sd_ch :: ipc_shm_channel
  sd_pv :: ipc_shm_priv
  sd_shm :: u64
  sd_port :: "'w \<Rightarrow> port"

abbreviation sd_mc :: "'w side \<Rightarrow> ipc_managed_channel" where
  "sd_mc X \<equiv> ch_mng (sd_ch X)"

definition drv_at :: "'w side \<Rightarrow> memory \<Rightarrow> 'w \<Rightarrow> 'w shm_state" where
  "drv_at X m w = (sd_drv X)\<lparr>st_mem := m, st_env := w\<rparr>"

text \<open>The application notes something, which moves no memory window.\<close>

definition same_windows :: "'w side \<Rightarrow> 'w \<Rightarrow> 'w \<Rightarrow> bool" where
  "same_windows X w w' \<longleftrightarrow> os_get_local_shm (sd_plat X) (sd_inst X) w' = os_get_local_shm (sd_plat X) (sd_inst X) w \<and>
     os_get_remote_shm (sd_plat X) (sd_inst X) w' = os_get_remote_shm (sd_plat X) (sd_inst X) w"

definition noted :: "'w side \<Rightarrow> 'w \<Rightarrow> (port \<Rightarrow> port) \<Rightarrow> 'w \<Rightarrow> bool" where
  "noted X w f w' \<longleftrightarrow> sd_port X w' = f (sd_port X w) \<and> same_windows X w w'"

definition note_acquired :: "u64 \<Rightarrow> port \<Rightarrow> port" where
  "note_acquired p a = (if p = 0 then a else a\<lparr>pt_held := p # pt_held a\<rparr>)"

definition note_sent :: "int \<Rightarrow> message \<Rightarrow> port \<Rightarrow> port" where
  "note_sent err msg a = (if err = 0 then a\<lparr>pt_held := remove1 (fst msg) (pt_held a), pt_sent := pt_sent a @ [msg]\<rparr> else a)"

definition note_received :: "message \<Rightarrow> port \<Rightarrow> port" where
  "note_received msg a = a\<lparr>pt_got := fst msg # pt_got a, pt_log := pt_log a @ [msg]\<rparr>"

definition note_released :: "int \<Rightarrow> u64 \<Rightarrow> port \<Rightarrow> port" where
  "note_released err p a = (if err = 0 then a\<lparr>pt_got := remove1 p (pt_got a)\<rparr> else a)"

text \<open>A range of memory in a buffer.\<close>

definition in_buf :: "ipc_managed_channel \<Rightarrow> u64 \<Rightarrow> u64 \<Rightarrow> nat \<Rightarrow> bool" where
  "in_buf mc p a n \<longleftrightarrow> (\<exists>k < unat (mc_num_pools mc). \<exists>b < unat (pl_num_bufs (mc_pools mc ! k)).
     p = buf_at mc k (of_nat b) \<and> n \<le> buf_len mc k \<and> region a n \<subseteq> region p (buf_len mc k))"

text \<open>
  What an application does outside of reception: it calls the driver, only sends what it holds and only
  releases what it got, and writes only into buffers that it holds.
\<close>

inductive app_step :: "'w side \<Rightarrow> memory \<times> 'w \<Rightarrow> memory \<times> 'w \<Rightarrow> bool" for X where
  acquire: "ipc_shm_acquire_buf (sd_plat X) (sd_inst X) (sd_chan X) n (drv_at X m w) = Some (p, drv_at X m' w1) \<Longrightarrow>
    noted X w1 (note_acquired p) w' \<Longrightarrow> app_step X (m, w) (m', w')"
| fill: "p \<in> set (pt_held (sd_port X w)) \<Longrightarrow> in_buf (sd_mc X) p a (length bs) \<Longrightarrow> store_bytes a bs m = Some m' \<Longrightarrow>
    app_step X (m, w) (m', w)"
| send: "p \<in> set (pt_held (sd_port X w)) \<Longrightarrow> in_buf (sd_mc X) p p (unat n) \<Longrightarrow>
    ipc_shm_tx (sd_plat X) (sd_inst X) (uint (sd_chan X)) p n (drv_at X m w) = Some (err, drv_at X m' w1) \<Longrightarrow>
    noted X w1 (note_sent err (message m p n)) w' \<Longrightarrow> app_step X (m, w) (m', w')"
| release: "p \<in> set (pt_got (sd_port X w)) \<Longrightarrow>
    ipc_shm_release_buf (sd_inst X) (sd_chan X) p (drv_at X m w) = Some (err, drv_at X m' w1) \<Longrightarrow>
    noted X w1 (note_released err p) w' \<Longrightarrow> app_step X (m, w) (m', w')"

inductive side_step :: "'w side \<Rightarrow> memory \<times> 'w \<Rightarrow> memory \<times> 'w \<Rightarrow> bool" for X where
  app: "app_step X s s' \<Longrightarrow> side_step X s s'"
| receive: "ipc_channel_rx (sd_plat X) (sd_inst X) (sd_chan X) budget (drv_at X m w) = Some (n, drv_at X m' w') \<Longrightarrow>
    side_step X (m, w) (m', w')"

text \<open>The memory of the channel: the state words of both sides, the rings of its queues and the buffers.\<close>

definition own_area :: "'w side \<Rightarrow> u64 set" where
  "own_area X = (\<Union>q \<in> set (chan_queues (sd_mc X)). region (push_ring q) (ring_bytes q)) \<union>
     (\<Union>(k, b) \<in> {(k, b). is_buf (sd_mc X) k b}. region (buf_at (sd_mc X) k b) (buf_len (sd_mc X) k))"

definition chan_area :: "'w side \<Rightarrow> 'v side \<Rightarrow> u64 set" where
  "chan_area X Y = region (sd_shm X) 8 \<union> region (sd_shm Y) 8 \<union> own_area X \<union> own_area Y"

text \<open>Either side acts, or something happens elsewhere that leaves the memory of the channel and the notes of its applications alone.\<close>

inductive duplex_step :: "'w side \<Rightarrow> 'v side \<Rightarrow> memory \<times> 'w \<times> 'v \<Rightarrow> memory \<times> 'w \<times> 'v \<Rightarrow> bool" for X Y where
  left: "side_step X (m, w) (m', w') \<Longrightarrow> duplex_step X Y (m, w, v) (m', w', v)"
| right: "side_step Y (m, v) (m', v') \<Longrightarrow> duplex_step X Y (m, w, v) (m', w, v')"
| elsewhere: "same_except (- chan_area X Y) m m' \<Longrightarrow> noted X w id w' \<Longrightarrow> noted Y v id v' \<Longrightarrow> duplex_step X Y (m, w, v) (m', w', v')"

text \<open>
  The receive callback notes the message and may then do whatever the application may do at other times,
  release the buffer or send an answer, for example. Notifying the other side keeps what the application
  noted.
\<close>

definition callback_ok :: "'w side \<Rightarrow> bool" where
  "callback_ok X \<longleftrightarrow> (\<forall>m w p n. \<exists>w1. noted X w (note_received (message m p n)) w1 \<and>
     (\<forall>st'. app_rx_cb (sd_plat X) (mc_rx_cb (sd_mc X)) (mc_cb_arg (sd_mc X)) (sd_inst X) (ch_id (sd_ch X)) p n (drv_at X m w) = Some st' \<longrightarrow>
        (\<exists>m' w'. st' = drv_at X m' w' \<and> (app_step X)\<^sup>*\<^sup>* (m, w1) (m', w'))))"

definition notify_ok :: "'w side \<Rightarrow> bool" where
  "notify_ok X \<longleftrightarrow> (\<forall>w. \<exists>w'. hw_irq_notify (sd_plat X) (sd_inst X) w = Some w' \<and> noted X w id w')"

section \<open>Well-formed pairs of sides\<close>

definition end_ok :: "'w side \<Rightarrow> u64 \<Rightarrow> memory \<Rightarrow> 'w \<Rightarrow> bool" where
  "end_ok X R m w \<longleftrightarrow>
     sender_ok (sd_plat X) (sd_inst X) (sd_chan X) (drv_at X m w) (sd_mc X) (sd_pv X) (sd_shm X) R \<and>
     receiver_ok (sd_plat X) (sd_inst X) (sd_chan X) (drv_at X m w) (sd_ch X) (sd_pv X) R (sd_shm X)"

text \<open>
  What the configuration fixes: symmetric channels; a queue for each pool that can list all of its buffers,
  a queue for the channel that can hold all buffers of the side; and every buffer inside of the side's
  memory, away from all rings and from the buffers of the other side.
\<close>

definition lane :: "'w side \<Rightarrow> 'v side \<Rightarrow> bool" where
  "lane X Y \<longleftrightarrow> linked (sd_mc X) (sd_mc Y) \<and> pv_shm_size (sd_pv Y) = pv_shm_size (sd_pv X) \<and>
     (\<forall>k < unat (mc_num_pools (sd_mc X)). pl_buf_size (mc_pools (sd_mc X) ! k) \<noteq> 0 \<and>
        unat (elem_num (pl_bd_queue (mc_pools (sd_mc X) ! k))) = unat (pl_num_bufs (mc_pools (sd_mc X) ! k)) + 1) \<and>
     unat (elem_num (mc_bd_queue (sd_mc X))) = length (all_bufs (sd_mc X)) + 1 \<and>
     (\<forall>k b. is_buf (sd_mc X) k b \<longrightarrow>
        in_remote_shm (sd_shm X) (pv_shm_size (sd_pv X)) (buf_at (sd_mc X) k b) (pl_buf_size (mc_pools (sd_mc X) ! k)) \<and>
        outside_rings (sd_mc X) (sd_pv X) (sd_shm Y) (buf_at (sd_mc X) k b) (buf_len (sd_mc X) k) \<and>
        (\<forall>k' b'. is_buf (sd_mc Y) k' b' \<longrightarrow>
           apart (buf_at (sd_mc X) k b) (buf_len (sd_mc X) k) (buf_at (sd_mc Y) k' b') (buf_len (sd_mc Y) k')))"

definition duplex :: "'w side \<Rightarrow> 'v side \<Rightarrow> bool" where
  "duplex X Y \<longleftrightarrow> lane X Y \<and> lane Y X \<and> callback_ok X \<and> callback_ok Y \<and> notify_ok X \<and> notify_ok Y"

text \<open>The descriptors in the queues name buffers, and a message is no longer than its buffer.\<close>

definition bds_ok :: "ipc_managed_channel \<Rightarrow> memory \<Rightarrow> bool" where
  "bds_ok mc m \<longleftrightarrow> (\<forall>k < unat (mc_num_pools mc). \<forall>bd \<in> set (rx_bds m (pl_bd_queue (mc_pools mc ! k))). is_buf mc k (bd_buf_id bd)) \<and>
     (\<forall>bd \<in> set (tx_bds m (mc_bd_queue mc)). is_buf mc (unat (bd_pool_id bd)) (bd_buf_id bd) \<and>
        unat (bd_data_size bd) \<le> buf_len mc (unat (bd_pool_id bd)))"

text \<open>
  The state of one direction: the free buffers, those that the sender holds, those on their way and those
  that the receiver has not released yet are together all buffers of the sender, each once; what was sent is
  what was received followed by what is still on the way.
\<close>

definition lane_inv :: "'w side \<Rightarrow> 'v side \<Rightarrow> memory \<Rightarrow> 'w \<Rightarrow> 'v \<Rightarrow> bool" where
  "lane_inv X Y m w v \<longleftrightarrow> bds_ok (sd_mc X) m \<and>
     (\<forall>k b. is_buf (sd_mc X) k b \<longrightarrow> mapped m (buf_at (sd_mc X) k b) (buf_len (sd_mc X) k)) \<and>
     mset (free_bufs (sd_mc X) m @ pt_held (sd_port X w) @ flight (sd_mc X) m @ pt_got (sd_port Y v)) = mset (all_bufs (sd_mc X)) \<and>
     pt_sent (sd_port X w) = pt_log (sd_port Y v) @ pending (sd_mc X) m"

definition duplex_inv :: "'w side \<Rightarrow> 'v side \<Rightarrow> memory \<times> 'w \<times> 'v \<Rightarrow> bool" where
  "duplex_inv X Y = (\<lambda>(m, w, v). end_ok X (sd_shm Y) m w \<and> end_ok Y (sd_shm X) m v \<and> lane_inv X Y m w v \<and> lane_inv Y X m v w)"

lemma duplex_inv_swap: "duplex_inv Y X (m, v, w) = duplex_inv X Y (m, w, v)"
  by (auto simp: duplex_inv_def)

lemma duplex_swap: "duplex Y X = duplex X Y"
  by (auto simp: duplex_def)

lemma drv_at_sel [simp]:
  "st_mem (drv_at X m w) = m" "st_env (drv_at X m w) = w" "(drv_at X m w)\<lparr>st_mem := m'\<rparr> = drv_at X m' w"
  "(drv_at X m w)\<lparr>st_env := w'\<rparr> = drv_at X m w'" "(drv_at X m w)\<lparr>st_mem := m', st_env := w'\<rparr> = drv_at X m' w'"
  by (simp_all add: drv_at_def)

lemma drv_at_eq [simp]: "drv_at X m w = drv_at X m' w' \<longleftrightarrow> m = m' \<and> w = w'"
  by (metis drv_at_sel(1,2))

lemma drv_at_priv [simp]:
  "priv_at i (drv_at X m w) = priv_at i (sd_drv X)" "get_channel_priv i c (drv_at X m w) = get_channel_priv i c (sd_drv X)"
  "get_managed_chan i c (drv_at X m w) = get_managed_chan i c (sd_drv X)"
  by (simp_all add: drv_at_def priv_at_def get_channel_priv_def get_managed_chan_def get_channel_def cong: if_cong)

lemma remote_ready_env:
  "os_get_remote_shm P i w' = os_get_remote_shm P i w \<Longrightarrow> ipc_shm_is_remote_ready P i (drv_at X m w') = ipc_shm_is_remote_ready P i (drv_at X m w)"
  by (simp add: ipc_shm_is_remote_ready_def ipc_instance_is_free_def cong: if_cong)

section \<open>Buffers are separate\<close>

lemma pool_base_local: "pool_base IPC_BUFFER_FROM_LOCAL pool = pl_local_pool_addr pool" "pool_base IPC_BUFFER_FROM_REMOTE pool = pl_remote_pool_addr pool"
  by (simp_all add: pool_base_def IPC_BUFFER_FROM_LOCAL_def IPC_BUFFER_FROM_REMOTE_def)

text \<open>The sender's pools lie one after another and none of them has empty buffers.\<close>

definition pools_apart :: "ipc_managed_channel \<Rightarrow> bool" where
  "pools_apart mc \<longleftrightarrow> pools_laid_out IPC_BUFFER_FROM_LOCAL mc \<and> (\<forall>k < unat (mc_num_pools mc). pl_buf_size (mc_pools mc ! k) \<noteq> 0)"

lemma buf_place:
  assumes "pools_apart mc" "is_buf mc k b"
  shows "unat (buf_at mc k b) = unat (pl_local_pool_addr (mc_pools mc ! k)) + unat b * buf_len mc k"
    "unat (buf_at mc k b) + buf_len mc k \<le> unat (pl_local_pool_addr (mc_pools mc ! k)) + pool_bytes (mc_pools mc ! k)"
    "unat (pl_local_pool_addr (mc_pools mc ! k)) + pool_bytes (mc_pools mc ! k) < 2 ^ 64"
proof -
  have k: "k < unat (mc_num_pools mc)" "unat b < unat (pl_num_bufs (mc_pools mc ! k))" using assms(2) by (simp_all add: is_buf_def)
  show a: "unat (buf_at mc k b) = unat (pl_local_pool_addr (mc_pools mc ! k)) + unat b * buf_len mc k"
    using owned_address(2) [OF _ k, of IPC_BUFFER_FROM_LOCAL] assms(1) k(1) by (simp add: pools_apart_def buf_at_def pool_base_local)
  have "(unat b + 1) * buf_len mc k \<le> pool_bytes (mc_pools mc ! k)"
    unfolding pool_bytes_def using k(2) by (intro mult_le_mono1) simp
  then show "unat (buf_at mc k b) + buf_len mc k \<le> unat (pl_local_pool_addr (mc_pools mc ! k)) + pool_bytes (mc_pools mc ! k)"
    using a by simp
  show "unat (pl_local_pool_addr (mc_pools mc ! k)) + pool_bytes (mc_pools mc ! k) < 2 ^ 64"
    using assms(1) k(1) by (simp add: pools_apart_def pools_laid_out_def pool_base_local)
qed

lemma bufs_apart:
  assumes ok: "pools_apart mc" and b: "is_buf mc k b" "is_buf mc k' b'" and ne: "(k, b) \<noteq> (k', b')"
  shows "apart (buf_at mc k b) (buf_len mc k) (buf_at mc k' b') (buf_len mc k')"
proof (rule apart_either)
  note p = buf_place [OF ok b(1)] and p' = buf_place [OF ok b(2)]
  let ?fin = "\<lambda>k. unat (pl_local_pool_addr (mc_pools mc ! k)) + pool_bytes (mc_pools mc ! k)"
  consider "k < k'" | "k' < k" | "k = k'" "unat b < unat b'" | "k = k'" "unat b' < unat b"
    using ne by (metis linorder_neqE_nat unsigned_word_eqI)
  then show "unat (buf_at mc k b) + buf_len mc k \<le> unat (buf_at mc k' b') \<and> unat (buf_at mc k' b') + buf_len mc k' \<le> 2 ^ 64 \<or>
    unat (buf_at mc k' b') + buf_len mc k' \<le> unat (buf_at mc k b) \<and> unat (buf_at mc k b) + buf_len mc k \<le> 2 ^ 64"
  proof cases
    case 1
    then have "?fin k \<le> unat (pl_local_pool_addr (mc_pools mc ! k'))" using ok b by (simp add: pools_apart_def pools_laid_out_def pool_base_local is_buf_def)
    then show ?thesis using p p' by linarith
  next
    case 2
    then have "?fin k' \<le> unat (pl_local_pool_addr (mc_pools mc ! k))" using ok b by (simp add: pools_apart_def pools_laid_out_def pool_base_local is_buf_def)
    then show ?thesis using p p' by linarith
  next
    case 3
    then have "(unat b + 1) * buf_len mc k \<le> unat b' * buf_len mc k" by (intro mult_le_mono1) simp
    then show ?thesis using 3 p p' by simp
  next
    case 4
    then have "(unat b' + 1) * buf_len mc k \<le> unat b * buf_len mc k" by (intro mult_le_mono1) simp
    then show ?thesis using 4 p p' by simp
  qed
qed

lemma buf_len_pos: "pools_apart mc \<Longrightarrow> is_buf mc k b \<Longrightarrow> 0 < buf_len mc k"
  by (simp add: pools_apart_def is_buf_def unat_gt_0)

lemma buf_at_inj:
  assumes "pools_apart mc" "is_buf mc k b" "is_buf mc k' b'" "buf_at mc k b = buf_at mc k' b'"
  shows "k = k' \<and> b = b'"
proof (rule ccontr)
  assume "\<not> (k = k' \<and> b = b')"
  then have "apart (buf_at mc k b) (buf_len mc k) (buf_at mc k' b') (buf_len mc k')" using bufs_apart [OF assms(1-3)] by simp
  moreover have "buf_at mc k b + of_nat 0 \<in> region (buf_at mc k b) n" if "0 < n" for n
    unfolding region_def using that by (intro imageI) simp
  ultimately show False using buf_len_pos [OF assms(1,2)] buf_len_pos [OF assms(1,3)] assms(4) by (auto simp: apart_def)
qed

lemma pool_bufs_set: "k < unat (mc_num_pools mc) \<Longrightarrow> p \<in> set (pool_bufs mc k) \<longleftrightarrow> (\<exists>b. is_buf mc k b \<and> p = buf_at mc k b)"
proof -
  assume k: "k < unat (mc_num_pools mc)"
  let ?n = "unat (pl_num_bufs (mc_pools mc ! k))"
  have u: "unat (of_nat n :: u16) = n" if "n < ?n" for n
    using that unat_less [of "pl_num_bufs (mc_pools mc ! k)"] by (simp add: unat_of_nat take_bit_nat_eq_self)
  show ?thesis
  proof
    assume "p \<in> set (pool_bufs mc k)"
    then obtain n where "n < ?n" "p = buf_at mc k (of_nat n)" by (auto simp: pool_bufs_def)
    then show "\<exists>b. is_buf mc k b \<and> p = buf_at mc k b" using k u by (intro exI [of _ "of_nat n"]) (simp add: is_buf_def)
  next
    assume "\<exists>b. is_buf mc k b \<and> p = buf_at mc k b"
    then obtain b :: u16 where b: "unat b < ?n" "p = buf_at mc k b" by (auto simp: is_buf_def)
    then have "p = buf_at mc k (of_nat (unat b))" by simp
    with b(1) show "p \<in> set (pool_bufs mc k)" unfolding pool_bufs_def by (metis (no_types, lifting) atLeastLessThan_iff image_eqI list.set_map set_upt zero_le)
  qed
qed

lemma all_bufs_set: "p \<in> set (all_bufs mc) \<longleftrightarrow> (\<exists>k b. is_buf mc k b \<and> p = buf_at mc k b)"
  using pool_bufs_set [of _ mc p] by (auto simp: all_bufs_def is_buf_def)

lemma in_buf_iff: "in_buf mc p a n \<longleftrightarrow> (\<exists>k b. is_buf mc k b \<and> p = buf_at mc k b \<and> n \<le> buf_len mc k \<and> region a n \<subseteq> region p (buf_len mc k))"
proof -
  have "(\<exists>b < unat (pl_num_bufs (mc_pools mc ! k)). p = buf_at mc k (of_nat b)) \<longleftrightarrow> (\<exists>b. is_buf mc k b \<and> p = buf_at mc k b)"
    if "k < unat (mc_num_pools mc)" for k
    using pool_bufs_set [OF that, of p] by (auto simp: pool_bufs_def)
  then show ?thesis unfolding in_buf_def by (metis is_buf_def)
qed

lemma distinct_concat_map:
  "distinct ks \<Longrightarrow> (\<And>k. k \<in> set ks \<Longrightarrow> distinct (f k)) \<Longrightarrow> (\<And>j k. j \<in> set ks \<Longrightarrow> k \<in> set ks \<Longrightarrow> j \<noteq> k \<Longrightarrow> set (f j) \<inter> set (f k) = {}) \<Longrightarrow>
   distinct (concat (map f ks))"
  by (induction ks) fastforce+

lemma all_bufs_distinct:
  assumes "pools_apart mc"
  shows "distinct (all_bufs mc)"
  unfolding all_bufs_def
proof (rule distinct_concat_map)
  fix k assume k: "k \<in> set [0..<unat (mc_num_pools mc)]"
  have "inj_on (\<lambda>b. buf_at mc k (of_nat b)) {0..<unat (pl_num_bufs (mc_pools mc ! k))}"
  proof (rule inj_onI)
    fix x y :: nat assume xy: "x \<in> {0..<unat (pl_num_bufs (mc_pools mc ! k))}" "y \<in> {0..<unat (pl_num_bufs (mc_pools mc ! k))}"
      "buf_at mc k (of_nat x) = buf_at mc k (of_nat y)"
    then have u: "unat (of_nat x :: u16) = x" "unat (of_nat y :: u16) = y"
      using unat_less [of "pl_num_bufs (mc_pools mc ! k)"] by (simp_all add: unat_of_nat take_bit_nat_eq_self)
    then have "is_buf mc k (of_nat x)" "is_buf mc k (of_nat y)" using xy k by (simp_all add: is_buf_def)
    from buf_at_inj [OF assms this xy(3)] u show "x = y" by metis
  qed
  then show "distinct (pool_bufs mc k)" by (simp add: pool_bufs_def distinct_map)
next
  fix j k assume "j \<in> set [0..<unat (mc_num_pools mc)]" "k \<in> set [0..<unat (mc_num_pools mc)]" "j \<noteq> k"
  then show "set (pool_bufs mc j) \<inter> set (pool_bufs mc k) = {}"
    using pool_bufs_set buf_at_inj [OF assms] by fastforce
qed simp

section \<open>Work on one ring\<close>

lemma end_okD:
  assumes "end_ok X R m w"
  shows "sender_ok (sd_plat X) (sd_inst X) (sd_chan X) (drv_at X m w) (sd_mc X) (sd_pv X) (sd_shm X) R"
    "receiver_ok (sd_plat X) (sd_inst X) (sd_chan X) (drv_at X m w) (sd_ch X) (sd_pv X) R (sd_shm X)"
    "mchan_ready (sd_mc X) m" "rings_separate (sd_mc X)" "pv_global (sd_pv X) = sd_shm X"
    "load_u64 m R = Some IPC_SHM_STATE_READY"
  using assms sender_ok_facts(7,10,11) by (fastforce simp: end_ok_def receiver_ok_def)+

lemma end_ok_env: "end_ok X R m w \<Longrightarrow> same_windows X w w' \<Longrightarrow> end_ok X R m w'"
  using remote_ready_env [of "sd_plat X" "sd_inst X" w' w X m]
  by (simp add: end_ok_def sender_ok_def receiver_ok_def same_windows_def chan_usable_def) (elim conjE, simp)

lemma end_ok_mem:
  assumes ok: "end_ok X R m w" and se: "same_except A m m'" "region (sd_shm X) 8 \<inter> A = {}" "region R 8 \<inter> A = {}" and rdy: "mchan_ready (sd_mc X) m'"
  shows "end_ok X R m' w"
  using sender_ok_frame [OF end_okD(1) [OF ok], of A m'] end_okD(2,5) [OF ok] se rdy
  by (simp add: end_ok_def receiver_ok_def)

lemma lane_pools: "lane X Y \<Longrightarrow> end_ok X R m w \<Longrightarrow> pools_apart (sd_mc X)"
  by (auto simp: lane_def pools_apart_def end_ok_def sender_ok_def)

lemma lane_buf:
  assumes "lane X Y" "is_buf (sd_mc X) k b"
  shows "in_remote_shm (sd_shm X) (pv_shm_size (sd_pv X)) (buf_at (sd_mc X) k b) (pl_buf_size (mc_pools (sd_mc X) ! k))"
    "outside_rings (sd_mc X) (sd_pv X) (sd_shm Y) (buf_at (sd_mc X) k b) (buf_len (sd_mc X) k)"
    "is_buf (sd_mc Y) k' b' \<Longrightarrow> apart (buf_at (sd_mc X) k b) (buf_len (sd_mc X) k) (buf_at (sd_mc Y) k' b') (buf_len (sd_mc Y) k')"
    "q \<in> set (chan_queues (sd_mc X)) \<Longrightarrow> region (buf_at (sd_mc X) k b) (buf_len (sd_mc X) k) \<inter> region (push_ring q) (ring_bytes q) = {}"
    "q \<in> set (chan_queues (sd_mc X)) \<Longrightarrow> region (buf_at (sd_mc X) k b) (buf_len (sd_mc X) k) \<inter> region (pop_ring q) (ring_bytes q) = {}"
  using assms by (simp_all add: lane_def outside_rings_def apart_def Int_commute)

text \<open>The sides see the same queues, with the directions exchanged.\<close>

lemma linked_queues:
  assumes "linked a b" "unat (mc_num_pools a) \<le> length (mc_pools a)"
  shows "chan_queues b = map peer (chan_queues a)"
  using assms by (auto simp: linked_def chan_queues_def intro!: nth_equalityI)

lemma lane_queues:
  assumes "lane X Y"
  shows "tx_bds m (mc_bd_queue (sd_mc Y)) = rx_bds m (mc_bd_queue (sd_mc X))" "mc_num_pools (sd_mc Y) = mc_num_pools (sd_mc X)"
    "k < unat (mc_num_pools (sd_mc X)) \<Longrightarrow> rx_bds m (pl_bd_queue (mc_pools (sd_mc Y) ! k)) = tx_bds m (pl_bd_queue (mc_pools (sd_mc X) ! k))"
    "mchan_ready (sd_mc Y) m = mchan_ready (sd_mc X) m"
  using assms linked_ready by (auto simp: lane_def linked_def)

definition bufs_same :: "ipc_managed_channel \<Rightarrow> memory \<Rightarrow> memory \<Rightarrow> bool" where
  "bufs_same mc m m' \<longleftrightarrow> dom m' = dom m \<and>
     (\<forall>k b n. is_buf mc k b \<longrightarrow> n \<le> buf_len mc k \<longrightarrow> load_bytes m' (buf_at mc k b) n = load_bytes m (buf_at mc k b) n)"

lemma bufs_sameI:
  assumes "same_except A m m'" "\<And>k b. is_buf mc k b \<Longrightarrow> region (buf_at mc k b) (buf_len mc k) \<inter> A = {}"
  shows "bufs_same mc m m'"
proof -
  have "load_bytes m' (buf_at mc k b) n = load_bytes m (buf_at mc k b) n" if "is_buf mc k b" "n \<le> buf_len mc k" for k b n
    using load_bytes_same_except [OF assms(1)] assms(2) [OF that(1)] region_mono [OF that(2), of "buf_at mc k b"] by blast
  then show ?thesis using assms(1) by (simp add: bufs_same_def same_except_def)
qed

lemma ring_step:
  assumes d: "lane X Y" "lane Y X" and ok: "end_ok X (sd_shm Y) m w" "end_ok Y (sd_shm X) m v" and a: "a < length (chan_queues (sd_mc X))"
    and se: "same_except (region (push_ring (chan_queues (sd_mc X) ! a)) (ring_bytes (chan_queues (sd_mc X) ! a))) m m'"
    and rdy: "bd_queue_ready (chan_queues (sd_mc X) ! a) m'"
  shows "end_ok X (sd_shm Y) m' w" "end_ok Y (sd_shm X) m' v" "bufs_same (sd_mc X) m m'" "bufs_same (sd_mc Y) m m'"
    "\<And>b. b < length (chan_queues (sd_mc X)) \<Longrightarrow> b \<noteq> a \<Longrightarrow>
       tx_bds m' (chan_queues (sd_mc X) ! b) = tx_bds m (chan_queues (sd_mc X) ! b) \<and> rx_bds m' (chan_queues (sd_mc X) ! b) = rx_bds m (chan_queues (sd_mc X) ! b)"
proof -
  let ?q = "chan_queues (sd_mc X) ! a"
  note f = chan_frame [OF end_okD(3,4) [OF ok(1)] a se rdy]
  show "tx_bds m' (chan_queues (sd_mc X) ! b) = tx_bds m (chan_queues (sd_mc X) ! b) \<and> rx_bds m' (chan_queues (sd_mc X) ! b) = rx_bds m (chan_queues (sd_mc X) ! b)"
    if "b < length (chan_queues (sd_mc X))" "b \<noteq> a" for b using f(2) that by blast
  have q: "?q \<in> set (chan_queues (sd_mc X))" using a by simp
  moreover have "chan_queues (sd_mc Y) = map peer (chan_queues (sd_mc X))"
    using d(1) end_okD(3) [OF ok(1)] by (intro linked_queues) (simp_all add: lane_def mchan_ready_def)
  ultimately have q': "peer ?q \<in> set (chan_queues (sd_mc Y))" by simp
  have out: "region (sd_shm X) 8 \<inter> region (push_ring ?q) (ring_bytes ?q) = {}" "region (sd_shm Y) 8 \<inter> region (push_ring ?q) (ring_bytes ?q) = {}"
    using end_okD(1) [OF ok(1)] q end_okD(5) [OF ok(1)] unfolding sender_ok_def by auto
  show "end_ok X (sd_shm Y) m' w" by (rule end_ok_mem [OF ok(1) se out f(1)])
  show "end_ok Y (sd_shm X) m' v" by (rule end_ok_mem [OF ok(2) se out(2,1)]) (use f(1) lane_queues(4) [OF d(1)] in simp)
  show "bufs_same (sd_mc X) m m'" by (rule bufs_sameI [OF se]) (rule lane_buf(4) [OF d(1) _ q])
  show "bufs_same (sd_mc Y) m m'" by (rule bufs_sameI [OF se]) (use lane_buf(5) [OF d(2) _ q'] in simp)
qed

text \<open>A direction whose queues and buffers are as before is in the same state.\<close>

lemma message_same: "bufs_same mc m m' \<Longrightarrow> is_buf mc k b \<Longrightarrow> unat n \<le> buf_len mc k \<Longrightarrow> message m' (buf_at mc k b) n = message m (buf_at mc k b) n"
  by (simp add: bufs_same_def message_def)

lemma pending_same:
  assumes "bds_ok mc m" "bufs_same mc m m'"
  shows "map (\<lambda>bd. message m' (bd_buf mc bd) (bd_data_size bd)) (tx_bds m (mc_bd_queue mc)) = pending mc m"
  using assms by (auto simp: pending_def bds_ok_def bd_buf_def intro!: message_same)

lemma mapped_same: "bufs_same mc m m' \<Longrightarrow> mapped m' a n = mapped m a n"
  by (simp add: bufs_same_def mapped_iff)

lemma free_bufs_cong:
  "(\<And>k. k < unat (mc_num_pools mc) \<Longrightarrow> rx_bds m' (pl_bd_queue (mc_pools mc ! k)) = rx_bds m (pl_bd_queue (mc_pools mc ! k))) \<Longrightarrow> free_bufs mc m' = free_bufs mc m"
  by (auto simp: free_bufs_def pool_free_def intro!: arg_cong [where f = concat])

lemma lane_same:
  assumes inv: "lane_inv X Y m w v" and bs: "bufs_same (sd_mc X) m m'"
    and q: "\<And>k. k < unat (mc_num_pools (sd_mc X)) \<Longrightarrow> rx_bds m' (pl_bd_queue (mc_pools (sd_mc X) ! k)) = rx_bds m (pl_bd_queue (mc_pools (sd_mc X) ! k))"
      "tx_bds m' (mc_bd_queue (sd_mc X)) = tx_bds m (mc_bd_queue (sd_mc X))"
    and pt: "pt_held (sd_port X w') = pt_held (sd_port X w)" "pt_sent (sd_port X w') = pt_sent (sd_port X w)"
      "pt_got (sd_port Y v') = pt_got (sd_port Y v)" "pt_log (sd_port Y v') = pt_log (sd_port Y v)"
  shows "lane_inv X Y m' w' v'"
proof -
  have ok: "bds_ok (sd_mc X) m" using inv by (simp add: lane_inv_def)
  have "pending (sd_mc X) m' = pending (sd_mc X) m" using pending_same [OF ok bs] q(2) by (simp add: pending_def)
  moreover have "bds_ok (sd_mc X) m'" using ok q by (simp add: bds_ok_def)
  ultimately show ?thesis using inv pt free_bufs_cong [OF q(1)] mapped_same [OF bs] q(2) by (simp add: lane_inv_def flight_def)
qed

section \<open>Counting buffers\<close>

lemma upt_split: "k < n \<Longrightarrow> [0..<n] = [0..<k] @ k # [Suc k..<n]"
  using upt_add_eq_append [of 0 k "n - k"] upt_conv_Cons [of k n] by simp

lemma mset_concat_step:
  assumes "k < n" "\<And>j. j < n \<Longrightarrow> j \<noteq> k \<Longrightarrow> g j = f j" "mset (f k) = add_mset x (mset (g k))"
  shows "mset (concat (map f [0..<n])) = add_mset x (mset (concat (map g [0..<n])))"
proof -
  have "map f [0..<k] = map g [0..<k]" "map f [Suc k..<n] = map g [Suc k..<n]" using assms(1,2) by auto
  then show ?thesis unfolding upt_split [OF assms(1)] map_append list.map using assms(3) by (simp del: map_eq_conv)
qed

lemma lane_distinct:
  assumes "lane_inv X Y m w v" "pools_apart (sd_mc X)"
  shows "distinct (free_bufs (sd_mc X) m @ pt_held (sd_port X w) @ flight (sd_mc X) m @ pt_got (sd_port Y v))"
    "set (free_bufs (sd_mc X) m @ pt_held (sd_port X w) @ flight (sd_mc X) m @ pt_got (sd_port Y v)) = set (all_bufs (sd_mc X))"
    "length (free_bufs (sd_mc X) m) + length (pt_held (sd_port X w)) + length (flight (sd_mc X) m) + length (pt_got (sd_port Y v)) = length (all_bufs (sd_mc X))"
proof -
  have eq: "mset (free_bufs (sd_mc X) m @ pt_held (sd_port X w) @ flight (sd_mc X) m @ pt_got (sd_port Y v)) = mset (all_bufs (sd_mc X))"
    using assms(1) by (simp add: lane_inv_def)
  show "distinct (free_bufs (sd_mc X) m @ pt_held (sd_port X w) @ flight (sd_mc X) m @ pt_got (sd_port Y v))"
    using mset_eq_imp_distinct_iff [OF eq] all_bufs_distinct [OF assms(2)] by blast
  show "set (free_bufs (sd_mc X) m @ pt_held (sd_port X w) @ flight (sd_mc X) m @ pt_got (sd_port Y v)) = set (all_bufs (sd_mc X))"
    by (rule mset_eq_setD [OF eq])
  show "length (free_bufs (sd_mc X) m) + length (pt_held (sd_port X w)) + length (flight (sd_mc X) m) + length (pt_got (sd_port Y v)) = length (all_bufs (sd_mc X))"
    using mset_eq_length [OF eq] by simp
qed

text \<open>While the application holds a buffer the queue of the channel is not full.\<close>

lemma send_room:
  assumes "lane X Y" "lane_inv X Y m w v" "pools_apart (sd_mc X)" "p \<in> set (pt_held (sd_port X w))"
  shows "length (tx_bds m (mc_bd_queue (sd_mc X))) + 1 < unat (elem_num (mc_bd_queue (sd_mc X)))"
proof -
  have "0 < length (pt_held (sd_port X w))" using assms(4) by (cases "pt_held (sd_port X w)") auto
  moreover have "unat (elem_num (mc_bd_queue (sd_mc X))) = length (all_bufs (sd_mc X)) + 1" using assms(1) by (simp add: lane_def)
  ultimately show ?thesis using lane_distinct(3) [OF assms(2,3)] by (simp add: flight_def del: length_greater_0_conv)
qed

lemma distinct_part: "distinct (concat (map f ks)) \<Longrightarrow> k \<in> set ks \<Longrightarrow> distinct (f k)"
  by (induction ks) auto

text \<open>While a buffer of a pool is not free the queue of the pool is not full.\<close>

lemma release_room:
  assumes ln: "lane X Y" "lane_inv X Y m w v" "pools_apart (sd_mc X)" and p: "p \<in> set (pt_got (sd_port Y v))" "is_buf (sd_mc X) k b" "p = buf_at (sd_mc X) k b"
  shows "length (rx_bds m (pl_bd_queue (mc_pools (sd_mc X) ! k))) + 1 < unat (elem_num (pl_bd_queue (mc_pools (sd_mc X) ! k)))"
proof -
  let ?f = "pool_free (sd_mc X) m k"
  have k: "k < unat (mc_num_pools (sd_mc X))" using p(2) by (simp add: is_buf_def)
  note di = lane_distinct(1) [OF ln(2,3)]
  have "distinct ?f" using di k distinct_part [of "pool_free (sd_mc X) m" "[0..<unat (mc_num_pools (sd_mc X))]" k] by (simp add: free_bufs_def)
  moreover have "set ?f \<subseteq> set (free_bufs (sd_mc X) m)" using k by (auto simp: free_bufs_def)
  then have "p \<notin> set ?f" using di p(1) by (auto simp del: set_concat)
  ultimately have "distinct (p # ?f)" by simp
  moreover have "set (p # ?f) \<subseteq> set (pool_bufs (sd_mc X) k)"
    using p(2,3) ln(2) k pool_bufs_set [OF k] by (auto simp: lane_inv_def bds_ok_def pool_free_def)
  ultimately have "length (p # ?f) \<le> card (set (pool_bufs (sd_mc X) k))" by (metis card_mono distinct_card List.finite_set)
  also have "\<dots> \<le> unat (pl_num_bufs (mc_pools (sd_mc X) ! k))" using card_length [of "pool_bufs (sd_mc X) k"] by (simp add: pool_bufs_def)
  finally show ?thesis using ln(1) k by (simp add: lane_def pool_free_def)
qed

section \<open>The calls\<close>

lemma queue_index:
  assumes "mchan_ready mc m"
  shows "chan_queues mc ! 0 = mc_bd_queue mc" "0 < length (chan_queues mc)"
    "k < unat (mc_num_pools mc) \<Longrightarrow> chan_queues mc ! Suc k = pl_bd_queue (mc_pools mc ! k)" "k < unat (mc_num_pools mc) \<Longrightarrow> Suc k < length (chan_queues mc)"
  using assms chan_queues_pool [of k mc] by (simp_all add: chan_queues_def mchan_ready_def)

lemma queue_member:
  assumes "mchan_ready mc m"
  shows "mc_bd_queue mc \<in> set (chan_queues mc)" "k < unat (mc_num_pools mc) \<Longrightarrow> pl_bd_queue (mc_pools mc ! k) \<in> set (chan_queues mc)"
  using queue_index [OF assms] nth_mem by metis+

text \<open>What a call of the side does to its queues, by the queue that it works on.\<close>

definition on_pool :: "ipc_managed_channel \<Rightarrow> nat \<Rightarrow> memory \<Rightarrow> memory \<Rightarrow> bool" where
  "on_pool mc k m m' \<longleftrightarrow> k < unat (mc_num_pools mc) \<and> bd_queue_ready (pl_bd_queue (mc_pools mc ! k)) m' \<and>
     same_except (region (push_ring (pl_bd_queue (mc_pools mc ! k))) (ring_bytes (pl_bd_queue (mc_pools mc ! k)))) m m'"

definition on_chan :: "ipc_managed_channel \<Rightarrow> memory \<Rightarrow> memory \<Rightarrow> bool" where
  "on_chan mc m m' \<longleftrightarrow> bd_queue_ready (mc_bd_queue mc) m' \<and>
     same_except (region (push_ring (mc_bd_queue mc)) (ring_bytes (mc_bd_queue mc))) m m'"

lemma pool_step:
  assumes d: "lane X Y" "lane Y X" and ok: "end_ok X (sd_shm Y) m w" "end_ok Y (sd_shm X) m v" and st: "on_pool (sd_mc X) k m m'"
  shows "end_ok X (sd_shm Y) m' w" "end_ok Y (sd_shm X) m' v" "bufs_same (sd_mc X) m m'" "bufs_same (sd_mc Y) m m'"
    "tx_bds m' (mc_bd_queue (sd_mc X)) = tx_bds m (mc_bd_queue (sd_mc X))" "rx_bds m' (mc_bd_queue (sd_mc X)) = rx_bds m (mc_bd_queue (sd_mc X))"
    "\<And>j. j < unat (mc_num_pools (sd_mc X)) \<Longrightarrow> j \<noteq> k \<Longrightarrow> tx_bds m' (pl_bd_queue (mc_pools (sd_mc X) ! j)) = tx_bds m (pl_bd_queue (mc_pools (sd_mc X) ! j)) \<and>
       rx_bds m' (pl_bd_queue (mc_pools (sd_mc X) ! j)) = rx_bds m (pl_bd_queue (mc_pools (sd_mc X) ! j))"
proof -
  note qi = queue_index [OF end_okD(3) [OF ok(1)]]
  have k: "k < unat (mc_num_pools (sd_mc X))" using st by (simp add: on_pool_def)
  note r = ring_step [OF d ok qi(4) [OF k], unfolded qi(3) [OF k], of m']
  show "end_ok X (sd_shm Y) m' w" "end_ok Y (sd_shm X) m' v" "bufs_same (sd_mc X) m m'" "bufs_same (sd_mc Y) m m'"
    using r(1-4) st by (simp_all add: on_pool_def)
  have r5: "tx_bds m' (chan_queues (sd_mc X) ! b) = tx_bds m (chan_queues (sd_mc X) ! b) \<and> rx_bds m' (chan_queues (sd_mc X) ! b) = rx_bds m (chan_queues (sd_mc X) ! b)"
    if "b < length (chan_queues (sd_mc X))" "b \<noteq> Suc k" for b using r(5) that st by (simp add: on_pool_def)
  show "tx_bds m' (mc_bd_queue (sd_mc X)) = tx_bds m (mc_bd_queue (sd_mc X))" "rx_bds m' (mc_bd_queue (sd_mc X)) = rx_bds m (mc_bd_queue (sd_mc X))"
    using r5 [OF qi(2)] qi(1) by simp_all
  show "tx_bds m' (pl_bd_queue (mc_pools (sd_mc X) ! j)) = tx_bds m (pl_bd_queue (mc_pools (sd_mc X) ! j)) \<and>
       rx_bds m' (pl_bd_queue (mc_pools (sd_mc X) ! j)) = rx_bds m (pl_bd_queue (mc_pools (sd_mc X) ! j))" if "j < unat (mc_num_pools (sd_mc X))" "j \<noteq> k" for j
    using r5 [OF qi(4) [OF that(1)]] qi(3) [OF that(1)] that(2) by simp
qed

lemma chan_step:
  assumes d: "lane X Y" "lane Y X" and ok: "end_ok X (sd_shm Y) m w" "end_ok Y (sd_shm X) m v" and st: "on_chan (sd_mc X) m m'"
  shows "end_ok X (sd_shm Y) m' w" "end_ok Y (sd_shm X) m' v" "bufs_same (sd_mc X) m m'" "bufs_same (sd_mc Y) m m'"
    "\<And>j. j < unat (mc_num_pools (sd_mc X)) \<Longrightarrow> tx_bds m' (pl_bd_queue (mc_pools (sd_mc X) ! j)) = tx_bds m (pl_bd_queue (mc_pools (sd_mc X) ! j)) \<and>
       rx_bds m' (pl_bd_queue (mc_pools (sd_mc X) ! j)) = rx_bds m (pl_bd_queue (mc_pools (sd_mc X) ! j))"
proof -
  note qi = queue_index [OF end_okD(3) [OF ok(1)]]
  note r = ring_step [OF d ok qi(2), unfolded qi(1), of m']
  show "end_ok X (sd_shm Y) m' w" "end_ok Y (sd_shm X) m' v" "bufs_same (sd_mc X) m m'" "bufs_same (sd_mc Y) m m'"
    using r(1-4) st by (simp_all add: on_chan_def)
  show "tx_bds m' (pl_bd_queue (mc_pools (sd_mc X) ! j)) = tx_bds m (pl_bd_queue (mc_pools (sd_mc X) ! j)) \<and>
       rx_bds m' (pl_bd_queue (mc_pools (sd_mc X) ! j)) = rx_bds m (pl_bd_queue (mc_pools (sd_mc X) ! j))" if "j < unat (mc_num_pools (sd_mc X))" for j
    using r(5) [OF _ _ qi(4) [OF that]] qi(3) [OF that] st by (simp add: on_chan_def)
qed

lemma buf_nonzero: "lane X Y \<Longrightarrow> end_ok X R m w \<Longrightarrow> is_buf (sd_mc X) k b \<Longrightarrow> buf_at (sd_mc X) k b \<noteq> 0"
  using lane_buf(1) [of X Y k b] end_okD(1) [of X R m w] by (auto simp: in_remote_shm_def sender_ok_def word_le_0_iff)

text \<open>Acquiring either finds no buffer and changes nothing, or takes the first free one of the first pool that fits.\<close>

lemma acquire_works:
  assumes ln: "lane X Y" and ok: "end_ok X (sd_shm Y) m w" and bds: "bds_ok (sd_mc X) m"
  shows "ipc_shm_acquire_buf (sd_plat X) (sd_inst X) (sd_chan X) n (drv_at X m w) = Some (0, drv_at X m w) \<and>
      (n = 0 \<or> first_fit (sd_mc X) n m = None) \<or>
    (\<exists>k bd bds m'. ipc_shm_acquire_buf (sd_plat X) (sd_inst X) (sd_chan X) n (drv_at X m w) = Some (buf_at (sd_mc X) k (bd_buf_id bd), drv_at X m' w) \<and>
       n \<noteq> 0 \<and> first_fit (sd_mc X) n m = Some k \<and>
       is_buf (sd_mc X) k (bd_buf_id bd) \<and> on_pool (sd_mc X) k m m' \<and> n \<le> pl_buf_size (mc_pools (sd_mc X) ! k) \<and>
       rx_bds m (pl_bd_queue (mc_pools (sd_mc X) ! k)) = bd # bds \<and> rx_bds m' (pl_bd_queue (mc_pools (sd_mc X) ! k)) = bds \<and>
       tx_bds m' (pl_bd_queue (mc_pools (sd_mc X) ! k)) = tx_bds m (pl_bd_queue (mc_pools (sd_mc X) ! k)))"
proof -
  note f = sender_ok_facts [OF end_okD(1) [OF ok]]
  show ?thesis
  proof (cases "n = 0 \<or> first_fit (sd_mc X) n m = None")
    case True
    then have "ipc_shm_acquire_buf (sd_plat X) (sd_inst X) (sd_chan X) n (drv_at X m w) = Some (0, drv_at X m w)"
      using acquire_run [OF f(1) _ f(3,2), of n] f(8,9) by (auto simp: ipc_shm_acquire_buf_def)
    with True show ?thesis by simp
  next
    case False
    then obtain k where ff: "first_fit (sd_mc X) n m = Some k" and n: "n \<noteq> 0" by blast
    let ?q = "pl_bd_queue (mc_pools (sd_mc X) ! k)"
    from ff obtain bd bds' where bd: "rx_bds m ?q = bd # bds'" by (cases "rx_bds m ?q") (auto simp: first_fit_def find_Some_iff)
    have k: "k < unat (mc_num_pools (sd_mc X))" using ff by (auto simp: first_fit_def find_Some_iff)
    then have b: "is_buf (sd_mc X) k (bd_buf_id bd)" using bds bd by (simp add: bds_ok_def)
    note ins = lane_buf(1) [OF ln b]
    from acquire_run [OF f(1) n f(3,2)] ff bd ins obtain m' where
      "ipc_shm_acquire_buf (sd_plat X) (sd_inst X) (sd_chan X) n (drv_at X m w) = Some (buf_at (sd_mc X) k (bd_buf_id bd), drv_at X m' w)"
      "n \<le> pl_buf_size (mc_pools (sd_mc X) ! k)" "rx_bds m' ?q = bds'" "tx_bds m' ?q = tx_bds m ?q" "bd_queue_ready ?q m'" "same_except (pop_area ?q) m m'"
      by (auto simp: Let_def in_remote_shm_def buf_at_def)
    with n ff b bd k show ?thesis using same_except_mono [OF _ pop_area_sub] by (auto simp: on_pool_def)
  qed
qed

lemma bd_of: "k < unat (mc_num_pools mc) \<Longrightarrow> unat (mc_num_pools mc) \<le> IPC_SHM_MAX_POOLS \<Longrightarrow> bd_buf mc \<lparr>bd_pool_id = of_nat k, bd_buf_id = b, bd_data_size = n\<rparr> = buf_at mc k b \<and>
    unat (of_nat k :: u16) = k"
proof -
  assume "k < unat (mc_num_pools mc)" "unat (mc_num_pools mc) \<le> IPC_SHM_MAX_POOLS"
  then have "unat (of_nat k :: u16) = k" by (simp add: unat_of_nat take_bit_nat_eq_self limit_defs)
  then show ?thesis by (simp add: bd_buf_def)
qed

text \<open>Sending a buffer of one's own succeeds while there is room in the queue.\<close>

lemma send_works:
  assumes ln: "lane X Y" and ok: "end_ok X (sd_shm Y) m w" and b: "is_buf (sd_mc X) k b" and n: "n \<noteq> 0"
    and room: "length (tx_bds m (mc_bd_queue (sd_mc X))) + 1 < unat (elem_num (mc_bd_queue (sd_mc X)))" and nt: "hw_irq_notify (sd_plat X) (sd_inst X) w = Some w'"
  shows "\<exists>m'. ipc_shm_tx (sd_plat X) (sd_inst X) (uint (sd_chan X)) (buf_at (sd_mc X) k b) n (drv_at X m w) = Some (0, drv_at X m' w') \<and>
    tx_bds m' (mc_bd_queue (sd_mc X)) = tx_bds m (mc_bd_queue (sd_mc X)) @ [\<lparr>bd_pool_id = of_nat k, bd_buf_id = b, bd_data_size = n\<rparr>] \<and>
    rx_bds m' (mc_bd_queue (sd_mc X)) = rx_bds m (mc_bd_queue (sd_mc X)) \<and> on_chan (sd_mc X) m m'"
proof -
  let ?p = "buf_at (sd_mc X) k b" and ?pool = "mc_pools (sd_mc X) ! k"
  note f = sender_ok_facts [OF end_okD(1) [OF ok]]
  have k: "k < unat (mc_num_pools (sd_mc X))" "unat b < unat (pl_num_bufs ?pool)" "pl_buf_size ?pool \<noteq> 0" using b ln by (auto simp: is_buf_def lane_def)
  have us: "chan_usable (sd_plat X) (sd_inst X) (word_of_int (uint (sd_chan X))) (drv_at X m w) (sd_mc X)" using f(1) by simp
  note ow = owned_address [OF f(6) k, unfolded pool_base_local, folded buf_at_def]
  from tx_owned [OF us f(6) buf_nonzero [OF ln ok b] n k(1) ow(1), unfolded drv_at_sel] obtain b' where
    b': "unat (pl_local_pool_addr ?pool) + b' * unat (pl_buf_size ?pool) \<le> unat ?p" "unat ?p < unat (pl_local_pool_addr ?pool) + (b' + 1) * unat (pl_buf_size ?pool)"
    and run: "ipc_shm_tx (sd_plat X) (sd_inst X) (uint (sd_chan X)) ?p n (drv_at X m w) =
       do { (err, m') \<leftarrow> ipc_queue_push (Some (mc_bd_queue (sd_mc X)))
              (Some (bd_bytes \<lparr>bd_pool_id = of_nat k, bd_buf_id = of_nat b', bd_data_size = n\<rparr>)) m;
            if err \<noteq> 0 then Some (int8 err, drv_at X m' w)
            else do { st2 \<leftarrow> upd_env (hw_irq_notify (sd_plat X) (sd_inst X)) (drv_at X m' w); Some (0, st2) } }" by blast
  have "unat b = b'" using b' unfolding ow(2) by (rule buf_number_unique)
  then have "of_nat b' = b" by auto
  moreover have "bd_queue_ready (mc_bd_queue (sd_mc X)) m" using end_okD(3) [OF ok] by (simp add: mchan_ready_def)
  ultimately show ?thesis
    using bd_push_ok [OF _ room, of "\<lparr>bd_pool_id = of_nat k, bd_buf_id = b, bd_data_size = n\<rparr>"] run nt by (auto simp: upd_env_def on_chan_def)
qed

lemma used_end: "end_ok X R m w \<Longrightarrow> ipc_instance_is_free (sd_inst X) (drv_at X m w) = Some IPC_SHM_INSTANCE_USED"
  by (rule remote_ready_used [OF sender_ok_facts(8) [OF end_okD(1)]])

text \<open>Releasing a buffer of the other side succeeds while there is room in the queue of its pool.\<close>

lemma release_works:
  assumes ln: "lane X Y" "lane Y X" and ok: "end_ok X (sd_shm Y) m w" "end_ok Y (sd_shm X) m v" and b: "is_buf (sd_mc Y) k b"
    and room: "length (rx_bds m (pl_bd_queue (mc_pools (sd_mc Y) ! k))) + 1 < unat (elem_num (pl_bd_queue (mc_pools (sd_mc Y) ! k)))"
  shows "\<exists>m'. ipc_shm_release_buf (sd_inst X) (sd_chan X) (buf_at (sd_mc Y) k b) (drv_at X m w) = Some (0, drv_at X m' w) \<and> on_pool (sd_mc X) k m m' \<and>
    rx_bds m' (pl_bd_queue (mc_pools (sd_mc Y) ! k)) = rx_bds m (pl_bd_queue (mc_pools (sd_mc Y) ! k)) @ [\<lparr>bd_pool_id = of_nat k, bd_buf_id = b, bd_data_size = 0\<rparr>] \<and>
    rx_bds m' (pl_bd_queue (mc_pools (sd_mc X) ! k)) = rx_bds m (pl_bd_queue (mc_pools (sd_mc X) ! k))"
proof -
  let ?p = "buf_at (sd_mc Y) k b" and ?pool = "mc_pools (sd_mc X) ! k"
  have lk: "linked (sd_mc Y) (sd_mc X)" using ln by (simp add: lane_def)
  have k: "k < unat (mc_num_pools (sd_mc X))" using b lane_queues(2) [OF ln(1)] by (simp add: is_buf_def)
  have pl: "pl_bd_queue (mc_pools (sd_mc X) ! k) = peer (pl_bd_queue (mc_pools (sd_mc Y) ! k))" "pl_remote_pool_addr ?pool = pl_local_pool_addr (mc_pools (sd_mc Y) ! k)"
    "pl_buf_size ?pool = pl_buf_size (mc_pools (sd_mc Y) ! k)" "pl_num_bufs ?pool = pl_num_bufs (mc_pools (sd_mc Y) ! k)"
    using lk b by (auto simp: linked_def is_buf_def)
  have kb: "unat b < unat (pl_num_bufs ?pool)" "pl_buf_size ?pool \<noteq> 0" using b k ln(1) pl(4) by (auto simp: is_buf_def lane_def)
  have lay: "pools_laid_out IPC_BUFFER_FROM_REMOTE (sd_mc X)"
    using linked_laid_out [OF lk] sender_ok_facts(6) [OF end_okD(1) [OF ok(2)]] by blast
  note rcv = end_okD(2) [OF ok(1), unfolded receiver_ok_def]
  have gm: "get_managed_chan (sd_inst X) (sd_chan X) (drv_at X m w) = Some (Some (sd_mc X))" using rcv by blast
  have rdy: "mchan_ready (sd_mc X) (st_mem (drv_at X m w))" using end_okD(3) [OF ok(1)] by simp
  note ow = owned_address [OF lay k kb, unfolded pool_base_local pl(2,3), folded buf_at_def]
  from release_owned [OF used_end [OF ok(1)] gm rdy lay buf_nonzero [OF ln(2) ok(2) b] k ow(1), unfolded drv_at_sel] obtain b' where
    b': "unat (pl_remote_pool_addr ?pool) + b' * unat (pl_buf_size ?pool) \<le> unat ?p" "unat ?p < unat (pl_remote_pool_addr ?pool) + (b' + 1) * unat (pl_buf_size ?pool)"
    and run: "ipc_shm_release_buf (sd_inst X) (sd_chan X) ?p (drv_at X m w) =
       do { (err, m') \<leftarrow> ipc_queue_push (Some (pl_bd_queue ?pool)) (Some (bd_bytes \<lparr>bd_pool_id = of_nat k, bd_buf_id = of_nat b', bd_data_size = 0\<rparr>)) m;
            Some (err, drv_at X m' w) }" by blast
  have "unat b = b'" using b' unfolding ow(2) pl(2,3) by (rule buf_number_unique)
  then have "of_nat b' = b" by auto
  moreover have "bd_queue_ready (pl_bd_queue ?pool) m" using end_okD(3) [OF ok(1)] k by (simp add: mchan_ready_def)
  moreover have "length (tx_bds m (pl_bd_queue ?pool)) + 1 < unat (elem_num (pl_bd_queue ?pool))" using room pl(1) by simp
  ultimately show ?thesis
    using bd_push_ok [of "pl_bd_queue ?pool" m "\<lparr>bd_pool_id = of_nat k, bd_buf_id = b, bd_data_size = 0\<rparr>"] run k pl(1) by (auto simp: on_pool_def)
qed

end
