(* ===== verification/Shm_Duplex.thy ===== *)
theory Shm_Duplex
  imports Shm_Traffic
begin

text \<open>
  The invariant of the traffic on a managed channel, kept by every step of either side, and what it says of
  every state that the traffic can reach.
\<close>

section \<open>The invariant is kept\<close>

lemma duplexD:
  assumes "duplex X Y" "duplex_inv X Y (m, w, v)"
  shows "lane X Y" "lane Y X" "end_ok X (sd_shm Y) m w" "end_ok Y (sd_shm X) m v" "lane_inv X Y m w v" "lane_inv Y X m v w"
    "pools_apart (sd_mc X)" "pools_apart (sd_mc Y)" "bds_ok (sd_mc X) m" "bds_ok (sd_mc Y) m"
  using assms lane_pools [of X Y "sd_shm Y" m w] lane_pools [of Y X "sd_shm X" m v]
  by (simp_all add: duplex_def duplex_inv_def lane_inv_def)

text \<open>The direction that a call does not work on.\<close>

lemma other_lane:
  assumes ln: "lane X Y" "lane_inv Y X m v w" "bufs_same (sd_mc Y) m m'"
    and q: "\<And>k. k < unat (mc_num_pools (sd_mc X)) \<Longrightarrow> tx_bds m' (pl_bd_queue (mc_pools (sd_mc X) ! k)) = tx_bds m (pl_bd_queue (mc_pools (sd_mc X) ! k))"
      "rx_bds m' (mc_bd_queue (sd_mc X)) = rx_bds m (mc_bd_queue (sd_mc X))"
    and pt: "pt_got (sd_port X w') = pt_got (sd_port X w)" "pt_log (sd_port X w') = pt_log (sd_port X w)"
  shows "lane_inv Y X m' v w'"
  by (rule lane_same [OF ln(2,3) _ _ refl refl pt]) (use lane_queues [OF ln(1)] q in simp_all)

text \<open>Only notes that change nothing.\<close>

lemma inv_idle:
  assumes "duplex_inv X Y (m, w, v)" "noted X w f w'" "f (sd_port X w) = sd_port X w"
  shows "duplex_inv X Y (m, w', v)"
  using assms end_ok_env [of X "sd_shm Y" m w w'] by (simp add: duplex_inv_def lane_inv_def noted_def)

lemma inv_acquire:
  assumes d: "duplex X Y" and inv: "duplex_inv X Y (m, w, v)"
    and run: "ipc_shm_acquire_buf (sd_plat X) (sd_inst X) (sd_chan X) n (drv_at X m w) = Some (p, drv_at X m' w1)" and nt: "noted X w1 (note_acquired p) w'"
  shows "duplex_inv X Y (m', w', v)"
proof -
  note D = duplexD [OF d inv]
  consider (none) "ipc_shm_acquire_buf (sd_plat X) (sd_inst X) (sd_chan X) n (drv_at X m w) = Some (0, drv_at X m w)"
    | (some) k bd bds m1 where "ipc_shm_acquire_buf (sd_plat X) (sd_inst X) (sd_chan X) n (drv_at X m w) = Some (buf_at (sd_mc X) k (bd_buf_id bd), drv_at X m1 w)"
      "is_buf (sd_mc X) k (bd_buf_id bd)" "on_pool (sd_mc X) k m m1" "rx_bds m (pl_bd_queue (mc_pools (sd_mc X) ! k)) = bd # bds"
      "rx_bds m1 (pl_bd_queue (mc_pools (sd_mc X) ! k)) = bds" "tx_bds m1 (pl_bd_queue (mc_pools (sd_mc X) ! k)) = tx_bds m (pl_bd_queue (mc_pools (sd_mc X) ! k))"
    using acquire_works [OF D(1,3,9), of n] by blast
  then show ?thesis
  proof cases
    case none
    then show ?thesis using run nt inv_idle [OF inv, of "note_acquired 0" w'] by (simp add: note_acquired_def)
  next
    case (some k bd bds m1)
    let ?q = "pl_bd_queue (mc_pools (sd_mc X) ! k)"
    note b = some(2) and op = some(3) and e = some(4-6)
    have m: "m1 = m'" "w1 = w" "p = buf_at (sd_mc X) k (bd_buf_id bd)" using some(1) run by simp_all
    note st = pool_step [OF D(1-4) op [unfolded m(1)]] and e' = e(2,3) [unfolded m(1)]
    have k: "k < unat (mc_num_pools (sd_mc X))" using b by (simp add: is_buf_def)
    have "p \<noteq> 0" using buf_nonzero [OF D(1,3) b] m(3) by simp
    then have pt: "sd_port X w' = (sd_port X w)\<lparr>pt_held := p # pt_held (sd_port X w)\<rparr>" "same_windows X w w'"
      using nt m(2) by (simp_all add: noted_def note_acquired_def)
    have "mset (free_bufs (sd_mc X) m) = add_mset p (mset (free_bufs (sd_mc X) m'))"
      unfolding free_bufs_def using k st(7) e e' m(3) by (intro mset_concat_step [OF k]) (simp_all add: pool_free_def)
    moreover have q: "rx_bds m' (pl_bd_queue (mc_pools (sd_mc X) ! j)) = (if j = k then bds else rx_bds m (pl_bd_queue (mc_pools (sd_mc X) ! j)))"
      if "j < unat (mc_num_pools (sd_mc X))" for j using st(7) [OF that] e' by simp
    have "bds_ok (sd_mc X) m'" using D(9) q st(5) e(1) k unfolding bds_ok_def by (auto split: if_splits)
    moreover have "pending (sd_mc X) m' = pending (sd_mc X) m" using pending_same [OF D(9) st(3)] st(5) by (simp add: pending_def)
    ultimately have "lane_inv X Y m' w' v"
      using D(5) st(5) mapped_same [OF st(3)] pt(1) by (simp add: lane_inv_def flight_def)
    moreover have "tx_bds m' (pl_bd_queue (mc_pools (sd_mc X) ! j)) = tx_bds m (pl_bd_queue (mc_pools (sd_mc X) ! j))"
      if "j < unat (mc_num_pools (sd_mc X))" for j using st(7) [OF that] e' by (cases "j = k") simp_all
    then have "lane_inv Y X m' v w'" using st(6) pt(1) by (intro other_lane [OF D(1,6) st(4)]) simp_all
    ultimately show ?thesis using st(2) end_ok_env [OF st(1) pt(2)] by (simp add: duplex_inv_def)
  qed
qed

lemma held_buf:
  assumes "duplex X Y" "duplex_inv X Y (m, w, v)" "p \<in> set (pt_held (sd_port X w))"
  obtains k b where "is_buf (sd_mc X) k b" "p = buf_at (sd_mc X) k b"
  using lane_distinct(2) [OF duplexD(5,7) [OF assms(1,2)]] assms(3) all_bufs_set [of p "sd_mc X"] by auto

lemma got_buf:
  assumes "duplex X Y" "duplex_inv X Y (m, w, v)" "p \<in> set (pt_got (sd_port X w))"
  obtains k b where "is_buf (sd_mc Y) k b" "p = buf_at (sd_mc Y) k b"
  using lane_distinct(2) [OF duplexD(6,8) [OF assms(1,2)]] assms(3) all_bufs_set [of p "sd_mc Y"] by auto

text \<open>Writing into a buffer that the application holds changes no queue and no message on its way.\<close>

lemma inv_write:
  assumes d: "duplex X Y" and inv: "duplex_inv X Y (m, w, v)" and p: "p \<in> set (pt_held (sd_port X w))" "in_buf (sd_mc X) p a (length bs)"
    and st: "store_bytes a bs m = Some m'"
  shows "duplex_inv X Y (m', w, v)"
proof -
  note D = duplexD [OF d inv]
  let ?A = "region a (length bs)"
  from p(2) obtain k b where b: "is_buf (sd_mc X) k b" "p = buf_at (sd_mc X) k b" and le: "length bs \<le> buf_len (sd_mc X) k"
    and sub: "?A \<subseteq> region p (buf_len (sd_mc X) k)" by (auto simp: in_buf_iff)
  have "length bs \<le> 2 ^ 64" using le unat_less [of "pl_buf_size (mc_pools (sd_mc X) ! k)"] by simp
  from store_bytes_same_except [OF st this] have se: "same_except ?A m m'" .
  have rdy: "mchan_ready (sd_mc X) m" using end_okD(3) [OF D(3)] .
  have fr: "bd_queue_ready q m'" "tx_bds m' q = tx_bds m q" "rx_bds m' q = rx_bds m q" if "q \<in> set (chan_queues (sd_mc X))" for q
    using bd_queue_frame [OF se, of q] lane_buf(4,5) [OF D(1) b(1) that] sub b(2) rdy that by (simp_all add: mchan_ready_queues) blast+
  note inq = queue_member [OF rdy]
  have rdy': "mchan_ready (sd_mc X) m'" using rdy fr(1) by (simp add: mchan_ready_queues)
  have out: "region (sd_shm X) 8 \<inter> ?A = {}" "region (sd_shm Y) 8 \<inter> ?A = {}"
    using lane_buf(2) [OF D(1) b(1)] sub b(2) end_okD(5) [OF D(3)] by (auto simp: outside_rings_def apart_def)
  have "end_ok X (sd_shm Y) m' w" by (rule end_ok_mem [OF D(3) se out rdy'])
  moreover have "end_ok Y (sd_shm X) m' v" by (rule end_ok_mem [OF D(4) se out(2,1)]) (use rdy' lane_queues(4) [OF D(1)] in simp)
  moreover have "bufs_same (sd_mc Y) m m'"
    by (rule bufs_sameI [OF se]) (use lane_buf(3) [OF D(1) b(1)] sub b(2) in \<open>auto simp: apart_def\<close>)
  then have "lane_inv Y X m' v w" by (rule other_lane [OF D(1,6)]) (simp_all add: fr inq)
  moreover have "lane_inv X Y m' w v"
  proof -
    have "message m' (bd_buf (sd_mc X) bd) (bd_data_size bd) = message m (bd_buf (sd_mc X) bd) (bd_data_size bd)"
      if bd: "bd \<in> set (tx_bds m (mc_bd_queue (sd_mc X)))" for bd
    proof -
      have bb: "is_buf (sd_mc X) (unat (bd_pool_id bd)) (bd_buf_id bd)" "unat (bd_data_size bd) \<le> buf_len (sd_mc X) (unat (bd_pool_id bd))"
        using D(9) bd by (auto simp: bds_ok_def)
      have "bd_buf (sd_mc X) bd \<noteq> p" using lane_distinct(1) [OF D(5,7)] p(1) bd by (auto simp: flight_def)
      then have "apart (bd_buf (sd_mc X) bd) (buf_len (sd_mc X) (unat (bd_pool_id bd))) p (buf_len (sd_mc X) k)"
        using bufs_apart [OF D(7) bb(1) b(1)] b(2) by (auto simp: bd_buf_def)
      then show ?thesis
        using load_bytes_same_except [OF se] region_mono [OF bb(2)] sub by (fastforce simp: message_def apart_def)
    qed
    then have "pending (sd_mc X) m' = pending (sd_mc X) m" using fr(2) [OF inq(1)] by (simp add: pending_def)
    then show ?thesis
      using D(5) fr inq free_bufs_cong [of "sd_mc X" m' m] same_except_mapped [OF se] by (simp add: lane_inv_def bds_ok_def flight_def)
  qed
  ultimately show ?thesis by (simp add: duplex_inv_def)
qed

lemma noted_trans: "noted X w f w1 \<Longrightarrow> noted X w1 g w' \<Longrightarrow> noted X w (\<lambda>a. g (f a)) w'"
  by (simp add: noted_def same_windows_def)

lemma send_nothing:
  assumes "duplex X Y" "duplex_inv X Y (m, w, v)"
  shows "ipc_shm_tx (sd_plat X) (sd_inst X) (uint (sd_chan X)) p 0 (drv_at X m w) = Some (- EINVAL, drv_at X m w)"
  using sender_ok_facts(8,9) [OF end_okD(1) [OF duplexD(3) [OF assms]]] by (simp add: ipc_shm_tx_def)

lemma inv_send:
  assumes d: "duplex X Y" and inv: "duplex_inv X Y (m, w, v)" and p: "p \<in> set (pt_held (sd_port X w))" "in_buf (sd_mc X) p p (unat n)"
    and run: "ipc_shm_tx (sd_plat X) (sd_inst X) (uint (sd_chan X)) p n (drv_at X m w) = Some (err, drv_at X m' w1)"
    and nt: "noted X w1 (note_sent err (message m p n)) w'"
  shows "duplex_inv X Y (m', w', v)"
proof (cases "n = 0")
  case True
  then show ?thesis using run nt send_nothing [OF d inv] inv_idle [OF inv, of "note_sent (- EINVAL) (message m p n)" w'] by (simp add: note_sent_def EINVAL_def)
next
  case False
  note D = duplexD [OF d inv]
  from p(2) obtain k b where b: "is_buf (sd_mc X) k b" "p = buf_at (sd_mc X) k b" and le: "unat n \<le> buf_len (sd_mc X) k" by (auto simp: in_buf_iff)
  let ?bd = "\<lparr>bd_pool_id = of_nat k, bd_buf_id = b, bd_data_size = n\<rparr>"
  from d obtain w2 where w2: "hw_irq_notify (sd_plat X) (sd_inst X) w = Some w2" "noted X w id w2" by (auto simp: duplex_def notify_ok_def)
  from send_works [OF D(1,3) b(1) False send_room [OF D(1,5,7) p(1)] w2(1)] run b(2) have err: "err = 0" "w1 = w2" and op: "on_chan (sd_mc X) m m'"
    and e: "tx_bds m' (mc_bd_queue (sd_mc X)) = tx_bds m (mc_bd_queue (sd_mc X)) @ [?bd]" "rx_bds m' (mc_bd_queue (sd_mc X)) = rx_bds m (mc_bd_queue (sd_mc X))" by auto
  note st = chan_step [OF D(1-4) op]
  have bd: "bd_buf (sd_mc X) ?bd = p" "unat (of_nat k :: u16) = k"
    using bd_of [of k "sd_mc X" b n] b D(3) by (simp_all add: is_buf_def end_ok_def sender_ok_def)
  have pt: "sd_port X w' = (sd_port X w)\<lparr>pt_held := remove1 p (pt_held (sd_port X w)), pt_sent := pt_sent (sd_port X w) @ [message m p n]\<rparr>" "same_windows X w w'"
    using noted_trans [OF w2(2) nt [unfolded err]] by (simp_all add: noted_def note_sent_def message_def)
  have msg: "message m' p n = message m p n" using message_same [OF st(3) b(1) le] b(2) by simp
  have "bds_ok (sd_mc X) m'" using D(9) st(5) e(1) b(1) bd(2) le by (simp add: bds_ok_def)
  moreover have "flight (sd_mc X) m' = flight (sd_mc X) m @ [p]" using e(1) bd(1) by (simp add: flight_def)
  moreover have "pending (sd_mc X) m' = pending (sd_mc X) m @ [message m p n]" using pending_same [OF D(9) st(3)] e(1) bd(1) msg by (simp add: pending_def)
  moreover have "free_bufs (sd_mc X) m' = free_bufs (sd_mc X) m" by (rule free_bufs_cong) (use st(5) in blast)
  ultimately have "lane_inv X Y m' w' v"
    using D(5) mapped_same [OF st(3)] pt(1) p(1) by (simp add: lane_inv_def)
  moreover have "lane_inv Y X m' v w'" using st(5) e(2) pt(1) by (intro other_lane [OF D(1,6) st(4)]) simp_all
  ultimately show ?thesis using st(2) end_ok_env [OF st(1) pt(2)] by (simp add: duplex_inv_def)
qed

lemma inv_release:
  assumes d: "duplex X Y" and inv: "duplex_inv X Y (m, w, v)" and p: "p \<in> set (pt_got (sd_port X w))"
    and run: "ipc_shm_release_buf (sd_inst X) (sd_chan X) p (drv_at X m w) = Some (err, drv_at X m' w1)"
    and nt: "noted X w1 (note_released err p) w'"
  shows "duplex_inv X Y (m', w', v)"
proof -
  note D = duplexD [OF d inv]
  from got_buf [OF d inv p] obtain k b where b: "is_buf (sd_mc Y) k b" "p = buf_at (sd_mc Y) k b" .
  let ?q = "\<lambda>k. pl_bd_queue (mc_pools (sd_mc Y) ! k)" and ?bd = "\<lparr>bd_pool_id = of_nat k, bd_buf_id = b, bd_data_size = 0\<rparr>"
  from release_works [OF D(1-4) b(1) release_room [OF D(2,6,8) p b]] run b(2) have err: "err = 0" "w1 = w" and op: "on_pool (sd_mc X) k m m'"
    and e: "rx_bds m' (?q k) = rx_bds m (?q k) @ [?bd]" "rx_bds m' (pl_bd_queue (mc_pools (sd_mc X) ! k)) = rx_bds m (pl_bd_queue (mc_pools (sd_mc X) ! k))" by auto
  note st = pool_step [OF D(1-4) op] and q = lane_queues [OF D(1)]
  have k: "k < unat (mc_num_pools (sd_mc Y))" using b(1) by (simp add: is_buf_def)
  have pt: "sd_port X w' = (sd_port X w)\<lparr>pt_got := remove1 p (pt_got (sd_port X w))\<rparr>" "same_windows X w w'"
    using nt err by (simp_all add: noted_def note_released_def)
  have oth: "rx_bds m' (?q j) = rx_bds m (?q j)" if "j < unat (mc_num_pools (sd_mc Y))" "j \<noteq> k" for j using st(7) that q(2,3) by simp
  have "mset (free_bufs (sd_mc Y) m') = add_mset p (mset (free_bufs (sd_mc Y) m))"
    unfolding free_bufs_def using oth e(1) b(2) by (intro mset_concat_step [OF k]) (simp_all add: pool_free_def)
  moreover have "bds_ok (sd_mc Y) m'"
  proof -
    have "is_buf (sd_mc Y) j (bd_buf_id bd)" if "j < unat (mc_num_pools (sd_mc Y))" "bd \<in> set (rx_bds m' (?q j))" for j bd
      using that oth [OF that(1)] e(1) D(10) b(1) by (cases "j = k") (auto simp: bds_ok_def)
    then show ?thesis using D(10) st(6) q(1) by (simp add: bds_ok_def)
  qed
  moreover have "pending (sd_mc Y) m' = pending (sd_mc Y) m" using pending_same [OF D(10) st(4)] st(6) q(1) by (simp add: pending_def)
  moreover have "flight (sd_mc Y) m' = flight (sd_mc Y) m" using st(6) q(1) by (simp add: flight_def)
  moreover have "p \<in> set (all_bufs (sd_mc Y))" using b all_bufs_set by blast
  ultimately have "lane_inv Y X m' v w'"
    using D(6) mapped_same [OF st(4)] pt(1) p by (simp add: lane_inv_def)
  moreover have "rx_bds m' (pl_bd_queue (mc_pools (sd_mc X) ! j)) = rx_bds m (pl_bd_queue (mc_pools (sd_mc X) ! j))" if "j < unat (mc_num_pools (sd_mc X))" for j
    using st(7) [OF that] e(2) by (cases "j = k") simp_all
  then have "lane_inv X Y m' w' v" using st(5) pt(1) by (intro lane_same [OF D(5) st(3)]) simp_all
  ultimately show ?thesis using st(2) end_ok_env [OF st(1) pt(2)] by (simp add: duplex_inv_def)
qed

lemma inv_app:
  assumes "duplex X Y" "app_step X s s'" "duplex_inv X Y (fst s, snd s, v)"
  shows "duplex_inv X Y (fst s', snd s', v)"
  using assms(2)
proof cases
  case (acquire n m w p m' w1 w')
  then show ?thesis using inv_acquire [OF assms(1)] assms(3) by simp
next
  case (fill p w a bs m m')
  then show ?thesis using inv_write [OF assms(1)] assms(3) by simp
next
  case (send p w n m err m' w1 w')
  then show ?thesis using inv_send [OF assms(1)] assms(3) by simp
next
  case (release p w m err m' w1 w')
  then show ?thesis using inv_release [OF assms(1)] assms(3) by simp
qed

lemma inv_apps:
  assumes "duplex X Y" "(app_step X)\<^sup>*\<^sup>* s s'" "duplex_inv X Y (fst s, snd s, v)"
  shows "duplex_inv X Y (fst s', snd s', v)"
  using assms(2,3) by (induction rule: rtranclp_induct) (auto intro: inv_app [OF assms(1)])

section \<open>Reception\<close>

text \<open>The oldest message on the way is taken from the queue and handed to the callback.\<close>

lemma rx_step:
  assumes d: "duplex X Y" and inv: "duplex_inv X Y (m, w, v)" and q: "rx_bds m (mc_bd_queue (sd_mc X)) = bd # bds"
  shows "\<exists>m1. on_chan (sd_mc X) m m1 \<and> rx_bds m1 (mc_bd_queue (sd_mc X)) = bds \<and> tx_bds m1 (mc_bd_queue (sd_mc X)) = tx_bds m (mc_bd_queue (sd_mc X)) \<and>
    mchan_rx_loop (sd_plat X) (sd_inst X) (sd_chan X) (Suc n) work (drv_at X m w) =
      do { st2 \<leftarrow> app_rx_cb (sd_plat X) (mc_rx_cb (sd_mc X)) (mc_cb_arg (sd_mc X)) (sd_inst X) (ch_id (sd_ch X)) (bd_buf (sd_mc Y) bd) (bd_data_size bd) (drv_at X m1 w);
           mchan_rx_loop (sd_plat X) (sd_inst X) (sd_chan X) n (work + 1) st2 }"
proof -
  note D = duplexD [OF d inv] and r = end_okD(2) [OF duplexD(3) [OF d inv], unfolded receiver_ok_def]
  have rdy: "bd_queue_ready (mc_bd_queue (sd_mc X)) m" using end_okD(3) [OF D(3)] by (simp add: mchan_ready_def)
  from bd_pop_ok [OF rdy q] obtain bs m1 where
    pop: "ipc_queue_pop (Some (mc_bd_queue (sd_mc X))) (Some (replicate sizeof_ipc_shm_bd 0)) m = Some (0, Some bs, m1)"
    and e: "bytes_bd bs = bd" "rx_bds m1 (mc_bd_queue (sd_mc X)) = bds" "tx_bds m1 (mc_bd_queue (sd_mc X)) = tx_bds m (mc_bd_queue (sd_mc X))"
      "bd_queue_ready (mc_bd_queue (sd_mc X)) m1" "same_except (pop_area (mc_bd_queue (sd_mc X))) m m1" by blast
  let ?k = "unat (bd_pool_id bd)"
  have b: "is_buf (sd_mc Y) ?k (bd_buf_id bd)" using D(10) q lane_queues(1) [OF D(1)] by (simp add: bds_ok_def)
  have lk: "linked (sd_mc Y) (sd_mc X)" "?k < unat (mc_num_pools (sd_mc Y))" "unat (mc_num_pools (sd_mc Y)) \<le> IPC_SHM_MAX_POOLS"
    "unat (mc_num_pools (sd_mc Y)) \<le> length (mc_pools (sd_mc Y))"
    using D(2) b end_okD(1,3) [OF D(4)] by (auto simp: lane_def is_buf_def sender_ok_def mchan_ready_def)
  have "bd = \<lparr>bd_pool_id = of_nat ?k, bd_buf_id = bd_buf_id bd, bd_data_size = bd_data_size bd\<rparr>" by simp
  note ra = receive_address [OF lk this]
  have ins: "in_remote_shm (sd_shm Y) (pv_shm_size (sd_pv X)) (bd_buf (sd_mc Y) bd) (pl_buf_size (mc_pools (sd_mc X) ! ?k))"
    using lane_buf(1) [OF D(2) b] D(1) ra(3) by (simp add: bd_buf_def lane_def)
  have "on_chan (sd_mc X) m m1" using e(4,5) same_except_mono [OF _ pop_area_sub] by (auto simp: on_chan_def)
  with r pop e(1-3) ra ins show ?thesis
    by (intro exI [of _ m1]) (simp add: in_remote_shm_def bd_address_def bd_buf_def buf_at_def Let_def)
qed

lemma inv_pop:
  assumes d: "duplex X Y" and inv: "duplex_inv X Y (m, w, v)" and op: "on_chan (sd_mc X) m m1"
    and q: "rx_bds m (mc_bd_queue (sd_mc X)) = bd # bds" "rx_bds m1 (mc_bd_queue (sd_mc X)) = bds" "tx_bds m1 (mc_bd_queue (sd_mc X)) = tx_bds m (mc_bd_queue (sd_mc X))"
    and nt: "noted X w (note_received (message m1 (bd_buf (sd_mc Y) bd) (bd_data_size bd))) w1"
  shows "duplex_inv X Y (m1, w1, v)"
proof -
  note D = duplexD [OF d inv]
  note st = chan_step [OF D(1-4) op] and lq = lane_queues [OF D(1)]
  have b: "is_buf (sd_mc Y) (unat (bd_pool_id bd)) (bd_buf_id bd)" "unat (bd_data_size bd) \<le> buf_len (sd_mc Y) (unat (bd_pool_id bd))"
    using D(10) q(1) lq(1) by (simp_all add: bds_ok_def)
  let ?msg = "message m (bd_buf (sd_mc Y) bd) (bd_data_size bd)"
  have msg: "message m1 (bd_buf (sd_mc Y) bd) (bd_data_size bd) = ?msg" using message_same [OF st(4) b] by (simp add: bd_buf_def)
  have pt: "sd_port X w1 = (sd_port X w)\<lparr>pt_got := bd_buf (sd_mc Y) bd # pt_got (sd_port X w), pt_log := pt_log (sd_port X w) @ [?msg]\<rparr>" "same_windows X w w1"
    using nt msg by (simp_all add: noted_def note_received_def message_def)
  have "bds_ok (sd_mc Y) m1" using D(10) st(5) lq q(1,2) by (simp add: bds_ok_def)
  moreover have "flight (sd_mc Y) m = bd_buf (sd_mc Y) bd # flight (sd_mc Y) m1" using q(1,2) lq(1) by (simp add: flight_def)
  moreover have "pending (sd_mc Y) m = ?msg # pending (sd_mc Y) m1"
    using pending_same [OF D(10) st(4)] q(1,2) lq(1) by (simp add: pending_def)
  moreover have "free_bufs (sd_mc Y) m1 = free_bufs (sd_mc Y) m" by (rule free_bufs_cong) (use st(5) lq in simp)
  ultimately have "lane_inv Y X m1 v w1" using D(6) mapped_same [OF st(4)] pt(1) by (simp add: lane_inv_def)
  moreover have "lane_inv X Y m1 w1 v" using st(5) q(3) pt(1) by (intro lane_same [OF D(5) st(3)]) simp_all
  ultimately show ?thesis using st(2) end_ok_env [OF st(1) pt(2)] by (simp add: duplex_inv_def)
qed

text \<open>One round of the loop: nothing left to receive, or one message received, with what its callback does.\<close>

lemma rx_loop_cases:
  assumes d: "duplex X Y" and inv: "duplex_inv X Y (m, w, v)"
    and run: "mchan_rx_loop (sd_plat X) (sd_inst X) (sd_chan X) (Suc n) work (drv_at X m w) = Some (r, drv_at X m' w')"
  obtains (idle) "m' = m" "w' = w"
    | (again) m1 w1 m2 w2 where "on_chan (sd_mc X) m m1" "duplex_inv X Y (m1, w1, v)" "(app_step X)\<^sup>*\<^sup>* (m1, w1) (m2, w2)" "duplex_inv X Y (m2, w2, v)"
      "mchan_rx_loop (sd_plat X) (sd_inst X) (sd_chan X) n (work + 1) (drv_at X m2 w2) = Some (r, drv_at X m' w')"
proof (cases "rx_bds m (mc_bd_queue (sd_mc X))")
  case Nil
  note ok = end_okD [OF duplexD(3) [OF d inv]]
  have "bd_queue_ready (mc_bd_queue (sd_mc X)) m" using ok(3) by (simp add: mchan_ready_def)
  moreover have "get_channel_priv (sd_inst X) (sd_chan X) (drv_at X m w) = Some (sd_ch X)" using ok(2) by (simp add: receiver_ok_def)
  ultimately show ?thesis using mchan_rx_idle [of "sd_inst X" "sd_chan X" "drv_at X m w" "sd_ch X"] Nil run by (intro idle) (simp_all del: mchan_rx_loop.simps)
next
  case (Cons bd bds)
  let ?q = "mc_bd_queue (sd_mc X)"
  let ?cb = "\<lambda>m w. app_rx_cb (sd_plat X) (mc_rx_cb (sd_mc X)) (mc_cb_arg (sd_mc X)) (sd_inst X) (ch_id (sd_ch X)) (bd_buf (sd_mc Y) bd) (bd_data_size bd) (drv_at X m w)"
  from rx_step [OF d inv Cons, of n work] run obtain m1 st2 where
    op: "on_chan (sd_mc X) m m1" and q: "rx_bds m1 ?q = bds" "tx_bds m1 ?q = tx_bds m ?q" and cb: "?cb m1 w = Some st2"
    and rest: "mchan_rx_loop (sd_plat X) (sd_inst X) (sd_chan X) n (work + 1) st2 = Some (r, drv_at X m' w')"
    by (auto simp del: mchan_rx_loop.simps split: Option.bind_splits)
  from d obtain w1 where w1: "noted X w (note_received (message m1 (bd_buf (sd_mc Y) bd) (bd_data_size bd))) w1"
    and ok: "\<And>st'. ?cb m1 w = Some st' \<Longrightarrow> \<exists>m' w'. st' = drv_at X m' w' \<and> (app_step X)\<^sup>*\<^sup>* (m1, w1) (m', w')" unfolding duplex_def callback_ok_def by metis
  from ok [OF cb] obtain m2 w2 where st2: "st2 = drv_at X m2 w2" "(app_step X)\<^sup>*\<^sup>* (m1, w1) (m2, w2)" by blast
  have i1: "duplex_inv X Y (m1, w1, v)" by (rule inv_pop [OF d inv op Cons q w1])
  moreover have "duplex_inv X Y (m2, w2, v)" using inv_apps [OF d st2(2)] i1 by simp
  ultimately show ?thesis using again op st2 rest by blast
qed

lemma inv_rx_loop:
  assumes d: "duplex X Y"
  shows "duplex_inv X Y (m, w, v) \<Longrightarrow> mchan_rx_loop (sd_plat X) (sd_inst X) (sd_chan X) n work (drv_at X m w) = Some (r, drv_at X m' w') \<Longrightarrow>
    duplex_inv X Y (m', w', v)"
proof (induction n arbitrary: m w work)
  case (Suc n)
  show ?case by (cases rule: rx_loop_cases [OF d Suc.prems]) (use Suc.prems(1) Suc.IH in blast)+
qed simp

lemma inv_side:
  assumes d: "duplex X Y" and st: "side_step X (m, w) (m', w')" and inv: "duplex_inv X Y (m, w, v)"
  shows "duplex_inv X Y (m', w', v)"
  using st
proof cases
  case app
  then show ?thesis using inv_app [OF d app] inv by simp
next
  case (receive budget n)
  then show ?thesis
    using end_okD(2) [OF duplexD(3) [OF d inv]] inv_rx_loop [OF d inv] by (auto simp: ipc_channel_rx_def receiver_ok_def)
qed

text \<open>What happens elsewhere is not noticed on the channel.\<close>

lemma area_ring:
  "q \<in> set (chan_queues (sd_mc X)) \<Longrightarrow> region (push_ring q) (ring_bytes q) \<inter> - chan_area X Y = {}"
  "q \<in> set (chan_queues (sd_mc Y)) \<Longrightarrow> region (push_ring q) (ring_bytes q) \<inter> - chan_area X Y = {}"
  "is_buf (sd_mc X) k b \<Longrightarrow> region (buf_at (sd_mc X) k b) (buf_len (sd_mc X) k) \<inter> - chan_area X Y = {}"
  "is_buf (sd_mc Y) k b \<Longrightarrow> region (buf_at (sd_mc Y) k b) (buf_len (sd_mc Y) k) \<inter> - chan_area X Y = {}"
  "region (sd_shm X) 8 \<inter> - chan_area X Y = {}" "region (sd_shm Y) 8 \<inter> - chan_area X Y = {}"
  by (auto simp: chan_area_def own_area_def)

lemma inv_elsewhere:
  assumes d: "duplex X Y" and inv: "duplex_inv X Y (m, w, v)" and se: "same_except (- chan_area X Y) m m'" and nt: "noted X w id w'" "noted Y v id v'"
  shows "duplex_inv X Y (m', w', v')"
proof -
  note D = duplexD [OF d inv]
  have rdy: "mchan_ready (sd_mc X) m" using end_okD(3) [OF D(3)] .
  have cq: "chan_queues (sd_mc Y) = map peer (chan_queues (sd_mc X))"
    using D(1) rdy by (intro linked_queues) (simp_all add: lane_def mchan_ready_def)
  have fr: "bd_queue_ready q m'" "tx_bds m' q = tx_bds m q" "rx_bds m' q = rx_bds m q" if q: "q \<in> set (chan_queues (sd_mc X))" for q
  proof -
    have "peer q \<in> set (chan_queues (sd_mc Y))" using q cq by simp
    from area_ring(2) [OF this] have "region (pop_ring q) (ring_bytes q) \<inter> - chan_area X Y = {}" by simp
    then show "bd_queue_ready q m'" "tx_bds m' q = tx_bds m q" "rx_bds m' q = rx_bds m q"
      using bd_queue_frame [OF se area_ring(1) [OF q]] rdy q by (simp_all add: mchan_ready_queues)
  qed
  note inq = queue_member [OF rdy]
  have rdy': "mchan_ready (sd_mc X) m'" using rdy fr(1) by (simp add: mchan_ready_queues)
  have "end_ok X (sd_shm Y) m' w" by (rule end_ok_mem [OF D(3) se area_ring(5,6) rdy'])
  moreover have "end_ok Y (sd_shm X) m' v" by (rule end_ok_mem [OF D(4) se area_ring(6,5)]) (use rdy' lane_queues(4) [OF D(1)] in simp)
  moreover have "lane_inv X Y m' w' v'"
    by (rule lane_same [OF D(5) bufs_sameI [OF se area_ring(3)]]) (use nt fr inq in \<open>simp_all add: noted_def\<close>)
  moreover have "lane_inv Y X m' v' w'"
    by (rule lane_same [OF D(6) bufs_sameI [OF se area_ring(4)]]) (use nt fr inq lane_queues [OF D(1)] in \<open>simp_all add: noted_def\<close>)
  ultimately show ?thesis using nt by (auto simp: duplex_inv_def noted_def intro: end_ok_env)
qed

lemma inv_step:
  assumes d: "duplex X Y" and st: "duplex_step X Y s s'" and inv: "duplex_inv X Y s"
  shows "duplex_inv X Y s'"
  using st
proof cases
  case (left m w m' w' v)
  then show ?thesis using inv_side [OF d] inv by simp
next
  case (right m v m' v' w)
  have "duplex Y X" "duplex_inv Y X (m, v, w)" using d inv right by (simp_all add: duplex_swap [of Y X] duplex_inv_swap [of Y X])
  from inv_side [OF this(1) right(3) this(2)] show ?thesis using right by (simp add: duplex_inv_swap [of Y X])
next
  case (elsewhere m m' w w' v v')
  then show ?thesis using inv_elsewhere [OF d] inv by simp
qed

lemma inv_reachable: "duplex X Y \<Longrightarrow> (duplex_step X Y)\<^sup>*\<^sup>* s s' \<Longrightarrow> duplex_inv X Y s \<Longrightarrow> duplex_inv X Y s'"
  by (erule rtranclp_induct) (auto intro: inv_step)

section \<open>Reception returns\<close>

text \<open>The receive callback returns whenever it is called with a message that the other side has sent.\<close>

definition callback_returns :: "'w side \<Rightarrow> 'v side \<Rightarrow> bool" where
  "callback_returns X Y \<longleftrightarrow> (\<forall>m w w1 v p n. noted X w (note_received (message m p n)) w1 \<longrightarrow> duplex_inv X Y (m, w1, v) \<longrightarrow>
     app_rx_cb (sd_plat X) (mc_rx_cb (sd_mc X)) (mc_cb_arg (sd_mc X)) (sd_inst X) (ch_id (sd_ch X)) p n (drv_at X m w) \<noteq> None)"

lemma log_app:
  assumes d: "duplex X Y" and st: "app_step X s s'" and inv: "duplex_inv X Y (fst s, snd s, v)"
  shows "pt_log (sd_port X (snd s')) = pt_log (sd_port X (snd s))"
  using st
proof cases
  case (acquire n m w p m' w1 w')
  then have "w1 = w" using acquire_works [OF duplexD(1,3,9) [OF d, of m w v], of n] inv by auto
  then show ?thesis using acquire by (simp add: noted_def note_acquired_def)
next
  case (send p w n m err m' w1 w')
  have "sd_port X w1 = sd_port X w"
  proof -
    from d obtain w2 where w2: "hw_irq_notify (sd_plat X) (sd_inst X) w = Some w2" "noted X w id w2" by (auto simp: duplex_def notify_ok_def)
    then have "w1 = w \<or> w1 = w2" using send(5)
      by (auto simp: ipc_shm_tx_def upd_env_def Let_def split: Option.bind_splits if_splits option.splits)
    then show ?thesis using w2(2) by (auto simp: noted_def)
  qed
  then show ?thesis using send by (simp add: noted_def note_sent_def)
next
  case (release p w m err m' w1 w')
  have "w1 = w" using release(4) by (auto simp: ipc_shm_release_buf_def split: Option.bind_splits if_splits option.splits)
  then show ?thesis using release by (simp add: noted_def note_released_def)
qed simp

lemma log_apps:
  assumes d: "duplex X Y" and st: "(app_step X)\<^sup>*\<^sup>* s s'" and inv: "duplex_inv X Y (fst s, snd s, v)"
  shows "pt_log (sd_port X (snd s')) = pt_log (sd_port X (snd s))"
  using st
proof (induction rule: rtranclp_induct)
  case (step y z)
  then show ?case using log_app [OF d step(2)] inv_apps [OF d step(1) inv] by metis
qed simp

text \<open>What has been sent and not yet received is what is on its way, so the receiver's own calls do not touch it.\<close>

lemma pending_apps:
  assumes d: "duplex X Y" and st: "(app_step X)\<^sup>*\<^sup>* (m, w) (m', w')" and inv: "duplex_inv X Y (m, w, v)"
  shows "pending (sd_mc Y) m' = pending (sd_mc Y) m"
proof -
  have "duplex_inv X Y (m', w', v)" using inv_apps [OF d st] inv by simp
  then have "pt_log (sd_port X w') @ pending (sd_mc Y) m' = pt_log (sd_port X w) @ pending (sd_mc Y) m"
    using inv by (simp add: duplex_inv_def lane_inv_def)
  then show ?thesis using log_apps [OF d st, of v] inv by simp
qed

lemma rx_loop_returns:
  assumes d: "duplex X Y" and cr: "callback_returns X Y"
  shows "duplex_inv X Y (m, w, v) \<Longrightarrow> \<exists>m' w'. mchan_rx_loop (sd_plat X) (sd_inst X) (sd_chan X) n work (drv_at X m w) =
      Some (work + of_nat (min n (length (pending (sd_mc Y) m))), drv_at X m' w') \<and> pending (sd_mc Y) m' = drop n (pending (sd_mc Y) m)"
proof (induction n arbitrary: m w work)
  case (Suc n)
  let ?q = "mc_bd_queue (sd_mc X)"
  note D = duplexD [OF d Suc.prems(1)]
  have lq: "tx_bds m (mc_bd_queue (sd_mc Y)) = rx_bds m ?q" for m by (rule lane_queues(1) [OF D(1)])
  show ?case
  proof (cases "rx_bds m ?q")
    case Nil
    have "bd_queue_ready ?q m" using end_okD(3) [OF D(3)] by (simp add: mchan_ready_def)
    moreover have "get_channel_priv (sd_inst X) (sd_chan X) (drv_at X m w) = Some (sd_ch X)" using end_okD(2) [OF D(3)] by (simp add: receiver_ok_def)
    ultimately show ?thesis using mchan_rx_idle [of "sd_inst X" "sd_chan X" "drv_at X m w" "sd_ch X"] Nil lq
      by (intro exI [of _ m] exI [of _ w]) (simp add: pending_def del: mchan_rx_loop.simps)
  next
    case (Cons bd bds)
    let ?cb = "\<lambda>m w. app_rx_cb (sd_plat X) (mc_rx_cb (sd_mc X)) (mc_cb_arg (sd_mc X)) (sd_inst X) (ch_id (sd_ch X)) (bd_buf (sd_mc Y) bd) (bd_data_size bd) (drv_at X m w)"
    from rx_step [OF d Suc.prems(1) Cons, of n work] obtain m1 where
      op: "on_chan (sd_mc X) m m1" and q: "rx_bds m1 ?q = bds" "tx_bds m1 ?q = tx_bds m ?q"
      and run: "mchan_rx_loop (sd_plat X) (sd_inst X) (sd_chan X) (Suc n) work (drv_at X m w) =
        do { st2 \<leftarrow> ?cb m1 w; mchan_rx_loop (sd_plat X) (sd_inst X) (sd_chan X) n (work + 1) st2 }" by blast
    from d obtain w1 where w1: "noted X w (note_received (message m1 (bd_buf (sd_mc Y) bd) (bd_data_size bd))) w1"
      and cb: "\<And>st'. ?cb m1 w = Some st' \<Longrightarrow> \<exists>m' w'. st' = drv_at X m' w' \<and> (app_step X)\<^sup>*\<^sup>* (m1, w1) (m', w')" unfolding duplex_def callback_ok_def by metis
    have i1: "duplex_inv X Y (m1, w1, v)" by (rule inv_pop [OF d Suc.prems(1) op Cons q w1])
    with w1 cr have "?cb m1 w \<noteq> None" unfolding callback_returns_def by blast
    with cb obtain m2 w2 where cb2: "?cb m1 w = Some (drv_at X m2 w2)" "(app_step X)\<^sup>*\<^sup>* (m1, w1) (m2, w2)" by blast
    have i2: "duplex_inv X Y (m2, w2, v)" using inv_apps [OF d cb2(2)] i1 by simp
    have p1: "pending (sd_mc Y) m = message m (bd_buf (sd_mc Y) bd) (bd_data_size bd) # pending (sd_mc Y) m1"
      using pending_same [OF D(10) chan_step(4) [OF D(1-4) op]] Cons q(1) lq by (simp add: pending_def)
    have p2: "pending (sd_mc Y) m2 = pending (sd_mc Y) m1" by (rule pending_apps [OF d cb2(2) i1])
    from Suc.IH [OF i2, of "work + 1"] p1 p2 cb2(1) run show ?thesis by (simp add: algebra_simps del: mchan_rx_loop.simps)
  qed
qed simp

section \<open>What a side writes\<close>

text \<open>A side writes only the rings that are its own and the buffers that it sends.\<close>

lemma on_frame:
  "mchan_ready (sd_mc X) m \<Longrightarrow> on_pool (sd_mc X) k m m' \<Longrightarrow> same_except (own_area X) m m'"
  "mchan_ready (sd_mc X) m \<Longrightarrow> on_chan (sd_mc X) m m' \<Longrightarrow> same_except (own_area X) m m'"
  using queue_member [of "sd_mc X" m] by (auto simp: on_pool_def on_chan_def own_area_def elim!: same_except_mono)

lemma frame_app:
  assumes d: "duplex X Y" and st: "app_step X s s'" and inv: "duplex_inv X Y (fst s, snd s, v)"
  shows "same_except (own_area X) (fst s) (fst s')"
  using st
proof cases
  case (acquire n m w p m' w1 w')
  note D = duplexD [OF d inv]
  show ?thesis using acquire_works [OF D(1,3,9), of n] on_frame(1) [OF end_okD(3) [OF D(3)]] acquire by auto
next
  case (fill p w a bs m m')
  from fill(4) obtain k b where b: "is_buf (sd_mc X) k b" "length bs \<le> buf_len (sd_mc X) k" "region a (length bs) \<subseteq> region (buf_at (sd_mc X) k b) (buf_len (sd_mc X) k)"
    by (auto simp: in_buf_iff)
  then have "length bs \<le> 2 ^ 64" using unat_less [of "pl_buf_size (mc_pools (sd_mc X) ! k)"] by simp
  moreover have "region a (length bs) \<subseteq> own_area X" using b unfolding own_area_def by blast
  ultimately show ?thesis using same_except_mono [OF store_bytes_same_except [OF fill(5)]] fill(1,2) by simp
next
  case (send p w n m err m' w1 w')
  have inv': "duplex_inv X Y (m, w, v)" using inv send(1) by simp
  note D = duplexD [OF d inv']
  show ?thesis
  proof (cases "n = 0")
    case True
    then show ?thesis using send send_nothing [OF d inv'] by simp
  next
    case False
    from held_buf [OF d inv' send(3)] obtain k b where b: "is_buf (sd_mc X) k b" "p = buf_at (sd_mc X) k b" .
    from d obtain w2 where "hw_irq_notify (sd_plat X) (sd_inst X) w = Some w2" by (auto simp: duplex_def notify_ok_def)
    from send_works [OF D(1,3) b(1) False send_room [OF D(1,5,7) send(3)] this] send b(2) show ?thesis
      using on_frame(2) [OF end_okD(3) [OF D(3)]] by auto
  qed
next
  case (release p w m err m' w1 w')
  have inv': "duplex_inv X Y (m, w, v)" using inv release(1) by simp
  note D = duplexD [OF d inv']
  from got_buf [OF d inv' release(3)] obtain k b where b: "is_buf (sd_mc Y) k b" "p = buf_at (sd_mc Y) k b" .
  from release_works [OF D(1-4) b(1) release_room [OF D(2,6,8) release(3) b]] release b(2) show ?thesis
    using on_frame(1) [OF end_okD(3) [OF D(3)]] by auto
qed

lemma frame_apps:
  assumes d: "duplex X Y" and st: "(app_step X)\<^sup>*\<^sup>* s s'" and inv: "duplex_inv X Y (fst s, snd s, v)"
  shows "same_except (own_area X) (fst s) (fst s')"
  using st
proof (induction rule: rtranclp_induct)
  case (step y z)
  then show ?case using frame_app [OF d step(2) inv_apps [OF d step(1) inv]] same_except_trans by blast
qed simp

lemma frame_rx_loop:
  assumes d: "duplex X Y"
  shows "duplex_inv X Y (m, w, v) \<Longrightarrow> mchan_rx_loop (sd_plat X) (sd_inst X) (sd_chan X) n work (drv_at X m w) = Some (r, drv_at X m' w') \<Longrightarrow>
    same_except (own_area X) m m'"
proof (induction n arbitrary: m w work)
  case (Suc n)
  note D = duplexD [OF d Suc.prems(1)]
  show ?case
  proof (cases rule: rx_loop_cases [OF d Suc.prems, case_names idle again])
    case (again m1 w1 m2 w2)
    have "same_except (own_area X) m m1" by (rule on_frame(2) [OF end_okD(3) [OF D(3)] again(1)])
    moreover have "same_except (own_area X) m1 m2" using frame_apps [OF d again(3)] again(2) by simp
    ultimately show ?thesis using Suc.IH again(4,5) same_except_trans by blast
  qed simp
qed simp

lemma frame_side:
  assumes d: "duplex X Y" and st: "side_step X (m, w) (m', w')" and inv: "duplex_inv X Y (m, w, v)"
  shows "same_except (own_area X) m m'"
  using st
proof cases
  case app
  then show ?thesis using frame_app [OF d app] inv by simp
next
  case (receive budget n)
  then show ?thesis
    using end_okD(2) [OF duplexD(3) [OF d inv]] frame_rx_loop [OF d inv] by (auto simp: ipc_channel_rx_def receiver_ok_def)
qed

section \<open>Idle channels\<close>

text \<open>A channel as the initialisation leaves it: every buffer on the free list of its pool, in order, nothing on its way.\<close>

definition no_traffic :: port where
  "no_traffic = \<lparr>pt_held = [], pt_got = [], pt_sent = [], pt_log = []\<rparr>"

definition fresh :: "'w side \<Rightarrow> memory \<Rightarrow> 'w \<Rightarrow> bool" where
  "fresh X m w \<longleftrightarrow> tx_bds m (mc_bd_queue (sd_mc X)) = [] \<and> sd_port X w = no_traffic \<and>
     (\<forall>k < unat (mc_num_pools (sd_mc X)). map bd_buf_id (rx_bds m (pl_bd_queue (mc_pools (sd_mc X) ! k))) =
        map of_nat [0..<unat (pl_num_bufs (mc_pools (sd_mc X) ! k))]) \<and>
     (\<forall>k b. is_buf (sd_mc X) k b \<longrightarrow> mapped m (buf_at (sd_mc X) k b) (buf_len (sd_mc X) k))"

definition idle_pair :: "'w side \<Rightarrow> 'v side \<Rightarrow> memory \<times> 'w \<times> 'v \<Rightarrow> bool" where
  "idle_pair X Y = (\<lambda>(m, w, v). end_ok X (sd_shm Y) m w \<and> end_ok Y (sd_shm X) m v \<and> fresh X m w \<and> fresh Y m v)"

lemma fresh_lane:
  assumes "fresh X m w" "sd_port Y v = no_traffic"
  shows "lane_inv X Y m w v"
proof -
  have ids: "map bd_buf_id (rx_bds m (pl_bd_queue (mc_pools (sd_mc X) ! k))) = map of_nat [0..<unat (pl_num_bufs (mc_pools (sd_mc X) ! k))]"
    if "k < unat (mc_num_pools (sd_mc X))" for k using assms(1) that by (simp add: fresh_def)
  have pf: "pool_free (sd_mc X) m k = pool_bufs (sd_mc X) k" if "k < unat (mc_num_pools (sd_mc X))" for k
  proof -
    have "pool_free (sd_mc X) m k = map (buf_at (sd_mc X) k) (map bd_buf_id (rx_bds m (pl_bd_queue (mc_pools (sd_mc X) ! k))))"
      by (simp add: pool_free_def)
    then show ?thesis unfolding ids [OF that] by (simp add: pool_bufs_def)
  qed
  then have "free_bufs (sd_mc X) m = all_bufs (sd_mc X)" by (auto simp: free_bufs_def all_bufs_def intro!: arg_cong [where f = concat])
  moreover have "is_buf (sd_mc X) k (bd_buf_id bd)" if k: "k < unat (mc_num_pools (sd_mc X))" and bd: "bd \<in> set (rx_bds m (pl_bd_queue (mc_pools (sd_mc X) ! k)))" for k bd
  proof -
    have "bd_buf_id bd \<in> set (map bd_buf_id (rx_bds m (pl_bd_queue (mc_pools (sd_mc X) ! k))))" using bd by simp
    then obtain b where "b < unat (pl_num_bufs (mc_pools (sd_mc X) ! k))" "bd_buf_id bd = of_nat b" unfolding ids [OF k] by auto
    then show ?thesis using k unat_less [of "pl_num_bufs (mc_pools (sd_mc X) ! k)"] by (simp add: is_buf_def unat_of_nat take_bit_nat_eq_self)
  qed
  ultimately show ?thesis using assms by (simp add: lane_inv_def fresh_def bds_ok_def flight_def pending_def no_traffic_def)
qed

lemma fresh_port: "fresh X m w \<Longrightarrow> sd_port X w = no_traffic"
  by (simp add: fresh_def)

lemma idle_inv: "idle_pair X Y s \<Longrightarrow> duplex_inv X Y s"
  by (auto simp: idle_pair_def duplex_inv_def intro: fresh_lane fresh_port)

section \<open>Properties\<close>

text \<open>One direction of the traffic, accounted for.\<close>

definition conserved :: "'w side \<Rightarrow> 'v side \<Rightarrow> memory \<Rightarrow> 'w \<Rightarrow> 'v \<Rightarrow> bool" where
  "conserved X Y m w v \<longleftrightarrow> distinct (all_bufs (sd_mc X)) \<and>
     mset (free_bufs (sd_mc X) m @ pt_held (sd_port X w) @ flight (sd_mc X) m @ pt_got (sd_port Y v)) = mset (all_bufs (sd_mc X)) \<and>
     pt_sent (sd_port X w) = pt_log (sd_port Y v) @ pending (sd_mc X) m"

lemma idle_conserves:
  assumes "duplex X Y" "idle_pair X Y s" "(duplex_step X Y)\<^sup>*\<^sup>* s (m', w', v')"
  shows "conserved X Y m' w' v' \<and> conserved Y X m' v' w'"
proof -
  have inv: "duplex_inv X Y (m', w', v')" by (rule inv_reachable [OF assms(1,3) idle_inv [OF assms(2)]])
  then show ?thesis using all_bufs_distinct duplexD(7,8) [OF assms(1) inv] by (simp add: conserved_def duplex_inv_def lane_inv_def)
qed

text \<open>
  C4. Traffic conserves buffers and messages. Take two symmetrically configured sides of a managed channel,
  idle as the initialisation leaves them, and let them acquire, fill, send, receive and release buffers, in
  any order and number, with receive callbacks that may themselves acquire, send and release. In every state
  that can be reached, and for both directions: every buffer of the sender is in exactly one place, the free
  list of its pool, the sender's hands, the queue or the receiver's hands; and the messages that the sender
  sent are exactly those that the receiver's callback was given, in the same order, at the same address, with
  the same length and the same contents, followed by those still in the queue.
\<close>

theorem traffic_conserves:
  assumes "duplex X Y" "idle_pair X Y (m, w, v)" "(duplex_step X Y)\<^sup>*\<^sup>* (m, w, v) (m', w', v')"
  shows "conserved X Y m' w' v' \<and> conserved Y X m' v' w'"
  by (rule idle_conserves [OF assms])

text \<open>What the driver does for the application of a side in a given state.\<close>

definition serves :: "'w side \<Rightarrow> 'v side \<Rightarrow> memory \<Rightarrow> 'w \<Rightarrow> bool" where
  "serves X Y m w \<longleftrightarrow>
     (\<forall>n. \<exists>p m'. ipc_shm_acquire_buf (sd_plat X) (sd_inst X) (sd_chan X) n (drv_at X m w) = Some (p, drv_at X m' w) \<and>
        (p \<noteq> 0 \<longleftrightarrow> n \<noteq> 0 \<and> (\<exists>k < unat (mc_num_pools (sd_mc X)). n \<le> pl_buf_size (mc_pools (sd_mc X) ! k) \<and> pool_free (sd_mc X) m k \<noteq> []))) \<and>
     (\<forall>p \<in> set (pt_held (sd_port X w)). \<forall>a bs. in_buf (sd_mc X) p a (length bs) \<longrightarrow> (\<exists>m'. store_bytes a bs m = Some m')) \<and>
     (\<forall>p \<in> set (pt_held (sd_port X w)). \<forall>n. n \<noteq> 0 \<longrightarrow>
        (\<exists>m' w'. ipc_shm_tx (sd_plat X) (sd_inst X) (uint (sd_chan X)) p n (drv_at X m w) = Some (0, drv_at X m' w'))) \<and>
     (\<forall>budget. \<exists>m' w'. ipc_channel_rx (sd_plat X) (sd_inst X) (sd_chan X) budget (drv_at X m w) =
          Some (of_nat (min (unat budget) (length (pending (sd_mc Y) m))), drv_at X m' w') \<and>
        pt_log (sd_port X w') = pt_log (sd_port X w) @ take (unat budget) (pending (sd_mc Y) m)) \<and>
     (\<forall>p \<in> set (pt_got (sd_port X w)). \<exists>m'. ipc_shm_release_buf (sd_inst X) (sd_chan X) p (drv_at X m w) = Some (0, drv_at X m' w))"

lemma serve_acquire:
  assumes d: "duplex X Y" and inv: "duplex_inv X Y (m, w, v)"
  shows "\<exists>p m'. ipc_shm_acquire_buf (sd_plat X) (sd_inst X) (sd_chan X) n (drv_at X m w) = Some (p, drv_at X m' w) \<and>
        (p \<noteq> 0 \<longleftrightarrow> n \<noteq> 0 \<and> (\<exists>k < unat (mc_num_pools (sd_mc X)). n \<le> pl_buf_size (mc_pools (sd_mc X) ! k) \<and> pool_free (sd_mc X) m k \<noteq> []))"
proof -
  note D = duplexD [OF d inv]
  have ff: "first_fit (sd_mc X) n m = None \<longleftrightarrow> \<not> (\<exists>k < unat (mc_num_pools (sd_mc X)). n \<le> pl_buf_size (mc_pools (sd_mc X) ! k) \<and> pool_free (sd_mc X) m k \<noteq> [])"
    by (auto simp: first_fit_def find_None_iff pool_free_def)
  from acquire_works [OF D(1,3,9), of n] ff buf_nonzero [OF D(1,3)] show ?thesis
    by (metis option.distinct(1))
qed

lemma buf_mapped: "duplex_inv X Y (m, w, v) \<Longrightarrow> is_buf (sd_mc X) k b \<Longrightarrow> mapped m (buf_at (sd_mc X) k b) (buf_len (sd_mc X) k)"
  by (simp add: duplex_inv_def lane_inv_def)

lemma serve_write: "duplex_inv X Y (m, w, v) \<Longrightarrow> in_buf (sd_mc X) p a (length bs) \<Longrightarrow> \<exists>m'. store_bytes a bs m = Some m'"
  unfolding store_bytes_Some_iff in_buf_iff by (metis (no_types) buf_mapped mapped_iff order_trans)

lemma serve_send:
  assumes d: "duplex X Y" and inv: "duplex_inv X Y (m, w, v)" and p: "p \<in> set (pt_held (sd_port X w))" and n: "n \<noteq> 0"
  shows "\<exists>m' w'. ipc_shm_tx (sd_plat X) (sd_inst X) (uint (sd_chan X)) p n (drv_at X m w) = Some (0, drv_at X m' w')"
proof -
  note D = duplexD [OF d inv]
  from held_buf [OF d inv p] obtain k b where b: "is_buf (sd_mc X) k b" "p = buf_at (sd_mc X) k b" .
  from d obtain w2 where "hw_irq_notify (sd_plat X) (sd_inst X) w = Some w2" by (auto simp: duplex_def notify_ok_def)
  from send_works [OF D(1,3) b(1) n send_room [OF D(1,5,7) p] this] b(2) show ?thesis by auto
qed

lemma serve_release:
  assumes d: "duplex X Y" and inv: "duplex_inv X Y (m, w, v)" and p: "p \<in> set (pt_got (sd_port X w))"
  shows "\<exists>m'. ipc_shm_release_buf (sd_inst X) (sd_chan X) p (drv_at X m w) = Some (0, drv_at X m' w)"
proof -
  note D = duplexD [OF d inv]
  from got_buf [OF d inv p] obtain k b where b: "is_buf (sd_mc Y) k b" "p = buf_at (sd_mc Y) k b" .
  from release_works [OF D(1-4) b(1) release_room [OF D(2,6,8) p b]] b(2) show ?thesis by auto
qed

lemma serve_receive:
  assumes d: "duplex X Y" "callback_returns X Y" and inv: "duplex_inv X Y (m, w, v)"
  shows "\<exists>m' w'. ipc_channel_rx (sd_plat X) (sd_inst X) (sd_chan X) budget (drv_at X m w) =
          Some (of_nat (min (unat budget) (length (pending (sd_mc Y) m))), drv_at X m' w') \<and>
        pt_log (sd_port X w') = pt_log (sd_port X w) @ take (unat budget) (pending (sd_mc Y) m)"
proof -
  let ?p = "pending (sd_mc Y) m"
  from rx_loop_returns [OF d inv, of "unat budget" 0] obtain m' w' where
    run: "mchan_rx_loop (sd_plat X) (sd_inst X) (sd_chan X) (unat budget) 0 (drv_at X m w) = Some (of_nat (min (unat budget) (length ?p)), drv_at X m' w')"
    and p: "pending (sd_mc Y) m' = drop (unat budget) ?p" by auto
  have "duplex_inv X Y (m', w', v)" by (rule inv_rx_loop [OF d(1) inv run])
  then have "pt_log (sd_port X w') @ drop (unat budget) ?p = (pt_log (sd_port X w) @ take (unat budget) ?p) @ drop (unat budget) ?p"
    using inv p by (simp add: duplex_inv_def lane_inv_def)
  then have "pt_log (sd_port X w') = pt_log (sd_port X w) @ take (unat budget) ?p" by (simp only: append_same_eq)
  moreover have "ipc_channel_rx (sd_plat X) (sd_inst X) (sd_chan X) budget (drv_at X m w) = mchan_rx_loop (sd_plat X) (sd_inst X) (sd_chan X) (unat budget) 0 (drv_at X m w)"
    using end_okD(2) [OF duplexD(3) [OF d(1) inv]] by (simp add: ipc_channel_rx_def receiver_ok_def)
  ultimately show ?thesis using run by auto
qed

lemma inv_serves: "duplex X Y \<Longrightarrow> callback_returns X Y \<Longrightarrow> duplex_inv X Y (m, w, v) \<Longrightarrow> serves X Y m w"
  unfolding serves_def by (intro conjI allI ballI impI serve_acquire serve_write serve_send serve_release serve_receive)

lemma idle_serves:
  assumes "duplex X Y" "callback_returns X Y" "callback_returns Y X" "idle_pair X Y s" "(duplex_step X Y)\<^sup>*\<^sup>* s (m', w', v')"
  shows "serves X Y m' w' \<and> serves Y X m' v'"
proof -
  have inv: "duplex_inv X Y (m', w', v')" by (rule inv_reachable [OF assms(1,5) idle_inv [OF assms(4)]])
  then show ?thesis
    using inv_serves [OF assms(1,2)] inv_serves [of Y X m' v' w'] assms(1,3) by (simp add: duplex_swap [of Y X] duplex_inv_swap [of Y X])
qed

text \<open>
  C5. The driver never lets traffic down. In every state that the traffic of an idle pair of sides can reach, with
  callbacks that return: the application can write anywhere in the buffers it holds; \<open>ipc_shm_tx\<close> of any buffer the application holds succeeds and so does
  \<open>ipc_shm_release_buf\<close> of any buffer it has received, since a queue is never full when there is a buffer
  left to put into it; \<open>ipc_shm_acquire_buf\<close> returns a buffer if and only if a pool with large enough
  buffers has a free one; and \<open>ipc_channel_rx\<close> returns, having delivered every message that was on its
  way, up to the budget.
\<close>

theorem traffic_never_fails:
  assumes "duplex X Y" "callback_returns X Y" "callback_returns Y X" "idle_pair X Y (m, w, v)" "(duplex_step X Y)\<^sup>*\<^sup>* (m, w, v) (m', w', v')"
  shows "serves X Y m' w' \<and> serves Y X m' v'"
  by (rule idle_serves [OF assms])

section \<open>A pair of sides at work\<close>

text \<open>
  The demonstration pair with an application that notes what it does and releases every buffer in the receive
  callback, as the sample applications do.
\<close>

type_synonym ports = "u8 \<Rightarrow> port"

definition quiet :: ports where
  "quiet = (\<lambda>c. no_traffic)"

lemma quiet_ports_sel [simp]: "quiet c = no_traffic"
  by (simp add: quiet_def)

definition note_at :: "u8 \<Rightarrow> (port \<Rightarrow> port) \<Rightarrow> ports \<Rightarrow> ports" where
  "note_at c f w = w(c := f (w c))"

definition echo_rx :: "u8 \<Rightarrow> u8 \<Rightarrow> u64 \<Rightarrow> u32 \<Rightarrow> ports shm_state \<Rightarrow> ports shm_state option" where
  "echo_rx i c buf n st = do {
     (err, st') \<leftarrow> ipc_shm_release_buf i c buf (st\<lparr>st_env := note_at c (note_received (message (st_mem st) buf n)) (st_env st)\<rparr>);
     Some (st'\<lparr>st_env := note_at c (note_released err buf) (st_env st')\<rparr>) }"

definition echo_platform :: "u64 \<Rightarrow> u64 \<Rightarrow> ports platform" where
  "echo_platform l r = \<lparr>
     hw_init = \<lambda>i cfg w. Some (0, w), hw_free = \<lambda>i w. Some w,
     hw_irq_enable = \<lambda>i w. Some w, hw_irq_disable = \<lambda>i w. Some w, hw_irq_notify = \<lambda>i w. Some w,
     os_init = \<lambda>i cfg m w. Some (0, m, w), os_free = \<lambda>i m w. Some (m, w),
     os_get_local_shm = \<lambda>i w. Some l, os_get_remote_shm = \<lambda>i w. Some r,
     os_poll_channels = \<lambda>rx i st. do { (n, st') \<leftarrow> rx i 128 st; Some (int8 (uint n), st') },
     app_rx_cb = \<lambda>cb arg i c buf n st. echo_rx i c buf n st,
     app_umng_rx_cb = \<lambda>cb arg i c buf st. Some st\<rparr>"

lemma release_mem:
  "ipc_shm_release_buf i c p (drv_at X m w) = Some (err, st') \<Longrightarrow> \<exists>m'. st' = drv_at X m' w"
  by (auto simp: ipc_shm_release_buf_def split: Option.bind_splits if_splits option.splits)

lemma echo_callback:
  assumes "sd_plat X = echo_platform l r" "sd_port X = (\<lambda>w. w (sd_chan X))" "ch_id (sd_ch X) = sd_chan X"
  shows "callback_ok X" "notify_ok X" "duplex X Y \<Longrightarrow> callback_returns X Y"
proof -
  have win: "same_windows X w w'" for w w' using assms(1) by (simp add: same_windows_def echo_platform_def)
  have cb: "app_rx_cb (sd_plat X) f arg i c buf n st = echo_rx i c buf n st" for f arg i c buf n st using assms(1) by (simp add: echo_platform_def)
  let ?w = "\<lambda>m w p n. note_at (sd_chan X) (note_received (message m p n)) w"
  show "callback_ok X"
    unfolding callback_ok_def
  proof (intro allI exI [of _ "?w _ _ _ _"] conjI impI)
    fix m w p n st'
    show "noted X w (note_received (message m p n)) (?w m w p n)" using assms(2) win by (simp add: noted_def note_at_def)
    assume "app_rx_cb (sd_plat X) (mc_rx_cb (sd_mc X)) (mc_cb_arg (sd_mc X)) (sd_inst X) (ch_id (sd_ch X)) p n (drv_at X m w) = Some st'"
    then obtain err st2 where r: "ipc_shm_release_buf (sd_inst X) (sd_chan X) p (drv_at X m (?w m w p n)) = Some (err, st2)"
      and st': "st' = st2\<lparr>st_env := note_at (sd_chan X) (note_released err p) (st_env st2)\<rparr>" using cb assms(3) by (auto simp: echo_rx_def split: Option.bind_splits)
    from release_mem [OF r] obtain m' where m': "st2 = drv_at X m' (?w m w p n)" by blast
    have "app_step X (m, ?w m w p n) (m', note_at (sd_chan X) (note_released err p) (?w m w p n))"
      by (rule app_step.release [OF _ r [unfolded m']]) (use assms(2) win in \<open>simp_all add: noted_def note_at_def note_received_def message_def\<close>)
    then show "\<exists>m' w'. st' = drv_at X m' w' \<and> (app_step X)\<^sup>*\<^sup>* (m, ?w m w p n) (m', w')" using st' m' by auto
  qed
  show "notify_ok X" using assms(1) win by (auto simp: notify_ok_def noted_def echo_platform_def)
  show "callback_returns X Y" if d: "duplex X Y"
    unfolding callback_returns_def
  proof (intro allI impI)
    fix m w w1 v p n assume nt: "noted X w (note_received (message m p n)) w1" and inv: "duplex_inv X Y (m, w1, v)"
    have w1: "sd_port X (?w m w p n) = sd_port X w1" "p \<in> set (pt_got (sd_port X (?w m w p n)))"
      using nt assms(2) by (simp_all add: noted_def note_at_def note_received_def message_def)
    have "duplex_inv X Y (m, ?w m w p n, v)" by (rule inv_idle [OF inv, of id]) (use w1(1) win in \<open>simp_all add: noted_def\<close>)
    from serve_release [OF d this w1(2)] show "app_rx_cb (sd_plat X) (mc_rx_cb (sd_mc X)) (mc_cb_arg (sd_mc X)) (sd_inst X) (ch_id (sd_ch X)) p n (drv_at X m w) \<noteq> None"
      using cb assms(3) by (auto simp: echo_rx_def)
  qed
qed

definition echo_side :: "u64 \<Rightarrow> u64 \<Rightarrow> ports side" where
  "echo_side l r = \<lparr>sd_plat = echo_platform l r, sd_inst = 0, sd_chan = 0,
     sd_drv = \<lparr>st_mem = demo_shm, st_priv = st_priv (demo_state l r), st_env = quiet\<rparr>,
     sd_ch = no_chan\<lparr>ch_mng := demo_mchan l r\<rparr>,
     sd_pv = \<lparr>pv_shm_size = 0x1000, pv_num_channels = 1, pv_channels = no_chan\<lparr>ch_mng := demo_mchan l r\<rparr> # replicate 7 no_chan, pv_global = l\<rparr>,
     sd_shm = l, sd_port = (\<lambda>w. w 0)\<rparr>"

lemma echo_sel [simp]:
  "sd_plat (echo_side l r) = echo_platform l r" "sd_inst (echo_side l r) = 0" "sd_chan (echo_side l r) = 0" "sd_mc (echo_side l r) = demo_mchan l r"
  "sd_shm (echo_side l r) = l" "sd_port (echo_side l r) = (\<lambda>w. w 0)" "pv_shm_size (sd_pv (echo_side l r)) = 0x1000" "pv_global (sd_pv (echo_side l r)) = l"
  by (simp_all add: echo_side_def)

lemma demo_is_buf: "is_buf (demo_mchan l r) k b \<Longrightarrow> k = 0 \<and> (b = 0 \<or> b = 1 \<or> b = 2)"
proof -
  assume "is_buf (demo_mchan l r) k b"
  then have k: "k = 0" and b: "unat b < 3" by (auto simp: is_buf_def)
  from b have "unat b = unat (0 :: u16) \<or> unat b = unat (1 :: u16) \<or> unat b = unat (2 :: u16)" by auto
  then show ?thesis using k by (metis unsigned_word_eqI)
qed

lemma echo_lane: "lane (echo_side 0x10000 0x20000) (echo_side 0x20000 0x10000)" "lane (echo_side 0x20000 0x10000) (echo_side 0x10000 0x20000)"
proof -
  have len: "length (all_bufs (demo_mchan l r)) = 3" for l r by (simp add: all_bufs_def pool_bufs_def)
  have lk: "linked (demo_mchan 0x10000 0x20000) (demo_mchan 0x20000 0x10000)" "linked (demo_mchan 0x20000 0x10000) (demo_mchan 0x10000 0x20000)"
    by (simp_all add: linked_def demo_q_def peer_def)
  show "lane (echo_side 0x10000 0x20000) (echo_side 0x20000 0x10000)"
    unfolding lane_def echo_sel using lk(1) len
    by (auto dest!: demo_is_buf simp: buf_at_def in_remote_shm_def outside_rings_def chan_queues_def apart_either)
  show "lane (echo_side 0x20000 0x10000) (echo_side 0x10000 0x20000)"
    unfolding lane_def echo_sel using lk(2) len
    by (auto dest!: demo_is_buf simp: buf_at_def in_remote_shm_def outside_rings_def chan_queues_def apart_either)
qed

lemma echo_priv:
  "priv_at 0 (sd_drv (echo_side l r)) = Some (sd_pv (echo_side l r))"
  "get_channel_priv 0 0 (sd_drv (echo_side l r)) = Some (sd_ch (echo_side l r))" "ch_type (sd_ch (echo_side l r)) = IPC_SHM_MANAGED"
  "get_managed_chan 0 0 (sd_drv (echo_side l r)) = Some (Some (demo_mchan l r))"
  by (simp_all add: echo_side_def priv_at_def demo_state_def get_channel_priv_def get_managed_chan_def get_channel_def no_chan_def)

lemma echo_windows: "os_get_local_shm (echo_platform l r) i w = Some l" "os_get_remote_shm (echo_platform l r) i w = Some r"
  by (simp_all add: echo_platform_def)

lemma echo_end:
  "end_ok (echo_side 0x10000 0x20000) 0x20000 demo_shm quiet" "end_ok (echo_side 0x20000 0x10000) 0x10000 demo_shm quiet"
  by (simp_all add: end_ok_def sender_ok_def receiver_ok_def chan_usable_def echo_priv echo_windows demo_mchan_ready demo_separate demo_words
      ipc_shm_is_remote_ready_def ipc_instance_is_free_def limit_defs IPC_SHM_STATE_READY_def IPC_SHM_STATE_CLEAR_def
      pools_laid_out_def pool_bytes_def pool_base_def chan_queues_def apart_either flip: apart_def)

lemma demo_ids: "map bd_buf_id [demo_bd 0, demo_bd 1, demo_bd 2] = map of_nat [0..<3]"
  by (simp add: demo_bd_def upt_rec)

lemma echo_fresh: "fresh (echo_side 0x10000 0x20000) demo_shm quiet" "fresh (echo_side 0x20000 0x10000) demo_shm quiet"
proof -
  have q: "tx_bds demo_shm (demo_q 0x20008 0x10008) = []" "rx_bds demo_shm (demo_q 0x20038 0x10038) = [demo_bd 0, demo_bd 1, demo_bd 2]"
    using demo_tx_rx by (simp_all add: demo_q_peer [of "0x20008"] demo_q_peer [of "0x20038"])
  have mp: "mapped demo_shm (buf_at (demo_mchan l r) k b) (buf_len (demo_mchan l r) k)" if "is_buf (demo_mchan l r) k b" "l = 0x10000 \<or> l = 0x20000" for l r k b
    using demo_is_buf [OF that(1)] that(2) by (elim conjE disjE) (simp_all add: buf_at_def demo_mapped)
  show "fresh (echo_side 0x10000 0x20000) demo_shm quiet"
    using mp demo_ids by (simp add: fresh_def demo_tx_rx)
  show "fresh (echo_side 0x20000 0x10000) demo_shm quiet"
    using mp demo_ids by (simp add: fresh_def q)
qed

lemma echo_pair:
  "duplex (echo_side 0x10000 0x20000) (echo_side 0x20000 0x10000)"
  "callback_returns (echo_side 0x10000 0x20000) (echo_side 0x20000 0x10000)" "callback_returns (echo_side 0x20000 0x10000) (echo_side 0x10000 0x20000)"
  "idle_pair (echo_side 0x10000 0x20000) (echo_side 0x20000 0x10000) (demo_shm, quiet, quiet)"
proof -
  have id: "ch_id (sd_ch (echo_side l r)) = sd_chan (echo_side l r)" "sd_port (echo_side l r) = (\<lambda>w. w (sd_chan (echo_side l r)))" for l r
    by (simp_all add: echo_side_def no_chan_def)
  note cb = echo_callback [OF echo_sel(1) id(2,1)]
  show d: "duplex (echo_side 0x10000 0x20000) (echo_side 0x20000 0x10000)" using echo_lane cb(1,2) by (simp add: duplex_def)
  show "callback_returns (echo_side 0x10000 0x20000) (echo_side 0x20000 0x10000)" "callback_returns (echo_side 0x20000 0x10000) (echo_side 0x10000 0x20000)"
    using cb(3) d duplex_swap by blast+
  show "idle_pair (echo_side 0x10000 0x20000) (echo_side 0x20000 0x10000) (demo_shm, quiet, quiet)"
    using echo_end echo_fresh by (simp add: idle_pair_def)
qed

text \<open>One message from the first side to the second: acquired, filled, sent, received and released.\<close>

lemma echo_run:
  "\<exists>m w v. (duplex_step (echo_side 0x10000 0x20000) (echo_side 0x20000 0x10000))\<^sup>*\<^sup>* (demo_shm, quiet, quiet) (m, w, v) \<and>
     pt_sent (w 0) = [(0x10068, 3, Some [7, 8, 9])] \<and> pt_log (v 0) = [(0x10068, 3, Some [7, 8, 9])]"
proof -
  let ?X = "echo_side 0x10000 0x20000" and ?Y = "echo_side 0x20000 0x10000" and ?p = "0x10068 :: u64" and ?w1 = "note_at 0 (note_acquired 0x10068) quiet"
  let ?R = "duplex_step ?X ?Y" and ?s0 = "(demo_shm, quiet, quiet)"
  note d = echo_pair(1) and i0 = idle_inv [OF echo_pair(4)]
  have nt: "noted (echo_side l r) w f (note_at 0 f w)" for l r w f by (simp add: noted_def note_at_def same_windows_def echo_windows)
  have held: "pt_held (?w1 0) = [?p]" "pt_sent (?w1 0) = []" by (simp_all add: note_at_def note_acquired_def no_traffic_def)
  obtain m1 where a1: "ipc_shm_acquire_buf (sd_plat ?X) (sd_inst ?X) (sd_chan ?X) 0x20 (drv_at ?X demo_shm quiet) = Some (?p, drv_at ?X m1 quiet)"
    using acquire_works [OF duplexD(1,3,9) [OF d i0], of "0x20"] by (auto simp: demo_first_fit demo_tx_rx demo_bd_def buf_at_def)
  have "app_step ?X (demo_shm, quiet) (m1, ?w1)" by (rule app_step.acquire [OF a1 nt])
  then have r1: "?R\<^sup>*\<^sup>* ?s0 (m1, ?w1, quiet)" by (blast intro: duplex_step.left side_step.app)
  note i1 = inv_reachable [OF d r1 i0]
  have b: "is_buf (sd_mc ?X) 0 0" "buf_at (sd_mc ?X) 0 0 = ?p" "buf_len (sd_mc ?X) 0 = 64" by (simp_all add: is_buf_def buf_at_def)
  have ib: "in_buf (sd_mc ?X) ?p ?p n" if "n \<le> 64" for n
    unfolding in_buf_iff using b that region_mono [OF that] by (intro exI [of _ 0]) simp
  from serve_write [OF i1 ib, of "[7, 8, 9]"] obtain m2 where m2: "store_bytes ?p [7, 8, 9] m1 = Some m2" by auto
  have "app_step ?X (m1, ?w1) (m2, ?w1)" by (rule app_step.fill [OF _ _ m2, of ?p]) (use ib held in simp_all)
  with r1 have r2: "?R\<^sup>*\<^sup>* ?s0 (m2, ?w1, quiet)" by (meson duplex_step.left rtranclp.rtrancl_into_rtrancl side_step.app)
  note i2 = inv_reachable [OF d r2 i0]
  have "load_bytes m2 ?p 3 = Some [7, 8, 9]" using load_store_same [OF m2] by (simp add: numeral_3_eq_3)
  then have msg: "message m2 ?p 3 = (?p, 3, Some [7, 8, 9])" by (simp add: message_def)
  have "hw_irq_notify (sd_plat ?X) (sd_inst ?X) ?w1 = Some ?w1" by (simp add: echo_platform_def)
  from send_works [OF duplexD(1,3) [OF d i2] b(1) _ send_room [OF duplexD(1,5,7) [OF d i2], of ?p] this, of 3] b(2) held obtain m3 where
    a3: "ipc_shm_tx (sd_plat ?X) (sd_inst ?X) (uint (sd_chan ?X)) ?p 3 (drv_at ?X m2 ?w1) = Some (0, drv_at ?X m3 ?w1)" by auto
  let ?w3 = "note_at 0 (note_sent 0 (message m2 ?p 3)) ?w1"
  have "app_step ?X (m2, ?w1) (m3, ?w3)" by (rule app_step.send [OF _ _ a3 nt]) (use ib held in simp_all)
  with r2 have r3: "?R\<^sup>*\<^sup>* ?s0 (m3, ?w3, quiet)" by (meson duplex_step.left rtranclp.rtrancl_into_rtrancl side_step.app)
  note i3 = inv_reachable [OF d r3 i0]
  have s3: "pt_sent (?w3 0) = [(?p, 3, Some [7, 8, 9])]" using held by (simp add: note_at_def [of _ "note_sent _ _"] note_sent_def msg)
  then have "pending (sd_mc ?X) m3 = [(?p, 3, Some [7, 8, 9])]" using i3 by (simp add: duplex_inv_def lane_inv_def no_traffic_def)
  with serve_receive [of ?Y ?X m3 quiet ?w3 8] d i3 echo_pair(3) obtain n m4 v4 where
    a4: "ipc_channel_rx (sd_plat ?Y) (sd_inst ?Y) (sd_chan ?Y) 8 (drv_at ?Y m3 quiet) = Some (n, drv_at ?Y m4 v4)" "pt_log (v4 0) = [(?p, 3, Some [7, 8, 9])]"
    by (auto simp: duplex_swap [of ?Y] duplex_inv_swap [of ?Y] no_traffic_def)
  have "?R\<^sup>*\<^sup>* ?s0 (m4, ?w3, v4)" using r3 duplex_step.right [OF side_step.receive [OF a4(1)]] by (meson rtranclp.rtrancl_into_rtrancl)
  with s3 a4(2) show ?thesis by blast
qed

theorem traffic_conserves_witness:
  "\<exists>m w v. (duplex_step (echo_side 0x10000 0x20000) (echo_side 0x20000 0x10000))\<^sup>*\<^sup>* (demo_shm, quiet, quiet) (m, w, v) \<and>
     pt_sent (w 0) = [(0x10068, 3, Some [7, 8, 9])] \<and> pt_log (v 0) = [(0x10068, 3, Some [7, 8, 9])] \<and>
     conserved (echo_side 0x10000 0x20000) (echo_side 0x20000 0x10000) m w v \<and> conserved (echo_side 0x20000 0x10000) (echo_side 0x10000 0x20000) m v w"
  using echo_run traffic_conserves [OF echo_pair(1,4)] by blast

theorem traffic_never_fails_witness:
  "\<exists>m w v. (duplex_step (echo_side 0x10000 0x20000) (echo_side 0x20000 0x10000))\<^sup>*\<^sup>* (demo_shm, quiet, quiet) (m, w, v) \<and>
     pt_log (v 0) = [(0x10068, 3, Some [7, 8, 9])] \<and>
     serves (echo_side 0x10000 0x20000) (echo_side 0x20000 0x10000) m w \<and> serves (echo_side 0x20000 0x10000) (echo_side 0x10000 0x20000) m v"
  using echo_run traffic_never_fails [OF echo_pair] by blast

end
