(* ===== verification/Shm_Channels.thy ===== *)
theory Shm_Channels
  imports Shm_Duplex
begin

text \<open>
  Traffic on several channels of the same pair of instances: a channel does not notice what happens on the
  others, so that everything that holds of one channel holds of all of them at once.
\<close>

section \<open>Channels next to each other\<close>

inductive chans_step :: "('w side \<times> 'v side) list \<Rightarrow> memory \<times> 'w \<times> 'v \<Rightarrow> memory \<times> 'w \<times> 'v \<Rightarrow> bool" for Cs where
  left: "k < length Cs \<Longrightarrow> side_step (fst (Cs ! k)) (m, w) (m', w') \<Longrightarrow> (\<And>j. j < length Cs \<Longrightarrow> j \<noteq> k \<Longrightarrow> noted (fst (Cs ! j)) w id w') \<Longrightarrow>
    chans_step Cs (m, w, v) (m', w', v)"
| right: "k < length Cs \<Longrightarrow> side_step (snd (Cs ! k)) (m, v) (m', v') \<Longrightarrow> (\<And>j. j < length Cs \<Longrightarrow> j \<noteq> k \<Longrightarrow> noted (snd (Cs ! j)) v id v') \<Longrightarrow>
    chans_step Cs (m, w, v) (m', w, v')"
| elsewhere: "same_except (- (\<Union>(X, Y) \<in> set Cs. chan_area X Y)) m m' \<Longrightarrow>
    (\<And>j. j < length Cs \<Longrightarrow> noted (fst (Cs ! j)) w id w' \<and> noted (snd (Cs ! j)) v id v') \<Longrightarrow> chans_step Cs (m, w, v) (m', w', v')"

definition chans_apart :: "('w side \<times> 'v side) list \<Rightarrow> bool" where
  "chans_apart Cs \<longleftrightarrow> (\<forall>j < length Cs. \<forall>k < length Cs. j \<noteq> k \<longrightarrow>
     own_area (fst (Cs ! k)) \<inter> chan_area (fst (Cs ! j)) (snd (Cs ! j)) = {} \<and> own_area (snd (Cs ! k)) \<inter> chan_area (fst (Cs ! j)) (snd (Cs ! j)) = {})"

lemma noted_refl: "noted X w id w"
  by (simp add: noted_def same_windows_def)

text \<open>A step on some channel is a step of that channel and happens elsewhere for the others.\<close>

lemma chans_step_project:
  assumes ap: "chans_apart Cs" and d: "\<And>j. j < length Cs \<Longrightarrow> duplex (fst (Cs ! j)) (snd (Cs ! j)) \<and> duplex_inv (fst (Cs ! j)) (snd (Cs ! j)) s"
    and st: "chans_step Cs s s'" and j: "j < length Cs"
  shows "duplex_step (fst (Cs ! j)) (snd (Cs ! j)) s s'"
  using st
proof cases
  case (left k m w m' w' v)
  show ?thesis
  proof (cases "j = k")
    case True
    then show ?thesis using left by (auto intro: duplex_step.left)
  next
    case False
    have "same_except (own_area (fst (Cs ! k))) m m'"
      by (rule frame_side [OF conjunct1 [OF d [OF left(3)]] left(4) conjunct2 [OF d [OF left(3)], unfolded left(1)]])
    moreover have "own_area (fst (Cs ! k)) \<subseteq> - chan_area (fst (Cs ! j)) (snd (Cs ! j))" using ap j left(3) False by (auto simp: chans_apart_def)
    ultimately show ?thesis using left(1,2) left(5) [OF j False] by (auto intro!: duplex_step.elsewhere noted_refl elim: same_except_mono)
  qed
next
  case (right k m v m' v' w)
  show ?thesis
  proof (cases "j = k")
    case True
    then show ?thesis using right by (auto intro: duplex_step.right)
  next
    case False
    have "duplex (snd (Cs ! k)) (fst (Cs ! k))" "duplex_inv (snd (Cs ! k)) (fst (Cs ! k)) (m, v, w)"
      using d [OF right(3)] right(1) by (simp_all add: duplex_swap [of "snd (Cs ! k)"] duplex_inv_swap [of "snd (Cs ! k)"])
    from frame_side [OF this(1) right(4) this(2)] have "same_except (own_area (snd (Cs ! k))) m m'" .
    moreover have "own_area (snd (Cs ! k)) \<subseteq> - chan_area (fst (Cs ! j)) (snd (Cs ! j))" using ap j right(3) False by (auto simp: chans_apart_def)
    ultimately show ?thesis using right(1,2) right(5) [OF j False] by (auto intro!: duplex_step.elsewhere noted_refl elim: same_except_mono)
  qed
next
  case (elsewhere m m' w w' v v')
  have "chan_area (fst (Cs ! j)) (snd (Cs ! j)) \<subseteq> (\<Union>(X, Y) \<in> set Cs. chan_area X Y)" using nth_mem [OF j] by fastforce
  then have "same_except (- chan_area (fst (Cs ! j)) (snd (Cs ! j))) m m'" by (intro same_except_mono [OF elsewhere(3)]) blast
  then show ?thesis using elsewhere(1,2) elsewhere(4) [OF j] by (auto intro: duplex_step.elsewhere)
qed

lemma chans_project:
  assumes ap: "chans_apart Cs" and d: "\<And>j. j < length Cs \<Longrightarrow> duplex (fst (Cs ! j)) (snd (Cs ! j)) \<and> duplex_inv (fst (Cs ! j)) (snd (Cs ! j)) s"
    and st: "(chans_step Cs)\<^sup>*\<^sup>* s s'"
  shows "\<forall>j < length Cs. (duplex_step (fst (Cs ! j)) (snd (Cs ! j)))\<^sup>*\<^sup>* s s'"
  using st
proof (induction rule: rtranclp_induct)
  case (step y z)
  have "duplex (fst (Cs ! j)) (snd (Cs ! j)) \<and> duplex_inv (fst (Cs ! j)) (snd (Cs ! j)) y" if "j < length Cs" for j
    using inv_reachable step.IH d [OF that] that by blast
  from chans_step_project [OF ap this step(2)] step.IH show ?case by (meson rtranclp.rtrancl_into_rtrancl)
qed simp

text \<open>What holds of the traffic on every channel.\<close>

lemma chans_traffic:
  assumes ap: "chans_apart Cs" and d: "\<And>j. j < length Cs \<Longrightarrow> duplex (fst (Cs ! j)) (snd (Cs ! j)) \<and> idle_pair (fst (Cs ! j)) (snd (Cs ! j)) s"
    and st: "(chans_step Cs)\<^sup>*\<^sup>* s (m, w, v)" and XY: "(X, Y) \<in> set Cs"
  shows "conserved X Y m w v \<and> conserved Y X m v w \<and> (callback_returns X Y \<longrightarrow> callback_returns Y X \<longrightarrow> serves X Y m w \<and> serves Y X m v)"
proof -
  from XY obtain j where j: "j < length Cs" "Cs ! j = (X, Y)" by (metis in_set_conv_nth)
  have "\<forall>j < length Cs. (duplex_step (fst (Cs ! j)) (snd (Cs ! j)))\<^sup>*\<^sup>* s (m, w, v)"
    by (rule chans_project [OF ap _ st]) (simp add: d idle_inv)
  then have "(duplex_step X Y)\<^sup>*\<^sup>* s (m, w, v)" using j by force
  then show ?thesis using idle_conserves [of X Y s] idle_serves [of X Y s] d [OF j(1)] j(2) by simp
qed

end
