(* ===== verification/Traffic_Start.thy ===== *)
theory Traffic_Start
  imports Start_Props Shm_Channels
begin

text \<open>
  Traffic from power-on: two sides that have started one after the other are an idle pair on each of their
  managed channels, so that everything that holds of the traffic of such a pair holds from the start.
\<close>

section \<open>The sides of a channel after the start\<close>

definition side_of :: "'w platform \<Rightarrow> u8 \<Rightarrow> u8 \<Rightarrow> 'w shm_state \<Rightarrow> u64 \<Rightarrow> ('w \<Rightarrow> port) \<Rightarrow> 'w side" where
  "side_of P i c st l f = \<lparr>sd_plat = P, sd_inst = i, sd_chan = c, sd_drv = st, sd_ch = the (get_channel_priv i c st),
     sd_pv = the (priv_at i st), sd_shm = l, sd_port = f\<rparr>"

lemma side_of_sel [simp]:
  "sd_plat (side_of P i c st l f) = P" "sd_inst (side_of P i c st l f) = i" "sd_chan (side_of P i c st l f) = c"
  "sd_drv (side_of P i c st l f) = st" "sd_shm (side_of P i c st l f) = l" "sd_port (side_of P i c st l f) = f"
  "sd_ch (side_of P i c st l f) = the (get_channel_priv i c st)" "sd_pv (side_of P i c st l f) = the (priv_at i st)"
  by (simp_all add: side_of_def)

lemma drv_at_same: "drv_at (side_of P i c st l f) m (st_env st) = st\<lparr>st_mem := m\<rparr>"
  by (simp add: drv_at_def)

lemma exchange_sides:
  assumes ex: "can_exchange P i c st P' j d st' L R mcf" "can_exchange P' j d st' P i c st R L mcf'"
    and XY: "X = side_of P i c st L f" "Y = side_of P' j d st' R g" and xs: "xs = the (mcfg_pools mcf)"
  shows "end_ok X R (st_mem st) (st_env st)" "linked (sd_mc X) (sd_mc Y)" "pv_shm_size (sd_pv Y) = pv_shm_size (sd_pv X)"
    "tx_bds (st_mem st) (mc_bd_queue (sd_mc X)) = []" "unat (mc_num_pools (sd_mc X)) = length xs" "ch_id (sd_ch X) = c"
    "\<And>k. k < length xs \<Longrightarrow> map bd_buf_id (rx_bds (st_mem st) (pl_bd_queue (mc_pools (sd_mc X) ! k))) = map of_nat [0..<unat (pl_num_bufs (mc_pools (sd_mc X) ! k))]"
    "\<And>k b. is_buf (sd_mc X) k b \<Longrightarrow> in_remote_shm L (pv_shm_size (sd_pv X)) (buf_at (sd_mc X) k b) (pl_buf_size (mc_pools (sd_mc X) ! k)) \<and>
       outside_rings (sd_mc X) (sd_pv X) R (buf_at (sd_mc X) k b) (buf_len (sd_mc X) k) \<and> mapped (st_mem st) (buf_at (sd_mc X) k b) (buf_len (sd_mc X) k)"
proof -
  from ex(1) obtain mc pv ch pv' where e: "sender_ok P i c st mc pv L R" "receiver_ok P' j d st' ch pv' L R" "linked mc (ch_mng ch)"
     "pv_shm_size pv' = pv_shm_size pv" "tx_bds (st_mem st) (mc_bd_queue mc) = []" "unat (mc_num_pools mc) = length xs"
     and pl: "\<And>k. k < length xs \<Longrightarrow> pl_num_bufs (mc_pools mc ! k) = pcfg_num_bufs (xs ! k) \<and>
        rx_bds (st_mem st) (pl_bd_queue (mc_pools mc ! k)) = map (free_bd k) [0..<unat (pcfg_num_bufs (xs ! k))] \<and>
        (\<forall>b. unat b < unat (pcfg_num_bufs (xs ! k)) \<longrightarrow>
            in_remote_shm L (pv_shm_size pv) (buf_at mc k b) (pl_buf_size (mc_pools mc ! k)) \<and>
            outside_rings mc pv R (buf_at mc k b) (buf_len mc k) \<and> mapped (st_mem st) (buf_at mc k b) (buf_len mc k))"
    unfolding can_exchange_def xs Let_def buf_at_def by blast
  from ex(2) obtain mc2 ch2 pv2 where e2: "sender_ok P' j d st' mc2 pv2 R L" "receiver_ok P i c st ch2 pv R L" "ch_id ch2 = c"
    using e(1) unfolding can_exchange_def Let_def by (auto simp: sender_ok_def receiver_ok_def)
  have X: "sd_ch X = ch2" "sd_pv X = pv" "sd_mc X = mc" "drv_at X (st_mem st) (st_env st) = st"
    using e(1) e2(2) by (auto simp: XY sender_ok_def receiver_ok_def chan_usable_def drv_at_def)
  have Y: "sd_ch Y = ch" "sd_pv Y = pv'" using e(2) by (simp_all add: XY receiver_ok_def)
  show "end_ok X R (st_mem st) (st_env st)" using e(1) e2(2) X by (simp add: end_ok_def) (simp add: XY)
  show "linked (sd_mc X) (sd_mc Y)" "pv_shm_size (sd_pv Y) = pv_shm_size (sd_pv X)" "tx_bds (st_mem st) (mc_bd_queue (sd_mc X)) = []"
    "unat (mc_num_pools (sd_mc X)) = length xs" "ch_id (sd_ch X) = c"
    using e(3-6) e2(3) X Y by (simp_all only:)
  show "map bd_buf_id (rx_bds (st_mem st) (pl_bd_queue (mc_pools (sd_mc X) ! k))) = map of_nat [0..<unat (pl_num_bufs (mc_pools (sd_mc X) ! k))]"
    if "k < length xs" for k using pl [OF that] X(3) by (simp add: free_bd_def)
  show "in_remote_shm L (pv_shm_size (sd_pv X)) (buf_at (sd_mc X) k b) (pl_buf_size (mc_pools (sd_mc X) ! k)) \<and>
       outside_rings (sd_mc X) (sd_pv X) R (buf_at (sd_mc X) k b) (buf_len (sd_mc X) k) \<and> mapped (st_mem st) (buf_at (sd_mc X) k b) (buf_len (sd_mc X) k)"
    if "is_buf (sd_mc X) k b" for k b
    using that pl [of k] e(6) unfolding X(2,3) by (simp add: is_buf_def)
qed

text \<open>A buffer inside of a memory that does not wrap around is part of it.\<close>

lemma inside_region:
  assumes "in_remote_shm L sz p n" "unat L + unat sz < 2 ^ 64" "unat p + unat n < 2 ^ 64"
  shows "region p (unat n) \<subseteq> region L (unat sz)"
proof -
  have "unat (p + ucast n) = unat p + unat n" "unat (L + ucast sz) = unat L + unat sz"
    using assms(2,3) by (simp_all add: unat_word_ariths unat_ucast_up)
  then have le: "unat L \<le> unat p" "unat p - unat L + unat n \<le> unat sz" using assms(1) by (auto simp: in_remote_shm_def word_le_nat_alt)
  have "of_nat (unat p - unat L) = p - L" using le(1) by (simp add: of_nat_diff)
  then have "p = L + of_nat (unat p - unat L)" by simp
  then show ?thesis using region_offset [OF le(2), of L] by simp
qed

text \<open>The queues of a channel are large enough for all of its buffers.\<close>

lemma laid_out_sizes:
  assumes "laid_out l r xs mc" "pools_ok xs"
  shows "unat (elem_num (mc_bd_queue mc)) = length (all_bufs mc) + 1"
    "k < length xs \<Longrightarrow> unat (elem_num (pl_bd_queue (mc_pools mc ! k))) = unat (pl_num_bufs (mc_pools mc ! k)) + 1"
proof -
  have "map (length \<circ> pool_bufs mc) [0..<length xs] = map (\<lambda>x. unat (pcfg_num_bufs x)) xs"
    by (rule nth_equalityI) (simp_all add: pool_bufs_def laid_out_bufs(3) [OF assms])
  then have "length (all_bufs mc) = total_bufs xs" using assms(1) by (simp add: all_bufs_def length_concat total_bufs_def laid_out_def del: map_eq_conv)
  then show "unat (elem_num (mc_bd_queue mc)) = length (all_bufs mc) + 1"
    using chan_queue_sel(2) [OF assms(2), of l r] assms(1) by (simp add: laid_out_def)
  show "unat (elem_num (pl_bd_queue (mc_pools mc ! k))) = unat (pl_num_bufs (mc_pools mc ! k)) + 1" if "k < length xs"
  proof -
    have "pool_cfg_ok (xs ! k)" using assms(2) that by (simp add: pools_ok_def list_all_length)
    then show ?thesis using laid_out_pool [OF assms(1) that] pool_num_suc by simp
  qed
qed

lemma up_side:
  assumes up: "inst_up i l r cf st" "cfg_fits cf" and k: "k < length (cfg_chans cf)" "ccfg_type (cfg_chans cf ! k) = IPC_SHM_MANAGED"
    and X: "X = side_of P i (of_nat k) st l f"
  shows "laid_out (chan_addr l cf k) (chan_addr r cf k) (cfg_pools (cfg_chans cf ! k)) (sd_mc X)" "pools_ok (cfg_pools (cfg_chans cf ! k))"
    "pv_shm_size (sd_pv X) = cfg_shm_size cf"
  using managed_at [OF up k] up(1) X by (auto simp: inst_up_def)

lemma side_bufs_inside:
  assumes "pools_apart (sd_mc X)" "is_buf (sd_mc X) k b" "in_remote_shm L (pv_shm_size (sd_pv X)) (buf_at (sd_mc X) k b) (pl_buf_size (mc_pools (sd_mc X) ! k))"
    "unat L + unat (pv_shm_size (sd_pv X)) < 2 ^ 64"
  shows "region (buf_at (sd_mc X) k b) (buf_len (sd_mc X) k) \<subseteq> region L (unat (pv_shm_size (sd_pv X)))"
  by (rule inside_region [OF assms(3,4)]) (use buf_place [OF assms(1,2)] in linarith)

text \<open>Two sides that are up are an idle pair on each of their managed channels.\<close>

lemma up_pair:
  assumes A: "inst_up i l r cf st" "cfg_fits cf" and B: "inst_up j r l cf' st'" "cfg_fits cf'" and sym: "mirrored cf cf'"
    and ar: "area l r (unat (cfg_shm_size cf)) (st_mem st)" and mem: "st_mem st' = st_mem st"
    and k: "k < length (cfg_chans cf)" "ccfg_type (cfg_chans cf ! k) = IPC_SHM_MANAGED"
    and sz: "\<forall>x \<in> set (cfg_pools (cfg_chans cf ! k)). pcfg_buf_size x \<noteq> 0"
    and ex: "can_exchange P i (of_nat k) st P' j (of_nat k) st' l r (ccfg_managed (cfg_chans cf' ! k))"
      "can_exchange P' j (of_nat k) st' P i (of_nat k) st r l (ccfg_managed (cfg_chans cf ! k))"
    and XY: "X = side_of P i (of_nat k) st l f" "Y = side_of P' j (of_nat k) st' r g"
  shows "lane X Y" "end_ok X r (st_mem st) (st_env st)" "f (st_env st) = no_traffic \<Longrightarrow> fresh X (st_mem st) (st_env st)" "ch_id (sd_ch X) = of_nat k"
proof -
  note mi = mirrored_cong [OF sym] and sh = shape_cong [OF mirrored_cong(2) [OF sym k(1)]]
  let ?xs = "cfg_pools (cfg_chans cf ! k)"
  note x = exchange_sides [OF ex XY refl] and y = exchange_sides [OF ex(2,1) XY(2,1) refl]
  note ux = up_side [OF A k XY(1)]
  have uy: "laid_out (chan_addr r cf' k) (chan_addr l cf' k) ?xs (sd_mc Y)" "pv_shm_size (sd_pv Y) = cfg_shm_size cf"
    using up_side [OF B _ _ XY(2)] k mi(1,5) sh(1,5) by simp_all
  have bx: "pl_buf_size (mc_pools (sd_mc X) ! q) \<noteq> 0" "pl_buf_size (mc_pools (sd_mc Y) ! q) \<noteq> 0" if "q < length ?xs" for q
    using laid_out_bufs(4) [OF ux(1,2) that] laid_out_bufs(4) [OF uy(1) ux(2) that] sz that by simp_all
  have n: "unat (mc_num_pools (sd_mc X)) = length ?xs" "unat (mc_num_pools (sd_mc Y)) = length ?xs" using ux(1) uy(1) by (simp_all add: laid_out_def)
  have pa: "pools_apart (sd_mc X)" "pools_apart (sd_mc Y)"
    using end_okD(1) [OF x(1)] end_okD(1) [OF y(1)] bx n by (auto simp: pools_apart_def sender_ok_def)
  have nw: "unat l + unat (cfg_shm_size cf) < 2 ^ 64" "unat r + unat (cfg_shm_size cf) < 2 ^ 64" "apart l (unat (cfg_shm_size cf)) r (unat (cfg_shm_size cf))"
    using ar by (simp_all add: area_def)
  have sep: "apart (buf_at (sd_mc X) q b) (buf_len (sd_mc X) q) (buf_at (sd_mc Y) q' b') (buf_len (sd_mc Y) q')"
    if "is_buf (sd_mc X) q b" "is_buf (sd_mc Y) q' b'" for q b q' b'
    using side_bufs_inside [OF pa(1) that(1) x(8) [OF that(1), THEN conjunct1]] side_bufs_inside [OF pa(2) that(2) y(8) [OF that(2), THEN conjunct1]]
      nw ux(3) uy(2) by (intro apart_sub [OF nw(3)]) simp_all
  have shm: "sd_shm X = l" "sd_shm Y = r" using XY by simp_all
  show "lane X Y"
    unfolding lane_def shm using x(2,3,8) bx(1) laid_out_sizes [OF ux(1,2)] n(1) sep by simp
  show "end_ok X r (st_mem st) (st_env st)" "ch_id (sd_ch X) = of_nat k" using x(1,6) by simp_all
  show "fresh X (st_mem st) (st_env st)" if "f (st_env st) = no_traffic"
    unfolding fresh_def using x(4,5,7,8) that XY(1) by simp
qed

text \<open>What the sides of a channel own lies in the space of the channel, so the channels do not overlap.\<close>

lemma laid_out_own:
  assumes "laid_out l r xs mc" "pools_ok xs" "managed_space xs < 2 ^ 32" "is_buf mc k b"
  shows "region (buf_at mc k b) (buf_len mc k) \<subseteq> region l (managed_space xs)"
proof -
  have k: "k < length xs" "unat b < unat (pcfg_num_bufs (xs ! k))"
    using assms(1,4) laid_out_bufs(3) [OF assms(1,2), of k] by (auto simp: is_buf_def laid_out_def)
  note at = laid_out_at [OF assms(1,2) k assms(3)]
  have "buf_at mc k b = l + of_nat (bufs_off xs k + unat b * unat (pcfg_buf_size (xs ! k)))" using at(1) by (simp only: buf_at_def)
  then show ?thesis unfolding laid_out_bufs(4) [OF assms(1,2) k(1)] using region_offset [OF at(3), of l] by simp
qed

lemma own_in_chan:
  assumes up: "inst_up i l r cf st" "cfg_fits cf" and k: "k < length (cfg_chans cf)" "ccfg_type (cfg_chans cf ! k) = IPC_SHM_MANAGED"
  shows "own_area (side_of P i (of_nat k) st l f) \<subseteq> region (chan_addr l cf k) (chan_space (cfg_chans cf ! k))"
proof -
  let ?X = "side_of P i (of_nat k) st l f" and ?xs = "cfg_pools (cfg_chans cf ! k)"
  note u = up_side [where X = ?X and P = P and f = f, OF up k refl]
  have sp: "chan_space (cfg_chans cf ! k) = managed_space ?xs" using managed_at [OF up k] by blast
  have "inst_space cf \<le> unat (cfg_shm_size cf)" using up(2) by (simp add: cfg_fits_def inst_space_def)
  then have lt: "managed_space ?xs < 2 ^ 32"
    using chan_off_le [OF k(1)] sp unat_less [of "cfg_shm_size cf"] by (simp add: inst_space_def)
  show ?thesis
    unfolding own_area_def sp using ring_in_chan(1) [OF u(1,2)] laid_out_own [OF u(1,2) lt] by blast
qed

lemma chan_off_next: "i < j \<Longrightarrow> j < length cs \<Longrightarrow> chan_off cs i + chan_space (cs ! i) \<le> chan_off cs j"
proof (induction cs arbitrary: i j)
  case (Cons x xs)
  then show ?case by (cases i; cases j) auto
qed simp

lemma chan_regions_apart:
  assumes ar: "area l r n m" "inst_space cf \<le> n" and jk: "j < length (cfg_chans cf)" "k < length (cfg_chans cf)" "j \<noteq> k"
  shows "region (chan_addr l cf k) (chan_space (cfg_chans cf ! k)) \<inter>
    (region l 8 \<union> region r 8 \<union> region (chan_addr l cf j) (chan_space (cfg_chans cf ! j)) \<union> region (chan_addr r cf j) (chan_space (cfg_chans cf ! j))) = {}"
proof -
  let ?o = "\<lambda>k. 8 + chan_off (cfg_chans cf) k" and ?s = "\<lambda>k. chan_space (cfg_chans cf ! k)"
  have le: "?o k + ?s k \<le> n" if "k < length (cfg_chans cf)" for k using chan_off_le [OF that] ar(2) by (simp add: inst_space_def)
  have "n < 2 ^ 64" using ar(1) by (simp add: area_def)
  moreover have "?o j + ?s j \<le> ?o k \<or> ?o k + ?s k \<le> ?o j"
    using jk chan_off_next [of j k "cfg_chans cf"] chan_off_next [of k j "cfg_chans cf"] by linarith
  ultimately have "apart (l + of_nat (?o k)) (?s k) (l + of_nat (?o j)) (?s j)"
    using le [OF jk(1)] le [OF jk(2)] by (intro apart_offsets) linarith+
  moreover have "region (r + of_nat (?o j)) (?s j) \<inter> region (l + of_nat (?o k)) (?s k) = {}"
    by (rule area_cross [OF ar(1) le [OF jk(1)] le [OF jk(2)]])
  ultimately show ?thesis
    using chan_addr_area(2) [OF ar jk(2)] chan_addr_area(3) [OF ar(1) [unfolded area_swap [of l]] ar(2) jk(2)]
    by (simp add: apart_def add.assoc) blast
qed

section \<open>Starting both sides\<close>

definition managed_chans :: "ipc_shm_cfg \<Rightarrow> nat list" where
  "managed_chans cf = filter (\<lambda>k. ccfg_type (cfg_chans cf ! k) = IPC_SHM_MANAGED) [0..<length (cfg_chans cf)]"

text \<open>The sides of all managed channels; each channel has its own notes.\<close>

definition both_sides :: "'w platform \<Rightarrow> u8 \<Rightarrow> 'w shm_state \<Rightarrow> u64 \<Rightarrow> (nat \<Rightarrow> 'w \<Rightarrow> port) \<Rightarrow>
    'v platform \<Rightarrow> u8 \<Rightarrow> 'v shm_state \<Rightarrow> u64 \<Rightarrow> (nat \<Rightarrow> 'v \<Rightarrow> port) \<Rightarrow> ipc_shm_cfg \<Rightarrow> ('w side \<times> 'v side) list" where
  "both_sides P i st l f P' j st' r g cf =
     map (\<lambda>k. (side_of P i (of_nat k) st l (f k), side_of P' j (of_nat k) st' r (g k))) (managed_chans cf)"

lemma up_apart:
  assumes A: "inst_up i l r cf st" "cfg_fits cf" and B: "inst_up j r l cf' st'" "cfg_fits cf'" and sym: "mirrored cf cf'"
    and ar: "area l r (unat (cfg_shm_size cf)) m"
  shows "chans_apart (both_sides P i st l f P' j st' r g cf)"
  unfolding chans_apart_def
proof (intro allI impI)
  let ?Cs = "both_sides P i st l f P' j st' r g cf" and ?K = "managed_chans cf"
  fix a b assume ab: "a < length ?Cs" "b < length ?Cs" "a \<noteq> b"
  have d: "distinct ?K" by (simp add: managed_chans_def)
  have len: "length ?Cs = length ?K" by (simp add: both_sides_def)
  have K: "?K ! c < length (cfg_chans cf)" "ccfg_type (cfg_chans cf ! (?K ! c)) = IPC_SHM_MANAGED" if "c < length ?Cs" for c
    using nth_mem [of c ?K] that len by (auto simp: managed_chans_def)
  have ne: "?K ! a \<noteq> ?K ! b" using d ab len by (simp add: nth_eq_iff_index_eq)
  note mi = mirrored_cong [OF sym]
  have own: "own_area (fst (?Cs ! c)) \<subseteq> region (chan_addr l cf (?K ! c)) (chan_space (cfg_chans cf ! (?K ! c)))"
    "own_area (snd (?Cs ! c)) \<subseteq> region (chan_addr r cf (?K ! c)) (chan_space (cfg_chans cf ! (?K ! c)))" if c: "c < length ?Cs" for c
    using own_in_chan [OF A K [OF c]] own_in_chan [OF B, of "?K ! c"] K [OF c] mi(1,3) shape_cong(1,2) [OF mi(2) [OF K(1) [OF c]]] c len
    by (simp_all add: both_sides_def)
  have shm: "sd_shm (fst (?Cs ! a)) = l" "sd_shm (snd (?Cs ! a)) = r" using ab(1) len by (simp_all add: both_sides_def)
  have sp: "inst_space cf \<le> unat (cfg_shm_size cf)" using A(2) by (simp add: cfg_fits_def inst_space_def)
  note ap = chan_regions_apart [OF ar sp K(1) [OF ab(1)] K(1) [OF ab(2)] ne]
    chan_regions_apart [OF ar [unfolded area_swap [of l]] sp K(1) [OF ab(1)] K(1) [OF ab(2)] ne]
  show "own_area (fst (?Cs ! b)) \<inter> chan_area (fst (?Cs ! a)) (snd (?Cs ! a)) = {} \<and> own_area (snd (?Cs ! b)) \<inter> chan_area (fst (?Cs ! a)) (snd (?Cs ! a)) = {}"
    unfolding chan_area_def shm using own [OF ab(1)] own [OF ab(2)] ap by blast
qed

lemma start_pairs:
  assumes fits: "cfg_fits cf" "cfg_fits cf'" "mirrored cf cf'"
    and A: "unused i st" "layers_start P i cf (st_mem st) (st_env st) l r m w"
    and B: "unused j st'" "\<And>m'. same_except (region l (inst_space cf)) m m' \<Longrightarrow> layers_start P' j cf' m' (st_env st') r l m' w'"
    and mem: "area l r (unat (cfg_shm_size cf)) m" "zeroed m r (inst_space cf)"
    and sz: "\<forall>k \<in> set (managed_chans cf). \<forall>x \<in> set (cfg_pools (cfg_chans cf ! k)). pcfg_buf_size x \<noteq> 0"
    and pt: "\<forall>k. f k w = no_traffic \<and> g k w' = no_traffic"
  shows "\<exists>sA sB Cs. ipc_shm_init_instance P i (Some cf) st = Some (0, sA) \<and>
     ipc_shm_init_instance P' j (Some cf') (st'\<lparr>st_mem := st_mem sA\<rparr>) = Some (0, sB) \<and>
     Cs = both_sides P i (sA\<lparr>st_mem := st_mem sB\<rparr>) l f P' j sB r g cf \<and> chans_apart Cs \<and>
     (\<forall>(X, Y) \<in> set Cs. ch_id (sd_ch X) = sd_chan X \<and> ch_id (sd_ch Y) = sd_chan Y \<and> lane X Y \<and> lane Y X \<and> idle_pair X Y (st_mem sB, w, w'))"
proof -
  from both_start [OF fits A B mem] obtain sA sB where s: "ipc_shm_init_instance P i (Some cf) st = Some (0, sA)"
     "ipc_shm_init_instance P' j (Some cf') (st'\<lparr>st_mem := st_mem sA\<rparr>) = Some (0, sB)" "st_env sA = w" "st_env sB = w'"
     and up: "inst_up i l r cf (sA\<lparr>st_mem := st_mem sB\<rparr>)" "inst_up j r l cf' sB" and ar: "area l r (unat (cfg_shm_size cf)) (st_mem sB)"
     and ex: "\<forall>k < length (cfg_chans cf). ccfg_type (cfg_chans cf ! k) = IPC_SHM_MANAGED \<longrightarrow>
        can_exchange P i (of_nat k) (sA\<lparr>st_mem := st_mem sB\<rparr>) P' j (of_nat k) sB l r (ccfg_managed (cfg_chans cf' ! k)) \<and>
        can_exchange P' j (of_nat k) sB P i (of_nat k) (sA\<lparr>st_mem := st_mem sB\<rparr>) r l (ccfg_managed (cfg_chans cf ! k))"
    by blast
  let ?Cs = "both_sides P i (sA\<lparr>st_mem := st_mem sB\<rparr>) l f P' j sB r g cf"
  note mi = mirrored_cong [OF fits(3)]
  have ar': "area r l (unat (cfg_shm_size cf')) (st_mem sB)" using ar mi(5) by (simp add: area_swap [of r])
  have "ch_id (sd_ch X) = sd_chan X \<and> ch_id (sd_ch Y) = sd_chan Y \<and> lane X Y \<and> lane Y X \<and> idle_pair X Y (st_mem sB, w, w')" if XYC: "(X, Y) \<in> set ?Cs" for X Y
  proof -
    from XYC obtain k where k: "k \<in> set (managed_chans cf)"
      and XY: "X = side_of P i (of_nat k) (sA\<lparr>st_mem := st_mem sB\<rparr>) l (f k)" "Y = side_of P' j (of_nat k) sB r (g k)" by (auto simp: both_sides_def)
    have k1: "k < length (cfg_chans cf)" "ccfg_type (cfg_chans cf ! k) = IPC_SHM_MANAGED" "\<forall>x \<in> set (cfg_pools (cfg_chans cf ! k)). pcfg_buf_size x \<noteq> 0"
      using k sz by (auto simp: managed_chans_def)
    note sh = shape_cong [OF mi(2) [OF k1(1)]]
    have k2: "k < length (cfg_chans cf')" "ccfg_type (cfg_chans cf' ! k) = IPC_SHM_MANAGED" "\<forall>x \<in> set (cfg_pools (cfg_chans cf' ! k)). pcfg_buf_size x \<noteq> 0"
      using k1 mi(1) sh(1,5) by simp_all
    note e = ex [rule_format, OF k1(1,2)]
    show ?thesis
      using up_pair [OF up(1) fits(1) up(2) fits(2,3) _ _ k1 conjunct1 [OF e] conjunct2 [OF e] XY]
        up_pair [OF up(2) fits(2) up(1) fits(1) mi(6) ar' _ k2 conjunct2 [OF e] conjunct1 [OF e] XY(2,1)] ar s(3,4) pt XY
      by (simp add: idle_pair_def)
  qed
  moreover have "chans_apart ?Cs" by (rule up_apart [OF up(1) fits(1) up(2) fits(2,3) ar])
  ultimately show ?thesis using s(1,2) by (intro exI [of _ sA] exI [of _ sB] exI [of _ ?Cs]) auto
qed

section \<open>Properties\<close>

text \<open>
  C6. Traffic from power-on. Two sides with mirrored configurations whose buffers are not empty, never used
  before, start one after the other on memory that is clear where the first one looks for its peer. Both calls
  of \<open>ipc_shm_init_instance\<close> return 0. From then on, on all managed channels at once, whatever the two
  applications do within their rights and however their calls on the channels interleave: no buffer is lost or in two
  hands, every message is delivered exactly once, on its channel, in order and intact, and, as long as the
  callbacks return, no call of the driver fails for lack of space, in either direction.
\<close>

theorem traffic_from_start:
  assumes "cfg_fits cf" "cfg_fits cf'" "mirrored cf cf'"
    and "unused i st" "layers_start P i cf (st_mem st) (st_env st) l r m w"
    and "unused j st'" "\<And>m'. same_except (region l (inst_space cf)) m m' \<Longrightarrow> layers_start P' j cf' m' (st_env st') r l m' w'"
    and "area l r (unat (cfg_shm_size cf)) m" "zeroed m r (inst_space cf)"
    and "\<forall>k \<in> set (managed_chans cf). \<forall>x \<in> set (cfg_pools (cfg_chans cf ! k)). pcfg_buf_size x \<noteq> 0"
    and "\<forall>k. f k w = no_traffic \<and> g k w' = no_traffic"
  shows "\<exists>sA sB Cs. ipc_shm_init_instance P i (Some cf) st = Some (0, sA) \<and>
     ipc_shm_init_instance P' j (Some cf') (st'\<lparr>st_mem := st_mem sA\<rparr>) = Some (0, sB) \<and>
     Cs = both_sides P i (sA\<lparr>st_mem := st_mem sB\<rparr>) l f P' j sB r g cf \<and>
     (\<forall>(X, Y) \<in> set Cs. ch_id (sd_ch X) = sd_chan X \<and> ch_id (sd_ch Y) = sd_chan Y \<and> lane X Y \<and> lane Y X) \<and>
     ((\<forall>(X, Y) \<in> set Cs. callback_ok X \<and> callback_ok Y \<and> notify_ok X \<and> notify_ok Y) \<longrightarrow>
       (\<forall>m2 w2 v2. (chans_step Cs)\<^sup>*\<^sup>* (st_mem sB, w, w') (m2, w2, v2) \<longrightarrow>
         (\<forall>(X, Y) \<in> set Cs. conserved X Y m2 w2 v2 \<and> conserved Y X m2 v2 w2 \<and>
            (callback_returns X Y \<longrightarrow> callback_returns Y X \<longrightarrow> serves X Y m2 w2 \<and> serves Y X m2 v2))))"
proof -
  obtain sA sB Cs where s: "ipc_shm_init_instance P i (Some cf) st = Some (0, sA)" "ipc_shm_init_instance P' j (Some cf') (st'\<lparr>st_mem := st_mem sA\<rparr>) = Some (0, sB)"
     "Cs = both_sides P i (sA\<lparr>st_mem := st_mem sB\<rparr>) l f P' j sB r g cf" and ap: "chans_apart Cs"
     and pr: "\<forall>(X, Y) \<in> set Cs. ch_id (sd_ch X) = sd_chan X \<and> ch_id (sd_ch Y) = sd_chan Y \<and> lane X Y \<and> lane Y X \<and> idle_pair X Y (st_mem sB, w, w')"
    using start_pairs [where f = f and g = g, OF assms(1-6) _ assms(8-11)] assms(7) by blast
  have "\<forall>(X, Y) \<in> set Cs. conserved X Y m2 w2 v2 \<and> conserved Y X m2 v2 w2 \<and> (callback_returns X Y \<longrightarrow> callback_returns Y X \<longrightarrow> serves X Y m2 w2 \<and> serves Y X m2 v2)"
    if cb: "\<forall>(X, Y) \<in> set Cs. callback_ok X \<and> callback_ok Y \<and> notify_ok X \<and> notify_ok Y" and run: "(chans_step Cs)\<^sup>*\<^sup>* (st_mem sB, w, w') (m2, w2, v2)" for m2 w2 v2
  proof -
    have "duplex (fst (Cs ! k)) (snd (Cs ! k)) \<and> idle_pair (fst (Cs ! k)) (snd (Cs ! k)) (st_mem sB, w, w')" if "k < length Cs" for k
    proof -
      obtain X Y where e: "Cs ! k = (X, Y)" by (cases "Cs ! k")
      then have XY: "(X, Y) \<in> set Cs" using nth_mem [OF that] by simp
      from bspec [OF cb XY] bspec [OF pr XY] show ?thesis by (simp add: e duplex_def)
    qed
    from chans_traffic [OF ap this run] show ?thesis by blast
  qed
  moreover have "\<forall>(X, Y) \<in> set Cs. ch_id (sd_ch X) = sd_chan X \<and> ch_id (sd_ch Y) = sd_chan Y \<and> lane X Y \<and> lane Y X" using pr by auto
  ultimately show ?thesis by (intro exI [of _ sA] exI [of _ sB] exI [of _ Cs] conjI [OF s(1)] conjI [OF s(2)] conjI [OF s(3)]) simp
qed

definition xen_port_state :: "ports shm_state" where
  "xen_port_state = \<lparr>st_mem = zero_ram 0x84500000 0x84520000, st_priv = replicate 4 no_priv, st_env = quiet\<rparr>"

lemma xen_port_unused: "unused 0 xen_port_state"
  by (simp add: unused_def alloc_def priv_at_def xen_port_state_def nth_opt_def no_priv_def no_chan_def limit_defs)

lemma echo_layers: "layers_start (echo_platform l r) i cf m w l r m w"
  by (simp add: layers_start_def echo_platform_def)

lemma xen_managed: "managed_chans dom0_cfg = [1, 2]"
  "\<forall>k \<in> set (managed_chans dom0_cfg). \<forall>x \<in> set (cfg_pools (cfg_chans dom0_cfg ! k)). pcfg_buf_size x \<noteq> 0"
  by (simp_all add: managed_chans_def upt_rec, simp_all add: dom0_cfg_def cfg_defs cfg_chans_def)

theorem traffic_from_start_witness:
  "\<exists>sA sB Cs. ipc_shm_init_instance (echo_platform 0x84500000 0x84510000) 0 (Some dom0_cfg) xen_port_state = Some (0, sA) \<and>
     ipc_shm_init_instance (echo_platform 0x84510000 0x84500000) 0 (Some dom0less_cfg) (xen_port_state\<lparr>st_mem := st_mem sA\<rparr>) = Some (0, sB) \<and>
     length Cs = 2 \<and>
     (\<forall>(X, Y) \<in> set Cs. conserved X Y (st_mem sB) quiet quiet \<and> conserved Y X (st_mem sB) quiet quiet \<and>
        serves X Y (st_mem sB) quiet \<and> serves Y X (st_mem sB) quiet)"
proof -
  let ?P = "echo_platform 0x84500000 0x84510000" and ?Q = "echo_platform 0x84510000 0x84500000" and ?f = "\<lambda>k w. w (of_nat k) :: port"
  have mem: "st_mem xen_port_state = st_mem xen_state" "st_env xen_port_state = quiet" by (simp_all add: xen_port_state_def xen_state_def)
  have lay: "layers_start ?P 0 dom0_cfg (st_mem xen_port_state) (st_env xen_port_state) 0x84500000 0x84510000 (st_mem xen_state) quiet"
    "layers_start ?Q 0 dom0less_cfg m (st_env xen_port_state) 0x84510000 0x84500000 m quiet" for m
    unfolding mem by (rule echo_layers)+
  have pt: "\<forall>k. ?f k quiet = no_traffic \<and> ?f k quiet = no_traffic" by simp
  obtain sA sB Cs where s: "ipc_shm_init_instance ?P 0 (Some dom0_cfg) xen_port_state = Some (0, sA)"
     "ipc_shm_init_instance ?Q 0 (Some dom0less_cfg) (xen_port_state\<lparr>st_mem := st_mem sA\<rparr>) = Some (0, sB)"
    and Cs: "Cs = both_sides ?P 0 (sA\<lparr>st_mem := st_mem sB\<rparr>) 0x84500000 ?f ?Q 0 sB 0x84510000 ?f dom0_cfg"
    and id: "\<forall>(X, Y) \<in> set Cs. ch_id (sd_ch X) = sd_chan X \<and> ch_id (sd_ch Y) = sd_chan Y \<and> lane X Y \<and> lane Y X"
    and pr: "(\<forall>(X, Y) \<in> set Cs. callback_ok X \<and> callback_ok Y \<and> notify_ok X \<and> notify_ok Y) \<longrightarrow>
       (\<forall>m2 w2 v2. (chans_step Cs)\<^sup>*\<^sup>* (st_mem sB, quiet, quiet) (m2, w2, v2) \<longrightarrow>
         (\<forall>(X, Y) \<in> set Cs. conserved X Y m2 w2 v2 \<and> conserved Y X m2 v2 w2 \<and>
            (callback_returns X Y \<longrightarrow> callback_returns Y X \<longrightarrow> serves X Y m2 w2 \<and> serves Y X m2 v2)))"
    using traffic_from_start [where f = ?f and g = ?f, OF xen_fits xen_port_unused lay(1) xen_port_unused lay(2) xen_area xen_zeroed xen_managed(2) pt]
    by (elim exE conjE)
  have cb: "callback_ok X \<and> callback_ok Y \<and> notify_ok X \<and> notify_ok Y \<and> callback_returns X Y \<and> callback_returns Y X" if XY: "(X, Y) \<in> set Cs" for X Y
  proof -
    have X: "sd_plat X = ?P" "sd_port X = (\<lambda>w. w (sd_chan X))" "ch_id (sd_ch X) = sd_chan X" and Y: "sd_plat Y = ?Q" "sd_port Y = (\<lambda>w. w (sd_chan Y))" "ch_id (sd_ch Y) = sd_chan Y"
      and ln: "lane X Y" "lane Y X" using XY Cs id by (auto simp: both_sides_def)
    have d: "duplex X Y" "duplex Y X" using ln echo_callback(1,2) [OF X] echo_callback(1,2) [OF Y] by (simp_all add: duplex_def)
    show ?thesis using echo_callback(1,2) [OF X] echo_callback(1,2) [OF Y] echo_callback(3) [OF X d(1)] echo_callback(3) [OF Y d(2)] by simp
  qed
  then have "\<forall>(X, Y) \<in> set Cs. conserved X Y (st_mem sB) quiet quiet \<and> conserved Y X (st_mem sB) quiet quiet \<and>
        serves X Y (st_mem sB) quiet \<and> serves Y X (st_mem sB) quiet" using pr by fastforce
  moreover have "length Cs = 2" using Cs xen_managed(1) by (simp add: both_sides_def)
  ultimately show ?thesis using s by blast
qed

end
