(* ===== verification/Sample_Multi_Cfg.thy ===== *)
theory Sample_Multi_Cfg
  imports Sample_Cfg
begin

text \<open>
  The configurations of the multi-instance samples, in the kernel and in user space: three instances with
  three channels each per file. The conventions are those of \<open>Sample_Cfg\<close>.
\<close>

unbundle bit_operations_syntax

section \<open>\<open>src/sample_multi_instance/ipcf_Ip_Cfg_s32g2.c\<close>\<close>

definition ipcf_shm_cfg_buf_pools0_1_multi_s32g2 :: "ipc_shm_pool_cfg list" where
  "ipcf_shm_cfg_buf_pools0_1_multi_s32g2 = [
     \<lparr>pcfg_num_bufs = 5, pcfg_buf_size = 32\<rparr>,
     \<lparr>pcfg_num_bufs = 5, pcfg_buf_size = 256\<rparr>,
     \<lparr>pcfg_num_bufs = 5, pcfg_buf_size = 4096\<rparr>]"

definition ipcf_shm_cfg_buf_pools0_2_multi_s32g2 :: "ipc_shm_pool_cfg list" where
  "ipcf_shm_cfg_buf_pools0_2_multi_s32g2 = [
     \<lparr>pcfg_num_bufs = 5, pcfg_buf_size = 32\<rparr>,
     \<lparr>pcfg_num_bufs = 5, pcfg_buf_size = 256\<rparr>,
     \<lparr>pcfg_num_bufs = 5, pcfg_buf_size = 4096\<rparr>]"

definition ipcf_shm_cfg_channels0_multi_s32g2 :: "cfg_symbols \<Rightarrow> ipc_shm_channel_cfg list" where
  "ipcf_shm_cfg_channels0_multi_s32g2 s = [
     \<lparr>ccfg_type = IPC_SHM_UNMANAGED, ccfg_managed = no_managed_cfg,
      ccfg_unmanaged = \<lparr>ucfg_size = 64, ucfg_rx_cb = ctrl_chan_rx_cb_ptr s, ucfg_cb_arg = rx_cb_arg_ptr s\<rparr>\<rparr>,
     \<lparr>ccfg_type = IPC_SHM_MANAGED, ccfg_managed = \<lparr>mcfg_num_pools = 3, mcfg_pools = Some ipcf_shm_cfg_buf_pools0_1_multi_s32g2,
      mcfg_rx_cb = data_chan_rx_cb_ptr s, mcfg_cb_arg = rx_cb_arg_ptr s\<rparr>, ccfg_unmanaged = no_unmanaged_cfg\<rparr>,
     \<lparr>ccfg_type = IPC_SHM_MANAGED, ccfg_managed = \<lparr>mcfg_num_pools = 3, mcfg_pools = Some ipcf_shm_cfg_buf_pools0_2_multi_s32g2,
      mcfg_rx_cb = data_chan_rx_cb_ptr s, mcfg_cb_arg = rx_cb_arg_ptr s\<rparr>, ccfg_unmanaged = no_unmanaged_cfg\<rparr>]"

definition ipcf_shm_cfg_buf_pools1_1_multi_s32g2 :: "ipc_shm_pool_cfg list" where
  "ipcf_shm_cfg_buf_pools1_1_multi_s32g2 = [
     \<lparr>pcfg_num_bufs = 5, pcfg_buf_size = 32\<rparr>,
     \<lparr>pcfg_num_bufs = 5, pcfg_buf_size = 256\<rparr>,
     \<lparr>pcfg_num_bufs = 5, pcfg_buf_size = 4096\<rparr>]"

definition ipcf_shm_cfg_buf_pools1_2_multi_s32g2 :: "ipc_shm_pool_cfg list" where
  "ipcf_shm_cfg_buf_pools1_2_multi_s32g2 = [
     \<lparr>pcfg_num_bufs = 5, pcfg_buf_size = 32\<rparr>,
     \<lparr>pcfg_num_bufs = 5, pcfg_buf_size = 256\<rparr>,
     \<lparr>pcfg_num_bufs = 5, pcfg_buf_size = 4096\<rparr>]"

definition ipcf_shm_cfg_channels1_multi_s32g2 :: "cfg_symbols \<Rightarrow> ipc_shm_channel_cfg list" where
  "ipcf_shm_cfg_channels1_multi_s32g2 s = [
     \<lparr>ccfg_type = IPC_SHM_UNMANAGED, ccfg_managed = no_managed_cfg,
      ccfg_unmanaged = \<lparr>ucfg_size = 64, ucfg_rx_cb = ctrl_chan_rx_cb_ptr s, ucfg_cb_arg = rx_cb_arg_ptr s\<rparr>\<rparr>,
     \<lparr>ccfg_type = IPC_SHM_MANAGED, ccfg_managed = \<lparr>mcfg_num_pools = 3, mcfg_pools = Some ipcf_shm_cfg_buf_pools1_1_multi_s32g2,
      mcfg_rx_cb = data_chan_rx_cb_ptr s, mcfg_cb_arg = rx_cb_arg_ptr s\<rparr>, ccfg_unmanaged = no_unmanaged_cfg\<rparr>,
     \<lparr>ccfg_type = IPC_SHM_MANAGED, ccfg_managed = \<lparr>mcfg_num_pools = 3, mcfg_pools = Some ipcf_shm_cfg_buf_pools1_2_multi_s32g2,
      mcfg_rx_cb = data_chan_rx_cb_ptr s, mcfg_cb_arg = rx_cb_arg_ptr s\<rparr>, ccfg_unmanaged = no_unmanaged_cfg\<rparr>]"

definition ipcf_shm_cfg_buf_pools2_1_multi_s32g2 :: "ipc_shm_pool_cfg list" where
  "ipcf_shm_cfg_buf_pools2_1_multi_s32g2 = [
     \<lparr>pcfg_num_bufs = 5, pcfg_buf_size = 32\<rparr>,
     \<lparr>pcfg_num_bufs = 5, pcfg_buf_size = 256\<rparr>,
     \<lparr>pcfg_num_bufs = 5, pcfg_buf_size = 4096\<rparr>]"

definition ipcf_shm_cfg_buf_pools2_2_multi_s32g2 :: "ipc_shm_pool_cfg list" where
  "ipcf_shm_cfg_buf_pools2_2_multi_s32g2 = [
     \<lparr>pcfg_num_bufs = 5, pcfg_buf_size = 32\<rparr>,
     \<lparr>pcfg_num_bufs = 5, pcfg_buf_size = 256\<rparr>,
     \<lparr>pcfg_num_bufs = 5, pcfg_buf_size = 4096\<rparr>]"

definition ipcf_shm_cfg_channels2_multi_s32g2 :: "cfg_symbols \<Rightarrow> ipc_shm_channel_cfg list" where
  "ipcf_shm_cfg_channels2_multi_s32g2 s = [
     \<lparr>ccfg_type = IPC_SHM_UNMANAGED, ccfg_managed = no_managed_cfg,
      ccfg_unmanaged = \<lparr>ucfg_size = 64, ucfg_rx_cb = ctrl_chan_rx_cb_ptr s, ucfg_cb_arg = rx_cb_arg_ptr s\<rparr>\<rparr>,
     \<lparr>ccfg_type = IPC_SHM_MANAGED, ccfg_managed = \<lparr>mcfg_num_pools = 3, mcfg_pools = Some ipcf_shm_cfg_buf_pools2_1_multi_s32g2,
      mcfg_rx_cb = data_chan_rx_cb_ptr s, mcfg_cb_arg = rx_cb_arg_ptr s\<rparr>, ccfg_unmanaged = no_unmanaged_cfg\<rparr>,
     \<lparr>ccfg_type = IPC_SHM_MANAGED, ccfg_managed = \<lparr>mcfg_num_pools = 3, mcfg_pools = Some ipcf_shm_cfg_buf_pools2_2_multi_s32g2,
      mcfg_rx_cb = data_chan_rx_cb_ptr s, mcfg_cb_arg = rx_cb_arg_ptr s\<rparr>, ccfg_unmanaged = no_unmanaged_cfg\<rparr>]"

definition ipcf_shm_cfg_instances_multi_s32g2 :: "cfg_symbols \<Rightarrow> ipc_shm_cfg list" where
  "ipcf_shm_cfg_instances_multi_s32g2 s = [
     \<lparr>cfg_local_shm_addr = 0x34100000, cfg_remote_shm_addr = 0x34200000, cfg_shm_size = 0x10000,
      cfg_inter_core_tx_irq = 2, cfg_inter_core_rx_irq = 1,
      cfg_local_core = \<lparr>lcore_type = IPC_CORE_DEFAULT, lcore_index = IPC_CORE_INDEX_0,
        lcore_trusted = core_mask IPC_CORE_INDEX_0 OR core_mask IPC_CORE_INDEX_1 OR core_mask IPC_CORE_INDEX_2 OR core_mask IPC_CORE_INDEX_3\<rparr>,
      cfg_remote_core = \<lparr>rcore_type = IPC_CORE_M7, rcore_index = IPC_CORE_INDEX_0\<rparr>,
      cfg_num_channels = 3, cfg_channels = Some (ipcf_shm_cfg_channels0_multi_s32g2 s)\<rparr>,
     \<lparr>cfg_local_shm_addr = 0x34080000, cfg_remote_shm_addr = 0x340C0000, cfg_shm_size = 0x10000,
      cfg_inter_core_tx_irq = IPC_IRQ_NONE, cfg_inter_core_rx_irq = 0,
      cfg_local_core = \<lparr>lcore_type = IPC_CORE_DEFAULT, lcore_index = IPC_CORE_INDEX_0,
        lcore_trusted = core_mask IPC_CORE_INDEX_0 OR core_mask IPC_CORE_INDEX_1 OR core_mask IPC_CORE_INDEX_2 OR core_mask IPC_CORE_INDEX_3\<rparr>,
      cfg_remote_core = \<lparr>rcore_type = IPC_CORE_M7, rcore_index = IPC_CORE_INDEX_1\<rparr>,
      cfg_num_channels = 3, cfg_channels = Some (ipcf_shm_cfg_channels1_multi_s32g2 s)\<rparr>,
     \<lparr>cfg_local_shm_addr = 0x34090000, cfg_remote_shm_addr = 0x340D0000, cfg_shm_size = 0x10000,
      cfg_inter_core_tx_irq = IPC_IRQ_NONE, cfg_inter_core_rx_irq = IPC_IRQ_NONE,
      cfg_local_core = \<lparr>lcore_type = IPC_CORE_DEFAULT, lcore_index = IPC_CORE_INDEX_0,
        lcore_trusted = core_mask IPC_CORE_INDEX_0 OR core_mask IPC_CORE_INDEX_1 OR core_mask IPC_CORE_INDEX_2 OR core_mask IPC_CORE_INDEX_3\<rparr>,
      cfg_remote_core = \<lparr>rcore_type = IPC_CORE_M7, rcore_index = IPC_CORE_INDEX_2\<rparr>,
      cfg_num_channels = 3, cfg_channels = Some (ipcf_shm_cfg_channels2_multi_s32g2 s)\<rparr>]"

definition ipcf_shm_instances_cfg_multi_s32g2 :: "cfg_symbols \<Rightarrow> ipc_shm_instances_cfg" where
  "ipcf_shm_instances_cfg_multi_s32g2 s = \<lparr>icfg_num_instances = 3, icfg_shm_cfg = Some (ipcf_shm_cfg_instances_multi_s32g2 s)\<rparr>"

section \<open>\<open>src/sample_multi_instance/ipcf_Ip_Cfg_s32g3.c\<close>\<close>

definition ipcf_shm_cfg_buf_pools0_1_multi_s32g3 :: "ipc_shm_pool_cfg list" where
  "ipcf_shm_cfg_buf_pools0_1_multi_s32g3 = [
     \<lparr>pcfg_num_bufs = 5, pcfg_buf_size = 32\<rparr>,
     \<lparr>pcfg_num_bufs = 5, pcfg_buf_size = 256\<rparr>,
     \<lparr>pcfg_num_bufs = 5, pcfg_buf_size = 4096\<rparr>]"

definition ipcf_shm_cfg_buf_pools0_2_multi_s32g3 :: "ipc_shm_pool_cfg list" where
  "ipcf_shm_cfg_buf_pools0_2_multi_s32g3 = [
     \<lparr>pcfg_num_bufs = 5, pcfg_buf_size = 32\<rparr>,
     \<lparr>pcfg_num_bufs = 5, pcfg_buf_size = 256\<rparr>,
     \<lparr>pcfg_num_bufs = 5, pcfg_buf_size = 4096\<rparr>]"

definition ipcf_shm_cfg_channels0_multi_s32g3 :: "cfg_symbols \<Rightarrow> ipc_shm_channel_cfg list" where
  "ipcf_shm_cfg_channels0_multi_s32g3 s = [
     \<lparr>ccfg_type = IPC_SHM_UNMANAGED, ccfg_managed = no_managed_cfg,
      ccfg_unmanaged = \<lparr>ucfg_size = 64, ucfg_rx_cb = ctrl_chan_rx_cb_ptr s, ucfg_cb_arg = rx_cb_arg_ptr s\<rparr>\<rparr>,
     \<lparr>ccfg_type = IPC_SHM_MANAGED, ccfg_managed = \<lparr>mcfg_num_pools = 3, mcfg_pools = Some ipcf_shm_cfg_buf_pools0_1_multi_s32g3,
      mcfg_rx_cb = data_chan_rx_cb_ptr s, mcfg_cb_arg = rx_cb_arg_ptr s\<rparr>, ccfg_unmanaged = no_unmanaged_cfg\<rparr>,
     \<lparr>ccfg_type = IPC_SHM_MANAGED, ccfg_managed = \<lparr>mcfg_num_pools = 3, mcfg_pools = Some ipcf_shm_cfg_buf_pools0_2_multi_s32g3,
      mcfg_rx_cb = data_chan_rx_cb_ptr s, mcfg_cb_arg = rx_cb_arg_ptr s\<rparr>, ccfg_unmanaged = no_unmanaged_cfg\<rparr>]"

definition ipcf_shm_cfg_buf_pools1_1_multi_s32g3 :: "ipc_shm_pool_cfg list" where
  "ipcf_shm_cfg_buf_pools1_1_multi_s32g3 = [
     \<lparr>pcfg_num_bufs = 5, pcfg_buf_size = 32\<rparr>,
     \<lparr>pcfg_num_bufs = 5, pcfg_buf_size = 256\<rparr>,
     \<lparr>pcfg_num_bufs = 5, pcfg_buf_size = 4096\<rparr>]"

definition ipcf_shm_cfg_buf_pools1_2_multi_s32g3 :: "ipc_shm_pool_cfg list" where
  "ipcf_shm_cfg_buf_pools1_2_multi_s32g3 = [
     \<lparr>pcfg_num_bufs = 5, pcfg_buf_size = 32\<rparr>,
     \<lparr>pcfg_num_bufs = 5, pcfg_buf_size = 256\<rparr>,
     \<lparr>pcfg_num_bufs = 5, pcfg_buf_size = 4096\<rparr>]"

definition ipcf_shm_cfg_channels1_multi_s32g3 :: "cfg_symbols \<Rightarrow> ipc_shm_channel_cfg list" where
  "ipcf_shm_cfg_channels1_multi_s32g3 s = [
     \<lparr>ccfg_type = IPC_SHM_UNMANAGED, ccfg_managed = no_managed_cfg,
      ccfg_unmanaged = \<lparr>ucfg_size = 64, ucfg_rx_cb = ctrl_chan_rx_cb_ptr s, ucfg_cb_arg = rx_cb_arg_ptr s\<rparr>\<rparr>,
     \<lparr>ccfg_type = IPC_SHM_MANAGED, ccfg_managed = \<lparr>mcfg_num_pools = 3, mcfg_pools = Some ipcf_shm_cfg_buf_pools1_1_multi_s32g3,
      mcfg_rx_cb = data_chan_rx_cb_ptr s, mcfg_cb_arg = rx_cb_arg_ptr s\<rparr>, ccfg_unmanaged = no_unmanaged_cfg\<rparr>,
     \<lparr>ccfg_type = IPC_SHM_MANAGED, ccfg_managed = \<lparr>mcfg_num_pools = 3, mcfg_pools = Some ipcf_shm_cfg_buf_pools1_2_multi_s32g3,
      mcfg_rx_cb = data_chan_rx_cb_ptr s, mcfg_cb_arg = rx_cb_arg_ptr s\<rparr>, ccfg_unmanaged = no_unmanaged_cfg\<rparr>]"

definition ipcf_shm_cfg_buf_pools2_1_multi_s32g3 :: "ipc_shm_pool_cfg list" where
  "ipcf_shm_cfg_buf_pools2_1_multi_s32g3 = [
     \<lparr>pcfg_num_bufs = 5, pcfg_buf_size = 32\<rparr>,
     \<lparr>pcfg_num_bufs = 5, pcfg_buf_size = 256\<rparr>,
     \<lparr>pcfg_num_bufs = 5, pcfg_buf_size = 4096\<rparr>]"

definition ipcf_shm_cfg_buf_pools2_2_multi_s32g3 :: "ipc_shm_pool_cfg list" where
  "ipcf_shm_cfg_buf_pools2_2_multi_s32g3 = [
     \<lparr>pcfg_num_bufs = 5, pcfg_buf_size = 32\<rparr>,
     \<lparr>pcfg_num_bufs = 5, pcfg_buf_size = 256\<rparr>,
     \<lparr>pcfg_num_bufs = 5, pcfg_buf_size = 4096\<rparr>]"

definition ipcf_shm_cfg_channels2_multi_s32g3 :: "cfg_symbols \<Rightarrow> ipc_shm_channel_cfg list" where
  "ipcf_shm_cfg_channels2_multi_s32g3 s = [
     \<lparr>ccfg_type = IPC_SHM_UNMANAGED, ccfg_managed = no_managed_cfg,
      ccfg_unmanaged = \<lparr>ucfg_size = 64, ucfg_rx_cb = ctrl_chan_rx_cb_ptr s, ucfg_cb_arg = rx_cb_arg_ptr s\<rparr>\<rparr>,
     \<lparr>ccfg_type = IPC_SHM_MANAGED, ccfg_managed = \<lparr>mcfg_num_pools = 3, mcfg_pools = Some ipcf_shm_cfg_buf_pools2_1_multi_s32g3,
      mcfg_rx_cb = data_chan_rx_cb_ptr s, mcfg_cb_arg = rx_cb_arg_ptr s\<rparr>, ccfg_unmanaged = no_unmanaged_cfg\<rparr>,
     \<lparr>ccfg_type = IPC_SHM_MANAGED, ccfg_managed = \<lparr>mcfg_num_pools = 3, mcfg_pools = Some ipcf_shm_cfg_buf_pools2_2_multi_s32g3,
      mcfg_rx_cb = data_chan_rx_cb_ptr s, mcfg_cb_arg = rx_cb_arg_ptr s\<rparr>, ccfg_unmanaged = no_unmanaged_cfg\<rparr>]"

definition ipcf_shm_cfg_instances_multi_s32g3 :: "cfg_symbols \<Rightarrow> ipc_shm_cfg list" where
  "ipcf_shm_cfg_instances_multi_s32g3 s = [
     \<lparr>cfg_local_shm_addr = 0x34080000, cfg_remote_shm_addr = 0x340A0000, cfg_shm_size = 0x10000,
      cfg_inter_core_tx_irq = 2, cfg_inter_core_rx_irq = 1,
      cfg_local_core = \<lparr>lcore_type = IPC_CORE_DEFAULT, lcore_index = IPC_CORE_INDEX_0,
        lcore_trusted = core_mask IPC_CORE_INDEX_0 OR core_mask IPC_CORE_INDEX_1 OR core_mask IPC_CORE_INDEX_2 OR core_mask IPC_CORE_INDEX_3 OR core_mask IPC_CORE_INDEX_4 OR core_mask IPC_CORE_INDEX_5 OR core_mask IPC_CORE_INDEX_6 OR core_mask IPC_CORE_INDEX_7\<rparr>,
      cfg_remote_core = \<lparr>rcore_type = IPC_CORE_M7, rcore_index = IPC_CORE_INDEX_0\<rparr>,
      cfg_num_channels = 3, cfg_channels = Some (ipcf_shm_cfg_channels0_multi_s32g3 s)\<rparr>,
     \<lparr>cfg_local_shm_addr = 0x340C0000, cfg_remote_shm_addr = 0x340E0000, cfg_shm_size = 0x10000,
      cfg_inter_core_tx_irq = IPC_IRQ_NONE, cfg_inter_core_rx_irq = 0,
      cfg_local_core = \<lparr>lcore_type = IPC_CORE_DEFAULT, lcore_index = IPC_CORE_INDEX_0,
        lcore_trusted = core_mask IPC_CORE_INDEX_0 OR core_mask IPC_CORE_INDEX_1 OR core_mask IPC_CORE_INDEX_2 OR core_mask IPC_CORE_INDEX_3 OR core_mask IPC_CORE_INDEX_4 OR core_mask IPC_CORE_INDEX_5 OR core_mask IPC_CORE_INDEX_6 OR core_mask IPC_CORE_INDEX_7\<rparr>,
      cfg_remote_core = \<lparr>rcore_type = IPC_CORE_M7, rcore_index = IPC_CORE_INDEX_1\<rparr>,
      cfg_num_channels = 3, cfg_channels = Some (ipcf_shm_cfg_channels1_multi_s32g3 s)\<rparr>,
     \<lparr>cfg_local_shm_addr = 0x34110000, cfg_remote_shm_addr = 0x34120000, cfg_shm_size = 0x10000,
      cfg_inter_core_tx_irq = IPC_IRQ_NONE, cfg_inter_core_rx_irq = IPC_IRQ_NONE,
      cfg_local_core = \<lparr>lcore_type = IPC_CORE_DEFAULT, lcore_index = IPC_CORE_INDEX_0,
        lcore_trusted = core_mask IPC_CORE_INDEX_0 OR core_mask IPC_CORE_INDEX_1 OR core_mask IPC_CORE_INDEX_2 OR core_mask IPC_CORE_INDEX_3 OR core_mask IPC_CORE_INDEX_4 OR core_mask IPC_CORE_INDEX_5 OR core_mask IPC_CORE_INDEX_6 OR core_mask IPC_CORE_INDEX_7\<rparr>,
      cfg_remote_core = \<lparr>rcore_type = IPC_CORE_M7, rcore_index = IPC_CORE_INDEX_2\<rparr>,
      cfg_num_channels = 3, cfg_channels = Some (ipcf_shm_cfg_channels2_multi_s32g3 s)\<rparr>]"

definition ipcf_shm_instances_cfg_multi_s32g3 :: "cfg_symbols \<Rightarrow> ipc_shm_instances_cfg" where
  "ipcf_shm_instances_cfg_multi_s32g3 s = \<lparr>icfg_num_instances = 3, icfg_shm_cfg = Some (ipcf_shm_cfg_instances_multi_s32g3 s)\<rparr>"

section \<open>\<open>src/sample_multi_instance/ipcf_Ip_Cfg_s32r45.c\<close>\<close>

definition ipcf_shm_cfg_buf_pools0_1_multi_s32r45 :: "ipc_shm_pool_cfg list" where
  "ipcf_shm_cfg_buf_pools0_1_multi_s32r45 = [
     \<lparr>pcfg_num_bufs = 5, pcfg_buf_size = 32\<rparr>,
     \<lparr>pcfg_num_bufs = 5, pcfg_buf_size = 256\<rparr>,
     \<lparr>pcfg_num_bufs = 5, pcfg_buf_size = 4096\<rparr>]"

definition ipcf_shm_cfg_buf_pools0_2_multi_s32r45 :: "ipc_shm_pool_cfg list" where
  "ipcf_shm_cfg_buf_pools0_2_multi_s32r45 = [
     \<lparr>pcfg_num_bufs = 5, pcfg_buf_size = 32\<rparr>,
     \<lparr>pcfg_num_bufs = 5, pcfg_buf_size = 256\<rparr>,
     \<lparr>pcfg_num_bufs = 5, pcfg_buf_size = 4096\<rparr>]"

definition ipcf_shm_cfg_channels0_multi_s32r45 :: "cfg_symbols \<Rightarrow> ipc_shm_channel_cfg list" where
  "ipcf_shm_cfg_channels0_multi_s32r45 s = [
     \<lparr>ccfg_type = IPC_SHM_UNMANAGED, ccfg_managed = no_managed_cfg,
      ccfg_unmanaged = \<lparr>ucfg_size = 64, ucfg_rx_cb = ctrl_chan_rx_cb_ptr s, ucfg_cb_arg = rx_cb_arg_ptr s\<rparr>\<rparr>,
     \<lparr>ccfg_type = IPC_SHM_MANAGED, ccfg_managed = \<lparr>mcfg_num_pools = 3, mcfg_pools = Some ipcf_shm_cfg_buf_pools0_1_multi_s32r45,
      mcfg_rx_cb = data_chan_rx_cb_ptr s, mcfg_cb_arg = rx_cb_arg_ptr s\<rparr>, ccfg_unmanaged = no_unmanaged_cfg\<rparr>,
     \<lparr>ccfg_type = IPC_SHM_MANAGED, ccfg_managed = \<lparr>mcfg_num_pools = 3, mcfg_pools = Some ipcf_shm_cfg_buf_pools0_2_multi_s32r45,
      mcfg_rx_cb = data_chan_rx_cb_ptr s, mcfg_cb_arg = rx_cb_arg_ptr s\<rparr>, ccfg_unmanaged = no_unmanaged_cfg\<rparr>]"

definition ipcf_shm_cfg_buf_pools1_1_multi_s32r45 :: "ipc_shm_pool_cfg list" where
  "ipcf_shm_cfg_buf_pools1_1_multi_s32r45 = [
     \<lparr>pcfg_num_bufs = 5, pcfg_buf_size = 32\<rparr>,
     \<lparr>pcfg_num_bufs = 5, pcfg_buf_size = 256\<rparr>,
     \<lparr>pcfg_num_bufs = 5, pcfg_buf_size = 4096\<rparr>]"

definition ipcf_shm_cfg_buf_pools1_2_multi_s32r45 :: "ipc_shm_pool_cfg list" where
  "ipcf_shm_cfg_buf_pools1_2_multi_s32r45 = [
     \<lparr>pcfg_num_bufs = 5, pcfg_buf_size = 32\<rparr>,
     \<lparr>pcfg_num_bufs = 5, pcfg_buf_size = 256\<rparr>,
     \<lparr>pcfg_num_bufs = 5, pcfg_buf_size = 4096\<rparr>]"

definition ipcf_shm_cfg_channels1_multi_s32r45 :: "cfg_symbols \<Rightarrow> ipc_shm_channel_cfg list" where
  "ipcf_shm_cfg_channels1_multi_s32r45 s = [
     \<lparr>ccfg_type = IPC_SHM_UNMANAGED, ccfg_managed = no_managed_cfg,
      ccfg_unmanaged = \<lparr>ucfg_size = 64, ucfg_rx_cb = ctrl_chan_rx_cb_ptr s, ucfg_cb_arg = rx_cb_arg_ptr s\<rparr>\<rparr>,
     \<lparr>ccfg_type = IPC_SHM_MANAGED, ccfg_managed = \<lparr>mcfg_num_pools = 3, mcfg_pools = Some ipcf_shm_cfg_buf_pools1_1_multi_s32r45,
      mcfg_rx_cb = data_chan_rx_cb_ptr s, mcfg_cb_arg = rx_cb_arg_ptr s\<rparr>, ccfg_unmanaged = no_unmanaged_cfg\<rparr>,
     \<lparr>ccfg_type = IPC_SHM_MANAGED, ccfg_managed = \<lparr>mcfg_num_pools = 3, mcfg_pools = Some ipcf_shm_cfg_buf_pools1_2_multi_s32r45,
      mcfg_rx_cb = data_chan_rx_cb_ptr s, mcfg_cb_arg = rx_cb_arg_ptr s\<rparr>, ccfg_unmanaged = no_unmanaged_cfg\<rparr>]"

definition ipcf_shm_cfg_buf_pools2_1_multi_s32r45 :: "ipc_shm_pool_cfg list" where
  "ipcf_shm_cfg_buf_pools2_1_multi_s32r45 = [
     \<lparr>pcfg_num_bufs = 5, pcfg_buf_size = 32\<rparr>,
     \<lparr>pcfg_num_bufs = 5, pcfg_buf_size = 256\<rparr>,
     \<lparr>pcfg_num_bufs = 5, pcfg_buf_size = 4096\<rparr>]"

definition ipcf_shm_cfg_buf_pools2_2_multi_s32r45 :: "ipc_shm_pool_cfg list" where
  "ipcf_shm_cfg_buf_pools2_2_multi_s32r45 = [
     \<lparr>pcfg_num_bufs = 5, pcfg_buf_size = 32\<rparr>,
     \<lparr>pcfg_num_bufs = 5, pcfg_buf_size = 256\<rparr>,
     \<lparr>pcfg_num_bufs = 5, pcfg_buf_size = 4096\<rparr>]"

definition ipcf_shm_cfg_channels2_multi_s32r45 :: "cfg_symbols \<Rightarrow> ipc_shm_channel_cfg list" where
  "ipcf_shm_cfg_channels2_multi_s32r45 s = [
     \<lparr>ccfg_type = IPC_SHM_UNMANAGED, ccfg_managed = no_managed_cfg,
      ccfg_unmanaged = \<lparr>ucfg_size = 64, ucfg_rx_cb = ctrl_chan_rx_cb_ptr s, ucfg_cb_arg = rx_cb_arg_ptr s\<rparr>\<rparr>,
     \<lparr>ccfg_type = IPC_SHM_MANAGED, ccfg_managed = \<lparr>mcfg_num_pools = 3, mcfg_pools = Some ipcf_shm_cfg_buf_pools2_1_multi_s32r45,
      mcfg_rx_cb = data_chan_rx_cb_ptr s, mcfg_cb_arg = rx_cb_arg_ptr s\<rparr>, ccfg_unmanaged = no_unmanaged_cfg\<rparr>,
     \<lparr>ccfg_type = IPC_SHM_MANAGED, ccfg_managed = \<lparr>mcfg_num_pools = 3, mcfg_pools = Some ipcf_shm_cfg_buf_pools2_2_multi_s32r45,
      mcfg_rx_cb = data_chan_rx_cb_ptr s, mcfg_cb_arg = rx_cb_arg_ptr s\<rparr>, ccfg_unmanaged = no_unmanaged_cfg\<rparr>]"

definition ipcf_shm_cfg_instances_multi_s32r45 :: "cfg_symbols \<Rightarrow> ipc_shm_cfg list" where
  "ipcf_shm_cfg_instances_multi_s32r45 s = [
     \<lparr>cfg_local_shm_addr = 0x34100000, cfg_remote_shm_addr = 0x34200000, cfg_shm_size = 0x10000,
      cfg_inter_core_tx_irq = 2, cfg_inter_core_rx_irq = 1,
      cfg_local_core = \<lparr>lcore_type = IPC_CORE_DEFAULT, lcore_index = IPC_CORE_INDEX_0,
        lcore_trusted = core_mask IPC_CORE_INDEX_0 OR core_mask IPC_CORE_INDEX_1 OR core_mask IPC_CORE_INDEX_2 OR core_mask IPC_CORE_INDEX_3\<rparr>,
      cfg_remote_core = \<lparr>rcore_type = IPC_CORE_M7, rcore_index = IPC_CORE_INDEX_0\<rparr>,
      cfg_num_channels = 3, cfg_channels = Some (ipcf_shm_cfg_channels0_multi_s32r45 s)\<rparr>,
     \<lparr>cfg_local_shm_addr = 0x34080000, cfg_remote_shm_addr = 0x340C0000, cfg_shm_size = 0x10000,
      cfg_inter_core_tx_irq = IPC_IRQ_NONE, cfg_inter_core_rx_irq = 0,
      cfg_local_core = \<lparr>lcore_type = IPC_CORE_DEFAULT, lcore_index = IPC_CORE_INDEX_0,
        lcore_trusted = core_mask IPC_CORE_INDEX_0 OR core_mask IPC_CORE_INDEX_1 OR core_mask IPC_CORE_INDEX_2 OR core_mask IPC_CORE_INDEX_3\<rparr>,
      cfg_remote_core = \<lparr>rcore_type = IPC_CORE_M7, rcore_index = IPC_CORE_INDEX_1\<rparr>,
      cfg_num_channels = 3, cfg_channels = Some (ipcf_shm_cfg_channels1_multi_s32r45 s)\<rparr>,
     \<lparr>cfg_local_shm_addr = 0x34090000, cfg_remote_shm_addr = 0x340D0000, cfg_shm_size = 0x10000,
      cfg_inter_core_tx_irq = IPC_IRQ_NONE, cfg_inter_core_rx_irq = IPC_IRQ_NONE,
      cfg_local_core = \<lparr>lcore_type = IPC_CORE_DEFAULT, lcore_index = IPC_CORE_INDEX_0,
        lcore_trusted = core_mask IPC_CORE_INDEX_0 OR core_mask IPC_CORE_INDEX_1 OR core_mask IPC_CORE_INDEX_2 OR core_mask IPC_CORE_INDEX_3\<rparr>,
      cfg_remote_core = \<lparr>rcore_type = IPC_CORE_M7, rcore_index = IPC_CORE_INDEX_2\<rparr>,
      cfg_num_channels = 3, cfg_channels = Some (ipcf_shm_cfg_channels2_multi_s32r45 s)\<rparr>]"

definition ipcf_shm_instances_cfg_multi_s32r45 :: "cfg_symbols \<Rightarrow> ipc_shm_instances_cfg" where
  "ipcf_shm_instances_cfg_multi_s32r45 s = \<lparr>icfg_num_instances = 3, icfg_shm_cfg = Some (ipcf_shm_cfg_instances_multi_s32r45 s)\<rparr>"

section \<open>\<open>src/sample_multi_instance/ipcf_Ip_Cfg_s32r47.c\<close>\<close>

definition ipcf_shm_cfg_buf_pools0_1_multi_s32r47 :: "ipc_shm_pool_cfg list" where
  "ipcf_shm_cfg_buf_pools0_1_multi_s32r47 = [
     \<lparr>pcfg_num_bufs = 5, pcfg_buf_size = 32\<rparr>,
     \<lparr>pcfg_num_bufs = 5, pcfg_buf_size = 256\<rparr>,
     \<lparr>pcfg_num_bufs = 5, pcfg_buf_size = 4096\<rparr>]"

definition ipcf_shm_cfg_buf_pools0_2_multi_s32r47 :: "ipc_shm_pool_cfg list" where
  "ipcf_shm_cfg_buf_pools0_2_multi_s32r47 = [
     \<lparr>pcfg_num_bufs = 5, pcfg_buf_size = 32\<rparr>,
     \<lparr>pcfg_num_bufs = 5, pcfg_buf_size = 256\<rparr>,
     \<lparr>pcfg_num_bufs = 5, pcfg_buf_size = 4096\<rparr>]"

definition ipcf_shm_cfg_channels0_multi_s32r47 :: "cfg_symbols \<Rightarrow> ipc_shm_channel_cfg list" where
  "ipcf_shm_cfg_channels0_multi_s32r47 s = [
     \<lparr>ccfg_type = IPC_SHM_UNMANAGED, ccfg_managed = no_managed_cfg,
      ccfg_unmanaged = \<lparr>ucfg_size = 64, ucfg_rx_cb = ctrl_chan_rx_cb_ptr s, ucfg_cb_arg = rx_cb_arg_ptr s\<rparr>\<rparr>,
     \<lparr>ccfg_type = IPC_SHM_MANAGED, ccfg_managed = \<lparr>mcfg_num_pools = 3, mcfg_pools = Some ipcf_shm_cfg_buf_pools0_1_multi_s32r47,
      mcfg_rx_cb = data_chan_rx_cb_ptr s, mcfg_cb_arg = rx_cb_arg_ptr s\<rparr>, ccfg_unmanaged = no_unmanaged_cfg\<rparr>,
     \<lparr>ccfg_type = IPC_SHM_MANAGED, ccfg_managed = \<lparr>mcfg_num_pools = 3, mcfg_pools = Some ipcf_shm_cfg_buf_pools0_2_multi_s32r47,
      mcfg_rx_cb = data_chan_rx_cb_ptr s, mcfg_cb_arg = rx_cb_arg_ptr s\<rparr>, ccfg_unmanaged = no_unmanaged_cfg\<rparr>]"

definition ipcf_shm_cfg_buf_pools1_1_multi_s32r47 :: "ipc_shm_pool_cfg list" where
  "ipcf_shm_cfg_buf_pools1_1_multi_s32r47 = [
     \<lparr>pcfg_num_bufs = 5, pcfg_buf_size = 32\<rparr>,
     \<lparr>pcfg_num_bufs = 5, pcfg_buf_size = 256\<rparr>,
     \<lparr>pcfg_num_bufs = 5, pcfg_buf_size = 4096\<rparr>]"

definition ipcf_shm_cfg_buf_pools1_2_multi_s32r47 :: "ipc_shm_pool_cfg list" where
  "ipcf_shm_cfg_buf_pools1_2_multi_s32r47 = [
     \<lparr>pcfg_num_bufs = 5, pcfg_buf_size = 32\<rparr>,
     \<lparr>pcfg_num_bufs = 5, pcfg_buf_size = 256\<rparr>,
     \<lparr>pcfg_num_bufs = 5, pcfg_buf_size = 4096\<rparr>]"

definition ipcf_shm_cfg_channels1_multi_s32r47 :: "cfg_symbols \<Rightarrow> ipc_shm_channel_cfg list" where
  "ipcf_shm_cfg_channels1_multi_s32r47 s = [
     \<lparr>ccfg_type = IPC_SHM_UNMANAGED, ccfg_managed = no_managed_cfg,
      ccfg_unmanaged = \<lparr>ucfg_size = 64, ucfg_rx_cb = ctrl_chan_rx_cb_ptr s, ucfg_cb_arg = rx_cb_arg_ptr s\<rparr>\<rparr>,
     \<lparr>ccfg_type = IPC_SHM_MANAGED, ccfg_managed = \<lparr>mcfg_num_pools = 3, mcfg_pools = Some ipcf_shm_cfg_buf_pools1_1_multi_s32r47,
      mcfg_rx_cb = data_chan_rx_cb_ptr s, mcfg_cb_arg = rx_cb_arg_ptr s\<rparr>, ccfg_unmanaged = no_unmanaged_cfg\<rparr>,
     \<lparr>ccfg_type = IPC_SHM_MANAGED, ccfg_managed = \<lparr>mcfg_num_pools = 3, mcfg_pools = Some ipcf_shm_cfg_buf_pools1_2_multi_s32r47,
      mcfg_rx_cb = data_chan_rx_cb_ptr s, mcfg_cb_arg = rx_cb_arg_ptr s\<rparr>, ccfg_unmanaged = no_unmanaged_cfg\<rparr>]"

definition ipcf_shm_cfg_buf_pools2_1_multi_s32r47 :: "ipc_shm_pool_cfg list" where
  "ipcf_shm_cfg_buf_pools2_1_multi_s32r47 = [
     \<lparr>pcfg_num_bufs = 5, pcfg_buf_size = 32\<rparr>,
     \<lparr>pcfg_num_bufs = 5, pcfg_buf_size = 256\<rparr>,
     \<lparr>pcfg_num_bufs = 5, pcfg_buf_size = 4096\<rparr>]"

definition ipcf_shm_cfg_buf_pools2_2_multi_s32r47 :: "ipc_shm_pool_cfg list" where
  "ipcf_shm_cfg_buf_pools2_2_multi_s32r47 = [
     \<lparr>pcfg_num_bufs = 5, pcfg_buf_size = 32\<rparr>,
     \<lparr>pcfg_num_bufs = 5, pcfg_buf_size = 256\<rparr>,
     \<lparr>pcfg_num_bufs = 5, pcfg_buf_size = 4096\<rparr>]"

definition ipcf_shm_cfg_channels2_multi_s32r47 :: "cfg_symbols \<Rightarrow> ipc_shm_channel_cfg list" where
  "ipcf_shm_cfg_channels2_multi_s32r47 s = [
     \<lparr>ccfg_type = IPC_SHM_UNMANAGED, ccfg_managed = no_managed_cfg,
      ccfg_unmanaged = \<lparr>ucfg_size = 64, ucfg_rx_cb = ctrl_chan_rx_cb_ptr s, ucfg_cb_arg = rx_cb_arg_ptr s\<rparr>\<rparr>,
     \<lparr>ccfg_type = IPC_SHM_MANAGED, ccfg_managed = \<lparr>mcfg_num_pools = 3, mcfg_pools = Some ipcf_shm_cfg_buf_pools2_1_multi_s32r47,
      mcfg_rx_cb = data_chan_rx_cb_ptr s, mcfg_cb_arg = rx_cb_arg_ptr s\<rparr>, ccfg_unmanaged = no_unmanaged_cfg\<rparr>,
     \<lparr>ccfg_type = IPC_SHM_MANAGED, ccfg_managed = \<lparr>mcfg_num_pools = 3, mcfg_pools = Some ipcf_shm_cfg_buf_pools2_2_multi_s32r47,
      mcfg_rx_cb = data_chan_rx_cb_ptr s, mcfg_cb_arg = rx_cb_arg_ptr s\<rparr>, ccfg_unmanaged = no_unmanaged_cfg\<rparr>]"

definition ipcf_shm_cfg_instances_multi_s32r47 :: "cfg_symbols \<Rightarrow> ipc_shm_cfg list" where
  "ipcf_shm_cfg_instances_multi_s32r47 s = [
     \<lparr>cfg_local_shm_addr = 0x34000000, cfg_remote_shm_addr = 0x34080000, cfg_shm_size = 0x10000,
      cfg_inter_core_tx_irq = 0, cfg_inter_core_rx_irq = 1,
      cfg_local_core = \<lparr>lcore_type = IPC_CORE_DEFAULT, lcore_index = IPC_CORE_INDEX_0,
        lcore_trusted = core_mask IPC_CORE_INDEX_0 OR core_mask IPC_CORE_INDEX_1 OR core_mask IPC_CORE_INDEX_2 OR core_mask IPC_CORE_INDEX_3\<rparr>,
      cfg_remote_core = \<lparr>rcore_type = IPC_CORE_M7, rcore_index = IPC_CORE_INDEX_0\<rparr>,
      cfg_num_channels = 3, cfg_channels = Some (ipcf_shm_cfg_channels0_multi_s32r47 s)\<rparr>,
     \<lparr>cfg_local_shm_addr = 0x34010000, cfg_remote_shm_addr = 0x34090000, cfg_shm_size = 0x10000,
      cfg_inter_core_tx_irq = IPC_IRQ_NONE, cfg_inter_core_rx_irq = 2,
      cfg_local_core = \<lparr>lcore_type = IPC_CORE_DEFAULT, lcore_index = IPC_CORE_INDEX_0,
        lcore_trusted = core_mask IPC_CORE_INDEX_0 OR core_mask IPC_CORE_INDEX_1 OR core_mask IPC_CORE_INDEX_2 OR core_mask IPC_CORE_INDEX_3\<rparr>,
      cfg_remote_core = \<lparr>rcore_type = IPC_CORE_M7, rcore_index = IPC_CORE_INDEX_1\<rparr>,
      cfg_num_channels = 3, cfg_channels = Some (ipcf_shm_cfg_channels1_multi_s32r47 s)\<rparr>,
     \<lparr>cfg_local_shm_addr = 0x34020000, cfg_remote_shm_addr = 0x340A0000, cfg_shm_size = 0x10000,
      cfg_inter_core_tx_irq = IPC_IRQ_NONE, cfg_inter_core_rx_irq = IPC_IRQ_NONE,
      cfg_local_core = \<lparr>lcore_type = IPC_CORE_DEFAULT, lcore_index = IPC_CORE_INDEX_0,
        lcore_trusted = core_mask IPC_CORE_INDEX_0 OR core_mask IPC_CORE_INDEX_1 OR core_mask IPC_CORE_INDEX_2 OR core_mask IPC_CORE_INDEX_3\<rparr>,
      cfg_remote_core = \<lparr>rcore_type = IPC_CORE_M7, rcore_index = IPC_CORE_INDEX_2\<rparr>,
      cfg_num_channels = 3, cfg_channels = Some (ipcf_shm_cfg_channels2_multi_s32r47 s)\<rparr>]"

definition ipcf_shm_instances_cfg_multi_s32r47 :: "cfg_symbols \<Rightarrow> ipc_shm_instances_cfg" where
  "ipcf_shm_instances_cfg_multi_s32r47 s = \<lparr>icfg_num_instances = 3, icfg_shm_cfg = Some (ipcf_shm_cfg_instances_multi_s32r47 s)\<rparr>"

section \<open>\<open>src/sample_multi_instance_user/ipcf_Ip_Cfg_s32g2.c\<close>\<close>

definition ipcf_shm_cfg_buf_pools0_1_multi_user_s32g2 :: "ipc_shm_pool_cfg list" where
  "ipcf_shm_cfg_buf_pools0_1_multi_user_s32g2 = [
     \<lparr>pcfg_num_bufs = 5, pcfg_buf_size = 32\<rparr>,
     \<lparr>pcfg_num_bufs = 5, pcfg_buf_size = 256\<rparr>,
     \<lparr>pcfg_num_bufs = 5, pcfg_buf_size = 4096\<rparr>]"

definition ipcf_shm_cfg_buf_pools0_2_multi_user_s32g2 :: "ipc_shm_pool_cfg list" where
  "ipcf_shm_cfg_buf_pools0_2_multi_user_s32g2 = [
     \<lparr>pcfg_num_bufs = 5, pcfg_buf_size = 32\<rparr>,
     \<lparr>pcfg_num_bufs = 5, pcfg_buf_size = 256\<rparr>,
     \<lparr>pcfg_num_bufs = 5, pcfg_buf_size = 4096\<rparr>]"

definition ipcf_shm_cfg_channels0_multi_user_s32g2 :: "cfg_symbols \<Rightarrow> ipc_shm_channel_cfg list" where
  "ipcf_shm_cfg_channels0_multi_user_s32g2 s = [
     \<lparr>ccfg_type = IPC_SHM_UNMANAGED, ccfg_managed = no_managed_cfg,
      ccfg_unmanaged = \<lparr>ucfg_size = 64, ucfg_rx_cb = ctrl_chan_rx_cb_ptr s, ucfg_cb_arg = rx_cb_arg_ptr s\<rparr>\<rparr>,
     \<lparr>ccfg_type = IPC_SHM_MANAGED, ccfg_managed = \<lparr>mcfg_num_pools = 3, mcfg_pools = Some ipcf_shm_cfg_buf_pools0_1_multi_user_s32g2,
      mcfg_rx_cb = data_chan_rx_cb_ptr s, mcfg_cb_arg = rx_cb_arg_ptr s\<rparr>, ccfg_unmanaged = no_unmanaged_cfg\<rparr>,
     \<lparr>ccfg_type = IPC_SHM_MANAGED, ccfg_managed = \<lparr>mcfg_num_pools = 3, mcfg_pools = Some ipcf_shm_cfg_buf_pools0_2_multi_user_s32g2,
      mcfg_rx_cb = data_chan_rx_cb_ptr s, mcfg_cb_arg = rx_cb_arg_ptr s\<rparr>, ccfg_unmanaged = no_unmanaged_cfg\<rparr>]"

definition ipcf_shm_cfg_buf_pools1_1_multi_user_s32g2 :: "ipc_shm_pool_cfg list" where
  "ipcf_shm_cfg_buf_pools1_1_multi_user_s32g2 = [
     \<lparr>pcfg_num_bufs = 5, pcfg_buf_size = 32\<rparr>,
     \<lparr>pcfg_num_bufs = 5, pcfg_buf_size = 256\<rparr>,
     \<lparr>pcfg_num_bufs = 5, pcfg_buf_size = 4096\<rparr>]"

definition ipcf_shm_cfg_buf_pools1_2_multi_user_s32g2 :: "ipc_shm_pool_cfg list" where
  "ipcf_shm_cfg_buf_pools1_2_multi_user_s32g2 = [
     \<lparr>pcfg_num_bufs = 5, pcfg_buf_size = 32\<rparr>,
     \<lparr>pcfg_num_bufs = 5, pcfg_buf_size = 256\<rparr>,
     \<lparr>pcfg_num_bufs = 5, pcfg_buf_size = 4096\<rparr>]"

definition ipcf_shm_cfg_channels1_multi_user_s32g2 :: "cfg_symbols \<Rightarrow> ipc_shm_channel_cfg list" where
  "ipcf_shm_cfg_channels1_multi_user_s32g2 s = [
     \<lparr>ccfg_type = IPC_SHM_UNMANAGED, ccfg_managed = no_managed_cfg,
      ccfg_unmanaged = \<lparr>ucfg_size = 64, ucfg_rx_cb = ctrl_chan_rx_cb_ptr s, ucfg_cb_arg = rx_cb_arg_ptr s\<rparr>\<rparr>,
     \<lparr>ccfg_type = IPC_SHM_MANAGED, ccfg_managed = \<lparr>mcfg_num_pools = 3, mcfg_pools = Some ipcf_shm_cfg_buf_pools1_1_multi_user_s32g2,
      mcfg_rx_cb = data_chan_rx_cb_ptr s, mcfg_cb_arg = rx_cb_arg_ptr s\<rparr>, ccfg_unmanaged = no_unmanaged_cfg\<rparr>,
     \<lparr>ccfg_type = IPC_SHM_MANAGED, ccfg_managed = \<lparr>mcfg_num_pools = 3, mcfg_pools = Some ipcf_shm_cfg_buf_pools1_2_multi_user_s32g2,
      mcfg_rx_cb = data_chan_rx_cb_ptr s, mcfg_cb_arg = rx_cb_arg_ptr s\<rparr>, ccfg_unmanaged = no_unmanaged_cfg\<rparr>]"

definition ipcf_shm_cfg_buf_pools2_1_multi_user_s32g2 :: "ipc_shm_pool_cfg list" where
  "ipcf_shm_cfg_buf_pools2_1_multi_user_s32g2 = [
     \<lparr>pcfg_num_bufs = 5, pcfg_buf_size = 32\<rparr>,
     \<lparr>pcfg_num_bufs = 5, pcfg_buf_size = 256\<rparr>,
     \<lparr>pcfg_num_bufs = 5, pcfg_buf_size = 4096\<rparr>]"

definition ipcf_shm_cfg_buf_pools2_2_multi_user_s32g2 :: "ipc_shm_pool_cfg list" where
  "ipcf_shm_cfg_buf_pools2_2_multi_user_s32g2 = [
     \<lparr>pcfg_num_bufs = 5, pcfg_buf_size = 32\<rparr>,
     \<lparr>pcfg_num_bufs = 5, pcfg_buf_size = 256\<rparr>,
     \<lparr>pcfg_num_bufs = 5, pcfg_buf_size = 4096\<rparr>]"

definition ipcf_shm_cfg_channels2_multi_user_s32g2 :: "cfg_symbols \<Rightarrow> ipc_shm_channel_cfg list" where
  "ipcf_shm_cfg_channels2_multi_user_s32g2 s = [
     \<lparr>ccfg_type = IPC_SHM_UNMANAGED, ccfg_managed = no_managed_cfg,
      ccfg_unmanaged = \<lparr>ucfg_size = 64, ucfg_rx_cb = ctrl_chan_rx_cb_ptr s, ucfg_cb_arg = rx_cb_arg_ptr s\<rparr>\<rparr>,
     \<lparr>ccfg_type = IPC_SHM_MANAGED, ccfg_managed = \<lparr>mcfg_num_pools = 3, mcfg_pools = Some ipcf_shm_cfg_buf_pools2_1_multi_user_s32g2,
      mcfg_rx_cb = data_chan_rx_cb_ptr s, mcfg_cb_arg = rx_cb_arg_ptr s\<rparr>, ccfg_unmanaged = no_unmanaged_cfg\<rparr>,
     \<lparr>ccfg_type = IPC_SHM_MANAGED, ccfg_managed = \<lparr>mcfg_num_pools = 3, mcfg_pools = Some ipcf_shm_cfg_buf_pools2_2_multi_user_s32g2,
      mcfg_rx_cb = data_chan_rx_cb_ptr s, mcfg_cb_arg = rx_cb_arg_ptr s\<rparr>, ccfg_unmanaged = no_unmanaged_cfg\<rparr>]"

definition ipcf_shm_cfg_instances_multi_user_s32g2 :: "cfg_symbols \<Rightarrow> ipc_shm_cfg list" where
  "ipcf_shm_cfg_instances_multi_user_s32g2 s = [
     \<lparr>cfg_local_shm_addr = 0x34100000, cfg_remote_shm_addr = 0x34200000, cfg_shm_size = 0x10000,
      cfg_inter_core_tx_irq = 2, cfg_inter_core_rx_irq = 1,
      cfg_local_core = \<lparr>lcore_type = IPC_CORE_DEFAULT, lcore_index = IPC_CORE_INDEX_0,
        lcore_trusted = core_mask IPC_CORE_INDEX_0 OR core_mask IPC_CORE_INDEX_1 OR core_mask IPC_CORE_INDEX_2 OR core_mask IPC_CORE_INDEX_3\<rparr>,
      cfg_remote_core = \<lparr>rcore_type = IPC_CORE_M7, rcore_index = IPC_CORE_INDEX_0\<rparr>,
      cfg_num_channels = 3, cfg_channels = Some (ipcf_shm_cfg_channels0_multi_user_s32g2 s)\<rparr>,
     \<lparr>cfg_local_shm_addr = 0x34080000, cfg_remote_shm_addr = 0x340C0000, cfg_shm_size = 0x10000,
      cfg_inter_core_tx_irq = IPC_IRQ_NONE, cfg_inter_core_rx_irq = 0,
      cfg_local_core = \<lparr>lcore_type = IPC_CORE_DEFAULT, lcore_index = IPC_CORE_INDEX_0,
        lcore_trusted = core_mask IPC_CORE_INDEX_0 OR core_mask IPC_CORE_INDEX_1 OR core_mask IPC_CORE_INDEX_2 OR core_mask IPC_CORE_INDEX_3\<rparr>,
      cfg_remote_core = \<lparr>rcore_type = IPC_CORE_M7, rcore_index = IPC_CORE_INDEX_1\<rparr>,
      cfg_num_channels = 3, cfg_channels = Some (ipcf_shm_cfg_channels1_multi_user_s32g2 s)\<rparr>,
     \<lparr>cfg_local_shm_addr = 0x34090000, cfg_remote_shm_addr = 0x340D0000, cfg_shm_size = 0x10000,
      cfg_inter_core_tx_irq = IPC_IRQ_NONE, cfg_inter_core_rx_irq = IPC_IRQ_NONE,
      cfg_local_core = \<lparr>lcore_type = IPC_CORE_DEFAULT, lcore_index = IPC_CORE_INDEX_0,
        lcore_trusted = core_mask IPC_CORE_INDEX_0 OR core_mask IPC_CORE_INDEX_1 OR core_mask IPC_CORE_INDEX_2 OR core_mask IPC_CORE_INDEX_3\<rparr>,
      cfg_remote_core = \<lparr>rcore_type = IPC_CORE_M7, rcore_index = IPC_CORE_INDEX_2\<rparr>,
      cfg_num_channels = 3, cfg_channels = Some (ipcf_shm_cfg_channels2_multi_user_s32g2 s)\<rparr>]"

definition ipcf_shm_instances_cfg_multi_user_s32g2 :: "cfg_symbols \<Rightarrow> ipc_shm_instances_cfg" where
  "ipcf_shm_instances_cfg_multi_user_s32g2 s = \<lparr>icfg_num_instances = 3, icfg_shm_cfg = Some (ipcf_shm_cfg_instances_multi_user_s32g2 s)\<rparr>"

section \<open>\<open>src/sample_multi_instance_user/ipcf_Ip_Cfg_s32g3.c\<close>\<close>

definition ipcf_shm_cfg_buf_pools0_1_multi_user_s32g3 :: "ipc_shm_pool_cfg list" where
  "ipcf_shm_cfg_buf_pools0_1_multi_user_s32g3 = [
     \<lparr>pcfg_num_bufs = 5, pcfg_buf_size = 32\<rparr>,
     \<lparr>pcfg_num_bufs = 5, pcfg_buf_size = 256\<rparr>,
     \<lparr>pcfg_num_bufs = 5, pcfg_buf_size = 4096\<rparr>]"

definition ipcf_shm_cfg_buf_pools0_2_multi_user_s32g3 :: "ipc_shm_pool_cfg list" where
  "ipcf_shm_cfg_buf_pools0_2_multi_user_s32g3 = [
     \<lparr>pcfg_num_bufs = 5, pcfg_buf_size = 32\<rparr>,
     \<lparr>pcfg_num_bufs = 5, pcfg_buf_size = 256\<rparr>,
     \<lparr>pcfg_num_bufs = 5, pcfg_buf_size = 4096\<rparr>]"

definition ipcf_shm_cfg_channels0_multi_user_s32g3 :: "cfg_symbols \<Rightarrow> ipc_shm_channel_cfg list" where
  "ipcf_shm_cfg_channels0_multi_user_s32g3 s = [
     \<lparr>ccfg_type = IPC_SHM_UNMANAGED, ccfg_managed = no_managed_cfg,
      ccfg_unmanaged = \<lparr>ucfg_size = 64, ucfg_rx_cb = ctrl_chan_rx_cb_ptr s, ucfg_cb_arg = rx_cb_arg_ptr s\<rparr>\<rparr>,
     \<lparr>ccfg_type = IPC_SHM_MANAGED, ccfg_managed = \<lparr>mcfg_num_pools = 3, mcfg_pools = Some ipcf_shm_cfg_buf_pools0_1_multi_user_s32g3,
      mcfg_rx_cb = data_chan_rx_cb_ptr s, mcfg_cb_arg = rx_cb_arg_ptr s\<rparr>, ccfg_unmanaged = no_unmanaged_cfg\<rparr>,
     \<lparr>ccfg_type = IPC_SHM_MANAGED, ccfg_managed = \<lparr>mcfg_num_pools = 3, mcfg_pools = Some ipcf_shm_cfg_buf_pools0_2_multi_user_s32g3,
      mcfg_rx_cb = data_chan_rx_cb_ptr s, mcfg_cb_arg = rx_cb_arg_ptr s\<rparr>, ccfg_unmanaged = no_unmanaged_cfg\<rparr>]"

definition ipcf_shm_cfg_buf_pools1_1_multi_user_s32g3 :: "ipc_shm_pool_cfg list" where
  "ipcf_shm_cfg_buf_pools1_1_multi_user_s32g3 = [
     \<lparr>pcfg_num_bufs = 5, pcfg_buf_size = 32\<rparr>,
     \<lparr>pcfg_num_bufs = 5, pcfg_buf_size = 256\<rparr>,
     \<lparr>pcfg_num_bufs = 5, pcfg_buf_size = 4096\<rparr>]"

definition ipcf_shm_cfg_buf_pools1_2_multi_user_s32g3 :: "ipc_shm_pool_cfg list" where
  "ipcf_shm_cfg_buf_pools1_2_multi_user_s32g3 = [
     \<lparr>pcfg_num_bufs = 5, pcfg_buf_size = 32\<rparr>,
     \<lparr>pcfg_num_bufs = 5, pcfg_buf_size = 256\<rparr>,
     \<lparr>pcfg_num_bufs = 5, pcfg_buf_size = 4096\<rparr>]"

definition ipcf_shm_cfg_channels1_multi_user_s32g3 :: "cfg_symbols \<Rightarrow> ipc_shm_channel_cfg list" where
  "ipcf_shm_cfg_channels1_multi_user_s32g3 s = [
     \<lparr>ccfg_type = IPC_SHM_UNMANAGED, ccfg_managed = no_managed_cfg,
      ccfg_unmanaged = \<lparr>ucfg_size = 64, ucfg_rx_cb = ctrl_chan_rx_cb_ptr s, ucfg_cb_arg = rx_cb_arg_ptr s\<rparr>\<rparr>,
     \<lparr>ccfg_type = IPC_SHM_MANAGED, ccfg_managed = \<lparr>mcfg_num_pools = 3, mcfg_pools = Some ipcf_shm_cfg_buf_pools1_1_multi_user_s32g3,
      mcfg_rx_cb = data_chan_rx_cb_ptr s, mcfg_cb_arg = rx_cb_arg_ptr s\<rparr>, ccfg_unmanaged = no_unmanaged_cfg\<rparr>,
     \<lparr>ccfg_type = IPC_SHM_MANAGED, ccfg_managed = \<lparr>mcfg_num_pools = 3, mcfg_pools = Some ipcf_shm_cfg_buf_pools1_2_multi_user_s32g3,
      mcfg_rx_cb = data_chan_rx_cb_ptr s, mcfg_cb_arg = rx_cb_arg_ptr s\<rparr>, ccfg_unmanaged = no_unmanaged_cfg\<rparr>]"

definition ipcf_shm_cfg_buf_pools2_1_multi_user_s32g3 :: "ipc_shm_pool_cfg list" where
  "ipcf_shm_cfg_buf_pools2_1_multi_user_s32g3 = [
     \<lparr>pcfg_num_bufs = 5, pcfg_buf_size = 32\<rparr>,
     \<lparr>pcfg_num_bufs = 5, pcfg_buf_size = 256\<rparr>,
     \<lparr>pcfg_num_bufs = 5, pcfg_buf_size = 4096\<rparr>]"

definition ipcf_shm_cfg_buf_pools2_2_multi_user_s32g3 :: "ipc_shm_pool_cfg list" where
  "ipcf_shm_cfg_buf_pools2_2_multi_user_s32g3 = [
     \<lparr>pcfg_num_bufs = 5, pcfg_buf_size = 32\<rparr>,
     \<lparr>pcfg_num_bufs = 5, pcfg_buf_size = 256\<rparr>,
     \<lparr>pcfg_num_bufs = 5, pcfg_buf_size = 4096\<rparr>]"

definition ipcf_shm_cfg_channels2_multi_user_s32g3 :: "cfg_symbols \<Rightarrow> ipc_shm_channel_cfg list" where
  "ipcf_shm_cfg_channels2_multi_user_s32g3 s = [
     \<lparr>ccfg_type = IPC_SHM_UNMANAGED, ccfg_managed = no_managed_cfg,
      ccfg_unmanaged = \<lparr>ucfg_size = 64, ucfg_rx_cb = ctrl_chan_rx_cb_ptr s, ucfg_cb_arg = rx_cb_arg_ptr s\<rparr>\<rparr>,
     \<lparr>ccfg_type = IPC_SHM_MANAGED, ccfg_managed = \<lparr>mcfg_num_pools = 3, mcfg_pools = Some ipcf_shm_cfg_buf_pools2_1_multi_user_s32g3,
      mcfg_rx_cb = data_chan_rx_cb_ptr s, mcfg_cb_arg = rx_cb_arg_ptr s\<rparr>, ccfg_unmanaged = no_unmanaged_cfg\<rparr>,
     \<lparr>ccfg_type = IPC_SHM_MANAGED, ccfg_managed = \<lparr>mcfg_num_pools = 3, mcfg_pools = Some ipcf_shm_cfg_buf_pools2_2_multi_user_s32g3,
      mcfg_rx_cb = data_chan_rx_cb_ptr s, mcfg_cb_arg = rx_cb_arg_ptr s\<rparr>, ccfg_unmanaged = no_unmanaged_cfg\<rparr>]"

definition ipcf_shm_cfg_instances_multi_user_s32g3 :: "cfg_symbols \<Rightarrow> ipc_shm_cfg list" where
  "ipcf_shm_cfg_instances_multi_user_s32g3 s = [
     \<lparr>cfg_local_shm_addr = 0x34080000, cfg_remote_shm_addr = 0x340A0000, cfg_shm_size = 0x10000,
      cfg_inter_core_tx_irq = 2, cfg_inter_core_rx_irq = 1,
      cfg_local_core = \<lparr>lcore_type = IPC_CORE_DEFAULT, lcore_index = IPC_CORE_INDEX_0,
        lcore_trusted = core_mask IPC_CORE_INDEX_0 OR core_mask IPC_CORE_INDEX_1 OR core_mask IPC_CORE_INDEX_2 OR core_mask IPC_CORE_INDEX_3 OR core_mask IPC_CORE_INDEX_4 OR core_mask IPC_CORE_INDEX_5 OR core_mask IPC_CORE_INDEX_6 OR core_mask IPC_CORE_INDEX_7\<rparr>,
      cfg_remote_core = \<lparr>rcore_type = IPC_CORE_M7, rcore_index = IPC_CORE_INDEX_0\<rparr>,
      cfg_num_channels = 3, cfg_channels = Some (ipcf_shm_cfg_channels0_multi_user_s32g3 s)\<rparr>,
     \<lparr>cfg_local_shm_addr = 0x340C0000, cfg_remote_shm_addr = 0x340E0000, cfg_shm_size = 0x10000,
      cfg_inter_core_tx_irq = IPC_IRQ_NONE, cfg_inter_core_rx_irq = 0,
      cfg_local_core = \<lparr>lcore_type = IPC_CORE_DEFAULT, lcore_index = IPC_CORE_INDEX_0,
        lcore_trusted = core_mask IPC_CORE_INDEX_0 OR core_mask IPC_CORE_INDEX_1 OR core_mask IPC_CORE_INDEX_2 OR core_mask IPC_CORE_INDEX_3 OR core_mask IPC_CORE_INDEX_4 OR core_mask IPC_CORE_INDEX_5 OR core_mask IPC_CORE_INDEX_6 OR core_mask IPC_CORE_INDEX_7\<rparr>,
      cfg_remote_core = \<lparr>rcore_type = IPC_CORE_M7, rcore_index = IPC_CORE_INDEX_1\<rparr>,
      cfg_num_channels = 3, cfg_channels = Some (ipcf_shm_cfg_channels1_multi_user_s32g3 s)\<rparr>,
     \<lparr>cfg_local_shm_addr = 0x34110000, cfg_remote_shm_addr = 0x34120000, cfg_shm_size = 0x10000,
      cfg_inter_core_tx_irq = IPC_IRQ_NONE, cfg_inter_core_rx_irq = IPC_IRQ_NONE,
      cfg_local_core = \<lparr>lcore_type = IPC_CORE_DEFAULT, lcore_index = IPC_CORE_INDEX_0,
        lcore_trusted = core_mask IPC_CORE_INDEX_0 OR core_mask IPC_CORE_INDEX_1 OR core_mask IPC_CORE_INDEX_2 OR core_mask IPC_CORE_INDEX_3 OR core_mask IPC_CORE_INDEX_4 OR core_mask IPC_CORE_INDEX_5 OR core_mask IPC_CORE_INDEX_6 OR core_mask IPC_CORE_INDEX_7\<rparr>,
      cfg_remote_core = \<lparr>rcore_type = IPC_CORE_M7, rcore_index = IPC_CORE_INDEX_2\<rparr>,
      cfg_num_channels = 3, cfg_channels = Some (ipcf_shm_cfg_channels2_multi_user_s32g3 s)\<rparr>]"

definition ipcf_shm_instances_cfg_multi_user_s32g3 :: "cfg_symbols \<Rightarrow> ipc_shm_instances_cfg" where
  "ipcf_shm_instances_cfg_multi_user_s32g3 s = \<lparr>icfg_num_instances = 3, icfg_shm_cfg = Some (ipcf_shm_cfg_instances_multi_user_s32g3 s)\<rparr>"

section \<open>\<open>src/sample_multi_instance_user/ipcf_Ip_Cfg_s32r45.c\<close>\<close>

definition ipcf_shm_cfg_buf_pools0_1_multi_user_s32r45 :: "ipc_shm_pool_cfg list" where
  "ipcf_shm_cfg_buf_pools0_1_multi_user_s32r45 = [
     \<lparr>pcfg_num_bufs = 5, pcfg_buf_size = 32\<rparr>,
     \<lparr>pcfg_num_bufs = 5, pcfg_buf_size = 256\<rparr>,
     \<lparr>pcfg_num_bufs = 5, pcfg_buf_size = 4096\<rparr>]"

definition ipcf_shm_cfg_buf_pools0_2_multi_user_s32r45 :: "ipc_shm_pool_cfg list" where
  "ipcf_shm_cfg_buf_pools0_2_multi_user_s32r45 = [
     \<lparr>pcfg_num_bufs = 5, pcfg_buf_size = 32\<rparr>,
     \<lparr>pcfg_num_bufs = 5, pcfg_buf_size = 256\<rparr>,
     \<lparr>pcfg_num_bufs = 5, pcfg_buf_size = 4096\<rparr>]"

definition ipcf_shm_cfg_channels0_multi_user_s32r45 :: "cfg_symbols \<Rightarrow> ipc_shm_channel_cfg list" where
  "ipcf_shm_cfg_channels0_multi_user_s32r45 s = [
     \<lparr>ccfg_type = IPC_SHM_UNMANAGED, ccfg_managed = no_managed_cfg,
      ccfg_unmanaged = \<lparr>ucfg_size = 64, ucfg_rx_cb = ctrl_chan_rx_cb_ptr s, ucfg_cb_arg = rx_cb_arg_ptr s\<rparr>\<rparr>,
     \<lparr>ccfg_type = IPC_SHM_MANAGED, ccfg_managed = \<lparr>mcfg_num_pools = 3, mcfg_pools = Some ipcf_shm_cfg_buf_pools0_1_multi_user_s32r45,
      mcfg_rx_cb = data_chan_rx_cb_ptr s, mcfg_cb_arg = rx_cb_arg_ptr s\<rparr>, ccfg_unmanaged = no_unmanaged_cfg\<rparr>,
     \<lparr>ccfg_type = IPC_SHM_MANAGED, ccfg_managed = \<lparr>mcfg_num_pools = 3, mcfg_pools = Some ipcf_shm_cfg_buf_pools0_2_multi_user_s32r45,
      mcfg_rx_cb = data_chan_rx_cb_ptr s, mcfg_cb_arg = rx_cb_arg_ptr s\<rparr>, ccfg_unmanaged = no_unmanaged_cfg\<rparr>]"

definition ipcf_shm_cfg_buf_pools1_1_multi_user_s32r45 :: "ipc_shm_pool_cfg list" where
  "ipcf_shm_cfg_buf_pools1_1_multi_user_s32r45 = [
     \<lparr>pcfg_num_bufs = 5, pcfg_buf_size = 32\<rparr>,
     \<lparr>pcfg_num_bufs = 5, pcfg_buf_size = 256\<rparr>,
     \<lparr>pcfg_num_bufs = 5, pcfg_buf_size = 4096\<rparr>]"

definition ipcf_shm_cfg_buf_pools1_2_multi_user_s32r45 :: "ipc_shm_pool_cfg list" where
  "ipcf_shm_cfg_buf_pools1_2_multi_user_s32r45 = [
     \<lparr>pcfg_num_bufs = 5, pcfg_buf_size = 32\<rparr>,
     \<lparr>pcfg_num_bufs = 5, pcfg_buf_size = 256\<rparr>,
     \<lparr>pcfg_num_bufs = 5, pcfg_buf_size = 4096\<rparr>]"

definition ipcf_shm_cfg_channels1_multi_user_s32r45 :: "cfg_symbols \<Rightarrow> ipc_shm_channel_cfg list" where
  "ipcf_shm_cfg_channels1_multi_user_s32r45 s = [
     \<lparr>ccfg_type = IPC_SHM_UNMANAGED, ccfg_managed = no_managed_cfg,
      ccfg_unmanaged = \<lparr>ucfg_size = 64, ucfg_rx_cb = ctrl_chan_rx_cb_ptr s, ucfg_cb_arg = rx_cb_arg_ptr s\<rparr>\<rparr>,
     \<lparr>ccfg_type = IPC_SHM_MANAGED, ccfg_managed = \<lparr>mcfg_num_pools = 3, mcfg_pools = Some ipcf_shm_cfg_buf_pools1_1_multi_user_s32r45,
      mcfg_rx_cb = data_chan_rx_cb_ptr s, mcfg_cb_arg = rx_cb_arg_ptr s\<rparr>, ccfg_unmanaged = no_unmanaged_cfg\<rparr>,
     \<lparr>ccfg_type = IPC_SHM_MANAGED, ccfg_managed = \<lparr>mcfg_num_pools = 3, mcfg_pools = Some ipcf_shm_cfg_buf_pools1_2_multi_user_s32r45,
      mcfg_rx_cb = data_chan_rx_cb_ptr s, mcfg_cb_arg = rx_cb_arg_ptr s\<rparr>, ccfg_unmanaged = no_unmanaged_cfg\<rparr>]"

definition ipcf_shm_cfg_buf_pools2_1_multi_user_s32r45 :: "ipc_shm_pool_cfg list" where
  "ipcf_shm_cfg_buf_pools2_1_multi_user_s32r45 = [
     \<lparr>pcfg_num_bufs = 5, pcfg_buf_size = 32\<rparr>,
     \<lparr>pcfg_num_bufs = 5, pcfg_buf_size = 256\<rparr>,
     \<lparr>pcfg_num_bufs = 5, pcfg_buf_size = 4096\<rparr>]"

definition ipcf_shm_cfg_buf_pools2_2_multi_user_s32r45 :: "ipc_shm_pool_cfg list" where
  "ipcf_shm_cfg_buf_pools2_2_multi_user_s32r45 = [
     \<lparr>pcfg_num_bufs = 5, pcfg_buf_size = 32\<rparr>,
     \<lparr>pcfg_num_bufs = 5, pcfg_buf_size = 256\<rparr>,
     \<lparr>pcfg_num_bufs = 5, pcfg_buf_size = 4096\<rparr>]"

definition ipcf_shm_cfg_channels2_multi_user_s32r45 :: "cfg_symbols \<Rightarrow> ipc_shm_channel_cfg list" where
  "ipcf_shm_cfg_channels2_multi_user_s32r45 s = [
     \<lparr>ccfg_type = IPC_SHM_UNMANAGED, ccfg_managed = no_managed_cfg,
      ccfg_unmanaged = \<lparr>ucfg_size = 64, ucfg_rx_cb = ctrl_chan_rx_cb_ptr s, ucfg_cb_arg = rx_cb_arg_ptr s\<rparr>\<rparr>,
     \<lparr>ccfg_type = IPC_SHM_MANAGED, ccfg_managed = \<lparr>mcfg_num_pools = 3, mcfg_pools = Some ipcf_shm_cfg_buf_pools2_1_multi_user_s32r45,
      mcfg_rx_cb = data_chan_rx_cb_ptr s, mcfg_cb_arg = rx_cb_arg_ptr s\<rparr>, ccfg_unmanaged = no_unmanaged_cfg\<rparr>,
     \<lparr>ccfg_type = IPC_SHM_MANAGED, ccfg_managed = \<lparr>mcfg_num_pools = 3, mcfg_pools = Some ipcf_shm_cfg_buf_pools2_2_multi_user_s32r45,
      mcfg_rx_cb = data_chan_rx_cb_ptr s, mcfg_cb_arg = rx_cb_arg_ptr s\<rparr>, ccfg_unmanaged = no_unmanaged_cfg\<rparr>]"

definition ipcf_shm_cfg_instances_multi_user_s32r45 :: "cfg_symbols \<Rightarrow> ipc_shm_cfg list" where
  "ipcf_shm_cfg_instances_multi_user_s32r45 s = [
     \<lparr>cfg_local_shm_addr = 0x34100000, cfg_remote_shm_addr = 0x34200000, cfg_shm_size = 0x10000,
      cfg_inter_core_tx_irq = 2, cfg_inter_core_rx_irq = 1,
      cfg_local_core = \<lparr>lcore_type = IPC_CORE_DEFAULT, lcore_index = IPC_CORE_INDEX_0,
        lcore_trusted = core_mask IPC_CORE_INDEX_0 OR core_mask IPC_CORE_INDEX_1 OR core_mask IPC_CORE_INDEX_2 OR core_mask IPC_CORE_INDEX_3\<rparr>,
      cfg_remote_core = \<lparr>rcore_type = IPC_CORE_M7, rcore_index = IPC_CORE_INDEX_0\<rparr>,
      cfg_num_channels = 3, cfg_channels = Some (ipcf_shm_cfg_channels0_multi_user_s32r45 s)\<rparr>,
     \<lparr>cfg_local_shm_addr = 0x34080000, cfg_remote_shm_addr = 0x340C0000, cfg_shm_size = 0x10000,
      cfg_inter_core_tx_irq = IPC_IRQ_NONE, cfg_inter_core_rx_irq = 0,
      cfg_local_core = \<lparr>lcore_type = IPC_CORE_DEFAULT, lcore_index = IPC_CORE_INDEX_0,
        lcore_trusted = core_mask IPC_CORE_INDEX_0 OR core_mask IPC_CORE_INDEX_1 OR core_mask IPC_CORE_INDEX_2 OR core_mask IPC_CORE_INDEX_3\<rparr>,
      cfg_remote_core = \<lparr>rcore_type = IPC_CORE_M7, rcore_index = IPC_CORE_INDEX_1\<rparr>,
      cfg_num_channels = 3, cfg_channels = Some (ipcf_shm_cfg_channels1_multi_user_s32r45 s)\<rparr>,
     \<lparr>cfg_local_shm_addr = 0x34090000, cfg_remote_shm_addr = 0x340D0000, cfg_shm_size = 0x10000,
      cfg_inter_core_tx_irq = IPC_IRQ_NONE, cfg_inter_core_rx_irq = IPC_IRQ_NONE,
      cfg_local_core = \<lparr>lcore_type = IPC_CORE_DEFAULT, lcore_index = IPC_CORE_INDEX_0,
        lcore_trusted = core_mask IPC_CORE_INDEX_0 OR core_mask IPC_CORE_INDEX_1 OR core_mask IPC_CORE_INDEX_2 OR core_mask IPC_CORE_INDEX_3\<rparr>,
      cfg_remote_core = \<lparr>rcore_type = IPC_CORE_M7, rcore_index = IPC_CORE_INDEX_2\<rparr>,
      cfg_num_channels = 3, cfg_channels = Some (ipcf_shm_cfg_channels2_multi_user_s32r45 s)\<rparr>]"

definition ipcf_shm_instances_cfg_multi_user_s32r45 :: "cfg_symbols \<Rightarrow> ipc_shm_instances_cfg" where
  "ipcf_shm_instances_cfg_multi_user_s32r45 s = \<lparr>icfg_num_instances = 3, icfg_shm_cfg = Some (ipcf_shm_cfg_instances_multi_user_s32r45 s)\<rparr>"

section \<open>\<open>src/sample_multi_instance_user/ipcf_Ip_Cfg_s32r47.c\<close>\<close>

definition ipcf_shm_cfg_buf_pools0_1_multi_user_s32r47 :: "ipc_shm_pool_cfg list" where
  "ipcf_shm_cfg_buf_pools0_1_multi_user_s32r47 = [
     \<lparr>pcfg_num_bufs = 5, pcfg_buf_size = 32\<rparr>,
     \<lparr>pcfg_num_bufs = 5, pcfg_buf_size = 256\<rparr>,
     \<lparr>pcfg_num_bufs = 5, pcfg_buf_size = 4096\<rparr>]"

definition ipcf_shm_cfg_buf_pools0_2_multi_user_s32r47 :: "ipc_shm_pool_cfg list" where
  "ipcf_shm_cfg_buf_pools0_2_multi_user_s32r47 = [
     \<lparr>pcfg_num_bufs = 5, pcfg_buf_size = 32\<rparr>,
     \<lparr>pcfg_num_bufs = 5, pcfg_buf_size = 256\<rparr>,
     \<lparr>pcfg_num_bufs = 5, pcfg_buf_size = 4096\<rparr>]"

definition ipcf_shm_cfg_channels0_multi_user_s32r47 :: "cfg_symbols \<Rightarrow> ipc_shm_channel_cfg list" where
  "ipcf_shm_cfg_channels0_multi_user_s32r47 s = [
     \<lparr>ccfg_type = IPC_SHM_UNMANAGED, ccfg_managed = no_managed_cfg,
      ccfg_unmanaged = \<lparr>ucfg_size = 64, ucfg_rx_cb = ctrl_chan_rx_cb_ptr s, ucfg_cb_arg = rx_cb_arg_ptr s\<rparr>\<rparr>,
     \<lparr>ccfg_type = IPC_SHM_MANAGED, ccfg_managed = \<lparr>mcfg_num_pools = 3, mcfg_pools = Some ipcf_shm_cfg_buf_pools0_1_multi_user_s32r47,
      mcfg_rx_cb = data_chan_rx_cb_ptr s, mcfg_cb_arg = rx_cb_arg_ptr s\<rparr>, ccfg_unmanaged = no_unmanaged_cfg\<rparr>,
     \<lparr>ccfg_type = IPC_SHM_MANAGED, ccfg_managed = \<lparr>mcfg_num_pools = 3, mcfg_pools = Some ipcf_shm_cfg_buf_pools0_2_multi_user_s32r47,
      mcfg_rx_cb = data_chan_rx_cb_ptr s, mcfg_cb_arg = rx_cb_arg_ptr s\<rparr>, ccfg_unmanaged = no_unmanaged_cfg\<rparr>]"

definition ipcf_shm_cfg_buf_pools1_1_multi_user_s32r47 :: "ipc_shm_pool_cfg list" where
  "ipcf_shm_cfg_buf_pools1_1_multi_user_s32r47 = [
     \<lparr>pcfg_num_bufs = 5, pcfg_buf_size = 32\<rparr>,
     \<lparr>pcfg_num_bufs = 5, pcfg_buf_size = 256\<rparr>,
     \<lparr>pcfg_num_bufs = 5, pcfg_buf_size = 4096\<rparr>]"

definition ipcf_shm_cfg_buf_pools1_2_multi_user_s32r47 :: "ipc_shm_pool_cfg list" where
  "ipcf_shm_cfg_buf_pools1_2_multi_user_s32r47 = [
     \<lparr>pcfg_num_bufs = 5, pcfg_buf_size = 32\<rparr>,
     \<lparr>pcfg_num_bufs = 5, pcfg_buf_size = 256\<rparr>,
     \<lparr>pcfg_num_bufs = 5, pcfg_buf_size = 4096\<rparr>]"

definition ipcf_shm_cfg_channels1_multi_user_s32r47 :: "cfg_symbols \<Rightarrow> ipc_shm_channel_cfg list" where
  "ipcf_shm_cfg_channels1_multi_user_s32r47 s = [
     \<lparr>ccfg_type = IPC_SHM_UNMANAGED, ccfg_managed = no_managed_cfg,
      ccfg_unmanaged = \<lparr>ucfg_size = 64, ucfg_rx_cb = ctrl_chan_rx_cb_ptr s, ucfg_cb_arg = rx_cb_arg_ptr s\<rparr>\<rparr>,
     \<lparr>ccfg_type = IPC_SHM_MANAGED, ccfg_managed = \<lparr>mcfg_num_pools = 3, mcfg_pools = Some ipcf_shm_cfg_buf_pools1_1_multi_user_s32r47,
      mcfg_rx_cb = data_chan_rx_cb_ptr s, mcfg_cb_arg = rx_cb_arg_ptr s\<rparr>, ccfg_unmanaged = no_unmanaged_cfg\<rparr>,
     \<lparr>ccfg_type = IPC_SHM_MANAGED, ccfg_managed = \<lparr>mcfg_num_pools = 3, mcfg_pools = Some ipcf_shm_cfg_buf_pools1_2_multi_user_s32r47,
      mcfg_rx_cb = data_chan_rx_cb_ptr s, mcfg_cb_arg = rx_cb_arg_ptr s\<rparr>, ccfg_unmanaged = no_unmanaged_cfg\<rparr>]"

definition ipcf_shm_cfg_buf_pools2_1_multi_user_s32r47 :: "ipc_shm_pool_cfg list" where
  "ipcf_shm_cfg_buf_pools2_1_multi_user_s32r47 = [
     \<lparr>pcfg_num_bufs = 5, pcfg_buf_size = 32\<rparr>,
     \<lparr>pcfg_num_bufs = 5, pcfg_buf_size = 256\<rparr>,
     \<lparr>pcfg_num_bufs = 5, pcfg_buf_size = 4096\<rparr>]"

definition ipcf_shm_cfg_buf_pools2_2_multi_user_s32r47 :: "ipc_shm_pool_cfg list" where
  "ipcf_shm_cfg_buf_pools2_2_multi_user_s32r47 = [
     \<lparr>pcfg_num_bufs = 5, pcfg_buf_size = 32\<rparr>,
     \<lparr>pcfg_num_bufs = 5, pcfg_buf_size = 256\<rparr>,
     \<lparr>pcfg_num_bufs = 5, pcfg_buf_size = 4096\<rparr>]"

definition ipcf_shm_cfg_channels2_multi_user_s32r47 :: "cfg_symbols \<Rightarrow> ipc_shm_channel_cfg list" where
  "ipcf_shm_cfg_channels2_multi_user_s32r47 s = [
     \<lparr>ccfg_type = IPC_SHM_UNMANAGED, ccfg_managed = no_managed_cfg,
      ccfg_unmanaged = \<lparr>ucfg_size = 64, ucfg_rx_cb = ctrl_chan_rx_cb_ptr s, ucfg_cb_arg = rx_cb_arg_ptr s\<rparr>\<rparr>,
     \<lparr>ccfg_type = IPC_SHM_MANAGED, ccfg_managed = \<lparr>mcfg_num_pools = 3, mcfg_pools = Some ipcf_shm_cfg_buf_pools2_1_multi_user_s32r47,
      mcfg_rx_cb = data_chan_rx_cb_ptr s, mcfg_cb_arg = rx_cb_arg_ptr s\<rparr>, ccfg_unmanaged = no_unmanaged_cfg\<rparr>,
     \<lparr>ccfg_type = IPC_SHM_MANAGED, ccfg_managed = \<lparr>mcfg_num_pools = 3, mcfg_pools = Some ipcf_shm_cfg_buf_pools2_2_multi_user_s32r47,
      mcfg_rx_cb = data_chan_rx_cb_ptr s, mcfg_cb_arg = rx_cb_arg_ptr s\<rparr>, ccfg_unmanaged = no_unmanaged_cfg\<rparr>]"

definition ipcf_shm_cfg_instances_multi_user_s32r47 :: "cfg_symbols \<Rightarrow> ipc_shm_cfg list" where
  "ipcf_shm_cfg_instances_multi_user_s32r47 s = [
     \<lparr>cfg_local_shm_addr = 0x34000000, cfg_remote_shm_addr = 0x34080000, cfg_shm_size = 0x10000,
      cfg_inter_core_tx_irq = 0, cfg_inter_core_rx_irq = 1,
      cfg_local_core = \<lparr>lcore_type = IPC_CORE_DEFAULT, lcore_index = IPC_CORE_INDEX_0,
        lcore_trusted = core_mask IPC_CORE_INDEX_0 OR core_mask IPC_CORE_INDEX_1 OR core_mask IPC_CORE_INDEX_2 OR core_mask IPC_CORE_INDEX_3\<rparr>,
      cfg_remote_core = \<lparr>rcore_type = IPC_CORE_M7, rcore_index = IPC_CORE_INDEX_0\<rparr>,
      cfg_num_channels = 3, cfg_channels = Some (ipcf_shm_cfg_channels0_multi_user_s32r47 s)\<rparr>,
     \<lparr>cfg_local_shm_addr = 0x34010000, cfg_remote_shm_addr = 0x34090000, cfg_shm_size = 0x10000,
      cfg_inter_core_tx_irq = IPC_IRQ_NONE, cfg_inter_core_rx_irq = 2,
      cfg_local_core = \<lparr>lcore_type = IPC_CORE_DEFAULT, lcore_index = IPC_CORE_INDEX_0,
        lcore_trusted = core_mask IPC_CORE_INDEX_0 OR core_mask IPC_CORE_INDEX_1 OR core_mask IPC_CORE_INDEX_2 OR core_mask IPC_CORE_INDEX_3\<rparr>,
      cfg_remote_core = \<lparr>rcore_type = IPC_CORE_M7, rcore_index = IPC_CORE_INDEX_1\<rparr>,
      cfg_num_channels = 3, cfg_channels = Some (ipcf_shm_cfg_channels1_multi_user_s32r47 s)\<rparr>,
     \<lparr>cfg_local_shm_addr = 0x34020000, cfg_remote_shm_addr = 0x340A0000, cfg_shm_size = 0x10000,
      cfg_inter_core_tx_irq = IPC_IRQ_NONE, cfg_inter_core_rx_irq = IPC_IRQ_NONE,
      cfg_local_core = \<lparr>lcore_type = IPC_CORE_DEFAULT, lcore_index = IPC_CORE_INDEX_0,
        lcore_trusted = core_mask IPC_CORE_INDEX_0 OR core_mask IPC_CORE_INDEX_1 OR core_mask IPC_CORE_INDEX_2 OR core_mask IPC_CORE_INDEX_3\<rparr>,
      cfg_remote_core = \<lparr>rcore_type = IPC_CORE_M7, rcore_index = IPC_CORE_INDEX_2\<rparr>,
      cfg_num_channels = 3, cfg_channels = Some (ipcf_shm_cfg_channels2_multi_user_s32r47 s)\<rparr>]"

definition ipcf_shm_instances_cfg_multi_user_s32r47 :: "cfg_symbols \<Rightarrow> ipc_shm_instances_cfg" where
  "ipcf_shm_instances_cfg_multi_user_s32r47 s = \<lparr>icfg_num_instances = 3, icfg_shm_cfg = Some (ipcf_shm_cfg_instances_multi_user_s32r47 s)\<rparr>"

declare
  ipcf_shm_cfg_buf_pools0_1_multi_s32g2_def [cfg_defs]
  ipcf_shm_cfg_buf_pools0_2_multi_s32g2_def [cfg_defs]
  ipcf_shm_cfg_channels0_multi_s32g2_def [cfg_defs]
  ipcf_shm_cfg_buf_pools1_1_multi_s32g2_def [cfg_defs]
  ipcf_shm_cfg_buf_pools1_2_multi_s32g2_def [cfg_defs]
  ipcf_shm_cfg_channels1_multi_s32g2_def [cfg_defs]
  ipcf_shm_cfg_buf_pools2_1_multi_s32g2_def [cfg_defs]
  ipcf_shm_cfg_buf_pools2_2_multi_s32g2_def [cfg_defs]
  ipcf_shm_cfg_channels2_multi_s32g2_def [cfg_defs]
  ipcf_shm_cfg_instances_multi_s32g2_def [cfg_defs]
  ipcf_shm_instances_cfg_multi_s32g2_def [cfg_defs]
  ipcf_shm_cfg_buf_pools0_1_multi_s32g3_def [cfg_defs]
  ipcf_shm_cfg_buf_pools0_2_multi_s32g3_def [cfg_defs]
  ipcf_shm_cfg_channels0_multi_s32g3_def [cfg_defs]
  ipcf_shm_cfg_buf_pools1_1_multi_s32g3_def [cfg_defs]
  ipcf_shm_cfg_buf_pools1_2_multi_s32g3_def [cfg_defs]
  ipcf_shm_cfg_channels1_multi_s32g3_def [cfg_defs]
  ipcf_shm_cfg_buf_pools2_1_multi_s32g3_def [cfg_defs]
  ipcf_shm_cfg_buf_pools2_2_multi_s32g3_def [cfg_defs]
  ipcf_shm_cfg_channels2_multi_s32g3_def [cfg_defs]
  ipcf_shm_cfg_instances_multi_s32g3_def [cfg_defs]
  ipcf_shm_instances_cfg_multi_s32g3_def [cfg_defs]
  ipcf_shm_cfg_buf_pools0_1_multi_s32r45_def [cfg_defs]
  ipcf_shm_cfg_buf_pools0_2_multi_s32r45_def [cfg_defs]
  ipcf_shm_cfg_channels0_multi_s32r45_def [cfg_defs]
  ipcf_shm_cfg_buf_pools1_1_multi_s32r45_def [cfg_defs]
  ipcf_shm_cfg_buf_pools1_2_multi_s32r45_def [cfg_defs]
  ipcf_shm_cfg_channels1_multi_s32r45_def [cfg_defs]
  ipcf_shm_cfg_buf_pools2_1_multi_s32r45_def [cfg_defs]
  ipcf_shm_cfg_buf_pools2_2_multi_s32r45_def [cfg_defs]
  ipcf_shm_cfg_channels2_multi_s32r45_def [cfg_defs]
  ipcf_shm_cfg_instances_multi_s32r45_def [cfg_defs]
  ipcf_shm_instances_cfg_multi_s32r45_def [cfg_defs]
  ipcf_shm_cfg_buf_pools0_1_multi_s32r47_def [cfg_defs]
  ipcf_shm_cfg_buf_pools0_2_multi_s32r47_def [cfg_defs]
  ipcf_shm_cfg_channels0_multi_s32r47_def [cfg_defs]
  ipcf_shm_cfg_buf_pools1_1_multi_s32r47_def [cfg_defs]
  ipcf_shm_cfg_buf_pools1_2_multi_s32r47_def [cfg_defs]
  ipcf_shm_cfg_channels1_multi_s32r47_def [cfg_defs]
  ipcf_shm_cfg_buf_pools2_1_multi_s32r47_def [cfg_defs]
  ipcf_shm_cfg_buf_pools2_2_multi_s32r47_def [cfg_defs]
  ipcf_shm_cfg_channels2_multi_s32r47_def [cfg_defs]
  ipcf_shm_cfg_instances_multi_s32r47_def [cfg_defs]
  ipcf_shm_instances_cfg_multi_s32r47_def [cfg_defs]
  ipcf_shm_cfg_buf_pools0_1_multi_user_s32g2_def [cfg_defs]
  ipcf_shm_cfg_buf_pools0_2_multi_user_s32g2_def [cfg_defs]
  ipcf_shm_cfg_channels0_multi_user_s32g2_def [cfg_defs]
  ipcf_shm_cfg_buf_pools1_1_multi_user_s32g2_def [cfg_defs]
  ipcf_shm_cfg_buf_pools1_2_multi_user_s32g2_def [cfg_defs]
  ipcf_shm_cfg_channels1_multi_user_s32g2_def [cfg_defs]
  ipcf_shm_cfg_buf_pools2_1_multi_user_s32g2_def [cfg_defs]
  ipcf_shm_cfg_buf_pools2_2_multi_user_s32g2_def [cfg_defs]
  ipcf_shm_cfg_channels2_multi_user_s32g2_def [cfg_defs]
  ipcf_shm_cfg_instances_multi_user_s32g2_def [cfg_defs]
  ipcf_shm_instances_cfg_multi_user_s32g2_def [cfg_defs]
  ipcf_shm_cfg_buf_pools0_1_multi_user_s32g3_def [cfg_defs]
  ipcf_shm_cfg_buf_pools0_2_multi_user_s32g3_def [cfg_defs]
  ipcf_shm_cfg_channels0_multi_user_s32g3_def [cfg_defs]
  ipcf_shm_cfg_buf_pools1_1_multi_user_s32g3_def [cfg_defs]
  ipcf_shm_cfg_buf_pools1_2_multi_user_s32g3_def [cfg_defs]
  ipcf_shm_cfg_channels1_multi_user_s32g3_def [cfg_defs]
  ipcf_shm_cfg_buf_pools2_1_multi_user_s32g3_def [cfg_defs]
  ipcf_shm_cfg_buf_pools2_2_multi_user_s32g3_def [cfg_defs]
  ipcf_shm_cfg_channels2_multi_user_s32g3_def [cfg_defs]
  ipcf_shm_cfg_instances_multi_user_s32g3_def [cfg_defs]
  ipcf_shm_instances_cfg_multi_user_s32g3_def [cfg_defs]
  ipcf_shm_cfg_buf_pools0_1_multi_user_s32r45_def [cfg_defs]
  ipcf_shm_cfg_buf_pools0_2_multi_user_s32r45_def [cfg_defs]
  ipcf_shm_cfg_channels0_multi_user_s32r45_def [cfg_defs]
  ipcf_shm_cfg_buf_pools1_1_multi_user_s32r45_def [cfg_defs]
  ipcf_shm_cfg_buf_pools1_2_multi_user_s32r45_def [cfg_defs]
  ipcf_shm_cfg_channels1_multi_user_s32r45_def [cfg_defs]
  ipcf_shm_cfg_buf_pools2_1_multi_user_s32r45_def [cfg_defs]
  ipcf_shm_cfg_buf_pools2_2_multi_user_s32r45_def [cfg_defs]
  ipcf_shm_cfg_channels2_multi_user_s32r45_def [cfg_defs]
  ipcf_shm_cfg_instances_multi_user_s32r45_def [cfg_defs]
  ipcf_shm_instances_cfg_multi_user_s32r45_def [cfg_defs]
  ipcf_shm_cfg_buf_pools0_1_multi_user_s32r47_def [cfg_defs]
  ipcf_shm_cfg_buf_pools0_2_multi_user_s32r47_def [cfg_defs]
  ipcf_shm_cfg_channels0_multi_user_s32r47_def [cfg_defs]
  ipcf_shm_cfg_buf_pools1_1_multi_user_s32r47_def [cfg_defs]
  ipcf_shm_cfg_buf_pools1_2_multi_user_s32r47_def [cfg_defs]
  ipcf_shm_cfg_channels1_multi_user_s32r47_def [cfg_defs]
  ipcf_shm_cfg_buf_pools2_1_multi_user_s32r47_def [cfg_defs]
  ipcf_shm_cfg_buf_pools2_2_multi_user_s32r47_def [cfg_defs]
  ipcf_shm_cfg_channels2_multi_user_s32r47_def [cfg_defs]
  ipcf_shm_cfg_instances_multi_user_s32r47_def [cfg_defs]
  ipcf_shm_instances_cfg_multi_user_s32r47_def [cfg_defs]

end
