(* ===== verification/Sample_Fit.thy ===== *)
theory Sample_Fit
  imports Start_Props Sample_Multi_Cfg Hw_Props
begin

text \<open>
  The shipped configurations are ones that the driver and the hardware layers accept: every instance satisfies
  the hypotheses under which an instance starts, the memories of the instances of one file are apart, and
  the cores and interrupts are legal on the chip the file is for.
\<close>

section \<open>Memory\<close>

fun spans_apart :: "(nat \<times> nat) list \<Rightarrow> bool" where
  "spans_apart [] = True"
| "spans_apart ((a, n) # xs) = (list_all (\<lambda>(b, k). a + n \<le> b \<or> b + k \<le> a) xs \<and> spans_apart xs)"

definition shm_spans :: "ipc_shm_cfg \<Rightarrow> (nat \<times> nat) list" where
  "shm_spans cf = [(unat (cfg_local_shm_addr cf), unat (cfg_shm_size cf)), (unat (cfg_remote_shm_addr cf), unat (cfg_shm_size cf))]"

definition instances_ok :: "ipc_shm_instances_cfg \<Rightarrow> bool" where
  "instances_ok ic = (case icfg_shm_cfg ic of None \<Rightarrow> False
     | Some cfs \<Rightarrow> cfs \<noteq> [] \<and> length cfs \<le> IPC_SHM_MAX_INSTANCES \<and> unat (icfg_num_instances ic) = length cfs \<and>
         list_all cfg_fits cfs \<and> spans_apart (concat (map shm_spans cfs)) \<and>
         list_all (\<lambda>(a, n). a + n \<le> 2 ^ 32) (concat (map shm_spans cfs)))"

definition shipped_single :: "cfg_symbols \<Rightarrow> ipc_shm_instances_cfg list" where
  "shipped_single s = [
     ipcf_shm_instances_cfg_sample_s32g2 s, ipcf_shm_instances_cfg_sample_s32g3 s,
     ipcf_shm_instances_cfg_sample_s32r45 s, ipcf_shm_instances_cfg_sample_s32r47 s,
     ipcf_shm_instances_cfg_user_s32g2 s, ipcf_shm_instances_cfg_user_s32g3 s,
     ipcf_shm_instances_cfg_user_s32r45 s, ipcf_shm_instances_cfg_user_s32r47 s]"

definition shipped_xen :: "cfg_symbols \<Rightarrow> ipc_shm_instances_cfg list" where
  "shipped_xen s = [
     ipcf_shm_instances_cfg_dom0_s32g2 s, ipcf_shm_instances_cfg_dom0_s32g3 s, ipcf_shm_instances_cfg_dom0_s32r45 s,
     ipcf_shm_instances_cfg_dom0less_s32g2 s, ipcf_shm_instances_cfg_dom0less_s32g3 s, ipcf_shm_instances_cfg_dom0less_s32r45 s]"

definition shipped_multi :: "cfg_symbols \<Rightarrow> ipc_shm_instances_cfg list" where
  "shipped_multi s = [
     ipcf_shm_instances_cfg_multi_s32g2 s, ipcf_shm_instances_cfg_multi_s32g3 s,
     ipcf_shm_instances_cfg_multi_s32r45 s, ipcf_shm_instances_cfg_multi_s32r47 s,
     ipcf_shm_instances_cfg_multi_user_s32g2 s, ipcf_shm_instances_cfg_multi_user_s32g3 s,
     ipcf_shm_instances_cfg_multi_user_s32r45 s, ipcf_shm_instances_cfg_multi_user_s32r47 s]"

definition linked_in :: "cfg_symbols \<Rightarrow> bool" where
  "linked_in s \<longleftrightarrow> ctrl_chan_rx_cb_ptr s \<noteq> 0 \<and> data_chan_rx_cb_ptr s \<noteq> 0"

lemma single_fit: "linked_in s \<Longrightarrow> list_all instances_ok (shipped_single s)"
  by (simp add: shipped_single_def linked_in_def instances_ok_def shm_spans_def cfg_defs fit_defs IPC_SHM_MAX_INSTANCES_def)

lemma xen_fit: "linked_in s \<Longrightarrow> list_all instances_ok (shipped_xen s)"
  by (simp add: shipped_xen_def linked_in_def instances_ok_def shm_spans_def cfg_defs fit_defs IPC_SHM_MAX_INSTANCES_def)

lemma multi_fit: "linked_in s \<Longrightarrow> list_all instances_ok (shipped_multi s)"
  by (simp add: shipped_multi_def linked_in_def instances_ok_def shm_spans_def cfg_defs fit_defs IPC_SHM_MAX_INSTANCES_def)



section \<open>Cores and interrupts\<close>

definition g3_cfgs :: "cfg_symbols \<Rightarrow> ipc_shm_cfg list" where
  "g3_cfgs s = ipcf_shm_cfg_instances_sample_s32g3 s @ ipcf_shm_cfg_instances_user_s32g3 s @
     ipcf_shm_cfg_instances_multi_s32g3 s @ ipcf_shm_cfg_instances_multi_user_s32g3 s"

definition gen1_cfgs :: "cfg_symbols \<Rightarrow> ipc_shm_cfg list" where
  "gen1_cfgs s =
     ipcf_shm_cfg_instances_sample_s32g2 s @ ipcf_shm_cfg_instances_user_s32g2 s @
     ipcf_shm_cfg_instances_multi_s32g2 s @ ipcf_shm_cfg_instances_multi_user_s32g2 s @
     ipcf_shm_cfg_instances_sample_s32r45 s @ ipcf_shm_cfg_instances_user_s32r45 s @
     ipcf_shm_cfg_instances_multi_s32r45 s @ ipcf_shm_cfg_instances_multi_user_s32r45 s"

lemmas core_defs = local_core_idx_g3_def remote_core_idx_g3_def local_core_idx_gen1_def remote_core_idx_gen1_def
  IPC_DEFAULT_LOCAL_CORE_g3_def IPC_DEFAULT_LOCAL_CORE_gen1_def

lemma a53_num: "num < (4 :: u32) \<Longrightarrow> num \<noteq> 4 \<and> num \<noteq> 5 \<and> num \<noteq> 6 \<and> num \<noteq> 8 \<and> num \<noteq> 9 \<and> num \<noteq> 10 \<and> num \<noteq> 11"
  by auto

lemma g3_cfg_ok: "num < 4 \<Longrightarrow> list_all (\<lambda>cf. mscm_cfg_ok soc_g3 cf num) (g3_cfgs s)"
  by (drule a53_num) (simp add: g3_cfgs_def cfg_ok_g3 cfg_defs core_defs bit_trust_g3 IPC_IRQ_NONE_def)

lemma gen1_cfg_ok: "num < 4 \<Longrightarrow> list_all (\<lambda>cf. mscm_cfg_ok soc_gen1 cf num) (gen1_cfgs s)"
  by (drule a53_num) (simp add: gen1_cfgs_def mscm_cfg_ok_def soc_gen1_def irq_clash_def trust_refused_def trust_cores_gen1_def
      IPC_MSCM_IRCPCFG_A53_TR_gen1_def msi_tx_gen1_def msi_rx_gen1_def cfg_defs core_defs IPC_IRQ_NONE_def)

text \<open>
  On the chips with an MSCM, with registers that hold what is written to them, an unlocked interrupt
  router and the driver running on one of the first four A53 cores: the hardware layer of the S32G3 accepts every instance
  that is shipped for the S32G3, and that of the S32G2 and S32R45 every instance shipped for those.
\<close>

theorem shipped_hw_accepted:
  assumes "plain_regs M rd" "hw_exists i h" "addr \<noteq> 0" "rd (addr + 0x4) (hw_dev h) < 4" "\<not> bit (rd (addr + 0x400) (hw_dev h)) 31"
  shows "list_all (\<lambda>cf. \<exists>h'. ipc_hw_init_low_g3 M i cf addr h = Some (0, h')) (g3_cfgs s) \<and>
     list_all (\<lambda>cf. \<exists>h'. ipc_hw_init_low_gen1 M i cf addr h = Some (0, h')) (gen1_cfgs s)"
  using mscm_init_periph_accepts [OF assms(1-3) soc_g3_ok] mscm_init_periph_accepts [OF assms(1-3) soc_gen1_ok]
    g3_cfg_ok [OF assms(4), of s] gen1_cfg_ok [OF assms(4), of s] assms(5)
  by (simp add: ipc_hw_init_low_g3_def ipc_hw_init_low_gen1_def layout_g3_val layout_gen1_val lock_bit)

theorem shipped_hw_accepted_witness:
  "list_all (\<lambda>cf. \<exists>h'. ipc_hw_init_low_g3 (regfile 0) 1 cf 0x40198000 hw_demo_state = Some (0, h')) (g3_cfgs xen_symbols) \<and>
   list_all (\<lambda>cf. \<exists>h'. ipc_hw_init_low_gen1 (regfile 0) 1 cf 0x40198000 hw_demo_state = Some (0, h')) (gen1_cfgs xen_symbols)"
  by (rule shipped_hw_accepted [OF plain_regfile hw_demo_exists(1)]) (simp_all add: hw_demo_state_def)

end
