(* ===== verification/Sample_Str.thy ===== *)
theory Sample_Str
  imports Uio
begin

text \<open>
  C strings in memory, and the two conversions that the samples exchange message numbers with: \<open>%d\<close> of the
  \<open>printf\<close> family on the sender's side and \<open>ipc_strtol\<close> on the receiver's.
\<close>

section \<open>Strings\<close>

definition str_bytes :: "string \<Rightarrow> byte list" where
  "str_bytes xs = map (\<lambda>c. of_nat (of_char c)) xs"

lemma str_bytes_simps [simp]:
  "str_bytes [] = []" "str_bytes (c # xs) = of_nat (of_char c) # str_bytes xs" "str_bytes (xs @ ys) = str_bytes xs @ str_bytes ys"
  "length (str_bytes xs) = length xs"
  by (simp_all add: str_bytes_def)

text \<open>What \<open>%d\<close> prints.\<close>

definition print_int :: "int \<Rightarrow> string" where
  "print_int k = (if k < 0 then CHR ''-'' # decimal (nat (- k)) else decimal (nat k))"

text \<open>The text that the samples write to the control channel.\<close>

definition announcement :: "int \<Rightarrow> string" where
  "announcement n = ''SENDING MESSAGES: '' @ print_int n"

text \<open>Reading a string up to its terminating zero; a read of an unmapped address is a fault.\<close>

partial_function (option) c_str :: "memory \<Rightarrow> u64 \<Rightarrow> byte list option" where
  "c_str m a = do {
     b \<leftarrow> m a;
     if b = 0 then Some [] else do { bs \<leftarrow> c_str m (a + 1); Some (b # bs) } }"

text \<open>\<open>sprintf\<close> into an array of \<open>n\<close> bytes on the stack: it writes the text and its terminating zero, wherever the array ends.\<close>

definition sprintf_stack :: "nat \<Rightarrow> string \<Rightarrow> byte list option" where
  "sprintf_stack n xs = (if length xs + 1 \<le> n then Some (str_bytes xs) else None)"

text \<open>\<open>strcpy\<close> of a string without zeros.\<close>

definition strcpy :: "u64 \<Rightarrow> byte list \<Rightarrow> memory \<Rightarrow> memory option" where
  "strcpy dst bs m = store_bytes dst (bs @ [0]) m"

text \<open>\<open>strscpy\<close>: at most \<open>n\<close> bytes, the last one a zero.\<close>

definition strscpy :: "u64 \<Rightarrow> byte list \<Rightarrow> nat \<Rightarrow> memory \<Rightarrow> memory option" where
  "strscpy dst bs n m = (if n = 0 then Some m else store_bytes dst (take (n - 1) bs @ [0]) m)"

partial_function (option) strtol_loop :: "memory \<Rightarrow> u64 \<Rightarrow> u32 \<Rightarrow> u32 option" where
  "strtol_loop m src res = do {
     b \<leftarrow> m src;
     if 48 \<le> b \<and> b \<le> 57 then strtol_loop m (src + 1) (res * 10 + (ucast b - 48)) else Some res }"

definition ipc_strtol :: "memory \<Rightarrow> u64 \<Rightarrow> u32 option" where
  "ipc_strtol m src = strtol_loop m src 0"

section \<open>Numbers\<close>

fun digits_val :: "u32 \<Rightarrow> byte list \<Rightarrow> u32" where
  "digits_val r [] = r"
| "digits_val r (b # bs) = digits_val (r * 10 + (ucast b - 48)) bs"

definition is_digit :: "byte \<Rightarrow> bool" where
  "is_digit b \<longleftrightarrow> 48 \<le> b \<and> b \<le> 57"

lemma digit_char:
  assumes "k < 10"
  shows "is_digit (of_nat (of_char (char_of (48 + k :: nat) :: char)))" "(ucast (of_nat (of_char (char_of (48 + k :: nat) :: char)) :: byte) :: u32) = 48 + of_nat k"
proof -
  have "k \<in> {0, 1, 2, 3, 4, 5, 6, 7, 8, 9}" using assms by auto
  then show "is_digit (of_nat (of_char (char_of (48 + k :: nat) :: char)))"
    "(ucast (of_nat (of_char (char_of (48 + k :: nat) :: char)) :: byte) :: u32) = 48 + of_nat k"
    by (auto simp: is_digit_def)
qed

lemma digits_val_append: "digits_val r (xs @ ys) = digits_val (digits_val r xs) ys"
  by (induction xs arbitrary: r) simp_all

lemma decimal_digits: "list_all is_digit (str_bytes (decimal n))"
proof (induction n rule: decimal.induct)
  case (1 n)
  then show ?case using digit_char(1) [of n] digit_char(1) [of "n mod 10"] by (subst decimal.simps) simp
qed

lemma decimal_val: "digits_val 0 (str_bytes (decimal n)) = of_nat n"
proof (induction n rule: decimal.induct)
  case (1 n)
  show ?case
  proof (cases "n < 10")
    case True
    then show ?thesis using digit_char(2) [OF True] by (subst decimal.simps) simp
  next
    case False
    have "(of_nat (n div 10) * of_nat 10 + of_nat (n mod 10) :: u32) = of_nat (n div 10 * 10 + n mod 10)"
      by (simp only: of_nat_add of_nat_mult)
    then have "(of_nat (n div 10) * 10 + of_nat (n mod 10) :: u32) = of_nat n" by (simp only: div_mult_mod_eq) simp
    then show ?thesis using False 1 digit_char(2) [of "n mod 10"] by (subst decimal.simps) (simp add: digits_val_append)
  qed
qed

lemma decimal_length: "n < 10 ^ k \<Longrightarrow> 0 < k \<Longrightarrow> length (decimal n) \<le> k"
proof (induction n arbitrary: k rule: decimal.induct)
  case (1 n)
  show ?case
  proof (cases "n < 10")
    case True
    then show ?thesis using 1 by (subst decimal.simps) simp
  next
    case False
    then obtain j where j: "k = Suc j" "0 < j" using 1(2,3) by (cases k; cases "k - 1") auto
    then have "n div 10 < 10 ^ j" using 1(2) by (simp add: less_mult_imp_div_less mult.commute)
    then have "length (decimal (n div 10)) \<le> j" using 1(1) False j by blast
    then show ?thesis using False j by (subst decimal.simps) simp
  qed
qed

lemma decimal_length_ge: "10 ^ k \<le> n \<Longrightarrow> k < length (decimal n)"
proof (induction n arbitrary: k rule: decimal.induct)
  case (1 n)
  show ?case
  proof (cases "n < 10")
    case True
    then have "(10 :: nat) ^ k < 10 ^ 1" using 1(2) by simp
    then have "k = 0" by (simp only: power_strict_increasing_iff)
    then show ?thesis using True by (subst decimal.simps) simp
  next
    case False
    show ?thesis
    proof (cases k)
      case 0
      then show ?thesis using False by (subst decimal.simps) simp
    next
      case (Suc j)
      then have "10 ^ j \<le> n div 10" using 1(2) by (simp add: less_eq_div_iff_mult_less_eq mult.commute)
      then show ?thesis using 1(1) False Suc by (subst decimal.simps) simp
    qed
  qed
qed

lemma decimal_nonempty [simp]: "decimal n \<noteq> []"
  by (subst decimal.simps) simp

section \<open>Reading back\<close>

text \<open>The bytes of a list at an address.\<close>

definition holds :: "memory \<Rightarrow> u64 \<Rightarrow> byte list \<Rightarrow> bool" where
  "holds m a bs \<longleftrightarrow> (\<forall>i < length bs. m (a + of_nat i) = Some (bs ! i))"

lemma holds_Nil [simp]: "holds m a []"
  by (simp add: holds_def)

lemma holds_Cons: "holds m a (b # bs) \<longleftrightarrow> m a = Some b \<and> holds m (a + 1) bs"
  by (auto simp: holds_def All_less_Suc2 nth_Cons add.assoc add.commute add.left_commute split: nat.splits)

lemma holds_append: "holds m a (xs @ ys) \<longleftrightarrow> holds m a xs \<and> holds m (a + of_nat (length xs)) ys"
  by (induction xs arbitrary: a) (auto simp: holds_Cons add.assoc)

lemma store_holds:
  assumes "store_bytes a bs m = Some m'" "length bs < 2 ^ 64"
  shows "holds m' a bs"
  using assms by (auto simp: store_bytes_def holds_def unat_of_nat_small split: if_splits)

lemma strtol_holds:
  "holds m a (ds @ [b]) \<Longrightarrow> list_all is_digit ds \<Longrightarrow> \<not> is_digit b \<Longrightarrow> strtol_loop m a r = Some (digits_val r ds)"
proof (induction ds arbitrary: a r)
  case Nil
  then show ?case by (subst strtol_loop.simps) (auto simp: holds_Cons is_digit_def)
next
  case (Cons d ds)
  then have "strtol_loop m (a + 1) (r * 10 + (ucast d - 48)) = Some (digits_val (r * 10 + (ucast d - 48)) ds)"
    by (intro Cons.IH) (simp_all add: holds_Cons)
  then show ?case using Cons.prems by (subst strtol_loop.simps) (simp add: holds_Cons is_digit_def)
qed

lemma strtol_number:
  assumes "holds m a (str_bytes (decimal n) @ [b])" "\<not> is_digit b"
  shows "ipc_strtol m a = Some (of_nat n)"
  using strtol_holds [OF assms(1) decimal_digits assms(2)] decimal_val [of n] by (simp add: ipc_strtol_def)

lemma c_str_holds:
  "holds m a (bs @ [0]) \<Longrightarrow> 0 \<notin> set bs \<Longrightarrow> c_str m a = Some bs"
proof (induction bs arbitrary: a)
  case Nil
  then show ?case by (subst c_str.simps) (simp add: holds_Cons)
next
  case (Cons b bs)
  then show ?case by (subst c_str.simps) (simp add: holds_Cons)
qed

lemma holds_load:
  assumes "load_bytes m p (length bs) = Some bs"
  shows "holds m p bs"
  unfolding holds_def
proof (intro allI impI)
  fix i assume i: "i < length bs"
  from assms have "mapped m p (length bs)" and bs: "bs = map (\<lambda>i. the (m (p + of_nat i))) [0..<length bs]"
    by (simp_all add: load_bytes_def split: if_splits)
  then have "m (p + of_nat i) \<noteq> None" using i by (auto simp: mapped_def list_all_iff)
  moreover have "bs ! i = the (m (p + of_nat i))" using arg_cong [OF bs, of "\<lambda>xs. xs ! i"] i by simp
  ultimately show "m (p + of_nat i) = Some (bs ! i)" by auto
qed

end
