(* ===== verification/Sample_Loop.thy ===== *)
theory Sample_Loop
  imports Shm
begin

text \<open>
  The loops that the sample applications share: sending numbered messages around all data channels,
  retrying until a buffer is free, and polling until all replies are in. What a sample does in
  the loops is a record of functions; each sample has its own. The constants and the first lines of
  \<open>init_ipc_shm\<close> are the same in all samples too.
\<close>

definition CTRL_CHAN_ID :: int where "CTRL_CHAN_ID = 0"
definition CTRL_CHAN_SIZE :: nat where "CTRL_CHAN_SIZE = 64"
definition MAX_SAMPLE_MSG_LEN :: nat where "MAX_SAMPLE_MSG_LEN = 32"

text \<open>Between two attempts the rest of the system, the remote side among it, moves on: \<open>other\<close>.\<close>

partial_function (option) init_retry :: "('w shm_state \<Rightarrow> 'w shm_state) \<Rightarrow> 'w platform \<Rightarrow> ipc_shm_instances_cfg \<Rightarrow>
    'w shm_state \<Rightarrow> (int \<times> 'w shm_state) option" where
  "init_retry other P cfg st = do {
     (err, st1) \<leftarrow> ipc_shm_init P (Some cfg) st;
     if err = - EAGAIN then init_retry other P cfg (other st1) else Some (err, st1) }"

section \<open>Sending around the channels\<close>

record 's demo_code =
  dc_channels :: "'s \<Rightarrow> int"                                    \<comment> \<open>number of channels, the control channel included\<close>
  dc_sizes :: "'s \<Rightarrow> int"                                       \<comment> \<open>messages in a row on one channel\<close>
  dc_size :: "'s \<Rightarrow> nat \<Rightarrow> int option"                          \<comment> \<open>the size of each of them\<close>
  dc_send :: "int \<Rightarrow> int \<Rightarrow> int \<Rightarrow> 's \<Rightarrow> (int \<times> 's) option"     \<comment> \<open>size, message number, channel\<close>
  dc_last :: "'s \<Rightarrow> (int \<times> 's) option"                        \<comment> \<open>after the last message\<close>

text \<open>
  The three nested loops, with the place in the program as an argument: at the head of the
  outer loop, of the loop over the channels, or of the loop over the message sizes.
\<close>

datatype demo_pos = At_msgs | At_chan int | At_size int nat

partial_function (option) demo_loop :: "'s demo_code \<Rightarrow> int \<Rightarrow> demo_pos \<Rightarrow> int \<Rightarrow> 's \<Rightarrow> (int \<times> 's) option" where
  "demo_loop D num_msgs pos msg st = (case pos of
     At_msgs \<Rightarrow> if msg < num_msgs then demo_loop D num_msgs (At_chan (CTRL_CHAN_ID + 1)) msg st else Some (0, st)
   | At_chan ch \<Rightarrow>
       if ch < dc_channels D st then demo_loop D num_msgs (At_size ch 0) msg st
       else demo_loop D num_msgs At_msgs msg st
   | At_size ch i \<Rightarrow>
       if int i < dc_sizes D st then do {
         len \<leftarrow> dc_size D st i;
         (err, st1) \<leftarrow> dc_send D len msg ch st;
         if err \<noteq> 0 then Some (err, st1)
         else if msg + 1 = num_msgs then dc_last D st1
         else demo_loop D num_msgs (At_size ch (i + 1)) (msg + 1) st1 }
       else demo_loop D num_msgs (At_chan (ch + 1)) msg st)"

text \<open>The loop over a plan: send each message, stop at the first error.\<close>

fun send_plan :: "'s demo_code \<Rightarrow> (int \<times> int \<times> int) list \<Rightarrow> 's \<Rightarrow> (int \<times> 's) option" where
  "send_plan D [] st = dc_last D st"
| "send_plan D ((msg, ch, len) # xs) st = do {
     (err, st1) \<leftarrow> dc_send D len msg ch st;
     if err \<noteq> 0 then Some (err, st1) else send_plan D xs st1 }"

text \<open>Message \<open>k\<close> goes to the next size of the next channel, around all of them.\<close>

definition demo_item :: "nat \<Rightarrow> int list \<Rightarrow> nat \<Rightarrow> int \<times> int \<times> int" where
  "demo_item c szs k = (int k, 1 + int ((k div length szs) mod c), szs ! (k mod length szs))"

definition demo_plan :: "nat \<Rightarrow> int list \<Rightarrow> nat \<Rightarrow> (int \<times> int \<times> int) list" where
  "demo_plan c szs n = map (demo_item c szs) [0..<n]"

definition planned :: "'s demo_code \<Rightarrow> nat \<Rightarrow> int list \<Rightarrow> int \<Rightarrow> 's \<Rightarrow> (int \<times> 's) option" where
  "planned D c szs n st = (if n \<le> 0 then Some (0, st) else send_plan D (demo_plan c szs (nat n)) st)"

lemma demo_plan_drop: "k < n \<Longrightarrow> drop k (demo_plan c szs n) = demo_item c szs k # drop (Suc k) (demo_plan c szs n)"
  by (simp add: demo_plan_def Cons_nth_drop_Suc [symmetric])

text \<open>
  What the loops rely on: in the good states there are \<open>c\<close> data channels and the sizes \<open>szs\<close>, and sending leads from good
  states to good states.
\<close>

locale demo_contract =
  fixes D :: "'s demo_code" and good :: "'s \<Rightarrow> bool" and c :: nat and szs :: "int list"
  assumes good_some: "good s \<Longrightarrow> 0 < c \<and> szs \<noteq> []"
    and good_channels: "good s \<Longrightarrow> dc_channels D s = int c + 1"
    and good_sizes: "good s \<Longrightarrow> dc_sizes D s = int (length szs)"
    and good_size: "good s \<Longrightarrow> i < length szs \<Longrightarrow> dc_size D s i = Some (szs ! i)"
    and good_send: "good s \<Longrightarrow> dc_send D len msg ch s = Some (e, s') \<Longrightarrow> good s'"
begin

lemma demo_next:
  assumes g: "good st" and k: "k < n"
  shows "demo_loop D (int n) (At_size (1 + int ((k div length szs) mod c)) (k mod length szs)) (int k) st =
     do { (err, st1) \<leftarrow> dc_send D (szs ! (k mod length szs)) (int k) (1 + int ((k div length szs) mod c)) st;
          if err \<noteq> 0 then Some (err, st1) else if k + 1 = n then dc_last D st1
          else demo_loop D (int n) (At_size (1 + int ((k div length szs) mod c)) (k mod length szs + 1)) (int k + 1) st1 }"
  using good_some [OF g] good_sizes [OF g] good_size [OF g, of "k mod length szs"] k
  by (subst demo_loop.simps) (auto split: Option.bind_split)

lemma demo_wrap:
  assumes g: "good st" and k: "Suc k < n" and last: "k mod length szs + 1 = length szs"
  shows "demo_loop D (int n) (At_chan (2 + int (k div length szs mod c))) (int k + 1) st =
     demo_loop D (int n) (At_size (1 + int (Suc (k div length szs) mod c)) 0) (int k + 1) st"
proof (cases "Suc (k div length szs mod c) = c")
  case True
  then have "Suc (k div length szs) mod c = 0" by (simp add: mod_Suc)
  moreover have "demo_loop D (int n) (At_chan (2 + int (k div length szs mod c))) (int k + 1) st = demo_loop D (int n) At_msgs (int k + 1) st"
    using good_channels [OF g] True by (subst demo_loop.simps) simp
  moreover have "demo_loop D (int n) At_msgs (int k + 1) st = demo_loop D (int n) (At_chan 1) (int k + 1) st"
    using k by (subst demo_loop.simps) (simp add: CTRL_CHAN_ID_def)
  moreover have "demo_loop D (int n) (At_chan 1) (int k + 1) st = demo_loop D (int n) (At_size 1 0) (int k + 1) st"
    using good_channels [OF g] good_some [OF g] by (subst demo_loop.simps) simp
  ultimately show ?thesis by simp
next
  case False
  have "k div length szs mod c < c" using good_some [OF g] by simp
  with False have lt: "Suc (k div length szs mod c) < c" "Suc (k div length szs) mod c = Suc (k div length szs mod c)" by (simp_all add: mod_Suc)
  then show ?thesis using good_channels [OF g] by (subst demo_loop.simps) (simp add: add.commute)
qed

lemma demo_advance:
  assumes g: "good st" and k: "Suc k < n"
  shows "demo_loop D (int n) (At_size (1 + int ((k div length szs) mod c)) (k mod length szs + 1)) (int k + 1) st =
     demo_loop D (int n) (At_size (1 + int ((Suc k div length szs) mod c)) (Suc k mod length szs)) (int k + 1) st"
proof (cases "k mod length szs + 1 = length szs")
  case False
  then have "Suc k mod length szs = k mod length szs + 1" "Suc k div length szs = k div length szs"
    by (simp_all add: mod_Suc div_Suc)
  then show ?thesis by simp
next
  case True
  then have s: "Suc k mod length szs = 0" "Suc k div length szs = Suc (k div length szs)" by (simp_all add: mod_Suc div_Suc)
  have "demo_loop D (int n) (At_size (1 + int (k div length szs mod c)) (k mod length szs + 1)) (int k + 1) st =
      demo_loop D (int n) (At_chan (2 + int (k div length szs mod c))) (int k + 1) st"
    using good_sizes [OF g] True by (subst demo_loop.simps) simp
  then show ?thesis using demo_wrap [OF g k True] s by simp
qed

lemma demo_loop_plan:
  assumes "good st" "k < n"
  shows "demo_loop D (int n) (At_size (1 + int ((k div length szs) mod c)) (k mod length szs)) (int k) st =
     send_plan D (drop k (demo_plan c szs n)) st"
  using assms
proof (induction "n - k" arbitrary: k st)
  case (Suc x)
  let ?send = "dc_send D (szs ! (k mod length szs)) (int k) (1 + int ((k div length szs) mod c)) st"
  show ?case
  proof (cases ?send)
    case None
    then show ?thesis using Suc.prems by (simp add: demo_next demo_plan_drop demo_item_def)
  next
    case (Some r)
    then obtain err st1 where r: "?send = Some (err, st1)" by (cases r) auto
    note g1 = good_send [OF Suc.prems(1) r]
    show ?thesis
    proof (cases "Suc k = n")
      case True
      then show ?thesis using Suc.prems r by (simp add: demo_next demo_plan_drop demo_item_def) (simp add: demo_plan_def)
    next
      case False
      then have k: "Suc k < n" and x: "x = n - Suc k" using Suc.prems(2) Suc.hyps(2) by simp_all
      have "demo_loop D (int n) (At_size (1 + int ((Suc k div length szs) mod c)) (Suc k mod length szs)) (int k + 1) st1 =
          send_plan D (drop (Suc k) (demo_plan c szs n)) st1" using Suc.hyps(1) [OF x g1 k] by (simp add: add.commute)
      then show ?thesis using Suc.prems r False demo_advance [OF g1 k] by (simp add: demo_next demo_plan_drop demo_item_def)
    qed
  qed
qed simp

lemma demo_loop_start:
  assumes g: "good st"
  shows "demo_loop D n At_msgs 0 st = planned D c szs n st"
proof (cases "0 < n")
  case False
  then show ?thesis by (subst demo_loop.simps) (simp add: planned_def)
next
  case True
  then have "demo_loop D n At_msgs 0 st = demo_loop D n (At_chan 1) 0 st" by (subst demo_loop.simps) (simp add: CTRL_CHAN_ID_def)
  also have "\<dots> = demo_loop D n (At_size 1 0) 0 st" using good_channels [OF g] good_some [OF g] by (subst demo_loop.simps) simp
  also have "\<dots> = send_plan D (demo_plan c szs (nat n)) st" using demo_loop_plan [OF g, of 0 "nat n"] True by simp
  finally show ?thesis using True by (simp add: planned_def)
qed

end

section \<open>No data channels\<close>

lemma demo_spins:
  assumes "demo_loop D n pos msg st = Some r"
  shows "\<not> ((pos = At_msgs \<or> pos = At_chan 1) \<and> msg < n \<and> dc_channels D st \<le> 1)"
proof -
  have "(\<lambda>((((D, n), pos), msg), st) r. \<not> ((pos = At_msgs \<or> pos = At_chan 1) \<and> msg < n \<and> dc_channels D st \<le> 1))
      ((((D, n), pos), msg), st) r"
    by (rule demo_loop.raw_induct [OF _ assms]) (auto simp: CTRL_CHAN_ID_def, blast+)
  then show ?thesis by simp
qed

section \<open>Waiting\<close>

text \<open>Repeat an attempt until it gives something other than 0.\<close>

partial_function (option) retry :: "('s \<Rightarrow> ('r :: zero \<times> 's) option) \<Rightarrow> ('s \<Rightarrow> 's) \<Rightarrow> 's \<Rightarrow> ('r \<times> 's) option" where
  "retry f other st = do {
     (r, st1) \<leftarrow> f st;
     if r = 0 then retry f other (other st1) else Some (r, st1) }"

text \<open>Poll as long as a condition holds.\<close>

partial_function (option) poll_while :: "('s \<Rightarrow> bool) \<Rightarrow> ('s \<Rightarrow> 's option) \<Rightarrow> 's \<Rightarrow> 's option" where
  "poll_while waits poll st = (if waits st then do { st1 \<leftarrow> poll st; poll_while waits poll st1 } else Some st)"

lemma poll_while_done:
  assumes "poll_while waits poll st = Some st'"
  shows "\<not> waits st'"
proof -
  have "(\<lambda>((waits, poll), st) st'. \<not> waits st') ((waits, poll), st) st'"
    by (rule poll_while.raw_induct [OF _ assms]) (auto split: if_splits Option.bind_splits)
  then show ?thesis by simp
qed

lemma poll_while_keeps:
  assumes "poll_while waits poll st = Some st'" "I st" and step: "\<And>s s'. I s \<Longrightarrow> waits s \<Longrightarrow> poll s = Some s' \<Longrightarrow> I s'"
  shows "I st'"
proof -
  define keeps where "keeps w p \<longleftrightarrow> (\<forall>s s'. I s \<longrightarrow> w s \<longrightarrow> p s = Some s' \<longrightarrow> I s')" for w p
  have "(\<lambda>((w, p), s) s'. keeps w p \<longrightarrow> I s \<longrightarrow> I s') ((waits, poll), st) st'"
    by (rule poll_while.raw_induct [OF _ assms(1)]) (auto split: if_splits Option.bind_splits, metis keeps_def)
  then have "keeps waits poll \<longrightarrow> I st \<longrightarrow> I st'" by (simp only: prod.case)
  moreover have "keeps waits poll" using step unfolding keeps_def by blast
  ultimately show ?thesis using assms(2) by blast
qed

lemma retry_keeps:
  assumes "retry f other st = Some (r, st')" "I st" and step: "\<And>s r s'. I s \<Longrightarrow> f s = Some (r, s') \<Longrightarrow> I s'" and rest: "\<And>s. I s \<Longrightarrow> I (other s)"
  shows "I st'"
proof -
  define keeps where "keeps g h \<longleftrightarrow> (\<forall>s r s'. I s \<longrightarrow> g s = Some (r, s') \<longrightarrow> I s') \<and> (\<forall>s. I s \<longrightarrow> I (h s))" for g :: "'b \<Rightarrow> ('a \<times> 'b) option" and h
  have "(\<lambda>((g, h), s) y. keeps g h \<longrightarrow> I s \<longrightarrow> I (snd y)) ((f, other), st) (r, st')"
    by (rule retry.raw_induct [OF _ assms(1)]) (auto split: if_splits Option.bind_splits, metis keeps_def snd_conv, metis keeps_def)
  then have "keeps f other \<longrightarrow> I st \<longrightarrow> I st'" by (simp only: prod.case snd_conv)
  moreover have "keeps f other" using step rest unfolding keeps_def by blast
  ultimately show ?thesis using assms(2) by blast
qed

end
