(* ===== verification/Sample_App.thy ===== *)
theory Sample_App
  imports Sample_Str Sample_Cfg Sample_Loop
begin

text \<open>
  The kernel sample application \<open>src/sample/sample.c\<close>: it initialises the driver with the generated
  configuration, sends numbered messages to the remote application on request through sysfs and checks that
  each one is echoed. Its static data are a record in the environment of the driver's state, so that the
  receive callbacks, which run inside the driver, can reach them. What the kernel provides is a record of
  functions: sysfs, memory regions, and \<open>sl_block\<close>, what happens while the thread waits for a reply
  (interrupts, and with them the receive path; \<open>None\<close> if it waits for ever). \<open>sl_other\<close> is what the remote side does
  to the shared memory between two attempts. Printing is left out, except that \<open>%s\<close> reads its argument.
\<close>

section \<open>Static data\<close>

definition ERESTARTSYS :: int where "ERESTARTSYS = 512"

record ipc_sample_app =
  ap_num_channels :: int
  ap_num_msgs :: int
  ap_ctrl_shm :: u64
  ap_last_rx_no_msg :: int
  ap_ipc_kobj :: u64
  ap_ping_attr :: string
  ap_instance :: u8
  ap_local_virt_shm :: u64

record sample_world =
  sw_app :: ipc_sample_app
  sw_msg_sizes :: "int list"
  sw_msg_sizes_argc :: int
  sw_reply_received :: nat      \<comment> \<open>the counter of the completion\<close>

type_synonym 'o sample_state = "'o sample_world_scheme shm_state"

record 'w kernel_api =
  sl_block :: "'w shm_state \<Rightarrow> (bool \<times> 'w shm_state) option"
  sl_other :: "'w shm_state \<Rightarrow> 'w shm_state"
  sl_kobject_create_and_add :: "string \<Rightarrow> 'w \<Rightarrow> u64 \<times> 'w"
  sl_sysfs_create_file :: "u64 \<Rightarrow> string \<Rightarrow> 'w \<Rightarrow> int \<times> 'w"
  sl_kobject_put :: "u64 \<Rightarrow> 'w \<Rightarrow> 'w"
  sl_kstrtoint :: "string \<Rightarrow> int \<times> int"
  sl_request_mem_region :: "u64 \<Rightarrow> u32 \<Rightarrow> 'w \<Rightarrow> bool \<times> 'w"
  sl_release_mem_region :: "u64 \<Rightarrow> u32 \<Rightarrow> 'w \<Rightarrow> 'w"
  sl_ioremap :: "u64 \<Rightarrow> u32 \<Rightarrow> 'w shm_state \<Rightarrow> u64 \<times> 'w shm_state"
  sl_iounmap :: "u64 \<Rightarrow> 'w shm_state \<Rightarrow> 'w shm_state"

type_synonym 'o sample_linux = "'o sample_world_scheme kernel_api"

definition app :: "'o sample_state \<Rightarrow> ipc_sample_app" where
  "app st = sw_app (st_env st)"

definition upd_world :: "('w \<Rightarrow> 'w) \<Rightarrow> 'w shm_state \<Rightarrow> 'w shm_state" where
  "upd_world f st = st\<lparr>st_env := f (st_env st)\<rparr>"

definition upd_app :: "(ipc_sample_app \<Rightarrow> ipc_sample_app) \<Rightarrow> 'o sample_state \<Rightarrow> 'o sample_state" where
  "upd_app f = upd_world (\<lambda>w. w\<lparr>sw_app := f (sw_app w)\<rparr>)"

text \<open>A kernel call with a result.\<close>

definition world_call :: "('w \<Rightarrow> 'r \<times> 'w) \<Rightarrow> 'w shm_state \<Rightarrow> 'r \<times> 'w shm_state" where
  "world_call f st = (case f (st_env st) of (r, w) \<Rightarrow> (r, st\<lparr>st_env := w\<rparr>))"

section \<open>Initialisation\<close>

definition init_ipc_shm :: "'o sample_linux \<Rightarrow> 'o sample_world_scheme platform \<Rightarrow> ipc_shm_instances_cfg \<Rightarrow>
    'o sample_state \<Rightarrow> (int \<times> 'o sample_state) option" where
  "init_ipc_shm L P cfg st = do {
     (err, st1) \<leftarrow> init_retry (sl_other L) P cfg st;
     if err \<noteq> 0 then Some (err, st1)
     else do {
       cf \<leftarrow> elem_ptr (icfg_shm_cfg cfg) 0;
       c0 \<leftarrow> cf;
       let st2 = upd_app (\<lambda>a. a\<lparr>ap_num_channels := uint (cfg_num_channels c0)\<rparr>) st1;
       shm \<leftarrow> ipc_shm_unmanaged_acquire (ap_instance (app st2)) (word_of_int CTRL_CHAN_ID) st2;
       let st3 = upd_app (\<lambda>a. a\<lparr>ap_ctrl_shm := shm\<rparr>) st2;
       if shm = 0 then Some (- ENOMEM, st3) else Some (0, st3) } }"

section \<open>Receive callbacks\<close>

definition complete_reply :: "'o sample_state \<Rightarrow> 'o sample_state" where
  "complete_reply = upd_world (\<lambda>w. w\<lparr>sw_reply_received := sw_reply_received w + 1\<rparr>)"

text \<open>The argument is the address of \<open>rx_cb_arg\<close>, which holds the address of \<open>app\<close>; anything else is a wild pointer.\<close>

definition data_chan_rx_cb :: "cfg_symbols \<Rightarrow> u64 \<Rightarrow> u8 \<Rightarrow> u8 \<Rightarrow> u64 \<Rightarrow> u32 \<Rightarrow> 'o sample_state \<Rightarrow> 'o sample_state option" where
  "data_chan_rx_cb s arg inst chan_id buf data_size st =
     (if arg \<noteq> rx_cb_arg_ptr s then None
      else do {
        printed \<leftarrow> c_str (st_mem st) buf;
        n \<leftarrow> ipc_strtol (st_mem st) (buf + 1);
        let st1 = upd_app (\<lambda>a. a\<lparr>ap_last_rx_no_msg := sint n\<rparr>) st;
        (err, st2) \<leftarrow> ipc_shm_release_buf inst chan_id buf st1;
        Some (complete_reply st2) })"

definition ctrl_chan_rx_cb :: "cfg_symbols \<Rightarrow> u64 \<Rightarrow> u8 \<Rightarrow> u8 \<Rightarrow> u64 \<Rightarrow> 'o sample_state \<Rightarrow> 'o sample_state option" where
  "ctrl_chan_rx_cb s arg inst chan_id mem st =
     (if arg \<noteq> rx_cb_arg_ptr s then None
      else do {
        printed \<leftarrow> c_str (st_mem st) mem;
        Some st })"

text \<open>The platform with the application's callbacks linked in; a call of any other address is a fault.\<close>

definition link_sample :: "cfg_symbols \<Rightarrow> 'o sample_world_scheme platform \<Rightarrow> 'o sample_world_scheme platform" where
  "link_sample s P = P\<lparr>
     app_rx_cb := \<lambda>cb arg i c buf n st. if cb = data_chan_rx_cb_ptr s then data_chan_rx_cb s arg i c buf n st else None,
     app_umng_rx_cb := \<lambda>cb arg i c mem st. if cb = ctrl_chan_rx_cb_ptr s then ctrl_chan_rx_cb s arg i c mem st else None\<rparr>"

section \<open>Sending\<close>

definition send_ctrl_msg :: "'o sample_world_scheme platform \<Rightarrow> u8 \<Rightarrow> 'o sample_state \<Rightarrow> (int \<times> 'o sample_state) option" where
  "send_ctrl_msg P inst st = do {
     tmp \<leftarrow> sprintf_stack CTRL_CHAN_SIZE (announcement (ap_num_msgs (app st)));
     m \<leftarrow> strcpy (ap_ctrl_shm (app st)) tmp (st_mem st);
     (err, st1) \<leftarrow> ipc_shm_unmanaged_tx P inst (word_of_int CTRL_CHAN_ID) (st\<lparr>st_mem := m\<rparr>);
     if err \<noteq> 0 then Some (err, st1) else Some (0, st1) }"

definition kernel_text :: "int \<Rightarrow> string" where
  "kernel_text msg_no = ''#'' @ print_int msg_no @ '' HELLO WORLD! from KERNEL''"

text \<open>The length of the destination is a parameter that is not used.\<close>

definition generate_msg :: "u64 \<Rightarrow> int \<Rightarrow> int \<Rightarrow> memory \<Rightarrow> memory option" where
  "generate_msg s len msg_no m = do {
     tmp \<leftarrow> sprintf_stack MAX_SAMPLE_MSG_LEN (kernel_text msg_no);
     strcpy s tmp m }"

text \<open>The wait: the thread sleeps until the counter of the completion is positive or a signal arrives.\<close>

definition wait_for_completion_interruptible :: "'o sample_linux \<Rightarrow> 'o sample_state \<Rightarrow> (int \<times> 'o sample_state) option" where
  "wait_for_completion_interruptible L st = (let taken = upd_world (\<lambda>w. w\<lparr>sw_reply_received := sw_reply_received w - 1\<rparr>) in
     if 0 < sw_reply_received (st_env st) then Some (0, taken st)
     else do {
       (signal, st1) \<leftarrow> sl_block L st;
       if signal then Some (- ERESTARTSYS, st1)
       else if 0 < sw_reply_received (st_env st1) then Some (0, taken st1)
       else None })"

definition send_data_msg :: "'o sample_linux \<Rightarrow> 'o sample_world_scheme platform \<Rightarrow> u8 \<Rightarrow> int \<Rightarrow> int \<Rightarrow> int \<Rightarrow>
    'o sample_state \<Rightarrow> (int \<times> 'o sample_state) option" where
  "send_data_msg L P inst msg_len msg_no chan_id st = do {
     (buf, st1) \<leftarrow> ipc_shm_acquire_buf P inst (word_of_int chan_id) (word_of_int msg_len) st;
     if buf = 0 then Some (- ENOMEM, st1)
     else do {
       m \<leftarrow> generate_msg buf msg_len msg_no (st_mem st1);
       printed \<leftarrow> c_str m buf;
       (err, st2) \<leftarrow> ipc_shm_tx P inst chan_id buf (word_of_int msg_len) (st1\<lparr>st_mem := m\<rparr>);
       if err \<noteq> 0 then Some (err, st2)
       else do {
         (err, st3) \<leftarrow> wait_for_completion_interruptible L st2;
         if err = - ERESTARTSYS then Some (err, st3)
         else if ap_last_rx_no_msg (app st3) \<noteq> msg_no then Some (- EINVAL, st3)
         else Some (0, st3) } } }"

section \<open>The demo\<close>

definition sample_demo :: "'o sample_linux \<Rightarrow> 'o sample_world_scheme platform \<Rightarrow> 'o sample_state demo_code" where
  "sample_demo L P = \<lparr>
     dc_channels = \<lambda>st. ap_num_channels (app st),
     dc_sizes = \<lambda>st. sw_msg_sizes_argc (st_env st),
     dc_size = \<lambda>st i. nth_opt (sw_msg_sizes (st_env st)) i,
     dc_send = \<lambda>len msg ch st. send_data_msg L P (ap_instance (app st)) len msg ch st,
     dc_last = \<lambda>st. Some (0, st)\<rparr>"

definition run_demo :: "'o sample_linux \<Rightarrow> 'o sample_world_scheme platform \<Rightarrow> int \<Rightarrow> 'o sample_state \<Rightarrow> (int \<times> 'o sample_state) option" where
  "run_demo L P num_msgs st = do {
     (err, st1) \<leftarrow> send_ctrl_msg P (ap_instance (app st)) st;
     if err \<noteq> 0 then Some (err, st1) else demo_loop (sample_demo L P) num_msgs At_msgs 0 st1 }"

section \<open>The sysfs interface and the module\<close>

text \<open>The first argument is the name of the attribute that was opened.\<close>

definition ipc_sysfs_show :: "string \<Rightarrow> 'o sample_state \<Rightarrow> string" where
  "ipc_sysfs_show attr st = (let value = (if attr = ap_ping_attr (app st) then ap_num_msgs (app st) else 0) in
     print_int value @ [CHR 0x0A])"

definition ipc_sysfs_store :: "'o sample_linux \<Rightarrow> 'o sample_world_scheme platform \<Rightarrow> string \<Rightarrow> string \<Rightarrow> int \<Rightarrow>
    'o sample_state \<Rightarrow> (int \<times> 'o sample_state) option" where
  "ipc_sysfs_store L P attr buf count st = (case sl_kstrtoint L buf of (err, value) \<Rightarrow>
     if err \<noteq> 0 then Some (err, st)
     else if attr = ap_ping_attr (app st) then do {
       (ignored, st1) \<leftarrow> run_demo L P value (upd_app (\<lambda>a. a\<lparr>ap_num_msgs := value\<rparr>) st);
       Some (count, st1) }
     else Some (count, st))"

definition init_sysfs_named :: "string \<Rightarrow> 'o sample_linux \<Rightarrow> 'o sample_state \<Rightarrow> int \<times> 'o sample_state" where
  "init_sysfs_named module_name L st = (let st1 = upd_app (\<lambda>a. a\<lparr>ap_ping_attr := ''ping''\<rparr>) st in
     case world_call (sl_kobject_create_and_add L module_name) st1 of (kobj, st2) \<Rightarrow>
     let st3 = upd_app (\<lambda>a. a\<lparr>ap_ipc_kobj := kobj\<rparr>) st2 in
     if kobj = 0 then (- ENOMEM, st3)
     else case world_call (sl_sysfs_create_file L kobj (ap_ping_attr (app st3))) st3 of (err, st4) \<Rightarrow>
       if err \<noteq> 0 then (err, upd_world (sl_kobject_put L kobj) st4) else (0, st4))"

definition init_sysfs :: "'o sample_linux \<Rightarrow> 'o sample_state \<Rightarrow> int \<times> 'o sample_state" where
  "init_sysfs = init_sysfs_named ''ipc-shm-sample''"

definition free_sysfs :: "'o sample_linux \<Rightarrow> 'o sample_state \<Rightarrow> 'o sample_state" where
  "free_sysfs L st = upd_world (sl_kobject_put L (ap_ipc_kobj (app st))) st"

definition sample_mod_init :: "'o sample_linux \<Rightarrow> 'o sample_world_scheme platform \<Rightarrow> ipc_shm_instances_cfg \<Rightarrow>
    'o sample_state \<Rightarrow> (int \<times> 'o sample_state) option" where
  "sample_mod_init L P cfg st = do {
     (err, st1) \<leftarrow> init_ipc_shm L P cfg st;
     if err \<noteq> 0 then Some (err, st1) else Some (init_sysfs L st1) }"

text \<open>\<open>local_addr\<close> and \<open>shm_size\<close> are 32 bits wide.\<close>

definition sample_mod_exit :: "'o sample_linux \<Rightarrow> 'o sample_world_scheme platform \<Rightarrow> ipc_shm_instances_cfg \<Rightarrow>
    'o sample_state \<Rightarrow> 'o sample_state option" where
  "sample_mod_exit L P cfg st = do {
     st1 \<leftarrow> ipc_shm_free P (free_sysfs L st);
     cf \<leftarrow> elem_ptr (icfg_shm_cfg cfg) 0;
     c0 \<leftarrow> cf;
     let local_addr = (ucast (cfg_local_shm_addr c0) :: u32);
     let shm_size = cfg_shm_size c0;
     let (reserved, st2) = world_call (sl_request_mem_region L (ucast local_addr) shm_size) st1;
     if \<not> reserved then Some st2
     else do {
       let (virt, st3) = sl_ioremap L (ucast local_addr) shm_size st2;
       let st4 = upd_app (\<lambda>a. a\<lparr>ap_local_virt_shm := virt\<rparr>) st3;
       m \<leftarrow> store_bytes virt (replicate (unat shm_size) 0) (st_mem st4);
       Some (upd_world (sl_release_mem_region L (ucast local_addr) shm_size) (sl_iounmap L virt (st4\<lparr>st_mem := m\<rparr>))) } }"

end
