(* ===== verification/Shm_Client.thy ===== *)
theory Shm_Client
  imports Shm
begin

text \<open>
  What a call of the driver does to the state of the application and the platform around it: most operations leave it alone,
  transmitting changes it by the notification only, and receiving by the callbacks only. The last is a locale: an
  invariant of the application that its callbacks keep is kept by the receive path and by polling.
\<close>

section \<open>Calls that leave the environment alone\<close>

lemma lookup_env [simp]:
  "ipc_instance_is_free i (st\<lparr>st_env := w\<rparr>) = ipc_instance_is_free i st" "get_managed_chan i c (st\<lparr>st_env := w\<rparr>) = get_managed_chan i c st"
  by (simp_all add: ipc_instance_is_free_def priv_at_def get_managed_chan_def get_channel_def get_channel_priv_def cong: if_cong)

lemma release_env:
  "ipc_shm_release_buf i c buf (st\<lparr>st_env := w\<rparr>) = map_option (\<lambda>(e, s). (e, s\<lparr>st_env := w\<rparr>)) (ipc_shm_release_buf i c buf st)"
  by (auto simp: ipc_shm_release_buf_def split: Option.bind_split option.split)

lemma release_keeps_env: "ipc_shm_release_buf i c buf st = Some (e, st') \<Longrightarrow> st_env st' = st_env st"
  by (auto simp: ipc_shm_release_buf_def split: Option.bind_splits if_splits option.splits)

lemma acquire_env: "ipc_shm_acquire_buf P i c n st = Some (buf, st') \<Longrightarrow> st_env st' = st_env st"
  by (auto simp: ipc_shm_acquire_buf_def Let_def split: Option.bind_splits if_splits option.splits)

lemma tx_env:
  "ipc_shm_tx P i c buf n st = Some (e, st') \<Longrightarrow> st_env st' = st_env st \<or> hw_irq_notify P i (st_env st) = Some (st_env st')"
  by (auto simp: ipc_shm_tx_def upd_mem_def upd_env_def Let_def split: Option.bind_splits if_splits option.splits)

lemma umng_tx_env:
  "ipc_shm_unmanaged_tx P i c st = Some (e, st') \<Longrightarrow> st_env st' = st_env st \<or> hw_irq_notify P i (st_env st) = Some (st_env st')"
  by (auto simp: ipc_shm_unmanaged_tx_def upd_mem_def upd_env_def Let_def split: Option.bind_splits if_splits option.splits)

section \<open>Receiving\<close>

locale rx_client =
  fixes P :: "'w platform" and i :: u8 and J :: "'w \<Rightarrow> bool"
  assumes data_cb: "J (st_env st) \<Longrightarrow> app_rx_cb P cb arg i c buf n st = Some st' \<Longrightarrow> J (st_env st')"
    and ctrl_cb: "J (st_env st) \<Longrightarrow> app_umng_rx_cb P cb arg i c buf st = Some st' \<Longrightarrow> J (st_env st')"
    and polled: "J (st_env st) \<Longrightarrow> os_poll_channels P (ipc_shm_rx P) i st = Some (r, st') \<Longrightarrow>
       J (st_env st') \<or> (\<exists>b n. ipc_shm_rx P i b st = Some (n, st'))"
begin

lemmas callbacks_mem = data_cb [of "st\<lparr>st_mem := m\<rparr>" for st m, simplified] ctrl_cb [of "st\<lparr>st_mem := m\<rparr>" for st m, simplified]

lemma mchan_rx_keeps: "J (st_env st) \<Longrightarrow> mchan_rx_loop P i c k work st = Some (w, st') \<Longrightarrow> J (st_env st')"
proof (induction k arbitrary: work st)
  case (Suc k)
  note ih = Suc.IH [of "st\<lparr>st_mem := m\<rparr>" for m, simplified, OF Suc.prems(1)] and cb = Suc.IH [OF callbacks_mem(1) [OF Suc.prems(1)]]
  from Suc.prems(2) show ?case
    by (auto simp: Let_def Suc.prems(1) split: Option.bind_splits if_splits) (erule ih | erule (1) cb)+
qed simp

lemma channel_rx_keeps: "J (st_env st) \<Longrightarrow> ipc_channel_rx P i c budget st = Some (w, st') \<Longrightarrow> J (st_env st')"
  by (auto simp: ipc_channel_rx_def upd_mem_def split: Option.bind_splits if_splits) (erule (1) mchan_rx_keeps | erule (1) callbacks_mem(2))+

lemma rx_round_keeps: "J (st_env st) \<Longrightarrow> rx_round P i b cs work mw st = Some (w, m, st') \<Longrightarrow> J (st_env st')"
  by (induction cs arbitrary: work mw st) (auto split: Option.bind_splits dest: channel_rx_keeps)

lemma rx_loop_keeps:
  assumes "rx_loop P i n budget work mw st = Some (w, st')" "J (st_env st)"
  shows "J (st_env st')"
proof -
  have "(\<lambda>((((((Q, j), n), budget), work), mw), st) r. Q = P \<longrightarrow> j = i \<longrightarrow> J (st_env st) \<longrightarrow> J (st_env (snd r)))
      ((((((P, i), n), budget), work), mw), st) (w, st')"
    by (rule rx_loop.raw_induct [OF _ assms(1)]) (auto split: if_splits Option.bind_splits dest: rx_round_keeps)
  then show ?thesis using assms(2) by simp
qed

lemma shm_rx_keeps: "J (st_env st) \<Longrightarrow> ipc_shm_rx P i b st = Some (w, st') \<Longrightarrow> J (st_env st')"
  by (auto simp: ipc_shm_rx_def split: Option.bind_splits if_splits dest: rx_loop_keeps)

lemma poll_keeps: "J (st_env st) \<Longrightarrow> ipc_shm_poll_channels P i st = Some (r, st') \<Longrightarrow> J (st_env st')"
  by (auto simp: ipc_shm_poll_channels_def split: Option.bind_splits if_splits dest: polled [rotated] shm_rx_keeps)

end

end
