(* ===== verification/Sample_Props.thy ===== *)
theory Sample_Props
  imports Sample_App Shm_Exchange Shm_Client
begin

text \<open>
  Properties of the kernel sample: the number in a message survives the trip, the limits of the text buffer,
  and the order in which the demo sends its messages.
\<close>

section \<open>The text of a message\<close>

lemma nonzero_digits: "list_all is_digit bs \<Longrightarrow> 0 \<notin> set bs"
  by (induction bs) (auto simp: is_digit_def)

lemma kernel_text_bytes:
  assumes "0 \<le> n"
  shows "str_bytes (kernel_text n) = 35 # str_bytes (decimal (nat n)) @ 32 # str_bytes ''HELLO WORLD! from KERNEL''"
    and "length (kernel_text n) = length (decimal (nat n)) + 26" and "0 \<notin> set (str_bytes (kernel_text n))"
  using assms nonzero_digits [OF decimal_digits [of "nat n"]] by (simp_all add: kernel_text_def print_int_def)

lemma kernel_text_fits: "0 \<le> n \<Longrightarrow> length (kernel_text n) + 1 \<le> 32 \<longleftrightarrow> n < 100000"
  using decimal_length [of "nat n" 5] decimal_length_ge [of 5 "nat n"] kernel_text_bytes(2) [of n]
  by (cases "n < 100000") (auto simp: nat_less_iff le_nat_iff)

lemma text_number:
  assumes "holds m a (str_bytes (kernel_text n) @ [0])" "0 \<le> n"
  shows "c_str m a = Some (str_bytes (kernel_text n))" "ipc_strtol m (a + 1) = Some (word_of_int n)"
proof -
  show "c_str m a = Some (str_bytes (kernel_text n))" by (rule c_str_holds [OF assms(1) kernel_text_bytes(3) [OF assms(2)]])
  have "holds m (a + 1) (str_bytes (decimal (nat n)) @ [32])"
    using assms(1) unfolding kernel_text_bytes(1) [OF assms(2)] by (simp add: holds_Cons holds_append)
  from strtol_number [OF this] assms(2) show "ipc_strtol m (a + 1) = Some (word_of_int n)" by (simp add: is_digit_def)
qed

lemma generate_run:
  assumes "0 \<le> n" "n < 100000" "mapped m s 32"
  shows "\<exists>m'. generate_msg s len n m = Some m' \<and> holds m' s (str_bytes (kernel_text n) @ [0]) \<and> same_except (region s 32) m m'"
proof -
  let ?bs = "str_bytes (kernel_text n) @ [0]"
  have le: "length ?bs \<le> 32" using kernel_text_fits [OF assms(1)] assms(2) by simp
  have "mapped m s (length ?bs)" using mapped_sub [of m s 32 0 "length ?bs"] assms(3) le by simp
  then obtain m' where m': "store_bytes s ?bs m = Some m'" by (auto simp: store_bytes_def)
  have "same_except (region s 32) m m'"
    by (rule same_except_mono [OF store_bytes_same_except [OF m']]) (use le in \<open>simp_all add: region_mono\<close>)
  then show ?thesis using m' store_holds [OF m'] le
    by (intro exI [of _ m']) (simp add: generate_msg_def sprintf_stack_def strcpy_def MAX_SAMPLE_MSG_LEN_def)
qed

text \<open>
  For message numbers below 100000 \<open>generate_msg\<close> writes at most the 32 bytes of the smallest buffers, and
  the receiver reads back the text and, with \<open>ipc_strtol\<close> behind the \<open>#\<close>, exactly the number that was sent.
\<close>

theorem message_number_round_trip:
  assumes "0 \<le> n" "n < 100000" "mapped m buf 32"
  shows "\<exists>m'. generate_msg buf len n m = Some m' \<and> same_except (region buf 32) m m' \<and>
           c_str m' buf = Some (str_bytes (kernel_text n)) \<and> ipc_strtol m' (buf + 1) = Some (word_of_int n)"
  using generate_run [OF assms] text_number [OF _ assms(1)] by blast

theorem message_number_round_trip_witness:
  "\<exists>m'. generate_msg 0x1000 32 417 (zero_ram 0x1000 0x2000) = Some m' \<and> ipc_strtol m' 0x1001 = Some 417"
  using message_number_round_trip [of 417 "zero_ram 0x1000 0x2000" "0x1000" 32] by (simp add: mapped_zero_ram) blast

text \<open>
  From message number 100000 on the text and its terminating zero are longer than the 32 bytes of \<open>tmp\<close>:
  \<open>sprintf\<close> writes beyond the array on the stack, whatever length the caller passed.
\<close>

theorem generate_msg_overruns:
  assumes "100000 \<le> n"
  shows "generate_msg buf len n m = None"
  using kernel_text_fits [of n] assms by (simp add: generate_msg_def sprintf_stack_def MAX_SAMPLE_MSG_LEN_def)

theorem generate_msg_overruns_witness: "generate_msg 0x1000 32 100000 (zero_ram 0x1000 0x2000) = None"
  using generate_msg_overruns [of 100000 "0x1000" 32 "zero_ram 0x1000 0x2000"] by simp

section \<open>The order of the messages\<close>

text \<open>The data that the loops read.\<close>

definition world_cfg :: "'o sample_world_scheme \<Rightarrow> int \<times> u8 \<times> int list \<times> int" where
  "world_cfg w = (ap_num_channels (sw_app w), ap_instance (sw_app w), sw_msg_sizes w, sw_msg_sizes_argc w)"

abbreviation demo_cfg_of :: "'o sample_state \<Rightarrow> int \<times> u8 \<times> int list \<times> int" where
  "demo_cfg_of st \<equiv> world_cfg (st_env st)"

text \<open>What runs while the sample waits, and the notification of the remote side, leave the configuration of the demo alone.\<close>

definition env_keeps :: "'o sample_linux \<Rightarrow> 'o sample_world_scheme platform \<Rightarrow> bool" where
  "env_keeps L P \<longleftrightarrow> (\<forall>st b st'. sl_block L st = Some (b, st') \<longrightarrow> demo_cfg_of st' = demo_cfg_of st) \<and>
     (\<forall>i w w'. hw_irq_notify P i w = Some w' \<longrightarrow> world_cfg w' = world_cfg w)"

lemma wait_keeps: "env_keeps L P \<Longrightarrow> wait_for_completion_interruptible L st = Some (e, st') \<Longrightarrow> demo_cfg_of st' = demo_cfg_of st"
  by (auto simp: env_keeps_def wait_for_completion_interruptible_def upd_world_def world_cfg_def Let_def split: if_splits Option.bind_splits)

lemma send_keeps:
  assumes "env_keeps L P" "send_data_msg L P inst len msg ch st = Some (e, st')"
  shows "demo_cfg_of st' = demo_cfg_of st"
proof -
  from assms(2) obtain buf st1 where a: "ipc_shm_acquire_buf P inst (word_of_int ch) (word_of_int len) st = Some (buf, st1)"
    by (auto simp: send_data_msg_def split: Option.bind_splits)
  then have e1: "st_env st1 = st_env st" by (rule acquire_env)
  have tx: "demo_cfg_of s' = demo_cfg_of s" if "ipc_shm_tx P inst ch buf n s = Some (x, s')" for n s x s'
    using tx_env [OF that] assms(1) by (auto simp: env_keeps_def)
  show ?thesis using assms(2) a e1
    by (auto simp: send_data_msg_def split: Option.bind_splits if_splits dest!: tx wait_keeps [OF assms(1)])
qed

lemma send_ctrl_keeps:
  assumes "env_keeps L P" "send_ctrl_msg P inst st = Some (e, st')"
  shows "demo_cfg_of st' = demo_cfg_of st"
  using assms umng_tx_env [of P inst] unfolding env_keeps_def
  by (fastforce simp: send_ctrl_msg_def split: Option.bind_splits if_splits)

interpretation sample_loop: demo_contract "sample_demo L P"
    "\<lambda>st. env_keeps L P \<and> 0 < c \<and> szs \<noteq> [] \<and> demo_cfg_of st = (int c + 1, inst, szs, int (length szs))" c szs for L P c szs inst
  by unfold_locales (auto simp: sample_demo_def world_cfg_def app_def nth_opt_def dest: send_keeps)


section \<open>A demo without data channels\<close>

text \<open>
  A demo on an instance with no channel beside the control channel. With a positive number of messages
  \<open>run_demo\<close> either fails to send the control message or, after sending it, never returns: its outer loop
  spins without sending anything.
\<close>

theorem run_demo_spins:
  assumes "env_keeps L P" "ap_num_channels (app st) \<le> 1" "0 < n"
  shows "run_demo L P n st = do { (err, st1) \<leftarrow> send_ctrl_msg P (ap_instance (app st)) st; if err \<noteq> 0 then Some (err, st1) else None }"
proof (cases "send_ctrl_msg P (ap_instance (app st)) st")
  case (Some r)
  then obtain e st1 where r: "send_ctrl_msg P (ap_instance (app st)) st = Some (e, st1)" by (cases r) auto
  from send_ctrl_keeps [OF assms(1) r] have "ap_num_channels (app st1) \<le> 1" using assms(2) by (simp add: world_cfg_def app_def)
  then have "demo_loop (sample_demo L P) n At_msgs 0 st1 = None"
    using demo_spins [of "sample_demo L P" n At_msgs 0 st1] assms(3) by (cases "demo_loop (sample_demo L P) n At_msgs 0 st1") (auto simp: sample_demo_def)
  then show ?thesis using r by (simp add: run_demo_def)
qed (simp add: run_demo_def)

section \<open>Replies\<close>

text \<open>A received message: its number is noted, its buffer released and the sender woken, once.\<close>

definition with_reply :: "int \<Rightarrow> 'o sample_state \<Rightarrow> 'o sample_state" where
  "with_reply n st = complete_reply (upd_app (\<lambda>a. a\<lparr>ap_last_rx_no_msg := n\<rparr>) st)"

lemma with_reply_sel [simp]:
  "sw_reply_received (st_env (with_reply n st)) = sw_reply_received (st_env st) + 1" "ap_last_rx_no_msg (app (with_reply n st)) = n"
  by (simp_all add: with_reply_def complete_reply_def upd_app_def upd_world_def app_def)

lemma data_rx_run:
  assumes "holds (st_mem st) buf (str_bytes (kernel_text n) @ [0])" "0 \<le> n" "n < 2 ^ 31"
    and "ipc_shm_release_buf inst c buf st = Some (e, st')"
  shows "data_chan_rx_cb s (rx_cb_arg_ptr s) inst c buf len st = Some (with_reply n st')"
proof -
  have "sint (word_of_int n :: u32) = n" using assms(2,3) by (simp add: sint_sbintrunc' signed_take_bit_int_eq_self)
  moreover have "st'\<lparr>st_env := st_env st\<rparr> = st'" using release_keeps_env [OF assms(4)] by simp
  ultimately show ?thesis
    using text_number [OF assms(1,2)] assms(4) release_keeps_env [OF assms(4)]
    by (simp add: data_chan_rx_cb_def with_reply_def upd_app_def upd_world_def complete_reply_def release_env app_def)
qed

lemma text_length: "0 \<le> n \<Longrightarrow> n < 100000 \<Longrightarrow> length (str_bytes (kernel_text n) @ [0]) \<le> 32"
  using kernel_text_fits [of n] by simp

lemma link_sample_sel [simp]:
  "os_get_local_shm (link_sample s P) = os_get_local_shm P" "os_get_remote_shm (link_sample s P) = os_get_remote_shm P"
  "hw_irq_notify (link_sample s P) = hw_irq_notify P"
  "app_rx_cb (link_sample s P) (data_chan_rx_cb_ptr s) arg i c buf n st = data_chan_rx_cb s arg i c buf n st"
  by (simp_all add: link_sample_def)

text \<open>The sample's part of a message: up to the transmission.\<close>

lemma send_part:
  assumes "sender_ok P inst c st mc pv L R" "next_buffer mc pv L R (word_of_int len) (st_mem st) j b p"
    and "32 \<le> unat (pl_buf_size (mc_pools mc ! j))" "(word_of_int len :: u32) \<noteq> 0" "0 \<le> n" "n < 100000"
    and "hw_irq_notify P inst (st_env st) = Some w"
  shows "\<exists>m2. send_data_msg X P inst len n (uint c) st = do {
     (err, st3) \<leftarrow> wait_for_completion_interruptible X (st\<lparr>st_mem := m2, st_env := w\<rparr>);
     if err = - ERESTARTSYS then Some (err, st3)
     else if ap_last_rx_no_msg (app st3) \<noteq> n then Some (- EINVAL, st3)
     else Some (0, st3) }"
proof -
  let ?bs = "str_bytes (kernel_text n) @ [0]"
  have le: "length ?bs \<le> 32" by (rule text_length [OF assms(5,6)])
  then have "length ?bs \<le> unat (pl_buf_size (mc_pools mc ! j))" using assms(3) by simp
  from exchange_send [OF assms(1,4,4,2) this assms(7)] obtain m0 m1 m2 where
    e: "p \<noteq> 0" "ipc_shm_acquire_buf P inst c (word_of_int len) st = Some (p, st\<lparr>st_mem := m0\<rparr>)" "store_bytes p ?bs m0 = Some m1"
     "ipc_shm_tx P inst (uint c) p (word_of_int len) (st\<lparr>st_mem := m1\<rparr>) = Some (0, st\<lparr>st_mem := m2, st_env := w\<rparr>)" by auto
  have g: "generate_msg p len n m0 = Some m1"
    using e(3) le by (simp add: generate_msg_def sprintf_stack_def strcpy_def MAX_SAMPLE_MSG_LEN_def)
  have c: "c_str m1 p = Some (str_bytes (kernel_text n))" by (rule text_number(1) [OF store_holds [OF e(3)] assms(5)]) (use le in simp)
  show ?thesis using e g c by (intro exI [of _ m2]) (simp add: send_data_msg_def)
qed

text \<open>
  A reply: the remote application takes a buffer, writes a message into it and transmits it; this side's
  interrupt handler then receives one message.
\<close>

definition reply_run :: "'v platform \<Rightarrow> u8 \<Rightarrow> u8 \<Rightarrow> u32 \<Rightarrow> byte list \<Rightarrow> 'v shm_state \<Rightarrow> 'w platform \<Rightarrow> u8 \<Rightarrow> u8 \<Rightarrow> 'w shm_state \<Rightarrow> (bool \<times> 'w shm_state) option" where
  "reply_run P' j d n bs st' P i c st = do {
     (p, s0) \<leftarrow> ipc_shm_acquire_buf P' j d n st';
     m1 \<leftarrow> store_bytes p bs (st_mem s0);
     (e, s2) \<leftarrow> ipc_shm_tx P' j (uint d) p n (s0\<lparr>st_mem := m1\<rparr>);
     (cnt, st3) \<leftarrow> ipc_channel_rx P i c 1 (st\<lparr>st_mem := st_mem s2\<rparr>);
     Some (False, st3) }"

lemma reply_received:
  assumes snd: "sender_ok P' j d st' mc' pv' R L" and nb: "next_buffer mc' pv' R L n' (st_mem st') k b q" "32 \<le> unat (pl_buf_size (mc_pools mc' ! k))"
    and rcv: "receiver_ok (link_sample s P) inst c st ch pv R L" and lk: "linked mc' (ch_mng ch)" "pv_shm_size pv = pv_shm_size pv'"
    and n: "n' \<noteq> 0" "0 \<le> x" "x < 100000" and nt: "hw_irq_notify P' j (st_env st') = Some w'"
    and cb: "mc_rx_cb (ch_mng ch) = data_chan_rx_cb_ptr s" "mc_cb_arg (ch_mng ch) = rx_cb_arg_ptr s" "ch_id ch = c"
  shows "\<exists>m4. reply_run P' j d n' (str_bytes (kernel_text x) @ [0]) st' (link_sample s P) inst c st = Some (False, with_reply x (st\<lparr>st_mem := m4\<rparr>)) \<and>
     rx_bds m4 (pl_bd_queue (mc_pools mc' ! k)) = tl (rx_bds (st_mem st') (pl_bd_queue (mc_pools mc' ! k))) @
       [\<lparr>bd_pool_id = of_nat k, bd_buf_id = b, bd_data_size = 0\<rparr>]"
proof -
  let ?bs = "str_bytes (kernel_text x) @ [0]"
  have "length ?bs \<le> unat (pl_buf_size (mc_pools mc' ! k))" using text_length [OF n(2,3)] nb(2) by simp
  from round_trip_run [OF snd rcv lk n(1,1) nb(1) this nt] obtain m0 m1 m2 m3 m4 where
    r: "ipc_shm_acquire_buf P' j d n' st' = Some (q, st'\<lparr>st_mem := m0\<rparr>)" "store_bytes q ?bs m0 = Some m1"
     "ipc_shm_tx P' j (uint d) q n' (st'\<lparr>st_mem := m1\<rparr>) = Some (0, st'\<lparr>st_mem := m2, st_env := w'\<rparr>)"
     "ipc_channel_rx (link_sample s P) inst c 1 (st\<lparr>st_mem := m2\<rparr>) =
       do { st2 \<leftarrow> data_chan_rx_cb s (rx_cb_arg_ptr s) inst c q n' (st\<lparr>st_mem := m3\<rparr>); Some (1, st2) }"
     "load_bytes m3 q (length ?bs) = Some ?bs" "ipc_shm_release_buf inst c q (st\<lparr>st_mem := m3\<rparr>) = Some (0, st\<lparr>st_mem := m4\<rparr>)"
     "rx_bds m4 (pl_bd_queue (mc_pools mc' ! k)) = tl (rx_bds (st_mem st') (pl_bd_queue (mc_pools mc' ! k))) @
       [\<lparr>bd_pool_id = of_nat k, bd_buf_id = b, bd_data_size = 0\<rparr>]" unfolding cb by auto
  have "holds (st_mem (st\<lparr>st_mem := m3\<rparr>)) q ?bs" using holds_load [OF r(5)] by simp
  from data_rx_run [OF this n(2) _ r(6), of s] r show ?thesis using n(3) by (intro exI [of _ m4]) (simp add: reply_run_def)
qed


section \<open>A concrete sample\<close>

definition quiet_platform :: "u64 \<Rightarrow> u64 \<Rightarrow> 'w platform" where
  "quiet_platform l r = \<lparr>
     hw_init = \<lambda>i cfg w. Some (0, w), hw_free = \<lambda>i w. Some w,
     hw_irq_enable = \<lambda>i w. Some w, hw_irq_disable = \<lambda>i w. Some w, hw_irq_notify = \<lambda>i w. Some w,
     os_init = \<lambda>i cfg m w. Some (0, m, w), os_free = \<lambda>i m w. Some (m, w),
     os_get_local_shm = \<lambda>i w. Some l, os_get_remote_shm = \<lambda>i w. Some r,
     os_poll_channels = \<lambda>rx i st. do { (n, st') \<leftarrow> rx i 128 st; Some (int8 (uint n), st') },
     app_rx_cb = \<lambda>cb arg i c buf n st. Some st, app_umng_rx_cb = \<lambda>cb arg i c buf st. Some st\<rparr>"

definition ping_symbols :: cfg_symbols where
  "ping_symbols = \<lparr>ctrl_chan_rx_cb_ptr = 0x2345, data_chan_rx_cb_ptr = 0x1234, rx_cb_arg_ptr = 0\<rparr>"

definition ping_world :: "int \<Rightarrow> sample_world" where
  "ping_world c = \<lparr>sw_app = \<lparr>ap_num_channels = c, ap_num_msgs = 0, ap_ctrl_shm = 0, ap_last_rx_no_msg = 0, ap_ipc_kobj = 0,
       ap_ping_attr = ''ping'', ap_instance = 0, ap_local_virt_shm = 0\<rparr>,
     sw_msg_sizes = [32], sw_msg_sizes_argc = 1, sw_reply_received = 0\<rparr>"

definition ping_state :: "int \<Rightarrow> unit sample_state" where
  "ping_state c = \<lparr>st_mem = demo_shm, st_priv = st_priv (demo_state 0x10000 0x20000), st_env = ping_world c\<rparr>"

text \<open>The remote application answers every message with number \<open>x\<close>.\<close>

definition echo_linux :: "int \<Rightarrow> unit sample_linux" where
  "echo_linux x = \<lparr>
     sl_block = reply_run (demo_platform 0x20000 0x10000) 0 0 32 (str_bytes (kernel_text x) @ [0]) (demo_state 0x20000 0x10000)
       (link_sample ping_symbols (quiet_platform 0x10000 0x20000)) 0 0,
     sl_other = (\<lambda>st. st), sl_kobject_create_and_add = (\<lambda>n w. (1, w)), sl_sysfs_create_file = (\<lambda>k n w. (0, w)), sl_kobject_put = (\<lambda>k w. w),
     sl_kstrtoint = (\<lambda>t. (0, 1)), sl_request_mem_region = (\<lambda>a n w. (True, w)), sl_release_mem_region = (\<lambda>a n w. w),
     sl_ioremap = (\<lambda>a n st. (a, st)), sl_iounmap = (\<lambda>a st. st)\<rparr>"

definition mute_linux :: "unit sample_linux" where
  "mute_linux = (echo_linux 0)\<lparr>sl_block := \<lambda>st. None\<rparr>"

lemma mute_keeps: "env_keeps mute_linux (quiet_platform l r)"
  by (simp add: env_keeps_def mute_linux_def quiet_platform_def)


theorem run_demo_spins_witness:
  "run_demo mute_linux (quiet_platform 0x10000 0x20000) 5 (ping_state 1) =
     do { (err, st1) \<leftarrow> send_ctrl_msg (quiet_platform 0x10000 0x20000) 0 (ping_state 1); if err \<noteq> 0 then Some (err, st1) else None }"
  using run_demo_spins [OF mute_keeps, of "ping_state 1" 5 "0x10000" "0x20000"] by (simp add: ping_state_def ping_world_def app_def)

lemma ping_sel [simp]: "st_mem (ping_state c) = demo_shm" "st_env (ping_state c) = ping_world c"
  "priv_at 0 (ping_state c) = Some \<lparr>pv_shm_size = 0x1000, pv_num_channels = 1,
     pv_channels = no_chan\<lparr>ch_mng := demo_mchan 0x10000 0x20000\<rparr> # replicate 7 no_chan, pv_global = 0x10000\<rparr>"
  "priv_at 0 (ping_state c\<lparr>st_env := w\<rparr>) = priv_at 0 (ping_state c)"
  by (simp_all add: ping_state_def demo_state_def priv_at_def)

lemma quiet_sel [simp]:
  "os_get_local_shm (quiet_platform l r) i w = Some l" "os_get_remote_shm (quiet_platform l r) i w = Some r" "hw_irq_notify (quiet_platform l r) i w = Some w"
  by (simp_all add: quiet_platform_def)

lemma ping_usable: "chan_usable (link_sample s (quiet_platform 0x10000 0x20000)) 0 0 (ping_state c) (demo_mchan 0x10000 0x20000)"
  by (simp add: chan_usable_def demo_mchan_ready ipc_shm_is_remote_ready_def ipc_instance_is_free_def limit_defs
      demo_words get_managed_chan_def get_channel_def get_channel_priv_def no_chan_def IPC_SHM_STATE_READY_def IPC_SHM_STATE_CLEAR_def)

lemma ping_sender:
  "sender_ok (link_sample s (quiet_platform 0x10000 0x20000)) 0 0 (ping_state c) (demo_mchan 0x10000 0x20000) (the (priv_at 0 (ping_state c))) 0x10000 0x20000"
  using ping_usable demo_laid_out(1) demo_separate(1) apart_either [of "0x10000" 8] apart_either [of "0x20000" 8]
  by (simp add: sender_ok_def limit_defs chan_queues_def apart_def)

lemma ping_receiver:
  "receiver_ok (link_sample s (quiet_platform 0x10000 0x20000)) 0 0 (ping_state c\<lparr>st_env := w\<rparr>) (no_chan\<lparr>ch_mng := demo_mchan 0x10000 0x20000\<rparr>)
     (the (priv_at 0 (ping_state c))) 0x20000 0x10000"
  using ping_usable demo_separate(1)
  by (simp add: receiver_ok_def limit_defs chan_usable_def get_channel_priv_def get_managed_chan_def get_channel_def no_chan_def)

lemma echo_sender:
  "sender_ok (demo_platform 0x20000 0x10000) 0 0 (demo_state 0x20000 0x10000) (demo_mchan 0x20000 0x10000) (the (priv_at 0 (demo_state 0x20000 0x10000))) 0x20000 0x10000"
proof -
  have "pools_laid_out IPC_BUFFER_FROM_LOCAL (demo_mchan 0x20000 0x10000)" by (simp add: pools_laid_out_def pool_bytes_def pool_base_def)
  then show ?thesis
    using demo_usable(2) demo_separate(2) apart_either [of "0x10000" 8] apart_either [of "0x20000" 8]
    by (simp add: sender_ok_def demo_local limit_defs chan_queues_def apart_def)
qed

lemma echo_next:
  "next_buffer (demo_mchan 0x20000 0x10000) (the (priv_at 0 (demo_state 0x20000 0x10000))) 0x20000 0x10000 0x20 demo_shm 0 0 0x20068"
proof -
  have q: "rx_bds demo_shm (demo_q 0x20038 0x10038) = [demo_bd 0, demo_bd 1, demo_bd 2]" "tx_bds demo_shm (demo_q 0x20008 0x10008) = []"
    using demo_tx_rx by (simp_all add: demo_q_peer [of "0x20008"] demo_q_peer [of "0x20038"])
  then have "first_fit (demo_mchan 0x20000 0x10000) 0x20 demo_shm = Some 0" by (simp add: first_fit_def)
  then show ?thesis using q by (simp add: next_buffer_def demo_bd_def in_remote_shm_def outside_rings_def chan_queues_def apart_either demo_mapped)
qed

lemma demo_linked_back: "linked (demo_mchan 0x20000 0x10000) (demo_mchan 0x10000 0x20000)"
  by (simp add: linked_def demo_q_def peer_def)


end
