(* ===== verification/Sample_Io.thy ===== *)
theory Sample_Io
  imports Sample_Str
begin

text \<open>
  What the user-space samples do with memory: \<open>ipc_memcpy_toio\<close> and \<open>ipc_memcpy_fromio\<close>, which copy in aligned
  8-byte units because the device memory refuses unaligned accesses, and \<open>strtol\<close> of the C library.
\<close>

unbundle bit_operations_syntax

section \<open>Copying\<close>

text \<open>\<open>memcpy\<close>; a single assignment through two pointers is the case of one byte.\<close>

definition memcpy :: "u64 \<Rightarrow> u64 \<Rightarrow> nat \<Rightarrow> memory \<Rightarrow> memory option" where
  "memcpy dst src n m = do { bs \<leftarrow> load_bytes m src n; store_bytes dst bs m }"

definition IPC_MEMCPY_BYTES_ALIGNED :: nat where "IPC_MEMCPY_BYTES_ALIGNED = 8"

definition IS_ALIGNED :: "u64 \<Rightarrow> u64 \<Rightarrow> bool" where
  "IS_ALIGNED x a \<longleftrightarrow> x AND (a - 1) = 0"

text \<open>The three loops; the first one runs until the pointer that \<open>io\<close> selects is aligned.\<close>

fun copy_head :: "(u64 \<Rightarrow> u64 \<Rightarrow> u64) \<Rightarrow> u64 \<Rightarrow> u64 \<Rightarrow> nat \<Rightarrow> memory \<Rightarrow> (u64 \<times> u64 \<times> nat \<times> memory) option" where
  "copy_head io dst buf 0 m = Some (dst, buf, 0, m)"
| "copy_head io dst buf (Suc count) m =
     (if IS_ALIGNED (io dst buf) (of_nat IPC_MEMCPY_BYTES_ALIGNED) then Some (dst, buf, Suc count, m)
      else do { m1 \<leftarrow> memcpy dst buf 1 m; copy_head io (dst + 1) (buf + 1) count m1 })"

function copy_units :: "u64 \<Rightarrow> u64 \<Rightarrow> nat \<Rightarrow> memory \<Rightarrow> (u64 \<times> u64 \<times> nat \<times> memory) option" where
  "copy_units dst buf count m =
     (if IPC_MEMCPY_BYTES_ALIGNED \<le> count then do {
        m1 \<leftarrow> memcpy dst buf IPC_MEMCPY_BYTES_ALIGNED m;
        copy_units (dst + of_nat IPC_MEMCPY_BYTES_ALIGNED) (buf + of_nat IPC_MEMCPY_BYTES_ALIGNED) (count - IPC_MEMCPY_BYTES_ALIGNED) m1 }
      else Some (dst, buf, count, m))"
  by auto
termination
  by (relation "measure (\<lambda>(dst, buf, count, m). count)") (auto simp: IPC_MEMCPY_BYTES_ALIGNED_def)

declare copy_units.simps [simp del]

fun copy_tail :: "u64 \<Rightarrow> u64 \<Rightarrow> nat \<Rightarrow> memory \<Rightarrow> memory option" where
  "copy_tail dst buf 0 m = Some m"
| "copy_tail dst buf (Suc count) m = do { m1 \<leftarrow> memcpy dst buf 1 m; copy_tail (dst + 1) (buf + 1) count m1 }"

definition ipc_memcpy_toio :: "u64 \<Rightarrow> u64 \<Rightarrow> nat \<Rightarrow> memory \<Rightarrow> memory option" where
  "ipc_memcpy_toio dst buf count m =
     (if dst = 0 \<or> buf = 0 \<or> count = 0 then Some m
      else do {
        (dst1, buf1, count1, m1) \<leftarrow> copy_head (\<lambda>d b. d) dst buf count m;
        (dst2, buf2, count2, m2) \<leftarrow> copy_units dst1 buf1 count1 m1;
        copy_tail dst2 buf2 count2 m2 })"

definition ipc_memcpy_fromio :: "u64 \<Rightarrow> u64 \<Rightarrow> nat \<Rightarrow> memory \<Rightarrow> memory option" where
  "ipc_memcpy_fromio dst buf count m =
     (if dst = 0 \<or> buf = 0 \<or> count = 0 then Some m
      else do {
        (dst1, buf1, count1, m1) \<leftarrow> copy_head (\<lambda>d b. b) dst buf count m;
        (dst2, buf2, count2, m2) \<leftarrow> copy_units dst1 buf1 count1 m1;
        copy_tail dst2 buf2 count2 m2 })"

section \<open>\<open>strtol\<close>\<close>

text \<open>\<open>strtol\<close> with base 10: white space, an optional sign, digits; the value is clamped to \<open>long\<close>.\<close>

definition is_space :: "byte \<Rightarrow> bool" where
  "is_space b \<longleftrightarrow> b = 32 \<or> (9 \<le> b \<and> b \<le> 13)"

partial_function (option) skip_spaces :: "memory \<Rightarrow> u64 \<Rightarrow> u64 option" where
  "skip_spaces m a = do { b \<leftarrow> m a; if is_space b then skip_spaces m (a + 1) else Some a }"

partial_function (option) strtol_digits :: "memory \<Rightarrow> u64 \<Rightarrow> nat \<Rightarrow> nat option" where
  "strtol_digits m a r = do { b \<leftarrow> m a; if is_digit b then strtol_digits m (a + 1) (r * 10 + (unat b - 48)) else Some r }"

definition strtol :: "memory \<Rightarrow> u64 \<Rightarrow> int option" where
  "strtol m a = do {
     p \<leftarrow> skip_spaces m a;
     b \<leftarrow> m p;
     v \<leftarrow> strtol_digits m (if b = 45 \<or> b = 43 then p + 1 else p) 0;
     Some (if b = 45 then max (- (2 ^ 63)) (- int v) else min (2 ^ 63 - 1) (int v)) }"

text \<open>The conversion of a \<open>long\<close> or an unsigned number to \<open>int\<close>.\<close>

definition to_int32 :: "int \<Rightarrow> int" where
  "to_int32 v = sint (word_of_int v :: u32)"

lemma to_int32_id: "- (2 ^ 31) \<le> v \<Longrightarrow> v < 2 ^ 31 \<Longrightarrow> to_int32 v = v"
  by (simp add: to_int32_def sint_sbintrunc' signed_take_bit_int_eq_self)

fun digits_nat :: "nat \<Rightarrow> byte list \<Rightarrow> nat" where
  "digits_nat r [] = r"
| "digits_nat r (b # bs) = digits_nat (r * 10 + (unat b - 48)) bs"

lemma digits_nat_append: "digits_nat r (xs @ ys) = digits_nat (digits_nat r xs) ys"
  by (induction xs arbitrary: r) simp_all

lemma digit_unat: "k < 10 \<Longrightarrow> unat (of_nat (of_char (char_of (48 + k :: nat) :: char)) :: byte) - 48 = k"
proof -
  assume "k < 10"
  then have "k \<in> {0, 1, 2, 3, 4, 5, 6, 7, 8, 9}" by auto
  then show ?thesis by auto
qed

lemma decimal_nat: "digits_nat 0 (str_bytes (decimal n)) = n"
proof (induction n rule: decimal.induct)
  case (1 n)
  then show ?case using digit_unat [of n] digit_unat [of "n mod 10"] by (subst decimal.simps) (simp add: digits_nat_append)
qed

lemma strtol_digits_holds:
  "holds m a (ds @ [b]) \<Longrightarrow> list_all is_digit ds \<Longrightarrow> \<not> is_digit b \<Longrightarrow> strtol_digits m a r = Some (digits_nat r ds)"
proof (induction ds arbitrary: a r)
  case Nil
  then show ?case by (subst strtol_digits.simps) (simp add: holds_Cons)
next
  case (Cons d ds)
  then have "strtol_digits m (a + 1) (r * 10 + (unat d - 48)) = Some (digits_nat (r * 10 + (unat d - 48)) ds)"
    by (intro Cons.IH) (simp_all add: holds_Cons)
  then show ?case using Cons.prems by (subst strtol_digits.simps) (simp add: holds_Cons)
qed

lemma strtol_reads:
  assumes "holds m a (str_bytes (decimal n) @ [b])" "\<not> is_digit b"
  shows "strtol m a = Some (min (2 ^ 63 - 1) (int n))"
proof -
  obtain d ds where ds: "str_bytes (decimal n) = d # ds" by (cases "str_bytes (decimal n)") (auto simp: str_bytes_def)
  then have d: "m a = Some d" "is_digit d" using assms(1) decimal_digits [of n] by (simp_all add: holds_Cons)
  then have "\<not> is_space d \<and> d \<noteq> 45 \<and> d \<noteq> 43" by (auto simp: is_digit_def is_space_def word_le_nat_alt)
  moreover from this d(1) have "skip_spaces m a = Some a" by (subst skip_spaces.simps) simp
  ultimately show ?thesis
    using d(1) strtol_digits_holds [OF assms(1) decimal_digits assms(2), of 0] by (simp add: strtol_def decimal_nat)
qed

section \<open>The copies are plain copies\<close>

lemma memcpy_mapped:
  assumes "mapped m src n" "mapped m dst n" "n < 2 ^ 64"
  shows "memcpy dst src n m = Some (\<lambda>x. if unat (x - dst) < n then m (src + (x - dst)) else m x)"
proof -
  have "m (src + of_nat i) = Some (the (m (src + of_nat i)))" if "i < n" for i
    using assms(1) that by (auto simp: mapped_def list_all_iff)
  from this [of "unat (x - dst)" for x]
  have "Some (the (m (src + (x - dst)))) = m (src + (x - dst))" if "unat (x - dst) < n" for x
    using that by simp
  then show ?thesis using assms by (auto simp: memcpy_def load_bytes_def store_bytes_def fun_eq_iff)
qed

lemma region_diff: "n < 2 ^ 64 \<Longrightarrow> x \<in> region a n \<longleftrightarrow> unat (x - a) < n"
proof
  assume "n < 2 ^ 64" "x \<in> region a n"
  then show "unat (x - a) < n" by (auto simp: region_def unat_of_nat_small)
next
  assume "unat (x - a) < n"
  then show "x \<in> region a n" by (auto simp: region_def intro!: image_eqI [of _ _ "unat (x - a)"])
qed

lemma region_add: "region a (n + k) = region a n \<union> region (a + of_nat n) k"
proof -
  have "{..<n + k} = {..<n} \<union> (\<lambda>i. n + i) ` {..<k}"
  proof (intro equalityI subsetI)
    fix i assume "i \<in> {..<n + k}"
    then show "i \<in> {..<n} \<union> (\<lambda>i. n + i) ` {..<k}" by (cases "i < n") (auto intro!: image_eqI [of _ _ "i - n"])
  qed auto
  then show ?thesis by (simp add: region_def image_Un image_image add.assoc)
qed

text \<open>A copy in two parts.\<close>

lemma memcpy_split:
  assumes mp: "mapped m src (a + b)" "mapped m dst (a + b)" and lt: "a + b < 2 ^ 64" and ap: "apart dst (a + b) src (a + b)"
  shows "\<exists>m1. memcpy dst src a m = Some m1 \<and> memcpy (dst + of_nat a) (src + of_nat a) b m1 = memcpy dst src (a + b) m \<and> dom m1 = dom m"
proof -
  have sub: "mapped m src a" "mapped m dst a" "mapped m (src + of_nat a) b" "mapped m (dst + of_nat a) b"
    using mapped_sub [OF mp(1), of 0 a] mapped_sub [OF mp(2), of 0 a] mapped_sub [OF mp(1), of a b] mapped_sub [OF mp(2), of a b] by simp_all
  let ?m1 = "\<lambda>x. if unat (x - dst) < a then m (src + (x - dst)) else m x"
  have m1: "memcpy dst src a m = Some ?m1" by (rule memcpy_mapped [OF sub(1,2)]) (use lt in simp)
  have "m (src + (x - dst)) \<noteq> None \<and> m x \<noteq> None" if "unat (x - dst) < a" for x
  proof -
    have "x \<in> region dst a" "src + (x - dst) \<in> region src a" using that lt by (simp_all add: region_diff)
    then show ?thesis using sub(1,2) by (auto simp: mapped_iff)
  qed
  then have d: "dom ?m1 = dom m" by (auto simp: dom_def)
  have mp1: "mapped ?m1 (src + of_nat a) b" "mapped ?m1 (dst + of_nat a) b" using sub(3,4) by (simp_all add: mapped_dom [OF d])
  have eq: "(if unat (x - (dst + of_nat a)) < b then ?m1 (src + of_nat a + (x - (dst + of_nat a))) else ?m1 x) =
      (if unat (x - dst) < a + b then m (src + (x - dst)) else m x)" for x
  proof -
    have shift: "src + of_nat a + (x - (dst + of_nat a)) = src + (x - dst)" by simp
    have split: "unat (x - dst) < a + b \<longleftrightarrow> unat (x - dst) < a \<or> unat (x - (dst + of_nat a)) < b"
    proof -
      have "x \<in> region dst (a + b) \<longleftrightarrow> x \<in> region dst a \<or> x \<in> region (dst + of_nat a) b" by (simp add: region_add)
      then show ?thesis using lt by (simp add: region_diff)
    qed
    have "src + (x - dst) \<notin> region dst a" if "unat (x - dst) < a + b"
    proof -
      have "src + (x - dst) \<in> region src (a + b)" using that lt by (simp add: region_diff)
      then show ?thesis using ap region_mono [of a "a + b" dst] by (auto simp: apart_def)
    qed
    then have "?m1 (src + (x - dst)) = m (src + (x - dst))" if "unat (x - dst) < a + b" using that lt by (simp add: region_diff)
    then show ?thesis unfolding shift using split by auto
  qed
  have "memcpy (dst + of_nat a) (src + of_nat a) b ?m1 = memcpy dst src (a + b) m"
    using memcpy_mapped [OF mp1] memcpy_mapped [OF mp lt] lt eq by simp
  then show ?thesis using m1 d by blast
qed

definition copyable :: "u64 \<Rightarrow> u64 \<Rightarrow> nat \<Rightarrow> memory \<Rightarrow> bool" where
  "copyable dst src n m \<longleftrightarrow> mapped m src n \<and> mapped m dst n \<and> n < 2 ^ 64 \<and> apart dst n src n"

lemma copy_part:
  assumes "copyable dst src (a + b) m"
  shows "\<exists>m1. memcpy dst src a m = Some m1 \<and> copyable (dst + of_nat a) (src + of_nat a) b m1 \<and>
     memcpy (dst + of_nat a) (src + of_nat a) b m1 = memcpy dst src (a + b) m"
proof -
  from assms have c: "mapped m src (a + b)" "mapped m dst (a + b)" "a + b < 2 ^ 64" "apart dst (a + b) src (a + b)"
    by (simp_all add: copyable_def)
  from memcpy_split [OF c] obtain m1 where m1: "memcpy dst src a m = Some m1" "dom m1 = dom m"
    "memcpy (dst + of_nat a) (src + of_nat a) b m1 = memcpy dst src (a + b) m" by blast
  have "apart (dst + of_nat a) b (src + of_nat a) b"
    using c(4) region_offset [of a b "a + b" dst] region_offset [of a b "a + b" src] by (auto simp: apart_def)
  then have "copyable (dst + of_nat a) (src + of_nat a) b m1"
    using c mapped_sub [OF c(1), of a b] mapped_sub [OF c(2), of a b] by (simp add: copyable_def mapped_dom [OF m1(2)])
  then show ?thesis using m1 by blast
qed

lemma copy_head_ok:
  "copyable dst buf n m \<Longrightarrow> \<exists>d b k m1. copy_head io dst buf n m = Some (d, b, k, m1) \<and> copyable d b k m1 \<and> memcpy d b k m1 = memcpy dst buf n m"
proof (induction n arbitrary: dst buf m)
  case (Suc n)
  from copy_part [of dst buf 1 n m] Suc.prems obtain m1 where m1: "memcpy dst buf 1 m = Some m1" "copyable (dst + 1) (buf + 1) n m1"
    "memcpy (dst + 1) (buf + 1) n m1 = memcpy dst buf (Suc n) m" by auto
  show ?case
  proof (cases "IS_ALIGNED (io dst buf) (of_nat IPC_MEMCPY_BYTES_ALIGNED)")
    case True
    then show ?thesis using Suc.prems by simp
  next
    case False
    then show ?thesis using m1 Suc.IH [OF m1(2)] by simp
  qed
qed simp

lemma copy_units_ok:
  "copyable dst buf n m \<Longrightarrow> \<exists>d b k m1. copy_units dst buf n m = Some (d, b, k, m1) \<and> copyable d b k m1 \<and> memcpy d b k m1 = memcpy dst buf n m"
proof (induction n arbitrary: dst buf m rule: less_induct)
  case (less n)
  show ?case
  proof (cases "8 \<le> n")
    case False
    then show ?thesis using less.prems by (subst copy_units.simps) (simp add: IPC_MEMCPY_BYTES_ALIGNED_def)
  next
    case True
    then have n: "8 + (n - 8) = n" by simp
    from copy_part [of dst buf 8 "n - 8" m] less.prems obtain m1 where m1: "memcpy dst buf 8 m = Some m1" "copyable (dst + 8) (buf + 8) (n - 8) m1"
      "memcpy (dst + 8) (buf + 8) (n - 8) m1 = memcpy dst buf n m" unfolding n by auto
    have "n - 8 < n" using True by simp
    from less.IH [OF this m1(2)] True m1 show ?thesis by (subst copy_units.simps) (simp add: IPC_MEMCPY_BYTES_ALIGNED_def)
  qed
qed

lemma copy_tail_ok: "copyable dst buf n m \<Longrightarrow> copy_tail dst buf n m = memcpy dst buf n m"
proof (induction n arbitrary: dst buf m)
  case 0
  then show ?case by (simp add: memcpy_def load_bytes_def store_bytes_def mapped_def)
next
  case (Suc n)
  from copy_part [of dst buf 1 n m] Suc.prems obtain m1 where "memcpy dst buf 1 m = Some m1" "copyable (dst + 1) (buf + 1) n m1"
    "memcpy (dst + 1) (buf + 1) n m1 = memcpy dst buf (Suc n) m" by auto
  then show ?case using Suc.IH by simp
qed

lemma copy_phases:
  assumes "copyable dst buf n m"
  shows "do { (dst1, buf1, count1, m1) \<leftarrow> copy_head io dst buf n m;
              (dst2, buf2, count2, m2) \<leftarrow> copy_units dst1 buf1 count1 m1;
              copy_tail dst2 buf2 count2 m2 } = memcpy dst buf n m"
proof -
  from copy_head_ok [OF assms, of io] obtain d b k m1 where h: "copy_head io dst buf n m = Some (d, b, k, m1)" "copyable d b k m1"
    "memcpy d b k m1 = memcpy dst buf n m" by blast
  from copy_units_ok [OF h(2)] obtain d' b' k' m2 where u: "copy_units d b k m1 = Some (d', b', k', m2)" "copyable d' b' k' m2"
    "memcpy d' b' k' m2 = memcpy d b k m1" by blast
  show ?thesis using h u copy_tail_ok [OF u(2)] by simp
qed

lemma memcpy_zero: "memcpy dst buf 0 m = Some m"
  by (simp add: memcpy_def load_bytes_def store_bytes_def mapped_def)

lemma io_copies:
  assumes "copyable dst buf n m" "dst \<noteq> 0" "buf \<noteq> 0"
  shows "ipc_memcpy_toio dst buf n m = memcpy dst buf n m" "ipc_memcpy_fromio dst buf n m = memcpy dst buf n m"
  by (simp_all add: ipc_memcpy_toio_def ipc_memcpy_fromio_def copy_phases [OF assms(1)] memcpy_zero assms(2,3))

text \<open>
  C39. The copy routines of the user-space samples. For two mapped buffers that do not overlap and are not
  NULL, \<open>ipc_memcpy_toio\<close> and \<open>ipc_memcpy_fromio\<close>, which copy single bytes up to an aligned address, then
  8-byte units, then the rest, return and leave exactly the memory that one plain copy leaves, whatever the
  alignment of either pointer and the count.
\<close>

theorem io_memcpy_is_memcpy:
  assumes "mapped m buf n" "mapped m dst n" "n < 2 ^ 64" "apart dst n buf n" "dst \<noteq> 0" "buf \<noteq> 0"
  shows "\<exists>m'. memcpy dst buf n m = Some m' \<and> ipc_memcpy_toio dst buf n m = Some m' \<and> ipc_memcpy_fromio dst buf n m = Some m' \<and>
     load_bytes m' dst n = load_bytes m buf n \<and> same_except (region dst n) m m'"
proof -
  have c: "copyable dst buf n m" using assms by (simp add: copyable_def)
  from assms(1,2) obtain bs m' where bs: "load_bytes m buf n = Some bs" "length bs = n" "store_bytes dst bs m = Some m'"
    by (simp add: load_bytes_def store_bytes_def)
  then have m': "memcpy dst buf n m = Some m'" by (simp add: memcpy_def)
  moreover have "load_bytes m' dst n = Some bs" using load_store_same [OF bs(3)] assms(3) bs(2) by simp
  moreover have "same_except (region dst n) m m'" using store_bytes_same_except [OF bs(3)] assms(3) bs(2) by simp
  ultimately show ?thesis using io_copies [OF c assms(5,6)] bs(1) by simp
qed

theorem io_memcpy_is_memcpy_witness:
  "\<exists>m'. ipc_memcpy_toio 0x1003 0x2005 29 (zero_ram 0x1000 0x3000) = Some m' \<and> ipc_memcpy_fromio 0x1003 0x2005 29 (zero_ram 0x1000 0x3000) = Some m'"
  using io_memcpy_is_memcpy [of "zero_ram 0x1000 0x3000" "0x2005" 29 "0x1003"] apart_num [of "0x1003" 29 "0x2005" 29]
  by (auto simp: mapped_zero_ram apart_num_def)

end
