(* ===== verification/Sample_User.thy ===== *)
theory Sample_User
  imports Sample_Io Sample_Cfg Sample_Loop
begin

text \<open>
  The user-space sample application \<open>src/sample_user/sample.c\<close>. Its static data are a record in the environment of the
  driver's state; arrays whose addresses are passed around live in memory, and \<open>user_frame\<close> gives their addresses. What the
  C library and the kernel provide is a record of functions: \<open>uo_block\<close> is what happens while the thread sleeps in
  \<open>sem_wait\<close> (the receive thread of the driver's library, signals; \<open>None\<close> if it sleeps for ever), \<open>uo_scanf\<close> reads a
  number (\<open>None\<close> if there is none). A failed assertion, a fault and not returning are all \<open>None\<close>. Members of the
  application's structure that the code never uses are left out, and so is printing, except that \<open>%s\<close> reads its argument.
\<close>

section \<open>Static data\<close>

definition EINTR :: int where "EINTR = 4"

record user_app =
  ua_num_channels :: int
  ua_num_msgs :: int
  ua_ctrl_shm :: u64
  ua_last_rx_no_msg :: int
  ua_sema :: nat
  ua_instance :: u8

record user_world =
  us_app :: user_app
  us_msg_sizes :: "int list"
  us_msg_sizes_count :: int
  us_errno :: int

record user_frame =
  uf_tmp :: u64            \<comment> \<open>the local array \<open>tmp\<close> of the sending functions\<close>
  uf_cb_tmp :: u64         \<comment> \<open>the local array \<open>tmp\<close> of the callbacks\<close>
  uf_last_tx_msg :: u64    \<comment> \<open>\<open>app.last_tx_msg\<close>\<close>

type_synonym 'o user_state = "'o user_world_scheme shm_state"

record 's user_libc =
  uo_block :: "'s \<Rightarrow> (bool \<times> 's) option"
  uo_other :: "'s \<Rightarrow> 's"
  uo_scanf :: "'s \<Rightarrow> int option \<times> 's"

type_synonym 'o user_os = "'o user_state user_libc"

definition uapp :: "'o user_state \<Rightarrow> user_app" where
  "uapp st = us_app (st_env st)"

definition upd_uapp :: "(user_app \<Rightarrow> user_app) \<Rightarrow> 'o user_state \<Rightarrow> 'o user_state" where
  "upd_uapp f st = st\<lparr>st_env := (st_env st)\<lparr>us_app := f (us_app (st_env st))\<rparr>\<rparr>"

section \<open>Initialisation\<close>

definition init_ipc_shm_user :: "'o user_os \<Rightarrow> 'o user_world_scheme platform \<Rightarrow> ipc_shm_instances_cfg \<Rightarrow>
    'o user_state \<Rightarrow> (int \<times> 'o user_state) option" where
  "init_ipc_shm_user U P cfg st = do {
     (err, st1) \<leftarrow> init_retry (uo_other U) P cfg st;
     if err \<noteq> 0 then Some (err, st1)
     else do {
       cf \<leftarrow> elem_ptr (icfg_shm_cfg cfg) 0;
       c0 \<leftarrow> cf;
       let st2 = upd_uapp (\<lambda>a. a\<lparr>ua_num_channels := uint (cfg_num_channels c0)\<rparr>) st1;
       shm \<leftarrow> ipc_shm_unmanaged_acquire (ua_instance (uapp st2)) (word_of_int CTRL_CHAN_ID) st2;
       let st3 = upd_uapp (\<lambda>a. a\<lparr>ua_ctrl_shm := shm\<rparr>) st2;
       if shm = 0 then Some (- ENOMEM, st3) else Some (0, st3) } }"

section \<open>Semaphore\<close>

definition sem_post :: "'o user_state \<Rightarrow> 'o user_state" where
  "sem_post = upd_uapp (\<lambda>a. a\<lparr>ua_sema := ua_sema a + 1\<rparr>)"

text \<open>A signal ends the wait with \<open>errno\<close> set and the semaphore as it is; success leaves \<open>errno\<close> as it is.\<close>

definition sem_wait :: "'o user_os \<Rightarrow> 'o user_state \<Rightarrow> 'o user_state option" where
  "sem_wait U st = (let taken = upd_uapp (\<lambda>a. a\<lparr>ua_sema := ua_sema a - 1\<rparr>) in
     if 0 < ua_sema (uapp st) then Some (taken st)
     else do {
       (signal, st1) \<leftarrow> uo_block U st;
       if signal then Some (st1\<lparr>st_env := (st_env st1)\<lparr>us_errno := EINTR\<rparr>\<rparr>)
       else if 0 < ua_sema (uapp st1) then Some (taken st1)
       else None })"

section \<open>Receive callbacks\<close>

definition data_chan_rx_cb_user :: "user_frame \<Rightarrow> u8 \<Rightarrow> u8 \<Rightarrow> u64 \<Rightarrow> u32 \<Rightarrow> 'o user_state \<Rightarrow> 'o user_state option" where
  "data_chan_rx_cb_user F inst chan_id buf data_size st =
     (if unat data_size > MAX_SAMPLE_MSG_LEN then None
      else do {
        m \<leftarrow> ipc_memcpy_fromio (uf_cb_tmp F) buf (unat data_size) (st_mem st);
        printed \<leftarrow> c_str m (uf_cb_tmp F);
        v \<leftarrow> strtol m (buf + 1);
        let st1 = upd_uapp (\<lambda>a. a\<lparr>ua_last_rx_no_msg := to_int32 v\<rparr>) (st\<lparr>st_mem := m\<rparr>);
        (err, st2) \<leftarrow> ipc_shm_release_buf inst chan_id buf st1;
        Some (sem_post st2) })"

definition ctrl_chan_rx_cb_user :: "user_frame \<Rightarrow> u8 \<Rightarrow> u8 \<Rightarrow> u64 \<Rightarrow> 'o user_state \<Rightarrow> 'o user_state option" where
  "ctrl_chan_rx_cb_user F inst chan_id mem st =
     (if uint chan_id \<noteq> CTRL_CHAN_ID then None
      else do {
        s \<leftarrow> c_str (st_mem st) mem;
        if length s > CTRL_CHAN_SIZE then None
        else do {
          m \<leftarrow> ipc_memcpy_fromio (uf_cb_tmp F) mem CTRL_CHAN_SIZE (st_mem st);
          printed \<leftarrow> c_str m (uf_cb_tmp F);
          Some (sem_post (st\<lparr>st_mem := m\<rparr>)) } })"

definition link_user :: "cfg_symbols \<Rightarrow> user_frame \<Rightarrow> 'o user_world_scheme platform \<Rightarrow> 'o user_world_scheme platform" where
  "link_user s F P = P\<lparr>
     app_rx_cb := \<lambda>cb arg i c buf n st. if cb = data_chan_rx_cb_ptr s then data_chan_rx_cb_user F i c buf n st else None,
     app_umng_rx_cb := \<lambda>cb arg i c mem st. if cb = ctrl_chan_rx_cb_ptr s then ctrl_chan_rx_cb_user F i c mem st else None\<rparr>"

section \<open>Sending\<close>

text \<open>The local array is zeroed first, then printed into, and copied as a whole.\<close>

definition send_ctrl_msg_user :: "user_frame \<Rightarrow> 'o user_world_scheme platform \<Rightarrow> u8 \<Rightarrow> 'o user_state \<Rightarrow> (int \<times> 'o user_state) option" where
  "send_ctrl_msg_user F P inst st = do {
     m0 \<leftarrow> store_bytes (uf_tmp F) (replicate CTRL_CHAN_SIZE 0) (st_mem st);
     s \<leftarrow> sprintf_stack CTRL_CHAN_SIZE (announcement (ua_num_msgs (uapp st)));
     m1 \<leftarrow> strcpy (uf_tmp F) s m0;
     m2 \<leftarrow> ipc_memcpy_toio (ua_ctrl_shm (uapp st)) (uf_tmp F) CTRL_CHAN_SIZE m1;
     (err, st1) \<leftarrow> ipc_shm_unmanaged_tx P inst (word_of_int CTRL_CHAN_ID) (st\<lparr>st_mem := m2\<rparr>);
     if err \<noteq> 0 then Some (err, st1) else Some (0, st1) }"

text \<open>
  \<open>snprintf\<close> into an array of \<open>k\<close> bytes with the limit \<open>len\<close>, a \<open>size_t\<close>: it writes at most \<open>len\<close> bytes, the last one a zero,
  and returns the length that the whole text has.
\<close>

definition snprintf_at :: "nat \<Rightarrow> u64 \<Rightarrow> u64 \<Rightarrow> string \<Rightarrow> memory \<Rightarrow> (int \<times> memory) option" where
  "snprintf_at k tmp len xs m =
     (if len = 0 then Some (int (length xs), m)
      else let bs = take (unat len - 1) (str_bytes xs) @ [0] in
        if length bs > k then None
        else do { m1 \<leftarrow> store_bytes tmp bs m; Some (int (length xs), m1) })"

definition user_text :: "int \<Rightarrow> string" where
  "user_text msg_no = ''#'' @ print_int msg_no @ '' HELLO WORLD! FROM USER''"

definition generate_msg_user :: "user_frame \<Rightarrow> u64 \<Rightarrow> int \<Rightarrow> int \<Rightarrow> memory \<Rightarrow> memory option" where
  "generate_msg_user F dest len msg_no m = do {
     (ret, m1) \<leftarrow> snprintf_at MAX_SAMPLE_MSG_LEN (uf_tmp F) (word_of_int len) (user_text msg_no) m;
     ipc_memcpy_toio dest (uf_tmp F) (nat ret) m1 }"

definition send_data_msg_user :: "'o user_os \<Rightarrow> user_frame \<Rightarrow> 'o user_world_scheme platform \<Rightarrow> u8 \<Rightarrow> int \<Rightarrow> int \<Rightarrow> int \<Rightarrow>
    'o user_state \<Rightarrow> (int \<times> 'o user_state) option" where
  "send_data_msg_user U F P inst msg_len msg_no chan_id st = do {
     (buf, st1) \<leftarrow> ipc_shm_acquire_buf P inst (word_of_int chan_id) (word_of_int msg_len) st;
     if buf = 0 then Some (- ENOMEM, st1)
     else do {
       m1 \<leftarrow> generate_msg_user F buf msg_len msg_no (st_mem st1);
       m2 \<leftarrow> ipc_memcpy_fromio (uf_last_tx_msg F) buf (unat (word_of_int msg_len :: u64)) m1;
       printed \<leftarrow> c_str m2 (uf_last_tx_msg F);
       (err, st2) \<leftarrow> ipc_shm_tx P inst chan_id buf (word_of_int msg_len) (st1\<lparr>st_mem := m2\<rparr>);
       if err \<noteq> 0 then Some (err, st2)
       else do {
         st3 \<leftarrow> sem_wait U st2;
         if us_errno (st_env st3) = EINTR then Some (err, st3) else Some (0, st3) } } }"

section \<open>The demo\<close>

definition user_demo :: "'o user_os \<Rightarrow> user_frame \<Rightarrow> 'o user_world_scheme platform \<Rightarrow> 'o user_state demo_code" where
  "user_demo U F P = \<lparr>
     dc_channels = \<lambda>st. ua_num_channels (uapp st),
     dc_sizes = \<lambda>st. us_msg_sizes_count (st_env st),
     dc_size = \<lambda>st i. nth_opt (us_msg_sizes (st_env st)) i,
     dc_send = \<lambda>len msg ch st. send_data_msg_user U F P (ua_instance (uapp st)) len msg ch st,
     dc_last = \<lambda>st. do { st1 \<leftarrow> sem_wait U st; Some (0, st1) }\<rparr>"

definition run_demo_user :: "'o user_os \<Rightarrow> user_frame \<Rightarrow> 'o user_world_scheme platform \<Rightarrow> int \<Rightarrow> 'o user_state \<Rightarrow> (int \<times> 'o user_state) option" where
  "run_demo_user U F P num_msgs st = do {
     (err, st1) \<leftarrow> send_ctrl_msg_user F P (ua_instance (uapp st)) st;
     if err \<noteq> 0 then Some (err, st1) else demo_loop (user_demo U F P) num_msgs At_msgs 0 st1 }"

text \<open>The handler of SIGINT, which can run whenever the thread sleeps.\<close>

definition int_handler :: "'o user_state \<Rightarrow> 'o user_state" where
  "int_handler = upd_uapp (\<lambda>a. a\<lparr>ua_num_msgs := 0\<rparr>)"

partial_function (option) user_main_loop :: "'o user_os \<Rightarrow> user_frame \<Rightarrow> 'o user_world_scheme platform \<Rightarrow> int \<Rightarrow> 'o user_state \<Rightarrow> (int \<times> 'o user_state) option" where
  "user_main_loop U F P err st =
     (if ua_num_msgs (uapp st) = 0 then Some (err, st)
      else case uo_scanf U st of (v, st1) \<Rightarrow>
        let st2 = (case v of None \<Rightarrow> st1 | Some n \<Rightarrow> upd_uapp (\<lambda>a. a\<lparr>ua_num_msgs := n\<rparr>) st1) in
        if ua_num_msgs (uapp st2) = 0 then Some (err, st2)
        else do {
          (err1, st3) \<leftarrow> run_demo_user U F P (ua_num_msgs (uapp st2)) st2;
          if err1 \<noteq> 0 then Some (err1, st3) else user_main_loop U F P err1 st3 })"

definition user_main :: "'o user_os \<Rightarrow> user_frame \<Rightarrow> 'o user_world_scheme platform \<Rightarrow> ipc_shm_instances_cfg \<Rightarrow> 'o user_state \<Rightarrow> (int \<times> 'o user_state) option" where
  "user_main U F P cfg st = do {
     (err, st1) \<leftarrow> init_ipc_shm_user U P cfg (upd_uapp (\<lambda>a. a\<lparr>ua_instance := 0, ua_sema := 0\<rparr>) st);
     if err \<noteq> 0 then Some (err, st1)
     else do {
       (err1, st2) \<leftarrow> user_main_loop U F P 0 (upd_uapp (\<lambda>a. a\<lparr>ua_num_msgs := 1\<rparr>) st1);
       st3 \<leftarrow> ipc_shm_free P st2;
       Some (err1, st3) } }"

end
