(* ===== verification/Sample_User_Props.thy ===== *)
theory Sample_User_Props
  imports Sample_User Sample_Props
begin

text \<open>
  Properties of the user-space sample: the number in a message survives the trip, what happens to long numbers,
  and the order in which the demo sends its messages.
\<close>

section \<open>The text of a message\<close>

lemma load_holds:
  assumes "holds m a bs"
  shows "load_bytes m a (length bs) = Some bs"
  using assms by (auto simp: holds_def load_bytes_def mapped_def list_all_iff intro!: nth_equalityI)

definition number_part :: "int \<Rightarrow> byte list" where
  "number_part n = 35 # str_bytes (decimal (nat n)) @ [32]"

lemma user_text_bytes:
  assumes "0 \<le> n"
  shows "str_bytes (user_text n) = number_part n @ str_bytes ''HELLO WORLD! FROM USER''"
    and "length (user_text n) = length (decimal (nat n)) + 24" and "length (number_part n) = length (decimal (nat n)) + 2"
  using assms by (simp_all add: user_text_def print_int_def number_part_def)

lemma number_part_reads:
  assumes "holds m a (number_part n)" "0 \<le> n" "n < 2 ^ 63"
  shows "strtol m (a + 1) = Some n"
proof -
  have "holds m (a + 1) (str_bytes (decimal (nat n)) @ [32])" using assms(1) by (simp add: number_part_def holds_Cons)
  from strtol_reads [OF this] assms(2,3) show ?thesis by (simp add: is_digit_def)
qed

lemma int_digits: "0 \<le> n \<Longrightarrow> n < 2 ^ 31 \<Longrightarrow> length (decimal (nat n)) \<le> 10"
  by (rule decimal_length) (simp_all add: nat_less_iff)

text \<open>What \<open>snprintf\<close> leaves in the array of 32 bytes.\<close>

definition printed_32 :: "int \<Rightarrow> byte list" where
  "printed_32 n = take 31 (str_bytes (user_text n)) @ [0]"

lemma printed_length: "length (printed_32 n) \<le> 32"
  by (simp add: printed_32_def)

lemma printed_split:
  assumes "0 \<le> n" "n < 2 ^ 31"
  obtains rest where "printed_32 n = number_part n @ rest"
proof -
  have "length (number_part n) \<le> 31" using int_digits [OF assms] user_text_bytes(3) [OF assms(1)] by simp
  then have "printed_32 n = number_part n @ (take (31 - length (number_part n)) (str_bytes ''HELLO WORLD! FROM USER'') @ [0])"
    by (simp add: printed_32_def user_text_bytes(1) [OF assms(1)])
  then show ?thesis by (rule that)
qed

lemma snprintf_run:
  assumes "mapped m tmp 32"
  shows "\<exists>m1. snprintf_at MAX_SAMPLE_MSG_LEN tmp (word_of_int 32) (user_text n) m = Some (int (length (user_text n)), m1) \<and>
     store_bytes tmp (printed_32 n) m = Some m1"
proof -
  have "mapped m tmp (length (printed_32 n))" using mapped_sub [OF assms, of 0 "length (printed_32 n)"] printed_length [of n] by simp
  then obtain m1 where "store_bytes tmp (printed_32 n) m = Some m1" by (auto simp: store_bytes_def)
  then show ?thesis by (simp add: snprintf_at_def Let_def printed_32_def MAX_SAMPLE_MSG_LEN_def)
qed

lemma generate_user_run:
  assumes "0 \<le> n" "n < 2 ^ 31" "mapped m (uf_tmp F) 64" "mapped m dest 64" "apart dest 64 (uf_tmp F) 64" "dest \<noteq> 0" "uf_tmp F \<noteq> 0"
  shows "\<exists>m1 m2. store_bytes (uf_tmp F) (printed_32 n) m = Some m1 \<and> generate_msg_user F dest 32 n m = Some m2 \<and>
     memcpy dest (uf_tmp F) (length (user_text n)) m1 = Some m2 \<and> copyable dest (uf_tmp F) (length (user_text n)) m1"
proof -
  have len: "length (user_text n) \<le> 64" using int_digits [OF assms(1,2)] user_text_bytes(2) [OF assms(1)] by simp
  have "mapped m (uf_tmp F) 32" using mapped_sub [OF assms(3), of 0 32] by simp
  from snprintf_run [OF this, of n] obtain m1 where m1: "store_bytes (uf_tmp F) (printed_32 n) m = Some m1"
    "snprintf_at MAX_SAMPLE_MSG_LEN (uf_tmp F) (word_of_int 32) (user_text n) m = Some (int (length (user_text n)), m1)" by blast
  have "same_except (region (uf_tmp F) (length (printed_32 n))) m m1" by (rule store_bytes_same_except [OF m1(1)]) (use printed_length [of n] in simp)
  then have d: "dom m1 = dom m" by (simp add: same_except_def)
  have "apart dest (length (user_text n)) (uf_tmp F) (length (user_text n))"
    using assms(5) region_mono [OF len] by (auto simp: apart_def)
  then have c: "copyable dest (uf_tmp F) (length (user_text n)) m1"
    using mapped_sub [OF assms(3), of 0 "length (user_text n)"] mapped_sub [OF assms(4), of 0 "length (user_text n)"] len
    by (simp add: copyable_def mapped_dom [OF d])
  then obtain m2 where m2: "memcpy dest (uf_tmp F) (length (user_text n)) m1 = Some m2"
    by (auto simp: copyable_def memcpy_def load_bytes_def store_bytes_def)
  then show ?thesis using m1 c io_copies(1) [OF c assms(6,7)] by (simp add: generate_msg_user_def)
qed

text \<open>
  For every non-negative message number that is an \<open>int\<close>, with buffers of 64 bytes around the arrays, \<open>generate_msg\<close> of
  the user-space sample returns and \<open>strtol\<close> behind the \<open>#\<close> of the message reads back exactly the number that was sent.
\<close>

theorem user_number_round_trip:
  assumes "0 \<le> n" "n < 2 ^ 31" "mapped m (uf_tmp F) 64" "mapped m dest 64" "apart dest 64 (uf_tmp F) 64" "dest \<noteq> 0" "uf_tmp F \<noteq> 0"
  shows "\<exists>m'. generate_msg_user F dest 32 n m = Some m' \<and> strtol m' (dest + 1) = Some n"
proof -
  from generate_user_run [OF assms] obtain m1 m2 where r: "store_bytes (uf_tmp F) (printed_32 n) m = Some m1"
    "generate_msg_user F dest 32 n m = Some m2" "memcpy dest (uf_tmp F) (length (user_text n)) m1 = Some m2"
    "copyable dest (uf_tmp F) (length (user_text n)) m1" by blast
  obtain rest where rest: "printed_32 n = number_part n @ rest" using printed_split [OF assms(1,2)] .
  have "holds m1 (uf_tmp F) (printed_32 n)" by (rule store_holds [OF r(1)]) (use printed_length [of n] in simp)
  then have np: "holds m1 (uf_tmp F) (number_part n)" unfolding rest holds_append by blast
  let ?k = "length (number_part n)"
  have le: "?k + (length (user_text n) - ?k) = length (user_text n)" using user_text_bytes(2,3) [OF assms(1)] by simp
  from copy_part [of dest "uf_tmp F" ?k "length (user_text n) - ?k" m1] r(4) obtain m3 where
    m3: "memcpy dest (uf_tmp F) ?k m1 = Some m3" "copyable (dest + of_nat ?k) (uf_tmp F + of_nat ?k) (length (user_text n) - ?k) m3"
      "memcpy (dest + of_nat ?k) (uf_tmp F + of_nat ?k) (length (user_text n) - ?k) m3 = Some m2" unfolding le r(3) by blast
  have h: "m2 (dest + of_nat i) = m1 (uf_tmp F + of_nat i)" if "i < ?k" for i
  proof -
    have lt: "length (user_text n) < 2 ^ 64" "?k \<le> length (user_text n)" using r(4) le by (simp_all add: copyable_def)
    have "unat (of_nat i :: u64) = i" using that lt by (intro unat_of_nat_small) simp
    then show ?thesis using memcpy_mapped [of m1 "uf_tmp F" "length (user_text n)" dest] r(3,4) lt that by (auto simp: copyable_def)
  qed
  have "holds m2 dest (number_part n)" using np h by (simp add: holds_def)
  then show ?thesis using number_part_reads [of m2 dest n] assms(1,2) r(2) by auto
qed

definition demo_frame :: user_frame where
  "demo_frame = \<lparr>uf_tmp = 0x2000, uf_cb_tmp = 0x2100, uf_last_tx_msg = 0x2200\<rparr>"

lemma demo_frame_ok:
  "mapped (zero_ram 0x1000 0x3000) (uf_tmp demo_frame) 64" "mapped (zero_ram 0x1000 0x3000) 0x1000 64" "apart 0x1000 64 (uf_tmp demo_frame) 64"
  "uf_tmp demo_frame \<noteq> 0"
  using apart_num [of "0x1000" 64 "0x2000" 64] by (simp_all add: demo_frame_def mapped_zero_ram apart_num_def)

theorem user_number_round_trip_witness:
  "\<exists>m'. generate_msg_user demo_frame 0x1000 32 12345678 (zero_ram 0x1000 0x3000) = Some m' \<and> strtol m' 0x1001 = Some 12345678"
  using user_number_round_trip [OF _ _ demo_frame_ok(1-3) _ demo_frame_ok(4), of 12345678] by simp

text \<open>
  A message number of nine or more digits. \<open>snprintf\<close> cuts the text off at the 32 bytes of the local array but returns its
  full length, and that many bytes are copied: the bytes behind the array on the stack are sent to the remote side,
  behind the 32 bytes of the buffer.
\<close>

theorem user_message_leaks_stack:
  assumes "100000000 \<le> n" "n < 2 ^ 31" "mapped m (uf_tmp F) 64" "mapped m dest 64" "apart dest 64 (uf_tmp F) 64" "dest \<noteq> 0" "uf_tmp F \<noteq> 0"
  shows "\<exists>m'. generate_msg_user F dest 32 n m = Some m' \<and> m' (dest + 32) = m (uf_tmp F + 32)"
proof -
  from assms(1) have n0: "0 \<le> n" by simp
  from generate_user_run [OF n0 assms(2-7)] obtain m1 m2 where r: "store_bytes (uf_tmp F) (printed_32 n) m = Some m1"
    "generate_msg_user F dest 32 n m = Some m2" "memcpy dest (uf_tmp F) (length (user_text n)) m1 = Some m2"
    "copyable dest (uf_tmp F) (length (user_text n)) m1" by blast
  have "8 < length (decimal (nat n))" by (rule decimal_length_ge) (use assms(1) in \<open>simp add: le_nat_iff\<close>)
  then have "32 < length (user_text n)" using user_text_bytes(2) [OF n0] by simp
  then have "m2 (dest + 32) = m1 (uf_tmp F + 32)"
    using memcpy_mapped [of m1 "uf_tmp F" "length (user_text n)" dest] r(3,4) by (auto simp: copyable_def)
  also have "\<dots> = m (uf_tmp F + 32)" using r(1) printed_length [of n] by (auto simp: store_bytes_def split: if_splits)
  finally show ?thesis using r(2) by blast
qed

theorem user_message_leaks_stack_witness:
  "\<exists>m'. generate_msg_user demo_frame 0x1000 32 123456789 (zero_ram 0x1000 0x3000) = Some m' \<and> m' 0x1020 = (zero_ram 0x1000 0x3000) 0x2020"
  using user_message_leaks_stack [OF _ _ demo_frame_ok(1-3) _ demo_frame_ok(4), of 123456789] by (simp add: demo_frame_def)

section \<open>The order of the messages\<close>

definition user_cfg :: "'o user_world_scheme \<Rightarrow> int \<times> u8 \<times> int list \<times> int" where
  "user_cfg w = (ua_num_channels (us_app w), ua_instance (us_app w), us_msg_sizes w, us_msg_sizes_count w)"

definition user_keeps :: "'o user_os \<Rightarrow> 'o user_world_scheme platform \<Rightarrow> bool" where
  "user_keeps U P \<longleftrightarrow> (\<forall>st b st'. uo_block U st = Some (b, st') \<longrightarrow> user_cfg (st_env st') = user_cfg (st_env st)) \<and>
     (\<forall>i w w'. hw_irq_notify P i w = Some w' \<longrightarrow> user_cfg w' = user_cfg w)"

lemma sem_wait_keeps: "user_keeps U P \<Longrightarrow> sem_wait U st = Some st' \<Longrightarrow> user_cfg (st_env st') = user_cfg (st_env st)"
  by (auto simp: user_keeps_def sem_wait_def upd_uapp_def user_cfg_def Let_def split: if_splits Option.bind_splits)

lemma send_user_keeps:
  assumes "user_keeps U P" "send_data_msg_user U F P inst len msg ch st = Some (e, st')"
  shows "user_cfg (st_env st') = user_cfg (st_env st)"
proof -
  from assms(2) obtain buf st1 where a: "ipc_shm_acquire_buf P inst (word_of_int ch) (word_of_int len) st = Some (buf, st1)"
    by (auto simp: send_data_msg_user_def split: Option.bind_splits)
  then have e1: "st_env st1 = st_env st" by (rule acquire_env)
  have tx: "user_cfg (st_env s') = user_cfg (st_env s)" if "ipc_shm_tx P inst ch buf n s = Some (x, s')" for n s x s'
    using tx_env [OF that] assms(1) by (auto simp: user_keeps_def)
  show ?thesis using assms(2) a e1
    by (auto simp: send_data_msg_user_def split: Option.bind_splits if_splits dest!: tx sem_wait_keeps [OF assms(1)])
qed

lemma send_ctrl_user_keeps:
  assumes "user_keeps U P" "send_ctrl_msg_user F P inst st = Some (e, st')"
  shows "user_cfg (st_env st') = user_cfg (st_env st)"
  using assms umng_tx_env [of P inst] unfolding user_keeps_def
  by (fastforce simp: send_ctrl_msg_user_def split: Option.bind_splits if_splits)

interpretation user_loop: demo_contract "user_demo U F P"
    "\<lambda>st. user_keeps U P \<and> 0 < c \<and> szs \<noteq> [] \<and> user_cfg (st_env st) = (int c + 1, inst, szs, int (length szs))" c szs for U F P c szs inst
  by unfold_locales (auto simp: user_demo_def user_cfg_def uapp_def nth_opt_def dest: send_user_keeps)

end
