(* ===== verification/Sample_Xen.thy ===== *)
theory Sample_Xen
  imports Sample_App
begin

text \<open>
  The two Xen sample applications, \<open>src/sample_xen/dom0/sample.c\<close> and \<open>src/sample_xen/dom0less/sample.c\<close>. Their code differs in
  the name of the module and in the text of the messages, which are the argument \<open>X\<close>. There are no
  interrupts: both sides poll. The static data are those of the kernel sample with three counters more; the
  kernel is the same record of functions. While a sample spins, the rest of the system moves on (\<open>sl_other\<close>).
\<close>

section \<open>Static data\<close>

record xen_world = sample_world +
  xw_num_tx_msg :: int
  xw_num_rx_msg :: int
  xw_expected_msgs :: int

record xen_domain =
  xd_module_name :: string
  xd_from :: string

definition dom0 :: xen_domain where
  "dom0 = \<lparr>xd_module_name = ''ipc-shm-sample_xen_dom0'', xd_from = ''DOM0''\<rparr>"

definition dom0less :: xen_domain where
  "dom0less = \<lparr>xd_module_name = ''ipc-shm-sample_xen_dom0less'', xd_from = ''DOM1''\<rparr>"

type_synonym 'o xen_linux = "'o xen_world_ext sample_linux"
type_synonym 'o xen_platform = "'o xen_world_ext sample_world_scheme platform"
type_synonym 'o xen_state = "'o xen_world_ext sample_state"

section \<open>Initialisation\<close>

definition init_ipc_shm_xen :: "'o xen_linux \<Rightarrow> 'o xen_platform \<Rightarrow> ipc_shm_instances_cfg \<Rightarrow> 'o xen_state \<Rightarrow> (int \<times> 'o xen_state) option" where
  "init_ipc_shm_xen L P cfg st = do {
     (err, st1) \<leftarrow> init_retry (sl_other L) P cfg st;
     if err \<noteq> 0 then Some (err, st1)
     else do {
       cf \<leftarrow> elem_ptr (icfg_shm_cfg cfg) 0;
       c0 \<leftarrow> cf;
       Some (0, upd_app (\<lambda>a. a\<lparr>ap_num_channels := uint (cfg_num_channels c0)\<rparr>) st1) } }"

section \<open>Receive callbacks\<close>

definition data_chan_rx_cb_xen :: "cfg_symbols \<Rightarrow> u64 \<Rightarrow> u8 \<Rightarrow> u8 \<Rightarrow> u64 \<Rightarrow> u32 \<Rightarrow> 'o xen_state \<Rightarrow> 'o xen_state option" where
  "data_chan_rx_cb_xen s arg inst chan_id buf data_size st =
     (if arg \<noteq> rx_cb_arg_ptr s then None
      else do {
        printed \<leftarrow> c_str (st_mem st) buf;
        n \<leftarrow> ipc_strtol (st_mem st) (buf + 1);
        let st1 = upd_world (\<lambda>w. w\<lparr>xw_num_rx_msg := xw_num_rx_msg w + 1\<rparr>) (upd_app (\<lambda>a. a\<lparr>ap_last_rx_no_msg := sint n\<rparr>) st);
        (err, st2) \<leftarrow> ipc_shm_release_buf inst chan_id buf st1;
        Some (complete_reply st2) })"

definition ctrl_chan_rx_cb_xen :: "cfg_symbols \<Rightarrow> u64 \<Rightarrow> u8 \<Rightarrow> u8 \<Rightarrow> u64 \<Rightarrow> 'o xen_state \<Rightarrow> 'o xen_state option" where
  "ctrl_chan_rx_cb_xen s arg inst chan_id mem st =
     (if arg \<noteq> rx_cb_arg_ptr s then None
      else do {
        n \<leftarrow> ipc_strtol (st_mem st) (mem + of_nat (length ''SENDING MESSAGES: ''));
        printed \<leftarrow> c_str (st_mem st) mem;
        Some (upd_world (\<lambda>w. w\<lparr>xw_expected_msgs := sint n\<rparr>) st) })"

definition link_xen :: "cfg_symbols \<Rightarrow> 'o xen_platform \<Rightarrow> 'o xen_platform" where
  "link_xen s P = P\<lparr>
     app_rx_cb := \<lambda>cb arg i c buf n st. if cb = data_chan_rx_cb_ptr s then data_chan_rx_cb_xen s arg i c buf n st else None,
     app_umng_rx_cb := \<lambda>cb arg i c mem st. if cb = ctrl_chan_rx_cb_ptr s then ctrl_chan_rx_cb_xen s arg i c mem st else None\<rparr>"

section \<open>Sending\<close>

definition xen_text :: "xen_domain \<Rightarrow> int \<Rightarrow> string" where
  "xen_text X msg_no = ''#'' @ print_int msg_no @ '' HELLO WORLD! from '' @ xd_from X"

definition generate_msg_xen :: "xen_domain \<Rightarrow> u64 \<Rightarrow> int \<Rightarrow> int \<Rightarrow> memory \<Rightarrow> memory option" where
  "generate_msg_xen X s len msg_no m = do {
     tmp \<leftarrow> sprintf_stack MAX_SAMPLE_MSG_LEN (xen_text X msg_no);
     strscpy s tmp MAX_SAMPLE_MSG_LEN m }"

text \<open>The memory of the control channel is acquired on each call.\<close>

definition send_ctrl_msg_xen :: "'o xen_platform \<Rightarrow> u8 \<Rightarrow> 'o xen_state \<Rightarrow> (int \<times> 'o xen_state) option" where
  "send_ctrl_msg_xen P inst st = do {
     shm \<leftarrow> ipc_shm_unmanaged_acquire 0 (word_of_int CTRL_CHAN_ID) st;
     let st1 = upd_app (\<lambda>a. a\<lparr>ap_ctrl_shm := shm\<rparr>) st;
     if shm = 0 then Some (- ENOMEM, st1)
     else do {
       tmp \<leftarrow> sprintf_stack CTRL_CHAN_SIZE (announcement (ap_num_msgs (app st1)));
       m \<leftarrow> strscpy shm tmp CTRL_CHAN_SIZE (st_mem st1);
       (err, st2) \<leftarrow> ipc_shm_unmanaged_tx P inst (word_of_int CTRL_CHAN_ID) (st1\<lparr>st_mem := m\<rparr>);
       if err \<noteq> 0 then Some (err, st2) else Some (0, st2) } }"

definition send_data_poll_xen :: "xen_domain \<Rightarrow> 'o xen_linux \<Rightarrow> 'o xen_platform \<Rightarrow> u8 \<Rightarrow> int \<Rightarrow> int \<Rightarrow> int \<Rightarrow>
    'o xen_state \<Rightarrow> (int \<times> 'o xen_state) option" where
  "send_data_poll_xen X L P inst msg_len msg_no chan_id st = do {
     (buf, st1) \<leftarrow> retry (ipc_shm_acquire_buf P inst (word_of_int chan_id) (word_of_int msg_len)) (sl_other L) st;
     m \<leftarrow> generate_msg_xen X buf msg_len msg_no (st_mem st1);
     printed \<leftarrow> c_str m buf;
     (err, st2) \<leftarrow> ipc_shm_tx P inst chan_id buf (word_of_int msg_len) (st1\<lparr>st_mem := m\<rparr>);
     if err \<noteq> 0 then Some (err, st2) else Some (0, st2) }"

section \<open>The demo\<close>

definition poll_once :: "'o xen_linux \<Rightarrow> 'o xen_platform \<Rightarrow> 'o xen_state \<Rightarrow> 'o xen_state option" where
  "poll_once L P st = map_option snd (ipc_shm_poll_channels P 0 (sl_other L st))"

text \<open>One message on each channel in turn; after the last one, poll until every message is answered.\<close>

definition xen_demo :: "xen_domain \<Rightarrow> 'o xen_linux \<Rightarrow> 'o xen_platform \<Rightarrow> 'o xen_state demo_code" where
  "xen_demo X L P = \<lparr>
     dc_channels = \<lambda>st. ap_num_channels (app st),
     dc_sizes = \<lambda>st. 1,
     dc_size = \<lambda>st i. Some (int MAX_SAMPLE_MSG_LEN),
     dc_send = \<lambda>len msg ch st. do {
       (err, st1) \<leftarrow> send_data_poll_xen X L P 0 len msg ch st;
       if err \<noteq> 0 then Some (err, st1) else Some (0, upd_world (\<lambda>w. w\<lparr>xw_num_tx_msg := xw_num_tx_msg w + 1\<rparr>) st1) },
     dc_last = \<lambda>st. do {
       st1 \<leftarrow> poll_while (\<lambda>s. xw_num_tx_msg (st_env s) \<noteq> xw_num_rx_msg (st_env s)) (poll_once L P) st;
       Some (0, st1) }\<rparr>"

definition run_demo_poll_xen :: "xen_domain \<Rightarrow> 'o xen_linux \<Rightarrow> 'o xen_platform \<Rightarrow> int \<Rightarrow> 'o xen_state \<Rightarrow> (int \<times> 'o xen_state) option" where
  "run_demo_poll_xen X L P num_msgs st = do {
     (err, st1) \<leftarrow> send_ctrl_msg_xen P 0 st;
     if err \<noteq> 0 then Some (err, st1) else demo_loop (xen_demo X L P) num_msgs At_msgs 0 st1 }"

section \<open>The sysfs interface and the module\<close>

text \<open>The replies, one for each expected message, alternating between the first two data channels.\<close>

partial_function (option) show_replies :: "xen_domain \<Rightarrow> 'o xen_linux \<Rightarrow> 'o xen_platform \<Rightarrow> int \<Rightarrow> 'o xen_state \<Rightarrow> (int \<times> 'o xen_state) option" where
  "show_replies X L P i st =
     (if i < xw_expected_msgs (st_env st) then do {
        (err, st1) \<leftarrow> send_data_poll_xen X L P 0 (int MAX_SAMPLE_MSG_LEN) i (i mod 2 + 1) st;
        if err \<noteq> 0 then Some (err, st1) else show_replies X L P (i + 1) st1 }
      else let st1 = upd_world (\<lambda>w. w\<lparr>xw_num_rx_msg := 0\<rparr>) st in Some (xw_expected_msgs (st_env st1), st1))"

definition ipc_sysfs_show_xen :: "xen_domain \<Rightarrow> 'o xen_linux \<Rightarrow> 'o xen_platform \<Rightarrow> 'o xen_state \<Rightarrow> (int \<times> 'o xen_state) option" where
  "ipc_sysfs_show_xen X L P st = do {
     st1 \<leftarrow> poll_while (\<lambda>s. xw_num_rx_msg (st_env s) \<noteq> xw_expected_msgs (st_env s) \<or> xw_expected_msgs (st_env s) = 0) (poll_once L P)
       (upd_world (\<lambda>w. w\<lparr>xw_num_rx_msg := 0, xw_expected_msgs := 0\<rparr>) st);
     (ignored, st2) \<leftarrow> send_ctrl_msg_xen P 0 st1;
     show_replies X L P 0 st2 }"

definition ipc_sysfs_store_xen :: "xen_domain \<Rightarrow> 'o xen_linux \<Rightarrow> 'o xen_platform \<Rightarrow> string \<Rightarrow> string \<Rightarrow> int \<Rightarrow>
    'o xen_state \<Rightarrow> (int \<times> 'o xen_state) option" where
  "ipc_sysfs_store_xen X L P attr buf count st = (case sl_kstrtoint L buf of (err, value) \<Rightarrow>
     if err \<noteq> 0 then Some (err, st)
     else if attr = ap_ping_attr (app st) then do {
       (ignored, st1) \<leftarrow> run_demo_poll_xen X L P value (upd_app (\<lambda>a. a\<lparr>ap_num_msgs := value\<rparr>) st);
       Some (count, st1) }
     else Some (count, st))"

definition init_sysfs_xen :: "xen_domain \<Rightarrow> 'o xen_linux \<Rightarrow> 'o xen_state \<Rightarrow> int \<times> 'o xen_state" where
  "init_sysfs_xen X = init_sysfs_named (xd_module_name X)"

definition free_sysfs_xen :: "'o xen_linux \<Rightarrow> 'o xen_state \<Rightarrow> 'o xen_state" where
  "free_sysfs_xen = free_sysfs"

definition sample_mod_init_xen :: "xen_domain \<Rightarrow> 'o xen_linux \<Rightarrow> 'o xen_platform \<Rightarrow> ipc_shm_instances_cfg \<Rightarrow> 'o xen_state \<Rightarrow> (int \<times> 'o xen_state) option" where
  "sample_mod_init_xen X L P cfg st = do {
     (err, st1) \<leftarrow> init_ipc_shm_xen L P cfg st;
     if err \<noteq> 0 then Some (err, st1) else Some (init_sysfs_xen X L st1) }"

definition sample_mod_exit_xen :: "'o xen_linux \<Rightarrow> 'o xen_platform \<Rightarrow> ipc_shm_instances_cfg \<Rightarrow> 'o xen_state \<Rightarrow> 'o xen_state option" where
  "sample_mod_exit_xen = sample_mod_exit"

section \<open>The dom0less application\<close>

text \<open>The same functions; they differ from those of \<open>dom0\<close> in the name of the module and in the name of the sender in the messages.\<close>

definition init_ipc_shm_dom0less :: "'o xen_linux \<Rightarrow> 'o xen_platform \<Rightarrow> ipc_shm_instances_cfg \<Rightarrow> 'o xen_state \<Rightarrow> (int \<times> 'o xen_state) option" where
  "init_ipc_shm_dom0less = init_ipc_shm_xen"

definition data_chan_rx_cb_dom0less :: "cfg_symbols \<Rightarrow> u64 \<Rightarrow> u8 \<Rightarrow> u8 \<Rightarrow> u64 \<Rightarrow> u32 \<Rightarrow> 'o xen_state \<Rightarrow> 'o xen_state option" where
  "data_chan_rx_cb_dom0less = data_chan_rx_cb_xen"

definition ctrl_chan_rx_cb_dom0less :: "cfg_symbols \<Rightarrow> u64 \<Rightarrow> u8 \<Rightarrow> u8 \<Rightarrow> u64 \<Rightarrow> 'o xen_state \<Rightarrow> 'o xen_state option" where
  "ctrl_chan_rx_cb_dom0less = ctrl_chan_rx_cb_xen"

definition generate_msg_dom0less :: "u64 \<Rightarrow> int \<Rightarrow> int \<Rightarrow> memory \<Rightarrow> memory option" where
  "generate_msg_dom0less = generate_msg_xen dom0less"

definition send_ctrl_msg_dom0less :: "'o xen_platform \<Rightarrow> u8 \<Rightarrow> 'o xen_state \<Rightarrow> (int \<times> 'o xen_state) option" where
  "send_ctrl_msg_dom0less = send_ctrl_msg_xen"

definition send_data_poll_dom0less :: "'o xen_linux \<Rightarrow> 'o xen_platform \<Rightarrow> u8 \<Rightarrow> int \<Rightarrow> int \<Rightarrow> int \<Rightarrow> 'o xen_state \<Rightarrow> (int \<times> 'o xen_state) option" where
  "send_data_poll_dom0less = send_data_poll_xen dom0less"

definition run_demo_poll_dom0less :: "'o xen_linux \<Rightarrow> 'o xen_platform \<Rightarrow> int \<Rightarrow> 'o xen_state \<Rightarrow> (int \<times> 'o xen_state) option" where
  "run_demo_poll_dom0less = run_demo_poll_xen dom0less"

definition ipc_sysfs_show_dom0less :: "'o xen_linux \<Rightarrow> 'o xen_platform \<Rightarrow> 'o xen_state \<Rightarrow> (int \<times> 'o xen_state) option" where
  "ipc_sysfs_show_dom0less = ipc_sysfs_show_xen dom0less"

definition ipc_sysfs_store_dom0less :: "'o xen_linux \<Rightarrow> 'o xen_platform \<Rightarrow> string \<Rightarrow> string \<Rightarrow> int \<Rightarrow> 'o xen_state \<Rightarrow> (int \<times> 'o xen_state) option" where
  "ipc_sysfs_store_dom0less = ipc_sysfs_store_xen dom0less"

definition init_sysfs_dom0less :: "'o xen_linux \<Rightarrow> 'o xen_state \<Rightarrow> int \<times> 'o xen_state" where
  "init_sysfs_dom0less = init_sysfs_xen dom0less"

definition free_sysfs_dom0less :: "'o xen_linux \<Rightarrow> 'o xen_state \<Rightarrow> 'o xen_state" where
  "free_sysfs_dom0less = free_sysfs_xen"

definition sample_mod_init_dom0less :: "'o xen_linux \<Rightarrow> 'o xen_platform \<Rightarrow> ipc_shm_instances_cfg \<Rightarrow> 'o xen_state \<Rightarrow> (int \<times> 'o xen_state) option" where
  "sample_mod_init_dom0less = sample_mod_init_xen dom0less"

definition sample_mod_exit_dom0less :: "'o xen_linux \<Rightarrow> 'o xen_platform \<Rightarrow> ipc_shm_instances_cfg \<Rightarrow> 'o xen_state \<Rightarrow> 'o xen_state option" where
  "sample_mod_exit_dom0less = sample_mod_exit_xen"

end
