(* ===== verification/Sample_Xen_Props.thy ===== *)
theory Sample_Xen_Props
  imports Sample_Xen Sample_Props Shm_Umng
begin

text \<open>
  Properties of the Xen samples: the number of messages that one side announces is the number that the other side waits for,
  and a demo is over exactly when as many messages were received as were sent.
\<close>

section \<open>The announcement\<close>

lemma announcement_bytes:
  assumes "0 \<le> n" "n < 2 ^ 31"
  shows "str_bytes (announcement n) = str_bytes ''SENDING MESSAGES: '' @ str_bytes (decimal (nat n))"
    and "length (announcement n) \<le> 28" and "0 \<notin> set (str_bytes (announcement n))"
proof -
  have "length (decimal (nat n)) \<le> 10" by (rule decimal_length) (use assms in \<open>simp_all add: nat_less_iff\<close>)
  then show "length (announcement n) \<le> 28" using assms(1) by (simp add: announcement_def print_int_def)
  show "str_bytes (announcement n) = str_bytes ''SENDING MESSAGES: '' @ str_bytes (decimal (nat n))"
    using assms(1) by (simp add: announcement_def print_int_def)
  then show "0 \<notin> set (str_bytes (announcement n))" using nonzero_digits [OF decimal_digits [of "nat n"]] by simp
qed

text \<open>The receiving side reads the number back.\<close>

lemma announcement_read:
  assumes "holds (st_mem st) a (str_bytes (announcement n) @ [0])" "0 \<le> n" "n < 2 ^ 31"
  shows "ctrl_chan_rx_cb_xen s (rx_cb_arg_ptr s) j c a st = Some (upd_world (\<lambda>w. w\<lparr>xw_expected_msgs := n\<rparr>) st)"
proof -
  have "holds (st_mem st) (a + 18) (str_bytes (decimal (nat n)) @ [0])"
    using assms(1) unfolding announcement_bytes(1) [OF assms(2,3)] by (simp add: holds_Cons holds_append add.assoc)
  from strtol_number [OF this] have "ipc_strtol (st_mem st) (a + 18) = Some (word_of_int n)" using assms(2) by (simp add: is_digit_def)
  moreover have "sint (word_of_int n :: u32) = n" using assms(2,3) by (simp add: sint_sbintrunc' signed_take_bit_int_eq_self)
  moreover have "c_str (st_mem st) a = Some (str_bytes (announcement n))"
    by (rule c_str_holds [OF assms(1) announcement_bytes(3) [OF assms(2,3)]])
  ultimately show ?thesis by (simp add: ctrl_chan_rx_cb_xen_def)
qed

lemma holds_frame: "same_except A m m' \<Longrightarrow> region a (length bs) \<inter> A = {} \<Longrightarrow> holds m a bs \<Longrightarrow> holds m' a bs"
  by (fastforce simp: holds_def same_except_def region_def)

lemma lookup_world [simp]:
  "get_unmanaged_chan i c (st\<lparr>st_env := w\<rparr>) = get_unmanaged_chan i c st" "get_unmanaged_chan i c (st\<lparr>st_mem := m\<rparr>) = get_unmanaged_chan i c st"
  "priv_at i (st\<lparr>st_env := w\<rparr>) = priv_at i st"
  by (simp_all add: get_unmanaged_chan_def get_channel_def get_channel_priv_def priv_at_def cong: if_cong)

text \<open>The control memory of a channel: mapped, and apart from what the driver reads in order to transmit.\<close>

definition control_memory :: "'w platform \<Rightarrow> u8 \<Rightarrow> 'w shm_state \<Rightarrow> ipc_shm_channel \<Rightarrow> bool" where
  "control_memory P i st ch \<longleftrightarrow> (\<exists>pv R. priv_at i st = Some pv \<and> os_get_remote_shm P i (st_env st) = Some R \<and>
     umem_mem (local_mem ch) \<noteq> 0 \<and> mapped (st_mem st) (umem_mem (local_mem ch)) CTRL_CHAN_SIZE \<and>
     apart (pv_global pv) 8 (umem_mem (local_mem ch)) CTRL_CHAN_SIZE \<and> apart R 8 (umem_mem (local_mem ch)) CTRL_CHAN_SIZE \<and>
     apart (remote_mem ch) 16 (umem_mem (local_mem ch)) CTRL_CHAN_SIZE)"

lemma own_header: "region p 16 \<inter> region (umem_mem p) 64 = {}"
  using apart_offsets [of 0 16 16 64 p] by (simp add: apart_def umem_mem_def)

lemma uchan_ready_frame:
  assumes "same_except A m m'" "region (local_mem ch) 16 \<inter> A = {}" "region (remote_mem ch) 16 \<inter> A = {}" "uchan_ready ch m"
  shows "uchan_ready ch m'"
proof -
  have "region (umem_sentinel p) 4 \<subseteq> region p 16" for p by (simp add: umem_sentinel_def region_mono)
  then have "region (umem_sentinel (local_mem ch)) 4 \<inter> A = {}" "region (umem_sentinel (remote_mem ch)) 4 \<inter> A = {}" using assms(2,3) by blast+
  then show ?thesis using assms(1,4) by (simp add: uchan_ready_def same_except_mapped load_u32_same_except)
qed

lemma remote_ready_app:
  assumes "\<And>w a. os_get_remote_shm P i (w\<lparr>sw_app := a\<rparr>) = os_get_remote_shm P i w"
  shows "ipc_shm_is_remote_ready P i (upd_app f st) = ipc_shm_is_remote_ready P i st"
  using assms by (simp add: ipc_shm_is_remote_ready_def upd_app_def upd_world_def cong: if_cong)

lemma announce_run:
  fixes P :: "'o xen_platform"
  assumes rr: "ipc_shm_is_remote_ready P 0 st = Some 0" and ch: "get_unmanaged_chan 0 0 st = Some (Some ch)"
    and u: "uchan_ready ch (st_mem st)" and cm: "control_memory P 0 st ch"
    and blind: "\<And>w a. os_get_remote_shm P 0 (w\<lparr>sw_app := a\<rparr>) = os_get_remote_shm P 0 w" and nt: "\<And>w. hw_irq_notify P 0 w \<noteq> None"
    and n: "0 \<le> ap_num_msgs (app st)" "ap_num_msgs (app st) < 2 ^ 31"
  shows "\<exists>st2. send_ctrl_msg_xen P 0 st = Some (0, st2) \<and> holds (st_mem st2) (umem_mem (local_mem ch)) (str_bytes (announcement (ap_num_msgs (app st))) @ [0])"
proof -
  let ?a = "umem_mem (local_mem ch)" and ?bs = "str_bytes (announcement (ap_num_msgs (app st))) @ [0]"
  let ?st1 = "upd_app (\<lambda>a. a\<lparr>ap_ctrl_shm := ?a\<rparr>) st"
  note ab = announcement_bytes [OF n]
  from cm obtain pv R where c: "priv_at 0 st = Some pv" "os_get_remote_shm P 0 (st_env st) = Some R" "?a \<noteq> 0"
    "mapped (st_mem st) ?a 64" "region (pv_global pv) 8 \<inter> region ?a 64 = {}" "region R 8 \<inter> region ?a 64 = {}" "region (remote_mem ch) 16 \<inter> region ?a 64 = {}"
    by (auto simp: control_memory_def apart_def CTRL_CHAN_SIZE_def)
  have us: "ipc_instance_is_free 0 st = Some IPC_SHM_INSTANCE_USED"
    using rr by (auto simp: ipc_shm_is_remote_ready_def EINVAL_def split: Option.bind_splits if_splits)
  have acq: "ipc_shm_unmanaged_acquire 0 0 st = Some ?a"
    using us ch u by (simp add: ipc_shm_unmanaged_acquire_def ipc_check_uchan_local_integrity_def uchan_ready_def)
  have "mapped (st_mem st) ?a (length ?bs)" using mapped_sub [OF c(4), of 0 "length ?bs"] ab(2) by simp
  then obtain m where m: "store_bytes ?a ?bs (st_mem st) = Some m" by (auto simp: store_bytes_def)
  have se: "same_except (region ?a 64) (st_mem st) m"
    by (rule same_except_mono [OF store_bytes_same_except [OF m]]) (use ab(2) in \<open>simp_all add: region_mono\<close>)
  have u1: "uchan_ready ch m" by (rule uchan_ready_frame [OF se own_header c(7) u])
  have "priv_at 0 ?st1 = Some pv" "os_get_remote_shm P 0 (st_env ?st1) = Some R"
    using c(1,2) blind by (simp_all add: upd_app_def upd_world_def)
  from remote_ready_frame [OF se this c(5,6)] have rr1: "ipc_shm_is_remote_ready P 0 (?st1\<lparr>st_mem := m\<rparr>) = Some 0"
    using rr remote_ready_app [of P 0, OF blind] by (simp add: upd_app_def upd_world_def)
  obtain w where w: "hw_irq_notify P 0 (st_env (?st1\<lparr>st_mem := m\<rparr>)) = Some w" using nt by fastforce
  have ch1: "get_unmanaged_chan 0 0 (?st1\<lparr>st_mem := m\<rparr>) = Some (Some ch)" using ch by (simp add: upd_app_def upd_world_def)
  from unmanaged_tx_run [OF rr1 ch1 _ w] u1 obtain m' where
    tx: "ipc_shm_unmanaged_tx P 0 0 (?st1\<lparr>st_mem := m\<rparr>) = Some (0, ?st1\<lparr>st_mem := m', st_env := w\<rparr>)" "same_except (region (local_mem ch) 16) m m'"
    by auto
  have "region ?a (length ?bs) \<subseteq> region ?a 64" using ab(2) by (intro region_mono) simp
  then have "region ?a (length ?bs) \<inter> region (local_mem ch) 16 = {}" using own_header [of "local_mem ch"] by blast
  from holds_frame [OF tx(2) this store_holds [OF m]] have "holds m' ?a ?bs" using ab(2) by simp
  moreover have "sprintf_stack CTRL_CHAN_SIZE (announcement (ap_num_msgs (app st))) = Some (str_bytes (announcement (ap_num_msgs (app st))))"
    using ab(2) by (simp add: sprintf_stack_def CTRL_CHAN_SIZE_def)
  moreover have "ap_num_msgs (app ?st1) = ap_num_msgs (app st)" "st_mem ?st1 = st_mem st" by (simp_all add: app_def upd_app_def upd_world_def)
  ultimately show ?thesis
    using acq c(3) m tx(1) ab(2) by (intro exI [of _ "?st1\<lparr>st_mem := m', st_env := w\<rparr>"]) (simp add: send_ctrl_msg_xen_def CTRL_CHAN_ID_def strscpy_def CTRL_CHAN_SIZE_def)
qed

text \<open>
  C40. The announcement between the Xen domains. With the control channel up and its memory mapped, \<open>send_ctrl_msg\<close> of one
  domain returns 0, and the control callback of the other domain, given that memory, expects exactly the number of messages
  that the first domain is about to send, for every non-negative \<open>int\<close>.
\<close>

theorem announced_number_arrives:
  fixes P :: "'o xen_platform"
  assumes "ipc_shm_is_remote_ready P 0 st = Some 0" "get_unmanaged_chan 0 0 st = Some (Some ch)"
    and "uchan_ready ch (st_mem st)" "control_memory P 0 st ch"
    and "\<And>w a. os_get_remote_shm P 0 (w\<lparr>sw_app := a\<rparr>) = os_get_remote_shm P 0 w" "\<And>w. hw_irq_notify P 0 w \<noteq> None"
    and "0 \<le> ap_num_msgs (app st)" "ap_num_msgs (app st) < 2 ^ 31"
  shows "\<exists>st2. send_ctrl_msg_xen P 0 st = Some (0, st2) \<and>
     ctrl_chan_rx_cb_xen s (rx_cb_arg_ptr s) j c (umem_mem (local_mem ch)) (st'\<lparr>st_mem := st_mem st2\<rparr>) =
       Some (upd_world (\<lambda>w. w\<lparr>xw_expected_msgs := ap_num_msgs (app st)\<rparr>) (st'\<lparr>st_mem := st_mem st2\<rparr>))"
proof -
  from announce_run [OF assms] obtain st2 where st2: "send_ctrl_msg_xen P 0 st = Some (0, st2)"
    "holds (st_mem st2) (umem_mem (local_mem ch)) (str_bytes (announcement (ap_num_msgs (app st))) @ [0])" by blast
  have "ctrl_chan_rx_cb_xen s (rx_cb_arg_ptr s) j c (umem_mem (local_mem ch)) (st'\<lparr>st_mem := st_mem st2\<rparr>) =
       Some (upd_world (\<lambda>w. w\<lparr>xw_expected_msgs := ap_num_msgs (app st)\<rparr>) (st'\<lparr>st_mem := st_mem st2\<rparr>))"
    by (rule announcement_read) (use st2(2) assms(7,8) in simp_all)
  with st2(1) show ?thesis by blast
qed

definition xen_ping :: "unit xen_state" where
  "xen_ping = \<lparr>st_mem = demo_ushm, st_priv = st_priv (demo_ustate 0x10000 0x20000),
     st_env = \<lparr>sw_app = (sw_app (ping_world 3))\<lparr>ap_num_msgs := 1234567\<rparr>, sw_msg_sizes = [32], sw_msg_sizes_argc = 1, sw_reply_received = 0,
       xw_num_tx_msg = 0, xw_num_rx_msg = 0, xw_expected_msgs = 0\<rparr>\<rparr>"

lemma xen_ping_sel [simp]: "st_mem xen_ping = demo_ushm" "ap_num_msgs (app xen_ping) = 1234567"
  "priv_at 0 xen_ping = priv_at 0 (demo_ustate 0x10000 0x20000)"
  by (simp_all add: xen_ping_def app_def ping_world_def priv_at_def)

lemma xen_ping_ready:
  "uchan_ready (demo_uchan 0x10000 0x20000) (st_mem xen_ping)"
  "ipc_shm_is_remote_ready (quiet_platform 0x10000 0x20000) 0 xen_ping = Some 0"
  "get_unmanaged_chan 0 0 xen_ping = Some (Some (demo_uchan 0x10000 0x20000))"
  "control_memory (quiet_platform 0x10000 0x20000) 0 xen_ping (demo_uchan 0x10000 0x20000)"
  using demo_uready(1)
  by (simp_all add: demo_ustate_sel ipc_shm_is_remote_ready_def ipc_instance_is_free_def limit_defs demo_uwords get_unmanaged_chan_def get_channel_def
      get_channel_priv_def IPC_SHM_STATE_READY_def IPC_SHM_STATE_CLEAR_def control_memory_def umem_mem_def demo_umapped apart_either CTRL_CHAN_SIZE_def)

theorem announced_number_arrives_witness:
  "\<exists>st2. send_ctrl_msg_xen (quiet_platform 0x10000 0x20000) 0 xen_ping = Some (0, st2) \<and>
     ctrl_chan_rx_cb_xen ping_symbols 0 0 0 0x10018 (xen_ping\<lparr>st_mem := st_mem st2\<rparr>) =
       Some (upd_world (\<lambda>w. w\<lparr>xw_expected_msgs := 1234567\<rparr>) (xen_ping\<lparr>st_mem := st_mem st2\<rparr>))"
  using announced_number_arrives [OF xen_ping_ready(2,3,1,4), of ping_symbols 0 0 xen_ping]
  by (simp add: umem_mem_def demo_ustate_sel ping_symbols_def)

section \<open>The counters\<close>

text \<open>What the loops rely on: the number of channels and of sent messages is changed by the loops alone.\<close>

abbreviation sent :: "'o xen_state \<Rightarrow> int \<times> int" where
  "sent st \<equiv> (ap_num_channels (app st), xw_num_tx_msg (st_env st))"

definition xen_keeps :: "'o xen_linux \<Rightarrow> 'o xen_platform \<Rightarrow> bool" where
  "xen_keeps L P \<longleftrightarrow> (\<forall>st. sent (sl_other L st) = sent st) \<and>
     (\<forall>st i w'. hw_irq_notify P i (st_env st) = Some w' \<longrightarrow> sent (st\<lparr>st_env := w'\<rparr>) = sent st) \<and>
     (\<forall>st r st'. os_poll_channels P (ipc_shm_rx P) 0 st = Some (r, st') \<longrightarrow> st_env st' = st_env st \<or> (\<exists>b n. ipc_shm_rx P 0 b st = Some (n, st')))"

interpretation xen_client: rx_client "link_xen s P" 0 "\<lambda>w. xen_keeps L (link_xen s P) \<and> (ap_num_channels (sw_app w), xw_num_tx_msg w) = v" for s P L v
proof (unfold_locales, goal_cases)
  case (1 st cb arg c buf n st')
  then show ?case
    by (auto simp: link_xen_def data_chan_rx_cb_xen_def complete_reply_def upd_world_def upd_app_def split: if_splits Option.bind_splits dest!: release_keeps_env)
next
  case (2 st cb arg c buf st')
  then show ?case by (auto simp: link_xen_def ctrl_chan_rx_cb_xen_def upd_world_def split: if_splits Option.bind_splits)
next
  case (3 st r st')
  then show ?case unfolding xen_keeps_def by fastforce
qed

lemma poll_once_keeps:
  assumes k: "xen_keeps L (link_xen s P)" and run: "poll_once L (link_xen s P) st = Some st'"
  shows "sent st' = sent st"
proof -
  from run obtain r where r: "ipc_shm_poll_channels (link_xen s P) 0 (sl_other L st) = Some (r, st')" by (auto simp: poll_once_def)
  have "sent (sl_other L st) = sent st" using k by (simp add: xen_keeps_def)
  with xen_client.poll_keeps [OF _ r, of L "sent st"] k show ?thesis by (auto simp: app_def)
qed

lemma send_xen_keeps:
  assumes k: "xen_keeps L P" and run: "send_data_poll_xen X L P inst len msg ch st = Some (e, st')"
  shows "sent st' = sent st"
proof -
  from run obtain buf st1 m x where r: "retry (ipc_shm_acquire_buf P inst (word_of_int ch) (word_of_int len)) (sl_other L) st = Some (buf, st1)"
    "ipc_shm_tx P inst ch buf (word_of_int len) (st1\<lparr>st_mem := m\<rparr>) = Some (x, st')"
    by (auto simp: send_data_poll_xen_def split: Option.bind_splits if_splits)
  have "sent st1 = sent st"
    by (rule retry_keeps [OF r(1), of "\<lambda>s. sent s = sent st"]) (use k in \<open>auto simp: xen_keeps_def app_def dest: acquire_env\<close>)
  moreover have "sent st' = sent (st1\<lparr>st_mem := m\<rparr>)"
    using tx_env [OF r(2)] k by (auto simp: xen_keeps_def app_def)
  ultimately show ?thesis by (simp add: app_def)
qed

interpretation xen_loop: demo_contract "xen_demo X L P" "\<lambda>st. xen_keeps L P \<and> 0 < c \<and> ap_num_channels (app st) = int c + 1" c "[int MAX_SAMPLE_MSG_LEN]"
    for X L P c
  by unfold_locales (auto simp: xen_demo_def upd_world_def app_def split: Option.bind_splits if_splits dest!: send_xen_keeps)

lemma send_ctrl_xen_keeps:
  assumes "xen_keeps L P" "send_ctrl_msg_xen P inst st = Some (e, st')"
  shows "sent st' = sent st"
proof -
  have k: "sent s' = sent s" if "ipc_shm_unmanaged_tx P inst c s = Some (x, s')" for c s x s'
    using umng_tx_env [OF that] assms(1) by (auto simp: xen_keeps_def app_def)
  show ?thesis using assms(2) by (auto simp: send_ctrl_msg_xen_def Let_def upd_app_def upd_world_def app_def split: Option.bind_splits if_splits dest!: k)
qed

lemma plan_counts:
  assumes "xen_keeps L (link_xen s P)" "send_plan (xen_demo X L (link_xen s P)) xs st = Some (0, st')"
  shows "xw_num_tx_msg (st_env st') = xw_num_tx_msg (st_env st) + int (length xs) \<and> xw_num_rx_msg (st_env st') = xw_num_tx_msg (st_env st')"
  using assms(2)
proof (induction xs arbitrary: st)
  case Nil
  then have p: "poll_while (\<lambda>s. xw_num_tx_msg (st_env s) \<noteq> xw_num_rx_msg (st_env s)) (poll_once L (link_xen s P)) st = Some st'"
    by (auto simp: xen_demo_def split: Option.bind_splits)
  have "sent st' = sent st" by (rule poll_while_keeps [OF p, of "\<lambda>s. sent s = sent st"]) (use poll_once_keeps [OF assms(1)] in auto)
  then show ?case using poll_while_done [OF p] by simp
next
  case (Cons x xs)
  obtain msg ch len where x: "x = (msg, ch, len)" by (cases x)
  from Cons.prems x obtain s1 where s1: "send_data_poll_xen X L (link_xen s P) 0 len msg ch st = Some (0, s1)"
    "send_plan (xen_demo X L (link_xen s P)) xs (upd_world (\<lambda>w. w\<lparr>xw_num_tx_msg := xw_num_tx_msg w + 1\<rparr>) s1) = Some (0, st')"
    by (auto simp: xen_demo_def split: Option.bind_splits if_splits)
  from Cons.IH [OF s1(2)] send_xen_keeps [OF assms(1) s1(1)] show ?case by (simp add: upd_world_def)
qed

text \<open>
  A demo of the Xen samples that returns 0 has sent its messages, and by then as many messages were received, since the counter of
  received messages was last reset, as were sent since the module was loaded. If the two counters differ when the demo starts, as they do after
  \<open>ipc_sysfs_show\<close>, which resets only one of them, the demo waits for more replies than it sent messages.
\<close>

lemma xen_demo_counts:
  assumes k: "xen_keeps L (link_xen s P)" and c: "ap_num_channels (app st) = int c + 1" "0 < c" and n: "0 < n"
    and run: "run_demo_poll_xen X L (link_xen s P) n st = Some (0, st')"
  shows "xw_num_tx_msg (st_env st') = xw_num_tx_msg (st_env st) + n" "xw_num_rx_msg (st_env st') = xw_num_tx_msg (st_env st) + n"
proof -
  from run obtain st1 where s: "send_ctrl_msg_xen (link_xen s P) 0 st = Some (0, st1)" "demo_loop (xen_demo X L (link_xen s P)) n At_msgs 0 st1 = Some (0, st')"
    by (auto simp: run_demo_poll_xen_def split: Option.bind_splits if_splits)
  note k1 = send_ctrl_xen_keeps [OF k s(1)]
  have "send_plan (xen_demo X L (link_xen s P)) (demo_plan c [int MAX_SAMPLE_MSG_LEN] (nat n)) st1 = Some (0, st')"
    using s(2) xen_loop.demo_loop_start [of L "link_xen s P" c st1 X n] k c k1 n by (simp add: planned_def)
  from plan_counts [OF k this] k1 n show "xw_num_tx_msg (st_env st') = xw_num_tx_msg (st_env st) + n"
    "xw_num_rx_msg (st_env st') = xw_num_tx_msg (st_env st) + n" by (simp_all add: demo_plan_def)
qed

end
