(* ===== verification/Sample_Multi.thy ===== *)
theory Sample_Multi
  imports Sample_App
begin

text \<open>
  The kernel sample with three instances, \<open>src/sample_multi_instance/sample_multi_instance.c\<close>: instances 0 and 1 wait for an interrupt
  after each message, instance 2 polls. The array \<open>app[SAMPLE_NUM_INST]\<close> is a function of the index; an index that is not
  a constant is checked against the size of the array. The kernel is the record of functions of the single-instance sample.
\<close>

section \<open>Static data\<close>

definition SAMPLE_NUM_INST :: nat where "SAMPLE_NUM_INST = 3"

record multi_app =
  ma_num_tx_msg :: int
  ma_num_rx_msg :: int
  ma_expected_msgs :: int
  ma_num_channels :: int
  ma_num_msgs :: int
  ma_ctrl_shm :: u64
  ma_last_rx_no_msg :: int
  ma_reply_received :: nat
  ma_ipc_kobj_ins :: u64
  ma_ping_attr_ins :: string
  ma_local_virt_shm :: u64

record multi_world =
  mw_app :: "nat \<Rightarrow> multi_app"
  mw_msg_sizes :: "int list"
  mw_msg_sizes_argc :: int

type_synonym 'o multi_state = "'o multi_world_scheme shm_state"
type_synonym 'o multi_platform = "'o multi_world_scheme platform"
type_synonym 'o multi_linux = "'o multi_world_scheme kernel_api"

definition mapp :: "nat \<Rightarrow> 'o multi_state \<Rightarrow> multi_app" where
  "mapp i st = mw_app (st_env st) i"

definition upd_mapp :: "nat \<Rightarrow> (multi_app \<Rightarrow> multi_app) \<Rightarrow> 'o multi_state \<Rightarrow> 'o multi_state" where
  "upd_mapp i f = upd_world (\<lambda>w. w\<lparr>mw_app := (mw_app w)(i := f (mw_app w i))\<rparr>)"

section \<open>Initialisation\<close>

fun init_apps_multi :: "ipc_shm_instances_cfg \<Rightarrow> nat list \<Rightarrow> 'o multi_state \<Rightarrow> (int \<times> 'o multi_state) option" where
  "init_apps_multi cfg [] st = Some (0, st)"
| "init_apps_multi cfg (i # is) st = do {
     cf \<leftarrow> elem_ptr (icfg_shm_cfg cfg) i;
     ci \<leftarrow> cf;
     let st1 = upd_mapp i (\<lambda>a. a\<lparr>ma_num_channels := uint (cfg_num_channels ci)\<rparr>) st;
     shm \<leftarrow> ipc_shm_unmanaged_acquire (of_nat i) (word_of_int CTRL_CHAN_ID) st1;
     let st2 = upd_mapp i (\<lambda>a. a\<lparr>ma_ctrl_shm := shm\<rparr>) st1;
     if shm = 0 then Some (- ENOMEM, st2) else init_apps_multi cfg is st2 }"

definition init_ipc_shm_multi :: "'o multi_linux \<Rightarrow> 'o multi_platform \<Rightarrow> ipc_shm_instances_cfg \<Rightarrow> 'o multi_state \<Rightarrow> (int \<times> 'o multi_state) option" where
  "init_ipc_shm_multi L P cfg st = do {
     (err, st1) \<leftarrow> init_retry (sl_other L) P cfg st;
     if err \<noteq> 0 then Some (err, st1) else init_apps_multi cfg [0..<SAMPLE_NUM_INST] st1 }"

section \<open>Receive callbacks\<close>

definition data_chan_rx_cb_multi :: "cfg_symbols \<Rightarrow> u64 \<Rightarrow> u8 \<Rightarrow> u8 \<Rightarrow> u64 \<Rightarrow> u32 \<Rightarrow> 'o multi_state \<Rightarrow> 'o multi_state option" where
  "data_chan_rx_cb_multi s arg inst chan_id buf data_size st =
     (if arg \<noteq> rx_cb_arg_ptr s \<or> unat inst \<ge> SAMPLE_NUM_INST then None
      else do {
        printed \<leftarrow> c_str (st_mem st) buf;
        n \<leftarrow> ipc_strtol (st_mem st) (buf + 1);
        let st1 = upd_mapp (unat inst) (\<lambda>a. a\<lparr>ma_last_rx_no_msg := sint n, ma_num_rx_msg := ma_num_rx_msg a + 1\<rparr>) st;
        (err, st2) \<leftarrow> ipc_shm_release_buf inst chan_id buf st1;
        Some (upd_mapp (unat inst) (\<lambda>a. a\<lparr>ma_reply_received := ma_reply_received a + 1\<rparr>) st2) })"

definition ctrl_chan_rx_cb_multi :: "cfg_symbols \<Rightarrow> u64 \<Rightarrow> u8 \<Rightarrow> u8 \<Rightarrow> u64 \<Rightarrow> 'o multi_state \<Rightarrow> 'o multi_state option" where
  "ctrl_chan_rx_cb_multi s arg inst chan_id mem st =
     (if arg \<noteq> rx_cb_arg_ptr s \<or> unat inst \<ge> SAMPLE_NUM_INST then None
      else do {
        printed \<leftarrow> c_str (st_mem st) mem;
        n \<leftarrow> ipc_strtol (st_mem st) (mem + of_nat (length ''REPLIED MESSAGES: ''));
        Some (upd_mapp (unat inst) (\<lambda>a. a\<lparr>ma_expected_msgs := sint n\<rparr>) st) })"

definition link_multi :: "cfg_symbols \<Rightarrow> 'o multi_platform \<Rightarrow> 'o multi_platform" where
  "link_multi s P = P\<lparr>
     app_rx_cb := \<lambda>cb arg i c buf n st. if cb = data_chan_rx_cb_ptr s then data_chan_rx_cb_multi s arg i c buf n st else None,
     app_umng_rx_cb := \<lambda>cb arg i c mem st. if cb = ctrl_chan_rx_cb_ptr s then ctrl_chan_rx_cb_multi s arg i c mem st else None\<rparr>"

section \<open>Sending\<close>

definition send_ctrl_msg_multi :: "'o multi_platform \<Rightarrow> u8 \<Rightarrow> 'o multi_state \<Rightarrow> (int \<times> 'o multi_state) option" where
  "send_ctrl_msg_multi P inst st = do {
     tmp \<leftarrow> sprintf_stack CTRL_CHAN_SIZE (announcement (ma_num_msgs (mapp (unat inst) st)));
     m \<leftarrow> strscpy (ma_ctrl_shm (mapp (unat inst) st)) tmp CTRL_CHAN_SIZE (st_mem st);
     (err, st1) \<leftarrow> ipc_shm_unmanaged_tx P inst (word_of_int CTRL_CHAN_ID) (st\<lparr>st_mem := m\<rparr>);
     if err \<noteq> 0 then Some (err, st1) else Some (0, st1) }"

definition generate_msg_multi :: "u64 \<Rightarrow> int \<Rightarrow> int \<Rightarrow> memory \<Rightarrow> memory option" where
  "generate_msg_multi s len msg_no m = do {
     tmp \<leftarrow> sprintf_stack MAX_SAMPLE_MSG_LEN (kernel_text msg_no);
     strscpy s tmp MAX_SAMPLE_MSG_LEN m }"

text \<open>The completion of one instance.\<close>

definition wait_reply_multi :: "'o multi_linux \<Rightarrow> nat \<Rightarrow> 'o multi_state \<Rightarrow> (int \<times> 'o multi_state) option" where
  "wait_reply_multi L i st = (let taken = upd_mapp i (\<lambda>a. a\<lparr>ma_reply_received := ma_reply_received a - 1\<rparr>) in
     if 0 < ma_reply_received (mapp i st) then Some (0, taken st)
     else do {
       (signal, st1) \<leftarrow> sl_block L st;
       if signal then Some (- ERESTARTSYS, st1)
       else if 0 < ma_reply_received (mapp i st1) then Some (0, taken st1)
       else None })"

definition send_data_msg_multi :: "'o multi_linux \<Rightarrow> 'o multi_platform \<Rightarrow> u8 \<Rightarrow> int \<Rightarrow> int \<Rightarrow> int \<Rightarrow> 'o multi_state \<Rightarrow> (int \<times> 'o multi_state) option" where
  "send_data_msg_multi L P inst msg_len msg_no chan_id st = do {
     (buf, st1) \<leftarrow> ipc_shm_acquire_buf P inst (word_of_int chan_id) (word_of_int msg_len) st;
     if buf = 0 then Some (- ENOMEM, st1)
     else do {
       m \<leftarrow> generate_msg_multi buf msg_len msg_no (st_mem st1);
       printed \<leftarrow> c_str m buf;
       (err, st2) \<leftarrow> ipc_shm_tx P inst chan_id buf (word_of_int msg_len) (st1\<lparr>st_mem := m\<rparr>);
       if err \<noteq> 0 then Some (err, st2)
       else do {
         (err, st3) \<leftarrow> wait_reply_multi L (unat inst) st2;
         if err = - ERESTARTSYS then Some (err, st3)
         else if ma_last_rx_no_msg (mapp (unat inst) st3) \<noteq> msg_no then Some (- EINVAL, st3)
         else Some (0, st3) } } }"

definition send_data_poll_multi :: "'o multi_linux \<Rightarrow> 'o multi_platform \<Rightarrow> u8 \<Rightarrow> int \<Rightarrow> int \<Rightarrow> int \<Rightarrow> 'o multi_state \<Rightarrow> (int \<times> 'o multi_state) option" where
  "send_data_poll_multi L P inst msg_len msg_no chan_id st = do {
     (buf, st1) \<leftarrow> retry (ipc_shm_acquire_buf P inst (word_of_int chan_id) (word_of_int msg_len)) (sl_other L) st;
     m \<leftarrow> generate_msg_multi buf msg_len msg_no (st_mem st1);
     printed \<leftarrow> c_str m buf;
     (err, st2) \<leftarrow> ipc_shm_tx P inst chan_id buf (word_of_int msg_len) (st1\<lparr>st_mem := m\<rparr>);
     if err \<noteq> 0 then Some (err, st2) else Some (0, st2) }"

section \<open>The demos\<close>

definition multi_demo :: "'o multi_linux \<Rightarrow> 'o multi_platform \<Rightarrow> nat \<Rightarrow> 'o multi_state demo_code" where
  "multi_demo L P i = \<lparr>
     dc_channels = \<lambda>st. ma_num_channels (mapp i st),
     dc_sizes = \<lambda>st. mw_msg_sizes_argc (st_env st),
     dc_size = \<lambda>st k. nth_opt (mw_msg_sizes (st_env st)) k,
     dc_send = \<lambda>len msg ch st. send_data_msg_multi L P (of_nat i) len msg ch st,
     dc_last = \<lambda>st. Some (0, st)\<rparr>"

definition run_demo_ins0 :: "'o multi_linux \<Rightarrow> 'o multi_platform \<Rightarrow> int \<Rightarrow> 'o multi_state \<Rightarrow> (int \<times> 'o multi_state) option" where
  "run_demo_ins0 L P num_msgs st = do {
     (err, st1) \<leftarrow> send_ctrl_msg_multi P 0 st;
     if err \<noteq> 0 then Some (err, st1) else demo_loop (multi_demo L P 0) num_msgs At_msgs 0 st1 }"

definition run_demo_ins1 :: "'o multi_linux \<Rightarrow> 'o multi_platform \<Rightarrow> int \<Rightarrow> 'o multi_state \<Rightarrow> (int \<times> 'o multi_state) option" where
  "run_demo_ins1 L P num_msgs st = do {
     (err, st1) \<leftarrow> send_ctrl_msg_multi P 1 st;
     if err \<noteq> 0 then Some (err, st1) else demo_loop (multi_demo L P 1) num_msgs At_msgs 0 st1 }"

text \<open>One message on each channel in turn; after the last one, poll until all are answered and the remote has reported.\<close>

definition multi_poll_demo :: "'o multi_linux \<Rightarrow> 'o multi_platform \<Rightarrow> 'o multi_state demo_code" where
  "multi_poll_demo L P = \<lparr>
     dc_channels = \<lambda>st. ma_num_channels (mapp 2 st),
     dc_sizes = \<lambda>st. 1,
     dc_size = \<lambda>st k. Some (int MAX_SAMPLE_MSG_LEN),
     dc_send = \<lambda>len msg ch st. do {
       (err, st1) \<leftarrow> send_data_poll_multi L P 2 len msg ch st;
       if err \<noteq> 0 then Some (err, st1) else Some (0, upd_mapp 2 (\<lambda>a. a\<lparr>ma_num_tx_msg := ma_num_tx_msg a + 1\<rparr>) st1) },
     dc_last = \<lambda>st. do {
       st1 \<leftarrow> poll_while (\<lambda>s. ma_num_tx_msg (mapp 2 s) \<noteq> ma_num_rx_msg (mapp 2 s) \<or> ma_expected_msgs (mapp 2 s) = 0)
         (\<lambda>s. map_option snd (ipc_shm_poll_channels P 2 (sl_other L s))) st;
       Some (0, st1) }\<rparr>"

definition run_demo_poll_multi :: "'o multi_linux \<Rightarrow> 'o multi_platform \<Rightarrow> int \<Rightarrow> 'o multi_state \<Rightarrow> (int \<times> 'o multi_state) option" where
  "run_demo_poll_multi L P num_msgs st = do {
     (err, st1) \<leftarrow> send_ctrl_msg_multi P 2 (upd_mapp 2 (\<lambda>a. a\<lparr>ma_expected_msgs := 0\<rparr>) st);
     if err \<noteq> 0 then Some (err, st1) else demo_loop (multi_poll_demo L P) num_msgs At_msgs 0 st1 }"

section \<open>The sysfs interface\<close>

definition show_ins :: "nat \<Rightarrow> string \<Rightarrow> 'o multi_state \<Rightarrow> string" where
  "show_ins i attr st = (let value = (if attr = ma_ping_attr_ins (mapp i st) then ma_num_msgs (mapp i st) else 0) in
     print_int value @ [CHR 0x0A])"

definition ipc_sysfs_show_ins0 :: "string \<Rightarrow> 'o multi_state \<Rightarrow> string" where "ipc_sysfs_show_ins0 = show_ins 0"
definition ipc_sysfs_show_ins1 :: "string \<Rightarrow> 'o multi_state \<Rightarrow> string" where "ipc_sysfs_show_ins1 = show_ins 1"
definition ipc_sysfs_show_ins2 :: "string \<Rightarrow> 'o multi_state \<Rightarrow> string" where "ipc_sysfs_show_ins2 = show_ins 2"

definition store_ins :: "nat \<Rightarrow> (int \<Rightarrow> 'o multi_state \<Rightarrow> (int \<times> 'o multi_state) option) \<Rightarrow> 'o multi_linux \<Rightarrow> string \<Rightarrow> string \<Rightarrow> int \<Rightarrow>
    'o multi_state \<Rightarrow> (int \<times> 'o multi_state) option" where
  "store_ins i run L attr buf count st = (case sl_kstrtoint L buf of (err, value) \<Rightarrow>
     if err \<noteq> 0 then Some (err, st)
     else if attr = ma_ping_attr_ins (mapp i st) then do {
       (ignored, st1) \<leftarrow> run value (upd_mapp i (\<lambda>a. a\<lparr>ma_num_msgs := value\<rparr>) st);
       Some (count, st1) }
     else Some (count, st))"

definition ipc_sysfs_store_ins0 :: "'o multi_linux \<Rightarrow> 'o multi_platform \<Rightarrow> string \<Rightarrow> string \<Rightarrow> int \<Rightarrow> 'o multi_state \<Rightarrow> (int \<times> 'o multi_state) option" where
  "ipc_sysfs_store_ins0 L P = store_ins 0 (run_demo_ins0 L P) L"

definition ipc_sysfs_store_ins1 :: "'o multi_linux \<Rightarrow> 'o multi_platform \<Rightarrow> string \<Rightarrow> string \<Rightarrow> int \<Rightarrow> 'o multi_state \<Rightarrow> (int \<times> 'o multi_state) option" where
  "ipc_sysfs_store_ins1 L P = store_ins 1 (run_demo_ins1 L P) L"

definition ipc_sysfs_store_ins2 :: "'o multi_linux \<Rightarrow> 'o multi_platform \<Rightarrow> string \<Rightarrow> string \<Rightarrow> int \<Rightarrow> 'o multi_state \<Rightarrow> (int \<times> 'o multi_state) option" where
  "ipc_sysfs_store_ins2 L P = store_ins 2 (run_demo_poll_multi L P) L"

text \<open>The folders are created in turn; the first failure ends it.\<close>

fun create_folders :: "'o multi_linux \<Rightarrow> (nat \<times> string) list \<Rightarrow> 'o multi_state \<Rightarrow> int \<times> 'o multi_state" where
  "create_folders L [] st = (0, st)"
| "create_folders L ((i, name) # xs) st = (case world_call (sl_kobject_create_and_add L name) st of (kobj, st1) \<Rightarrow>
     let st2 = upd_mapp i (\<lambda>a. a\<lparr>ma_ipc_kobj_ins := kobj\<rparr>) st1 in
     if kobj = 0 then (- ENOMEM, st2) else create_folders L xs st2)"

fun create_files :: "'o multi_linux \<Rightarrow> nat list \<Rightarrow> 'o multi_state \<Rightarrow> int \<times> 'o multi_state" where
  "create_files L [] st = (0, st)"
| "create_files L (i # is) st = (case world_call (sl_sysfs_create_file L (ma_ipc_kobj_ins (mapp i st)) (ma_ping_attr_ins (mapp i st))) st of (err, st1) \<Rightarrow>
     if err \<noteq> 0 then (err, upd_world (sl_kobject_put L (ma_ipc_kobj_ins (mapp i st1))) st1) else create_files L is st1)"

definition init_sysfs_multi :: "'o multi_linux \<Rightarrow> 'o multi_state \<Rightarrow> int \<times> 'o multi_state" where
  "init_sysfs_multi L st = (let st1 = fold (\<lambda>i. upd_mapp i (\<lambda>a. a\<lparr>ma_ping_attr_ins := ''ping''\<rparr>)) [0, 1, 2] st in
     case create_folders L [(0, ''ipc-shm-sample-instance0''), (1, ''ipc-shm-sample-instance1''), (2, ''ipc-shm-sample-instance2'')] st1 of
       (err, st2) \<Rightarrow> if err \<noteq> 0 then (err, st2) else create_files L [0..<SAMPLE_NUM_INST] st2)"

definition free_sysfs_multi :: "'o multi_linux \<Rightarrow> 'o multi_state \<Rightarrow> 'o multi_state" where
  "free_sysfs_multi L = fold (\<lambda>i st. upd_world (sl_kobject_put L (ma_ipc_kobj_ins (mapp i st))) st) [0..<SAMPLE_NUM_INST]"

section \<open>The module\<close>

definition sample_mod_init_multi :: "'o multi_linux \<Rightarrow> 'o multi_platform \<Rightarrow> ipc_shm_instances_cfg \<Rightarrow> 'o multi_state \<Rightarrow> (int \<times> 'o multi_state) option" where
  "sample_mod_init_multi L P cfg st = do {
     (err, st1) \<leftarrow> init_ipc_shm_multi L P cfg st;
     if err \<noteq> 0 then Some (err, st1)
     else Some (init_sysfs_multi L (fold (\<lambda>i. upd_mapp i (\<lambda>a. a\<lparr>ma_reply_received := 0\<rparr>)) [0..<SAMPLE_NUM_INST] st1)) }"

fun clear_regions :: "'o multi_linux \<Rightarrow> ipc_shm_instances_cfg \<Rightarrow> nat list \<Rightarrow> 'o multi_state \<Rightarrow> 'o multi_state option" where
  "clear_regions L cfg [] st = Some st"
| "clear_regions L cfg (i # is) st = do {
     cf \<leftarrow> elem_ptr (icfg_shm_cfg cfg) i;
     ci \<leftarrow> cf;
     let local_addr = (ucast (cfg_local_shm_addr ci) :: u32);
     let shm_size = cfg_shm_size ci;
     let (reserved, st1) = world_call (sl_request_mem_region L (ucast local_addr) shm_size) st;
     if \<not> reserved then Some st1
     else if i \<ge> SAMPLE_NUM_INST then None
     else do {
       let (virt, st2) = sl_ioremap L (ucast local_addr) shm_size st1;
       let st3 = upd_mapp i (\<lambda>a. a\<lparr>ma_local_virt_shm := virt\<rparr>) st2;
       m \<leftarrow> store_bytes virt (replicate (unat shm_size) 0) (st_mem st3);
       clear_regions L cfg is (upd_world (sl_release_mem_region L (ucast local_addr) shm_size) (sl_iounmap L virt (st3\<lparr>st_mem := m\<rparr>))) } }"

definition sample_mod_exit_multi :: "'o multi_linux \<Rightarrow> 'o multi_platform \<Rightarrow> ipc_shm_instances_cfg \<Rightarrow> 'o multi_state \<Rightarrow> 'o multi_state option" where
  "sample_mod_exit_multi L P cfg st = do {
     st1 \<leftarrow> ipc_shm_free P (free_sysfs_multi L st);
     clear_regions L cfg [0..<unat (icfg_num_instances cfg)] st1 }"

end
