(* ===== verification/Sample_Multi_User.thy ===== *)
theory Sample_Multi_User
  imports Sample_User
begin

text \<open>
  The user-space sample with several instances, \<open>src/sample_multi_instance_user/sample_multi_instance.c\<close>. The array
  \<open>app.id[IPC_SHM_MAX_INSTANCES]\<close> is a function of the index, and an access is checked against the size of the array; the
  texts \<open>last_tx_msg\<close> in it live in memory, one every \<open>sizeof(struct instance_id)\<close> bytes. One semaphore serves all instances.
  The C library and the kernel are the record of functions of the single-instance sample, and \<open>ipc_memcpy_toio\<close>,
  \<open>ipc_memcpy_fromio\<close> and \<open>generate_msg\<close> are the same code as there.
\<close>

section \<open>Static data\<close>

record instance_id =
  id_tx_count :: int
  id_rx_count :: int
  id_expected_msgs :: int
  id_num_channels :: int
  id_ctrl_shm :: u64
  id_last_rx_no_msg :: int

record multi_user_app =
  mu_instance :: u8
  mu_num_msgs :: int
  mu_sema :: nat
  mu_id :: "nat \<Rightarrow> instance_id"

record multi_user_world =
  mu_app :: multi_user_app
  mu_errno :: int

type_synonym 'o mu_state = "'o multi_user_world_scheme shm_state"
type_synonym 'o mu_platform = "'o multi_user_world_scheme platform"
type_synonym 'o mu_os = "'o mu_state user_libc"

definition MAX_CONTINUOUS_MSG_PER_CHANNEL_mu :: nat where "MAX_CONTINUOUS_MSG_PER_CHANNEL_mu = 1"

definition msg_sizes_mu :: "int list" where
  "msg_sizes_mu = int MAX_SAMPLE_MSG_LEN # replicate (IPC_SHM_MAX_POOLS - 1) 0"

definition sizeof_instance_id :: u64 where "sizeof_instance_id = 8224"

definition last_tx_msg_at :: "user_frame \<Rightarrow> nat \<Rightarrow> u64" where
  "last_tx_msg_at F i = uf_last_tx_msg F + of_nat i * sizeof_instance_id"

definition muapp :: "'o mu_state \<Rightarrow> multi_user_app" where
  "muapp st = mu_app (st_env st)"

definition upd_muapp :: "(multi_user_app \<Rightarrow> multi_user_app) \<Rightarrow> 'o mu_state \<Rightarrow> 'o mu_state" where
  "upd_muapp f st = st\<lparr>st_env := (st_env st)\<lparr>mu_app := f (mu_app (st_env st))\<rparr>\<rparr>"

definition inst_id :: "nat \<Rightarrow> 'o mu_state \<Rightarrow> instance_id option" where
  "inst_id i st = (if i < IPC_SHM_MAX_INSTANCES then Some (mu_id (muapp st) i) else None)"

definition upd_id :: "nat \<Rightarrow> (instance_id \<Rightarrow> instance_id) \<Rightarrow> 'o mu_state \<Rightarrow> 'o mu_state option" where
  "upd_id i f st = (if i < IPC_SHM_MAX_INSTANCES
     then Some (upd_muapp (\<lambda>a. a\<lparr>mu_id := (mu_id a)(i := f (mu_id a i))\<rparr>) st) else None)"

section \<open>Initialisation\<close>

fun init_ids :: "ipc_shm_instances_cfg \<Rightarrow> nat list \<Rightarrow> 'o mu_state \<Rightarrow> (int \<times> 'o mu_state) option" where
  "init_ids cfg [] st = Some (0, st)"
| "init_ids cfg (i # is) st = do {
     cf \<leftarrow> elem_ptr (icfg_shm_cfg cfg) i;
     ci \<leftarrow> cf;
     st1 \<leftarrow> upd_id i (\<lambda>d. d\<lparr>id_num_channels := uint (cfg_num_channels ci)\<rparr>) st;
     shm \<leftarrow> ipc_shm_unmanaged_acquire (of_nat i) (word_of_int CTRL_CHAN_ID) st1;
     st2 \<leftarrow> upd_id i (\<lambda>d. d\<lparr>id_ctrl_shm := shm\<rparr>) st1;
     if shm = 0 then Some (- ENOMEM, st2) else init_ids cfg is st2 }"

definition init_ipc_shm_mu :: "'o mu_os \<Rightarrow> 'o mu_platform \<Rightarrow> ipc_shm_instances_cfg \<Rightarrow> 'o mu_state \<Rightarrow> (int \<times> 'o mu_state) option" where
  "init_ipc_shm_mu U P cfg st = do {
     (err, st1) \<leftarrow> init_retry (uo_other U) P cfg st;
     if err \<noteq> 0 then Some (err, st1) else init_ids cfg [0..<unat (icfg_num_instances cfg)] st1 }"

section \<open>Semaphore\<close>

definition sem_post_mu :: "'o mu_state \<Rightarrow> 'o mu_state" where
  "sem_post_mu = upd_muapp (\<lambda>a. a\<lparr>mu_sema := mu_sema a + 1\<rparr>)"

definition sem_wait_mu :: "'o mu_os \<Rightarrow> 'o mu_state \<Rightarrow> 'o mu_state option" where
  "sem_wait_mu U st = (let taken = upd_muapp (\<lambda>a. a\<lparr>mu_sema := mu_sema a - 1\<rparr>) in
     if 0 < mu_sema (muapp st) then Some (taken st)
     else do {
       (signal, st1) \<leftarrow> uo_block U st;
       if signal then Some (st1\<lparr>st_env := (st_env st1)\<lparr>mu_errno := EINTR\<rparr>\<rparr>)
       else if 0 < mu_sema (muapp st1) then Some (taken st1)
       else None })"

fun sem_waits :: "'o mu_os \<Rightarrow> nat \<Rightarrow> 'o mu_state \<Rightarrow> 'o mu_state option" where
  "sem_waits U 0 st = Some st"
| "sem_waits U (Suc k) st = do { st1 \<leftarrow> sem_wait_mu U st; sem_waits U k st1 }"

section \<open>Receive callbacks\<close>

definition data_chan_rx_cb_mu :: "user_frame \<Rightarrow> u8 \<Rightarrow> u8 \<Rightarrow> u64 \<Rightarrow> u32 \<Rightarrow> 'o mu_state \<Rightarrow> 'o mu_state option" where
  "data_chan_rx_cb_mu F inst chan_id buf data_size st =
     (if unat data_size > MAX_SAMPLE_MSG_LEN then None
      else do {
        m \<leftarrow> ipc_memcpy_fromio (uf_cb_tmp F) buf (unat data_size) (st_mem st);
        printed \<leftarrow> c_str m (uf_cb_tmp F);
        v \<leftarrow> strtol m (buf + 1);
        st1 \<leftarrow> upd_id (unat inst) (\<lambda>d. d\<lparr>id_last_rx_no_msg := to_int32 v, id_rx_count := id_rx_count d + 1\<rparr>) (st\<lparr>st_mem := m\<rparr>);
        (err, st2) \<leftarrow> ipc_shm_release_buf inst chan_id buf st1;
        Some (sem_post_mu st2) })"

definition ctrl_chan_rx_cb_mu :: "user_frame \<Rightarrow> u8 \<Rightarrow> u8 \<Rightarrow> u64 \<Rightarrow> 'o mu_state \<Rightarrow> 'o mu_state option" where
  "ctrl_chan_rx_cb_mu F inst chan_id mem st =
     (if uint chan_id \<noteq> CTRL_CHAN_ID then None
      else do {
        s \<leftarrow> c_str (st_mem st) mem;
        if length s > CTRL_CHAN_SIZE then None
        else do {
          m \<leftarrow> ipc_memcpy_fromio (uf_cb_tmp F) mem CTRL_CHAN_SIZE (st_mem st);
          printed \<leftarrow> c_str m (uf_cb_tmp F);
          v \<leftarrow> strtol m (mem + of_nat (length ''REPLIED MESSAGES: ''));
          st1 \<leftarrow> upd_id (unat inst) (\<lambda>d. d\<lparr>id_expected_msgs := to_int32 v\<rparr>) (st\<lparr>st_mem := m\<rparr>);
          Some (sem_post_mu st1) } })"

definition link_mu :: "cfg_symbols \<Rightarrow> user_frame \<Rightarrow> 'o mu_platform \<Rightarrow> 'o mu_platform" where
  "link_mu s F P = P\<lparr>
     app_rx_cb := \<lambda>cb arg i c buf n st. if cb = data_chan_rx_cb_ptr s then data_chan_rx_cb_mu F i c buf n st else None,
     app_umng_rx_cb := \<lambda>cb arg i c mem st. if cb = ctrl_chan_rx_cb_ptr s then ctrl_chan_rx_cb_mu F i c mem st else None\<rparr>"

section \<open>Sending\<close>

definition send_ctrl_msg_mu :: "user_frame \<Rightarrow> 'o mu_platform \<Rightarrow> u8 \<Rightarrow> 'o mu_state \<Rightarrow> (int \<times> 'o mu_state) option" where
  "send_ctrl_msg_mu F P inst st = do {
     m0 \<leftarrow> store_bytes (uf_tmp F) (replicate CTRL_CHAN_SIZE 0) (st_mem st);
     s \<leftarrow> sprintf_stack CTRL_CHAN_SIZE (announcement (mu_num_msgs (muapp st)));
     m1 \<leftarrow> strcpy (uf_tmp F) s m0;
     d \<leftarrow> inst_id (unat inst) st;
     m2 \<leftarrow> ipc_memcpy_toio (id_ctrl_shm d) (uf_tmp F) CTRL_CHAN_SIZE m1;
     (err, st1) \<leftarrow> ipc_shm_unmanaged_tx P inst (word_of_int CTRL_CHAN_ID) (st\<lparr>st_mem := m2\<rparr>);
     if err \<noteq> 0 then Some (err, st1) else Some (0, st1) }"

definition generate_msg_mu :: "user_frame \<Rightarrow> u64 \<Rightarrow> int \<Rightarrow> int \<Rightarrow> memory \<Rightarrow> memory option" where
  "generate_msg_mu F dest len msg_no m = do {
     (ret, m1) \<leftarrow> snprintf_at MAX_SAMPLE_MSG_LEN (uf_tmp F) (word_of_int len) (user_text msg_no) m;
     ipc_memcpy_toio dest (uf_tmp F) (nat ret) m1 }"

text \<open>What both ways of sending do with the buffer they got.\<close>

definition fill_and_tx :: "user_frame \<Rightarrow> 'o mu_platform \<Rightarrow> u8 \<Rightarrow> int \<Rightarrow> int \<Rightarrow> int \<Rightarrow> u64 \<Rightarrow> 'o mu_state \<Rightarrow> (int \<times> 'o mu_state) option" where
  "fill_and_tx F P inst msg_len msg_no chan_id buf st = do {
     m1 \<leftarrow> generate_msg_mu F buf msg_len msg_no (st_mem st);
     d \<leftarrow> inst_id (unat inst) st;
     m2 \<leftarrow> ipc_memcpy_fromio (last_tx_msg_at F (unat inst)) buf (unat (word_of_int msg_len :: u64)) m1;
     printed \<leftarrow> c_str m2 (last_tx_msg_at F (unat inst));
     ipc_shm_tx P inst chan_id buf (word_of_int msg_len) (st\<lparr>st_mem := m2\<rparr>) }"

definition send_data_msg_mu :: "'o mu_os \<Rightarrow> user_frame \<Rightarrow> 'o mu_platform \<Rightarrow> u8 \<Rightarrow> int \<Rightarrow> int \<Rightarrow> int \<Rightarrow> 'o mu_state \<Rightarrow> (int \<times> 'o mu_state) option" where
  "send_data_msg_mu U F P inst msg_len msg_no chan_id st = do {
     (buf, st1) \<leftarrow> ipc_shm_acquire_buf P inst (word_of_int chan_id) (word_of_int msg_len) st;
     if buf = 0 then Some (- ENOMEM, st1)
     else do {
       (err, st2) \<leftarrow> fill_and_tx F P inst msg_len msg_no chan_id buf st1;
       if err \<noteq> 0 then Some (err, st2)
       else do {
         st3 \<leftarrow> sem_wait_mu U st2;
         if mu_errno (st_env st3) = EINTR then Some (err, st3) else Some (0, st3) } } }"

definition send_data_poll_mu :: "'o mu_os \<Rightarrow> user_frame \<Rightarrow> 'o mu_platform \<Rightarrow> u8 \<Rightarrow> int \<Rightarrow> int \<Rightarrow> int \<Rightarrow> 'o mu_state \<Rightarrow> (int \<times> 'o mu_state) option" where
  "send_data_poll_mu U F P inst msg_len msg_no chan_id st = do {
     (buf, st1) \<leftarrow> retry (ipc_shm_acquire_buf P inst (word_of_int chan_id) (word_of_int msg_len)) (uo_other U) st;
     (err, st2) \<leftarrow> fill_and_tx F P inst msg_len msg_no chan_id buf st1;
     if err \<noteq> 0 then Some (err, st2) else Some (0, st2) }"

section \<open>The demos\<close>

text \<open>
  \<open>run_demo\<close> counts the channels of its argument \<open>instance\<close> but sends on \<open>app.instance\<close>, which the handler of SIGINT can
  have changed meanwhile. Both are below the number of instances, which \<open>main\<close> has checked, and so inside the array.
\<close>

definition mu_demo :: "'o mu_os \<Rightarrow> user_frame \<Rightarrow> 'o mu_platform \<Rightarrow> u8 \<Rightarrow> 'o mu_state demo_code" where
  "mu_demo U F P inst = \<lparr>
     dc_channels = \<lambda>st. id_num_channels (mu_id (muapp st) (unat inst)),
     dc_sizes = \<lambda>st. int MAX_CONTINUOUS_MSG_PER_CHANNEL_mu,
     dc_size = \<lambda>st i. nth_opt msg_sizes_mu i,
     dc_send = \<lambda>len msg ch st. send_data_msg_mu U F P (mu_instance (muapp st)) len msg ch st,
     dc_last = \<lambda>st. do { st1 \<leftarrow> sem_wait_mu U st; Some (0, st1) }\<rparr>"

definition run_demo_mu :: "'o mu_os \<Rightarrow> user_frame \<Rightarrow> 'o mu_platform \<Rightarrow> int \<Rightarrow> u8 \<Rightarrow> 'o mu_state \<Rightarrow> (int \<times> 'o mu_state) option" where
  "run_demo_mu U F P num_msgs inst st = do {
     (err, st1) \<leftarrow> send_ctrl_msg_mu F P (mu_instance (muapp st)) st;
     if err \<noteq> 0 then Some (err, st1)
     else demo_loop (mu_demo U F P inst) num_msgs At_msgs 0 st1 }"

definition mu_waiting :: "u8 \<Rightarrow> 'o mu_state \<Rightarrow> bool" where
  "mu_waiting inst st \<longleftrightarrow> (let d = mu_id (muapp st) (unat inst) in id_tx_count d \<noteq> id_rx_count d \<or> id_expected_msgs d = 0)"

definition mu_poll_once :: "'o mu_os \<Rightarrow> 'o mu_platform \<Rightarrow> u8 \<Rightarrow> 'o mu_state \<Rightarrow> 'o mu_state option" where
  "mu_poll_once U P inst st = map_option snd (ipc_shm_poll_channels P inst (uo_other U st))"

text \<open>After the last message: poll until all are answered and the remote has reported, then take all posts of the callbacks.\<close>

definition mu_poll_demo :: "'o mu_os \<Rightarrow> user_frame \<Rightarrow> 'o mu_platform \<Rightarrow> int \<Rightarrow> u8 \<Rightarrow> 'o mu_state demo_code" where
  "mu_poll_demo U F P num_msgs inst = \<lparr>
     dc_channels = \<lambda>st. id_num_channels (mu_id (muapp st) (unat inst)),
     dc_sizes = \<lambda>st. 1,
     dc_size = \<lambda>st i. Some (int MAX_SAMPLE_MSG_LEN),
     dc_send = \<lambda>len msg ch st. do {
       (err, st1) \<leftarrow> send_data_poll_mu U F P inst len msg ch st;
       if err \<noteq> 0 then Some (err, st1)
       else do { st2 \<leftarrow> upd_id (unat inst) (\<lambda>d. d\<lparr>id_tx_count := id_tx_count d + 1\<rparr>) st1; Some (0, st2) } },
     dc_last = \<lambda>st. do {
       st1 \<leftarrow> poll_while (mu_waiting inst) (mu_poll_once U P inst) st;
       st2 \<leftarrow> sem_waits U (nat (num_msgs + 1)) st1;
       Some (0, st2) }\<rparr>"

definition run_demo_poll_mu :: "'o mu_os \<Rightarrow> user_frame \<Rightarrow> 'o mu_platform \<Rightarrow> int \<Rightarrow> u8 \<Rightarrow> 'o mu_state \<Rightarrow> (int \<times> 'o mu_state) option" where
  "run_demo_poll_mu U F P num_msgs inst st = do {
     st1 \<leftarrow> upd_id (unat inst) (\<lambda>d. d\<lparr>id_expected_msgs := 0\<rparr>) st;
     (err, st2) \<leftarrow> send_ctrl_msg_mu F P inst st1;
     if err \<noteq> 0 then Some (err, st2) else demo_loop (mu_poll_demo U F P num_msgs inst) num_msgs At_msgs 0 st2 }"

section \<open>The main program\<close>

definition int_handler_mu :: "'o mu_state \<Rightarrow> 'o mu_state" where
  "int_handler_mu = upd_muapp (\<lambda>a. a\<lparr>mu_num_msgs := 0, mu_instance := 0\<rparr>)"

text \<open>\<open>scanf("%d")\<close> stores an \<open>int\<close> at the address of the \<open>uint8_t\<close> member: its low byte arrives there, the rest in the padding.\<close>

definition scan_instance :: "'o mu_os \<Rightarrow> 'o mu_state \<Rightarrow> 'o mu_state" where
  "scan_instance U st = (case uo_scanf U st of (v, st1) \<Rightarrow>
     case v of None \<Rightarrow> st1 | Some n \<Rightarrow> upd_muapp (\<lambda>a. a\<lparr>mu_instance := word_of_int n\<rparr>) st1)"

definition scan_num_msgs :: "'o mu_os \<Rightarrow> 'o mu_state \<Rightarrow> 'o mu_state" where
  "scan_num_msgs U st = (case uo_scanf U st of (v, st1) \<Rightarrow>
     case v of None \<Rightarrow> st1 | Some n \<Rightarrow> upd_muapp (\<lambda>a. a\<lparr>mu_num_msgs := n\<rparr>) st1)"

partial_function (option) mu_main_loop :: "'o mu_os \<Rightarrow> user_frame \<Rightarrow> 'o mu_platform \<Rightarrow> ipc_shm_instances_cfg \<Rightarrow> int \<Rightarrow>
    'o mu_state \<Rightarrow> (int \<times> 'o mu_state) option" where
  "mu_main_loop U F P cfg err st =
     (if mu_num_msgs (muapp st) = 0 then Some (err, st)
      else let st1 = scan_instance U st in
        if mu_instance (muapp st1) \<ge> icfg_num_instances cfg then mu_main_loop U F P cfg err st1
        else let st2 = scan_num_msgs U st1 in
          if mu_num_msgs (muapp st2) = 0 then Some (err, st2)
          else do {
            let inst = mu_instance (muapp st2);
            cf \<leftarrow> elem_ptr (icfg_shm_cfg cfg) (unat inst);
            ci \<leftarrow> cf;
            (err1, st3) \<leftarrow> (if cfg_inter_core_tx_irq ci = IPC_IRQ_NONE \<and> cfg_inter_core_rx_irq ci = IPC_IRQ_NONE
              then run_demo_poll_mu U F P (mu_num_msgs (muapp st2)) inst st2
              else run_demo_mu U F P (mu_num_msgs (muapp st2)) inst st2);
            if err1 \<noteq> 0 then Some (err1, st3) else mu_main_loop U F P cfg err1 st3 })"

definition mu_main :: "'o mu_os \<Rightarrow> user_frame \<Rightarrow> 'o mu_platform \<Rightarrow> ipc_shm_instances_cfg \<Rightarrow> 'o mu_state \<Rightarrow> (int \<times> 'o mu_state) option" where
  "mu_main U F P cfg st = do {
     (err, st1) \<leftarrow> init_ipc_shm_mu U P cfg (upd_muapp (\<lambda>a. a\<lparr>mu_sema := 0\<rparr>) st);
     if err \<noteq> 0 then Some (err, st1)
     else do {
       (err1, st2) \<leftarrow> mu_main_loop U F P cfg 0 (upd_muapp (\<lambda>a. a\<lparr>mu_num_msgs := 1, mu_instance := 0\<rparr>) st1);
       st3 \<leftarrow> ipc_shm_free P st2;
       Some (err1, st3) } }"

end
