(* ===== verification/Sample_Multi_Props.thy ===== *)
theory Sample_Multi_Props
  imports Sample_Multi Sample_Multi_User Sample_Props
begin

text \<open>
  Properties of the samples with several instances: the order in which their demos send, and the semaphore of the
  polling demo in user space.
\<close>

section \<open>The kernel sample\<close>

definition multi_cfg :: "nat \<Rightarrow> 'o multi_world_scheme \<Rightarrow> int \<times> int list \<times> int" where
  "multi_cfg i w = (ma_num_channels (mw_app w i), mw_msg_sizes w, mw_msg_sizes_argc w)"

definition multi_keeps :: "'o multi_linux \<Rightarrow> 'o multi_platform \<Rightarrow> nat \<Rightarrow> bool" where
  "multi_keeps L P i \<longleftrightarrow> (\<forall>st b st'. sl_block L st = Some (b, st') \<longrightarrow> multi_cfg i (st_env st') = multi_cfg i (st_env st)) \<and>
     (\<forall>j w w'. hw_irq_notify P j w = Some w' \<longrightarrow> multi_cfg i w' = multi_cfg i w)"

lemma wait_multi_keeps: "multi_keeps L P i \<Longrightarrow> wait_reply_multi L i st = Some (e, st') \<Longrightarrow> multi_cfg i (st_env st') = multi_cfg i (st_env st)"
  by (auto simp: multi_keeps_def wait_reply_multi_def upd_mapp_def upd_world_def multi_cfg_def Let_def split: if_splits Option.bind_splits)

lemma send_multi_keeps:
  assumes k: "multi_keeps L P (unat inst)" and run: "send_data_msg_multi L P inst len msg ch st = Some (e, st')"
  shows "multi_cfg (unat inst) (st_env st') = multi_cfg (unat inst) (st_env st)"
proof -
  from run obtain buf st1 where a: "ipc_shm_acquire_buf P inst (word_of_int ch) (word_of_int len) st = Some (buf, st1)"
    by (auto simp: send_data_msg_multi_def split: Option.bind_splits)
  have tx: "multi_cfg (unat inst) (st_env s') = multi_cfg (unat inst) (st_env s)" if "ipc_shm_tx P inst ch buf n s = Some (x, s')" for n s x s'
    using tx_env [OF that] k by (auto simp: multi_keeps_def)
  show ?thesis using run a acquire_env [OF a]
    by (auto simp: send_data_msg_multi_def split: Option.bind_splits if_splits dest!: tx wait_multi_keeps [OF k])
qed

interpretation multi_loop: demo_contract "multi_demo L P i"
    "\<lambda>st. multi_keeps L P i \<and> i < SAMPLE_NUM_INST \<and> 0 < c \<and> szs \<noteq> [] \<and> multi_cfg i (st_env st) = (int c + 1, szs, int (length szs))" c szs
    for L P i c szs
proof (unfold_locales, goal_cases)
  case (5 s len msg ch e s')
  then have "unat (of_nat i :: u8) = i" by (simp add: SAMPLE_NUM_INST_def unat_of_nat take_bit_nat_eq_self)
  with 5 send_multi_keeps [of L P "of_nat i" len msg ch s e s'] show ?case by (simp add: multi_demo_def)
qed (auto simp: multi_demo_def multi_cfg_def mapp_def nth_opt_def)

section \<open>The semaphore of the user-space sample\<close>

text \<open>
  The posts of the callbacks: beside \<open>k\<close>, the semaphore has a post for each reply of the instance and, once the remote has
  reported, one more.
\<close>

definition posted :: "nat \<Rightarrow> int \<Rightarrow> int \<times> int \<Rightarrow> 'o multi_user_world_scheme \<Rightarrow> bool" where
  "posted i k fixed w \<longleftrightarrow> (let d = mu_id (mu_app w) i in
     (id_num_channels d, id_tx_count d) = fixed \<and>
     k + id_rx_count d + (if id_expected_msgs d \<noteq> 0 then 1 else 0) \<le> int (mu_sema (mu_app w)))"

text \<open>
  What the rest of the system may do meanwhile: post, but leave the data of the instance alone. Polling either
  changes nothing or receives.
\<close>

definition mu_only_posts :: "nat \<Rightarrow> 'o multi_user_world_scheme \<Rightarrow> 'o multi_user_world_scheme \<Rightarrow> bool" where
  "mu_only_posts i w w' \<longleftrightarrow> mu_id (mu_app w') i = mu_id (mu_app w) i \<and> mu_sema (mu_app w) \<le> mu_sema (mu_app w')"

definition mu_keeps :: "'o mu_os \<Rightarrow> 'o mu_platform \<Rightarrow> u8 \<Rightarrow> bool" where
  "mu_keeps U P i \<longleftrightarrow> (\<forall>st. mu_only_posts (unat i) (st_env st) (st_env (uo_other U st))) \<and>
     (\<forall>j w w'. hw_irq_notify P j w = Some w' \<longrightarrow> mu_only_posts (unat i) w w') \<and>
     (\<forall>st r st'. os_poll_channels P (ipc_shm_rx P) i st = Some (r, st') \<longrightarrow> st_env st' = st_env st \<or> (\<exists>b n. ipc_shm_rx P i b st = Some (n, st')))"

lemma posted_more: "mu_only_posts i w w' \<Longrightarrow> posted i k fixed w \<Longrightarrow> posted i k fixed w'"
  by (simp add: mu_only_posts_def posted_def Let_def)

lemma keeps_posted:
  assumes "mu_keeps U P i" "posted (unat i) k fixed w"
  shows "hw_irq_notify P j w = Some w' \<Longrightarrow> posted (unat i) k fixed w'" and "w = st_env st \<Longrightarrow> posted (unat i) k fixed (st_env (uo_other U st))"
  using assms posted_more [OF _ assms(2)] by (simp_all add: mu_keeps_def)

lemma upd_id_posted:
  assumes "upd_id i f st = Some st'"
  shows "mu_id (mu_app (st_env st')) i = f (mu_id (mu_app (st_env st)) i) \<and> mu_sema (mu_app (st_env st')) = mu_sema (mu_app (st_env st))"
  using assms by (auto simp: upd_id_def upd_muapp_def split: if_splits)

lemma sem_post_sel [simp]: "mu_id (mu_app (st_env (sem_post_mu st))) = mu_id (mu_app (st_env st))"
  "mu_sema (mu_app (st_env (sem_post_mu st))) = mu_sema (mu_app (st_env st)) + 1"
  by (simp_all add: sem_post_mu_def upd_muapp_def)

lemma data_cb_posts:
  assumes "data_chan_rx_cb_mu F i c buf n st = Some st'" "posted (unat i) k fixed (st_env st)"
  shows "posted (unat i) k fixed (st_env st')"
  using assms by (auto simp: data_chan_rx_cb_mu_def posted_def Let_def split: Option.bind_splits if_splits dest!: upd_id_posted release_keeps_env)

lemma ctrl_cb_posts:
  assumes "ctrl_chan_rx_cb_mu F i c buf st = Some st'" "posted (unat i) k fixed (st_env st)"
  shows "posted (unat i) k fixed (st_env st')"
  using assms by (auto simp: ctrl_chan_rx_cb_mu_def posted_def Let_def split: Option.bind_splits if_splits dest!: upd_id_posted)

interpretation mu_client: rx_client "link_mu s F P" i "\<lambda>w. mu_keeps U (link_mu s F P) i \<and> posted (unat i) k fixed w" for s F P i U k fixed
proof (unfold_locales, goal_cases)
  case (1 st cb arg c buf n st')
  then show ?case by (auto simp: link_mu_def split: if_splits elim: data_cb_posts)
next
  case (2 st cb arg c buf st')
  then show ?case by (auto simp: link_mu_def split: if_splits elim: ctrl_cb_posts)
next
  case (3 st r st')
  then show ?case unfolding mu_keeps_def by fastforce
qed

lemma poll_once_posted:
  assumes k: "mu_keeps U (link_mu s F P) i" and run: "mu_poll_once U (link_mu s F P) i st = Some st'" and p: "posted (unat i) k fixed (st_env st)"
  shows "posted (unat i) k fixed (st_env st')"
proof -
  from run obtain r where r: "ipc_shm_poll_channels (link_mu s F P) i (uo_other U st) = Some (r, st')" by (auto simp: mu_poll_once_def)
  from mu_client.poll_keeps [OF _ r, of U] keeps_posted(2) [OF k p refl] k show ?thesis by blast
qed

lemma ctrl_posted:
  assumes k: "mu_keeps U P i" and run: "send_ctrl_msg_mu F P j st = Some (e, st')" and p: "posted (unat i) k fixed (st_env st)"
  shows "posted (unat i) k fixed (st_env st')"
proof -
  from run obtain m x where "ipc_shm_unmanaged_tx P j (word_of_int CTRL_CHAN_ID) (st\<lparr>st_mem := m\<rparr>) = Some (x, st')"
    by (auto simp: send_ctrl_msg_mu_def split: Option.bind_splits if_splits)
  from umng_tx_env [OF this] p show ?thesis by (auto intro: keeps_posted(1) [OF k])
qed

lemma send_poll_posted:
  assumes k: "mu_keeps U P i" and run: "send_data_poll_mu U F P j len msg ch st = Some (e, st')" and p: "posted (unat i) k fixed (st_env st)"
  shows "posted (unat i) k fixed (st_env st')"
proof -
  from run obtain buf st1 m x where r: "retry (ipc_shm_acquire_buf P j (word_of_int ch) (word_of_int len)) (uo_other U) st = Some (buf, st1)"
    "ipc_shm_tx P j ch buf (word_of_int len) (st1\<lparr>st_mem := m\<rparr>) = Some (x, st')"
    by (auto simp: send_data_poll_mu_def fill_and_tx_def split: Option.bind_splits if_splits)
  have "posted (unat i) k fixed (st_env st1)"
    by (rule retry_keeps [OF r(1), of "\<lambda>s. posted (unat i) k fixed (st_env s)"]) (use p in \<open>auto dest!: acquire_env intro: keeps_posted(2) [OF k]\<close>)
  then show ?thesis using tx_env [OF r(2)] by (auto intro: keeps_posted(1) [OF k])
qed

lemma posted_sent:
  "upd_id i (\<lambda>d. d\<lparr>id_tx_count := id_tx_count d + 1\<rparr>) st = Some st' \<Longrightarrow> posted i k (c, t) (st_env st) \<Longrightarrow> posted i k (c, t + 1) (st_env st')"
  by (auto simp: posted_def Let_def dest!: upd_id_posted)

lemma poll_send_posted:
  assumes k: "mu_keeps U P i" and run: "dc_send (mu_poll_demo U F P n i) len msg ch st = Some (e, st')" and p: "posted (unat i) k (c, t) (st_env st)"
  shows "posted (unat i) k (c, if e = 0 then t + 1 else t) (st_env st')"
  using run p by (auto simp: mu_poll_demo_def split: Option.bind_splits if_splits dest: send_poll_posted [OF k] intro: posted_sent)

lemma posted_exists: "\<exists>k t. posted i k (id_num_channels (mu_id (mu_app w) i), t) w"
  by (rule exI [of _ "- id_rx_count (mu_id (mu_app w) i) - 1"]) (auto simp: posted_def Let_def)

interpretation mu_poll_loop: demo_contract "mu_poll_demo U F P n i"
    "\<lambda>st. mu_keeps U P i \<and> 0 < c \<and> id_num_channels (mu_id (muapp st) (unat i)) = int c + 1" c "[int MAX_SAMPLE_MSG_LEN]" for U F P n i c
proof (unfold_locales, goal_cases)
  case (5 s len msg ch e s')
  obtain k t where "posted (unat i) k (id_num_channels (mu_id (mu_app (st_env s)) (unat i)), t) (st_env s)" using posted_exists by blast
  from poll_send_posted [OF _ 5(2) this] 5(1) show ?case by (auto simp: posted_def muapp_def Let_def)
qed (auto simp: mu_poll_demo_def)

text \<open>The demo that waits for each reply, as long as nobody changes the number of channels.\<close>

definition mu_chans_kept :: "'o mu_os \<Rightarrow> 'o mu_platform \<Rightarrow> u8 \<Rightarrow> bool" where
  "mu_chans_kept U P i \<longleftrightarrow>
     (\<forall>st b st'. uo_block U st = Some (b, st') \<longrightarrow> id_num_channels (mu_id (muapp st') (unat i)) = id_num_channels (mu_id (muapp st) (unat i))) \<and>
     (\<forall>j w w'. hw_irq_notify P j w = Some w' \<longrightarrow> id_num_channels (mu_id (mu_app w') (unat i)) = id_num_channels (mu_id (mu_app w) (unat i)))"

lemma sem_wait_mu_keeps:
  "mu_chans_kept U P i \<Longrightarrow> sem_wait_mu U st = Some st' \<Longrightarrow> id_num_channels (mu_id (muapp st') (unat i)) = id_num_channels (mu_id (muapp st) (unat i))"
  by (auto simp: mu_chans_kept_def sem_wait_mu_def upd_muapp_def muapp_def Let_def split: if_splits Option.bind_splits)

lemma send_mu_keeps:
  assumes k: "mu_chans_kept U P i" and run: "send_data_msg_mu U F P j len msg ch st = Some (e, st')"
  shows "id_num_channels (mu_id (muapp st') (unat i)) = id_num_channels (mu_id (muapp st) (unat i))"
proof -
  from run obtain buf st1 where a: "ipc_shm_acquire_buf P j (word_of_int ch) (word_of_int len) st = Some (buf, st1)"
    by (auto simp: send_data_msg_mu_def split: Option.bind_splits)
  have tx: "id_num_channels (mu_id (muapp s') (unat i)) = id_num_channels (mu_id (mu_app (st_env s)) (unat i))"
    if "ipc_shm_tx P j ch buf n s = Some (x, s')" for n s x s'
    using tx_env [OF that] k by (auto simp: mu_chans_kept_def muapp_def)
  show ?thesis using run a acquire_env [OF a]
    by (auto simp: send_data_msg_mu_def fill_and_tx_def muapp_def split: Option.bind_splits if_splits
        dest!: tx [unfolded muapp_def] sem_wait_mu_keeps [OF k, unfolded muapp_def])
qed

interpretation mu_loop: demo_contract "mu_demo U F P i"
    "\<lambda>st. mu_chans_kept U P i \<and> 0 < c \<and> id_num_channels (mu_id (muapp st) (unat i)) = int c + 1" c "[int MAX_SAMPLE_MSG_LEN]" for U F P i c
  by unfold_locales (auto simp: mu_demo_def MAX_CONTINUOUS_MSG_PER_CHANNEL_mu_def nth_opt_def msg_sizes_mu_def dest: send_mu_keeps)

text \<open>With enough posts no wait sleeps.\<close>

lemma sem_waits_enough: "k \<le> mu_sema (muapp st) \<Longrightarrow> sem_waits U k st = sem_waits (U\<lparr>uo_block := blk\<rparr>) k st"
proof (induction k arbitrary: st)
  case (Suc k)
  then show ?case by (simp add: sem_wait_mu_def Let_def muapp_def upd_muapp_def)
qed simp

lemma never_sleeps_plan:
  assumes k: "mu_keeps U (link_mu s F P) i"
    and "posted (unat i) (- r) (c, r + n - int (length xs)) (st_env st)"
  shows "send_plan (mu_poll_demo U F (link_mu s F P) n i) xs st = send_plan (mu_poll_demo (U\<lparr>uo_block := blk\<rparr>) F (link_mu s F P) n i) xs st"
  using assms(2)
proof (induction xs arbitrary: st)
  case Nil
  let ?poll = "poll_while (mu_waiting i) (mu_poll_once U (link_mu s F P) i) st"
  have "sem_waits U (nat (n + 1)) st1 = sem_waits (U\<lparr>uo_block := blk\<rparr>) (nat (n + 1)) st1" if run: "?poll = Some st1" for st1
  proof (rule sem_waits_enough)
    have "posted (unat i) (- r) (c, r + n) (st_env st1)"
      by (rule poll_while_keeps [OF run, of "\<lambda>s. posted (unat i) (- r) (c, r + n) (st_env s)"]) (use Nil poll_once_posted [OF k] in auto)
    then show "nat (n + 1) \<le> mu_sema (muapp st1)"
      using poll_while_done [OF run] by (auto simp: posted_def mu_waiting_def muapp_def Let_def)
  qed
  moreover have "mu_poll_once (U\<lparr>uo_block := blk\<rparr>) = mu_poll_once U" by (simp add: mu_poll_once_def fun_eq_iff)
  ultimately show ?case by (cases ?poll) (simp_all add: mu_poll_demo_def)
next
  case (Cons x xs)
  obtain msg ch len where x: "x = (msg, ch, len)" by (cases x)
  let ?send = "dc_send (mu_poll_demo U F (link_mu s F P) n i) len msg ch st"
  have same: "dc_send (mu_poll_demo (U\<lparr>uo_block := blk\<rparr>) F (link_mu s F P) n i) len msg ch st = ?send"
    by (simp add: mu_poll_demo_def send_data_poll_mu_def)
  show ?case
  proof (cases ?send)
    case (Some y)
    then obtain e s1 where y: "?send = Some (e, s1)" by (cases y) auto
    from poll_send_posted [OF k y Cons.prems] have "e = 0 \<Longrightarrow> posted (unat i) (- r) (c, r + n - int (length xs)) (st_env s1)" by (simp add: algebra_simps)
    then show ?thesis using x y same Cons.IH by simp
  qed (simp add: x same)
qed


definition mu_ping_frame :: user_frame where
  "mu_ping_frame = \<lparr>uf_tmp = 0x2000, uf_cb_tmp = 0x2100, uf_last_tx_msg = 0x2200\<rparr>"

definition mu_ping_libc :: "unit mu_os" where
  "mu_ping_libc = \<lparr>uo_block = (\<lambda>st. None), uo_other = (\<lambda>st. st), uo_scanf = (\<lambda>st. (Some 1, st))\<rparr>"

definition mu_ping_world :: multi_user_world where
  "mu_ping_world = \<lparr>mu_app = \<lparr>mu_instance = 0, mu_num_msgs = 5, mu_sema = 0, mu_id = (\<lambda>i. \<lparr>id_tx_count = 7, id_rx_count = 7, id_expected_msgs = 7,
     id_num_channels = 3, id_ctrl_shm = 0, id_last_rx_no_msg = 0\<rparr>)\<rparr>, mu_errno = 0\<rparr>"

definition mu_ping_state :: "unit mu_state" where
  "mu_ping_state = \<lparr>st_mem = demo_shm, st_priv = st_priv (demo_state 0x10000 0x20000), st_env = mu_ping_world\<rparr>"

lemma mu_ping_keeps: "mu_keeps mu_ping_libc (link_mu s F (quiet_platform l r)) i"
  by (auto simp: mu_keeps_def mu_only_posts_def mu_ping_libc_def link_mu_def quiet_platform_def split: Option.bind_splits)


end
