(* ===== verification/Spec2Isabelle.thy ===== *)
theory Spec2Isabelle
  imports Queue_Props Spsc Shm_Props Shm_Rx Shm_Umng Shm_Exchange Shm_Inst Hw_Props Os_Platform Os_Props Uio_Props Traffic_Start
    Sample_Fit Sample_Props Sample_User_Props Sample_Xen_Props Sample_Multi_Props
begin

text \<open>
  Verification of the IPCF shared-memory driver (\<open>ipc-shm\<close>): communication over shared memory between
  Linux, on the A53 cores of an S32 processor, and an application on another core.

  \<^bold>\<open>The program.\<close> The driver has four layers. \<open>ipc-queue.c\<close> is a queue of two rings, one in each side's shared
  memory; each side writes only its own ring. \<open>ipc-shm.c\<close> is the driver: instances, channels (managed, with
  pools of buffers, or unmanaged), transmission and reception. It calls the hardware layer (\<open>hw/\<close>, one file
  per processor family, interface \<open>ipc-hw.h\<close>), which raises and acknowledges inter-core interrupts, and the OS
  layer (interface \<open>ipc-os.h\<close>), which maps the shared memory and calls the driver back on a receive
  interrupt. The OS layer has three forms: a Linux kernel module (\<open>os_kernel/ipc-os.c\<close>), a Xen guest
  (\<open>os_kernel/ipc-xen.c\<close>) and a user-space library (\<open>os_uio/ipc-os.c\<close>) with its own kernel module
  (\<open>os_kernel/ipc-uio.c\<close>). Five sample applications (\<open>sample*/\<close>) bounce numbered messages off an application on the other core,
  or between two Xen domains, and come with configuration tables for the four processor families.

  \<^bold>\<open>How code is modelled.\<close> Machine integers are words of their AArch64 width; \<open>int\<close> results and error codes
  are integers, cut by \<open>int8\<close> where the code returns \<open>int8_t\<close>. Shared memory is a partial function from
  addresses to bytes; structures in it are loads and stores at their offsets. Private data are records, static
  arrays lists of the declared length. A result \<open>None\<close> is a fault: an unmapped or NULL access, an index
  outside an array, a division by zero, the call of a NULL function; a returned error code is a value. What
  the code calls and the repository does not define (the kernel, system calls, the device behind registers,
  application callbacks) is a record of arbitrary functions over an arbitrary state; what a theorem needs
  of them is a named hypothesis. The definitions keep the names of the code; the hardware and OS variants of
  one function have a suffix (\<open>_g3\<close>, \<open>_gen1\<close>, \<open>_r47\<close>, \<open>_v234\<close>, \<open>_xen\<close>, \<open>_user\<close>), and so have the functions of the samples
  (\<open>_user\<close>, \<open>_xen\<close>, \<open>_dom0less\<close>, \<open>_multi\<close>, \<open>_mu\<close>).

  \<^bold>\<open>Theories.\<close>
  \<^item> \<open>Prelude\<close>: words, error codes, byte memory with its frame rules. \<open>Types\<close>: \<open>ipc-types.h\<close>. \<open>Ring\<close>: index
    arithmetic of a circular buffer. \<open>Fifo\<close>: the locale \<open>fifo_channel\<close> of a bounded first-in first-out transport
    and its clients' lemmas.
  \<^item> \<open>Queue\<close>: \<open>ipc-queue.c\<close>, its well-formedness, and the interpretation \<open>lq\<close> of \<open>fifo_channel\<close> on
    \<open>ipc_queue_push\<close> and \<open>ipc_queue_pop\<close>. \<open>Queue_Props\<close>: the operations refine list operations on every branch, write
    only the local ring, and transmit in order up to the capacity. \<open>Spsc\<close>: push and pop as programs of single
    shared-memory accesses, interleaved arbitrarily: linearizable, wait-free, and equal to the sequential
    definitions when run alone.
  \<^item> \<open>Shm\<close>: every function of \<open>ipc-shm.c\<close>. \<open>Shm_Buf\<close>, \<open>Shm_Props\<close>: acquisition, transmission and release of
    buffers refine operations on lists of descriptors. \<open>Shm_Rx\<close>: reception delivers in order, never hands out
    an address outside the remote shared memory, and the fair loop ends. \<open>Shm_Umng\<close>: unmanaged channels.
    \<open>Shm_Exchange\<close>: both sides on one memory, the life of a buffer and what it carries. \<open>Shm_Init\<close>, \<open>Shm_Inst\<close>: initialisation and
    release on every path. \<open>Shm_Setup\<close>, \<open>Shm_Start\<close>: the initialisation of an instance from its configuration, channel by channel,
    ends in the state that the other properties start from. \<open>Shm_Link\<close>, \<open>Start_Props\<close>: two sides with mirrored
    configurations are initialised against each other, and the first message arrives.
    \<open>Shm_Traffic\<close>, \<open>Shm_Duplex\<close>: both sides of a channel as a step relation, whose steps are the calls of the driver and the writes of the
    applications, in any order, callbacks included; an invariant that accounts for every buffer and every message is
    kept by every step, and with it no call fails. \<open>Shm_Channels\<close>: several channels at once, where a channel does not
    notice what happens on the others. \<open>Traffic_Start\<close>: all this holds from the initialisation of both sides on, on all managed channels. \<open>Shm_Client\<close>: the locale \<open>rx_client\<close>, what
    an application keeps in its callbacks is kept by receiving and polling. \<open>Shm_Demo\<close>: the concrete pair of instances of the witnesses.
  \<^item> \<open>Hw\<close>: register accesses, structure layout, the operations common to the MSCM platforms, and the locale
    \<open>inter_core_hw\<close>, the contract of \<open>ipc-hw.h\<close>. \<open>Hw_S32g3\<close>, \<open>Hw_S32gen1\<close>, \<open>Hw_S32r47\<close>, \<open>Hw_S32v234\<close>: the four files under
    \<open>hw/\<close>, each an interpretation of the contract. \<open>Hw_Props\<close>: register offsets, sessions stay inside the register
    structure, which configurations the S32G3 accepts, and that notify on one side meets clear on the other.
  \<^item> \<open>Os_Kernel\<close>, \<open>Os_Xen\<close>, \<open>Uio\<close>, \<open>Os_User\<close>: the OS layers and the UIO module. \<open>Os_Platform\<close>: the locale \<open>driver_platform\<close>,
    what the driver needs of the layers below, interpreted on the three builds; on each, sequences of
    initialisations and releases refine an abstract instance. \<open>Os_Props\<close>: what the kernel layer takes and gives
    back. \<open>Uio_Props\<close>: exclusive opening under concurrency, the address translation that \<open>mmap\<close> builds, and the
    failure of a retried initialisation of the library.
  \<^item> \<open>Sample_Cfg\<close>, \<open>Sample_Multi_Cfg\<close>: the configuration tables of the samples, as the files have them. \<open>Sample_Fit\<close>: each of
    them fits into its shared memory and is accepted by its hardware layer.
  \<^item> \<open>Sample_Loop\<close>: the loops that the samples share, with the locale \<open>demo_contract\<close> under which the three nested sending
    loops are one loop over a plan; every sample interprets it. \<open>Sample_Str\<close>: the string functions that the samples
    define or call. \<open>Sample_Io\<close>: the copies to and from device memory of the user-space samples, equal to \<open>memcpy\<close>.
  \<^item> \<open>Sample_App\<close>, \<open>Sample_User\<close>, \<open>Sample_Xen\<close>, \<open>Sample_Multi\<close>, \<open>Sample_Multi_User\<close>: the applications under \<open>sample/\<close>, \<open>sample_user/\<close>,
    \<open>sample_xen/\<close> (both domains), \<open>sample_multi_instance/\<close> and \<open>sample_multi_instance_user/\<close>. \<open>Sample_Props\<close>, \<open>Sample_User_Props\<close>,
    \<open>Sample_Xen_Props\<close>, \<open>Sample_Multi_Props\<close>: message numbers and announcements are read back as they were written, up to where the
    text overruns its array; a reply decides the result of a send; the order of the messages; the demo that never ends; the
    polling demo that never sleeps.

  \<^bold>\<open>Loops.\<close> Loops over arrays are structural recursion. The receive loop of \<open>ipc_shm_rx\<close> has no bound in the
  code and is a partial function with result \<open>None\<close> if it does not end; that it ends is proved. The page loop of
  \<open>ipc_cdev_mmap\<close> has fuel, and one more than the number of pages of the area is proved to be enough. The loop of
  the user-space receive thread, which runs as long as the remote side keeps the budget used up, has fuel; of the
  endless thread around it one round is modelled. The loops of the samples that wait for the remote side (retried
  initialisation, polling, the sending loops, the main programs) are partial functions too. While a sample
  sleeps or spins, the rest of the system takes steps, given as functions of the record that stands for the kernel.

  \<^bold>\<open>Not modelled.\<close> Log messages, except that printing a string reads it. Reordering of memory accesses by the memory system. Signals that arrive
  while a sample is not sleeping. The members of the samples' structures that no code uses, and the build files. The functions \<open>shm_mod_init\<close>, and
  \<open>shm_mod_exit\<close> of the Xen layer, which only print a message.
\<close>

end
